(* ===== verification/Go_Prelude.thy ===== *)
theory Go_Prelude
  imports Main "HOL-Library.Word" "HOL-Library.Char_ord" "HOL-Library.List_Lexorder"
begin

text \<open>
  What the Go code uses of its language and standard library, shared by every component:
  the machine integers, byte strings with the operations of the packages strings, strconv and
  fmt that the program calls, dynamic values of type any, and results that carry an error.

  A Go string is a sequence of bytes and so is an Isabelle string (char is eight bits wide).
  Case mapping, white space and EqualFold are the ones of ASCII: a byte at or above 0x80 is
  left as it is, which is what Go does for a byte string without multi-byte letters or spaces.
\<close>

section \<open>Machine integers and collections of facts\<close>

type_synonym u16 = "16 word"
type_synonym u32 = "32 word"
type_synonym u64 = "64 word"

named_theorems go_string \<open>definitions of the string operations, for evaluation on literals\<close>
named_theorems go_result \<open>facts about results that carry an error\<close>

section \<open>Bytes\<close>

definition is_space :: "char \<Rightarrow> bool" where
  "is_space c = (c = CHR 0x20 \<or> c = CHR 0x09 \<or> c = CHR 0x0A \<or> c = CHR 0x0B \<or> c = CHR 0x0C \<or> c = CHR 0x0D)"

definition is_digit :: "char \<Rightarrow> bool" where
  "is_digit c = (48 \<le> (of_char c :: nat) \<and> (of_char c :: nat) \<le> 57)"

definition digit_val :: "char \<Rightarrow> nat" where
  "digit_val c = of_char c - 48"

definition upper_char :: "char \<Rightarrow> char" where
  "upper_char c = (let n = (of_char c :: nat) in if 97 \<le> n \<and> n \<le> 122 then char_of (n - 32) else c)"

definition lower_char :: "char \<Rightarrow> char" where
  "lower_char c = (let n = (of_char c :: nat) in if 65 \<le> n \<and> n \<le> 90 then char_of (n + 32) else c)"

section \<open>Package strings\<close>

definition TrimLeft :: "string \<Rightarrow> string" where
  "TrimLeft s = dropWhile is_space s"

definition TrimSpace :: "string \<Rightarrow> string" where
  "TrimSpace s = rev (dropWhile is_space (rev (dropWhile is_space s)))"

definition ToUpper :: "string \<Rightarrow> string" where
  "ToUpper s = map upper_char s"

definition ToLower :: "string \<Rightarrow> string" where
  "ToLower s = map lower_char s"

definition EqualFold :: "string \<Rightarrow> string \<Rightarrow> bool" where
  "EqualFold s t = (ToLower s = ToLower t)"

fun HasPrefix :: "string \<Rightarrow> string \<Rightarrow> bool" where
  "HasPrefix s [] = True"
| "HasPrefix [] (p # ps) = False"
| "HasPrefix (c # s) (p # ps) = (c = p \<and> HasPrefix s ps)"

definition HasSuffix :: "string \<Rightarrow> string \<Rightarrow> bool" where
  "HasSuffix s t = HasPrefix (rev s) (rev t)"

fun Contains :: "string \<Rightarrow> string \<Rightarrow> bool" where
  "Contains [] sub = (sub = [])"
| "Contains (c # s) sub = (HasPrefix (c # s) sub \<or> Contains s sub)"

text \<open>strings.ReplaceAll for a pattern of one byte.\<close>

definition ReplaceByte :: "string \<Rightarrow> char \<Rightarrow> string \<Rightarrow> string" where
  "ReplaceByte s old new = concat (map (\<lambda>c. if c = old then new else [c]) s)"

fun Join :: "string list \<Rightarrow> string \<Rightarrow> string" where
  "Join [] sep = []"
| "Join [x] sep = x"
| "Join (x # y # xs) sep = x @ sep @ Join (y # xs) sep"

text \<open>strings.Split for a separator of one byte.\<close>

fun SplitByte :: "string \<Rightarrow> char \<Rightarrow> string list" where
  "SplitByte [] sep = [[]]"
| "SplitByte (c # s) sep =
     (if c = sep then [] # SplitByte s sep
      else (case SplitByte s sep of [] \<Rightarrow> [[c]] | w # ws \<Rightarrow> (c # w) # ws))"

text \<open>strings.SplitN(s, sep, 2): one part when sep does not occur, two otherwise.\<close>

fun SplitN2 :: "string \<Rightarrow> char \<Rightarrow> string list" where
  "SplitN2 [] sep = [[]]"
| "SplitN2 (c # s) sep =
     (if c = sep then [[], s]
      else (case SplitN2 s sep of [] \<Rightarrow> [[c]] | w # ws \<Rightarrow> (c # w) # ws))"

fun fields_aux :: "string \<Rightarrow> string \<Rightarrow> string list" where
  "fields_aux acc [] = (if acc = [] then [] else [rev acc])"
| "fields_aux acc (c # s) =
     (if is_space c then (if acc = [] then fields_aux [] s else rev acc # fields_aux [] s)
      else fields_aux (c # acc) s)"

definition Fields :: "string \<Rightarrow> string list" where
  "Fields s = fields_aux [] s"

text \<open>strings.LastIndexByte: None where Go returns -1.\<close>

fun LastIndexByte :: "string \<Rightarrow> char \<Rightarrow> nat option" where
  "LastIndexByte [] b = None"
| "LastIndexByte (c # s) b =
     (case LastIndexByte s b of Some i \<Rightarrow> Some (Suc i) | None \<Rightarrow> (if c = b then Some 0 else None))"

text \<open>strings.Compare orders bytes lexicographically, as the order of strings does here.\<close>

definition Compare :: "string \<Rightarrow> string \<Rightarrow> int" where
  "Compare s t = (if s = t then 0 else if s < t then -1 else 1)"

section \<open>Packages strconv and fmt\<close>

fun dec_value :: "nat \<Rightarrow> string \<Rightarrow> nat" where
  "dec_value acc [] = acc"
| "dec_value acc (c # s) = dec_value (10 * acc + digit_val c) s"

text \<open>strconv.ParseUint(s, 10, bits): an error for an empty string, a byte that is no digit
  or a value that does not fit.\<close>

definition ParseUint :: "string \<Rightarrow> nat \<Rightarrow> nat option" where
  "ParseUint s bits =
     (if s = [] \<or> \<not> list_all is_digit s then None
      else let n = dec_value 0 s in if n < 2 ^ bits then Some n else None)"

definition digit_char :: "nat \<Rightarrow> char" where
  "digit_char d = char_of (48 + d)"

fun show_nat :: "nat \<Rightarrow> string" where
  "show_nat n = (if n < 10 then [digit_char n] else show_nat (n div 10) @ [digit_char (n mod 10)])"

declare show_nat.simps [simp del]

definition show_int :: "int \<Rightarrow> string" where
  "show_int i = (if i < 0 then CHR ''-'' # show_nat (nat (- i)) else show_nat (nat i))"

text \<open>The verb %q of fmt on ASCII text.\<close>

definition quote_char :: "char \<Rightarrow> string" where
  "quote_char c =
     (if c = CHR 0x22 then [CHR 0x5C, CHR 0x22]
      else if c = CHR 0x5C then [CHR 0x5C, CHR 0x5C]
      else if c = CHR 0x0A then [CHR 0x5C, CHR ''n'']
      else if c = CHR 0x0D then [CHR 0x5C, CHR ''r'']
      else if c = CHR 0x09 then [CHR 0x5C, CHR ''t'']
      else [c])"

definition go_quote :: "string \<Rightarrow> string" where
  "go_quote s = CHR 0x22 # concat (map quote_char s) @ [CHR 0x22]"

section \<open>Dynamic values\<close>

text \<open>
  The values of Go's type any that the database driver and the binlog parser deliver. VInt, VUint and
  VFloat are the types int64, uint64 and float64; VIntN and VUintN are the integers of the other widths,
  WNative standing for int and uint, and VFloat32 is float32. Floating point numbers, times and
  any other dynamic type are opaque to the program: they carry the text that fmt.Sprint prints
  for them.
\<close>

datatype go_width = WNative | W8 | W16 | W32

datatype goval =
    VNil
  | VBool bool
  | VInt int
  | VUint nat
  | VFloat string
  | VIntN go_width int
  | VUintN go_width nat
  | VFloat32 string
  | VTime string
  | VString string
  | VBytes string
  | VOther string

fun Sprint :: "goval \<Rightarrow> string" where
  "Sprint VNil = ''<nil>''"
| "Sprint (VBool b) = (if b then ''true'' else ''false'')"
| "Sprint (VInt i) = show_int i"
| "Sprint (VUint n) = show_nat n"
| "Sprint (VFloat t) = t"
| "Sprint (VIntN w i) = show_int i"
| "Sprint (VUintN w n) = show_nat n"
| "Sprint (VFloat32 t) = t"
| "Sprint (VTime t) = t"
| "Sprint (VString s) = s"
| "Sprint (VBytes s) = CHR ''['' # Join (map (\<lambda>c. show_nat (of_char c)) s) '' '' @ '']''"
| "Sprint (VOther t) = t"

section \<open>Results\<close>

text \<open>A Go call that returns a value and an error: Inl is the error.\<close>

type_synonym ('e, 'a) result = "'e + 'a"

definition bind_result :: "'e + 'a \<Rightarrow> ('a \<Rightarrow> 'e + 'b) \<Rightarrow> 'e + 'b" where
  "bind_result r f = (case r of Inl e \<Rightarrow> Inl e | Inr a \<Rightarrow> f a)"

lemma bind_result_simps [simp, go_result]:
  "bind_result (Inl e) f = Inl e" "bind_result (Inr a) f = f a"
  by (simp_all add: bind_result_def)

lemma bind_result_Inr [go_result]:
  "bind_result r f = Inr b \<longleftrightarrow> (\<exists>a. r = Inr a \<and> f a = Inr b)"
  by (cases r) auto

fun map_result :: "('a \<Rightarrow> 'e + 'b) \<Rightarrow> 'a list \<Rightarrow> 'e + 'b list" where
  "map_result f [] = Inr []"
| "map_result f (x # xs) =
     bind_result (f x) (\<lambda>y. bind_result (map_result f xs) (\<lambda>ys. Inr (y # ys)))"

lemma map_result_Inr [go_result]:
  "map_result f xs = Inr ys \<longleftrightarrow> list_all2 (\<lambda>x y. f x = Inr y) xs ys"
  by (induction xs arbitrary: ys) (auto simp: bind_result_Inr list_all2_Cons1)

lemma map_result_all: "(\<And>x. x \<in> set xs \<Longrightarrow> f x = Inr (g x)) \<Longrightarrow> map_result f xs = Inr (map g xs)"
  by (induction xs) auto

lemma map_result_length: "map_result f xs = Inr ys \<Longrightarrow> length ys = length xs"
  by (auto simp: map_result_Inr dest: list_all2_lengthD)

text \<open>
  What a database query delivers: the call fails, the scan of a row fails, the iteration over the
  rows ends with an error, or all the rows are read. The code wraps the driver's error with a
  text of its own in each of the three places.
\<close>

datatype 'a query_result = QueryError string | ScanError string | RowsError string | Rows "'a list"

section \<open>Facts about strings\<close>

text \<open>The letters, so that case mapping evaluates on literals.\<close>

lemma char_of_letters [go_string]:
  "char_of (65::nat) = CHR ''A''" "char_of (66::nat) = CHR ''B''" "char_of (67::nat) = CHR ''C''" "char_of (68::nat) = CHR ''D''"
  "char_of (69::nat) = CHR ''E''" "char_of (70::nat) = CHR ''F''" "char_of (71::nat) = CHR ''G''" "char_of (72::nat) = CHR ''H''"
  "char_of (73::nat) = CHR ''I''" "char_of (74::nat) = CHR ''J''" "char_of (75::nat) = CHR ''K''" "char_of (76::nat) = CHR ''L''"
  "char_of (77::nat) = CHR ''M''" "char_of (78::nat) = CHR ''N''" "char_of (79::nat) = CHR ''O''" "char_of (80::nat) = CHR ''P''"
  "char_of (81::nat) = CHR ''Q''" "char_of (82::nat) = CHR ''R''" "char_of (83::nat) = CHR ''S''" "char_of (84::nat) = CHR ''T''"
  "char_of (85::nat) = CHR ''U''" "char_of (86::nat) = CHR ''V''" "char_of (87::nat) = CHR ''W''" "char_of (88::nat) = CHR ''X''"
  "char_of (89::nat) = CHR ''Y''" "char_of (90::nat) = CHR ''Z''" "char_of (97::nat) = CHR ''a''" "char_of (98::nat) = CHR ''b''"
  "char_of (99::nat) = CHR ''c''" "char_of (100::nat) = CHR ''d''" "char_of (101::nat) = CHR ''e''" "char_of (102::nat) = CHR ''f''"
  "char_of (103::nat) = CHR ''g''" "char_of (104::nat) = CHR ''h''" "char_of (105::nat) = CHR ''i''" "char_of (106::nat) = CHR ''j''"
  "char_of (107::nat) = CHR ''k''" "char_of (108::nat) = CHR ''l''" "char_of (109::nat) = CHR ''m''" "char_of (110::nat) = CHR ''n''"
  "char_of (111::nat) = CHR ''o''" "char_of (112::nat) = CHR ''p''" "char_of (113::nat) = CHR ''q''" "char_of (114::nat) = CHR ''r''"
  "char_of (115::nat) = CHR ''s''" "char_of (116::nat) = CHR ''t''" "char_of (117::nat) = CHR ''u''" "char_of (118::nat) = CHR ''v''"
  "char_of (119::nat) = CHR ''w''" "char_of (120::nat) = CHR ''x''" "char_of (121::nat) = CHR ''y''" "char_of (122::nat) = CHR ''z''"
  by (simp_all add: char_of_def bit_simps)

lemma HasPrefix_iff: "HasPrefix s p \<longleftrightarrow> (\<exists>r. s = p @ r)"
  by (induction s p rule: HasPrefix.induct) auto

lemma HasPrefix_append [simp]: "HasPrefix (p @ r) p"
  by (auto simp: HasPrefix_iff)

lemma HasSuffix_iff: "HasSuffix s t \<longleftrightarrow> (\<exists>r. s = r @ t)"
proof -
  have "HasSuffix s t \<longleftrightarrow> (\<exists>r. rev s = rev t @ r)"
    by (simp add: HasSuffix_def HasPrefix_iff)
  also have "\<dots> \<longleftrightarrow> (\<exists>r. s = r @ t)"
    by (metis rev_append rev_rev_ident)
  finally show ?thesis .
qed

lemma Contains_iff: "Contains s sub \<longleftrightarrow> (\<exists>u v. s = u @ sub @ v)"
proof (induction s)
  case Nil
  then show ?case by auto
next
  case (Cons c s)
  show ?case
  proof
    assume "Contains (c # s) sub"
    then consider "HasPrefix (c # s) sub" | "Contains s sub" by auto
    then show "\<exists>u v. c # s = u @ sub @ v"
    proof cases
      case 1
      then show ?thesis by (auto simp: HasPrefix_iff intro: exI [of _ "[]"])
    next
      case 2
      with Cons.IH obtain u v where "s = u @ sub @ v" by auto
      then have "c # s = (c # u) @ sub @ v" by simp
      then show ?thesis by blast
    qed
  next
    assume "\<exists>u v. c # s = u @ sub @ v"
    then obtain u v where uv: "c # s = u @ sub @ v" by blast
    show "Contains (c # s) sub"
    proof (cases u)
      case Nil
      with uv have "HasPrefix (c # s) sub" by (simp add: HasPrefix_iff)
      then show ?thesis by simp
    next
      case (Cons d u')
      with uv Cons.IH show ?thesis by auto
    qed
  qed
qed

lemma length_ToLower [simp]: "length (ToLower s) = length s"
  by (simp add: ToLower_def)

lemma ToLower_append [simp]: "ToLower (s @ t) = ToLower s @ ToLower t"
  by (simp add: ToLower_def)

lemma TrimSpace_Nil [simp]: "TrimSpace [] = []"
  by (simp add: TrimSpace_def)

lemma TrimSpace_eq_Nil: "TrimSpace s = [] \<longleftrightarrow> list_all is_space s"
proof -
  have "TrimSpace s = [] \<longleftrightarrow> (\<forall>c \<in> set (dropWhile is_space s). is_space c)"
    by (simp add: TrimSpace_def dropWhile_eq_Nil_conv)
  also have "\<dots> \<longleftrightarrow> dropWhile is_space s = []"
    by (metis empty_iff empty_set hd_dropWhile hd_in_set)
  finally show ?thesis by (simp add: dropWhile_eq_Nil_conv list_all_iff)
qed

lemma is_digit_digit_char: "d < 10 \<Longrightarrow> is_digit (digit_char d)"
  by (simp add: is_digit_def digit_char_def of_char_of)

lemma digit_val_digit_char: "d < 10 \<Longrightarrow> digit_val (digit_char d) = d"
  by (simp add: digit_val_def digit_char_def of_char_of)

lemma show_nat_nonempty: "show_nat n \<noteq> []"
  by (subst show_nat.simps) simp

lemma show_nat_digits: "list_all is_digit (show_nat n)"
proof (induction n rule: show_nat.induct)
  case (1 n)
  then show ?case
    by (subst show_nat.simps) (auto simp: is_digit_digit_char)
qed

lemma dec_value_append: "dec_value a (s @ t) = dec_value (dec_value a s) t"
  by (induction a s rule: dec_value.induct) auto

lemma dec_value_show_nat: "dec_value 0 (show_nat n) = n"
proof (induction n rule: show_nat.induct)
  case (1 n)
  show ?case
  proof (cases "n < 10")
    case True
    then show ?thesis by (subst show_nat.simps) (simp add: digit_val_digit_char)
  next
    case False
    then show ?thesis
      using 1 by (subst show_nat.simps) (simp add: dec_value_append digit_val_digit_char)
  qed
qed

text \<open>strconv.ParseUint reads back what fmt prints.\<close>

lemma ParseUint_show_nat: "n < 2 ^ bits \<Longrightarrow> ParseUint (show_nat n) bits = Some n"
  by (simp add: ParseUint_def show_nat_nonempty show_nat_digits dec_value_show_nat)

lemma ParseUint_bound: "ParseUint s bits = Some n \<Longrightarrow> n < 2 ^ bits"
  by (auto simp: ParseUint_def Let_def split: if_splits)

lemma show_nat_inject: "show_nat m = show_nat n \<Longrightarrow> m = n"
  by (metis dec_value_show_nat)

lemma Join_SplitByte: "Join (SplitByte s sep) [sep] = s"
proof (induction s)
  case Nil
  then show ?case by simp
next
  case (Cons c s)
  then show ?case
    by (cases "SplitByte s sep"; cases "tl (SplitByte s sep)") auto
qed

lemma SplitN2_cases:
  "SplitN2 s sep = (if sep \<in> set s then [takeWhile (\<lambda>c. c \<noteq> sep) s, tl (dropWhile (\<lambda>c. c \<noteq> sep) s)] else [s])"
  by (induction s) auto

lemma Compare_eq_0 [simp]: "Compare s t = 0 \<longleftrightarrow> s = t"
  by (simp add: Compare_def)

lemma Compare_neg [simp]: "Compare s t < 0 \<longleftrightarrow> s < t"
  by (auto simp: Compare_def)

lemma Compare_pos [simp]: "0 < Compare s t \<longleftrightarrow> t < s"
  by (auto simp: Compare_def)

lemmas go_string_defs [go_string] =
  TrimSpace_def ToUpper_def ToLower_def EqualFold_def HasSuffix_def ReplaceByte_def Fields_def
  is_space_def upper_char_def lower_char_def is_digit_def digit_val_def ParseUint_def Compare_def

end
