(* ===== verification/State_Types.thy ===== *)
theory State_Types
  imports Go_Prelude
begin

text \<open>
  The records that the package internal/state keeps on disk (replication.go,
  replication_conflict.go, checkpoint.go) and their default values. Instants are seconds since
  the epoch.
\<close>

type_synonym instant = int

definition checkpointVersion :: int where
  "checkpointVersion = 1"

record ReplicationTransactionShape =
  sh_TransactionsSeen :: u64
  sh_TransactionsApplied :: u64
  sh_EventsSeen :: u64
  sh_AppliedEvents :: u64
  sh_MaxTransactionEvents :: u64
  sh_AvgTransactionEvents :: u64
  sh_DDLTransactions :: u64
  sh_FKConstrainedTransactions :: u64
  sh_KeylessOperations :: u64
  sh_KeylessTables :: "string list"
  sh_RiskLevel :: string
  sh_RiskSignals :: "string list"

definition emptyShape :: ReplicationTransactionShape where
  "emptyShape = \<lparr>sh_TransactionsSeen = 0, sh_TransactionsApplied = 0, sh_EventsSeen = 0,
     sh_AppliedEvents = 0, sh_MaxTransactionEvents = 0, sh_AvgTransactionEvents = 0,
     sh_DDLTransactions = 0, sh_FKConstrainedTransactions = 0, sh_KeylessOperations = 0,
     sh_KeylessTables = [], sh_RiskLevel = '''', sh_RiskSignals = []\<rparr>"

record ReplicationCheckpoint =
  rc_Version :: int
  rc_BinlogFile :: string
  rc_BinlogPos :: u32
  rc_GTIDSet :: string
  rc_ApplyDDL :: string
  rc_Shape :: ReplicationTransactionShape
  rc_UpdatedAt :: instant

definition NewReplicationCheckpoint :: ReplicationCheckpoint where
  "NewReplicationCheckpoint = \<lparr>rc_Version = checkpointVersion, rc_BinlogFile = '''', rc_BinlogPos = 0,
     rc_GTIDSet = '''', rc_ApplyDDL = ''warn'', rc_Shape = emptyShape, rc_UpdatedAt = 0\<rparr>"

record ReplicationConflictReport =
  cr_Version :: int
  cr_GeneratedAt :: instant
  cr_ApplyDDL :: string
  cr_ConflictPolicy :: string
  cr_StartFile :: string
  cr_StartPos :: u32
  cr_SourceEndFile :: string
  cr_SourceEndPos :: u32
  cr_AppliedEndFile :: string
  cr_AppliedEndPos :: u32
  cr_FailureType :: string
  cr_SQLErrorCode :: u16
  cr_ValuesRedacted :: bool
  cr_Operation :: string
  cr_TableName :: string
  cr_Query :: string
  cr_ValueSample :: "string list"
  cr_OldRowSample :: "string list"
  cr_NewRowSample :: "string list"
  cr_RowDiffSample :: "string list"
  cr_Shape :: ReplicationTransactionShape
  cr_Message :: string
  cr_Remediation :: string

definition NewReplicationConflictReport :: ReplicationConflictReport where
  "NewReplicationConflictReport = \<lparr>cr_Version = checkpointVersion, cr_GeneratedAt = 0,
     cr_ApplyDDL = '''', cr_ConflictPolicy = '''', cr_StartFile = '''', cr_StartPos = 0,
     cr_SourceEndFile = '''', cr_SourceEndPos = 0, cr_AppliedEndFile = '''', cr_AppliedEndPos = 0,
     cr_FailureType = '''', cr_SQLErrorCode = 0, cr_ValuesRedacted = False, cr_Operation = '''',
     cr_TableName = '''', cr_Query = '''', cr_ValueSample = [], cr_OldRowSample = [],
     cr_NewRowSample = [], cr_RowDiffSample = [], cr_Shape = emptyShape, cr_Message = '''',
     cr_Remediation = ''''\<rparr>"

text \<open>Typed cursor values of checkpoint_cursor.go and the data checkpoint of checkpoint.go.\<close>

record CheckpointKeyValue =
  kv_Type :: string
  kv_Value :: string

record TableCheckpoint =
  tc_RowsCopied :: int
  tc_KeyColumns :: "string list"
  tc_LastKey :: "string list"
  tc_LastKeyTyped :: "CheckpointKeyValue list"
  tc_Done :: bool
  tc_UpdatedAt :: instant

definition emptyTableCheckpoint :: TableCheckpoint where
  "emptyTableCheckpoint = \<lparr>tc_RowsCopied = 0, tc_KeyColumns = [], tc_LastKey = [],
     tc_LastKeyTyped = [], tc_Done = False, tc_UpdatedAt = 0\<rparr>"

record DataCheckpoint =
  dc_Version :: int
  dc_SourceWatermarkFile :: string
  dc_SourceWatermarkPos :: u32
  dc_Tables :: "string \<rightharpoonup> TableCheckpoint"

definition NewDataCheckpoint :: DataCheckpoint where
  "NewDataCheckpoint = \<lparr>dc_Version = checkpointVersion, dc_SourceWatermarkFile = '''',
     dc_SourceWatermarkPos = 0, dc_Tables = Map.empty\<rparr>"

end
