(* ===== verification/Apply_Failure.thy ===== *)
theory Apply_Failure
  imports State_Types
begin

text \<open>
  The events that replication applies, the failures it reports and the samples of row values in
  a conflict report (internal/replicate/binlog/failure.go and run.go, lines 79-99 and 879-958).
  The lemmas show what a sample keeps of a value, what redaction removes and where it does not.
\<close>

section \<open>Events, batches and failures\<close>

record applyEvent =
  ev_Query :: string
  ev_Args :: "goval list"
  ev_RowColumns :: "string list"
  ev_OldRowArgs :: "goval list"
  ev_NewRowArgs :: "goval list"
  ev_KeyColumns :: "string list"
  ev_KeyArgs :: "goval list"
  ev_Operation :: string
  ev_TableName :: string
  ev_UsesFallbackKey :: bool
  ev_HasForeignKeys :: bool
  ev_RequireRowsAffected :: bool

record applyBatch =
  ab_EndFile :: string
  ab_EndPos :: u32
  ab_EndTimestamp :: u32
  ab_Events :: "applyEvent list"

text \<open>The cause of a failure is only ever printed, so it is kept as its text.\<close>

record applyFailure =
  af_FailureType :: string
  af_File :: string
  af_Pos :: u32
  af_SQLErrorCode :: u16
  af_Operation :: string
  af_TableName :: string
  af_Query :: string
  af_ValueSample :: "string list"
  af_OldRowSample :: "string list"
  af_NewRowSample :: "string list"
  af_RowDiffSample :: "string list"
  af_Remediation :: string
  af_Message :: string
  af_Cause :: "string option"
  af_AppliedFile :: string
  af_AppliedPos :: u32
  af_Shape :: ReplicationTransactionShape

definition emptyFailure :: applyFailure where
  "emptyFailure = \<lparr>af_FailureType = '''', af_File = '''', af_Pos = 0, af_SQLErrorCode = 0,
     af_Operation = '''', af_TableName = '''', af_Query = '''', af_ValueSample = [],
     af_OldRowSample = [], af_NewRowSample = [], af_RowDiffSample = [], af_Remediation = '''',
     af_Message = '''', af_Cause = None, af_AppliedFile = '''', af_AppliedPos = 0,
     af_Shape = emptyShape\<rparr>"

definition failure_Error :: "applyFailure \<Rightarrow> string" where
  "failure_Error f =
     (let base = (if af_Message f = '''' then ''replication apply failure'' else af_Message f)
      in (case af_Cause f of None \<Rightarrow> base | Some c \<Rightarrow> base @ '': '' @ c))"

text \<open>
  The errors of the package: a failure, an error that wraps another under a prefix (the verb %w)
  and a plain text. errors.As unwraps until it meets a failure.
\<close>

datatype go_error = EFailure applyFailure | EWrap string go_error | EText string

fun error_text :: "go_error \<Rightarrow> string" where
  "error_text (EFailure f) = failure_Error f"
| "error_text (EWrap p e) = p @ '': '' @ error_text e"
| "error_text (EText t) = t"

fun errors_As_failure :: "go_error \<Rightarrow> applyFailure option" where
  "errors_As_failure (EFailure f) = Some f"
| "errors_As_failure (EWrap p e) = errors_As_failure e"
| "errors_As_failure (EText t) = None"

text \<open>An error of the database driver: a MySQLError with its number and message, or another.\<close>

datatype db_error = MySQLError (db_number: u16) (db_message: string) (db_text: string)
  | OtherDBError (db_text: string)

section \<open>Samples of row values\<close>

definition truncateForSample :: "string \<Rightarrow> string" where
  "truncateForSample v =
     (let normalized = ReplaceByte (ReplaceByte v CHR 0x0A '' '') CHR 0x0D '' ''
      in if length normalized \<le> 80 then normalized else take 80 normalized @ ''...'')"

fun sampleValue :: "goval \<Rightarrow> string" where
  "sampleValue VNil = ''NULL''"
| "sampleValue (VBytes s) = truncateForSample s"
| "sampleValue (VString s) = truncateForSample s"
| "sampleValue v = truncateForSample (Sprint v)"

definition sampleLabel :: "string list \<Rightarrow> nat \<Rightarrow> string" where
  "sampleLabel columns i =
     (if i < length columns \<and> TrimSpace (columns ! i) \<noteq> '''' then TrimSpace (columns ! i)
      else ''v'' @ show_nat (i + 1))"

definition buildValueSample :: "string list \<Rightarrow> goval list \<Rightarrow> string list" where
  "buildValueSample columns values =
     (if values = [] then []
      else let limit = (if length values > 6 then 6 else length values)
           in map (\<lambda>i. sampleLabel columns i @ ''='' @ sampleValue (values ! i)) [0..<limit]
              @ (if length values > limit then [''... +'' @ show_nat (length values - limit) @ '' more''] else []))"

definition maxChanges :: nat where
  "maxChanges = 6"

fun rowDiffLoop :: "string list \<Rightarrow> goval list \<Rightarrow> goval list \<Rightarrow> nat list \<Rightarrow> string list \<Rightarrow> nat \<Rightarrow> string list \<times> nat" where
  "rowDiffLoop columns old new [] sample diffCount = (sample, diffCount)"
| "rowDiffLoop columns old new (i # is) sample diffCount =
     (let oldText = sampleValue (old ! i); newText = sampleValue (new ! i)
      in if oldText = newText then rowDiffLoop columns old new is sample diffCount
         else if length sample \<ge> maxChanges then rowDiffLoop columns old new is sample (diffCount + 1)
         else rowDiffLoop columns old new is
                (sample @ [sampleLabel columns i @ '':'' @ oldText @ ''->'' @ newText]) (diffCount + 1))"

definition buildRowDiffSample :: "string list \<Rightarrow> goval list \<Rightarrow> goval list \<Rightarrow> string list" where
  "buildRowDiffSample columns oldValues newValues =
     (if oldValues = [] \<or> newValues = [] then []
      else let limit = (if length newValues < length oldValues then length newValues else length oldValues);
               (sample, diffCount) = rowDiffLoop columns oldValues newValues [0..<limit] [] 0
           in if diffCount = 0 then []
              else sample @ (if diffCount > maxChanges
                             then [''... +'' @ show_nat (diffCount - maxChanges) @ '' more changes''] else []))"

section \<open>Classification of an apply error\<close>

definition looksLikeMetadataLockFailure :: "string \<Rightarrow> applyEvent \<Rightarrow> bool" where
  "looksLikeMetadataLockFailure message event =
     (if \<not> EqualFold (TrimSpace (ev_Operation event)) ''ddl'' then False
      else let upper = ToUpper message
           in Contains upper ''METADATA LOCK'' \<or> Contains upper ''TABLE METADATA LOCK'')"

definition classify_number :: "u16 \<Rightarrow> string \<Rightarrow> applyEvent \<Rightarrow> applyFailure \<Rightarrow> applyFailure" where
  "classify_number number message event failure =
     (if number = 1062 then
        failure\<lparr>af_FailureType := ''conflict_duplicate_key'',
          af_Remediation := ''resolve duplicate key conflict or rerun with --conflict-policy=source-wins or --conflict-policy=dest-wins''\<rparr>
      else if number \<in> {1451, 1452} then
        failure\<lparr>af_FailureType := ''conflict_foreign_key'',
          af_Remediation := ''verify parent/child row ordering, transaction chunking, and schema constraints, then rerun replicate''\<rparr>
      else if number \<in> {1054, 1136, 1146, 1051} then
        failure\<lparr>af_FailureType := ''schema_drift'',
          af_Remediation := ''run migrate --schema-only to align schema, then rerun replicate''\<rparr>
      else if number \<in> {1044, 1045, 1142} then
        failure\<lparr>af_FailureType := ''permission_denied'',
          af_Remediation := ''grant required destination privileges for replication apply and rerun''\<rparr>
      else if number \<in> {1366, 1406, 1265} then
        failure\<lparr>af_FailureType := ''data_conversion_error'',
          af_Remediation := ''inspect source/destination column types and sql_mode, then rerun after remediation''\<rparr>
      else if number \<in> {1213, 1205} then
        (if looksLikeMetadataLockFailure message event then
           failure\<lparr>af_FailureType := ''metadata_lock_timeout'',
             af_Remediation := ''inspect SHOW FULL PROCESSLIST and performance_schema.metadata_locks (or MariaDB metadata_lock_info), identify the blocking session, abort the waiting DDL if blast radius is growing, then rerun during a drained window''\<rparr>
         else
           failure\<lparr>af_FailureType := ''retryable_transaction_error'',
             af_Remediation := ''retry replicate; if recurring, reduce transaction size, batch size, or lock contention on destination''\<rparr>)
      else failure)"

definition classifyApplySQLError ::
  "db_error \<Rightarrow> applyEvent \<Rightarrow> string \<Rightarrow> u32 \<Rightarrow> string \<Rightarrow> u32 \<Rightarrow> applyFailure" where
  "classifyApplySQLError cause event file pos appliedFile appliedPos =
     (let failure = emptyFailure\<lparr>
            af_FailureType := ''apply_sql_error'', af_File := file, af_Pos := pos,
            af_Operation := ev_Operation event, af_TableName := ev_TableName event,
            af_Query := ev_Query event,
            af_ValueSample := buildValueSample (ev_KeyColumns event) (ev_KeyArgs event),
            af_OldRowSample := buildValueSample (ev_RowColumns event) (ev_OldRowArgs event),
            af_NewRowSample := buildValueSample (ev_RowColumns event) (ev_NewRowArgs event),
            af_RowDiffSample := buildRowDiffSample (ev_RowColumns event) (ev_OldRowArgs event) (ev_NewRowArgs event),
            af_Message := ''apply event at '' @ file @ '':'' @ show_nat (unat pos) @ '' failed'',
            af_Cause := Some (db_text cause),
            af_Remediation := ''review table schema and conflicting destination rows, then rerun replicate from checkpoint'',
            af_AppliedFile := appliedFile, af_AppliedPos := appliedPos\<rparr>
      in (case cause of
            MySQLError number message text \<Rightarrow>
              classify_number number message event (failure\<lparr>af_SQLErrorCode := number\<rparr>)
          | OtherDBError text \<Rightarrow>
              (let messageUpper = ToUpper text
               in if Contains messageUpper ''UNKNOWN COLUMN'' \<or> Contains messageUpper ''DOESN'T EXIST''
                  then failure\<lparr>af_FailureType := ''schema_drift'',
                         af_Remediation := ''run migrate --schema-only to align schema, then rerun replicate''\<rparr>
                  else failure)))"

section \<open>Redaction and the conflict report\<close>

definition redactSample :: "string \<Rightarrow> string" where
  "redactSample value =
     (let trimmed = TrimSpace value
      in if HasPrefix trimmed ''... +'' \<and> HasSuffix trimmed ''more'' then trimmed
         else if Contains trimmed '':'' then hd (SplitN2 trimmed CHR '':'') @ '':<redacted>''
         else if Contains trimmed ''='' then hd (SplitN2 trimmed CHR ''='') @ ''=<redacted>''
         else ''<redacted>'')"

definition redactSamples :: "string list \<Rightarrow> string list" where
  "redactSamples values = map redactSample values"

definition normalizeConflictPolicy :: "string \<Rightarrow> string" where
  "normalizeConflictPolicy value = (if TrimSpace value = '''' then ''fail'' else value)"

definition report_failure :: "applyFailure \<Rightarrow> ReplicationConflictReport \<Rightarrow> ReplicationConflictReport" where
  "report_failure f r = r\<lparr>
     cr_FailureType := (if af_FailureType f \<noteq> '''' then af_FailureType f else cr_FailureType r),
     cr_SQLErrorCode := af_SQLErrorCode f,
     cr_Message := failure_Error f,
     cr_Operation := af_Operation f,
     cr_TableName := af_TableName f,
     cr_Query := af_Query f,
     cr_ValueSample := af_ValueSample f,
     cr_OldRowSample := af_OldRowSample f,
     cr_NewRowSample := af_NewRowSample f,
     cr_RowDiffSample := af_RowDiffSample f,
     cr_Shape := af_Shape f,
     cr_Remediation := af_Remediation f,
     cr_SourceEndFile := (if af_File f \<noteq> '''' then af_File f else cr_SourceEndFile r),
     cr_SourceEndPos := (if af_Pos f > 0 then af_Pos f else cr_SourceEndPos r),
     cr_AppliedEndFile := (if af_AppliedFile f \<noteq> '''' then af_AppliedFile f else cr_AppliedEndFile r),
     cr_AppliedEndPos := (if af_AppliedPos f > 0 then af_AppliedPos f else cr_AppliedEndPos r)\<rparr>"

text \<open>The options that the report reads are passed one by one; now is the clock.\<close>

definition buildConflictReport ::
  "string \<Rightarrow> string \<Rightarrow> string \<Rightarrow> instant \<Rightarrow> string \<Rightarrow> u32 \<Rightarrow> string \<Rightarrow> u32 \<Rightarrow> go_error \<Rightarrow> ReplicationConflictReport" where
  "buildConflictReport applyDDL conflictPolicy conflictValues now startFile startPos sourceEndFile sourceEndPos err =
     (let r0 = NewReplicationConflictReport\<lparr>
            cr_GeneratedAt := now, cr_ApplyDDL := applyDDL,
            cr_ConflictPolicy := normalizeConflictPolicy conflictPolicy,
            cr_StartFile := startFile, cr_StartPos := startPos,
            cr_SourceEndFile := sourceEndFile, cr_SourceEndPos := sourceEndPos,
            cr_AppliedEndFile := startFile, cr_AppliedEndPos := startPos,
            cr_FailureType := ''replication_error'', cr_Message := error_text err\<rparr>;
          r1 = (case errors_As_failure err of None \<Rightarrow> r0 | Some f \<Rightarrow> report_failure f r0)
      in if conflictValues \<noteq> ''plain'' then
           r1\<lparr>cr_ValuesRedacted := True,
              cr_ValueSample := redactSamples (cr_ValueSample r1),
              cr_OldRowSample := redactSamples (cr_OldRowSample r1),
              cr_NewRowSample := redactSamples (cr_NewRowSample r1),
              cr_RowDiffSample := redactSamples (cr_RowDiffSample r1)\<rparr>
         else r1)"

section \<open>Lemmas\<close>

definition rstrip :: "string \<Rightarrow> string" where
  "rstrip s = rev (dropWhile is_space (rev s))"

lemma TrimSpace_left: "\<not> is_space c \<Longrightarrow> TrimSpace (c # s) = rstrip (c # s)"
  by (simp add: TrimSpace_def rstrip_def)

lemma rstrip_append: "\<not> is_space c \<Longrightarrow> rstrip (a @ c # b) = a @ c # rstrip b"
  by (simp add: rstrip_def dropWhile_append3)

lemma TrimSpace_split:
  assumes "label \<noteq> []" and "\<not> is_space (hd label)" and "\<not> is_space c"
  shows "TrimSpace (label @ c # rest) = label @ c # rstrip rest"
  using assms rstrip_append [of c "label" rest] TrimSpace_left [of "hd label" "tl label @ c # rest"]
  by (cases label) auto

lemma SplitN2_hd: "c \<notin> set a \<Longrightarrow> hd (SplitN2 (a @ c # b) c) = a"
  by (auto simp: SplitN2_cases takeWhile_tail)

lemma Contains_byte: "Contains s [c] \<longleftrightarrow> c \<in> set s"
  by (auto simp: Contains_iff in_set_conv_decomp)

text \<open>A label of a sample: the trimmed name of a column without the separators of a sample.\<close>

definition plain_label :: "string \<Rightarrow> bool" where
  "plain_label l = (l \<noteq> [] \<and> \<not> is_space (hd l) \<and> hd l \<noteq> CHR ''.'' \<and> CHR '':'' \<notin> set l \<and> CHR ''='' \<notin> set l)"

lemma redactSample_colon:
  assumes "l \<noteq> []" and "\<not> is_space (hd l)" and "hd l \<noteq> CHR ''.''" and "CHR '':'' \<notin> set l"
  shows "redactSample (l @ CHR '':'' # rest) = l @ '':<redacted>''"
proof -
  have trim: "TrimSpace (l @ CHR '':'' # rest) = l @ CHR '':'' # rstrip rest"
    using assms by (intro TrimSpace_split) (auto simp: is_space_def)
  have "\<not> HasPrefix (l @ CHR '':'' # rstrip rest) ''... +''"
    using assms by (cases l) auto
  then show ?thesis
    using assms by (simp add: redactSample_def trim Contains_byte SplitN2_hd)
qed

lemma redactSample_equals:
  assumes "plain_label l" and "CHR '':'' \<notin> set v"
  shows "redactSample (l @ CHR ''='' # v) = l @ ''=<redacted>''"
proof -
  have trim: "TrimSpace (l @ CHR ''='' # v) = l @ CHR ''='' # rstrip v"
    using assms by (intro TrimSpace_split) (auto simp: plain_label_def is_space_def)
  have "set (rstrip v) \<subseteq> set v"
    by (auto simp: rstrip_def dest: set_dropWhileD)
  with assms(2) have "CHR '':'' \<notin> set (rstrip v)" by auto
  moreover have "\<not> HasPrefix (l @ CHR ''='' # rstrip v) ''... +''"
    using assms by (cases l) (auto simp: plain_label_def)
  ultimately show ?thesis
    using assms by (simp add: redactSample_def trim Contains_byte SplitN2_hd plain_label_def)
qed

lemma length_truncateForSample: "length (truncateForSample v) \<le> 83"
  by (simp add: truncateForSample_def Let_def)

lemma truncateForSample_one_line:
  "CHR 0x0A \<notin> set (truncateForSample v) \<and> CHR 0x0D \<notin> set (truncateForSample v)"
  by (auto simp: truncateForSample_def Let_def ReplaceByte_def dest!: in_set_takeD split: if_splits)

text \<open>The loop over the columns against its specification: which columns differ, in order.\<close>

definition changed_columns :: "goval list \<Rightarrow> goval list \<Rightarrow> nat list" where
  "changed_columns old new =
     filter (\<lambda>i. sampleValue (old ! i) \<noteq> sampleValue (new ! i)) [0..<min (length old) (length new)]"

definition diff_line :: "string list \<Rightarrow> goval list \<Rightarrow> goval list \<Rightarrow> nat \<Rightarrow> string" where
  "diff_line columns old new i =
     sampleLabel columns i @ '':'' @ sampleValue (old ! i) @ ''->'' @ sampleValue (new ! i)"

lemma rowDiffLoop_spec:
  assumes "length sample \<le> maxChanges"
  shows "rowDiffLoop columns old new is sample n =
    (let d = filter (\<lambda>i. sampleValue (old ! i) \<noteq> sampleValue (new ! i)) is
     in (sample @ map (diff_line columns old new) (take (maxChanges - length sample) d), n + length d))"
  using assms
proof (induction "is" arbitrary: sample n)
  case Nil
  then show ?case by simp
next
  case (Cons i "is")
  show ?case
  proof (cases "length sample < maxChanges")
    case True
    then have "maxChanges - length sample = Suc (maxChanges - Suc (length sample))" by simp
    with True Cons show ?thesis by (simp add: Let_def diff_line_def)
  next
    case False
    with Cons show ?thesis by (simp add: Let_def)
  qed
qed

lemma length_buildValueSample: "length (buildValueSample columns values) \<le> 7"
  by (simp add: buildValueSample_def Let_def)

section \<open>Properties\<close>

text \<open>
  The row difference in a report lists, in column order, the first six columns whose
  sampled values differ and says how many more there are; it is empty exactly when no compared
  column differs.
\<close>

theorem buildRowDiffSample_spec:
  "buildRowDiffSample columns old new =
     (let d = changed_columns old new
      in map (diff_line columns old new) (take 6 d)
         @ (if length d > 6 then [''... +'' @ show_nat (length d - 6) @ '' more changes''] else []))"
proof -
  have "(if length new < length old then length new else length old) = min (length old) (length new)"
    by simp
  then show ?thesis
    by (auto simp: buildRowDiffSample_def rowDiffLoop_spec changed_columns_def maxChanges_def Let_def)
qed

text \<open>
  Redaction hides row differences: what remains of a line of a difference is its label,
  whatever the old and the new value are.
\<close>

theorem redact_diff_line_hides_values:
  assumes "plain_label (sampleLabel columns i)"
  shows "redactSample (diff_line columns old new i) = sampleLabel columns i @ '':<redacted>''"
  using assms redactSample_colon [of "sampleLabel columns i"]
  by (simp add: diff_line_def plain_label_def)

theorem redact_diff_line_hides_values_witness:
  "redactSample (diff_line [''email''] [VString ''a@x:1''] [VString ''b@y''] 0) = ''email:<redacted>''"
proof -
  have l: "sampleLabel [''email''] 0 = ''email''"
    by (simp add: sampleLabel_def go_string)
  then have "plain_label (sampleLabel [''email''] 0)"
    by (simp add: plain_label_def go_string)
  from redact_diff_line_hides_values [OF this] l show ?thesis by simp
qed

text \<open>
  Redaction does not hide a sampled key or row value that has a colon: everything of the
  value up to its first colon stays in the report, because the colon is tried before the equals
  sign that separates the label from the value.
\<close>

theorem redact_value_keeps_text_before_colon:
  assumes "plain_label l" and "CHR '':'' \<notin> set secret"
  shows "redactSample (l @ ''='' @ secret @ '':'' @ rest) = l @ ''='' @ secret @ '':<redacted>''"
  using assms redactSample_colon [of "l @ ''='' @ secret" rest]
  by (simp add: plain_label_def)

theorem redact_value_keeps_text_before_colon_witness:
  "redactSample ''token=s3cret:42'' = ''token=s3cret:<redacted>''"
proof -
  have "plain_label ''token''" by (simp add: plain_label_def go_string)
  from redact_value_keeps_text_before_colon [OF this, of "''s3cret''" "''42''"]
  show ?thesis by simp
qed

text \<open>
  A driver error is classified without moving the report: whatever the error, the failure
  carries the event's table and operation, the position of the batch and the last applied
  position, and never an empty type; only a MySQL error number of the six known groups changes the
  type from apply_sql_error.
\<close>

theorem classifyApplySQLError_frame:
  "let f = classifyApplySQLError cause event file pos appliedFile appliedPos
   in af_File f = file \<and> af_Pos f = pos \<and> af_AppliedFile f = appliedFile \<and> af_AppliedPos f = appliedPos \<and>
      af_Operation f = ev_Operation event \<and> af_TableName f = ev_TableName event \<and>
      af_Query f = ev_Query event \<and> af_Cause f = Some (db_text cause) \<and>
      af_FailureType f \<noteq> '''' \<and>
      (case cause of
         MySQLError number m t \<Rightarrow> af_SQLErrorCode f = number \<and>
           (number \<notin> {1062, 1451, 1452, 1054, 1136, 1146, 1051, 1044, 1045, 1142, 1366, 1406, 1265, 1213, 1205}
              \<longleftrightarrow> af_FailureType f = ''apply_sql_error'')
       | OtherDBError t \<Rightarrow> af_SQLErrorCode f = 0)"
  by (simp add: classifyApplySQLError_def classify_number_def emptyFailure_def Let_def split: db_error.split)

end
