(* ===== verification/Sql_Text.thy ===== *)
theory Sql_Text
  imports Go_Prelude
begin

text \<open>
  The SQL text that the program builds from names: quoteIdentifier, of which the packages binlog,
  cdc, data, schema and verify each have a copy, and qualifiedTable of
  internal/replicate/binlog/load.go (lines 846-852). The interface is a quoting function with a
  scanner that reads the name back from the front of a longer text, as the server's lexer does
  for a name in backticks.
\<close>

definition backtick :: char where
  "backtick = CHR 0x60"

definition quoteIdentifier :: "string \<Rightarrow> string" where
  "quoteIdentifier identifier = backtick # ReplaceByte identifier backtick [backtick, backtick] @ [backtick]"

definition qualifiedTable :: "string \<Rightarrow> string \<Rightarrow> string" where
  "qualifiedTable schema table = quoteIdentifier schema @ ''.'' @ quoteIdentifier table"

section \<open>Reading a name back\<close>

text \<open>The server's rule for a quoted name: a doubled backtick stands for one, a single one ends it.\<close>

fun scan_body :: "string \<Rightarrow> (string \<times> string) option" where
  "scan_body [] = None"
| "scan_body [c] = (if c = backtick then Some ([], []) else None)"
| "scan_body (c # d # s) =
     (if c = backtick
      then (if d = backtick then map_option (apfst ((#) backtick)) (scan_body s) else Some ([], d # s))
      else map_option (apfst ((#) c)) (scan_body (d # s)))"

fun scan_identifier :: "string \<Rightarrow> (string \<times> string) option" where
  "scan_identifier [] = None"
| "scan_identifier (c # s) = (if c = backtick then scan_body s else None)"

definition scan_qualified :: "string \<Rightarrow> (string \<times> string \<times> string) option" where
  "scan_qualified s =
     (case scan_identifier s of
        Some (schema, c # rest) \<Rightarrow>
          (if c = CHR ''.'' then map_option (\<lambda>(table, r). (schema, table, r)) (scan_identifier rest) else None)
      | _ \<Rightarrow> None)"

text \<open>A text that does not continue a quoted name.\<close>

definition no_quote_next :: "string \<Rightarrow> bool" where
  "no_quote_next r = (case r of [] \<Rightarrow> True | c # _ \<Rightarrow> c \<noteq> backtick)"

lemma no_quote_next_simps [simp]:
  "no_quote_next []" "no_quote_next (c # r) = (c \<noteq> backtick)"
  by (simp_all add: no_quote_next_def)

locale name_quoting =
  fixes quote :: "string \<Rightarrow> string" and scan :: "string \<Rightarrow> (string \<times> string) option"
  assumes scan_quote: "no_quote_next r \<Longrightarrow> scan (quote s @ r) = Some (s, r)"
begin

lemma quote_append_inject:
  assumes "quote s @ r = quote s' @ r'" and "no_quote_next r" and "no_quote_next r'"
  shows "s = s' \<and> r = r'"
proof -
  have "Some (s, r) = scan (quote s @ r)" using assms(2) by (simp only: scan_quote)
  also have "\<dots> = scan (quote s' @ r')" by (simp only: assms(1))
  also have "\<dots> = Some (s', r')" using assms(3) by (simp only: scan_quote)
  finally show ?thesis by simp
qed

lemma quote_inject: "quote s = quote s' \<Longrightarrow> s = s'"
  using quote_append_inject [of s "[]" s' "[]"] by simp

lemma pair_inject:
  assumes "quote s @ CHR ''.'' # quote t = quote s' @ CHR ''.'' # quote t'"
  shows "s = s' \<and> t = t'"
proof -
  have "s = s' \<and> CHR ''.'' # quote t = CHR ''.'' # quote t'"
    using assms by (intro quote_append_inject) (auto simp: backtick_def)
  then show ?thesis by (auto dest: quote_inject)
qed

end

section \<open>The code's quoting implements the interface\<close>

lemma ReplaceByte_simps [simp]:
  "ReplaceByte [] a r = []"
  "ReplaceByte (c # s) a r = (if c = a then r else [c]) @ ReplaceByte s a r"
  by (simp_all add: ReplaceByte_def)

lemma scan_body_quote:
  assumes "no_quote_next r"
  shows "scan_body (ReplaceByte s backtick [backtick, backtick] @ backtick # r) = Some (s, r)"
proof (induction s)
  case Nil
  with assms show ?case by (cases r) auto
next
  case (Cons c s)
  show ?case
  proof (cases "c = backtick")
    case True
    with Cons show ?thesis by simp
  next
    case False
    obtain d u where "ReplaceByte s backtick [backtick, backtick] @ backtick # r = d # u"
      by (cases "ReplaceByte s backtick [backtick, backtick] @ backtick # r") auto
    with False Cons show ?thesis by simp
  qed
qed

interpretation ident: name_quoting quoteIdentifier scan_identifier
  by unfold_locales (simp add: quoteIdentifier_def scan_body_quote)

text \<open>
  The server reads back from a qualified name exactly the schema and the table it was
  built from, whatever bytes they have and whatever follows: no name can end its quotes early.
\<close>

theorem scan_qualifiedTable:
  assumes "no_quote_next r"
  shows "scan_qualified (qualifiedTable schema table @ r) = Some (schema, table, r)"
proof -
  have outer: "scan_identifier (quoteIdentifier schema @ CHR ''.'' # quoteIdentifier table @ r)
      = Some (schema, CHR ''.'' # quoteIdentifier table @ r)"
    by (rule ident.scan_quote) (simp add: backtick_def)
  have inner: "scan_identifier (quoteIdentifier table @ r) = Some (table, r)"
    by (rule ident.scan_quote) (rule assms)
  have "qualifiedTable schema table @ r = quoteIdentifier schema @ CHR ''.'' # quoteIdentifier table @ r"
    by (simp add: qualifiedTable_def)
  then show ?thesis by (simp add: scan_qualified_def outer inner)
qed

theorem scan_qualifiedTable_witness:
  "scan_qualified (qualifiedTable ''a`.`b'' ''t'' @ '' WHERE'') = Some (''a`.`b'', ''t'', '' WHERE'')"
  by (rule scan_qualifiedTable) (simp add: backtick_def)

lemma qualifiedTable_inject: "qualifiedTable s t = qualifiedTable s' t' \<Longrightarrow> s = s' \<and> t = t'"
  by (rule ident.pair_inject) (simp add: qualifiedTable_def)

section \<open>Placeholders\<close>

text \<open>
  The placeholders of a statement text: question marks outside quoted names. The flag says whether
  the scan is inside backticks.
\<close>

fun placeholders :: "bool \<Rightarrow> string \<Rightarrow> nat" where
  "placeholders inq [] = 0"
| "placeholders inq (c # s) =
     (if c = backtick then placeholders (\<not> inq) s
      else (if c = CHR ''?'' \<and> \<not> inq then 1 else 0) + placeholders inq s)"

lemma placeholders_quoted: "placeholders True (ReplaceByte s backtick [backtick, backtick] @ backtick # r) = placeholders False r"
  by (induction s) auto

lemma placeholders_quoteIdentifier [simp]: "placeholders False (quoteIdentifier s @ r) = placeholders False r"
  by (simp add: quoteIdentifier_def placeholders_quoted)

lemma placeholders_qualifiedTable [simp]: "placeholders False (qualifiedTable s t @ r) = placeholders False r"
  by (simp add: qualifiedTable_def backtick_def)

lemma placeholders_Join:
  assumes "\<And>r. placeholders False (sep @ r) = placeholders False r"
    and "\<And>x r. placeholders False (f x @ r) = n + placeholders False r"
  shows "placeholders False (Join (map f xs) sep @ r) = n * length xs + placeholders False r"
  by (induction xs rule: induct_list012) (simp_all add: assms)

lemma placeholders_comma_Join:
  "(\<And>x r. placeholders False (f x @ r) = n + placeholders False r) \<Longrightarrow>
    placeholders False (Join (map f xs) '','' @ r) = n * length xs + placeholders False r"
  by (rule placeholders_Join) (simp_all add: backtick_def)

lemma placeholders_name_list [simp]:
  "placeholders False (Join (map quoteIdentifier columns) '','' @ r) = placeholders False r"
  using placeholders_comma_Join [of quoteIdentifier 0] by simp

lemma placeholders_mark_list [simp]:
  "placeholders False (Join (map (\<lambda>_. ''?'') columns) '','' @ r) = length columns + placeholders False r"
  using placeholders_comma_Join [of "\<lambda>_. ''?''" 1] by (simp add: backtick_def)

lemma placeholders_values_list [simp]:
  "placeholders False (Join (map (\<lambda>c. quoteIdentifier c @ ''=VALUES('' @ quoteIdentifier c @ '')'') columns) '','' @ r)
    = placeholders False r"
  using placeholders_comma_Join [of "\<lambda>c. quoteIdentifier c @ ''=VALUES('' @ quoteIdentifier c @ '')''" 0]
  by (simp add: backtick_def)

lemma placeholders_set_list [simp]:
  "placeholders False (Join (map (\<lambda>c. quoteIdentifier c @ ''=?'') columns) '','' @ r) = length columns + placeholders False r"
  using placeholders_comma_Join [of "\<lambda>c. quoteIdentifier c @ ''=?''" 1] by (simp add: backtick_def)

lemma placeholders_where_list [simp]:
  "placeholders False (Join (map (\<lambda>i. quoteIdentifier (g i) @ '' <=> ?'') is) '' AND '' @ r)
    = length is + placeholders False r"
  using placeholders_Join [of "'' AND ''" "\<lambda>i. quoteIdentifier (g i) @ '' <=> ?''" 1] by (simp add: backtick_def)

text \<open>The same lists at the end of a statement.\<close>

lemmas placeholders_at_end [simp] =
  placeholders_name_list [where r = "[]", simplified]
  placeholders_mark_list [where r = "[]", simplified]
  placeholders_values_list [where r = "[]", simplified]
  placeholders_set_list [where r = "[]", simplified]
  placeholders_where_list [where r = "[]", simplified]

end
