(* ===== verification/Row_Events.thy ===== *)
theory Row_Events
  imports Apply_Failure Sql_Text
begin

text \<open>
  How a row event of the binary log becomes SQL (internal/replicate/binlog/load.go, lines 22-47 and
  489-844): the metadata of a table as it is read from the source's information schema, the
  three statement builders, and sqlEventsForRows. An index out of range, where Go panics, is an
  error value. The lemmas show that metadata read from a table has its ordinals in range, that
  every statement has as many placeholders as arguments, and that updates and deletes address a
  row by the key of its old image.
\<close>

section \<open>Data\<close>

datatype streamEventKind =
    streamEventQuery | streamEventXID | streamEventWriteRows | streamEventUpdateRows | streamEventDeleteRows

record streamEvent =
  se_Kind :: streamEventKind
  se_File :: string
  se_Pos :: u32
  se_Timestamp :: u32
  se_Schema :: string
  se_Table :: string
  se_Query :: string
  se_Rows :: "goval list list"

record tableMetadata =
  tm_Columns :: "string list"
  tm_KeyOrdinals :: "int list"
  tm_HasForeignKeys :: bool

definition index_error :: go_error where
  "index_error = EText ''panic: index out of range''"

definition goIndex :: "'a list \<Rightarrow> int \<Rightarrow> go_error + 'a" where
  "goIndex xs i = (if 0 \<le> i \<and> nat i < length xs then Inr (xs ! nat i) else Inl index_error)"

section \<open>Keys\<close>

definition keyOrdinals :: "tableMetadata \<Rightarrow> int list" where
  "keyOrdinals metadata =
     (if tm_KeyOrdinals metadata \<noteq> [] then tm_KeyOrdinals metadata
      else map int [0..<length (tm_Columns metadata)])"

definition extractKeyArgs :: "tableMetadata \<Rightarrow> goval list \<Rightarrow> go_error + goval list" where
  "extractKeyArgs metadata row =
     (if length row \<noteq> length (tm_Columns metadata) then
        Inl (EText (''row column count mismatch while extracting key args: got='' @ show_nat (length row)
                    @ '' expected='' @ show_nat (length (tm_Columns metadata))))
      else map_result (goIndex row) (keyOrdinals metadata))"

definition extractKeyColumns :: "tableMetadata \<Rightarrow> string list" where
  "extractKeyColumns metadata =
     map (\<lambda>i. tm_Columns metadata ! nat i)
       (filter (\<lambda>i. \<not> (i < 0 \<or> i \<ge> int (length (tm_Columns metadata)))) (keyOrdinals metadata))"

definition tableKey :: "string \<Rightarrow> string \<Rightarrow> string" where
  "tableKey schema table = ToLower schema @ ''.'' @ ToLower table"

section \<open>Statements\<close>

definition whereClauseFromRow ::
  "string list \<Rightarrow> int list \<Rightarrow> goval list \<Rightarrow> go_error + (string \<times> goval list)" where
  "whereClauseFromRow columns indexes row =
     bind_result
       (map_result (\<lambda>idx. bind_result (goIndex columns idx) (\<lambda>col.
                      bind_result (goIndex row idx) (\<lambda>v. Inr (quoteIdentifier col @ '' <=> ?'', v)))) indexes)
       (\<lambda>parts. Inr (Join (map fst parts) '' AND '', map snd parts))"

definition count_mismatch :: "string \<Rightarrow> string \<Rightarrow> nat \<Rightarrow> nat \<Rightarrow> go_error" where
  "count_mismatch schema table got expected =
     EText (''row column count mismatch for '' @ schema @ ''.'' @ table @ '': got='' @ show_nat got
            @ '' expected='' @ show_nat expected @ '' (require binlog_row_image=FULL)'')"

definition insert_query :: "string \<Rightarrow> string \<Rightarrow> string list \<Rightarrow> string \<Rightarrow> string option" where
  "insert_query schema table columns conflictPolicy =
     (let columnList = Join (map quoteIdentifier columns) '','';
          placeholderList = Join (map (\<lambda>_. ''?'') columns) '',''
      in if conflictPolicy = ''fail'' then
           Some (''INSERT INTO '' @ qualifiedTable schema table @ '' ('' @ columnList @ '') VALUES ('' @ placeholderList @ '')'')
         else if conflictPolicy = ''dest-wins'' then
           Some (''INSERT IGNORE INTO '' @ qualifiedTable schema table @ '' ('' @ columnList @ '') VALUES ('' @ placeholderList @ '')'')
         else if conflictPolicy = ''source-wins'' then
           Some (''INSERT INTO '' @ qualifiedTable schema table @ '' ('' @ columnList @ '') VALUES ('' @ placeholderList
                 @ '') ON DUPLICATE KEY UPDATE ''
                 @ Join (map (\<lambda>c. quoteIdentifier c @ ''=VALUES('' @ quoteIdentifier c @ '')'') columns) '','')
         else None)"

definition buildInsertStatement ::
  "string \<Rightarrow> string \<Rightarrow> tableMetadata \<Rightarrow> goval list \<Rightarrow> string \<Rightarrow> go_error + (string \<times> goval list \<times> goval list)" where
  "buildInsertStatement schema table metadata row conflictPolicy =
     (if length row \<noteq> length (tm_Columns metadata) then
        Inl (count_mismatch schema table (length row) (length (tm_Columns metadata)))
      else (case insert_query schema table (tm_Columns metadata) conflictPolicy of
              None \<Rightarrow> Inl (EText (''unsupported conflict policy '' @ go_quote conflictPolicy))
            | Some query \<Rightarrow>
                bind_result (extractKeyArgs metadata row) (\<lambda>keyArgs. Inr (query, row, keyArgs))))"

definition buildDeleteStatement ::
  "string \<Rightarrow> string \<Rightarrow> tableMetadata \<Rightarrow> goval list \<Rightarrow> go_error + (string \<times> goval list \<times> goval list)" where
  "buildDeleteStatement schema table metadata row =
     (if length row \<noteq> length (tm_Columns metadata) then
        Inl (count_mismatch schema table (length row) (length (tm_Columns metadata)))
      else bind_result (extractKeyArgs metadata row) (\<lambda>keyArgs.
             bind_result (whereClauseFromRow (tm_Columns metadata) (keyOrdinals metadata) row) (\<lambda>(clause, args).
               Inr (''DELETE FROM '' @ qualifiedTable schema table @ '' WHERE '' @ clause, args, keyArgs))))"

definition buildUpdateStatement ::
  "string \<Rightarrow> string \<Rightarrow> tableMetadata \<Rightarrow> goval list \<Rightarrow> goval list \<Rightarrow> go_error + (string \<times> goval list \<times> goval list)" where
  "buildUpdateStatement schema table metadata oldRow newRow =
     (if length oldRow \<noteq> length (tm_Columns metadata) \<or> length newRow \<noteq> length (tm_Columns metadata) then
        Inl (EText (''row column count mismatch for '' @ schema @ ''.'' @ table @ '' (require binlog_row_image=FULL)''))
      else
        let setParts = map (\<lambda>column. quoteIdentifier column @ ''=?'') (tm_Columns metadata)
        in bind_result (extractKeyArgs metadata oldRow) (\<lambda>keyArgs.
             bind_result (whereClauseFromRow (tm_Columns metadata) (keyOrdinals metadata) oldRow) (\<lambda>(clause, whereArgs).
               Inr (''UPDATE '' @ qualifiedTable schema table @ '' SET '' @ Join setParts '','' @ '' WHERE '' @ clause,
                    newRow @ whereArgs, keyArgs))))"

section \<open>Row events\<close>

definition keyless_failure :: "string \<Rightarrow> string \<Rightarrow> string \<Rightarrow> go_error" where
  "keyless_failure operation verb targetName =
     EFailure (emptyFailure\<lparr>
       af_FailureType := ''unsafe_keyless_replay'', af_Operation := operation, af_TableName := targetName,
       af_Message := ''keyless '' @ verb @ '' replay is blocked for '' @ targetName,
       af_Remediation := ''add a primary key or non-null unique key on the source table before running binlog replay''\<rparr>)"

fun update_pairs :: "goval list list \<Rightarrow> (goval list \<times> goval list) list" where
  "update_pairs (oldRow # newRow # rows) = (oldRow, newRow) # update_pairs rows"
| "update_pairs _ = []"

definition rowApplyEvent ::
  "streamEvent \<Rightarrow> tableMetadata \<Rightarrow> string \<Rightarrow> bool \<Rightarrow> goval list \<Rightarrow> goval list \<Rightarrow> string \<times> goval list \<times> goval list \<Rightarrow> applyEvent" where
  "rowApplyEvent event metadata operation requireRows oldArgs newArgs stmt =
     (case stmt of (query, args, keyArgs) \<Rightarrow>
        \<lparr>ev_Query = query, ev_Args = args, ev_RowColumns = tm_Columns metadata,
         ev_OldRowArgs = oldArgs, ev_NewRowArgs = newArgs,
         ev_KeyColumns = extractKeyColumns metadata, ev_KeyArgs = keyArgs,
         ev_Operation = operation, ev_TableName = se_Schema event @ ''.'' @ se_Table event,
         ev_UsesFallbackKey = (tm_KeyOrdinals metadata = []),
         ev_HasForeignKeys = tm_HasForeignKeys metadata, ev_RequireRowsAffected = requireRows\<rparr>)"

definition sqlEventsForRows :: "streamEvent \<Rightarrow> tableMetadata \<Rightarrow> string \<Rightarrow> go_error + applyEvent list" where
  "sqlEventsForRows event metadata conflictPolicy =
     (let targetName = se_Schema event @ ''.'' @ se_Table event
      in (case se_Kind event of
            streamEventWriteRows \<Rightarrow>
              map_result (\<lambda>row. bind_result
                  (buildInsertStatement (se_Schema event) (se_Table event) metadata row conflictPolicy)
                  (\<lambda>stmt. Inr (rowApplyEvent event metadata ''insert'' False [] row stmt)))
                (se_Rows event)
          | streamEventDeleteRows \<Rightarrow>
              (if tm_KeyOrdinals metadata = [] then Inl (keyless_failure ''delete'' ''DELETE'' targetName)
               else map_result (\<lambda>row. bind_result
                      (buildDeleteStatement (se_Schema event) (se_Table event) metadata row)
                      (\<lambda>stmt. Inr (rowApplyEvent event metadata ''delete'' (conflictPolicy = ''fail'') row [] stmt)))
                    (se_Rows event))
          | streamEventUpdateRows \<Rightarrow>
              (if tm_KeyOrdinals metadata = [] then Inl (keyless_failure ''update'' ''UPDATE'' targetName)
               else if length (se_Rows event) mod 2 \<noteq> 0 then
                 Inl (EText (''update rows event has odd row count for '' @ se_Schema event @ ''.'' @ se_Table event))
               else map_result (\<lambda>(oldRow, newRow). bind_result
                      (buildUpdateStatement (se_Schema event) (se_Table event) metadata oldRow newRow)
                      (\<lambda>stmt. Inr (rowApplyEvent event metadata ''update'' (conflictPolicy = ''fail'') oldRow newRow stmt)))
                    (update_pairs (se_Rows event)))
          | _ \<Rightarrow> Inl (EText ''unsupported row event kind'')))"

section \<open>Table metadata\<close>

text \<open>
  The three queries of loadTableMetadata are parameters: the result of the column query, of the
  primary key query and of the foreign key count, and whether there is a source connection.
  indexByColumn maps a lower-cased column name to its last position.
\<close>

definition indexByColumn :: "string list \<Rightarrow> string \<rightharpoonup> nat" where
  "indexByColumn columns = map_of (rev (zip (map ToLower columns) [0..<length columns]))"

fun metadata_rows :: "string \<Rightarrow> 'a query_result \<Rightarrow> go_error + 'a list" where
  "metadata_rows what (QueryError e) = Inl (EWrap (''read '' @ what) (EText e))"
| "metadata_rows what (ScanError e) = Inl (EWrap (''scan '' @ what) (EText e))"
| "metadata_rows what (RowsError e) = Inl (EWrap (''iterate '' @ what) (EText e))"
| "metadata_rows what (Rows xs) = Inr xs"

definition loadTableMetadata ::
  "bool \<Rightarrow> string query_result \<Rightarrow> string query_result \<Rightarrow> (string + int) \<Rightarrow> string \<Rightarrow> string
     \<Rightarrow> go_error + tableMetadata" where
  "loadTableMetadata source columnRows pkRows fkCount schema table =
     (if \<not> source then Inl (EText ''source connection is required for table metadata'')
      else let target = schema @ ''.'' @ table
      in bind_result (metadata_rows (''column metadata for '' @ target) columnRows) (\<lambda>columns.
           if columns = [] then Inl (EText (''table metadata not found for '' @ target))
           else bind_result (metadata_rows (''primary key metadata for '' @ target) pkRows) (\<lambda>pk.
             case fkCount of
               Inl e \<Rightarrow> Inl (EWrap (''read foreign key metadata for '' @ target) (EText e))
             | Inr n \<Rightarrow>
                 Inr \<lparr>tm_Columns = columns,
                      tm_KeyOrdinals = sort (map int (List.map_filter (\<lambda>c. indexByColumn columns (ToLower c)) pk)),
                      tm_HasForeignKeys = (n > 0)\<rparr>)))"

section \<open>Well-formed metadata\<close>

definition valid_metadata :: "tableMetadata \<Rightarrow> bool" where
  "valid_metadata m = (\<forall>i \<in> set (tm_KeyOrdinals m). 0 \<le> i \<and> nat i < length (tm_Columns m))"

text \<open>The values of a row at the key ordinals.\<close>

definition key_of :: "tableMetadata \<Rightarrow> goval list \<Rightarrow> goval list" where
  "key_of m row = map (\<lambda>i. row ! nat i) (keyOrdinals m)"

definition where_text :: "tableMetadata \<Rightarrow> string" where
  "where_text m = Join (map (\<lambda>i. quoteIdentifier (tm_Columns m ! nat i) @ '' <=> ?'') (keyOrdinals m)) '' AND ''"

lemma keyOrdinals_range:
  "valid_metadata m \<Longrightarrow> i \<in> set (keyOrdinals m) \<Longrightarrow> 0 \<le> i \<and> nat i < length (tm_Columns m)"
  by (auto simp: keyOrdinals_def valid_metadata_def split: if_splits)

lemma extractKeyArgs_ok:
  assumes "valid_metadata m" and "length row = length (tm_Columns m)"
  shows "extractKeyArgs m row = Inr (key_of m row)"
  using assms keyOrdinals_range [OF assms(1)]
  by (auto simp: extractKeyArgs_def key_of_def goIndex_def intro!: map_result_all)

lemma whereClauseFromRow_ok:
  assumes "valid_metadata m" and "length row = length (tm_Columns m)"
  shows "whereClauseFromRow (tm_Columns m) (keyOrdinals m) row = Inr (where_text m, key_of m row)"
proof -
  have "map_result (\<lambda>idx. bind_result (goIndex (tm_Columns m) idx) (\<lambda>col.
          bind_result (goIndex row idx) (\<lambda>v. Inr (quoteIdentifier col @ '' <=> ?'', v)))) (keyOrdinals m)
      = Inr (map (\<lambda>i. (quoteIdentifier (tm_Columns m ! nat i) @ '' <=> ?'', row ! nat i)) (keyOrdinals m))"
    using assms keyOrdinals_range [OF assms(1)] by (intro map_result_all) (simp add: goIndex_def)
  then show ?thesis
    by (simp add: whereClauseFromRow_def where_text_def key_of_def comp_def)
qed

lemma extractKeyColumns_ok:
  "valid_metadata m \<Longrightarrow> extractKeyColumns m = map (\<lambda>i. tm_Columns m ! nat i) (keyOrdinals m)"
proof -
  assume "valid_metadata m"
  then have "filter (\<lambda>i. \<not> (i < 0 \<or> i \<ge> int (length (tm_Columns m)))) (keyOrdinals m) = keyOrdinals m"
    by (auto simp: filter_id_conv dest: keyOrdinals_range)
  then show ?thesis by (simp add: extractKeyColumns_def)
qed

section \<open>Placeholders of the statements\<close>

lemma insert_query_placeholders:
  "insert_query schema table columns policy = Some q \<Longrightarrow> placeholders False q = length columns"
  by (auto simp: insert_query_def Let_def backtick_def split: if_splits)

lemma delete_query_placeholders:
  "placeholders False (''DELETE FROM '' @ qualifiedTable s t @ '' WHERE '' @ where_text m) = length (keyOrdinals m)"
  by (simp add: where_text_def backtick_def)

lemma update_query_placeholders:
  "placeholders False (''UPDATE '' @ qualifiedTable s t @ '' SET '' @
      Join (map (\<lambda>c. quoteIdentifier c @ ''=?'') columns) '','' @ '' WHERE '' @ where_text m)
    = length columns + length (keyOrdinals m)"
  by (simp add: where_text_def backtick_def)

section \<open>The statements on well-formed metadata\<close>

lemma buildInsertStatement_Inr:
  assumes "buildInsertStatement s t m row policy = Inr (q, args, keyArgs)"
  shows "args = row \<and> placeholders False q = length row \<and> HasPrefix q ''INSERT ''"
proof -
  from assms have q: "insert_query s t (tm_Columns m) policy = Some q" and "length row = length (tm_Columns m)"
    and "args = row"
    by (auto simp: buildInsertStatement_def bind_result_Inr split: if_splits option.splits)
  moreover have "HasPrefix q ''INSERT ''"
    using q by (auto simp: insert_query_def Let_def split: if_splits)
  ultimately show ?thesis by (simp add: insert_query_placeholders)
qed

lemma buildDeleteStatement_ok:
  assumes "valid_metadata m" and "length row = length (tm_Columns m)"
  shows "buildDeleteStatement s t m row =
    Inr (''DELETE FROM '' @ qualifiedTable s t @ '' WHERE '' @ where_text m, key_of m row, key_of m row)"
  using assms by (simp add: buildDeleteStatement_def extractKeyArgs_ok whereClauseFromRow_ok)

definition update_text :: "string \<Rightarrow> string \<Rightarrow> tableMetadata \<Rightarrow> string" where
  "update_text s t m = ''UPDATE '' @ qualifiedTable s t @ '' SET '' @
     Join (map (\<lambda>c. quoteIdentifier c @ ''=?'') (tm_Columns m)) '','' @ '' WHERE '' @ where_text m"

lemma buildUpdateStatement_ok:
  assumes "valid_metadata m" and "length old = length (tm_Columns m)" and "length new = length (tm_Columns m)"
  shows "buildUpdateStatement s t m old new = Inr (update_text s t m, new @ key_of m old, key_of m old)"
  using assms
  by (simp add: buildUpdateStatement_def extractKeyArgs_ok whereClauseFromRow_ok update_text_def)

lemma buildDeleteStatement_length: "buildDeleteStatement s t m row = Inr x \<Longrightarrow> length row = length (tm_Columns m)"
  by (auto simp: buildDeleteStatement_def split: if_splits)

lemma buildUpdateStatement_length:
  "buildUpdateStatement s t m old new = Inr x \<Longrightarrow> length old = length (tm_Columns m) \<and> length new = length (tm_Columns m)"
  by (auto simp: buildUpdateStatement_def split: if_splits)

lemma length_key_of [simp]: "length (key_of m row) = length (keyOrdinals m)"
  by (simp add: key_of_def)

lemma not_index_error [simp]:
  "EText (''row'' @ s) \<noteq> index_error" "EText (''unsupported'' @ s) \<noteq> index_error"
  "EText (''update'' @ s) \<noteq> index_error" "EFailure f \<noteq> index_error" "count_mismatch s' t a b \<noteq> index_error"
  by (simp_all add: index_error_def count_mismatch_def)

text \<open>An event that the destination can execute: as many arguments as placeholders, a text.\<close>

definition executable_event :: "applyEvent \<Rightarrow> bool" where
  "executable_event ev = (placeholders False (ev_Query ev) = length (ev_Args ev) \<and> TrimSpace (ev_Query ev) \<noteq> '''')"

lemma text_not_blank: "HasPrefix q (c # s) \<Longrightarrow> \<not> is_space c \<Longrightarrow> TrimSpace q \<noteq> ''''"
  by (cases q) (auto simp: TrimSpace_eq_Nil)

lemma map_result_ball:
  assumes "map_result f xs = Inr ys" and "\<And>x y. x \<in> set xs \<Longrightarrow> f x = Inr y \<Longrightarrow> P y"
  shows "\<forall>y \<in> set ys. P y"
  using assms by (auto simp: map_result_Inr list_all2_conv_all_nth in_set_conv_nth) (metis nth_mem)

lemma executable_insert:
  assumes "buildInsertStatement s t m row policy = Inr stmt"
  shows "executable_event (rowApplyEvent e m op rr old new stmt)"
proof -
  obtain q args keyArgs where stmt: "stmt = (q, args, keyArgs)" by (cases stmt)
  with buildInsertStatement_Inr [of s t m row policy q args keyArgs] assms
  have "placeholders False q = length args" and "HasPrefix q ''INSERT ''" by simp_all
  then show ?thesis
    using text_not_blank [of q "CHR ''I''" "''NSERT ''"]
    by (simp add: stmt executable_event_def rowApplyEvent_def is_space_def)
qed

lemma executable_delete:
  assumes "valid_metadata m" and "buildDeleteStatement s t m row = Inr stmt"
  shows "executable_event (rowApplyEvent e m op rr old new stmt)"
proof -
  have "length row = length (tm_Columns m)" using assms(2) by (rule buildDeleteStatement_length)
  with assms have stmt: "stmt = (''DELETE FROM '' @ qualifiedTable s t @ '' WHERE '' @ where_text m, key_of m row, key_of m row)"
    by (simp add: buildDeleteStatement_ok)
  have "TrimSpace (''DELETE FROM '' @ qualifiedTable s t @ '' WHERE '' @ where_text m) \<noteq> ''''"
    by (rule text_not_blank [of _ "CHR ''D''" "''ELETE''"]) (simp_all add: is_space_def)
  then show ?thesis
    unfolding stmt executable_event_def rowApplyEvent_def using delete_query_placeholders [of s t m] by simp
qed

lemma executable_update:
  assumes "valid_metadata m" and "buildUpdateStatement s t m old new = Inr stmt"
  shows "executable_event (rowApplyEvent e m op rr o' n' stmt)"
proof -
  have "length old = length (tm_Columns m)" "length new = length (tm_Columns m)"
    using buildUpdateStatement_length [OF assms(2)] by auto
  with assms have stmt: "stmt = (update_text s t m, new @ key_of m old, key_of m old)" and "length new = length (tm_Columns m)"
    by (simp_all add: buildUpdateStatement_ok)
  have "TrimSpace (update_text s t m) \<noteq> ''''"
    by (rule text_not_blank [of _ "CHR ''U''" "''PDATE''"]) (simp_all add: is_space_def update_text_def)
  moreover have "placeholders False (update_text s t m) = length new + length (keyOrdinals m)"
    unfolding update_text_def update_query_placeholders using \<open>length new = _\<close> by simp
  ultimately show ?thesis
    unfolding stmt executable_event_def rowApplyEvent_def by simp
qed

lemma update_pairs_nth:
  "even (length rows) \<Longrightarrow> update_pairs rows = map (\<lambda>i. (rows ! (2 * i), rows ! (2 * i + 1))) [0..<length rows div 2]"
proof (induction rows rule: update_pairs.induct)
  case (1 oldRow newRow rows)
  have "[0..<length (oldRow # newRow # rows) div 2] = 0 # map Suc [0..<length rows div 2]"
    by (simp add: upt_conv_Cons map_Suc_upt del: upt_Suc)
  with 1 show ?case by (simp del: upt_Suc)
qed auto

section \<open>Properties\<close>

text \<open>A table and an event of it, at which the properties are applied.\<close>

definition example_metadata :: tableMetadata where
  "example_metadata = \<lparr>tm_Columns = [''id'', ''note''], tm_KeyOrdinals = [0], tm_HasForeignKeys = False\<rparr>"

definition example_update :: streamEvent where
  "example_update = \<lparr>se_Kind = streamEventUpdateRows, se_File = ''binlog.000001'', se_Pos = 400,
     se_Timestamp = 0, se_Schema = ''app'', se_Table = ''t'', se_Query = '''',
     se_Rows = [[VInt 1, VString ''a''], [VInt 1, VString ''b'']]\<rparr>"

lemma example_metadata_valid: "valid_metadata example_metadata"
  by (simp add: valid_metadata_def example_metadata_def)

lemma events_executable:
  assumes "valid_metadata m" and "sqlEventsForRows e m policy = Inr out"
  shows "list_all executable_event out"
proof -
  consider "se_Kind e = streamEventWriteRows" | "se_Kind e = streamEventDeleteRows"
    | "se_Kind e = streamEventUpdateRows" | "se_Kind e \<in> {streamEventQuery, streamEventXID}"
    by (cases "se_Kind e") auto
  then have "\<forall>ev \<in> set out. executable_event ev"
  proof cases
    case 1
    with assms(2) show ?thesis
      by (auto simp: sqlEventsForRows_def Let_def bind_result_Inr elim!: map_result_ball [rule_format]
          intro: executable_insert)
  next
    case 2
    with assms show ?thesis
      by (auto simp: sqlEventsForRows_def Let_def bind_result_Inr elim!: map_result_ball [rule_format]
          intro: executable_delete split: if_splits)
  next
    case 3
    with assms show ?thesis
      by (auto simp: sqlEventsForRows_def Let_def bind_result_Inr elim!: map_result_ball [rule_format]
          intro: executable_update split: if_splits prod.splits)
  next
    case 4
    with assms(2) show ?thesis by (auto simp: sqlEventsForRows_def Let_def)
  qed
  then show ?thesis by (simp add: list_all_iff)
qed

text \<open>
  Whatever rows an event carries, on well-formed metadata every statement that it turns
  into is executable: it has exactly as many placeholders as arguments, for any column names, and
  a text that is not blank.
\<close>

theorem sqlEventsForRows_executable:
  assumes "valid_metadata m" and "sqlEventsForRows e m policy = Inr out"
  shows "list_all executable_event out"
  using assms by (rule events_executable)

theorem sqlEventsForRows_executable_witness:
  "\<exists>out. sqlEventsForRows (example_update\<lparr>se_Kind := streamEventWriteRows\<rparr>) example_metadata ''fail'' = Inr out
     \<and> length out = 2 \<and> list_all executable_event out"
proof -
  let ?e = "example_update\<lparr>se_Kind := streamEventWriteRows\<rparr>"
  obtain out where out: "sqlEventsForRows ?e example_metadata ''fail'' = Inr out" and "length out = 2"
    by (simp add: sqlEventsForRows_def example_update_def example_metadata_def buildInsertStatement_def
        insert_query_def Let_def extractKeyArgs_def keyOrdinals_def goIndex_def)
  moreover have "list_all executable_event out"
    using example_metadata_valid out by (rule sqlEventsForRows_executable)
  ultimately show ?thesis by blast
qed

text \<open>
  An update event on a keyed table becomes one statement for each pair of images, in
  order: it sets every column to the new image, finds the row by the key of the old image, and
  must affect a row exactly under the policy fail.
\<close>

theorem sqlEventsForRows_update:
  assumes "se_Kind e = streamEventUpdateRows" and "valid_metadata m" and "tm_KeyOrdinals m \<noteq> []"
    and "even (length (se_Rows e))" and "\<forall>row \<in> set (se_Rows e). length row = length (tm_Columns m)"
  shows "sqlEventsForRows e m policy =
    Inr (map (\<lambda>i. let old = se_Rows e ! (2 * i); new = se_Rows e ! (2 * i + 1)
                   in rowApplyEvent e m ''update'' (policy = ''fail'') old new
                        (update_text (se_Schema e) (se_Table e) m, new @ key_of m old, key_of m old))
           [0..<length (se_Rows e) div 2])"
proof -
  have step: "map_result (\<lambda>(old, new). bind_result (buildUpdateStatement (se_Schema e) (se_Table e) m old new)
        (\<lambda>stmt. Inr (rowApplyEvent e m ''update'' (policy = ''fail'') old new stmt))) (update_pairs (se_Rows e))
    = Inr (map (\<lambda>(old, new). rowApplyEvent e m ''update'' (policy = ''fail'') old new
        (update_text (se_Schema e) (se_Table e) m, new @ key_of m old, key_of m old)) (update_pairs (se_Rows e)))"
  proof (rule map_result_all)
    fix x assume "x \<in> set (update_pairs (se_Rows e))"
    then obtain i where i: "i < length (se_Rows e) div 2" "x = (se_Rows e ! (2 * i), se_Rows e ! (2 * i + 1))"
      using assms(4) by (auto simp: update_pairs_nth)
    then have "se_Rows e ! (2 * i) \<in> set (se_Rows e)" "se_Rows e ! (2 * i + 1) \<in> set (se_Rows e)"
      using assms(4) by (auto intro!: nth_mem)
    with assms(2,5) i(2) show "(case x of (old, new) \<Rightarrow> bind_result (buildUpdateStatement (se_Schema e) (se_Table e) m old new)
        (\<lambda>stmt. Inr (rowApplyEvent e m ''update'' (policy = ''fail'') old new stmt))) =
      Inr (case x of (old, new) \<Rightarrow> rowApplyEvent e m ''update'' (policy = ''fail'') old new
        (update_text (se_Schema e) (se_Table e) m, new @ key_of m old, key_of m old))"
      by (simp add: buildUpdateStatement_ok)
  qed
  have "\<not> length (se_Rows e) mod 2 \<noteq> 0" using assms(4) by presburger
  then have "sqlEventsForRows e m policy =
      map_result (\<lambda>(old, new). bind_result (buildUpdateStatement (se_Schema e) (se_Table e) m old new)
        (\<lambda>stmt. Inr (rowApplyEvent e m ''update'' (policy = ''fail'') old new stmt))) (update_pairs (se_Rows e))"
    using assms(1,3) by (simp add: sqlEventsForRows_def Let_def)
  also note step
  finally show ?thesis
    by (simp add: update_pairs_nth [OF assms(4)] comp_def Let_def)
qed

theorem sqlEventsForRows_update_witness:
  "\<exists>ev. sqlEventsForRows example_update example_metadata ''fail'' = Inr [ev]
     \<and> ev_Args ev = [VInt 1, VString ''b'', VInt 1] \<and> ev_RequireRowsAffected ev"
  using sqlEventsForRows_update [of example_update example_metadata "''fail''"] example_metadata_valid
  by (simp add: example_update_def example_metadata_def rowApplyEvent_def key_of_def keyOrdinals_def Let_def)

lemma indexByColumn_Some:
  assumes "indexByColumn columns k = Some i"
  shows "i < length columns \<and> ToLower (columns ! i) = k"
proof -
  have "(k, i) \<in> set (rev (zip (map ToLower columns) [0..<length columns]))"
    using assms unfolding indexByColumn_def by (rule map_of_SomeD)
  then show ?thesis by (auto simp: in_set_zip)
qed

lemma indexByColumn_defined: "(\<exists>i. indexByColumn columns (ToLower c) = Some i) \<longleftrightarrow> ToLower c \<in> ToLower ` set columns"
proof
  assume "ToLower c \<in> ToLower ` set columns"
  then obtain j where "j < length columns" "ToLower (columns ! j) = ToLower c"
    by (auto simp: in_set_conv_nth)
  then have "ToLower c \<in> fst ` set (rev (zip (map ToLower columns) [0..<length columns]))"
    by (force simp: set_zip)
  then show "\<exists>i. indexByColumn columns (ToLower c) = Some i"
    unfolding indexByColumn_def by (metis map_of_eq_None_iff not_None_eq)
next
  assume "\<exists>i. indexByColumn columns (ToLower c) = Some i"
  then obtain i where "i < length columns" "ToLower (columns ! i) = ToLower c"
    by (auto dest: indexByColumn_Some)
  then show "ToLower c \<in> ToLower ` set columns" by (metis image_eqI nth_mem)
qed

text \<open>
  Metadata read from the information schema is well formed: the key ordinals are in
  range and ascending, and they are the positions of the primary key columns.
\<close>

theorem loadTableMetadata_valid:
  assumes "loadTableMetadata source (Rows columns) (Rows pk) fk schema table = Inr m"
  shows "valid_metadata m \<and> sorted (tm_KeyOrdinals m) \<and> tm_Columns m = columns \<and>
    set (map (\<lambda>i. ToLower (columns ! nat i)) (tm_KeyOrdinals m)) = ToLower ` set pk \<inter> ToLower ` set columns"
proof -
  let ?look = "\<lambda>c. indexByColumn columns (ToLower c)"
  let ?found = "{i. \<exists>c \<in> set pk. ?look c = Some i}"
  have m: "tm_Columns m = columns" "tm_KeyOrdinals m = sort (map int (List.map_filter ?look pk))"
    using assms by (auto simp: loadTableMetadata_def Let_def split: if_splits sum.splits)
  have "set (List.map_filter ?look pk) = ?found"
    by (auto simp: List.map_filter_def intro!: image_eqI)
  then have ordinals: "set (tm_KeyOrdinals m) = int ` ?found"
    by (simp add: m)
  have "(\<lambda>i. ToLower (columns ! i)) ` ?found = {ToLower c |c. c \<in> set pk \<and> (\<exists>i. ?look c = Some i)}"
    using indexByColumn_Some by (fastforce simp: image_iff)
  also have "\<dots> = ToLower ` set pk \<inter> ToLower ` set columns"
    unfolding indexByColumn_defined by blast
  finally have "set (map (\<lambda>i. ToLower (columns ! nat i)) (tm_KeyOrdinals m)) = ToLower ` set pk \<inter> ToLower ` set columns"
    by (simp add: ordinals image_image)
  moreover have "valid_metadata m"
    unfolding valid_metadata_def ordinals m(1) using indexByColumn_Some by fastforce
  ultimately show ?thesis by (simp add: m)
qed

theorem loadTableMetadata_valid_witness:
  "valid_metadata (\<lparr>tm_Columns = [''id'', ''note''], tm_KeyOrdinals = [0], tm_HasForeignKeys = False\<rparr>)
     \<and> loadTableMetadata True (Rows [''id'', ''note'']) (Rows [''ID'']) (Inr 0) ''app'' ''t''
         = Inr \<lparr>tm_Columns = [''id'', ''note''], tm_KeyOrdinals = [0], tm_HasForeignKeys = False\<rparr>"
proof -
  have m: "loadTableMetadata True (Rows [''id'', ''note'']) (Rows [''ID'']) (Inr 0) ''app'' ''t''
      = Inr \<lparr>tm_Columns = [''id'', ''note''], tm_KeyOrdinals = [0], tm_HasForeignKeys = False\<rparr>"
    by (simp add: loadTableMetadata_def List.map_filter_def indexByColumn_def go_string)
  with loadTableMetadata_valid [OF m] show ?thesis by simp
qed

end
