(* ===== verification/Binlog_Position.thy ===== *)
theory Binlog_Position
  imports Go_Prelude
begin

text \<open>
  Positions in the source's binary log (internal/replicate/binlog/load.go, lines 998-1059): how
  two log files are ordered and how a position relates to the end of a replay window. The
  interface that the stream reader relies on is the locale log_order; log_chain adds what holds
  for the files of one server, whose names are a base name and a sequence number.
\<close>

section \<open>The operations\<close>

definition splitBinlogFile :: "string \<Rightarrow> (string \<times> nat) option" where
  "splitBinlogFile name =
     (case LastIndexByte name CHR ''.'' of
        None \<Rightarrow> None
      | Some dot \<Rightarrow>
          (if dot = 0 \<or> length name - 1 \<le> dot then None
           else (case ParseUint (drop (dot + 1) name) 64 of
                   None \<Rightarrow> None
                 | Some number \<Rightarrow> Some (take dot name, number))))"

definition compareBinlogFile :: "string \<Rightarrow> string \<Rightarrow> int" where
  "compareBinlogFile left right =
     (if left = right then 0
      else (case (splitBinlogFile left, splitBinlogFile right) of
              (Some (lPrefix, lNum), Some (rPrefix, rNum)) \<Rightarrow>
                (if lPrefix = rPrefix then (if lNum < rNum then -1 else 1) else Compare left right)
            | _ \<Rightarrow> Compare left right))"

definition positionBefore :: "string \<Rightarrow> u32 \<Rightarrow> string \<Rightarrow> u32 \<Rightarrow> bool" where
  "positionBefore file pos targetFile targetPos =
     (let cmp = compareBinlogFile file targetFile
      in if cmp < 0 then True else if cmp > 0 then False else pos < targetPos)"

definition positionAfter :: "string \<Rightarrow> u32 \<Rightarrow> string \<Rightarrow> u32 \<Rightarrow> bool" where
  "positionAfter file pos targetFile targetPos =
     (let cmp = compareBinlogFile file targetFile
      in if cmp > 0 then True else if cmp < 0 then False else pos > targetPos)"

definition positionReachedOrPassed :: "string \<Rightarrow> u32 \<Rightarrow> string \<Rightarrow> u32 \<Rightarrow> bool" where
  "positionReachedOrPassed file pos targetFile targetPos =
     (let cmp = compareBinlogFile file targetFile
      in if cmp > 0 then True else if cmp < 0 then False else pos \<ge> targetPos)"

section \<open>The interface of the stream reader\<close>

locale log_order =
  fixes before after reached :: "'p \<Rightarrow> 'p \<Rightarrow> bool"
  assumes reached_iff: "reached p q \<longleftrightarrow> \<not> before p q"
    and after_iff: "after p q \<longleftrightarrow> reached p q \<and> p \<noteq> q"
begin

lemma after_reached: "after p q \<Longrightarrow> reached p q"
  by (simp add: after_iff)

lemma reached_cases: "reached p q \<Longrightarrow> p = q \<or> after p q"
  by (auto simp: after_iff)

lemma reached_refl: "\<not> before p p \<Longrightarrow> reached p p"
  by (simp add: reached_iff)

lemma not_after_refl: "\<not> after p p"
  by (simp add: after_iff)

lemma trichotomy: "before p q \<or> p = q \<or> after p q"
  by (auto simp: after_iff reached_iff)

lemma before_not_after: "before p q \<Longrightarrow> \<not> after p q"
  by (simp add: after_iff reached_iff)

end

text \<open>On a set of positions that the code orders by a key, the order is total.\<close>

locale log_chain = log_order before after reached
  for before after reached :: "'p \<Rightarrow> 'p \<Rightarrow> bool" +
  fixes chain :: "'p \<Rightarrow> bool" and key :: "'p \<Rightarrow> nat \<times> nat"
  assumes before_key: "chain p \<Longrightarrow> chain q \<Longrightarrow>
      before p q \<longleftrightarrow> fst (key p) < fst (key q) \<or> (fst (key p) = fst (key q) \<and> snd (key p) < snd (key q))"
    and key_inj: "chain p \<Longrightarrow> chain q \<Longrightarrow> key p = key q \<Longrightarrow> p = q"
begin

lemma before_trans: "chain p \<Longrightarrow> chain q \<Longrightarrow> chain r \<Longrightarrow> before p q \<Longrightarrow> before q r \<Longrightarrow> before p r"
  by (auto simp: before_key)

lemma before_asym: "chain p \<Longrightarrow> chain q \<Longrightarrow> before p q \<Longrightarrow> \<not> before q p"
  by (auto simp: before_key)

lemma after_flip: "chain p \<Longrightarrow> chain q \<Longrightarrow> after p q \<longleftrightarrow> before q p"
proof -
  assume c: "chain p" "chain q"
  have "p \<noteq> q \<longleftrightarrow> key p \<noteq> key q" using key_inj c by auto
  then show ?thesis
    using c by (auto simp: after_iff reached_iff before_key prod_eq_iff)
qed

text \<open>What comes after a position that has reached the end of a window is outside the window.\<close>

lemma beyond: "chain p \<Longrightarrow> chain q \<Longrightarrow> chain r \<Longrightarrow> reached p q \<Longrightarrow> before p r \<Longrightarrow> after r q"
  by (auto simp: after_flip reached_iff before_key)

lemma reached_mono: "chain p \<Longrightarrow> chain q \<Longrightarrow> chain r \<Longrightarrow> reached p q \<Longrightarrow> \<not> before r p \<Longrightarrow> reached r q"
  by (auto simp: reached_iff before_key)

lemma after_trans: "chain p \<Longrightarrow> chain q \<Longrightarrow> chain r \<Longrightarrow> after p q \<Longrightarrow> after q r \<Longrightarrow> after p r"
  by (simp add: after_flip) (rule before_trans)

end

section \<open>Names of one server's log files\<close>

text \<open>
  mysqld names its files with the configured base name, a dot and the sequence number in at
  least six digits.
\<close>

definition pad6 :: "nat \<Rightarrow> string" where
  "pad6 n = (let d = show_nat n in replicate (6 - length d) CHR ''0'' @ d)"

definition binlog_name :: "string \<Rightarrow> nat \<Rightarrow> string" where
  "binlog_name base n = base @ CHR ''.'' # pad6 n"

lemma pad6_digits: "list_all is_digit (pad6 n)"
  using show_nat_digits [of n] by (auto simp: pad6_def Let_def list_all_iff is_digit_def)

lemma pad6_nonempty: "pad6 n \<noteq> []"
  by (simp add: pad6_def Let_def show_nat_nonempty)

lemma dec_value_zeros: "dec_value 0 (replicate k CHR ''0'' @ s) = dec_value 0 s"
  by (induction k) (simp_all add: digit_val_def)

lemma ParseUint_pad6: "n < 2 ^ bits \<Longrightarrow> ParseUint (pad6 n) bits = Some n"
  using pad6_digits [of n] pad6_nonempty [of n]
  by (simp add: ParseUint_def) (simp add: pad6_def Let_def dec_value_zeros dec_value_show_nat)

lemma dot_not_digit: "list_all is_digit s \<Longrightarrow> CHR ''.'' \<notin> set s"
  by (auto simp: list_all_iff is_digit_def)

lemma LastIndexByte_None: "LastIndexByte s b = None \<longleftrightarrow> b \<notin> set s"
  by (induction s) (auto split: option.splits)

lemma LastIndexByte_last: "b \<notin> set t \<Longrightarrow> LastIndexByte (s @ b # t) b = Some (length s)"
  by (induction s) (auto simp: LastIndexByte_None split: option.splits)

lemma splitBinlogFile_name:
  assumes "base \<noteq> []" and "n < 2 ^ 64"
  shows "splitBinlogFile (binlog_name base n) = Some (base, n)"
proof -
  have "LastIndexByte (binlog_name base n) CHR ''.'' = Some (length base)"
    unfolding binlog_name_def by (intro LastIndexByte_last dot_not_digit pad6_digits)
  moreover have "length base < length (binlog_name base n) - 1"
    using pad6_nonempty [of n] by (simp add: binlog_name_def)
  ultimately show ?thesis
    using assms ParseUint_pad6 [of n 64]
    by (simp add: splitBinlogFile_def) (simp add: binlog_name_def)
qed

lemma binlog_name_inject:
  assumes "binlog_name base m = binlog_name base n"
  shows "m = n"
proof -
  have "pad6 m = pad6 n" using assms by (simp add: binlog_name_def)
  then have "dec_value 0 (pad6 m) = dec_value 0 (pad6 n)" by simp
  then show ?thesis by (simp add: pad6_def Let_def dec_value_zeros dec_value_show_nat)
qed

lemma compareBinlogFile_self [simp]: "compareBinlogFile f f = 0"
  by (simp add: compareBinlogFile_def)

lemma compareBinlogFile_eq_0 [simp]: "compareBinlogFile f g = 0 \<longleftrightarrow> f = g"
  by (auto simp: compareBinlogFile_def split: option.splits prod.splits)

lemma compareBinlogFile_name:
  assumes "base \<noteq> []" and "m < 2 ^ 64" and "n < 2 ^ 64"
  shows "compareBinlogFile (binlog_name base m) (binlog_name base n) = (if m = n then 0 else if m < n then -1 else 1)"
  using assms binlog_name_inject [of base m n]
  by (auto simp: compareBinlogFile_def splitBinlogFile_name)

section \<open>The code's order implements the interface\<close>

definition pos_before :: "string \<times> u32 \<Rightarrow> string \<times> u32 \<Rightarrow> bool" where
  "pos_before p q = positionBefore (fst p) (snd p) (fst q) (snd q)"

definition pos_after :: "string \<times> u32 \<Rightarrow> string \<times> u32 \<Rightarrow> bool" where
  "pos_after p q = positionAfter (fst p) (snd p) (fst q) (snd q)"

definition pos_reached :: "string \<times> u32 \<Rightarrow> string \<times> u32 \<Rightarrow> bool" where
  "pos_reached p q = positionReachedOrPassed (fst p) (snd p) (fst q) (snd q)"

lemmas position_defs =
  pos_before_def pos_after_def pos_reached_def
  positionBefore_def positionAfter_def positionReachedOrPassed_def Let_def

interpretation lo: log_order pos_before pos_after pos_reached
proof unfold_locales
  fix p q :: "string \<times> u32"
  show "pos_reached p q \<longleftrightarrow> \<not> pos_before p q"
    by (auto simp: position_defs not_le)
  show "pos_after p q \<longleftrightarrow> pos_reached p q \<and> p \<noteq> q"
  proof (cases "fst p = fst q")
    case True
    then show ?thesis by (auto simp: position_defs prod_eq_iff)
  next
    case False
    then have "compareBinlogFile (fst p) (fst q) \<noteq> 0" by simp
    with False show ?thesis by (auto simp: position_defs)
  qed
qed

text \<open>The positions of a server whose log files have the given base name.\<close>

definition server_pos :: "string \<Rightarrow> string \<times> u32 \<Rightarrow> bool" where
  "server_pos base p = (base \<noteq> [] \<and> (\<exists>n < 2 ^ 64. fst p = binlog_name base n))"

definition pos_key :: "string \<times> u32 \<Rightarrow> nat \<times> nat" where
  "pos_key p = ((case splitBinlogFile (fst p) of None \<Rightarrow> 0 | Some (_, n) \<Rightarrow> n), unat (snd p))"

interpretation server: log_chain pos_before pos_after pos_reached "server_pos base" pos_key
  for base
proof unfold_locales
  fix p q :: "string \<times> u32"
  assume "server_pos base p" and "server_pos base q"
  then obtain m n where mn: "base \<noteq> []" "m < 2 ^ 64" "n < 2 ^ 64"
      "fst p = binlog_name base m" "fst q = binlog_name base n"
    by (auto simp: server_pos_def)
  then have keys: "fst (pos_key p) = m" "fst (pos_key q) = n"
    by (simp_all add: pos_key_def splitBinlogFile_name)
  show "pos_before p q \<longleftrightarrow> fst (pos_key p) < fst (pos_key q) \<or>
      (fst (pos_key p) = fst (pos_key q) \<and> snd (pos_key p) < snd (pos_key q))"
    using mn keys
    by (auto simp: position_defs compareBinlogFile_name pos_key_def word_less_nat_alt)
  show "p = q" if "pos_key p = pos_key q"
    using mn keys that by (auto simp: prod_eq_iff pos_key_def word_unat_eq_iff)
qed

lemmas server_pos_order = server.before_trans server.before_asym server.after_flip server.after_trans

lemma positionReached_not_before:
  "positionReachedOrPassed f p g q = (\<not> positionBefore f p g q)"
  using lo.reached_iff [of "(f, p)" "(g, q)"] by (simp add: pos_reached_def pos_before_def)

section \<open>Properties\<close>

text \<open>
  Claim C35. The positions of one server are ordered by sequence number and then offset: for every
  pair of 64-bit sequence numbers, so also across the change from six to seven digits where the
  lexicographic order of the names is wrong, the three tests of the code are exactly the strict
  order, its converse and its complement.
\<close>

theorem position_order_of_server:
  assumes "base \<noteq> []" and "m < 2 ^ 64" and "n < 2 ^ 64"
  shows "(positionBefore (binlog_name base m) p (binlog_name base n) q \<longleftrightarrow> m < n \<or> (m = n \<and> p < q)) \<and>
    (positionAfter (binlog_name base m) p (binlog_name base n) q \<longleftrightarrow> n < m \<or> (m = n \<and> q < p)) \<and>
    (positionReachedOrPassed (binlog_name base m) p (binlog_name base n) q \<longleftrightarrow> n < m \<or> (m = n \<and> q \<le> p))"
  using assms
  by (auto simp: positionBefore_def positionAfter_def positionReachedOrPassed_def Let_def compareBinlogFile_name)

theorem position_order_of_server_witness:
  "positionBefore (binlog_name ''mysql-bin'' 999999) 900 (binlog_name ''mysql-bin'' 1000000) 4"
  using position_order_of_server [of "''mysql-bin''" 999999 1000000 900 4] by simp

text \<open>
  The order of the code is not antisymmetric on names that mysqld does not produce: two
  different names with the same sequence number are each after the other.
\<close>

theorem compareBinlogFile_padding_not_antisymmetric:
  "compareBinlogFile ''bin.1'' ''bin.01'' = 1 \<and> compareBinlogFile ''bin.01'' ''bin.1'' = 1"
  by (simp add: compareBinlogFile_def splitBinlogFile_def go_string)

end
