(* ===== verification/Binlog_Types.thy ===== *)
theory Binlog_Types
  imports Row_Events Binlog_Position
begin

text \<open>
  The options, the replay window and the results of a replication run
  (internal/replicate/binlog/run.go, lines 20-76 and 810-814) with the checks of the options that
  Run and buildApplyBatches share (lines 307-330).
\<close>

record Options =
  op_ApplyDDL :: string
  op_ConflictPolicy :: string
  op_ConflictValues :: string
  op_MaxEvents :: u64
  op_MaxLagSeconds :: u64
  op_SourceServerID :: u32
  op_Idempotent :: bool
  op_Resume :: bool
  op_StartFile :: string
  op_StartPos :: u32
  op_GTIDSet :: string
  op_SourceDSN :: string
  op_SourceTLSMode :: string
  op_SourceCAFile :: string
  op_SourceCertFile :: string
  op_SourceKeyFile :: string
  op_RateLimit :: int
  op_ExcludeTables :: "string set"

text \<open>The zero value of the options.\<close>

definition emptyOptions :: Options where
  "emptyOptions = \<lparr>op_ApplyDDL = '''', op_ConflictPolicy = '''', op_ConflictValues = '''', op_MaxEvents = 0,
     op_MaxLagSeconds = 0, op_SourceServerID = 0, op_Idempotent = False, op_Resume = False,
     op_StartFile = '''', op_StartPos = 0, op_GTIDSet = '''', op_SourceDSN = '''', op_SourceTLSMode = '''',
     op_SourceCAFile = '''', op_SourceCertFile = '''', op_SourceKeyFile = '''', op_RateLimit = 0,
     op_ExcludeTables = {}\<rparr>"

record applyWindow =
  aw_StartFile :: string
  aw_StartPos :: u32
  aw_EndFile :: string
  aw_EndPos :: u32
  aw_GTIDSet :: string

record applyResult =
  ar_File :: string
  ar_Pos :: u32
  ar_AppliedEvents :: u64
  ar_Shape :: ReplicationTransactionShape

record destinationCheckpoint =
  dcp_File :: string
  dcp_Pos :: u32
  dcp_ApplyDDL :: string

record Summary =
  su_CheckpointFile :: string
  su_ApplyDDL :: string
  su_ConflictPolicy :: string
  su_SourceLogBin :: bool
  su_SourceFormat :: string
  su_SourceRowImage :: string
  su_StartFile :: string
  su_StartPos :: u32
  su_GTIDSet :: string
  su_SourceEndFile :: string
  su_SourceEndPos :: u32
  su_EndFile :: string
  su_EndPos :: u32
  su_AppliedEvents :: u64
  su_Shape :: ReplicationTransactionShape

definition validateApplyDDL :: "string \<Rightarrow> go_error option" where
  "validateApplyDDL value' =
     (if value' \<in> {''ignore'', ''apply'', ''warn''} then None
      else Some (EText (''invalid apply-ddl value '' @ go_quote value' @ '' (expected ignore, apply, or warn)'')))"

definition validateConflictPolicy :: "string \<Rightarrow> go_error option" where
  "validateConflictPolicy value' =
     (if value' \<in> {''fail'', ''source-wins'', ''dest-wins''} then None
      else Some (EText (''invalid conflict-policy value '' @ go_quote value' @ '' (expected fail, source-wins, or dest-wins)'')))"

end
