(* ===== verification/Ddl_Class.thy ===== *)
theory Ddl_Class
  imports Go_Prelude
begin

text \<open>
  Which statements of the source's binary log are schema changes and which of these are applied
  without review (classifyDDL in internal/replicate/binlog/load.go, lines 854-901). The code
  searches the upper-cased text for words between single spaces; classify_tokens is the intended
  classification by words, and the two agree on statements whose words are separated by single
  spaces. On other statements the code can take a destructive change for a safe one.
\<close>

section \<open>The classifier\<close>

datatype ddlClassification = ddlClassSafe | ddlClassRisky

text \<open>None: the query is no schema change.\<close>

definition classifyDDL :: "string \<Rightarrow> ddlClassification option" where
  "classifyDDL query =
     (let trimmed = TrimSpace query
      in if trimmed = '''' then None
         else (case Fields trimmed of
                 [] \<Rightarrow> None
               | part # _ \<Rightarrow>
                   (let first = ToUpper part;
                        normalized = '' '' @ ToUpper trimmed @ '' ''
                    in if first \<notin> {''CREATE'', ''ALTER'', ''DROP'', ''TRUNCATE'', ''RENAME''} then None
                       else if first \<in> {''DROP'', ''TRUNCATE'', ''RENAME''} then Some ddlClassRisky
                       else if first = ''CREATE'' then
                         (if Contains normalized '' OR REPLACE '' then Some ddlClassRisky else Some ddlClassSafe)
                       else
                         (if Contains normalized '' DROP '' \<or> Contains normalized '' MODIFY '' \<or>
                             Contains normalized '' CHANGE '' \<or> Contains normalized '' RENAME ''
                          then Some ddlClassRisky
                          else if Contains normalized '' ADD '' then Some ddlClassSafe
                          else Some ddlClassRisky))))"

section \<open>Classification by words\<close>

fun adjacent :: "'a \<Rightarrow> 'a \<Rightarrow> 'a list \<Rightarrow> bool" where
  "adjacent a b (x # y # xs) = ((x = a \<and> y = b) \<or> adjacent a b (y # xs))"
| "adjacent a b xs = False"

definition classify_tokens :: "string list \<Rightarrow> ddlClassification option" where
  "classify_tokens toks =
     (case toks of
        [] \<Rightarrow> None
      | first # _ \<Rightarrow>
          (if first \<in> {''DROP'', ''TRUNCATE'', ''RENAME''} then Some ddlClassRisky
           else if first = ''CREATE'' then
             (if adjacent ''OR'' ''REPLACE'' toks then Some ddlClassRisky else Some ddlClassSafe)
           else if first = ''ALTER'' then
             (if set toks \<inter> {''DROP'', ''MODIFY'', ''CHANGE'', ''RENAME''} \<noteq> {} then Some ddlClassRisky
              else if ''ADD'' \<in> set toks then Some ddlClassSafe else Some ddlClassRisky)
           else None))"

text \<open>A word: not empty and without a space.\<close>

definition word_token :: "string \<Rightarrow> bool" where
  "word_token w = (w \<noteq> [] \<and> CHR 0x20 \<notin> set w)"

text \<open>The text of a list of words, each followed by one space, after a leading space.\<close>

fun spaced :: "string list \<Rightarrow> string" where
  "spaced [] = '' ''"
| "spaced (w # ws) = CHR 0x20 # w @ spaced ws"

lemma spaced_Join: "toks \<noteq> [] \<Longrightarrow> '' '' @ Join toks '' '' @ '' '' = spaced toks"
  by (induction toks rule: induct_list012) auto

lemma spaced_hd: "\<exists>r. spaced toks = CHR 0x20 # r"
  by (cases toks) auto

lemma append_space_inject:
  assumes "w @ CHR 0x20 # r = t @ CHR 0x20 # r'" and "CHR 0x20 \<notin> set w" and "CHR 0x20 \<notin> set t"
  shows "w = t \<and> r = r'"
  using assms
proof (induction w arbitrary: t)
  case Nil
  then show ?case by (cases t) auto
next
  case (Cons c w)
  then show ?case by (cases t) auto
qed

lemma HasPrefix_spaced:
  assumes "list_all word_token toks" and "list_all word_token ws"
  shows "HasPrefix (spaced toks) (spaced ws) \<longleftrightarrow> (\<exists>v. toks = ws @ v)"
  using assms
proof (induction ws arbitrary: toks)
  case Nil
  then show ?case using spaced_hd [of toks] by (auto simp: HasPrefix_iff)
next
  case (Cons w ws)
  show ?case
  proof (cases toks)
    case Nil
    with Cons.prems show ?thesis
      using spaced_hd [of ws] by (auto simp: HasPrefix_iff word_token_def append_eq_Cons_conv)
  next
    case (Cons t ts)
    obtain r r' where sp: "spaced ts = CHR 0x20 # r" "spaced ws = CHR 0x20 # r'"
      using spaced_hd by blast
    have IH: "HasPrefix (spaced ts) (spaced ws) \<longleftrightarrow> (\<exists>v. ts = ws @ v)"
      using Cons.IH [of ts] Cons.prems \<open>toks = t # ts\<close> by simp
    have toks: "CHR 0x20 \<notin> set t" "CHR 0x20 \<notin> set w"
      using Cons.prems \<open>toks = t # ts\<close> by (auto simp: word_token_def)
    have "HasPrefix (spaced (t # ts)) (spaced (w # ws)) \<longleftrightarrow> t = w \<and> HasPrefix (spaced ts) (spaced ws)"
      using append_space_inject [OF _ toks] sp by (fastforce simp: HasPrefix_iff)
    with IH show ?thesis using \<open>toks = t # ts\<close> by auto
  qed
qed

lemma Contains_skip:
  assumes "CHR 0x20 \<notin> set t"
  shows "Contains (t @ s) (CHR 0x20 # p) = Contains s (CHR 0x20 # p)"
  using assms by (induction t) auto

lemma not_Contains_space:
  assumes "list_all word_token ws" and "ws \<noteq> []"
  shows "\<not> Contains '' '' (spaced ws)"
proof -
  obtain w ws' where ws: "ws = w # ws'" using assms(2) by (cases ws) auto
  with assms(1) obtain c w' where "w = c # w'" by (cases w) (auto simp: word_token_def)
  with ws show ?thesis by simp
qed

lemma Contains_spaced:
  assumes "list_all word_token toks" and "list_all word_token ws" and "ws \<noteq> []"
  shows "Contains (spaced toks) (spaced ws) \<longleftrightarrow> (\<exists>u v. toks = u @ ws @ v)"
  using assms(1)
proof (induction toks)
  case Nil
  then show ?case using not_Contains_space [OF assms(2,3)] assms(3) by (simp only: spaced.simps append_Nil2) simp
next
  case (Cons t ts)
  obtain p where p: "spaced ws = CHR 0x20 # p" using spaced_hd by blast
  have t: "CHR 0x20 \<notin> set t" using Cons.prems by (simp add: word_token_def)
  have "Contains (spaced (t # ts)) (spaced ws) \<longleftrightarrow>
      HasPrefix (spaced (t # ts)) (spaced ws) \<or> Contains (t @ spaced ts) (spaced ws)"
    by simp
  also have "Contains (t @ spaced ts) (spaced ws) = Contains (spaced ts) (spaced ws)"
    using Contains_skip [OF t] p by simp
  also have "HasPrefix (spaced (t # ts)) (spaced ws) \<longleftrightarrow> (\<exists>v. t # ts = ws @ v)"
    using HasPrefix_spaced [of "t # ts" ws] Cons.prems assms(2) by blast
  also have "Contains (spaced ts) (spaced ws) \<longleftrightarrow> (\<exists>u v. ts = u @ ws @ v)"
    using Cons by simp
  finally show ?case
    by (metis append_Cons append_Nil neq_Nil_conv list.sel(3))
qed

lemma Contains_word:
  assumes "list_all word_token toks" and "word_token w"
  shows "Contains (spaced toks) (CHR 0x20 # w @ '' '') \<longleftrightarrow> w \<in> set toks"
  using Contains_spaced [of toks "[w]"] assms by (auto simp: in_set_conv_decomp)

lemma adjacent_Cons: "adjacent a b (x # xs) \<longleftrightarrow> (x = a \<and> (\<exists>ys. xs = b # ys)) \<or> adjacent a b xs"
  by (cases xs) auto

lemma adjacent_iff: "adjacent a b xs \<longleftrightarrow> (\<exists>u v. xs = u @ [a, b] @ v)"
proof (induction xs)
  case Nil
  then show ?case by simp
next
  case (Cons x xs)
  have "(\<exists>u v. x # xs = u @ [a, b] @ v) \<longleftrightarrow>
      (\<exists>v. x # xs = [a, b] @ v) \<or> (\<exists>u v. xs = u @ [a, b] @ v)"
    by (metis append_Cons append_Nil list.inject neq_Nil_conv)
  with Cons.IH show ?case by (auto simp: adjacent_Cons)
qed

section \<open>The words of a statement\<close>

lemma fields_aux_tokens:
  "\<forall>c \<in> set acc. \<not> is_space c \<Longrightarrow> w \<in> set (fields_aux acc s) \<Longrightarrow> w \<noteq> [] \<and> (\<forall>c \<in> set w. \<not> is_space c)"
proof (induction s arbitrary: acc)
  case Nil
  then show ?case by (simp split: if_splits)
next
  case (Cons c s)
  show ?case
  proof (cases "is_space c")
    case True
    with Cons.prems(2) consider "w = rev acc" "acc \<noteq> []" | "w \<in> set (fields_aux [] s)"
      by (auto split: if_splits)
    then show ?thesis
    proof cases
      case 1
      with Cons.prems(1) show ?thesis by simp
    next
      case 2
      show ?thesis by (rule Cons.IH [OF _ 2]) simp
    qed
  next
    case False
    with Cons.prems have "\<forall>d \<in> set (c # acc). \<not> is_space d" and "w \<in> set (fields_aux (c # acc) s)"
      by simp_all
    then show ?thesis by (rule Cons.IH)
  qed
qed

lemma Fields_tokens: "w \<in> set (Fields s) \<Longrightarrow> w \<noteq> [] \<and> (\<forall>c \<in> set w. \<not> is_space c)"
  unfolding Fields_def by (rule fields_aux_tokens) auto

lemma upper_char_space: "upper_char c = CHR 0x20 \<longleftrightarrow> c = CHR 0x20"
proof -
  have sp: "d = CHR 0x20 \<longleftrightarrow> (of_char d :: nat) = 32" for d :: char
    using of_char_eq_iff [of d "CHR 0x20", where 'a = nat] by simp
  have "(of_char (upper_char c) :: nat) = 32 \<longleftrightarrow> (of_char c :: nat) = 32"
    by (auto simp: upper_char_def Let_def of_char_of)
  then show ?thesis using sp by blast
qed

lemma word_token_ToUpper: "w \<in> set (Fields s) \<Longrightarrow> word_token (ToUpper w)"
proof -
  assume "w \<in> set (Fields s)"
  then have w: "w \<noteq> []" "\<forall>c \<in> set w. \<not> is_space c" by (auto dest: Fields_tokens)
  have "is_space (CHR 0x20)" by (simp add: is_space_def)
  with w(2) have "CHR 0x20 \<notin> set w" by blast
  then have "CHR 0x20 \<notin> set (map upper_char w)"
    unfolding set_map by (metis imageE upper_char_space)
  with w(1) show ?thesis by (simp add: word_token_def ToUpper_def)
qed

lemma ToUpper_Join: "ToUpper (Join ws '' '') = Join (map ToUpper ws) '' ''"
  by (induction ws rule: induct_list012) (auto simp: ToUpper_def upper_char_space)

section \<open>Properties\<close>

text \<open>A statement whose words are separated by single spaces.\<close>

definition single_spaced :: "string \<Rightarrow> bool" where
  "single_spaced q = (TrimSpace q = Join (Fields (TrimSpace q)) '' '')"

text \<open>
  On a statement whose words are separated by single spaces the text search of the code
  is the classification by words: DROP, TRUNCATE and RENAME are risky, CREATE is safe unless it
  replaces, ALTER is safe exactly when it adds and neither drops, modifies, changes nor renames.
\<close>

theorem classifyDDL_by_words:
  assumes "single_spaced q"
  shows "classifyDDL q = classify_tokens (map ToUpper (Fields (TrimSpace q)))"
proof (cases "Fields (TrimSpace q)")
  case Nil
  then show ?thesis by (simp add: classifyDDL_def classify_tokens_def Let_def)
next
  case (Cons part rest)
  let ?toks = "map ToUpper (Fields (TrimSpace q))"
  have words: "list_all word_token ?toks"
    using word_token_ToUpper [of _ "TrimSpace q"] by (auto simp: list_all_iff)
  have trimmed: "TrimSpace q = Join (Fields (TrimSpace q)) '' ''"
    using assms by (simp only: single_spaced_def)
  have ne: "TrimSpace q \<noteq> []"
    using Cons by (auto simp: Fields_def)
  define N where "N = '' '' @ ToUpper (TrimSpace q) @ '' ''"
  define F where "F = ToUpper part"
  define R where "R = map ToUpper rest"
  have toks: "?toks = F # R" by (simp only: F_def R_def Cons list.map)
  have N: "N = spaced (F # R)"
    unfolding N_def using trimmed toks spaced_Join [of "F # R"] by (metis ToUpper_Join list.distinct(1))
  have two: "Contains N '' OR REPLACE '' \<longleftrightarrow> adjacent ''OR'' ''REPLACE'' (F # R)"
    unfolding N using Contains_spaced [of "F # R" "[''OR'', ''REPLACE'']"] words toks
    by (simp add: adjacent_iff word_token_def)
  have one: "Contains N (CHR 0x20 # w @ '' '') \<longleftrightarrow> w = F \<or> w \<in> set R" if "word_token w" for w
    unfolding N using Contains_word [of "F # R" w] words toks that by simp
  note members = one [of "''DROP''"] one [of "''MODIFY''"] one [of "''CHANGE''"]
    one [of "''RENAME''"] one [of "''ADD''"]
  have "classifyDDL q =
     (if F \<notin> {''CREATE'', ''ALTER'', ''DROP'', ''TRUNCATE'', ''RENAME''} then None
      else if F \<in> {''DROP'', ''TRUNCATE'', ''RENAME''} then Some ddlClassRisky
      else if F = ''CREATE'' then
        (if Contains N '' OR REPLACE '' then Some ddlClassRisky else Some ddlClassSafe)
      else
        (if Contains N '' DROP '' \<or> Contains N '' MODIFY '' \<or> Contains N '' CHANGE '' \<or> Contains N '' RENAME ''
         then Some ddlClassRisky
         else if Contains N '' ADD '' then Some ddlClassSafe else Some ddlClassRisky))"
    by (simp only: classifyDDL_def Let_def N_def F_def Cons ne if_False list.case)
  also have "\<dots> = classify_tokens (F # R)"
    using members two by (auto simp: classify_tokens_def word_token_def)
  finally show ?thesis by (simp only: toks)
qed

theorem classifyDDL_by_words_witness:
  "classifyDDL ''alter table t add c int'' = Some ddlClassSafe \<and>
   classifyDDL ''ALTER TABLE t DROP c'' = Some ddlClassRisky"
proof -
  have "single_spaced ''alter table t add c int''" "single_spaced ''ALTER TABLE t DROP c''"
    by (simp_all add: single_spaced_def go_string)
  from this [THEN classifyDDL_by_words] show ?thesis
    by (simp add: classify_tokens_def go_string)
qed

text \<open>
  The search for words between spaces misses a destructive clause that follows a comma or
  a line break: each of these statements drops a column and is classified as safe, so it is
  applied under the option that applies safe schema changes only.
\<close>

theorem classifyDDL_misses_drop:
  "classifyDDL ''ALTER TABLE t ADD a INT,DROP b'' = Some ddlClassSafe \<and>
   classifyDDL (''ALTER TABLE t ADD a INT,'' @ [CHR 0x0A] @ ''DROP COLUMN b'') = Some ddlClassSafe \<and>
   classifyDDL (''CREATE OR'' @ [CHR 0x09] @ ''REPLACE TABLE t (a INT)'') = Some ddlClassSafe"
  by (simp add: classifyDDL_def go_string Let_def)

end
