(* ===== verification/Apply_Batches.thy ===== *)
theory Apply_Batches
  imports Binlog_Types Ddl_Class "HOL-Library.Sublist"
begin

text \<open>
  How the events of a replay window become batches, one for each transaction of the source
  (buildApplyBatches and unsafeDDLWindowFailure in internal/replicate/binlog/load.go, lines
  300-487). The loader of a table's metadata is a parameter. batch_step is one pass through the
  loop of the code; its state holds the variables of the loop. The function committed cuts a
  window into its committed transactions, and the lemmas show that the batches are exactly the
  statements of these transactions, in the order of the log.
\<close>

section \<open>The loop\<close>

record batchState =
  bs_cache :: "string \<rightharpoonup> tableMetadata"
  bs_pending :: "applyEvent list"
  bs_pendingFile :: string
  bs_pendingPos :: u32
  bs_batches :: "applyBatch list"
  bs_firstDDL :: "streamEvent option"
  bs_firstRow :: "streamEvent option"

definition initialBatchState :: batchState where
  "initialBatchState = \<lparr>bs_cache = Map.empty, bs_pending = [], bs_pendingFile = '''', bs_pendingPos = 0,
     bs_batches = [], bs_firstDDL = None, bs_firstRow = None\<rparr>"

definition at_position :: "string \<Rightarrow> u32 \<Rightarrow> string" where
  "at_position file pos = file @ '':'' @ show_nat (unat pos)"

definition unsafeDDLWindowFailure :: "streamEvent \<Rightarrow> streamEvent \<Rightarrow> go_error" where
  "unsafeDDLWindowFailure ddlEvent rowEvent =
     EFailure (emptyFailure\<lparr>
       af_FailureType := ''ddl_window_unsafe_live_metadata'', af_File := se_File rowEvent,
       af_Pos := se_Pos rowEvent, af_Operation := ''transaction'',
       af_TableName := se_Schema rowEvent @ ''.'' @ se_Table rowEvent, af_Query := se_Query ddlEvent,
       af_Message := ''unsafe replication window mixes DDL ('' @ at_position (se_File ddlEvent) (se_Pos ddlEvent)
         @ '') with row events ('' @ at_position (se_File rowEvent) (se_Pos rowEvent)
         @ ''); v1 replay uses live metadata and cannot guarantee correct row mapping'',
       af_Remediation := ''split replay window at DDL boundaries, run migrate --schema-only to align schema, then rerun replicate from checkpoint''\<rparr>)"

definition unsupported_query_failure :: "streamEvent \<Rightarrow> go_error" where
  "unsupported_query_failure event =
     EFailure (emptyFailure\<lparr>
       af_FailureType := ''unsupported_query_event'', af_File := se_File event, af_Pos := se_Pos event,
       af_Operation := ''query'', af_Query := se_Query event,
       af_Message := ''unsupported query event '' @ go_quote (se_Query event) @ '' at ''
         @ at_position (se_File event) (se_Pos event) @ '' under ROW replication'',
       af_Remediation := ''run migrate --schema-only to align schema changes, then rerun replicate''\<rparr>)"

definition ddl_blocked_failure :: "streamEvent \<Rightarrow> go_error" where
  "ddl_blocked_failure event =
     EFailure (emptyFailure\<lparr>
       af_FailureType := ''ddl_blocked'', af_File := se_File event, af_Pos := se_Pos event,
       af_Operation := ''ddl'', af_TableName := se_Schema event, af_Query := se_Query event,
       af_Message := ''ddl encountered at '' @ at_position (se_File event) (se_Pos event)
         @ '' while --apply-ddl=warn: '' @ se_Query event,
       af_Remediation := ''rerun with --apply-ddl=ignore and apply vetted DDL separately with migrate --schema-only''\<rparr>)"

fun ddlClass_text :: "ddlClassification \<Rightarrow> string" where
  "ddlClass_text ddlClassSafe = ''safe''"
| "ddlClass_text ddlClassRisky = ''risky''"

definition ddl_risky_failure :: "streamEvent \<Rightarrow> ddlClassification \<Rightarrow> go_error" where
  "ddl_risky_failure event ddlClass =
     EFailure (emptyFailure\<lparr>
       af_FailureType := ''ddl_risky_blocked'', af_File := se_File event, af_Pos := se_Pos event,
       af_Operation := ''ddl'', af_TableName := se_Schema event, af_Query := se_Query event,
       af_Message := ''risky ddl blocked at '' @ at_position (se_File event) (se_Pos event)
         @ '' under --apply-ddl=apply ('' @ ddlClass_text ddlClass @ ''): '' @ se_Query event,
       af_Remediation := ''rerun with --apply-ddl=ignore and execute schema changes via migrate --schema-only after review''\<rparr>)"

definition incomplete_transaction_failure :: "string \<Rightarrow> u32 \<Rightarrow> go_error" where
  "incomplete_transaction_failure file pos =
     EFailure (emptyFailure\<lparr>
       af_FailureType := ''incomplete_transaction'', af_File := file, af_Pos := pos,
       af_Operation := ''transaction'',
       af_Message := ''incomplete transaction at '' @ at_position file pos
         @ ''; commit not observed before window end'',
       af_Remediation := ''increase replication window or rerun replicate from previous checkpoint so full transaction can be consumed''\<rparr>)"

definition batch_at :: "streamEvent \<Rightarrow> applyEvent list \<Rightarrow> applyBatch" where
  "batch_at event events =
     \<lparr>ab_EndFile = se_File event, ab_EndPos = se_Pos event, ab_EndTimestamp = se_Timestamp event,
      ab_Events = events\<rparr>"

definition clear_pending :: "batchState \<Rightarrow> batchState" where
  "clear_pending s = s\<lparr>bs_pending := [], bs_pendingFile := '''', bs_pendingPos := 0\<rparr>"

definition commit_pending :: "streamEvent \<Rightarrow> batchState \<Rightarrow> batchState" where
  "commit_pending event s =
     (if bs_pending s = [] then s
      else clear_pending (s\<lparr>bs_batches := bs_batches s @ [batch_at event (bs_pending s)]\<rparr>))"

definition ddlApplyEvent :: "streamEvent \<Rightarrow> applyEvent" where
  "ddlApplyEvent event =
     \<lparr>ev_Query = se_Query event, ev_Args = [], ev_RowColumns = [], ev_OldRowArgs = [], ev_NewRowArgs = [],
      ev_KeyColumns = [], ev_KeyArgs = [], ev_Operation = ''ddl'', ev_TableName = se_Schema event,
      ev_UsesFallbackKey = False, ev_HasForeignKeys = False, ev_RequireRowsAffected = False\<rparr>"

definition ddl_step :: "Options \<Rightarrow> streamEvent \<Rightarrow> batchState \<Rightarrow> go_error + batchState" where
  "ddl_step opts event s =
     (case classifyDDL (se_Query event) of
        None \<Rightarrow> Inl (unsupported_query_failure event)
      | Some ddlClass \<Rightarrow>
          (case bs_firstRow s of
             Some rowEvent \<Rightarrow> Inl (unsafeDDLWindowFailure event rowEvent)
           | None \<Rightarrow>
               (let s = (if bs_firstDDL s = None then s\<lparr>bs_firstDDL := Some event\<rparr> else s)
                in if op_ApplyDDL opts = ''ignore'' then Inr s
                   else if op_ApplyDDL opts = ''warn'' then Inl (ddl_blocked_failure event)
                   else if op_ApplyDDL opts = ''apply'' then
                     (if ddlClass \<noteq> ddlClassSafe then Inl (ddl_risky_failure event ddlClass)
                      else Inr (s\<lparr>bs_batches := bs_batches s @ [batch_at event [ddlApplyEvent event]]\<rparr>))
                   else Inl (EText (''unsupported apply-ddl value '' @ go_quote (op_ApplyDDL opts))))))"

definition excluded :: "Options \<Rightarrow> streamEvent \<Rightarrow> bool" where
  "excluded opts event =
     (op_ExcludeTables opts \<noteq> {} \<and>
      ToLower (se_Schema event) @ ''.'' @ ToLower (se_Table event) \<in> op_ExcludeTables opts)"

definition row_step ::
  "(string \<Rightarrow> string \<Rightarrow> go_error + tableMetadata) \<Rightarrow> Options \<Rightarrow> string \<Rightarrow> streamEvent \<Rightarrow> batchState \<Rightarrow> go_error + batchState" where
  "row_step load opts conflictPolicy event s =
     (if excluded opts event then Inr s
      else
        let s = (if bs_firstRow s = None then s\<lparr>bs_firstRow := Some event\<rparr> else s)
        in (case bs_firstDDL s of
              Some ddlEvent \<Rightarrow> Inl (unsafeDDLWindowFailure ddlEvent event)
            | None \<Rightarrow>
                bind_result
                  (case bs_cache s (tableKey (se_Schema event) (se_Table event)) of
                     Some metadata \<Rightarrow> Inr (metadata, s)
                   | None \<Rightarrow>
                       bind_result (load (se_Schema event) (se_Table event)) (\<lambda>loaded.
                         Inr (loaded, s\<lparr>bs_cache := (bs_cache s)(tableKey (se_Schema event) (se_Table event) \<mapsto> loaded)\<rparr>)))
                  (\<lambda>(metadata, s).
                    bind_result (sqlEventsForRows event metadata conflictPolicy) (\<lambda>sqlEvents.
                      Inr (s\<lparr>bs_pending := bs_pending s @ sqlEvents, bs_pendingFile := se_File event,
                             bs_pendingPos := se_Pos event\<rparr>)))))"

definition batch_step ::
  "(string \<Rightarrow> string \<Rightarrow> go_error + tableMetadata) \<Rightarrow> Options \<Rightarrow> string \<Rightarrow> streamEvent \<Rightarrow> batchState \<Rightarrow> go_error + batchState" where
  "batch_step load opts conflictPolicy event s =
     (case se_Kind event of
        streamEventQuery \<Rightarrow>
          (let queryUpper = ToUpper (TrimSpace (se_Query event))
           in if queryUpper = '''' \<or> queryUpper = ''BEGIN'' then Inr s
              else if queryUpper = ''COMMIT'' then Inr (commit_pending event s)
              else if queryUpper = ''ROLLBACK'' then Inr (clear_pending s)
              else ddl_step opts event s)
      | streamEventXID \<Rightarrow> Inr (commit_pending event s)
      | _ \<Rightarrow> row_step load opts conflictPolicy event s)"

fun batch_loop ::
  "(string \<Rightarrow> string \<Rightarrow> go_error + tableMetadata) \<Rightarrow> Options \<Rightarrow> string \<Rightarrow> streamEvent list \<Rightarrow> batchState \<Rightarrow> go_error + batchState" where
  "batch_loop load opts conflictPolicy [] s = Inr s"
| "batch_loop load opts conflictPolicy (event # events) s =
     bind_result (batch_step load opts conflictPolicy event s) (batch_loop load opts conflictPolicy events)"

definition buildApplyBatches ::
  "(string \<Rightarrow> string \<Rightarrow> go_error + tableMetadata) \<Rightarrow> streamEvent list \<Rightarrow> Options \<Rightarrow> go_error + applyBatch list" where
  "buildApplyBatches load events opts =
     (let conflictPolicy = normalizeConflictPolicy (op_ConflictPolicy opts)
      in (case validateConflictPolicy conflictPolicy of
            Some e \<Rightarrow> Inl e
          | None \<Rightarrow>
              bind_result (batch_loop load opts conflictPolicy events initialBatchState) (\<lambda>s.
                if bs_pending s \<noteq> [] then Inl (incomplete_transaction_failure (bs_pendingFile s) (bs_pendingPos s))
                else Inr (bs_batches s))))"



section \<open>The events of a window by their role\<close>

datatype eventRole = Skipped | Commits | RollsBack | SchemaChange | RowChange

definition event_role :: "Options \<Rightarrow> streamEvent \<Rightarrow> eventRole" where
  "event_role opts event =
     (case se_Kind event of
        streamEventQuery \<Rightarrow>
          (let queryUpper = ToUpper (TrimSpace (se_Query event))
           in if queryUpper = '''' \<or> queryUpper = ''BEGIN'' then Skipped
              else if queryUpper = ''COMMIT'' then Commits
              else if queryUpper = ''ROLLBACK'' then RollsBack
              else SchemaChange)
      | streamEventXID \<Rightarrow> Commits
      | _ \<Rightarrow> if excluded opts event then Skipped else RowChange)"

lemma row_step_excluded: "excluded opts e \<Longrightarrow> row_step load opts p e s = Inr s"
  by (simp add: row_step_def)

lemma batch_step_role:
  "batch_step load opts p e s =
     (case event_role opts e of
        Skipped \<Rightarrow> Inr s | Commits \<Rightarrow> Inr (commit_pending e s) | RollsBack \<Rightarrow> Inr (clear_pending s)
      | SchemaChange \<Rightarrow> ddl_step opts e s | RowChange \<Rightarrow> row_step load opts p e s)"
  by (cases "se_Kind e"; cases "excluded opts e")
    (simp_all add: batch_step_def event_role_def Let_def row_step_excluded)

lemma event_role_RowChange:
  "event_role opts e = RowChange \<longleftrightarrow>
     se_Kind e \<in> {streamEventWriteRows, streamEventUpdateRows, streamEventDeleteRows} \<and> \<not> excluded opts e"
  by (cases "se_Kind e") (simp_all add: event_role_def Let_def)

text \<open>
  The committed transactions of a window: the row events of each with the event that commits it,
  and the row events that are left without a commit. A rollback forgets the open transaction.
\<close>

fun committed ::
  "Options \<Rightarrow> streamEvent list \<Rightarrow> streamEvent list \<Rightarrow> (streamEvent list \<times> streamEvent) list \<times> streamEvent list" where
  "committed opts acc [] = ([], acc)"
| "committed opts acc (e # es) =
     (case event_role opts e of
        Commits \<Rightarrow> (case committed opts [] es of (txs, rest) \<Rightarrow> ((acc, e) # txs, rest))
      | RollsBack \<Rightarrow> committed opts [] es
      | RowChange \<Rightarrow> committed opts (acc @ [e]) es
      | _ \<Rightarrow> committed opts acc es)"

definition tx_batches :: "(streamEvent \<Rightarrow> applyEvent list) \<Rightarrow> (streamEvent list \<times> streamEvent) list \<Rightarrow> applyBatch list" where
  "tx_batches stmts txs =
     map (\<lambda>(rows, e). batch_at e (concat (map stmts rows)))
       (filter (\<lambda>(rows, e). concat (map stmts rows) \<noteq> []) txs)"

lemma tx_batches_simps [simp]:
  "tx_batches stmts [] = []"
  "tx_batches stmts ((rows, e) # txs) =
     (if concat (map stmts rows) = [] then [] else [batch_at e (concat (map stmts rows))]) @ tx_batches stmts txs"
  by (simp_all add: tx_batches_def)

text \<open>The statements of a row event, when its table's metadata is loaded anew.\<close>

definition row_statements ::
  "(string \<Rightarrow> string \<Rightarrow> go_error + tableMetadata) \<Rightarrow> string \<Rightarrow> streamEvent \<Rightarrow> go_error + applyEvent list" where
  "row_statements load p e =
     bind_result (load (se_Schema e) (se_Table e)) (\<lambda>metadata. sqlEventsForRows e metadata p)"

text \<open>Names that differ only in case name the same table, as far as the events of a window go.\<close>

definition loads_by_key :: "(string \<Rightarrow> string \<Rightarrow> go_error + tableMetadata) \<Rightarrow> streamEvent list \<Rightarrow> bool" where
  "loads_by_key load events =
     (\<forall>e \<in> set events. \<forall>e' \<in> set events.
        tableKey (se_Schema e) (se_Table e) = tableKey (se_Schema e') (se_Table e')
        \<longrightarrow> load (se_Schema e) (se_Table e) = load (se_Schema e') (se_Table e'))"

definition cache_ok ::
  "(string \<Rightarrow> string \<Rightarrow> go_error + tableMetadata) \<Rightarrow> streamEvent list \<Rightarrow> batchState \<Rightarrow> bool" where
  "cache_ok load events s =
     (\<forall>e \<in> set events. \<forall>m. bs_cache s (tableKey (se_Schema e) (se_Table e)) = Some m
        \<longrightarrow> load (se_Schema e) (se_Table e) = Inr m)"

lemma clear_pending_simps [simp]:
  "bs_cache (clear_pending s) = bs_cache s" "bs_pending (clear_pending s) = []"
  "bs_batches (clear_pending s) = bs_batches s" "bs_firstDDL (clear_pending s) = bs_firstDDL s"
  "bs_firstRow (clear_pending s) = bs_firstRow s"
  by (simp_all add: clear_pending_def)

lemma commit_pending_simps [simp]:
  "bs_cache (commit_pending e s) = bs_cache s" "bs_pending (commit_pending e s) = []"
  "bs_firstDDL (commit_pending e s) = bs_firstDDL s" "bs_firstRow (commit_pending e s) = bs_firstRow s"
  "bs_batches (commit_pending e s) =
     bs_batches s @ (if bs_pending s = [] then [] else [batch_at e (bs_pending s)])"
  by (simp_all add: commit_pending_def)

lemma cache_ok_cong: "bs_cache s' = bs_cache s \<Longrightarrow> cache_ok load events s \<Longrightarrow> cache_ok load events s'"
  by (simp add: cache_ok_def)

lemma cache_ok_upd:
  assumes "cache_ok load events s" and "loads_by_key load events" and "e \<in> set events"
    and "load (se_Schema e) (se_Table e) = Inr m"
    and "bs_cache s' = (bs_cache s)(tableKey (se_Schema e) (se_Table e) \<mapsto> m)"
  shows "cache_ok load events s'"
  unfolding cache_ok_def
proof (intro ballI allI impI)
  fix e' m' assume e': "e' \<in> set events" and c: "bs_cache s' (tableKey (se_Schema e') (se_Table e')) = Some m'"
  show "load (se_Schema e') (se_Table e') = Inr m'"
  proof (cases "tableKey (se_Schema e') (se_Table e') = tableKey (se_Schema e) (se_Table e)")
    case True
    then have "load (se_Schema e') (se_Table e') = load (se_Schema e) (se_Table e)"
      using assms(2,3) e' unfolding loads_by_key_def by blast
    then show ?thesis using c True assms(4,5) by simp
  next
    case False
    then show ?thesis using c e' assms(1,5) by (simp add: cache_ok_def)
  qed
qed

lemma row_step_ok:
  assumes "event_role opts e = RowChange" and "bs_firstDDL s = None"
    and "cache_ok load events s" and "loads_by_key load events" and "e \<in> set events"
    and "row_statements load p e = Inr out"
  obtains s' where "row_step load opts p e s = Inr s'" "cache_ok load events s'" "bs_firstDDL s' = None"
    "bs_batches s' = bs_batches s" "bs_pending s' = bs_pending s @ out"
    "bs_pendingFile s' = se_File e" "bs_pendingPos s' = se_Pos e"
proof -
  obtain m where m: "load (se_Schema e) (se_Table e) = Inr m" "sqlEventsForRows e m p = Inr out"
    using assms(6) by (auto simp: row_statements_def bind_result_Inr)
  have nx: "\<not> excluded opts e"
    using assms(1) by (simp add: event_role_RowChange)
  let ?k = "tableKey (se_Schema e) (se_Table e)"
  define s1 where "s1 = (if bs_firstRow s = None then s\<lparr>bs_firstRow := Some e\<rparr> else s)"
  have s1: "bs_cache s1 = bs_cache s" "bs_firstDDL s1 = None" "bs_batches s1 = bs_batches s" "bs_pending s1 = bs_pending s"
    using assms(2) by (simp_all add: s1_def)
  define s2 where "s2 = (case bs_cache s ?k of Some _ \<Rightarrow> s1 | None \<Rightarrow> s1\<lparr>bs_cache := (bs_cache s1)(?k \<mapsto> m)\<rparr>)"
  have s2: "bs_firstDDL s2 = None" "bs_batches s2 = bs_batches s" "bs_pending s2 = bs_pending s"
    using s1 by (simp_all add: s2_def split: option.splits)
  have cached: "m' = m" if "bs_cache s ?k = Some m'" for m'
    using assms(3,5) m(1) that by (simp add: cache_ok_def)
  have "row_step load opts p e s =
      Inr (s2\<lparr>bs_pending := bs_pending s2 @ out, bs_pendingFile := se_File e, bs_pendingPos := se_Pos e\<rparr>)"
    using nx s1 m by (cases "bs_cache s ?k")
      (auto simp: row_step_def Let_def s1_def [symmetric] s2_def dest!: cached)
  moreover have "cache_ok load events s2"
  proof (cases "bs_cache s ?k")
    case None
    then show ?thesis
      using s1(1) by (intro cache_ok_upd [OF assms(3,4,5) m(1)]) (simp add: s2_def)
  next
    case (Some m')
    then show ?thesis
      using s1(1) by (intro cache_ok_cong [OF _ assms(3)]) (simp add: s2_def)
  qed
  ultimately show thesis
    using s2 by (intro that [of "s2\<lparr>bs_pending := bs_pending s2 @ out, bs_pendingFile := se_File e,
      bs_pendingPos := se_Pos e\<rparr>"]) (simp_all add: cache_ok_def)
qed

lemma batch_loop_transactions:
  assumes "set es \<subseteq> set events" and "loads_by_key load events" and "cache_ok load events s"
    and "\<forall>e \<in> set es. event_role opts e \<noteq> SchemaChange"
    and "\<forall>e \<in> set es. event_role opts e = RowChange \<longrightarrow> row_statements load p e = Inr (stmts e)"
    and "bs_firstDDL s = None" and "bs_pending s = concat (map stmts acc)"
    and "acc \<noteq> [] \<longrightarrow> bs_pendingFile s = se_File (last acc) \<and> bs_pendingPos s = se_Pos (last acc)"
    and "committed opts acc es = (txs, rest)"
  shows "\<exists>s'. batch_loop load opts p es s = Inr s' \<and> bs_batches s' = bs_batches s @ tx_batches stmts txs \<and>
    bs_pending s' = concat (map stmts rest) \<and>
    (rest \<noteq> [] \<longrightarrow> bs_pendingFile s' = se_File (last rest) \<and> bs_pendingPos s' = se_Pos (last rest))"
  using assms
proof (induction es arbitrary: s acc txs)
  case Nil
  then show ?case by auto
next
  case (Cons e es)
  show ?case
  proof (cases "event_role opts e")
    case Skipped
    with Cons.prems show ?thesis
      by (simp add: batch_step_role) (rule Cons.IH; simp)
  next
    case Commits
    then obtain txs' where txs: "txs = (acc, e) # txs'" "committed opts [] es = (txs', rest)"
      using Cons.prems(9) by (auto split: prod.splits)
    have "\<exists>s'. batch_loop load opts p es (commit_pending e s) = Inr s' \<and>
        bs_batches s' = bs_batches (commit_pending e s) @ tx_batches stmts txs' \<and>
        bs_pending s' = concat (map stmts rest) \<and>
        (rest \<noteq> [] \<longrightarrow> bs_pendingFile s' = se_File (last rest) \<and> bs_pendingPos s' = se_Pos (last rest))"
      using Cons.prems txs(2) by (intro Cons.IH [of _ "[]"]) (auto simp: cache_ok_def)
    then show ?thesis
      using Cons.prems(7) Commits by (auto simp: batch_step_role txs(1) simp del: concat_eq_Nil_conv split: if_splits)
  next
    case RollsBack
    with Cons.prems have "\<exists>s'. batch_loop load opts p es (clear_pending s) = Inr s' \<and>
        bs_batches s' = bs_batches (clear_pending s) @ tx_batches stmts txs \<and>
        bs_pending s' = concat (map stmts rest) \<and>
        (rest \<noteq> [] \<longrightarrow> bs_pendingFile s' = se_File (last rest) \<and> bs_pendingPos s' = se_Pos (last rest))"
      by (intro Cons.IH [of _ "[]"]) (auto simp: cache_ok_def)
    then show ?thesis using RollsBack by (simp add: batch_step_role)
  next
    case SchemaChange
    with Cons.prems show ?thesis by simp
  next
    case RowChange
    with Cons.prems obtain s1 where s1: "row_step load opts p e s = Inr s1" "cache_ok load events s1"
      "bs_firstDDL s1 = None" "bs_batches s1 = bs_batches s" "bs_pending s1 = bs_pending s @ stmts e"
      "bs_pendingFile s1 = se_File e" "bs_pendingPos s1 = se_Pos e"
      by (auto elim!: row_step_ok [of opts e s load events p "stmts e"])
    have "\<exists>s'. batch_loop load opts p es s1 = Inr s' \<and> bs_batches s' = bs_batches s1 @ tx_batches stmts txs \<and>
        bs_pending s' = concat (map stmts rest) \<and>
        (rest \<noteq> [] \<longrightarrow> bs_pendingFile s' = se_File (last rest) \<and> bs_pendingPos s' = se_Pos (last rest))"
      using Cons.prems s1 RowChange by (intro Cons.IH [of _ "acc @ [e]"]) auto
    then show ?thesis using s1 RowChange by (simp add: batch_step_role)
  qed
qed



section \<open>The batches are the committed transactions\<close>

lemma build_transactions:
  assumes "validateConflictPolicy (normalizeConflictPolicy (op_ConflictPolicy opts)) = None"
    and "loads_by_key load events"
    and "\<forall>e \<in> set events. event_role opts e \<noteq> SchemaChange"
    and "\<forall>e \<in> set events. event_role opts e = RowChange \<longrightarrow>
           row_statements load (normalizeConflictPolicy (op_ConflictPolicy opts)) e = Inr (stmts e)"
    and "committed opts [] events = (txs, rest)"
  shows "buildApplyBatches load events opts =
    (if concat (map stmts rest) = [] then Inr (tx_batches stmts txs)
     else Inl (incomplete_transaction_failure (se_File (last rest)) (se_Pos (last rest))))"
proof -
  let ?p = "normalizeConflictPolicy (op_ConflictPolicy opts)"
  have "\<exists>s'. batch_loop load opts ?p events initialBatchState = Inr s' \<and>
      bs_batches s' = bs_batches initialBatchState @ tx_batches stmts txs \<and>
      bs_pending s' = concat (map stmts rest) \<and>
      (rest \<noteq> [] \<longrightarrow> bs_pendingFile s' = se_File (last rest) \<and> bs_pendingPos s' = se_Pos (last rest))"
    using assms by (intro batch_loop_transactions [where acc = "[]" and events = events])
      (simp_all add: initialBatchState_def cache_ok_def)
  then obtain s' where "batch_loop load opts ?p events initialBatchState = Inr s'"
    "bs_batches s' = tx_batches stmts txs" "bs_pending s' = concat (map stmts rest)"
    "rest \<noteq> [] \<longrightarrow> bs_pendingFile s' = se_File (last rest) \<and> bs_pendingPos s' = se_Pos (last rest)"
    by (auto simp: initialBatchState_def)
  then show ?thesis
    using assms(1) by (cases "concat (map stmts rest) = []") (auto simp: buildApplyBatches_def Let_def)
qed

text \<open>
  Claim C3. In a window of row events, the batches are exactly the statements of the committed
  transactions of the log, in order, each ended at its commit; transactions that are rolled back
  or have no statement give no batch; a transaction left open is an error that names its last
  row event, and then no batch is returned at all.
\<close>

theorem buildApplyBatches_transactions:
  assumes "validateConflictPolicy (normalizeConflictPolicy (op_ConflictPolicy opts)) = None"
    and "loads_by_key load events"
    and "\<forall>e \<in> set events. event_role opts e \<noteq> SchemaChange"
    and "\<forall>e \<in> set events. event_role opts e = RowChange \<longrightarrow>
           row_statements load (normalizeConflictPolicy (op_ConflictPolicy opts)) e = Inr (stmts e)"
    and "committed opts [] events = (txs, rest)"
  shows "buildApplyBatches load events opts =
    (if concat (map stmts rest) = [] then Inr (tx_batches stmts txs)
     else Inl (incomplete_transaction_failure (se_File (last rest)) (se_Pos (last rest))))"
  using assms by (rule build_transactions)

text \<open>A window of two transactions of which the first is rolled back.\<close>

definition example_window :: "streamEvent list" where
  "example_window =
     [example_update, example_update\<lparr>se_Kind := streamEventQuery, se_Query := ''ROLLBACK''\<rparr>,
      example_update\<lparr>se_Pos := 900\<rparr>, example_update\<lparr>se_Kind := streamEventXID, se_Pos := 950\<rparr>]"

definition example_options :: Options where
  "example_options = emptyOptions\<lparr>op_ApplyDDL := ''warn'', op_ConflictPolicy := ''fail''\<rparr>"

definition example_load :: "string \<Rightarrow> string \<Rightarrow> go_error + tableMetadata" where
  "example_load schema table = Inr example_metadata"

definition example_statements :: "streamEvent \<Rightarrow> applyEvent list" where
  "example_statements e = projr (row_statements example_load ''fail'' e)"

lemma example_statements_of_window:
  "e \<in> set example_window \<Longrightarrow> event_role example_options e = RowChange \<Longrightarrow>
     row_statements example_load ''fail'' e = Inr (example_statements e)"
  by (auto simp: example_window_def event_role_RowChange example_statements_def row_statements_def example_load_def
      sqlEventsForRows_def example_update_def example_metadata_def Let_def buildUpdateStatement_def
      extractKeyArgs_def whereClauseFromRow_def keyOrdinals_def goIndex_def)

definition example_transaction :: "streamEvent list \<times> streamEvent" where
  "example_transaction =
     ([example_update\<lparr>se_Pos := 900\<rparr>], example_update\<lparr>se_Kind := streamEventXID, se_Pos := 950\<rparr>)"

lemma example_window_facts:
  "committed example_options [] example_window = ([example_transaction], [])"
  "\<forall>e \<in> set example_window. event_role example_options e \<noteq> SchemaChange"
  "normalizeConflictPolicy (op_ConflictPolicy example_options) = ''fail''"
  "validateConflictPolicy ''fail'' = None" "loads_by_key example_load example_window"
proof -
  have roles: "map (event_role example_options) example_window = [RowChange, RollsBack, RowChange, Commits]"
    by (simp add: example_window_def event_role_def example_update_def example_options_def emptyOptions_def
        excluded_def go_string)
  then show "committed example_options [] example_window = ([example_transaction], [])"
    "\<forall>e \<in> set example_window. event_role example_options e \<noteq> SchemaChange"
    by (simp_all add: example_window_def example_transaction_def)
qed (simp_all add: example_options_def emptyOptions_def normalizeConflictPolicy_def go_string
    validateConflictPolicy_def loads_by_key_def example_load_def)

lemma example_batch:
  "\<exists>b. tx_batches example_statements [example_transaction] = [b] \<and>
     ab_EndPos b = 950 \<and> map ev_Args (ab_Events b) = [[VInt 1, VString ''b'', VInt 1]]"
  by (simp add: batch_at_def example_transaction_def example_statements_def row_statements_def example_load_def
      sqlEventsForRows_def example_update_def example_metadata_def Let_def buildUpdateStatement_def
      extractKeyArgs_def whereClauseFromRow_def keyOrdinals_def goIndex_def rowApplyEvent_def)

theorem buildApplyBatches_transactions_witness:
  "\<exists>b. buildApplyBatches example_load example_window example_options = Inr [b]
     \<and> ab_EndPos b = 950 \<and> map ev_Args (ab_Events b) = [[VInt 1, VString ''b'', VInt 1]]"
proof -
  have "buildApplyBatches example_load example_window example_options =
      Inr (tx_batches example_statements [example_transaction])"
    by (subst buildApplyBatches_transactions [OF _ _ _ _ example_window_facts(1)])
      (simp_all add: example_window_facts(2-) example_statements_of_window)
  then show ?thesis using example_batch by simp
qed

section \<open>Excluded tables\<close>

definition skipped_table :: "Options \<Rightarrow> streamEvent \<Rightarrow> bool" where
  "skipped_table opts e =
     (se_Kind e \<in> {streamEventWriteRows, streamEventUpdateRows, streamEventDeleteRows} \<and> excluded opts e)"

lemma batch_step_skipped: "skipped_table opts e \<Longrightarrow> batch_step load opts p e s = Inr s"
  by (auto simp: skipped_table_def batch_step_def row_step_excluded)

lemma batch_loop_filter:
  "batch_loop load opts p (filter (\<lambda>e. \<not> skipped_table opts e) es) s = batch_loop load opts p es s"
proof (induction es arbitrary: s)
  case (Cons e es)
  then have "batch_loop load opts p (filter (\<lambda>e. \<not> skipped_table opts e) es) = batch_loop load opts p es"
    by (rule ext)
  then show ?case by (simp add: batch_step_skipped)
qed simp

text \<open>
  The row events of the excluded tables have no effect at all: not on the statements,
  not on the check for schema changes, not on the metadata that is loaded, not on the errors.
\<close>

theorem buildApplyBatches_excluded:
  "buildApplyBatches load events opts =
   buildApplyBatches load (filter (\<lambda>e. \<not> skipped_table opts e) events) opts"
  by (simp add: buildApplyBatches_def Let_def batch_loop_filter split: option.split)



section \<open>Schema changes\<close>

lemma batch_loop_append:
  "batch_loop load opts p (es @ es') s = bind_result (batch_loop load opts p es s) (batch_loop load opts p es')"
proof (induction es arbitrary: s)
  case (Cons e es)
  then show ?case by (cases "batch_step load opts p e s") simp_all
qed simp

lemma ddl_step_Inr:
  assumes "ddl_step opts e s = Inr s'"
  shows "bs_firstRow s = None \<and> bs_firstRow s' = None \<and> bs_firstDDL s' \<noteq> None \<and> bs_pending s' = bs_pending s \<and>
    (op_ApplyDDL opts = ''ignore'' \<and> bs_batches s' = bs_batches s \<or>
     op_ApplyDDL opts = ''apply'' \<and> classifyDDL (se_Query e) = Some ddlClassSafe \<and>
     bs_batches s' = bs_batches s @ [batch_at e [ddlApplyEvent e]])"
  using assms unfolding ddl_step_def Let_def
  by (auto split: option.splits if_splits)

lemma row_step_Inr:
  assumes "row_step load opts p e s = Inr s'" and "\<not> excluded opts e"
  shows "\<exists>m out. bs_firstDDL s = None \<and> bs_firstDDL s' = None \<and> bs_firstRow s' \<noteq> None \<and>
    bs_batches s' = bs_batches s \<and> bs_pending s' = bs_pending s @ out \<and> sqlEventsForRows e m p = Inr out \<and>
    (bs_cache s (tableKey (se_Schema e) (se_Table e)) = Some m \<and> bs_cache s' = bs_cache s \<or>
     load (se_Schema e) (se_Table e) = Inr m \<and>
     bs_cache s' = (bs_cache s)(tableKey (se_Schema e) (se_Table e) \<mapsto> m))"
  using assms unfolding row_step_def Let_def
  by (cases "bs_cache s (tableKey (se_Schema e) (se_Table e))"; cases "bs_firstRow s")
    (auto simp: bind_result_Inr split: option.splits)

text \<open>
  What a window with a schema change has become after some events: no row event was seen, and the
  batches are those of the schema changes so far.
\<close>

definition ddl_batches :: "Options \<Rightarrow> streamEvent list \<Rightarrow> applyBatch list" where
  "ddl_batches opts es =
     (if op_ApplyDDL opts = ''apply''
      then map (\<lambda>e. batch_at e [ddlApplyEvent e]) (filter (\<lambda>e. event_role opts e = SchemaChange) es) else [])"

definition mix_inv :: "Options \<Rightarrow> streamEvent list \<Rightarrow> batchState \<Rightarrow> bool" where
  "mix_inv opts es s =
     ((bs_firstRow s \<noteq> None) = (\<exists>e \<in> set es. event_role opts e = RowChange) \<and>
      (bs_firstDDL s \<noteq> None) = (\<exists>e \<in> set es. event_role opts e = SchemaChange) \<and>
      (bs_firstRow s = None \<or> bs_firstDDL s = None) \<and>
      (\<forall>e \<in> set es. event_role opts e = SchemaChange \<longrightarrow>
         op_ApplyDDL opts = ''ignore'' \<or> op_ApplyDDL opts = ''apply'' \<and> classifyDDL (se_Query e) = Some ddlClassSafe) \<and>
      (bs_firstRow s = None \<longrightarrow> bs_pending s = [] \<and> bs_batches s = ddl_batches opts es))"

lemma ddl_batches_append: "ddl_batches opts (es @ es') = ddl_batches opts es @ ddl_batches opts es'"
  by (simp add: ddl_batches_def)

lemma mix_inv_step:
  assumes "mix_inv opts es s" and "batch_step load opts p e s = Inr s'"
  shows "mix_inv opts (es @ [e]) s'"
proof (cases "event_role opts e")
  case SchemaChange
  then have "ddl_step opts e s = Inr s'" using assms(2) by (simp add: batch_step_role)
  from ddl_step_Inr [OF this] assms(1) SchemaChange show ?thesis
    by (auto simp: mix_inv_def ddl_batches_def)
next
  case RowChange
  then have "row_step load opts p e s = Inr s'"
    using assms(2) by (simp add: batch_step_role)
  moreover have "\<not> excluded opts e" using RowChange by (simp add: event_role_RowChange)
  ultimately have "bs_firstDDL s = None" "bs_firstDDL s' = None" "bs_firstRow s' \<noteq> None"
    using row_step_Inr [of load opts p e s s'] by auto
  with assms(1) RowChange show ?thesis
    by (auto simp: mix_inv_def)
qed (use assms in \<open>auto simp: batch_step_role mix_inv_def ddl_batches_def\<close>)

lemma mix_inv_loop: "batch_loop load opts p es initialBatchState = Inr s \<Longrightarrow> mix_inv opts es s"
proof (induction es arbitrary: s rule: rev_induct)
  case Nil
  then show ?case by (auto simp: mix_inv_def initialBatchState_def ddl_batches_def)
next
  case (snoc e es)
  then obtain s0 where "batch_loop load opts p es initialBatchState = Inr s0" "batch_step load opts p e s0 = Inr s"
    by (auto simp: batch_loop_append bind_result_Inr)
  with snoc.IH show ?case by (blast intro: mix_inv_step)
qed

lemma buildApplyBatches_Inr:
  assumes "buildApplyBatches load events opts = Inr batches"
  obtains s where
    "batch_loop load opts (normalizeConflictPolicy (op_ConflictPolicy opts)) events initialBatchState = Inr s"
    "bs_pending s = []" "batches = bs_batches s"
  using assms by (auto simp: buildApplyBatches_def Let_def bind_result_Inr split: option.splits if_splits)

text \<open>
  Claim C29. A window that returns batches has either row changes or schema changes. With a schema
  change in it, the option warn is refused, under apply every schema change is one that the
  classifier calls safe and is a batch of its own, and under ignore there is no batch at all: a
  run that ignores schema changes makes no progress past them.
\<close>

theorem buildApplyBatches_ddl:
  assumes "buildApplyBatches load events opts = Inr batches"
    and "ddl \<in> set events" and "event_role opts ddl = SchemaChange"
  shows "(\<forall>e \<in> set events. event_role opts e \<noteq> RowChange) \<and>
    op_ApplyDDL opts \<in> {''ignore'', ''apply''} \<and>
    (op_ApplyDDL opts = ''apply'' \<longrightarrow>
       (\<forall>e \<in> set events. event_role opts e = SchemaChange \<longrightarrow> classifyDDL (se_Query e) = Some ddlClassSafe)) \<and>
    batches = (if op_ApplyDDL opts = ''apply''
               then map (\<lambda>e. batch_at e [ddlApplyEvent e]) (filter (\<lambda>e. event_role opts e = SchemaChange) events)
               else [])"
proof -
  obtain s where "batch_loop load opts (normalizeConflictPolicy (op_ConflictPolicy opts)) events initialBatchState = Inr s"
    and b: "batches = bs_batches s"
    using assms(1) by (rule buildApplyBatches_Inr)
  then have inv: "mix_inv opts events s" by (intro mix_inv_loop)
  then have "bs_firstRow s = None" using assms(2,3) by (auto simp: mix_inv_def)
  with inv assms(2,3) show ?thesis
    unfolding b by (auto simp: mix_inv_def ddl_batches_def)
qed

definition example_ddl :: streamEvent where
  "example_ddl = example_update\<lparr>se_Kind := streamEventQuery, se_Query := ''CREATE TABLE u (id INT)''\<rparr>"

theorem buildApplyBatches_ddl_witness:
  "buildApplyBatches (\<lambda>s t. Inr example_metadata) [example_ddl] (example_options\<lparr>op_ApplyDDL := ''ignore''\<rparr>) = Inr []"
proof -
  let ?o = "example_options\<lparr>op_ApplyDDL := ''ignore''\<rparr>"
  have role: "event_role ?o example_ddl = SchemaChange"
    by (simp add: event_role_def example_ddl_def go_string Let_def)
  have safe: "classifyDDL (se_Query example_ddl) = Some ddlClassSafe"
    by (simp add: classifyDDL_def example_ddl_def go_string Let_def)
  have opts: "normalizeConflictPolicy (op_ConflictPolicy ?o) = ''fail''" "op_ApplyDDL ?o = ''ignore''"
    by (simp_all add: example_options_def emptyOptions_def normalizeConflictPolicy_def go_string)
  obtain batches where b: "buildApplyBatches (\<lambda>s t. Inr example_metadata) [example_ddl] ?o = Inr batches"
    unfolding buildApplyBatches_def Let_def opts
    by (simp add: batch_step_role role ddl_step_def safe initialBatchState_def validateConflictPolicy_def)
  from buildApplyBatches_ddl [OF b _ role] have "batches = []"
    by simp
  with b show ?thesis by simp
qed



section \<open>Every batch is well formed and ends at an event of the log\<close>

definition event_end :: "streamEvent \<Rightarrow> string \<times> u32 \<times> u32" where
  "event_end e = (se_File e, se_Pos e, se_Timestamp e)"

definition batch_end :: "applyBatch \<Rightarrow> string \<times> u32 \<times> u32" where
  "batch_end b = (ab_EndFile b, ab_EndPos b, ab_EndTimestamp b)"

definition good_event :: "applyEvent \<Rightarrow> bool" where
  "good_event ev = (TrimSpace (ev_Query ev) \<noteq> '''' \<and> (ev_Operation ev = ''ddl'' \<or> executable_event ev))"

definition wf_inv :: "streamEvent list \<Rightarrow> batchState \<Rightarrow> bool" where
  "wf_inv es s =
     (subseq (map batch_end (bs_batches s)) (map event_end es) \<and>
      (\<forall>b \<in> set (bs_batches s). ab_Events b \<noteq> [] \<and> list_all good_event (ab_Events b)) \<and>
      list_all good_event (bs_pending s) \<and>
      (\<forall>k m. bs_cache s k = Some m \<longrightarrow> valid_metadata m))"

lemma batch_at_simps [simp]:
  "batch_end (batch_at e evs) = event_end e" "ab_Events (batch_at e evs) = evs"
  by (simp_all add: batch_end_def batch_at_def event_end_def)

lemma subseq_snoc: "subseq xs ys \<Longrightarrow> subseq (xs @ [x]) (ys @ [x])" "subseq xs ys \<Longrightarrow> subseq xs (ys @ [x])"
  by (auto intro: list_emb_append_mono list_emb_append2)

lemma good_ddl: "classifyDDL (se_Query e) = Some c \<Longrightarrow> good_event (ddlApplyEvent e)"
  by (auto simp: good_event_def ddlApplyEvent_def classifyDDL_def Let_def split: if_splits)

lemma wf_inv_step:
  assumes "\<And>s t m. load s t = Inr m \<Longrightarrow> valid_metadata m"
    and "wf_inv es s" and "batch_step load opts p e s = Inr s'"
  shows "wf_inv (es @ [e]) s'"
proof (cases "event_role opts e")
  case SchemaChange
  then have d: "ddl_step opts e s = Inr s'" using assms(3) by (simp add: batch_step_role)
  have cache: "bs_cache s' = bs_cache s"
    using d unfolding ddl_step_def Let_def by (auto split: option.splits if_splits)
  from ddl_step_Inr [OF d] assms(2) cache show ?thesis
    by (auto simp: wf_inv_def good_ddl intro: subseq_snoc)
next
  case RowChange
  then have r: "row_step load opts p e s = Inr s'"
    using assms(3) by (simp add: batch_step_role)
  have "\<not> excluded opts e" using RowChange by (simp add: event_role_RowChange)
  then obtain m out where out: "bs_batches s' = bs_batches s" "bs_pending s' = bs_pending s @ out"
    "sqlEventsForRows e m p = Inr out"
    "bs_cache s (tableKey (se_Schema e) (se_Table e)) = Some m \<and> bs_cache s' = bs_cache s \<or>
     load (se_Schema e) (se_Table e) = Inr m \<and>
     bs_cache s' = (bs_cache s)(tableKey (se_Schema e) (se_Table e) \<mapsto> m)"
    using row_step_Inr [OF r] by auto
  have m: "valid_metadata m" using out(4) assms(1,2) unfolding wf_inv_def by blast
  have "list_all executable_event out" using m out(3) by (rule events_executable)
  then have "list_all good_event out"
    by (auto simp: list_all_iff good_event_def executable_event_def)
  then show ?thesis using assms(2) out m by (auto simp: wf_inv_def intro: subseq_snoc split: if_splits)
qed (use assms(2,3) in \<open>auto simp: batch_step_role wf_inv_def intro: subseq_snoc split: if_splits\<close>)

lemma wf_inv_loop:
  assumes "\<And>schema table m. load schema table = Inr m \<Longrightarrow> valid_metadata m"
  shows "batch_loop load opts p es initialBatchState = Inr s \<Longrightarrow> wf_inv es s"
proof (induction es arbitrary: s rule: rev_induct)
  case Nil
  then show ?case by (auto simp: wf_inv_def initialBatchState_def)
next
  case (snoc e es)
  then obtain s0 where "batch_loop load opts p es initialBatchState = Inr s0" "batch_step load opts p e s0 = Inr s"
    by (auto simp: batch_loop_append bind_result_Inr)
  with snoc.IH assms show ?case by (blast intro: wf_inv_step)
qed

text \<open>
  Claim C30. Every batch ends at an event of the window, with its file, position and time, and the
  batches end in the order of the log; none is empty, no statement is blank, and every statement
  but a schema change has as many arguments as placeholders.
\<close>

theorem buildApplyBatches_well_formed:
  assumes "\<And>schema table m. load schema table = Inr m \<Longrightarrow> valid_metadata m" and "buildApplyBatches load events opts = Inr batches"
  shows "subseq (map batch_end batches) (map event_end events) \<and>
    (\<forall>b \<in> set batches. ab_Events b \<noteq> [] \<and> list_all good_event (ab_Events b))"
proof -
  obtain s where "batch_loop load opts (normalizeConflictPolicy (op_ConflictPolicy opts)) events initialBatchState = Inr s"
    and "batches = bs_batches s"
    using assms(2) by (rule buildApplyBatches_Inr)
  with wf_inv_loop [of load] assms(1) show ?thesis unfolding wf_inv_def by blast
qed

lemma example_window_builds: "\<exists>b. buildApplyBatches example_load example_window example_options = Inr [b]"
proof -
  have "buildApplyBatches example_load example_window example_options =
      Inr (tx_batches example_statements [example_transaction])"
    by (subst build_transactions [OF _ _ _ _ example_window_facts(1)])
      (simp_all add: example_window_facts(2-) example_statements_of_window)
  then show ?thesis using example_batch by auto
qed

theorem buildApplyBatches_well_formed_witness:
  "\<exists>b. buildApplyBatches example_load example_window example_options = Inr [b] \<and> ab_Events b \<noteq> []"
proof -
  obtain b where b: "buildApplyBatches example_load example_window example_options = Inr [b]"
    using example_window_builds by blast
  have "ab_Events b \<noteq> []"
    using buildApplyBatches_well_formed [OF _ b] example_metadata_valid by (simp add: example_load_def)
  with b show ?thesis by blast
qed



section \<open>The metadata cache ignores case\<close>

text \<open>Two tables of a case-sensitive server whose names differ only in case.\<close>

definition two_tables :: "string \<Rightarrow> string \<Rightarrow> go_error + tableMetadata" where
  "two_tables schema table =
     Inr \<lparr>tm_Columns = (if table = ''T'' then [''a'', ''b''] else [''x'', ''y'']), tm_KeyOrdinals = [0],
          tm_HasForeignKeys = False\<rparr>"

definition write_to :: "string \<Rightarrow> streamEvent" where
  "write_to table = example_update\<lparr>se_Kind := streamEventWriteRows, se_Table := table, se_Rows := [[VInt 1, VInt 2]]\<rparr>"

lemma write_to_simps [simp]:
  "se_Kind (write_to t) = streamEventWriteRows" "se_Schema (write_to t) = ''app''" "se_Table (write_to t) = t"
  "se_Rows (write_to t) = [[VInt 1, VInt 2]]"
  by (simp_all add: write_to_def example_update_def)

definition example_commit :: streamEvent where
  "example_commit = example_update\<lparr>se_Kind := streamEventXID\<rparr>"

text \<open>
  The metadata cache is keyed by the lower-cased name: after a row of app.T, a row of
  app.t is written with the columns of app.T, although the metadata of app.t has other columns.
\<close>

theorem metadata_cache_confuses_case:
  "\<exists>b. buildApplyBatches two_tables [write_to ''T'', write_to ''t'', example_commit] example_options = Inr [b]
     \<and> map ev_TableName (ab_Events b) = [''app.T'', ''app.t'']
     \<and> map ev_RowColumns (ab_Events b) = [[''a'', ''b''], [''a'', ''b'']]
     \<and> map_sum id tm_Columns (two_tables ''app'' ''t'') = Inr [''x'', ''y'']"
proof -
  have roles: "event_role example_options (write_to ''T'') = RowChange" "event_role example_options (write_to ''t'') = RowChange"
    "event_role example_options example_commit = Commits"
    by (simp_all add: event_role_def example_commit_def example_options_def emptyOptions_def excluded_def)
  then have nx: "\<not> excluded example_options (write_to ''T'')" "\<not> excluded example_options (write_to ''t'')"
    by (simp_all add: event_role_RowChange)
  have keys: "tableKey ''app'' ''t'' = ''app.t''" "tableKey ''app'' ''T'' = ''app.t''"
    by (simp_all add: tableKey_def go_string)
  show ?thesis
    unfolding buildApplyBatches_def Let_def example_window_facts
    by (simp add: batch_step_role roles row_step_def nx initialBatchState_def two_tables_def Let_def
        sqlEventsForRows_def buildInsertStatement_def insert_query_def rowApplyEvent_def
        extractKeyArgs_def keyOrdinals_def goIndex_def commit_pending_def clear_pending_def keys)
qed

end
