(* ===== verification/Tx_Shape.thy ===== *)
theory Tx_Shape
  imports Binlog_Types
begin

text \<open>
  The shape of the transactions in a replay window and the risk signals drawn from it
  (internal/replicate/binlog/shape.go). The set of tables without a key is a set; sortedSetKeys
  lists it in order. The lemmas show that the counters count the batches of the window and which
  levels of risk exist.
\<close>

section \<open>The tracker\<close>

record transactionShapeTracker =
  tr_opts :: Options
  tr_transactionsSeen :: u64
  tr_transactionsApplied :: u64
  tr_eventsSeen :: u64
  tr_appliedEvents :: u64
  tr_maxTransactionEvents :: u64
  tr_ddlTransactions :: u64
  tr_fkConstrainedTransactions :: u64
  tr_keylessOperations :: u64
  tr_keylessTables :: "string set"

definition newTransactionShapeTracker :: "Options \<Rightarrow> transactionShapeTracker" where
  "newTransactionShapeTracker opts =
     \<lparr>tr_opts = opts, tr_transactionsSeen = 0, tr_transactionsApplied = 0, tr_eventsSeen = 0,
      tr_appliedEvents = 0, tr_maxTransactionEvents = 0, tr_ddlTransactions = 0,
      tr_fkConstrainedTransactions = 0, tr_keylessOperations = 0, tr_keylessTables = {}\<rparr>"

definition isDDLEvent :: "applyEvent \<Rightarrow> bool" where
  "isDDLEvent event = EqualFold (TrimSpace (ev_Operation event)) ''ddl''"

definition observeKeyless :: "applyEvent \<Rightarrow> transactionShapeTracker \<Rightarrow> transactionShapeTracker" where
  "observeKeyless event t =
     (if ev_UsesFallbackKey event then
        (let t = t\<lparr>tr_keylessOperations := tr_keylessOperations t + 1\<rparr>
         in if TrimSpace (ev_TableName event) \<noteq> ''''
            then t\<lparr>tr_keylessTables := insert (ev_TableName event) (tr_keylessTables t)\<rparr> else t)
      else t)"

definition observeBatch :: "applyBatch \<Rightarrow> transactionShapeTracker \<Rightarrow> transactionShapeTracker" where
  "observeBatch batch t =
     (let batchEvents = of_nat (length (ab_Events batch))
      in if batchEvents = 0 then t
         else
           let t = t\<lparr>tr_transactionsSeen := tr_transactionsSeen t + 1,
                     tr_eventsSeen := tr_eventsSeen t + batchEvents,
                     tr_maxTransactionEvents :=
                       (if batchEvents > tr_maxTransactionEvents t then batchEvents else tr_maxTransactionEvents t)\<rparr>;
               t = fold observeKeyless (ab_Events batch) t;
               t = (if list_ex isDDLEvent (ab_Events batch)
                    then t\<lparr>tr_ddlTransactions := tr_ddlTransactions t + 1\<rparr> else t)
           in (if list_ex ev_HasForeignKeys (ab_Events batch)
               then t\<lparr>tr_fkConstrainedTransactions := tr_fkConstrainedTransactions t + 1\<rparr> else t))"

definition markApplied :: "applyBatch \<Rightarrow> transactionShapeTracker \<Rightarrow> transactionShapeTracker" where
  "markApplied batch t =
     (let batchEvents = of_nat (length (ab_Events batch))
      in if batchEvents = 0 then t
         else t\<lparr>tr_transactionsApplied := tr_transactionsApplied t + 1,
                tr_appliedEvents := tr_appliedEvents t + batchEvents\<rparr>)"

section \<open>The snapshot\<close>

definition maxUint64 :: "u64 \<Rightarrow> u64 \<Rightarrow> u64" where
  "maxUint64 left right = (if left > right then left else right)"

definition sortedSetKeys :: "string set \<Rightarrow> string list" where
  "sortedSetKeys items = sorted_list_of_set items"

definition highPriority :: "string set" where
  "highPriority = {''transaction_exceeds_max_events_limit'', ''ddl_serializes_apply'',
     ''large_transaction_dominates'', ''foreign_key_serialization_pressure'', ''keyless_row_matching_pressure''}"

definition mediumPriority :: "string set" where
  "mediumPriority = {''window_cut_before_next_transaction'', ''single_transaction_window''}"

definition shapeRiskLevel :: "string list \<Rightarrow> string" where
  "shapeRiskLevel signals =
     (if signals = [] then ''''
      else if list_ex (\<lambda>signal. signal \<in> highPriority) signals then ''high''
      else if list_ex (\<lambda>signal. signal \<in> mediumPriority) signals then ''medium''
      else ''low'')"

definition shapeSignals :: "transactionShapeTracker \<Rightarrow> u64 \<Rightarrow> string list" where
  "shapeSignals t avg =
     (if tr_transactionsSeen t = 1 \<and> tr_eventsSeen t > 1 then [''single_transaction_window''] else []) @
     (if tr_maxTransactionEvents t \<ge> 50 \<and>
         (tr_transactionsSeen t = 1 \<or> tr_maxTransactionEvents t \<ge> maxUint64 (avg * 5) 50)
      then [''large_transaction_dominates''] else []) @
     (if tr_ddlTransactions t > 0 then [''ddl_serializes_apply''] else []) @
     (if tr_fkConstrainedTransactions t > 0 then [''foreign_key_serialization_pressure''] else []) @
     (if tr_keylessOperations t > 0 then [''keyless_row_matching_pressure''] else []) @
     (if op_MaxEvents (tr_opts t) > 0 \<and> tr_maxTransactionEvents t > op_MaxEvents (tr_opts t)
      then [''transaction_exceeds_max_events_limit''] else []) @
     (if tr_transactionsApplied t < tr_transactionsSeen t \<and> tr_transactionsApplied t > 0
      then [''window_cut_before_next_transaction''] else [])"

definition snapshot :: "transactionShapeTracker \<Rightarrow> ReplicationTransactionShape" where
  "snapshot t =
     (let avg = (if tr_transactionsSeen t > 0 then tr_eventsSeen t div tr_transactionsSeen t else 0);
          signals = shapeSignals t avg
      in \<lparr>sh_TransactionsSeen = tr_transactionsSeen t, sh_TransactionsApplied = tr_transactionsApplied t,
          sh_EventsSeen = tr_eventsSeen t, sh_AppliedEvents = tr_appliedEvents t,
          sh_MaxTransactionEvents = tr_maxTransactionEvents t, sh_AvgTransactionEvents = avg,
          sh_DDLTransactions = tr_ddlTransactions t,
          sh_FKConstrainedTransactions = tr_fkConstrainedTransactions t,
          sh_KeylessOperations = tr_keylessOperations t, sh_KeylessTables = sortedSetKeys (tr_keylessTables t),
          sh_RiskLevel = shapeRiskLevel signals, sh_RiskSignals = signals\<rparr>)"

section \<open>What the counters count\<close>

definition batch_sizes :: "applyBatch list \<Rightarrow> nat list" where
  "batch_sizes batches = filter (\<lambda>n. n \<noteq> 0) (map (\<lambda>b. length (ab_Events b)) batches)"

definition keyless_events :: "applyBatch list \<Rightarrow> applyEvent list" where
  "keyless_events batches = filter ev_UsesFallbackKey (concat (map ab_Events batches))"

lemma batch_sizes_simps [simp]:
  "batch_sizes [] = []" "batch_sizes (bs @ [b]) = batch_sizes bs @ (if ab_Events b = [] then [] else [length (ab_Events b)])"
  by (simp_all add: batch_sizes_def)

lemma keyless_events_simps [simp]:
  "keyless_events [] = []" "keyless_events (bs @ [b]) = keyless_events bs @ filter ev_UsesFallbackKey (ab_Events b)"
  by (simp_all add: keyless_events_def)

definition named_tables :: "applyEvent list \<Rightarrow> string set" where
  "named_tables evs = {ev_TableName ev |ev. ev \<in> set evs \<and> TrimSpace (ev_TableName ev) \<noteq> ''''}"

lemma observeKeyless_fold:
  "tr_keylessTables (fold observeKeyless evs t) = tr_keylessTables t \<union> named_tables (filter ev_UsesFallbackKey evs)"
  "tr_keylessOperations (fold observeKeyless evs t) = tr_keylessOperations t + of_nat (length (filter ev_UsesFallbackKey evs))"
  "tr_transactionsSeen (fold observeKeyless evs t) = tr_transactionsSeen t"
  "tr_eventsSeen (fold observeKeyless evs t) = tr_eventsSeen t"
  "tr_maxTransactionEvents (fold observeKeyless evs t) = tr_maxTransactionEvents t"
  by (induction evs arbitrary: t) (auto simp: observeKeyless_def named_tables_def Let_def)

text \<open>The counters of a tracker agree with some batches, as long as these fit in 64 bits.\<close>

definition counts :: "applyBatch list \<Rightarrow> transactionShapeTracker \<Rightarrow> bool" where
  "counts bs t =
     (unat (tr_transactionsSeen t) = length (batch_sizes bs) \<and> unat (tr_eventsSeen t) = sum_list (batch_sizes bs) \<and>
      unat (tr_maxTransactionEvents t) = fold max (batch_sizes bs) 0 \<and>
      unat (tr_keylessOperations t) = length (keyless_events bs) \<and>
      tr_keylessTables t = named_tables (keyless_events bs))"

lemma unat_add_of_nat:
  "unat (a :: u64) = m \<Longrightarrow> m + n < 2 ^ 64 \<Longrightarrow> unat (a + of_nat n) = m + n"
  using of_nat_inverse [of "m + n" "a + of_nat n"] by auto

lemma sizes_bounds: "length (batch_sizes bs) \<le> sum_list (batch_sizes bs)"
  "length (keyless_events bs) \<le> sum_list (batch_sizes bs)"
proof -
  show "length (batch_sizes bs) \<le> sum_list (batch_sizes bs)"
  proof (induction bs rule: rev_induct)
    case (snoc b bs)
    then show ?case by (cases "ab_Events b") auto
  qed simp
next
  have "length (keyless_events bs) \<le> length (concat (map ab_Events bs))"
    by (simp add: keyless_events_def)
  also have "\<dots> = sum_list (batch_sizes bs)"
    by (induction bs rule: rev_induct) (auto simp: length_concat)
  finally show "length (keyless_events bs) \<le> sum_list (batch_sizes bs)" .
qed

lemma observeBatch_counts:
  assumes "counts bs t" and "sum_list (batch_sizes (bs @ [b])) < 2 ^ 64"
  shows "counts (bs @ [b]) (observeBatch b t)"
proof (cases "ab_Events b = []")
  case True
  then show ?thesis using assms(1) by (simp add: counts_def observeBatch_def)
next
  case False
  let ?n = "length (ab_Events b)"
  have sum: "sum_list (batch_sizes bs) + ?n < 2 ^ 64" using assms(2) False by simp
  then have n: "unat (of_nat ?n :: u64) = ?n"
    using of_nat_inverse [of ?n "of_nat ?n :: u64"] by simp
  have nz: "(of_nat ?n :: u64) \<noteq> 0"
    using n False by (metis length_0_conv unsigned_0)
  have seen: "unat (tr_transactionsSeen t + 1) = length (batch_sizes bs) + 1"
    using unat_add_of_nat [of "tr_transactionsSeen t" "length (batch_sizes bs)" 1] assms(1) sum
      sizes_bounds(1) [of bs] False by (cases "ab_Events b") (auto simp: counts_def)
  have evs: "unat (tr_eventsSeen t + of_nat ?n) = sum_list (batch_sizes bs) + ?n"
    using unat_add_of_nat [of "tr_eventsSeen t" "sum_list (batch_sizes bs)" ?n] assms(1) sum
    by (auto simp: counts_def)
  have "length (keyless_events bs) + length (filter ev_UsesFallbackKey (ab_Events b)) < 2 ^ 64"
    using sum sizes_bounds(2) [of bs] length_filter_le [of ev_UsesFallbackKey "ab_Events b"] by linarith
  then have keyless: "unat (tr_keylessOperations t + of_nat (length (filter ev_UsesFallbackKey (ab_Events b)))) =
      length (keyless_events bs) + length (filter ev_UsesFallbackKey (ab_Events b))"
    using unat_add_of_nat assms(1) by (auto simp: counts_def)
  have mx: "unat (if of_nat ?n > tr_maxTransactionEvents t then of_nat ?n else tr_maxTransactionEvents t) =
      max (fold max (batch_sizes bs) 0) ?n"
    using assms(1) n by (auto simp: counts_def word_less_nat_alt max_def)
  have tables: "named_tables (keyless_events bs) \<union> named_tables (filter ev_UsesFallbackKey (ab_Events b)) =
      named_tables (keyless_events bs @ filter ev_UsesFallbackKey (ab_Events b))"
    by (auto simp: named_tables_def)
  show ?thesis
    using seen evs keyless mx tables assms(1) False nz
    by (simp add: counts_def observeBatch_def Let_def observeKeyless_fold max.commute)
qed

lemma observe_counts:
  "sum_list (batch_sizes bs) < 2 ^ 64 \<Longrightarrow> counts bs (fold observeBatch bs (newTransactionShapeTracker opts))"
proof (induction bs rule: rev_induct)
  case Nil
  then show ?case by (simp add: counts_def newTransactionShapeTracker_def named_tables_def)
next
  case (snoc b bs)
  then have "sum_list (batch_sizes bs) < 2 ^ 64" by simp
  with snoc observeBatch_counts show ?case by simp
qed

lemma shapeSignals_known: "list_all (\<lambda>s. s \<in> highPriority \<union> mediumPriority) (shapeSignals t avg)"
  by (simp add: shapeSignals_def highPriority_def mediumPriority_def)

section \<open>Properties\<close>

text \<open>
  The shape of a window counts its non-empty batches and their events, their largest
  size and mean, and names in order the tables that are written without a key, for every window of
  less than 2^64 events.
\<close>

theorem shape_counts_window:
  assumes "sum_list (batch_sizes bs) < 2 ^ 64"
  shows "let shape = snapshot (fold observeBatch bs (newTransactionShapeTracker opts))
    in unat (sh_TransactionsSeen shape) = length (batch_sizes bs) \<and>
       unat (sh_EventsSeen shape) = sum_list (batch_sizes bs) \<and>
       unat (sh_MaxTransactionEvents shape) = fold max (batch_sizes bs) 0 \<and>
       unat (sh_AvgTransactionEvents shape) = sum_list (batch_sizes bs) div length (batch_sizes bs) \<and>
       sh_KeylessTables shape = sorted_list_of_set (named_tables (keyless_events bs))"
proof -
  define t where "t = fold observeBatch bs (newTransactionShapeTracker opts)"
  have c: "counts bs t" unfolding t_def using assms by (rule observe_counts)
  have avg: "unat (if tr_transactionsSeen t > 0 then tr_eventsSeen t div tr_transactionsSeen t else 0) =
      sum_list (batch_sizes bs) div length (batch_sizes bs)"
    using c by (auto simp: counts_def unat_div word_gt_0)
  show ?thesis
    unfolding t_def [symmetric] using c avg
    by (simp add: Let_def snapshot_def counts_def sortedSetKeys_def)
qed

text \<open>
  The level of risk is empty exactly without a signal; the level low is never reported,
  since every signal has a priority.
\<close>

theorem snapshot_risk_level:
  "sh_RiskLevel (snapshot t) \<in> {'''', ''medium'', ''high''} \<and>
   (sh_RiskLevel (snapshot t) = '''' \<longleftrightarrow> sh_RiskSignals (snapshot t) = []) \<and>
   (sh_RiskLevel (snapshot t) = ''high'' \<longleftrightarrow> (\<exists>s \<in> highPriority. s \<in> set (sh_RiskSignals (snapshot t))))"
proof -
  have level: "shapeRiskLevel ss \<in> {'''', ''medium'', ''high''} \<and> (shapeRiskLevel ss = '''' \<longleftrightarrow> ss = []) \<and>
      (shapeRiskLevel ss = ''high'' \<longleftrightarrow> (\<exists>s \<in> highPriority. s \<in> set ss))"
    if "list_all (\<lambda>s. s \<in> highPriority \<union> mediumPriority) ss" for ss
    using that by (cases ss) (auto simp: shapeRiskLevel_def list_all_iff list_ex_iff)
  obtain avg where "sh_RiskSignals (snapshot t) = shapeSignals t avg"
    "sh_RiskLevel (snapshot t) = shapeRiskLevel (shapeSignals t avg)"
    by (simp add: snapshot_def Let_def)
  then show ?thesis
    using level [OF shapeSignals_known [of t avg]] by (simp only:)
qed

definition example_insert :: applyEvent where
  "example_insert = \<lparr>ev_Query = ''q'', ev_Args = [], ev_RowColumns = [], ev_OldRowArgs = [], ev_NewRowArgs = [],
     ev_KeyColumns = [], ev_KeyArgs = [], ev_Operation = ''insert'', ev_TableName = ''app.t'',
     ev_UsesFallbackKey = True, ev_HasForeignKeys = False, ev_RequireRowsAffected = False\<rparr>"

definition two_event_batch :: applyBatch where
  "two_event_batch = \<lparr>ab_EndFile = ''bin.000001'', ab_EndPos = 400, ab_EndTimestamp = 0,
     ab_Events = [example_insert, example_insert]\<rparr>"

theorem shape_counts_window_witness:
  "unat (sh_EventsSeen (snapshot (fold observeBatch [two_event_batch, two_event_batch]
     (newTransactionShapeTracker emptyOptions)))) = 4"
proof -
  have "batch_sizes [two_event_batch, two_event_batch] = [2, 2]"
    by (simp add: batch_sizes_def two_event_batch_def)
  with shape_counts_window [of "[two_event_batch, two_event_batch]" emptyOptions] show ?thesis
    by (simp add: Let_def del: fold_simps)
qed

end
