(* ===== verification/Stream_Window.thy ===== *)
theory Stream_Window
  imports Binlog_Types
begin

text \<open>
  Reading a replay window from the source's binary log (internal/replicate/binlog/load.go, lines
  49-298 and 985-996): the loop of streamWindowEvents, the limits on what is buffered, and the
  conversion of the events. The stream that the replication library delivers is a parameter: a
  list of what successive calls of GetEvent return, after which the call blocks. The lemmas show
  that a window is read completely and not beyond its end, and that the buffer stays in bounds.
\<close>

section \<open>What the replication library delivers\<close>

text \<open>
  The event types that the code names; every other type is OtherEvent with its name. The payload
  is the dynamic value of the field Event. A rows event may lack its table.
\<close>

datatype eventType =
    ROTATE_EVENT | QUERY_EVENT | XID_EVENT
  | WRITE_ROWS_EVENTv1 | WRITE_ROWS_EVENTv2 | UPDATE_ROWS_EVENTv1 | UPDATE_ROWS_EVENTv2
  | DELETE_ROWS_EVENTv1 | DELETE_ROWS_EVENTv2
  | OtherEvent string

datatype payload =
    RotatePayload (rotate_position: u64) (rotate_name: string)
  | QueryPayload string string
  | RowsPayload "(string \<times> string) option" "goval list list"
  | OtherPayload

record binlogEvent =
  be_EventType :: eventType
  be_LogPos :: u32
  be_Timestamp :: u32
  be_Event :: payload

text \<open>One call of GetEvent: an error, an event that is nil or has no header, or an event.\<close>

datatype stream_item = ReadError string | NoEvent | Event binlogEvent

section \<open>Conversion\<close>

definition convertRowsEvent :: "streamEventKind \<Rightarrow> binlogEvent \<Rightarrow> string \<Rightarrow> go_error + streamEvent \<times> bool" where
  "convertRowsEvent kind event file =
     (case be_Event event of
        RowsPayload table rows \<Rightarrow>
          (case table of
             None \<Rightarrow> Inl (EText ''rows event missing table metadata'')
           | Some (schema, name) \<Rightarrow>
               Inr (\<lparr>se_Kind = kind, se_File = file, se_Pos = be_LogPos event, se_Timestamp = be_Timestamp event,
                     se_Schema = schema, se_Table = name, se_Query = '''', se_Rows = rows\<rparr>, True))
      | _ \<Rightarrow> Inl (EText ''unexpected rows event payload''))"

definition noStreamEvent :: streamEvent where
  "noStreamEvent = \<lparr>se_Kind = streamEventQuery, se_File = '''', se_Pos = 0, se_Timestamp = 0,
     se_Schema = '''', se_Table = '''', se_Query = '''', se_Rows = []\<rparr>"

definition convertReplicationEvent :: "binlogEvent \<Rightarrow> string \<Rightarrow> go_error + streamEvent \<times> bool" where
  "convertReplicationEvent event file =
     (case be_EventType event of
        QUERY_EVENT \<Rightarrow>
          (case be_Event event of
             QueryPayload schema query \<Rightarrow>
               Inr (\<lparr>se_Kind = streamEventQuery, se_File = file, se_Pos = be_LogPos event,
                     se_Timestamp = be_Timestamp event, se_Schema = schema, se_Table = '''',
                     se_Query = TrimSpace query, se_Rows = []\<rparr>, True)
           | _ \<Rightarrow> Inl (EText ''unexpected query event payload''))
      | XID_EVENT \<Rightarrow>
          Inr (\<lparr>se_Kind = streamEventXID, se_File = file, se_Pos = be_LogPos event,
                se_Timestamp = be_Timestamp event, se_Schema = '''', se_Table = '''', se_Query = '''',
                se_Rows = []\<rparr>, True)
      | WRITE_ROWS_EVENTv1 \<Rightarrow> convertRowsEvent streamEventWriteRows event file
      | WRITE_ROWS_EVENTv2 \<Rightarrow> convertRowsEvent streamEventWriteRows event file
      | UPDATE_ROWS_EVENTv1 \<Rightarrow> convertRowsEvent streamEventUpdateRows event file
      | UPDATE_ROWS_EVENTv2 \<Rightarrow> convertRowsEvent streamEventUpdateRows event file
      | DELETE_ROWS_EVENTv1 \<Rightarrow> convertRowsEvent streamEventDeleteRows event file
      | DELETE_ROWS_EVENTv2 \<Rightarrow> convertRowsEvent streamEventDeleteRows event file
      | _ \<Rightarrow> Inr (noStreamEvent, False))"

section \<open>Buffer limits\<close>

definition estimateValueBytes :: "goval \<Rightarrow> u64" where
  "estimateValueBytes v =
     (case v of
        VNil \<Rightarrow> 8 | VBool _ \<Rightarrow> 8 | VInt _ \<Rightarrow> 8 | VUint _ \<Rightarrow> 8 | VFloat _ \<Rightarrow> 8
      | VIntN _ _ \<Rightarrow> 8 | VUintN _ _ \<Rightarrow> 8 | VFloat32 _ \<Rightarrow> 8
      | VString s \<Rightarrow> of_nat (length s) | VBytes s \<Rightarrow> of_nat (length s) | VTime _ \<Rightarrow> 24 | VOther _ \<Rightarrow> 64)"

definition estimateStreamEventBytes :: "streamEvent \<Rightarrow> u64" where
  "estimateStreamEventBytes event =
     fold (\<lambda>row estimate. fold (\<lambda>v estimate. estimate + estimateValueBytes v) row (estimate + 24)) (se_Rows event)
       (of_nat (96 + length (se_File event) + length (se_Schema event) + length (se_Table event) + length (se_Query event)))"

record streamBufferUsage =
  bu_MaxEvents :: u64
  bu_MaxBytes :: u64
  bu_Events :: u64
  bu_Bytes :: u64

definition defaultMaxBufferedStreamEvents :: u64 where
  "defaultMaxBufferedStreamEvents = 200000"

definition defaultMaxBufferedStreamBytes :: u64 where
  "defaultMaxBufferedStreamBytes = 64 * 1024 * 1024"

definition buffer_limit_failure :: "streamBufferUsage \<Rightarrow> streamEvent \<Rightarrow> go_error" where
  "buffer_limit_failure u event =
     EFailure (emptyFailure\<lparr>
       af_FailureType := ''source_window_buffer_limit_exceeded'', af_File := se_File event,
       af_Pos := se_Pos event, af_Operation := ''read_binlog'',
       af_TableName := (if TrimSpace (se_Schema event) \<noteq> '''' \<and> TrimSpace (se_Table event) \<noteq> ''''
                        then se_Schema event @ ''.'' @ se_Table event else ''''),
       af_Message := ''source replay window exceeded buffered safety limits before apply (events=''
         @ show_nat (unat (bu_Events u)) @ ''/'' @ show_nat (unat (bu_MaxEvents u)) @ '' bytes=''
         @ show_nat (unat (bu_Bytes u)) @ ''/'' @ show_nat (unat (bu_MaxBytes u)) @ '')'',
       af_Remediation := ''rerun replicate more frequently to shorten replay windows, or restart from a later checkpoint after reducing pending source churn''\<rparr>)"

definition record_event :: "streamEvent \<Rightarrow> streamBufferUsage \<Rightarrow> go_error + streamBufferUsage" where
  "record_event event u =
     (let u = u\<lparr>bu_Events := bu_Events u + 1, bu_Bytes := bu_Bytes u + estimateStreamEventBytes event\<rparr>;
          eventExceeded = (bu_MaxEvents u > 0 \<and> bu_Events u > bu_MaxEvents u);
          bytesExceeded = (bu_MaxBytes u > 0 \<and> bu_Bytes u > bu_MaxBytes u)
      in if \<not> eventExceeded \<and> \<not> bytesExceeded then Inr u else Inl (buffer_limit_failure u event))"

section \<open>The loop\<close>

definition rotated_file :: "string \<Rightarrow> string \<Rightarrow> string" where
  "rotated_file currentFile name = (if TrimSpace name \<noteq> '''' then TrimSpace name else currentFile)"

text \<open>None: the stream has ended without an event at the end of the window, and GetEvent blocks.\<close>

fun stream_loop ::
  "applyWindow \<Rightarrow> stream_item list \<Rightarrow> string \<Rightarrow> streamEvent list \<Rightarrow> streamBufferUsage \<Rightarrow> (go_error + streamEvent list) option" where
  "stream_loop window [] currentFile events usage = None"
| "stream_loop window (ReadError e # items) currentFile events usage =
     Some (Inl (EWrap ''read source binlog event'' (EText e)))"
| "stream_loop window (NoEvent # items) currentFile events usage = stream_loop window items currentFile events usage"
| "stream_loop window (Event event # items) currentFile events usage =
     (if be_EventType event = ROTATE_EVENT then
        (case be_Event event of
           RotatePayload position name \<Rightarrow>
             (if positionReachedOrPassed (rotated_file currentFile name) (ucast position) (aw_EndFile window) (aw_EndPos window)
              then Some (Inr events)
              else stream_loop window items (rotated_file currentFile name) events usage)
         | _ \<Rightarrow> Some (Inl (EText ''unexpected rotate event payload'')))
      else if positionAfter currentFile (be_LogPos event) (aw_EndFile window) (aw_EndPos window) then Some (Inr events)
      else
        (case convertReplicationEvent event currentFile of
           Inl e \<Rightarrow> Some (Inl e)
         | Inr (converted, include) \<Rightarrow>
             (case (if include then record_event converted usage else Inr usage) of
                Inl e \<Rightarrow> Some (Inl e)
              | Inr usage' \<Rightarrow>
                  (let events' = (if include then events @ [converted] else events)
                   in if positionReachedOrPassed currentFile (be_LogPos event) (aw_EndFile window) (aw_EndPos window)
                      then Some (Inr events')
                      else stream_loop window items currentFile events' usage'))))"

text \<open>
  streamWindowEvents after the configuration: how a GTID set is parsed and how the two ways to
  start the stream answer are parameters.
\<close>

record 'g syncer =
  sy_parseGTIDSet :: "string \<Rightarrow> go_error + 'g"
  sy_StartSyncGTID :: "'g \<Rightarrow> string + stream_item list"
  sy_StartSync :: "string \<Rightarrow> u32 \<Rightarrow> string + stream_item list"

definition open_stream :: "'g syncer \<Rightarrow> applyWindow \<Rightarrow> go_error + stream_item list" where
  "open_stream syncer window =
     (if TrimSpace (aw_GTIDSet window) \<noteq> '''' then
        (case sy_parseGTIDSet syncer (aw_GTIDSet window) of
           Inl e \<Rightarrow> Inl (EWrap ''parse GTID set for binlog sync'' e)
         | Inr gtidSet \<Rightarrow>
             (case sy_StartSyncGTID syncer gtidSet of
                Inl e \<Rightarrow> Inl (EWrap ''start source binlog sync (GTID)'' (EText e))
              | Inr items \<Rightarrow> Inr items))
      else
        (case sy_StartSync syncer (aw_StartFile window) (aw_StartPos window) of
           Inl e \<Rightarrow> Inl (EWrap ''start source binlog sync'' (EText e))
         | Inr items \<Rightarrow> Inr items))"

definition initialBufferUsage :: streamBufferUsage where
  "initialBufferUsage = \<lparr>bu_MaxEvents = defaultMaxBufferedStreamEvents, bu_MaxBytes = defaultMaxBufferedStreamBytes,
     bu_Events = 0, bu_Bytes = 0\<rparr>"

definition streamWindowEvents ::
  "(go_error + 'g syncer) \<Rightarrow> applyWindow \<Rightarrow> (go_error + streamEvent list) option" where
  "streamWindowEvents config window =
     (case config of
        Inl e \<Rightarrow> Some (Inl e)
      | Inr syncer \<Rightarrow>
          (case open_stream syncer window of
             Inl e \<Rightarrow> Some (Inl e)
           | Inr items \<Rightarrow> stream_loop window items (aw_StartFile window) [] initialBufferUsage))"

section \<open>The server id\<close>

definition deriveServerID :: "string \<Rightarrow> string \<Rightarrow> u32" where
  "deriveServerID user addr =
     (let hash = fold (\<lambda>c hash. (xor hash (of_nat (of_char c))) * 16777619) (user @ ''@'' @ addr) 2166136261
      in if hash = 0 then 54001 else hash)"

lemma deriveServerID_nonzero [simp]: "deriveServerID user addr \<noteq> 0"
  by (simp add: deriveServerID_def Let_def)


section \<open>Where the events of a stream are in the log\<close>

definition is_change :: "binlogEvent \<Rightarrow> bool" where
  "is_change event = (be_EventType event \<in> {QUERY_EVENT, XID_EVENT, WRITE_ROWS_EVENTv1, WRITE_ROWS_EVENTv2,
     UPDATE_ROWS_EVENTv1, UPDATE_ROWS_EVENTv2, DELETE_ROWS_EVENTv1, DELETE_ROWS_EVENTv2})"

fun locate :: "string \<Rightarrow> stream_item list \<Rightarrow> (string \<times> binlogEvent) list" where
  "locate f [] = []"
| "locate f (ReadError e # items) = []"
| "locate f (NoEvent # items) = locate f items"
| "locate f (Event event # items) =
     (if be_EventType event = ROTATE_EVENT then
        (case be_Event event of RotatePayload position name \<Rightarrow> locate (rotated_file f name) items | _ \<Rightarrow> [])
      else (f, event) # locate f items)"

text \<open>
  The stream of a server whose files have the base name: positions grow, from b on. Only the
  events that the code converts must be strictly later; the library also delivers artificial
  events without a position of their own.
\<close>

fun in_order :: "string \<Rightarrow> string \<times> u32 \<Rightarrow> stream_item list \<Rightarrow> bool" where
  "in_order base b [] = True"
| "in_order base b (ReadError e # items) = True"
| "in_order base b (NoEvent # items) = in_order base b items"
| "in_order base b (Event event # items) =
     (if be_EventType event = ROTATE_EVENT then
        (case be_Event event of
           RotatePayload position name \<Rightarrow>
             (let b' = (rotated_file (fst b) name, ucast position)
              in server_pos base b' \<and> \<not> pos_before b' b \<and> in_order base b' items)
         | _ \<Rightarrow> True)
      else if is_change event then snd b < be_LogPos event \<and> in_order base (fst b, be_LogPos event) items
      else in_order base (fst b, max (snd b) (be_LogPos event)) items)"

lemma server_pos_same_file: "server_pos base p \<Longrightarrow> fst q = fst p \<Longrightarrow> server_pos base q"
  by (simp add: server_pos_def)

lemma same_file_before [simp]: "pos_before (f, p) (f, q) \<longleftrightarrow> p < q"
  by (simp add: position_defs)

lemma not_before_before:
  assumes "server_pos base p" "server_pos base q" "server_pos base r"
    and "\<not> pos_before q p" and "pos_before q r"
  shows "pos_before p r"
  using assms server.before_key [of base] by auto

lemma in_order_later:
  assumes "in_order base b items" and "server_pos base b"
    and "(f, ev) \<in> set (locate (fst b) items)" and "is_change ev"
  shows "server_pos base (f, be_LogPos ev) \<and> pos_before b (f, be_LogPos ev)"
  using assms
proof (induction items arbitrary: b)
  case (Cons item items)
  show ?case
  proof (cases item)
    case (Event event)
    consider (rotate) "be_EventType event = ROTATE_EVENT"
      | (change) "be_EventType event \<noteq> ROTATE_EVENT" "is_change event"
      | (other) "be_EventType event \<noteq> ROTATE_EVENT" "\<not> is_change event" by blast
    then show ?thesis
    proof cases
      case rotate
      then obtain position name where p: "be_Event event = RotatePayload position name"
        using Cons.prems(3) Event by (cases "be_Event event") auto
      define b' where "b' = (rotated_file (fst b) name, ucast position :: u32)"
      have b': "server_pos base b'" "\<not> pos_before b' b" "in_order base b' items"
        using Cons.prems(1) Event rotate p by (simp_all add: b'_def Let_def)
      have "(f, ev) \<in> set (locate (fst b') items)"
        using Cons.prems(3) Event rotate p by (simp add: b'_def)
      then have ih: "server_pos base (f, be_LogPos ev) \<and> pos_before b' (f, be_LogPos ev)"
        using Cons.IH [of b'] b' Cons.prems(4) by blast
      then show ?thesis
        using not_before_before [of base b b' "(f, be_LogPos ev)"] Cons.prems(2) b' by blast
    next
      case change
      let ?b' = "(fst b, be_LogPos event)"
      have b': "server_pos base ?b'" using Cons.prems(2) by (rule server_pos_same_file) simp
      have here: "pos_before b ?b'"
        using Cons.prems(1) Event change by (cases b) simp
      from Cons.prems(3) Event change consider "f = fst b" "ev = event" | "(f, ev) \<in> set (locate (fst ?b') items)"
        by auto
      then show ?thesis
      proof cases
        case 1
        then show ?thesis using b' here by simp
      next
        case 2
        then have ih: "server_pos base (f, be_LogPos ev) \<and> pos_before ?b' (f, be_LogPos ev)"
          using Cons.IH [of ?b'] b' Cons.prems(1,4) Event change by simp
        then show ?thesis using server.before_trans [of base b ?b'] b' here Cons.prems(2) by blast
      qed
    next
      case other
      let ?b' = "(fst b, max (snd b) (be_LogPos event))"
      have b': "server_pos base ?b'" using Cons.prems(2) by (rule server_pos_same_file) simp
      have "\<not> pos_before ?b' b" by (cases b) simp
      moreover have "(f, ev) \<in> set (locate (fst ?b') items)"
        using Cons.prems(3,4) Event other by auto
      then have "server_pos base (f, be_LogPos ev) \<and> pos_before ?b' (f, be_LogPos ev)"
        using Cons.IH [of ?b'] b' Cons.prems(1,4) Event other by simp
      ultimately show ?thesis
        using not_before_before [of base b ?b'] Cons.prems(2) b' by blast
    qed
  qed (use Cons in auto)
qed simp



section \<open>The window is read completely and not beyond its end\<close>

definition window_end :: "applyWindow \<Rightarrow> string \<times> u32" where
  "window_end window = (aw_EndFile window, aw_EndPos window)"

definition converted_event :: "string \<times> binlogEvent \<Rightarrow> streamEvent" where
  "converted_event x = fst (projr (convertReplicationEvent (snd x) (fst x)))"

definition event_at :: "string \<times> binlogEvent \<Rightarrow> string \<times> u32" where
  "event_at x = (fst x, be_LogPos (snd x))"

definition in_window :: "applyWindow \<Rightarrow> string \<times> binlogEvent \<Rightarrow> bool" where
  "in_window window x = (is_change (snd x) \<and> \<not> pos_after (event_at x) (window_end window))"

lemma convert_include:
  "convertReplicationEvent ev f = Inr (converted, include) \<Longrightarrow>
     include = is_change ev \<and> (include \<longrightarrow> converted = converted_event (f, ev))"
  by (cases "be_EventType ev")
    (auto simp: convertReplicationEvent_def convertRowsEvent_def is_change_def converted_event_def
      split: payload.splits option.splits)

text \<open>Once the end is reached nothing that follows in the log belongs to the window.\<close>

lemma nothing_left:
  assumes "in_order base b items" and "server_pos base b" and "server_pos base (window_end window)"
    and "pos_reached b (window_end window)"
  shows "filter (in_window window) (locate (fst b) items) = []"
proof -
  have "\<not> in_window window (f, ev)" if "(f, ev) \<in> set (locate (fst b) items)" for f ev
  proof
    assume w: "in_window window (f, ev)"
    then have "server_pos base (f, be_LogPos ev) \<and> pos_before b (f, be_LogPos ev)"
      using in_order_later [OF assms(1,2) that] by (simp add: in_window_def)
    then have "pos_after (f, be_LogPos ev) (window_end window)"
      using server.beyond [of base b "window_end window" "(f, be_LogPos ev)"] assms by blast
    with w show False by (simp add: in_window_def event_at_def)
  qed
  then show ?thesis by (auto simp: filter_empty_conv)
qed

lemma max_reached:
  assumes "server_pos base (f, p)" and "server_pos base e" and "pos_reached (f, q) e"
  shows "pos_reached (f, max p q) e"
proof -
  have "server_pos base (f, q)" "server_pos base (f, max p q)"
    using assms(1) by (auto intro: server_pos_same_file)
  moreover have "\<not> pos_before (f, max p q) (f, q)" by simp
  ultimately show ?thesis using server.reached_mono assms(2,3) by blast
qed

lemma tail_after:
  assumes "in_order base b (Event event # items)" and "be_EventType event \<noteq> ROTATE_EVENT"
    and "server_pos base b" and "server_pos base (window_end window)"
    and "pos_reached (fst b, be_LogPos event) (window_end window)"
  shows "filter (in_window window) (locate (fst b) items) = []"
proof (cases "is_change event")
  case True
  then have "server_pos base (fst b, be_LogPos event)" "in_order base (fst b, be_LogPos event) items"
    using assms(1,2,3) by (auto intro: server_pos_same_file)
  then show ?thesis using nothing_left [of base "(fst b, be_LogPos event)" items] assms by simp
next
  case False
  let ?b' = "(fst b, max (snd b) (be_LogPos event))"
  have "server_pos base ?b'" "in_order base ?b' items"
    using assms(1,2,3) False by (auto intro: server_pos_same_file)
  moreover have "pos_reached ?b' (window_end window)"
    using max_reached [of base "fst b" "snd b"] assms by simp
  ultimately show ?thesis using nothing_left [of base ?b' items] assms(4) by simp
qed

lemma stream_loop_complete:
  assumes "stream_loop window items (fst b) acc usage = Some (Inr out)"
    and "in_order base b items" and "server_pos base b" and "server_pos base (window_end window)"
  shows "out = acc @ map converted_event (filter (in_window window) (locate (fst b) items))"
  using assms
proof (induction items arbitrary: b acc usage)
  case (Cons item items)
  show ?case
  proof (cases item)
    case (Event event)
    let ?e = "window_end window"
    consider (rotate) "be_EventType event = ROTATE_EVENT"
      | (past) "be_EventType event \<noteq> ROTATE_EVENT" "pos_after (fst b, be_LogPos event) ?e"
      | (inside) "be_EventType event \<noteq> ROTATE_EVENT" "\<not> pos_after (fst b, be_LogPos event) ?e" by blast
    then show ?thesis
    proof cases
      case rotate
      then obtain position name where p: "be_Event event = RotatePayload position name"
        using Cons.prems(1) Event by (cases "be_Event event") auto
      define b' where "b' = (rotated_file (fst b) name, ucast position :: u32)"
      have b': "server_pos base b'" "in_order base b' items"
        using Cons.prems(2) Event rotate p by (simp_all add: b'_def Let_def)
      show ?thesis
      proof (cases "pos_reached b' ?e")
        case True
        then have "out = acc" using Cons.prems(1) Event rotate p
          by (simp add: b'_def pos_reached_def window_end_def)
        moreover have "filter (in_window window) (locate (fst b') items) = []"
          using nothing_left b' Cons.prems(4) True by blast
        ultimately show ?thesis using Event rotate p by (simp add: b'_def)
      next
        case False
        then have "stream_loop window items (fst b') acc usage = Some (Inr out)"
          using Cons.prems(1) Event rotate p by (simp add: b'_def pos_reached_def window_end_def)
        then show ?thesis using Cons.IH [of b'] b' Cons.prems(4) Event rotate p by (simp add: b'_def)
      qed
    next
      case past
      then have out: "out = acc" using Cons.prems(1) Event by (simp add: pos_after_def window_end_def)
      have "\<not> in_window window (fst b, event)" using past by (simp add: in_window_def event_at_def)
      moreover have "filter (in_window window) (locate (fst b) items) = []"
        using tail_after [OF Cons.prems(2) [unfolded Event] past(1) Cons.prems(3,4) lo.after_reached [OF past(2)]] .
      ultimately show ?thesis using out Event past by simp
    next
      case inside
      then obtain converted incl where conv: "convertReplicationEvent event (fst b) = Inr (converted, incl)"
        using Cons.prems(1) Event
        by (cases "convertReplicationEvent event (fst b)") (auto simp: pos_after_def window_end_def)
      define acc' where "acc' = (if incl then acc @ [converted] else acc)"
      have acc': "acc' = acc @ map converted_event (filter (in_window window) [(fst b, event)])"
        using convert_include [OF conv] inside by (auto simp: acc'_def in_window_def event_at_def)
      obtain usage' where u: "(if incl then record_event converted usage else Inr usage) = Inr usage'"
        using Cons.prems(1) Event inside conv
        by (cases "if incl then record_event converted usage else Inr usage")
          (auto simp: pos_after_def window_end_def)
      have loop: "(if pos_reached (fst b, be_LogPos event) ?e then Some (Inr acc')
          else stream_loop window items (fst b) acc' usage') = Some (Inr out)"
        unfolding acc'_def using Cons.prems(1) Event inside conv u
        by (simp add: pos_after_def pos_reached_def window_end_def Let_def split del: if_split)
      show ?thesis
      proof (cases "pos_reached (fst b, be_LogPos event) ?e")
        case True
        have "filter (in_window window) (locate (fst b) items) = []"
          using tail_after [OF Cons.prems(2) [unfolded Event] inside(1) Cons.prems(3,4) True] .
        then show ?thesis using loop True acc' Event inside by (auto split: if_splits)
      next
        case False
        obtain b' where b': "fst b' = fst b" "in_order base b' items"
          using Cons.prems(2) Event inside by (cases "is_change event") auto
        moreover have "server_pos base b'" using Cons.prems(3) b'(1) by (rule server_pos_same_file)
        ultimately show ?thesis
          using Cons.IH [of b' acc' usage'] loop False acc' Cons.prems(4) Event inside by (auto split: if_splits)
      qed
    qed
  qed (use Cons in auto)
qed simp



text \<open>
  The loop ends as soon as the stream has an event that reaches the end of the window, or fails;
  it never waits for more.
\<close>

lemma stream_loop_ends:
  "\<exists>x \<in> set (locate f items). pos_reached (event_at x) (window_end window) \<Longrightarrow>
     \<exists>r. stream_loop window items f acc usage = Some r"
proof (induction window items f acc usage rule: stream_loop.induct)
  case (4 window event items f acc usage)
  show ?case
  proof (cases "be_EventType event = ROTATE_EVENT")
    case True
    with 4 show ?thesis by (cases "be_Event event") auto
  next
    case False
    show ?thesis
    proof (cases "pos_reached (f, be_LogPos event) (window_end window)")
      case True
      then show ?thesis
        using False by (auto simp: pos_reached_def window_end_def Let_def split: sum.split)
    next
      case reach: False
      then have later: "\<exists>x \<in> set (locate f items). pos_reached (event_at x) (window_end window)"
        using 4(3) False by (auto simp: event_at_def)
      show ?thesis
        using 4(2) [OF False] False later by (auto simp: Let_def split: sum.splits if_splits)
    qed
  qed
qed auto

section \<open>Bounds of the buffer\<close>

text \<open>What the usage has counted for some events.\<close>

definition usage_of :: "streamEvent list \<Rightarrow> streamBufferUsage \<Rightarrow> bool" where
  "usage_of events u =
     (unat (bu_MaxEvents u) + 1 < 2 ^ 64 \<and> bu_Events u = of_nat (length events) \<and> bu_Bytes u = sum_list (map estimateStreamEventBytes events) \<and>
      (bu_MaxEvents u > 0 \<longrightarrow> length events \<le> unat (bu_MaxEvents u)) \<and>
      (bu_MaxBytes u > 0 \<longrightarrow> bu_Bytes u \<le> bu_MaxBytes u))"

lemma record_event_usage:
  assumes "usage_of events u" and "record_event e u = Inr u'"
  shows "usage_of (events @ [e]) u' \<and> bu_MaxEvents u' = bu_MaxEvents u \<and> bu_MaxBytes u' = bu_MaxBytes u"
proof -
  have u': "u' = u\<lparr>bu_Events := bu_Events u + 1, bu_Bytes := bu_Bytes u + estimateStreamEventBytes e\<rparr>"
    and limits: "bu_MaxEvents u > 0 \<longrightarrow> bu_Events u + 1 \<le> bu_MaxEvents u"
      "bu_MaxBytes u > 0 \<longrightarrow> bu_Bytes u + estimateStreamEventBytes e \<le> bu_MaxBytes u"
    using assms(2) by (auto simp: record_event_def Let_def not_less split: if_splits)
  have "length events + 1 \<le> unat (bu_MaxEvents u)" if pos: "bu_MaxEvents u > 0"
  proof -
    have le: "length events \<le> unat (bu_MaxEvents u)" and n: "bu_Events u = of_nat (length events)"
      using assms(1) pos by (auto simp: usage_of_def)
    have "unat (bu_MaxEvents u) + 1 < 2 ^ 64" using assms(1) by (simp add: usage_of_def)
    then have "length events + 1 < 2 ^ 64" using le by linarith
    moreover have "bu_Events u + 1 = of_nat (length events + 1)" using n by simp
    ultimately have "unat (bu_Events u + 1) = length events + 1"
      using of_nat_inverse [of "length events + 1" "bu_Events u + 1"] by simp
    then have "length events + 1 \<le> unat (bu_MaxEvents u)"
      using limits(1) pos by (simp add: word_le_nat_alt)
    then show ?thesis by simp
  qed
  then show ?thesis
    using assms(1) limits by (auto simp: usage_of_def u')
qed






lemma stream_loop_usage:
  "stream_loop window items f acc usage = Some (Inr out) \<Longrightarrow> usage_of acc usage \<Longrightarrow>
     \<exists>u. usage_of out u \<and> bu_MaxEvents u = bu_MaxEvents usage \<and> bu_MaxBytes u = bu_MaxBytes usage"
proof (induction window items f acc usage rule: stream_loop.induct)
  case (4 window event items f acc usage)
  show ?case
  proof (cases "be_EventType event = ROTATE_EVENT")
    case True
    show ?thesis
    proof (cases "be_Event event")
      case (RotatePayload position name)
      then show ?thesis
        using 4(1) [OF True RotatePayload] 4(3,4) True by (auto split: if_splits)
    qed (use 4(3) True in auto)
  next
    case False
    show ?thesis
    proof (cases "positionAfter f (be_LogPos event) (aw_EndFile window) (aw_EndPos window)")
      case True
      then show ?thesis using 4(3,4) False by auto
    next
      case inside: False
      obtain converted incl where conv: "convertReplicationEvent event f = Inr (converted, incl)"
        using 4(3) False inside by (cases "convertReplicationEvent event f") auto
      obtain usage' where u: "(if incl then record_event converted usage else Inr usage) = Inr usage'"
        using 4(3) False inside conv
        by (cases "if incl then record_event converted usage else Inr usage") auto
      define acc' where "acc' = (if incl then acc @ [converted] else acc)"
      have u': "usage_of acc' usage' \<and> bu_MaxEvents usage' = bu_MaxEvents usage \<and> bu_MaxBytes usage' = bu_MaxBytes usage"
        using u 4(4) record_event_usage [of acc usage converted usage'] by (auto simp: acc'_def split: if_splits)
      show ?thesis
      proof (cases "positionReachedOrPassed f (be_LogPos event) (aw_EndFile window) (aw_EndPos window)")
        case True
        then have "out = acc'" using 4(3) False inside conv u by (simp add: acc'_def split del: if_split)
        then show ?thesis using u' by blast
      next
        case reach: False
        then have "stream_loop window items f acc' usage' = Some (Inr out)"
          unfolding acc'_def using 4(3) False inside conv u by (simp add: Let_def split del: if_split)
        then show ?thesis
          using 4(2) [OF False inside conv refl u acc'_def reach] u' by auto
      qed
    qed
  qed
qed auto

section \<open>Properties\<close>

lemma streamWindowEvents_Inr:
  assumes "streamWindowEvents config window = Some (Inr out)"
  obtains syncer items where "config = Inr syncer" "open_stream syncer window = Inr items"
    "stream_loop window items (aw_StartFile window) [] initialBufferUsage = Some (Inr out)"
  using assms by (auto simp: streamWindowEvents_def split: sum.splits)

text \<open>
  Claim C4. On the log of one server, whose positions grow, a window that is read without an error
  holds exactly the changes of the log up to the end of the window, converted, in the order of the
  log: none is missed and none lies beyond the end.
\<close>

theorem streamWindowEvents_complete:
  assumes "streamWindowEvents (Inr syncer) window = Some (Inr out)"
    and "open_stream syncer window = Inr items"
    and "server_pos base (aw_StartFile window, aw_StartPos window)" and "server_pos base (window_end window)"
    and "in_order base (aw_StartFile window, aw_StartPos window) items"
  shows "out = map converted_event (filter (in_window window) (locate (aw_StartFile window) items))"
proof -
  have "stream_loop window items (fst (aw_StartFile window, aw_StartPos window)) [] initialBufferUsage = Some (Inr out)"
    using assms(1,2) by (simp add: streamWindowEvents_def)
  from stream_loop_complete [OF this assms(5,3,4)] show ?thesis by simp
qed

definition example_items :: "string \<Rightarrow> stream_item list" where
  "example_items f =
     [Event \<lparr>be_EventType = ROTATE_EVENT, be_LogPos = 0, be_Timestamp = 0, be_Event = RotatePayload 4 f\<rparr>,
      Event \<lparr>be_EventType = QUERY_EVENT, be_LogPos = 200, be_Timestamp = 9, be_Event = QueryPayload ''app'' ''BEGIN''\<rparr>,
      NoEvent,
      Event \<lparr>be_EventType = XID_EVENT, be_LogPos = 231, be_Timestamp = 9, be_Event = OtherPayload\<rparr>,
      Event \<lparr>be_EventType = XID_EVENT, be_LogPos = 300, be_Timestamp = 9, be_Event = OtherPayload\<rparr>]"

definition example_syncer :: "nat syncer" where
  "example_syncer = \<lparr>sy_parseGTIDSet = (\<lambda>s. Inl (EText s)), sy_StartSyncGTID = (\<lambda>g. Inl ''no''),
     sy_StartSync = (\<lambda>f p. Inr (example_items f))\<rparr>"

definition example_read_window :: applyWindow where
  "example_read_window = \<lparr>aw_StartFile = ''bin.000007'', aw_StartPos = 4, aw_EndFile = ''bin.000007'',
     aw_EndPos = 231, aw_GTIDSet = ''''\<rparr>"

lemma example_file: "''bin.000007'' = binlog_name ''bin'' 7"
proof -
  have "show_nat 7 = ''7''" by (simp add: show_nat.simps [of 7] digit_char_def char_of_def bit_simps)
  moreover have "replicate 5 CHR ''0'' = ''00000''" by (simp add: numeral_eq_Suc)
  ultimately show ?thesis by (simp add: binlog_name_def pad6_def)
qed

lemma example_read_order:
  "server_pos ''bin'' (aw_StartFile example_read_window, aw_StartPos example_read_window)"
  "server_pos ''bin'' (window_end example_read_window)"
  using example_file by (auto simp: server_pos_def example_read_window_def window_end_def intro: exI [of _ 7])

lemma same_file_position [simp]:
  "positionAfter f p f q \<longleftrightarrow> q < p" "positionReachedOrPassed f p f q \<longleftrightarrow> q \<le> p"
  by (simp_all add: positionAfter_def positionReachedOrPassed_def)

lemma example_located:
  "locate ''bin.000007'' (example_items ''bin.000007'') =
     [(''bin.000007'', \<lparr>be_EventType = QUERY_EVENT, be_LogPos = 200, be_Timestamp = 9, be_Event = QueryPayload ''app'' ''BEGIN''\<rparr>),
      (''bin.000007'', \<lparr>be_EventType = XID_EVENT, be_LogPos = 231, be_Timestamp = 9, be_Event = OtherPayload\<rparr>),
      (''bin.000007'', \<lparr>be_EventType = XID_EVENT, be_LogPos = 300, be_Timestamp = 9, be_Event = OtherPayload\<rparr>)]"
  by (simp add: example_items_def rotated_file_def go_string)

lemma example_filtered:
  "filter (in_window example_read_window) (locate ''bin.000007'' (example_items ''bin.000007'')) =
     take 2 (locate ''bin.000007'' (example_items ''bin.000007''))"
  unfolding example_located
  by (simp add: in_window_def is_change_def event_at_def window_end_def pos_after_def example_read_window_def)

lemma converted_query:
  "be_EventType ev = QUERY_EVENT \<Longrightarrow> be_Event ev = QueryPayload s q \<Longrightarrow> se_Pos (converted_event (f, ev)) = be_LogPos ev"
  by (simp add: converted_event_def convertReplicationEvent_def)

lemma converted_xid: "be_EventType ev = XID_EVENT \<Longrightarrow> se_Pos (converted_event (f, ev)) = be_LogPos ev"
  by (simp add: converted_event_def convertReplicationEvent_def)

lemma example_in_order:
  "in_order ''bin'' (aw_StartFile example_read_window, aw_StartPos example_read_window) (example_items ''bin.000007'')"
proof -
  have f: "rotated_file ''bin.000007'' ''bin.000007'' = ''bin.000007''"
    by (simp add: rotated_file_def go_string)
  show ?thesis
    using example_read_order(1) by (simp add: example_items_def example_read_window_def f is_change_def)
qed

lemma example_open: "open_stream example_syncer example_read_window = Inr (example_items ''bin.000007'')"
  by (simp add: open_stream_def example_syncer_def example_read_window_def)

lemma example_read:
  "\<exists>out. streamWindowEvents (Inr example_syncer) example_read_window = Some (Inr out)"
  unfolding streamWindowEvents_def
  by (simp add: example_open) (simp add: example_read_window_def example_items_def rotated_file_def
      convertReplicationEvent_def record_event_def Let_def go_string
      initialBufferUsage_def defaultMaxBufferedStreamEvents_def defaultMaxBufferedStreamBytes_def
      estimateStreamEventBytes_def)

theorem streamWindowEvents_complete_witness:
  "\<exists>out. streamWindowEvents (Inr example_syncer) example_read_window = Some (Inr out) \<and> map se_Pos out = [200, 231]"
proof -
  obtain out where out: "streamWindowEvents (Inr example_syncer) example_read_window = Some (Inr out)"
    using example_read by blast
  have "out = map converted_event (filter (in_window example_read_window) (locate ''bin.000007'' (example_items ''bin.000007'')))"
    using streamWindowEvents_complete [OF out example_open example_read_order example_in_order]
    by (simp add: example_read_window_def)
  then have "map se_Pos out = map se_Pos (map converted_event (take 2 (locate ''bin.000007'' (example_items ''bin.000007''))))"
    by (simp only: example_filtered)
  then have "map se_Pos out = [200, 231]"
    by (simp add: example_located converted_query converted_xid)
  with out show ?thesis by (intro exI [of _ out] conjI)
qed

text \<open>
  Claim C26. A stream with an event that reaches the end of the window is read to an end: the reader
  returns, with the events or with an error, and does not wait for more.
\<close>

theorem streamWindowEvents_returns:
  assumes "open_stream syncer window = Inr items"
    and "\<exists>x \<in> set (locate (aw_StartFile window) items). pos_reached (event_at x) (window_end window)"
  shows "streamWindowEvents (Inr syncer) window \<noteq> None"
  using stream_loop_ends [OF assms(2)] assms(1) by (auto simp: streamWindowEvents_def)

theorem streamWindowEvents_returns_witness:
  "streamWindowEvents (Inr example_syncer) example_read_window \<noteq> None"
proof (rule streamWindowEvents_returns [OF example_open])
  show "\<exists>x \<in> set (locate (aw_StartFile example_read_window) (example_items ''bin.000007'')).
      pos_reached (event_at x) (window_end example_read_window)"
    by (simp add: example_items_def example_read_window_def rotated_file_def go_string
        event_at_def window_end_def pos_reached_def)
qed

text \<open>
  Claim C36. A window that is read without an error never holds more than 200000 events, nor more
  than 64 MiB by the estimate of the code.
\<close>

theorem streamWindowEvents_bounded:
  assumes "streamWindowEvents config window = Some (Inr out)"
  shows "length out \<le> 200000 \<and> sum_list (map estimateStreamEventBytes out) \<le> 64 * 1024 * 1024"
proof -
  obtain items where "stream_loop window items (aw_StartFile window) [] initialBufferUsage = Some (Inr out)"
    using assms by (rule streamWindowEvents_Inr)
  moreover have "usage_of [] initialBufferUsage"
    by (simp add: usage_of_def initialBufferUsage_def defaultMaxBufferedStreamEvents_def
        defaultMaxBufferedStreamBytes_def)
  ultimately obtain u where "usage_of out u" "bu_MaxEvents u = 200000" "bu_MaxBytes u = 64 * 1024 * 1024"
    using stream_loop_usage by (fastforce simp: initialBufferUsage_def defaultMaxBufferedStreamEvents_def
        defaultMaxBufferedStreamBytes_def)
  then show ?thesis by (auto simp: usage_of_def)
qed

theorem streamWindowEvents_bounded_witness:
  "\<exists>out. streamWindowEvents (Inr example_syncer) example_read_window = Some (Inr out) \<and> length out \<le> 200000"
  using example_read streamWindowEvents_bounded by blast

text \<open>
  An event of any other type is passed over without an error: among them the payload
  event of a compressed transaction, compressed and partial row events. What they change on the
  source is missing from the window, which is read as if they were not there.
\<close>

theorem other_events_are_dropped:
  assumes "\<not> positionAfter currentFile (be_LogPos event) (aw_EndFile window) (aw_EndPos window)"
    and "be_EventType event = OtherEvent name"
    and "\<not> positionReachedOrPassed currentFile (be_LogPos event) (aw_EndFile window) (aw_EndPos window)"
  shows "stream_loop window (Event event # items) currentFile events usage =
    stream_loop window items currentFile events usage"
  using assms by (simp add: convertReplicationEvent_def)

theorem other_events_are_dropped_witness:
  "stream_loop example_read_window
     (Event \<lparr>be_EventType = OtherEvent ''TRANSACTION_PAYLOAD_EVENT'', be_LogPos = 150, be_Timestamp = 0, be_Event = OtherPayload\<rparr> # [NoEvent])
     ''bin.000007'' [] initialBufferUsage =
   stream_loop example_read_window [NoEvent] ''bin.000007'' [] initialBufferUsage"
  by (rule other_events_are_dropped) (simp_all add: example_read_window_def)

end
