(* ===== verification/Apply_Window.thy ===== *)
theory Apply_Window
  imports Apply_Batches Tx_Shape Stream_Window
begin

text \<open>
  Applying a replay window to the destination, one transaction for each batch, with the
  destination's own checkpoint in the same transaction (internal/replicate/binlog/run.go, lines
  564-877, and loadApplyBatchesFromSource in load.go). The destination server is a parameter: a
  record of what its connection does to a state 'db. transactional says what the code relies on.
  The theorems show that whatever fails, the committed state of the destination is that of a
  prefix of the batches, and its checkpoint is the end of that prefix.
\<close>

section \<open>The destination\<close>

text \<open>What ExecContext returns besides an error: a result is nil, or has a row count or an error for it.\<close>

datatype exec_result = NilResult | RowsAffectedError | RowsAffected int

record 'db destination =
  de_ensureTable :: "'db \<Rightarrow> string option \<times> 'db"
  de_begin :: "'db \<Rightarrow> string option \<times> 'db"
  de_exec :: "string \<Rightarrow> goval list \<Rightarrow> 'db \<Rightarrow> (db_error + exec_result) \<times> 'db"
  de_commit :: "'db \<Rightarrow> string option \<times> 'db"
  de_rollback :: "'db \<Rightarrow> 'db"

section \<open>Small operations\<close>

definition estimateLagSeconds :: "u32 \<Rightarrow> instant \<Rightarrow> u64" where
  "estimateLagSeconds eventTimestamp nowUnix =
     (if nowUnix \<le> uint eventTimestamp then 0 else word_of_int (nowUnix - uint eventTimestamp))"

definition destinationCheckpointTable :: string where
  "destinationCheckpointTable = ''dbmigrate_replication_checkpoint''"

definition nl_tabs :: "nat \<Rightarrow> string" where
  "nl_tabs n = CHR 0x0A # replicate n CHR 0x09"

definition checkpoint_query :: string where
  "checkpoint_query =
     nl_tabs 2 @ ''INSERT INTO '' @ destinationCheckpointTable @ '' (checkpoint_id, binlog_file, binlog_pos, apply_ddl)'' @
     nl_tabs 2 @ ''VALUES (1, ?, ?, ?)'' @
     nl_tabs 2 @ ''ON DUPLICATE KEY UPDATE'' @
     nl_tabs 3 @ ''binlog_file = VALUES(binlog_file),'' @
     nl_tabs 3 @ ''binlog_pos = VALUES(binlog_pos),'' @
     nl_tabs 3 @ ''apply_ddl = VALUES(apply_ddl),'' @
     nl_tabs 3 @ ''updated_at = CURRENT_TIMESTAMP'' @ nl_tabs 1"

definition checkpoint_args :: "string \<Rightarrow> u32 \<Rightarrow> string \<Rightarrow> goval list" where
  "checkpoint_args file pos applyDDL = [VString file, VUint (unat pos), VString applyDDL]"

definition saveDestinationCheckpointTx ::
  "'db destination \<Rightarrow> string \<Rightarrow> u32 \<Rightarrow> string \<Rightarrow> 'db \<Rightarrow> string option \<times> 'db" where
  "saveDestinationCheckpointTx dest file pos applyDDL db =
     (case de_exec dest checkpoint_query (checkpoint_args file pos applyDDL) db of
        (Inl e, db') \<Rightarrow> (Some (db_text e), db')
      | (Inr _, db') \<Rightarrow> (None, db'))"

text \<open>The answer to the query for the checkpoint row: its columns, no row, or an error.\<close>

definition loadDestinationCheckpoint ::
  "'db destination \<Rightarrow> ('db \<Rightarrow> string + (string \<times> u64 \<times> string) option) \<Rightarrow> 'db
     \<Rightarrow> (string + destinationCheckpoint option) \<times> 'db" where
  "loadDestinationCheckpoint dest query_row db =
     (case de_ensureTable dest db of
        (Some e, db') \<Rightarrow> (Inl e, db')
      | (None, db') \<Rightarrow>
          (case query_row db' of
             Inl e \<Rightarrow> (Inl e, db')
           | Inr None \<Rightarrow> (Inr None, db')
           | Inr (Some (file, pos, applyDDL)) \<Rightarrow>
               (Inr (Some \<lparr>dcp_File = file, dcp_Pos = ucast pos, dcp_ApplyDDL = applyDDL\<rparr>), db')))"

text \<open>The events of the window are read from the stream; None: the stream blocks.\<close>

definition loadApplyBatchesFromSource ::
  "(applyWindow \<Rightarrow> (go_error + streamEvent list) option) \<Rightarrow> (string \<Rightarrow> string \<Rightarrow> go_error + tableMetadata)
     \<Rightarrow> applyWindow \<Rightarrow> Options \<Rightarrow> (go_error + applyBatch list) option" where
  "loadApplyBatchesFromSource stream load window opts =
     (if TrimSpace (op_SourceDSN opts) = '''' then Some (Inr [])
      else if \<not> positionBefore (aw_StartFile window) (aw_StartPos window) (aw_EndFile window) (aw_EndPos window)
      then Some (Inr [])
      else (case stream window of
              None \<Rightarrow> None
            | Some (Inl e) \<Rightarrow> Some (Inl (EWrap ''stream source binlog events'' e))
            | Some (Inr events) \<Rightarrow>
                (if events = [] then Some (Inr []) else Some (buildApplyBatches load events opts))))"

section \<open>The loop over the batches\<close>

record loopState =
  lp_lastFile :: string
  lp_lastPos :: u32
  lp_appliedEvents :: u64
  lp_tracker :: transactionShapeTracker

text \<open>The fields that every failure of the loop sets.\<close>

definition loop_failure :: "string \<Rightarrow> string \<Rightarrow> u32 \<Rightarrow> string \<Rightarrow> string \<Rightarrow> string \<Rightarrow> string option \<Rightarrow> loopState \<Rightarrow> applyFailure" where
  "loop_failure failureType file pos operation message remediation cause s =
     emptyFailure\<lparr>af_FailureType := failureType, af_File := file, af_Pos := pos, af_Operation := operation,
       af_Message := message, af_Cause := cause, af_Remediation := remediation,
       af_AppliedFile := lp_lastFile s, af_AppliedPos := lp_lastPos s, af_Shape := snapshot (lp_tracker s)\<rparr>"

definition zero_rows_failure :: "applyBatch \<Rightarrow> applyEvent \<Rightarrow> loopState \<Rightarrow> applyFailure" where
  "zero_rows_failure batch event s =
     (loop_failure ''conflict_zero_rows'' (ab_EndFile batch) (ab_EndPos batch) (ev_Operation event)
        (''conflict-policy=fail detected non-applied '' @ ev_Operation event @ '' on '' @ ev_TableName event
         @ '' at '' @ at_position (ab_EndFile batch) (ab_EndPos batch))
        ''review drift and rerun with --conflict-policy=source-wins or --conflict-policy=dest-wins if acceptable''
        None s)\<lparr>
       af_TableName := ev_TableName event, af_Query := ev_Query event,
       af_ValueSample := buildValueSample (ev_KeyColumns event) (ev_KeyArgs event),
       af_OldRowSample := buildValueSample (ev_RowColumns event) (ev_OldRowArgs event),
       af_NewRowSample := buildValueSample (ev_RowColumns event) (ev_NewRowArgs event),
       af_RowDiffSample := buildRowDiffSample (ev_RowColumns event) (ev_OldRowArgs event) (ev_NewRowArgs event)\<rparr>"

text \<open>The events of one batch, inside a transaction; None when all are executed.\<close>

fun apply_events ::
  "'db destination \<Rightarrow> applyBatch \<Rightarrow> loopState \<Rightarrow> applyEvent list \<Rightarrow> 'db \<Rightarrow> applyFailure option \<times> 'db" where
  "apply_events dest batch s [] db = (None, db)"
| "apply_events dest batch s (event # events) db =
     (if TrimSpace (ev_Query event) = '''' then
        (Some ((loop_failure ''invalid_apply_event'' (ab_EndFile batch) (ab_EndPos batch) (ev_Operation event)
           ''apply event query is empty'' ''inspect generated replication apply statements and rerun replicate'' None s)
           \<lparr>af_TableName := ev_TableName event\<rparr>), de_rollback dest db)
      else (case de_exec dest (ev_Query event) (ev_Args event) db of
              (Inl e, db') \<Rightarrow>
                (Some (classifyApplySQLError e event (ab_EndFile batch) (ab_EndPos batch) (lp_lastFile s) (lp_lastPos s)),
                 de_rollback dest db')
            | (Inr result, db') \<Rightarrow>
                (if ev_RequireRowsAffected event \<and> result = RowsAffected 0
                 then (Some (zero_rows_failure batch event s), de_rollback dest db')
                 else apply_events dest batch s events db')))"

text \<open>The guards before the transaction: skip the batch, stop, fail, or go on.\<close>

datatype guard = SkipBatch | StopLoop | FailLoop applyFailure | Proceed

definition batch_guard :: "Options \<Rightarrow> instant \<Rightarrow> applyBatch \<Rightarrow> loopState \<Rightarrow> guard" where
  "batch_guard opts now batch s =
     (let batchEvents = (of_nat (length (ab_Events batch)) :: u64);
          lagSeconds = estimateLagSeconds (ab_EndTimestamp batch) now
      in if ab_Events batch = [] then SkipBatch
         else if op_MaxLagSeconds opts > 0 \<and> ab_EndTimestamp batch > 0 \<and> lagSeconds > op_MaxLagSeconds opts then
           FailLoop (loop_failure ''lag_limit_exceeded'' (ab_EndFile batch) (ab_EndPos batch) ''apply_batch''
             (''replication lag '' @ show_nat (unat lagSeconds) @ ''s exceeds --max-lag-seconds=''
              @ show_nat (unat (op_MaxLagSeconds opts)) @ '' before apply'')
             ''increase --max-lag-seconds or rerun with a smaller apply window (for example via --max-events)'' None s)
         else if op_MaxEvents opts > 0 \<and> batchEvents > op_MaxEvents opts \<and> lp_appliedEvents s = 0 then
           FailLoop (loop_failure ''max_events_limit_too_low'' (ab_EndFile batch) (ab_EndPos batch) ''apply_batch''
             (''first transaction has '' @ show_nat (unat batchEvents) @ '' events which exceeds --max-events=''
              @ show_nat (unat (op_MaxEvents opts)))
             (''increase --max-events to at least '' @ show_nat (unat batchEvents) @ '' or rerun without --max-events limit'') None s)
         else if op_MaxEvents opts > 0 \<and> lp_appliedEvents s + batchEvents > op_MaxEvents opts then StopLoop
         else if ab_EndFile batch = '''' then
           FailLoop (loop_failure ''invalid_batch'' '''' 0 ''apply_batch'' ''apply batch missing end file''
             ''inspect source binlog events and rerun replicate'' None s)
         else if ab_EndPos batch = 0 then
           FailLoop (loop_failure ''invalid_batch'' (ab_EndFile batch) 0 ''apply_batch'' ''apply batch missing end position''
             ''inspect source binlog events and rerun replicate'' None s)
         else Proceed)"

definition after_batch :: "applyBatch \<Rightarrow> loopState \<Rightarrow> loopState" where
  "after_batch batch s =
     \<lparr>lp_lastFile = ab_EndFile batch, lp_lastPos = ab_EndPos batch,
      lp_appliedEvents = lp_appliedEvents s + of_nat (length (ab_Events batch)),
      lp_tracker = markApplied batch (lp_tracker s)\<rparr>"

definition apply_batch :: "'db destination \<Rightarrow> Options \<Rightarrow> applyBatch \<Rightarrow> loopState \<Rightarrow> 'db \<Rightarrow> applyFailure option \<times> 'db" where
  "apply_batch dest opts batch s db =
     (case de_begin dest db of
        (Some e, db1) \<Rightarrow>
          (Some (loop_failure ''destination_transaction_begin'' (ab_EndFile batch) (ab_EndPos batch) ''begin_tx''
             ''begin destination transaction''
             ''verify destination connectivity and transaction permissions, then rerun replicate'' (Some e) s), db1)
      | (None, db1) \<Rightarrow>
          (case apply_events dest batch s (ab_Events batch) db1 of
             (Some failure, db2) \<Rightarrow> (Some failure, db2)
           | (None, db2) \<Rightarrow>
               (case saveDestinationCheckpointTx dest (ab_EndFile batch) (ab_EndPos batch) (op_ApplyDDL opts) db2 of
                  (Some e, db3) \<Rightarrow>
                    (Some (loop_failure ''destination_checkpoint_write'' (ab_EndFile batch) (ab_EndPos batch) ''checkpoint_write''
                       ''write destination replication checkpoint in transaction''
                       ''verify destination write permissions for checkpoint table and rerun replicate'' (Some e) s),
                     de_rollback dest db3)
                | (None, db3) \<Rightarrow>
                    (case de_commit dest db3 of
                       (Some e, db4) \<Rightarrow>
                         (Some (loop_failure ''destination_transaction_commit'' (ab_EndFile batch) (ab_EndPos batch) ''commit_tx''
                            (''commit destination transaction at '' @ at_position (ab_EndFile batch) (ab_EndPos batch))
                            ''verify destination transaction durability settings and rerun replicate'' (Some e) s),
                          de_rollback dest db4)
                     | (None, db4) \<Rightarrow> (None, db4)))))"

text \<open>The clock is read anew for each batch: the times are given in the order of the batches.\<close>

fun apply_loop ::
  "'db destination \<Rightarrow> Options \<Rightarrow> (nat \<Rightarrow> instant) \<Rightarrow> nat \<Rightarrow> applyBatch list \<Rightarrow> loopState \<Rightarrow> 'db \<Rightarrow> (go_error + loopState) \<times> 'db" where
  "apply_loop dest opts clock i [] s db = (Inr s, db)"
| "apply_loop dest opts clock i (batch # batches) s db =
     (case batch_guard opts (clock i) batch s of
        SkipBatch \<Rightarrow> apply_loop dest opts clock (i + 1) batches s db
      | StopLoop \<Rightarrow> (Inr s, db)
      | FailLoop failure \<Rightarrow> (Inl (EFailure failure), db)
      | Proceed \<Rightarrow>
          (case apply_batch dest opts batch s db of
             (Some failure, db') \<Rightarrow> (Inl (EFailure failure), db')
           | (None, db') \<Rightarrow> apply_loop dest opts clock (i + 1) batches (after_batch batch s) db'))"

definition ensure_table_failure :: "applyWindow \<Rightarrow> string \<Rightarrow> applyFailure" where
  "ensure_table_failure window cause =
     emptyFailure\<lparr>af_FailureType := ''destination_checkpoint_table'', af_File := aw_StartFile window,
       af_Pos := aw_StartPos window, af_Operation := ''ensure_checkpoint_table'',
       af_Message := ''prepare destination replication checkpoint table'', af_Cause := Some cause,
       af_Remediation := ''verify destination DDL permissions and rerun replicate'',
       af_AppliedFile := aw_StartFile window, af_AppliedPos := aw_StartPos window\<rparr>"

definition load_failure :: "applyWindow \<Rightarrow> go_error \<Rightarrow> applyFailure" where
  "load_failure window e =
     (case errors_As_failure e of
        Some failure \<Rightarrow> failure\<lparr>af_AppliedFile := aw_StartFile window, af_AppliedPos := aw_StartPos window\<rparr>
      | None \<Rightarrow>
          emptyFailure\<lparr>af_FailureType := ''load_apply_batches'', af_File := aw_EndFile window,
            af_Pos := aw_EndPos window, af_Operation := ''load_batches'',
            af_Message := ''failed to load apply batches from source binlog window'', af_Cause := Some (error_text e),
            af_Remediation := ''verify source binlog permissions and connectivity, then rerun replicate'',
            af_AppliedFile := aw_StartFile window, af_AppliedPos := aw_StartPos window\<rparr>)"

definition applyWindowTransactional ::
  "'db destination \<Rightarrow> (nat \<Rightarrow> instant) \<Rightarrow> (go_error + applyBatch list) \<Rightarrow> applyWindow \<Rightarrow> Options \<Rightarrow> 'db
     \<Rightarrow> (go_error + applyResult) \<times> 'db" where
  "applyWindowTransactional dest clock loaded window opts db =
     (case de_ensureTable dest db of
        (Some e, db') \<Rightarrow> (Inl (EFailure (ensure_table_failure window e)), db')
      | (None, db') \<Rightarrow>
          (case loaded of
             Inl e \<Rightarrow> (Inl (EFailure (load_failure window e)), db')
           | Inr batches \<Rightarrow>
               (case apply_loop dest opts clock 0 batches
                       \<lparr>lp_lastFile = aw_StartFile window, lp_lastPos = aw_StartPos window, lp_appliedEvents = 0,
                        lp_tracker = fold observeBatch batches (newTransactionShapeTracker opts)\<rparr> db' of
                  (Inl e, db'') \<Rightarrow> (Inl e, db'')
                | (Inr s, db'') \<Rightarrow>
                    (Inr \<lparr>ar_File = lp_lastFile s, ar_Pos = lp_lastPos s, ar_AppliedEvents = lp_appliedEvents s,
                          ar_Shape = snapshot (lp_tracker s)\<rparr>, db''))))"



section \<open>What the code relies on\<close>

text \<open>
  A transactional server: view is what is committed, work is what the open transaction sees, and
  effect is what a statement does. A transaction starts from what is committed; a statement, failed
  or not, changes nothing that is committed, as long as it is one of those that do not commit on
  their own; a rollback keeps what is committed; after a failed commit either state is possible.
\<close>

definition transactional ::
  "'db destination \<Rightarrow> ('db \<Rightarrow> 'c) \<Rightarrow> ('db \<Rightarrow> 'c) \<Rightarrow> (string \<Rightarrow> goval list \<Rightarrow> 'c \<Rightarrow> 'c) \<Rightarrow> (string \<Rightarrow> bool) \<Rightarrow> bool" where
  "transactional dest view work effect dml =
     (\<forall>db.
       view (snd (de_ensureTable dest db)) = view db \<and>
       view (snd (de_begin dest db)) = view db \<and>
       (fst (de_begin dest db) = None \<longrightarrow> work (snd (de_begin dest db)) = view db) \<and>
       (\<forall>q args. dml q \<longrightarrow>
          view (snd (de_exec dest q args db)) = view db \<and>
          (\<forall>x. fst (de_exec dest q args db) = Inr x \<longrightarrow> work (snd (de_exec dest q args db)) = effect q args (work db))) \<and>
       view (de_rollback dest db) = view db \<and>
       (fst (de_commit dest db) = None \<longrightarrow> view (snd (de_commit dest db)) = work db) \<and>
       view (snd (de_commit dest db)) \<in> {view db, work db})"

definition events_effect :: "(string \<Rightarrow> goval list \<Rightarrow> 'c \<Rightarrow> 'c) \<Rightarrow> applyEvent list \<Rightarrow> 'c \<Rightarrow> 'c" where
  "events_effect effect evs = fold (\<lambda>ev. effect (ev_Query ev) (ev_Args ev)) evs"

definition batch_effect :: "(string \<Rightarrow> goval list \<Rightarrow> 'c \<Rightarrow> 'c) \<Rightarrow> Options \<Rightarrow> applyBatch \<Rightarrow> 'c \<Rightarrow> 'c" where
  "batch_effect effect opts b c =
     effect checkpoint_query (checkpoint_args (ab_EndFile b) (ab_EndPos b) (op_ApplyDDL opts))
       (events_effect effect (ab_Events b) c)"

definition dml_batch :: "(string \<Rightarrow> bool) \<Rightarrow> applyBatch \<Rightarrow> bool" where
  "dml_batch dml b = list_all (\<lambda>ev. dml (ev_Query ev)) (ab_Events b)"

lemma transactional_exec:
  assumes "transactional dest view work effect dml" and "dml q" and "de_exec dest q args db = (r, db')"
  shows "view db' = view db" "r = Inr x \<Longrightarrow> work db' = effect q args (work db)"
proof -
  have "view (snd (de_exec dest q args db)) = view db \<and>
     (\<forall>x. fst (de_exec dest q args db) = Inr x \<longrightarrow> work (snd (de_exec dest q args db)) = effect q args (work db))"
    using assms(1,2) unfolding transactional_def by blast
  then show "view db' = view db" "r = Inr x \<Longrightarrow> work db' = effect q args (work db)"
    using assms(3) by auto
qed

lemma transactional_rollback:
  "transactional dest view work effect dml \<Longrightarrow> view (de_rollback dest db) = view db"
  by (simp add: transactional_def)

lemma transactional_begin:
  assumes "transactional dest view work effect dml" and "de_begin dest db = (r, db')"
  shows "view db' = view db" "r = None \<Longrightarrow> work db' = view db"
  using assms unfolding transactional_def by (metis fst_conv snd_conv)+

lemma transactional_commit:
  assumes "transactional dest view work effect dml" and "de_commit dest db = (r, db')"
  shows "view db' \<in> {view db, work db}" "r = None \<Longrightarrow> view db' = work db"
  using assms unfolding transactional_def by (metis fst_conv snd_conv)+

lemma apply_events_view:
  assumes "transactional dest view work effect dml" and "list_all (\<lambda>ev. dml (ev_Query ev)) evs"
    and "apply_events dest batch s evs db = (r, db')"
  shows "view db' = view db \<and> (r = None \<longrightarrow> work db' = events_effect effect evs (work db))"
  using assms(2,3)
proof (induction evs arbitrary: db)
  case Nil
  then show ?case by (simp add: events_effect_def)
next
  case (Cons ev evs)
  show ?case
  proof (cases "TrimSpace (ev_Query ev) = ''''")
    case True
    then show ?thesis using Cons.prems transactional_rollback [OF assms(1)] by auto
  next
    case False
    obtain x db1 where x: "de_exec dest (ev_Query ev) (ev_Args ev) db = (x, db1)" by force
    have v: "view db1 = view db"
      and w: "\<And>y. x = Inr y \<Longrightarrow> work db1 = effect (ev_Query ev) (ev_Args ev) (work db)"
      using transactional_exec [OF assms(1) _ x] Cons.prems(1) by auto
    show ?thesis
    proof (cases x)
      case (Inl e)
      then show ?thesis using Cons.prems False x v transactional_rollback [OF assms(1)] by auto
    next
      case (Inr y)
      show ?thesis
      proof (cases "ev_RequireRowsAffected ev \<and> y = RowsAffected 0")
        case True
        then show ?thesis using Cons.prems False x v Inr transactional_rollback [OF assms(1)] by auto
      next
        case go: False
        then have "apply_events dest batch s evs db1 = (r, db')"
          using Cons.prems(2) False x Inr by (simp split: if_splits)
        then show ?thesis
          using Cons.IH [of db1] Cons.prems(1) v w [OF Inr] by (simp add: events_effect_def)
      qed
    qed
  qed
qed

section \<open>Where a failure says the destination is\<close>

definition reports_position :: "loopState \<Rightarrow> applyFailure \<Rightarrow> bool" where
  "reports_position s f = (af_AppliedFile f = lp_lastFile s \<and> af_AppliedPos f = lp_lastPos s)"

lemma loop_failure_reports [simp]: "reports_position s (loop_failure t file pos op m rem c s)"
  by (simp add: reports_position_def loop_failure_def)

lemma loop_failure_type [simp]: "af_FailureType (loop_failure t file pos op m rem c s) = t"
  by (simp add: loop_failure_def)

lemma classify_reports: "reports_position s (classifyApplySQLError e ev file pos (lp_lastFile s) (lp_lastPos s))"
  by (cases e) (simp_all add: reports_position_def classifyApplySQLError_def classify_number_def Let_def)

lemma apply_events_reports: "apply_events dest batch s evs db = (Some f, db') \<Longrightarrow> reports_position s f"
proof (induction evs arbitrary: db)
  case (Cons ev evs)
  then show ?case
    using classify_reports [of s]
    by (auto simp: zero_rows_failure_def reports_position_def loop_failure_def split: if_splits prod.splits sum.splits)
qed simp

lemma guard_reports: "batch_guard opts now b s = FailLoop f \<Longrightarrow> reports_position s f"
  by (auto simp: batch_guard_def Let_def split: if_splits)

section \<open>The committed state is that of a prefix of the batches\<close>

text \<open>One batch: applied as a whole, or not at all; only a failed commit leaves that open.\<close>

lemma apply_batch_atomic:
  assumes "transactional dest view work effect dml" and "dml checkpoint_query" and "dml_batch dml b"
    and "apply_batch dest opts b s db = (r, db')"
  shows "case r of None \<Rightarrow> view db' = batch_effect effect opts b (view db)
    | Some f \<Rightarrow> reports_position s f \<and>
        (view db' = view db \<or>
         af_FailureType f = ''destination_transaction_commit'' \<and> view db' = batch_effect effect opts b (view db))"
proof -
  obtain r1 db1 where bgn: "de_begin dest db = (r1, db1)" by force
  have v1: "view db1 = view db" "r1 = None \<Longrightarrow> work db1 = view db"
    using transactional_begin [OF assms(1) bgn] by auto
  show ?thesis
  proof (cases r1)
    case (Some e)
    then show ?thesis using assms(4) bgn v1 by (auto simp: apply_batch_def)
  next
    case None
    obtain r2 db2 where events: "apply_events dest b s (ab_Events b) db1 = (r2, db2)" by force
    have v2: "view db2 = view db" "r2 = None \<Longrightarrow> work db2 = events_effect effect (ab_Events b) (view db)"
      using apply_events_view [OF assms(1) _ events] assms(3) v1 None by (auto simp: dml_batch_def)
    show ?thesis
    proof (cases r2)
      case (Some f)
      then show ?thesis
        using assms(4) bgn None events v2 apply_events_reports [of dest b s "ab_Events b" db1 f db2]
        by (auto simp: apply_batch_def)
    next
      case r2: None
      obtain x db3 where exec: "de_exec dest checkpoint_query
          (checkpoint_args (ab_EndFile b) (ab_EndPos b) (op_ApplyDDL opts)) db2 = (x, db3)" by force
      have v3: "view db3 = view db" "\<And>y. x = Inr y \<Longrightarrow> work db3 = batch_effect effect opts b (view db)"
        using transactional_exec [OF assms(1,2) exec] v2 r2 by (auto simp: batch_effect_def)
      show ?thesis
      proof (cases x)
        case (Inl e)
        then show ?thesis
          using assms(4) bgn None events r2 exec v3 transactional_rollback [OF assms(1)]
          by (auto simp: apply_batch_def saveDestinationCheckpointTx_def)
      next
        case (Inr y)
        obtain r4 db4 where commit: "de_commit dest db3 = (r4, db4)" by force
        show ?thesis
          using assms(4) bgn None events r2 exec Inr v3 commit transactional_commit [OF assms(1) commit]
            transactional_rollback [OF assms(1)]
          by (cases r4) (auto simp: apply_batch_def saveDestinationCheckpointTx_def)
      qed
    qed
  qed
qed



section \<open>The loop\<close>

definition nonempty_batches :: "applyBatch list \<Rightarrow> applyBatch list" where
  "nonempty_batches bs = filter (\<lambda>b. ab_Events b \<noteq> []) bs"

lemma nonempty_batches_simps [simp]:
  "nonempty_batches [] = []"
  "nonempty_batches (b # bs) = (if ab_Events b = [] then nonempty_batches bs else b # nonempty_batches bs)"
  by (simp_all add: nonempty_batches_def)

definition batches_effect :: "(string \<Rightarrow> goval list \<Rightarrow> 'c \<Rightarrow> 'c) \<Rightarrow> Options \<Rightarrow> applyBatch list \<Rightarrow> 'c \<Rightarrow> 'c" where
  "batches_effect effect opts bs = fold (batch_effect effect opts) bs"

lemma batches_effect_simps [simp]:
  "batches_effect effect opts [] c = c"
  "batches_effect effect opts (b # bs) c = batches_effect effect opts bs (batch_effect effect opts b c)"
  by (simp_all add: batches_effect_def)

text \<open>The position after some batches that follow a position.\<close>

definition end_after :: "string \<times> u32 \<Rightarrow> applyBatch list \<Rightarrow> string \<times> u32" where
  "end_after p bs = (if bs = [] then p else (ab_EndFile (last bs), ab_EndPos (last bs)))"

lemma end_after_Cons [simp]: "end_after p (b # bs) = end_after (ab_EndFile b, ab_EndPos b) bs"
  by (simp add: end_after_def)

lemma end_after_Nil [simp]: "end_after p [] = p"
  by (simp add: end_after_def)

text \<open>
  What a run of the loop from a position may leave: ds are the batches that are committed, and
  the outcome names where they end.
\<close>

definition leaves ::
  "(string \<Rightarrow> goval list \<Rightarrow> 'c \<Rightarrow> 'c) \<Rightarrow> Options \<Rightarrow> applyBatch list \<Rightarrow> string \<times> u32 \<Rightarrow> 'c \<Rightarrow> go_error + string \<times> u32 \<Rightarrow> 'c \<Rightarrow> applyBatch list \<Rightarrow> bool" where
  "leaves effect opts bs p c r c' ds =
     (\<exists>rest. nonempty_batches bs = ds @ rest \<and> c' = batches_effect effect opts ds c \<and>
       (case r of
          Inr q \<Rightarrow> q = end_after p ds
        | Inl e \<Rightarrow> (\<exists>f. e = EFailure f \<and>
            ((af_AppliedFile f, af_AppliedPos f) = end_after p ds \<or>
             (af_FailureType f = ''destination_transaction_commit'' \<and> ds \<noteq> [] \<and>
              (af_AppliedFile f, af_AppliedPos f) = end_after p (butlast ds))))))"

lemma leaves_Cons:
  assumes "leaves effect opts bs (ab_EndFile b, ab_EndPos b) (batch_effect effect opts b c) r c' ds" and "ab_Events b \<noteq> []"
  shows "leaves effect opts (b # bs) p c r c' (b # ds)"
  using assms unfolding leaves_def by (cases r) auto

lemma leaves_skip: "ab_Events b = [] \<Longrightarrow> leaves effect opts bs p c r c' ds \<Longrightarrow> leaves effect opts (b # bs) p c r c' ds"
  by (simp add: leaves_def)

lemma guard_Skip: "batch_guard opts now b s = SkipBatch \<longleftrightarrow> ab_Events b = []"
  by (auto simp: batch_guard_def Let_def split: if_splits)

definition loop_position :: "loopState \<Rightarrow> string \<times> u32" where
  "loop_position s = (lp_lastFile s, lp_lastPos s)"

lemma loop_position_after [simp]: "loop_position (after_batch b s) = (ab_EndFile b, ab_EndPos b)"
  by (simp add: loop_position_def after_batch_def)

fun loop_outcome :: "go_error + loopState \<Rightarrow> go_error + string \<times> u32" where
  "loop_outcome (Inl e) = Inl e"
| "loop_outcome (Inr s) = Inr (loop_position s)"

lemma reports_loop_position: "reports_position s f \<longleftrightarrow> (af_AppliedFile f, af_AppliedPos f) = loop_position s"
  by (simp add: reports_position_def loop_position_def)

lemma apply_loop_leaves:
  assumes "transactional dest view work effect dml" and "dml checkpoint_query" and "list_all (dml_batch dml) bs"
    and "apply_loop dest opts clock i bs s db = (r, db')"
  shows "\<exists>ds. leaves effect opts bs (loop_position s) (view db) (loop_outcome r) (view db') ds"
  using assms(3,4)
proof (induction bs arbitrary: i s db)
  case Nil
  then show ?case by (auto simp: leaves_def)
next
  case (Cons b bs)
  show ?case
  proof (cases "batch_guard opts (clock i) b s")
    case SkipBatch
    then have "apply_loop dest opts clock (i + 1) bs s db = (r, db')" and e: "ab_Events b = []"
      using Cons.prems(2) guard_Skip [of opts "clock i" b s] by auto
    then obtain ds where "leaves effect opts bs (loop_position s) (view db) (loop_outcome r) (view db') ds"
      using Cons.IH [of "i + 1" s db] Cons.prems(1) by auto
    then have "leaves effect opts (b # bs) (loop_position s) (view db) (loop_outcome r) (view db') ds"
      by (rule leaves_skip [OF e])
    then show ?thesis ..
  next
    case StopLoop
    then have "r = Inr s \<and> view db' = view db" using Cons.prems(2) by auto
    then show ?thesis by (intro exI [of _ "[]"]) (simp add: leaves_def)
  next
    case (FailLoop f)
    then have "r = Inl (EFailure f) \<and> view db' = view db" using Cons.prems(2) by auto
    then show ?thesis using guard_reports [OF FailLoop]
      by (intro exI [of _ "[]"]) (simp add: leaves_def reports_loop_position)
  next
    case Proceed
    then have ne: "ab_Events b \<noteq> []" using guard_Skip [of opts "clock i" b s] by auto
    obtain r1 db1 where b: "apply_batch dest opts b s db = (r1, db1)" by force
    note atomic = apply_batch_atomic [OF assms(1,2) _ b]
    show ?thesis
    proof (cases r1)
      case None
      then have v: "view db1 = batch_effect effect opts b (view db)" using atomic Cons.prems(1) by auto
      have "apply_loop dest opts clock (i + 1) bs (after_batch b s) db1 = (r, db')"
        using Cons.prems(2) Proceed b None by simp
      then obtain ds where "leaves effect opts bs (loop_position (after_batch b s)) (view db1)
          (loop_outcome r) (view db') ds"
        using Cons.IH [of "i + 1" "after_batch b s" db1] Cons.prems(1) by auto
      then have "leaves effect opts (b # bs) (loop_position s) (view db) (loop_outcome r) (view db') (b # ds)"
        unfolding v loop_position_after using ne by (rule leaves_Cons)
      then show ?thesis ..
    next
      case (Some f)
      then have "r = Inl (EFailure f)" "db' = db1" using Cons.prems(2) Proceed b by auto
      moreover have "reports_position s f" and "view db1 = view db \<or>
         af_FailureType f = ''destination_transaction_commit'' \<and> view db1 = batch_effect effect opts b (view db)"
        using atomic Cons.prems(1) Some by auto
      ultimately show ?thesis
        using ne by (elim disjE; intro exI [of _ "if view db1 = view db then [] else [b]"])
          (auto simp: leaves_def reports_loop_position)
    qed
  qed
qed



section \<open>A whole window\<close>

definition window_start :: "applyWindow \<Rightarrow> string \<times> u32" where
  "window_start window = (aw_StartFile window, aw_StartPos window)"

fun result_outcome :: "go_error + applyResult \<Rightarrow> go_error + string \<times> u32" where
  "result_outcome (Inl e) = Inl e"
| "result_outcome (Inr r) = Inr (ar_File r, ar_Pos r)"

definition initialLoopState :: "Options \<Rightarrow> applyWindow \<Rightarrow> applyBatch list \<Rightarrow> loopState" where
  "initialLoopState opts window batches =
     \<lparr>lp_lastFile = aw_StartFile window, lp_lastPos = aw_StartPos window, lp_appliedEvents = 0,
      lp_tracker = fold observeBatch batches (newTransactionShapeTracker opts)\<rparr>"

lemma applyWindow_loop:
  assumes "de_ensureTable dest db = (None, db0)"
  obtains r0 db' where "apply_loop dest opts clock 0 batches (initialLoopState opts window batches) db0 = (r0, db')"
    "applyWindowTransactional dest clock (Inr batches) window opts db =
       (case r0 of Inl e \<Rightarrow> Inl e
        | Inr s \<Rightarrow> Inr \<lparr>ar_File = lp_lastFile s, ar_Pos = lp_lastPos s, ar_AppliedEvents = lp_appliedEvents s,
                        ar_Shape = snapshot (lp_tracker s)\<rparr>, db')"
proof -
  obtain r0 db' where "apply_loop dest opts clock 0 batches (initialLoopState opts window batches) db0 = (r0, db')"
    by force
  then show thesis
    using assms by (intro that) (auto simp: applyWindowTransactional_def initialLoopState_def split: sum.split)
qed

lemma applyWindow_leaves:
  assumes "transactional dest view work effect dml" and "dml checkpoint_query" and "list_all (dml_batch dml) batches"
    and "applyWindowTransactional dest clock (Inr batches) window opts db = (r, db')"
  shows "\<exists>ds. leaves effect opts batches (window_start window) (view db) (result_outcome r) (view db') ds"
proof -
  obtain x db0 where e: "de_ensureTable dest db = (x, db0)" by force
  then have v: "view db0 = view db" using assms(1) unfolding transactional_def by (metis snd_conv)
  show ?thesis
  proof (cases x)
    case (Some c)
    then have "r = Inl (EFailure (ensure_table_failure window c))" "db' = db0"
      using assms(4) e by (auto simp: applyWindowTransactional_def)
    then show ?thesis
      using v by (intro exI [of _ "[]"]) (simp add: leaves_def ensure_table_failure_def window_start_def)
  next
    case None
    obtain r0 db1 where loop: "apply_loop dest opts clock 0 batches (initialLoopState opts window batches) db0 = (r0, db1)"
      and r: "applyWindowTransactional dest clock (Inr batches) window opts db =
       (case r0 of Inl e \<Rightarrow> Inl e
        | Inr s \<Rightarrow> Inr \<lparr>ar_File = lp_lastFile s, ar_Pos = lp_lastPos s, ar_AppliedEvents = lp_appliedEvents s,
                        ar_Shape = snapshot (lp_tracker s)\<rparr>, db1)"
      by (rule applyWindow_loop [of dest db db0 opts clock batches window]) (use e None in auto)
    have "result_outcome r = loop_outcome r0" "db' = db1"
      using r assms(4) by (cases r0; auto simp: loop_position_def)+
    moreover have "loop_position (initialLoopState opts window batches) = window_start window"
      by (simp add: loop_position_def initialLoopState_def window_start_def)
    ultimately show ?thesis
      using apply_loop_leaves [OF assms(1,2,3) loop] v by simp
  qed
qed

lemma checkpoint_after_batches:
  assumes "\<And>file pos ddl c. cp (effect checkpoint_query (checkpoint_args file pos ddl) c) = Some (file, pos)" and "ds \<noteq> []"
  shows "cp (batches_effect effect opts ds c) = Some (end_after p ds)"
proof -
  obtain b bs where ds: "ds = bs @ [b]" using assms(2) by (metis rev_exhaust)
  show ?thesis by (simp add: ds batches_effect_def batch_effect_def assms(1) end_after_def)
qed

lemma leaves_failure:
  assumes "leaves effect opts batches p c (Inl e) c' ds0"
  shows "\<exists>f ds. e = EFailure f \<and> prefix ds (nonempty_batches batches) \<and>
    (af_AppliedFile f, af_AppliedPos f) = end_after p ds \<and>
    (c' = batches_effect effect opts ds c \<or>
     af_FailureType f = ''destination_transaction_commit'' \<and>
       (\<exists>b. prefix (ds @ [b]) (nonempty_batches batches) \<and> c' = batches_effect effect opts (ds @ [b]) c))"
proof -
  obtain rest f where f: "nonempty_batches batches = ds0 @ rest" "c' = batches_effect effect opts ds0 c"
    "e = EFailure f"
    "(af_AppliedFile f, af_AppliedPos f) = end_after p ds0 \<or>
     (af_FailureType f = ''destination_transaction_commit'' \<and> ds0 \<noteq> [] \<and>
      (af_AppliedFile f, af_AppliedPos f) = end_after p (butlast ds0))"
    using assms by (auto simp: leaves_def)
  from f(4) show ?thesis
  proof
    assume "(af_AppliedFile f, af_AppliedPos f) = end_after p ds0"
    then show ?thesis using f(1-3) by (intro exI [of _ f] exI [of _ ds0]) simp
  next
    assume l: "af_FailureType f = ''destination_transaction_commit'' \<and> ds0 \<noteq> [] \<and>
      (af_AppliedFile f, af_AppliedPos f) = end_after p (butlast ds0)"
    then have split: "butlast ds0 @ [last ds0] = ds0" by simp
    then have "prefix (butlast ds0) (nonempty_batches batches)" and "prefix (butlast ds0 @ [last ds0]) (nonempty_batches batches)"
      unfolding f(1) by (metis append.assoc prefixI)+
    moreover have "c' = batches_effect effect opts (butlast ds0 @ [last ds0]) c"
      unfolding split by (rule f(2))
    ultimately show ?thesis using l f(3) by blast
  qed
qed

section \<open>Properties\<close>

text \<open>
  Claim C2. Whatever fails and wherever a run stops, what is committed on the destination is the
  effect of a prefix of the window's batches, each applied once and as a whole, and the checkpoint
  that the destination holds is the end of that prefix: a run that resumes there neither repeats
  nor misses a transaction. A run without an error returns that end.
\<close>

theorem applyWindow_commits_prefix:
  assumes "transactional dest view work effect dml" and "dml checkpoint_query" and "list_all (dml_batch dml) batches"
    and "\<And>file pos ddl c. cp (effect checkpoint_query (checkpoint_args file pos ddl) c) = Some (file, pos)"
    and "applyWindowTransactional dest clock (Inr batches) window opts db = (r, db')"
  shows "\<exists>ds rest. nonempty_batches batches = ds @ rest \<and> view db' = batches_effect effect opts ds (view db) \<and>
    (ds \<noteq> [] \<longrightarrow> cp (view db') = Some (end_after (window_start window) ds)) \<and>
    (\<forall>res. r = Inr res \<longrightarrow> (ar_File res, ar_Pos res) = end_after (window_start window) ds)"
proof -
  obtain ds where l: "leaves effect opts batches (window_start window) (view db) (result_outcome r) (view db') ds"
    using applyWindow_leaves [OF assms(1-3,5)] by blast
  then obtain rest where "nonempty_batches batches = ds @ rest" "view db' = batches_effect effect opts ds (view db)"
    unfolding leaves_def by blast
  moreover have "(ar_File res, ar_Pos res) = end_after (window_start window) ds" if "r = Inr res" for res
    using l that by (simp add: leaves_def)
  ultimately show ?thesis
    using checkpoint_after_batches [of cp effect, OF assms(4)] by (intro exI [of _ ds] exI [of _ rest]) simp
qed



text \<open>A destination that logs its statements, as an instance of what the code relies on.\<close>

type_synonym statement_log = "(string \<times> goval list) list"

definition log_effect :: "string \<Rightarrow> goval list \<Rightarrow> statement_log \<Rightarrow> statement_log" where
  "log_effect q args c = c @ [(q, args)]"

fun checkpoint_of_args :: "goval list \<Rightarrow> (string \<times> u32) option" where
  "checkpoint_of_args [VString f, VUint p, d] = Some (f, of_nat p)"
| "checkpoint_of_args _ = None"

definition log_checkpoint :: "statement_log \<Rightarrow> (string \<times> u32) option" where
  "log_checkpoint c =
     (case filter (\<lambda>(q, args). q = checkpoint_query) (rev c) of [] \<Rightarrow> None | (q, args) # _ \<Rightarrow> checkpoint_of_args args)"

definition log_destination :: "(statement_log \<times> statement_log) destination" where
  "log_destination = \<lparr>de_ensureTable = (\<lambda>db. (None, db)), de_begin = (\<lambda>(c, w). (None, c, c)),
     de_exec = (\<lambda>q args (c, w). (Inr (RowsAffected 1), c, log_effect q args w)),
     de_commit = (\<lambda>(c, w). (None, w, w)), de_rollback = (\<lambda>(c, w). (c, c))\<rparr>"

lemma log_destination_transactional: "transactional log_destination fst snd log_effect (\<lambda>q. True)"
  by (auto simp: transactional_def log_destination_def)

lemma log_checkpoint_law: "log_checkpoint (log_effect checkpoint_query (checkpoint_args file pos ddl) c) = Some (file, pos)"
  by (simp add: log_checkpoint_def log_effect_def checkpoint_args_def)

definition example_apply_window :: applyWindow where
  "example_apply_window = \<lparr>aw_StartFile = ''bin.000001'', aw_StartPos = 4, aw_EndFile = ''bin.000001'', aw_EndPos = 400,
     aw_GTIDSet = ''''\<rparr>"

text \<open>The statements that a run commits on the logging destination.\<close>

definition example_run :: "(go_error + applyResult) \<times> statement_log \<times> statement_log" where
  "example_run = applyWindowTransactional log_destination (\<lambda>i. 0) (Inr [two_event_batch]) example_apply_window emptyOptions ([], [])"

lemma example_run_ok:
  "\<exists>res. fst example_run = Inr res \<and> ar_Pos res = 400"
  by (simp add: example_run_def applyWindowTransactional_def log_destination_def batch_guard_def two_event_batch_def
      emptyOptions_def apply_batch_def saveDestinationCheckpointTx_def after_batch_def Let_def is_space_def TrimSpace_def
      example_insert_def)

theorem applyWindow_commits_prefix_witness:
  "log_checkpoint (fst (snd example_run)) = Some (''bin.000001'', 400)"
proof -
  obtain res where res: "fst example_run = Inr res" and pos: "ar_Pos res = 400"
    using example_run_ok by blast
  define db' where "db' = snd example_run"
  have run: "example_run = (Inr res, db')" using res by (simp add: db'_def prod_eq_iff)
  have nb: "nonempty_batches [two_event_batch] = [two_event_batch]"
    by (simp add: two_event_batch_def)
  obtain ds rest where ds: "nonempty_batches [two_event_batch] = ds @ rest"
    "ds \<noteq> [] \<longrightarrow> log_checkpoint (fst db') = Some (end_after (window_start example_apply_window) ds)"
    "(ar_File res, ar_Pos res) = end_after (window_start example_apply_window) ds"
    using applyWindow_commits_prefix [OF log_destination_transactional _ _ log_checkpoint_law run [unfolded example_run_def]]
    by (auto simp: dml_batch_def list_all_iff)
  then have "ds = [] \<or> ds = [two_event_batch]" unfolding nb by (cases ds) auto
  moreover have "ds \<noteq> []" using ds(3) pos by (auto simp: window_start_def example_apply_window_def)
  ultimately have "end_after (window_start example_apply_window) ds = (''bin.000001'', 400)"
    by (simp add: end_after_def two_event_batch_def)
  with ds(2) \<open>ds \<noteq> []\<close> show ?thesis by (simp add: db'_def)
qed

text \<open>
  A failure names the position up to which the destination is committed, whichever step
  failed: the conflict report does not claim more nor less. Only when the commit itself failed may
  the destination already have the batch that was being committed.
\<close>

theorem applyWindow_failure_position:
  assumes "transactional dest view work effect dml" and "dml checkpoint_query" and "list_all (dml_batch dml) batches"
    and "applyWindowTransactional dest clock (Inr batches) window opts db = (Inl e, db')"
  shows "\<exists>f ds. e = EFailure f \<and> prefix ds (nonempty_batches batches) \<and>
    (af_AppliedFile f, af_AppliedPos f) = end_after (window_start window) ds \<and>
    (view db' = batches_effect effect opts ds (view db) \<or>
     af_FailureType f = ''destination_transaction_commit'' \<and>
       (\<exists>b. prefix (ds @ [b]) (nonempty_batches batches) \<and> view db' = batches_effect effect opts (ds @ [b]) (view db)))"
proof -
  obtain ds where "leaves effect opts batches (window_start window) (view db) (Inl e) (view db') ds"
    using applyWindow_leaves [OF assms] by auto
  then show ?thesis by (rule leaves_failure)
qed

text \<open>A server that is gone when the transaction is to be committed.\<close>

definition failing_destination :: "(statement_log \<times> statement_log) destination" where
  "failing_destination = log_destination\<lparr>de_commit := (\<lambda>db. (Some ''gone'', db))\<rparr>"

theorem applyWindow_failure_position_witness:
  "\<exists>f db'. applyWindowTransactional failing_destination (\<lambda>i. 0) (Inr [two_event_batch]) example_apply_window emptyOptions ([], [])
      = (Inl (EFailure f), db') \<and> (af_AppliedFile f, af_AppliedPos f) \<in> {(''bin.000001'', 4), (''bin.000001'', 400)}"
proof -
  have t: "transactional failing_destination fst snd log_effect (\<lambda>q. True)"
    by (auto simp: transactional_def failing_destination_def log_destination_def)
  obtain e db' where run: "applyWindowTransactional failing_destination (\<lambda>i. 0) (Inr [two_event_batch]) example_apply_window emptyOptions ([], [])
      = (Inl e, db')"
    by (simp add: applyWindowTransactional_def failing_destination_def log_destination_def batch_guard_def two_event_batch_def
      emptyOptions_def apply_batch_def saveDestinationCheckpointTx_def Let_def is_space_def TrimSpace_def example_insert_def)
  obtain f ds where f: "e = EFailure f" "prefix ds (nonempty_batches [two_event_batch])"
    "(af_AppliedFile f, af_AppliedPos f) = end_after (window_start example_apply_window) ds"
    using applyWindow_failure_position [OF t _ _ run] by (auto simp: dml_batch_def list_all_iff)
  then have "ds = [] \<or> ds = [two_event_batch]" by (auto simp: prefix_Cons two_event_batch_def)
  then have "end_after (window_start example_apply_window) ds \<in> {(''bin.000001'', 4), (''bin.000001'', 400)}"
    by (auto simp: window_start_def example_apply_window_def two_event_batch_def)
  with run f show ?thesis by auto
qed



section \<open>How far a run goes\<close>

lemma batch_guard_within:
  assumes "batch_guard opts now b s = Proceed" and "op_MaxEvents opts > 0"
  shows "lp_appliedEvents (after_batch b s) \<le> op_MaxEvents opts"
  using assms by (auto simp: batch_guard_def after_batch_def Let_def not_less split: if_splits)

lemma apply_loop_max_events:
  assumes "op_MaxEvents opts > 0"
  shows "apply_loop dest opts clock i bs s db = (Inr s', db') \<Longrightarrow> lp_appliedEvents s \<le> op_MaxEvents opts
    \<Longrightarrow> lp_appliedEvents s' \<le> op_MaxEvents opts"
proof (induction bs arbitrary: i s db)
  case (Cons b bs)
  show ?case
  proof (cases "batch_guard opts (clock i) b s")
    case Proceed
    obtain r1 db1 where b: "apply_batch dest opts b s db = (r1, db1)" by force
    then have "r1 = None" using Cons.prems(1) Proceed by (cases r1) auto
    then have "apply_loop dest opts clock (i + 1) bs (after_batch b s) db1 = (Inr s', db')"
      using Cons.prems(1) Proceed b by simp
    then show ?thesis using Cons.IH batch_guard_within [OF Proceed assms] by blast
  qed (use Cons in auto)
qed simp

text \<open>A destination on which every statement succeeds and affects rows.\<close>

definition reliable :: "'db destination \<Rightarrow> bool" where
  "reliable dest =
     (\<forall>db. fst (de_ensureTable dest db) = None \<and> fst (de_begin dest db) = None \<and> fst (de_commit dest db) = None \<and>
       (\<forall>q args. \<exists>x. fst (de_exec dest q args db) = Inr x \<and> x \<noteq> RowsAffected 0))"

definition valid_batch :: "applyBatch \<Rightarrow> bool" where
  "valid_batch b = (ab_EndFile b \<noteq> '''' \<and> ab_EndPos b \<noteq> 0 \<and> list_all (\<lambda>ev. TrimSpace (ev_Query ev) \<noteq> '''') (ab_Events b))"

text \<open>The longest prefix of some batches whose events, after n others, stay within a limit.\<close>

fun within_limit :: "nat \<Rightarrow> nat \<Rightarrow> applyBatch list \<Rightarrow> applyBatch list" where
  "within_limit m n [] = []"
| "within_limit m n (b # bs) =
     (if n + length (ab_Events b) \<le> m then b # within_limit m (n + length (ab_Events b)) bs else [])"

definition selected :: "Options \<Rightarrow> nat \<Rightarrow> applyBatch list \<Rightarrow> applyBatch list" where
  "selected opts n bs =
     (if op_MaxEvents opts = 0 then nonempty_batches bs
      else within_limit (unat (op_MaxEvents opts)) n (nonempty_batches bs))"

definition event_count :: "applyBatch list \<Rightarrow> nat" where
  "event_count bs = sum_list (map (\<lambda>b. length (ab_Events b)) bs)"

lemma event_count_simps [simp]:
  "event_count [] = 0" "event_count (b # bs) = length (ab_Events b) + event_count bs"
  by (simp_all add: event_count_def)

lemma apply_events_reliable:
  "reliable dest \<Longrightarrow> list_all (\<lambda>ev. TrimSpace (ev_Query ev) \<noteq> '''') evs \<Longrightarrow> fst (apply_events dest b s evs db) = None"
proof (induction evs arbitrary: db)
  case (Cons ev evs)
  obtain x db1 where x: "de_exec dest (ev_Query ev) (ev_Args ev) db = (Inr x, db1)" "x \<noteq> RowsAffected 0"
    using Cons.prems(1) unfolding reliable_def by (metis prod.collapse)
  then show ?case using Cons by simp
qed simp

lemma apply_batch_reliable:
  assumes "reliable dest" and "valid_batch b"
  shows "fst (apply_batch dest opts b s db) = None"
proof -
  obtain db1 where d1: "de_begin dest db = (None, db1)"
    using assms(1) unfolding reliable_def by (metis prod.collapse)
  obtain db2 where d2: "apply_events dest b s (ab_Events b) db1 = (None, db2)"
    using apply_events_reliable [OF assms(1)] assms(2) unfolding valid_batch_def by (metis prod.collapse)
  obtain x db3 where d3: "de_exec dest checkpoint_query
      (checkpoint_args (ab_EndFile b) (ab_EndPos b) (op_ApplyDDL opts)) db2 = (Inr x, db3)"
    using assms(1) unfolding reliable_def by (metis prod.collapse)
  obtain db4 where d4: "de_commit dest db3 = (None, db4)"
    using assms(1) unfolding reliable_def by (metis prod.collapse)
  show ?thesis by (simp add: apply_batch_def d1 d2 d3 d4 saveDestinationCheckpointTx_def)
qed

lemma batch_guard_reliable:
  assumes "op_MaxLagSeconds opts = 0" and "ab_Events b \<noteq> []" and "valid_batch b"
    and "unat (lp_appliedEvents s) = n" and "n + length (ab_Events b) < 2 ^ 64"
    and "n = 0 \<longrightarrow> op_MaxEvents opts = 0 \<or> length (ab_Events b) \<le> unat (op_MaxEvents opts)"
  shows "batch_guard opts now b s =
    (if op_MaxEvents opts = 0 \<or> n + length (ab_Events b) \<le> unat (op_MaxEvents opts) then Proceed else StopLoop)"
proof -
  have len: "unat (of_nat (length (ab_Events b)) :: u64) = length (ab_Events b)"
    using of_nat_inverse [of "length (ab_Events b)" "of_nat (length (ab_Events b)) :: u64"] assms(5) by simp
  have sum: "unat (lp_appliedEvents s + of_nat (length (ab_Events b))) = n + length (ab_Events b)"
    using unat_add_of_nat assms(4,5) by blast
  have "lp_appliedEvents s = 0 \<longleftrightarrow> n = 0" using assms(4) by (metis unsigned_0 word_unat_eq_iff)
  moreover have "unat (op_MaxEvents opts) = 0 \<longleftrightarrow> op_MaxEvents opts = 0" by (metis unsigned_0 word_unat_eq_iff)
  ultimately show ?thesis
    using assms(1,2,3,6) len sum
    by (auto simp: batch_guard_def Let_def valid_batch_def word_less_nat_alt word_gt_0)
qed

lemma apply_loop_reliable:
  assumes "transactional dest view work effect dml" and "dml checkpoint_query" and "reliable dest"
    and "op_MaxLagSeconds opts = 0"
    and "list_all (\<lambda>b. dml_batch dml b \<and> valid_batch b) (nonempty_batches bs)"
    and "unat (lp_appliedEvents s) = n" and "n + event_count bs < 2 ^ 64"
    and "n = 0 \<longrightarrow> op_MaxEvents opts = 0 \<or> selected opts 0 bs \<noteq> [] \<or> nonempty_batches bs = []"
  shows "\<exists>s' db'. apply_loop dest opts clock i bs s db = (Inr s', db') \<and>
    loop_position s' = end_after (loop_position s) (selected opts n bs) \<and>
    view db' = batches_effect effect opts (selected opts n bs) (view db)"
  using assms(5-)
proof (induction bs arbitrary: i s db n)
  case Nil
  then show ?case by (simp add: selected_def)
next
  case (Cons b bs)
  show ?case
  proof (cases "ab_Events b = []")
    case True
    then have "batch_guard opts (clock i) b s = SkipBatch" by (simp add: guard_Skip)
    moreover have "selected opts k (b # bs) = selected opts k bs" for k using True by (simp add: selected_def)
    ultimately show ?thesis using Cons.IH [of s n "i + 1" db] Cons.prems True by simp
  next
    case False
    have ok: "dml_batch dml b" "valid_batch b" using Cons.prems(1) False by auto
    have fits: "n = 0 \<longrightarrow> op_MaxEvents opts = 0 \<or> length (ab_Events b) \<le> unat (op_MaxEvents opts)"
      using Cons.prems(4) False by (auto simp: selected_def split: if_splits)
    have guard: "batch_guard opts (clock i) b s =
      (if op_MaxEvents opts = 0 \<or> n + length (ab_Events b) \<le> unat (op_MaxEvents opts) then Proceed else StopLoop)"
      using batch_guard_reliable [OF assms(4) False ok(2) Cons.prems(2) _ fits] Cons.prems(3) by simp
    show ?thesis
    proof (cases "op_MaxEvents opts = 0 \<or> n + length (ab_Events b) \<le> unat (op_MaxEvents opts)")
      case True
      have sel: "selected opts n (b # bs) = b # selected opts (n + length (ab_Events b)) bs"
        using True False by (auto simp: selected_def)
      obtain db1 where b: "apply_batch dest opts b s db = (None, db1)"
        using apply_batch_reliable [OF assms(3) ok(2)] by (metis prod.collapse)
      then have v: "view db1 = batch_effect effect opts b (view db)"
        using apply_batch_atomic [OF assms(1,2) ok(1) b] by simp
      have applied: "unat (lp_appliedEvents (after_batch b s)) = n + length (ab_Events b)"
        using unat_add_of_nat [OF Cons.prems(2), of "length (ab_Events b)"] Cons.prems(3) by (simp add: after_batch_def)
      have "\<exists>s' db'. apply_loop dest opts clock (i + 1) bs (after_batch b s) db1 = (Inr s', db') \<and>
          loop_position s' = end_after (loop_position (after_batch b s)) (selected opts (n + length (ab_Events b)) bs) \<and>
          view db' = batches_effect effect opts (selected opts (n + length (ab_Events b)) bs) (view db1)"
        using Cons.prems False applied by (intro Cons.IH) auto
      then show ?thesis using guard True b v by (simp add: sel)
    next
      case stop: False
      then have "selected opts n (b # bs) = []" using False by (simp add: selected_def)
      then show ?thesis using guard stop by simp
    qed
  qed
qed



text \<open>
  Claim C25. On a destination that fails nothing and without a lag limit, a run commits the longest
  prefix of the window's transactions whose events stay within the limit of events, or all of them
  without a limit, and ends there. (Unless the very first transaction exceeds the limit, which is
  an error.)
\<close>

theorem applyWindow_progress:
  assumes "transactional dest view work effect dml" and "dml checkpoint_query" and "reliable dest"
    and "op_MaxLagSeconds opts = 0"
    and "list_all (\<lambda>b. dml_batch dml b \<and> valid_batch b) (nonempty_batches batches)"
    and "event_count batches < 2 ^ 64"
    and "op_MaxEvents opts = 0 \<or> selected opts 0 batches \<noteq> [] \<or> nonempty_batches batches = []"
  shows "\<exists>res db'. applyWindowTransactional dest clock (Inr batches) window opts db = (Inr res, db') \<and>
    (ar_File res, ar_Pos res) = end_after (window_start window) (selected opts 0 batches) \<and>
    view db' = batches_effect effect opts (selected opts 0 batches) (view db)"
proof -
  obtain db0 where e: "de_ensureTable dest db = (None, db0)"
    using assms(3) unfolding reliable_def by (metis prod.collapse)
  then have v: "view db0 = view db" using assms(1) unfolding transactional_def by (metis snd_conv)
  let ?s = "initialLoopState opts window batches"
  obtain s' db' where loop: "apply_loop dest opts clock 0 batches ?s db0 = (Inr s', db')"
    "loop_position s' = end_after (loop_position ?s) (selected opts 0 batches)"
    "view db' = batches_effect effect opts (selected opts 0 batches) (view db0)"
    using apply_loop_reliable [OF assms(1-5), of ?s 0 clock 0 db0] assms(6,7)
    by (auto simp: initialLoopState_def)
  have "loop_position ?s = window_start window"
    by (simp add: loop_position_def initialLoopState_def window_start_def)
  then show ?thesis
    using e v loop by (simp add: applyWindowTransactional_def loop_position_def initialLoopState_def)
qed

lemma log_destination_reliable: "reliable log_destination"
  by (auto simp: reliable_def log_destination_def)

theorem applyWindow_progress_witness:
  "\<exists>res db'. applyWindowTransactional log_destination (\<lambda>i. 0) (Inr [two_event_batch, two_event_batch]) example_apply_window
      (emptyOptions\<lparr>op_MaxEvents := 3\<rparr>) ([], []) = (Inr res, db') \<and> length (fst db') = 3"
proof -
  let ?o = "emptyOptions\<lparr>op_MaxEvents := 3\<rparr>"
  have sel: "selected ?o 0 [two_event_batch, two_event_batch] = [two_event_batch]"
    by (simp add: selected_def two_event_batch_def)
  have ok: "list_all (\<lambda>b. dml_batch (\<lambda>q. True) b \<and> valid_batch b) (nonempty_batches [two_event_batch, two_event_batch])"
    by (simp add: dml_batch_def valid_batch_def two_event_batch_def example_insert_def TrimSpace_def is_space_def)
  have cnt: "event_count [two_event_batch, two_event_batch] < 2 ^ 64"
    by (simp add: two_event_batch_def)
  have lag: "op_MaxLagSeconds ?o = 0" by (simp add: emptyOptions_def)
  obtain res db' where "applyWindowTransactional log_destination (\<lambda>i. 0) (Inr [two_event_batch, two_event_batch])
      example_apply_window ?o ([], []) = (Inr res, db')"
    and "fst db' = batches_effect log_effect ?o [two_event_batch] (fst ([], []))"
    using applyWindow_progress [OF log_destination_transactional _ log_destination_reliable lag ok cnt,
      of "\<lambda>i. 0" example_apply_window "([], [])"] sel by auto
  then show ?thesis
    by (simp add: batch_effect_def events_effect_def log_effect_def two_event_batch_def)
qed

text \<open>
  With a limit of events, no run reports more applied events than the limit.
\<close>

theorem applyWindow_max_events:
  assumes "applyWindowTransactional dest clock loaded window opts db = (Inr res, db')" and "op_MaxEvents opts > 0"
  shows "ar_AppliedEvents res \<le> op_MaxEvents opts"
proof -
  obtain batches db0 where l: "loaded = Inr batches" "de_ensureTable dest db = (None, db0)"
    using assms(1) by (auto simp: applyWindowTransactional_def split: prod.splits option.splits sum.splits)
  obtain s' where "apply_loop dest opts clock 0 batches (initialLoopState opts window batches) db0 = (Inr s', db')"
    and r: "ar_AppliedEvents res = lp_appliedEvents s'"
    using assms(1) l by (auto simp: applyWindowTransactional_def initialLoopState_def split: prod.splits sum.splits)
  from apply_loop_max_events [OF assms(2) this(1)] show ?thesis
    unfolding r by (simp add: initialLoopState_def)
qed

theorem applyWindow_max_events_witness:
  "\<exists>res db'. applyWindowTransactional log_destination (\<lambda>i. 0) (Inr []) example_apply_window
      (emptyOptions\<lparr>op_MaxEvents := 3\<rparr>) ([], []) = (Inr res, db') \<and> ar_AppliedEvents res \<le> 3"
proof -
  obtain res db' where run: "applyWindowTransactional log_destination (\<lambda>i. 0) (Inr []) example_apply_window
      (emptyOptions\<lparr>op_MaxEvents := 3\<rparr>) ([], []) = (Inr res, db')"
    by (simp add: applyWindowTransactional_def log_destination_def)
  from applyWindow_max_events [OF run] show ?thesis using run by auto
qed

text \<open>A server that commits a schema change at once, and is lost before the checkpoint is written.\<close>

definition ddl_destination :: "(statement_log \<times> statement_log) destination" where
  "ddl_destination = log_destination\<lparr>de_exec := (\<lambda>q args (c, w).
     if q = checkpoint_query then (Inl (OtherDBError ''gone''), c, w)
     else if classifyDDL q \<noteq> None then (Inr (RowsAffected 0), log_effect q args w, log_effect q args w)
     else (Inr (RowsAffected 1), c, log_effect q args w))\<rparr>"

text \<open>
  A schema change is not covered by the transaction: the server commits it at once, so
  when the checkpoint cannot be written after it, the run fails, the schema change is on the
  destination, and the failure as well as the destination's checkpoint still name the position
  before it. The next run executes it again.
\<close>

theorem ddl_batch_is_not_atomic:
  "\<exists>f. apply_loop ddl_destination (example_options\<lparr>op_ApplyDDL := ''apply''\<rparr>) (\<lambda>i. 0) 0
        [batch_at example_ddl [ddlApplyEvent example_ddl]]
        (initialLoopState (example_options\<lparr>op_ApplyDDL := ''apply''\<rparr>) example_apply_window []) ([], []) =
      (Inl (EFailure f), [(''CREATE TABLE u (id INT)'', [])], [(''CREATE TABLE u (id INT)'', [])]) \<and>
    (af_AppliedFile f, af_AppliedPos f) = window_start example_apply_window"
proof -
  let ?q = "''CREATE TABLE u (id INT)''"
  have q: "TrimSpace ?q \<noteq> []" "classifyDDL ?q \<noteq> None"
    by (simp_all add: classifyDDL_def go_string Let_def)
  have ne: "?q \<noteq> checkpoint_query" by (simp add: checkpoint_query_def nl_tabs_def)
  show ?thesis
    using q ne
    by (simp add: batch_guard_def apply_batch_def saveDestinationCheckpointTx_def ddl_destination_def log_destination_def
        batch_at_def ddlApplyEvent_def example_ddl_def example_update_def example_options_def emptyOptions_def
        initialLoopState_def Let_def log_effect_def loop_failure_def window_start_def)
qed

end
