(* ===== verification/State_Files.thy ===== *)
theory State_Files
  imports State_Types
begin

text \<open>
  The files of the state directory (internal/state/io.go and internal/commands/state_lock.go):
  the lock of the directory and the atomic replacement of a file. A file system maps a path to
  what is stored there; directory permissions are not part of it. What the operating system
  answers is a parameter. write_step gives the writer as a state machine that can be stopped at
  any point, sys_step the processes that compete for the lock; the invariants show that a file is
  always the old or the new one, and that at most one process holds the lock.
\<close>

section \<open>Files\<close>

datatype json =
    JNull | JBool bool | JNum int | JStr string | JTime instant | JArr "json list" | JObj "(string \<times> json) list"

text \<open>The bytes of a file: the text of a JSON value, or any other text.\<close>

datatype content = FileJson json | FileText string

type_synonym fs = "string \<rightharpoonup> content"

definition path_join :: "string \<Rightarrow> string \<Rightarrow> string" where
  "path_join dir name = dir @ ''/'' @ name"

lemma path_join_inject: "path_join d a = path_join d b \<longleftrightarrow> a = b"
  by (simp add: path_join_def)

section \<open>Atomic replacement\<close>

text \<open>
  What the operating system answers to one call of WritePrivateFileAtomic: the name of the
  temporary file, and for each call an error or None.
\<close>

record write_env =
  we_tmp :: string
  we_mkdir :: "string option"
  we_chmodDir :: "string option"
  we_create :: "string option"
  we_chmod :: "string option"
  we_write :: "string option"
  we_close :: "string option"
  we_rename :: "string option"
  we_remove :: "string option"

definition no_faults :: "string \<Rightarrow> write_env" where
  "no_faults tmp = \<lparr>we_tmp = tmp, we_mkdir = None, we_chmodDir = None, we_create = None, we_chmod = None,
     we_write = None, we_close = None, we_rename = None, we_remove = None\<rparr>"

definition EnsurePrivateDir :: "string option \<Rightarrow> string option \<Rightarrow> string \<Rightarrow> string option" where
  "EnsurePrivateDir mkdirErr chmodErr dir =
     (case mkdirErr of
        Some e \<Rightarrow> Some (''mkdir state dir '' @ dir @ '': '' @ e)
      | None \<Rightarrow>
          (case chmodErr of
             Some e \<Rightarrow> Some (''chmod state dir '' @ dir @ '': '' @ e)
           | None \<Rightarrow> None))"

text \<open>The deferred removal of the temporary file; its own error is ignored.\<close>

definition cleanup :: "write_env \<Rightarrow> fs \<Rightarrow> fs" where
  "cleanup env fs = (if we_remove env = None then fs(we_tmp env := None) else fs)"

definition WritePrivateFileAtomic :: "write_env \<Rightarrow> string \<Rightarrow> string \<Rightarrow> content \<Rightarrow> fs \<Rightarrow> string option \<times> fs" where
  "WritePrivateFileAtomic env dir path raw fs =
     (case EnsurePrivateDir (we_mkdir env) (we_chmodDir env) dir of
        Some e \<Rightarrow> (Some e, fs)
      | None \<Rightarrow>
          (case we_create env of
             Some e \<Rightarrow> (Some (''create temp file for '' @ path @ '': '' @ e), fs)
           | None \<Rightarrow>
               (let tmpPath = we_tmp env; fs = fs(tmpPath \<mapsto> FileText '''')
                in (case we_chmod env of
                      Some e \<Rightarrow> (Some (''chmod temp file '' @ tmpPath @ '': '' @ e), cleanup env fs)
                    | None \<Rightarrow>
                        (case we_write env of
                           Some e \<Rightarrow> (Some (''write temp file '' @ tmpPath @ '': '' @ e), cleanup env fs)
                         | None \<Rightarrow>
                             (let fs = fs(tmpPath \<mapsto> raw)
                              in (case we_close env of
                                    Some e \<Rightarrow> (Some (''close temp file '' @ tmpPath @ '': '' @ e), cleanup env fs)
                                  | None \<Rightarrow>
                                      (case we_rename env of
                                         Some e \<Rightarrow> (Some (''replace '' @ path @ '': '' @ e), cleanup env fs)
                                       | None \<Rightarrow> (None, fs(tmpPath := None, path := Some raw))))))))))"

text \<open>
  The same code one system call at a time, so that it can be cut off between any two of them and
  inside the write, where the temporary file holds part of the text.
\<close>

datatype write_pc = WStart | WCreated | WReady | WWritten | WClosed | WDone | WFailed

inductive write_step :: "string \<Rightarrow> string \<Rightarrow> content \<Rightarrow> write_pc \<times> fs \<Rightarrow> write_pc \<times> fs \<Rightarrow> bool"
  for path tmp raw where
  create: "fs tmp = None \<Longrightarrow> write_step path tmp raw (WStart, fs) (WCreated, fs(tmp \<mapsto> FileText ''''))"
| chmod: "write_step path tmp raw (WCreated, fs) (WReady, fs)"
| write_some: "write_step path tmp raw (WReady, fs) (WReady, fs(tmp \<mapsto> FileText part))"
| write_all: "write_step path tmp raw (WReady, fs) (WWritten, fs(tmp \<mapsto> raw))"
| close: "write_step path tmp raw (WWritten, fs) (WClosed, fs)"
| rename: "write_step path tmp raw (WClosed, fs) (WDone, fs(tmp := None, path := fs tmp))"
| give_up: "pc \<noteq> WDone \<Longrightarrow> write_step path tmp raw (pc, fs) (WFailed, fs)"
| remove: "write_step path tmp raw (WFailed, fs) (WFailed, fs(tmp := None))"

inductive_cases write_stepE: "write_step path tmp raw (pc, fs) (pc', fs')"

definition write_reach :: "string \<Rightarrow> string \<Rightarrow> content \<Rightarrow> fs \<Rightarrow> write_pc \<times> fs \<Rightarrow> bool" where
  "write_reach path tmp raw fs0 = (write_step path tmp raw)\<^sup>*\<^sup>* (WStart, fs0)"

definition write_inv :: "string \<Rightarrow> string \<Rightarrow> content \<Rightarrow> fs \<Rightarrow> write_pc \<times> fs \<Rightarrow> bool" where
  "write_inv path tmp raw fs0 s =
     ((\<forall>q. q \<noteq> path \<and> q \<noteq> tmp \<longrightarrow> snd s q = fs0 q) \<and>
      (if fst s = WDone then snd s path = Some raw \<and> snd s tmp = None else snd s path = fs0 path) \<and>
      (fst s \<in> {WWritten, WClosed} \<longrightarrow> snd s tmp = Some raw))"

lemma write_step_inv:
  "tmp \<noteq> path \<Longrightarrow> write_inv path tmp raw fs0 s \<Longrightarrow> write_step path tmp raw s s' \<Longrightarrow> write_inv path tmp raw fs0 s'"
  by (erule write_step.cases) (auto simp: write_inv_def split: if_splits)

lemma write_reach_inv:
  assumes "tmp \<noteq> path" and "write_reach path tmp raw fs0 s"
  shows "write_inv path tmp raw fs0 s"
  using assms(2) unfolding write_reach_def
proof (induction rule: rtranclp_induct)
  case base
  then show ?case by (simp add: write_inv_def)
next
  case (step s s')
  then show ?case using write_step_inv [OF assms(1)] by blast
qed

text \<open>The code as one function is a run of the steps.\<close>

lemma steps: 
  "write_reach path tmp raw fs0 s \<Longrightarrow> write_step path tmp raw s s' \<Longrightarrow> write_reach path tmp raw fs0 s'"
  unfolding write_reach_def by (rule rtranclp.rtrancl_into_rtrancl)

lemma reach_start: "write_reach path tmp raw fs0 (WStart, fs0)"
  by (simp add: write_reach_def)

lemma reach_cleanup:
  "pc \<noteq> WDone \<Longrightarrow> write_reach path (we_tmp env) raw fs0 (pc, fs) \<Longrightarrow> write_reach path (we_tmp env) raw fs0 (WFailed, cleanup env fs)"
  by (auto simp: cleanup_def intro: steps give_up remove)

lemma WritePrivateFileAtomic_reach:
  assumes "fs (we_tmp env) = None" and "WritePrivateFileAtomic env dir path raw fs = (r, fs')" and "we_tmp env \<noteq> path"
  shows "write_reach path (we_tmp env) raw fs (if r = None then WDone else WFailed, fs')"
proof -
  let ?t = "we_tmp env"
  let ?f1 = "fs(?t \<mapsto> FileText '''')" and ?f2 = "fs(?t \<mapsto> raw)"
  have "write_reach path ?t raw fs (WCreated, ?f1)" using assms(1) by (blast intro: steps reach_start create)
  then have ready: "write_reach path ?t raw fs (WReady, ?f1)" by (blast intro: steps chmod)
  then have created: "write_reach path ?t raw fs (WCreated, ?f1)" using \<open>write_reach path ?t raw fs (WCreated, ?f1)\<close> by blast
  have written: "write_reach path ?t raw fs (WWritten, ?f2)" using steps [OF ready write_all] by simp
  then have closed: "write_reach path ?t raw fs (WClosed, ?f2)" by (blast intro: steps close)
  then have done': "write_reach path ?t raw fs (WDone, ?f2(?t := None, path := Some raw))"
    using steps [OF closed rename] by simp
  have failed: "write_reach path ?t raw fs (WFailed, fs)" by (blast intro: steps reach_start give_up)
  show ?thesis
    using assms(2) failed done' reach_cleanup [OF _ created] reach_cleanup [OF _ ready]
      reach_cleanup [OF _ written] reach_cleanup [OF _ closed]
    by (auto simp: WritePrivateFileAtomic_def Let_def split: option.splits)
qed

lemma WritePrivateFileAtomic_cases:
  assumes "WritePrivateFileAtomic env dir path raw fs = (r, fs')" and "we_tmp env \<noteq> path"
  shows "fs' path = (if r = None then Some raw else fs path)" "q \<noteq> path \<Longrightarrow> q \<noteq> we_tmp env \<Longrightarrow> fs' q = fs q"
  using assms by (auto simp: WritePrivateFileAtomic_def Let_def cleanup_def split: option.splits if_splits)



section \<open>The lock of the directory\<close>

text \<open>
  What the operating system answers while the lock is taken: the open call fails by itself when
  the file exists (O_EXCL), otherwise le_open may hold another error.
\<close>

record lock_env =
  le_mkdir :: "string option"
  le_chmod :: "string option"
  le_open :: "string option"
  le_readable :: bool
  le_pid :: int
  le_hostname :: "string option"
  le_started :: string
  le_cwd :: "string option"
  le_write :: "string option"
  le_remove :: "string option"

definition mustGetwd :: "string option \<Rightarrow> string" where
  "mustGetwd wd = (case wd of None \<Rightarrow> ''unknown-cwd'' | Some d \<Rightarrow> if TrimSpace d = '''' then ''unknown-cwd'' else d)"

definition lockFile :: "string \<Rightarrow> string" where
  "lockFile dir = path_join dir ''.dbmigrate.lock''"

definition lock_payload :: "lock_env \<Rightarrow> string" where
  "lock_payload env =
     (let hostname = (case le_hostname env of None \<Rightarrow> ''unknown-host''
                      | Some h \<Rightarrow> if TrimSpace h = '''' then ''unknown-host'' else h)
      in ''pid='' @ show_int (le_pid env) @ '' hostname='' @ hostname @ '' started_at='' @ le_started env
         @ '' cwd='' @ mustGetwd (le_cwd env))"

definition lock_owner :: "lock_env \<Rightarrow> content \<Rightarrow> string" where
  "lock_owner env c =
     (case c of
        FileText t \<Rightarrow> (if le_readable env \<and> TrimSpace t \<noteq> '''' then TrimSpace t else ''unknown owner'')
      | FileJson j \<Rightarrow> ''unknown owner'')"

record DirLock =
  dl_path :: string

definition AcquireDirLock :: "lock_env \<Rightarrow> string \<Rightarrow> fs \<Rightarrow> (string + DirLock) \<times> fs" where
  "AcquireDirLock env dir0 fs =
     (let dir = TrimSpace dir0
      in if dir = '''' then (Inl ''state_dir_invalid: directory path is empty'', fs)
         else (case EnsurePrivateDir (le_mkdir env) (le_chmod env) dir of
                 Some e \<Rightarrow> (Inl e, fs)
               | None \<Rightarrow>
                   (let lockPath = lockFile dir
                    in (case fs lockPath of
                          Some c \<Rightarrow>
                            (Inl (''state_dir_locked: '' @ dir @ '' is already in use; lock_file='' @ lockPath
                              @ '' owner={'' @ lock_owner env c
                              @ ''}. Verify no active dbmigrate process still owns this state-dir, then remove the stale lock file manually and retry''), fs)
                        | None \<Rightarrow>
                            (case le_open env of
                               Some e \<Rightarrow> (Inl (''create state lock '' @ lockPath @ '': '' @ e), fs)
                             | None \<Rightarrow>
                                 (case le_write env of
                                    Some e \<Rightarrow> (Inl (''write state lock '' @ lockPath @ '': '' @ e),
                                       if le_remove env = None then fs else fs(lockPath \<mapsto> FileText ''''))
                                  | None \<Rightarrow> (Inr \<lparr>dl_path = lockPath\<rparr>, fs(lockPath \<mapsto> FileText (lock_payload env)))))))))"

definition Release :: "string option \<Rightarrow> string option \<Rightarrow> DirLock option \<Rightarrow> fs \<Rightarrow> string option \<times> fs" where
  "Release closeErr removeErr lock fs =
     (case lock of
        None \<Rightarrow> (None, fs)
      | Some l \<Rightarrow>
          (let errs = (case closeErr of None \<Rightarrow> [] | Some e \<Rightarrow> [e]) @
                      (if fs (dl_path l) = None then [] else (case removeErr of None \<Rightarrow> [] | Some e \<Rightarrow> [e]));
               fs' = (if removeErr = None then fs(dl_path l := None) else fs)
           in (if errs = [] then None else Some (''release state lock: '' @ Join errs ''; ''), fs')))"

text \<open>Processes that take, keep, release or lose the lock of one directory.\<close>

inductive sys_step :: "string \<Rightarrow> nat set \<times> fs \<Rightarrow> nat set \<times> fs \<Rightarrow> bool" for dir where
  acquired: "AcquireDirLock env dir fs = (Inr lock, fs') \<Longrightarrow> sys_step dir (held, fs) (insert p held, fs')"
| refused: "AcquireDirLock env dir fs = (Inl e, fs') \<Longrightarrow> sys_step dir (held, fs) (held, fs')"
| released: "p \<in> held \<Longrightarrow> Release closeErr removeErr (Some \<lparr>dl_path = lockFile (TrimSpace dir)\<rparr>) fs = (r, fs')
    \<Longrightarrow> sys_step dir (held, fs) (held - {p}, fs')"
| crashed: "p \<in> held \<Longrightarrow> sys_step dir (held, fs) (held - {p}, fs)"
| other_files: "fs' (lockFile (TrimSpace dir)) = fs (lockFile (TrimSpace dir)) \<Longrightarrow> sys_step dir (held, fs) (held, fs')"

definition lock_inv :: "string \<Rightarrow> nat set \<times> fs \<Rightarrow> bool" where
  "lock_inv dir s =
     ((\<forall>p \<in> fst s. \<forall>q \<in> fst s. p = q) \<and> (fst s \<noteq> {} \<longrightarrow> snd s (lockFile (TrimSpace dir)) \<noteq> None))"

lemma AcquireDirLock_Inr:
  "AcquireDirLock env dir fs = (Inr lock, fs') \<Longrightarrow>
     fs (lockFile (TrimSpace dir)) = None \<and> lock = \<lparr>dl_path = lockFile (TrimSpace dir)\<rparr> \<and>
     fs' = fs(lockFile (TrimSpace dir) \<mapsto> FileText (lock_payload env))"
  by (auto simp: AcquireDirLock_def Let_def split: if_splits option.splits)

lemma AcquireDirLock_Inl:
  "AcquireDirLock env dir fs = (Inl e, fs') \<Longrightarrow> fs (lockFile (TrimSpace dir)) \<noteq> None \<Longrightarrow> fs' = fs"
  by (auto simp: AcquireDirLock_def Let_def split: if_splits option.splits)

lemma lock_inv_step: "sys_step dir s s' \<Longrightarrow> lock_inv dir s \<Longrightarrow> lock_inv dir s'"
proof (induction rule: sys_step.induct)
  case (acquired env fs lock fs' held p)
  from AcquireDirLock_Inr [OF acquired(1)] acquired(2) show ?case by (auto simp: lock_inv_def)
next
  case (refused env fs e fs' held)
  from AcquireDirLock_Inl [OF refused(1)] refused(2) show ?case by (auto simp: lock_inv_def)
next
  case (released p held closeErr removeErr fs r fs')
  then show ?case by (auto simp: lock_inv_def)
qed (auto simp: lock_inv_def)

lemma lock_inv_reach: "(sys_step dir)\<^sup>*\<^sup>* s s' \<Longrightarrow> lock_inv dir s \<Longrightarrow> lock_inv dir s'"
  by (induction rule: rtranclp_induct) (blast intro: lock_inv_step)+

section \<open>Properties\<close>

text \<open>
  Claim C24. Wherever the replacement of a file is cut off, the file is the old one or the new one,
  whole; no file but the temporary one is touched; and when the writer has finished, the new one is
  in place and the temporary one is gone.
\<close>

theorem replacement_is_atomic:
  assumes "tmp \<noteq> path" and "write_reach path tmp raw fs0 (pc, fs)"
  shows "fs path \<in> {fs0 path, Some raw} \<and> (\<forall>q. q \<noteq> path \<and> q \<noteq> tmp \<longrightarrow> fs q = fs0 q) \<and>
    (pc = WDone \<longrightarrow> fs path = Some raw \<and> fs tmp = None)"
  using write_reach_inv [OF assms] by (auto simp: write_inv_def split: if_splits)

theorem replacement_is_atomic_witness:
  "(([''c'' \<mapsto> FileText ''old'', ''c.tmp-1'' \<mapsto> FileText ''ne''] :: fs) ''c'') \<in> {Some (FileText ''old''), Some (FileText ''new'')}"
proof -
  let ?fs0 = "[''c'' \<mapsto> FileText ''old'']"
  have "write_reach ''c'' ''c.tmp-1'' (FileText ''new'') ?fs0 (WCreated, ?fs0(''c.tmp-1'' \<mapsto> FileText ''''))"
    by (rule steps [OF reach_start create]) simp
  from steps [OF this chmod]
  have ready: "write_reach ''c'' ''c.tmp-1'' (FileText ''new'') ?fs0 (WReady, ?fs0(''c.tmp-1'' \<mapsto> FileText ''''))" .
  from steps [OF ready write_some [where part = "''ne''"]]
  have "write_reach ''c'' ''c.tmp-1'' (FileText ''new'') ?fs0 (WReady, ?fs0(''c.tmp-1'' \<mapsto> FileText ''ne''))" by simp
  from replacement_is_atomic [OF _ this] show ?thesis by simp
qed

text \<open>
  WritePrivateFileAtomic is one of these runs: it ends with the new file when it reports
  success, and with every file as it was, apart from the temporary one, when it reports an error.
\<close>

theorem WritePrivateFileAtomic_refines:
  assumes "fs (we_tmp env) = None" and "we_tmp env \<noteq> path" and "WritePrivateFileAtomic env dir path raw fs = (r, fs')"
  shows "write_reach path (we_tmp env) raw fs (if r = None then WDone else WFailed, fs') \<and>
    fs' path = (if r = None then Some raw else fs path)"
  using WritePrivateFileAtomic_reach [OF assms(1,3,2)] WritePrivateFileAtomic_cases(1) [OF assms(3,2)] by simp

theorem WritePrivateFileAtomic_refines_witness:
  "snd (WritePrivateFileAtomic (no_faults ''d/c.tmp-1'') ''d'' ''d/c'' (FileText ''new'') Map.empty) ''d/c'' = Some (FileText ''new'')"
proof -
  obtain r fs' where w: "WritePrivateFileAtomic (no_faults ''d/c.tmp-1'') ''d'' ''d/c'' (FileText ''new'') Map.empty = (r, fs')"
    by force
  have "r = None" using w by (simp add: WritePrivateFileAtomic_def no_faults_def EnsurePrivateDir_def Let_def)
  with WritePrivateFileAtomic_refines [OF _ _ w] show ?thesis
    unfolding w by (simp add: no_faults_def)
qed

text \<open>
  Claim C23. However processes take, release and lose the lock of a state directory, at most one
  holds it at any time, and while one holds it no other can take it.
\<close>

theorem state_dir_mutual_exclusion:
  assumes "(sys_step dir)\<^sup>*\<^sup>* ({}, fs0) (held, fs)"
  shows "(\<forall>p \<in> held. \<forall>q \<in> held. p = q) \<and>
    (held \<noteq> {} \<longrightarrow> (\<forall>env. \<exists>e. AcquireDirLock env dir fs = (Inl e, fs)))"
proof -
  have inv: "lock_inv dir (held, fs)"
    using lock_inv_reach [OF assms] by (simp add: lock_inv_def)
  have "\<exists>e. AcquireDirLock env dir fs = (Inl e, fs)" if "held \<noteq> {}" for env
  proof (cases "AcquireDirLock env dir fs")
    case (Pair r fs')
    show ?thesis
    proof (cases r)
      case (Inl e)
      then show ?thesis using Pair AcquireDirLock_Inl [of env dir fs e fs'] inv that by (auto simp: lock_inv_def)
    next
      case (Inr l)
      then show ?thesis using Pair AcquireDirLock_Inr [of env dir fs l fs'] inv that by (auto simp: lock_inv_def)
    qed
  qed
  with inv show ?thesis by (simp add: lock_inv_def)
qed

definition example_lock_env :: lock_env where
  "example_lock_env = \<lparr>le_mkdir = None, le_chmod = None, le_open = None, le_readable = True, le_pid = 7,
     le_hostname = None, le_started = ''now'', le_cwd = None, le_write = None, le_remove = None\<rparr>"

theorem state_dir_mutual_exclusion_witness:
  "\<exists>fs e. AcquireDirLock example_lock_env ''s'' Map.empty = (Inr \<lparr>dl_path = lockFile ''s''\<rparr>, fs) \<and>
     AcquireDirLock example_lock_env ''s'' fs = (Inl e, fs)"
proof -
  obtain fs where a: "AcquireDirLock example_lock_env ''s'' Map.empty = (Inr \<lparr>dl_path = lockFile ''s''\<rparr>, fs)"
    by (simp add: AcquireDirLock_def example_lock_env_def EnsurePrivateDir_def Let_def go_string)
  have "(sys_step ''s'')\<^sup>*\<^sup>* ({}, Map.empty) ({1}, fs)"
    using acquired [OF a, of "{}" 1] by (blast intro: r_into_rtranclp)
  from state_dir_mutual_exclusion [OF this] a show ?thesis by blast
qed

end
