(* ===== verification/State_Json.thy ===== *)
theory State_Json
  imports State_Files
begin

text \<open>
  How the records of the state directory are written as JSON and read back (the struct tags of
  internal/state/replication.go, replication_conflict.go, checkpoint.go, checkpoint_cursor.go,
  server_id.go, and what encoding/json does with them). A decoder starts from the zero value:
  a missing key or null leaves it, and a value of the wrong type or out of range is an error,
  which is None here. Keys are matched exactly, as the program writes them. The lemmas show that
  every record reads back as it was written.
\<close>

section \<open>Fields\<close>

definition get :: "string \<Rightarrow> (string \<times> json) list \<Rightarrow> json" where
  "get k kvs = (case map_of (rev kvs) k of None \<Rightarrow> JNull | Some j \<Rightarrow> j)"

text \<open>An object; null stands for the zero value.\<close>

fun dec_obj :: "((string \<times> json) list \<Rightarrow> 'a option) \<Rightarrow> json \<Rightarrow> 'a option" where
  "dec_obj f JNull = f []"
| "dec_obj f (JObj kvs) = f kvs"
| "dec_obj f _ = None"

fun dec_str :: "json \<Rightarrow> string option" where
  "dec_str JNull = Some ''''"
| "dec_str (JStr s) = Some s"
| "dec_str _ = None"

fun dec_bool :: "json \<Rightarrow> bool option" where
  "dec_bool JNull = Some False"
| "dec_bool (JBool b) = Some b"
| "dec_bool _ = None"

fun dec_int :: "json \<Rightarrow> int option" where
  "dec_int JNull = Some 0"
| "dec_int (JNum n) = (if - (2 ^ 63) \<le> n \<and> n < 2 ^ 63 then Some n else None)"
| "dec_int _ = None"

text \<open>An unsigned integer of the width of the result.\<close>

fun dec_word :: "json \<Rightarrow> 'w::len word option" where
  "dec_word JNull = Some 0"
| "dec_word (JNum n) = (if 0 \<le> n \<and> n < 2 ^ LENGTH('w) then Some (word_of_int n) else None)"
| "dec_word _ = None"

fun dec_time :: "json \<Rightarrow> instant option" where
  "dec_time JNull = Some 0"
| "dec_time (JTime t) = Some t"
| "dec_time _ = None"

fun dec_list :: "(json \<Rightarrow> 'a option) \<Rightarrow> json \<Rightarrow> 'a list option" where
  "dec_list f JNull = Some []"
| "dec_list f (JArr js) = those (map f js)"
| "dec_list f _ = None"

definition enc_word :: "'w::len word \<Rightarrow> json" where
  "enc_word w = JNum (uint w)"

definition enc_strs :: "string list \<Rightarrow> json" where
  "enc_strs ss = JArr (map JStr ss)"

lemma dec_enc_word [simp]: "dec_word (enc_word w) = Some w"
  by (simp add: enc_word_def)

lemma those_map_Some [simp]: "those (map (\<lambda>x. Some (f x)) xs) = Some (map f xs)"
  by (induction xs) simp_all

lemma dec_enc_strs [simp]: "dec_list dec_str (enc_strs ss) = Some ss"
  by (simp add: enc_strs_def comp_def)

lemma get_Nil [simp]: "get k [] = JNull"
  by (simp add: get_def)

text \<open>
  A struct as the list of its fields: key, whether the tag has omitempty and the value is empty,
  and the value. A field that is left out reads as null.
\<close>

definition present :: "(string \<times> bool \<times> json) list \<Rightarrow> (string \<times> json) list" where
  "present ts = map (\<lambda>(k, e, j). (k, j)) (filter (\<lambda>(k, e, j). \<not> e) ts)"

definition struct :: "(string \<times> bool \<times> json) list \<Rightarrow> json" where
  "struct ts = JObj (present ts)"

lemma get_unknown: "k \<notin> fst ` set kvs \<Longrightarrow> get k kvs = JNull"
proof -
  assume "k \<notin> fst ` set kvs"
  then have "map_of (rev kvs) k = None" by (simp add: map_of_eq_None_iff)
  then show ?thesis by (simp add: get_def)
qed

lemma get_Cons: "get k ((k', j) # kvs) = (if k \<in> fst ` set kvs then get k kvs else if k = k' then j else JNull)"
proof (cases "map_of (rev kvs) k")
  case None
  then have "k \<notin> fst ` set kvs" by (simp add: map_of_eq_None_iff)
  then show ?thesis using None by (simp add: get_def map_add_def)
next
  case (Some v)
  then have "k \<in> fst ` set kvs" by (metis map_of_eq_None_iff option.distinct(1) set_rev)
  then show ?thesis using Some by (simp add: get_def map_add_def)
qed

lemma present_keys: "k \<in> fst ` set (present ts) \<Longrightarrow> k \<in> fst ` set ts"
  by (force simp: present_def)

lemma get_present:
  "distinct (map fst ts) \<Longrightarrow>
     get k (present ts) = (case map_of ts k of None \<Rightarrow> JNull | Some (e, j) \<Rightarrow> if e then JNull else j)"
proof (induction ts)
  case (Cons t ts)
  obtain k' e j where t: "t = (k', e, j)" by (cases t)
  have fresh: "k' \<notin> fst ` set (present ts)" using Cons.prems present_keys [of k' ts] by (auto simp: t)
  have ih: "get k (present ts) = (case map_of ts k of None \<Rightarrow> JNull | Some (e, j) \<Rightarrow> if e then JNull else j)"
    using Cons by simp
  show ?case
  proof (cases e)
    case True
    then have p: "present (t # ts) = present ts" by (simp add: t present_def)
    show ?thesis
    proof (cases "k = k'")
      case eq: True
      then have "map_of ts k = None" using Cons.prems by (simp add: t map_of_eq_None_iff)
      then show ?thesis unfolding p using ih True eq by (simp add: t)
    next
      case False
      then show ?thesis unfolding p using ih by (simp add: t)
    qed
  next
    case False
    then have p: "present (t # ts) = (k', j) # present ts" by (simp add: t present_def)
    show ?thesis
    proof (cases "k = k'")
      case True
      then show ?thesis unfolding p using fresh False by (simp add: t get_Cons)
    next
      case other: False
      then show ?thesis
        unfolding p using ih False get_unknown [of k "present ts"] by (auto simp: t get_Cons)
    qed
  qed
qed (simp add: present_def)

lemma dec_struct: "dec_obj f (struct ts) = f (present ts)"
  by (simp add: struct_def)

section \<open>The transaction shape and the replication checkpoint\<close>

definition shape_fields :: "ReplicationTransactionShape \<Rightarrow> (string \<times> bool \<times> json) list" where
  "shape_fields s = [
     (''transactions_seen'', sh_TransactionsSeen s = 0, enc_word (sh_TransactionsSeen s)),
     (''transactions_applied'', sh_TransactionsApplied s = 0, enc_word (sh_TransactionsApplied s)),
     (''events_seen'', sh_EventsSeen s = 0, enc_word (sh_EventsSeen s)),
     (''applied_events'', sh_AppliedEvents s = 0, enc_word (sh_AppliedEvents s)),
     (''max_transaction_events'', sh_MaxTransactionEvents s = 0, enc_word (sh_MaxTransactionEvents s)),
     (''avg_transaction_events'', sh_AvgTransactionEvents s = 0, enc_word (sh_AvgTransactionEvents s)),
     (''ddl_transactions'', sh_DDLTransactions s = 0, enc_word (sh_DDLTransactions s)),
     (''fk_constrained_transactions'', sh_FKConstrainedTransactions s = 0, enc_word (sh_FKConstrainedTransactions s)),
     (''keyless_operations'', sh_KeylessOperations s = 0, enc_word (sh_KeylessOperations s)),
     (''keyless_tables'', sh_KeylessTables s = [], enc_strs (sh_KeylessTables s)),
     (''risk_level'', sh_RiskLevel s = '''', JStr (sh_RiskLevel s)),
     (''risk_signals'', sh_RiskSignals s = [], enc_strs (sh_RiskSignals s))]"

definition enc_shape :: "ReplicationTransactionShape \<Rightarrow> json" where
  "enc_shape s = struct (shape_fields s)"

definition bindo :: "'a option \<Rightarrow> ('a \<Rightarrow> 'b option) \<Rightarrow> 'b option" where
  "bindo x f = (case x of None \<Rightarrow> None | Some a \<Rightarrow> f a)"

lemma bindo_simps [simp]: "bindo None f = None" "bindo (Some a) f = f a"
  by (simp_all add: bindo_def)

definition dec_shape :: "json \<Rightarrow> ReplicationTransactionShape option" where
  "dec_shape = dec_obj (\<lambda>o'.
     bindo (dec_word (get ''transactions_seen'' o')) (\<lambda>a1.
     bindo (dec_word (get ''transactions_applied'' o')) (\<lambda>a2.
     bindo (dec_word (get ''events_seen'' o')) (\<lambda>a3.
     bindo (dec_word (get ''applied_events'' o')) (\<lambda>a4.
     bindo (dec_word (get ''max_transaction_events'' o')) (\<lambda>a5.
     bindo (dec_word (get ''avg_transaction_events'' o')) (\<lambda>a6.
     bindo (dec_word (get ''ddl_transactions'' o')) (\<lambda>a7.
     bindo (dec_word (get ''fk_constrained_transactions'' o')) (\<lambda>a8.
     bindo (dec_word (get ''keyless_operations'' o')) (\<lambda>a9.
     bindo (dec_list dec_str (get ''keyless_tables'' o')) (\<lambda>a10.
     bindo (dec_str (get ''risk_level'' o')) (\<lambda>a11.
     bindo (dec_list dec_str (get ''risk_signals'' o')) (\<lambda>a12.
       Some \<lparr>sh_TransactionsSeen = a1, sh_TransactionsApplied = a2, sh_EventsSeen = a3, sh_AppliedEvents = a4,
             sh_MaxTransactionEvents = a5, sh_AvgTransactionEvents = a6, sh_DDLTransactions = a7,
             sh_FKConstrainedTransactions = a8, sh_KeylessOperations = a9, sh_KeylessTables = a10,
             sh_RiskLevel = a11, sh_RiskSignals = a12\<rparr>)))))))))))))"

lemma dec_omitted [simp]:
  "dec_word (if w = 0 then JNull else enc_word w) = Some w"
  "dec_str (if s = '''' then JNull else JStr s) = Some s"
  "dec_list dec_str (if ss = [] then JNull else enc_strs ss) = Some ss"
  by auto

lemma shape_fields_distinct: "distinct (map fst (shape_fields s))"
  by (simp add: shape_fields_def)

lemma dec_enc_shape [simp]: "dec_shape (enc_shape s) = Some s"
  unfolding dec_shape_def enc_shape_def dec_struct get_present [OF shape_fields_distinct]
  by (simp add: shape_fields_def)


definition checkpoint_fields :: "ReplicationCheckpoint \<Rightarrow> (string \<times> bool \<times> json) list" where
  "checkpoint_fields c = [
     (''version'', False, JNum (rc_Version c)),
     (''binlog_file'', False, JStr (rc_BinlogFile c)),
     (''binlog_pos'', False, enc_word (rc_BinlogPos c)),
     (''gtid_set'', rc_GTIDSet c = '''', JStr (rc_GTIDSet c)),
     (''apply_ddl'', False, JStr (rc_ApplyDDL c)),
     (''shape'', False, enc_shape (rc_Shape c)),
     (''updated_at'', False, JTime (rc_UpdatedAt c))]"

definition enc_checkpoint :: "ReplicationCheckpoint \<Rightarrow> json" where
  "enc_checkpoint c = struct (checkpoint_fields c)"

definition dec_checkpoint :: "json \<Rightarrow> ReplicationCheckpoint option" where
  "dec_checkpoint = dec_obj (\<lambda>o'.
     bindo (dec_int (get ''version'' o')) (\<lambda>a1.
     bindo (dec_str (get ''binlog_file'' o')) (\<lambda>a2.
     bindo (dec_word (get ''binlog_pos'' o')) (\<lambda>a3.
     bindo (dec_str (get ''gtid_set'' o')) (\<lambda>a4.
     bindo (dec_str (get ''apply_ddl'' o')) (\<lambda>a5.
     bindo (dec_shape (get ''shape'' o')) (\<lambda>a6.
     bindo (dec_time (get ''updated_at'' o')) (\<lambda>a7.
       Some \<lparr>rc_Version = a1, rc_BinlogFile = a2, rc_BinlogPos = a3, rc_GTIDSet = a4, rc_ApplyDDL = a5,
             rc_Shape = a6, rc_UpdatedAt = a7\<rparr>))))))))"

lemma checkpoint_fields_distinct: "distinct (map fst (checkpoint_fields c))"
  by (simp add: checkpoint_fields_def)

text \<open>Go's int is 64 bits wide; the version field of a record is within it.\<close>

definition is_int64 :: "int \<Rightarrow> bool" where
  "is_int64 n = (- (2 ^ 63) \<le> n \<and> n < 2 ^ 63)"

lemma dec_int64 [simp]: "is_int64 n \<Longrightarrow> dec_int (JNum n) = Some n"
  by (simp add: is_int64_def)

lemma dec_enc_checkpoint: "is_int64 (rc_Version c) \<Longrightarrow> dec_checkpoint (enc_checkpoint c) = Some c"
  unfolding dec_checkpoint_def enc_checkpoint_def dec_struct get_present [OF checkpoint_fields_distinct]
  by (simp add: checkpoint_fields_def del: dec_int.simps)

section \<open>The conflict report\<close>

definition report_fields :: "ReplicationConflictReport \<Rightarrow> (string \<times> bool \<times> json) list" where
  "report_fields r = [
     (''version'', False, JNum (cr_Version r)),
     (''generated_at'', False, JTime (cr_GeneratedAt r)),
     (''apply_ddl'', False, JStr (cr_ApplyDDL r)),
     (''conflict_policy'', False, JStr (cr_ConflictPolicy r)),
     (''start_file'', False, JStr (cr_StartFile r)),
     (''start_pos'', False, enc_word (cr_StartPos r)),
     (''source_end_file'', False, JStr (cr_SourceEndFile r)),
     (''source_end_pos'', False, enc_word (cr_SourceEndPos r)),
     (''applied_end_file'', False, JStr (cr_AppliedEndFile r)),
     (''applied_end_pos'', False, enc_word (cr_AppliedEndPos r)),
     (''failure_type'', False, JStr (cr_FailureType r)),
     (''sql_error_code'', cr_SQLErrorCode r = 0, enc_word (cr_SQLErrorCode r)),
     (''values_redacted'', \<not> cr_ValuesRedacted r, JBool (cr_ValuesRedacted r)),
     (''operation'', cr_Operation r = '''', JStr (cr_Operation r)),
     (''table_name'', cr_TableName r = '''', JStr (cr_TableName r)),
     (''query'', cr_Query r = '''', JStr (cr_Query r)),
     (''value_sample'', cr_ValueSample r = [], enc_strs (cr_ValueSample r)),
     (''old_row_sample'', cr_OldRowSample r = [], enc_strs (cr_OldRowSample r)),
     (''new_row_sample'', cr_NewRowSample r = [], enc_strs (cr_NewRowSample r)),
     (''row_diff_sample'', cr_RowDiffSample r = [], enc_strs (cr_RowDiffSample r)),
     (''shape'', False, enc_shape (cr_Shape r)),
     (''message'', False, JStr (cr_Message r)),
     (''remediation'', cr_Remediation r = '''', JStr (cr_Remediation r))]"

definition enc_report :: "ReplicationConflictReport \<Rightarrow> json" where
  "enc_report r = struct (report_fields r)"

definition dec_report :: "json \<Rightarrow> ReplicationConflictReport option" where
  "dec_report = dec_obj (\<lambda>o'.
     bindo (dec_int (get ''version'' o')) (\<lambda>a1.
     bindo (dec_time (get ''generated_at'' o')) (\<lambda>a2.
     bindo (dec_str (get ''apply_ddl'' o')) (\<lambda>a3.
     bindo (dec_str (get ''conflict_policy'' o')) (\<lambda>a4.
     bindo (dec_str (get ''start_file'' o')) (\<lambda>a5.
     bindo (dec_word (get ''start_pos'' o')) (\<lambda>a6.
     bindo (dec_str (get ''source_end_file'' o')) (\<lambda>a7.
     bindo (dec_word (get ''source_end_pos'' o')) (\<lambda>a8.
     bindo (dec_str (get ''applied_end_file'' o')) (\<lambda>a9.
     bindo (dec_word (get ''applied_end_pos'' o')) (\<lambda>a10.
     bindo (dec_str (get ''failure_type'' o')) (\<lambda>a11.
     bindo (dec_word (get ''sql_error_code'' o')) (\<lambda>a12.
     bindo (dec_bool (get ''values_redacted'' o')) (\<lambda>a13.
     bindo (dec_str (get ''operation'' o')) (\<lambda>a14.
     bindo (dec_str (get ''table_name'' o')) (\<lambda>a15.
     bindo (dec_str (get ''query'' o')) (\<lambda>a16.
     bindo (dec_list dec_str (get ''value_sample'' o')) (\<lambda>a17.
     bindo (dec_list dec_str (get ''old_row_sample'' o')) (\<lambda>a18.
     bindo (dec_list dec_str (get ''new_row_sample'' o')) (\<lambda>a19.
     bindo (dec_list dec_str (get ''row_diff_sample'' o')) (\<lambda>a20.
     bindo (dec_shape (get ''shape'' o')) (\<lambda>a21.
     bindo (dec_str (get ''message'' o')) (\<lambda>a22.
     bindo (dec_str (get ''remediation'' o')) (\<lambda>a23.
       Some \<lparr>cr_Version = a1, cr_GeneratedAt = a2, cr_ApplyDDL = a3, cr_ConflictPolicy = a4, cr_StartFile = a5, cr_StartPos = a6, cr_SourceEndFile = a7, cr_SourceEndPos = a8, cr_AppliedEndFile = a9, cr_AppliedEndPos = a10, cr_FailureType = a11, cr_SQLErrorCode = a12, cr_ValuesRedacted = a13, cr_Operation = a14, cr_TableName = a15, cr_Query = a16, cr_ValueSample = a17, cr_OldRowSample = a18, cr_NewRowSample = a19, cr_RowDiffSample = a20, cr_Shape = a21, cr_Message = a22, cr_Remediation = a23\<rparr>))))))))))))))))))))))))"

lemma report_fields_distinct: "distinct (map fst (report_fields r))"
  by (simp add: report_fields_def)

lemma dec_omitted_bool [simp]: "dec_bool (if \<not> b then JNull else JBool b) = Some b"
  by simp

lemma dec_enc_report: "is_int64 (cr_Version r) \<Longrightarrow> dec_report (enc_report r) = Some r"
  unfolding dec_report_def enc_report_def dec_struct get_present [OF report_fields_distinct]
  by (simp add: report_fields_def del: dec_int.simps)

section \<open>The data checkpoint\<close>

definition key_value_fields :: "CheckpointKeyValue \<Rightarrow> (string \<times> bool \<times> json) list" where
  "key_value_fields v = [
     (''type'', False, JStr (kv_Type v)),
     (''value'', kv_Value v = '''', JStr (kv_Value v))]"

definition enc_key_value :: "CheckpointKeyValue \<Rightarrow> json" where
  "enc_key_value v = struct (key_value_fields v)"

definition dec_key_value :: "json \<Rightarrow> CheckpointKeyValue option" where
  "dec_key_value = dec_obj (\<lambda>o'.
     bindo (dec_str (get ''type'' o')) (\<lambda>a1.
     bindo (dec_str (get ''value'' o')) (\<lambda>a2.
       Some \<lparr>kv_Type = a1, kv_Value = a2\<rparr>)))"

lemma dec_enc_key_value [simp]: "dec_key_value (enc_key_value v) = Some v"
proof -
  have d: "distinct (map fst (key_value_fields v))" by (simp add: key_value_fields_def)
  show ?thesis
    unfolding dec_key_value_def enc_key_value_def dec_struct get_present [OF d] by (simp add: key_value_fields_def)
qed

definition table_fields :: "TableCheckpoint \<Rightarrow> (string \<times> bool \<times> json) list" where
  "table_fields t = [
     (''rows_copied'', False, JNum (tc_RowsCopied t)),
     (''key_columns'', tc_KeyColumns t = [], enc_strs (tc_KeyColumns t)),
     (''last_key'', tc_LastKey t = [], enc_strs (tc_LastKey t)),
     (''last_key_typed'', tc_LastKeyTyped t = [], JArr (map enc_key_value (tc_LastKeyTyped t))),
     (''done'', False, JBool (tc_Done t)),
     (''updated_at'', False, JTime (tc_UpdatedAt t))]"

definition enc_table :: "TableCheckpoint \<Rightarrow> json" where
  "enc_table t = struct (table_fields t)"

definition dec_table :: "json \<Rightarrow> TableCheckpoint option" where
  "dec_table = dec_obj (\<lambda>o'.
     bindo (dec_int (get ''rows_copied'' o')) (\<lambda>a1.
     bindo (dec_list dec_str (get ''key_columns'' o')) (\<lambda>a2.
     bindo (dec_list dec_str (get ''last_key'' o')) (\<lambda>a3.
     bindo (dec_list dec_key_value (get ''last_key_typed'' o')) (\<lambda>a4.
     bindo (dec_bool (get ''done'' o')) (\<lambda>a5.
     bindo (dec_time (get ''updated_at'' o')) (\<lambda>a6.
       Some \<lparr>tc_RowsCopied = a1, tc_KeyColumns = a2, tc_LastKey = a3, tc_LastKeyTyped = a4, tc_Done = a5,
             tc_UpdatedAt = a6\<rparr>)))))))"

lemma dec_omitted_typed [simp]:
  "dec_list dec_key_value (if vs = [] then JNull else JArr (map enc_key_value vs)) = Some vs"
  by (simp add: comp_def)

lemma dec_enc_table: "is_int64 (tc_RowsCopied t) \<Longrightarrow> dec_table (enc_table t) = Some t"
proof -
  have d: "distinct (map fst (table_fields t))" by (simp add: table_fields_def)
  show "is_int64 (tc_RowsCopied t) \<Longrightarrow> dec_table (enc_table t) = Some t"
    unfolding dec_table_def enc_table_def dec_struct get_present [OF d]
    by (simp add: table_fields_def del: dec_int.simps)
qed

text \<open>A Go map is written with its keys in order; on reading, the last of equal keys counts.\<close>

definition enc_tables :: "(string \<rightharpoonup> TableCheckpoint) \<Rightarrow> json" where
  "enc_tables m = JObj (map (\<lambda>k. (k, enc_table (the (m k)))) (sorted_list_of_set (dom m)))"

fun dec_entries :: "(string \<times> json) list \<Rightarrow> (string \<rightharpoonup> TableCheckpoint) option" where
  "dec_entries [] = Some Map.empty"
| "dec_entries ((k, j) # kvs) =
     bindo (dec_table j) (\<lambda>t. bindo (dec_entries kvs) (\<lambda>m. Some ([k \<mapsto> t] ++ m)))"

definition dec_tables :: "json \<Rightarrow> (string \<rightharpoonup> TableCheckpoint) option" where
  "dec_tables = dec_obj dec_entries"

lemma dec_entries_map:
  "\<forall>k \<in> set ks. is_int64 (tc_RowsCopied (f k)) \<Longrightarrow>
     dec_entries (map (\<lambda>k. (k, enc_table (f k))) ks) = Some (\<lambda>k. if k \<in> set ks then Some (f k) else None)"
proof (induction ks)
  case (Cons k ks)
  then show ?case
    by (simp add: dec_enc_table) (auto simp: map_add_def fun_eq_iff split: option.split)
qed simp

definition valid_tables :: "(string \<rightharpoonup> TableCheckpoint) \<Rightarrow> bool" where
  "valid_tables m = (finite (dom m) \<and> (\<forall>t \<in> ran m. is_int64 (tc_RowsCopied t)))"

lemma dec_enc_tables: "valid_tables m \<Longrightarrow> dec_tables (enc_tables m) = Some m"
proof -
  assume v: "valid_tables m"
  then have "\<forall>k \<in> set (sorted_list_of_set (dom m)). is_int64 (tc_RowsCopied (the (m k)))"
    by (auto simp: valid_tables_def ran_def)
  then have "dec_tables (enc_tables m) =
      Some (\<lambda>k. if k \<in> set (sorted_list_of_set (dom m)) then Some (the (m k)) else None)"
    unfolding dec_tables_def enc_tables_def using dec_entries_map by simp
  moreover have "(if k \<in> set (sorted_list_of_set (dom m)) then Some (the (m k)) else None) = m k" for k
    using v by (cases "m k") (auto simp: valid_tables_def)
  ultimately show ?thesis by simp
qed

definition data_fields :: "DataCheckpoint \<Rightarrow> (string \<times> bool \<times> json) list" where
  "data_fields c = [
     (''version'', False, JNum (dc_Version c)),
     (''source_watermark_file'', dc_SourceWatermarkFile c = '''', JStr (dc_SourceWatermarkFile c)),
     (''source_watermark_pos'', dc_SourceWatermarkPos c = 0, enc_word (dc_SourceWatermarkPos c)),
     (''tables'', False, enc_tables (dc_Tables c))]"

definition enc_data :: "DataCheckpoint \<Rightarrow> json" where
  "enc_data c = struct (data_fields c)"

definition dec_data :: "json \<Rightarrow> DataCheckpoint option" where
  "dec_data = dec_obj (\<lambda>o'.
     bindo (dec_int (get ''version'' o')) (\<lambda>a1.
     bindo (dec_str (get ''source_watermark_file'' o')) (\<lambda>a2.
     bindo (dec_word (get ''source_watermark_pos'' o')) (\<lambda>a3.
     bindo (dec_tables (get ''tables'' o')) (\<lambda>a4.
       Some \<lparr>dc_Version = a1, dc_SourceWatermarkFile = a2, dc_SourceWatermarkPos = a3, dc_Tables = a4\<rparr>)))))"

definition valid_data :: "DataCheckpoint \<Rightarrow> bool" where
  "valid_data c = (is_int64 (dc_Version c) \<and> valid_tables (dc_Tables c))"

lemma dec_enc_data: "valid_data c \<Longrightarrow> dec_data (enc_data c) = Some c"
proof -
  have d: "distinct (map fst (data_fields c))" by (simp add: data_fields_def)
  show "valid_data c \<Longrightarrow> dec_data (enc_data c) = Some c"
    unfolding dec_data_def enc_data_def dec_struct get_present [OF d]
    by (simp add: data_fields_def valid_data_def dec_enc_tables del: dec_int.simps)
qed

section \<open>The server id\<close>

definition enc_server_id :: "u32 \<Rightarrow> json" where
  "enc_server_id n = JObj [(''server_id'', enc_word n)]"

definition dec_server_id :: "json \<Rightarrow> u32 option" where
  "dec_server_id = dec_obj (\<lambda>o'. dec_word (get ''server_id'' o'))"

lemma dec_enc_server_id [simp]: "dec_server_id (enc_server_id n) = Some n"
  by (simp add: dec_server_id_def enc_server_id_def get_Cons)

section \<open>What has been read is valid\<close>

lemma dec_int_is_int64: "dec_int j = Some n \<Longrightarrow> is_int64 n"
  by (cases j) (auto simp: is_int64_def split: if_splits)

lemma dec_obj_Some: "dec_obj f j = Some c \<Longrightarrow> \<exists>kvs. f kvs = Some c"
  by (cases j) auto

lemma bindo_Some: "bindo x f = Some b \<longleftrightarrow> (\<exists>a. x = Some a \<and> f a = Some b)"
  by (cases x) auto

end
