(* ===== verification/State_Store.thy ===== *)
theory State_Store
  imports State_Json
begin

text \<open>
  Loading and saving the records of the state directory (internal/state/replication.go,
  replication_conflict.go, checkpoint.go and server_id.go). checkpoint_store is the contract that
  the replication and copy loops rely on; it is interpreted on the three kinds of records. What it
  gives is that after any series of saves, each of which may fail at any system call, a load
  returns the last record that was reported as saved.
\<close>

section \<open>Common to the loaders and savers\<close>

text \<open>The error of os.ReadFile other than a missing file is a parameter.\<close>

definition load_record ::
  "string \<Rightarrow> (json \<Rightarrow> 'a option) \<Rightarrow> 'a \<Rightarrow> ('a \<Rightarrow> 'a) \<Rightarrow> string option \<Rightarrow> string \<Rightarrow> fs \<Rightarrow> string + 'a" where
  "load_record what dec absent upgrade readErr path fs =
     (case readErr of
        Some e \<Rightarrow> Inl (''read '' @ what @ '': '' @ e)
      | None \<Rightarrow>
          (case fs path of
             None \<Rightarrow> Inr absent
           | Some (FileText t) \<Rightarrow> Inl (''parse '' @ what @ '': invalid JSON'')
           | Some (FileJson j) \<Rightarrow>
               (case dec j of
                  None \<Rightarrow> Inl (''parse '' @ what @ '': cannot unmarshal'')
                | Some x \<Rightarrow> Inr (upgrade x))))"

text \<open>filepath.Dir of a clean path.\<close>

definition path_dir :: "string \<Rightarrow> string" where
  "path_dir path = (case LastIndexByte path CHR ''/'' of None \<Rightarrow> ''.'' | Some i \<Rightarrow> take i path)"

section \<open>The contract\<close>

definition run_saves ::
  "(write_env \<Rightarrow> string \<Rightarrow> 'a \<Rightarrow> fs \<Rightarrow> string option \<times> fs) \<Rightarrow> string \<Rightarrow> (write_env \<times> 'a) list \<Rightarrow> fs \<Rightarrow> 'a option \<times> fs" where
  "run_saves save path ws fs =
     fold (\<lambda>(env, x) (saved, fs). case save env path x fs of
             (None, fs') \<Rightarrow> (Some x, fs') | (Some e, fs') \<Rightarrow> (saved, fs')) ws (None, fs)"

locale checkpoint_store =
  fixes load :: "string option \<Rightarrow> string \<Rightarrow> fs \<Rightarrow> string + 'a"
    and save :: "write_env \<Rightarrow> string \<Rightarrow> 'a \<Rightarrow> fs \<Rightarrow> string option \<times> fs"
    and norm :: "'a \<Rightarrow> 'a" and valid :: "'a \<Rightarrow> bool" and absent :: 'a
  assumes load_saved: "save env path x fs = (None, fs') \<Longrightarrow> we_tmp env \<noteq> path \<Longrightarrow> valid x \<Longrightarrow> load None path fs' = Inr (norm x)"
    and save_failed: "save env path x fs = (Some e, fs') \<Longrightarrow> we_tmp env \<noteq> path \<Longrightarrow> fs' path = fs path"
    and load_local: "fs path = fs' path \<Longrightarrow> load r path fs = load r path fs'"
    and load_missing: "fs path = None \<Longrightarrow> load None path fs = Inr absent"
begin

lemma load_after_saves_from:
  assumes "\<forall>(env, x) \<in> set ws. we_tmp env \<noteq> path \<and> valid x"
    and "case saved of None \<Rightarrow> load None path fs = r0 | Some x \<Rightarrow> load None path fs = Inr (norm x)"
    and "fold (\<lambda>(env, x) (saved, fs). case save env path x fs of
             (None, fs') \<Rightarrow> (Some x, fs') | (Some e, fs') \<Rightarrow> (saved, fs')) ws (saved, fs) = (saved', fs')"
  shows "case saved' of None \<Rightarrow> load None path fs' = r0 | Some x \<Rightarrow> load None path fs' = Inr (norm x)"
  using assms
proof (induction ws arbitrary: saved fs)
  case (Cons w ws)
  obtain env x where w: "w = (env, x)" by (cases w)
  obtain r fs1 where s: "save env path x fs = (r, fs1)" by (cases "save env path x fs")
  show ?case
  proof (cases r)
    case None
    then have "load None path fs1 = Inr (norm x)"
      using load_saved s Cons.prems(1) w by auto
    then show ?thesis
      using Cons.IH [of fs1 "Some x"] Cons.prems(1,3) w s None by simp
  next
    case (Some e)
    then have "fs1 path = fs path" using save_failed s Cons.prems(1) w by auto
    then have "load None path fs1 = load None path fs" by (rule load_local)
    then show ?thesis
      using Cons.IH [of fs1 saved] Cons.prems w s Some by (auto split: option.splits)
  qed
qed simp

lemma load_after_saves:
  assumes "\<forall>(env, x) \<in> set ws. we_tmp env \<noteq> path \<and> valid x" and "run_saves save path ws fs = (saved, fs')"
  shows "load None path fs' = (case saved of None \<Rightarrow> load None path fs | Some x \<Rightarrow> Inr (norm x))"
  using load_after_saves_from [of ws path fs "load None path fs" None saved fs'] assms
  by (auto simp: run_saves_def split: option.splits)

lemma first_save_or_default:
  assumes "\<forall>(env, x) \<in> set ws. we_tmp env \<noteq> path \<and> valid x" and "run_saves save path ws fs = (None, fs')"
    and "fs path = None"
  shows "load None path fs' = Inr absent"
  using load_after_saves [OF assms(1,2)] load_missing [of fs path] assms(3) by simp

end

text \<open>A loader and a saver that write a record's JSON over the atomic replacement meet the contract.\<close>

lemma record_store:
  assumes "\<And>x. valid x \<Longrightarrow> dec (enc (prepare x)) = Some (prepare x)"
    and "\<And>env path x fs. save env path x fs = WritePrivateFileAtomic env (path_dir path) path (FileJson (enc (prepare x))) fs"
    and "\<And>r path fs. load r path fs = load_record what dec absent upgrade r path fs"
  shows "checkpoint_store load save (\<lambda>x. upgrade (prepare x)) valid absent"
proof
  fix env path x fs fs'
  assume "save env path x fs = (None, fs')" and "we_tmp env \<noteq> path" and "valid x"
  then have "fs' path = Some (FileJson (enc (prepare x)))"
    using WritePrivateFileAtomic_cases(1) [of env "path_dir path" path _ fs None fs'] by (simp add: assms(2))
  then show "load None path fs' = Inr (upgrade (prepare x))"
    using assms(1) \<open>valid x\<close> by (simp add: assms(3) load_record_def)
next
  fix env path x fs e fs'
  assume "save env path x fs = (Some e, fs')" and "we_tmp env \<noteq> path"
  then show "fs' path = fs path"
    using WritePrivateFileAtomic_cases(1) [of env "path_dir path" path _ fs "Some e" fs'] by (simp add: assms(2))
next
  fix fs fs' :: fs and path :: string and r :: "string option"
  assume "fs path = fs' path"
  then show "load r path fs = load r path fs'" by (simp add: assms(3) load_record_def split: option.split)
qed (simp add: assms(3) load_record_def)

section \<open>The replication checkpoint\<close>

definition upgradeReplicationCheckpoint :: "ReplicationCheckpoint \<Rightarrow> ReplicationCheckpoint" where
  "upgradeReplicationCheckpoint cp =
     (let cp = (if rc_Version cp = 0 then cp\<lparr>rc_Version := checkpointVersion\<rparr> else cp)
      in (if rc_ApplyDDL cp = '''' then cp\<lparr>rc_ApplyDDL := ''warn''\<rparr> else cp))"

definition LoadReplicationCheckpoint :: "string option \<Rightarrow> string \<Rightarrow> fs \<Rightarrow> string + ReplicationCheckpoint" where
  "LoadReplicationCheckpoint =
     load_record ''replication checkpoint'' dec_checkpoint NewReplicationCheckpoint upgradeReplicationCheckpoint"

definition SaveReplicationCheckpoint :: "write_env \<Rightarrow> string \<Rightarrow> ReplicationCheckpoint \<Rightarrow> fs \<Rightarrow> string option \<times> fs" where
  "SaveReplicationCheckpoint env path checkpoint fs =
     (let checkpoint = (if rc_Version checkpoint = 0 then checkpoint\<lparr>rc_Version := checkpointVersion\<rparr> else checkpoint);
          checkpoint = (if rc_ApplyDDL checkpoint = '''' then checkpoint\<lparr>rc_ApplyDDL := ''warn''\<rparr> else checkpoint)
      in WritePrivateFileAtomic env (path_dir path) path (FileJson (enc_checkpoint checkpoint)) fs)"

definition valid_checkpoint :: "ReplicationCheckpoint \<Rightarrow> bool" where
  "valid_checkpoint c = is_int64 (rc_Version c)"

lemma upgrade_idem [simp]: "upgradeReplicationCheckpoint (upgradeReplicationCheckpoint c) = upgradeReplicationCheckpoint c"
  by (simp add: upgradeReplicationCheckpoint_def Let_def checkpointVersion_def)

interpretation replication_store: checkpoint_store LoadReplicationCheckpoint SaveReplicationCheckpoint
  upgradeReplicationCheckpoint valid_checkpoint NewReplicationCheckpoint
proof -
  have "checkpoint_store LoadReplicationCheckpoint SaveReplicationCheckpoint
      (\<lambda>x. upgradeReplicationCheckpoint (upgradeReplicationCheckpoint x)) valid_checkpoint NewReplicationCheckpoint"
    by (rule record_store [where dec = dec_checkpoint and enc = enc_checkpoint
          and what = "''replication checkpoint''" and upgrade = upgradeReplicationCheckpoint])
      (simp_all add: SaveReplicationCheckpoint_def LoadReplicationCheckpoint_def upgradeReplicationCheckpoint_def
        valid_checkpoint_def dec_enc_checkpoint is_int64_def checkpointVersion_def Let_def)
  then show "checkpoint_store LoadReplicationCheckpoint SaveReplicationCheckpoint
      upgradeReplicationCheckpoint valid_checkpoint NewReplicationCheckpoint"
    by simp
qed

section \<open>The conflict report\<close>

definition upgradeReport :: "ReplicationConflictReport \<Rightarrow> ReplicationConflictReport" where
  "upgradeReport r = (if cr_Version r = 0 then r\<lparr>cr_Version := checkpointVersion\<rparr> else r)"

definition LoadReplicationConflictReport :: "string option \<Rightarrow> string \<Rightarrow> fs \<Rightarrow> string + ReplicationConflictReport" where
  "LoadReplicationConflictReport =
     load_record ''replication conflict report'' dec_report NewReplicationConflictReport upgradeReport"

definition SaveReplicationConflictReport :: "write_env \<Rightarrow> string \<Rightarrow> ReplicationConflictReport \<Rightarrow> fs \<Rightarrow> string option \<times> fs" where
  "SaveReplicationConflictReport env path report fs =
     (let report = (if cr_Version report = 0 then report\<lparr>cr_Version := checkpointVersion\<rparr> else report)
      in WritePrivateFileAtomic env (path_dir path) path (FileJson (enc_report report)) fs)"

definition valid_report :: "ReplicationConflictReport \<Rightarrow> bool" where
  "valid_report r = is_int64 (cr_Version r)"

interpretation report_store: checkpoint_store LoadReplicationConflictReport SaveReplicationConflictReport
  upgradeReport valid_report NewReplicationConflictReport
proof -
  have "checkpoint_store LoadReplicationConflictReport SaveReplicationConflictReport
      (\<lambda>x. upgradeReport (upgradeReport x)) valid_report NewReplicationConflictReport"
    by (rule record_store [where dec = dec_report and enc = enc_report
          and what = "''replication conflict report''" and upgrade = upgradeReport])
      (simp_all add: SaveReplicationConflictReport_def LoadReplicationConflictReport_def upgradeReport_def
        valid_report_def dec_enc_report is_int64_def checkpointVersion_def Let_def)
  moreover have "(\<lambda>x. upgradeReport (upgradeReport x)) = upgradeReport"
    by (rule ext) (simp add: upgradeReport_def checkpointVersion_def)
  ultimately show "checkpoint_store LoadReplicationConflictReport SaveReplicationConflictReport
      upgradeReport valid_report NewReplicationConflictReport"
    by simp
qed

section \<open>The data checkpoint\<close>

definition checkpointKeyTypeString :: string where
  "checkpointKeyTypeString = ''string''"

definition legacyCheckpointStrings :: "string list \<Rightarrow> CheckpointKeyValue list" where
  "legacyCheckpointStrings values = map (\<lambda>v. \<lparr>kv_Type = checkpointKeyTypeString, kv_Value = v\<rparr>) values"

definition upgradeTable :: "TableCheckpoint \<Rightarrow> TableCheckpoint" where
  "upgradeTable t =
     (if tc_LastKeyTyped t = [] \<and> tc_LastKey t \<noteq> []
      then t\<lparr>tc_LastKeyTyped := legacyCheckpointStrings (tc_LastKey t)\<rparr> else t)"

definition upgradeData :: "DataCheckpoint \<Rightarrow> DataCheckpoint" where
  "upgradeData cp =
     (let cp = (if dc_Version cp = 0 then cp\<lparr>dc_Version := checkpointVersion\<rparr> else cp)
      in cp\<lparr>dc_Tables := map_option upgradeTable \<circ> dc_Tables cp\<rparr>)"

definition LoadDataCheckpoint :: "string option \<Rightarrow> string \<Rightarrow> fs \<Rightarrow> string + DataCheckpoint" where
  "LoadDataCheckpoint = load_record ''checkpoint'' dec_data NewDataCheckpoint upgradeData"

definition SaveDataCheckpoint :: "write_env \<Rightarrow> string \<Rightarrow> DataCheckpoint \<Rightarrow> fs \<Rightarrow> string option \<times> fs" where
  "SaveDataCheckpoint env path checkpoint fs =
     (let checkpoint = (if dc_Version checkpoint = 0 then checkpoint\<lparr>dc_Version := checkpointVersion\<rparr> else checkpoint)
      in WritePrivateFileAtomic env (path_dir path) path (FileJson (enc_data checkpoint)) fs)"

lemma upgradeData_prepared:
  "upgradeData (if dc_Version c = 0 then c\<lparr>dc_Version := checkpointVersion\<rparr> else c) = upgradeData c"
  by (simp add: upgradeData_def checkpointVersion_def)

interpretation data_store: checkpoint_store LoadDataCheckpoint SaveDataCheckpoint upgradeData valid_data NewDataCheckpoint
proof -
  have "checkpoint_store LoadDataCheckpoint SaveDataCheckpoint
      (\<lambda>c. upgradeData (if dc_Version c = 0 then c\<lparr>dc_Version := checkpointVersion\<rparr> else c)) valid_data NewDataCheckpoint"
    by (rule record_store [where dec = dec_data and enc = enc_data and what = "''checkpoint''" and upgrade = upgradeData])
      (auto simp: SaveDataCheckpoint_def LoadDataCheckpoint_def Let_def valid_data_def is_int64_def checkpointVersion_def
        intro!: dec_enc_data)
  then show "checkpoint_store LoadDataCheckpoint SaveDataCheckpoint upgradeData valid_data NewDataCheckpoint"
    by (simp add: upgradeData_prepared)
qed

section \<open>The server id\<close>

text \<open>
  Reading four random bytes until they are not all zero: the answers of the random source are a
  parameter; None: it has not yet delivered a number other than zero.
\<close>

fun randomServerID :: "(string + u32) list \<Rightarrow> (string + u32) option" where
  "randomServerID [] = None"
| "randomServerID (Inl e # answers) = Some (Inl e)"
| "randomServerID (Inr n # answers) = (if n \<noteq> 0 then Some (Inr n) else randomServerID answers)"

definition serverIDFile :: string where
  "serverIDFile = ''replication-server-id.json''"

definition new_server_id :: "write_env \<Rightarrow> (string + u32) list \<Rightarrow> string \<Rightarrow> fs \<Rightarrow> ((string + u32) \<times> fs) option" where
  "new_server_id env answers path fs =
     (case randomServerID answers of
        None \<Rightarrow> None
      | Some (Inl e) \<Rightarrow> Some (Inl (''generate server_id: '' @ e), fs)
      | Some (Inr newID) \<Rightarrow>
          (case WritePrivateFileAtomic env (path_dir path) path (FileJson (enc_server_id newID)) fs of
             (Some e, fs') \<Rightarrow> Some (Inl (''persist server_id: '' @ e), fs')
           | (None, fs') \<Rightarrow> Some (Inr newID, fs')))"

definition LoadOrCreateServerID ::
  "string option \<Rightarrow> write_env \<Rightarrow> (string + u32) list \<Rightarrow> string \<Rightarrow> u32 \<Rightarrow> fs \<Rightarrow> ((string + u32) \<times> fs) option" where
  "LoadOrCreateServerID readErr env answers stateDir explicitID fs =
     (if explicitID \<noteq> 0 then Some (Inr explicitID, fs)
      else
        let path = path_join stateDir serverIDFile
        in (case readErr of
              Some e \<Rightarrow> Some (Inl (''read server_id file: '' @ e), fs)
            | None \<Rightarrow>
                (case fs path of
                   Some (FileJson j) \<Rightarrow>
                     (case dec_server_id j of
                        Some n \<Rightarrow> (if n \<noteq> 0 then Some (Inr n, fs) else new_server_id env answers path fs)
                      | None \<Rightarrow> new_server_id env answers path fs)
                 | _ \<Rightarrow> new_server_id env answers path fs)))"

lemma randomServerID_nonzero: "randomServerID answers = Some (Inr n) \<Longrightarrow> n \<noteq> 0"
  by (induction answers rule: randomServerID.induct) (auto split: if_splits)



section \<open>Properties\<close>

text \<open>
  After any series of saves of the replication checkpoint, each of which may fail at any
  system call, loading it gives the last checkpoint whose save was reported as successful, with
  its defaults filled in, or what could be loaded before when none was.
\<close>

theorem replication_checkpoint_survives:
  assumes "\<forall>(env, x) \<in> set ws. we_tmp env \<noteq> path \<and> valid_checkpoint x"
    and "run_saves SaveReplicationCheckpoint path ws fs = (saved, fs')"
  shows "LoadReplicationCheckpoint None path fs' =
    (case saved of None \<Rightarrow> LoadReplicationCheckpoint None path fs | Some x \<Rightarrow> Inr (upgradeReplicationCheckpoint x))"
  using assms by (rule replication_store.load_after_saves)

text \<open>A successful save, then one that cannot rename its file.\<close>

definition example_saves :: "(write_env \<times> ReplicationCheckpoint) list" where
  "example_saves =
     [(no_faults ''s/t1'', NewReplicationCheckpoint\<lparr>rc_BinlogFile := ''bin.000007'', rc_BinlogPos := 231\<rparr>),
      ((no_faults ''s/t2'')\<lparr>we_rename := Some ''disk''\<rparr>, NewReplicationCheckpoint\<lparr>rc_BinlogPos := 999\<rparr>)]"

theorem replication_checkpoint_survives_witness:
  "\<exists>fs'. run_saves SaveReplicationCheckpoint ''s/c'' example_saves Map.empty =
      (Some (NewReplicationCheckpoint\<lparr>rc_BinlogFile := ''bin.000007'', rc_BinlogPos := 231\<rparr>), fs') \<and>
    LoadReplicationCheckpoint None ''s/c'' fs' =
      Inr (NewReplicationCheckpoint\<lparr>rc_BinlogFile := ''bin.000007'', rc_BinlogPos := 231\<rparr>)"
proof -
  obtain fs' where run: "run_saves SaveReplicationCheckpoint ''s/c'' example_saves Map.empty =
      (Some (NewReplicationCheckpoint\<lparr>rc_BinlogFile := ''bin.000007'', rc_BinlogPos := 231\<rparr>), fs')"
    by (simp add: run_saves_def example_saves_def SaveReplicationCheckpoint_def WritePrivateFileAtomic_def
        no_faults_def EnsurePrivateDir_def Let_def)
  have "\<forall>(env, x) \<in> set example_saves. we_tmp env \<noteq> ''s/c'' \<and> valid_checkpoint x"
    by (simp add: example_saves_def no_faults_def valid_checkpoint_def is_int64_def NewReplicationCheckpoint_def checkpointVersion_def)
  from replication_checkpoint_survives [OF this run] show ?thesis
    using run by (simp add: upgradeReplicationCheckpoint_def NewReplicationCheckpoint_def checkpointVersion_def Let_def)
qed

text \<open>
  Claim C27. The same for the checkpoint of the baseline copy: after any series of saves that may
  fail, loading gives the last one that was reported as saved; the string cursors of the old format
  are read as typed ones.
\<close>

theorem data_checkpoint_survives:
  assumes "\<forall>(env, x) \<in> set ws. we_tmp env \<noteq> path \<and> valid_data x"
    and "run_saves SaveDataCheckpoint path ws fs = (saved, fs')"
  shows "LoadDataCheckpoint None path fs' =
    (case saved of None \<Rightarrow> LoadDataCheckpoint None path fs | Some x \<Rightarrow> Inr (upgradeData x))"
  using assms by (rule data_store.load_after_saves)

theorem data_checkpoint_survives_witness:
  "\<exists>fs'. run_saves SaveDataCheckpoint ''s/c''
      [(no_faults ''s/t1'', NewDataCheckpoint\<lparr>dc_Tables := [''app.t'' \<mapsto> emptyTableCheckpoint\<lparr>tc_LastKey := [''7'']\<rparr>]\<rparr>)] Map.empty
      = (Some (NewDataCheckpoint\<lparr>dc_Tables := [''app.t'' \<mapsto> emptyTableCheckpoint\<lparr>tc_LastKey := [''7'']\<rparr>]\<rparr>), fs') \<and>
    (\<exists>cp. LoadDataCheckpoint None ''s/c'' fs' = Inr cp \<and>
      map_option tc_LastKeyTyped (dc_Tables cp ''app.t'') = Some [\<lparr>kv_Type = ''string'', kv_Value = ''7''\<rparr>])"
proof -
  let ?c = "NewDataCheckpoint\<lparr>dc_Tables := [''app.t'' \<mapsto> emptyTableCheckpoint\<lparr>tc_LastKey := [''7'']\<rparr>]\<rparr>"
  obtain fs' where run: "run_saves SaveDataCheckpoint ''s/c'' [(no_faults ''s/t1'', ?c)] Map.empty = (Some ?c, fs')"
    by (simp add: run_saves_def SaveDataCheckpoint_def WritePrivateFileAtomic_def no_faults_def EnsurePrivateDir_def Let_def)
  have "valid_data ?c"
    by (simp add: valid_data_def valid_tables_def is_int64_def NewDataCheckpoint_def checkpointVersion_def emptyTableCheckpoint_def)
  then have ok: "\<forall>(env, x) \<in> set [(no_faults ''s/t1'', ?c)]. we_tmp env \<noteq> ''s/c'' \<and> valid_data x"
    by (simp add: no_faults_def)
  have "LoadDataCheckpoint None ''s/c'' fs' = Inr (upgradeData ?c)"
    using data_checkpoint_survives [OF ok run] by simp
  moreover have "map_option tc_LastKeyTyped (dc_Tables (upgradeData ?c) ''app.t'') = Some [\<lparr>kv_Type = ''string'', kv_Value = ''7''\<rparr>]"
    by (simp add: upgradeData_def upgradeTable_def NewDataCheckpoint_def emptyTableCheckpoint_def
        legacyCheckpointStrings_def checkpointKeyTypeString_def checkpointVersion_def Let_def)
  ultimately show ?thesis using run by blast
qed

lemma new_server_id_cases:
  assumes "new_server_id env answers path fs = Some (Inr n, fs')" and "we_tmp env \<noteq> path"
  shows "n \<noteq> 0 \<and> fs' path = Some (FileJson (enc_server_id n))"
  using assms WritePrivateFileAtomic_cases(1) [of env "path_dir path" path "FileJson (enc_server_id n)" fs None fs']
    randomServerID_nonzero [of answers n]
  by (auto simp: new_server_id_def split: option.splits sum.splits prod.splits)

lemma LoadOrCreateServerID_frame:
  assumes "LoadOrCreateServerID readErr env answers dir explicitID fs = Some (r, fs')"
    and "p \<noteq> path_join dir serverIDFile" and "p \<noteq> we_tmp env"
  shows "fs' p = fs p"
proof -
  have "new_server_id env answers path fs = Some (r, fs') \<Longrightarrow> p \<noteq> path \<Longrightarrow> fs' p = fs p" for path r
    using assms(3) by (auto simp: new_server_id_def WritePrivateFileAtomic_def Let_def cleanup_def
        split: option.splits sum.splits prod.splits if_splits)
  then show ?thesis
    using assms(1,2) by (auto simp: LoadOrCreateServerID_def Let_def split: if_splits option.splits content.splits)
qed

text \<open>
  The server id of a state directory is stable: once a run has obtained one, every later
  run without an explicit id obtains the same, whatever the random source delivers then; it is
  never zero; and an explicit id is used as it is and leaves the files alone.
\<close>

theorem server_id_is_stable:
  assumes "LoadOrCreateServerID None env answers dir 0 fs = Some (Inr n, fs')"
    and "we_tmp env \<noteq> path_join dir serverIDFile"
  shows "n \<noteq> 0 \<and> LoadOrCreateServerID None env' answers' dir 0 fs' = Some (Inr n, fs') \<and>
    (explicit \<noteq> 0 \<longrightarrow> LoadOrCreateServerID r env' answers' dir explicit fs' = Some (Inr explicit, fs'))"
proof -
  let ?p = "path_join dir serverIDFile"
  have "n \<noteq> 0 \<and> (\<exists>j. fs' ?p = Some (FileJson j) \<and> dec_server_id j = Some n)"
  proof (cases "\<exists>j. fs ?p = Some (FileJson j) \<and> dec_server_id j \<noteq> None \<and> dec_server_id j \<noteq> Some 0")
    case True
    then show ?thesis using assms(1) by (auto simp: LoadOrCreateServerID_def Let_def split: if_splits)
  next
    case False
    then have "new_server_id env answers ?p fs = Some (Inr n, fs')"
      using assms(1) by (auto simp: LoadOrCreateServerID_def Let_def split: option.splits content.splits if_splits)
    from new_server_id_cases [OF this assms(2)] show ?thesis by simp
  qed
  then show ?thesis by (auto simp: LoadOrCreateServerID_def Let_def)
qed

theorem server_id_is_stable_witness:
  "\<exists>fs'. LoadOrCreateServerID None (no_faults ''s/t'') [Inr 0, Inr 54] ''s'' 0 Map.empty = Some (Inr 54, fs') \<and>
     LoadOrCreateServerID None (no_faults ''s/t'') [Inr 99] ''s'' 0 fs' = Some (Inr 54, fs')"
proof -
  obtain fs' where a: "LoadOrCreateServerID None (no_faults ''s/t'') [Inr 0, Inr 54] ''s'' 0 Map.empty = Some (Inr 54, fs')"
    by (simp add: LoadOrCreateServerID_def new_server_id_def WritePrivateFileAtomic_def no_faults_def EnsurePrivateDir_def Let_def)
  have "we_tmp (no_faults ''s/t'') \<noteq> path_join ''s'' serverIDFile"
    by (simp add: no_faults_def path_join_def serverIDFile_def)
  from server_id_is_stable [OF a this] a show ?thesis by blast
qed

end
