(* ===== verification/Binlog_Run.thy ===== *)
theory Binlog_Run
  imports Apply_Window State_Store
begin

text \<open>
  One run of the replication (internal/replicate/binlog/run.go, lines 126-289 and 332-562): the
  checks of the source, where the replay window starts and ends, the application of the window,
  and the checkpoint and conflict report that are left behind. The answers of the source, the
  clock and the file system are the fields of run_env. The theorems say what a later run with
  --resume finds.
\<close>

section \<open>Values of the status queries\<close>

definition toString :: "goval \<Rightarrow> string" where
  "toString v =
     (case v of
        VNil \<Rightarrow> ''''
      | VString s \<Rightarrow> s
      | VBytes s \<Rightarrow> s
      | _ \<Rightarrow> Sprint v)"

text \<open>The verb %T; the other dynamic types are not told apart.\<close>

fun width_name :: "go_width \<Rightarrow> string" where
  "width_name WNative = ''''"
| "width_name W8 = ''8''"
| "width_name W16 = ''16''"
| "width_name W32 = ''32''"

fun type_name :: "goval \<Rightarrow> string" where
  "type_name VNil = ''<nil>''"
| "type_name (VBool b) = ''bool''"
| "type_name (VInt i) = ''int64''"
| "type_name (VUint n) = ''uint64''"
| "type_name (VFloat t) = ''float64''"
| "type_name (VIntN w i) = ''int'' @ width_name w"
| "type_name (VUintN w n) = ''uint'' @ width_name w"
| "type_name (VFloat32 t) = ''float32''"
| "type_name (VTime t) = ''time.Time''"
| "type_name (VString s) = ''string''"
| "type_name (VBytes s) = ''[]uint8''"
| "type_name (VOther t) = ''other''"

text \<open>strconv.ParseUint(s, 10, 32) with its error; integers of 64 bits and native ones are cut to 32 bits.\<close>

definition parse_position :: "string \<Rightarrow> go_error + u32" where
  "parse_position s =
     (case ParseUint s 32 of
        None \<Rightarrow> Inl (EText (''strconv.ParseUint: parsing '' @ go_quote s @ '': ''
                 @ (if s = '''' \<or> \<not> list_all is_digit s then ''invalid syntax'' else ''value out of range'')))
      | Some n \<Rightarrow> Inr (of_nat n))"

definition toUint32 :: "goval \<Rightarrow> go_error + u32" where
  "toUint32 v =
     (case v of
        VInt i \<Rightarrow> Inr (of_int i)
      | VUint n \<Rightarrow> Inr (of_nat n)
      | VIntN WNative i \<Rightarrow> Inr (of_int i)
      | VUintN WNative n \<Rightarrow> Inr (of_nat n)
      | VBytes s \<Rightarrow> parse_position s
      | VString s \<Rightarrow> parse_position s
      | _ \<Rightarrow> Inl (EText (''unsupported position type '' @ type_name v)))"

definition parseLogBinText :: "string \<Rightarrow> go_error + bool" where
  "parseLogBinText typed =
     (let normalized = ToUpper (TrimSpace typed)
      in if normalized \<in> {''1'', ''ON'', ''TRUE''} then Inr True
         else if normalized \<in> {''0'', ''OFF'', ''FALSE''} then Inr False
         else Inl (EText (''unsupported log_bin value '' @ go_quote typed)))"

definition parseLogBinEnabled :: "goval \<Rightarrow> go_error + bool" where
  "parseLogBinEnabled v =
     (case v of
        VInt i \<Rightarrow> Inr (i \<noteq> 0)
      | VUint n \<Rightarrow> Inr (n \<noteq> 0)
      | VIntN WNative i \<Rightarrow> Inr (i \<noteq> 0)
      | VUintN WNative n \<Rightarrow> Inr (n \<noteq> 0)
      | VBytes s \<Rightarrow> parseLogBinText s
      | VString s \<Rightarrow> parseLogBinText s
      | _ \<Rightarrow> Inl (EText (''unsupported log_bin type '' @ type_name v)))"

definition normalizeBinlogFormat :: "goval \<Rightarrow> string" where
  "normalizeBinlogFormat v =
     (case v of
        VBytes s \<Rightarrow> ToUpper (TrimSpace s)
      | VString s \<Rightarrow> ToUpper (TrimSpace s)
      | _ \<Rightarrow> ToUpper (TrimSpace (Sprint v)))"

section \<open>The state of the source\<close>

text \<open>The first row of a status query: an error, no row, or its columns with their values.\<close>

datatype status_answer = StatusError string | NoStatusRow | StatusRow "(string \<times> goval) list"

fun extract_columns :: "(string \<times> goval) list \<Rightarrow> string \<Rightarrow> u32 \<Rightarrow> go_error + string \<times> u32" where
  "extract_columns [] file pos = Inr (file, pos)"
| "extract_columns ((rawColumn, v) # cols) file pos =
     (let column = ToLower (TrimSpace rawColumn)
      in if column \<in> {''file'', ''log_name''} then extract_columns cols (toString v) pos
         else if column \<in> {''position'', ''pos''} then
           bind_result (toUint32 v) (\<lambda>parsed. extract_columns cols file parsed)
         else extract_columns cols file pos)"

definition extractBinlogPosition :: "(string \<times> goval) list \<Rightarrow> go_error + string \<times> u32" where
  "extractBinlogPosition cols =
     bind_result (extract_columns cols '''' 0) (\<lambda>(file, pos).
       if file = '''' then Inl (EText ''binlog file column not found in status result'')
       else if pos = 0 then Inl (EText ''binlog position column not found in status result'')
       else Inr (file, pos))"

definition queryBinlogPositionWithSQL :: "(string \<Rightarrow> status_answer) \<Rightarrow> string \<Rightarrow> go_error + string \<times> u32" where
  "queryBinlogPositionWithSQL ask query =
     (case ask query of
        StatusError e \<Rightarrow> Inl (EText e)
      | NoStatusRow \<Rightarrow> Inl (EText ''no rows returned from binlog status query'')
      | StatusRow cols \<Rightarrow> extractBinlogPosition cols)"

text \<open>The queries are tried in order; the error is the one of the last.\<close>

fun first_position :: "(string \<Rightarrow> status_answer) \<Rightarrow> go_error \<Rightarrow> string list \<Rightarrow> go_error + string \<times> u32" where
  "first_position ask lastErr [] = Inl lastErr"
| "first_position ask lastErr (query # queries) =
     (case queryBinlogPositionWithSQL ask query of
        Inr p \<Rightarrow> Inr p
      | Inl e \<Rightarrow> first_position ask e queries)"

definition queryBinlogPosition :: "(string \<Rightarrow> status_answer) \<Rightarrow> go_error + string \<times> u32" where
  "queryBinlogPosition ask =
     first_position ask (EText ''unable to determine binlog position'') [''SHOW MASTER STATUS'', ''SHOW BINARY LOG STATUS'']"

fun first_gtid_set :: "(string \<Rightarrow> string + goval) \<Rightarrow> string list \<Rightarrow> string option" where
  "first_gtid_set ask [] = None"
| "first_gtid_set ask (q # qs) =
     (case ask q of
        Inl e \<Rightarrow> first_gtid_set ask qs
      | Inr raw \<Rightarrow> (if TrimSpace (toString raw) \<noteq> '''' then Some (toString raw) else first_gtid_set ask qs))"

definition querySourceGTIDSet :: "(string \<Rightarrow> string + goval) \<Rightarrow> go_error + string" where
  "querySourceGTIDSet ask =
     (case first_gtid_set ask [''SELECT @@GLOBAL.gtid_executed'', ''SELECT @@GLOBAL.gtid_current_pos''] of
        Some found \<Rightarrow> Inr found
      | None \<Rightarrow> Inl (EText ''unable to query source GTID set: neither gtid_executed nor gtid_current_pos is available''))"

definition checkGTIDEnabled :: "(string \<Rightarrow> string + goval) \<Rightarrow> go_error option" where
  "checkGTIDEnabled ask =
     (case ask ''SELECT @@GLOBAL.gtid_mode'' of
        Inr modeRaw \<Rightarrow>
          (let mode = ToUpper (TrimSpace (toString modeRaw))
           in if mode \<noteq> ''ON''
              then Some (EText (''source gtid_mode='' @ mode @ ''; GTID replication requires gtid_mode=ON (MySQL)''))
              else None)
      | Inl _ \<Rightarrow>
          (case ask ''SELECT @@GLOBAL.gtid_strict_mode'' of
             Inr _ \<Rightarrow> None
           | Inl _ \<Rightarrow> Some (EText ''source does not support GTID: neither gtid_mode nor gtid_strict_mode variable is available'')))"

record preflightResult =
  pf_LogBinEnabled :: bool
  pf_BinlogFormat :: string
  pf_BinlogRowImage :: string

text \<open>The query for log_bin, binlog_format and binlog_row_image is answered by an error or the three values.\<close>

definition checkSourcePreflight :: "string + goval \<times> goval \<times> goval \<Rightarrow> go_error + preflightResult" where
  "checkSourcePreflight answer =
     (case answer of
        Inl e \<Rightarrow> Inl (EWrap ''read source binlog preflight variables'' (EText e))
      | Inr (logBinRaw, formatRaw, rowImageRaw) \<Rightarrow>
          (case parseLogBinEnabled logBinRaw of
             Inl e \<Rightarrow> Inl (EWrap ''parse source log_bin'' e)
           | Inr logBinEnabled \<Rightarrow>
               (let binlogFormat = normalizeBinlogFormat formatRaw;
                    binlogRowImage = normalizeBinlogFormat rowImageRaw
                in if binlogFormat = '''' then Inl (EText ''source binlog_format is empty'')
                   else if binlogRowImage = '''' then Inl (EText ''source binlog_row_image is empty'')
                   else if \<not> logBinEnabled then
                     Inl (EText ''source log_bin is disabled; enable binary logging before replicate'')
                   else if binlogFormat \<noteq> ''ROW'' then
                     Inl (EText (''source binlog_format='' @ binlogFormat
                       @ '' is unsupported; required=ROW for safe replication''))
                   else if binlogRowImage \<noteq> ''FULL'' then
                     Inl (EText (''source binlog_row_image='' @ binlogRowImage
                       @ '' is unsupported; required=FULL for deterministic row replay''))
                   else Inr \<lparr>pf_LogBinEnabled = logBinEnabled, pf_BinlogFormat = binlogFormat,
                             pf_BinlogRowImage = binlogRowImage\<rparr>)))"

section \<open>Starting a run\<close>

text \<open>
  What a run is answered: the status and GTID queries are numbered in the order in which Run makes
  them, because the source moves on between them.
\<close>

record 'db run_env =
  re_connected :: bool
  re_serverIDRead :: "string option"
  re_serverIDWrite :: write_env
  re_random :: "(string + u32) list"
  re_preflight :: "string + goval \<times> goval \<times> goval"
  re_gtidVariables :: "string \<Rightarrow> string + goval"
  re_checkpointRead :: "string option"
  re_destRow :: "'db \<Rightarrow> string + (string \<times> u64 \<times> string) option"
  re_status :: "nat \<Rightarrow> string \<Rightarrow> status_answer"
  re_gtidSet :: "nat \<Rightarrow> string \<Rightarrow> string + goval"
  re_dest :: "'db destination"
  re_stream :: "Options \<Rightarrow> applyWindow \<Rightarrow> (go_error + streamEvent list) option"
  re_metadata :: "string \<Rightarrow> string \<Rightarrow> go_error + tableMetadata"
  re_clock :: "nat \<Rightarrow> instant"
  re_now :: instant
  re_reportWrite :: write_env
  re_checkpointWrite :: write_env
  re_removeReport :: "string option"

definition prepare_options :: "Options \<Rightarrow> go_error + Options" where
  "prepare_options opts =
     (let opts = opts\<lparr>op_ConflictPolicy := normalizeConflictPolicy (op_ConflictPolicy opts)\<rparr>;
          opts = (if TrimSpace (op_ConflictValues opts) = '''' then opts\<lparr>op_ConflictValues := ''redacted''\<rparr> else opts)
      in case validateApplyDDL (op_ApplyDDL opts) of
           Some e \<Rightarrow> Inl e
         | None \<Rightarrow>
             (case validateConflictPolicy (op_ConflictPolicy opts) of
                Some e \<Rightarrow> Inl e
              | None \<Rightarrow>
                  (if op_StartPos opts > 0 \<and> op_StartPos opts < 4 then Inl (EText ''start-pos must be >= 4'')
                   else Inr opts)))"

definition checkpoint_path :: "string \<Rightarrow> string" where
  "checkpoint_path stateDir = path_join stateDir ''replication-checkpoint.json''"

definition report_path :: "string \<Rightarrow> string" where
  "report_path stateDir = path_join stateDir ''replication-conflict-report.json''"

text \<open>The checkpoint to start from: the state file, overridden by the destination's own row.\<close>

definition load_checkpoint ::
  "'db run_env \<Rightarrow> string \<Rightarrow> Options \<Rightarrow> fs \<Rightarrow> 'db \<Rightarrow> (go_error + ReplicationCheckpoint) \<times> 'db" where
  "load_checkpoint env stateDir opts fs db =
     (if \<not> op_Resume opts then (Inr NewReplicationCheckpoint, db)
      else (case LoadReplicationCheckpoint (re_checkpointRead env) (checkpoint_path stateDir) fs of
              Inl e \<Rightarrow> (Inl (EText e), db)
            | Inr loaded \<Rightarrow>
                (case loadDestinationCheckpoint (re_dest env) (re_destRow env) db of
                   (Inl e, db') \<Rightarrow> (Inl (EWrap ''load destination replication checkpoint'' (EText e)), db')
                 | (Inr None, db') \<Rightarrow> (Inr loaded, db')
                 | (Inr (Some dbCheckpoint), db') \<Rightarrow>
                     (let c = loaded\<lparr>rc_BinlogFile := dcp_File dbCheckpoint, rc_BinlogPos := dcp_Pos dbCheckpoint\<rparr>
                      in (Inr (if TrimSpace (dcp_ApplyDDL dbCheckpoint) \<noteq> ''''
                               then c\<lparr>rc_ApplyDDL := dcp_ApplyDDL dbCheckpoint\<rparr> else c), db')))))"

definition gtid_mode :: "Options \<Rightarrow> bool" where
  "gtid_mode opts = (TrimSpace (op_GTIDSet opts) \<noteq> '''')"

definition initial_gtid_set :: "Options \<Rightarrow> ReplicationCheckpoint \<Rightarrow> string" where
  "initial_gtid_set opts checkpoint =
     (if op_Resume opts \<and> rc_GTIDSet checkpoint \<noteq> '''' \<and> gtid_mode opts then rc_GTIDSet checkpoint else op_GTIDSet opts)"

definition initial_position :: "Options \<Rightarrow> ReplicationCheckpoint \<Rightarrow> string \<times> u32" where
  "initial_position opts checkpoint =
     (let (startFile, startPos) =
        (if op_Resume opts \<and> rc_BinlogFile checkpoint \<noteq> '''' \<and> \<not> gtid_mode opts
         then (rc_BinlogFile checkpoint, rc_BinlogPos checkpoint) else (op_StartFile opts, op_StartPos opts))
      in (startFile, if startPos = 0 \<and> \<not> gtid_mode opts then 4 else startPos))"

text \<open>The window of the run, and the options with the GTID set it really uses.\<close>

definition resolve_window :: "'db run_env \<Rightarrow> Options \<Rightarrow> ReplicationCheckpoint \<Rightarrow> go_error + Options \<times> applyWindow" where
  "resolve_window env opts checkpoint =
     (let (startFile0, startPos0) = initial_position opts checkpoint
      in bind_result
           (if \<not> gtid_mode opts \<and> startFile0 = ''''
            then (case queryBinlogPosition (re_status env 0) of
                    Inl e \<Rightarrow> Inl (EWrap ''query source start position'' e)
                  | Inr p \<Rightarrow> Inr p)
            else Inr (startFile0, startPos0))
           (\<lambda>(startFile, startPos).
              bind_result
                (if gtid_mode opts \<and> TrimSpace (initial_gtid_set opts checkpoint) = ''''
                 then (case querySourceGTIDSet (re_gtidSet env 0) of
                         Inl e \<Rightarrow> Inl (EWrap ''query source GTID set'' e)
                       | Inr found \<Rightarrow> Inr found)
                 else Inr (initial_gtid_set opts checkpoint))
                (\<lambda>gtidSet.
                   let opts = (if gtid_mode opts then opts\<lparr>op_GTIDSet := gtidSet\<rparr> else opts);
                       (sourceEndFile, sourceEndPos) =
                         (case queryBinlogPosition (re_status env 1) of
                            Inl e \<Rightarrow> (startFile, startPos) | Inr p \<Rightarrow> p)
                   in Inr (opts, \<lparr>aw_StartFile = startFile, aw_StartPos = startPos, aw_EndFile = sourceEndFile,
                                  aw_EndPos = sourceEndPos, aw_GTIDSet = op_GTIDSet opts\<rparr>))))"

record runStart =
  rs_Options :: Options
  rs_GtidMode :: bool
  rs_Preflight :: preflightResult
  rs_Checkpoint :: ReplicationCheckpoint
  rs_Window :: applyWindow

text \<open>Everything before the window is applied. None: the random source delivers nothing but zeros.\<close>

definition start_run ::
  "'db run_env \<Rightarrow> string \<Rightarrow> Options \<Rightarrow> fs \<Rightarrow> 'db \<Rightarrow> ((go_error + runStart) \<times> fs \<times> 'db) option" where
  "start_run env stateDir opts0 fs db =
     (if \<not> re_connected env then Some (Inl (EText ''source and destination connections are required''), fs, db)
      else (case prepare_options opts0 of
        Inl e \<Rightarrow> Some (Inl e, fs, db)
      | Inr opts1 \<Rightarrow>
          (case LoadOrCreateServerID (re_serverIDRead env) (re_serverIDWrite env) (re_random env) stateDir
                  (op_SourceServerID opts1) fs of
             None \<Rightarrow> None
           | Some (Inl e, fs') \<Rightarrow> Some (Inl (EWrap ''resolve replication server_id'' (EText e)), fs', db)
           | Some (Inr stableID, fs') \<Rightarrow>
               (let opts = opts1\<lparr>op_SourceServerID := stableID\<rparr>
                in (case checkSourcePreflight (re_preflight env) of
                      Inl e \<Rightarrow> Some (Inl e, fs', db)
                    | Inr preflight \<Rightarrow>
                        (case (if gtid_mode opts then checkGTIDEnabled (re_gtidVariables env) else None) of
                           Some e \<Rightarrow> Some (Inl e, fs', db)
                         | None \<Rightarrow>
                             (case load_checkpoint env stateDir opts fs' db of
                                (Inl e, db') \<Rightarrow> Some (Inl e, fs', db')
                              | (Inr checkpoint, db') \<Rightarrow>
                                  (case resolve_window env opts checkpoint of
                                     Inl e \<Rightarrow> Some (Inl e, fs', db')
                                   | Inr (opts', window) \<Rightarrow>
                                       Some (Inr \<lparr>rs_Options = opts', rs_GtidMode = gtid_mode opts, rs_Preflight = preflight,
                                                  rs_Checkpoint = checkpoint, rs_Window = window\<rparr>, fs', db')))))))))"

section \<open>Applying and finishing\<close>

text \<open>None: the stream of the source blocks. The table is prepared before the stream is opened.\<close>

definition apply_window :: "'db run_env \<Rightarrow> applyWindow \<Rightarrow> Options \<Rightarrow> 'db \<Rightarrow> ((go_error + applyResult) \<times> 'db) option" where
  "apply_window env window opts db =
     (if fst (de_ensureTable (re_dest env) db) \<noteq> None
      then Some (applyWindowTransactional (re_dest env) (re_clock env) (Inr []) window opts db)
      else (case loadApplyBatchesFromSource (re_stream env opts) (re_metadata env) window opts of
              None \<Rightarrow> None
            | Some loaded \<Rightarrow> Some (applyWindowTransactional (re_dest env) (re_clock env) loaded window opts db)))"

definition removeConflictReport :: "string option \<Rightarrow> string \<Rightarrow> fs \<Rightarrow> go_error option \<times> fs" where
  "removeConflictReport removeErr path fs =
     (if fs path = None then (None, fs)
      else (case removeErr of
              Some e \<Rightarrow> (Some (EWrap ''clear stale replication conflict report'' (EText e)), fs)
            | None \<Rightarrow> (None, fs(path := None))))"

definition run_failed :: "'db run_env \<Rightarrow> string \<Rightarrow> runStart \<Rightarrow> go_error \<Rightarrow> fs \<Rightarrow> go_error \<times> fs" where
  "run_failed env stateDir rs err fs =
     (let opts = rs_Options rs; w = rs_Window rs;
          report = buildConflictReport (op_ApplyDDL opts) (op_ConflictPolicy opts) (op_ConflictValues opts) (re_now env)
            (aw_StartFile w) (aw_StartPos w) (aw_EndFile w) (aw_EndPos w) err
      in case SaveReplicationConflictReport (re_reportWrite env) (report_path stateDir) report fs of
           (Some saveErr, fs') \<Rightarrow>
             (EText (''replication apply failed: '' @ error_text err
                @ '' (additionally failed to write conflict report: '' @ saveErr @ '')''), fs')
         | (None, fs') \<Rightarrow>
             (EText (''replication apply failed: '' @ error_text err
                @ '' (conflict report: '' @ report_path stateDir @ '')''), fs'))"

definition applied_position :: "applyWindow \<Rightarrow> applyResult \<Rightarrow> string \<times> u32" where
  "applied_position w applied =
     (if ar_File applied = '''' then aw_StartFile w else ar_File applied,
      if ar_Pos applied = 0 then aw_StartPos w else ar_Pos applied)"

definition final_checkpoint :: "'db run_env \<Rightarrow> runStart \<Rightarrow> applyResult \<Rightarrow> ReplicationCheckpoint" where
  "final_checkpoint env rs applied =
     (let c = (rs_Checkpoint rs)\<lparr>rc_BinlogFile := fst (applied_position (rs_Window rs) applied),
                rc_BinlogPos := snd (applied_position (rs_Window rs) applied)\<rparr>;
          c = (if rs_GtidMode rs
               then (case querySourceGTIDSet (re_gtidSet env 1) of
                       Inr endGTID \<Rightarrow> (if TrimSpace endGTID \<noteq> '''' then c\<lparr>rc_GTIDSet := endGTID\<rparr> else c)
                     | Inl _ \<Rightarrow> c)
               else c)
      in c\<lparr>rc_ApplyDDL := op_ApplyDDL (rs_Options rs), rc_Shape := ar_Shape applied, rc_UpdatedAt := re_now env\<rparr>)"

definition run_summary :: "string \<Rightarrow> runStart \<Rightarrow> applyResult \<Rightarrow> Summary" where
  "run_summary stateDir rs applied =
     (let opts = rs_Options rs; w = rs_Window rs; p = rs_Preflight rs
      in \<lparr>su_CheckpointFile = checkpoint_path stateDir, su_ApplyDDL = op_ApplyDDL opts,
          su_ConflictPolicy = op_ConflictPolicy opts, su_SourceLogBin = pf_LogBinEnabled p,
          su_SourceFormat = pf_BinlogFormat p, su_SourceRowImage = pf_BinlogRowImage p,
          su_StartFile = aw_StartFile w, su_StartPos = aw_StartPos w, su_GTIDSet = op_GTIDSet opts,
          su_SourceEndFile = aw_EndFile w, su_SourceEndPos = aw_EndPos w,
          su_EndFile = fst (applied_position w applied), su_EndPos = snd (applied_position w applied),
          su_AppliedEvents = ar_AppliedEvents applied, su_Shape = ar_Shape applied\<rparr>)"

definition finish_run :: "'db run_env \<Rightarrow> string \<Rightarrow> runStart \<Rightarrow> applyResult \<Rightarrow> fs \<Rightarrow> (go_error + Summary) \<times> fs" where
  "finish_run env stateDir rs applied fs =
     (case SaveReplicationCheckpoint (re_checkpointWrite env) (checkpoint_path stateDir) (final_checkpoint env rs applied) fs of
        (Some e, fs') \<Rightarrow> (Inl (EText e), fs')
      | (None, fs') \<Rightarrow>
          (case removeConflictReport (re_removeReport env) (report_path stateDir) fs' of
             (Some e, fs'') \<Rightarrow> (Inl e, fs'')
           | (None, fs'') \<Rightarrow> (Inr (run_summary stateDir rs applied), fs'')))"

definition Run :: "'db run_env \<Rightarrow> string \<Rightarrow> Options \<Rightarrow> fs \<Rightarrow> 'db \<Rightarrow> ((go_error + Summary) \<times> fs \<times> 'db) option" where
  "Run env stateDir opts fs db =
     (case start_run env stateDir opts fs db of
        None \<Rightarrow> None
      | Some (Inl e, fs1, db1) \<Rightarrow> Some (Inl e, fs1, db1)
      | Some (Inr rs, fs1, db1) \<Rightarrow>
          (case apply_window env (rs_Window rs) (rs_Options rs) db1 of
             None \<Rightarrow> None
           | Some (Inl err, db2) \<Rightarrow> (let (e, fs2) = run_failed env stateDir rs err fs1 in Some (Inl e, fs2, db2))
           | Some (Inr applied, db2) \<Rightarrow> (let (r, fs2) = finish_run env stateDir rs applied fs1 in Some (r, fs2, db2))))"


section \<open>What the source reports\<close>

text \<open>
  Reading the status row: a row with a file and a position yields that file and the
  position modulo 2 ^ 32 when the driver delivers an integer, and is refused when that is zero;
  a position delivered as text is refused unless it fits in 32 bits.
\<close>

theorem extractBinlogPosition_bounds:
  assumes "file \<noteq> ''''"
  shows "(extractBinlogPosition [(''File'', VString file), (''Position'', VUint n), (''Binlog_Do_DB'', x)] =
      (if n mod 2 ^ 32 = 0 then Inl (EText ''binlog position column not found in status result'')
       else Inr (file, of_nat (n mod 2 ^ 32)))) \<and>
    (extractBinlogPosition [(''File'', VBytes file), (''Position'', VBytes (show_nat n)), (''Binlog_Do_DB'', x)] =
      (if n \<ge> 2 ^ 32 then Inl (EText (''strconv.ParseUint: parsing '' @ go_quote (show_nat n) @ '': value out of range''))
       else if n = 0 then Inl (EText ''binlog position column not found in status result'')
       else Inr (file, of_nat n)))"
proof -
  have cols: "ToLower (TrimSpace ''File'') = ''file''" "ToLower (TrimSpace ''Position'') = ''position''"
    "ToLower (TrimSpace ''Binlog_Do_DB'') = ''binlog_do_db''"
    by (simp_all add: go_string Let_def)
  have zero: "(of_nat m :: u32) = 0 \<longleftrightarrow> m mod 2 ^ 32 = 0" for m
    by (simp add: word_of_nat_eq_0_iff dvd_eq_mod_eq_0)
  have modn: "(of_nat (m mod 4294967296) :: u32) = of_nat m" for m
    by (rule word_unat_eq_iff [THEN iffD2]) (simp add: unat_of_nat)
  have "extractBinlogPosition [(''File'', VString file), (''Position'', VUint n), (''Binlog_Do_DB'', x)] =
      (if n mod 2 ^ 32 = 0 then Inl (EText ''binlog position column not found in status result'')
       else Inr (file, of_nat (n mod 2 ^ 32)))"
    using assms by (simp add: extractBinlogPosition_def cols toString_def toUint32_def zero modn Let_def)
  moreover have "extractBinlogPosition [(''File'', VBytes file), (''Position'', VBytes (show_nat n)), (''Binlog_Do_DB'', x)] =
      (if n \<ge> 2 ^ 32 then Inl (EText (''strconv.ParseUint: parsing '' @ go_quote (show_nat n) @ '': value out of range''))
       else if n = 0 then Inl (EText ''binlog position column not found in status result'')
       else Inr (file, of_nat n))"
  proof (cases "n < 2 ^ 32")
    case True
    then show ?thesis
      using assms
      by (simp add: extractBinlogPosition_def cols toString_def toUint32_def parse_position_def ParseUint_show_nat zero Let_def)
  next
    case False
    then have "ParseUint (show_nat n) 32 = None"
      by (simp add: ParseUint_def show_nat_nonempty show_nat_digits dec_value_show_nat Let_def)
    then show ?thesis
      using False
      by (simp add: extractBinlogPosition_def cols toString_def toUint32_def parse_position_def Let_def
          show_nat_nonempty show_nat_digits)
  qed
  ultimately show ?thesis by blast
qed

theorem extractBinlogPosition_bounds_witness:
  "extractBinlogPosition [(''File'', VString ''bin.000009''), (''Position'', VUint 4294967300), (''Binlog_Do_DB'', VNil)] =
    Inr (''bin.000009'', 4)"
  using extractBinlogPosition_bounds [of "''bin.000009''" 4294967300 VNil] by simp

text \<open>
  A run goes on only when the source writes full row images: the check accepts exactly
  when log_bin is on, binlog_format is ROW and binlog_row_image is FULL, in any letter case and
  with any white space around.
\<close>

theorem checkSourcePreflight_accepts:
  "checkSourcePreflight (Inr (logBin, format, rowImage)) = Inr pf \<longleftrightarrow>
     parseLogBinEnabled logBin = Inr True \<and> normalizeBinlogFormat format = ''ROW'' \<and>
     normalizeBinlogFormat rowImage = ''FULL'' \<and>
     pf = \<lparr>pf_LogBinEnabled = True, pf_BinlogFormat = ''ROW'', pf_BinlogRowImage = ''FULL''\<rparr>"
  by (auto simp: checkSourcePreflight_def Let_def split: sum.splits if_splits)

section \<open>Where a run starts\<close>

text \<open>
  The destination keeps its checkpoint where the loop writes it: cp reads it from what is committed,
  and query_row delivers it.
\<close>

definition checkpointed ::
  "'db destination \<Rightarrow> ('db \<Rightarrow> string + (string \<times> u64 \<times> string) option) \<Rightarrow> ('db \<Rightarrow> 'c) \<Rightarrow> ('db \<Rightarrow> 'c)
     \<Rightarrow> (string \<Rightarrow> goval list \<Rightarrow> 'c \<Rightarrow> 'c) \<Rightarrow> (string \<Rightarrow> bool) \<Rightarrow> ('c \<Rightarrow> (string \<times> u32) option) \<Rightarrow> bool" where
  "checkpointed dest query_row view work effect dml cp =
     (transactional dest view work effect dml \<and> dml checkpoint_query \<and>
      (\<forall>file pos ddl c. cp (effect checkpoint_query (checkpoint_args file pos ddl) c) = Some (file, pos)) \<and>
      (\<forall>db. \<exists>ddl. query_row db = Inr (map_option (\<lambda>(file, pos). (file, ucast pos, ddl)) (cp (view db)))))"

lemma widen_position: "(ucast (ucast p :: u64) :: u32) = (p :: u32)"
  by (rule bit_word_eqI) (simp add: bit_simps)

lemma loadDestinationCheckpoint_row:
  assumes "checkpointed dest query_row view work effect dml cp"
    and "loadDestinationCheckpoint dest query_row db = (Inr d, db')"
  shows "view db' = view db" "map_option (\<lambda>d. (dcp_File d, dcp_Pos d)) d = cp (view db)"
proof -
  obtain x where e: "de_ensureTable dest db = (None, db')" "de_ensureTable dest db = (x, db')"
    using assms(2) by (auto simp: loadDestinationCheckpoint_def split: prod.splits option.splits sum.splits)
  then show v: "view db' = view db"
    using assms(1) unfolding checkpointed_def transactional_def by (metis snd_conv)
  obtain ddl where q: "query_row db' = Inr (map_option (\<lambda>(file, pos). (file, ucast pos, ddl)) (cp (view db')))"
    using assms(1) unfolding checkpointed_def by blast
  show "map_option (\<lambda>d. (dcp_File d, dcp_Pos d)) d = cp (view db)"
    using assms(2) e q v by (cases "cp (view db)") (auto simp: loadDestinationCheckpoint_def widen_position)
qed

lemma load_checkpoint_view:
  assumes "checkpointed (re_dest env) (re_destRow env) view work effect dml cp"
    and "load_checkpoint env dir opts fs db = (Inr c, db')"
  shows "view db' = view db"
    "op_Resume opts \<Longrightarrow> cp (view db) = Some p \<Longrightarrow> (rc_BinlogFile c, rc_BinlogPos c) = p"
  using assms(2) loadDestinationCheckpoint_row [OF assms(1), of db _ db']
  by (auto simp: load_checkpoint_def Let_def split: if_splits sum.splits prod.splits option.splits; fastforce)+

text \<open>The options that decide where a run starts are those of the caller.\<close>

lemma start_run_parts:
  assumes "start_run env dir opts fs db = Some (Inr rs, fs1, db1)"
  obtains opts' where "load_checkpoint env dir opts' fs1 db = (Inr (rs_Checkpoint rs), db1)"
    "resolve_window env opts' (rs_Checkpoint rs) = Inr (rs_Options rs, rs_Window rs)"
    "op_Resume opts' = op_Resume opts" "op_GTIDSet opts' = op_GTIDSet opts" "op_StartFile opts' = op_StartFile opts"
    "op_StartPos opts' = op_StartPos opts" "rs_GtidMode rs = gtid_mode opts"
    "\<And>p. p \<noteq> path_join dir serverIDFile \<Longrightarrow> p \<noteq> we_tmp (re_serverIDWrite env) \<Longrightarrow> fs1 p = fs p"
proof -
  obtain opts1 where o: "prepare_options opts = Inr opts1"
    using assms by (auto simp: start_run_def split: if_splits sum.splits)
  obtain n where s: "LoadOrCreateServerID (re_serverIDRead env) (re_serverIDWrite env) (re_random env) dir
      (op_SourceServerID opts1) fs = Some (Inr n, fs1)"
    using assms o by (auto simp: start_run_def Let_def split: if_splits sum.splits option.splits prod.splits)
  obtain opts' where opts': "opts' = opts1\<lparr>op_SourceServerID := n\<rparr>" by simp
  have same: "op_Resume opts' = op_Resume opts" "op_GTIDSet opts' = op_GTIDSet opts"
    "op_StartFile opts' = op_StartFile opts" "op_StartPos opts' = op_StartPos opts"
    using o by (auto simp: opts' prepare_options_def Let_def split: option.splits if_splits)
  have frame: "fs1 p = fs p" if "p \<noteq> path_join dir serverIDFile" "p \<noteq> we_tmp (re_serverIDWrite env)" for p
    using s that LoadOrCreateServerID_frame by blast
  have l: "load_checkpoint env dir opts' fs1 db = (Inr (rs_Checkpoint rs), db1)"
    and r: "resolve_window env opts' (rs_Checkpoint rs) = Inr (rs_Options rs, rs_Window rs)"
    and g: "rs_GtidMode rs = gtid_mode opts'"
    using assms o s by (auto simp: start_run_def Let_def opts' split: if_splits sum.splits option.splits prod.splits)
  have "gtid_mode opts' = gtid_mode opts" by (simp add: gtid_mode_def same)
  then show thesis using that [OF l r same] g frame by simp
qed

lemma resolve_window_resume:
  assumes "resolve_window env opts c = Inr (opts', w)" and "op_Resume opts" and "\<not> gtid_mode opts"
    and "rc_BinlogFile c \<noteq> ''''" and "rc_BinlogPos c \<noteq> 0"
  shows "window_start w = (rc_BinlogFile c, rc_BinlogPos c)"
  using assms by (auto simp: resolve_window_def initial_position_def window_start_def Let_def bind_result_Inr
      split: if_splits prod.splits sum.splits)

lemma resolve_window_gtid:
  assumes "resolve_window env opts c = Inr (opts', w)" and "op_Resume opts" and "gtid_mode opts"
    and "TrimSpace (rc_GTIDSet c) \<noteq> ''''"
  shows "aw_GTIDSet w = rc_GTIDSet c"
  using assms by (auto simp: resolve_window_def initial_gtid_set_def Let_def bind_result_Inr split: if_splits prod.splits sum.splits)


section \<open>An example\<close>

text \<open>A source whose log holds one insert, and the logging destination with its own checkpoint row.\<close>

definition example_env :: "(statement_log \<times> statement_log) run_env" where
  "example_env = \<lparr>re_connected = True, re_serverIDRead = None, re_serverIDWrite = no_faults ''s/t1'', re_random = [],
     re_preflight = Inr (VString ''ON'', VString ''ROW'', VBytes ''full''),
     re_gtidVariables = (\<lambda>q. Inr (VString ''ON'')), re_checkpointRead = None,
     re_destRow = (\<lambda>db. Inr (map_option (\<lambda>(file, pos). (file, ucast pos, ''warn'')) (log_checkpoint (fst db)))),
     re_status = (\<lambda>i q. StatusRow [(''File'', VString ''binlog.000001''), (''Position'', VUint 400)]),
     re_gtidSet = (\<lambda>i q. Inr (VString ''u:1-9'')), re_dest = log_destination,
     re_stream = (\<lambda>opts w. Some (Inr [write_to ''t'', example_commit])), re_metadata = two_tables,
     re_clock = (\<lambda>i. 0), re_now = 0, re_reportWrite = no_faults ''s/t2'', re_checkpointWrite = no_faults ''s/t3'',
     re_removeReport = None\<rparr>"

definition run_options :: Options where
  "run_options = example_options\<lparr>op_ConflictValues := ''redacted'', op_SourceServerID := 7, op_Resume := True,
     op_StartFile := ''binlog.000001'', op_StartPos := 4, op_SourceDSN := ''dsn''\<rparr>"

lemma example_checkpointed:
  "checkpointed (re_dest example_env) (re_destRow example_env) fst snd log_effect (\<lambda>q. True) log_checkpoint"
  by (auto simp: checkpointed_def example_env_def log_destination_transactional log_checkpoint_law)

lemma example_status: "queryBinlogPosition (re_status example_env i) = Inr (''binlog.000001'', 400)"
proof -
  have "ToLower (TrimSpace ''File'') = ''file''" "ToLower (TrimSpace ''Position'') = ''position''"
    by (simp_all add: go_string Let_def)
  then show ?thesis
    by (simp add: queryBinlogPosition_def queryBinlogPositionWithSQL_def example_env_def extractBinlogPosition_def
        toString_def toUint32_def)
qed

lemma example_preflight:
  "checkSourcePreflight (re_preflight example_env) =
     Inr \<lparr>pf_LogBinEnabled = True, pf_BinlogFormat = ''ROW'', pf_BinlogRowImage = ''FULL''\<rparr>"
  by (simp add: checkSourcePreflight_def example_env_def parseLogBinEnabled_def parseLogBinText_def
      normalizeBinlogFormat_def go_string Let_def)

lemma example_options_ok: "prepare_options run_options = Inr run_options"
  by (simp add: prepare_options_def run_options_def example_options_def emptyOptions_def normalizeConflictPolicy_def
      validateApplyDDL_def validateConflictPolicy_def TrimSpace_def is_space_def)

lemma example_start:
  "\<exists>rs. start_run example_env ''s'' run_options Map.empty db = Some (Inr rs, Map.empty, db) \<and>
     rs_Options rs = run_options \<and>
     (log_checkpoint (fst db) = None \<longrightarrow>
        rs_Window rs = \<lparr>aw_StartFile = ''binlog.000001'', aw_StartPos = 4, aw_EndFile = ''binlog.000001'',
          aw_EndPos = 400, aw_GTIDSet = ''''\<rparr>)"
proof -
  have o: "op_SourceServerID run_options = 7" "op_GTIDSet run_options = ''''" "op_Resume run_options"
    "op_StartFile run_options = ''binlog.000001''" "op_StartPos run_options = 4"
    "run_options\<lparr>op_SourceServerID := 7\<rparr> = run_options"
    by (simp_all add: run_options_def example_options_def emptyOptions_def)
  have e: "re_connected example_env" "re_checkpointRead example_env = None"
    "\<And>db. de_ensureTable (re_dest example_env) db = (None, db)"
    "re_destRow example_env db = Inr (map_option (\<lambda>(file, pos). (file, ucast pos, ''warn'')) (log_checkpoint (fst db)))"
    by (simp_all add: example_env_def log_destination_def)
  have l: "LoadReplicationCheckpoint None (checkpoint_path ''s'') Map.empty = Inr NewReplicationCheckpoint"
    by (simp add: LoadReplicationCheckpoint_def load_record_def)
  obtain c where c: "load_checkpoint example_env ''s'' run_options Map.empty db = (Inr c, db)"
    "log_checkpoint (fst db) = None \<longrightarrow> rc_BinlogFile c = ''''"
    by (cases "log_checkpoint (fst db)")
      (auto simp: load_checkpoint_def o e l loadDestinationCheckpoint_def Let_def NewReplicationCheckpoint_def)
  have "\<exists>w. resolve_window example_env run_options c = Inr (run_options, w) \<and>
    (rc_BinlogFile c = '''' \<longrightarrow> w = \<lparr>aw_StartFile = ''binlog.000001'', aw_StartPos = 4, aw_EndFile = ''binlog.000001'',
          aw_EndPos = 400, aw_GTIDSet = ''''\<rparr>)"
    by (cases "rc_BinlogFile c = ''''")
      (simp_all add: resolve_window_def o gtid_mode_def initial_position_def initial_gtid_set_def example_status Let_def)
  then obtain w where w: "resolve_window example_env run_options c = Inr (run_options, w)"
    "log_checkpoint (fst db) = None \<longrightarrow> w = \<lparr>aw_StartFile = ''binlog.000001'', aw_StartPos = 4, aw_EndFile = ''binlog.000001'',
          aw_EndPos = 400, aw_GTIDSet = ''''\<rparr>"
    using c(2) by (elim exE conjE) simp
  have id: "LoadOrCreateServerID x y z ''s'' (op_SourceServerID run_options) Map.empty = Some (Inr 7, Map.empty)" for x y z
    by (simp add: LoadOrCreateServerID_def o(1))
  have ng: "\<not> gtid_mode run_options" by (simp add: gtid_mode_def o(2))
  have "start_run example_env ''s'' run_options Map.empty db = Some (Inr \<lparr>rs_Options = run_options, rs_GtidMode = gtid_mode run_options,
      rs_Preflight = \<lparr>pf_LogBinEnabled = True, pf_BinlogFormat = ''ROW'', pf_BinlogRowImage = ''FULL''\<rparr>,
      rs_Checkpoint = c, rs_Window = w\<rparr>, Map.empty, db)"
    by (simp only: start_run_def e(1) example_options_ok sum.case option.case prod.case Let_def id o(6) example_preflight
        ng not_True_eq_False if_False c(1) w(1))
  then show ?thesis using w(2) by simp
qed

lemma example_batches:
  "\<exists>b. loadApplyBatchesFromSource (re_stream example_env run_options) (re_metadata example_env)
      \<lparr>aw_StartFile = ''binlog.000001'', aw_StartPos = 4, aw_EndFile = ''binlog.000001'', aw_EndPos = 400, aw_GTIDSet = ''''\<rparr>
      run_options = Some (Inr [b]) \<and> ab_Events b \<noteq> [] \<and> ab_EndFile b = ''binlog.000001'' \<and> ab_EndPos b = 400 \<and> valid_batch b"
proof -
  have roles: "event_role run_options (write_to ''t'') = RowChange" "event_role run_options example_commit = Commits"
    by (simp_all add: event_role_def example_commit_def run_options_def example_options_def emptyOptions_def excluded_def)
  then have nx: "\<not> excluded run_options (write_to ''t'')" by (simp_all add: event_role_RowChange)
  have p: "normalizeConflictPolicy (op_ConflictPolicy run_options) = ''fail''" "TrimSpace (op_SourceDSN run_options) \<noteq> ''''"
    by (simp_all add: run_options_def example_options_def normalizeConflictPolicy_def go_string)
  have pos: "se_File example_commit = ''binlog.000001''" "se_Pos example_commit = 400"
    by (simp_all add: example_commit_def example_update_def)
  have "\<exists>b. buildApplyBatches two_tables [write_to ''t'', example_commit] run_options = Inr [b] \<and> ab_Events b \<noteq> [] \<and>
      ab_EndFile b = ''binlog.000001'' \<and> ab_EndPos b = 400 \<and> valid_batch b"
    unfolding buildApplyBatches_def Let_def p example_window_facts(4)
    by (simp add: batch_step_role roles row_step_def nx initialBatchState_def two_tables_def Let_def
        sqlEventsForRows_def buildInsertStatement_def insert_query_def rowApplyEvent_def
        extractKeyArgs_def keyOrdinals_def goIndex_def commit_pending_def clear_pending_def batch_at_def pos valid_batch_def
        TrimSpace_eq_Nil is_space_def)
  then show ?thesis
    using p(2) by (simp add: loadApplyBatchesFromSource_def positionBefore_def compareBinlogFile_def example_env_def Let_def)
qed


section \<open>Consecutive runs\<close>

text \<open>What apply_window does is a run of the window on the batches that were loaded, or of none.\<close>

lemma apply_window_leaves:
  assumes "transactional (re_dest env) view work effect dml" and "dml checkpoint_query"
    and "loadApplyBatchesFromSource (re_stream env opts) (re_metadata env) w opts = Some (Inr batches)"
    and "list_all (dml_batch dml) batches" and "apply_window env w opts db = Some (r, db')"
  shows "\<exists>ds. leaves effect opts batches (window_start w) (view db) (result_outcome r) (view db') ds"
proof -
  have "applyWindowTransactional (re_dest env) (re_clock env) (Inr batches) w opts db = (r, db')"
  proof (cases "fst (de_ensureTable (re_dest env) db)")
    case (Some e)
    then show ?thesis
      using assms(5) by (cases "de_ensureTable (re_dest env) db") (simp add: apply_window_def applyWindowTransactional_def)
  next
    case None
    then show ?thesis using assms(3,5) by (simp add: apply_window_def)
  qed
  then show ?thesis using applyWindow_leaves [OF assms(1,2,4)] by blast
qed

lemma Run_database:
  assumes "start_run env dir opts fs db = Some (Inr rs, fs1, db1)" and "Run env dir opts fs db = Some (r, fs', db')"
  obtains r' where "apply_window env (rs_Window rs) (rs_Options rs) db1 = Some (r', db')"
    "(r, fs') = (case r' of Inl err \<Rightarrow> (case run_failed env dir rs err fs1 of (e, fs2) \<Rightarrow> (Inl e, fs2))
                          | Inr applied \<Rightarrow> finish_run env dir rs applied fs1)"
  using assms by (auto simp: Run_def Let_def split: option.splits sum.splits prod.splits)

lemma end_after_valid:
  "list_all (\<lambda>b. ab_EndFile b \<noteq> '''' \<and> ab_EndPos b \<noteq> 0) bs \<Longrightarrow> nonempty_batches bs = ds @ rest \<Longrightarrow> ds \<noteq> [] \<Longrightarrow>
   fst (end_after p ds) \<noteq> '''' \<and> snd (end_after p ds) \<noteq> 0"
proof -
  assume "list_all (\<lambda>b. ab_EndFile b \<noteq> '''' \<and> ab_EndPos b \<noteq> 0) bs" "nonempty_batches bs = ds @ rest" "ds \<noteq> []"
  then have "last ds \<in> set (nonempty_batches bs)" by simp
  then have "last ds \<in> set bs" by (simp add: nonempty_batches_def)
  then show ?thesis
    using \<open>list_all _ bs\<close> \<open>ds \<noteq> []\<close> by (auto simp: list_all_iff end_after_def)
qed

text \<open>
  Claim C1. Two runs in a row, the first of which may fail anywhere: the first commits a prefix of
  the transactions of its window, and the second, started with --resume by position, starts
  exactly at the end of that prefix. Whatever happened to the state directory in between does not
  matter, the destination's own checkpoint decides.
\<close>

theorem consecutive_runs_continue:
  assumes "checkpointed (re_dest env) (re_destRow env) view work effect dml cp"
    and "checkpointed (re_dest env') (re_destRow env') view work effect dml cp"
    and "start_run env dir opts fs db = Some (Inr rs, fs1, db1)"
    and "loadApplyBatchesFromSource (re_stream env (rs_Options rs)) (re_metadata env) (rs_Window rs) (rs_Options rs)
           = Some (Inr batches)"
    and "list_all (dml_batch dml) batches" and "list_all (\<lambda>b. ab_EndFile b \<noteq> '''' \<and> ab_EndPos b \<noteq> 0) batches"
    and "Run env dir opts fs db = Some (r, fs', db')"
    and "start_run env' dir' opts' fs'' db' = Some (Inr rs', fs2, db2)" and "op_Resume opts'" and "\<not> gtid_mode opts'"
  shows "\<exists>ds rest. nonempty_batches batches = ds @ rest \<and>
    view db' = batches_effect effect (rs_Options rs) ds (view db1) \<and> view db2 = view db' \<and>
    (ds \<noteq> [] \<longrightarrow> window_start (rs_Window rs') = end_after (window_start (rs_Window rs)) ds)"
proof -
  have t: "transactional (re_dest env) view work effect dml" "dml checkpoint_query"
    and law: "\<And>file pos ddl c. cp (effect checkpoint_query (checkpoint_args file pos ddl) c) = Some (file, pos)"
    using assms(1) by (simp_all add: checkpointed_def)
  obtain r' where "apply_window env (rs_Window rs) (rs_Options rs) db1 = Some (r', db')"
    using Run_database [OF assms(3,7)] by blast
  from apply_window_leaves [OF t assms(4,5) this]
  obtain ds rest where ds: "nonempty_batches batches = ds @ rest"
    "view db' = batches_effect effect (rs_Options rs) ds (view db1)"
    unfolding leaves_def by blast
  obtain o2 where l: "load_checkpoint env' dir' o2 fs2 db' = (Inr (rs_Checkpoint rs'), db2)"
    and w: "resolve_window env' o2 (rs_Checkpoint rs') = Inr (rs_Options rs', rs_Window rs')"
    and o2: "op_Resume o2" "\<not> gtid_mode o2"
    by (rule start_run_parts [OF assms(8)]) (use assms(9,10) in \<open>simp add: gtid_mode_def\<close>)
  have "window_start (rs_Window rs') = end_after (window_start (rs_Window rs)) ds" if "ds \<noteq> []"
  proof -
    let ?p = "end_after (window_start (rs_Window rs)) ds"
    have "cp (view db') = Some ?p"
      unfolding ds(2) by (rule checkpoint_after_batches [of cp effect, OF law that])
    then have c: "(rc_BinlogFile (rs_Checkpoint rs'), rc_BinlogPos (rs_Checkpoint rs')) = ?p"
      by (rule load_checkpoint_view(2) [OF assms(2) l o2(1)])
    moreover have "fst ?p \<noteq> ''''" "snd ?p \<noteq> 0" using end_after_valid [OF assms(6) ds(1) that] by auto
    ultimately have "rc_BinlogFile (rs_Checkpoint rs') \<noteq> ''''" "rc_BinlogPos (rs_Checkpoint rs') \<noteq> 0" by (metis fst_conv snd_conv)+
    from resolve_window_resume [OF w o2 this] show ?thesis using c by simp
  qed
  then show ?thesis using ds load_checkpoint_view(1) [OF assms(2) l] by blast
qed

text \<open>The whole first run of the example.\<close>

definition example_position_window :: applyWindow where
  "example_position_window = \<lparr>aw_StartFile = ''binlog.000001'', aw_StartPos = 4, aw_EndFile = ''binlog.000001'',
     aw_EndPos = 400, aw_GTIDSet = ''''\<rparr>"

lemma example_first_run:
  obtains rs b su fs' db' where
    "start_run example_env ''s'' run_options Map.empty ([], []) = Some (Inr rs, Map.empty, ([], []))"
    "rs_Options rs = run_options" "rs_Window rs = example_position_window"
    "loadApplyBatchesFromSource (re_stream example_env run_options) (re_metadata example_env) example_position_window
       run_options = Some (Inr [b])"
    "ab_Events b \<noteq> []" "ab_EndFile b = ''binlog.000001''" "ab_EndPos b = 400"
    "Run example_env ''s'' run_options Map.empty ([], []) = Some (Inr su, fs', db')"
    "su_EndPos su = 400" "fst db' = batch_effect log_effect run_options b []"
proof -
  let ?w = "example_position_window"
  let ?start = "([], []) :: statement_log \<times> statement_log"
  have o: "op_MaxLagSeconds run_options = 0" "op_MaxEvents run_options = 0"
    by (simp_all add: run_options_def example_options_def emptyOptions_def)
  have e: "re_dest example_env = log_destination" by (simp add: example_env_def)
  obtain rs where rs: "start_run example_env ''s'' run_options Map.empty ?start = Some (Inr rs, Map.empty, ?start)"
    "rs_Options rs = run_options" "rs_Window rs = ?w"
    using example_start [of ?start] by (auto simp: log_checkpoint_def example_position_window_def)
  obtain b where b: "loadApplyBatchesFromSource (re_stream example_env run_options) (re_metadata example_env) ?w
      run_options = Some (Inr [b])" "ab_Events b \<noteq> []" "ab_EndFile b = ''binlog.000001''" "ab_EndPos b = 400" "valid_batch b"
    using example_batches by (auto simp: example_position_window_def)
  let ?s = "initialLoopState run_options ?w [b]"
  obtain db' where ab: "apply_batch log_destination run_options b ?s ?start = (None, db')"
    using apply_batch_reliable [OF log_destination_reliable b(5)] by (metis prod.collapse)
  have v: "fst db' = batch_effect log_effect run_options b []"
    using apply_batch_atomic [OF log_destination_transactional _ _ ab] by (simp add: dml_batch_def list_all_iff)
  have g: "batch_guard run_options (re_clock example_env 0) b ?s = Proceed"
    using b(2-4) o by (simp add: batch_guard_def)
  obtain res where res: "applyWindowTransactional log_destination (re_clock example_env) (Inr [b]) ?w run_options ?start = (Inr res, db')"
    "ar_Pos res = 400"
    using ab g b(4) by (simp add: applyWindowTransactional_def initialLoopState_def log_destination_def after_batch_def)
  then have aw: "apply_window example_env ?w run_options ?start = Some (Inr res, db')"
    using b(1) by (simp add: apply_window_def e log_destination_def)
  obtain su fs' where f: "finish_run example_env ''s'' rs res Map.empty = (Inr su, fs')" "su = run_summary ''s'' rs res"
    by (simp add: finish_run_def SaveReplicationCheckpoint_def WritePrivateFileAtomic_def EnsurePrivateDir_def
        removeConflictReport_def example_env_def no_faults_def checkpoint_path_def report_path_def path_join_def Let_def)
  have "Run example_env ''s'' run_options Map.empty ?start = Some (Inr su, fs', db')"
    by (simp add: Run_def rs aw f(1))
  moreover have "su_EndPos su = 400" using f(2) res(2) by (simp add: run_summary_def applied_position_def Let_def)
  ultimately show thesis using that [OF rs b(1-4)] v by blast
qed

theorem consecutive_runs_continue_witness:
  "\<exists>su fs' db' rs' db2. Run example_env ''s'' run_options Map.empty ([], []) = Some (Inr su, fs', db') \<and>
     start_run example_env ''s'' run_options Map.empty db' = Some (Inr rs', Map.empty, db2) \<and>
     window_start (rs_Window rs') = (''binlog.000001'', 400)"
proof -
  have o: "op_Resume run_options" "\<not> gtid_mode run_options"
    by (simp_all add: run_options_def example_options_def emptyOptions_def gtid_mode_def)
  obtain rs b su fs' db' where rs: "start_run example_env ''s'' run_options Map.empty ([], []) = Some (Inr rs, Map.empty, ([], []))"
    "rs_Options rs = run_options" "rs_Window rs = example_position_window"
    and b: "loadApplyBatchesFromSource (re_stream example_env run_options) (re_metadata example_env) example_position_window
       run_options = Some (Inr [b])" "ab_Events b \<noteq> []" "ab_EndFile b = ''binlog.000001''" "ab_EndPos b = 400"
    and run: "Run example_env ''s'' run_options Map.empty ([], []) = Some (Inr su, fs', db')"
    and v: "fst db' = batch_effect log_effect run_options b []"
    by (rule example_first_run)
  obtain rs' where rs': "start_run example_env ''s'' run_options Map.empty db' = Some (Inr rs', Map.empty, db')"
    using example_start by blast
  have "fst db' \<noteq> []" by (simp add: v batch_effect_def log_effect_def)
  moreover obtain ds rest where "nonempty_batches [b] = ds @ rest" "fst db' = batches_effect log_effect (rs_Options rs) ds []"
    "ds \<noteq> [] \<longrightarrow> window_start (rs_Window rs') = end_after (window_start (rs_Window rs)) ds"
    using consecutive_runs_continue [OF example_checkpointed example_checkpointed rs(1), unfolded rs(2,3), OF b(1) _ _ run rs' o]
      b(3,4) by (auto simp: dml_batch_def list_all_iff rs(2,3))
  ultimately have "window_start (rs_Window rs') = end_after (window_start (rs_Window rs)) [b]"
    using b(2) by (cases ds) auto
  then show ?thesis using run rs' b(3,4) by (intro exI conjI) (auto simp: end_after_def)
qed

section \<open>What a run leaves in the state directory\<close>

lemma dec_checkpoint_valid: "dec_checkpoint j = Some c \<Longrightarrow> valid_checkpoint c"
proof -
  assume "dec_checkpoint j = Some c"
  then obtain kvs a1 where "dec_int (get ''version'' kvs) = Some a1" "rc_Version c = a1"
    unfolding dec_checkpoint_def by (drule_tac dec_obj_Some) (auto simp: bindo_Some)
  then show ?thesis using dec_int_is_int64 [of "get ''version'' kvs" a1] by (auto simp: valid_checkpoint_def is_int64_def)
qed

lemma LoadReplicationCheckpoint_valid: "LoadReplicationCheckpoint r path fs = Inr c \<Longrightarrow> valid_checkpoint c"
  by (auto simp: LoadReplicationCheckpoint_def load_record_def upgradeReplicationCheckpoint_def valid_checkpoint_def
      NewReplicationCheckpoint_def checkpointVersion_def is_int64_def Let_def
      dest!: dec_checkpoint_valid split: option.splits content.splits)


lemma load_checkpoint_valid: "load_checkpoint env dir opts fs db = (Inr c, db') \<Longrightarrow> valid_checkpoint c"
  by (auto simp: load_checkpoint_def Let_def valid_checkpoint_def NewReplicationCheckpoint_def checkpointVersion_def
      is_int64_def dest!: LoadReplicationCheckpoint_valid split: if_splits sum.splits prod.splits option.splits)

lemma final_checkpoint_fields:
  "rc_BinlogFile (final_checkpoint env rs applied) = fst (applied_position (rs_Window rs) applied)"
  "rc_BinlogPos (final_checkpoint env rs applied) = snd (applied_position (rs_Window rs) applied)"
  "rc_ApplyDDL (final_checkpoint env rs applied) = op_ApplyDDL (rs_Options rs)"
  "rc_Shape (final_checkpoint env rs applied) = ar_Shape applied"
  "rc_Version (final_checkpoint env rs applied) = rc_Version (rs_Checkpoint rs)"
  by (auto simp: final_checkpoint_def Let_def split: sum.split)

lemma final_checkpoint_gtid:
  "rs_GtidMode rs \<Longrightarrow> querySourceGTIDSet (re_gtidSet env 1) = Inr gtids \<Longrightarrow> TrimSpace gtids \<noteq> '''' \<Longrightarrow>
   rc_GTIDSet (final_checkpoint env rs applied) = gtids"
  by (simp add: final_checkpoint_def Let_def)

lemma removeConflictReport_other: "p \<noteq> path \<Longrightarrow> snd (removeConflictReport x path fs) p = fs p"
  by (auto simp: removeConflictReport_def split: option.split)

lemma checkpoint_path_neq [simp]:
  "checkpoint_path dir \<noteq> report_path dir" "report_path dir \<noteq> checkpoint_path dir"
  "checkpoint_path dir \<noteq> path_join dir serverIDFile" "report_path dir \<noteq> path_join dir serverIDFile"
  by (simp_all add: checkpoint_path_def report_path_def path_join_inject serverIDFile_def)

lemma finish_run_saved:
  assumes "finish_run env dir rs applied fs = (Inr su, fs')" and "we_tmp (re_checkpointWrite env) \<noteq> checkpoint_path dir"
    and "valid_checkpoint (rs_Checkpoint rs)"
  shows "LoadReplicationCheckpoint None (checkpoint_path dir) fs' =
      Inr (upgradeReplicationCheckpoint (final_checkpoint env rs applied))"
    and "su = run_summary dir rs applied" and "fs' (report_path dir) = None"
proof -
  obtain fs1 where s: "SaveReplicationCheckpoint (re_checkpointWrite env) (checkpoint_path dir) (final_checkpoint env rs applied) fs
      = (None, fs1)"
    using assms(1) by (auto simp: finish_run_def split: prod.splits option.splits)
  then have r: "removeConflictReport (re_removeReport env) (report_path dir) fs1 = (None, fs')"
    and "su = run_summary dir rs applied"
    using assms(1) by (auto simp: finish_run_def split: prod.splits option.splits)
  then show "su = run_summary dir rs applied" by simp
  show "fs' (report_path dir) = None" using r by (auto simp: removeConflictReport_def split: if_splits option.splits)
  have "valid_checkpoint (final_checkpoint env rs applied)"
    using assms(3) by (simp add: valid_checkpoint_def final_checkpoint_fields)
  then have "LoadReplicationCheckpoint None (checkpoint_path dir) fs1 =
      Inr (upgradeReplicationCheckpoint (final_checkpoint env rs applied))"
    using replication_store.load_saved [OF s assms(2)] by simp
  moreover have "fs' (checkpoint_path dir) = fs1 (checkpoint_path dir)"
    using removeConflictReport_other [of "checkpoint_path dir" "report_path dir" "re_removeReport env" fs1] r by simp
  ultimately show "LoadReplicationCheckpoint None (checkpoint_path dir) fs' =
      Inr (upgradeReplicationCheckpoint (final_checkpoint env rs applied))"
    using replication_store.load_local by metis
qed

lemma Run_success:
  assumes "Run env dir opts fs db = Some (Inr su, fs', db')" and "we_tmp (re_checkpointWrite env) \<noteq> checkpoint_path dir"
  obtains rs fs1 db1 applied where "start_run env dir opts fs db = Some (Inr rs, fs1, db1)"
    "apply_window env (rs_Window rs) (rs_Options rs) db1 = Some (Inr applied, db')"
    "LoadReplicationCheckpoint None (checkpoint_path dir) fs' =
       Inr (upgradeReplicationCheckpoint (final_checkpoint env rs applied))"
    "su = run_summary dir rs applied" "fs' (report_path dir) = None" "rs_GtidMode rs = gtid_mode opts"
proof -
  obtain rs fs1 db1 where s: "start_run env dir opts fs db = Some (Inr rs, fs1, db1)"
    using assms(1) by (auto simp: Run_def split: option.splits sum.splits)
  obtain r' where r': "apply_window env (rs_Window rs) (rs_Options rs) db1 = Some (r', db')"
    "(Inr su, fs') = (case r' of Inl err \<Rightarrow> (case run_failed env dir rs err fs1 of (e, fs2) \<Rightarrow> (Inl e, fs2))
                          | Inr applied \<Rightarrow> finish_run env dir rs applied fs1)"
    by (rule Run_database [OF s assms(1)])
  then obtain applied where a: "r' = Inr applied" "finish_run env dir rs applied fs1 = (Inr su, fs')"
    by (cases r') (auto split: prod.splits)
  have v: "valid_checkpoint (rs_Checkpoint rs)"
    by (rule start_run_parts [OF s]) (erule load_checkpoint_valid)
  have g: "rs_GtidMode rs = gtid_mode opts" by (rule start_run_parts [OF s])
  from that [OF s r'(1) [unfolded a(1)] finish_run_saved [OF a(2) assms(2) v] g] show thesis .
qed

text \<open>
  After a run that succeeds, the state directory holds the checkpoint of the summary: it
  loads, and names the position where the run ended, the policy for schema changes it ran with and
  the shape of the transactions it saw; and a conflict report of an earlier run is gone.
\<close>

theorem Run_success_checkpoint:
  assumes "Run env dir opts fs db = Some (Inr su, fs', db')" and "we_tmp (re_checkpointWrite env) \<noteq> checkpoint_path dir"
  shows "\<exists>c. LoadReplicationCheckpoint None (checkpoint_path dir) fs' = Inr c \<and>
    rc_BinlogFile c = su_EndFile su \<and> rc_BinlogPos c = su_EndPos su \<and> rc_Shape c = su_Shape su \<and>
    rc_ApplyDDL c = (if su_ApplyDDL su = '''' then ''warn'' else su_ApplyDDL su) \<and> fs' (report_path dir) = None"
proof -
  obtain rs fs1 db1 applied where "LoadReplicationCheckpoint None (checkpoint_path dir) fs' =
       Inr (upgradeReplicationCheckpoint (final_checkpoint env rs applied))"
    "su = run_summary dir rs applied" "fs' (report_path dir) = None"
    by (rule Run_success [OF assms])
  then show ?thesis
    by (simp add: upgradeReplicationCheckpoint_def run_summary_def final_checkpoint_fields Let_def)
qed



theorem Run_success_checkpoint_witness:
  "\<exists>su fs' db' c. Run example_env ''s'' run_options Map.empty ([], []) = Some (Inr su, fs', db') \<and>
     LoadReplicationCheckpoint None (checkpoint_path ''s'') fs' = Inr c \<and> rc_BinlogPos c = 400"
proof -
  obtain su fs' db' where run: "Run example_env ''s'' run_options Map.empty ([], []) = Some (Inr su, fs', db')"
    and p: "su_EndPos su = 400"
    by (rule example_first_run)
  have "we_tmp (re_checkpointWrite example_env) \<noteq> checkpoint_path ''s''"
    by (simp add: example_env_def no_faults_def checkpoint_path_def path_join_def)
  from Run_success_checkpoint [OF run this] run p show ?thesis by auto
qed

text \<open>
  Claim C34. In GTID mode the checkpoint is not the end of what was applied but the set of all
  transactions that the source had executed when the run finished: whatever part of the window was
  applied, the next run with --resume asks the source for what follows that set.
\<close>

theorem gtid_resume_follows_the_source:
  assumes "finish_run env dir rs applied fs = (Inr su, fs')" and "rs_GtidMode rs" and "valid_checkpoint (rs_Checkpoint rs)"
    and "we_tmp (re_checkpointWrite env) \<noteq> checkpoint_path dir"
    and "querySourceGTIDSet (re_gtidSet env 1) = Inr gtids" and "TrimSpace gtids \<noteq> ''''"
    and "load_checkpoint env' dir opts' fs' db = (Inr c, db')" and "op_Resume opts'" and "re_checkpointRead env' = None"
    and "resolve_window env' opts' c = Inr (opts'', w)" and "gtid_mode opts'"
  shows "aw_GTIDSet w = gtids"
proof -
  have "LoadReplicationCheckpoint None (checkpoint_path dir) fs' =
      Inr (upgradeReplicationCheckpoint (final_checkpoint env rs applied))"
    using finish_run_saved(1) [OF assms(1,4,3)] .
  then have "rc_GTIDSet c = rc_GTIDSet (final_checkpoint env rs applied)"
    using assms(7,8,9) by (auto simp: load_checkpoint_def upgradeReplicationCheckpoint_def Let_def
        split: if_splits sum.splits prod.splits option.splits)
  then have "rc_GTIDSet c = gtids" using final_checkpoint_gtid [OF assms(2,5,6)] by simp
  then show ?thesis using resolve_window_gtid [OF assms(10,8,11)] assms(6) by simp
qed

text \<open>A window up to position 900 of which only what ends at 400 was applied.\<close>

theorem gtid_resume_follows_the_source_witness:
  "\<exists>rs applied su fs' c w. aw_EndPos (rs_Window rs) = 900 \<and> ar_Pos applied = 400 \<and>
     finish_run example_env ''s'' rs applied Map.empty = (Inr su, fs') \<and>
     resolve_window example_env (run_options\<lparr>op_GTIDSet := ''u:1-3''\<rparr>) c = Inr (run_options\<lparr>op_GTIDSet := ''u:1-9''\<rparr>, w) \<and>
     aw_GTIDSet w = ''u:1-9''"
proof -
  let ?o = "run_options\<lparr>op_GTIDSet := ''u:1-3''\<rparr>"
  define rs where "rs = \<lparr>rs_Options = ?o, rs_GtidMode = True,
    rs_Preflight = \<lparr>pf_LogBinEnabled = True, pf_BinlogFormat = ''ROW'', pf_BinlogRowImage = ''FULL''\<rparr>,
    rs_Checkpoint = NewReplicationCheckpoint, rs_Window = example_position_window\<lparr>aw_EndPos := 900\<rparr>\<rparr>"
  define applied where "applied = \<lparr>ar_File = ''binlog.000001'', ar_Pos = (400 :: u32), ar_AppliedEvents = (1 :: u64), ar_Shape = emptyShape\<rparr>"
  have g: "querySourceGTIDSet (re_gtidSet example_env 1) = Inr ''u:1-9''"
    by (simp add: querySourceGTIDSet_def example_env_def toString_def TrimSpace_def is_space_def)
  obtain su fs' where f: "finish_run example_env ''s'' rs applied Map.empty = (Inr su, fs')"
    by (simp add: finish_run_def SaveReplicationCheckpoint_def WritePrivateFileAtomic_def EnsurePrivateDir_def
        removeConflictReport_def example_env_def no_faults_def checkpoint_path_def report_path_def path_join_def Let_def)
  have o: "op_Resume ?o" "gtid_mode ?o" "re_checkpointRead example_env = None"
    by (simp_all add: run_options_def example_env_def gtid_mode_def TrimSpace_def is_space_def)
  have v: "valid_checkpoint (rs_Checkpoint rs)" "rs_GtidMode rs" "TrimSpace ''u:1-9'' \<noteq> ''''"
    by (simp_all add: rs_def valid_checkpoint_def NewReplicationCheckpoint_def checkpointVersion_def is_int64_def
        TrimSpace_def is_space_def)
  have t: "we_tmp (re_checkpointWrite example_env) \<noteq> checkpoint_path ''s''"
    by (simp add: example_env_def no_faults_def checkpoint_path_def path_join_def)
  have saved: "LoadReplicationCheckpoint None (checkpoint_path ''s'') fs' =
      Inr (upgradeReplicationCheckpoint (final_checkpoint example_env rs applied))"
    using finish_run_saved(1) [OF f t v(1)] .
  obtain c where c: "load_checkpoint example_env ''s'' ?o fs' ([], []) = (Inr c, ([], []))"
    "rc_GTIDSet c = rc_GTIDSet (final_checkpoint example_env rs applied)"
    using saved o(1,3)
    by (simp add: load_checkpoint_def loadDestinationCheckpoint_def example_env_def log_destination_def log_checkpoint_def
        upgradeReplicationCheckpoint_def Let_def)
  have gc: "initial_gtid_set ?o c = ''u:1-9''"
    using c(2) final_checkpoint_gtid [OF v(2) g v(3)] o(1,2) by (simp add: initial_gtid_set_def)
  obtain w where w: "resolve_window example_env ?o c = Inr (run_options\<lparr>op_GTIDSet := ''u:1-9''\<rparr>, w)"
    using o(2) v(3) gc by (cases "initial_position ?o c") (simp add: resolve_window_def example_status Let_def)
  have "aw_GTIDSet w = ''u:1-9''"
    by (rule gtid_resume_follows_the_source [OF f v(2,1) t g v(3) c(1) o(1,3) w o(2)])
  then show ?thesis using f w by (intro exI [of _ rs] exI [of _ applied]) (auto simp: rs_def applied_def)
qed


section \<open>What a failed run leaves\<close>

lemma report_fields_of_failure:
  "cr_Version (buildConflictReport ddl policy vals now sf sp ef ep err) = checkpointVersion"
  "(cr_AppliedEndFile (buildConflictReport ddl policy vals now sf sp ef ep (EFailure f)),
    cr_AppliedEndPos (buildConflictReport ddl policy vals now sf sp ef ep (EFailure f))) =
   (if af_AppliedFile f \<noteq> '''' then af_AppliedFile f else sf, if af_AppliedPos f > 0 then af_AppliedPos f else sp)"
  "af_FailureType f \<noteq> '''' \<Longrightarrow>
   cr_FailureType (buildConflictReport ddl policy vals now sf sp ef ep (EFailure f)) = af_FailureType f"
  by (auto simp: buildConflictReport_def report_failure_def NewReplicationConflictReport_def Let_def split: option.split)

lemma run_failed_saved:
  assumes "run_failed env dir rs err fs = (e, fs')" and "re_reportWrite env = no_faults tmp"
    and "tmp \<noteq> report_path dir" and "tmp \<noteq> checkpoint_path dir"
  shows "LoadReplicationConflictReport None (report_path dir) fs' =
      Inr (buildConflictReport (op_ApplyDDL (rs_Options rs)) (op_ConflictPolicy (rs_Options rs)) (op_ConflictValues (rs_Options rs))
        (re_now env) (aw_StartFile (rs_Window rs)) (aw_StartPos (rs_Window rs)) (aw_EndFile (rs_Window rs))
        (aw_EndPos (rs_Window rs)) err)" (is "_ = Inr ?rep")
    and "fs' (checkpoint_path dir) = fs (checkpoint_path dir)"
proof -
  have v: "valid_report ?rep" "upgradeReport ?rep = ?rep"
    by (simp_all add: valid_report_def upgradeReport_def report_fields_of_failure checkpointVersion_def is_int64_def)
  have t: "we_tmp (no_faults tmp) \<noteq> report_path dir" "we_tmp (no_faults tmp) \<noteq> checkpoint_path dir"
    using assms(3,4) by (simp_all add: no_faults_def)
  obtain fs1 where s: "SaveReplicationConflictReport (no_faults tmp) (report_path dir) ?rep fs = (None, fs1)"
    by (simp add: SaveReplicationConflictReport_def WritePrivateFileAtomic_def EnsurePrivateDir_def no_faults_def Let_def)
  then have "fs' = fs1" using assms(1) by (simp add: run_failed_def assms(2) Let_def)
  then show "LoadReplicationConflictReport None (report_path dir) fs' = Inr ?rep"
    using report_store.load_saved [OF s t(1) v(1)] v(2) by simp
  show "fs' (checkpoint_path dir) = fs (checkpoint_path dir)"
    using WritePrivateFileAtomic_cases(2) [of "no_faults tmp" _ "report_path dir" _ fs None fs1 "checkpoint_path dir"] s t \<open>fs' = fs1\<close>
    by (auto simp: SaveReplicationConflictReport_def Let_def)
qed

text \<open>
  Claim C5. When the window cannot be applied, the conflict report that the run writes loads and
  names the position up to which the destination is committed, and the state file keeps the
  checkpoint of the last run that succeeded. Only when a commit failed may the destination be one
  transaction further.
\<close>

theorem conflict_report_position:
  assumes "transactional (re_dest env) view work effect dml" and "dml checkpoint_query"
    and "loadApplyBatchesFromSource (re_stream env (rs_Options rs)) (re_metadata env) (rs_Window rs) (rs_Options rs)
           = Some (Inr batches)"
    and "list_all (dml_batch dml) batches" and "list_all (\<lambda>b. ab_EndFile b \<noteq> '''' \<and> ab_EndPos b \<noteq> 0) batches"
    and "apply_window env (rs_Window rs) (rs_Options rs) db = Some (Inl err, db')"
    and "run_failed env dir rs err fs = (e, fs')" and "re_reportWrite env = no_faults tmp"
    and "tmp \<noteq> report_path dir" and "tmp \<noteq> checkpoint_path dir"
  shows "fs' (checkpoint_path dir) = fs (checkpoint_path dir) \<and>
    (\<exists>rep ds. LoadReplicationConflictReport None (report_path dir) fs' = Inr rep \<and>
       prefix ds (nonempty_batches batches) \<and>
       (cr_AppliedEndFile rep, cr_AppliedEndPos rep) = end_after (window_start (rs_Window rs)) ds \<and>
       (view db' = batches_effect effect (rs_Options rs) ds (view db) \<or>
        cr_FailureType rep = ''destination_transaction_commit'' \<and>
          (\<exists>b. prefix (ds @ [b]) (nonempty_batches batches) \<and>
               view db' = batches_effect effect (rs_Options rs) (ds @ [b]) (view db))))"
proof -
  let ?w = "rs_Window rs" and ?o = "rs_Options rs"
  obtain ds0 where "leaves effect ?o batches (window_start ?w) (view db) (result_outcome (Inl err)) (view db') ds0"
    using apply_window_leaves [OF assms(1-4,6)] by blast
  then have "leaves effect ?o batches (window_start ?w) (view db) (Inl err) (view db') ds0" by simp
  from leaves_failure [OF this] obtain f ds where f: "err = EFailure f" "prefix ds (nonempty_batches batches)"
    "(af_AppliedFile f, af_AppliedPos f) = end_after (window_start ?w) ds"
    "view db' = batches_effect effect ?o ds (view db) \<or>
     af_FailureType f = ''destination_transaction_commit'' \<and>
       (\<exists>b. prefix (ds @ [b]) (nonempty_batches batches) \<and> view db' = batches_effect effect ?o (ds @ [b]) (view db))"
    by blast
  let ?rep = "buildConflictReport (op_ApplyDDL ?o) (op_ConflictPolicy ?o) (op_ConflictValues ?o) (re_now env)
    (aw_StartFile ?w) (aw_StartPos ?w) (aw_EndFile ?w) (aw_EndPos ?w) (EFailure f)"
  note saved = run_failed_saved [OF assms(7-10)]
  have "(cr_AppliedEndFile ?rep, cr_AppliedEndPos ?rep) = end_after (window_start ?w) ds"
  proof (cases "ds = []")
    case True
    then show ?thesis using f(3) by (auto simp: report_fields_of_failure(2) window_start_def word_gt_0 simp del: prod.inject)
  next
    case False
    obtain rest where "nonempty_batches batches = ds @ rest" using f(2) by (auto simp: prefix_def)
    from end_after_valid [OF assms(5) this False, of "window_start ?w"] have "af_AppliedFile f \<noteq> ''''" "af_AppliedPos f \<noteq> 0"
      unfolding f(3) [symmetric] by simp_all
    then show ?thesis by (simp add: report_fields_of_failure(2) f(3) word_gt_0)
  qed
  moreover have "af_FailureType f = ''destination_transaction_commit'' \<Longrightarrow> cr_FailureType ?rep = ''destination_transaction_commit''"
    using report_fields_of_failure(3) [of f] by simp
  ultimately show ?thesis
    using saved f by (intro conjI exI [of _ ?rep] exI [of _ ds]) auto
qed

text \<open>A destination that does not let the checkpoint table be created.\<close>

definition denied_env :: "(statement_log \<times> statement_log) run_env" where
  "denied_env = example_env\<lparr>re_dest := log_destination\<lparr>de_ensureTable := (\<lambda>db. (Some ''denied'', db))\<rparr>\<rparr>"

definition denied_start :: runStart where
  "denied_start = \<lparr>rs_Options = run_options, rs_GtidMode = False,
    rs_Preflight = \<lparr>pf_LogBinEnabled = True, pf_BinlogFormat = ''ROW'', pf_BinlogRowImage = ''FULL''\<rparr>,
    rs_Checkpoint = NewReplicationCheckpoint, rs_Window = example_position_window\<rparr>"

theorem conflict_report_position_witness:
  "\<exists>err e fs' rep. apply_window denied_env example_position_window run_options ([], []) = Some (Inl err, ([], [])) \<and>
     run_failed denied_env ''s'' denied_start err Map.empty = (e, fs') \<and>
     LoadReplicationConflictReport None (report_path ''s'') fs' = Inr rep \<and> cr_AppliedEndPos rep \<in> {4, 400}"
proof -
  have d: "rs_Window denied_start = example_position_window" "rs_Options denied_start = run_options"
    by (simp_all add: denied_start_def)
  have t: "transactional (re_dest denied_env) fst snd log_effect (\<lambda>q. True)"
    by (auto simp: transactional_def denied_env_def log_destination_def)
  obtain b where b: "loadApplyBatchesFromSource (re_stream denied_env run_options) (re_metadata denied_env) example_position_window
      run_options = Some (Inr [b])" "ab_EndFile b = ''binlog.000001''" "ab_EndPos b = 400"
    using example_batches by (auto simp: example_position_window_def denied_env_def)
  obtain err where aw: "apply_window denied_env example_position_window run_options ([], []) = Some (Inl err, ([], []))"
    by (simp add: apply_window_def applyWindowTransactional_def denied_env_def)
  obtain e fs' where f: "run_failed denied_env ''s'' denied_start err Map.empty = (e, fs')" by force
  have w: "re_reportWrite denied_env = no_faults ''s/t2''" "''s/t2'' \<noteq> report_path ''s''" "''s/t2'' \<noteq> checkpoint_path ''s''"
    by (simp_all add: denied_env_def example_env_def report_path_def checkpoint_path_def path_join_def)
  obtain rep ds where r: "LoadReplicationConflictReport None (report_path ''s'') fs' = Inr rep"
    "prefix ds (nonempty_batches [b])" "(cr_AppliedEndFile rep, cr_AppliedEndPos rep) = end_after (window_start example_position_window) ds"
    using conflict_report_position [OF t _ b(1) [folded d] _ _ aw [folded d] f w] b(2,3)
    by (auto simp: dml_batch_def list_all_iff d)
  from r(2) have "ds = [] \<or> ds = [b]" by (auto simp: prefix_Cons split: if_splits)
  then have "cr_AppliedEndPos rep \<in> {4, 400}"
    using r(3) b(3) by (auto simp: window_start_def example_position_window_def)
  then show ?thesis using aw f r(1) by blast
qed

end
