(* ===== verification/Table_Order.thy ===== *)
theory Table_Order
  imports Go_Prelude
begin

text \<open>
  The order in which the tables of a database are created and copied, so that a table comes after
  the tables its foreign keys refer to (internal/data/copy.go, lines 490-609, repeated in
  internal/schema/copy.go, lines 527-646). The theorems show that the order is topological and
  complete when the foreign keys have no cycle, and which tables are reported when they have one.
\<close>

section \<open>The sorting loop\<close>

text \<open>A map from tables to sets of tables is a function; the tables it has no entry for are mapped to the empty set.\<close>

type_synonym dependencies = "string \<Rightarrow> string set"

definition dependents_of :: "string list \<Rightarrow> dependencies \<Rightarrow> string \<Rightarrow> string list" where
  "dependents_of tableNames deps dep = sort (filter (\<lambda>t. dep \<in> deps t) tableNames)"

text \<open>The inner loop: a table that waits for current waits no more, and is ready when that was the last one.\<close>

fun release :: "string \<Rightarrow> string list \<Rightarrow> dependencies \<Rightarrow> string list \<Rightarrow> dependencies \<times> string list" where
  "release current [] remaining ready = (remaining, ready)"
| "release current (t # ts) remaining ready =
     release current ts (remaining(t := remaining t - {current}))
       (if remaining t - {current} = {} then ready @ [t] else ready)"

lemma release_eq:
  "release current ts remaining ready =
     (\<lambda>t. if t \<in> set ts then remaining t - {current} else remaining t,
      ready @ filter (\<lambda>t. remaining t - {current} = {}) ts)"
proof (induction ts arbitrary: remaining ready)
  case (Cons t ts)
  let ?rem = "remaining(t := remaining t - {current})"
  have "(\<lambda>u. if u \<in> set ts then ?rem u - {current} else ?rem u) =
      (\<lambda>u. if u \<in> set (t # ts) then remaining u - {current} else remaining u)"
    by (rule ext) auto
  moreover have "filter (\<lambda>u. ?rem u - {current} = {}) ts = filter (\<lambda>u. remaining u - {current} = {}) ts"
    by (rule filter_cong) auto
  ultimately show ?case by (simp only: release.simps Cons.IH) simp
qed simp

lemma release_ready: "set (snd (release current ts remaining ready)) \<subseteq> set ts \<union> set ready"
  by (auto simp: release_eq)

lemma set_dependents_of: "set (dependents_of tableNames deps dep) \<subseteq> set tableNames"
  by (auto simp: dependents_of_def)

function sort_loop ::
  "string list \<Rightarrow> dependencies \<Rightarrow> string list \<Rightarrow> dependencies \<Rightarrow> string list \<Rightarrow> string list" where
  "sort_loop tableNames deps ready remaining ordered =
     (case ready of
        [] \<Rightarrow> ordered
      | current # ready \<Rightarrow>
          (if current \<in> set ordered then sort_loop tableNames deps ready remaining ordered
           else sort_loop tableNames deps
                  (sort (snd (release current (dependents_of tableNames deps current) remaining ready)))
                  (fst (release current (dependents_of tableNames deps current) remaining ready))
                  (ordered @ [current])))"
  by pat_completeness auto
termination
proof (relation "(\<lambda>(T, d, ready, r, ordered). card (set T \<union> set ready - set ordered)) <*mlex*> measure (\<lambda>(T, d, ready, r, ordered). length ready)")
  fix T deps rd remaining ordered and current :: string and ready
  assume r: "rd = current # ready"
  assume "current \<in> set ordered"
  then have "set T \<union> set rd - set ordered = set T \<union> set ready - set ordered" using r by auto
  then show "((T, deps, ready, remaining, ordered), (T, deps, rd, remaining, ordered)) \<in>
      (\<lambda>(T, d, ready, r, ordered). card (set T \<union> set ready - set ordered)) <*mlex*> measure (\<lambda>(T, d, ready, r, ordered). length ready)"
    using r by (intro mlex_leq) auto
next
  fix T deps rd remaining ordered and current :: string and ready
  assume r: "rd = current # ready" and "current \<notin> set ordered"
  let ?rel = "release current (dependents_of T deps current) remaining ready"
  have "set (snd ?rel) \<subseteq> set T \<union> set ready"
    using release_ready [of current "dependents_of T deps current" remaining ready] set_dependents_of [of T deps current] by blast
  then have "set T \<union> set (sort (snd ?rel)) - set (ordered @ [current]) \<subset> set T \<union> set rd - set ordered"
    using r \<open>current \<notin> set ordered\<close> by auto
  then have "card (set T \<union> set (sort (snd ?rel)) - set (ordered @ [current])) < card (set T \<union> set rd - set ordered)"
    by (intro psubset_card_mono) auto
  then show "((T, deps, sort (snd ?rel), fst ?rel, ordered @ [current]), (T, deps, rd, remaining, ordered)) \<in>
      (\<lambda>(T, d, ready, r, ordered). card (set T \<union> set ready - set ordered)) <*mlex*> measure (\<lambda>(T, d, ready, r, ordered). length ready)"
    by (intro mlex_less) simp
qed (auto intro: wf_mlex)

declare sort_loop.simps [simp del]

definition sortTableNamesByDependenciesDetailed :: "string list \<Rightarrow> dependencies \<Rightarrow> string list \<times> string list" where
  "sortTableNamesByDependenciesDetailed tableNames deps =
     (let ready = sort (filter (\<lambda>t. deps t = {}) tableNames);
          ordered = sort_loop tableNames deps ready deps []
      in if length ordered = length tableNames then (ordered, [])
         else let remaining = sort (filter (\<lambda>t. t \<notin> set ordered) tableNames)
              in (ordered @ remaining, remaining))"

definition sortTableNamesByDependencies :: "string list \<Rightarrow> dependencies \<Rightarrow> string list" where
  "sortTableNamesByDependencies tableNames deps = fst (sortTableNamesByDependenciesDetailed tableNames deps)"

section \<open>The invariant of the loop\<close>

text \<open>Every table of a list comes after the tables it depends on.\<close>

definition dependency_order :: "dependencies \<Rightarrow> string list \<Rightarrow> bool" where
  "dependency_order deps ts = (\<forall>xs t ys. ts = xs @ t # ys \<longrightarrow> deps t \<subseteq> set xs)"

lemma dependency_order_Nil [simp]: "dependency_order deps []"
  by (simp add: dependency_order_def)

lemma dependency_order_snoc:
  "dependency_order deps (ts @ [t]) \<longleftrightarrow> dependency_order deps ts \<and> deps t \<subseteq> set ts"
proof
  assume o: "dependency_order deps (ts @ [t])"
  then have "deps t \<subseteq> set ts" unfolding dependency_order_def by blast
  moreover have "dependency_order deps ts"
    unfolding dependency_order_def
  proof (intro allI impI)
    fix xs u ys
    assume "ts = xs @ u # ys"
    then have "ts @ [t] = xs @ u # (ys @ [t])" by simp
    then show "deps u \<subseteq> set xs" using o unfolding dependency_order_def by blast
  qed
  ultimately show "dependency_order deps ts \<and> deps t \<subseteq> set ts" by simp
next
  assume o: "dependency_order deps ts \<and> deps t \<subseteq> set ts"
  show "dependency_order deps (ts @ [t])"
    unfolding dependency_order_def
  proof (intro allI impI)
    fix xs u ys
    assume "ts @ [t] = xs @ u # ys"
    then consider "ys = []" "xs = ts" "u = t" | zs where "ys = zs @ [t]" "ts = xs @ u # zs"
      by (cases ys rule: rev_cases) auto
    then show "deps u \<subseteq> set xs"
      using o by cases (auto simp: dependency_order_def)
  qed
qed

definition sort_inv :: "string list \<Rightarrow> dependencies \<Rightarrow> string list \<Rightarrow> dependencies \<Rightarrow> string list \<Rightarrow> bool" where
  "sort_inv tableNames deps ready remaining ordered =
     (distinct ordered \<and> set ordered \<subseteq> set tableNames \<and> set ready \<subseteq> set tableNames \<and>
      dependency_order deps ordered \<and>
      (\<forall>t \<in> set tableNames. remaining t = deps t - set ordered \<and>
         (t \<notin> set ordered \<longrightarrow> (t \<in> set ready \<longleftrightarrow> remaining t = {}))))"

lemma sort_invD:
  "sort_inv tableNames deps ready remaining ordered \<Longrightarrow> t \<in> set tableNames \<Longrightarrow>
   remaining t = deps t - set ordered \<and> (t \<notin> set ordered \<longrightarrow> (t \<in> set ready \<longleftrightarrow> remaining t = {}))"
  unfolding sort_inv_def by blast

lemma sort_inv_step:
  assumes "sort_inv tableNames deps (current # ready) remaining ordered" and "current \<notin> set ordered"
    and "distinct tableNames" and "\<And>t. t \<in> set tableNames \<Longrightarrow> t \<notin> deps t"
  shows "sort_inv tableNames deps
    (sort (snd (release current (dependents_of tableNames deps current) remaining ready)))
    (fst (release current (dependents_of tableNames deps current) remaining ready)) (ordered @ [current])"
proof -
  let ?ds = "dependents_of tableNames deps current"
  have d: "set ?ds = {t \<in> set tableNames. current \<in> deps t}"
    by (auto simp: dependents_of_def)
  have c: "current \<in> set tableNames" using assms(1) by (simp add: sort_inv_def)
  moreover have "remaining current = deps current - set ordered \<and> (current \<in> set (current # ready) \<longleftrightarrow> remaining current = {})"
    using assms(1,2) c unfolding sort_inv_def by blast
  ultimately have c: "current \<in> set tableNames" "remaining current = {}" "deps current \<subseteq> set ordered"
    by auto
  have rem: "fst (release current ?ds remaining ready) t = deps t - set (ordered @ [current])" if "t \<in> set tableNames" for t
    using that assms(1) by (auto simp: release_eq d sort_inv_def)
  have ready: "t \<in> set (snd (release current ?ds remaining ready)) \<longleftrightarrow> deps t - set (ordered @ [current]) = {}"
    if "t \<in> set tableNames" "t \<notin> set (ordered @ [current])" for t
  proof -
    have "remaining t = deps t - set ordered \<and> (t \<in> set (current # ready) \<longleftrightarrow> remaining t = {})"
      using sort_invD [OF assms(1) that(1)] that(2) by (metis Un_iff set_append)
    then have "remaining t = deps t - set ordered" "t \<in> set ready \<longleftrightarrow> remaining t = {}"
      using that(2) by simp_all
    then show ?thesis using that by (auto simp: release_eq d)
  qed
  have sub: "set (snd (release current ?ds remaining ready)) \<subseteq> set tableNames"
    using assms(1) by (auto simp: release_eq d sort_inv_def)
  show ?thesis
    using assms(1,2) c rem ready sub by (auto simp: sort_inv_def dependency_order_snoc)
qed

text \<open>At the end nothing is ready: every table that is left waits for another one that is left.\<close>

lemma sort_loop_inv:
  assumes "sort_inv tableNames deps ready remaining ordered" and "distinct tableNames"
    and "\<And>t. t \<in> set tableNames \<Longrightarrow> t \<notin> deps t"
  shows "\<exists>remaining'. sort_inv tableNames deps [] remaining' (sort_loop tableNames deps ready remaining ordered)"
  using assms
proof (induction tableNames deps ready remaining ordered rule: sort_loop.induct)
  case (1 tableNames deps ready remaining ordered)
  show ?case
  proof (cases ready)
    case Nil
    then show ?thesis using "1.prems"(1) by (subst sort_loop.simps) auto
  next
    case (Cons current rest)
    show ?thesis
    proof (cases "current \<in> set ordered")
      case True
      then have "sort_inv tableNames deps rest remaining ordered"
        using "1.prems"(1) Cons True unfolding sort_inv_def by fastforce
      then show ?thesis
        using "1.IH"(1) [OF Cons True _ "1.prems"(2,3)] Cons True by (subst sort_loop.simps) simp
    next
      case False
      then have "sort_inv tableNames deps (sort (snd (release current (dependents_of tableNames deps current) remaining rest)))
          (fst (release current (dependents_of tableNames deps current) remaining rest)) (ordered @ [current])"
        using sort_inv_step "1.prems" Cons by blast
      then show ?thesis
        using "1.IH"(2) [OF Cons False _ "1.prems"(2,3)] Cons False by (subst sort_loop.simps) simp
    qed
  qed
qed


section \<open>What the order is\<close>

definition depends_on :: "string list \<Rightarrow> dependencies \<Rightarrow> (string \<times> string) set" where
  "depends_on tableNames deps = {(t, d). t \<in> set tableNames \<and> d \<in> deps t}"

lemma ordered_closed:
  assumes "dependency_order deps ts" and "(t, u) \<in> (depends_on tableNames deps)\<^sup>*" and "t \<in> set ts"
  shows "u \<in> set ts"
  using assms(2,3)
proof (induction rule: rtrancl_induct)
  case (step u v)
  then obtain xs ys where "ts = xs @ u # ys" by (meson split_list)
  with assms(1) step(2) show ?case unfolding dependency_order_def depends_on_def by fastforce
qed

lemma ordered_before:
  assumes "dependency_order deps ts" and "(t, u) \<in> (depends_on tableNames deps)\<^sup>+" and "i < length ts" and "t = ts ! i"
  shows "\<exists>j < i. u = ts ! j"
  using assms(2-)
proof (induction arbitrary: rule: trancl_induct)
  have before: "\<exists>k < j. v = ts ! k" if "j < length ts" "v \<in> deps (ts ! j)" for j v
  proof -
    have "ts = take j ts @ ts ! j # drop (Suc j) ts" using that(1) by (rule id_take_nth_drop)
    then have "deps (ts ! j) \<subseteq> set (take j ts)" using assms(1) unfolding dependency_order_def by blast
    then have "v \<in> set (take j ts)" using that(2) by blast
    then show ?thesis using that(1) by (auto simp: in_set_conv_nth)
  qed
  {
    case (base u)
    then show ?case using before [of i u] by (auto simp: depends_on_def)
  next
    case (step u v)
    then obtain j where j: "j < i" "u = ts ! j" by blast
    then obtain k where "k < j" "v = ts ! k" using before [of j v] step by (auto simp: depends_on_def)
    then show ?case using j(1) by (intro exI [of _ k]) simp
  }
qed

lemma ordered_no_cycle:
  assumes "dependency_order deps ts" and "distinct ts" and "u \<in> set ts"
  shows "(u, u) \<notin> (depends_on tableNames deps)\<^sup>+"
proof
  assume c: "(u, u) \<in> (depends_on tableNames deps)\<^sup>+"
  obtain i where i: "i < length ts" "u = ts ! i" using assms(3) by (auto simp: in_set_conv_nth)
  from ordered_before [OF assms(1) c i] obtain j where "j < i" "ts ! i = ts ! j" using i by auto
  then show False using assms(2) i(1) by (simp add: nth_eq_iff_index_eq)
qed

text \<open>A finite set in which everything has a successor contains a cycle that is reachable from each element.\<close>

lemma reach_cycle:
  assumes "finite A" and "\<And>x. x \<in> A \<Longrightarrow> \<exists>y \<in> A. (x, y) \<in> R" and "a \<in> A"
  shows "\<exists>u. (a, u) \<in> R\<^sup>* \<and> (u, u) \<in> R\<^sup>+"
proof -
  let ?S = "{u \<in> A. (a, u) \<in> R\<^sup>*}"
  let ?R = "R \<inter> ?S \<times> ?S"
  have fin: "finite ?R" using assms(1) by (intro finite_subset [of ?R "A \<times> A"]) auto
  have "\<not> acyclic ?R"
  proof
    assume "acyclic ?R"
    with fin have "wf (?R\<inverse>)" by (rule finite_acyclic_wf_converse)
    moreover have "a \<in> ?S" using assms(3) by simp
    ultimately obtain u where u: "u \<in> ?S" "\<And>y. (y, u) \<in> ?R\<inverse> \<Longrightarrow> y \<notin> ?S" by (rule wfE_min) blast
    then obtain y where y: "y \<in> A" "(u, y) \<in> R" using assms(2) by blast
    then have "y \<in> ?S" using u(1) by (auto intro: rtrancl_into_rtrancl)
    moreover have "(y, u) \<in> ?R\<inverse>" using y \<open>y \<in> ?S\<close> u(1) by blast
    ultimately show False using u(2) by blast
  qed
  then obtain u where u: "(u, u) \<in> ?R\<^sup>+" unfolding acyclic_def by blast
  then have "u \<in> ?S" by (induction rule: trancl_induct) auto
  moreover have "(u, u) \<in> R\<^sup>+" using u by (rule trancl_mono) blast
  ultimately show ?thesis by blast
qed

lemma sort_spec:
  assumes "distinct tableNames" and "\<forall>t \<in> set tableNames. deps t \<subseteq> set tableNames - {t}"
  shows "\<exists>ordered. sortTableNamesByDependenciesDetailed tableNames deps =
      (ordered @ sort (filter (\<lambda>t. t \<notin> set ordered) tableNames), sort (filter (\<lambda>t. t \<notin> set ordered) tableNames)) \<and>
    distinct ordered \<and> set ordered \<subseteq> set tableNames \<and> dependency_order deps ordered \<and>
    (\<forall>t \<in> set tableNames - set ordered. deps t - set ordered \<noteq> {})"
proof -
  let ?ready = "sort (filter (\<lambda>t. deps t = {}) tableNames)"
  have "sort_inv tableNames deps ?ready deps []" by (auto simp: sort_inv_def)
  then obtain remaining where inv: "sort_inv tableNames deps [] remaining (sort_loop tableNames deps ?ready deps [])"
    using sort_loop_inv [OF _ assms(1), of deps ?ready deps "[]"] assms(2) by blast
  let ?o = "sort_loop tableNames deps ?ready deps []"
  have o: "distinct ?o" "set ?o \<subseteq> set tableNames" "dependency_order deps ?o" using inv by (auto simp: sort_inv_def)
  have left: "\<forall>t \<in> set tableNames - set ?o. deps t - set ?o \<noteq> {}" using sort_invD [OF inv] by auto
  have "filter (\<lambda>t. t \<notin> set ?o) tableNames = []" if "length ?o = length tableNames"
  proof -
    have "card (set ?o) = card (set tableNames)" using that o(1) assms(1) by (simp add: distinct_card)
    then have "set ?o = set tableNames" using o(2) by (simp add: card_subset_eq)
    then show ?thesis by simp
  qed
  then have "sortTableNamesByDependenciesDetailed tableNames deps =
      (?o @ sort (filter (\<lambda>t. t \<notin> set ?o) tableNames), sort (filter (\<lambda>t. t \<notin> set ?o) tableNames))"
    by (auto simp: sortTableNamesByDependenciesDetailed_def Let_def)
  then show ?thesis using o left by blast
qed


lemma sort_left_over:
  assumes "distinct tableNames" and "\<forall>t \<in> set tableNames. deps t \<subseteq> set tableNames - {t}"
    and "distinct ordered" and "set ordered \<subseteq> set tableNames" and "dependency_order deps ordered"
    and "\<forall>t \<in> set tableNames - set ordered. deps t - set ordered \<noteq> {}" and "t \<in> set tableNames"
  shows "t \<notin> set ordered \<longleftrightarrow>
    (\<exists>u. (t, u) \<in> (depends_on tableNames deps)\<^sup>* \<and> (u, u) \<in> (depends_on tableNames deps)\<^sup>+)"
proof
  let ?R = "depends_on tableNames deps"
  assume t: "t \<notin> set ordered"
  have "\<exists>d \<in> set tableNames - set ordered. (u, d) \<in> ?R" if "u \<in> set tableNames - set ordered" for u
    using that assms(2,6) unfolding depends_on_def by fastforce
  then show "\<exists>u. (t, u) \<in> ?R\<^sup>* \<and> (u, u) \<in> ?R\<^sup>+"
    using reach_cycle [of "set tableNames - set ordered" ?R t] assms(7) t by blast
next
  let ?R = "depends_on tableNames deps"
  assume "\<exists>u. (t, u) \<in> ?R\<^sup>* \<and> (u, u) \<in> ?R\<^sup>+"
  then obtain u where u: "(t, u) \<in> ?R\<^sup>*" "(u, u) \<in> ?R\<^sup>+" by blast
  show "t \<notin> set ordered"
  proof
    assume "t \<in> set ordered"
    then have "u \<in> set ordered" using ordered_closed [OF assms(5) u(1)] by blast
    then show False using ordered_no_cycle [OF assms(5,3)] u(2) by blast
  qed
qed

section \<open>Tables and the foreign keys of a database\<close>

text \<open>
  The rows of KEY_COLUMN_USAGE are the pairs of a table and the table one of its foreign keys
  refers to. Both copies of the code have this text; only the text of the error differs, so it is
  a parameter.
\<close>

definition foreign_key_dependencies :: "string list \<Rightarrow> (string \<times> string) list \<Rightarrow> dependencies" where
  "foreign_key_dependencies tableNames rows t =
     set (map snd (filter (\<lambda>(tableName, referenced).
       tableName = t \<and> tableName \<noteq> referenced \<and> tableName \<in> set tableNames \<and> referenced \<in> set tableNames) rows))"

definition orderTableNamesByForeignKeys ::
  "(string \<Rightarrow> string \<Rightarrow> string) \<Rightarrow> string \<Rightarrow> (string \<times> string) query_result \<Rightarrow> string list \<Rightarrow> string + string list" where
  "orderTableNamesByForeignKeys cycleError databaseName keys tableNames =
     (if length tableNames < 2 then Inr tableNames
      else (case keys of
              QueryError e \<Rightarrow> Inl e
            | ScanError e \<Rightarrow> Inl e
            | RowsError e \<Rightarrow> Inl e
            | Rows rows \<Rightarrow>
                (case sortTableNamesByDependenciesDetailed tableNames (foreign_key_dependencies tableNames rows) of
                   (ordered, cyclic) \<Rightarrow>
                     (if cyclic \<noteq> [] then Inl (cycleError databaseName (Join cyclic '', '')) else Inr ordered))))"

definition copyCycleError :: "string \<Rightarrow> string \<Rightarrow> string" where
  "copyCycleError databaseName cyclic =
     ''incompatible_for_v1_foreign_key_cycle: '' @ databaseName @ '' contains cyclic foreign keys across tables '' @ cyclic
     @ ''; baseline copy requires a manual post-step or temporarily relaxed FK enforcement''"

lemma foreign_key_dependencies_within:
  "\<forall>t \<in> set tableNames. foreign_key_dependencies tableNames rows t \<subseteq> set tableNames - {t}"
  by (auto simp: foreign_key_dependencies_def)

text \<open>The foreign keys between different tables of the list.\<close>

definition foreign_keys :: "string list \<Rightarrow> (string \<times> string) list \<Rightarrow> (string \<times> string) set" where
  "foreign_keys tableNames rows =
     {(t, d). (t, d) \<in> set rows \<and> t \<noteq> d \<and> t \<in> set tableNames \<and> d \<in> set tableNames}"

lemma depends_on_foreign_keys:
  "depends_on tableNames (foreign_key_dependencies tableNames rows) = foreign_keys tableNames rows"
  by (force simp: depends_on_def foreign_key_dependencies_def foreign_keys_def)

lemma foreign_keys_domain: "(u, v) \<in> (foreign_keys tableNames rows)\<^sup>+ \<Longrightarrow> u \<in> set tableNames"
  by (induction rule: trancl_induct) (auto simp: foreign_keys_def)

lemma sort_eq_Nil: "sort (xs :: string list) = [] \<longleftrightarrow> xs = []"
  by (metis set_empty set_sort)

lemma foreign_keys_small:
  assumes "length tableNames < 2"
  shows "foreign_keys tableNames rows = {}"
proof -
  have "t = d" if "t \<in> set tableNames" "d \<in> set tableNames" for t d
    using assms that by (cases tableNames; cases "tl tableNames") auto
  then show ?thesis by (auto simp: foreign_keys_def)
qed

text \<open>The tables from which a cycle is reached along foreign keys.\<close>

definition reaches_cycle :: "(string \<times> string) set \<Rightarrow> string \<Rightarrow> bool" where
  "reaches_cycle fk t = (\<exists>u. (t, u) \<in> fk\<^sup>* \<and> (u, u) \<in> fk\<^sup>+)"

lemma reaches_cycle_domain: "reaches_cycle (foreign_keys tableNames rows) t \<Longrightarrow> t \<in> set tableNames"
  unfolding reaches_cycle_def by (metis foreign_keys_domain rtranclD)

lemma acyclic_reaches: "acyclic fk \<longleftrightarrow> (\<forall>t. \<not> reaches_cycle fk t)"
  unfolding acyclic_def reaches_cycle_def by blast

lemma orderTableNames_result:
  assumes "distinct tableNames"
  obtains ordered where "distinct ordered" "set ordered = {t \<in> set tableNames. \<not> reaches_cycle (foreign_keys tableNames rows) t}"
    "\<And>t d. t \<in> set ordered \<Longrightarrow> (t, d) \<in> foreign_keys tableNames rows \<Longrightarrow> \<exists>xs ys. ordered = xs @ t # ys \<and> d \<in> set xs"
    "orderTableNamesByForeignKeys cycleError db (Rows rows) tableNames =
      (if acyclic (foreign_keys tableNames rows) then Inr ordered
       else Inl (cycleError db (Join (sort (filter (reaches_cycle (foreign_keys tableNames rows)) tableNames)) '', '')))"
proof (cases "length tableNames < 2")
  case True
  then have "foreign_keys tableNames rows = {}" by (rule foreign_keys_small)
  then show thesis
    using that [of tableNames] True assms by (simp add: orderTableNamesByForeignKeys_def reaches_cycle_def acyclic_def)
next
  case False
  let ?deps = "foreign_key_dependencies tableNames rows" and ?fk = "foreign_keys tableNames rows"
  obtain ordered where o: "sortTableNamesByDependenciesDetailed tableNames ?deps =
      (ordered @ sort (filter (\<lambda>t. t \<notin> set ordered) tableNames), sort (filter (\<lambda>t. t \<notin> set ordered) tableNames))"
    and s: "distinct ordered" "set ordered \<subseteq> set tableNames" "dependency_order ?deps ordered"
      "\<forall>t \<in> set tableNames - set ordered. ?deps t - set ordered \<noteq> {}"
    using sort_spec [OF assms foreign_key_dependencies_within, of rows] by blast
  have left: "t \<notin> set ordered \<longleftrightarrow> reaches_cycle ?fk t" if "t \<in> set tableNames" for t
    using sort_left_over [OF assms foreign_key_dependencies_within s that, unfolded depends_on_foreign_keys]
    by (simp add: reaches_cycle_def)
  then have rest: "filter (\<lambda>t. t \<notin> set ordered) tableNames = filter (reaches_cycle ?fk) tableNames"
    by (intro filter_cong) auto
  have "filter (reaches_cycle ?fk) tableNames = [] \<longleftrightarrow> acyclic ?fk"
    using reaches_cycle_domain [of tableNames rows] by (auto simp: filter_empty_conv acyclic_reaches)
  then have r: "orderTableNamesByForeignKeys cycleError db (Rows rows) tableNames =
      (if acyclic ?fk then Inr ordered
       else Inl (cycleError db (Join (sort (filter (reaches_cycle ?fk) tableNames)) '', '')))"
    using False by (simp add: orderTableNamesByForeignKeys_def o rest sort_eq_Nil)
  have before: "\<exists>xs ys. ordered = xs @ t # ys \<and> d \<in> set xs" if "t \<in> set ordered" "(t, d) \<in> ?fk" for t d
  proof -
    note t = that(1)
    have "d \<in> ?deps t" using that(2) depends_on_foreign_keys [of tableNames rows] by (auto simp: depends_on_def)
    moreover obtain xs ys where "ordered = xs @ t # ys" using split_list [OF t] by blast
    ultimately show ?thesis using s(3) unfolding dependency_order_def by blast
  qed
  have "set ordered = {t \<in> set tableNames. \<not> reaches_cycle ?fk t}" using left s(2) by auto
  from that [OF s(1) this before r] show thesis by blast
qed

section \<open>Properties\<close>

text \<open>
  Without a cycle among its foreign keys, every table of the database is in the order
  exactly once and after the tables it refers to; with a cycle the copy is refused. A foreign key
  of a table to itself is no cycle.
\<close>

theorem orderTableNames_topological:
  assumes "distinct tableNames"
  shows "if acyclic (foreign_keys tableNames rows)
    then \<exists>ordered. orderTableNamesByForeignKeys cycleError db (Rows rows) tableNames = Inr ordered \<and>
      distinct ordered \<and> set ordered = set tableNames \<and>
      (\<forall>(t, d) \<in> foreign_keys tableNames rows. \<exists>xs ys. ordered = xs @ t # ys \<and> d \<in> set xs)
    else \<exists>e. orderTableNamesByForeignKeys cycleError db (Rows rows) tableNames = Inl e"
proof -
  let ?fk = "foreign_keys tableNames rows"
  obtain ordered where o: "distinct ordered" "set ordered = {t \<in> set tableNames. \<not> reaches_cycle ?fk t}"
    "\<And>t d. t \<in> set ordered \<Longrightarrow> (t, d) \<in> ?fk \<Longrightarrow> \<exists>xs ys. ordered = xs @ t # ys \<and> d \<in> set xs"
    and r: "orderTableNamesByForeignKeys cycleError db (Rows rows) tableNames =
      (if acyclic ?fk then Inr ordered
       else Inl (cycleError db (Join (sort (filter (reaches_cycle ?fk) tableNames)) '', '')))"
    by (rule orderTableNames_result [OF assms, of rows cycleError db]) blast
  show ?thesis
  proof (cases "acyclic ?fk")
    case True
    then have all: "set ordered = set tableNames" using o(2) by (auto simp: acyclic_reaches)
    then have "\<forall>(t, d) \<in> ?fk. \<exists>xs ys. ordered = xs @ t # ys \<and> d \<in> set xs"
      using o(3) by (auto simp: foreign_keys_def)
    then show ?thesis using True r o(1) all by auto
  qed (simp add: r)
qed

text \<open>A table that refers to two others, one of which refers to the other and to itself.\<close>

definition example_keys :: "(string \<times> string) list" where
  "example_keys = [(''a'', ''c''), (''a'', ''b''), (''c'', ''c''), (''b'', ''c'')]"

lemma example_keys_acyclic: "acyclic (foreign_keys [''a'', ''b'', ''c''] example_keys)"
proof -
  have "foreign_keys [''a'', ''b'', ''c''] example_keys \<subseteq> measure (\<lambda>t. if t = ''a'' then 0 else if t = ''b'' then 1 else (2 :: nat))"
    by (auto simp: foreign_keys_def example_keys_def)
  moreover have "acyclic (measure (\<lambda>t. if t = ''a'' then 0 else if t = ''b'' then 1 else (2 :: nat)))"
    by (simp add: wf_acyclic)
  ultimately show ?thesis using acyclic_subset by blast
qed

theorem orderTableNames_topological_witness:
  "\<exists>ordered. orderTableNamesByForeignKeys copyCycleError ''app'' (Rows example_keys) [''a'', ''b'', ''c''] = Inr ordered \<and>
     (\<exists>xs ys. ordered = xs @ ''a'' # ys \<and> ''b'' \<in> set xs)"
proof -
  have d: "distinct [''a'', ''b'', ''c'']" by simp
  have k: "(''a'', ''b'') \<in> foreign_keys [''a'', ''b'', ''c''] example_keys" by (simp add: foreign_keys_def example_keys_def)
  have use: "\<exists>ordered. r = Inr ordered \<and> (\<exists>xs ys. ordered = xs @ a # ys \<and> b \<in> set xs)"
    if "if acyclic fk then \<exists>ordered. r = Inr ordered \<and> distinct ordered \<and> set ordered = T \<and>
        (\<forall>(t, d) \<in> fk. \<exists>xs ys. ordered = xs @ t # ys \<and> d \<in> set xs) else \<exists>e. r = Inl e" "acyclic fk" "(a, b) \<in> fk"
    for r :: "string + string list" and fk T a b
    using that by auto
  show ?thesis by (rule use [OF orderTableNames_topological [OF d] example_keys_acyclic k])
qed

text \<open>
  The tables that the error names as having cyclic foreign keys are, in alphabetical
  order, all tables from which a cycle is reached: not only those on a cycle, but every table that
  refers to one of them, directly or through others.
\<close>

theorem cycle_error_names:
  assumes "distinct tableNames" and "\<not> acyclic (foreign_keys tableNames rows)"
  shows "\<exists>named. orderTableNamesByForeignKeys copyCycleError db (Rows rows) tableNames = Inl (copyCycleError db (Join named '', '')) \<and>
    sorted named \<and> distinct named \<and> set named = {t. reaches_cycle (foreign_keys tableNames rows) t}"
proof -
  let ?fk = "foreign_keys tableNames rows"
  let ?named = "sort (filter (reaches_cycle ?fk) tableNames)"
  have "orderTableNamesByForeignKeys copyCycleError db (Rows rows) tableNames = Inl (copyCycleError db (Join ?named '', ''))"
    by (rule orderTableNames_result [OF assms(1), of rows copyCycleError db]) (use assms(2) in simp)
  then show ?thesis
    using assms(1) reaches_cycle_domain [of tableNames rows] by (intro exI [of _ ?named]) auto
qed

theorem cycle_error_names_witness:
  "\<exists>named. orderTableNamesByForeignKeys copyCycleError ''app'' (Rows [(''a'', ''b''), (''b'', ''a''), (''c'', ''a'')]) [''a'', ''b'', ''c''] =
     Inl (copyCycleError ''app'' (Join named '', '')) \<and> ''c'' \<in> set named"
proof -
  let ?fk = "foreign_keys [''a'', ''b'', ''c''] [(''a'', ''b''), (''b'', ''a''), (''c'', ''a'')]"
  have e: "(''a'', ''b'') \<in> ?fk" "(''b'', ''a'') \<in> ?fk" "(''c'', ''a'') \<in> ?fk" by (simp_all add: foreign_keys_def)
  then have "(''a'', ''a'') \<in> ?fk\<^sup>+" by (meson trancl.simps)
  then have "\<not> acyclic ?fk" "reaches_cycle ?fk ''c''"
    using e(3) by (auto simp: acyclic_def reaches_cycle_def)
  with cycle_error_names [of "[''a'', ''b'', ''c'']" "[(''a'', ''b''), (''b'', ''a''), (''c'', ''a'')]" "''app''"]
  show ?thesis by auto
qed

end
