(* ===== verification/Checkpoint_Cursor.thy ===== *)
theory Checkpoint_Cursor
  imports State_Types Apply_Failure
begin

text \<open>
  Typed cursor values of the data checkpoint (internal/state/checkpoint_cursor.go): how the key of
  the last copied row is written as text and read back when a copy is resumed. Base64, decimal
  numbers and booleans are the ones of Go's standard library; the texts of floating point numbers
  and times are parameters. There are eight types on disk but more dynamic types in memory: the
  integers of all widths are read back as int64 and uint64, float32 as float64, a time in UTC. The
  theorem is the round trip of whole cursors up to this widening.
\<close>

section \<open>Base64\<close>

definition b64_char :: "nat \<Rightarrow> char" where
  "b64_char n = char_of (if n < 26 then 65 + n else if n < 52 then 71 + n else if n < 62 then n - 4 else if n = 62 then 43 else 47)"

definition b64_val :: "char \<Rightarrow> nat option" where
  "b64_val c =
     (let n = (of_char c :: nat)
      in if 65 \<le> n \<and> n \<le> 90 then Some (n - 65) else if 97 \<le> n \<and> n \<le> 122 then Some (n - 71)
         else if 48 \<le> n \<and> n \<le> 57 then Some (n + 4) else if n = 43 then Some 62 else if n = 47 then Some 63 else None)"

definition pad_char :: char where
  "pad_char = CHR ''=''"

fun b64_encode :: "nat list \<Rightarrow> string" where
  "b64_encode [] = []"
| "b64_encode [a] = [b64_char (a div 4), b64_char (a mod 4 * 16), pad_char, pad_char]"
| "b64_encode [a, b] = [b64_char (a div 4), b64_char (a mod 4 * 16 + b div 16), b64_char (b mod 16 * 4), pad_char]"
| "b64_encode (a # b # c # bs) =
     [b64_char (a div 4), b64_char (a mod 4 * 16 + b div 16), b64_char (b mod 16 * 4 + c div 64), b64_char (c mod 64)]
     @ b64_encode bs"

text \<open>The bits left over before the padding are not checked, as in StdEncoding without Strict.\<close>

fun b64_decode :: "string \<Rightarrow> nat list option" where
  "b64_decode [] = Some []"
| "b64_decode (p # q # r # s # cs) =
     (case (b64_val p, b64_val q) of
        (Some vp, Some vq) \<Rightarrow>
          (if r = pad_char then (if s = pad_char \<and> cs = [] then Some [(vp * 4 + vq div 16) mod 256] else None)
           else (case b64_val r of
                   None \<Rightarrow> None
                 | Some vr \<Rightarrow>
                     (if s = pad_char then
                        (if cs = [] then Some [(vp * 4 + vq div 16) mod 256, (vq mod 16 * 16 + vr div 4) mod 256] else None)
                      else (case b64_val s of
                              None \<Rightarrow> None
                            | Some vs \<Rightarrow>
                                map_option (\<lambda>bs. [(vp * 4 + vq div 16) mod 256, (vq mod 16 * 16 + vr div 4) mod 256,
                                                  (vr mod 4 * 64 + vs) mod 256] @ bs) (b64_decode cs)))))
      | _ \<Rightarrow> None)"
| "b64_decode _ = None"

definition EncodeToString :: "string \<Rightarrow> string" where
  "EncodeToString s = b64_encode (map of_char s)"

definition DecodeString :: "string \<Rightarrow> string option" where
  "DecodeString s = map_option (map char_of) (b64_decode (filter (\<lambda>c. c \<noteq> CHR 0x0A \<and> c \<noteq> CHR 0x0D) s))"

lemma b64_val_char [simp]: "n < 64 \<Longrightarrow> b64_val (b64_char n) = Some n"
  by (auto simp: b64_val_def b64_char_def of_char_of Let_def)

lemma b64_char_not_pad [simp]: "n < 64 \<Longrightarrow> b64_char n \<noteq> pad_char"
proof
  assume "n < 64" and e: "b64_char n = pad_char"
  then have "b64_val pad_char = Some n" by (metis b64_val_char)
  then show False by (simp add: b64_val_def pad_char_def)
qed

lemma b64_char_no_newline: "n < 64 \<Longrightarrow> b64_char n \<noteq> CHR 0x0A \<and> b64_char n \<noteq> CHR 0x0D"
proof -
  assume "n < 64"
  then have v: "b64_val (b64_char n) = Some n" by simp
  have "b64_val CHR 0x0A = None" "b64_val CHR 0x0D = None" by (simp_all add: b64_val_def)
  with v show ?thesis by auto
qed

lemma join_div: "(y :: nat) < k \<Longrightarrow> (x * k + y) div k = x"
  by (cases "k = 0") (simp_all add: div_add1_eq)

lemma join_mod: "(y :: nat) < k \<Longrightarrow> (x * k + y) mod k = y"
  by (metis add.commute mod_less mod_mult_self1)

lemma quarter: "(a :: nat) < 256 \<Longrightarrow> a div 4 < 64" "(a :: nat) < 256 \<Longrightarrow> a div 16 < 16" "(a :: nat) < 256 \<Longrightarrow> a div 64 < 4"
  by simp_all

lemma sextets:
  "(y :: nat) < 16 \<Longrightarrow> a mod 4 * 16 + y < 64" "(z :: nat) < 4 \<Longrightarrow> b mod 16 * 4 + z < 64"
proof -
  have "a mod 4 < 4" "b mod 16 < 16" by simp_all
  then show "y < 16 \<Longrightarrow> a mod 4 * 16 + y < 64" "z < 4 \<Longrightarrow> b mod 16 * 4 + z < 64" by linarith+
qed

lemma b64_decode_encode:
  "\<forall>n \<in> set bs. n < 256 \<Longrightarrow> b64_decode (b64_encode bs) = Some bs"
proof (induction bs rule: b64_encode.induct)
  case (2 a)
  then have "a < 256" by simp
  then show ?case
    using quarter(1) [of a] sextets(1) [of 0 a] join_div [of 0 16 "a mod 4"] by simp
next
  case (3 a b)
  then have "a < 256" "b < 256" by simp_all
  then show ?case
    using quarter [of a] quarter [of b] sextets(1) [of "b div 16" a] sextets(2) [of 0 b]
      join_div [of "b div 16" 16 "a mod 4"] join_mod [of "b div 16" 16 "a mod 4"]
    by simp
next
  case (4 a b c bs)
  then have "a < 256" "b < 256" "c < 256" by simp_all
  then show ?case
    using 4 quarter [of a] quarter [of b] quarter [of c]
      sextets(1) [of "b div 16" a] sextets(2) [of "c div 64" b]
      join_div [of "b div 16" 16 "a mod 4"] join_mod [of "b div 16" 16 "a mod 4"]
      join_div [of "c div 64" 4 "b mod 16"] join_mod [of "c div 64" 4 "b mod 16"]
    by simp
qed simp

lemma b64_encode_no_newline:
  "\<forall>n \<in> set bs. n < 256 \<Longrightarrow> filter (\<lambda>c. c \<noteq> CHR 0x0A \<and> c \<noteq> CHR 0x0D) (b64_encode bs) = b64_encode bs"
proof (induction bs rule: b64_encode.induct)
  case (2 a)
  then show ?case
    using quarter(1) [of a] sextets(1) [of 0 a] by (simp add: b64_char_no_newline pad_char_def)
next
  case (3 a b)
  then show ?case
    using quarter [of a] quarter [of b] sextets(1) [of "b div 16" a] sextets(2) [of 0 b]
    by (simp add: b64_char_no_newline pad_char_def)
next
  case (4 a b c bs)
  then show ?case
    using quarter [of a] quarter [of b] quarter [of c] sextets(1) [of "b div 16" a] sextets(2) [of "c div 64" b]
    by (simp add: b64_char_no_newline)
qed simp

lemma DecodeString_EncodeToString [simp]: "DecodeString (EncodeToString s) = Some s"
proof -
  have "\<forall>n \<in> set (map of_char s). (n :: nat) < 256" by (auto simp: nat_of_char_less_256)
  then show ?thesis
    by (simp add: DecodeString_def EncodeToString_def b64_encode_no_newline b64_decode_encode comp_def)
qed


section \<open>Numbers and booleans of strconv\<close>

text \<open>strconv.ParseInt(s, 10, 64): an optional sign and a magnitude that fits.\<close>

definition ParseInt64 :: "string \<Rightarrow> int option" where
  "ParseInt64 s =
     (let neg = HasPrefix s ''-'';
          digits = (if neg \<or> HasPrefix s ''+'' then tl s else s)
      in case ParseUint digits 64 of
           None \<Rightarrow> None
         | Some n \<Rightarrow>
             (if neg then (if n \<le> 2 ^ 63 then Some (- int n) else None)
              else (if n < 2 ^ 63 then Some (int n) else None)))"

definition ParseBool :: "string \<Rightarrow> bool option" where
  "ParseBool s =
     (if s \<in> {''1'', ''t'', ''T'', ''TRUE'', ''true'', ''True''} then Some True
      else if s \<in> {''0'', ''f'', ''F'', ''FALSE'', ''false'', ''False''} then Some False
      else None)"

definition FormatBool :: "bool \<Rightarrow> string" where
  "FormatBool b = (if b then ''true'' else ''false'')"

lemma ParseBool_FormatBool [simp]: "ParseBool (FormatBool b) = Some b"
  by (simp add: ParseBool_def FormatBool_def)

lemma digit_no_sign: "list_all is_digit s \<Longrightarrow> \<not> HasPrefix s ''-'' \<and> \<not> HasPrefix s ''+''"
  by (cases s) (auto simp: is_digit_def)

lemma ParseInt64_show_int:
  assumes "- (2 ^ 63) \<le> i" and "i < 2 ^ 63"
  shows "ParseInt64 (show_int i) = Some i"
proof (cases "i < 0")
  case True
  then have "nat (- i) \<le> nat (2 ^ 63)" using assms by (intro nat_mono) linarith
  then have "nat (- i) \<le> 2 ^ 63" by (simp add: nat_power_eq)
  moreover from this have "nat (- i) < 2 ^ 64" by simp
  ultimately show ?thesis
    using True by (simp add: ParseInt64_def show_int_def ParseUint_show_nat)
next
  case False
  then have "nat i < nat (2 ^ 63)" using assms by (intro iffD2 [OF nat_mono_iff]) simp_all
  then have "nat i < 2 ^ 63" by (simp add: nat_power_eq)
  moreover from this have "nat i < 2 ^ 64" by simp
  ultimately show ?thesis
    using False digit_no_sign [OF show_nat_digits [of "nat i"]]
    by (simp add: ParseInt64_def show_int_def ParseUint_show_nat)
qed

section \<open>Encoding and decoding one value\<close>

text \<open>
  The texts of times (RFC 3339 with nanoseconds, in UTC) and of floating point numbers: a value is
  named by the text that the rest of the program prints for it, the codec says how the checkpoint
  writes and reads it. The numbers of the type float32 have a format of their own, the shortest text that tells
  them apart from other numbers of that type; it is read as a float64.
\<close>

record text_codec =
  formatTime :: "string \<Rightarrow> string"
  parseTime :: "string \<Rightarrow> string option"
  formatFloat :: "string \<Rightarrow> string"
  formatFloat32 :: "string \<Rightarrow> string"
  parseFloat :: "string \<Rightarrow> string option"

text \<open>The errors, without the text of the error of strconv, time or base64 that they wrap.\<close>

datatype cursor_error = BadKeyText string | UnsupportedKeyType string | UnsupportedValueType

definition encodeCheckpointKeyValue :: "text_codec \<Rightarrow> goval \<Rightarrow> cursor_error + CheckpointKeyValue" where
  "encodeCheckpointKeyValue codec v =
     (case v of
        VNil \<Rightarrow> Inr \<lparr>kv_Type = ''null'', kv_Value = ''''\<rparr>
      | VBytes s \<Rightarrow> Inr \<lparr>kv_Type = ''bytes'', kv_Value = EncodeToString s\<rparr>
      | VTime t \<Rightarrow> Inr \<lparr>kv_Type = ''time'', kv_Value = formatTime codec t\<rparr>
      | VBool b \<Rightarrow> Inr \<lparr>kv_Type = ''bool'', kv_Value = FormatBool b\<rparr>
      | VInt i \<Rightarrow> Inr \<lparr>kv_Type = ''int64'', kv_Value = show_int i\<rparr>
      | VUint n \<Rightarrow> Inr \<lparr>kv_Type = ''uint64'', kv_Value = show_nat n\<rparr>
      | VFloat t \<Rightarrow> Inr \<lparr>kv_Type = ''float64'', kv_Value = formatFloat codec t\<rparr>
      | VIntN w i \<Rightarrow> Inr \<lparr>kv_Type = ''int64'', kv_Value = show_int i\<rparr>
      | VUintN w n \<Rightarrow> Inr \<lparr>kv_Type = ''uint64'', kv_Value = show_nat n\<rparr>
      | VFloat32 t \<Rightarrow> Inr \<lparr>kv_Type = ''float64'', kv_Value = formatFloat32 codec t\<rparr>
      | VString s \<Rightarrow> Inr \<lparr>kv_Type = ''string'', kv_Value = s\<rparr>
      | VOther _ \<Rightarrow> Inl UnsupportedValueType)"

definition parsed :: "string \<Rightarrow> ('a \<Rightarrow> goval) \<Rightarrow> 'a option \<Rightarrow> cursor_error + goval" where
  "parsed kind mk r = (case r of None \<Rightarrow> Inl (BadKeyText kind) | Some x \<Rightarrow> Inr (mk x))"

definition decodeCheckpointKeyValue :: "text_codec \<Rightarrow> CheckpointKeyValue \<Rightarrow> cursor_error + goval" where
  "decodeCheckpointKeyValue codec kv =
     (let type = kv_Type kv; text = kv_Value kv
      in if type = ''null'' then Inr VNil
         else if type = ''bytes'' then parsed type VBytes (DecodeString text)
         else if type = ''time'' then parsed type VTime (parseTime codec text)
         else if type = ''bool'' then parsed type VBool (ParseBool text)
         else if type = ''int64'' then parsed type VInt (ParseInt64 text)
         else if type = ''uint64'' then parsed type VUint (ParseUint text 64)
         else if type = ''float64'' then parsed type VFloat (parseFloat codec text)
         else if type = ''string'' then Inr (VString text)
         else Inl (UnsupportedKeyType type))"

section \<open>Whole cursors\<close>

text \<open>A nil result of CursorValues is the empty list: the callers only look at its length.\<close>

definition CursorValues :: "text_codec \<Rightarrow> TableCheckpoint \<Rightarrow> cursor_error + goval list" where
  "CursorValues codec t =
     (if tc_LastKeyTyped t \<noteq> [] then map_result (decodeCheckpointKeyValue codec) (tc_LastKeyTyped t)
      else if tc_LastKey t = [] then Inr []
      else Inr (map VString (tc_LastKey t)))"

definition SetCursorValues :: "text_codec \<Rightarrow> TableCheckpoint \<Rightarrow> goval list \<Rightarrow> cursor_error option \<times> TableCheckpoint" where
  "SetCursorValues codec t vs =
     (if vs = [] then (None, t\<lparr>tc_LastKey := [], tc_LastKeyTyped := []\<rparr>)
      else (case map_result (encodeCheckpointKeyValue codec) vs of
              Inl e \<Rightarrow> (Some e, t)
            | Inr out \<Rightarrow> (None, t\<lparr>tc_LastKey := [], tc_LastKeyTyped := out\<rparr>)))"

text \<open>
  The values that come back as they were: integers of 64 bits of these types and texts that
  the codec reads back. The values of the narrower types and of float32 are none of them.
\<close>

definition key_value_ok :: "text_codec \<Rightarrow> goval \<Rightarrow> bool" where
  "key_value_ok codec v =
     (case v of
        VInt i \<Rightarrow> - (2 ^ 63) \<le> i \<and> i < 2 ^ 63
      | VUint n \<Rightarrow> n < 2 ^ 64
      | VTime t \<Rightarrow> parseTime codec (formatTime codec t) = Some t
      | VFloat t \<Rightarrow> parseFloat codec (formatFloat codec t) = Some t
      | VIntN _ _ \<Rightarrow> False
      | VUintN _ _ \<Rightarrow> False
      | VFloat32 _ \<Rightarrow> False
      | VOther _ \<Rightarrow> False
      | _ \<Rightarrow> True)"

text \<open>The values that can be written and read at all: integers that fit their type, texts that parse.\<close>

fun width_bits :: "go_width \<Rightarrow> nat" where
  "width_bits WNative = 64"
| "width_bits W8 = 8"
| "width_bits W16 = 16"
| "width_bits W32 = 32"

definition key_value_stored :: "text_codec \<Rightarrow> goval \<Rightarrow> bool" where
  "key_value_stored codec v =
     (case v of
        VInt i \<Rightarrow> - (2 ^ 63) \<le> i \<and> i < 2 ^ 63
      | VUint n \<Rightarrow> n < 2 ^ 64
      | VIntN w i \<Rightarrow> - (2 ^ (width_bits w - 1)) \<le> i \<and> i < 2 ^ (width_bits w - 1)
      | VUintN w n \<Rightarrow> n < 2 ^ width_bits w
      | VTime t \<Rightarrow> parseTime codec (formatTime codec t) \<noteq> None
      | VFloat t \<Rightarrow> parseFloat codec (formatFloat codec t) \<noteq> None
      | VFloat32 t \<Rightarrow> parseFloat codec (formatFloat32 codec t) \<noteq> None
      | VOther _ \<Rightarrow> False
      | _ \<Rightarrow> True)"

text \<open>
  What a value is after it was written and read: an integer is the same number, of the type int64 or
  uint64; a float32 is the float64 of its shortest text, which need not be the same number; a time
  is read from its text in UTC.
\<close>

fun widened :: "text_codec \<Rightarrow> goval \<Rightarrow> goval" where
  "widened codec (VIntN w i) = VInt i"
| "widened codec (VUintN w n) = VUint n"
| "widened codec (VFloat32 t) = VFloat (the (parseFloat codec (formatFloat32 codec t)))"
| "widened codec (VFloat t) = VFloat (the (parseFloat codec (formatFloat codec t)))"
| "widened codec (VTime t) = VTime (the (parseTime codec (formatTime codec t)))"
| "widened codec v = v"

lemma key_value_ok_stored:
  "key_value_ok codec v \<Longrightarrow> key_value_stored codec v \<and> widened codec v = v"
  by (cases v) (simp_all add: key_value_ok_def key_value_stored_def)

lemma signed_width: "- (2 ^ (width_bits w - 1)) \<le> i \<and> i < 2 ^ (width_bits w - 1) \<Longrightarrow> - (2 ^ 63) \<le> i \<and> i < (2 ^ 63 :: int)"
  by (cases w) simp_all

lemma unsigned_width: "n < 2 ^ width_bits w \<Longrightarrow> n < (2 ^ 64 :: nat)"
  by (cases w) simp_all

lemma decode_encode_widened:
  assumes "key_value_stored codec v"
  shows "bind_result (encodeCheckpointKeyValue codec v) (decodeCheckpointKeyValue codec) = Inr (widened codec v)"
proof (cases v)
  case (VIntN w i)
  then show ?thesis using assms signed_width [of w i]
    by (simp add: key_value_stored_def encodeCheckpointKeyValue_def decodeCheckpointKeyValue_def parsed_def ParseInt64_show_int)
next
  case (VUintN w n)
  then show ?thesis using assms unsigned_width [of n w]
    by (simp add: key_value_stored_def encodeCheckpointKeyValue_def decodeCheckpointKeyValue_def parsed_def ParseUint_show_nat)
qed (use assms in \<open>auto simp: key_value_stored_def encodeCheckpointKeyValue_def decodeCheckpointKeyValue_def
      parsed_def ParseInt64_show_int ParseUint_show_nat\<close>)

lemma decode_encode_all_widened:
  "list_all (key_value_stored codec) vs \<Longrightarrow>
   bind_result (map_result (encodeCheckpointKeyValue codec) vs) (map_result (decodeCheckpointKeyValue codec)) =
     Inr (map (widened codec) vs)"
proof (induction vs)
  case (Cons v vs)
  then obtain kv where kv: "encodeCheckpointKeyValue codec v = Inr kv" "decodeCheckpointKeyValue codec kv = Inr (widened codec v)"
    using decode_encode_widened [of codec v] by (auto simp: bind_result_Inr)
  from Cons obtain kvs where "map_result (encodeCheckpointKeyValue codec) vs = Inr kvs"
    "map_result (decodeCheckpointKeyValue codec) kvs = Inr (map (widened codec) vs)"
    by (auto simp: bind_result_Inr)
  with kv show ?case by simp
qed simp

lemma all_ok_widened:
  "list_all (key_value_ok codec) vs \<Longrightarrow> list_all (key_value_stored codec) vs \<and> map (widened codec) vs = vs"
  by (induction vs) (simp_all add: key_value_ok_stored)

lemma decode_encode_key_values:
  "list_all (key_value_ok codec) vs \<Longrightarrow>
   bind_result (map_result (encodeCheckpointKeyValue codec) vs) (map_result (decodeCheckpointKeyValue codec)) = Inr vs"
  using decode_encode_all_widened [of codec vs] all_ok_widened [of codec vs] by simp

text \<open>
  Claim C28. The cursor of a table checkpoint survives being written as text up to widening: after
  SetCursorValues with values of any supported types, CursorValues returns them in their order, the
  integers of all widths as the same numbers of the type int64 or uint64, a float32 as
  the float64 that its shortest text denotes, a time as its text in UTC, everything else unchanged.
  Values that have these types already and whose texts are read back come back as they were. This
  holds whatever cursor the checkpoint had before; the rest of the checkpoint is unchanged, and the
  legacy string cursor is cleared.
\<close>

theorem cursor_round_trip:
  assumes "list_all (key_value_stored codec) vs"
  shows "\<exists>t'. SetCursorValues codec t vs = (None, t') \<and> CursorValues codec t' = Inr (map (widened codec) vs) \<and>
           (list_all (key_value_ok codec) vs \<longrightarrow> CursorValues codec t' = Inr vs) \<and>
           tc_LastKey t' = [] \<and> tc_RowsCopied t' = tc_RowsCopied t \<and> tc_KeyColumns t' = tc_KeyColumns t \<and>
           tc_Done t' = tc_Done t"
proof (cases "vs = []")
  case True
  then show ?thesis by (simp add: SetCursorValues_def CursorValues_def)
next
  case False
  obtain kvs where "map_result (encodeCheckpointKeyValue codec) vs = Inr kvs"
    "map_result (decodeCheckpointKeyValue codec) kvs = Inr (map (widened codec) vs)"
    using decode_encode_all_widened [OF assms] by (auto simp: bind_result_Inr)
  moreover from this have "kvs \<noteq> []" using False by auto
  ultimately show ?thesis using False all_ok_widened [of codec vs] by (simp add: SetCursorValues_def CursorValues_def)
qed

definition plain_codec :: text_codec where
  "plain_codec = \<lparr>formatTime = id, parseTime = Some, formatFloat = id, formatFloat32 = id, parseFloat = Some\<rparr>"

theorem cursor_round_trip_witness:
  "\<exists>t'. SetCursorValues plain_codec emptyTableCheckpoint [VIntN W16 (- 7), VBytes ''id'', VFloat32 ''0.1'', VUint 5] = (None, t') \<and>
     CursorValues plain_codec t' = Inr [VInt (- 7), VBytes ''id'', VFloat ''0.1'', VUint 5]"
proof -
  have "list_all (key_value_stored plain_codec) [VIntN W16 (- 7), VBytes ''id'', VFloat32 ''0.1'', VUint 5]"
    by (simp add: key_value_stored_def plain_codec_def)
  from cursor_round_trip [OF this, of emptyTableCheckpoint] show ?thesis by (simp add: plain_codec_def) blast
qed

text \<open>A value of an unsupported type anywhere in the cursor is an error and leaves the checkpoint as it was.\<close>

lemma cursor_unsupported:
  "VOther t \<in> set vs \<Longrightarrow> \<exists>e. SetCursorValues codec tc vs = (Some e, tc)"
proof -
  assume "VOther t \<in> set vs"
  then have "\<exists>e. map_result (encodeCheckpointKeyValue codec) vs = Inl e"
  proof (induction vs)
    case (Cons v vs)
    then show ?case
      by (cases "encodeCheckpointKeyValue codec v") (auto simp: encodeCheckpointKeyValue_def)
  qed simp
  then show ?thesis using \<open>VOther t \<in> set vs\<close> by (auto simp: SetCursorValues_def)
qed

end

