(* ===== verification/Baseline_Sql.thy ===== *)
theory Baseline_Sql
  imports Table_Order Sql_Text Checkpoint_Cursor
begin

text \<open>
  What the baseline copy asks the source (internal/data/copy.go, lines 439-488, 611-761 and
  852-1060, and SelectDatabases of internal/schema/copy.go, lines 713-752): the databases to copy,
  the columns of a table, a key that can be used to page through it, the statements that read a
  page and write a row, and the position in the binary log. The answers of the server are
  parameters.
\<close>

section \<open>Which databases\<close>

definition systemSchemas :: "string set" where
  "systemSchemas = {''information_schema'', ''mysql'', ''performance_schema'', ''sys''}"

definition schemaSet :: "string list \<Rightarrow> string set" where
  "schemaSet items = set (filter (\<lambda>n. n \<noteq> '''') (map (\<lambda>item. ToLower (TrimSpace item)) items))"

definition isExcludedSchema :: "string \<Rightarrow> string set \<Rightarrow> bool" where
  "isExcludedSchema name excludedSet =
     (let normalized = ToLower (TrimSpace name) in normalized \<in> systemSchemas \<or> normalized \<in> excludedSet)"

definition SelectDatabases :: "string list \<Rightarrow> string list \<Rightarrow> string list \<Rightarrow> string list" where
  "SelectDatabases all included excluded =
     (let includeSet = schemaSet included; excludeSet = schemaSet excluded
      in sort (filter (\<lambda>name. \<not> isExcludedSchema name excludeSet \<and>
                              (includeSet \<noteq> {} \<longrightarrow> ToLower (TrimSpace name) \<in> includeSet)) all))"

section \<open>Reading names\<close>

text \<open>A query whose rows are names: listDatabases, listBaseTables before ordering, listTableColumns, listNotNullColumns.\<close>

definition rows_or_error :: "'a query_result \<Rightarrow> string + 'a list" where
  "rows_or_error q =
     (case q of QueryError e \<Rightarrow> Inl e | ScanError e \<Rightarrow> Inl e | RowsError e \<Rightarrow> Inl e | Rows rows \<Rightarrow> Inr rows)"

lemma rows_or_error_Inr [simp]: "rows_or_error q = Inr rows \<longleftrightarrow> q = Rows rows"
  by (cases q) (auto simp: rows_or_error_def)

definition listDatabases :: "string query_result \<Rightarrow> string + string list" where
  "listDatabases = rows_or_error"

definition listTableColumns :: "string query_result \<Rightarrow> string + string list" where
  "listTableColumns = rows_or_error"

definition listNotNullColumns :: "string query_result \<Rightarrow> string + string set" where
  "listNotNullColumns q = bind_result (rows_or_error q) (\<lambda>names. Inr (set names))"

definition listBaseTables :: "string query_result \<Rightarrow> (string \<times> string) query_result \<Rightarrow> string \<Rightarrow> string + string list" where
  "listBaseTables tables keys databaseName =
     bind_result (rows_or_error tables) (orderTableNamesByForeignKeys copyCycleError databaseName keys)"

section \<open>A stable key\<close>

text \<open>
  A row of information_schema.STATISTICS: index, NON_UNIQUE, column, position. The column of a
  functional key part is NULL, which cannot be read into a string.
\<close>

type_synonym statistics_row = "string \<times> int \<times> string option \<times> int"

definition null_scan_error :: string where
  "null_scan_error = ''sql: Scan error on column index 2, name \"COLUMN_NAME\": converting NULL to string is unsupported''"

record index_state =
  ix_columns :: "string \<Rightarrow> string list"
  ix_nonUnique :: "string \<Rightarrow> int"
  ix_ordered :: "string list"

text \<open>The maps indexes and nonUnique are read only at the names in ordered.\<close>

fun collect_indexes :: "statistics_row list \<Rightarrow> index_state \<Rightarrow> string + index_state" where
  "collect_indexes [] s = Inr s"
| "collect_indexes ((indexName, uniqueFlag, column, pos) # rows) s =
     (case column of
        None \<Rightarrow> Inl null_scan_error
      | Some columnName \<Rightarrow>
          collect_indexes rows \<lparr>
            ix_columns = (ix_columns s)(indexName := ix_columns s indexName @ [columnName]),
            ix_nonUnique = (ix_nonUnique s)(indexName := uniqueFlag),
            ix_ordered = (if ix_columns s indexName = [] then ix_ordered s @ [indexName] else ix_ordered s)\<rparr>)"

definition no_indexes :: index_state where
  "no_indexes = \<lparr>ix_columns = (\<lambda>_. []), ix_nonUnique = (\<lambda>_. 0), ix_ordered = []\<rparr>"

text \<open>The first index in the order of the query that is unique and whose columns are all NOT NULL; [] when there is none.\<close>

fun first_eligible :: "index_state \<Rightarrow> string set \<Rightarrow> string list \<Rightarrow> string list" where
  "first_eligible s notNull [] = []"
| "first_eligible s notNull (indexName # rest) =
     (if ix_nonUnique s indexName \<noteq> 0 then first_eligible s notNull rest
      else if ix_columns s indexName = [] then first_eligible s notNull rest
      else if \<not> list_all (\<lambda>col. col \<in> notNull) (ix_columns s indexName) then first_eligible s notNull rest
      else ix_columns s indexName)"

definition listStableKeyColumns :: "statistics_row query_result \<Rightarrow> string query_result \<Rightarrow> string + string list" where
  "listStableKeyColumns stats notNull =
     bind_result (rows_or_error stats) (\<lambda>rows.
     bind_result (collect_indexes rows no_indexes) (\<lambda>s.
     bind_result (listNotNullColumns notNull) (\<lambda>notNullColumns.
       Inr (first_eligible s notNullColumns (ix_ordered s)))))"

section \<open>Statements\<close>

definition name_columns :: "string list \<Rightarrow> string" where
  "name_columns cols = Join (map quoteIdentifier cols) '', ''"

definition marks :: "nat \<Rightarrow> string" where
  "marks n = Join (replicate n ''?'') '', ''"

definition buildSelectSQL :: "string \<Rightarrow> string \<Rightarrow> string list \<Rightarrow> string" where
  "buildSelectSQL databaseName tableName columns =
     ''SELECT '' @ name_columns columns @ '' FROM '' @ qualifiedTable databaseName tableName @ '' LIMIT ? OFFSET ?''"

definition buildKeysetSelectSQL :: "string \<Rightarrow> string \<Rightarrow> string list \<Rightarrow> string list \<Rightarrow> bool \<Rightarrow> string" where
  "buildKeysetSelectSQL databaseName tableName columns keyColumns withCursor =
     (let base = ''SELECT '' @ name_columns columns @ '' FROM '' @ qualifiedTable databaseName tableName
      in if withCursor
         then base @ '' WHERE ('' @ name_columns keyColumns @ '') > ('' @ marks (length keyColumns) @ '') ORDER BY ''
              @ name_columns keyColumns @ '' LIMIT ?''
         else base @ '' ORDER BY '' @ name_columns keyColumns @ '' LIMIT ?'')"

definition buildInsertSQL :: "string \<Rightarrow> string \<Rightarrow> string list \<Rightarrow> string" where
  "buildInsertSQL databaseName tableName columns =
     ''INSERT INTO '' @ qualifiedTable databaseName tableName @ '' ('' @ name_columns columns @ '') VALUES (''
     @ marks (length columns) @ '')''"

lemma placeholders_name_columns [simp]: "placeholders False (name_columns cols @ r) = placeholders False r"
  unfolding name_columns_def
  using placeholders_Join [of "'', ''" quoteIdentifier 0 cols r] by (simp add: backtick_def)

lemma placeholders_marks [simp]: "placeholders False (marks n @ r) = n + placeholders False r"
proof -
  have "map (\<lambda>_. ''?'') (replicate n ()) = replicate n ''?''" by simp
  then show ?thesis
    unfolding marks_def
    using placeholders_Join [of "'', ''" "\<lambda>_. ''?''" 1 "replicate n ()" r] by (simp add: backtick_def)
qed

lemma placeholders_keyset:
  "placeholders False (buildKeysetSelectSQL db t cols keys withCursor) = (if withCursor then length keys + 1 else 1)"
  by (simp add: buildKeysetSelectSQL_def Let_def backtick_def)

lemma placeholders_insert: "placeholders False (buildInsertSQL db t cols) = length cols"
  by (simp add: buildInsertSQL_def backtick_def)

section \<open>A page of a table\<close>

fun column_index :: "string \<Rightarrow> string list \<Rightarrow> nat option" where
  "column_index key [] = None"
| "column_index key (column # columns) = (if column = key then Some 0 else map_option Suc (column_index key columns))"

fun key_indexes :: "string list \<Rightarrow> string list \<Rightarrow> string + nat list" where
  "key_indexes columns [] = Inr []"
| "key_indexes columns (keyColumn # keys) =
     (case column_index keyColumn columns of
        None \<Rightarrow> Inl (''key column '' @ go_quote keyColumn @ '' is not present in selected column list'')
      | Some i \<Rightarrow> bind_result (key_indexes columns keys) (\<lambda>is. Inr (i # is)))"

definition key_values :: "nat list \<Rightarrow> goval list \<Rightarrow> goval list" where
  "key_values is row = map (\<lambda>i. row ! i) is"

text \<open>Every row has a value for each selected column.\<close>

definition fetchKeysetBatch ::
  "(string \<Rightarrow> goval list \<Rightarrow> goval list query_result) \<Rightarrow> string \<Rightarrow> nat \<Rightarrow> goval list \<Rightarrow> string list \<Rightarrow> string list
     \<Rightarrow> string + goval list list \<times> goval list" where
  "fetchKeysetBatch query selectSQL chunkSize cursor columns keyColumns =
     bind_result (key_indexes columns keyColumns) (\<lambda>keyIndexes.
     bind_result (rows_or_error (query selectSQL (cursor @ [VInt (int chunkSize)]))) (\<lambda>batch.
       Inr (batch, if batch = [] then [] else key_values keyIndexes (last batch))))"

section \<open>The position in the binary log\<close>

definition stringifySQLValue :: "goval \<Rightarrow> string" where
  "stringifySQLValue v = (case v of VNil \<Rightarrow> '''' | VBytes s \<Rightarrow> s | VString s \<Rightarrow> s | _ \<Rightarrow> Sprint v)"

text \<open>The callers only ask whether there is an error.\<close>

definition parseUint32Value :: "goval \<Rightarrow> u32 option" where
  "parseUint32Value v =
     (case v of
        VInt i \<Rightarrow> Some (of_int i)
      | VUint n \<Rightarrow> Some (of_nat n)
      | VIntN WNative i \<Rightarrow> Some (of_int i)
      | VUintN WNative n \<Rightarrow> Some (of_nat n)
      | VBytes s \<Rightarrow> map_option of_nat (ParseUint s 32)
      | VString s \<Rightarrow> map_option of_nat (ParseUint s 32)
      | _ \<Rightarrow> None)"

fun watermark_columns :: "(string \<times> goval) list \<Rightarrow> string \<Rightarrow> u32 \<Rightarrow> (string \<times> u32) option" where
  "watermark_columns [] file pos = Some (file, pos)"
| "watermark_columns ((rawColumn, v) # cols) file pos =
     (let column = ToLower (TrimSpace rawColumn)
      in if column \<in> {''file'', ''log_name''} then watermark_columns cols (stringifySQLValue v) pos
         else if column \<in> {''position'', ''pos''} then
           (case parseUint32Value v of None \<Rightarrow> None | Some p \<Rightarrow> watermark_columns cols file p)
         else watermark_columns cols file pos)"

text \<open>The first row of a status query, or None when the query fails or has no row.\<close>

definition querySourceWatermarkWithSQL :: "(string \<Rightarrow> (string \<times> goval) list option) \<Rightarrow> string \<Rightarrow> (string \<times> u32) option" where
  "querySourceWatermarkWithSQL ask query =
     (case ask query of
        None \<Rightarrow> None
      | Some cols \<Rightarrow>
          (case watermark_columns cols '''' 0 of
             None \<Rightarrow> None
           | Some (file, pos) \<Rightarrow> (if TrimSpace file = '''' \<or> pos = 0 then None else Some (file, pos))))"

definition querySourceWatermark :: "(string \<Rightarrow> (string \<times> goval) list option) \<Rightarrow> (string \<times> u32) option" where
  "querySourceWatermark ask =
     (case querySourceWatermarkWithSQL ask ''SHOW MASTER STATUS'' of
        Some p \<Rightarrow> Some p
      | None \<Rightarrow> querySourceWatermarkWithSQL ask ''SHOW BINARY LOG STATUS'')"

section \<open>Where a table is resumed\<close>

definition checkpointCursorArgs :: "text_codec \<Rightarrow> TableCheckpoint \<Rightarrow> string list \<Rightarrow> cursor_error + goval list" where
  "checkpointCursorArgs codec progress keyColumns =
     bind_result (CursorValues codec progress) (\<lambda>cursor.
       if cursor = [] then Inr []
       else if length (tc_KeyColumns progress) = length keyColumns \<and> tc_KeyColumns progress \<noteq> keyColumns then Inr []
       else if length cursor \<noteq> length keyColumns then Inr []
       else Inr cursor)"

definition resume_query :: "string \<Rightarrow> string \<Rightarrow> string list \<Rightarrow> string" where
  "resume_query databaseName tableName keyColumns =
     ''SELECT '' @ name_columns keyColumns @ '' FROM '' @ qualifiedTable databaseName tableName @ '' ORDER BY ''
     @ Join (map quoteIdentifier keyColumns) '' DESC, '' @ '' DESC LIMIT 1''"

definition destinationResumeCursor ::
  "(string \<Rightarrow> goval list query_result) \<Rightarrow> string \<Rightarrow> string \<Rightarrow> string list \<Rightarrow> string + goval list" where
  "destinationResumeCursor ask databaseName tableName keyColumns =
     bind_result (rows_or_error (ask (resume_query databaseName tableName keyColumns)))
       (\<lambda>rows. Inr (case rows of [] \<Rightarrow> [] | row # _ \<Rightarrow> row))"

section \<open>The key that is found\<close>

definition index_columns :: "statistics_row list \<Rightarrow> string \<Rightarrow> string list" where
  "index_columns rows i = concat (map (\<lambda>(n, u, c, p). if n = i then (case c of None \<Rightarrow> [] | Some x \<Rightarrow> [x]) else []) rows)"

text \<open>An index of the table that is unique and whose columns are all NOT NULL.\<close>

definition unique_key :: "statistics_row list \<Rightarrow> string set \<Rightarrow> string \<Rightarrow> bool" where
  "unique_key rows notNull i =
     (i \<in> fst ` set rows \<and> (\<forall>(n, u, c, p) \<in> set rows. n = i \<longrightarrow> u = 0) \<and> set (index_columns rows i) \<subseteq> notNull)"

text \<open>What the loop over the rows has collected.\<close>

definition collected :: "statistics_row list \<Rightarrow> index_state \<Rightarrow> bool" where
  "collected rows s =
     (list_all (\<lambda>(n, u, c, p). c \<noteq> None) rows \<and> ix_columns s = index_columns rows \<and> set (ix_ordered s) = fst ` set rows \<and>
      (\<forall>i \<in> fst ` set rows. \<exists>(n, u, c, p) \<in> set rows. n = i \<and> ix_nonUnique s i = u))"

lemma index_columns_snoc [simp]:
  "index_columns (rows @ [(n, u, Some c, p)]) = (index_columns rows)(n := index_columns rows n @ [c])"
  by (auto simp: index_columns_def)

lemma index_columns_Nil:
  "list_all (\<lambda>(n, u, c, p). c \<noteq> None) rows \<Longrightarrow> (index_columns rows i = []) = (i \<notin> fst ` set rows)"
  by (induction rows) (auto simp: index_columns_def image_iff)

lemma collect_indexes_spec:
  assumes "collected done s" and "collect_indexes rows s = Inr s'"
  shows "collected (done @ rows) s'"
  using assms
proof (induction rows arbitrary: s "done")
  case (Cons row rows)
  obtain n u c p where row: "row = (n, u, c, p)" by (metis prod_cases4)
  then obtain x where c: "c = Some x" using Cons.prems(2) by (cases c) auto
  let ?s = "\<lparr>ix_columns = (ix_columns s)(n := ix_columns s n @ [x]), ix_nonUnique = (ix_nonUnique s)(n := u),
    ix_ordered = (if ix_columns s n = [] then ix_ordered s @ [n] else ix_ordered s)\<rparr>"
  have col: "list_all (\<lambda>(n, u, c, p). c \<noteq> None) done" "ix_columns s = index_columns done"
    "set (ix_ordered s) = fst ` set done"
    "\<forall>i \<in> fst ` set done. \<exists>(n, u, c, p) \<in> set done. n = i \<and> ix_nonUnique s i = u"
    using Cons.prems(1) by (simp_all add: collected_def)
  have "set (ix_ordered ?s) = fst ` set (done @ [row])"
    using col(3) index_columns_Nil [OF col(1), of n] by (auto simp: row col(2))
  moreover have "\<exists>(n', u', c', p') \<in> set (done @ [row]). n' = i \<and> ix_nonUnique ?s i = u'" if "i \<in> fst ` set (done @ [row])" for i
    using that col(4) by (cases "i = n") (auto simp: row)
  ultimately have "collected (done @ [row]) ?s" using col(1,2) by (simp add: collected_def row c)
  from Cons.IH [OF this] show ?case using Cons.prems(2) by (simp add: row c)
qed simp

lemma first_eligible_spec:
  assumes "collected rows s" and "set names \<subseteq> fst ` set rows"
    and "\<forall>(n, u, c, p) \<in> set rows. \<forall>(n', u', c', p') \<in> set rows. n = n' \<longrightarrow> u = u'"
  shows "if \<exists>i \<in> set names. unique_key rows notNull i
    then \<exists>i \<in> set names. unique_key rows notNull i \<and> first_eligible s notNull names = index_columns rows i
    else first_eligible s notNull names = []"
  using assms(2)
proof (induction names)
  case (Cons i names)
  have col: "list_all (\<lambda>(n, u, c, p). c \<noteq> None) rows" "ix_columns s = index_columns rows"
    using assms(1) by (simp_all add: collected_def)
  have i: "i \<in> fst ` set rows" using Cons.prems by simp
  then obtain u c p where r: "(i, u, c, p) \<in> set rows" "ix_nonUnique s i = u"
    using assms(1) by (auto simp: collected_def)
  have "(\<forall>(n, u', c, p) \<in> set rows. n = i \<longrightarrow> u' = 0) = (u = 0)" using assms(3) r(1) by fastforce
  then have "unique_key rows notNull i = (ix_nonUnique s i = 0 \<and> list_all (\<lambda>col. col \<in> notNull) (ix_columns s i))"
    using i r(2) by (auto simp: unique_key_def col(2) list_all_iff)
  moreover have "ix_columns s i \<noteq> []" using index_columns_Nil [OF col(1)] i by (simp add: col(2))
  moreover have "set names \<subseteq> fst ` set rows" using Cons.prems by simp
  note Cons.IH [OF this]
  ultimately show ?case by (auto simp: col(2))
qed simp

text \<open>
  Claim C38. The key that a table is paged by is a stable one: the columns, in index order, of an
  index that is unique and has only NOT NULL columns. When no key is found there is no such index.
  The query fails exactly when some index of the table has an expression for a column.
\<close>

theorem listStableKeyColumns_sound:
  assumes "\<forall>(n, u, c, p) \<in> set rows. \<forall>(n', u', c', p') \<in> set rows. n = n' \<longrightarrow> u = u'"
  shows "case listStableKeyColumns (Rows rows) (Rows notNull) of
      Inl e \<Rightarrow> \<exists>(n, u, c, p) \<in> set rows. c = None
    | Inr [] \<Rightarrow> (\<forall>(n, u, c, p) \<in> set rows. c \<noteq> None) \<and> \<not> (\<exists>i. unique_key rows (set notNull) i)
    | Inr keys \<Rightarrow> (\<forall>(n, u, c, p) \<in> set rows. c \<noteq> None) \<and> (\<exists>i. unique_key rows (set notNull) i \<and> keys = index_columns rows i)"
proof (cases "collect_indexes rows no_indexes")
  case (Inl e)
  have "\<exists>(n, u, c, p) \<in> set rows. c = None" if "collect_indexes rows s = Inl e" for s
    using that by (induction rows arbitrary: s) (auto split: option.splits)
  then show ?thesis using Inl by (simp add: listStableKeyColumns_def rows_or_error_def)
next
  case (Inr s)
  have "collected [] no_indexes" by (simp add: collected_def no_indexes_def index_columns_def fun_eq_iff)
  from collect_indexes_spec [OF this Inr] have c: "collected rows s" by simp
  then have names: "set (ix_ordered s) = fst ` set rows" and some: "\<forall>(n, u, c, p) \<in> set rows. c \<noteq> None"
    by (auto simp: collected_def list_all_iff)
  have all: "(\<exists>i. unique_key rows (set notNull) i) = (\<exists>i \<in> set (ix_ordered s). unique_key rows (set notNull) i)"
    by (auto simp: names unique_key_def)
  have ne: "index_columns rows i \<noteq> []" if "unique_key rows (set notNull) i" for i
    using that c index_columns_Nil [of rows i] by (simp add: collected_def unique_key_def)
  have res: "listStableKeyColumns (Rows rows) (Rows notNull) = Inr (first_eligible s (set notNull) (ix_ordered s))"
    using Inr by (simp add: listStableKeyColumns_def rows_or_error_def listNotNullColumns_def)
  from first_eligible_spec [OF c _ assms, of "ix_ordered s" "set notNull"] names
  have "if \<exists>i. unique_key rows (set notNull) i
      then \<exists>i. unique_key rows (set notNull) i \<and> first_eligible s (set notNull) (ix_ordered s) = index_columns rows i
      else first_eligible s (set notNull) (ix_ordered s) = []"
    unfolding all by (auto split: if_splits)
  note found = this
  show ?thesis
  proof (cases "first_eligible s (set notNull) (ix_ordered s)")
    case Nil
    then have "\<not> (\<exists>i. unique_key rows (set notNull) i)" using found ne by metis
    then show ?thesis using some unfolding res Nil by simp
  next
    case (Cons key keys)
    then have "\<exists>i. unique_key rows (set notNull) i \<and> key # keys = index_columns rows i" using found by (metis list.distinct(1))
    then show ?thesis using some unfolding res Cons by simp
  qed
qed

theorem listStableKeyColumns_sound_witness:
  "listStableKeyColumns (Rows [(''PRIMARY'', 0, Some ''a'', 1), (''PRIMARY'', 0, Some ''b'', 2), (''u'', 0, Some ''c'', 1)])
     (Rows [''a'', ''b'']) = Inr [''a'', ''b''] \<and>
   (\<exists>i. unique_key [(''PRIMARY'', 0, Some ''a'', 1), (''PRIMARY'', 0, Some ''b'', 2), (''u'', 0, Some ''c'', 1)] {''a'', ''b''} i)"
proof -
  let ?rows = "[(''PRIMARY'', 0, Some ''a'', 1), (''PRIMARY'', 0, Some ''b'', 2), (''u'', 0, Some ''c'', 1)] :: statistics_row list"
  have "listStableKeyColumns (Rows ?rows) (Rows [''a'', ''b'']) = Inr [''a'', ''b'']" by code_simp
  then show ?thesis using listStableKeyColumns_sound [of ?rows "[''a'', ''b'']"] by auto
qed

end
