(* ===== verification/Baseline_Copy.thy ===== *)
theory Baseline_Copy
  imports Baseline_Sql Apply_Window State_Store
begin

text \<open>
  The baseline copy (internal/data/copy.go, lines 21-437 and 767-850): each table is read page by
  page in the order of its key and written in one transaction per page, with a checkpoint of the
  last key after each page. What the servers answer is a parameter; keyset_table says what the
  code relies on for the source, transactional (Apply_Window) for the destination. Tables are
  copied one after the other, as with a concurrency of 1, each with a snapshot of its own.
\<close>

section \<open>Types\<close>

record CopyOptions =
  co_IncludeDatabases :: "string list"
  co_ExcludeDatabases :: "string list"
  co_ChunkSize :: int
  co_Resume :: bool
  co_RequireEmptyDest :: bool

record CopySummary =
  cy_Databases :: int
  cy_Tables :: int
  cy_Completed :: int
  cy_Restarted :: int
  cy_RowsCopied :: int
  cy_Batches :: int
  cy_CheckpointFile :: string
  cy_WatermarkFile :: string
  cy_WatermarkPos :: u32

definition emptySummary :: CopySummary where
  "emptySummary = \<lparr>cy_Databases = 0, cy_Tables = 0, cy_Completed = 0, cy_Restarted = 0, cy_RowsCopied = 0,
     cy_Batches = 0, cy_CheckpointFile = '''', cy_WatermarkFile = '''', cy_WatermarkPos = 0\<rparr>"

record tableWork =
  tw_database :: string
  tw_table :: string

definition table_key :: "tableWork \<Rightarrow> string" where
  "table_key tw = tw_database tw @ ''.'' @ tw_table tw"

datatype copy_error = CopyText string | CopyCursor string cursor_error

text \<open>The answers to the copy of one table; pages are numbered.\<close>

record 'db table_env =
  te_pin :: "string option"
  te_isolation :: "string option"
  te_snapshot :: "string option"
  te_columns :: "string query_result"
  te_stats :: "statistics_row query_result"
  te_notNull :: "string query_result"
  te_destRows :: "'db \<Rightarrow> string \<Rightarrow> goval list query_result"
  te_pinDest :: "string option"
  te_fkOff :: "string option"
  te_ctx :: "nat \<Rightarrow> string option"
  te_query :: "string \<Rightarrow> goval list \<Rightarrow> goval list query_result"
  te_dest :: "'db destination"
  te_now :: "nat \<Rightarrow> instant"
  te_save :: "nat \<Rightarrow> write_env"
  te_codec :: text_codec
  te_finish :: instant
  te_saveDone :: write_env

record 'db copy_state =
  cs_fs :: fs
  cs_db :: 'db
  cs_checkpoint :: DataCheckpoint
  cs_summary :: CopySummary

section \<open>One page\<close>

text \<open>The rows of one page in one transaction.\<close>

fun insert_rows :: "'db destination \<Rightarrow> string \<Rightarrow> goval list list \<Rightarrow> 'db \<Rightarrow> string option \<times> 'db" where
  "insert_rows dest insertSQL [] db = (None, db)"
| "insert_rows dest insertSQL (row # rows) db =
     (case de_exec dest insertSQL row db of
        (Inl e, db') \<Rightarrow> (Some (db_text e), de_rollback dest db')
      | (Inr _, db') \<Rightarrow> insert_rows dest insertSQL rows db')"

definition applyRows :: "'db destination \<Rightarrow> string \<Rightarrow> goval list list \<Rightarrow> 'db \<Rightarrow> string option \<times> 'db" where
  "applyRows dest insertSQL batch db =
     (case de_begin dest db of
        (Some e, db1) \<Rightarrow> (Some e, db1)
      | (None, db1) \<Rightarrow>
          (case insert_rows dest insertSQL batch db1 of
             (Some e, db2) \<Rightarrow> (Some e, db2)
           | (None, db2) \<Rightarrow>
               (case de_commit dest db2 of
                  (Some e, db3) \<Rightarrow> (Some e, de_rollback dest db3)
                | (None, db3) \<Rightarrow> (None, db3))))"

text \<open>The progress of a table is put into the checkpoint, which is saved as a whole.\<close>

definition store_progress ::
  "write_env \<Rightarrow> string \<Rightarrow> string \<Rightarrow> TableCheckpoint \<Rightarrow> 'db copy_state \<Rightarrow> string option \<times> 'db copy_state" where
  "store_progress wenv path key progress st =
     (let cp = (cs_checkpoint st)\<lparr>dc_Tables := (dc_Tables (cs_checkpoint st))(key \<mapsto> progress)\<rparr>
      in case SaveDataCheckpoint wenv path cp (cs_fs st) of
           (saveErr, fs') \<Rightarrow> (saveErr, st\<lparr>cs_checkpoint := cp, cs_fs := fs'\<rparr>))"

definition count_batch :: "nat \<Rightarrow> 'db copy_state \<Rightarrow> 'db copy_state" where
  "count_batch n st =
     st\<lparr>cs_summary := (cs_summary st)\<lparr>cy_RowsCopied := cy_RowsCopied (cs_summary st) + int n,
                                      cy_Batches := cy_Batches (cs_summary st) + 1\<rparr>\<rparr>"

datatype 'db page_outcome =
    Finished "copy_error option" TableCheckpoint "'db copy_state"
  | NextPage TableCheckpoint "goval list" "'db copy_state"

definition copy_page ::
  "'db table_env \<Rightarrow> nat \<Rightarrow> string \<Rightarrow> tableWork \<Rightarrow> string list \<Rightarrow> string list \<Rightarrow> nat \<Rightarrow> TableCheckpoint \<Rightarrow> goval list
     \<Rightarrow> 'db copy_state \<Rightarrow> 'db page_outcome" where
  "copy_page env chunkSize path tw columns keyColumns i progress cursor st =
     (let tableKey = table_key tw;
          selectSQL = buildKeysetSelectSQL (tw_database tw) (tw_table tw) columns keyColumns (cursor \<noteq> []);
          insertSQL = buildInsertSQL (tw_database tw) (tw_table tw) columns
      in case te_ctx env i of
           Some e \<Rightarrow> Finished (Some (CopyText e)) progress st
         | None \<Rightarrow>
             (case fetchKeysetBatch (te_query env) selectSQL chunkSize cursor columns keyColumns of
                Inl e \<Rightarrow> Finished (Some (CopyText (''fetch batch for '' @ tableKey @ '': '' @ e))) progress st
              | Inr (batch, lastKey) \<Rightarrow>
                  if batch = [] then Finished None progress st
                  else (case applyRows (te_dest env) insertSQL batch (cs_db st) of
                          (Some e, db') \<Rightarrow>
                            Finished (Some (CopyText (''apply batch for '' @ tableKey @ '': '' @ e))) progress (st\<lparr>cs_db := db'\<rparr>)
                        | (None, db') \<Rightarrow>
                            (case SetCursorValues (te_codec env)
                                    (progress\<lparr>tc_RowsCopied := tc_RowsCopied progress + int (length batch),
                                              tc_KeyColumns := keyColumns\<rparr>) lastKey of
                               (Some e, progress') \<Rightarrow>
                                 Finished (Some (CopyCursor (''encode checkpoint cursor for '' @ tableKey) e)) progress'
                                   (st\<lparr>cs_db := db'\<rparr>)
                             | (None, progress') \<Rightarrow>
                                 (let progress'' = progress'\<lparr>tc_UpdatedAt := te_now env i\<rparr>
                                  in case store_progress (te_save env i) path tableKey progress'' (st\<lparr>cs_db := db'\<rparr>) of
                                       (Some e, st') \<Rightarrow> Finished (Some (CopyText e)) progress'' (count_batch (length batch) st')
                                     | (None, st') \<Rightarrow>
                                         (if length batch < chunkSize
                                          then Finished None progress'' (count_batch (length batch) st')
                                          else NextPage progress'' lastKey (count_batch (length batch) st')))))))"

text \<open>The loop over the pages; None: it never ends.\<close>

partial_function (option) copy_pages ::
  "'db table_env \<Rightarrow> nat \<Rightarrow> string \<Rightarrow> tableWork \<Rightarrow> string list \<Rightarrow> string list \<Rightarrow> nat \<Rightarrow> TableCheckpoint \<Rightarrow> goval list
     \<Rightarrow> 'db copy_state \<Rightarrow> (copy_error option \<times> TableCheckpoint \<times> 'db copy_state) option" where
  "copy_pages env chunkSize path tw columns keyColumns i progress cursor st =
     (case copy_page env chunkSize path tw columns keyColumns i progress cursor st of
        Finished r progress' st' \<Rightarrow> Some (r, progress', st')
      | NextPage progress' cursor' st' \<Rightarrow> copy_pages env chunkSize path tw columns keyColumns (i + 1) progress' cursor' st')"

section \<open>One table\<close>

definition complete_table ::
  "'db table_env \<Rightarrow> string \<Rightarrow> string \<Rightarrow> TableCheckpoint \<Rightarrow> 'db copy_state \<Rightarrow> copy_error option \<times> 'db copy_state" where
  "complete_table env path key progress st =
     (case store_progress (te_saveDone env) path key (progress\<lparr>tc_Done := True, tc_UpdatedAt := te_finish env\<rparr>) st of
        (saveErr, st') \<Rightarrow>
          (map_option CopyText saveErr, st'\<lparr>cs_summary := (cs_summary st')\<lparr>cy_Completed := cy_Completed (cs_summary st') + 1\<rparr>\<rparr>))"

text \<open>Where the table is resumed: from the checkpoint, or from the rows that the destination holds.\<close>

definition start_cursor ::
  "'db table_env \<Rightarrow> CopyOptions \<Rightarrow> tableWork \<Rightarrow> string list \<Rightarrow> TableCheckpoint \<Rightarrow> 'db
     \<Rightarrow> copy_error + TableCheckpoint \<times> goval list" where
  "start_cursor env opts tw keyColumns progress db =
     (let tableKey = table_key tw
      in case checkpointCursorArgs (te_codec env) progress keyColumns of
           Inl e \<Rightarrow> Inl (CopyCursor (''decode checkpoint cursor for '' @ tableKey) e)
         | Inr cursor \<Rightarrow>
             (if co_Resume opts \<and> tc_RowsCopied progress > 0 \<and> cursor = []
              then (case destinationResumeCursor (te_destRows env db) (tw_database tw) (tw_table tw) keyColumns of
                      Inl e \<Rightarrow> Inl (CopyText (''resume cursor for '' @ tableKey @ '': '' @ e))
                    | Inr cursor' \<Rightarrow>
                        (if cursor' = [] then Inr (progress, [])
                         else (case SetCursorValues (te_codec env) progress cursor' of
                                 (Some e, _) \<Rightarrow> Inl (CopyCursor (''encode checkpoint cursor for '' @ tableKey) e)
                               | (None, progress') \<Rightarrow> Inr (progress'\<lparr>tc_KeyColumns := keyColumns\<rparr>, cursor'))))
              else Inr (progress, cursor)))"

definition prefixed :: "string \<Rightarrow> tableWork \<Rightarrow> string \<Rightarrow> copy_error" where
  "prefixed what tw e = CopyText (what @ table_key tw @ '': '' @ e)"

definition copyOneTable ::
  "'db table_env \<Rightarrow> CopyOptions \<Rightarrow> string \<Rightarrow> tableWork \<Rightarrow> 'db copy_state \<Rightarrow> (copy_error option \<times> 'db copy_state) option" where
  "copyOneTable env opts path tw st =
     (let tableKey = table_key tw;
          progress = (case dc_Tables (cs_checkpoint st) tableKey of None \<Rightarrow> emptyTableCheckpoint | Some t \<Rightarrow> t)
      in if tc_Done progress
         then Some (None, st\<lparr>cs_summary := (cs_summary st)\<lparr>cy_Completed := cy_Completed (cs_summary st) + 1\<rparr>\<rparr>)
         else (case te_pin env of Some e \<Rightarrow> Some (Some (prefixed ''pin source connection for '' tw e), st) | None \<Rightarrow>
              (case te_isolation env of Some e \<Rightarrow> Some (Some (prefixed ''set source isolation for '' tw e), st) | None \<Rightarrow>
              (case te_snapshot env of Some e \<Rightarrow> Some (Some (prefixed ''start snapshot for '' tw e), st) | None \<Rightarrow>
              (case listTableColumns (te_columns env) of Inl e \<Rightarrow> Some (Some (prefixed ''list columns for '' tw e), st) | Inr columns \<Rightarrow>
                 if columns = [] then Some (complete_table env path tableKey progress st)
                 else (case listStableKeyColumns (te_stats env) (te_notNull env) of
                         Inl e \<Rightarrow> Some (Some (prefixed ''stable key check for '' tw e), st)
                       | Inr keyColumns \<Rightarrow>
                           if keyColumns = []
                           then Some (Some (CopyText (''incompatible_for_live_baseline: '' @ tableKey
                                  @ '' has no primary key or non-null unique key; add a stable key before v1 baseline migration'')), st)
                           else (case start_cursor env opts tw keyColumns progress (cs_db st) of
                                   Inl e \<Rightarrow> Some (Some e, st)
                                 | Inr (progress, cursor) \<Rightarrow>
                                     (case te_pinDest env of Some e \<Rightarrow> Some (Some (prefixed ''pin dest connection for '' tw e), st) | None \<Rightarrow>
                                     (case te_fkOff env of Some e \<Rightarrow> Some (Some (prefixed ''disable fk checks for '' tw e), st) | None \<Rightarrow>
                                     (case copy_pages env (nat (co_ChunkSize opts)) path tw columns keyColumns 0 progress cursor st of
                                        None \<Rightarrow> None
                                      | Some (Some e, _, st') \<Rightarrow> Some (Some e, st')
                                      | Some (None, progress', st') \<Rightarrow> Some (complete_table env path tableKey progress' st')))))))))))"


section \<open>What the copy relies on\<close>

text \<open>
  The source answers the two page queries of a table from a snapshot: the rows in the order of
  their keys, at most as many as asked for, and with a cursor only those with a greater key.
\<close>

definition keyset_table ::
  "(string \<Rightarrow> goval list \<Rightarrow> goval list query_result) \<Rightarrow> tableWork \<Rightarrow> string list \<Rightarrow> string list \<Rightarrow> nat list
     \<Rightarrow> (goval list \<Rightarrow> goval list \<Rightarrow> bool) \<Rightarrow> goval list list \<Rightarrow> bool" where
  "keyset_table query tw columns keyColumns is lt rows =
     (key_indexes columns keyColumns = Inr is \<and>
      (\<forall>a b. lt a b \<longrightarrow> \<not> lt b a) \<and>
      sorted_wrt (\<lambda>r r'. lt (key_values is r) (key_values is r')) rows \<and>
      (\<forall>n. query (buildKeysetSelectSQL (tw_database tw) (tw_table tw) columns keyColumns False) [VInt (int n)]
             = Rows (take n rows)) \<and>
      (\<forall>c n. length c = length keyColumns \<longrightarrow>
             query (buildKeysetSelectSQL (tw_database tw) (tw_table tw) columns keyColumns True) (c @ [VInt (int n)])
             = Rows (take n (filter (\<lambda>r. lt c (key_values is r)) rows))))"

text \<open>The cursor after some rows, and the rows that follow it.\<close>

definition cursor_after :: "nat list \<Rightarrow> goval list list \<Rightarrow> goval list" where
  "cursor_after is copied = (if copied = [] then [] else key_values is (last copied))"

lemma length_key_indexes: "key_indexes columns keys = Inr is \<Longrightarrow> length is = length keys"
  by (induction keys arbitrary: "is") (auto simp: bind_result_Inr split: option.splits)

lemma rows_after_cursor:
  assumes "\<forall>a b. lt a b \<longrightarrow> \<not> lt b a"
    and "sorted_wrt (\<lambda>r r'. lt (key r) (key r')) (copied @ rest)" and "copied \<noteq> []"
  shows "filter (\<lambda>r. lt (key (last copied)) (key r)) (copied @ rest) = rest"
proof -
  obtain xs x where d: "copied = xs @ [x]" using assms(3) by (metis rev_exhaust)
  have "\<not> lt (key x) (key r)" if "r \<in> set copied" for r
  proof (cases "r \<in> set xs")
    case True
    then have "lt (key r) (key x)" using assms(2) by (auto simp: d sorted_wrt_append)
    then show ?thesis using assms(1) by blast
  next
    case False
    then show ?thesis using that assms(1) by (auto simp: d)
  qed
  then have "filter (\<lambda>r. lt (key x) (key r)) copied = []" by (simp add: filter_empty_conv)
  moreover have "filter (\<lambda>r. lt (key x) (key r)) rest = rest"
    using assms(2) by (auto simp: d sorted_wrt_append intro: filter_True)
  moreover have "last copied = x" by (simp add: d)
  ultimately show ?thesis by (simp only: filter_append append_Nil)
qed

lemma fetch_page:
  assumes "keyset_table query tw columns keyColumns is lt (copied @ rest)" and "keyColumns \<noteq> []"
    and "cursor = cursor_after is copied"
  shows "fetchKeysetBatch query (buildKeysetSelectSQL (tw_database tw) (tw_table tw) columns keyColumns (cursor \<noteq> []))
      n cursor columns keyColumns =
    Inr (take n rest, if take n rest = [] then [] else cursor_after is (copied @ take n rest))"
proof -
  have k: "key_indexes columns keyColumns = Inr is" using assms(1) by (simp add: keyset_table_def)
  then have len: "length is = length keyColumns" by (rule length_key_indexes)
  have page: "query (buildKeysetSelectSQL (tw_database tw) (tw_table tw) columns keyColumns (cursor \<noteq> [])) (cursor @ [VInt (int n)])
      = Rows (take n rest)"
  proof (cases "copied = []")
    case True
    then show ?thesis using assms(1,3) by (simp add: keyset_table_def cursor_after_def)
  next
    case False
    then have c: "cursor = key_values is (last copied)" "length cursor = length keyColumns" "cursor \<noteq> []"
      using assms(2,3) len by (auto simp: cursor_after_def key_values_def)
    have "filter (\<lambda>r. lt (key_values is (last copied)) (key_values is r)) (copied @ rest) = rest"
      using assms(1) False by (intro rows_after_cursor) (auto simp: keyset_table_def)
    moreover have "query (buildKeysetSelectSQL (tw_database tw) (tw_table tw) columns keyColumns True) (cursor @ [VInt (int n)])
        = Rows (take n (filter (\<lambda>r. lt cursor (key_values is r)) (copied @ rest)))"
      using assms(1) c(2) unfolding keyset_table_def by blast
    ultimately show ?thesis using c(1,3) by (simp only: simp_thms)
  qed
  show ?thesis by (auto simp: fetchKeysetBatch_def k rows_or_error_def page cursor_after_def)
qed

section \<open>One page, whatever fails\<close>

definition rows_effect :: "(string \<Rightarrow> goval list \<Rightarrow> 'c \<Rightarrow> 'c) \<Rightarrow> string \<Rightarrow> goval list list \<Rightarrow> 'c \<Rightarrow> 'c" where
  "rows_effect effect insertSQL rows = fold (effect insertSQL) rows"

lemma rows_effect_simps [simp]:
  "rows_effect effect q [] c = c"
  "rows_effect effect q (xs @ ys) c = rows_effect effect q ys (rows_effect effect q xs c)"
  by (simp_all add: rows_effect_def)

lemma insert_rows_view:
  assumes "transactional dest view work effect dml" and "dml q" and "insert_rows dest q rows db = (r, db')"
  shows "view db' = view db \<and> (r = None \<longrightarrow> work db' = rows_effect effect q rows (work db))"
  using assms(3)
proof (induction rows arbitrary: db)
  case (Cons row rows)
  obtain x db1 where x: "de_exec dest q row db = (x, db1)" by force
  note step = transactional_exec [OF assms(1,2) x]
  show ?case
  proof (cases x)
    case (Inl e)
    then show ?thesis using Cons.prems x step(1) transactional_rollback [OF assms(1)] by auto
  next
    case (Inr y)
    then show ?thesis using Cons.IH [of db1] Cons.prems x step(1) step(2) [OF Inr] by (simp add: rows_effect_def)
  qed
qed simp

lemma applyRows_view:
  assumes "transactional dest view work effect dml" and "dml q" and "applyRows dest q rows db = (r, db')"
  shows "case r of None \<Rightarrow> view db' = rows_effect effect q rows (view db)
    | Some e \<Rightarrow> view db' = view db \<or> view db' = rows_effect effect q rows (view db)"
proof -
  obtain r1 db1 where b: "de_begin dest db = (r1, db1)" by force
  obtain r2 db2 where i: "insert_rows dest q rows db1 = (r2, db2)" by force
  obtain r3 db3 where c: "de_commit dest db2 = (r3, db3)" by force
  show ?thesis
    using assms(3) b i c transactional_begin [OF assms(1) b] insert_rows_view [OF assms(1,2) i]
      transactional_commit [OF assms(1) c] transactional_rollback [OF assms(1)]
    by (cases r1; cases r2; cases r3) (auto simp: applyRows_def)
qed

text \<open>The progress of a table of which some rows are copied.\<close>

definition progress_at :: "text_codec \<Rightarrow> string list \<Rightarrow> nat list \<Rightarrow> goval list list \<Rightarrow> TableCheckpoint \<Rightarrow> bool" where
  "progress_at codec keyColumns is copied p =
     (tc_RowsCopied p = int (length copied) \<and> tc_LastKey p = [] \<and> CursorValues codec p = Inr (cursor_after is copied) \<and>
      (copied \<noteq> [] \<longrightarrow> tc_KeyColumns p = keyColumns))"

lemma progress_at_new: "progress_at codec keyColumns is [] emptyTableCheckpoint"
  by (simp add: progress_at_def emptyTableCheckpoint_def CursorValues_def cursor_after_def)

definition copy_setting ::
  "'db table_env \<Rightarrow> string \<Rightarrow> tableWork \<Rightarrow> string list \<Rightarrow> string list \<Rightarrow> nat list \<Rightarrow> (goval list \<Rightarrow> goval list \<Rightarrow> bool)
     \<Rightarrow> goval list list \<Rightarrow> ('db \<Rightarrow> 'c) \<Rightarrow> ('db \<Rightarrow> 'c) \<Rightarrow> (string \<Rightarrow> goval list \<Rightarrow> 'c \<Rightarrow> 'c) \<Rightarrow> bool" where
  "copy_setting env path tw columns keyColumns is lt rows view work effect =
     (keyset_table (te_query env) tw columns keyColumns is lt rows \<and> keyColumns \<noteq> [] \<and>
      transactional (te_dest env) view work effect (\<lambda>q. q = buildInsertSQL (tw_database tw) (tw_table tw) columns) \<and>
      (\<forall>r \<in> set rows. list_all (key_value_ok (te_codec env)) (key_values is r)) \<and>
      (\<forall>i. we_tmp (te_save env i) \<noteq> path) \<and> int (length rows) < 2 ^ 63)"

text \<open>A page that is written and saved.\<close>

definition page_done ::
  "'db table_env \<Rightarrow> string \<Rightarrow> tableWork \<Rightarrow> string list \<Rightarrow> string list \<Rightarrow> nat list \<Rightarrow> ('db \<Rightarrow> 'c)
     \<Rightarrow> (string \<Rightarrow> goval list \<Rightarrow> 'c \<Rightarrow> 'c) \<Rightarrow> goval list list \<Rightarrow> goval list list \<Rightarrow> 'db copy_state
     \<Rightarrow> TableCheckpoint \<Rightarrow> 'db copy_state \<Rightarrow> bool" where
  "page_done env path tw columns keyColumns is view effect copied batch st p st' =
     (view (cs_db st') = rows_effect effect (buildInsertSQL (tw_database tw) (tw_table tw) columns) batch (view (cs_db st)) \<and>
      progress_at (te_codec env) keyColumns is (copied @ batch) p \<and> \<not> tc_Done p \<and> valid_data (cs_checkpoint st') \<and>
      cs_checkpoint st' = (cs_checkpoint st)\<lparr>dc_Tables := (dc_Tables (cs_checkpoint st))(table_key tw \<mapsto> p)\<rparr> \<and>
      LoadDataCheckpoint None path (cs_fs st') = Inr (upgradeData (cs_checkpoint st')))"

lemma valid_data_upd:
  "valid_data c \<Longrightarrow> is_int64 (tc_RowsCopied p) \<Longrightarrow> valid_data (c\<lparr>dc_Tables := (dc_Tables c)(k \<mapsto> p)\<rparr>)"
  by (auto simp: valid_data_def valid_tables_def ran_def)

lemma valid_data_upgrade: "valid_data c \<Longrightarrow> valid_data (upgradeData c)"
  by (auto simp: valid_data_def valid_tables_def upgradeData_def upgradeTable_def ran_def is_int64_def checkpointVersion_def
      Let_def split: option.splits)

lemma store_progress_cases:
  assumes "store_progress wenv path key p st = (r, st')" and "we_tmp wenv \<noteq> path" and "valid_data (cs_checkpoint st)"
    and "is_int64 (tc_RowsCopied p)"
  shows "cs_db st' = cs_db st"
    and "cs_checkpoint st' = (cs_checkpoint st)\<lparr>dc_Tables := (dc_Tables (cs_checkpoint st))(key \<mapsto> p)\<rparr>"
    and "r = None \<Longrightarrow> LoadDataCheckpoint None path (cs_fs st') = Inr (upgradeData (cs_checkpoint st'))"
    and "r = Some e \<Longrightarrow> cs_fs st' path = cs_fs st path"
    and "valid_data (cs_checkpoint st')" and "cs_summary st' = cs_summary st"
proof -
  let ?cp = "(cs_checkpoint st)\<lparr>dc_Tables := (dc_Tables (cs_checkpoint st))(key \<mapsto> p)\<rparr>"
  obtain fs' where s: "SaveDataCheckpoint wenv path ?cp (cs_fs st) = (r, fs')"
    and st': "st' = st\<lparr>cs_checkpoint := ?cp, cs_fs := fs'\<rparr>"
    using assms(1) by (auto simp: store_progress_def Let_def split: prod.splits)
  have v: "valid_data ?cp" by (rule valid_data_upd [OF assms(3,4)])
  show "cs_db st' = cs_db st" "cs_checkpoint st' = ?cp" "valid_data (cs_checkpoint st')" "cs_summary st' = cs_summary st"
    using v by (simp_all add: st')
  show "r = None \<Longrightarrow> LoadDataCheckpoint None path (cs_fs st') = Inr (upgradeData (cs_checkpoint st'))"
    using data_store.load_saved [OF _ assms(2) v] s by (simp add: st')
  show "r = Some e \<Longrightarrow> cs_fs st' path = cs_fs st path"
    using data_store.save_failed [OF _ assms(2)] s by (simp add: st')
qed

lemma progress_next:
  assumes "list_all (key_value_ok codec) (cursor_after is (copied @ batch))" and "progress_at codec keyColumns is copied p"
    and "batch \<noteq> []" and "is \<noteq> []"
  shows "\<exists>p'. SetCursorValues codec (p\<lparr>tc_RowsCopied := tc_RowsCopied p + int (length batch), tc_KeyColumns := keyColumns\<rparr>)
      (cursor_after is (copied @ batch)) = (None, p') \<and>
    progress_at codec keyColumns is (copied @ batch) (p'\<lparr>tc_UpdatedAt := now\<rparr>) \<and> tc_RowsCopied p' = int (length (copied @ batch)) \<and>
    tc_Done p' = tc_Done p"
proof -
  let ?c = "cursor_after is (copied @ batch)"
  have "?c \<noteq> []" using assms(3,4) by (auto simp: cursor_after_def key_values_def)
  moreover obtain kvs where kv: "map_result (encodeCheckpointKeyValue codec) ?c = Inr kvs"
    "map_result (decodeCheckpointKeyValue codec) kvs = Inr ?c"
    using decode_encode_key_values [OF assms(1)] by (auto simp: bind_result_Inr)
  moreover have "kvs \<noteq> []" using kv(1) \<open>?c \<noteq> []\<close> map_result_length by fastforce
  ultimately show ?thesis
    using assms(2) by (auto simp: SetCursorValues_def progress_at_def CursorValues_def)
qed


text \<open>Nothing fails and nobody cancels.\<close>

definition smooth :: "'db table_env \<Rightarrow> bool" where
  "smooth env =
     (reliable (te_dest env) \<and> (\<forall>i. te_ctx env i = None \<and> (\<exists>tmp. te_save env i = no_faults tmp)) \<and>
      (\<exists>tmp. te_saveDone env = no_faults tmp))"

lemma insert_rows_reliable: "reliable dest \<Longrightarrow> fst (insert_rows dest q rows db) = None"
proof (induction rows arbitrary: db)
  case (Cons row rows)
  obtain x db1 where x: "de_exec dest q row db = (Inr x, db1)"
    using Cons.prems unfolding reliable_def by (metis prod.collapse)
  then show ?case using Cons by simp
qed simp

lemma applyRows_reliable:
  assumes "reliable dest"
  shows "fst (applyRows dest q rows db) = None"
proof -
  obtain db1 where b: "de_begin dest db = (None, db1)" using assms unfolding reliable_def by (metis prod.collapse)
  obtain db2 where i: "insert_rows dest q rows db1 = (None, db2)" using insert_rows_reliable [OF assms] by (metis prod.collapse)
  obtain db3 where "de_commit dest db2 = (None, db3)" using assms unfolding reliable_def by (metis prod.collapse)
  then show ?thesis using b i by (simp add: applyRows_def)
qed

lemma store_progress_no_faults: "fst (store_progress (no_faults tmp) path key p st) = None"
  by (simp add: store_progress_def SaveDataCheckpoint_def WritePrivateFileAtomic_def EnsurePrivateDir_def no_faults_def Let_def)

section \<open>The loop over the pages\<close>

lemma copy_page_spec:
  assumes s: "copy_setting env path tw columns keyColumns is lt (copied @ rest) view work effect"
    and p: "progress_at (te_codec env) keyColumns is copied p" and c: "cursor = cursor_after is copied"
    and v: "valid_data (cs_checkpoint st)" and n: "n > 0" and nd: "\<not> tc_Done p"
  shows "case copy_page env n path tw columns keyColumns i p cursor st of
      Finished None p' st' \<Rightarrow> (rest = [] \<and> p' = p \<and> st' = st) \<or>
        (rest \<noteq> [] \<and> length rest < n \<and> page_done env path tw columns keyColumns is view effect copied rest st p' st')
    | Finished (Some e) p' st' \<Rightarrow> \<not> smooth env \<and> cs_fs st' path = cs_fs st path \<and>
        (\<exists>ws. (ws = [] \<or> ws = take n rest) \<and>
          view (cs_db st') = rows_effect effect (buildInsertSQL (tw_database tw) (tw_table tw) columns) ws (view (cs_db st)))
    | NextPage p' cursor' st' \<Rightarrow> n \<le> length rest \<and> cursor' = cursor_after is (copied @ take n rest) \<and>
        page_done env path tw columns keyColumns is view effect copied (take n rest) st p' st'"
proof -
  let ?sql = "buildInsertSQL (tw_database tw) (tw_table tw) columns" and ?batch = "take n rest"
  have k: "keyset_table (te_query env) tw columns keyColumns is lt (copied @ rest)" "keyColumns \<noteq> []"
    and t: "transactional (te_dest env) view work effect (\<lambda>q. q = ?sql)"
    and ok: "\<forall>r \<in> set (copied @ rest). list_all (key_value_ok (te_codec env)) (key_values is r)"
    and tmp: "\<And>i. we_tmp (te_save env i) \<noteq> path" and size: "int (length (copied @ rest)) < 2 ^ 63"
    using s by (simp_all add: copy_setting_def)
  note fetch = fetch_page [OF k c, of n]
  show ?thesis
  proof (cases "te_ctx env i")
    case (Some e)
    then have "\<not> smooth env" by (auto simp: smooth_def)
    then show ?thesis using Some by (simp add: copy_page_def Let_def) (rule exI [of _ "[]"], simp)
  next
    case ctx: None
    show ?thesis
    proof (cases "?batch = []")
      case True
      then have "rest = []" using n by simp
      then show ?thesis using ctx fetch True by (simp add: copy_page_def Let_def)
    next
      case ne: False
      then have rest: "rest \<noteq> []" by auto
      obtain r db' where a: "applyRows (te_dest env) ?sql ?batch (cs_db st) = (r, db')" by force
      note av = applyRows_view [OF t refl a]
      show ?thesis
      proof (cases r)
        case (Some e)
        have fin: "copy_page env n path tw columns keyColumns i p cursor st =
            Finished (Some (CopyText (''apply batch for '' @ table_key tw @ '': '' @ e))) p (st\<lparr>cs_db := db'\<rparr>)"
          using ctx fetch ne a Some by (simp add: copy_page_def Let_def)
        from av Some have "view db' = view (cs_db st) \<or> view db' = rows_effect effect ?sql ?batch (view (cs_db st))" by simp
        then have "\<exists>ws. (ws = [] \<or> ws = ?batch) \<and> view db' = rows_effect effect ?sql ws (view (cs_db st))"
          by (elim disjE) (intro exI [of _ "[]"] exI [of _ ?batch]; simp)+
        moreover have "\<not> smooth env" using applyRows_reliable a Some unfolding smooth_def by (metis fst_conv option.distinct(1))
        ultimately show ?thesis by (simp add: fin)
      next
        case None
        then have vdb: "view db' = rows_effect effect ?sql ?batch (view (cs_db st))" using av by simp
        have "last (copied @ ?batch) \<in> set (copied @ rest)"
          using ne in_set_takeD [of "last ?batch" n rest] last_in_set [OF ne] by (auto simp: last_append)
        then have cok: "list_all (key_value_ok (te_codec env)) (cursor_after is (copied @ ?batch))"
          using ok ne unfolding cursor_after_def by simp
        have "is \<noteq> []" using k length_key_indexes [of columns keyColumns "is"] by (auto simp: keyset_table_def)
        from progress_next [OF cok p ne this, where now = "te_now env i"] obtain p1 where p1:
          "SetCursorValues (te_codec env) (p\<lparr>tc_RowsCopied := tc_RowsCopied p + int (length ?batch), tc_KeyColumns := keyColumns\<rparr>)
             (cursor_after is (copied @ ?batch)) = (None, p1)"
          "progress_at (te_codec env) keyColumns is (copied @ ?batch) (p1\<lparr>tc_UpdatedAt := te_now env i\<rparr>)"
          "tc_RowsCopied p1 = int (length (copied @ ?batch))" "\<not> tc_Done p1" using nd by blast
        let ?p2 = "p1\<lparr>tc_UpdatedAt := te_now env i\<rparr>" and ?st1 = "st\<lparr>cs_db := db'\<rparr>"
        obtain saveErr st2 where st2: "store_progress (te_save env i) path (table_key tw) ?p2 ?st1 = (saveErr, st2)" by force
        have i64: "is_int64 (tc_RowsCopied ?p2)" using p1(3) size by (simp add: is_int64_def)
        have v1: "valid_data (cs_checkpoint ?st1)" using v by simp
        note stored = store_progress_cases [OF st2 tmp v1 i64]
        have out: "copy_page env n path tw columns keyColumns i p cursor st =
            (case saveErr of Some e \<Rightarrow> Finished (Some (CopyText e)) ?p2 (count_batch (length ?batch) st2)
             | None \<Rightarrow> if length ?batch < n then Finished None ?p2 (count_batch (length ?batch) st2)
                else NextPage ?p2 (cursor_after is (copied @ ?batch)) (count_batch (length ?batch) st2))"
          using ctx fetch ne a None p1(1) st2 by (simp add: copy_page_def Let_def del: length_take split: option.split)
        show ?thesis
        proof (cases saveErr)
          case (Some e)
          then have "cs_fs (count_batch (length ?batch) st2) path = cs_fs st path"
            using stored(4) [of e] by (simp add: count_batch_def)
          moreover have "\<not> smooth env"
            using store_progress_no_faults st2 Some unfolding smooth_def by (metis fst_conv option.distinct(1))
          moreover have "view (cs_db (count_batch (length ?batch) st2)) = rows_effect effect ?sql ?batch (view (cs_db st))"
            using stored(1) vdb by (simp add: count_batch_def)
          ultimately show ?thesis unfolding out Some by auto
        next
          case saved: None
          have done': "page_done env path tw columns keyColumns is view effect copied ?batch st ?p2 (count_batch (length ?batch) st2)"
            using stored(1,2,5) stored(3) [OF saved] vdb p1(2,4) by (simp add: page_done_def count_batch_def)
          show ?thesis
          proof (cases "length ?batch < n")
            case True
            then have "?batch = rest" by simp
            then show ?thesis using done' rest True unfolding out saved by simp
          next
            case False
            then show ?thesis using done' unfolding out saved by simp
          qed
        qed
      qed
    qed
  qed
qed

text \<open>What the disk says about a table: the progress that a later run loads.\<close>

definition disk_at :: "text_codec \<Rightarrow> string \<Rightarrow> string \<Rightarrow> string list \<Rightarrow> nat list \<Rightarrow> goval list list \<Rightarrow> fs \<Rightarrow> bool" where
  "disk_at codec path key keyColumns is copied fs =
     (\<exists>cp p. LoadDataCheckpoint None path fs = Inr cp \<and> dc_Tables cp key = Some p \<and> \<not> tc_Done p \<and>
       progress_at codec keyColumns is copied p)"

lemma page_done_disk:
  "page_done env path tw columns keyColumns is view effect copied batch st p st' \<Longrightarrow>
   disk_at (te_codec env) path (table_key tw) keyColumns is (copied @ batch) (cs_fs st')"
  by (auto simp: page_done_def disk_at_def upgradeData_def upgradeTable_def progress_at_def Let_def)

lemma disk_at_cong: "fs path = fs' path \<Longrightarrow> disk_at codec path key keyColumns is copied fs = disk_at codec path key keyColumns is copied fs'"
  unfolding disk_at_def by (simp add: data_store.load_local [of fs path fs'])

lemma copy_pages_spec:
  assumes "copy_setting env path tw columns keyColumns is lt (copied @ rest) view work effect"
    and "progress_at (te_codec env) keyColumns is copied p" and "cursor = cursor_after is copied"
    and "valid_data (cs_checkpoint st)" and "\<not> tc_Done p" and "n > 0"
  shows "\<exists>r p' st' xs ws ys. copy_pages env n path tw columns keyColumns i p cursor st = Some (r, p', st') \<and>
    rest = xs @ ws @ ys \<and> length ws \<le> n \<and>
    view (cs_db st') = rows_effect effect (buildInsertSQL (tw_database tw) (tw_table tw) columns) (xs @ ws) (view (cs_db st)) \<and>
    (if xs = [] then cs_fs st' path = cs_fs st path
     else disk_at (te_codec env) path (table_key tw) keyColumns is (copied @ xs) (cs_fs st')) \<and>
    (smooth env \<longrightarrow> r = None) \<and>
    (r = None \<longrightarrow> ws = [] \<and> ys = [] \<and> progress_at (te_codec env) keyColumns is (copied @ rest) p' \<and> valid_data (cs_checkpoint st'))"
  using assms(1-5)
proof (induction "length rest" arbitrary: copied rest p cursor st i rule: less_induct)
  case less
  note prems = less.prems
  let ?sql = "buildInsertSQL (tw_database tw) (tw_table tw) columns"
  let ?page = "copy_page env n path tw columns keyColumns i p cursor st"
  note spec = copy_page_spec [OF prems(1-4) assms(6) prems(5), where i = i]
  show ?case
  proof (cases ?page)
    case (Finished r p' st')
    then have run: "copy_pages env n path tw columns keyColumns i p cursor st = Some (r, p', st')"
      by (subst copy_pages.simps) simp
    show ?thesis
    proof (cases r)
      case (Some e)
      then obtain ws where ws: "ws = [] \<or> ws = take n rest" "cs_fs st' path = cs_fs st path"
        "view (cs_db st') = rows_effect effect ?sql ws (view (cs_db st))" "\<not> smooth env"
        using spec Finished by auto
      then have "rest = [] @ ws @ drop (length ws) rest" "length ws \<le> n" by (auto simp: min_def)
      then show ?thesis
        using run ws Some by (intro exI [of _ r] exI [of _ p'] exI [of _ st'] exI [of _ "[]"] exI [of _ ws] exI conjI) auto
    next
      case None
      consider "rest = []" "p' = p" "st' = st"
        | "rest \<noteq> []" "page_done env path tw columns keyColumns is view effect copied rest st p' st'"
        using spec Finished None by (auto split: option.splits)
      then show ?thesis
      proof cases
        case 1
        then show ?thesis
          using run None prems by (intro exI [of _ r] exI [of _ p'] exI [of _ st'] exI [of _ "[]"] conjI) auto
      next
        case 2
        then show ?thesis
          using run None page_done_disk [OF 2(2)]
          by (intro exI [of _ r] exI [of _ p'] exI [of _ st'] exI [of _ rest] exI [of _ "[]"] conjI)
            (auto simp: page_done_def)
      qed
    qed
  next
    case (NextPage p1 cursor1 st1)
    let ?batch = "take n rest"
    have nxt: "n \<le> length rest" "cursor1 = cursor_after is (copied @ ?batch)"
      "page_done env path tw columns keyColumns is view effect copied ?batch st p1 st1"
      using spec NextPage by auto
    then have view1: "view (cs_db st1) = rows_effect effect ?sql ?batch (view (cs_db st))"
      and disk1: "disk_at (te_codec env) path (table_key tw) keyColumns is (copied @ ?batch) (cs_fs st1)"
      using page_done_disk [OF nxt(3)] by (simp_all add: page_done_def)
    have "length (drop n rest) < length rest" using nxt(1) assms(6) by simp
    moreover have "copy_setting env path tw columns keyColumns is lt ((copied @ ?batch) @ drop n rest) view work effect"
      using prems(1) by simp
    moreover have "progress_at (te_codec env) keyColumns is (copied @ ?batch) p1" "valid_data (cs_checkpoint st1)" "\<not> tc_Done p1"
      using nxt(3) by (auto simp: page_done_def)
    ultimately obtain r p' st' xs ws ys where rec:
      "copy_pages env n path tw columns keyColumns (i + 1) p1 cursor1 st1 = Some (r, p', st')"
      "drop n rest = xs @ ws @ ys" "length ws \<le> n"
      "view (cs_db st') = rows_effect effect ?sql (xs @ ws) (view (cs_db st1))"
      "if xs = [] then cs_fs st' path = cs_fs st1 path
       else disk_at (te_codec env) path (table_key tw) keyColumns is ((copied @ ?batch) @ xs) (cs_fs st')"
      "smooth env \<longrightarrow> r = None"
      "r = None \<longrightarrow> ws = [] \<and> ys = [] \<and> progress_at (te_codec env) keyColumns is ((copied @ ?batch) @ drop n rest) p' \<and>
         valid_data (cs_checkpoint st')"
      using less.hyps [of "drop n rest" "copied @ ?batch" p1 cursor1 st1 "i + 1"] nxt(2) by blast
    have run: "copy_pages env n path tw columns keyColumns i p cursor st = Some (r, p', st')"
      using rec(1) NextPage by (subst copy_pages.simps) simp
    have "?batch \<noteq> []" using nxt(1) assms(6) by auto
    moreover have "rest = (?batch @ xs) @ ws @ ys" using rec(2) by (metis append.assoc append_take_drop_id)
    moreover have "disk_at (te_codec env) path (table_key tw) keyColumns is (copied @ ?batch @ xs) (cs_fs st')"
      using rec(5) disk1 disk_at_cong [of "cs_fs st'" path "cs_fs st1"] by (cases "xs = []") auto
    ultimately show ?thesis
      using run rec(3,4,6,7) view1
      by (intro exI [of _ r] exI [of _ p'] exI [of _ st'] exI [of _ "?batch @ xs"] exI [of _ ws] exI [of _ ys] conjI) auto
  qed
qed


section \<open>A whole table\<close>

text \<open>The progress of a table in a checkpoint, as copyOneTable reads it.\<close>

definition progress_of :: "DataCheckpoint \<Rightarrow> tableWork \<Rightarrow> TableCheckpoint" where
  "progress_of cp tw = (case dc_Tables cp (table_key tw) of None \<Rightarrow> emptyTableCheckpoint | Some t \<Rightarrow> t)"

text \<open>The servers answer everything that precedes the first page.\<close>

definition table_ready :: "'db table_env \<Rightarrow> string list \<Rightarrow> string list \<Rightarrow> bool" where
  "table_ready env columns keyColumns =
     (te_pin env = None \<and> te_isolation env = None \<and> te_snapshot env = None \<and> te_columns env = Rows columns \<and> columns \<noteq> [] \<and>
      listStableKeyColumns (te_stats env) (te_notNull env) = Inr keyColumns \<and> te_pinDest env = None \<and> te_fkOff env = None)"

lemma start_cursor_at:
  assumes "progress_at (te_codec env) keyColumns is copied p" and "length is = length keyColumns" and "keyColumns \<noteq> []"
  shows "start_cursor env opts tw keyColumns p db = Inr (p, cursor_after is copied)"
proof (cases "copied = []")
  case True
  then show ?thesis
    using assms(1) by (simp add: start_cursor_def checkpointCursorArgs_def progress_at_def cursor_after_def)
next
  case False
  then have "cursor_after is copied \<noteq> []" "length (cursor_after is copied) = length keyColumns"
    using assms(2,3) by (auto simp: cursor_after_def key_values_def)
  then show ?thesis
    using assms(1) False by (simp add: start_cursor_def checkpointCursorArgs_def progress_at_def)
qed

lemma complete_table_cases:
  assumes "complete_table env path (table_key tw) p st = (r, st')" and "we_tmp (te_saveDone env) \<noteq> path"
    and "valid_data (cs_checkpoint st)" and "progress_at (te_codec env) keyColumns is copied p" and "is_int64 (int (length copied))"
  shows "cs_db st' = cs_db st" and "r \<noteq> None \<Longrightarrow> cs_fs st' path = cs_fs st path"
    and "r = None \<Longrightarrow> \<exists>cp p'. LoadDataCheckpoint None path (cs_fs st') = Inr cp \<and> dc_Tables cp (table_key tw) = Some p' \<and>
      tc_Done p' \<and> progress_at (te_codec env) keyColumns is copied p'"
    and "smooth env \<Longrightarrow> r = None"
    and "r = None \<Longrightarrow> LoadDataCheckpoint None path (cs_fs st') = Inr (upgradeData (cs_checkpoint st'))" "valid_data (cs_checkpoint st')"
proof -
  let ?p = "p\<lparr>tc_Done := True, tc_UpdatedAt := te_finish env\<rparr>"
  obtain e st1 where s: "store_progress (te_saveDone env) path (table_key tw) ?p st = (e, st1)" by force
  have pr: "progress_at (te_codec env) keyColumns is copied ?p"
    using assms(4) by (auto simp: progress_at_def CursorValues_def split: if_splits)
  then have "is_int64 (tc_RowsCopied ?p)" using assms(5) by (simp add: progress_at_def)
  note stored = store_progress_cases [OF s assms(2,3) this]
  have r: "r = map_option CopyText e" "cs_fs st' = cs_fs st1" "cs_db st' = cs_db st1" "cs_checkpoint st' = cs_checkpoint st1"
    using assms(1) s by (auto simp: complete_table_def)
  show "r = None \<Longrightarrow> LoadDataCheckpoint None path (cs_fs st') = Inr (upgradeData (cs_checkpoint st'))"
    "valid_data (cs_checkpoint st')"
    using r stored(3,5) by simp_all
  show "cs_db st' = cs_db st" using r(3) stored(1) by simp
  show "smooth env \<Longrightarrow> r = None" using store_progress_no_faults s r(1) unfolding smooth_def by (metis fst_conv option.map(1))
  show "r \<noteq> None \<Longrightarrow> cs_fs st' path = cs_fs st path" using r stored(4) by auto
  show "\<exists>cp p'. LoadDataCheckpoint None path (cs_fs st') = Inr cp \<and> dc_Tables cp (table_key tw) = Some p' \<and>
      tc_Done p' \<and> progress_at (te_codec env) keyColumns is copied p'" if "r = None"
    using that r(1,2) stored(2,3) pr
    by (auto simp: upgradeData_def upgradeTable_def progress_at_def Let_def)
qed

lemma copyOneTable_pages:
  assumes ready: "table_ready env columns keyColumns" and "keyColumns \<noteq> []" and nd: "\<not> tc_Done (progress_of (cs_checkpoint st) tw)"
    and start: "start_cursor env opts tw keyColumns (progress_of (cs_checkpoint st) tw) (cs_db st) = Inr (p, cursor)"
    and pages: "copy_pages env (nat (co_ChunkSize opts)) path tw columns keyColumns 0 p cursor st = Some (r, p', st1)"
  shows "copyOneTable env opts path tw st =
    (case r of Some e \<Rightarrow> Some (Some e, st1) | None \<Rightarrow> Some (complete_table env path (table_key tw) p' st1))"
proof -
  have e: "te_pin env = None" "te_isolation env = None" "te_snapshot env = None" "listTableColumns (te_columns env) = Inr columns"
    "listStableKeyColumns (te_stats env) (te_notNull env) = Inr keyColumns" "te_pinDest env = None" "te_fkOff env = None"
    and ne: "(columns = []) = False" "(keyColumns = []) = False"
    using ready assms(2) by (simp_all add: table_ready_def listTableColumns_def)
  show ?thesis
    unfolding copyOneTable_def Let_def progress_of_def [symmetric]
    by (simp only: nd e ne start pages if_False option.case sum.case prod.case split: option.split)
qed

lemma copyOneTable_spec:
  assumes s: "copy_setting env path tw columns keyColumns is lt (copied @ rest) view work effect"
    and ready: "table_ready env columns keyColumns" and p: "progress_at (te_codec env) keyColumns is copied (progress_of (cs_checkpoint st) tw)"
    and nd: "\<not> tc_Done (progress_of (cs_checkpoint st) tw)" and v: "valid_data (cs_checkpoint st)" and n: "co_ChunkSize opts \<ge> 1"
    and tmp: "we_tmp (te_saveDone env) \<noteq> path"
  shows "\<exists>r st' xs ws ys. copyOneTable env opts path tw st = Some (r, st') \<and>
    rest = xs @ ws @ ys \<and> int (length ws) \<le> co_ChunkSize opts \<and>
    view (cs_db st') = rows_effect effect (buildInsertSQL (tw_database tw) (tw_table tw) columns) (xs @ ws) (view (cs_db st)) \<and>
    (smooth env \<longrightarrow> r = None) \<and>
    (r \<noteq> None \<and> xs = [] \<longrightarrow> cs_fs st' path = cs_fs st path) \<and>
    (r \<noteq> None \<and> xs \<noteq> [] \<longrightarrow> disk_at (te_codec env) path (table_key tw) keyColumns is (copied @ xs) (cs_fs st')) \<and>
    (r = None \<longrightarrow> ws = [] \<and> ys = [] \<and> valid_data (cs_checkpoint st') \<and>
       LoadDataCheckpoint None path (cs_fs st') = Inr (upgradeData (cs_checkpoint st')) \<and>
       (\<exists>cp p'. LoadDataCheckpoint None path (cs_fs st') = Inr cp \<and> dc_Tables cp (table_key tw) = Some p' \<and>
          tc_Done p' \<and> progress_at (te_codec env) keyColumns is (copied @ rest) p'))"
proof -
  let ?p = "progress_of (cs_checkpoint st) tw" and ?n = "nat (co_ChunkSize opts)"
  let ?sql = "buildInsertSQL (tw_database tw) (tw_table tw) columns"
  have k: "key_indexes columns keyColumns = Inr is" "keyColumns \<noteq> []" using s by (auto simp: copy_setting_def keyset_table_def)
  have start: "start_cursor env opts tw keyColumns ?p (cs_db st) = Inr (?p, cursor_after is copied)"
    by (rule start_cursor_at [OF p length_key_indexes [OF k(1)] k(2)])
  have n0: "?n > 0" using n by simp
  obtain r p' st1 xs ws ys where run:
    "copy_pages env ?n path tw columns keyColumns 0 ?p (cursor_after is copied) st = Some (r, p', st1)"
    "rest = xs @ ws @ ys" "length ws \<le> ?n" "view (cs_db st1) = rows_effect effect ?sql (xs @ ws) (view (cs_db st))"
    "if xs = [] then cs_fs st1 path = cs_fs st path
     else disk_at (te_codec env) path (table_key tw) keyColumns is (copied @ xs) (cs_fs st1)"
    "smooth env \<longrightarrow> r = None"
    "r = None \<longrightarrow> ws = [] \<and> ys = [] \<and> progress_at (te_codec env) keyColumns is (copied @ rest) p' \<and> valid_data (cs_checkpoint st1)"
    using copy_pages_spec [OF s p refl v nd n0, where i = 0] by (elim exE conjE) (rule that)
  have len: "int (length ws) \<le> co_ChunkSize opts" using run(3) n by linarith
  have whole: "copyOneTable env opts path tw st =
      (case r of Some e \<Rightarrow> Some (Some e, st1) | None \<Rightarrow> Some (complete_table env path (table_key tw) p' st1))"
    by (rule copyOneTable_pages [OF ready k(2) nd start run(1)])
  show ?thesis
  proof (cases r)
    case (Some e)
    then show ?thesis
      using whole run len by (intro exI [of _ "Some e"] exI [of _ st1] exI [of _ xs] exI [of _ ws] exI [of _ ys] conjI) auto
  next
    case None
    then have fin: "ws = []" "ys = []" "progress_at (te_codec env) keyColumns is (copied @ rest) p'" "valid_data (cs_checkpoint st1)"
      using run(7) by auto
    obtain r' st' where c: "complete_table env path (table_key tw) p' st1 = (r', st')" by force
    have "is_int64 (int (length (copied @ rest)))" using s by (simp add: copy_setting_def is_int64_def)
    note done' = complete_table_cases [OF c tmp fin(4,3) this]
    have disk: "r' \<noteq> None \<and> xs \<noteq> [] \<longrightarrow> disk_at (te_codec env) path (table_key tw) keyColumns is (copied @ xs) (cs_fs st')"
      "r' \<noteq> None \<and> xs = [] \<longrightarrow> cs_fs st' path = cs_fs st path"
      using run(5) done'(2) disk_at_cong [of "cs_fs st'" path "cs_fs st1"] by auto
    show ?thesis
      using whole run(2,4) len fin(1,2) None c done'(1,3-6) disk
      by (intro exI [of _ r'] exI [of _ st'] exI [of _ xs] exI [of _ "[]"] exI [of _ "[]"] conjI) auto
  qed
qed


section \<open>An example\<close>

text \<open>Three rows with the keys 1, 2 and 3, copied in pages of two; ctx says when the run is cancelled.\<close>

definition example_work :: tableWork where
  "example_work = \<lparr>tw_database = ''d'', tw_table = ''t''\<rparr>"

fun key_less :: "goval list \<Rightarrow> goval list \<Rightarrow> bool" where
  "key_less [VInt x] [VInt y] = (x < y)"
| "key_less _ _ = False"

definition example_rows :: "goval list list" where
  "example_rows = [[VInt 1], [VInt 2], [VInt 3]]"

definition example_query :: "string \<Rightarrow> goval list \<Rightarrow> goval list query_result" where
  "example_query q args =
     (case rev args of
        VInt n # c \<Rightarrow> Rows (take (nat n)
          (filter (\<lambda>r. placeholders False q = 1 \<or> key_less (rev c) (key_values [0] r)) example_rows))
      | _ \<Rightarrow> QueryError ''Error 1210'')"

definition example_table_env :: "(nat \<Rightarrow> string option) \<Rightarrow> (statement_log \<times> statement_log) table_env" where
  "example_table_env ctx = \<lparr>te_pin = None, te_isolation = None, te_snapshot = None, te_columns = Rows [''id''],
     te_stats = Rows [(''PRIMARY'', 0, Some ''id'', 1)], te_notNull = Rows [''id''],
     te_destRows = (\<lambda>db q. Rows []), te_pinDest = None, te_fkOff = None, te_ctx = ctx, te_query = example_query,
     te_dest = log_destination, te_now = (\<lambda>i. 0), te_save = (\<lambda>i. no_faults ''s/c.tmp''), te_codec = plain_codec,
     te_finish = 0, te_saveDone = no_faults ''s/c.tmp''\<rparr>"

definition example_copy_options :: CopyOptions where
  "example_copy_options = \<lparr>co_IncludeDatabases = [], co_ExcludeDatabases = [], co_ChunkSize = 2, co_Resume = True,
     co_RequireEmptyDest = False\<rparr>"

definition empty_state :: "(statement_log \<times> statement_log) copy_state" where
  "empty_state = \<lparr>cs_fs = Map.empty, cs_db = ([], []), cs_checkpoint = NewDataCheckpoint, cs_summary = emptySummary\<rparr>"

lemma example_keyset: "keyset_table example_query tw [''id''] [''id''] [0] key_less example_rows"
  unfolding keyset_table_def
proof (intro conjI allI impI)
  show "key_indexes [''id''] [''id''] = Inr [0]" by simp
  show "\<And>a b. key_less a b \<Longrightarrow> \<not> key_less b a" by (erule key_less.elims(2)) simp
  show "sorted_wrt (\<lambda>r r'. key_less (key_values [0] r) (key_values [0] r')) example_rows"
    by (simp add: example_rows_def key_values_def)
qed (simp_all add: example_query_def placeholders_keyset)

lemma example_setting:
  assumes "path \<noteq> ''s/c.tmp''"
  shows "copy_setting (example_table_env ctx) path tw [''id''] [''id''] [0] key_less example_rows fst snd log_effect"
proof -
  have "transactional log_destination fst snd log_effect (\<lambda>q. q = buildInsertSQL (tw_database tw) (tw_table tw) [''id''])"
    by (auto simp: transactional_def log_destination_def)
  then show ?thesis
    using example_keyset assms
    by (auto simp: copy_setting_def example_table_env_def example_rows_def key_values_def key_value_ok_def no_faults_def)
qed

lemma example_ready: "table_ready (example_table_env ctx) [''id''] [''id'']"
  by (simp add: table_ready_def example_table_env_def listStableKeyColumns_def listNotNullColumns_def rows_or_error_def
      no_indexes_def)

lemma example_state_facts:
  "progress_at codec [''id''] [0] [] (progress_of (cs_checkpoint empty_state) example_work)"
  "\<not> tc_Done (progress_of (cs_checkpoint empty_state) example_work)" "valid_data (cs_checkpoint empty_state)"
  "co_ChunkSize example_copy_options \<ge> 1" "we_tmp (te_saveDone (example_table_env ctx)) \<noteq> ''s/c''"
proof -
  have "progress_of (cs_checkpoint empty_state) example_work = emptyTableCheckpoint"
    by (simp add: progress_of_def empty_state_def NewDataCheckpoint_def)
  then show "progress_at codec [''id''] [0] [] (progress_of (cs_checkpoint empty_state) example_work)"
    "\<not> tc_Done (progress_of (cs_checkpoint empty_state) example_work)"
    by (simp_all add: progress_at_new) (simp add: emptyTableCheckpoint_def)
qed (simp_all add: empty_state_def NewDataCheckpoint_def valid_data_def valid_tables_def is_int64_def checkpointVersion_def
    example_copy_options_def example_table_env_def no_faults_def)

lemma example_fields:
  "te_ctx (example_table_env ctx) = ctx" "te_query (example_table_env ctx) = example_query"
  "te_dest (example_table_env ctx) = log_destination" "te_now (example_table_env ctx) = (\<lambda>i. 0)"
  "te_save (example_table_env ctx) = (\<lambda>i. no_faults ''s/c.tmp'')" "te_codec (example_table_env ctx) = plain_codec"
  by (simp_all add: example_table_env_def)

lemma example_smooth: "smooth (example_table_env (\<lambda>i. None))"
  using log_destination_reliable by (auto simp: smooth_def example_table_env_def)

section \<open>Properties of the copy of a table\<close>

text \<open>
  Claim C8. The copy of a table always ends, whatever the servers, the disk or the clock do on the
  way. When it ends without an error, every row of the source's snapshot that was not yet copied
  has been written exactly once, in the order of the key, and the checkpoint on disk marks the
  table as done with all rows counted. When nothing fails it does end without an error.
\<close>

theorem copyOneTable_copies_all:
  assumes "copy_setting env path tw columns keyColumns is lt (copied @ rest) view work effect"
    and "table_ready env columns keyColumns" and "progress_at (te_codec env) keyColumns is copied (progress_of (cs_checkpoint st) tw)"
    and "\<not> tc_Done (progress_of (cs_checkpoint st) tw)" and "valid_data (cs_checkpoint st)" and "co_ChunkSize opts \<ge> 1"
    and "we_tmp (te_saveDone env) \<noteq> path"
  shows "\<exists>r st'. copyOneTable env opts path tw st = Some (r, st') \<and> (smooth env \<longrightarrow> r = None) \<and>
    (r = None \<longrightarrow>
       view (cs_db st') = rows_effect effect (buildInsertSQL (tw_database tw) (tw_table tw) columns) rest (view (cs_db st)) \<and>
       (\<exists>cp p. LoadDataCheckpoint None path (cs_fs st') = Inr cp \<and> dc_Tables cp (table_key tw) = Some p \<and>
          tc_Done p \<and> tc_RowsCopied p = int (length (copied @ rest))))"
proof -
  from copyOneTable_spec [OF assms] obtain r st' xs ws ys where run: "copyOneTable env opts path tw st = Some (r, st')"
    "rest = xs @ ws @ ys" "smooth env \<longrightarrow> r = None"
    "view (cs_db st') = rows_effect effect (buildInsertSQL (tw_database tw) (tw_table tw) columns) (xs @ ws) (view (cs_db st))"
    "r = None \<longrightarrow> ws = [] \<and> ys = [] \<and> valid_data (cs_checkpoint st') \<and>
       LoadDataCheckpoint None path (cs_fs st') = Inr (upgradeData (cs_checkpoint st')) \<and>
       (\<exists>cp p'. LoadDataCheckpoint None path (cs_fs st') = Inr cp \<and> dc_Tables cp (table_key tw) = Some p' \<and>
          tc_Done p' \<and> progress_at (te_codec env) keyColumns is (copied @ rest) p')"
    by (elim exE conjE) (rule that)
  then show ?thesis by (intro exI [of _ r] exI [of _ st'] conjI) (auto simp: progress_at_def)
qed

theorem copyOneTable_copies_all_witness:
  "\<exists>st'. copyOneTable (example_table_env (\<lambda>i. None)) example_copy_options ''s/c'' example_work empty_state = Some (None, st') \<and>
     map snd (fst (cs_db st')) = [[VInt 1], [VInt 2], [VInt 3]] \<and>
     (\<exists>cp p. LoadDataCheckpoint None ''s/c'' (cs_fs st') = Inr cp \<and> dc_Tables cp ''d.t'' = Some p \<and> tc_Done p \<and> tc_RowsCopied p = 3)"
proof -
  have "copy_setting (example_table_env (\<lambda>i. None)) ''s/c'' example_work [''id''] [''id''] [0] key_less ([] @ example_rows)
      fst snd log_effect"
    using example_setting by simp
  from copyOneTable_copies_all [OF this example_ready example_state_facts] example_smooth
  show ?thesis by (auto simp: rows_effect_def log_effect_def example_rows_def empty_state_def example_work_def table_key_def)
qed

text \<open>
  Claim C7. A copy that was stopped by any failure and is resumed from what it left on disk misses
  no row: when the second run ends without an error the destination has every row of the snapshot.
  What may be written twice is at most one page, the one that was being committed or whose
  checkpoint could not be saved when the first run stopped.
\<close>

theorem interrupted_copy_resumes:
  assumes s: "copy_setting env path tw columns keyColumns is lt rows view work effect"
    and s': "copy_setting env' path tw columns keyColumns is lt rows view work effect"
    and ready: "table_ready env columns keyColumns" "table_ready env' columns keyColumns" and codec: "te_codec env' = te_codec env"
    and fresh: "dc_Tables (cs_checkpoint st) (table_key tw) = None" and disk: "LoadDataCheckpoint None path (cs_fs st) = Inr (cs_checkpoint st)"
    and v: "valid_data (cs_checkpoint st)" and n: "co_ChunkSize opts \<ge> 1"
    and tmp: "we_tmp (te_saveDone env) \<noteq> path" "we_tmp (te_saveDone env') \<noteq> path"
    and first: "copyOneTable env opts path tw st = Some (Some e, st1)"
    and load: "LoadDataCheckpoint None path (cs_fs st1) = Inr (cs_checkpoint st2)" and v2: "valid_data (cs_checkpoint st2)"
    and st2: "view (cs_db st2) = view (cs_db st1)"
    and second: "copyOneTable env' opts path tw st2 = Some (None, st3)"
  shows "\<exists>xs ws ys. rows = xs @ ws @ ys \<and> int (length ws) \<le> co_ChunkSize opts \<and>
    view (cs_db st3) = rows_effect effect (buildInsertSQL (tw_database tw) (tw_table tw) columns) (xs @ ws @ ws @ ys) (view (cs_db st))"
proof -
  let ?sql = "buildInsertSQL (tw_database tw) (tw_table tw) columns"
  have new: "progress_of (cs_checkpoint st) tw = emptyTableCheckpoint" using fresh by (simp add: progress_of_def)
  have p0: "progress_at (te_codec env) keyColumns is [] (progress_of (cs_checkpoint st) tw)"
    "\<not> tc_Done (progress_of (cs_checkpoint st) tw)"
    unfolding new by (rule progress_at_new) (simp add: emptyTableCheckpoint_def)
  have "copy_setting env path tw columns keyColumns is lt ([] @ rows) view work effect" using s by simp
  from copyOneTable_spec [OF this ready(1) p0 v n tmp(1)] first
  obtain xs ws ys where one: "rows = xs @ ws @ ys" "int (length ws) \<le> co_ChunkSize opts"
    "view (cs_db st1) = rows_effect effect ?sql (xs @ ws) (view (cs_db st))"
    "xs = [] \<longrightarrow> cs_fs st1 path = cs_fs st path"
    "xs \<noteq> [] \<longrightarrow> disk_at (te_codec env) path (table_key tw) keyColumns is xs (cs_fs st1)"
    by auto
  have p1: "progress_at (te_codec env') keyColumns is xs (progress_of (cs_checkpoint st2) tw)"
    "\<not> tc_Done (progress_of (cs_checkpoint st2) tw)"
  proof -
    have "progress_at (te_codec env) keyColumns is xs (progress_of (cs_checkpoint st2) tw) \<and> \<not> tc_Done (progress_of (cs_checkpoint st2) tw)"
    proof (cases "xs = []")
      case True
      then have "cs_checkpoint st2 = cs_checkpoint st"
        using one(4) disk load data_store.load_local [of "cs_fs st1" path "cs_fs st"] by simp
      then show ?thesis using p0 True by simp
    next
      case False
      then show ?thesis using one(5) load by (auto simp: disk_at_def progress_of_def)
    qed
    then show "progress_at (te_codec env') keyColumns is xs (progress_of (cs_checkpoint st2) tw)"
      "\<not> tc_Done (progress_of (cs_checkpoint st2) tw)" by (simp_all add: codec)
  qed
  have "copy_setting env' path tw columns keyColumns is lt (xs @ (ws @ ys)) view work effect" using s' one(1) by simp
  from copyOneTable_spec [OF this ready(2) p1 v2 n tmp(2)] second
  have "view (cs_db st3) = rows_effect effect ?sql (ws @ ys) (view (cs_db st2))" by auto
  then show ?thesis using one(1-3) st2 by (intro exI [of _ xs] exI [of _ ws] exI [of _ ys]) simp
qed

theorem interrupted_copy_resumes_witness:
  "\<exists>st1 st2 st3 e xs ws ys.
     copyOneTable (example_table_env (\<lambda>i. if i = 0 then None else Some ''context canceled'')) example_copy_options ''s/c''
       example_work empty_state = Some (Some e, st1) \<and>
     LoadDataCheckpoint None ''s/c'' (cs_fs st1) = Inr (cs_checkpoint st2) \<and>
     copyOneTable (example_table_env (\<lambda>i. None)) example_copy_options ''s/c'' example_work st2 = Some (None, st3) \<and>
     example_rows = xs @ ws @ ys \<and> map snd (fst (cs_db st3)) = xs @ ws @ ws @ ys"
proof -
  let ?stop = "example_table_env (\<lambda>i. if i = 0 then None else Some ''context canceled'')"
    and ?go = "example_table_env (\<lambda>i. None)" and ?rows = "example_rows"
  have setting: "copy_setting (example_table_env ctx) ''s/c'' example_work [''id''] [''id''] [0] key_less ([] @ ?rows) fst snd log_effect"
    for ctx using example_setting by simp
  obtain p1 c1 st1 where page: "copy_page ?go 2 ''s/c'' example_work [''id''] [''id''] 0 emptyTableCheckpoint [] empty_state
      = NextPage p1 c1 st1"
    and done': "page_done ?go ''s/c'' example_work [''id''] [''id''] [0] fst log_effect [] (take 2 ?rows) empty_state p1 st1"
  proof -
    have e: "progress_at (te_codec ?go) [''id''] [0] [] emptyTableCheckpoint" "\<not> tc_Done emptyTableCheckpoint"
      by (rule progress_at_new) (simp add: emptyTableCheckpoint_def)
    from copy_page_spec [OF setting e(1) refl example_state_facts(3) _ e(2), of 2 0] example_smooth that
    show ?thesis
      by (auto simp: cursor_after_def example_rows_def split: page_outcome.splits option.splits)
  qed
  have same: "copy_page ?stop 2 ''s/c'' example_work [''id''] [''id''] 0 emptyTableCheckpoint [] empty_state
      = copy_page ?go 2 ''s/c'' example_work [''id''] [''id''] 0 emptyTableCheckpoint [] empty_state"
    by (simp only: copy_page_def example_fields if_True refl)
  have stop: "copy_page ?stop 2 ''s/c'' example_work [''id''] [''id''] 1 p1 c1 st1
      = Finished (Some (CopyText ''context canceled'')) p1 st1"
    by (simp add: copy_page_def example_fields Let_def)
  have pages: "copy_pages ?stop 2 ''s/c'' example_work [''id''] [''id''] 0 emptyTableCheckpoint [] empty_state
      = Some (Some (CopyText ''context canceled''), p1, st1)"
    using page same stop by (simp add: copy_pages.simps)
  have new: "progress_of (cs_checkpoint empty_state) example_work = emptyTableCheckpoint"
    by (simp add: progress_of_def empty_state_def NewDataCheckpoint_def)
  have n2: "nat (co_ChunkSize example_copy_options) = 2" by (simp add: example_copy_options_def)
  have start: "start_cursor ?stop example_copy_options example_work [''id''] emptyTableCheckpoint (cs_db empty_state)
      = Inr (emptyTableCheckpoint, [])"
    using start_cursor_at [of ?stop "[''id'']" "[0]" "[]" emptyTableCheckpoint] progress_at_new by (simp add: cursor_after_def)
  have first: "copyOneTable ?stop example_copy_options ''s/c'' example_work empty_state = Some (Some (CopyText ''context canceled''), st1)"
    using copyOneTable_pages [of ?stop "[''id'']" "[''id'']" empty_state example_work example_copy_options] example_ready
      example_state_facts(2) start pages unfolding n2 new by simp
  let ?st2 = "st1\<lparr>cs_checkpoint := upgradeData (cs_checkpoint st1)\<rparr>"
  have load: "LoadDataCheckpoint None ''s/c'' (cs_fs st1) = Inr (cs_checkpoint ?st2)" using done' by (simp add: page_done_def)
  have "valid_data (cs_checkpoint st1)" using done' unfolding page_done_def by blast
  then have v2: "valid_data (cs_checkpoint ?st2)" by (simp add: valid_data_upgrade)
  obtain st3 where second: "copyOneTable ?go example_copy_options ''s/c'' example_work ?st2 = Some (None, st3)"
  proof -
    have "progress_at (te_codec ?go) [''id''] [0] (take 2 ?rows) (progress_of (cs_checkpoint ?st2) example_work)"
      "\<not> tc_Done (progress_of (cs_checkpoint ?st2) example_work)"
      using page_done_disk [OF done'] load by (auto simp: disk_at_def progress_of_def)
    moreover have "copy_setting ?go ''s/c'' example_work [''id''] [''id''] [0] key_less (take 2 ?rows @ drop 2 ?rows) fst snd log_effect"
      using example_setting by simp
    ultimately show ?thesis
      using copyOneTable_spec [OF _ example_ready _ _ v2 example_state_facts(4,5)] example_smooth that by blast
  qed
  have init: "LoadDataCheckpoint None ''s/c'' (cs_fs empty_state) = Inr (cs_checkpoint empty_state)"
    "dc_Tables (cs_checkpoint empty_state) (table_key example_work) = None" and path: "''s/c'' \<noteq> ''s/c.tmp''"
    by (simp_all add: empty_state_def NewDataCheckpoint_def LoadDataCheckpoint_def load_record_def)
  have "\<exists>xs ws ys. example_rows = xs @ ws @ ys \<and> int (length ws) \<le> co_ChunkSize example_copy_options \<and>
    fst (cs_db st3) = rows_effect log_effect (buildInsertSQL ''d'' ''t'' [''id'']) (xs @ ws @ ws @ ys) (fst (cs_db empty_state))"
    using interrupted_copy_resumes [OF example_setting [OF path] example_setting [OF path] example_ready example_ready _ init(2,1)
        example_state_facts(3-5) example_state_facts(5) first load v2 _ second]
    by (simp add: example_fields example_work_def)
  moreover have "map snd (rows_effect log_effect q rows c) = map snd c @ rows" for q rows c
    by (induction rows rule: rev_induct) (simp_all add: rows_effect_def log_effect_def)
  ultimately obtain xs ws ys where "example_rows = xs @ ws @ ys" "map snd (fst (cs_db st3)) = xs @ ws @ ws @ ys"
    by (auto simp: empty_state_def)
  then show ?thesis
    using first load second
    by (intro exI [of _ st1] exI [of _ ?st2] exI [of _ st3] exI [of _ "CopyText ''context canceled''"] exI [of _ xs]
        exI [of _ ws] exI [of _ ys] conjI)
qed

section \<open>A page whose checkpoint was not saved\<close>

text \<open>A server with a key refuses a row that its table already holds.\<close>

definition refuses_duplicates ::
  "'db destination \<Rightarrow> ('db \<Rightarrow> 'c) \<Rightarrow> string \<Rightarrow> ('c \<Rightarrow> goval list set) \<Rightarrow> bool" where
  "refuses_duplicates dest work insertSQL stored =
     (\<forall>db row. row \<in> stored (work db) \<longrightarrow> (\<exists>e. fst (de_exec dest insertSQL row db) = Inl e))"

lemma applyRows_refused:
  assumes t: "transactional dest view work effect dml" and q: "dml q" and d: "refuses_duplicates dest work q stored"
    and row: "row \<in> stored (view db)"
  shows "\<exists>e db'. applyRows dest q (row # rows) db = (Some e, db') \<and> view db' = view db"
proof -
  obtain r db1 where b: "de_begin dest db = (r, db1)" by force
  note at_begin = transactional_begin [OF t b]
  show ?thesis
  proof (cases r)
    case (Some e)
    then show ?thesis using b at_begin by (auto simp: applyRows_def)
  next
    case None
    then have "row \<in> stored (work db1)" using at_begin row by simp
    then obtain e db2 where x: "de_exec dest q row db1 = (Inl e, db2)"
      using d unfolding refuses_duplicates_def by (metis prod.collapse)
    have "view (de_rollback dest db2) = view db"
      using transactional_exec(1) [OF t q x] transactional_rollback [OF t] at_begin by simp
    then show ?thesis using b x None by (simp add: applyRows_def)
  qed
qed

text \<open>
  A run may stop after it has committed a page and before the checkpoint of that page is
  on disk: the process is killed, or the state file cannot be written. On a destination with a key
  the copy of that table can then not be resumed. Every later run starts with the same page, is
  refused its first row, and leaves destination and checkpoint as they were.
\<close>

theorem unsaved_page_blocks_resume:
  assumes s: "copy_setting env path tw columns keyColumns is lt (copied @ row # rest) view work effect"
    and ready: "table_ready env columns keyColumns" and p: "progress_at (te_codec env) keyColumns is copied (progress_of (cs_checkpoint st) tw)"
    and nd: "\<not> tc_Done (progress_of (cs_checkpoint st) tw)" and n: "co_ChunkSize opts \<ge> 1"
    and d: "refuses_duplicates (te_dest env) work (buildInsertSQL (tw_database tw) (tw_table tw) columns) stored"
    and row: "row \<in> stored (view (cs_db st))"
  shows "\<exists>e st'. copyOneTable env opts path tw st = Some (Some e, st') \<and> view (cs_db st') = view (cs_db st) \<and>
    cs_fs st' = cs_fs st \<and> cs_checkpoint st' = cs_checkpoint st"
proof -
  let ?p = "progress_of (cs_checkpoint st) tw" and ?n = "nat (co_ChunkSize opts)" and ?cursor = "cursor_after is copied"
  have k: "keyset_table (te_query env) tw columns keyColumns is lt (copied @ row # rest)" "keyColumns \<noteq> []"
    and t: "transactional (te_dest env) view work effect (\<lambda>q. q = buildInsertSQL (tw_database tw) (tw_table tw) columns)"
    using s by (simp_all add: copy_setting_def)
  have "key_indexes columns keyColumns = Inr is" using k(1) unfolding keyset_table_def by blast
  note len = length_key_indexes [OF this]
  obtain m where m: "take ?n (row # rest) = row # take m rest" using n by (cases ?n) auto
  from applyRows_refused [OF t refl d row] obtain e1 db1 where a:
    "applyRows (te_dest env) (buildInsertSQL (tw_database tw) (tw_table tw) columns) (row # take m rest) (cs_db st) = (Some e1, db1)"
    "view db1 = view (cs_db st)" by blast
  have "\<exists>e p' st'. copy_page env ?n path tw columns keyColumns 0 ?p ?cursor st = Finished (Some e) p' st' \<and>
      view (cs_db st') = view (cs_db st) \<and> cs_fs st' = cs_fs st \<and> cs_checkpoint st' = cs_checkpoint st"
    using fetch_page [OF k refl, of ?n] a unfolding m
    by (cases "te_ctx env 0") (simp_all add: copy_page_def Let_def)
  then obtain e p' st' where page: "copy_page env ?n path tw columns keyColumns 0 ?p ?cursor st = Finished (Some e) p' st'"
    and st': "view (cs_db st') = view (cs_db st)" "cs_fs st' = cs_fs st" "cs_checkpoint st' = cs_checkpoint st" by blast
  have "copy_pages env ?n path tw columns keyColumns 0 ?p ?cursor st = Some (Some e, p', st')"
    using page by (simp add: copy_pages.simps)
  from copyOneTable_pages [OF ready k(2) nd start_cursor_at [OF p len k(2)] this] st' show ?thesis by auto
qed

text \<open>The table of the example on a server that refuses to insert a row twice.\<close>

definition keyed_destination :: "(statement_log \<times> statement_log) destination" where
  "keyed_destination = log_destination\<lparr>de_exec := (\<lambda>q args (c, w).
     if args \<in> snd ` set w then (Inl (MySQLError 1062 ''Duplicate entry'' ''Duplicate entry''), c, w)
     else (Inr (RowsAffected 1), c, log_effect q args w))\<rparr>"

theorem unsaved_page_blocks_resume_witness:
  "\<exists>e st'. copyOneTable ((example_table_env (\<lambda>i. None))\<lparr>te_dest := keyed_destination\<rparr>) example_copy_options ''s/c'' example_work
       (empty_state\<lparr>cs_db := ([(''INSERT'', [VInt 1])], [])\<rparr>) = Some (Some e, st') \<and>
     fst (cs_db st') = [(''INSERT'', [VInt 1])]"
proof -
  let ?env = "(example_table_env (\<lambda>i. None))\<lparr>te_dest := keyed_destination\<rparr>"
    and ?st = "empty_state\<lparr>cs_db := ([(''INSERT'', [VInt 1])], [])\<rparr>"
  have t: "transactional keyed_destination fst snd log_effect (\<lambda>q. q = buildInsertSQL ''d'' ''t'' [''id''])"
    by (auto simp: transactional_def keyed_destination_def log_destination_def)
  have s: "copy_setting ?env ''s/c'' example_work [''id''] [''id''] [0] key_less ([] @ [VInt 1] # tl example_rows) fst snd log_effect"
    using example_setting [of "''s/c''" "\<lambda>i. None" example_work] t by (simp add: copy_setting_def example_rows_def example_work_def)
  have r: "table_ready ?env [''id''] [''id'']" using example_ready [of "\<lambda>i. None"] by (simp add: table_ready_def)
  have d: "refuses_duplicates (te_dest ?env) snd (buildInsertSQL (tw_database example_work) (tw_table example_work) [''id''])
      (\<lambda>w. snd ` set w)"
    by (auto simp: refuses_duplicates_def keyed_destination_def)
  have "\<exists>e st'. copyOneTable ?env example_copy_options ''s/c'' example_work ?st = Some (Some e, st') \<and>
      fst (cs_db st') = fst (cs_db ?st) \<and> cs_fs st' = cs_fs ?st \<and> cs_checkpoint st' = cs_checkpoint ?st"
    by (rule unsaved_page_blocks_resume [OF s r _ _ _ d]) (use example_state_facts in simp_all)
  then show ?thesis by auto
qed

end
