(* ===== verification/Baseline_Run.thy ===== *)
theory Baseline_Run
  imports Baseline_Copy
begin

text \<open>
  The baseline copy as a whole (internal/data/copy.go, lines 71-220 and 833-850): the watermark, the
  list of tables, and the copy of the tables one after the other. The theorem says that a copy that
  reports success has put all rows of all selected tables into the destination.
\<close>

section \<open>The copy of all tables\<close>

text \<open>
  What a run is answered. The watermark and the tables are read in a snapshot of their own, which
  ends before the first table is copied; each table is then read in another one, ce_table. After
  a failure at most one more worker is started, with a cancelled context: ce_late says whether.
\<close>

record 'db copy_env =
  ce_connected :: bool
  ce_checkpointRead :: "string option"
  ce_pin :: "string option"
  ce_isolation :: "string option"
  ce_snapshot :: "string option"
  ce_status :: "string \<Rightarrow> (string \<times> goval) list option"
  ce_watermarkWrite :: write_env
  ce_databases :: "string query_result"
  ce_tables :: "string \<Rightarrow> string query_result"
  ce_keys :: "string \<Rightarrow> (string \<times> string) query_result"
  ce_firstRow :: "'db \<Rightarrow> string \<Rightarrow> string + bool"
  ce_table :: "tableWork \<Rightarrow> 'db table_env"
  ce_late :: bool

text \<open>ask runs SELECT 1 ... LIMIT 1: an error, or whether there is a row.\<close>

fun first_nonempty :: "(string \<Rightarrow> string + bool) \<Rightarrow> string \<Rightarrow> string list \<Rightarrow> string option" where
  "first_nonempty ask databaseName [] = None"
| "first_nonempty ask databaseName (tableName # ts) =
     (case ask (''SELECT 1 FROM '' @ qualifiedTable databaseName tableName @ '' LIMIT 1'') of
        Inl e \<Rightarrow> Some e
      | Inr True \<Rightarrow> Some (''table '' @ databaseName @ ''.'' @ tableName @ '' already contains rows'')
      | Inr False \<Rightarrow> first_nonempty ask databaseName ts)"

definition ensureDestinationTablesAreEmpty :: "(string \<Rightarrow> string + bool) \<Rightarrow> string \<Rightarrow> string list \<Rightarrow> string option" where
  "ensureDestinationTablesAreEmpty ask databaseName tableNames = first_nonempty ask databaseName (sort tableNames)"

text \<open>The tables of the selected databases, with the summary so far.\<close>

fun collect_work ::
  "'db copy_env \<Rightarrow> CopyOptions \<Rightarrow> 'db \<Rightarrow> string list \<Rightarrow> tableWork list \<Rightarrow> CopySummary
     \<Rightarrow> copy_error option \<times> tableWork list \<times> CopySummary" where
  "collect_work env opts db [] work summary = (None, work, summary)"
| "collect_work env opts db (databaseName # rest) work summary =
     (case listBaseTables (ce_tables env databaseName) (ce_keys env databaseName) databaseName of
        Inl e \<Rightarrow> (Some (CopyText (''list source tables for '' @ databaseName @ '': '' @ e)), work, summary)
      | Inr tableNames \<Rightarrow>
          (if tableNames = [] then collect_work env opts db rest work summary
           else
             (let summary = summary\<lparr>cy_Databases := cy_Databases summary + 1,
                                    cy_Tables := cy_Tables summary + int (length tableNames)\<rparr>
              in case (if co_RequireEmptyDest opts
                       then ensureDestinationTablesAreEmpty (ce_firstRow env db) databaseName tableNames else None) of
                   Some e \<Rightarrow>
                     (Some (CopyText (''destination non-empty check failed for '' @ databaseName @ '': '' @ e)), work, summary)
                 | None \<Rightarrow>
                     collect_work env opts db rest
                       (work @ map (\<lambda>t. \<lparr>tw_database = databaseName, tw_table = t\<rparr>) tableNames) summary)))"

definition cancelled :: "'db table_env \<Rightarrow> 'db table_env" where
  "cancelled env = env\<lparr>te_pin := Some ''context canceled''\<rparr>"

text \<open>The tables in order; the first error stops the loop.\<close>

fun copy_tables ::
  "'db copy_env \<Rightarrow> CopyOptions \<Rightarrow> string \<Rightarrow> tableWork list \<Rightarrow> 'db copy_state \<Rightarrow> (copy_error option \<times> 'db copy_state) option" where
  "copy_tables env opts path [] st = Some (None, st)"
| "copy_tables env opts path (tw # tws) st =
     (case copyOneTable (ce_table env tw) opts path tw st of
        None \<Rightarrow> None
      | Some (None, st') \<Rightarrow> copy_tables env opts path tws st'
      | Some (Some e, st') \<Rightarrow>
          (case tws of
             [] \<Rightarrow> Some (Some e, st')
           | tw' # _ \<Rightarrow>
               (if ce_late env
                then map_option (\<lambda>(_, st''). (Some e, st'')) (copyOneTable (cancelled (ce_table env tw')) opts path tw' st')
                else Some (Some e, st'))))"

definition load_data_checkpoint :: "'db copy_env \<Rightarrow> CopyOptions \<Rightarrow> string \<Rightarrow> fs \<Rightarrow> copy_error + DataCheckpoint" where
  "load_data_checkpoint env opts path fs =
     (if co_Resume opts
      then (case LoadDataCheckpoint (ce_checkpointRead env) path fs of Inl e \<Rightarrow> Inl (CopyText e) | Inr cp \<Rightarrow> Inr cp)
      else Inr NewDataCheckpoint)"

definition with_watermark :: "'db copy_env \<Rightarrow> DataCheckpoint \<Rightarrow> DataCheckpoint" where
  "with_watermark env checkpoint =
     (case querySourceWatermark (ce_status env) of
        None \<Rightarrow> checkpoint\<lparr>dc_SourceWatermarkFile := ''unavailable'', dc_SourceWatermarkPos := 0\<rparr>
      | Some (file, pos) \<Rightarrow> checkpoint\<lparr>dc_SourceWatermarkFile := file, dc_SourceWatermarkPos := pos\<rparr>)"

text \<open>The watermark of the first run is kept by the runs that resume it.\<close>

definition set_watermark :: "'db copy_env \<Rightarrow> string \<Rightarrow> DataCheckpoint \<Rightarrow> fs \<Rightarrow> string option \<times> DataCheckpoint \<times> fs" where
  "set_watermark env path checkpoint fs =
     (if dc_SourceWatermarkFile checkpoint \<noteq> '''' then (None, checkpoint, fs)
      else (case SaveDataCheckpoint (ce_watermarkWrite env) path (with_watermark env checkpoint) fs of
              (e, fs') \<Rightarrow> (e, with_watermark env checkpoint, fs')))"

definition data_path :: "string \<Rightarrow> string" where
  "data_path stateDir = path_join stateDir ''data-baseline-checkpoint.json''"

definition CopyBaselineData ::
  "'db copy_env \<Rightarrow> string \<Rightarrow> CopyOptions \<Rightarrow> fs \<Rightarrow> 'db \<Rightarrow> (copy_error option \<times> CopySummary \<times> fs \<times> 'db) option" where
  "CopyBaselineData env stateDir opts fs db =
     (let path = data_path stateDir
      in if \<not> ce_connected env then Some (Some (CopyText ''source and destination connections are required''), emptySummary, fs, db)
         else if co_ChunkSize opts < 1 then Some (Some (CopyText ''chunk size must be >= 1''), emptySummary, fs, db)
         else (case load_data_checkpoint env opts path fs of Inl e \<Rightarrow> Some (Some e, emptySummary, fs, db) | Inr checkpoint0 \<Rightarrow>
              (case ce_pin env of Some e \<Rightarrow> Some (Some (CopyText (''pin source connection: '' @ e)), emptySummary, fs, db) | None \<Rightarrow>
              (case ce_isolation env of Some e \<Rightarrow> Some (Some (CopyText (''set source transaction isolation: '' @ e)), emptySummary, fs, db) | None \<Rightarrow>
              (case ce_snapshot env of
                 Some e \<Rightarrow> Some (Some (CopyText (''start consistent snapshot transaction: '' @ e)), emptySummary, fs, db)
               | None \<Rightarrow>
                   (case set_watermark env path checkpoint0 fs of
                      (Some e, _, fs1) \<Rightarrow> Some (Some (CopyText e), emptySummary, fs1, db)
                    | (None, checkpoint, fs1) \<Rightarrow>
                        (case listDatabases (ce_databases env) of
                           Inl e \<Rightarrow> Some (Some (CopyText (''list source databases: '' @ e)), emptySummary, fs1, db)
                         | Inr databases \<Rightarrow>
                             (case collect_work env opts db (SelectDatabases databases (co_IncludeDatabases opts) (co_ExcludeDatabases opts)) []
                                     (emptySummary\<lparr>cy_CheckpointFile := path, cy_WatermarkFile := dc_SourceWatermarkFile checkpoint,
                                                   cy_WatermarkPos := dc_SourceWatermarkPos checkpoint\<rparr>) of
                                (Some e, _, summary) \<Rightarrow> Some (Some e, summary, fs1, db)
                              | (None, work, summary) \<Rightarrow>
                                  (case copy_tables env opts path work
                                          \<lparr>cs_fs = fs1, cs_db = db, cs_checkpoint = checkpoint, cs_summary = summary\<rparr> of
                                     None \<Rightarrow> None
                                   | Some (r, st) \<Rightarrow> Some (r, cs_summary st, cs_fs st, cs_db st))))))))))"

section \<open>What the copy of a table leaves alone\<close>

definition leaves_alone :: "tableWork \<Rightarrow> 'db copy_state \<Rightarrow> 'db copy_state \<Rightarrow> bool" where
  "leaves_alone tw st st' =
     ((\<forall>k. k \<noteq> table_key tw \<longrightarrow> dc_Tables (cs_checkpoint st') k = dc_Tables (cs_checkpoint st) k) \<and>
      dc_SourceWatermarkFile (cs_checkpoint st') = dc_SourceWatermarkFile (cs_checkpoint st) \<and>
      dc_SourceWatermarkPos (cs_checkpoint st') = dc_SourceWatermarkPos (cs_checkpoint st) \<and>
      cy_Completed (cs_summary st') = cy_Completed (cs_summary st) \<and> cy_Tables (cs_summary st') = cy_Tables (cs_summary st))"

lemma leaves_alone_refl [simp]: "leaves_alone tw st st" "leaves_alone tw st (st\<lparr>cs_db := db\<rparr>)"
  by (simp_all add: leaves_alone_def)

lemma leaves_alone_trans: "leaves_alone tw st1 st2 \<Longrightarrow> leaves_alone tw st2 st3 \<Longrightarrow> leaves_alone tw st1 st3"
  by (simp add: leaves_alone_def)

lemma store_progress_leaves:
  "store_progress wenv path (table_key tw) p st = (r, st') \<Longrightarrow> leaves_alone tw st st'"
  by (auto simp: store_progress_def leaves_alone_def Let_def split: prod.splits)

lemma count_batch_leaves [simp]: "leaves_alone tw st (count_batch n st') = leaves_alone tw st st'"
  by (simp add: leaves_alone_def count_batch_def)

lemma copy_page_leaves:
  "case copy_page env n path tw columns keyColumns i p cursor st of
     Finished r p' st' \<Rightarrow> leaves_alone tw st st' | NextPage p' c' st' \<Rightarrow> leaves_alone tw st st'"
proof -
  have "leaves_alone tw st st'" if "store_progress wenv path (table_key tw) q (st\<lparr>cs_db := db\<rparr>) = (r, st')" for wenv q db r st'
    using store_progress_leaves [OF that] leaves_alone_refl(2) leaves_alone_trans by metis
  then show ?thesis
    by (auto simp: copy_page_def Let_def split: option.split sum.split prod.split page_outcome.split)
qed

lemma copy_pages_leaves:
  "copy_pages env n path tw columns keyColumns i p cursor st = Some res \<Longrightarrow> leaves_alone tw st (snd (snd res))"
proof (induction rule: copy_pages.raw_induct [where P = "\<lambda>env n path tw columns keyColumns i p cursor st res.
    leaves_alone tw st (snd (snd res))", rotated, consumes 1])
  case (1 f env n path tw columns keyColumns i p cursor st res)
  note page = copy_page_leaves [of tw st env n path columns keyColumns i p cursor]
  show ?case
  proof (cases "copy_page env n path tw columns keyColumns i p cursor st")
    case (Finished r p' st')
    then show ?thesis using page 1(2) by auto
  next
    case (NextPage p' cursor' st1)
    then have "f env n path tw columns keyColumns (i + 1) p' cursor' st1 = Some res" using 1(2) by simp
    from 1(1) [OF this] have "leaves_alone tw st1 (snd (snd res))" .
    then show ?thesis using page NextPage leaves_alone_trans by auto
  qed
qed

lemma complete_table_leaves:
  assumes "complete_table env path (table_key tw) p st = (r, st')"
  shows "leaves_alone tw st (st'\<lparr>cs_summary := (cs_summary st')\<lparr>cy_Completed := cy_Completed (cs_summary st)\<rparr>\<rparr>)"
    and "cy_Completed (cs_summary st') = cy_Completed (cs_summary st) + 1"
    and "tc_Done (progress_of (cs_checkpoint st') tw)"
proof -
  let ?p = "p\<lparr>tc_Done := True, tc_UpdatedAt := te_finish env\<rparr>"
  obtain e st1 where s: "store_progress (te_saveDone env) path (table_key tw) ?p st = (e, st1)" by force
  then have st': "st' = st1\<lparr>cs_summary := (cs_summary st1)\<lparr>cy_Completed := cy_Completed (cs_summary st1) + 1\<rparr>\<rparr>"
    and cp: "dc_Tables (cs_checkpoint st1) (table_key tw) = Some ?p" and sm: "cs_summary st1 = cs_summary st"
    using assms by (auto simp: complete_table_def store_progress_def Let_def split: prod.splits)
  show "leaves_alone tw st (st'\<lparr>cs_summary := (cs_summary st')\<lparr>cy_Completed := cy_Completed (cs_summary st)\<rparr>\<rparr>)"
    using store_progress_leaves [OF s] sm by (simp add: st' leaves_alone_def)
  show "cy_Completed (cs_summary st') = cy_Completed (cs_summary st) + 1" using sm by (simp add: st')
  show "tc_Done (progress_of (cs_checkpoint st') tw)" using cp by (simp add: st' progress_of_def)
qed

text \<open>After a table is copied without an error it is done, one more table is counted, and nothing else has changed.\<close>

definition table_done :: "tableWork \<Rightarrow> 'db copy_state \<Rightarrow> 'db copy_state \<Rightarrow> bool" where
  "table_done tw st st' =
     ((\<forall>k. k \<noteq> table_key tw \<longrightarrow> dc_Tables (cs_checkpoint st') k = dc_Tables (cs_checkpoint st) k) \<and>
      tc_Done (progress_of (cs_checkpoint st') tw) \<and>
      cy_Completed (cs_summary st') = cy_Completed (cs_summary st) + 1 \<and> cy_Tables (cs_summary st') = cy_Tables (cs_summary st))"

lemma copyOneTable_done:
  assumes ready: "table_ready env columns keyColumns" and "keyColumns \<noteq> []"
    and nd: "\<not> tc_Done (progress_of (cs_checkpoint st) tw)"
    and start: "start_cursor env opts tw keyColumns (progress_of (cs_checkpoint st) tw) (cs_db st) = Inr (p, cursor)"
    and run: "copyOneTable env opts path tw st = Some (None, st')"
  shows "table_done tw st st'"
proof (cases "copy_pages env (nat (co_ChunkSize opts)) path tw columns keyColumns 0 p cursor st")
  case None
  have e: "te_pin env = None" "te_isolation env = None" "te_snapshot env = None" "listTableColumns (te_columns env) = Inr columns"
    "listStableKeyColumns (te_stats env) (te_notNull env) = Inr keyColumns" "te_pinDest env = None" "te_fkOff env = None"
    and ne: "(columns = []) = False" "(keyColumns = []) = False"
    using ready assms(2) by (simp_all add: table_ready_def listTableColumns_def)
  have "copyOneTable env opts path tw st = None"
    unfolding copyOneTable_def Let_def progress_of_def [symmetric]
    by (simp only: nd e ne start None if_False option.case sum.case prod.case)
  then show ?thesis using run by simp
next
  case (Some res)
  obtain r p' st1 where res: "res = (r, p', st1)" by (metis prod_cases3)
  have l: "leaves_alone tw st st1" using copy_pages_leaves [OF Some] by (simp add: res)
  from copyOneTable_pages [OF ready assms(2) nd start Some [unfolded res]] run
  have "complete_table env path (table_key tw) p' st1 = (None, st')" by (auto split: option.splits)
  from complete_table_leaves [OF this] l show ?thesis by (simp add: table_done_def leaves_alone_def)
qed

section \<open>All tables\<close>

text \<open>A table of the source: its columns, its key with the key's positions and order, and its rows.\<close>

record source_table =
  sc_columns :: "string list"
  sc_keys :: "string list"
  sc_indexes :: "nat list"
  sc_less :: "goval list \<Rightarrow> goval list \<Rightarrow> bool"
  sc_rows :: "goval list list"

definition source_setting ::
  "'db copy_env \<Rightarrow> string \<Rightarrow> ('db \<Rightarrow> 'c) \<Rightarrow> ('db \<Rightarrow> 'c) \<Rightarrow> (string \<Rightarrow> goval list \<Rightarrow> 'c \<Rightarrow> 'c) \<Rightarrow> (tableWork \<Rightarrow> source_table)
     \<Rightarrow> tableWork \<Rightarrow> bool" where
  "source_setting env path view work effect tables tw =
     (copy_setting (ce_table env tw) path tw (sc_columns (tables tw)) (sc_keys (tables tw)) (sc_indexes (tables tw))
        (sc_less (tables tw)) (sc_rows (tables tw)) view work effect \<and>
      table_ready (ce_table env tw) (sc_columns (tables tw)) (sc_keys (tables tw)) \<and>
      we_tmp (te_saveDone (ce_table env tw)) \<noteq> path)"

definition table_effect ::
  "(string \<Rightarrow> goval list \<Rightarrow> 'c \<Rightarrow> 'c) \<Rightarrow> (tableWork \<Rightarrow> source_table) \<Rightarrow> tableWork \<Rightarrow> 'c \<Rightarrow> 'c" where
  "table_effect effect tables tw =
     rows_effect effect (buildInsertSQL (tw_database tw) (tw_table tw) (sc_columns (tables tw))) (sc_rows (tables tw))"

lemma copy_new_table:
  assumes s: "source_setting env path view work effect tables tw" and n: "co_ChunkSize opts \<ge> 1"
    and new: "dc_Tables (cs_checkpoint st) (table_key tw) = None" and v: "valid_data (cs_checkpoint st)"
  shows "\<exists>r st'. copyOneTable (ce_table env tw) opts path tw st = Some (r, st') \<and>
    (smooth (ce_table env tw) \<longrightarrow> r = None) \<and>
    (r = None \<longrightarrow> view (cs_db st') = table_effect effect tables tw (view (cs_db st)) \<and> table_done tw st st' \<and>
       valid_data (cs_checkpoint st') \<and> LoadDataCheckpoint None path (cs_fs st') = Inr (upgradeData (cs_checkpoint st')))"
proof -
  let ?env = "ce_table env tw" and ?t = "tables tw"
  have p: "progress_of (cs_checkpoint st) tw = emptyTableCheckpoint" using new by (simp add: progress_of_def)
  have setting: "copy_setting ?env path tw (sc_columns ?t) (sc_keys ?t) (sc_indexes ?t) (sc_less ?t) ([] @ sc_rows ?t) view work effect"
    and ready: "table_ready ?env (sc_columns ?t) (sc_keys ?t)" and tmp: "we_tmp (te_saveDone ?env) \<noteq> path"
    using s by (simp_all add: source_setting_def)
  have at: "progress_at (te_codec ?env) (sc_keys ?t) (sc_indexes ?t) [] (progress_of (cs_checkpoint st) tw)"
    and nd: "\<not> tc_Done (progress_of (cs_checkpoint st) tw)"
    unfolding p by (rule progress_at_new) (simp add: emptyTableCheckpoint_def)
  have keys: "sc_keys ?t \<noteq> []" "key_indexes (sc_columns ?t) (sc_keys ?t) = Inr (sc_indexes ?t)"
    using setting unfolding copy_setting_def keyset_table_def by blast+
  note start = start_cursor_at [OF at length_key_indexes [OF keys(2)] keys(1)]
  from copyOneTable_spec [OF setting ready at nd v n tmp] obtain r st' xs ws ys where run:
    "copyOneTable ?env opts path tw st = Some (r, st')" "sc_rows ?t = xs @ ws @ ys" "smooth ?env \<longrightarrow> r = None"
    "view (cs_db st') = rows_effect effect (buildInsertSQL (tw_database tw) (tw_table tw) (sc_columns ?t)) (xs @ ws) (view (cs_db st))"
    "r = None \<longrightarrow> ws = [] \<and> ys = [] \<and> valid_data (cs_checkpoint st') \<and>
       LoadDataCheckpoint None path (cs_fs st') = Inr (upgradeData (cs_checkpoint st'))"
    by (elim exE conjE) (rule that, assumption+, simp)
  have "r = None \<Longrightarrow> table_done tw st st'" using copyOneTable_done [OF ready keys(1) nd start] run(1) by simp
  then show ?thesis using run by (intro exI [of _ r] exI [of _ st'] conjI impI) (auto simp: table_effect_def)
qed

lemma copy_cancelled: "\<exists>r st'. copyOneTable (cancelled env) opts path tw st = Some (r, st')"
  by (simp add: copyOneTable_def cancelled_def Let_def)

lemma copy_tables_spec:
  assumes "\<forall>tw \<in> set tws. source_setting env path view work effect tables tw" and "distinct (map table_key tws)"
    and "\<forall>tw \<in> set tws. dc_Tables (cs_checkpoint st) (table_key tw) = None" and "valid_data (cs_checkpoint st)"
    and n: "co_ChunkSize opts \<ge> 1"
  shows "\<exists>r st'. copy_tables env opts path tws st = Some (r, st') \<and> ((\<forall>tw \<in> set tws. smooth (ce_table env tw)) \<longrightarrow> r = None) \<and>
    (r = None \<longrightarrow> view (cs_db st') = fold (table_effect effect tables) tws (view (cs_db st)) \<and>
       (\<forall>tw \<in> set tws. tc_Done (progress_of (cs_checkpoint st') tw)) \<and>
       (\<forall>k. k \<notin> table_key ` set tws \<longrightarrow> dc_Tables (cs_checkpoint st') k = dc_Tables (cs_checkpoint st) k) \<and>
       cy_Completed (cs_summary st') = cy_Completed (cs_summary st) + int (length tws) \<and>
       cy_Tables (cs_summary st') = cy_Tables (cs_summary st) \<and>
       (tws \<noteq> [] \<longrightarrow> LoadDataCheckpoint None path (cs_fs st') = Inr (upgradeData (cs_checkpoint st'))))"
  using assms(1-4)
proof (induction tws arbitrary: st)
  case (Cons tw tws)
  have s: "source_setting env path view work effect tables tw" and new: "dc_Tables (cs_checkpoint st) (table_key tw) = None"
    using Cons.prems by simp_all
  from copy_new_table [OF s n new Cons.prems(4)] obtain r st1 where one:
    "copyOneTable (ce_table env tw) opts path tw st = Some (r, st1)" "smooth (ce_table env tw) \<longrightarrow> r = None"
    "r = None \<longrightarrow> view (cs_db st1) = table_effect effect tables tw (view (cs_db st)) \<and> table_done tw st st1 \<and>
       valid_data (cs_checkpoint st1) \<and> LoadDataCheckpoint None path (cs_fs st1) = Inr (upgradeData (cs_checkpoint st1))"
    by blast
  show ?case
  proof (cases r)
    case (Some e)
    have "\<exists>st'. copy_tables env opts path (tw # tws) st = Some (Some e, st')"
    proof (cases tws)
      case (Cons tw' tws')
      obtain r2 st2 where "copyOneTable (cancelled (ce_table env tw')) opts path tw' st1 = Some (r2, st2)"
        using copy_cancelled by blast
      then show ?thesis using one(1) Some Cons by simp
    qed (use one(1) Some in simp)
    then show ?thesis using one(2) Some by auto
  next
    case None
    then have d: "table_done tw st st1" and v: "valid_data (cs_checkpoint st1)"
      and view1: "view (cs_db st1) = table_effect effect tables tw (view (cs_db st))"
      and load1: "LoadDataCheckpoint None path (cs_fs st1) = Inr (upgradeData (cs_checkpoint st1))"
      using one(3) by blast+
    have "dc_Tables (cs_checkpoint st1) (table_key tw') = None" if "tw' \<in> set tws" for tw'
    proof -
      have "table_key tw' \<in> table_key ` set tws" "table_key tw \<notin> table_key ` set tws" using that Cons.prems(2) by auto
      then have "table_key tw' \<noteq> table_key tw" by metis
      then show ?thesis using d Cons.prems(3) that by (simp add: table_done_def)
    qed
    then have "\<forall>tw' \<in> set tws. dc_Tables (cs_checkpoint st1) (table_key tw') = None" by blast
    moreover have "\<forall>tw' \<in> set tws. source_setting env path view work effect tables tw'" "distinct (map table_key tws)"
      using Cons.prems(1,2) by simp_all
    ultimately obtain r' st' where rest: "copy_tables env opts path tws st1 = Some (r', st')"
      "(\<forall>tw \<in> set tws. smooth (ce_table env tw)) \<longrightarrow> r' = None"
      "r' = None \<longrightarrow> view (cs_db st') = fold (table_effect effect tables) tws (view (cs_db st1)) \<and>
       (\<forall>tw \<in> set tws. tc_Done (progress_of (cs_checkpoint st') tw)) \<and>
       (\<forall>k. k \<notin> table_key ` set tws \<longrightarrow> dc_Tables (cs_checkpoint st') k = dc_Tables (cs_checkpoint st1) k) \<and>
       cy_Completed (cs_summary st') = cy_Completed (cs_summary st1) + int (length tws) \<and>
       cy_Tables (cs_summary st') = cy_Tables (cs_summary st1) \<and>
       (tws \<noteq> [] \<longrightarrow> LoadDataCheckpoint None path (cs_fs st') = Inr (upgradeData (cs_checkpoint st')))"
      using Cons.IH [of st1] v by blast
    have run: "copy_tables env opts path (tw # tws) st = Some (r', st')" using one(1) None rest(1) by simp
    show ?thesis
    proof (cases r')
      case (Some e)
      then show ?thesis using run rest(2) by auto
    next
      case None
      note fin = rest(3) [rule_format, OF None]
      have "table_key tw \<notin> table_key ` set tws" using Cons.prems(2) by simp
      then have same: "progress_of (cs_checkpoint st') tw = progress_of (cs_checkpoint st1) tw"
        using fin by (simp add: progress_of_def)
      have "LoadDataCheckpoint None path (cs_fs st') = Inr (upgradeData (cs_checkpoint st'))"
        using fin load1 rest(1) by (cases tws) auto
      then show ?thesis using run None fin d view1 same by (intro exI [of _ r'] exI [of _ st']) (auto simp: table_done_def)
    qed
  qed
qed simp

section \<open>The whole copy\<close>

text \<open>The tables that a copy is about: those of the selected databases, each database in the order of its foreign keys.\<close>

definition tables_in :: "'db copy_env \<Rightarrow> string \<Rightarrow> tableWork list" where
  "tables_in env d =
     (case listBaseTables (ce_tables env d) (ce_keys env d) d of
        Inl e \<Rightarrow> [] | Inr ts \<Rightarrow> map (\<lambda>t. \<lparr>tw_database = d, tw_table = t\<rparr>) ts)"

definition selected_tables :: "'db copy_env \<Rightarrow> CopyOptions \<Rightarrow> tableWork list" where
  "selected_tables env opts =
     (case ce_databases env of
        Rows databases \<Rightarrow>
          concat (map (tables_in env) (SelectDatabases databases (co_IncludeDatabases opts) (co_ExcludeDatabases opts)))
      | _ \<Rightarrow> [])"

lemma collect_work_spec:
  "collect_work env opts db ds work summary = (None, work', summary') \<Longrightarrow>
   work' = work @ concat (map (tables_in env) ds) \<and>
   cy_Tables summary' = cy_Tables summary + int (length work' - length work) \<and> cy_Completed summary' = cy_Completed summary"
proof (induction ds arbitrary: work summary)
  case (Cons d ds)
  obtain ts where ts: "listBaseTables (ce_tables env d) (ce_keys env d) d = Inr ts"
    using Cons.prems by (cases "listBaseTables (ce_tables env d) (ce_keys env d) d") auto
  show ?case
  proof (cases "ts = []")
    case True
    then show ?thesis using Cons.IH [of work summary] Cons.prems ts by (simp add: tables_in_def)
  next
    case False
    let ?ws = "map (\<lambda>t. \<lparr>tw_database = d, tw_table = t\<rparr>) ts"
      and ?s = "summary\<lparr>cy_Databases := cy_Databases summary + 1, cy_Tables := cy_Tables summary + int (length ts)\<rparr>"
    have "collect_work env opts db ds (work @ ?ws) ?s = (None, work', summary')"
      using Cons.prems ts False by (auto simp: Let_def split: if_splits option.splits)
    from Cons.IH [OF this] show ?thesis using ts by (simp add: tables_in_def)
  qed
qed simp

text \<open>The servers and the disk as a fresh copy finds them.\<close>

definition fresh_copy ::
  "'db copy_env \<Rightarrow> string \<Rightarrow> CopyOptions \<Rightarrow> ('db \<Rightarrow> 'c) \<Rightarrow> ('db \<Rightarrow> 'c) \<Rightarrow> (string \<Rightarrow> goval list \<Rightarrow> 'c \<Rightarrow> 'c)
     \<Rightarrow> (tableWork \<Rightarrow> source_table) \<Rightarrow> bool" where
  "fresh_copy env stateDir opts view work effect tables =
     (co_ChunkSize opts \<ge> 1 \<and> \<not> co_Resume opts \<and> distinct (map table_key (selected_tables env opts)) \<and>
      (\<forall>tw \<in> set (selected_tables env opts). source_setting env (data_path stateDir) view work effect tables tw))"

text \<open>Nothing fails, and the destination is empty where it has to be.\<close>

definition nothing_fails :: "'db copy_env \<Rightarrow> CopyOptions \<Rightarrow> 'db \<Rightarrow> bool" where
  "nothing_fails env opts db =
     (ce_connected env \<and> ce_pin env = None \<and> ce_isolation env = None \<and> ce_snapshot env = None \<and>
      (\<exists>tmp. ce_watermarkWrite env = no_faults tmp) \<and> (co_RequireEmptyDest opts \<longrightarrow> (\<forall>q. ce_firstRow env db q = Inr False)) \<and>
      (\<exists>dbs. ce_databases env = Rows dbs \<and>
         (\<forall>d \<in> set (SelectDatabases dbs (co_IncludeDatabases opts) (co_ExcludeDatabases opts)).
            \<exists>ts. listBaseTables (ce_tables env d) (ce_keys env d) d = Inr ts)) \<and>
      (\<forall>tw \<in> set (selected_tables env opts). smooth (ce_table env tw)))"

lemma ensure_empty: "\<forall>q. ask q = Inr False \<Longrightarrow> ensureDestinationTablesAreEmpty ask d ts = None"
proof -
  assume "\<forall>q. ask q = Inr False"
  then have "first_nonempty ask d us = None" for us by (induction us) simp_all
  then show ?thesis by (simp add: ensureDestinationTablesAreEmpty_def)
qed

lemma collect_work_ok:
  assumes "nothing_fails env opts db" and "\<forall>d \<in> set ds. \<exists>ts. listBaseTables (ce_tables env d) (ce_keys env d) d = Inr ts"
  shows "fst (collect_work env opts db ds work summary) = None"
  using assms(2)
proof (induction ds arbitrary: work summary)
  case (Cons d ds)
  obtain ts where ts: "listBaseTables (ce_tables env d) (ce_keys env d) d = Inr ts"
    using Cons.prems by auto
  have "(if co_RequireEmptyDest opts then ensureDestinationTablesAreEmpty (ce_firstRow env db) d ts else None) = None"
    using assms(1) ensure_empty [of "ce_firstRow env db" d ts] by (auto simp: nothing_fails_def)
  then show ?case using ts Cons.IH Cons.prems by (simp add: Let_def)
qed simp

text \<open>
  Claim C6. A fresh baseline copy always ends, and with success when nothing fails. When it reports success, the destination has received
  exactly the rows of all tables of the selected databases, each row once, table after table in the
  order of the foreign keys; the checkpoint on disk marks all of them as done, and the summary
  counts as many completed tables as there are.
\<close>

theorem CopyBaselineData_copies_everything:
  assumes fresh: "fresh_copy env stateDir opts view work effect tables"
  shows "\<exists>r summary fs' db'. CopyBaselineData env stateDir opts fs db = Some (r, summary, fs', db') \<and>
    (nothing_fails env opts db \<longrightarrow> r = None) \<and>
    (r = None \<longrightarrow>
       view db' = fold (table_effect effect tables) (selected_tables env opts) (view db) \<and>
       cy_Tables summary = int (length (selected_tables env opts)) \<and>
       cy_Completed summary = int (length (selected_tables env opts)) \<and>
       (\<forall>tw \<in> set (selected_tables env opts). \<exists>cp. LoadDataCheckpoint None (data_path stateDir) fs' = Inr cp \<and>
          tc_Done (progress_of cp tw)))"
proof -
  let ?path = "data_path stateDir" and ?tws = "selected_tables env opts"
  have n: "co_ChunkSize opts \<ge> 1" and nr: "\<not> co_Resume opts"
    and dist: "distinct (map table_key ?tws)"
    and src: "\<forall>tw \<in> set ?tws. source_setting env ?path view work effect tables tw"
    using fresh by (simp_all add: fresh_copy_def)
  obtain we cp fs1 where w: "set_watermark env ?path NewDataCheckpoint fs = (we, cp, fs1)" by (metis prod_cases3)
  then have cp: "cp = with_watermark env NewDataCheckpoint" by (auto simp: set_watermark_def NewDataCheckpoint_def split: prod.splits)
  have cp_ok: "dc_Tables cp = Map.empty" "valid_data cp"
    by (simp_all add: cp with_watermark_def NewDataCheckpoint_def valid_data_def valid_tables_def is_int64_def checkpointVersion_def
        split: option.split prod.split)
  let ?s0 = "emptySummary\<lparr>cy_CheckpointFile := ?path, cy_WatermarkFile := dc_SourceWatermarkFile cp,
    cy_WatermarkPos := dc_SourceWatermarkPos cp\<rparr>"
  show ?thesis
  proof (cases "ce_connected env \<and> ce_pin env = None \<and> ce_isolation env = None \<and> ce_snapshot env = None \<and> we = None \<and>
      (\<exists>dbs. ce_databases env = Rows dbs)")
    case False
    have "\<not> nothing_fails env opts db"
    proof
      assume "nothing_fails env opts db"
      then obtain tmp where "ce_watermarkWrite env = no_faults tmp" and we: "we \<noteq> None"
        using False unfolding nothing_fails_def by blast
      then show False
        using w by (simp add: set_watermark_def NewDataCheckpoint_def SaveDataCheckpoint_def WritePrivateFileAtomic_def
            EnsurePrivateDir_def no_faults_def Let_def)
    qed
    then show ?thesis
      using n nr w False
      by (auto simp: CopyBaselineData_def load_data_checkpoint_def Let_def listDatabases_def rows_or_error_def
          split: option.splits query_result.splits)
  next
    case True
    then obtain dbs where dbs: "ce_databases env = Rows dbs" by blast
    let ?sel = "SelectDatabases dbs (co_IncludeDatabases opts) (co_ExcludeDatabases opts)"
    obtain ce ws s1 where c: "collect_work env opts db ?sel [] ?s0 = (ce, ws, s1)" by (metis prod_cases3)
    have run: "CopyBaselineData env stateDir opts fs db =
        (case ce of Some e \<Rightarrow> Some (Some e, s1, fs1, db)
         | None \<Rightarrow> (case copy_tables env opts ?path ws \<lparr>cs_fs = fs1, cs_db = db, cs_checkpoint = cp, cs_summary = s1\<rparr> of
             None \<Rightarrow> None | Some (r, st) \<Rightarrow> Some (r, cs_summary st, cs_fs st, cs_db st)))"
      using True n nr w dbs c
      by (simp add: CopyBaselineData_def load_data_checkpoint_def Let_def listDatabases_def rows_or_error_def split: option.split)
    show ?thesis
    proof (cases ce)
      case (Some e)
      have "\<not> nothing_fails env opts db"
      proof
        assume nf: "nothing_fails env opts db"
        then have "\<forall>d \<in> set ?sel. \<exists>ts. listBaseTables (ce_tables env d) (ce_keys env d) d = Inr ts"
          using dbs unfolding nothing_fails_def by simp
        from collect_work_ok [OF nf this, of "[]" ?s0] show False using c Some by simp
      qed
      then show ?thesis using run Some by simp
    next
      case None
      from collect_work_spec [OF c [unfolded None]] have ws: "ws = ?tws"
        and s1: "cy_Tables s1 = int (length ws)" "cy_Completed s1 = 0"
        using dbs by (simp_all add: selected_tables_def emptySummary_def)
      let ?st = "\<lparr>cs_fs = fs1, cs_db = db, cs_checkpoint = cp, cs_summary = s1\<rparr>"
      have "\<forall>tw \<in> set ?tws. dc_Tables (cs_checkpoint ?st) (table_key tw) = None" "valid_data (cs_checkpoint ?st)"
        using cp_ok by simp_all
      from copy_tables_spec [OF src dist this n] obtain r st' where t: "copy_tables env opts ?path ws ?st = Some (r, st')"
        "(\<forall>tw \<in> set ?tws. smooth (ce_table env tw)) \<longrightarrow> r = None"
        "r = None \<longrightarrow> view (cs_db st') = fold (table_effect effect tables) ?tws (view db) \<and>
           (\<forall>tw \<in> set ?tws. tc_Done (progress_of (cs_checkpoint st') tw)) \<and>
           cy_Completed (cs_summary st') = int (length ?tws) \<and> cy_Tables (cs_summary st') = int (length ?tws) \<and>
           (?tws \<noteq> [] \<longrightarrow> LoadDataCheckpoint None ?path (cs_fs st') = Inr (upgradeData (cs_checkpoint st')))"
        using s1 ws by auto
      have up: "tc_Done (progress_of (upgradeData c) tw) = tc_Done (progress_of c tw)" for c tw
        by (auto simp: progress_of_def upgradeData_def upgradeTable_def Let_def split: option.split)
      have "nothing_fails env opts db \<longrightarrow> r = None" using t(2) unfolding nothing_fails_def by blast
      then show ?thesis
        using run None t(1,3) up by (intro exI [of _ r] exI [of _ "cs_summary st'"] exI [of _ "cs_fs st'"] exI [of _ "cs_db st'"]) auto
    qed
  qed
qed

text \<open>Two tables with the rows of the example, the second of which refers to the first.\<close>

definition example_copy_env :: "(statement_log \<times> statement_log) copy_env" where
  "example_copy_env = \<lparr>ce_connected = True, ce_checkpointRead = None, ce_pin = None, ce_isolation = None, ce_snapshot = None,
     ce_status = (\<lambda>q. None), ce_watermarkWrite = no_faults ''s/c.tmp'', ce_databases = Rows [''d''],
     ce_tables = (\<lambda>d. Rows [''a'', ''b'']), ce_keys = (\<lambda>d. Rows [(''a'', ''b'')]), ce_firstRow = (\<lambda>db q. Inr False),
     ce_table = (\<lambda>tw. example_table_env (\<lambda>i. None)), ce_late = False\<rparr>"

definition fresh_options :: CopyOptions where
  "fresh_options = example_copy_options\<lparr>co_Resume := False, co_RequireEmptyDest := True\<rparr>"

definition example_source :: "tableWork \<Rightarrow> source_table" where
  "example_source tw = \<lparr>sc_columns = [''id''], sc_keys = [''id''], sc_indexes = [0], sc_less = key_less, sc_rows = example_rows\<rparr>"

theorem CopyBaselineData_copies_everything_witness:
  "\<exists>summary fs' db'. CopyBaselineData example_copy_env ''s'' fresh_options Map.empty ([], []) = Some (None, summary, fs', db') \<and>
     fst db' = map (\<lambda>r. (buildInsertSQL ''d'' ''b'' [''id''], r)) example_rows @ map (\<lambda>r. (buildInsertSQL ''d'' ''a'' [''id''], r)) example_rows \<and>
     cy_Completed summary = 2"
proof -
  have sel: "SelectDatabases [''d''] [] [] = [''d'']" by code_simp
  have ts: "listBaseTables (Rows [''a'', ''b'']) (Rows [(''a'', ''b'')]) ''d'' = Inr [''b'', ''a'']" by code_simp
  let ?a = "\<lparr>tw_database = ''d'', tw_table = ''a''\<rparr>" and ?b = "\<lparr>tw_database = ''d'', tw_table = ''b''\<rparr>"
  have tabs: "selected_tables example_copy_env fresh_options = [?b, ?a]"
    using sel ts by (simp add: selected_tables_def tables_in_def example_copy_env_def fresh_options_def example_copy_options_def)
  have path: "data_path ''s'' \<noteq> ''s/c.tmp''" by code_simp
  have "source_setting example_copy_env (data_path ''s'') fst snd log_effect example_source tw" for tw
    using example_setting [OF path] example_ready path
    by (simp add: source_setting_def example_copy_env_def example_source_def)
      (simp add: example_table_env_def no_faults_def)
  then have fresh: "fresh_copy example_copy_env ''s'' fresh_options fst snd log_effect example_source"
    by (simp add: fresh_copy_def tabs table_key_def) (simp add: fresh_options_def example_copy_options_def)
  have "nothing_fails example_copy_env fresh_options ([], [])"
    using sel ts example_smooth
    by (auto simp: nothing_fails_def tabs) (auto simp: example_copy_env_def fresh_options_def example_copy_options_def)
  with CopyBaselineData_copies_everything [OF fresh, of Map.empty "([], [])"] show ?thesis
    by (auto simp: tabs table_effect_def example_source_def rows_effect_def log_effect_def example_rows_def)
qed

section \<open>Where the copy goes wrong\<close>

text \<open>
  The progress of a table is kept under its database and its name joined by a dot, and
  both may contain dots. Table b.c of database a and table c of database a.b have the same key: once
  one of them is done the other is skipped, without a row being read, and reported as completed.
\<close>

theorem dotted_names_share_progress:
  assumes "tc_Done (progress_of (cs_checkpoint st) \<lparr>tw_database = a, tw_table = b @ ''.'' @ c\<rparr>)"
  shows "copyOneTable env opts path \<lparr>tw_database = a @ ''.'' @ b, tw_table = c\<rparr> st =
    Some (None, st\<lparr>cs_summary := (cs_summary st)\<lparr>cy_Completed := cy_Completed (cs_summary st) + 1\<rparr>\<rparr>)"
  using assms by (simp add: copyOneTable_def progress_of_def table_key_def Let_def)

theorem dotted_names_share_progress_witness:
  "copyOneTable (example_table_env (\<lambda>i. None)) example_copy_options ''s/c'' \<lparr>tw_database = ''a.b'', tw_table = ''c''\<rparr>
     (empty_state\<lparr>cs_checkpoint := NewDataCheckpoint\<lparr>dc_Tables := [''a.b.c'' \<mapsto> emptyTableCheckpoint\<lparr>tc_Done := True\<rparr>]\<rparr>\<rparr>) =
   Some (None, empty_state\<lparr>cs_checkpoint := NewDataCheckpoint\<lparr>dc_Tables := [''a.b.c'' \<mapsto> emptyTableCheckpoint\<lparr>tc_Done := True\<rparr>]\<rparr>,
     cs_summary := emptySummary\<lparr>cy_Completed := 1\<rparr>\<rparr>)"
  using dotted_names_share_progress [of "empty_state\<lparr>cs_checkpoint := NewDataCheckpoint\<lparr>dc_Tables :=
      [''a.b.c'' \<mapsto> emptyTableCheckpoint\<lparr>tc_Done := True\<rparr>]\<rparr>\<rparr>" "''a''" "''b''" "''c''"]
  by (simp add: progress_of_def table_key_def empty_state_def NewDataCheckpoint_def emptyTableCheckpoint_def emptySummary_def)

text \<open>
  An index on an expression, which has no column name, stops the copy of a table even
  when the table has a primary key: the name is scanned into a string, which cannot be NULL.
\<close>

theorem functional_index_blocks_copy:
  assumes "te_stats env = Rows rows" and "(n, u, None, p) \<in> set rows"
    and "\<not> tc_Done (progress_of (cs_checkpoint st) tw)" and "te_columns env = Rows columns" and "columns \<noteq> []"
    and "te_pin env = None" and "te_isolation env = None" and "te_snapshot env = None"
  shows "copyOneTable env opts path tw st = Some (Some (prefixed ''stable key check for '' tw null_scan_error), st)"
proof -
  have "collect_indexes rows s = Inl null_scan_error" for s
    using assms(2) by (induction rows arbitrary: s) (auto split: option.split)
  then have k: "listStableKeyColumns (te_stats env) (te_notNull env) = Inl null_scan_error"
    by (simp add: listStableKeyColumns_def assms(1) rows_or_error_def)
  have c: "listTableColumns (te_columns env) = Inr columns" by (simp add: assms(4) listTableColumns_def)
  have ne: "(columns = []) = False" using assms(5) by simp
  show ?thesis
    unfolding copyOneTable_def Let_def progress_of_def [symmetric]
    by (simp only: assms(3,6-8) k c ne if_False option.case sum.case)
qed

theorem functional_index_blocks_copy_witness:
  "copyOneTable ((example_table_env (\<lambda>i. None))\<lparr>te_stats := Rows [(''PRIMARY'', 0, Some ''id'', 1), (''by_year'', 1, None, 1)]\<rparr>)
     example_copy_options ''s/c'' example_work empty_state =
   Some (Some (prefixed ''stable key check for '' example_work null_scan_error), empty_state)"
  by (rule functional_index_blocks_copy [where columns = "[''id'']" and n = "''by_year''" and u = 1 and p = 1
      and rows = "[(''PRIMARY'', 0, Some ''id'', 1), (''by_year'', 1, None, 1)]"])
    (use example_state_facts(2) in \<open>simp_all add: example_table_env_def\<close>)

end
