(* ===== verification/Baseline_Dry.thy ===== *)
theory Baseline_Dry
  imports Baseline_Copy
begin

text \<open>
  The dry run of the baseline copy (internal/data/copy.go, lines 385-437 and 786-831): the rows are
  inserted into a sandbox in transactions that are rolled back. The theorems show that it changes
  nothing, and that it cannot pass a table that fills a page.
\<close>

section \<open>The dry run\<close>

record DryRunValidationSummary =
  dr_Validated :: int
  dr_Failed :: int

text \<open>The rows of a page in a transaction; the number of rows that were accepted.\<close>

fun try_rows :: "'db destination \<Rightarrow> string \<Rightarrow> goval list list \<Rightarrow> int \<Rightarrow> 'db \<Rightarrow> string option \<times> int \<times> 'db" where
  "try_rows dest insertSQL [] n db = (None, n, db)"
| "try_rows dest insertSQL (row # rows) n db =
     (case de_exec dest insertSQL row db of
        (Inl e, db') \<Rightarrow> (Some (db_text e), n, de_rollback dest db')
      | (Inr _, db') \<Rightarrow> try_rows dest insertSQL rows (n + 1) db')"

datatype 'db dry_outcome =
    DryFinished "string option" DryRunValidationSummary 'db
  | DryNext "goval list" DryRunValidationSummary 'db

definition dry_failed :: "DryRunValidationSummary \<Rightarrow> DryRunValidationSummary" where
  "dry_failed s = s\<lparr>dr_Failed := dr_Failed s + 1\<rparr>"

text \<open>One page; rollbackErr is what the rollback of this page answers.\<close>

definition dry_page ::
  "(string \<Rightarrow> goval list \<Rightarrow> goval list query_result) \<Rightarrow> 'db destination \<Rightarrow> string option \<Rightarrow> string \<Rightarrow> string \<Rightarrow> nat
     \<Rightarrow> string list \<Rightarrow> string list \<Rightarrow> goval list \<Rightarrow> DryRunValidationSummary \<Rightarrow> 'db \<Rightarrow> 'db dry_outcome" where
  "dry_page query dest rollbackErr selectSQL insertSQL chunkSize columns keyColumns cursor summary db =
     (case fetchKeysetBatch query selectSQL chunkSize cursor columns keyColumns of
        Inl e \<Rightarrow> DryFinished (Some e) (dry_failed summary) db
      | Inr (batch, lastKey) \<Rightarrow>
          (if batch = [] then DryFinished None summary db
           else (case de_begin dest db of
                   (Some e, db1) \<Rightarrow> DryFinished (Some e) (dry_failed summary) db1
                 | (None, db1) \<Rightarrow>
                     (case try_rows dest insertSQL batch (dr_Validated summary) db1 of
                        (Some e, n, db2) \<Rightarrow> DryFinished (Some e) (dry_failed (summary\<lparr>dr_Validated := n\<rparr>)) db2
                      | (None, n, db2) \<Rightarrow>
                          (let summary = summary\<lparr>dr_Validated := n\<rparr>; db3 = de_rollback dest db2
                           in case rollbackErr of
                                Some e \<Rightarrow> DryFinished (Some e) (dry_failed summary) db3
                              | None \<Rightarrow>
                                  (if length batch < chunkSize then DryFinished None summary db3
                                   else DryNext lastKey summary db3))))))"

partial_function (option) validateTableBatchWithRollback ::
  "(string \<Rightarrow> goval list \<Rightarrow> goval list query_result) \<Rightarrow> 'db destination \<Rightarrow> (nat \<Rightarrow> string option) \<Rightarrow> string \<Rightarrow> string \<Rightarrow> nat
     \<Rightarrow> string list \<Rightarrow> string list \<Rightarrow> nat \<Rightarrow> goval list \<Rightarrow> DryRunValidationSummary \<Rightarrow> 'db
     \<Rightarrow> (string option \<times> DryRunValidationSummary \<times> 'db) option" where
  "validateTableBatchWithRollback query dest rollbackErr selectSQL insertSQL chunkSize columns keyColumns i cursor summary db =
     (case dry_page query dest (rollbackErr i) selectSQL insertSQL chunkSize columns keyColumns cursor summary db of
        DryFinished r summary' db' \<Rightarrow> Some (r, summary', db')
      | DryNext cursor' summary' db' \<Rightarrow>
          validateTableBatchWithRollback query dest rollbackErr selectSQL insertSQL chunkSize columns keyColumns (i + 1)
            cursor' summary' db')"

record 'db dry_env =
  dy_connected :: bool
  dy_mapDatabase :: "(string \<Rightarrow> string) option"
  dy_databases :: "string query_result"
  dy_tables :: "string \<Rightarrow> string query_result"
  dy_keys :: "string \<Rightarrow> (string \<times> string) query_result"
  dy_columns :: "tableWork \<Rightarrow> string query_result"
  dy_stats :: "tableWork \<Rightarrow> statistics_row query_result"
  dy_notNull :: "tableWork \<Rightarrow> string query_result"
  dy_query :: "string \<Rightarrow> goval list \<Rightarrow> goval list query_result"
  dy_dest :: "'db destination"
  dy_rollbackErr :: "tableWork \<Rightarrow> nat \<Rightarrow> string option"

definition validate_table ::
  "'db dry_env \<Rightarrow> nat \<Rightarrow> string \<Rightarrow> tableWork \<Rightarrow> DryRunValidationSummary \<Rightarrow> 'db
     \<Rightarrow> (string option \<times> DryRunValidationSummary \<times> 'db) option" where
  "validate_table env chunkSize destDatabase tw summary db =
     (case listTableColumns (dy_columns env tw) of
        Inl e \<Rightarrow> Some (Some (''list columns for '' @ table_key tw @ '': '' @ e), summary, db)
      | Inr columns \<Rightarrow>
          if columns = [] then Some (None, summary, db)
          else (case listStableKeyColumns (dy_stats env tw) (dy_notNull env tw) of
                  Inl e \<Rightarrow> Some (Some (''stable key check for '' @ table_key tw @ '': '' @ e), summary, db)
                | Inr keyColumns \<Rightarrow>
                    if keyColumns = []
                    then Some (Some (''incompatible_for_v1_dry_run_validation: '' @ table_key tw
                           @ '' has no primary key or non-null unique key; add a stable key before sandbox DML validation''), summary, db)
                    else validateTableBatchWithRollback (dy_query env) (dy_dest env) (dy_rollbackErr env tw)
                           (buildKeysetSelectSQL (tw_database tw) (tw_table tw) columns keyColumns False)
                           (buildInsertSQL destDatabase (tw_table tw) columns) chunkSize columns keyColumns 0 [] summary db))"

fun validate_tables ::
  "'db dry_env \<Rightarrow> nat \<Rightarrow> string \<Rightarrow> tableWork list \<Rightarrow> DryRunValidationSummary \<Rightarrow> 'db
     \<Rightarrow> (string option \<times> DryRunValidationSummary \<times> 'db) option" where
  "validate_tables env chunkSize destDatabase [] summary db = Some (None, summary, db)"
| "validate_tables env chunkSize destDatabase (tw # tws) summary db =
     (case validate_table env chunkSize destDatabase tw summary db of
        Some (None, summary', db') \<Rightarrow> validate_tables env chunkSize destDatabase tws summary' db'
      | r \<Rightarrow> r)"

fun validate_databases ::
  "'db dry_env \<Rightarrow> nat \<Rightarrow> (string \<Rightarrow> string) \<Rightarrow> string list \<Rightarrow> DryRunValidationSummary \<Rightarrow> 'db
     \<Rightarrow> (string option \<times> DryRunValidationSummary \<times> 'db) option" where
  "validate_databases env chunkSize mapDatabase [] summary db = Some (None, summary, db)"
| "validate_databases env chunkSize mapDatabase (sourceDatabase # rest) summary db =
     (let destDatabase = TrimSpace (mapDatabase sourceDatabase)
      in if destDatabase = '''' then Some (Some (''sandbox database mapping is empty for source '' @ go_quote sourceDatabase), summary, db)
         else (case listBaseTables (dy_tables env sourceDatabase) (dy_keys env sourceDatabase) sourceDatabase of
                 Inl e \<Rightarrow> Some (Some (''list source tables for '' @ sourceDatabase @ '': '' @ e), summary, db)
               | Inr tableNames \<Rightarrow>
                   (case validate_tables env chunkSize destDatabase
                           (map (\<lambda>t. \<lparr>tw_database = sourceDatabase, tw_table = t\<rparr>) tableNames) summary db of
                      Some (None, summary', db') \<Rightarrow> validate_databases env chunkSize mapDatabase rest summary' db'
                    | r \<Rightarrow> r)))"

definition ValidateBaselineDataDryRun ::
  "'db dry_env \<Rightarrow> string list \<Rightarrow> string list \<Rightarrow> int \<Rightarrow> 'db \<Rightarrow> (string option \<times> DryRunValidationSummary \<times> 'db) option" where
  "ValidateBaselineDataDryRun env includeDatabases excludeDatabases chunkSize db =
     (let summary = \<lparr>dr_Validated = 0, dr_Failed = 0\<rparr>
      in if \<not> dy_connected env then Some (Some ''source and destination connections are required'', summary, db)
         else if chunkSize < 1 then Some (Some ''chunk size must be >= 1'', summary, db)
         else (case dy_mapDatabase env of
                 None \<Rightarrow> Some (Some ''MapDatabase is required'', summary, db)
               | Some mapDatabase \<Rightarrow>
                   (case listDatabases (dy_databases env) of
                      Inl e \<Rightarrow> Some (Some (''list source databases: '' @ e), summary, db)
                    | Inr databases \<Rightarrow>
                        validate_databases env (nat chunkSize) mapDatabase
                          (SelectDatabases databases includeDatabases excludeDatabases) summary db)))"

section \<open>What the dry run does\<close>

text \<open>A query with more or fewer arguments than placeholders is refused (database/sql and the MySQL driver).\<close>

definition counts_arguments :: "(string \<Rightarrow> goval list \<Rightarrow> goval list query_result) \<Rightarrow> bool" where
  "counts_arguments query = (\<forall>q args. placeholders False q \<noteq> length args \<longrightarrow> (\<exists>e. query q args = QueryError e))"

definition an_insert :: "string \<Rightarrow> bool" where
  "an_insert q = (\<exists>d t columns. q = buildInsertSQL d t columns)"

lemma try_rows_view:
  assumes "transactional dest view work effect dml" and "dml q" and "try_rows dest q rows n db = (r, n', db')"
  shows "view db' = view db \<and> (r = None \<longrightarrow> n' = n + int (length rows))"
  using assms(3)
proof (induction rows arbitrary: n db)
  case (Cons row rows)
  obtain x db1 where x: "de_exec dest q row db = (x, db1)" by force
  note step = transactional_exec(1) [OF assms(1,2) x]
  show ?case
  proof (cases x)
    case (Inl e)
    then show ?thesis using Cons.prems x step transactional_rollback [OF assms(1)] by auto
  next
    case (Inr y)
    then show ?thesis using Cons.IH [of "n + 1" db1] Cons.prems x step by auto
  qed
qed simp

text \<open>What a page, or a table, leaves.\<close>

definition dry_result ::
  "('db \<Rightarrow> 'c) \<Rightarrow> DryRunValidationSummary \<Rightarrow> 'db \<Rightarrow> string option \<Rightarrow> DryRunValidationSummary \<Rightarrow> 'db \<Rightarrow> bool" where
  "dry_result view summary db r summary' db' =
     (view db' = view db \<and> dr_Failed summary' = dr_Failed summary + (if r = None then 0 else 1))"

lemma dry_page_spec:
  assumes t: "transactional dest view work effect dml" and q: "dml insertSQL"
  shows "case dry_page query dest rollbackErr selectSQL insertSQL n columns keyColumns cursor summary db of
      DryFinished r s db' \<Rightarrow> dry_result view summary db r s db' \<and>
        (r = None \<longrightarrow> (\<exists>rows. query selectSQL (cursor @ [VInt (int n)]) = Rows rows \<and> (rows = [] \<or> length rows < n)))
    | DryNext cursor' s db' \<Rightarrow> dry_result view summary db None s db' \<and> length cursor' = length keyColumns"
proof (cases "fetchKeysetBatch query selectSQL n cursor columns keyColumns")
  case (Inl e)
  then show ?thesis by (simp add: dry_page_def dry_result_def dry_failed_def)
next
  case (Inr r)
  obtain batch lastKey where r: "r = (batch, lastKey)" by force
  have fetched: "query selectSQL (cursor @ [VInt (int n)]) = Rows batch"
    "batch \<noteq> [] \<longrightarrow> length lastKey = length keyColumns"
    using Inr by (auto simp: r fetchKeysetBatch_def bind_result_Inr key_values_def length_key_indexes)
  show ?thesis
  proof (cases "batch = []")
    case True
    then show ?thesis using Inr fetched by (simp add: r dry_page_def dry_result_def)
  next
    case ne: False
    obtain rb db1 where b: "de_begin dest db = (rb, db1)" by force
    note at_begin = transactional_begin(1) [OF t b]
    show ?thesis
    proof (cases rb)
      case (Some e)
      then show ?thesis using Inr ne b at_begin by (simp add: r dry_page_def dry_result_def dry_failed_def)
    next
      case None
      obtain re m db2 where tr: "try_rows dest insertSQL batch (dr_Validated summary) db1 = (re, m, db2)" by (metis prod_cases3)
      note tried = try_rows_view [OF t q tr]
      show ?thesis
        using Inr ne b None tr tried at_begin fetched transactional_rollback [OF t]
        by (auto simp: r dry_page_def dry_result_def dry_failed_def Let_def split: option.splits)
    qed
  qed
qed

text \<open>
  The second page is asked for with the statement without a cursor but with the cursor's arguments,
  which the server refuses; so the loop ends after at most two pages.
\<close>

lemma validateTable_spec:
  assumes t: "transactional dest view work effect dml" and q: "dml insertSQL" and c: "counts_arguments query"
    and one: "placeholders False selectSQL = 1" and k: "keyColumns \<noteq> []"
  shows "\<exists>r s db'. validateTableBatchWithRollback query dest rollbackErr selectSQL insertSQL n columns keyColumns 0 [] summary db
      = Some (r, s, db') \<and> dry_result view summary db r s db' \<and>
    (r = None \<longrightarrow> (\<exists>rows. query selectSQL [VInt (int n)] = Rows rows \<and> (rows = [] \<or> length rows < n)))"
proof -
  let ?page = "\<lambda>i. dry_page query dest (rollbackErr i) selectSQL insertSQL n columns keyColumns"
  note first = dry_page_spec [OF t q, where query = query and rollbackErr = "rollbackErr 0" and selectSQL = selectSQL and n = n
      and columns = columns and keyColumns = keyColumns and cursor = "[]" and summary = summary and db = db]
  show ?thesis
  proof (cases "?page 0 [] summary db")
    case (DryFinished r s db')
    then show ?thesis using first by (simp add: validateTableBatchWithRollback.simps)
  next
    case (DryNext cursor s db1)
    then have "dry_result view summary db None s db1" "length cursor = length keyColumns" using first by simp_all
    moreover from this(2) obtain e where "query selectSQL (cursor @ [VInt (int n)]) = QueryError e"
      using c one k unfolding counts_arguments_def by (metis One_nat_def length_append_singleton length_greater_0_conv
          less_irrefl nat.inject)
    then have "\<exists>e'. ?page 1 cursor s db1 = DryFinished (Some e') (dry_failed s) db1"
      by (cases "key_indexes columns keyColumns") (simp_all add: dry_page_def fetchKeysetBatch_def rows_or_error_def)
    ultimately show ?thesis
      using DryNext by (auto simp: validateTableBatchWithRollback.simps dry_result_def dry_failed_def)
  qed
qed

text \<open>What it takes for a table to pass.\<close>

definition fits_a_page :: "'db dry_env \<Rightarrow> nat \<Rightarrow> tableWork \<Rightarrow> bool" where
  "fits_a_page env n tw =
     (\<exists>columns. dy_columns env tw = Rows columns \<and>
       (columns \<noteq> [] \<longrightarrow> (\<exists>keyColumns rows. keyColumns \<noteq> [] \<and> listStableKeyColumns (dy_stats env tw) (dy_notNull env tw) = Inr keyColumns \<and>
          dy_query env (buildKeysetSelectSQL (tw_database tw) (tw_table tw) columns keyColumns False) [VInt (int n)] = Rows rows \<and>
          (rows = [] \<or> length rows < n))))"

definition dry_law :: "'db dry_env \<Rightarrow> ('db \<Rightarrow> 'c) \<Rightarrow> ('db \<Rightarrow> 'c) \<Rightarrow> (string \<Rightarrow> goval list \<Rightarrow> 'c \<Rightarrow> 'c) \<Rightarrow> bool" where
  "dry_law env view work effect = (transactional (dy_dest env) view work effect an_insert \<and> counts_arguments (dy_query env))"

lemma validate_table_spec:
  assumes "dry_law env view work effect"
  shows "\<exists>r s db'. validate_table env n destDatabase tw summary db = Some (r, s, db') \<and> view db' = view db \<and>
    (r = None \<longrightarrow> dr_Failed s = dr_Failed summary \<and> fits_a_page env n tw)"
proof -
  have t: "transactional (dy_dest env) view work effect an_insert" and c: "counts_arguments (dy_query env)"
    using assms by (simp_all add: dry_law_def)
  show ?thesis
  proof (cases "dy_columns env tw")
    case (Rows columns)
    show ?thesis
    proof (cases "columns = []")
      case True
      then show ?thesis using Rows by (simp add: validate_table_def listTableColumns_def rows_or_error_def fits_a_page_def)
    next
      case ne: False
      show ?thesis
      proof (cases "listStableKeyColumns (dy_stats env tw) (dy_notNull env tw)")
        case (Inr keyColumns)
        show ?thesis
        proof (cases "keyColumns = []")
          case False
          have one: "placeholders False (buildKeysetSelectSQL (tw_database tw) (tw_table tw) columns keyColumns False) = 1"
            by (simp add: placeholders_keyset)
          have "an_insert (buildInsertSQL destDatabase (tw_table tw) columns)" by (auto simp: an_insert_def)
          from validateTable_spec [OF t this c one False, where rollbackErr = "dy_rollbackErr env tw" and n = n
              and columns = columns and summary = summary and db = db]
          show ?thesis
            using Rows ne Inr False
            by (auto simp: validate_table_def listTableColumns_def rows_or_error_def fits_a_page_def dry_result_def)
        qed (use Rows ne Inr in \<open>simp add: validate_table_def listTableColumns_def rows_or_error_def\<close>)
      qed (use Rows ne in \<open>simp add: validate_table_def listTableColumns_def rows_or_error_def\<close>)
    qed
  qed (simp_all add: validate_table_def listTableColumns_def rows_or_error_def)
qed

lemma validate_tables_spec:
  assumes "dry_law env view work effect"
  shows "\<exists>r s db'. validate_tables env n destDatabase tws summary db = Some (r, s, db') \<and> view db' = view db \<and>
    (r = None \<longrightarrow> dr_Failed s = dr_Failed summary \<and> (\<forall>tw \<in> set tws. fits_a_page env n tw))"
proof (induction tws arbitrary: summary db)
  case (Cons tw tws)
  obtain r s db1 where one: "validate_table env n destDatabase tw summary db = Some (r, s, db1)" "view db1 = view db"
    "r = None \<longrightarrow> dr_Failed s = dr_Failed summary \<and> fits_a_page env n tw"
    using validate_table_spec [OF assms] by blast
  show ?case
  proof (cases r)
    case None
    then show ?thesis using one Cons.IH [of s db1] by auto
  qed (use one in simp)
qed simp

definition database_fits :: "'db dry_env \<Rightarrow> nat \<Rightarrow> string \<Rightarrow> bool" where
  "database_fits env n d =
     (\<exists>ts. listBaseTables (dy_tables env d) (dy_keys env d) d = Inr ts \<and>
       (\<forall>t \<in> set ts. fits_a_page env n \<lparr>tw_database = d, tw_table = t\<rparr>))"

lemma validate_databases_spec:
  assumes "dry_law env view work effect"
  shows "\<exists>r s db'. validate_databases env n mapDatabase ds summary db = Some (r, s, db') \<and> view db' = view db \<and>
    (r = None \<longrightarrow> dr_Failed s = dr_Failed summary \<and> (\<forall>d \<in> set ds. database_fits env n d))"
proof (induction ds arbitrary: summary db)
  case (Cons d ds)
  show ?case
  proof (cases "TrimSpace (mapDatabase d) = [] \<or> (\<exists>e. listBaseTables (dy_tables env d) (dy_keys env d) d = Inl e)")
    case True
    then show ?thesis by (auto simp: Let_def)
  next
    case False
    then obtain ts where ts: "listBaseTables (dy_tables env d) (dy_keys env d) d = Inr ts"
      and name: "TrimSpace (mapDatabase d) \<noteq> []"
      by (cases "listBaseTables (dy_tables env d) (dy_keys env d) d") auto
    let ?tws = "map (\<lambda>t. \<lparr>tw_database = d, tw_table = t\<rparr>) ts"
    obtain r s db1 where one: "validate_tables env n (TrimSpace (mapDatabase d)) ?tws summary db = Some (r, s, db1)"
      "view db1 = view db" "r = None \<longrightarrow> dr_Failed s = dr_Failed summary \<and> (\<forall>tw \<in> set ?tws. fits_a_page env n tw)"
      using validate_tables_spec [OF assms] by blast
    show ?thesis
    proof (cases r)
      case None
      then show ?thesis using one ts name Cons.IH [of s db1] by (auto simp: Let_def database_fits_def)
    qed (use one ts name in \<open>simp add: Let_def\<close>)
  qed
qed simp

text \<open>
  Claim C37. The dry run always ends and leaves the committed state of the destination as it was.
  It reports success only when it counts no failed statement and every table of every selected
  database has fewer rows than a page: a table that fills its first page makes the whole dry run
  fail, because the second page is asked for with a statement that has no place for the cursor.
\<close>

theorem dry_run_validates:
  assumes "dry_law env view work effect"
  shows "\<exists>r s db'. ValidateBaselineDataDryRun env includeDatabases excludeDatabases chunkSize db = Some (r, s, db') \<and>
    view db' = view db \<and>
    (r = None \<longrightarrow> chunkSize \<ge> 1 \<and> dr_Failed s = 0 \<and>
       (\<exists>databases. dy_databases env = Rows databases \<and>
          (\<forall>d \<in> set (SelectDatabases databases includeDatabases excludeDatabases). database_fits env (nat chunkSize) d)))"
proof (cases "dy_connected env \<and> chunkSize \<ge> 1 \<and> dy_mapDatabase env \<noteq> None \<and> (\<exists>databases. dy_databases env = Rows databases)")
  case True
  then obtain m databases where m: "dy_mapDatabase env = Some m" "dy_databases env = Rows databases" by auto
  obtain r s db' where "validate_databases env (nat chunkSize) m (SelectDatabases databases includeDatabases excludeDatabases)
      \<lparr>dr_Validated = 0, dr_Failed = 0\<rparr> db = Some (r, s, db')" "view db' = view db"
    "r = None \<longrightarrow> dr_Failed s = 0 \<and>
       (\<forall>d \<in> set (SelectDatabases databases includeDatabases excludeDatabases). database_fits env (nat chunkSize) d)"
    using validate_databases_spec [OF assms, of "nat chunkSize" m "SelectDatabases databases includeDatabases excludeDatabases"
        "\<lparr>dr_Validated = 0, dr_Failed = 0\<rparr>" db] by auto
  then show ?thesis
    using True m by (intro exI [of _ r] exI [of _ s] exI [of _ db'])
      (simp add: ValidateBaselineDataDryRun_def Let_def listDatabases_def rows_or_error_def)
next
  case False
  then show ?thesis
    by (auto simp: ValidateBaselineDataDryRun_def Let_def listDatabases_def rows_or_error_def split: option.splits query_result.splits)
qed

text \<open>The three rows of the example on servers that fail nothing, in pages of two.\<close>

definition strict_query :: "string \<Rightarrow> goval list \<Rightarrow> goval list query_result" where
  "strict_query q args = (if placeholders False q \<noteq> length args then QueryError ''expected other arguments'' else example_query q args)"

definition example_dry_env :: "(statement_log \<times> statement_log) dry_env" where
  "example_dry_env = \<lparr>dy_connected = True, dy_mapDatabase = Some (\<lambda>d. ''sandbox''), dy_databases = Rows [''d''],
     dy_tables = (\<lambda>d. Rows [''t'']), dy_keys = (\<lambda>d. Rows []), dy_columns = (\<lambda>tw. Rows [''id'']),
     dy_stats = (\<lambda>tw. Rows [(''PRIMARY'', 0, Some ''id'', 1)]), dy_notNull = (\<lambda>tw. Rows [''id'']),
     dy_query = strict_query, dy_dest = log_destination, dy_rollbackErr = (\<lambda>tw i. None)\<rparr>"

theorem dry_run_validates_witness:
  "\<exists>e s db'. ValidateBaselineDataDryRun example_dry_env [] [] 2 ([], []) = Some (Some e, s, db') \<and> fst db' = []"
proof -
  have law: "dry_law example_dry_env fst snd log_effect"
    using log_destination_transactional
    by (auto simp: dry_law_def example_dry_env_def counts_arguments_def strict_query_def transactional_def)
  have sel: "SelectDatabases [''d''] [] [] = [''d'']" by code_simp
  have tab: "listBaseTables (Rows [''t'']) (Rows []) ''d'' = Inr [''t'']" by code_simp
  have "\<not> fits_a_page example_dry_env 2 \<lparr>tw_database = ''d'', tw_table = ''t''\<rparr>"
    by (auto simp: fits_a_page_def example_dry_env_def strict_query_def placeholders_keyset example_query_def example_rows_def
        listStableKeyColumns_def listNotNullColumns_def rows_or_error_def no_indexes_def)
  then have "\<not> database_fits example_dry_env 2 ''d''" using tab by (simp add: database_fits_def example_dry_env_def)
  moreover have "dy_databases example_dry_env = Rows [''d'']" by (simp add: example_dry_env_def)
  ultimately show ?thesis
    using dry_run_validates [OF law, of "[]" "[]" 2 "([], [])"] sel by auto
qed

end
