(* ===== verification/Cdc_Setup.thy ===== *)
theory Cdc_Setup
  imports Baseline_Sql
begin

text \<open>
  The set-up of the trigger based change capture (internal/replicate/cdc/setup.go): the names of
  the triggers, their statements, and the operations that create, check and remove them. What the
  source answers to a statement is a parameter. The lemmas show that the names fit the server's
  limit and identify trigger and table, and that a literal reads back as the text it was made of.
\<close>

section \<open>Names\<close>

definition cdcLogTable :: string where
  "cdcLogTable = ''__dbmigrate_cdc_log''"

definition triggerMaxNameLen :: nat where
  "triggerMaxNameLen = 64"

definition triggerPrefix :: string where
  "triggerPrefix = ''__dbmigrate_''"

definition cdcLogTableName :: "string \<Rightarrow> string" where
  "cdcLogTableName schema = quoteIdentifier schema @ ''.'' @ quoteIdentifier cdcLogTable"

definition fnv32 :: "string \<Rightarrow> u32" where
  "fnv32 s = fold (\<lambda>c h. xor h (of_nat (of_char c)) * 16777619) s 2166136261"

text \<open>The verb %08x, and the verb %.*s, which counts characters of UTF-8 and not bytes.\<close>

definition hex_char :: "nat \<Rightarrow> char" where
  "hex_char n = (if n < 10 then char_of (48 + n) else char_of (87 + n))"

definition hex8 :: "u32 \<Rightarrow> string" where
  "hex8 w = map (\<lambda>i. hex_char (unat (drop_bit (4 * i) w) mod 16)) [7, 6, 5, 4, 3, 2, 1, 0]"

definition continuation :: "char \<Rightarrow> bool" where
  "continuation c = (128 \<le> (of_char c :: nat) \<and> (of_char c :: nat) < 192)"

fun take_runes :: "nat \<Rightarrow> string \<Rightarrow> string" where
  "take_runes n [] = []"
| "take_runes n (c # s) =
     (if continuation c then c # take_runes n s
      else case n of 0 \<Rightarrow> [] | Suc m \<Rightarrow> c # take_runes m s)"

definition triggerName :: "string \<Rightarrow> string \<Rightarrow> string" where
  "triggerName prefix table =
     (let name = triggerPrefix @ prefix @ ''_'' @ table
      in if length name \<le> triggerMaxNameLen then name
         else
           let hashLen = 8;
               overhead = length triggerPrefix + length prefix + 1 + hashLen;
               maxTable = (if triggerMaxNameLen < overhead + 1 then 1 else triggerMaxNameLen - overhead)
           in triggerPrefix @ prefix @ ''_'' @ take_runes maxTable table @ hex8 (fnv32 table))"

section \<open>Statements\<close>

definition quoteLiteral :: "string \<Rightarrow> string" where
  "quoteLiteral s = CHR 0x27 # ReplaceByte (ReplaceByte s CHR 0x5C [CHR 0x5C, CHR 0x5C]) CHR 0x27 [CHR 0x5C, CHR 0x27] @ [CHR 0x27]"

definition buildJSONObject :: "string \<Rightarrow> string list \<Rightarrow> string" where
  "buildJSONObject rowRef columns =
     (if columns = [] then ''JSON_OBJECT()''
      else ''JSON_OBJECT('' @ Join (concat (map (\<lambda>col. [quoteLiteral col, rowRef @ ''.'' @ quoteIdentifier col]) columns)) '', ''
        @ '')'')"

definition newline :: string where
  "newline = [CHR 0x0A]"

definition cdcLogTableDDL :: "string \<Rightarrow> string" where
  "cdcLogTableDDL schema =
     newline @ ''CREATE TABLE IF NOT EXISTS '' @ cdcLogTableName schema @ '' ('' @ newline
     @ ''  cdc_id BIGINT UNSIGNED NOT NULL AUTO_INCREMENT PRIMARY KEY,'' @ newline
     @ ''  table_name VARCHAR(255) NOT NULL,'' @ newline
     @ ''  operation ENUM('' @ Join (map quoteLiteral [''INSERT'', ''UPDATE'', ''DELETE'']) '','' @ '') NOT NULL,'' @ newline
     @ ''  old_row_json LONGTEXT,'' @ newline
     @ ''  new_row_json LONGTEXT,'' @ newline
     @ ''  captured_at TIMESTAMP(6) NOT NULL DEFAULT CURRENT_TIMESTAMP(6)'' @ newline
     @ '') ENGINE=InnoDB''"

text \<open>The three triggers differ in their event, the columns of the log that they fill and the values for them.\<close>

definition log_trigger :: "string \<Rightarrow> string \<Rightarrow> string \<Rightarrow> string \<Rightarrow> string \<Rightarrow> string list \<Rightarrow> string" where
  "log_trigger name event schema table columns values =
     ''CREATE TRIGGER '' @ quoteIdentifier name @ '' AFTER '' @ event @ '' ON '' @ quoteIdentifier schema @ ''.''
     @ quoteIdentifier table @ '' FOR EACH ROW INSERT INTO '' @ cdcLogTableName schema @ '' (table_name, operation, '' @ columns
     @ '') VALUES ('' @ quoteLiteral table @ '', '' @ quoteLiteral event @ '', '' @ Join values '', '' @ '')''"

definition generateInsertTrigger :: "string \<Rightarrow> string \<Rightarrow> string list \<Rightarrow> string" where
  "generateInsertTrigger schema table columns =
     log_trigger (triggerName ''ins'' table) ''INSERT'' schema table ''new_row_json'' [buildJSONObject ''NEW'' columns]"

definition generateUpdateTrigger :: "string \<Rightarrow> string \<Rightarrow> string list \<Rightarrow> string" where
  "generateUpdateTrigger schema table columns =
     log_trigger (triggerName ''upd'' table) ''UPDATE'' schema table ''old_row_json, new_row_json''
       [buildJSONObject ''OLD'' columns, buildJSONObject ''NEW'' columns]"

definition generateDeleteTrigger :: "string \<Rightarrow> string \<Rightarrow> string list \<Rightarrow> string" where
  "generateDeleteTrigger schema table columns =
     log_trigger (triggerName ''del'' table) ''DELETE'' schema table ''old_row_json'' [buildJSONObject ''OLD'' columns]"

section \<open>Questions to the information schema\<close>

definition cdc_listTableColumns :: "string \<Rightarrow> string \<Rightarrow> string query_result \<Rightarrow> string + string list" where
  "cdc_listTableColumns schema table q =
     (case q of
        QueryError e \<Rightarrow> Inl (''list columns for '' @ schema @ ''.'' @ table @ '': '' @ e)
      | ScanError e \<Rightarrow> Inl (''scan column for '' @ schema @ ''.'' @ table @ '': '' @ e)
      | RowsError e \<Rightarrow> Inl e
      | Rows cols \<Rightarrow> Inr cols)"

definition listNotNullColumnsForCDC :: "string \<Rightarrow> string \<Rightarrow> string query_result \<Rightarrow> string + string set" where
  "listNotNullColumnsForCDC schema table q =
     (case q of
        QueryError e \<Rightarrow> Inl (''list not-null columns for '' @ schema @ ''.'' @ table @ '': '' @ e)
      | ScanError e \<Rightarrow> Inl e
      | RowsError e \<Rightarrow> Inl e
      | Rows cols \<Rightarrow> Inr (set cols))"

definition cdc_listStableKeyColumns ::
  "string \<Rightarrow> string \<Rightarrow> statistics_row query_result \<Rightarrow> string query_result \<Rightarrow> string + string list" where
  "cdc_listStableKeyColumns schema table stats notNull =
     (case stats of
        QueryError e \<Rightarrow> Inl (''list key columns for '' @ schema @ ''.'' @ table @ '': '' @ e)
      | ScanError e \<Rightarrow> Inl e
      | RowsError e \<Rightarrow> Inl e
      | Rows rows \<Rightarrow>
          bind_result (collect_indexes rows no_indexes) (\<lambda>s.
          bind_result (listNotNullColumnsForCDC schema table notNull) (\<lambda>notNull.
            Inr (first_eligible s notNull (ix_ordered s)))))"

section \<open>Set-up, check and removal\<close>

text \<open>A server that executes a statement with an error, or None.\<close>

type_synonym 'db executor = "string \<Rightarrow> 'db \<Rightarrow> string option \<times> 'db"

fun run_statements :: "'db executor \<Rightarrow> string \<Rightarrow> string list \<Rightarrow> 'db \<Rightarrow> string option \<times> 'db" where
  "run_statements exec failed [] db = (None, db)"
| "run_statements exec failed (ddl # ddls) db =
     (case exec ddl db of
        (Some e, db') \<Rightarrow> (Some (failed @ '': '' @ e), db')
      | (None, db') \<Rightarrow> run_statements exec failed ddls db')"

definition table_triggers :: "string \<Rightarrow> string \<Rightarrow> string list \<Rightarrow> string list" where
  "table_triggers schema table cols =
     [generateInsertTrigger schema table cols, generateUpdateTrigger schema table cols, generateDeleteTrigger schema table cols]"

fun setup_tables ::
  "'db executor \<Rightarrow> ('db \<Rightarrow> string \<Rightarrow> string query_result) \<Rightarrow> string \<Rightarrow> string list \<Rightarrow> 'db \<Rightarrow> string option \<times> 'db" where
  "setup_tables exec columns schema [] db = (None, db)"
| "setup_tables exec columns schema (table # tables) db =
     (case cdc_listTableColumns schema table (columns db table) of
        Inl e \<Rightarrow> (Some (''setup CDC triggers for '' @ schema @ ''.'' @ table @ '': '' @ e), db)
      | Inr cols \<Rightarrow>
          (case run_statements exec (''create CDC trigger for '' @ schema @ ''.'' @ table) (table_triggers schema table cols) db of
             (Some e, db') \<Rightarrow> (Some e, db')
           | (None, db') \<Rightarrow> setup_tables exec columns schema tables db'))"

definition SetupCDC ::
  "'db executor \<Rightarrow> ('db \<Rightarrow> string \<Rightarrow> string query_result) \<Rightarrow> string \<Rightarrow> string list \<Rightarrow> 'db \<Rightarrow> string option \<times> 'db" where
  "SetupCDC exec columns schema tables db =
     (case exec (cdcLogTableDDL schema) db of
        (Some e, db') \<Rightarrow> (Some (''create CDC log table for '' @ schema @ '': '' @ e), db')
      | (None, db') \<Rightarrow> setup_tables exec columns schema tables db')"

definition drop_trigger :: "string \<Rightarrow> string \<Rightarrow> string" where
  "drop_trigger schema name = ''DROP TRIGGER IF EXISTS '' @ quoteIdentifier schema @ ''.'' @ quoteIdentifier name"

fun drop_triggers :: "'db executor \<Rightarrow> string \<Rightarrow> (string \<times> string) list \<Rightarrow> 'db \<Rightarrow> string option \<times> 'db" where
  "drop_triggers exec schema [] db = (None, db)"
| "drop_triggers exec schema ((prefix, table) # rest) db =
     (let name = triggerName prefix table
      in case exec (drop_trigger schema name) db of
           (Some e, db') \<Rightarrow> (Some (''drop CDC trigger '' @ name @ '' for '' @ schema @ ''.'' @ table @ '': '' @ e), db')
         | (None, db') \<Rightarrow> drop_triggers exec schema rest db')"

text \<open>The triggers of some tables: three for each of them.\<close>

definition trigger_kinds :: "string list \<Rightarrow> (string \<times> string) list" where
  "trigger_kinds tables = concat (map (\<lambda>t. [(''ins'', t), (''upd'', t), (''del'', t)]) tables)"

definition TeardownCDC :: "'db executor \<Rightarrow> string \<Rightarrow> string list \<Rightarrow> 'db \<Rightarrow> string option \<times> 'db" where
  "TeardownCDC exec schema tables db =
     (case drop_triggers exec schema (trigger_kinds tables) db of
        (Some e, db') \<Rightarrow> (Some e, db')
      | (None, db') \<Rightarrow>
          (case exec (''DROP TABLE IF EXISTS '' @ cdcLogTableName schema) db' of
             (Some e, db'') \<Rightarrow> (Some (''drop CDC log table for '' @ schema @ '': '' @ e), db'')
           | (None, db'') \<Rightarrow> (None, db'')))"

text \<open>count: how many triggers of a name the schema has, or an error.\<close>

fun check_triggers :: "(string \<Rightarrow> string + int) \<Rightarrow> string \<Rightarrow> (string \<times> string) list \<Rightarrow> string option" where
  "check_triggers count schema [] = None"
| "check_triggers count schema ((prefix, table) # rest) =
     (let name = triggerName prefix table
      in case count name of
           Inl e \<Rightarrow> Some (''check CDC trigger '' @ name @ '': '' @ e)
         | Inr n \<Rightarrow>
             (if n = 0 then Some (''CDC trigger '' @ schema @ ''.'' @ name @ '' not found; run with --enable-trigger-cdc to create it'')
              else check_triggers count schema rest))"

definition VerifyTriggersExist :: "(string \<Rightarrow> string + int) \<Rightarrow> string \<Rightarrow> string list \<Rightarrow> string option" where
  "VerifyTriggersExist count schema tables = check_triggers count schema (trigger_kinds tables)"

section \<open>Names fit and identify\<close>

definition rune_count :: "string \<Rightarrow> nat" where
  "rune_count s = length (filter (\<lambda>c. \<not> continuation c) s)"

lemma rune_count_simps [simp]:
  "rune_count [] = 0" "rune_count (s @ t) = rune_count s + rune_count t"
  "rune_count (c # s) = (if continuation c then rune_count s else rune_count s + 1)"
  by (simp_all add: rune_count_def)

lemma rune_count_le: "rune_count s \<le> length s"
  by (simp add: rune_count_def)

lemma rune_count_take_runes: "rune_count (take_runes n s) \<le> n"
  by (induction n s rule: take_runes.induct) (auto split: nat.split)

text \<open>
  The name of a trigger never has more than the 64 characters that the server allows,
  whatever the name of the table is. For names that are not shortened it tells both the kind of the
  trigger and the table.
\<close>

theorem triggerName_fits:
  "prefix \<in> {''ins'', ''upd'', ''del''} \<Longrightarrow> rune_count (triggerName prefix table) \<le> triggerMaxNameLen \<and>
     (\<forall>prefix' \<in> {''ins'', ''upd'', ''del''}. \<forall>table'. length table \<le> 48 \<longrightarrow> length table' \<le> 48 \<longrightarrow>
        triggerName prefix table = triggerName prefix' table' \<longrightarrow> prefix = prefix' \<and> table = table')"
proof (intro conjI ballI allI impI)
  assume p: "prefix \<in> {''ins'', ''upd'', ''del''}"
  then have len: "length prefix = 3" by auto
  have runes: "rune_count triggerPrefix \<le> 12" "rune_count prefix \<le> 3" "rune_count ''_'' \<le> 1" "rune_count (hex8 w) \<le> 8" for w
    using rune_count_le [of triggerPrefix] rune_count_le [of prefix] rune_count_le [of "''_''"] rune_count_le [of "hex8 w"] len
    by (simp_all add: triggerPrefix_def hex8_def)
  show "rune_count (triggerName prefix table) \<le> triggerMaxNameLen"
  proof (cases "length (triggerPrefix @ prefix @ ''_'' @ table) \<le> triggerMaxNameLen")
    case True
    then have "triggerName prefix table = triggerPrefix @ prefix @ ''_'' @ table" by (simp only: triggerName_def Let_def if_True)
    then show ?thesis using True rune_count_le [of "triggerPrefix @ prefix @ ''_'' @ table"] by simp
  next
    case False
    have "triggerName prefix table = triggerPrefix @ prefix @ ''_'' @ take_runes 40 table @ hex8 (fnv32 table)"
      using False len by (simp add: triggerName_def Let_def triggerPrefix_def triggerMaxNameLen_def)
    then have "rune_count (triggerName prefix table) =
        rune_count triggerPrefix + rune_count prefix + rune_count ''_'' + rune_count (take_runes 40 table) + rune_count (hex8 (fnv32 table))"
      by (simp only: rune_count_simps(2))
    then show ?thesis
      using runes(1-3) runes(4) [of "fnv32 table"] rune_count_take_runes [of 40 table] by (simp add: triggerMaxNameLen_def)
  qed
  fix prefix' table'
  assume p': "prefix' \<in> {''ins'', ''upd'', ''del''}" and l: "length table \<le> 48" "length table' \<le> 48"
    and eq: "triggerName prefix table = triggerName prefix' table'"
  have "triggerName q t = triggerPrefix @ q @ ''_'' @ t" if "q \<in> {''ins'', ''upd'', ''del''}" "length t \<le> 48" for q t
    using that by (auto simp: triggerName_def Let_def triggerPrefix_def triggerMaxNameLen_def)
  then have "prefix @ ''_'' @ table = prefix' @ ''_'' @ table'" using eq p p' l by simp
  then show "prefix = prefix'" "table = table'" using p p' by auto
qed

theorem triggerName_fits_witness:
  "rune_count (triggerName ''ins'' (replicate 60 CHR ''t'')) \<le> 64 \<and> triggerName ''upd'' ''orders'' \<noteq> triggerName ''del'' ''orders''"
proof -
  have "rune_count (triggerName ''ins'' (replicate 60 CHR ''t'')) \<le> triggerMaxNameLen"
    using triggerName_fits [of "''ins''" "replicate 60 CHR ''t''"] by blast
  moreover have "triggerName ''upd'' ''orders'' = triggerName ''del'' ''orders'' \<Longrightarrow> ''upd'' = ''del'' \<and> ''orders'' = ''orders''"
    by (rule triggerName_fits [of "''upd''" "''orders''", THEN conjunct2, rule_format]) simp_all
  ultimately show ?thesis by (auto simp: triggerMaxNameLen_def)
qed

section \<open>Literals read back\<close>

text \<open>The server's rules for a string literal, without the mode NO_BACKSLASH_ESCAPES.\<close>

definition unescape :: "char \<Rightarrow> string" where
  "unescape c =
     (if c = CHR ''n'' then [CHR 0x0A] else if c = CHR ''t'' then [CHR 0x09] else if c = CHR ''r'' then [CHR 0x0D]
      else if c = CHR ''b'' then [CHR 0x08] else if c = CHR ''0'' then [CHR 0x00] else if c = CHR ''Z'' then [CHR 0x1A]
      else if c = CHR ''%'' \<or> c = CHR ''_'' then [CHR 0x5C, c] else [c])"

fun scan_literal_body :: "string \<Rightarrow> (string \<times> string) option" where
  "scan_literal_body [] = None"
| "scan_literal_body [c] = (if c = CHR 0x27 then Some ([], []) else None)"
| "scan_literal_body (c # d # s) =
     (if c = CHR 0x5C then map_option (apfst ((@) (unescape d))) (scan_literal_body s)
      else if c = CHR 0x27 then
        (if d = CHR 0x27 then map_option (apfst ((#) CHR 0x27)) (scan_literal_body s) else Some ([], d # s))
      else map_option (apfst ((#) c)) (scan_literal_body (d # s)))"

fun scan_literal :: "string \<Rightarrow> (string \<times> string) option" where
  "scan_literal [] = None"
| "scan_literal (c # s) = (if c = CHR 0x27 then scan_literal_body s else None)"

text \<open>
  A string that is put into a trigger as a literal, such as the name of a table or a
  column, is read back by the server byte for byte: no name can end its literal early.
\<close>

theorem quoteLiteral_reads_back:
  assumes "case rest of [] \<Rightarrow> True | c # _ \<Rightarrow> c \<noteq> CHR 0x27"
  shows "scan_literal (quoteLiteral s @ rest) = Some (s, rest)"
proof -
  let ?esc = "\<lambda>s. ReplaceByte (ReplaceByte s CHR 0x5C [CHR 0x5C, CHR 0x5C]) CHR 0x27 [CHR 0x5C, CHR 0x27]"
  have "scan_literal_body (?esc s @ CHR 0x27 # rest) = Some (s, rest)"
  proof (induction s)
    case Nil
    then show ?case using assms by (cases rest) auto
  next
    case (Cons c s)
    obtain d u where du: "?esc s @ CHR 0x27 # rest = d # u" by (cases "?esc s @ CHR 0x27 # rest") auto
    show ?case
      using Cons du by (cases "c = CHR 0x5C"; cases "c = CHR 0x27") (auto simp: unescape_def)
  qed
  then show ?thesis by (simp add: quoteLiteral_def)
qed

theorem quoteLiteral_reads_back_witness:
  "scan_literal (quoteLiteral [CHR ''a'', CHR 0x27, CHR 0x5C] @ '', 1)'') = Some ([CHR ''a'', CHR 0x27, CHR 0x5C], '', 1)'')"
  by (rule quoteLiteral_reads_back) simp

lemma ReplaceByte_append: "ReplaceByte (s @ t) a r = ReplaceByte s a r @ ReplaceByte t a r"
  by (simp add: ReplaceByte_def)

end
