(* ===== verification/Cdc_Run.thy ===== *)
theory Cdc_Run
  imports Cdc_Setup State_Store
begin

text \<open>
  The trigger based change capture (internal/replicate/cdc/reader.go and run.go): the events that
  triggers have written into a log table of each database are read in batches, applied to the
  destination one by one, and purged after the checkpoint is saved. The source with its logs and
  the destination are parameters. The rows of an event are JSON objects; only integer numbers occur.
\<close>

section \<open>Events and rows\<close>

text \<open>A column of JSON text: the text of a JSON value, or any other text.\<close>

datatype row_text = RowJson json | RowText string

record CDCEvent =
  cv_CDCID :: u64
  cv_TableName :: string
  cv_Operation :: string
  cv_OldRowJSON :: row_text
  cv_NewRowJSON :: row_text

text \<open>A JSON number becomes a float64: the nearest integer with 53 significant bits, ties to even.\<close>

fun excess_bits :: "nat \<Rightarrow> nat" where
  "excess_bits n = (if n < 2 ^ 53 then 0 else Suc (excess_bits (n div 2)))"

declare excess_bits.simps [simp del]

definition float64_nat :: "nat \<Rightarrow> nat" where
  "float64_nat n =
     (let e = excess_bits n; q = n div 2 ^ e; r = n mod 2 ^ e; half = 2 ^ (e - 1)
      in (if e \<noteq> 0 \<and> (r > half \<or> (r = half \<and> odd q)) then q + 1 else q) * 2 ^ e)"

definition float64_int :: "int \<Rightarrow> int" where
  "float64_int i = (if i < 0 then - int (float64_nat (nat (- i))) else int (float64_nat (nat i)))"

text \<open>A value of the type any; a float is written as the decimal text of its value.\<close>

fun json_any :: "json \<Rightarrow> goval" where
  "json_any JNull = VNil"
| "json_any (JBool b) = VBool b"
| "json_any (JNum n) = VFloat (show_int (float64_int n))"
| "json_any (JStr s) = VString s"
| "json_any _ = VOther ''''"

type_synonym any_map = "string \<rightharpoonup> goval"

text \<open>A nil map without an error stands for an absent row.\<close>

definition ParseJSONRow :: "row_text \<Rightarrow> string + any_map option" where
  "ParseJSONRow raw =
     (case raw of
        RowText t \<Rightarrow> (if TrimSpace t = '''' then Inr None else Inl ''parse CDC row JSON: invalid character'')
      | RowJson JNull \<Rightarrow> Inr None
      | RowJson (JObj kvs) \<Rightarrow> Inr (Some (map_of (rev (map (\<lambda>(k, j). (k, json_any j)) kvs))))
      | RowJson _ \<Rightarrow> Inl ''parse CDC row JSON: cannot unmarshal'')"

definition map_index :: "any_map \<Rightarrow> string \<Rightarrow> goval" where
  "map_index row col = (case row col of None \<Rightarrow> VNil | Some v \<Rightarrow> v)"

definition RowToValues :: "any_map \<Rightarrow> string list \<Rightarrow> goval list" where
  "RowToValues row columns = map (map_index row) columns"

section \<open>Applying an event\<close>

text \<open>The destination: what it knows about a table, and how it executes a statement.\<close>

record 'db cdc_dest =
  cd_columns :: "'db \<Rightarrow> string \<Rightarrow> string \<Rightarrow> string query_result"
  cd_stats :: "'db \<Rightarrow> string \<Rightarrow> string \<Rightarrow> statistics_row query_result"
  cd_notNull :: "'db \<Rightarrow> string \<Rightarrow> string \<Rightarrow> string query_result"
  cd_exec :: "string \<Rightarrow> goval list \<Rightarrow> 'db \<Rightarrow> string option \<times> 'db"

definition insert_text :: "string \<Rightarrow> string \<Rightarrow> string \<Rightarrow> string list \<Rightarrow> string" where
  "insert_text verb schema table columns =
     verb @ '' '' @ qualifiedTable schema table @ '' ('' @ Join (map quoteIdentifier columns) '','' @ '') VALUES (''
     @ Join (replicate (length columns) ''?'') '','' @ '')''"

definition insert_statement :: "string \<Rightarrow> string \<Rightarrow> string \<Rightarrow> string list \<Rightarrow> string" where
  "insert_statement conflictPolicy schema table columns =
     (if conflictPolicy = ''dest-wins'' then insert_text ''INSERT IGNORE INTO'' schema table columns
      else if conflictPolicy = ''source-wins'' then
        insert_text ''INSERT INTO'' schema table columns @ '' ON DUPLICATE KEY UPDATE ''
        @ Join (map (\<lambda>c. quoteIdentifier c @ ''=VALUES('' @ quoteIdentifier c @ '')'') columns) '',''
      else insert_text ''INSERT INTO'' schema table columns)"

definition applyInsert ::
  "'db cdc_dest \<Rightarrow> string \<Rightarrow> CDCEvent \<Rightarrow> string list \<Rightarrow> string \<Rightarrow> 'db \<Rightarrow> string option \<times> 'db" where
  "applyInsert dest schema event columns conflictPolicy db =
     (case ParseJSONRow (cv_NewRowJSON event) of
        Inl e \<Rightarrow> (Some e, db)
      | Inr None \<Rightarrow> (Some (''CDC INSERT event '' @ show_nat (unat (cv_CDCID event)) @ '' has no new_row_json''), db)
      | Inr (Some row) \<Rightarrow>
          cd_exec dest (insert_statement conflictPolicy schema (cv_TableName event) columns) (RowToValues row columns) db)"

definition where_part :: "any_map \<Rightarrow> string \<Rightarrow> string \<times> goval list" where
  "where_part row c =
     (if map_index row c = VNil then (quoteIdentifier c @ '' IS NULL'', []) else (quoteIdentifier c @ '' <=> ?'', [map_index row c]))"

definition buildWhereFromRow :: "any_map \<Rightarrow> string list \<Rightarrow> string \<times> goval list" where
  "buildWhereFromRow row columns =
     (if columns = [] then (''1=1'', [])
      else (Join (map (fst \<circ> where_part row) columns) '' AND '', concat (map (snd \<circ> where_part row) columns)))"

definition applyUpdate ::
  "'db cdc_dest \<Rightarrow> string \<Rightarrow> CDCEvent \<Rightarrow> string list \<Rightarrow> string list \<Rightarrow> 'db \<Rightarrow> string option \<times> 'db" where
  "applyUpdate dest schema event columns keyCols db =
     (case ParseJSONRow (cv_NewRowJSON event) of
        Inl e \<Rightarrow> (Some e, db)
      | Inr None \<Rightarrow> (Some (''CDC UPDATE event '' @ show_nat (unat (cv_CDCID event)) @ '' has no new_row_json''), db)
      | Inr (Some newRow) \<Rightarrow>
          (case ParseJSONRow (cv_OldRowJSON event) of
             Inl e \<Rightarrow> (Some e, db)
           | Inr oldRow \<Rightarrow>
               (let keyRow = (case oldRow of None \<Rightarrow> newRow | Some r \<Rightarrow> r);
                    cond = buildWhereFromRow keyRow keyCols
                in cd_exec dest
                     (''UPDATE '' @ qualifiedTable schema (cv_TableName event) @ '' SET ''
                      @ Join (map (\<lambda>c. quoteIdentifier c @ ''=?'') columns) '','' @ '' WHERE '' @ fst cond)
                     (RowToValues newRow columns @ snd cond) db)))"

definition applyDelete :: "'db cdc_dest \<Rightarrow> string \<Rightarrow> CDCEvent \<Rightarrow> string list \<Rightarrow> 'db \<Rightarrow> string option \<times> 'db" where
  "applyDelete dest schema event keyCols db =
     (case ParseJSONRow (cv_OldRowJSON event) of
        Inl e \<Rightarrow> (Some e, db)
      | Inr None \<Rightarrow> (Some (''CDC DELETE event '' @ show_nat (unat (cv_CDCID event)) @ '' has no old_row_json''), db)
      | Inr (Some row) \<Rightarrow>
          (let cond = buildWhereFromRow row keyCols
           in cd_exec dest (''DELETE FROM '' @ qualifiedTable schema (cv_TableName event) @ '' WHERE '' @ fst cond) (snd cond) db))"

text \<open>What an update and a delete do first: find the key of the table.\<close>

definition with_key ::
  "'db cdc_dest \<Rightarrow> string \<Rightarrow> CDCEvent \<Rightarrow> (string list \<Rightarrow> string option \<times> 'db) \<Rightarrow> 'db \<Rightarrow> string option \<times> 'db" where
  "with_key dest schema event act db =
     (let table = cv_TableName event
      in case cdc_listStableKeyColumns schema table (cd_stats dest db schema table) (cd_notNull dest db schema table) of
           Inl e \<Rightarrow> (Some (''resolve key columns for '' @ schema @ ''.'' @ table @ '': '' @ e), db)
         | Inr keyCols \<Rightarrow>
             (if keyCols = []
              then (Some (''CDC '' @ cv_Operation event @ '' on '' @ schema @ ''.'' @ table
                     @ '' requires a primary key or non-null unique key; table has none''), db)
              else act keyCols))"

definition cdc_applyEvent :: "'db cdc_dest \<Rightarrow> string \<Rightarrow> CDCEvent \<Rightarrow> string \<Rightarrow> 'db \<Rightarrow> string option \<times> 'db" where
  "cdc_applyEvent dest schema event conflictPolicy db =
     (case cdc_listTableColumns schema (cv_TableName event) (cd_columns dest db schema (cv_TableName event)) of
        Inl e \<Rightarrow> (Some e, db)
      | Inr cols \<Rightarrow>
          (if cv_Operation event = ''INSERT'' then applyInsert dest schema event cols conflictPolicy db
           else if cv_Operation event = ''UPDATE'' then
             with_key dest schema event (\<lambda>keyCols. applyUpdate dest schema event cols keyCols db) db
           else if cv_Operation event = ''DELETE'' then
             with_key dest schema event (\<lambda>keyCols. applyDelete dest schema event keyCols db) db
           else (Some (''unknown CDC operation '' @ go_quote (cv_Operation event)), db)))"

section \<open>The checkpoint\<close>

record CDCCheckpoint =
  cc_Version :: int
  cc_Databases :: "string \<rightharpoonup> u64"
  cc_UpdatedAt :: instant

definition newCDCCheckpoint :: CDCCheckpoint where
  "newCDCCheckpoint = \<lparr>cc_Version = 1, cc_Databases = Map.empty, cc_UpdatedAt = 0\<rparr>"

definition enc_ids :: "(string \<rightharpoonup> u64) \<Rightarrow> json" where
  "enc_ids m = JObj (map (\<lambda>k. (k, enc_word (the (m k)))) (sorted_list_of_set (dom m)))"

fun dec_id_entries :: "(string \<times> json) list \<Rightarrow> (string \<rightharpoonup> u64) option" where
  "dec_id_entries [] = Some Map.empty"
| "dec_id_entries ((k, j) # kvs) = bindo (dec_word j) (\<lambda>w. bindo (dec_id_entries kvs) (\<lambda>m. Some ([k \<mapsto> w] ++ m)))"

definition cdc_fields :: "CDCCheckpoint \<Rightarrow> (string \<times> bool \<times> json) list" where
  "cdc_fields c = [
     (''version'', False, JNum (cc_Version c)),
     (''databases'', False, enc_ids (cc_Databases c)),
     (''updated_at'', False, JTime (cc_UpdatedAt c))]"

definition enc_cdc :: "CDCCheckpoint \<Rightarrow> json" where
  "enc_cdc c = struct (cdc_fields c)"

definition dec_cdc :: "json \<Rightarrow> CDCCheckpoint option" where
  "dec_cdc = dec_obj (\<lambda>o'.
     bindo (dec_int (get ''version'' o')) (\<lambda>a1.
     bindo (dec_obj dec_id_entries (get ''databases'' o')) (\<lambda>a2.
     bindo (dec_time (get ''updated_at'' o')) (\<lambda>a3.
       Some \<lparr>cc_Version = a1, cc_Databases = a2, cc_UpdatedAt = a3\<rparr>))))"

definition loadCDCCheckpoint :: "string option \<Rightarrow> string \<Rightarrow> fs \<Rightarrow> string + CDCCheckpoint" where
  "loadCDCCheckpoint = load_record ''CDC checkpoint'' dec_cdc newCDCCheckpoint id"

text \<open>The file is written beside the old one and renamed; after a failed write the new file is cut off.\<close>

definition saveCDCCheckpoint :: "write_env \<Rightarrow> instant \<Rightarrow> string \<Rightarrow> CDCCheckpoint \<Rightarrow> fs \<Rightarrow> string option \<times> fs" where
  "saveCDCCheckpoint env now path cp fs =
     (let tmp = path @ ''.tmp''; raw = FileJson (enc_cdc (cp\<lparr>cc_UpdatedAt := now\<rparr>))
      in case we_write env of
           Some e \<Rightarrow> (Some (''write CDC checkpoint: '' @ e), fs(tmp \<mapsto> FileText ''''))
         | None \<Rightarrow>
             (case we_rename env of
                Some e \<Rightarrow> (Some (''commit CDC checkpoint: '' @ e), fs(tmp \<mapsto> raw))
              | None \<Rightarrow> (None, fs(tmp := None, path \<mapsto> raw))))"

section \<open>A run\<close>

record CDCOptions =
  cx_ConflictPolicy :: string
  cx_MaxEvents :: u64
  cx_IncludeDatabases :: "string list"
  cx_ExcludeDatabases :: "string list"
  cx_Resume :: bool
  cx_BatchSize :: int
  cx_IncludeTables :: "string set"
  cx_ExcludeTables :: "string set"

record CDCSummary =
  cz_CheckpointFile :: string
  cz_AppliedEvents :: u64
  cz_LastCDCID :: u64
  cz_ConflictPolicy :: string

definition defaultCDCBatchSize :: int where
  "defaultCDCBatchSize = 1000"

definition filterDatabases :: "string list \<Rightarrow> string list \<Rightarrow> string list \<Rightarrow> string list" where
  "filterDatabases all included excluded =
     filter (\<lambda>db. ToLower db \<notin> set (map ToLower excluded) \<and> (included \<noteq> [] \<longrightarrow> ToLower db \<in> set (map ToLower included))) all"

definition cdc_listDatabases :: "string query_result \<Rightarrow> string list \<Rightarrow> string list \<Rightarrow> string + string list" where
  "cdc_listDatabases q included excluded =
     (case q of
        QueryError e \<Rightarrow> Inl (''list databases: '' @ e)
      | ScanError e \<Rightarrow> Inl (''scan database: '' @ e)
      | RowsError e \<Rightarrow> Inl (''iterate databases: '' @ e)
      | Rows names \<Rightarrow> Inr (filterDatabases names included excluded))"

definition cdc_normalizeConflictPolicy :: "string \<Rightarrow> string" where
  "cdc_normalizeConflictPolicy p = (if TrimSpace p = '''' then ''fail'' else p)"

text \<open>The answers of the source: the rows of SELECT ... WHERE cdc_id > ? ORDER BY cdc_id LIMIT ?, and a DELETE.\<close>

record ('s, 'db) cdc_env =
  xe_connected :: bool
  xe_checkpointRead :: "string option"
  xe_databases :: "string query_result"
  xe_read :: "'s \<Rightarrow> string \<Rightarrow> u64 \<Rightarrow> int \<Rightarrow> CDCEvent query_result"
  xe_purge :: "'s \<Rightarrow> string \<Rightarrow> u64 \<Rightarrow> string option \<times> 's"
  xe_dest :: "'db cdc_dest"
  xe_save :: "string \<Rightarrow> write_env"
  xe_now :: "string \<Rightarrow> instant"

definition ReadCDCEvents :: "string \<Rightarrow> CDCEvent query_result \<Rightarrow> string + CDCEvent list" where
  "ReadCDCEvents schema q =
     (case q of
        QueryError e \<Rightarrow> Inl (''read CDC log for '' @ schema @ '': '' @ e)
      | ScanError e \<Rightarrow> Inl (''scan CDC event: '' @ e)
      | RowsError e \<Rightarrow> Inl (''iterate CDC events: '' @ e)
      | Rows events \<Rightarrow> Inr events)"

record ('s, 'db) cdc_state =
  xs_source :: 's
  xs_db :: 'db
  xs_fs :: fs
  xs_checkpoint :: CDCCheckpoint
  xs_total :: u64
  xs_last :: u64

text \<open>Whether an event is for the tables of this run.\<close>

definition routed :: "CDCOptions \<Rightarrow> string \<Rightarrow> CDCEvent \<Rightarrow> bool" where
  "routed opts schema event =
     (let eventKey = ToLower schema @ ''.'' @ ToLower (cv_TableName event)
      in (cx_IncludeTables opts \<noteq> {} \<longrightarrow> eventKey \<in> cx_IncludeTables opts) \<and>
         (cx_ExcludeTables opts \<noteq> {} \<longrightarrow> eventKey \<notin> cx_ExcludeTables opts))"

definition count_event :: "string \<Rightarrow> CDCEvent \<Rightarrow> ('s, 'db) cdc_state \<Rightarrow> ('s, 'db) cdc_state" where
  "count_event schema event st =
     st\<lparr>xs_checkpoint := (xs_checkpoint st)\<lparr>cc_Databases := (cc_Databases (xs_checkpoint st))(schema \<mapsto> cv_CDCID event)\<rparr>,
        xs_last := max (xs_last st) (cv_CDCID event), xs_total := xs_total st + 1\<rparr>"

fun apply_cdc_events ::
  "('s, 'db) cdc_env \<Rightarrow> CDCOptions \<Rightarrow> string \<Rightarrow> CDCEvent list \<Rightarrow> ('s, 'db) cdc_state \<Rightarrow> string option \<times> ('s, 'db) cdc_state" where
  "apply_cdc_events env opts schema [] st = (None, st)"
| "apply_cdc_events env opts schema (event # events) st =
     (if \<not> routed opts schema event then apply_cdc_events env opts schema events st
      else (case cdc_applyEvent (xe_dest env) schema event (cx_ConflictPolicy opts) (xs_db st) of
              (Some e, db') \<Rightarrow>
                (Some (''apply CDC event '' @ show_nat (unat (cv_CDCID event)) @ '' for '' @ schema @ ''.'' @ cv_TableName event
                   @ '': '' @ e), st\<lparr>xs_db := db'\<rparr>)
            | (None, db') \<Rightarrow> apply_cdc_events env opts schema events (count_event schema event (st\<lparr>xs_db := db'\<rparr>))))"

definition watermark :: "CDCCheckpoint \<Rightarrow> string \<Rightarrow> u64" where
  "watermark cp schema = (case cc_Databases cp schema of None \<Rightarrow> 0 | Some n \<Rightarrow> n)"

text \<open>The events of a batch that the limit allows; None: the limit is used up.\<close>

definition limit_events :: "CDCOptions \<Rightarrow> u64 \<Rightarrow> CDCEvent list \<Rightarrow> CDCEvent list option" where
  "limit_events opts applied events =
     (if cx_MaxEvents opts > 0 \<and> applied + of_nat (length events) > cx_MaxEvents opts
      then (let remaining = cx_MaxEvents opts - applied in if remaining = 0 then None else Some (take (unat remaining) events))
      else Some events)"

datatype cdc_outcome = CDCError string | CDCBreak | CDCNext

definition database_step ::
  "('s, 'db) cdc_env \<Rightarrow> CDCOptions \<Rightarrow> string \<Rightarrow> string \<Rightarrow> ('s, 'db) cdc_state \<Rightarrow> cdc_outcome \<times> ('s, 'db) cdc_state" where
  "database_step env opts path schema st =
     (case ReadCDCEvents schema (xe_read env (xs_source st) schema (watermark (xs_checkpoint st) schema) (cx_BatchSize opts)) of
        Inl e \<Rightarrow> (CDCError (''read CDC events for '' @ schema @ '': '' @ e), st)
      | Inr events \<Rightarrow>
          (if events = [] then (CDCNext, st)
           else (case limit_events opts (xs_total st) events of
                   None \<Rightarrow> (CDCBreak, st)
                 | Some events \<Rightarrow>
                     (case apply_cdc_events env opts schema events st of
                        (Some e, st1) \<Rightarrow> (CDCError e, st1)
                      | (None, st1) \<Rightarrow>
                          (case saveCDCCheckpoint (xe_save env schema) (xe_now env schema) path (xs_checkpoint st1) (xs_fs st1) of
                             (Some e, fs') \<Rightarrow> (CDCError e, st1\<lparr>xs_fs := fs'\<rparr>)
                           | (None, fs') \<Rightarrow>
                               (CDCNext, st1\<lparr>xs_fs := fs',
                                  xs_source := snd (xe_purge env (xs_source st1) schema (watermark (xs_checkpoint st1) schema))\<rparr>))))))"

fun database_loop ::
  "('s, 'db) cdc_env \<Rightarrow> CDCOptions \<Rightarrow> string \<Rightarrow> string list \<Rightarrow> ('s, 'db) cdc_state \<Rightarrow> string option \<times> ('s, 'db) cdc_state" where
  "database_loop env opts path [] st = (None, st)"
| "database_loop env opts path (schema # schemas) st =
     (case database_step env opts path schema st of
        (CDCError e, st') \<Rightarrow> (Some e, st')
      | (CDCBreak, st') \<Rightarrow> (None, st')
      | (CDCNext, st') \<Rightarrow> database_loop env opts path schemas st')"

definition cdc_options :: "CDCOptions \<Rightarrow> CDCOptions" where
  "cdc_options opts =
     opts\<lparr>cx_ConflictPolicy := cdc_normalizeConflictPolicy (cx_ConflictPolicy opts),
          cx_BatchSize := (if cx_BatchSize opts \<le> 0 then defaultCDCBatchSize else cx_BatchSize opts)\<rparr>"

definition cdc_path :: "string \<Rightarrow> string" where
  "cdc_path stateDir = path_join stateDir ''cdc-checkpoint.json''"

definition cdc_Run ::
  "('s, 'db) cdc_env \<Rightarrow> string \<Rightarrow> CDCOptions \<Rightarrow> 's \<Rightarrow> fs \<Rightarrow> 'db \<Rightarrow> (string + CDCSummary) \<times> 's \<times> fs \<times> 'db" where
  "cdc_Run env stateDir opts0 src fs db =
     (let opts = cdc_options opts0; path = cdc_path stateDir
      in if \<not> xe_connected env then (Inl ''source and destination connections are required'', src, fs, db)
         else (case (if cx_Resume opts then loadCDCCheckpoint (xe_checkpointRead env) path fs else Inr newCDCCheckpoint) of
                 Inl e \<Rightarrow> (Inl e, src, fs, db)
               | Inr checkpoint \<Rightarrow>
                   (case cdc_listDatabases (xe_databases env) (cx_IncludeDatabases opts) (cx_ExcludeDatabases opts) of
                      Inl e \<Rightarrow> (Inl e, src, fs, db)
                    | Inr databases \<Rightarrow>
                        (case database_loop env opts path databases
                                \<lparr>xs_source = src, xs_db = db, xs_fs = fs, xs_checkpoint = checkpoint, xs_total = 0, xs_last = 0\<rparr> of
                           (Some e, st) \<Rightarrow> (Inl e, xs_source st, xs_fs st, xs_db st)
                         | (None, st) \<Rightarrow>
                             (Inr \<lparr>cz_CheckpointFile = path, cz_AppliedEvents = xs_total st, cz_LastCDCID = xs_last st,
                                   cz_ConflictPolicy = cx_ConflictPolicy opts\<rparr>, xs_source st, xs_fs st, xs_db st)))))"

section \<open>The checkpoint survives\<close>

definition valid_cdc :: "CDCCheckpoint \<Rightarrow> bool" where
  "valid_cdc c = (is_int64 (cc_Version c) \<and> finite (dom (cc_Databases c)))"

lemma dec_id_entries_map:
  "dec_id_entries (map (\<lambda>k. (k, enc_word (f k))) ks) = Some (\<lambda>k. if k \<in> set ks then Some (f k) else None)"
  by (induction ks) (auto simp: map_add_def fun_eq_iff split: option.split)

lemma dec_enc_ids: "finite (dom m) \<Longrightarrow> dec_obj dec_id_entries (enc_ids m) = Some m"
proof -
  assume "finite (dom m)"
  then have "(\<lambda>k. if k \<in> set (sorted_list_of_set (dom m)) then Some (the (m k)) else None) = m"
    by (auto simp: fun_eq_iff domIff)
  then show ?thesis by (simp add: enc_ids_def dec_id_entries_map)
qed

lemma dec_enc_cdc: "valid_cdc c \<Longrightarrow> dec_cdc (enc_cdc c) = Some c"
proof -
  have d: "distinct (map fst (cdc_fields c))" by (simp add: cdc_fields_def)
  show "valid_cdc c \<Longrightarrow> dec_cdc (enc_cdc c) = Some c"
    unfolding dec_cdc_def enc_cdc_def dec_struct get_present [OF d]
    by (simp add: cdc_fields_def valid_cdc_def dec_enc_ids del: dec_int.simps)
qed

lemma dec_id_entries_finite: "dec_id_entries kvs = Some m \<Longrightarrow> finite (dom m)"
proof (induction kvs arbitrary: m)
  case (Cons kv kvs)
  then show ?case by (cases kv) (auto simp: bindo_def split: option.splits)
qed simp

lemma dec_obj_ids_finite: "dec_obj dec_id_entries j = Some m \<Longrightarrow> finite (dom m)"
  using dec_id_entries_finite by (cases j) (auto simp del: dec_id_entries.simps)

lemma dec_cdc_valid: "dec_cdc j = Some c \<Longrightarrow> valid_cdc c"
proof -
  assume "dec_cdc j = Some c"
  then show "valid_cdc c"
    unfolding dec_cdc_def
    by (drule_tac dec_obj_Some) (auto simp: bindo_Some valid_cdc_def dest: dec_int_is_int64 dec_obj_ids_finite simp del: dec_int.simps)
qed

lemma save_cdc_cases:
  assumes "saveCDCCheckpoint env now path cp fs = (r, fs')"
  shows "r = None \<Longrightarrow> fs' path = Some (FileJson (enc_cdc (cp\<lparr>cc_UpdatedAt := now\<rparr>)))" and "r = Some e \<Longrightarrow> fs' path = fs path"
  using assms by (auto simp: saveCDCCheckpoint_def Let_def split: option.splits)

interpretation cdc_store: checkpoint_store loadCDCCheckpoint "\<lambda>env. saveCDCCheckpoint env now" "\<lambda>cp. cp\<lparr>cc_UpdatedAt := now\<rparr>"
  valid_cdc newCDCCheckpoint for now
proof unfold_locales
  fix env path x fs fs'
  assume "saveCDCCheckpoint env now path x fs = (None, fs')" and "valid_cdc x"
  then show "loadCDCCheckpoint None path fs' = Inr (x\<lparr>cc_UpdatedAt := now\<rparr>)"
    using save_cdc_cases(1) [of env now path x fs None fs'] dec_enc_cdc [of "x\<lparr>cc_UpdatedAt := now\<rparr>"]
    by (simp add: loadCDCCheckpoint_def load_record_def valid_cdc_def)
next
  fix env path x fs e fs'
  assume "saveCDCCheckpoint env now path x fs = (Some e, fs')"
  then show "fs' path = fs path" using save_cdc_cases(2) by blast
qed (simp_all add: loadCDCCheckpoint_def load_record_def split: option.split)

lemma loaded_cdc_valid: "loadCDCCheckpoint readErr path fs = Inr cp \<Longrightarrow> valid_cdc cp"
  by (auto simp: loadCDCCheckpoint_def load_record_def newCDCCheckpoint_def valid_cdc_def is_int64_def
      split: option.splits content.splits dest: dec_cdc_valid)

section \<open>The source's logs\<close>

text \<open>
  The source answers a read with the events of the log whose ids follow, in the order of the ids,
  at most as many as asked for. A purge removes the events up to an id, or fails and removes none.
\<close>

definition change_log :: "('s, 'db) cdc_env \<Rightarrow> ('s \<Rightarrow> string \<Rightarrow> CDCEvent list) \<Rightarrow> bool" where
  "change_log env log =
     ((\<forall>s schema from n. xe_read env s schema from n = Rows (take (nat n) (filter (\<lambda>e. from < cv_CDCID e) (log s schema)))) \<and>
      (\<forall>s schema hi. log (snd (xe_purge env s schema hi)) =
         (if fst (xe_purge env s schema hi) = None
          then (log s)(schema := filter (\<lambda>e. hi < cv_CDCID e) (log s schema)) else log s)))"

definition above :: "u64 \<Rightarrow> CDCEvent list \<Rightarrow> CDCEvent list" where
  "above from events = filter (\<lambda>e. from < cv_CDCID e) events"

lemma above_above: "from \<le> hi \<Longrightarrow> above hi (above from events) = above hi events"
  by (auto simp: above_def intro: filter_cong)

lemma change_log_read: "change_log env log \<Longrightarrow> xe_read env s schema from n = Rows (take (nat n) (above from (log s schema)))"
  by (simp add: change_log_def above_def)

lemma change_log_purge:
  assumes "change_log env log"
  shows "above hi (log (snd (xe_purge env s schema hi)) schema) = above hi (log s schema)"
    and "schema' \<noteq> schema \<Longrightarrow> log (snd (xe_purge env s schema hi)) schema' = log s schema'"
  using assms by (auto simp: change_log_def above_def)

text \<open>What a pass over a batch does to the state, whatever the destination answers.\<close>

lemma apply_cdc_events_frame:
  "apply_cdc_events env opts schema events st = (r, st') \<Longrightarrow>
     xs_source st' = xs_source st \<and> xs_fs st' = xs_fs st \<and>
     cc_Version (xs_checkpoint st') = cc_Version (xs_checkpoint st) \<and>
     (xs_checkpoint st' = xs_checkpoint st \<or>
      (\<exists>e \<in> set events. routed opts schema e \<and> cc_Databases (xs_checkpoint st') = (cc_Databases (xs_checkpoint st))(schema \<mapsto> cv_CDCID e)))"
proof (induction events arbitrary: st)
  case (Cons event events)
  show ?case
  proof (cases "routed opts schema event")
    case False
    then show ?thesis using Cons by fastforce
  next
    case True
    obtain x db' where x: "cdc_applyEvent (xe_dest env) schema event (cx_ConflictPolicy opts) (xs_db st) = (x, db')" by force
    show ?thesis
    proof (cases x)
      case (Some e)
      then show ?thesis using Cons.prems True x by auto
    next
      case None
      let ?st1 = "count_event schema event (st\<lparr>xs_db := db'\<rparr>)"
      have "apply_cdc_events env opts schema events ?st1 = (r, st')" using Cons.prems True x None by simp
      note ih = Cons.IH [OF this]
      have "xs_source ?st1 = xs_source st" "xs_fs ?st1 = xs_fs st" "cc_Version (xs_checkpoint ?st1) = cc_Version (xs_checkpoint st)"
        by (simp_all add: count_event_def)
      moreover have "cc_Databases (xs_checkpoint ?st1) = (cc_Databases (xs_checkpoint st))(schema \<mapsto> cv_CDCID event)"
        by (simp add: count_event_def)
      ultimately show ?thesis using ih True by (metis fun_upd_upd list.set_intros(1,2))
    qed
  qed
qed simp

lemma apply_cdc_events_unrouted:
  "\<forall>e \<in> set events. \<not> routed opts schema e \<Longrightarrow> apply_cdc_events env opts schema events st = (None, st)"
  by (induction events) simp_all

end
