(* ===== verification/Cdc_Replay.thy ===== *)
theory Cdc_Replay
  imports Cdc_Run
begin

text \<open>
  What a run of the trigger based change capture does with the source's logs: which events it
  applies and where its checkpoint ends (cdc.Run of internal/replicate/cdc/run.go), and three ways
  in which events are not applied, applied twice, or applied to the wrong row.
\<close>

section \<open>A run that succeeds\<close>

text \<open>What a successfully applied event does to the part of the destination that view shows.\<close>

definition applies :: "'db cdc_dest \<Rightarrow> string \<Rightarrow> ('db \<Rightarrow> 'c) \<Rightarrow> (string \<Rightarrow> CDCEvent \<Rightarrow> 'c \<Rightarrow> 'c) \<Rightarrow> bool" where
  "applies dest policy view eff =
     (\<forall>schema event db db'. cdc_applyEvent dest schema event policy db = (None, db') \<longrightarrow> view db' = eff schema event (view db))"

definition last_id :: "u64 \<Rightarrow> CDCEvent list \<Rightarrow> u64" where
  "last_id w events = (if events = [] then w else cv_CDCID (last events))"

lemma last_id_simps [simp]: "last_id w [] = w" "last_id w (e # es) = last_id (cv_CDCID e) es"
  by (simp_all add: last_id_def)

lemma watermark_count [simp]:
  "watermark (xs_checkpoint (count_event schema event st)) schema = cv_CDCID event"
  "schema' \<noteq> schema \<Longrightarrow> watermark (xs_checkpoint (count_event schema event st)) schema' = watermark (xs_checkpoint st) schema'"
  "xs_source (count_event schema event st) = xs_source st" "xs_fs (count_event schema event st) = xs_fs st"
  "xs_db (count_event schema event st) = xs_db st"
  by (simp_all add: watermark_def count_event_def)

lemma apply_cdc_events_ok:
  assumes "applies (xe_dest env) (cx_ConflictPolicy opts) view eff" and "apply_cdc_events env opts schema events st = (None, st')"
  shows "view (xs_db st') = fold (eff schema) (filter (routed opts schema) events) (view (xs_db st)) \<and>
    watermark (xs_checkpoint st') schema = last_id (watermark (xs_checkpoint st) schema) (filter (routed opts schema) events) \<and>
    (\<forall>schema'. schema' \<noteq> schema \<longrightarrow> watermark (xs_checkpoint st') schema' = watermark (xs_checkpoint st) schema')"
  using assms(2)
proof (induction events arbitrary: st)
  case (Cons event events)
  show ?case
  proof (cases "routed opts schema event")
    case False
    then show ?thesis using Cons by simp
  next
    case True
    then obtain db' where x: "cdc_applyEvent (xe_dest env) schema event (cx_ConflictPolicy opts) (xs_db st) = (None, db')"
      and rest: "apply_cdc_events env opts schema events (count_event schema event (st\<lparr>xs_db := db'\<rparr>)) = (None, st')"
      using Cons.prems by (auto split: prod.splits option.splits)
    have "view db' = eff schema event (view (xs_db st))" using assms(1) x unfolding applies_def by blast
    then show ?thesis using Cons.IH [OF rest] True by simp
  qed
qed simp

text \<open>The batch that a run reads from the log of a database.\<close>

definition batch_of ::
  "CDCOptions \<Rightarrow> ('s \<Rightarrow> string \<Rightarrow> CDCEvent list) \<Rightarrow> CDCCheckpoint \<Rightarrow> 's \<Rightarrow> string \<Rightarrow> CDCEvent list" where
  "batch_of opts log cp src schema = take (nat (cx_BatchSize opts)) (above (watermark cp schema) (log src schema))"

definition applied_of ::
  "CDCOptions \<Rightarrow> ('s \<Rightarrow> string \<Rightarrow> CDCEvent list) \<Rightarrow> CDCCheckpoint \<Rightarrow> 's \<Rightarrow> string \<Rightarrow> CDCEvent list" where
  "applied_of opts log cp src schema = filter (routed opts schema) (batch_of opts log cp src schema)"

text \<open>The checkpoint on disk is the one in memory.\<close>

definition on_disk :: "string \<Rightarrow> ('s, 'db) cdc_state \<Rightarrow> bool" where
  "on_disk path st =
     (valid_cdc (xs_checkpoint st) \<and>
      (\<exists>c. loadCDCCheckpoint None path (xs_fs st) = Inr c \<and> cc_Databases c = cc_Databases (xs_checkpoint st)))"

lemma valid_after_events:
  assumes "apply_cdc_events env opts schema events st = (r, st')" and "valid_cdc (xs_checkpoint st)"
  shows "valid_cdc (xs_checkpoint st')"
proof -
  have "cc_Version (xs_checkpoint st') = cc_Version (xs_checkpoint st)" "finite (dom (cc_Databases (xs_checkpoint st')))"
    using apply_cdc_events_frame [OF assms(1)] assms(2) by (auto simp: valid_cdc_def)
  then show ?thesis using assms(2) by (simp add: valid_cdc_def)
qed

lemma database_step_ok:
  assumes log: "change_log env log" and ap: "applies (xe_dest env) (cx_ConflictPolicy opts) view eff"
    and step: "database_step env opts path schema st = (CDCNext, st')" and m: "cx_MaxEvents opts = 0" and d: "on_disk path st"
    and tmp: "we_tmp (xe_save env schema) \<noteq> path"
  shows "view (xs_db st') = fold (eff schema) (applied_of opts log (xs_checkpoint st) (xs_source st) schema) (view (xs_db st)) \<and>
    watermark (xs_checkpoint st') schema =
      last_id (watermark (xs_checkpoint st) schema) (applied_of opts log (xs_checkpoint st) (xs_source st) schema) \<and>
    (\<forall>schema'. schema' \<noteq> schema \<longrightarrow> watermark (xs_checkpoint st') schema' = watermark (xs_checkpoint st) schema' \<and>
       log (xs_source st') schema' = log (xs_source st) schema') \<and> on_disk path st'"
proof -
  let ?events = "batch_of opts log (xs_checkpoint st) (xs_source st) schema"
  have rd: "ReadCDCEvents schema (xe_read env (xs_source st) schema (watermark (xs_checkpoint st) schema) (cx_BatchSize opts))
      = Inr ?events"
    by (simp add: change_log_read [OF log] ReadCDCEvents_def batch_of_def)
  show ?thesis
  proof (cases "?events = []")
    case True
    then have "st' = st" using step rd by (simp add: database_step_def)
    then show ?thesis using True d by (simp add: applied_of_def)
  next
    case False
    obtain r st1 where a: "apply_cdc_events env opts schema ?events st = (r, st1)" by force
    obtain s fs' where sv: "saveCDCCheckpoint (xe_save env schema) (xe_now env schema) path (xs_checkpoint st1) (xs_fs st1) = (s, fs')"
      by force
    have lim: "limit_events opts (xs_total st) ?events = Some ?events" using m by (simp add: limit_events_def)
    have ok: "r = None" "s = None"
      "st' = st1\<lparr>xs_fs := fs', xs_source := snd (xe_purge env (xs_source st1) schema (watermark (xs_checkpoint st1) schema))\<rparr>"
      using step rd False lim a sv by (auto simp: database_step_def split: option.splits)
    have v: "valid_cdc (xs_checkpoint st1)" using valid_after_events [OF a] d by (simp add: on_disk_def)
    have "loadCDCCheckpoint None path fs' = Inr ((xs_checkpoint st1)\<lparr>cc_UpdatedAt := xe_now env schema\<rparr>)"
      using cdc_store.load_saved [OF _ tmp v] sv ok(2) by simp
    then have "on_disk path st'" using v by (simp add: on_disk_def ok(3))
    moreover have "xs_source st1 = xs_source st" using apply_cdc_events_frame [OF a] by blast
    ultimately show ?thesis
      using apply_cdc_events_ok [OF ap a [unfolded ok(1)]] change_log_purge(2) [OF log]
      by (simp add: ok(3) applied_of_def)
  qed
qed

lemma limit_no_break: "cx_MaxEvents opts = 0 \<Longrightarrow> database_step env opts path schema st \<noteq> (CDCBreak, st')"
  by (auto simp: database_step_def limit_events_def split: sum.splits option.splits prod.splits)

lemma database_loop_ok:
  assumes log: "change_log env log" and ap: "applies (xe_dest env) (cx_ConflictPolicy opts) view eff"
    and "database_loop env opts path schemas st = (None, st')" and m: "cx_MaxEvents opts = 0" and "on_disk path st"
    and tmp: "\<forall>schema. we_tmp (xe_save env schema) \<noteq> path" and "distinct schemas"
  shows "view (xs_db st') =
      fold (\<lambda>schema. fold (eff schema) (applied_of opts log (xs_checkpoint st) (xs_source st) schema)) schemas (view (xs_db st)) \<and>
    (\<forall>schema \<in> set schemas. watermark (xs_checkpoint st') schema =
       last_id (watermark (xs_checkpoint st) schema) (applied_of opts log (xs_checkpoint st) (xs_source st) schema)) \<and>
    (\<forall>schema. schema \<notin> set schemas \<longrightarrow> watermark (xs_checkpoint st') schema = watermark (xs_checkpoint st) schema \<and>
      log (xs_source st') schema = log (xs_source st) schema) \<and>
    on_disk path st'"
  using assms(3,5,7)
proof (induction schemas arbitrary: st)
  case (Cons schema schemas)
  obtain out st1 where step: "database_step env opts path schema st = (out, st1)" by force
  then have next': "out = CDCNext" using Cons.prems(1) limit_no_break [OF m, of env path schema st] by (cases out) auto
  note one = database_step_ok [OF log ap step [unfolded next'] m Cons.prems(2) tmp [rule_format]]
  have rest: "database_loop env opts path schemas st1 = (None, st')" using Cons.prems(1) step next' by simp
  have same: "applied_of opts log (xs_checkpoint st1) (xs_source st1) s = applied_of opts log (xs_checkpoint st) (xs_source st) s"
    if "s \<in> set schemas" for s
  proof -
    have "s \<noteq> schema" using that Cons.prems(3) by auto
    then show ?thesis using one by (simp add: applied_of_def batch_of_def)
  qed
  have "on_disk path st1" "distinct schemas" using one Cons.prems(3) by simp_all
  note ih = Cons.IH [OF rest this]
  have "fold (\<lambda>s. fold (eff s) (applied_of opts log (xs_checkpoint st1) (xs_source st1) s)) schemas v =
      fold (\<lambda>s. fold (eff s) (applied_of opts log (xs_checkpoint st) (xs_source st) s)) schemas v" for v
    by (rule fold_cong) (simp_all add: same)
  moreover have "schema \<notin> set schemas" using Cons.prems(3) by simp
  moreover from this have "watermark (xs_checkpoint st1) s = watermark (xs_checkpoint st) s" if "s \<in> set schemas" for s
    using one that by metis
  ultimately show ?case using ih one same by auto
qed simp

lemma database_loop_append:
  assumes "cx_MaxEvents opts = 0" and "database_loop env opts path earlier st = (None, st')"
  shows "database_loop env opts path (earlier @ later) st = database_loop env opts path later st'"
  using assms(2)
  by (induction earlier arbitrary: st)
    (auto split: cdc_outcome.splits prod.splits simp: limit_no_break [OF assms(1)])

text \<open>The checkpoint on disk after a part of the run, as the next run loads it.\<close>

lemma on_disk_load:
  assumes "on_disk path st"
  obtains cp where "loadCDCCheckpoint None path (xs_fs st) = Inr cp" and "\<And>schema. watermark cp schema = watermark (xs_checkpoint st) schema"
  using assms by (auto simp: on_disk_def watermark_def)

section \<open>The run\<close>

text \<open>The parts of a run that resumes from its checkpoint.\<close>

definition cdc_resumes ::
  "('s, 'db) cdc_env \<Rightarrow> string \<Rightarrow> CDCOptions \<Rightarrow> fs \<Rightarrow> string list \<Rightarrow> CDCCheckpoint \<Rightarrow> bool" where
  "cdc_resumes env stateDir opts fs databases cp =
     (xe_connected env \<and> cx_Resume opts \<and> xe_checkpointRead env = None \<and> loadCDCCheckpoint None (cdc_path stateDir) fs = Inr cp \<and>
      cdc_listDatabases (xe_databases env) (cx_IncludeDatabases opts) (cx_ExcludeDatabases opts) = Inr databases \<and>
      (\<forall>schema. we_tmp (xe_save env schema) \<noteq> cdc_path stateDir))"

definition initial_state :: "'s \<Rightarrow> 'db \<Rightarrow> fs \<Rightarrow> CDCCheckpoint \<Rightarrow> ('s, 'db) cdc_state" where
  "initial_state src db fs cp =
     \<lparr>xs_source = src, xs_db = db, xs_fs = fs, xs_checkpoint = cp, xs_total = 0, xs_last = 0\<rparr>"

lemma cdc_Run_loop:
  assumes "cdc_resumes env stateDir opts fs databases cp"
    and "database_loop env (cdc_options opts) (cdc_path stateDir) databases (initial_state src db fs cp) = (r, st)"
  shows "cdc_Run env stateDir opts src fs db =
    (case r of
       Some e \<Rightarrow> Inl e
     | None \<Rightarrow> Inr \<lparr>cz_CheckpointFile = cdc_path stateDir, cz_AppliedEvents = xs_total st, cz_LastCDCID = xs_last st,
                     cz_ConflictPolicy = cx_ConflictPolicy (cdc_options opts)\<rparr>, xs_source st, xs_fs st, xs_db st)"
proof -
  have o: "cx_IncludeDatabases (cdc_options opts) = cx_IncludeDatabases opts" "cx_Resume (cdc_options opts) = cx_Resume opts"
    "cx_ExcludeDatabases (cdc_options opts) = cx_ExcludeDatabases opts"
    by (simp_all add: cdc_options_def)
  show ?thesis
    using assms by (simp add: cdc_Run_def cdc_resumes_def initial_state_def o Let_def split: option.split)
qed

lemma initial_on_disk: "cdc_resumes env stateDir opts fs databases cp \<Longrightarrow> on_disk (cdc_path stateDir) (initial_state src db fs cp)"
  using loaded_cdc_valid by (auto simp: cdc_resumes_def on_disk_def initial_state_def)

lemma cdc_run_ok:
  assumes log: "change_log env log" and ap: "applies (xe_dest env) (cx_ConflictPolicy (cdc_options opts)) view eff"
    and r: "cdc_resumes env stateDir opts fs databases cp" and "distinct databases" and m: "cx_MaxEvents opts = 0"
    and run: "cdc_Run env stateDir opts src fs db = (Inr summary, src', fs', db')"
  shows "view db' = fold (\<lambda>schema. fold (eff schema) (applied_of (cdc_options opts) log cp src schema)) databases (view db) \<and>
    (\<exists>cp'. loadCDCCheckpoint None (cdc_path stateDir) fs' = Inr cp' \<and>
       (\<forall>schema \<in> set databases. watermark cp' schema =
          last_id (watermark cp schema) (applied_of (cdc_options opts) log cp src schema)) \<and>
       (\<forall>schema. schema \<notin> set databases \<longrightarrow> watermark cp' schema = watermark cp schema))"
proof -
  obtain e st where l: "database_loop env (cdc_options opts) (cdc_path stateDir) databases (initial_state src db fs cp) = (e, st)" by force
  from cdc_Run_loop [OF r l] run have none: "e = None" and st: "fs' = xs_fs st" "db' = xs_db st"
    by (auto split: option.splits)
  have m': "cx_MaxEvents (cdc_options opts) = 0" using m by (simp add: cdc_options_def)
  have tmp: "\<forall>schema. we_tmp (xe_save env schema) \<noteq> cdc_path stateDir" using r by (simp add: cdc_resumes_def)
  note fin = database_loop_ok [OF log ap l [unfolded none] m' initial_on_disk [OF r] tmp assms(4)]
  have init: "xs_checkpoint (initial_state src db fs cp) = cp" "xs_source (initial_state src db fs cp) = src"
    "xs_db (initial_state src db fs cp) = db"
    by (simp_all add: initial_state_def)
  from fin obtain c where "loadCDCCheckpoint None (cdc_path stateDir) fs' = Inr c" "cc_Databases c = cc_Databases (xs_checkpoint st)"
    by (auto simp: on_disk_def st)
  moreover from this(2) have "watermark c schema = watermark (xs_checkpoint st) schema" for schema by (simp add: watermark_def)
  ultimately show ?thesis using fin by (auto simp: init st)
qed

text \<open>
  Claim C31. A run without a limit that succeeds applies, for each selected database, the events of
  the next batch of its log that are routed to it, each once and in the order of their ids. It
  leaves on disk, for each of these databases, the id of the last event applied.
\<close>

theorem cdc_run_applies_batches:
  assumes log: "change_log env log" and ap: "applies (xe_dest env) (cx_ConflictPolicy (cdc_options opts)) view eff"
    and r: "cdc_resumes env stateDir opts fs databases cp" and "distinct databases" and m: "cx_MaxEvents opts = 0"
    and run: "cdc_Run env stateDir opts src fs db = (Inr summary, src', fs', db')"
  shows "view db' = fold (\<lambda>schema. fold (eff schema) (applied_of (cdc_options opts) log cp src schema)) databases (view db) \<and>
    (\<exists>cp'. loadCDCCheckpoint None (cdc_path stateDir) fs' = Inr cp' \<and>
       (\<forall>schema \<in> set databases. watermark cp' schema =
          last_id (watermark cp schema) (applied_of (cdc_options opts) log cp src schema)) \<and>
       (\<forall>schema. schema \<notin> set databases \<longrightarrow> watermark cp' schema = watermark cp schema))"
  using assms by (rule cdc_run_ok)

section \<open>Events that are passed over\<close>

text \<open>
  The next batch of a database has no event for this run: with a table routed elsewhere that is
  changed more than a batch of times in a row, for instance.
\<close>

definition blocked ::
  "('s \<Rightarrow> string \<Rightarrow> CDCEvent list) \<Rightarrow> string \<Rightarrow> CDCOptions \<Rightarrow> string \<Rightarrow> 's \<Rightarrow> fs \<Rightarrow> bool" where
  "blocked log stateDir opts schema src fs =
     (\<exists>cp. loadCDCCheckpoint None (cdc_path stateDir) fs = Inr cp \<and>
       batch_of (cdc_options opts) log cp src schema \<noteq> [] \<and> applied_of (cdc_options opts) log cp src schema = [])"

lemma limited_prefix:
  assumes "limit_events opts 0 events = r" and "events \<noteq> []"
  shows "\<exists>es. r = Some es \<and> set es \<subseteq> set events"
  using assms by (auto simp: limit_events_def Let_def dest: in_set_takeD)

text \<open>
  The checkpoint of a database moves only with the events that are applied, not with
  those that are passed over. When a whole batch is passed over, the run applies nothing and leaves
  the same batch for the next run, whatever fails on the way: no later event is ever applied.
\<close>

theorem passed_over_batch_blocks:
  assumes log: "change_log env log" and r: "cdc_resumes env stateDir opts fs [schema] cp"
    and b: "blocked log stateDir opts schema src fs"
    and run: "cdc_Run env stateDir opts src fs db = (res, src', fs', db')"
  shows "db' = db \<and> blocked log stateDir opts schema src' fs' \<and> (\<forall>summary. res = Inr summary \<longrightarrow> cz_AppliedEvents summary = 0)"
proof -
  let ?path = "cdc_path stateDir" and ?o = "cdc_options opts" and ?st = "initial_state src db fs cp"
  let ?events = "batch_of ?o log cp src schema"
  have cp: "loadCDCCheckpoint None ?path fs = Inr cp" and tmp: "we_tmp (xe_save env schema) \<noteq> ?path"
    using r by (simp_all add: cdc_resumes_def)
  then have ne: "?events \<noteq> []" and un: "\<forall>e \<in> set ?events. \<not> routed ?o schema e"
    using b by (auto simp: blocked_def applied_of_def filter_empty_conv)
  have init: "xs_checkpoint ?st = cp" "xs_source ?st = src" "xs_db ?st = db" "xs_fs ?st = fs" "xs_total ?st = 0"
    by (simp_all add: initial_state_def)
  obtain es where lim: "limit_events ?o 0 ?events = Some es" "set es \<subseteq> set ?events"
    using limited_prefix [OF refl ne] by blast
  have a: "apply_cdc_events env ?o schema es ?st = (None, ?st)"
    by (rule apply_cdc_events_unrouted) (use un lim(2) in blast)
  have rd: "ReadCDCEvents schema (xe_read env src schema (watermark cp schema) (cx_BatchSize ?o)) = Inr ?events"
    by (simp add: change_log_read [OF log] ReadCDCEvents_def batch_of_def)
  obtain s fs1 where sv: "saveCDCCheckpoint (xe_save env schema) (xe_now env schema) ?path cp fs = (s, fs1)" by force
  have again: "blocked log stateDir opts schema s1 f1"
    if "loadCDCCheckpoint None ?path f1 = Inr c" "watermark c schema = watermark cp schema"
      "above (watermark cp schema) (log s1 schema) = above (watermark cp schema) (log src schema)" for f1 c s1
    using that b cp unfolding blocked_def applied_of_def batch_of_def by auto
  show ?thesis
  proof (cases s)
    case (Some e)
    then have "database_loop env ?o ?path [schema] ?st = (Some e, ?st\<lparr>xs_fs := fs1\<rparr>)"
      using rd ne lim a sv init by (simp add: database_step_def)
    moreover have "loadCDCCheckpoint None ?path fs1 = Inr cp"
      using cdc_store.load_local [of fs1 ?path fs None] cdc_store.save_failed [OF sv [unfolded Some] tmp] cp by simp
    ultimately show ?thesis using cdc_Run_loop [OF r] run again [of fs1 cp src] init by auto
  next
    case None
    let ?src1 = "snd (xe_purge env src schema (watermark cp schema))"
    have "database_loop env ?o ?path [schema] ?st = (None, ?st\<lparr>xs_fs := fs1, xs_source := ?src1\<rparr>)"
      using rd ne lim a sv init None by (simp add: database_step_def)
    moreover have "loadCDCCheckpoint None ?path fs1 = Inr (cp\<lparr>cc_UpdatedAt := xe_now env schema\<rparr>)"
      using cdc_store.load_saved [OF sv [unfolded None] tmp loaded_cdc_valid [OF cp]] .
    moreover have "above (watermark cp schema) (log ?src1 schema) = above (watermark cp schema) (log src schema)"
      by (rule change_log_purge(1) [OF log])
    ultimately show ?thesis
      using cdc_Run_loop [OF r] run again [of fs1 "cp\<lparr>cc_UpdatedAt := xe_now env schema\<rparr>" ?src1] init
      by (auto simp: watermark_def)
  qed
qed

section \<open>Events that come too late\<close>

text \<open>Two sources whose logs agree above the checkpoint.\<close>

definition same_above :: "('s \<Rightarrow> string \<Rightarrow> CDCEvent list) \<Rightarrow> CDCCheckpoint \<Rightarrow> 's \<Rightarrow> 's \<Rightarrow> bool" where
  "same_above log cp s s0 = (\<forall>schema. above (watermark cp schema) (log s schema) = above (watermark cp schema) (log s0 schema))"

lemma apply_cdc_events_source:
  "apply_cdc_events env opts schema events (st\<lparr>xs_source := s\<rparr>) =
   (case apply_cdc_events env opts schema events st of (r, st') \<Rightarrow> (r, st'\<lparr>xs_source := s\<rparr>))"
proof (induction events arbitrary: st)
  case (Cons event events)
  have c: "count_event schema event (st\<lparr>xs_source := s, xs_db := db\<rparr>) = (count_event schema event (st\<lparr>xs_db := db\<rparr>))\<lparr>xs_source := s\<rparr>"
    for db by (simp add: count_event_def)
  show ?case using Cons by (auto simp: c split: prod.splits option.splits)
qed simp

lemma watermark_grows:
  assumes "apply_cdc_events env opts schema events st = (r, st')"
    and "\<forall>e \<in> set events. watermark (xs_checkpoint st) schema < cv_CDCID e"
  shows "watermark (xs_checkpoint st) schema' \<le> watermark (xs_checkpoint st') schema'"
    and "schema' \<noteq> schema \<Longrightarrow> watermark (xs_checkpoint st') schema' = watermark (xs_checkpoint st) schema'"
proof -
  have "xs_checkpoint st' = xs_checkpoint st \<or>
      (\<exists>e \<in> set events. cc_Databases (xs_checkpoint st') = (cc_Databases (xs_checkpoint st))(schema \<mapsto> cv_CDCID e))"
    using apply_cdc_events_frame [OF assms(1)] by blast
  then have "xs_checkpoint st' = xs_checkpoint st \<or> (\<exists>e \<in> set events. watermark (xs_checkpoint st') schema = cv_CDCID e \<and>
      (\<forall>s. s \<noteq> schema \<longrightarrow> watermark (xs_checkpoint st') s = watermark (xs_checkpoint st) s))"
    by (auto simp: watermark_def)
  then show "watermark (xs_checkpoint st) schema' \<le> watermark (xs_checkpoint st') schema'"
    "schema' \<noteq> schema \<Longrightarrow> watermark (xs_checkpoint st') schema' = watermark (xs_checkpoint st) schema'"
    using assms(2) by (metis order.refl order.strict_implies_order)+
qed

lemma same_above_grows:
  assumes "same_above log cp s s0" and "\<forall>schema. watermark cp schema \<le> watermark cp' schema"
  shows "same_above log cp' s s0"
  using assms unfolding same_above_def by (metis above_above)

lemma database_step_source:
  assumes log: "change_log env log" and same: "same_above log (xs_checkpoint st) (xs_source st) s0"
    and step: "database_step env opts path schema st = (out, st')"
  shows "\<exists>s0'. database_step env opts path schema (st\<lparr>xs_source := s0\<rparr>) = (out, st'\<lparr>xs_source := s0'\<rparr>) \<and>
    same_above log (xs_checkpoint st') (xs_source st') s0'"
proof -
  let ?w = "watermark (xs_checkpoint st) schema" and ?o = "take (nat (cx_BatchSize opts))"
  let ?events = "?o (above ?w (log (xs_source st) schema))"
  have rd: "ReadCDCEvents schema (xe_read env (xs_source st) schema ?w (cx_BatchSize opts)) = Inr ?events"
    "ReadCDCEvents schema (xe_read env s0 schema ?w (cx_BatchSize opts)) = Inr ?events"
    using same by (simp_all add: change_log_read [OF log] ReadCDCEvents_def same_above_def)
  show ?thesis
  proof (cases "?events = [] \<or> limit_events opts (xs_total st) ?events = None")
    case True
    then have "database_step env opts path schema (st\<lparr>xs_source := s0\<rparr>) = (out, st'\<lparr>xs_source := s0\<rparr>) \<and> st' = st"
      using step rd by (auto simp: database_step_def)
    then show ?thesis using same by auto
  next
    case False
    then obtain es where lim: "limit_events opts (xs_total st) ?events = Some es" by auto
    then have above: "\<forall>e \<in> set es. ?w < cv_CDCID e"
      by (auto simp: limit_events_def Let_def above_def split: if_splits dest!: in_set_takeD)
    obtain r st1 where a: "apply_cdc_events env opts schema es st = (r, st1)" by force
    note grown = watermark_grows [OF a above]
    have src: "xs_source st1 = xs_source st" "xs_fs st1 = xs_fs st" using apply_cdc_events_frame [OF a] by simp_all
    have same1: "same_above log (xs_checkpoint st1) (xs_source st) s0"
      using same_above_grows [OF same] grown(1) by blast
    have a0: "apply_cdc_events env opts schema es (st\<lparr>xs_source := s0\<rparr>) = (r, st1\<lparr>xs_source := s0\<rparr>)"
      by (simp add: apply_cdc_events_source a)
    show ?thesis
    proof (cases r)
      case (Some e)
      then have "out = CDCError e" "st' = st1" using step rd False lim a by (auto simp: database_step_def)
      then show ?thesis
        using rd False lim a0 Some same1 src by (intro exI [of _ s0]) (simp add: database_step_def)
    next
      case None
      obtain s fs' where sv: "saveCDCCheckpoint (xe_save env schema) (xe_now env schema) path (xs_checkpoint st1) (xs_fs st1) = (s, fs')"
        by force
      show ?thesis
      proof (cases s)
        case (Some e)
        then have "out = CDCError e" "st' = st1\<lparr>xs_fs := fs'\<rparr>" using step rd False lim a None sv by (auto simp: database_step_def)
        then show ?thesis
          using rd False lim a0 None sv Some same1 src by (intro exI [of _ s0]) (simp add: database_step_def)
      next
        case saved: None
        let ?hi = "watermark (xs_checkpoint st1) schema"
        let ?sa = "snd (xe_purge env (xs_source st) schema ?hi)" and ?sb = "snd (xe_purge env s0 schema ?hi)"
        have st': "out = CDCNext" "st' = st1\<lparr>xs_fs := fs', xs_source := ?sa\<rparr>"
          using step rd False lim a None sv saved src by (auto simp: database_step_def)
        have "above (watermark (xs_checkpoint st1) s) (log ?sa s) = above (watermark (xs_checkpoint st1) s) (log ?sb s)" for s
          using change_log_purge [OF log] same1 by (cases "s = schema") (simp_all add: same_above_def)
        then show ?thesis
          using rd False lim a0 None sv saved by (intro exI [of _ ?sb]) (simp add: database_step_def st' same_above_def)
      qed
    qed
  qed
qed

lemma database_loop_source:
  assumes "change_log env log" and "same_above log (xs_checkpoint st) (xs_source st) s0"
    and "database_loop env opts path schemas st = (r, st')"
  shows "\<exists>s0'. database_loop env opts path schemas (st\<lparr>xs_source := s0\<rparr>) = (r, st'\<lparr>xs_source := s0'\<rparr>)"
  using assms(2,3)
proof (induction schemas arbitrary: st s0)
  case (Cons schema schemas)
  obtain out st1 where step: "database_step env opts path schema st = (out, st1)" by force
  from database_step_source [OF assms(1) Cons.prems(1) step] obtain s1 where
    s1: "database_step env opts path schema (st\<lparr>xs_source := s0\<rparr>) = (out, st1\<lparr>xs_source := s1\<rparr>)"
    and same: "same_above log (xs_checkpoint st1) (xs_source st1) s1" by blast
  show ?case
  proof (cases out)
    case CDCNext
    then have "database_loop env opts path schemas st1 = (r, st')" using Cons.prems(2) step by simp
    from Cons.IH [OF same this] show ?thesis using s1 CDCNext by auto
  qed (use Cons.prems(2) step s1 in auto)
qed auto

text \<open>
  A run depends only on the events whose ids are above the checkpoint. The ids are handed
  out when a row is inserted, but the event becomes visible when its transaction commits: an event
  that commits after one with a higher id was applied changes nothing in any run, as if it were not
  there.
\<close>

theorem late_events_are_ignored:
  assumes log: "change_log env log" and r: "cdc_resumes env stateDir opts fs databases cp" and same: "same_above log cp src src0"
    and run: "cdc_Run env stateDir opts src fs db = (res, src', fs', db')"
  shows "\<exists>src0'. cdc_Run env stateDir opts src0 fs db = (res, src0', fs', db')"
proof -
  obtain e st where l: "database_loop env (cdc_options opts) (cdc_path stateDir) databases (initial_state src db fs cp) = (e, st)" by force
  have "same_above log (xs_checkpoint (initial_state src db fs cp)) (xs_source (initial_state src db fs cp)) src0"
    using same by (simp add: initial_state_def)
  from database_loop_source [OF log this l] obtain s0' where
    l0: "database_loop env (cdc_options opts) (cdc_path stateDir) databases (initial_state src0 db fs cp) = (e, st\<lparr>xs_source := s0'\<rparr>)"
    by (auto simp: initial_state_def)
  show ?thesis using cdc_Run_loop [OF r l] cdc_Run_loop [OF r l0] run by (auto split: option.splits)
qed

section \<open>Events that are applied twice\<close>

lemma apply_cdc_events_append:
  "apply_cdc_events env opts schema (xs @ ys) st =
    (case apply_cdc_events env opts schema xs st of
       (Some e, st') \<Rightarrow> (Some e, st') | (None, st') \<Rightarrow> apply_cdc_events env opts schema ys st')"
  by (induction xs arbitrary: st) (auto split: option.splits prod.splits)

text \<open>An event of a batch fails after those in front of it were applied: nothing but the destination changes.\<close>

lemma database_step_fails:
  assumes log: "change_log env log" and m: "cx_MaxEvents opts = 0"
    and batch: "batch_of opts log (xs_checkpoint st) (xs_source st) schema = xs @ bad # ys"
    and ok: "apply_cdc_events env opts schema xs st = (None, st1)"
    and bad: "routed opts schema bad" "cdc_applyEvent (xe_dest env) schema bad (cx_ConflictPolicy opts) (xs_db st1) = (Some e, db2)"
  shows "\<exists>err. database_step env opts path schema st = (CDCError err, st1\<lparr>xs_db := db2\<rparr>)"
proof -
  obtain err where f: "apply_cdc_events env opts schema (xs @ bad # ys) st = (Some err, st1\<lparr>xs_db := db2\<rparr>)"
    using ok bad by (simp add: apply_cdc_events_append)
  have "ReadCDCEvents schema (xe_read env (xs_source st) schema (watermark (xs_checkpoint st) schema) (cx_BatchSize opts))
      = Inr (xs @ bad # ys)"
    using batch by (simp add: change_log_read [OF log] ReadCDCEvents_def batch_of_def)
  moreover have "limit_events opts (xs_total st) (xs @ bad # ys) = Some (xs @ bad # ys)" using m by (simp add: limit_events_def)
  ultimately show ?thesis using f by (simp add: database_step_def)
qed

text \<open>
  Claim C33. In a run without a limit of events the checkpoint is saved once per database, after its
  whole batch. When, after any number of databases that succeed, an event of a database's batch fails,
  the run ends there: the events of the batch in front of it have been executed, each on its own; the
  databases before have their new ids in the checkpoint on disk, but for this database neither the
  checkpoint nor the source's log show anything, and the ones after it are not read. The next
  run that succeeds, whatever was done to the destination in between, applies the events in front of
  the failed one a second time, then it and the rest of the batch.
\<close>

theorem failed_event_repeats_batch:
  assumes log: "change_log env log" and ap: "applies (xe_dest env) (cx_ConflictPolicy (cdc_options opts)) view eff"
    and r: "cdc_resumes env stateDir opts fs (earlier @ schema # later) cp" and dist: "distinct (earlier @ schema # later)"
    and m: "cx_MaxEvents opts = 0"
    and before: "database_loop env (cdc_options opts) (cdc_path stateDir) earlier (initial_state src db fs cp) = (None, st)"
    and batch: "batch_of (cdc_options opts) log cp src schema = xs @ bad # ys"
    and ok: "apply_cdc_events env (cdc_options opts) schema xs st = (None, st1)"
    and bad: "routed (cdc_options opts) schema bad"
      "cdc_applyEvent (xe_dest env) schema bad (cx_ConflictPolicy (cdc_options opts)) (xs_db st1) = (Some e, db2)"
  shows "\<exists>err src' fs' cp'. cdc_Run env stateDir opts src fs db = (Inl err, src', fs', db2) \<and>
    view (xs_db st1) = fold (eff schema) (filter (routed (cdc_options opts) schema) xs)
      (fold (\<lambda>s. fold (eff s) (applied_of (cdc_options opts) log cp src s)) earlier (view db)) \<and>
    loadCDCCheckpoint None (cdc_path stateDir) fs' = Inr cp' \<and>
    (\<forall>s \<in> set earlier. watermark cp' s = last_id (watermark cp s) (applied_of (cdc_options opts) log cp src s)) \<and>
    (\<forall>s. s \<notin> set earlier \<longrightarrow> watermark cp' s = watermark cp s \<and> log src' s = log src s) \<and>
    batch_of (cdc_options opts) log cp' src' schema = xs @ bad # ys \<and>
    (\<forall>db3 summary src3 fs3 db4. cdc_Run env stateDir opts src' fs' db3 = (Inr summary, src3, fs3, db4) \<longrightarrow>
      view db4 = fold (\<lambda>s. fold (eff s) (applied_of (cdc_options opts) log cp' src' s)) later
        (fold (eff schema) (filter (routed (cdc_options opts) schema) xs @ bad # filter (routed (cdc_options opts) schema) ys)
          (fold (\<lambda>s. fold (eff s) (applied_of (cdc_options opts) log cp' src' s)) earlier (view db3))))"
proof -
  let ?o = "cdc_options opts" and ?path = "cdc_path stateDir" and ?st = "initial_state src db fs cp"
  have m': "cx_MaxEvents ?o = 0" using m by (simp add: cdc_options_def)
  have tmp: "\<forall>s. we_tmp (xe_save env s) \<noteq> ?path" using r by (simp add: cdc_resumes_def)
  have init: "xs_checkpoint ?st = cp" "xs_source ?st = src" "xs_db ?st = db" by (simp_all add: initial_state_def)
  have d: "distinct earlier" "schema \<notin> set earlier" using dist by auto
  note fin = database_loop_ok [OF log ap before m' initial_on_disk [OF r] tmp d(1), unfolded init]
  from fin obtain cp' where cp': "loadCDCCheckpoint None ?path (xs_fs st) = Inr cp'" "\<And>s. watermark cp' s = watermark (xs_checkpoint st) s"
    using on_disk_load by blast
  have b: "batch_of ?o log (xs_checkpoint st) (xs_source st) schema = xs @ bad # ys"
    "batch_of ?o log cp' (xs_source st) schema = xs @ bad # ys"
    using fin d(2) batch cp'(2) by (simp_all add: batch_of_def)
  from database_step_fails [OF log m' b(1) ok bad] obtain err
    where step: "database_step env ?o ?path schema st = (CDCError err, st1\<lparr>xs_db := db2\<rparr>)" by blast
  have "database_loop env ?o ?path (earlier @ schema # later) ?st = (Some err, st1\<lparr>xs_db := db2\<rparr>)"
    using database_loop_append [OF m' before] step by simp
  moreover have "xs_source st1 = xs_source st" "xs_fs st1 = xs_fs st" using apply_cdc_events_frame [OF ok] by blast+
  ultimately have run: "cdc_Run env stateDir opts src fs db = (Inl err, xs_source st, xs_fs st, db2)" using cdc_Run_loop [OF r] by simp
  have r': "cdc_resumes env stateDir opts (xs_fs st) (earlier @ schema # later) cp'" using r cp'(1) by (simp add: cdc_resumes_def)
  have a: "applied_of ?o log cp' (xs_source st) schema = filter (routed ?o schema) xs @ bad # filter (routed ?o schema) ys"
    using b(2) bad(1) by (simp add: applied_of_def)
  show ?thesis using run fin cp' b(2) apply_cdc_events_ok [OF ap ok] cdc_run_ok [OF log ap r' dist m]
    by (intro exI [of _ err] exI [of _ "xs_source st"] exI [of _ "xs_fs st"] exI [of _ cp']) (simp add: a)
qed

section \<open>Numbers\<close>

lemma float64_small: "n \<le> 2 ^ 53 \<Longrightarrow> float64_nat n = n"
proof (cases "n = 2 ^ 53")
  case True
  have "excess_bits (2 ^ 53) = 1" by (simp add: excess_bits.simps [of 9007199254740992] excess_bits.simps [of 4503599627370496])
  then show ?thesis using True by (simp add: float64_nat_def Let_def)
next
  case False
  assume "n \<le> 2 ^ 53"
  then have "excess_bits n = 0" using False by (simp add: excess_bits.simps [of n])
  then show ?thesis by (simp add: float64_nat_def Let_def)
qed

lemma float64_odd: "float64_nat (2 ^ 53 + 1) = 2 ^ 53"
proof -
  have "excess_bits (2 ^ 53 + 1) = 1" by (simp add: excess_bits.simps [of 9007199254740993] excess_bits.simps [of 4503599627370496])
  then show ?thesis by (simp add: float64_nat_def Let_def)
qed

lemma delete_by_value:
  "json_any j = json_any j' \<Longrightarrow>
   applyDelete dest schema (event\<lparr>cv_OldRowJSON := RowJson (JObj [(k, j)])\<rparr>) [k] db =
   applyDelete dest schema (event\<lparr>cv_OldRowJSON := RowJson (JObj [(k, j')])\<rparr>) [k] db"
  by (simp add: applyDelete_def ParseJSONRow_def)

text \<open>
  The numbers of a row pass through float64. Integers up to 2^53 are exact, but beyond
  it two keys become one: the statement that deletes the row with the key 2^53 + 1 is the statement
  that deletes the row with the key 2^53.
\<close>

theorem large_keys_collide:
  "(\<forall>n. \<bar>n\<bar> \<le> 2 ^ 53 \<longrightarrow> json_any (JNum n) = VFloat (show_int n)) \<and>
   applyDelete dest schema (event\<lparr>cv_OldRowJSON := RowJson (JObj [(k, JNum (2 ^ 53 + 1))])\<rparr>) [k] db =
   applyDelete dest schema (event\<lparr>cv_OldRowJSON := RowJson (JObj [(k, JNum (2 ^ 53))])\<rparr>) [k] db"
proof (intro conjI allI impI)
  fix n :: int
  assume n: "\<bar>n\<bar> \<le> 2 ^ 53"
  then have "nat n \<le> 2 ^ 53" "nat (- n) \<le> 2 ^ 53" by (simp_all add: nat_le_iff)
  then have "float64_int n = n" by (simp add: float64_int_def float64_small)
  then show "json_any (JNum n) = VFloat (show_int n)" by simp
next
  have "float64_int (2 ^ 53 + 1) = float64_int (2 ^ 53)"
    using float64_odd float64_small [of "2 ^ 53"] by (simp add: float64_int_def)
  then have "json_any (JNum (2 ^ 53 + 1)) = json_any (JNum (2 ^ 53))" by simp
  then show "applyDelete dest schema (event\<lparr>cv_OldRowJSON := RowJson (JObj [(k, JNum (2 ^ 53 + 1))])\<rparr>) [k] db =
      applyDelete dest schema (event\<lparr>cv_OldRowJSON := RowJson (JObj [(k, JNum (2 ^ 53))])\<rparr>) [k] db"
    by (rule delete_by_value)
qed

section \<open>Examples\<close>

text \<open>
  A source that is its logs, and a destination that is the list of the statements it has executed
  and that refuses to execute one a second time.
\<close>

definition example_cdc_dest :: "(string \<times> goval list) list cdc_dest" where
  "example_cdc_dest = \<lparr>cd_columns = (\<lambda>db s t. Rows [''id'']), cd_stats = (\<lambda>db s t. Rows [(''PRIMARY'', 0, Some ''id'', 1)]),
     cd_notNull = (\<lambda>db s t. Rows [''id'']),
     cd_exec = (\<lambda>q args db. if (q, args) \<in> set db then (Some ''Duplicate entry'', db) else (None, db @ [(q, args)]))\<rparr>"

definition example_cdc_env :: "(string \<Rightarrow> CDCEvent list, (string \<times> goval list) list) cdc_env" where
  "example_cdc_env = \<lparr>xe_connected = True, xe_checkpointRead = None, xe_databases = Rows [''d''],
     xe_read = (\<lambda>s schema from n. Rows (take (nat n) (above from (s schema)))),
     xe_purge = (\<lambda>s schema hi. (None, s(schema := above hi (s schema)))), xe_dest = example_cdc_dest,
     xe_save = (\<lambda>schema. no_faults ''x''), xe_now = (\<lambda>schema. 0)\<rparr>"

definition example_event :: "string \<Rightarrow> u64 \<Rightarrow> CDCEvent" where
  "example_event table n = \<lparr>cv_CDCID = n, cv_TableName = table, cv_Operation = ''INSERT'', cv_OldRowJSON = RowText '''',
     cv_NewRowJSON = RowJson (JObj [(''id'', JNum (uint n))])\<rparr>"

definition example_cdc_options :: CDCOptions where
  "example_cdc_options = \<lparr>cx_ConflictPolicy = ''fail'', cx_MaxEvents = 0, cx_IncludeDatabases = [], cx_ExcludeDatabases = [],
     cx_Resume = True, cx_BatchSize = 2, cx_IncludeTables = {}, cx_ExcludeTables = {''d.u''}\<rparr>"

definition example_insert :: "nat \<Rightarrow> string \<times> goval list" where
  "example_insert n = (insert_statement ''fail'' ''d'' ''t'' [''id''], [VFloat (show_nat n)])"

lemma example_change_log: "change_log example_cdc_env id"
  by (simp add: change_log_def example_cdc_env_def above_def)

lemma example_cdc_resumes: "cdc_resumes example_cdc_env ''s'' example_cdc_options Map.empty [''d''] newCDCCheckpoint"
  by (simp add: cdc_resumes_def example_cdc_env_def example_cdc_options_def loadCDCCheckpoint_def load_record_def
      cdc_listDatabases_def filterDatabases_def no_faults_def cdc_path_def path_join_def)

lemma example_applies:
  "applies (xe_dest example_cdc_env) policy id (\<lambda>schema event db. snd (cdc_applyEvent example_cdc_dest schema event policy db))"
  by (simp add: applies_def example_cdc_env_def)

lemma example_options: "cdc_options example_cdc_options = example_cdc_options"
  by (simp add: cdc_options_def example_cdc_options_def cdc_normalizeConflictPolicy_def go_string)

lemma example_routed: "routed example_cdc_options ''d'' (example_event ''t'' n)" "\<not> routed example_cdc_options ''d'' (example_event ''u'' n)"
  by (simp_all add: routed_def example_cdc_options_def example_event_def Let_def) (code_simp)+

lemma example_apply:
  assumes "unat n < 2 ^ 53"
  shows "cdc_applyEvent (xe_dest example_cdc_env) ''d'' (example_event ''t'' n) (cx_ConflictPolicy example_cdc_options) db =
    (if example_insert (unat n) \<in> set db then (Some ''Duplicate entry'', db) else (None, db @ [example_insert (unat n)]))"
proof -
  have "nat (uint n) = unat n" "0 \<le> uint n" by simp_all
  then have "float64_int (uint n) = uint n"
    using assms float64_small [of "unat n"] by (simp add: float64_int_def)
  then show ?thesis
    by (simp add: cdc_applyEvent_def example_cdc_env_def example_cdc_dest_def example_event_def example_cdc_options_def
        cdc_listTableColumns_def applyInsert_def ParseJSONRow_def RowToValues_def map_index_def example_insert_def show_int_def)
qed

lemma example_id [simp]: "cv_CDCID (example_event table n) = n"
  by (simp add: example_event_def)

lemma example_cdc_batch:
  "batch_of example_cdc_options id newCDCCheckpoint logs ''d'' = take 2 (filter (\<lambda>e. 0 < cv_CDCID e) (logs ''d''))"
  by (simp add: batch_of_def example_cdc_options_def newCDCCheckpoint_def watermark_def above_def)

text \<open>A run on the logs of the example ends as its pass over the batch does.\<close>

lemma example_run:
  assumes "apply_cdc_events example_cdc_env example_cdc_options ''d'' (batch_of example_cdc_options id newCDCCheckpoint logs ''d'')
      (initial_state logs db Map.empty newCDCCheckpoint) = (r, st)"
    and "batch_of example_cdc_options id newCDCCheckpoint logs ''d'' \<noteq> []"
  shows "\<exists>res src' fs'. cdc_Run example_cdc_env ''s'' example_cdc_options logs Map.empty db = (res, src', fs', xs_db st) \<and>
    (r = None \<longrightarrow> (\<exists>summary. res = Inr summary))"
proof -
  let ?events = "batch_of example_cdc_options id newCDCCheckpoint logs ''d''" and ?st = "initial_state logs db Map.empty newCDCCheckpoint"
  have rd: "ReadCDCEvents ''d'' (xe_read example_cdc_env logs ''d'' (watermark newCDCCheckpoint ''d'') (cx_BatchSize example_cdc_options))
      = Inr ?events"
    by (simp add: change_log_read [OF example_change_log] ReadCDCEvents_def batch_of_def)
  have lim: "limit_events example_cdc_options 0 ?events = Some ?events" by (simp add: limit_events_def example_cdc_options_def)
  have init: "xs_checkpoint ?st = newCDCCheckpoint" "xs_source ?st = logs" "xs_db ?st = db" "xs_total ?st = 0"
    by (simp_all add: initial_state_def)
  have save: "fst (saveCDCCheckpoint (xe_save example_cdc_env s) now path cp fs) = None" for s now path cp fs
    by (simp add: saveCDCCheckpoint_def example_cdc_env_def no_faults_def Let_def)
  obtain r' st' where l: "database_loop example_cdc_env example_cdc_options (cdc_path ''s'') [''d''] ?st = (r', st')" by force
  have "xs_db st' = xs_db st \<and> (r = None \<longrightarrow> r' = None)"
    using l assms rd lim init save [of "''d''" "xe_now example_cdc_env ''d''" "cdc_path ''s''" "xs_checkpoint st" "xs_fs st"]
    by (auto simp: database_step_def split: option.splits prod.splits)
  then show ?thesis
    using cdc_Run_loop [OF example_cdc_resumes, unfolded example_options, OF l] by (auto split: option.splits)
qed

theorem cdc_run_applies_batches_witness:
  "\<exists>summary src' fs' cp'. cdc_Run example_cdc_env ''s'' example_cdc_options (\<lambda>s. [example_event ''t'' 1, example_event ''u'' 2,
       example_event ''t'' 3]) Map.empty [] = (Inr summary, src', fs', [example_insert 1]) \<and>
     loadCDCCheckpoint None (cdc_path ''s'') fs' = Inr cp' \<and> watermark cp' ''d'' = 1"
proof -
  let ?logs = "\<lambda>s :: string. [example_event ''t'' 1, example_event ''u'' 2, example_event ''t'' 3]"
    and ?st = "\<lambda>logs. initial_state logs ([] :: (string \<times> goval list) list) Map.empty newCDCCheckpoint"
  have b: "batch_of example_cdc_options id newCDCCheckpoint ?logs ''d'' = [example_event ''t'' 1, example_event ''u'' 2]"
    by (simp add: example_cdc_batch numeral_2_eq_2)
  obtain st where "apply_cdc_events example_cdc_env example_cdc_options ''d'' [example_event ''t'' 1, example_event ''u'' 2] (?st ?logs)
      = (None, st)" "xs_db st = [example_insert 1]"
    by (simp add: example_routed example_apply initial_state_def)
  with example_run [of ?logs "[]" None st] b obtain summary src' fs' where
    run: "cdc_Run example_cdc_env ''s'' example_cdc_options ?logs Map.empty [] = (Inr summary, src', fs', [example_insert 1])"
    by auto
  have "applied_of example_cdc_options id newCDCCheckpoint ?logs ''d'' = [example_event ''t'' 1]"
    by (simp add: applied_of_def b example_routed)
  moreover have "cx_MaxEvents example_cdc_options = 0" by (simp add: example_cdc_options_def)
  ultimately show ?thesis
    using cdc_run_applies_batches [OF example_change_log example_applies example_cdc_resumes _ _ run] run
    by (auto simp: example_options)
qed

theorem passed_over_batch_blocks_witness:
  "\<exists>res src' fs'. cdc_Run example_cdc_env ''s'' example_cdc_options (\<lambda>s. [example_event ''u'' 1, example_event ''u'' 2,
       example_event ''t'' 3]) Map.empty [] = (res, src', fs', []) \<and> blocked id ''s'' example_cdc_options ''d'' src' fs'"
proof -
  let ?logs = "\<lambda>s :: string. [example_event ''u'' 1, example_event ''u'' 2, example_event ''t'' 3]"
  have "batch_of example_cdc_options id newCDCCheckpoint ?logs ''d'' = [example_event ''u'' 1, example_event ''u'' 2]"
    by (simp add: example_cdc_batch numeral_2_eq_2)
  then have "blocked id ''s'' example_cdc_options ''d'' ?logs Map.empty"
    using example_cdc_resumes by (simp add: blocked_def cdc_resumes_def example_options applied_of_def example_routed)
  moreover obtain res src' fs' db' where "cdc_Run example_cdc_env ''s'' example_cdc_options ?logs Map.empty [] = (res, src', fs', db')"
    by (metis prod_cases4)
  ultimately show ?thesis
    using passed_over_batch_blocks [OF example_change_log example_cdc_resumes, of ?logs "[]" res src' fs' db'] by auto
qed

theorem late_events_are_ignored_witness:
  "\<exists>res src' src0' fs' db'.
     cdc_Run example_cdc_env ''s'' example_cdc_options (\<lambda>s. [example_event ''t'' 0, example_event ''t'' 1]) Map.empty [] = (res, src', fs', db') \<and>
     cdc_Run example_cdc_env ''s'' example_cdc_options (\<lambda>s. [example_event ''t'' 1]) Map.empty [] = (res, src0', fs', db')"
proof -
  let ?logs = "\<lambda>s :: string. [example_event ''t'' 0, example_event ''t'' 1]" and ?other = "\<lambda>s :: string. [example_event ''t'' 1]"
  have "same_above id newCDCCheckpoint ?logs ?other"
    by (simp add: same_above_def above_def watermark_def newCDCCheckpoint_def)
  moreover obtain res src' fs' db' where "cdc_Run example_cdc_env ''s'' example_cdc_options ?logs Map.empty [] = (res, src', fs', db')"
    by (metis prod_cases4)
  ultimately show ?thesis using late_events_are_ignored [OF example_change_log example_cdc_resumes] by blast
qed

text \<open>The database c has no events; the second event of d finds its row there.\<close>

theorem failed_event_repeats_batch_witness:
  "\<exists>err src' fs' cp'. cdc_Run (example_cdc_env\<lparr>xe_databases := Rows [''c'', ''d'']\<rparr>) ''s'' example_cdc_options
       (\<lambda>s. if s = ''d'' then [example_event ''t'' 1, example_event ''t'' 2] else []) Map.empty
       [example_insert 2] = (Inl err, src', fs', [example_insert 2, example_insert 1]) \<and>
     loadCDCCheckpoint None (cdc_path ''s'') fs' = Inr cp' \<and> watermark cp' ''d'' = 0 \<and>
     batch_of example_cdc_options id cp' src' ''d'' = [example_event ''t'' 1, example_event ''t'' 2]"
proof -
  let ?logs = "\<lambda>s :: string. if s = ''d'' then [example_event ''t'' 1, example_event ''t'' 2] else []"
    and ?env = "example_cdc_env\<lparr>xe_databases := Rows [''c'', ''d'']\<rparr>"
    and ?st = "\<lambda>logs. initial_state logs [example_insert 2] Map.empty newCDCCheckpoint"
  have ne: "example_insert 1 \<noteq> example_insert 2" by (simp add: example_insert_def) code_simp
  have env: "change_log ?env id" "xe_dest ?env = xe_dest example_cdc_env"
    using example_change_log by (simp_all add: change_log_def)
  have ap: "applies (xe_dest ?env) (cx_ConflictPolicy (cdc_options example_cdc_options)) id
      (\<lambda>schema event db. snd (cdc_applyEvent example_cdc_dest schema event (cx_ConflictPolicy (cdc_options example_cdc_options)) db))"
    using example_applies by (simp add: env(2))
  have r: "cdc_resumes ?env ''s'' example_cdc_options Map.empty ([''c''] @ ''d'' # []) newCDCCheckpoint"
    using example_cdc_resumes by (simp add: cdc_resumes_def example_cdc_options_def cdc_listDatabases_def filterDatabases_def)
  have b: "batch_of example_cdc_options id newCDCCheckpoint ?logs ''d'' = [example_event ''t'' 1] @ example_event ''t'' 2 # []"
    by (simp add: example_cdc_batch numeral_2_eq_2)
  have before: "database_loop ?env example_cdc_options (cdc_path ''s'') [''c''] (?st ?logs) = (None, ?st ?logs)"
    by (simp add: database_step_def change_log_read [OF example_change_log] ReadCDCEvents_def initial_state_def above_def)
  obtain st where st: "apply_cdc_events ?env example_cdc_options ''d'' [example_event ''t'' 1] (?st ?logs) = (None, st)"
    "xs_db st = [example_insert 2, example_insert 1]"
    using ne by (simp add: example_routed example_apply env(2) initial_state_def)
  have bad: "cdc_applyEvent (xe_dest ?env) ''d'' (example_event ''t'' 2) (cx_ConflictPolicy example_cdc_options) (xs_db st)
      = (Some ''Duplicate entry'', [example_insert 2, example_insert 1])"
    by (simp add: example_apply env(2) st(2))
  have "cx_MaxEvents example_cdc_options = 0" "distinct ([''c''] @ ''d'' # [])" "watermark newCDCCheckpoint ''d'' = 0"
    by (simp_all add: example_cdc_options_def watermark_def newCDCCheckpoint_def)
  from this(3) failed_event_repeats_batch [OF env(1) ap r this(2,1), unfolded example_options, OF before b st(1) example_routed(1) bad]
  show ?thesis by auto
qed

theorem large_keys_collide_witness:
  "json_any (JNum 7) = VFloat ''7'' \<and>
   applyDelete example_cdc_dest ''d'' (example_event ''t'' 1\<lparr>cv_OldRowJSON := RowJson (JObj [(''id'', JNum (2 ^ 53 + 1))])\<rparr>) [''id''] [] =
   applyDelete example_cdc_dest ''d'' (example_event ''t'' 1\<lparr>cv_OldRowJSON := RowJson (JObj [(''id'', JNum (2 ^ 53))])\<rparr>) [''id''] []"
proof -
  note c = large_keys_collide [where dest = example_cdc_dest and schema = "''d''" and event = "example_event ''t'' 1" and k = "''id''" and db = "[]"]
  have "\<bar>7 :: int\<bar> \<le> 2 ^ 53" by simp
  then have "json_any (JNum 7) = VFloat (show_int 7)" using c by blast
  moreover have "show_int 7 = ''7''" by code_simp
  ultimately show ?thesis using c by presburger
qed

end
