(* ===== verification/Hybrid_Run.thy ===== *)
theory Hybrid_Run
  imports Binlog_Run Cdc_Run
begin

text \<open>
  Hybrid replication (internal/replicate/hybrid/run.go): one run of the change capture by triggers
  for some tables, then one run of the binary log for the rest. A TableRouting is a map whose
  keys are schema.table; its entries stand in the order in which a range over the map meets them.
  The two phases are cdc.Run and binlog.Run as the theories Cdc_Run and Binlog_Run model them.
\<close>

section \<open>Routing\<close>

type_synonym TableMode = string

definition TableModeBinlog :: TableMode where
  "TableModeBinlog = ''binlog''"

definition TableModeCaptureTriggers :: TableMode where
  "TableModeCaptureTriggers = ''capture-triggers''"

type_synonym TableRouting = "(string \<times> TableMode) list"

text \<open>Assigning to a key of the map.\<close>

fun route :: "string \<Rightarrow> TableMode \<Rightarrow> TableRouting \<Rightarrow> TableRouting" where
  "route key mode [] = [(key, mode)]"
| "route key mode ((k, m) # rs) = (if k = key then (k, mode) # rs else (k, m) # route key mode rs)"

definition valid_key :: "string \<Rightarrow> bool" where
  "valid_key key =
     (case SplitN2 key CHR ''.'' of
        [schema, table] \<Rightarrow> TrimSpace schema \<noteq> '''' \<and> TrimSpace table \<noteq> ''''
      | _ \<Rightarrow> False)"

fun ValidateRouting :: "TableRouting \<Rightarrow> string option" where
  "ValidateRouting [] = None"
| "ValidateRouting ((key, m) # rs) =
     (if valid_key key then ValidateRouting rs
      else Some (''invalid routing key '' @ go_quote key @ '': expected \"schema.table\"''))"

definition tableSetForMode :: "TableRouting \<Rightarrow> TableMode \<Rightarrow> string set" where
  "tableSetForMode routing mode = set (map (\<lambda>(key, m). ToLower key) (filter (\<lambda>(key, m). m = mode) routing))"

definition parse_entry :: "string \<Rightarrow> TableRouting \<Rightarrow> string + TableRouting" where
  "parse_entry raw routing =
     (let entry = TrimSpace raw
      in if entry = '''' then Inr routing
         else (case SplitN2 entry CHR ''='' of
                 [left, right] \<Rightarrow>
                   (let key = TrimSpace left; mode = TrimSpace right
                    in if mode = TableModeBinlog \<or> mode = TableModeCaptureTriggers then Inr (route key mode routing)
                       else Inl (''invalid replication mode '' @ go_quote mode @ '' for '' @ go_quote key
                                 @ '' (expected binlog or capture-triggers)''))
               | _ \<Rightarrow> Inl (''invalid table routing entry '' @ go_quote entry @ '' (expected schema.table=mode)'')))"

fun parse_entries :: "string list \<Rightarrow> TableRouting \<Rightarrow> string + TableRouting" where
  "parse_entries [] routing = Inr routing"
| "parse_entries (e # es) routing = bind_result (parse_entry e routing) (parse_entries es)"

definition ParseTableRouting :: "string \<Rightarrow> string + TableRouting" where
  "ParseTableRouting raw = (if TrimSpace raw = '''' then Inr [] else parse_entries (SplitByte raw CHR '','') [])"

text \<open>The set built by DatabasesForMode is a map too: remdups stands for the order of its range.\<close>

definition DatabasesForMode :: "TableRouting \<Rightarrow> TableMode \<Rightarrow> string list \<Rightarrow> string list" where
  "DatabasesForMode routing mode allDatabases =
     (if routing = [] then allDatabases
      else remdups (concat (map (\<lambda>(key, m).
             if m = mode then (case SplitN2 key CHR ''.'' of [schema, table] \<Rightarrow> [schema] | _ \<Rightarrow> []) else []) routing)))"

section \<open>The two phases\<close>

record HybridOptions =
  hy_ApplyDDL :: string
  hy_ConflictPolicy :: string
  hy_ConflictValues :: string
  hy_MaxEvents :: u64
  hy_MaxLagSeconds :: u64
  hy_SourceServerID :: u32
  hy_Idempotent :: bool
  hy_Resume :: bool
  hy_StartFile :: string
  hy_StartPos :: u32
  hy_GTIDSet :: string
  hy_Routing :: TableRouting
  hy_CDCDatabases :: "string list"
  hy_BinlogDatabases :: "string list"
  hy_SourceDSN :: string
  hy_SourceTLSMode :: string
  hy_SourceCAFile :: string
  hy_SourceCertFile :: string
  hy_SourceKeyFile :: string
  hy_RateLimit :: int

record HybridSummary =
  hs_BinlogSummary :: Summary
  hs_CDCSummary :: CDCSummary
  hs_Mode :: string

definition zero_summary :: Summary where
  "zero_summary = \<lparr>su_CheckpointFile = '''', su_ApplyDDL = '''', su_ConflictPolicy = '''', su_SourceLogBin = False,
     su_SourceFormat = '''', su_SourceRowImage = '''', su_StartFile = '''', su_StartPos = 0, su_GTIDSet = '''',
     su_SourceEndFile = '''', su_SourceEndPos = 0, su_EndFile = '''', su_EndPos = 0, su_AppliedEvents = 0,
     su_Shape = emptyShape\<rparr>"

definition zero_cdc_summary :: CDCSummary where
  "zero_cdc_summary = \<lparr>cz_CheckpointFile = '''', cz_AppliedEvents = 0, cz_LastCDCID = 0, cz_ConflictPolicy = ''''\<rparr>"

text \<open>The options that runCDCPhase builds; a field it does not name has its zero value.\<close>

definition cdc_phase_options :: "HybridOptions \<Rightarrow> CDCOptions" where
  "cdc_phase_options opts =
     \<lparr>cx_ConflictPolicy = hy_ConflictPolicy opts, cx_MaxEvents = hy_MaxEvents opts,
      cx_IncludeDatabases = hy_CDCDatabases opts, cx_ExcludeDatabases = [], cx_Resume = hy_Resume opts, cx_BatchSize = 0,
      cx_IncludeTables = tableSetForMode (hy_Routing opts) TableModeCaptureTriggers,
      cx_ExcludeTables = tableSetForMode (hy_Routing opts) TableModeBinlog\<rparr>"

definition binlog_phase_options :: "HybridOptions \<Rightarrow> Options" where
  "binlog_phase_options opts =
     \<lparr>op_ApplyDDL = hy_ApplyDDL opts, op_ConflictPolicy = hy_ConflictPolicy opts, op_ConflictValues = hy_ConflictValues opts,
      op_MaxEvents = hy_MaxEvents opts, op_MaxLagSeconds = hy_MaxLagSeconds opts, op_SourceServerID = hy_SourceServerID opts,
      op_Idempotent = hy_Idempotent opts, op_Resume = hy_Resume opts, op_StartFile = hy_StartFile opts,
      op_StartPos = hy_StartPos opts, op_GTIDSet = hy_GTIDSet opts, op_SourceDSN = hy_SourceDSN opts,
      op_SourceTLSMode = hy_SourceTLSMode opts, op_SourceCAFile = hy_SourceCAFile opts,
      op_SourceCertFile = hy_SourceCertFile opts, op_SourceKeyFile = hy_SourceKeyFile opts, op_RateLimit = hy_RateLimit opts,
      op_ExcludeTables = tableSetForMode (hy_Routing opts) TableModeCaptureTriggers\<rparr>"

definition runCDCPhase ::
  "('s, 'db) cdc_env \<Rightarrow> string \<Rightarrow> HybridOptions \<Rightarrow> 's \<Rightarrow> fs \<Rightarrow> 'db \<Rightarrow> (go_error + CDCSummary) \<times> 's \<times> fs \<times> 'db" where
  "runCDCPhase env stateDir opts src fs db =
     (if hy_CDCDatabases opts = [] then (Inr zero_cdc_summary, src, fs, db)
      else (case cdc_Run env (path_join stateDir ''hybrid-cdc'') (cdc_phase_options opts) src fs db of
              (Inl e, rest) \<Rightarrow> (Inl (EWrap ''hybrid CDC phase'' (EText e)), rest)
            | (Inr s, rest) \<Rightarrow> (Inr s, rest)))"

definition runBinlogPhase :: "'db run_env \<Rightarrow> string \<Rightarrow> HybridOptions \<Rightarrow> fs \<Rightarrow> 'db \<Rightarrow> ((go_error + Summary) \<times> fs \<times> 'db) option" where
  "runBinlogPhase env stateDir opts fs db =
     (if hy_BinlogDatabases opts \<noteq> [] \<or> hy_CDCDatabases opts = []
      then (case Run env (path_join stateDir ''hybrid-binlog'') (binlog_phase_options opts) fs db of
              None \<Rightarrow> None
            | Some (Inl e, rest) \<Rightarrow> Some (Inl (EWrap ''hybrid binlog phase'' e), rest)
            | Some (Inr s, rest) \<Rightarrow> Some (Inr s, rest))
      else Some (Inr zero_summary, fs, db))"

definition hybrid_Run ::
  "bool \<Rightarrow> ('s, 'db) cdc_env \<Rightarrow> 'db run_env \<Rightarrow> string \<Rightarrow> HybridOptions \<Rightarrow> 's \<Rightarrow> fs \<Rightarrow> 'db \<Rightarrow>
   ((go_error + HybridSummary) \<times> 's \<times> fs \<times> 'db) option" where
  "hybrid_Run connected cenv benv stateDir opts src fs db =
     (if \<not> connected then Some (Inl (EText ''hybrid: source and destination connections are required''), src, fs, db)
      else (case ValidateRouting (hy_Routing opts) of
              Some e \<Rightarrow> Some (Inl (EWrap ''hybrid: invalid routing'' (EText e)), src, fs, db)
            | None \<Rightarrow>
                (case runCDCPhase cenv stateDir opts src fs db of
                   (Inl e, rest) \<Rightarrow> Some (Inl e, rest)
                 | (Inr cs, src, fs, db) \<Rightarrow>
                     (case runBinlogPhase benv stateDir opts fs db of
                        None \<Rightarrow> None
                      | Some (Inl e, fs, db) \<Rightarrow> Some (Inl e, src, fs, db)
                      | Some (Inr bs, fs, db) \<Rightarrow>
                          Some (Inr \<lparr>hs_BinlogSummary = bs, hs_CDCSummary = cs, hs_Mode = ''hybrid''\<rparr>, src, fs, db)))))"

section \<open>Which phase applies a change\<close>

definition change_key :: "string \<Rightarrow> string \<Rightarrow> string" where
  "change_key schema table = ToLower schema @ ''.'' @ ToLower table"

text \<open>The change is one of a table that some entry routes to the given mode.\<close>

definition routed_to :: "TableRouting \<Rightarrow> TableMode \<Rightarrow> string \<Rightarrow> string \<Rightarrow> bool" where
  "routed_to routing mode schema table = list_ex (\<lambda>(key, m). m = mode \<and> ToLower key = change_key schema table) routing"

definition is_row_change :: "streamEvent \<Rightarrow> bool" where
  "is_row_change e = (se_Kind e \<in> {streamEventWriteRows, streamEventUpdateRows, streamEventDeleteRows})"

text \<open>No two entries that name the same table up to case have different modes.\<close>

definition consistent :: "TableRouting \<Rightarrow> bool" where
  "consistent routing = list_all (\<lambda>(k, m). list_all (\<lambda>(k', m'). ToLower k = ToLower k' \<longrightarrow> m = m') routing) routing"

lemma change_key_in_set: "change_key schema table \<in> tableSetForMode routing mode \<longleftrightarrow> routed_to routing mode schema table"
  by (force simp: tableSetForMode_def routed_to_def list_ex_iff)

lemma routed_cdc_phase:
  "routed (cdc_phase_options opts) schema event \<longleftrightarrow>
   (tableSetForMode (hy_Routing opts) TableModeCaptureTriggers = {} \<or>
    routed_to (hy_Routing opts) TableModeCaptureTriggers schema (cv_TableName event)) \<and>
   \<not> routed_to (hy_Routing opts) TableModeBinlog schema (cv_TableName event)"
  using change_key_in_set [of schema "cv_TableName event" "hy_Routing opts"]
  by (auto simp: routed_def cdc_phase_options_def Let_def change_key_def)

lemma skipped_binlog_phase:
  "skipped_table (binlog_phase_options opts) e \<longleftrightarrow>
   is_row_change e \<and> routed_to (hy_Routing opts) TableModeCaptureTriggers (se_Schema e) (se_Table e)"
  using change_key_in_set [of "se_Schema e" "se_Table e" "hy_Routing opts"]
  by (auto simp: skipped_table_def is_row_change_def excluded_def binlog_phase_options_def change_key_def)

lemma modes_differ [simp]: "TableModeCaptureTriggers \<noteq> TableModeBinlog" "TableModeBinlog \<noteq> TableModeCaptureTriggers"
  by (simp_all add: TableModeCaptureTriggers_def TableModeBinlog_def)

lemma consistent_one_mode:
  assumes "consistent routing" and "routed_to routing TableModeCaptureTriggers schema table"
  shows "\<not> routed_to routing TableModeBinlog schema table"
  using assms by (fastforce simp: consistent_def routed_to_def list_ex_iff list_all_iff dest: modes_differ [THEN notE])

text \<open>
  A phase does not always run: the capture needs databases of its own, and the binary log is left
  out when only the capture has some. Of a source with the given databases the capture takes a
  change when its phase runs, selects the database and passes the event; the binary log
  takes it when its phase runs and the table is not excluded.
\<close>

definition capture_runs :: "HybridOptions \<Rightarrow> bool" where
  "capture_runs opts = (hy_CDCDatabases opts \<noteq> [])"

definition binlog_runs :: "HybridOptions \<Rightarrow> bool" where
  "binlog_runs opts = (hy_BinlogDatabases opts \<noteq> [] \<or> hy_CDCDatabases opts = [])"

definition capture_selects :: "HybridOptions \<Rightarrow> string list \<Rightarrow> string \<Rightarrow> bool" where
  "capture_selects opts databases schema =
     (schema \<in> set (filterDatabases databases (cx_IncludeDatabases (cdc_phase_options opts)) (cx_ExcludeDatabases (cdc_phase_options opts))))"

definition captured :: "HybridOptions \<Rightarrow> string list \<Rightarrow> string \<Rightarrow> CDCEvent \<Rightarrow> bool" where
  "captured opts databases schema event =
     (capture_runs opts \<and> capture_selects opts databases schema \<and> routed (cdc_phase_options opts) schema event)"

definition replayed :: "HybridOptions \<Rightarrow> streamEvent \<Rightarrow> bool" where
  "replayed opts change = (binlog_runs opts \<and> \<not> excluded (binlog_phase_options opts) change)"

lemma routed_cdc_options: "routed (cdc_options opts) schema event \<longleftrightarrow> routed opts schema event"
  by (simp add: routed_def cdc_options_def)

lemma apply_cdc_events_filter:
  assumes "\<forall>e. routed opts schema e \<longleftrightarrow> keep e"
  shows "apply_cdc_events env opts schema events st = apply_cdc_events env opts schema (filter keep events) st"
  using assms by (induction events arbitrary: st) (auto split: option.split prod.split)

lemma excluded_binlog_phase:
  "excluded (binlog_phase_options opts) change \<longleftrightarrow>
   routed_to (hy_Routing opts) TableModeCaptureTriggers (se_Schema change) (se_Table change)"
  using change_key_in_set [of "se_Schema change" "se_Table change" "hy_Routing opts"]
  by (auto simp: excluded_def binlog_phase_options_def change_key_def)

text \<open>The phases of a run that succeeds, each with the state that the one before left.\<close>

definition hybrid_phases ::
  "('s, 'db) cdc_env \<Rightarrow> 'db run_env \<Rightarrow> string \<Rightarrow> HybridOptions \<Rightarrow> 's \<times> fs \<times> 'db \<Rightarrow> 's \<times> fs \<times> 'db \<Rightarrow> bool" where
  "hybrid_phases cenv benv stateDir opts before after =
     (\<exists>src fs db src1 fs1 db1 fs' db'. before = (src, fs, db) \<and> after = (src1, fs', db') \<and>
        (if capture_runs opts
         then \<exists>cs. cdc_Run cenv (path_join stateDir ''hybrid-cdc'') (cdc_phase_options opts) src fs db = (Inr cs, src1, fs1, db1)
         else (src1, fs1, db1) = (src, fs, db)) \<and>
        (if binlog_runs opts
         then \<exists>bs. Run benv (path_join stateDir ''hybrid-binlog'') (binlog_phase_options opts) fs1 db1 = Some (Inr bs, fs', db')
         else (fs', db') = (fs1, db1)))"

lemma hybrid_Run_phases:
  assumes "hybrid_Run True cenv benv stateDir opts src fs db = Some (Inr summary, src', fs', db')"
  shows "hybrid_phases cenv benv stateDir opts (src, fs, db) (src', fs', db')"
proof -
  from assms obtain cs fs1 db1 bs where c: "runCDCPhase cenv stateDir opts src fs db = (Inr cs, src', fs1, db1)"
    and b: "runBinlogPhase benv stateDir opts fs1 db1 = Some (Inr bs, fs', db')"
    by (auto simp: hybrid_Run_def split: option.splits sum.splits prod.splits)
  have "if capture_runs opts
      then \<exists>cs. cdc_Run cenv (path_join stateDir ''hybrid-cdc'') (cdc_phase_options opts) src fs db = (Inr cs, src', fs1, db1)
      else (src', fs1, db1) = (src, fs, db)"
    using c by (auto simp: runCDCPhase_def capture_runs_def split: prod.splits sum.splits if_splits)
  moreover have "if binlog_runs opts
      then \<exists>bs. Run benv (path_join stateDir ''hybrid-binlog'') (binlog_phase_options opts) fs1 db1 = Some (Inr bs, fs', db')
      else (fs', db') = (fs1, db1)"
    using b by (auto simp: runBinlogPhase_def binlog_runs_def split: option.splits prod.splits sum.splits if_splits)
  ultimately show ?thesis unfolding hybrid_phases_def by blast
qed


text \<open>
  Outside of that both guarantees fail, and ValidateRouting rejects neither case. A table
  named twice, in different case and with different modes, is applied by no phase. When no table
  is routed to the triggers, the changes of a table that is not named are applied by both phases.
\<close>

theorem hybrid_gaps:
  "(list_all (\<lambda>(k, m). valid_key k) routing \<longrightarrow> ValidateRouting routing = None) \<and>
   (hy_Routing opts = routing \<and> routed_to routing TableModeCaptureTriggers schema (cv_TableName event) \<and>
    routed_to routing TableModeBinlog schema (cv_TableName event) \<longrightarrow>
      \<not> routed (cdc_phase_options opts) schema event \<and>
      (se_Schema change = schema \<and> se_Table change = cv_TableName event \<longrightarrow> excluded (binlog_phase_options opts) change)) \<and>
   (hy_Routing opts = routing \<and> list_all (\<lambda>(k, m). m = TableModeBinlog) routing \<and>
    \<not> routed_to routing TableModeBinlog schema (cv_TableName event) \<longrightarrow>
      routed (cdc_phase_options opts) schema event \<and>
      (se_Schema change = schema \<and> se_Table change = cv_TableName event \<longrightarrow> \<not> excluded (binlog_phase_options opts) change))"
proof (intro conjI impI)
  assume "list_all (\<lambda>(k, m). valid_key k) routing"
  then show "ValidateRouting routing = None" by (induction routing rule: ValidateRouting.induct) auto
next
  note x = change_key_in_set [of "se_Schema change" "se_Table change" "hy_Routing opts", symmetric]
  assume a: "hy_Routing opts = routing \<and> routed_to routing TableModeCaptureTriggers schema (cv_TableName event) \<and>
    routed_to routing TableModeBinlog schema (cv_TableName event)"
  then show "\<not> routed (cdc_phase_options opts) schema event" by (simp add: routed_cdc_phase)
  assume "se_Schema change = schema \<and> se_Table change = cv_TableName event"
  then show "excluded (binlog_phase_options opts) change"
    using a x by (auto simp: excluded_def binlog_phase_options_def change_key_def)
next
  note x = change_key_in_set [of "se_Schema change" "se_Table change" "hy_Routing opts", symmetric]
  assume a: "hy_Routing opts = routing \<and> list_all (\<lambda>(k, m). m = TableModeBinlog) routing \<and>
    \<not> routed_to routing TableModeBinlog schema (cv_TableName event)"
  then have none: "tableSetForMode (hy_Routing opts) TableModeCaptureTriggers = {}"
    by (fastforce simp: tableSetForMode_def list_all_iff)
  then show "routed (cdc_phase_options opts) schema event" using a by (simp add: routed_cdc_phase)
  show "\<not> excluded (binlog_phase_options opts) change"
    using none by (simp add: excluded_def binlog_phase_options_def)
qed

section \<open>Reading a routing\<close>

definition entry_text :: "string \<times> TableMode \<Rightarrow> string" where
  "entry_text = (\<lambda>(key, mode). key @ ''='' @ mode)"

definition clean_entry :: "string \<times> TableMode \<Rightarrow> bool" where
  "clean_entry = (\<lambda>(key, mode). (mode = TableModeBinlog \<or> mode = TableModeCaptureTriggers) \<and>
     CHR '','' \<notin> set key \<and> CHR ''='' \<notin> set key \<and> (key \<noteq> '''' \<longrightarrow> \<not> is_space (hd key) \<and> \<not> is_space (last key)))"

lemma dropWhile_hd: "xs \<noteq> [] \<Longrightarrow> \<not> P (hd xs) \<Longrightarrow> dropWhile P xs = xs"
  by (cases xs) simp_all

lemma TrimSpace_clean: "s \<noteq> '''' \<longrightarrow> \<not> is_space (hd s) \<and> \<not> is_space (last s) \<Longrightarrow> TrimSpace s = s"
  by (cases "s = ''''") (simp_all add: TrimSpace_def dropWhile_hd hd_rev)

lemma is_space_equals: "\<not> is_space CHR ''=''"
  by (simp add: is_space_def)

lemma SplitByte_free: "sep \<notin> set s \<Longrightarrow> SplitByte s sep = [s]"
  by (induction s) auto

lemma SplitByte_cons: "sep \<notin> set s \<Longrightarrow> SplitByte (s @ sep # t) sep = s # SplitByte t sep"
  by (induction s) auto

lemma SplitByte_Join:
  "xs \<noteq> [] \<Longrightarrow> list_all (\<lambda>x. sep \<notin> set x) xs \<Longrightarrow> SplitByte (Join xs [sep]) sep = xs"
  by (induction xs "[sep]" rule: Join.induct) (simp_all add: SplitByte_free SplitByte_cons)

lemma SplitN2_free: "sep \<notin> set s \<Longrightarrow> SplitN2 (s @ sep # t) sep = [s, t]"
  by (induction s) auto

lemma clean_mode:
  assumes "mode = TableModeBinlog \<or> mode = TableModeCaptureTriggers"
  shows "mode \<noteq> '''' \<and> CHR '','' \<notin> set mode \<and> CHR ''='' \<notin> set mode \<and> \<not> is_space (hd mode) \<and> \<not> is_space (last mode)"
  using assms by (auto simp: TableModeBinlog_def TableModeCaptureTriggers_def is_space_def)

lemma parse_clean_entry:
  assumes "clean_entry (key, mode)"
  shows "parse_entry (entry_text (key, mode)) routing = Inr (route key mode routing) \<and>
    CHR '','' \<notin> set (entry_text (key, mode)) \<and> TrimSpace (entry_text (key, mode)) = entry_text (key, mode)"
proof -
  have m: "mode = TableModeBinlog \<or> mode = TableModeCaptureTriggers" using assms by (simp add: clean_entry_def)
  note c = clean_mode [OF m]
  have k: "key \<noteq> '''' \<longrightarrow> \<not> is_space (hd key)" using assms by (simp add: clean_entry_def)
  have "\<not> is_space (hd (entry_text (key, mode)))" "\<not> is_space (last (entry_text (key, mode)))"
    using c k by (cases key; simp add: entry_text_def is_space_def)+
  then have t: "TrimSpace (entry_text (key, mode)) = entry_text (key, mode)" by (simp add: TrimSpace_clean)
  have tk: "TrimSpace key = key" "TrimSpace mode = mode" using assms c by (auto simp: clean_entry_def TrimSpace_clean)
  have "SplitN2 (entry_text (key, mode)) CHR ''='' = [key, mode]"
    using assms by (simp add: entry_text_def clean_entry_def SplitN2_free)
  then show ?thesis using t tk m c assms by (simp add: parse_entry_def Let_def) (simp add: entry_text_def clean_entry_def)
qed

lemma route_new: "key \<notin> fst ` set routing \<Longrightarrow> route key mode routing = routing @ [(key, mode)]"
  by (induction key mode routing rule: route.induct) auto

lemma parse_clean_entries:
  assumes "list_all clean_entry entries" and "distinct (map fst (routing @ entries))"
  shows "parse_entries (map entry_text entries) routing = Inr (routing @ entries)"
  using assms
proof (induction entries arbitrary: routing)
  case (Cons e es)
  obtain key mode where e: "e = (key, mode)" by force
  then have "key \<notin> fst ` set routing" using Cons.prems(2) by auto
  then have "parse_entry (entry_text e) routing = Inr (routing @ [e])"
    using parse_clean_entry [of key mode routing] Cons.prems(1) route_new [of key routing mode] by (simp add: e)
  then show ?case using Cons.IH [of "routing @ [e]"] Cons.prems by simp
qed simp

text \<open>
  A routing written out as comma separated schema.table=mode entries, with each key once,
  is read back by ParseTableRouting as it was.
\<close>

theorem ParseTableRouting_reads_back:
  assumes "list_all clean_entry routing" and "distinct (map fst routing)"
  shows "ParseTableRouting (Join (map entry_text routing) '','') = Inr routing"
proof (cases routing)
  case Nil
  then show ?thesis by (simp add: ParseTableRouting_def)
next
  case (Cons e es)
  have "list_all (\<lambda>x. CHR '','' \<notin> set x) (map entry_text routing)"
    using assms(1) parse_clean_entry by (fastforce simp: list_all_iff)
  then have s: "SplitByte (Join (map entry_text routing) '','') CHR '','' = map entry_text routing"
    using SplitByte_Join [of "map entry_text routing" "CHR '',''"] Cons by simp
  have "\<exists>rest. Join (map entry_text routing) '','' = entry_text e @ rest" by (cases es) (simp_all add: Cons)
  moreover have "CHR ''='' \<in> set (entry_text e)" by (cases e) (simp add: entry_text_def)
  ultimately obtain c where "c \<in> set (Join (map entry_text routing) '','')" "\<not> is_space c"
    by (metis UnCI set_append is_space_equals)
  then have "\<not> list_all is_space (Join (map entry_text routing) '','')" by (auto simp: list_all_iff)
  then have "TrimSpace (Join (map entry_text routing) '','') \<noteq> ''''" by (simp add: TrimSpace_eq_Nil)
  then show ?thesis using s parse_clean_entries [OF assms(1), of "[]"] assms(2) by (simp add: ParseTableRouting_def)
qed

section \<open>Examples\<close>

definition example_routing :: "TableRouting \<Rightarrow> HybridOptions" where
  "example_routing routing =
     \<lparr>hy_ApplyDDL = ''warn'', hy_ConflictPolicy = ''fail'', hy_ConflictValues = ''redacted'', hy_MaxEvents = 0,
      hy_MaxLagSeconds = 0, hy_SourceServerID = 7, hy_Idempotent = False, hy_Resume = True, hy_StartFile = '''',
      hy_StartPos = 0, hy_GTIDSet = '''', hy_Routing = routing, hy_CDCDatabases = [''app''], hy_BinlogDatabases = [''app''],
      hy_SourceDSN = '''', hy_SourceTLSMode = '''', hy_SourceCAFile = '''', hy_SourceCertFile = '''', hy_SourceKeyFile = '''',
      hy_RateLimit = 0\<rparr>"

definition example_change :: "string \<Rightarrow> CDCEvent \<times> streamEvent" where
  "example_change table =
     (\<lparr>cv_CDCID = 1, cv_TableName = table, cv_Operation = ''DELETE'', cv_OldRowJSON = RowText '''', cv_NewRowJSON = RowText ''''\<rparr>,
      \<lparr>se_Kind = streamEventDeleteRows, se_File = ''f'', se_Pos = 4, se_Timestamp = 0, se_Schema = ''app'', se_Table = table,
       se_Query = '''', se_Rows = []\<rparr>)"

text \<open>
  With databases for both phases, orders is captured and events replayed. Without them, as in the
  example of docs/operators-guide.md, only the binary log runs, and no phase applies a change of orders.
\<close>

definition guide_routing :: TableRouting where
  "guide_routing = [(''app.orders'', TableModeCaptureTriggers), (''app.events'', TableModeBinlog)]"


theorem hybrid_gaps_witness:
  "ValidateRouting [(''app.T'', TableModeCaptureTriggers), (''app.t'', TableModeBinlog)] = None \<and>
   \<not> routed (cdc_phase_options (example_routing [(''app.T'', TableModeCaptureTriggers), (''app.t'', TableModeBinlog)]))
       ''app'' (fst (example_change ''t'')) \<and>
   excluded (binlog_phase_options (example_routing [(''app.T'', TableModeCaptureTriggers), (''app.t'', TableModeBinlog)]))
     (snd (example_change ''t'')) \<and>
   routed (cdc_phase_options (example_routing [])) ''app'' (fst (example_change ''t'')) \<and>
   \<not> excluded (binlog_phase_options (example_routing [])) (snd (example_change ''t''))"
proof -
  let ?r = "[(''app.T'', TableModeCaptureTriggers), (''app.t'', TableModeBinlog)]"
  have h: "hy_Routing (example_routing r) = r" for r by (simp add: example_routing_def)
  have e: "cv_TableName (fst (example_change ''t'')) = ''t''" "se_Schema (snd (example_change ''t'')) = ''app''"
    "se_Table (snd (example_change ''t'')) = ''t''"
    by (simp_all add: example_change_def)
  have v: "list_all (\<lambda>(k, m). valid_key k) ?r" by (simp add: valid_key_def) code_simp
  have t: "routed_to ?r TableModeCaptureTriggers ''app'' ''t''" "routed_to ?r TableModeBinlog ''app'' ''t''"
    by (simp_all add: routed_to_def change_key_def) (code_simp)+
  have n: "\<not> routed_to [] TableModeBinlog ''app'' ''t''" by (simp add: routed_to_def)
  note g = hybrid_gaps [of ?r "example_routing ?r" "''app''" "fst (example_change ''t'')" "snd (example_change ''t'')"]
  note g0 = hybrid_gaps [of "[]" "example_routing []" "''app''" "fst (example_change ''t'')" "snd (example_change ''t'')"]
  show ?thesis using g g0 v t n h e by simp
qed

theorem ParseTableRouting_reads_back_witness:
  "ParseTableRouting ''app.orders=capture-triggers,app.events=binlog'' =
     Inr [(''app.orders'', TableModeCaptureTriggers), (''app.events'', TableModeBinlog)]"
proof -
  let ?r = "[(''app.orders'', TableModeCaptureTriggers), (''app.events'', TableModeBinlog)]"
  have "list_all clean_entry ?r" by (simp add: clean_entry_def is_space_def)
  moreover have "distinct (map fst ?r)" by simp
  ultimately have "ParseTableRouting (Join (map entry_text ?r) '','') = Inr ?r" by (rule ParseTableRouting_reads_back)
  then show ?thesis by (simp add: entry_text_def TableModeCaptureTriggers_def TableModeBinlog_def)
qed

end
