(* ===== verification/Go_Digest.thy ===== *)
theory Go_Digest
  imports Cdc_Setup
begin

text \<open>
  Two more pieces of Go's standard library that the verification of data rests on: SHA-256
  (crypto/sha256) with hexadecimal text (encoding/hex), and the text of a list of strings
  (encoding/json, Marshal). A string is the list of its bytes.
\<close>

section \<open>SHA-256\<close>

unbundle bit_operations_syntax

text \<open>
  The constants are the first 32 bits of the fractional parts of roots of the first primes: cube
  roots for the 64 rounds and square roots for the initial digest. The root of n is searched bit
  by bit from the highest one down.
\<close>

fun root_below :: "nat \<Rightarrow> nat \<Rightarrow> int \<Rightarrow> int \<Rightarrow> int" where
  "root_below e 0 acc n = acc"
| "root_below e (Suc k) acc n = root_below e k (if (acc + 2 ^ k) ^ e \<le> n then acc + 2 ^ k else acc) n"

definition fraction_bits :: "nat \<Rightarrow> int \<Rightarrow> u32" where
  "fraction_bits e p = of_int (root_below e 40 0 (p * 2 ^ (32 * e)))"

definition small_primes :: "int list" where
  "small_primes = filter (\<lambda>n. list_all (\<lambda>d. n mod d \<noteq> 0) [2 .. 17] \<or> n \<in> set [2, 3, 5, 7, 11, 13, 17]) [2 .. 311]"

definition round_constants :: "u32 list" where
  "round_constants = map (fraction_bits 3) small_primes"

definition initial_digest :: "u32 list" where
  "initial_digest = map (fraction_bits 2) [2, 3, 5, 7, 11, 13, 17, 19]"

definition rotr :: "nat \<Rightarrow> u32 \<Rightarrow> u32" where
  "rotr n w = drop_bit n w OR push_bit (32 - n) w"

text \<open>The 64 words of the schedule: ws holds those so far, the latest first.\<close>

fun extend_schedule :: "nat \<Rightarrow> u32 list \<Rightarrow> u32 list" where
  "extend_schedule 0 ws = rev ws"
| "extend_schedule (Suc k) ws =
     (let w15 = ws ! 14; w2 = ws ! 1;
          s0 = rotr 7 w15 XOR rotr 18 w15 XOR drop_bit 3 w15;
          s1 = rotr 17 w2 XOR rotr 19 w2 XOR drop_bit 10 w2
      in extend_schedule k ((ws ! 15 + s0 + ws ! 6 + s1) # ws))"

definition compress_round :: "u32 list \<Rightarrow> u32 \<times> u32 \<Rightarrow> u32 list" where
  "compress_round s kw =
     (case s of
        [a, b, c, d, e, f, g, h] \<Rightarrow>
          (let s1 = rotr 6 e XOR rotr 11 e XOR rotr 25 e;
               ch = (e AND f) XOR (NOT e AND g);
               t1 = h + s1 + ch + fst kw + snd kw;
               s0 = rotr 2 a XOR rotr 13 a XOR rotr 22 a;
               maj = (a AND b) XOR (a AND c) XOR (b AND c)
           in [t1 + (s0 + maj), a, b, c, d + t1, e, f, g])
      | _ \<Rightarrow> s)"

definition compress_block :: "u32 list \<Rightarrow> u32 list \<Rightarrow> u32 list" where
  "compress_block digest block =
     map2 (+) digest (foldl compress_round digest (zip round_constants (extend_schedule 48 (rev block))))"

text \<open>Padding to whole blocks of 64 bytes with the length in bits in the last eight of them.\<close>

definition sha_pad :: "string \<Rightarrow> string" where
  "sha_pad s =
     (let n = length s; zeros = (119 - n mod 64) mod 64
      in s @ [char_of (128 :: nat)] @ replicate zeros (char_of (0 :: nat)) @
         map (\<lambda>i. char_of (uint (drop_bit (8 * i) (8 * of_nat n :: u64)) mod 256)) [7, 6, 5, 4, 3, 2, 1, 0])"

fun word_blocks :: "string \<Rightarrow> u32 list" where
  "word_blocks (a # b # c # d # s) =
     of_int (((of_char a * 256 + of_char b) * 256 + of_char c) * 256 + of_char d) # word_blocks s"
| "word_blocks _ = []"

fun sha_loop :: "nat \<Rightarrow> u32 list \<Rightarrow> u32 list \<Rightarrow> u32 list" where
  "sha_loop 0 ws digest = digest"
| "sha_loop (Suc k) ws digest = sha_loop k (drop 16 ws) (compress_block digest (take 16 ws))"

definition word_bytes :: "u32 \<Rightarrow> string" where
  "word_bytes w = map (\<lambda>i. char_of (uint (drop_bit (8 * i) w) mod 256)) [3, 2, 1, 0]"

definition sha256 :: "string \<Rightarrow> string" where
  "sha256 s =
     (let p = sha_pad s in concat (map word_bytes (sha_loop (length p div 64) (word_blocks p) initial_digest)))"

definition hex_encode :: "string \<Rightarrow> string" where
  "hex_encode s = concat (map (\<lambda>c. [hex_char (of_char c div 16), hex_char (of_char c mod 16)]) s)"

lemma length_compress_round [simp]: "length s = 8 \<Longrightarrow> length (compress_round s kw) = 8"
  by (auto simp: compress_round_def Let_def split: list.split)

lemma length_rounds: "length s = 8 \<Longrightarrow> length (foldl compress_round s kws) = 8"
  by (induction kws arbitrary: s) simp_all

lemma length_sha_loop: "length digest = 8 \<Longrightarrow> length (sha_loop k ws digest) = 8"
  by (induction k ws digest rule: sha_loop.induct) (simp_all add: compress_block_def length_rounds)

lemma length_sha256 [simp]: "length (sha256 s) = 32"
proof -
  have w: "length (word_bytes w) = 4" for w by (simp add: word_bytes_def)
  have "length (concat (map word_bytes ws)) = 4 * length ws" for ws by (induction ws) (simp_all add: w)
  moreover have "length (sha_loop k ws initial_digest) = 8" for k ws by (intro length_sha_loop) (simp add: initial_digest_def)
  ultimately show ?thesis by (simp add: sha256_def Let_def)
qed

lemma hex_char_inject: "m < 16 \<Longrightarrow> n < 16 \<Longrightarrow> hex_char m = hex_char n \<Longrightarrow> m = n"
  by (auto simp: hex_char_def split: if_splits dest: arg_cong [where f = "of_char :: char \<Rightarrow> nat"])

lemma hex_encode_inject: "hex_encode s = hex_encode t \<Longrightarrow> s = t"
proof (induction s arbitrary: t)
  case Nil
  then show ?case by (cases t) (simp_all add: hex_encode_def)
next
  case (Cons c s)
  then obtain d u where t: "t = d # u" by (cases t) (simp_all add: hex_encode_def)
  have b: "(of_char c :: nat) < 256" "(of_char d :: nat) < 256" by simp_all
  then have l: "of_char c div 16 < (16 :: nat)" "of_char d div 16 < (16 :: nat)" by (auto intro: less_mult_imp_div_less)
  have "hex_char (of_char c div 16) = hex_char (of_char d div 16)" "hex_char (of_char c mod 16) = hex_char (of_char d mod 16)"
    and r: "hex_encode s = hex_encode u"
    using Cons.prems by (simp_all add: t hex_encode_def)
  then have "of_char c div 16 = (of_char d div 16 :: nat)" "of_char c mod 16 = (of_char d mod 16 :: nat)"
    using hex_char_inject l by simp_all
  then have "(of_char c :: nat) = of_char d" by (metis div_mult_mod_eq)
  then have "c = d" by simp
  then show ?case using Cons.IH [OF r] by (simp add: t)
qed

section \<open>Text of a list of strings\<close>

text \<open>
  The number of bytes of the UTF-8 character at the head of a text, or 0 when the bytes there are
  not one (utf8.DecodeRuneInString then gives the replacement character and one byte).
\<close>

definition byte_in :: "nat \<Rightarrow> nat \<Rightarrow> char \<Rightarrow> bool" where
  "byte_in lo hi c = (lo \<le> (of_char c :: nat) \<and> (of_char c :: nat) \<le> hi)"

definition lead_width :: "char \<Rightarrow> nat" where
  "lead_width c =
     (if byte_in 0 0x7F c then 1 else if byte_in 0xC2 0xDF c then 2 else if byte_in 0xE0 0xEF c then 3
      else if byte_in 0xF0 0xF4 c then 4 else 0)"

text \<open>Some leading bytes narrow the range of the second one.\<close>

definition second_ok :: "char \<Rightarrow> char \<Rightarrow> bool" where
  "second_ok c d =
     byte_in (if byte_in 0xE0 0xE0 c then 0xA0 else if byte_in 0xF0 0xF0 c then 0x90 else 0x80)
       (if byte_in 0xED 0xED c then 0x9F else if byte_in 0xF4 0xF4 c then 0x8F else 0xBF) d"

definition rune_width :: "string \<Rightarrow> nat" where
  "rune_width s =
     (case s of
        [] \<Rightarrow> 0
      | c # t \<Rightarrow>
          (let w = lead_width c
           in if w \<le> length s \<and> (1 < w \<longrightarrow> second_ok c (hd t)) \<and> list_all (byte_in 0x80 0xBF) (take (w - 1) t) then w else 0))"

definition backslash :: char where
  "backslash = CHR 0x5C"

text \<open>How json.Marshal writes one character: the quote, the backslash, controls and the three characters of HTML are escaped.\<close>

definition json_ascii :: "char \<Rightarrow> string" where
  "json_ascii c =
     (if c = CHR 0x22 \<or> c = backslash then [backslash, c]
      else if c = CHR 0x08 then [backslash, CHR ''b'']
      else if c = CHR 0x0C then [backslash, CHR ''f'']
      else if c = CHR 0x0A then [backslash, CHR ''n'']
      else if c = CHR 0x0D then [backslash, CHR ''r'']
      else if c = CHR 0x09 then [backslash, CHR ''t'']
      else if byte_in 0 0x1F c \<or> c = CHR ''<'' \<or> c = CHR ''>'' \<or> c = CHR ''&''
      then backslash # ''u00'' @ [hex_char (of_char c div 16), hex_char (of_char c mod 16)]
      else [c])"

definition json_rune :: "string \<Rightarrow> string" where
  "json_rune r =
     (case r of
        [c] \<Rightarrow> json_ascii c
      | _ \<Rightarrow> if r = [CHR 0xE2, CHR 0x80, CHR 0xA8] then backslash # ''u2028''
             else if r = [CHR 0xE2, CHR 0x80, CHR 0xA9] then backslash # ''u2029'' else r)"

function json_escape :: "string \<Rightarrow> string" where
  "json_escape s =
     (if s = [] then []
      else if rune_width s = 0 then backslash # ''ufffd'' @ json_escape (drop 1 s)
      else json_rune (take (rune_width s) s) @ json_escape (drop (rune_width s) s))"
  by auto

termination json_escape
  by (relation "measure length") auto

declare json_escape.simps [simp del]

definition json_quoted :: "string \<Rightarrow> string" where
  "json_quoted s = CHR 0x22 # json_escape s @ [CHR 0x22]"

definition json_strings :: "string list \<Rightarrow> string" where
  "json_strings xs = ''['' @ Join (map json_quoted xs) '','' @ '']''"

text \<open>A text all of whose characters are well formed.\<close>

function valid_utf8 :: "string \<Rightarrow> bool" where
  "valid_utf8 s = (if s = [] then True else if rune_width s = 0 then False else valid_utf8 (drop (rune_width s) s))"
  by auto

termination valid_utf8
  by (relation "measure length") auto

declare valid_utf8.simps [simp del]

subsection \<open>The text determines the strings\<close>

text \<open>What starts at a quote that follows is told apart: no character is written with a quote at its head.\<close>

lemma rune_width_le: "rune_width s \<le> length s"
  by (cases s) (simp_all add: rune_width_def Let_def)

text \<open>The width is determined by the first byte.\<close>

lemma rune_width_lead: "rune_width (c # t) \<noteq> 0 \<Longrightarrow> rune_width (c # t) = lead_width c"
  by (simp add: rune_width_def Let_def split: if_splits)

definition is_rune :: "string \<Rightarrow> bool" where
  "is_rune r = (r \<noteq> [] \<and> length r = lead_width (hd r))"

lemma is_rune_take: "rune_width s \<noteq> 0 \<Longrightarrow> is_rune (take (rune_width s) s)"
  using rune_width_le [of s] rune_width_lead [of "hd s" "tl s"] by (cases s) (auto simp: is_rune_def hd_take)

text \<open>The characters that are written as an escape.\<close>

definition escaped_runes :: "string list" where
  "escaped_runes = map (\<lambda>n. [char_of n]) [0 ..< 32 :: nat] @ [[CHR 0x22], ''<'', ''>'', ''&'', [backslash]] @
     [[CHR 0xE2, CHR 0x80, CHR 0xA8], [CHR 0xE2, CHR 0x80, CHR 0xA9]]"

lemma escapes_distinct: "distinct (map json_rune escaped_runes)"
  by code_simp

lemma escapes_shape:
  "list_all (\<lambda>r. length (json_rune r) = 6 \<and> json_rune r ! 1 = CHR ''u'' \<or> length (json_rune r) = 2 \<and> json_rune r ! 1 \<noteq> CHR ''u'')
     escaped_runes"
  by code_simp

text \<open>A character is written as itself, and then starts with neither a backslash nor a quote, or it is one of these.\<close>

lemma json_rune_cases:
  assumes "is_rune r"
  shows "json_rune r = r \<and> hd r \<noteq> backslash \<and> hd r \<noteq> CHR 0x22 \<or> r \<in> set escaped_runes \<and> hd (json_rune r) = backslash"
proof (cases "length r = 1")
  case True
  then obtain c where r: "r = [c]" by (cases r) auto
  have "byte_in 0 0x1F c \<Longrightarrow> \<exists>n < 32. c = char_of (n :: nat)"
    by (intro exI [of _ "of_char c"]) (simp add: byte_in_def)
  then have "byte_in 0 0x1F c \<Longrightarrow> r \<in> set escaped_runes" by (auto simp: r escaped_runes_def)
  moreover have "c \<in> {CHR 0x22, CHR ''<'', CHR ''>'', CHR ''&'', backslash} \<Longrightarrow> r \<in> set escaped_runes"
    by (auto simp: r escaped_runes_def backslash_def)
  moreover have "c \<in> {CHR 0x08, CHR 0x0C, CHR 0x0A, CHR 0x0D, CHR 0x09} \<Longrightarrow> byte_in 0 0x1F c" by (auto simp: byte_in_def)
  note escapes = calculation this
  have e: "json_rune r = r \<and> c \<noteq> backslash \<and> c \<noteq> CHR 0x22" if "r \<notin> set escaped_runes"
  proof -
    have "\<not> byte_in 0 0x1F c" "c \<notin> {CHR 0x22, CHR ''<'', CHR ''>'', CHR ''&'', backslash}"
      "c \<notin> {CHR 0x08, CHR 0x0C, CHR 0x0A, CHR 0x0D, CHR 0x09}"
      using that escapes by blast+
    then show ?thesis by (simp add: r json_rune_def json_ascii_def)
  qed
  show ?thesis
  proof (cases "r \<in> set escaped_runes")
    case True
    moreover have "list_all (\<lambda>r. hd (json_rune r) = backslash) escaped_runes" by code_simp
    ultimately show ?thesis by (simp add: list_all_iff)
  next
    case False
    then show ?thesis using e by (simp add: r)
  qed
next
  case False
  then have "hd r \<noteq> backslash" "hd r \<noteq> CHR 0x22"
    using assms by (auto simp: is_rune_def lead_width_def backslash_def byte_in_def split: if_splits)
  then show ?thesis
    using False assms by (auto simp: json_rune_def escaped_runes_def is_rune_def split: list.splits)
qed

lemma escape_length:
  assumes "r \<in> set escaped_runes"
  shows "length (json_rune r) = (if json_rune r ! 1 = CHR ''u'' then 6 else 2)" "1 < length (json_rune r)"
  using assms escapes_shape by (auto simp: list_all_iff)

lemma json_rune_nonempty: "is_rune r \<Longrightarrow> json_rune r \<noteq> []"
  using json_rune_cases [of r] escape_length(2) [of r] by (fastforce simp: is_rune_def)

lemma json_rune_prefix:
  assumes r: "is_rune r" "is_rune r'" and eq: "json_rune r @ x = json_rune r' @ y"
  shows "r = r' \<and> x = y"
proof -
  have h: "hd (json_rune r) = hd (json_rune r')" using eq r json_rune_nonempty by (metis hd_append2)
  from json_rune_cases [OF r(1)] show ?thesis
  proof (elim disjE conjE)
    assume a: "json_rune r = r" "hd r \<noteq> backslash"
    then have a': "json_rune r' = r'" using json_rune_cases [OF r(2)] h by auto
    then have "length r = length r'" using a h r by (simp add: is_rune_def)
    then show ?thesis using eq a(1) a' by simp
  next
    assume b: "r \<in> set escaped_runes" "hd (json_rune r) = backslash"
    then have b': "r' \<in> set escaped_runes" using json_rune_cases [OF r(2)] h by auto
    have "json_rune r ! 1 = json_rune r' ! 1" using eq escape_length(2) [OF b(1)] escape_length(2) [OF b'] by (metis nth_append)
    then have "length (json_rune r) = length (json_rune r')" using escape_length(1) b(1) b' by simp
    then have "json_rune r = json_rune r'" "x = y" using eq by simp_all
    then show ?thesis using escapes_distinct b(1) b' by (auto simp: distinct_map dest: inj_onD)
  qed
qed

lemma json_escape_step:
  "valid_utf8 s \<Longrightarrow> s \<noteq> [] \<Longrightarrow>
   \<exists>r t. s = r @ t \<and> is_rune r \<and> valid_utf8 t \<and> json_escape s = json_rune r @ json_escape t"
  by (rule exI [of _ "take (rune_width s) s"], rule exI [of _ "drop (rune_width s) s"])
    (auto simp: json_escape.simps [of s] valid_utf8.simps [of s] is_rune_take split: if_splits)

lemma json_rune_no_quote: "is_rune r \<Longrightarrow> json_rune r @ x \<noteq> CHR 0x22 # y"
  using json_rune_cases [of r] json_rune_nonempty [of r] by (cases "json_rune r") (auto simp: is_rune_def backslash_def)

lemma json_quoted_append_inject:
  "valid_utf8 s \<Longrightarrow> valid_utf8 t \<Longrightarrow> json_escape s @ CHR 0x22 # x = json_escape t @ CHR 0x22 # y \<Longrightarrow> s = t \<and> x = y"
proof (induction "length s" arbitrary: s t rule: less_induct)
  case less
  have nil: "json_escape [] = []" by (simp add: json_escape.simps)
  show ?case
  proof (cases "s = [] \<or> t = []")
    case True
    have "s = [] \<and> t = []"
    proof (rule ccontr)
      assume "\<not> (s = [] \<and> t = [])"
      then obtain u where "valid_utf8 u" "u \<noteq> []" "\<exists>z w. json_escape u @ CHR 0x22 # z = CHR 0x22 # w"
        using True less.prems nil by (metis append_Nil)
      then show False using json_escape_step [of u] json_rune_no_quote by fastforce
    qed
    then show ?thesis using less.prems(3) by simp
  next
    case False
    obtain r s' where s: "s = r @ s'" "is_rune r" "valid_utf8 s'" "json_escape s = json_rune r @ json_escape s'"
      using json_escape_step less.prems(1) False by blast
    obtain q t' where t: "t = q @ t'" "is_rune q" "valid_utf8 t'" "json_escape t = json_rune q @ json_escape t'"
      using json_escape_step less.prems(2) False by blast
    have "r = q \<and> json_escape s' @ CHR 0x22 # x = json_escape t' @ CHR 0x22 # y"
      using json_rune_prefix [OF s(2) t(2)] less.prems(3) s(4) t(4) by (metis append.assoc)
    moreover have "length s' < length s" using s(1,2) by (cases r) (simp_all add: is_rune_def)
    ultimately show ?thesis using less.hyps [OF _ s(3) t(3)] s(1) t(1) by blast
  qed
qed

lemma json_list_inject:
  "list_all valid_utf8 xs \<Longrightarrow> list_all valid_utf8 ys \<Longrightarrow>
   Join (map json_quoted xs) '','' @ '']'' @ a = Join (map json_quoted ys) '','' @ '']'' @ b \<Longrightarrow> xs = ys"
proof (induction xs arbitrary: ys)
  case Nil
  then show ?case by (cases ys rule: remdups_adj.cases) (auto simp: json_quoted_def)
next
  case (Cons x xs)
  then obtain y ys' where ys: "ys = y # ys'" by (cases ys) (cases xs; simp add: json_quoted_def)+
  have e: "Join (map json_quoted (z # zs)) '','' @ '']'' @ c =
      CHR 0x22 # json_escape z @ CHR 0x22 # (case zs of [] \<Rightarrow> '']'' @ c | _ \<Rightarrow> CHR '','' # Join (map json_quoted zs) '','' @ '']'' @ c)" for z zs c
    by (cases zs) (simp_all add: json_quoted_def)
  have "x = y \<and> (case xs of [] \<Rightarrow> '']'' @ a | _ \<Rightarrow> CHR '','' # Join (map json_quoted xs) '','' @ '']'' @ a) =
      (case ys' of [] \<Rightarrow> '']'' @ b | _ \<Rightarrow> CHR '','' # Join (map json_quoted ys') '','' @ '']'' @ b)"
    using Cons.prems unfolding ys e by (intro json_quoted_append_inject) auto
  then show ?case using Cons.IH [of ys'] Cons.prems by (cases xs; cases ys') (auto simp: ys)
qed

lemma json_strings_inject:
  "list_all valid_utf8 xs \<Longrightarrow> list_all valid_utf8 ys \<Longrightarrow> json_strings xs = json_strings ys \<Longrightarrow> xs = ys"
  using json_list_inject [of xs ys "[]" "[]"] by (simp add: json_strings_def)

end
