(* ===== verification/Verify_Hash.thy ===== *)
theory Verify_Hash
  imports Go_Digest Baseline_Copy
begin

text \<open>
  The digest of a table's contents (internal/verify/data/verify.go): how a value, a row and a
  chunk of rows are written before they are hashed, the three modes, and the loop that reads a
  table in the order of its key. A hasher is the text written to it so far.

  What the server answers is a parameter, and so are json.Valid and the text that json.Marshal
  gives for the value that json.Unmarshal read (the numbers in it pass through float64).
\<close>

section \<open>Values\<close>

text \<open>The dynamic types that the code distinguishes; the width 0 stands for int and uint, texts of floats and times are given.\<close>

datatype hash_value =
    HNil | HBytes string | HString string | HBool bool | HInt nat int | HUint nat nat | HFloat nat string | HTime string
  | HOther string string

record columnInfo =
  ci_Name :: string
  ci_DataType :: string
  ci_CollationName :: string
  ci_CharacterSetName :: string

record json_lib =
  js_valid :: "string \<Rightarrow> bool"
  js_canonical :: "string \<Rightarrow> string option"

definition shouldTreatAsText :: "columnInfo \<Rightarrow> bool" where
  "shouldTreatAsText info =
     (ci_DataType info \<in> set [''char'', ''varchar'', ''tinytext'', ''text'', ''mediumtext'', ''longtext'', ''enum'', ''set'', ''json''])"

definition maybeJSONValue :: "json_lib \<Rightarrow> columnInfo \<Rightarrow> string \<Rightarrow> bool" where
  "maybeJSONValue js info text =
     (let trimmed = TrimSpace text
      in if trimmed = '''' then False
         else if ci_DataType info = ''json'' then True
         else if \<not> shouldTreatAsText info then False
         else if hd trimmed \<noteq> CHR ''{'' \<and> hd trimmed \<noteq> CHR ''['' then False
         else js_valid js trimmed)"

definition normalizeTextHashValue :: "json_lib \<Rightarrow> string \<Rightarrow> columnInfo \<Rightarrow> string" where
  "normalizeTextHashValue js text info =
     (let trimmed = TrimSpace text
      in if maybeJSONValue js info trimmed
         then (case js_canonical js trimmed of Some canonical \<Rightarrow> ''json:'' @ canonical | None \<Rightarrow> ''string:'' @ text)
         else ''string:'' @ text)"

definition width_text :: "nat \<Rightarrow> string" where
  "width_text w = (if w = 0 then '''' else show_nat w)"

fun normalizeHashValue :: "json_lib \<Rightarrow> hash_value \<Rightarrow> columnInfo \<Rightarrow> string" where
  "normalizeHashValue js HNil info = ''null:''"
| "normalizeHashValue js (HBytes s) info =
     (if shouldTreatAsText info then normalizeTextHashValue js s info else ''bytes:'' @ EncodeToString s)"
| "normalizeHashValue js (HString s) info = normalizeTextHashValue js s info"
| "normalizeHashValue js (HBool b) info = ''bool:'' @ (if b then ''true'' else ''false'')"
| "normalizeHashValue js (HInt w i) info = ''int'' @ width_text w @ '':'' @ show_int i"
| "normalizeHashValue js (HUint w n) info = ''uint'' @ width_text w @ '':'' @ show_nat n"
| "normalizeHashValue js (HFloat w t) info = ''float'' @ width_text w @ '':'' @ t"
| "normalizeHashValue js (HTime t) info = ''time:'' @ t"
| "normalizeHashValue js (HOther t v) info = t @ '':'' @ v"

text \<open>The text that is hashed for a row, and its digest.\<close>

definition normalized_row :: "json_lib \<Rightarrow> columnInfo list \<Rightarrow> hash_value list \<Rightarrow> string list" where
  "normalized_row js columns rowValues = map2 (normalizeHashValue js) rowValues columns"

definition rowDigestForHash :: "json_lib \<Rightarrow> columnInfo list \<Rightarrow> hash_value list \<Rightarrow> string" where
  "rowDigestForHash js columns rowValues = sha256 (json_strings (normalized_row js columns rowValues))"

section \<open>What a server answers\<close>

record verify_side =
  vs_pin :: "string option"
  vs_exec :: "string \<Rightarrow> string option"
  vs_schemata :: "string query_result"
  vs_tables :: "string \<Rightarrow> string query_result"
  vs_count :: "string \<Rightarrow> string + int"
  vs_columns :: "string \<Rightarrow> string \<Rightarrow> (string \<times> string \<times> string \<times> string) query_result"
  vs_stats :: "string \<Rightarrow> string \<Rightarrow> statistics_row query_result"
  vs_notNull :: "string \<Rightarrow> string \<Rightarrow> string query_result"
  vs_rows :: "string \<Rightarrow> hash_value list \<Rightarrow> hash_value list query_result"
  vs_risk :: "string list \<Rightarrow> (string \<times> string \<times> string \<times> string) query_result"

definition listTableColumnInfo :: "verify_side \<Rightarrow> string \<Rightarrow> string \<Rightarrow> string + columnInfo list" where
  "listTableColumnInfo side databaseName tableName =
     bind_result (rows_or_error (vs_columns side databaseName tableName)) (\<lambda>rows.
       Inr (map (\<lambda>(name, dataType, collation, charset).
         \<lparr>ci_Name = name, ci_DataType = ToLower (TrimSpace dataType), ci_CollationName = TrimSpace collation,
          ci_CharacterSetName = TrimSpace charset\<rparr>) rows))"

text \<open>The package has its own copy of the function with which the baseline copy finds the key of a table.\<close>

definition verify_listStableKeyColumns :: "verify_side \<Rightarrow> string \<Rightarrow> string \<Rightarrow> string + string list" where
  "verify_listStableKeyColumns side databaseName tableName =
     listStableKeyColumns (vs_stats side databaseName tableName) (vs_notNull side databaseName tableName)"

section \<open>Queries\<close>

definition verify_buildSelectSQL :: "string \<Rightarrow> string \<Rightarrow> columnInfo list \<Rightarrow> string" where
  "verify_buildSelectSQL databaseName tableName columns =
     ''SELECT '' @ name_columns (map ci_Name columns) @ '' FROM '' @ quoteIdentifier databaseName @ ''.'' @ quoteIdentifier tableName"

definition buildOrderedSelectSQL :: "string \<Rightarrow> string \<Rightarrow> columnInfo list \<Rightarrow> string list \<Rightarrow> bool \<Rightarrow> string" where
  "buildOrderedSelectSQL databaseName tableName columns keyColumns withLimit =
     verify_buildSelectSQL databaseName tableName columns @ '' ORDER BY '' @ name_columns keyColumns @
     (if withLimit then '' LIMIT ?'' else '''')"

definition verify_buildKeysetSelectSQL :: "string \<Rightarrow> string \<Rightarrow> columnInfo list \<Rightarrow> string list \<Rightarrow> bool \<Rightarrow> string" where
  "verify_buildKeysetSelectSQL databaseName tableName columns keyColumns withCursor =
     (let base = verify_buildSelectSQL databaseName tableName columns
      in if withCursor
         then base @ '' WHERE ('' @ name_columns keyColumns @ '') > ('' @ marks (length keyColumns) @ '') ORDER BY ''
              @ name_columns keyColumns @ '' LIMIT ?''
         else base @ '' ORDER BY '' @ name_columns keyColumns @ '' LIMIT ?'')"

definition keyColumnIndexes :: "columnInfo list \<Rightarrow> string list \<Rightarrow> string + nat list" where
  "keyColumnIndexes columns keyColumns = key_indexes (map ci_Name columns) keyColumns"

definition keyCursorFromRow :: "hash_value list \<Rightarrow> nat list \<Rightarrow> hash_value list" where
  "keyCursorFromRow rowValues keyIndexes = map (\<lambda>i. rowValues ! i) keyIndexes"

section \<open>Digests of tables\<close>

definition hashModeSample :: string where
  "hashModeSample = ''sample''"

definition hashModeHash :: string where
  "hashModeHash = ''hash''"

definition hashModeFullHash :: string where
  "hashModeFullHash = ''full-hash''"

definition defaultHashChunkSize :: int where
  "defaultHashChunkSize = 2000"

definition defaultFullHashChunkSize :: int where
  "defaultFullHashChunkSize = 500"

definition defaultSampleSize :: int where
  "defaultSampleSize = 1000"

definition row_line :: "json_lib \<Rightarrow> columnInfo list \<Rightarrow> hash_value list \<Rightarrow> string" where
  "row_line js columns row = ''r:'' @ rowDigestForHash js columns row @ newline"

fun streamed_rows :: "json_lib \<Rightarrow> columnInfo list \<Rightarrow> hash_value list list \<Rightarrow> string \<Rightarrow> nat \<Rightarrow> string \<times> nat" where
  "streamed_rows js columns [] hasher rowCount = (hasher, rowCount)"
| "streamed_rows js columns (row # rows) hasher rowCount =
     streamed_rows js columns rows (hasher @ row_line js columns row) (rowCount + 1)"

definition hashStreamedRows :: "json_lib \<Rightarrow> columnInfo list \<Rightarrow> string \<Rightarrow> hash_value list query_result \<Rightarrow> string + string" where
  "hashStreamedRows js columns mode q =
     bind_result (rows_or_error q) (\<lambda>rows.
       case streamed_rows js columns rows '''' 0 of
         (hasher, rowCount) \<Rightarrow>
           Inr (hex_encode (sha256 (hasher @ ''mode:'' @ mode @ '' rows:'' @ show_nat rowCount @ newline))))"

definition hashOrderedSampleTable ::
  "json_lib \<Rightarrow> verify_side \<Rightarrow> string \<Rightarrow> string \<Rightarrow> columnInfo list \<Rightarrow> string list \<Rightarrow> int \<Rightarrow> string + string" where
  "hashOrderedSampleTable js side databaseName tableName columns keyColumns sampleSize0 =
     (let sampleSize = (if sampleSize0 < 1 then defaultSampleSize else sampleSize0);
          query = (if keyColumns \<noteq> [] then buildOrderedSelectSQL databaseName tableName columns keyColumns True
                   else verify_buildSelectSQL databaseName tableName columns @ '' LIMIT ?'')
      in hashStreamedRows js columns hashModeSample (vs_rows side query [HInt 0 sampleSize]))"

text \<open>The rows of a chunk: what is written to the hasher of the table and to that of the chunk, their number and the last key.\<close>

fun chunk_rows ::
  "json_lib \<Rightarrow> columnInfo list \<Rightarrow> nat list \<Rightarrow> string \<Rightarrow> hash_value list list \<Rightarrow> string \<Rightarrow> string \<Rightarrow> nat \<Rightarrow> hash_value list
     \<Rightarrow> string \<times> string \<times> nat \<times> hash_value list" where
  "chunk_rows js columns keyIndexes mode [] tableHasher chunkHasher n lastKey = (tableHasher, chunkHasher, n, lastKey)"
| "chunk_rows js columns keyIndexes mode (row # rows) tableHasher chunkHasher n lastKey =
     (let (tableHasher', chunkHasher') =
            (if mode = hashModeHash then (tableHasher @ row_line js columns row, chunkHasher)
             else (tableHasher, chunkHasher @ rowDigestForHash js columns row @ newline))
      in chunk_rows js columns keyIndexes mode rows tableHasher' chunkHasher' (n + 1) (keyCursorFromRow row keyIndexes))"

definition chunk_line :: "nat \<Rightarrow> nat \<Rightarrow> string \<Rightarrow> string" where
  "chunk_line i n chunkHasher =
     ''chunk:'' @ show_nat i @ '' rows:'' @ show_nat n @ '' digest:'' @ sha256 chunkHasher @ newline"

partial_function (option) chunk_loop ::
  "json_lib \<Rightarrow> verify_side \<Rightarrow> string \<Rightarrow> string \<Rightarrow> columnInfo list \<Rightarrow> string list \<Rightarrow> nat list \<Rightarrow> nat \<Rightarrow> string
     \<Rightarrow> string \<Rightarrow> hash_value list \<Rightarrow> nat \<Rightarrow> nat \<Rightarrow> (string + string \<times> nat \<times> nat) option" where
  "chunk_loop js side databaseName tableName columns keyColumns keyIndexes chunkSize mode tableHasher cursor totalRows chunks =
     (case rows_or_error (vs_rows side
             (verify_buildKeysetSelectSQL databaseName tableName columns keyColumns (cursor \<noteq> []))
             (cursor @ [HInt 0 (int chunkSize)])) of
        Inl e \<Rightarrow> Some (Inl e)
      | Inr rows \<Rightarrow>
          (case chunk_rows js columns keyIndexes mode rows tableHasher '''' 0 [] of
             (tableHasher', chunkHasher, n, lastKey) \<Rightarrow>
               (if n = 0 then Some (Inr (tableHasher', totalRows, chunks))
                else
                  let tableHasher'' = (if mode = hashModeFullHash then tableHasher' @ chunk_line chunks n chunkHasher else tableHasher')
                  in if n < chunkSize then Some (Inr (tableHasher'', totalRows + n, chunks + 1))
                     else chunk_loop js side databaseName tableName columns keyColumns keyIndexes chunkSize mode
                            tableHasher'' lastKey (totalRows + n) (chunks + 1))))"

definition hashChunkedTable ::
  "json_lib \<Rightarrow> verify_side \<Rightarrow> string \<Rightarrow> string \<Rightarrow> columnInfo list \<Rightarrow> string list \<Rightarrow> int \<Rightarrow> string \<Rightarrow> (string + string) option" where
  "hashChunkedTable js side databaseName tableName columns keyColumns chunkSize0 mode =
     (let chunkSize = (if chunkSize0 < 1 then defaultHashChunkSize else chunkSize0)
      in case keyColumnIndexes columns keyColumns of
           Inl e \<Rightarrow> Some (Inl e)
         | Inr keyIndexes \<Rightarrow>
             (case chunk_loop js side databaseName tableName columns keyColumns keyIndexes (nat chunkSize) mode '''' [] 0 0 of
                None \<Rightarrow> None
              | Some (Inl e) \<Rightarrow> Some (Inl e)
              | Some (Inr (tableHasher, totalRows, chunks)) \<Rightarrow>
                  Some (Inr (hex_encode (sha256 (tableHasher @
                    ''mode:'' @ mode @ '' rows:'' @ show_nat totalRows @ '' chunks:'' @ show_nat chunks @ newline))))))"

definition incompatibleStableKeyError :: "string \<Rightarrow> string \<Rightarrow> string" where
  "incompatibleStableKeyError databaseName tableName =
     ''incompatible_for_v1_deterministic_hash: '' @ databaseName @ ''.'' @ tableName @
     '' has no primary key or non-null unique key; add a stable key before using hash/full-hash verify modes''"

definition incompatibleStableSampleKeyError :: "string \<Rightarrow> string \<Rightarrow> string" where
  "incompatibleStableSampleKeyError databaseName tableName =
     ''incompatible_for_v1_deterministic_sample: '' @ databaseName @ ''.'' @ tableName @
     '' has no primary key or non-null unique key; add a stable key before using sample verify mode''"

definition hashTableByMode :: "json_lib \<Rightarrow> verify_side \<Rightarrow> string \<Rightarrow> int \<Rightarrow> string \<Rightarrow> string \<Rightarrow> (string + string) option" where
  "hashTableByMode js side mode sampleSize databaseName tableName =
     (case listTableColumnInfo side databaseName tableName of
        Inl e \<Rightarrow> Some (Inl e)
      | Inr columns \<Rightarrow>
          (if columns = [] then Some (Inr (hex_encode (sha256 '''')))
           else (case verify_listStableKeyColumns side databaseName tableName of
                   Inl e \<Rightarrow> Some (Inl e)
                 | Inr keyColumns \<Rightarrow>
                     (if keyColumns = []
                      then Some (Inl (if mode = hashModeSample then incompatibleStableSampleKeyError databaseName tableName
                                      else incompatibleStableKeyError databaseName tableName))
                      else if mode = hashModeSample
                      then Some (hashOrderedSampleTable js side databaseName tableName columns keyColumns sampleSize)
                      else if mode = hashModeHash
                      then hashChunkedTable js side databaseName tableName columns keyColumns defaultHashChunkSize hashModeHash
                      else if mode = hashModeFullHash
                      then hashChunkedTable js side databaseName tableName columns keyColumns defaultFullHashChunkSize hashModeFullHash
                      else Some (Inl (''unsupported hash mode '' @ go_quote mode))))))"

end
