(* ===== verification/Verify_Diff.thy ===== *)
theory Verify_Diff
  imports Baseline_Sql "HOL-Library.AList" "HOL-Library.Product_Lexorder" "HOL-Library.Multiset"
begin

text \<open>
  The comparison of two maps that the verification of data and that of schemas share
  (internal/verify/data/verify.go, internal/verify/schema/verify.go): a loop over the source's map
  that reports what the destination lacks and what differs, and a loop over the destination's map
  that reports what the source lacks. A map is the list of its entries in the order in which a
  range meets them; the locale shows that this order does not show after the final sort.
\<close>

section \<open>The two loops\<close>

record 'd tally =
  ty_diffs :: "'d list"
  ty_compared :: nat
  ty_missingDestination :: nat
  ty_missingSource :: nat
  ty_mismatch :: nat
  ty_noise :: nat

definition empty_tally :: "'d tally" where
  "empty_tally = \<lparr>ty_diffs = [], ty_compared = 0, ty_missingDestination = 0, ty_missingSource = 0, ty_mismatch = 0, ty_noise = 0\<rparr>"

fun source_side ::
  "('k \<Rightarrow> 'v \<Rightarrow> 'd) \<Rightarrow> ('v \<Rightarrow> 'v \<Rightarrow> bool) \<Rightarrow> ('k \<Rightarrow> 'v \<Rightarrow> 'v \<Rightarrow> 'd) \<Rightarrow> ('d \<Rightarrow> bool) \<Rightarrow> ('k \<times> 'v) list \<Rightarrow> ('k \<times> 'v) list \<Rightarrow> 'd tally \<Rightarrow> 'd tally" where
  "source_side missing same differs noisy dest [] acc = acc"
| "source_side missing same differs noisy dest ((k, v) # rest) acc =
     (case map_of dest k of
        None \<Rightarrow>
          source_side missing same differs noisy dest rest
            (acc\<lparr>ty_diffs := ty_diffs acc @ [missing k v], ty_missingDestination := ty_missingDestination acc + 1\<rparr>)
      | Some w \<Rightarrow>
          (let acc = acc\<lparr>ty_compared := ty_compared acc + 1\<rparr>
           in source_side missing same differs noisy dest rest
                (if same v w then acc
                 else acc\<lparr>ty_diffs := ty_diffs acc @ [differs k v w], ty_mismatch := ty_mismatch acc + 1,
                          ty_noise := ty_noise acc + (if noisy (differs k v w) then 1 else 0)\<rparr>)))"

fun dest_side :: "('k \<Rightarrow> 'v \<Rightarrow> 'd) \<Rightarrow> ('k \<times> 'v) list \<Rightarrow> ('k \<times> 'v) list \<Rightarrow> 'd tally \<Rightarrow> 'd tally" where
  "dest_side extra source [] acc = acc"
| "dest_side extra source ((k, w) # rest) acc =
     (case map_of source k of
        Some v \<Rightarrow> dest_side extra source rest acc
      | None \<Rightarrow>
          dest_side extra source rest
            (acc\<lparr>ty_diffs := ty_diffs acc @ [extra k w], ty_missingSource := ty_missingSource acc + 1\<rparr>))"

definition compare_maps ::
  "('k \<Rightarrow> 'v \<Rightarrow> 'd) \<Rightarrow> ('v \<Rightarrow> 'v \<Rightarrow> bool) \<Rightarrow> ('k \<Rightarrow> 'v \<Rightarrow> 'v \<Rightarrow> 'd) \<Rightarrow> ('d \<Rightarrow> bool) \<Rightarrow> ('k \<Rightarrow> 'v \<Rightarrow> 'd) \<Rightarrow> ('k \<times> 'v) list \<Rightarrow> ('k \<times> 'v) list \<Rightarrow> 'd tally" where
  "compare_maps missing same differs noisy extra source dest =
     dest_side extra source dest (source_side missing same differs noisy dest source empty_tally)"

definition unionAndSort :: "string list \<Rightarrow> string list \<Rightarrow> string list" where
  "unionAndSort left right = sort (remdups (filter (\<lambda>s. s \<noteq> '''') (map TrimSpace (left @ right))))"

section \<open>What they find\<close>

lemma update_new: "k \<notin> fst ` set xs \<Longrightarrow> AList.update k v xs = xs @ [(k, v)]"
  by (induction xs) auto

definition found_missing :: "('k \<Rightarrow> 'v \<Rightarrow> 'd) \<Rightarrow> ('k \<times> 'v) list \<Rightarrow> ('k \<times> 'v) list \<Rightarrow> 'd list" where
  "found_missing missing source dest = map (\<lambda>(k, v). missing k v) (filter (\<lambda>(k, v). map_of dest k = None) source)"

definition found_different :: "('v \<Rightarrow> 'v \<Rightarrow> bool) \<Rightarrow> ('k \<Rightarrow> 'v \<Rightarrow> 'v \<Rightarrow> 'd) \<Rightarrow> ('k \<times> 'v) list \<Rightarrow> ('k \<times> 'v) list \<Rightarrow> 'd list" where
  "found_different same differs source dest =
     concat (map (\<lambda>(k, v). case map_of dest k of None \<Rightarrow> [] | Some w \<Rightarrow> if same v w then [] else [differs k v w]) source)"

lemma source_side_tally:
  "ty_compared (source_side missing same differs noisy dest source acc) =
     ty_compared acc + length (filter (\<lambda>(k, v). map_of dest k \<noteq> None) source) \<and>
   ty_missingDestination (source_side missing same differs noisy dest source acc) =
     ty_missingDestination acc + length (found_missing missing source dest) \<and>
   ty_missingSource (source_side missing same differs noisy dest source acc) = ty_missingSource acc \<and>
   ty_mismatch (source_side missing same differs noisy dest source acc) =
     ty_mismatch acc + length (found_different same differs source dest) \<and>
   ty_noise (source_side missing same differs noisy dest source acc) =
     ty_noise acc + length (filter noisy (found_different same differs source dest)) \<and>
   mset (ty_diffs (source_side missing same differs noisy dest source acc)) =
     mset (ty_diffs acc) + mset (found_missing missing source dest) + mset (found_different same differs source dest)"
  by (induction source arbitrary: acc)
    (auto simp: found_missing_def found_different_def Let_def split: option.split)

lemma dest_side_tally:
  "ty_compared (dest_side extra source dest acc) = ty_compared acc \<and>
   ty_missingDestination (dest_side extra source dest acc) = ty_missingDestination acc \<and>
   ty_missingSource (dest_side extra source dest acc) = ty_missingSource acc + length (found_missing extra dest source) \<and>
   ty_mismatch (dest_side extra source dest acc) = ty_mismatch acc \<and> ty_noise (dest_side extra source dest acc) = ty_noise acc \<and>
   mset (ty_diffs (dest_side extra source dest acc)) = mset (ty_diffs acc) + mset (found_missing extra dest source)"
  by (induction dest arbitrary: acc) (auto simp: found_missing_def split: option.split)

lemma compare_maps_tally:
  "ty_compared (compare_maps missing same differs noisy extra source dest) =
     length (filter (\<lambda>(k, v). map_of dest k \<noteq> None) source) \<and>
   ty_missingDestination (compare_maps missing same differs noisy extra source dest) = length (found_missing missing source dest) \<and>
   ty_missingSource (compare_maps missing same differs noisy extra source dest) = length (found_missing extra dest source) \<and>
   ty_mismatch (compare_maps missing same differs noisy extra source dest) = length (found_different same differs source dest) \<and>
   ty_noise (compare_maps missing same differs noisy extra source dest) =
     length (filter noisy (found_different same differs source dest)) \<and>
   mset (ty_diffs (compare_maps missing same differs noisy extra source dest)) =
     mset (found_missing missing source dest) + mset (found_different same differs source dest) + mset (found_missing extra dest source)"
  by (simp add: compare_maps_def source_side_tally dest_side_tally empty_tally_def)

lemma set_compare_maps:
  "set (ty_diffs (compare_maps missing same differs noisy extra source dest)) =
     set (found_missing missing source dest) \<union> set (found_different same differs source dest) \<union> set (found_missing extra dest source)"
  using compare_maps_tally [of missing same differs noisy extra source dest] by (metis set_mset_mset set_mset_union)

lemma found_missing_iff:
  "d \<in> set (found_missing f xs ys) \<longleftrightarrow> (\<exists>k v. (k, v) \<in> set xs \<and> map_of ys k = None \<and> d = f k v)"
  by (auto simp: found_missing_def)

lemma found_different_iff:
  "d \<in> set (found_different same f xs ys) \<longleftrightarrow>
   (\<exists>k v w. (k, v) \<in> set xs \<and> map_of ys k = Some w \<and> \<not> same v w \<and> d = f k v w)"
proof (induction xs)
  case (Cons x xs)
  obtain k v where x: "x = (k, v)" by (cases x)
  have "set (found_different same f (x # xs) ys) =
      set (case map_of ys k of None \<Rightarrow> [] | Some w \<Rightarrow> if same v w then [] else [f k v w]) \<union> set (found_different same f xs ys)"
    by (simp add: found_different_def x)
  then show ?case by (cases "map_of ys k") (auto simp: Cons x)
qed (simp add: found_different_def)

lemma found_missing_Nil: "found_missing f xs ys = [] \<longleftrightarrow> fst ` set xs \<subseteq> fst ` set ys"
  by (force simp: found_missing_def filter_empty_conv map_of_eq_None_iff)

lemma found_different_Nil:
  "found_different same f xs ys = [] \<longleftrightarrow> (\<forall>(k, v) \<in> set xs. \<forall>w. map_of ys k = Some w \<longrightarrow> same v w)"
  by (auto simp: found_different_def split: option.splits if_splits)

lemma no_diffs:
  "ty_diffs (compare_maps missing same differs noisy extra source dest) = [] \<longleftrightarrow>
   fst ` set source = fst ` set dest \<and> (\<forall>(k, v) \<in> set source. \<forall>w. map_of dest k = Some w \<longrightarrow> same v w)"
proof -
  have "ty_diffs (compare_maps missing same differs noisy extra source dest) = [] \<longleftrightarrow>
      found_missing missing source dest = [] \<and> found_different same differs source dest = [] \<and> found_missing extra dest source = []"
    using compare_maps_tally [of missing same differs noisy extra source dest] by (auto simp flip: mset_zero_iff)
  then show ?thesis by (auto simp: found_missing_Nil found_different_Nil)
qed

lemma unionAndSort_spec:
  "set (unionAndSort left right) = TrimSpace ` (set left \<union> set right) - {''''}"
  "sorted (unionAndSort left right)" "distinct (unionAndSort left right)"
  by (auto simp: unionAndSort_def)

section \<open>The report does not depend on the order of the maps\<close>

text \<open>
  What a report needs of its entries: each names the key that it is about, and the key by which
  the report is sorted tells entries about different keys apart.
\<close>

locale map_comparison =
  fixes missing :: "'k \<Rightarrow> 'v \<Rightarrow> 'd" and same :: "'v \<Rightarrow> 'v \<Rightarrow> bool" and differs :: "'k \<Rightarrow> 'v \<Rightarrow> 'v \<Rightarrow> 'd"
    and noisy :: "'d \<Rightarrow> bool" and extra :: "'k \<Rightarrow> 'v \<Rightarrow> 'd"
    and key :: "'d \<Rightarrow> 'o::linorder" and about :: "'d \<Rightarrow> 'k" and ok :: "'k \<Rightarrow> 'v \<Rightarrow> bool"
  assumes about: "ok k v \<Longrightarrow> about (missing k v) = k" "ok k v \<Longrightarrow> about (differs k v w) = k" "ok k v \<Longrightarrow> about (extra k v) = k"
    and key_about: "key d = key d' \<Longrightarrow> about d = about d'"
begin

definition entries_ok :: "('k \<times> 'v) list \<Rightarrow> bool" where
  "entries_ok xs = (distinct (map fst xs) \<and> list_all (\<lambda>(k, v). ok k v) xs)"

abbreviation compare :: "('k \<times> 'v) list \<Rightarrow> ('k \<times> 'v) list \<Rightarrow> 'd tally" where
  "compare \<equiv> compare_maps missing same differs noisy extra"

lemma about_missing:
  assumes "entries_ok xs"
  shows "map about (found_missing missing xs ys) = map fst (filter (\<lambda>(k, v). map_of ys k = None) xs)"
    and "map about (found_missing extra xs ys) = map fst (filter (\<lambda>(k, v). map_of ys k = None) xs)"
  using assms about by (auto simp: entries_ok_def found_missing_def list_all_iff)

lemma about_different:
  assumes "entries_ok xs"
  shows "map about (found_different same differs xs ys) =
    map fst (filter (\<lambda>(k, v). \<exists>w. map_of ys k = Some w \<and> \<not> same v w) xs)"
  using assms about unfolding entries_ok_def
  by (induction xs) (auto simp: found_different_def list_all_iff split: option.split)

lemma filter_keys: "distinct (map fst xs) \<Longrightarrow> distinct (map fst (filter P xs))"
  by (induction xs) auto

text \<open>Each key is reported at most once.\<close>

lemma about_distinct:
  assumes "entries_ok source" and "entries_ok dest"
  shows "distinct (map about (ty_diffs (compare source dest)))"
proof -
  let ?a = "found_missing missing source dest" and ?b = "found_different same differs source dest"
    and ?c = "found_missing extra dest source"
  have d: "distinct (map fst source)" "distinct (map fst dest)" using assms by (simp_all add: entries_ok_def)
  have "distinct (map about (?a @ ?b @ ?c))"
    using filter_keys [OF d(1)] filter_keys [OF d(2)]
    by (auto simp: about_missing [OF assms(1)] about_missing [OF assms(2)] about_different [OF assms(1)]
        map_of_eq_None_iff image_iff simp flip: map_map)
      (metis fst_conv d eq_key_imp_eq_value map_of_eq_Some_iff option.distinct(1))+
  moreover have "mset (ty_diffs (compare source dest)) = mset (?a @ ?b @ ?c)"
    by (simp add: compare_maps_tally)
  ultimately show ?thesis by (metis mset_map mset_eq_imp_distinct_iff)
qed

lemma key_inj: "entries_ok source \<Longrightarrow> entries_ok dest \<Longrightarrow> inj_on key (set (ty_diffs (compare source dest)))"
  using about_distinct key_about by (intro inj_onI) (metis distinct_map inj_on_def)

lemma map_of_perm: "mset xs = mset ys \<Longrightarrow> distinct (map fst xs) \<Longrightarrow> map_of xs = map_of ys"
  by (metis map_of_inject_set mset_eq_setD mset_eq_imp_distinct_iff mset_map)

lemma mset_concat_map: "mset (concat (map h xs)) = sum_mset (image_mset (\<lambda>x. mset (h x)) (mset xs))"
  by (induction xs) simp_all

lemma found_perm:
  assumes "mset xs = mset xs'" and "map_of ys = map_of ys'"
  shows "mset (found_missing f xs ys) = mset (found_missing f xs' ys')"
    and "mset (found_different same g xs ys) = mset (found_different same g xs' ys')"
    and "mset (filter P (found_different same g xs ys)) = mset (filter P (found_different same g xs' ys'))"
    and "mset (filter (\<lambda>(k, v). map_of ys k \<noteq> None) xs) = mset (filter (\<lambda>(k, v). map_of ys' k \<noteq> None) xs')"
proof -
  show m: "mset (found_missing f xs ys) = mset (found_missing f xs' ys')"
    unfolding found_missing_def mset_map mset_filter using assms by simp
  show d: "mset (found_different same g xs ys) = mset (found_different same g xs' ys')"
    unfolding found_different_def mset_concat_map using assms by simp
  then show "mset (filter P (found_different same g xs ys)) = mset (filter P (found_different same g xs' ys'))"
    by simp
  show "mset (filter (\<lambda>(k, v). map_of ys k \<noteq> None) xs) = mset (filter (\<lambda>(k, v). map_of ys' k \<noteq> None) xs')"
    unfolding mset_filter using assms by simp
qed

lemma order_free:
  assumes ok: "entries_ok source" "entries_ok dest" and p: "mset source = mset source'" "mset dest = mset dest'"
  shows "sort_key key (ty_diffs (compare source dest)) = sort_key key (ty_diffs (compare source' dest'))"
    and "ty_compared (compare source dest) = ty_compared (compare source' dest')"
    and "ty_missingDestination (compare source dest) = ty_missingDestination (compare source' dest')"
    and "ty_missingSource (compare source dest) = ty_missingSource (compare source' dest')"
    and "ty_mismatch (compare source dest) = ty_mismatch (compare source' dest')"
    and "ty_noise (compare source dest) = ty_noise (compare source' dest')"
proof -
  have m: "map_of source = map_of source'" "map_of dest = map_of dest'"
    using ok p map_of_perm by (auto simp: entries_ok_def)
  note f = found_perm [OF p(1) m(2)] found_perm [OF p(2) m(1)]
  have "mset (ty_diffs (compare source dest)) = mset (ty_diffs (compare source' dest'))"
    by (simp add: compare_maps_tally f)
  then show "sort_key key (ty_diffs (compare source dest)) = sort_key key (ty_diffs (compare source' dest'))"
    using key_inj [OF ok] by (intro sort_key_inj_key_eq) auto
  show "ty_compared (compare source dest) = ty_compared (compare source' dest')"
    "ty_missingDestination (compare source dest) = ty_missingDestination (compare source' dest')"
    "ty_missingSource (compare source dest) = ty_missingSource (compare source' dest')"
    "ty_mismatch (compare source dest) = ty_mismatch (compare source' dest')"
    "ty_noise (compare source dest) = ty_noise (compare source' dest')"
    by (simp_all only: compare_maps_tally f size_mset [symmetric])
qed

end

end
