(* ===== verification/Verify_Data.thy ===== *)
theory Verify_Data
  imports Verify_Hash Verify_Diff
begin

text \<open>
  The verification of data as a whole (internal/verify/data/verify.go): counts, hashes, full
  hashes and samples of the tables of both sides, compared database by database. A run returns an
  error, or none, and a summary; None stands for a run that does not end because a server keeps
  sending full pages.
\<close>

section \<open>Data\<close>

record Diff =
  df_Kind :: string
  df_Database :: string
  df_Table :: string
  df_SourceCount :: int
  df_DestCount :: int
  df_SourceHash :: string
  df_DestHash :: string
  df_NoiseRisk :: string
  df_Notes :: "string list"

record CanonicalizationSummary =
  ca_RowOrderIndependent :: bool
  ca_SessionTimeZone :: string
  ca_TextByteNormalized :: bool
  ca_JSONNormalized :: bool
  ca_SampleFullScan :: bool
  ca_AggregateStrategy :: string

record TableRisk =
  tr_Database :: string
  tr_Table :: string
  tr_ApproximateNumericColumns :: nat
  tr_TemporalColumns :: nat
  tr_JSONColumns :: nat
  tr_CollationSensitiveColumns :: nat
  tr_Notes :: "string list"

record VerifySummary =
  vy_Databases :: nat
  vy_TablesCompared :: nat
  vy_MissingInDestination :: nat
  vy_MissingInSource :: nat
  vy_CountMismatches :: nat
  vy_HashMismatches :: nat
  vy_NoiseRiskMismatches :: nat
  vy_RepresentationRiskTables :: nat
  vy_Canonicalization :: CanonicalizationSummary
  vy_TableRisks :: "TableRisk list"
  vy_Diffs :: "Diff list"

record VerifyOptions =
  vo_IncludeDatabases :: "string list"
  vo_ExcludeDatabases :: "string list"
  vo_SampleSize :: int

definition no_canonicalization :: CanonicalizationSummary where
  "no_canonicalization = \<lparr>ca_RowOrderIndependent = False, ca_SessionTimeZone = '''', ca_TextByteNormalized = False,
     ca_JSONNormalized = False, ca_SampleFullScan = False, ca_AggregateStrategy = ''''\<rparr>"

definition summary_for :: "nat \<Rightarrow> CanonicalizationSummary \<Rightarrow> VerifySummary" where
  "summary_for n canonicalization = \<lparr>vy_Databases = n, vy_TablesCompared = 0, vy_MissingInDestination = 0, vy_MissingInSource = 0,
     vy_CountMismatches = 0, vy_HashMismatches = 0, vy_NoiseRiskMismatches = 0, vy_RepresentationRiskTables = 0,
     vy_Canonicalization = canonicalization, vy_TableRisks = [], vy_Diffs = []\<rparr>"

definition zero_verify_summary :: VerifySummary where
  "zero_verify_summary = summary_for 0 no_canonicalization"

definition diffKindMissingInDestination :: string where
  "diffKindMissingInDestination = ''missing_in_destination''"

definition diffKindMissingInSource :: string where
  "diffKindMissingInSource = ''missing_in_source''"

definition diffKindRowCountMismatch :: string where
  "diffKindRowCountMismatch = ''row_count_mismatch''"

definition diffKindTableHashMismatch :: string where
  "diffKindTableHashMismatch = ''table_hash_mismatch''"

definition new_diff :: "string \<Rightarrow> string \<Rightarrow> string \<Rightarrow> Diff" where
  "new_diff kind databaseName tableName =
     \<lparr>df_Kind = kind, df_Database = databaseName, df_Table = tableName, df_SourceCount = 0, df_DestCount = 0,
      df_SourceHash = '''', df_DestHash = '''', df_NoiseRisk = '''', df_Notes = []\<rparr>"

section \<open>Comparing two databases\<close>

definition count_missing :: "string \<Rightarrow> string \<Rightarrow> int \<Rightarrow> Diff" where
  "count_missing databaseName t n = (new_diff diffKindMissingInDestination databaseName t)\<lparr>df_SourceCount := n\<rparr>"

definition count_differs :: "string \<Rightarrow> string \<Rightarrow> int \<Rightarrow> int \<Rightarrow> Diff" where
  "count_differs databaseName t n m =
     (new_diff diffKindRowCountMismatch databaseName t)\<lparr>df_SourceCount := n, df_DestCount := m\<rparr>"

definition count_extra :: "string \<Rightarrow> string \<Rightarrow> int \<Rightarrow> Diff" where
  "count_extra databaseName t n = (new_diff diffKindMissingInSource databaseName t)\<lparr>df_DestCount := n\<rparr>"

definition diffTableCounts :: "string \<Rightarrow> (string \<times> int) list \<Rightarrow> (string \<times> int) list \<Rightarrow> Diff tally" where
  "diffTableCounts databaseName source dest =
     compare_maps (count_missing databaseName) (=) (count_differs databaseName) (\<lambda>d. False) (count_extra databaseName) source dest"

definition hash_missing :: "string \<Rightarrow> string \<Rightarrow> string \<Rightarrow> Diff" where
  "hash_missing databaseName t h = (new_diff diffKindMissingInDestination databaseName t)\<lparr>df_SourceHash := h\<rparr>"

definition hash_differs :: "string \<Rightarrow> (string \<rightharpoonup> TableRisk) \<Rightarrow> string \<Rightarrow> string \<Rightarrow> string \<Rightarrow> Diff" where
  "hash_differs databaseName risks t h g =
     (new_diff diffKindTableHashMismatch databaseName t)
       \<lparr>df_SourceHash := h, df_DestHash := g,
        df_NoiseRisk := (case risks t of Some risk \<Rightarrow> if tr_Notes risk \<noteq> [] then ''representation_sensitive'' else '''' | None \<Rightarrow> ''''),
        df_Notes := (case risks t of Some risk \<Rightarrow> tr_Notes risk | None \<Rightarrow> [])\<rparr>"

definition hash_extra :: "string \<Rightarrow> string \<Rightarrow> string \<Rightarrow> Diff" where
  "hash_extra databaseName t h = (new_diff diffKindMissingInSource databaseName t)\<lparr>df_DestHash := h\<rparr>"

definition diffTableHashes ::
  "string \<Rightarrow> (string \<times> string) list \<Rightarrow> (string \<times> string) list \<Rightarrow> (string \<rightharpoonup> TableRisk) \<Rightarrow> Diff tally" where
  "diffTableHashes databaseName source dest risks =
     compare_maps (hash_missing databaseName) (=) (hash_differs databaseName risks) (\<lambda>d. df_NoiseRisk d \<noteq> '''')
       (hash_extra databaseName) source dest"

definition diff_key :: "Diff \<Rightarrow> string \<times> string \<times> string" where
  "diff_key d = (df_Database d, df_Table d, df_Kind d)"

definition sortDiffs :: "Diff list \<Rightarrow> Diff list" where
  "sortDiffs diffs = sort_key diff_key diffs"

section \<open>Reading one side\<close>

definition verify_listDatabases :: "verify_side \<Rightarrow> string + string list" where
  "verify_listDatabases side = rows_or_error (vs_schemata side)"

definition verify_listBaseTables :: "verify_side \<Rightarrow> string \<Rightarrow> string + string list" where
  "verify_listBaseTables side databaseName = rows_or_error (vs_tables side databaseName)"

definition countRows :: "verify_side \<Rightarrow> string \<Rightarrow> string \<Rightarrow> string + int" where
  "countRows side databaseName tableName =
     vs_count side (''SELECT COUNT(*) FROM '' @ quoteIdentifier databaseName @ ''.'' @ quoteIdentifier tableName)"

fun read_counts :: "(string \<Rightarrow> string + int) \<Rightarrow> string list \<Rightarrow> (string \<times> int) list \<Rightarrow> string + (string \<times> int) list" where
  "read_counts cnt [] acc = Inr acc"
| "read_counts cnt (t # ts) acc = bind_result (cnt t) (\<lambda>n. read_counts cnt ts (AList.update t n acc))"

definition tableCountsForDatabase :: "verify_side \<Rightarrow> string \<Rightarrow> string + (string \<times> int) list" where
  "tableCountsForDatabase side databaseName =
     bind_result (verify_listBaseTables side databaseName) (\<lambda>names. read_counts (countRows side databaseName) names [])"

fun read_hashes :: "(string \<Rightarrow> (string + string) option) \<Rightarrow> string list \<Rightarrow> (string \<times> string) list \<Rightarrow> (string + (string \<times> string) list) option" where
  "read_hashes hash [] acc = Some (Inr acc)"
| "read_hashes hash (t # ts) acc =
     (case hash t of
        None \<Rightarrow> None
      | Some (Inl e) \<Rightarrow> Some (Inl e)
      | Some (Inr h) \<Rightarrow> read_hashes hash ts (AList.update t h acc))"

definition tableModeHashesForDatabase ::
  "json_lib \<Rightarrow> verify_side \<Rightarrow> string \<Rightarrow> int \<Rightarrow> string \<Rightarrow> (string + (string \<times> string) list) option" where
  "tableModeHashesForDatabase js side mode sampleSize databaseName =
     (case verify_listBaseTables side databaseName of
        Inl e \<Rightarrow> Some (Inl e)
      | Inr names \<Rightarrow> read_hashes (hashTableByMode js side mode sampleSize databaseName) names [])"

definition prepareVerifySession :: "verify_side \<Rightarrow> string option" where
  "prepareVerifySession side =
     (case vs_exec side ''SET NAMES utf8mb4'' of
        Some e \<Rightarrow> Some e
      | None \<Rightarrow> vs_exec side (''SET SESSION time_zone = '' @ [CHR 0x27] @ ''+00:00'' @ [CHR 0x27]))"
section \<open>Columns whose representation may differ\<close>

definition no_risk :: TableRisk where
  "no_risk = \<lparr>tr_Database = '''', tr_Table = '''', tr_ApproximateNumericColumns = 0, tr_TemporalColumns = 0, tr_JSONColumns = 0,
     tr_CollationSensitiveColumns = 0, tr_Notes = []\<rparr>"

definition count_column :: "string \<Rightarrow> string \<Rightarrow> TableRisk \<Rightarrow> TableRisk" where
  "count_column dataType collationName risk =
     (let kind = ToLower (TrimSpace dataType);
          risk = (if kind \<in> set [''float'', ''double'', ''real'']
                  then risk\<lparr>tr_ApproximateNumericColumns := tr_ApproximateNumericColumns risk + 1\<rparr>
                  else if kind \<in> set [''timestamp'', ''datetime'', ''date'', ''time'']
                  then risk\<lparr>tr_TemporalColumns := tr_TemporalColumns risk + 1\<rparr>
                  else if kind = ''json'' then risk\<lparr>tr_JSONColumns := tr_JSONColumns risk + 1\<rparr>
                  else risk)
      in if TrimSpace collationName \<noteq> ''''
         then risk\<lparr>tr_CollationSensitiveColumns := tr_CollationSensitiveColumns risk + 1\<rparr> else risk)"

text \<open>The nested maps out[database][table] are one list of entries whose keys are pairs.\<close>

type_synonym risk_profiles = "((string \<times> string) \<times> TableRisk) list"

fun risk_rows :: "(string \<times> string \<times> string \<times> string) list \<Rightarrow> risk_profiles \<Rightarrow> risk_profiles" where
  "risk_rows [] out = out"
| "risk_rows ((databaseName, tableName, dataType, collationName) # rows) out =
     (let risk = (case map_of out (databaseName, tableName) of None \<Rightarrow> no_risk | Some r \<Rightarrow> r)
      in risk_rows rows (AList.update (databaseName, tableName)
           (count_column dataType collationName (risk\<lparr>tr_Database := databaseName, tr_Table := tableName\<rparr>)) out))"

definition buildRiskNotes :: "TableRisk \<Rightarrow> string list" where
  "buildRiskNotes risk =
     (if tr_ApproximateNumericColumns risk > 0
      then [''Approximate numeric columns can produce representation-sensitive hash noise; confirm with row samples if hashes drift.'']
      else []) @
     (if tr_TemporalColumns risk > 0
      then [''Temporal columns depend on session time_zone rendering; verify runs normalize sessions to UTC before hashing.'']
      else []) @
     (if tr_JSONColumns risk > 0
      then [''JSON values are canonicalized before hashing, but semantic edge cases still deserve row-sample review.'']
      else []) @
     (if tr_CollationSensitiveColumns risk > 0
      then [''Text ordering and collation differences can create false positives if hashing depends on SQL sort order; row hashes are sorted client-side here.'']
      else [])"

definition tableRiskProfiles :: "verify_side \<Rightarrow> string list \<Rightarrow> string + risk_profiles" where
  "tableRiskProfiles side databases =
     (if databases = [] then Inr []
      else bind_result (rows_or_error (vs_risk side databases)) (\<lambda>rows.
             Inr (map (\<lambda>(k, risk). (k, risk\<lparr>tr_Notes := buildRiskNotes risk\<rparr>)) (risk_rows rows []))))"

definition flattenTableRisks :: "risk_profiles \<Rightarrow> TableRisk list" where
  "flattenTableRisks risks =
     sort_key (\<lambda>r. (tr_Database r, tr_Table r)) (filter (\<lambda>r. tr_Notes r \<noteq> []) (map snd risks))"

section \<open>The four verifications\<close>

definition add_tally :: "Diff tally \<Rightarrow> VerifySummary \<Rightarrow> VerifySummary" where
  "add_tally t summary =
     summary\<lparr>vy_Diffs := vy_Diffs summary @ ty_diffs t, vy_TablesCompared := vy_TablesCompared summary + ty_compared t,
             vy_MissingInDestination := vy_MissingInDestination summary + ty_missingDestination t,
             vy_MissingInSource := vy_MissingInSource summary + ty_missingSource t\<rparr>"

fun count_databases :: "verify_side \<Rightarrow> verify_side \<Rightarrow> string list \<Rightarrow> VerifySummary \<Rightarrow> string option \<times> VerifySummary" where
  "count_databases source dest [] summary = (None, summary)"
| "count_databases source dest (databaseName # rest) summary =
     (case tableCountsForDatabase source databaseName of
        Inl e \<Rightarrow> (Some (''read source table counts for '' @ databaseName @ '': '' @ e), summary)
      | Inr sourceCounts \<Rightarrow>
          (case tableCountsForDatabase dest databaseName of
             Inl e \<Rightarrow> (Some (''read destination table counts for '' @ databaseName @ '': '' @ e), summary)
           | Inr destCounts \<Rightarrow>
               (let t = diffTableCounts databaseName sourceCounts destCounts; summary' = add_tally t summary
                in count_databases source dest rest
                     (summary'\<lparr>vy_CountMismatches := vy_CountMismatches summary' + ty_mismatch t\<rparr>))))"

definition selected_databases :: "VerifyOptions \<Rightarrow> string list \<Rightarrow> string list \<Rightarrow> string list" where
  "selected_databases opts sourceDatabases destDatabases =
     SelectDatabases (unionAndSort sourceDatabases destDatabases) (vo_IncludeDatabases opts) (vo_ExcludeDatabases opts)"

definition VerifyCount :: "bool \<Rightarrow> verify_side \<Rightarrow> verify_side \<Rightarrow> VerifyOptions \<Rightarrow> string option \<times> VerifySummary" where
  "VerifyCount connected source dest opts =
     (if \<not> connected then (Some ''source and destination connections are required'', zero_verify_summary)
      else (case verify_listDatabases source of
              Inl e \<Rightarrow> (Some (''list source databases: '' @ e), zero_verify_summary)
            | Inr sourceDatabases \<Rightarrow>
                (case verify_listDatabases dest of
                   Inl e \<Rightarrow> (Some (''list destination databases: '' @ e), zero_verify_summary)
                 | Inr destDatabases \<Rightarrow>
                     (let selected = selected_databases opts sourceDatabases destDatabases
                      in case count_databases source dest selected (summary_for (length selected) no_canonicalization) of
                           (Some e, summary) \<Rightarrow> (Some e, summary)
                         | (None, summary) \<Rightarrow> (None, summary\<lparr>vy_Diffs := sortDiffs (vy_Diffs summary)\<rparr>)))))"

fun hash_databases ::
  "json_lib \<Rightarrow> verify_side \<Rightarrow> verify_side \<Rightarrow> string \<Rightarrow> int \<Rightarrow> string \<Rightarrow> risk_profiles \<Rightarrow> string list \<Rightarrow> VerifySummary
     \<Rightarrow> (string option \<times> VerifySummary) option" where
  "hash_databases js source dest mode sampleSize what risks [] summary = Some (None, summary)"
| "hash_databases js source dest mode sampleSize what risks (databaseName # rest) summary =
     (case tableModeHashesForDatabase js source mode sampleSize databaseName of
        None \<Rightarrow> None
      | Some (Inl e) \<Rightarrow> Some (Some (''read source '' @ what @ '' for '' @ databaseName @ '': '' @ e), summary)
      | Some (Inr sourceHashes) \<Rightarrow>
          (case tableModeHashesForDatabase js dest mode sampleSize databaseName of
             None \<Rightarrow> None
           | Some (Inl e) \<Rightarrow> Some (Some (''read destination '' @ what @ '' for '' @ databaseName @ '': '' @ e), summary)
           | Some (Inr destHashes) \<Rightarrow>
               (let t = diffTableHashes databaseName sourceHashes destHashes (\<lambda>t. map_of risks (databaseName, t));
                    summary' = add_tally t summary
                in hash_databases js source dest mode sampleSize what risks rest
                     (summary'\<lparr>vy_HashMismatches := vy_HashMismatches summary' + ty_mismatch t,
                               vy_NoiseRiskMismatches := vy_NoiseRiskMismatches summary' + ty_noise t\<rparr>))))"

text \<open>What the three verifications by hash have in common.\<close>

definition verify_hashes ::
  "bool \<Rightarrow> json_lib \<Rightarrow> verify_side \<Rightarrow> verify_side \<Rightarrow> VerifyOptions \<Rightarrow> string \<Rightarrow> int \<Rightarrow> string \<Rightarrow> CanonicalizationSummary
     \<Rightarrow> (string option \<times> VerifySummary) option" where
  "verify_hashes connected js source dest opts mode sampleSize what canonicalization =
     (if \<not> connected then Some (Some ''source and destination connections are required'', zero_verify_summary)
      else case vs_pin source of Some e \<Rightarrow> Some (Some (''pin source verify connection: '' @ e), zero_verify_summary) | None \<Rightarrow>
      (case vs_pin dest of Some e \<Rightarrow> Some (Some (''pin destination verify connection: '' @ e), zero_verify_summary) | None \<Rightarrow>
      (case verify_listDatabases source of Inl e \<Rightarrow> Some (Some (''list source databases: '' @ e), zero_verify_summary) | Inr sourceDatabases \<Rightarrow>
      (case verify_listDatabases dest of Inl e \<Rightarrow> Some (Some (''list destination databases: '' @ e), zero_verify_summary) | Inr destDatabases \<Rightarrow>
        (let selected = selected_databases opts sourceDatabases destDatabases; summary = summary_for (length selected) canonicalization
         in case prepareVerifySession source of Some e \<Rightarrow> Some (Some (''prepare source verify session: '' @ e), summary) | None \<Rightarrow>
            (case prepareVerifySession dest of Some e \<Rightarrow> Some (Some (''prepare destination verify session: '' @ e), summary) | None \<Rightarrow>
            (case tableRiskProfiles source selected of
               Inl e \<Rightarrow> Some (Some (''read source table risk profiles: '' @ e), summary)
             | Inr riskProfiles \<Rightarrow>
                 (let risks = flattenTableRisks riskProfiles
                  in case hash_databases js source dest mode sampleSize what riskProfiles selected
                            (summary\<lparr>vy_TableRisks := risks, vy_RepresentationRiskTables := length risks\<rparr>) of
                       None \<Rightarrow> None
                     | Some (Some e, summary) \<Rightarrow> Some (Some e, summary)
                     | Some (None, summary) \<Rightarrow> Some (None, summary\<lparr>vy_Diffs := sortDiffs (vy_Diffs summary)\<rparr>)))))))))"

definition canonicalization :: "bool \<Rightarrow> string \<Rightarrow> CanonicalizationSummary" where
  "canonicalization orderIndependent strategy =
     \<lparr>ca_RowOrderIndependent = orderIndependent, ca_SessionTimeZone = ''+00:00'', ca_TextByteNormalized = True,
      ca_JSONNormalized = True, ca_SampleFullScan = False, ca_AggregateStrategy = strategy\<rparr>"

definition VerifyHash ::
  "bool \<Rightarrow> json_lib \<Rightarrow> verify_side \<Rightarrow> verify_side \<Rightarrow> VerifyOptions \<Rightarrow> (string option \<times> VerifySummary) option" where
  "VerifyHash connected js source dest opts =
     verify_hashes connected js source dest opts hashModeHash 0 ''table hashes''
       (canonicalization True ''ordered_key_chunked_streaming_sha256'')"

definition VerifyFullHash ::
  "bool \<Rightarrow> json_lib \<Rightarrow> verify_side \<Rightarrow> verify_side \<Rightarrow> VerifyOptions \<Rightarrow> (string option \<times> VerifySummary) option" where
  "VerifyFullHash connected js source dest opts =
     verify_hashes connected js source dest opts hashModeFullHash 0 ''table full hashes''
       (canonicalization True ''ordered_key_chunked_fullhash_sha256'')"

definition VerifySample ::
  "bool \<Rightarrow> json_lib \<Rightarrow> verify_side \<Rightarrow> verify_side \<Rightarrow> VerifyOptions \<Rightarrow> (string option \<times> VerifySummary) option" where
  "VerifySample connected js source dest opts =
     verify_hashes connected js source dest opts hashModeSample (if vo_SampleSize opts < 1 then 1000 else vo_SampleSize opts)
       ''table sample hashes'' (canonicalization False ''ordered_key_limited_streaming_sha256'')"

end
