(* ===== verification/Verify_Digest.thy ===== *)
theory Verify_Digest
  imports Verify_Hash
begin

text \<open>
  What the digest of a table says about its rows: reading page by page ends and sees every row
  once, in the order of the key, and tables with the same digest have the same normalized rows
  unless the run itself has hashed two different texts with the same SHA-256.
\<close>

section \<open>A table that is read page by page\<close>

text \<open>
  The server answers the page queries of the table from rows that do not change meanwhile: sorted
  by key, at most as many as asked for, and with a cursor only those with a greater key.
\<close>

definition keyset_rows ::
  "verify_side \<Rightarrow> string \<Rightarrow> string \<Rightarrow> columnInfo list \<Rightarrow> string list \<Rightarrow> (hash_value list \<Rightarrow> hash_value list \<Rightarrow> bool)
     \<Rightarrow> hash_value list list \<Rightarrow> bool" where
  "keyset_rows side db t columns keyColumns lt rows =
     (\<exists>is. keyColumnIndexes columns keyColumns = Inr is \<and> keyColumns \<noteq> [] \<and>
      (\<forall>a b. lt a b \<longrightarrow> \<not> lt b a) \<and>
      sorted_wrt (\<lambda>r r'. lt (keyCursorFromRow r is) (keyCursorFromRow r' is)) rows \<and>
      (\<forall>n. vs_rows side (verify_buildKeysetSelectSQL db t columns keyColumns False) [HInt 0 (int n)] = Rows (take n rows)) \<and>
      (\<forall>c n. length c = length keyColumns \<longrightarrow>
             vs_rows side (verify_buildKeysetSelectSQL db t columns keyColumns True) (c @ [HInt 0 (int n)])
             = Rows (take n (filter (\<lambda>r. lt c (keyCursorFromRow r is)) rows))))"

text \<open>The rows cut into chunks, and what the hasher of the table is given for each of them.\<close>

function split_chunks :: "nat \<Rightarrow> 'a list \<Rightarrow> 'a list list" where
  "split_chunks c xs = (if c = 0 \<or> xs = [] then [] else take c xs # split_chunks c (drop c xs))"
  by auto

termination split_chunks
  by (relation "measure (length \<circ> snd)") auto

declare split_chunks.simps [simp del]

definition digest_lines :: "json_lib \<Rightarrow> columnInfo list \<Rightarrow> hash_value list list \<Rightarrow> string" where
  "digest_lines js columns rows = concat (map (\<lambda>row. rowDigestForHash js columns row @ newline) rows)"

definition row_lines :: "json_lib \<Rightarrow> columnInfo list \<Rightarrow> hash_value list list \<Rightarrow> string" where
  "row_lines js columns rows = concat (map (row_line js columns) rows)"

fun chunk_stream :: "json_lib \<Rightarrow> columnInfo list \<Rightarrow> string \<Rightarrow> nat \<Rightarrow> hash_value list list list \<Rightarrow> string" where
  "chunk_stream js columns mode i [] = ''''"
| "chunk_stream js columns mode i (ch # chs) =
     (if mode = hashModeHash then row_lines js columns ch
      else if mode = hashModeFullHash then chunk_line i (length ch) (digest_lines js columns ch) else '''') @
     chunk_stream js columns mode (i + 1) chs"

lemma modes_distinct [simp]:
  "hashModeHash \<noteq> hashModeFullHash" "hashModeFullHash \<noteq> hashModeHash" "hashModeSample \<noteq> hashModeHash"
  "hashModeHash \<noteq> hashModeSample" "hashModeSample \<noteq> hashModeFullHash" "hashModeFullHash \<noteq> hashModeSample"
  by (simp_all add: hashModeHash_def hashModeFullHash_def hashModeSample_def)

lemma chunk_rows_eq:
  "chunk_rows js columns is mode rows tableHasher chunkHasher n lastKey =
     (if mode = hashModeHash then tableHasher @ row_lines js columns rows else tableHasher,
      if mode = hashModeHash then chunkHasher else chunkHasher @ digest_lines js columns rows,
      n + length rows, if rows = [] then lastKey else keyCursorFromRow (last rows) is)"
  by (induction rows arbitrary: tableHasher chunkHasher n lastKey)
    (simp_all add: row_lines_def digest_lines_def Let_def)

lemma streamed_rows_eq: "streamed_rows js columns rows hasher n = (hasher @ row_lines js columns rows, n + length rows)"
  by (induction rows arbitrary: hasher n) (simp_all add: row_lines_def)

definition cursor_at :: "nat list \<Rightarrow> hash_value list list \<Rightarrow> hash_value list" where
  "cursor_at is copied = (if copied = [] then [] else keyCursorFromRow (last copied) is)"

lemma next_page:
  assumes "keyset_rows side db t columns keyColumns lt (copied @ rest)" and "keyColumnIndexes columns keyColumns = Inr is"
  shows "vs_rows side (verify_buildKeysetSelectSQL db t columns keyColumns (cursor_at is copied \<noteq> []))
      (cursor_at is copied @ [HInt 0 (int n)]) = Rows (take n rest)"
proof (cases "copied = []")
  case True
  then show ?thesis using assms by (simp add: keyset_rows_def cursor_at_def)
next
  case False
  have len: "length is = length keyColumns" "keyColumns \<noteq> []"
    using assms length_key_indexes by (auto simp: keyColumnIndexes_def keyset_rows_def)
  define c where "c = keyCursorFromRow (last copied) is"
  have c: "cursor_at is copied = c" "length c = length keyColumns" "c \<noteq> []"
    using False len by (auto simp: cursor_at_def keyCursorFromRow_def c_def)
  have "filter (\<lambda>r. lt c (keyCursorFromRow r is)) (copied @ rest) = rest"
    using assms False unfolding c_def by (intro rows_after_cursor) (auto simp: keyset_rows_def)
  moreover have "vs_rows side (verify_buildKeysetSelectSQL db t columns keyColumns True) (c @ [HInt 0 (int n)])
      = Rows (take n (filter (\<lambda>r. lt c (keyCursorFromRow r is)) (copied @ rest)))"
    using assms c(2) unfolding keyset_rows_def by auto
  ultimately show ?thesis using c(1,3) by simp
qed

lemma chunk_loop_returns:
  assumes "keyset_rows side db t columns keyColumns lt (copied @ rest)" and "keyColumnIndexes columns keyColumns = Inr is" and "0 < c"
  shows "chunk_loop js side db t columns keyColumns is c mode hasher (cursor_at is copied) tot k =
    Some (Inr (hasher @ chunk_stream js columns mode k (split_chunks c rest), tot + length rest, k + length (split_chunks c rest)))"
  using assms(1)
proof (induction "length rest" arbitrary: copied rest hasher tot k rule: less_induct)
  case less
  let ?page = "take c rest"
  note page = next_page [OF less.prems assms(2), of c]
  have key: "cursor_at is (copied @ ?page) = keyCursorFromRow (last ?page) is" if "rest \<noteq> []"
    using that assms(3) by (simp add: cursor_at_def)
  show ?case
  proof (cases "rest = []")
    case True
    then show ?thesis using page by (subst chunk_loop.simps) (simp add: rows_or_error_def chunk_rows_eq row_lines_def split_chunks.simps)
  next
    case False
    have s: "split_chunks c rest = ?page # split_chunks c (drop c rest)" using False assms(3) by (simp add: split_chunks.simps)
    show ?thesis
    proof (cases "length ?page < c")
      case True
      then have "drop c rest = []" "?page = rest" by simp_all
      then show ?thesis
        using page True False s by (subst chunk_loop.simps) (simp add: rows_or_error_def chunk_rows_eq split_chunks.simps [of c "[]"])
    next
      case full: False
      have "chunk_loop js side db t columns keyColumns is c mode h (cursor_at is (copied @ ?page)) (tot + c) (k + 1) =
          Some (Inr (h @ chunk_stream js columns mode (k + 1) (split_chunks c (drop c rest)), tot + c + length (drop c rest),
                     k + 1 + length (split_chunks c (drop c rest))))" for h
        using less.hyps [of "drop c rest" "copied @ ?page"] less.prems False assms(3) by simp
      then show ?thesis
        using page full False s key [OF False] assms(3) by (subst chunk_loop.simps) (simp add: rows_or_error_def chunk_rows_eq)
    qed
  qed
qed

section \<open>The digest of a table\<close>

definition chunk_size :: "string \<Rightarrow> nat" where
  "chunk_size mode = (if mode = hashModeHash then 2000 else 500)"

text \<open>The rows that a verification looks at.\<close>

definition seen_rows :: "string \<Rightarrow> int \<Rightarrow> 'a list \<Rightarrow> 'a list" where
  "seen_rows mode sampleSize rows =
     (if mode = hashModeSample then take (nat (if sampleSize < 1 then defaultSampleSize else sampleSize)) rows else rows)"

text \<open>The text whose SHA-256 is the digest of the table.\<close>

definition digest_text :: "json_lib \<Rightarrow> columnInfo list \<Rightarrow> string \<Rightarrow> hash_value list list \<Rightarrow> string" where
  "digest_text js columns mode rows =
     (if mode = hashModeSample
      then row_lines js columns rows @ ''mode:'' @ mode @ '' rows:'' @ show_nat (length rows) @ newline
      else (let chs = split_chunks (chunk_size mode) rows
            in chunk_stream js columns mode 0 chs @
               ''mode:'' @ mode @ '' rows:'' @ show_nat (length rows) @ '' chunks:'' @ show_nat (length chs) @ newline))"

text \<open>A table with a key whose rows the server answers.\<close>

definition readable_table ::
  "verify_side \<Rightarrow> string \<Rightarrow> string \<Rightarrow> columnInfo list \<Rightarrow> string list \<Rightarrow> (hash_value list \<Rightarrow> hash_value list \<Rightarrow> bool)
     \<Rightarrow> hash_value list list \<Rightarrow> bool" where
  "readable_table side db t columns keyColumns lt rows =
     (listTableColumnInfo side db t = Inr columns \<and> columns \<noteq> [] \<and>
      verify_listStableKeyColumns side db t = Inr keyColumns \<and> keyset_rows side db t columns keyColumns lt rows)"

lemma ordered_first_page:
  "buildOrderedSelectSQL db t columns keyColumns True = verify_buildKeysetSelectSQL db t columns keyColumns False"
  by (simp add: buildOrderedSelectSQL_def verify_buildKeysetSelectSQL_def Let_def)

lemma hashChunkedTable_digest:
  assumes "keyset_rows side db t columns keyColumns lt rows" and "nat chunkSize = chunk_size mode" and "mode \<noteq> hashModeSample"
  shows "hashChunkedTable js side db t columns keyColumns chunkSize mode =
    Some (Inr (hex_encode (sha256 (digest_text js columns mode rows))))"
proof -
  obtain "is" where i: "keyColumnIndexes columns keyColumns = Inr is" using assms(1) by (auto simp: keyset_rows_def)
  have c: "0 < chunk_size mode" "1 \<le> chunkSize" using assms(2) by (auto simp: chunk_size_def split: if_splits)
  have "chunk_loop js side db t columns keyColumns is (chunk_size mode) mode '''' [] 0 0 =
      Some (Inr (chunk_stream js columns mode 0 (split_chunks (chunk_size mode) rows), length rows,
                 length (split_chunks (chunk_size mode) rows)))"
    using chunk_loop_returns [of side db t columns keyColumns lt "[]" rows "is" "chunk_size mode" js mode "''''" 0 0] assms(1) i c(1)
    by (simp add: cursor_at_def)
  then show ?thesis using c(2) assms(2,3) by (simp add: hashChunkedTable_def i digest_text_def Let_def)
qed

lemma hashTableByMode_digest:
  assumes "readable_table side db t columns keyColumns lt rows" and "mode \<in> {hashModeSample, hashModeHash, hashModeFullHash}"
  shows "hashTableByMode js side mode sampleSize db t =
    Some (Inr (hex_encode (sha256 (digest_text js columns mode (seen_rows mode sampleSize rows)))))"
proof -
  have k: "keyset_rows side db t columns keyColumns lt rows" "keyColumns \<noteq> []"
    using assms(1) by (auto simp: readable_table_def keyset_rows_def)
  let ?n = "if sampleSize < 1 then defaultSampleSize else sampleSize"
  have n: "?n = int (nat ?n)" by (simp add: defaultSampleSize_def)
  have "vs_rows side (buildOrderedSelectSQL db t columns keyColumns True) [HInt 0 ?n] = Rows (take (nat ?n) rows)"
    using k(1) unfolding keyset_rows_def ordered_first_page by (metis n)
  then have "hashOrderedSampleTable js side db t columns keyColumns sampleSize =
      Inr (hex_encode (sha256 (digest_text js columns hashModeSample (seen_rows hashModeSample sampleSize rows))))"
    by (simp add: hashOrderedSampleTable_def hashStreamedRows_def rows_or_error_def streamed_rows_eq digest_text_def seen_rows_def k(2) Let_def)
  then show ?thesis
    using assms k hashChunkedTable_digest [OF k(1), of defaultHashChunkSize hashModeHash js]
      hashChunkedTable_digest [OF k(1), of defaultFullHashChunkSize hashModeFullHash js]
    by (auto simp: hashTableByMode_def readable_table_def seen_rows_def chunk_size_def defaultHashChunkSize_def defaultFullHashChunkSize_def)
qed

section \<open>Equal digests\<close>

text \<open>The texts that are hashed for a table: the rows, the chunks and the table itself.\<close>

definition hashed_texts :: "json_lib \<Rightarrow> columnInfo list \<Rightarrow> string \<Rightarrow> hash_value list list \<Rightarrow> string list" where
  "hashed_texts js columns mode rows =
     digest_text js columns mode rows # map (\<lambda>row. json_strings (normalized_row js columns row)) rows @
     (if mode = hashModeFullHash then map (digest_lines js columns) (split_chunks (chunk_size mode) rows) else [])"

definition collision :: "string list \<Rightarrow> string list \<Rightarrow> bool" where
  "collision xs ys = list_ex (\<lambda>x. list_ex (\<lambda>y. x \<noteq> y \<and> sha256 x = sha256 y) ys) xs"

lemma no_collision: "\<not> collision xs ys \<Longrightarrow> x \<in> set xs \<Longrightarrow> y \<in> set ys \<Longrightarrow> sha256 x = sha256 y \<Longrightarrow> x = y"
  by (auto simp: collision_def list_ex_iff)

lemma split_chunks_concat: "0 < c \<Longrightarrow> concat (split_chunks c xs) = xs"
  by (induction c xs rule: split_chunks.induct) (simp add: split_chunks.simps)

lemma length_digest [simp]: "length (rowDigestForHash js columns row) = 32"
  by (simp add: rowDigestForHash_def)

text \<open>Lines of a fixed length are told apart, and from what follows them.\<close>

lemma lines_inject:
  assumes "\<And>x. x \<in> set xs \<union> set ys \<Longrightarrow> length (f x) = n \<and> hd (f x) = c" and "0 < n" and "hd a \<noteq> c" "hd b \<noteq> c" "a \<noteq> []" "b \<noteq> []"
    and "concat (map f xs) @ a = concat (map f ys) @ b"
  shows "map f xs = map f ys \<and> a = b"
  using assms
proof (induction xs arbitrary: ys)
  case Nil
  then show ?case by (cases ys) (metis UnCI append_Nil concat.simps(1) list.map(1), 
      metis (no_types, lifting) UnCI append_Nil append_is_Nil_conv concat.simps hd_append2 length_0_conv list.set_intros(1) list.map nat_less_le)
next
  case (Cons x xs)
  show ?case
  proof (cases ys)
    case Nil
    then show ?thesis using Cons.prems by (metis (no_types, lifting) UnCI append_Nil append_is_Nil_conv concat.simps hd_append2 length_0_conv list.set_intros(1) list.map nat_less_le)
  next
    case (Cons y ys')
    have e: "f x @ (concat (map f xs) @ a) = f y @ (concat (map f ys') @ b)" using Cons.prems(7) Cons by simp
    moreover have "length (f x) = length (f y)" using Cons.prems(1) Cons by simp
    ultimately have "f x = f y" "concat (map f xs) @ a = concat (map f ys') @ b" by simp_all
    then show ?thesis using Cons.IH [of ys'] Cons.prems Cons by auto
  qed
qed

lemma fixed_lines_inject:
  assumes "\<And>x. x \<in> set xs \<union> set ys \<Longrightarrow> length (f x) = n" and "0 < n" and "concat (map f xs) = concat (map f ys)"
  shows "map f xs = map f ys"
  using assms
proof (induction xs arbitrary: ys)
  case Nil
  then show ?case by (cases ys) (auto dest: arg_cong [where f = length])
next
  case (Cons x xs)
  then obtain y ys' where ys: "ys = y # ys'" by (cases ys) (auto dest: arg_cong [where f = length])
  have "length (f x) = length (f y)" using Cons.prems(1) ys by simp
  then show ?case using Cons.prems Cons.IH [of ys'] ys by auto
qed

lemma show_nat_append_inject:
  assumes "show_nat m @ c # x = show_nat n @ c # y" and "\<not> is_digit c"
  shows "m = n \<and> x = y"
proof -
  have t: "takeWhile is_digit (show_nat k @ c # z) = show_nat k" for k z
    using show_nat_digits [of k] assms(2) by (simp add: takeWhile_append list_all_iff)
  then have "show_nat m = show_nat n" using assms(1) by metis
  then show ?thesis using assms(1) show_nat_inject by auto
qed

lemma chunk_line_inject:
  assumes "chunk_line i m s @ x = chunk_line i n t @ y"
  shows "m = n \<and> sha256 s = sha256 t \<and> x = y"
proof -
  have "show_nat m @ CHR '' '' # (''digest:'' @ sha256 s @ newline @ x) = show_nat n @ CHR '' '' # (''digest:'' @ sha256 t @ newline @ y)"
    using assms by (simp add: chunk_line_def)
  then have "m = n \<and> ''digest:'' @ sha256 s @ newline @ x = ''digest:'' @ sha256 t @ newline @ y"
    by (rule show_nat_append_inject) (simp add: is_digit_def)
  then show ?thesis by simp
qed

lemma row_lines_inject:
  assumes "row_lines js columns xs @ ''mode:'' @ a = row_lines js' columns' ys @ ''mode:'' @ b"
  shows "map (rowDigestForHash js columns) xs = map (rowDigestForHash js' columns') ys"
proof -
  let ?f = "\<lambda>d. ''r:'' @ d @ newline"
  let ?xs = "map (rowDigestForHash js columns) xs" and ?ys = "map (rowDigestForHash js' columns') ys"
  have "concat (map ?f ?xs) @ (''mode:'' @ a) = concat (map ?f ?ys) @ (''mode:'' @ b)"
    using assms by (simp add: row_lines_def row_line_def [abs_def] comp_def)
  moreover have "length (?f d) = 35 \<and> hd (?f d) = CHR ''r''" if "d \<in> set ?xs \<union> set ?ys" for d
    using that by (auto simp: newline_def)
  ultimately have "map ?f ?xs = map ?f ?ys"
    using lines_inject [of ?xs ?ys ?f 35 "CHR ''r''" "''mode:'' @ a" "''mode:'' @ b"] by simp
  then show ?thesis by (auto dest!: map_injective intro: injI simp del: map_map)
qed

lemma digest_lines_inject:
  assumes "digest_lines js columns xs = digest_lines js' columns' ys"
  shows "map (rowDigestForHash js columns) xs = map (rowDigestForHash js' columns') ys"
proof -
  let ?xs = "map (rowDigestForHash js columns) xs" and ?ys = "map (rowDigestForHash js' columns') ys"
  let ?f = "\<lambda>d. d @ newline"
  have "concat (map ?f ?xs) = concat (map ?f ?ys)" using assms by (simp add: digest_lines_def comp_def)
  then have "map ?f ?xs = map ?f ?ys" by (rule fixed_lines_inject [of _ _ _ 33, rotated 2]) (auto simp: newline_def)
  then show ?thesis by (auto dest!: map_injective intro: injI simp del: map_map)
qed

lemma hash_stream: "chunk_stream js columns hashModeHash i chs = row_lines js columns (concat chs)"
  by (induction chs arbitrary: i) (simp_all add: row_lines_def)

text \<open>In full hash mode the chunks are told apart by their lines.\<close>

lemma full_stream_inject:
  assumes "chunk_stream js columns hashModeFullHash i chs @ ''mode:'' @ a = chunk_stream js' columns' hashModeFullHash i chs' @ ''mode:'' @ b"
    and "\<And>ch ch'. ch \<in> set chs \<Longrightarrow> ch' \<in> set chs' \<Longrightarrow>
      sha256 (digest_lines js columns ch) = sha256 (digest_lines js' columns' ch') \<Longrightarrow>
      digest_lines js columns ch = digest_lines js' columns' ch'"
  shows "map (rowDigestForHash js columns) (concat chs) = map (rowDigestForHash js' columns') (concat chs')"
  using assms
proof (induction chs arbitrary: i chs')
  case Nil
  then show ?case by (cases chs') (simp_all add: chunk_line_def)
next
  case (Cons ch chs)
  then obtain ch' rest where c: "chs' = ch' # rest" by (cases chs') (simp_all add: chunk_line_def)
  have e: "chunk_line i (length ch) (digest_lines js columns ch) @ (chunk_stream js columns hashModeFullHash (i + 1) chs @ ''mode:'' @ a) =
      chunk_line i (length ch') (digest_lines js' columns' ch') @ (chunk_stream js' columns' hashModeFullHash (i + 1) rest @ ''mode:'' @ b)"
    using Cons.prems(1) by (simp add: c)
  note l = chunk_line_inject [OF e]
  have "map (rowDigestForHash js columns) ch = map (rowDigestForHash js' columns') ch'"
    using l Cons.prems(2) [of ch ch'] by (intro digest_lines_inject) (simp add: c)
  moreover have "map (rowDigestForHash js columns) (concat chs) = map (rowDigestForHash js' columns') (concat rest)"
    using l Cons.prems(2) c by (intro Cons.IH [of "i + 1"]) auto
  ultimately show ?case by (simp add: c)
qed

lemma digest_text_sample:
  "digest_text js columns hashModeSample xs =
     row_lines js columns xs @ ''mode:'' @ hashModeSample @ '' rows:'' @ show_nat (length xs) @ newline"
  by (simp add: digest_text_def)

lemma digest_text_hash:
  "digest_text js columns hashModeHash xs =
     row_lines js columns xs @ ''mode:'' @ hashModeHash @ '' rows:'' @ show_nat (length xs) @ '' chunks:'' @
     show_nat (length (split_chunks (chunk_size hashModeHash) xs)) @ newline"
  by (simp add: digest_text_def Let_def hash_stream split_chunks_concat chunk_size_def)

lemma digest_text_inject:
  assumes "digest_text js columns mode xs = digest_text js' columns' mode ys"
    and "mode \<in> {hashModeSample, hashModeHash, hashModeFullHash}"
    and "\<not> collision (hashed_texts js columns mode xs) (hashed_texts js' columns' mode ys)"
  shows "map (rowDigestForHash js columns) xs = map (rowDigestForHash js' columns') ys"
proof -
  let ?cs = "split_chunks (chunk_size mode)"
  have c: "0 < chunk_size mode" by (simp add: chunk_size_def)
  consider "mode = hashModeSample" | "mode = hashModeHash" | "mode = hashModeFullHash" using assms(2) by blast
  then show ?thesis
  proof cases
    case 1
    have "row_lines js columns xs @ ''mode:'' @ mode @ '' rows:'' @ show_nat (length xs) @ newline =
        row_lines js' columns' ys @ ''mode:'' @ mode @ '' rows:'' @ show_nat (length ys) @ newline"
      using assms(1) unfolding 1 digest_text_sample by (simp only: 1)
    then show ?thesis by (rule row_lines_inject)
  next
    case 2
    have "row_lines js columns xs @ ''mode:'' @
          mode @ '' rows:'' @ show_nat (length xs) @ '' chunks:'' @ show_nat (length (?cs xs)) @ newline =
        row_lines js' columns' ys @ ''mode:'' @
          mode @ '' rows:'' @ show_nat (length ys) @ '' chunks:'' @ show_nat (length (?cs ys)) @ newline"
      using assms(1) unfolding 2 digest_text_hash by (simp only: 2)
    then show ?thesis by (rule row_lines_inject)
  next
    case 3
    have "map (rowDigestForHash js columns) (concat (?cs xs)) = map (rowDigestForHash js' columns') (concat (?cs ys))"
    proof (rule full_stream_inject)
      show "chunk_stream js columns hashModeFullHash 0 (?cs xs) @ ''mode:'' @
            mode @ '' rows:'' @ show_nat (length xs) @ '' chunks:'' @ show_nat (length (?cs xs)) @ newline =
          chunk_stream js' columns' hashModeFullHash 0 (?cs ys) @ ''mode:'' @
            mode @ '' rows:'' @ show_nat (length ys) @ '' chunks:'' @ show_nat (length (?cs ys)) @ newline"
        using assms(1) by (simp add: digest_text_def Let_def 3)
      show "digest_lines js columns ch = digest_lines js' columns' ch'"
        if "ch \<in> set (?cs xs)" "ch' \<in> set (?cs ys)"
          "sha256 (digest_lines js columns ch) = sha256 (digest_lines js' columns' ch')" for ch ch'
        using no_collision [OF assms(3) _ _ that(3)] that(1,2) by (simp add: hashed_texts_def 3)
    qed
    then show ?thesis by (simp add: split_chunks_concat c)
  qed
qed

text \<open>
  Two tables with the same digest: the rows that were read are the same after normalization, in
  the same order, or two different texts that were hashed for them have the same SHA-256.
\<close>

lemma equal_digests:
  assumes "hex_encode (sha256 (digest_text js columns mode xs)) = hex_encode (sha256 (digest_text js columns' mode ys))"
    and "mode \<in> {hashModeSample, hashModeHash, hashModeFullHash}"
    and "list_all (\<lambda>row. list_all valid_utf8 (normalized_row js columns row)) xs"
    and "list_all (\<lambda>row. list_all valid_utf8 (normalized_row js columns' row)) ys"
    and n: "\<not> collision (hashed_texts js columns mode xs) (hashed_texts js columns' mode ys)"
  shows "map (normalized_row js columns) xs = map (normalized_row js columns') ys"
proof -
  have "sha256 (digest_text js columns mode xs) = sha256 (digest_text js columns' mode ys)"
    using assms(1) by (rule hex_encode_inject)
  then have "digest_text js columns mode xs = digest_text js columns' mode ys"
    by (rule no_collision [OF n, rotated 2]) (simp_all add: hashed_texts_def)
  then have d: "map (rowDigestForHash js columns) xs = map (rowDigestForHash js columns') ys"
    using assms(2) n by (rule digest_text_inject)
  have row: "normalized_row js columns x = normalized_row js columns' y"
    if "x \<in> set xs" "y \<in> set ys" "rowDigestForHash js columns x = rowDigestForHash js columns' y" for x y
  proof (rule json_strings_inject)
    show "json_strings (normalized_row js columns x) = json_strings (normalized_row js columns' y)"
      by (rule no_collision [OF n])
        (use that in \<open>auto simp: hashed_texts_def simp flip: rowDigestForHash_def\<close>)
  qed (use that assms(3,4) in \<open>simp_all add: list_all_iff\<close>)
  have "length xs = length ys" using d by (rule map_eq_imp_length_eq)
  moreover have "normalized_row js columns (xs ! i) = normalized_row js columns' (ys ! i)" if "i < length xs" for i
  proof (rule row)
    show "xs ! i \<in> set xs" "ys ! i \<in> set ys" using that calculation by simp_all
    show "rowDigestForHash js columns (xs ! i) = rowDigestForHash js columns' (ys ! i)"
      using arg_cong [OF d, of "\<lambda>l. l ! i"] that calculation by simp
  qed
  ultimately show ?thesis by (intro nth_equalityI) simp_all
qed

end
