(* ===== verification/Verify_Check.thy ===== *)
theory Verify_Check
  imports Verify_Data Verify_Digest
begin

text \<open>
  What the verifications of data say (internal/verify/data/verify.go): the report does not depend
  on the order in which maps are ranged over, a count finds exactly the tables whose numbers of
  rows differ, and the hashes decide whether the normalized rows of both sides are the same and
  in the same order.
\<close>

section \<open>The reports as comparisons of maps\<close>

interpretation counts: map_comparison "count_missing db" "(=)" "count_differs db" "\<lambda>d. False" "count_extra db" diff_key df_Table
    "\<lambda>t n. True" for db
  by unfold_locales (auto simp: count_missing_def count_differs_def count_extra_def new_diff_def diff_key_def)

interpretation hashes: map_comparison "hash_missing db" "(=)" "hash_differs db risks" "\<lambda>d. df_NoiseRisk d \<noteq> ''''" "hash_extra db"
    diff_key df_Table "\<lambda>t h. True" for db risks
  by unfold_locales (auto simp: hash_missing_def hash_differs_def hash_extra_def new_diff_def diff_key_def)

text \<open>
  Go ranges over the maps of hashes in any order; the sorted report of a database and its
  five counters are the same in each of them.
\<close>

theorem hash_report_order_free:
  assumes "distinct (map fst source)" and "distinct (map fst dest)"
    and "mset source = mset source'" and "mset dest = mset dest'"
  shows "sortDiffs (ty_diffs (diffTableHashes db source dest risks)) = sortDiffs (ty_diffs (diffTableHashes db source' dest' risks)) \<and>
    ty_compared (diffTableHashes db source dest risks) = ty_compared (diffTableHashes db source' dest' risks) \<and>
    ty_missingDestination (diffTableHashes db source dest risks) = ty_missingDestination (diffTableHashes db source' dest' risks) \<and>
    ty_missingSource (diffTableHashes db source dest risks) = ty_missingSource (diffTableHashes db source' dest' risks) \<and>
    ty_mismatch (diffTableHashes db source dest risks) = ty_mismatch (diffTableHashes db source' dest' risks) \<and>
    ty_noise (diffTableHashes db source dest risks) = ty_noise (diffTableHashes db source' dest' risks)"
proof -
  have "hashes.entries_ok source" "hashes.entries_ok dest" using assms by (simp_all add: hashes.entries_ok_def list_all_iff)
  note f = hashes.order_free [OF this assms(3,4)]
  show ?thesis unfolding sortDiffs_def diffTableHashes_def by (intro conjI f)
qed

section \<open>Counts\<close>

lemma read_counts_ok:
  assumes "distinct ts" and "fst ` set acc \<inter> set ts = {}" and "\<And>t. t \<in> set ts \<Longrightarrow> cnt t = Inr (f t)"
  shows "read_counts cnt ts acc = Inr (acc @ map (\<lambda>t. (t, f t)) ts)"
  using assms
proof (induction ts arbitrary: acc)
  case (Cons t ts)
  then have "AList.update t (f t) acc = acc @ [(t, f t)]" by (intro update_new) auto
  then show ?case using Cons.IH [of "acc @ [(t, f t)]"] Cons.prems by simp
qed simp

lemma read_hashes_ok:
  assumes "distinct ts" and "fst ` set acc \<inter> set ts = {}" and "\<And>t. t \<in> set ts \<Longrightarrow> hash t = Some (Inr (f t))"
  shows "read_hashes hash ts acc = Some (Inr (acc @ map (\<lambda>t. (t, f t)) ts))"
  using assms
proof (induction ts arbitrary: acc)
  case (Cons t ts)
  then have "AList.update t (f t) acc = acc @ [(t, f t)]" by (intro update_new) auto
  then show ?case using Cons.IH [of "acc @ [(t, f t)]"] Cons.prems by simp
qed simp

text \<open>A side whose databases have the given tables with the given numbers of rows.\<close>

definition counted :: "verify_side \<Rightarrow> string list \<Rightarrow> (string \<Rightarrow> string list) \<Rightarrow> (string \<Rightarrow> string \<Rightarrow> int) \<Rightarrow> bool" where
  "counted side dbs tables num =
     list_all (\<lambda>db. verify_listBaseTables side db = Inr (tables db) \<and> distinct (tables db) \<and>
       list_all (\<lambda>t. countRows side db t = Inr (num db t)) (tables db)) dbs"

definition count_map :: "(string \<Rightarrow> string list) \<Rightarrow> (string \<Rightarrow> string \<Rightarrow> 'a) \<Rightarrow> string \<Rightarrow> (string \<times> 'a) list" where
  "count_map tables f db = map (\<lambda>t. (t, f db t)) (tables db)"

lemma map_of_count_map: "map_of (count_map tables f db) t = (if t \<in> set (tables db) then Some (f db t) else None)"
  unfolding count_map_def by (induction "tables db") (auto simp: map_of_map_restrict)

lemma fst_count_map [simp]: "fst ` set (count_map tables f db) = set (tables db)"
  by (force simp: count_map_def)

lemma found_missing_mem:
  "d \<in> set (found_missing f (count_map T F db) ys) \<longleftrightarrow> (\<exists>t \<in> set (T db). map_of ys t = None \<and> d = f t (F db t))"
  by (force simp: found_missing_def count_map_def)

lemma found_different_mem:
  "d \<in> set (found_different same f (count_map T F db) ys) \<longleftrightarrow>
   (\<exists>t \<in> set (T db). \<exists>w. map_of ys t = Some w \<and> \<not> same (F db t) w \<and> d = f t (F db t) w)"
  by (auto simp: found_different_def count_map_def split: option.splits if_splits) force+

lemma count_databases_ok:
  assumes "counted source dbs tables num" and "counted dest dbs tables' num'"
  shows "\<exists>summary'. count_databases source dest dbs summary = (None, summary') \<and>
    vy_Diffs summary' = vy_Diffs summary @
      concat (map (\<lambda>db. ty_diffs (diffTableCounts db (count_map tables num db) (count_map tables' num' db))) dbs) \<and>
    vy_CountMismatches summary' = vy_CountMismatches summary +
      sum_list (map (\<lambda>db. ty_mismatch (diffTableCounts db (count_map tables num db) (count_map tables' num' db))) dbs) \<and>
    vy_TablesCompared summary' = vy_TablesCompared summary +
      sum_list (map (\<lambda>db. ty_compared (diffTableCounts db (count_map tables num db) (count_map tables' num' db))) dbs)"
  using assms
proof (induction dbs arbitrary: summary)
  case (Cons db dbs)
  have r: "tableCountsForDatabase side db = Inr (count_map T N db)" if "counted side (db # dbs) T N" for side T N
    using that read_counts_ok [of "T db" "[]" "countRows side db" "N db"]
    by (simp add: counted_def tableCountsForDatabase_def count_map_def list_all_iff)
  have c: "counted source dbs tables num" "counted dest dbs tables' num'" using Cons.prems by (simp_all add: counted_def)
  show ?case
    using Cons.IH [OF c] r [OF Cons.prems(1)] r [OF Cons.prems(2)] by (fastforce simp: Let_def add_tally_def)
qed simp

lemma diff_counts_members:
  "d \<in> set (ty_diffs (diffTableCounts db (count_map tables num db) (count_map tables' num' db))) \<longleftrightarrow>
   (\<exists>t \<in> set (tables db). t \<notin> set (tables' db) \<and> d = count_missing db t (num db t)) \<or>
   (\<exists>t \<in> set (tables db) \<inter> set (tables' db). num db t \<noteq> num' db t \<and> d = count_differs db t (num db t) (num' db t)) \<or>
   (\<exists>t \<in> set (tables' db). t \<notin> set (tables db) \<and> d = count_extra db t (num' db t))"
proof -
  let ?s = "count_map tables num db" and ?d = "count_map tables' num' db"
  show ?thesis by (simp add: diffTableCounts_def set_compare_maps found_missing_mem found_different_mem map_of_count_map) blast
qed
text \<open>What a count reports: the tables that one side lacks and those whose numbers of rows differ.\<close>

definition count_finding ::
  "(string \<Rightarrow> string list) \<Rightarrow> (string \<Rightarrow> string \<Rightarrow> int) \<Rightarrow> (string \<Rightarrow> string list) \<Rightarrow> (string \<Rightarrow> string \<Rightarrow> int) \<Rightarrow> string \<Rightarrow> Diff \<Rightarrow> bool" where
  "count_finding tables num tables' num' db d =
     (list_ex (\<lambda>t. t \<notin> set (tables' db) \<and> d = count_missing db t (num db t)) (tables db) \<or>
      list_ex (\<lambda>t. t \<in> set (tables' db) \<and> num db t \<noteq> num' db t \<and> d = count_differs db t (num db t) (num' db t)) (tables db) \<or>
      list_ex (\<lambda>t. t \<notin> set (tables db) \<and> d = count_extra db t (num' db t)) (tables' db))"

text \<open>
  A verification of counts whose queries succeed ends without an error and reports, sorted
  by database, table and kind, exactly the tables of the selected databases that one side lacks
  or whose numbers of rows differ.
\<close>

theorem VerifyCount_reports:
  assumes "verify_listDatabases source = Inr sdbs" and "verify_listDatabases dest = Inr ddbs"
    and "counted source (selected_databases opts sdbs ddbs) tables num"
    and "counted dest (selected_databases opts sdbs ddbs) tables' num'"
  shows "\<exists>summary. VerifyCount True source dest opts = (None, summary) \<and> sorted (map diff_key (vy_Diffs summary)) \<and>
    (\<forall>d. d \<in> set (vy_Diffs summary) \<longleftrightarrow>
       list_ex (\<lambda>db. count_finding tables num tables' num' db d) (selected_databases opts sdbs ddbs))"
proof -
  let ?dbs = "selected_databases opts sdbs ddbs"
  obtain summary where s: "count_databases source dest ?dbs (summary_for (length ?dbs) no_canonicalization) = (None, summary)"
    "vy_Diffs summary = concat (map (\<lambda>db. ty_diffs (diffTableCounts db (count_map tables num db) (count_map tables' num' db))) ?dbs)"
    using count_databases_ok [OF assms(3,4), of "summary_for (length ?dbs) no_canonicalization"] by (auto simp: summary_for_def)
  have "d \<in> set (vy_Diffs summary) \<longleftrightarrow> list_ex (\<lambda>db. count_finding tables num tables' num' db d) ?dbs" for d
    unfolding s(2) by (auto simp: diff_counts_members count_finding_def list_ex_iff)
  then show ?thesis using assms(1,2) s(1) by (simp add: VerifyCount_def Let_def sortDiffs_def)
qed

section \<open>Hashes\<close>

record table_content =
  tn_columns :: "columnInfo list"
  tn_keys :: "string list"
  tn_less :: "hash_value list \<Rightarrow> hash_value list \<Rightarrow> bool"
  tn_rows :: "hash_value list list"

text \<open>A side whose databases have the given tables with the given contents, each of which has a stable key.\<close>

definition readable :: "verify_side \<Rightarrow> string list \<Rightarrow> (string \<Rightarrow> string list) \<Rightarrow> (string \<Rightarrow> string \<Rightarrow> table_content) \<Rightarrow> bool" where
  "readable side dbs tables content =
     list_all (\<lambda>db. verify_listBaseTables side db = Inr (tables db) \<and> distinct (tables db) \<and>
       list_all (\<lambda>t. readable_table side db t (tn_columns (content db t)) (tn_keys (content db t)) (tn_less (content db t))
                       (tn_rows (content db t))) (tables db)) dbs"

text \<open>The normalized rows that a mode looks at, and the digest it computes.\<close>

definition seen_content :: "json_lib \<Rightarrow> string \<Rightarrow> int \<Rightarrow> table_content \<Rightarrow> string list list" where
  "seen_content js mode n c = map (normalized_row js (tn_columns c)) (seen_rows mode n (tn_rows c))"

definition content_digest :: "json_lib \<Rightarrow> string \<Rightarrow> int \<Rightarrow> table_content \<Rightarrow> string" where
  "content_digest js mode n c = hex_encode (sha256 (digest_text js (tn_columns c) mode (seen_rows mode n (tn_rows c))))"

definition content_texts :: "json_lib \<Rightarrow> string \<Rightarrow> int \<Rightarrow> table_content \<Rightarrow> string list" where
  "content_texts js mode n c = hashed_texts js (tn_columns c) mode (seen_rows mode n (tn_rows c))"

lemma split_chunks_map: "split_chunks c (map f xs) = map (map f) (split_chunks c xs)"
proof (induction c xs rule: split_chunks.induct)
  case (1 c xs)
  then show ?case by (simp add: split_chunks.simps [of c xs] split_chunks.simps [of c "map f xs"] take_map drop_map)
qed

lemma digest_text_cong:
  assumes "map (normalized_row js columns) xs = map (normalized_row js columns') ys"
  shows "digest_text js columns mode xs = digest_text js columns' mode ys"
proof -
  have len: "length xs = length ys" using assms by (rule map_eq_imp_length_eq)
  let ?d = "\<lambda>r. sha256 (json_strings r)"
  have rows: "row_lines js c rs = concat (map (\<lambda>r. ''r:'' @ ?d r @ newline) (map (normalized_row js c) rs))"
    "digest_lines js c rs = concat (map (\<lambda>r. ?d r @ newline) (map (normalized_row js c) rs))" for c rs
    by (simp_all add: row_lines_def digest_lines_def row_line_def [abs_def] rowDigestForHash_def comp_def)
  have stream: "chunk_stream js columns mode i chs = chunk_stream js columns' mode i chs'"
    if "map (map (normalized_row js columns)) chs = map (map (normalized_row js columns')) chs'" for chs chs' i
    using that
  proof (induction chs arbitrary: chs' i)
    case (Cons ch chs)
    then obtain ch' rest where c: "chs' = ch' # rest" "map (normalized_row js columns) ch = map (normalized_row js columns') ch'"
      "map (map (normalized_row js columns)) chs = map (map (normalized_row js columns')) rest" by auto
    have l: "length ch = length ch'" using c(2) by (rule map_eq_imp_length_eq)
    show ?case unfolding c(1) chunk_stream.simps rows c(2) l Cons.IH [OF c(3)] ..
  qed simp
  have "map (map (normalized_row js columns)) (split_chunks c xs) = map (map (normalized_row js columns')) (split_chunks c ys)" for c
    unfolding split_chunks_map [symmetric] assms ..
  then have cs: "chunk_stream js columns mode 0 (split_chunks c xs) = chunk_stream js columns' mode 0 (split_chunks c ys)"
    "length (split_chunks c xs) = length (split_chunks c ys)" for c
    using stream by (blast, metis length_map)
  show ?thesis unfolding digest_text_def Let_def rows(1) assms len cs ..
qed

lemma hash_databases_ok:
  assumes "readable source dbs T C" and "readable dest dbs T' C'" and "mode \<in> {hashModeSample, hashModeHash, hashModeFullHash}"
  shows "\<exists>summary'. hash_databases js source dest mode n what risks dbs summary = Some (None, summary') \<and>
    vy_Diffs summary' = vy_Diffs summary @
      concat (map (\<lambda>db. ty_diffs (diffTableHashes db (count_map T (\<lambda>db t. content_digest js mode n (C db t)) db)
        (count_map T' (\<lambda>db t. content_digest js mode n (C' db t)) db) (\<lambda>t. map_of risks (db, t)))) dbs) \<and>
    vy_Canonicalization summary' = vy_Canonicalization summary"
  using assms(1,2)
proof (induction dbs arbitrary: summary)
  case (Cons db dbs)
  have r: "tableModeHashesForDatabase js side mode n db = Some (Inr (count_map T (\<lambda>db t. content_digest js mode n (C db t)) db))"
    if "readable side (db # dbs) T C" for side T C
  proof -
    have "hashTableByMode js side mode n db t = Some (Inr (content_digest js mode n (C db t)))" if "t \<in> set (T db)" for t
      unfolding content_digest_def
      using \<open>readable side (db # dbs) T C\<close> that assms(3) by (intro hashTableByMode_digest) (auto simp: readable_def list_all_iff)
    then show ?thesis
      using that read_hashes_ok [of "T db" "[]" "hashTableByMode js side mode n db" "\<lambda>t. content_digest js mode n (C db t)"]
      by (simp add: readable_def tableModeHashesForDatabase_def count_map_def)
  qed
  have c: "readable source dbs T C" "readable dest dbs T' C'" using Cons.prems by (simp_all add: readable_def)
  show ?case
    using Cons.IH [OF c] r [OF Cons.prems(1)] r [OF Cons.prems(2)] by (fastforce simp: Let_def add_tally_def)
qed simp

text \<open>Everything that a verification asks before it reads the first table succeeds.\<close>

definition ready :: "verify_side \<Rightarrow> verify_side \<Rightarrow> VerifyOptions \<Rightarrow> string list \<Rightarrow> risk_profiles \<Rightarrow> bool" where
  "ready source dest opts dbs risks =
     (vs_pin source = None \<and> vs_pin dest = None \<and> prepareVerifySession source = None \<and> prepareVerifySession dest = None \<and>
      bind_result (verify_listDatabases source) (\<lambda>sdbs. bind_result (verify_listDatabases dest) (\<lambda>ddbs.
        Inr (selected_databases opts sdbs ddbs))) = Inr dbs \<and>
      tableRiskProfiles source dbs = Inr risks)"

text \<open>Both sides have the same tables with the same normalized rows in the same order.\<close>

definition same_content ::
  "json_lib \<Rightarrow> string \<Rightarrow> int \<Rightarrow> (string \<Rightarrow> string list) \<Rightarrow> (string \<Rightarrow> string \<Rightarrow> table_content) \<Rightarrow>
   (string \<Rightarrow> string list) \<Rightarrow> (string \<Rightarrow> string \<Rightarrow> table_content) \<Rightarrow> string \<Rightarrow> bool" where
  "same_content js mode n T C T' C' db =
     (set (T db) = set (T' db) \<and> list_all (\<lambda>t. seen_content js mode n (C db t) = seen_content js mode n (C' db t)) (T db))"

text \<open>For some table two different texts with the same SHA-256 were hashed.\<close>

definition some_collision ::
  "json_lib \<Rightarrow> string \<Rightarrow> int \<Rightarrow> (string \<Rightarrow> string list) \<Rightarrow> (string \<Rightarrow> string \<Rightarrow> table_content) \<Rightarrow>
   (string \<Rightarrow> string \<Rightarrow> table_content) \<Rightarrow> string list \<Rightarrow> bool" where
  "some_collision js mode n T C C' dbs =
     list_ex (\<lambda>db. list_ex (\<lambda>t. collision (content_texts js mode n (C db t)) (content_texts js mode n (C' db t))) (T db)) dbs"

definition all_valid :: "json_lib \<Rightarrow> string \<Rightarrow> int \<Rightarrow> (string \<Rightarrow> string list) \<Rightarrow> (string \<Rightarrow> string \<Rightarrow> table_content) \<Rightarrow> string list \<Rightarrow> bool" where
  "all_valid js mode n T C dbs =
     list_all (\<lambda>db. list_all (\<lambda>t. list_all (list_all valid_utf8) (seen_content js mode n (C db t))) (T db)) dbs"

lemma equal_content_digests:
  assumes "mode \<in> {hashModeSample, hashModeHash, hashModeFullHash}"
    and "list_all (list_all valid_utf8) (seen_content js mode n c)" and "list_all (list_all valid_utf8) (seen_content js mode n c')"
    and "\<not> collision (content_texts js mode n c) (content_texts js mode n c')"
  shows "content_digest js mode n c = content_digest js mode n c' \<longleftrightarrow> seen_content js mode n c = seen_content js mode n c'"
proof
  assume "content_digest js mode n c = content_digest js mode n c'"
  then show "seen_content js mode n c = seen_content js mode n c'"
    unfolding content_digest_def seen_content_def
    using assms by (intro equal_digests) (simp_all add: seen_content_def content_texts_def list.pred_map comp_def)
next
  assume "seen_content js mode n c = seen_content js mode n c'"
  then show "content_digest js mode n c = content_digest js mode n c'"
    unfolding content_digest_def seen_content_def by (metis digest_text_cong)
qed

lemma no_hash_diffs:
  "ty_diffs (diffTableHashes db (count_map T F db) (count_map T' G db) risks) = [] \<longleftrightarrow>
   set (T db) = set (T' db) \<and> (\<forall>t \<in> set (T db). F db t = G db t)"
  unfolding diffTableHashes_def no_diffs by (auto simp: map_of_count_map) (auto simp: count_map_def)

lemma verify_hashes_decides:
  assumes "ready source dest opts dbs risks" and "readable source dbs T C" and "readable dest dbs T' C'"
    and m: "mode \<in> {hashModeSample, hashModeHash, hashModeFullHash}"
  shows "\<exists>summary. verify_hashes True js source dest opts mode n what canon = Some (None, summary) \<and>
    vy_Canonicalization summary = canon \<and> sorted (map diff_key (vy_Diffs summary)) \<and>
    (\<forall>d. d \<in> set (vy_Diffs summary) \<longleftrightarrow>
       (\<exists>db \<in> set dbs. d \<in> set (ty_diffs (diffTableHashes db (count_map T (\<lambda>db t. content_digest js mode n (C db t)) db)
          (count_map T' (\<lambda>db t. content_digest js mode n (C' db t)) db) (\<lambda>t. map_of risks (db, t)))))) \<and>
    (list_all (same_content js mode n T C T' C') dbs \<longrightarrow> vy_Diffs summary = []) \<and>
    (vy_Diffs summary = [] \<and> all_valid js mode n T C dbs \<and> all_valid js mode n T' C' dbs \<and> \<not> some_collision js mode n T C C' dbs
       \<longrightarrow> list_all (same_content js mode n T C T' C') dbs)"
proof -
  let ?t = "\<lambda>db. ty_diffs (diffTableHashes db (count_map T (\<lambda>db t. content_digest js mode n (C db t)) db)
          (count_map T' (\<lambda>db t. content_digest js mode n (C' db t)) db) (\<lambda>t. map_of risks (db, t)))"
  let ?s0 = "(summary_for (length dbs) canon)\<lparr>vy_TableRisks := flattenTableRisks risks, vy_RepresentationRiskTables := length (flattenTableRisks risks)\<rparr>"
  obtain summary where s: "hash_databases js source dest mode n what risks dbs ?s0 = Some (None, summary)"
    "vy_Diffs summary = concat (map ?t dbs)" "vy_Canonicalization summary = canon"
    using hash_databases_ok [OF assms(2,3) m, of js n what risks ?s0] by (auto simp: summary_for_def)
  have run: "verify_hashes True js source dest opts mode n what canon = Some (None, summary\<lparr>vy_Diffs := sortDiffs (vy_Diffs summary)\<rparr>)"
    using assms(1) s(1) by (auto simp: ready_def bind_result_Inr verify_hashes_def Let_def)
  have nil: "vy_Diffs summary = [] \<longleftrightarrow>
      (\<forall>db \<in> set dbs. set (T db) = set (T' db) \<and> (\<forall>t \<in> set (T db). content_digest js mode n (C db t) = content_digest js mode n (C' db t)))"
    unfolding s(2) by (simp add: no_hash_diffs)
  have a: "vy_Diffs summary = []" if "list_all (same_content js mode n T C T' C') dbs"
  proof -
    have "content_digest js mode n (C db t) = content_digest js mode n (C' db t)" if "db \<in> set dbs" "t \<in> set (T db)" for db t
      using that \<open>list_all (same_content js mode n T C T' C') dbs\<close>
      unfolding content_digest_def same_content_def seen_content_def list_all_iff by (metis digest_text_cong)
    then show ?thesis using that by (simp add: nil same_content_def list_all_iff)
  qed
  have b: "list_all (same_content js mode n T C T' C') dbs"
    if "vy_Diffs summary = []" "all_valid js mode n T C dbs" "all_valid js mode n T' C' dbs" "\<not> some_collision js mode n T C C' dbs"
  proof -
    have "seen_content js mode n (C db t) = seen_content js mode n (C' db t)" if t: "db \<in> set dbs" "t \<in> set (T db)" for db t
    proof -
      have "t \<in> set (T' db)" "content_digest js mode n (C db t) = content_digest js mode n (C' db t)"
        using nil t \<open>vy_Diffs summary = []\<close> by auto
      then show ?thesis
        using equal_content_digests [OF m, of js n "C db t" "C' db t"] t
          \<open>all_valid js mode n T C dbs\<close> \<open>all_valid js mode n T' C' dbs\<close> \<open>\<not> some_collision js mode n T C C' dbs\<close>
        by (simp add: all_valid_def some_collision_def list_all_iff list_ex_iff)
    qed
    then show ?thesis using nil that(1) by (simp add: same_content_def list_all_iff)
  qed
  have e: "sortDiffs ds = [] \<longleftrightarrow> ds = []" for ds unfolding sortDiffs_def by (metis set_sort set_empty)
  let ?r = "summary\<lparr>vy_Diffs := sortDiffs (vy_Diffs summary)\<rparr>"
  have c: "vy_Canonicalization ?r = canon" using s(3) by simp
  have srt: "sorted (map diff_key (vy_Diffs ?r))" by (simp add: sortDiffs_def)
  have mem: "d \<in> set (vy_Diffs ?r) \<longleftrightarrow> (\<exists>db \<in> set dbs. d \<in> set (?t db))" for d by (simp add: sortDiffs_def s(2))
  have "vy_Diffs ?r = [] \<longleftrightarrow> vy_Diffs summary = []" by (simp add: e)
  then have a': "list_all (same_content js mode n T C T' C') dbs \<longrightarrow> vy_Diffs ?r = []"
    and b': "vy_Diffs ?r = [] \<and> all_valid js mode n T C dbs \<and> all_valid js mode n T' C' dbs \<and> \<not> some_collision js mode n T C C' dbs
       \<longrightarrow> list_all (same_content js mode n T C T' C') dbs"
    using a b by blast+
  show ?thesis by (rule exI [of _ ?r]) (intro conjI run c srt allI mem a' b')
qed

text \<open>
  Claim C9. When everything can be read and every table has a stable key, the verifications by hash
  and by full hash end without an error. They report nothing when both sides have the same tables
  with the same normalized rows in the order of their keys, and when they report nothing the two
  sides have these, unless the run itself hashed two different texts with the same SHA-256.
\<close>

theorem VerifyHash_decides:
  assumes "ready source dest opts dbs risks" and "readable source dbs T C" and "readable dest dbs T' C'"
  shows "\<exists>summary full. VerifyHash True js source dest opts = Some (None, summary) \<and>
    VerifyFullHash True js source dest opts = Some (None, full) \<and>
    (list_all (same_content js hashModeHash 0 T C T' C') dbs \<longrightarrow> vy_Diffs summary = [] \<and> vy_Diffs full = []) \<and>
    (vy_Diffs summary = [] \<and> all_valid js hashModeHash 0 T C dbs \<and> all_valid js hashModeHash 0 T' C' dbs \<and>
       \<not> some_collision js hashModeHash 0 T C C' dbs \<longrightarrow> list_all (same_content js hashModeHash 0 T C T' C') dbs) \<and>
    (vy_Diffs full = [] \<and> all_valid js hashModeHash 0 T C dbs \<and> all_valid js hashModeHash 0 T' C' dbs \<and>
       \<not> some_collision js hashModeFullHash 0 T C C' dbs \<longrightarrow> list_all (same_content js hashModeHash 0 T C T' C') dbs)"
proof -
  have s: "seen_content js hashModeFullHash 0 c = seen_content js hashModeHash 0 c" for c
    by (simp add: seen_content_def seen_rows_def)
  have m: "hashModeHash \<in> {hashModeSample, hashModeHash, hashModeFullHash}" "hashModeFullHash \<in> {hashModeSample, hashModeHash, hashModeFullHash}"
    by simp_all
  have e: "same_content js hashModeFullHash 0 T C T' C' = same_content js hashModeHash 0 T C T' C'"
    "all_valid js hashModeFullHash 0 T C dbs = all_valid js hashModeHash 0 T C dbs"
    "all_valid js hashModeFullHash 0 T' C' dbs = all_valid js hashModeHash 0 T' C' dbs"
    by (auto simp: same_content_def [abs_def] all_valid_def s)
  note h = verify_hashes_decides [OF assms m(1), of js 0 "''table hashes''" "canonicalization True ''ordered_key_chunked_streaming_sha256''"]
  note f = verify_hashes_decides [OF assms m(2), of js 0 "''table full hashes''" "canonicalization True ''ordered_key_chunked_fullhash_sha256''"]
  show ?thesis using h f unfolding VerifyHash_def VerifyFullHash_def e by blast
qed

text \<open>
  A verification by sample decides the same for the first rows of each table in the order
  of its key, as many as the sample size says; the rows behind them do not matter.
\<close>

theorem VerifySample_decides:
  assumes "ready source dest opts dbs risks" and "readable source dbs T C" and "readable dest dbs T' C'"
    and "n = (if vo_SampleSize opts < 1 then 1000 else vo_SampleSize opts)"
    and "\<And>c. first c = map (normalized_row js (tn_columns c)) (take (nat n) (tn_rows c))"
  shows "\<exists>summary. VerifySample True js source dest opts = Some (None, summary) \<and>
    (list_all (\<lambda>db. set (T db) = set (T' db) \<and> list_all (\<lambda>t. first (C db t) = first (C' db t)) (T db)) dbs \<longrightarrow> vy_Diffs summary = []) \<and>
    (vy_Diffs summary = [] \<and> all_valid js hashModeSample n T C dbs \<and> all_valid js hashModeSample n T' C' dbs \<and>
       \<not> some_collision js hashModeSample n T C C' dbs \<longrightarrow>
     list_all (\<lambda>db. set (T db) = set (T' db) \<and> list_all (\<lambda>t. first (C db t) = first (C' db t)) (T db)) dbs)"
proof -
  have "1 \<le> n" using assms(4) by simp
  then have "same_content js hashModeSample n T C T' C' =
      (\<lambda>db. set (T db) = set (T' db) \<and> list_all (\<lambda>t. first (C db t) = first (C' db t)) (T db))"
    by (simp add: same_content_def [abs_def] seen_content_def seen_rows_def assms(5))
  moreover have "hashModeSample \<in> {hashModeSample, hashModeHash, hashModeFullHash}" by simp
  ultimately show ?thesis
    using verify_hashes_decides [OF assms(1-3), of hashModeSample js n "''table sample hashes''"
        "canonicalization False ''ordered_key_limited_streaming_sha256''"]
    unfolding VerifySample_def assms(4) [symmetric] by auto
qed

text \<open>
  The summary of a verification by hash says that it does not depend on the order of rows,
  but a table that has the same rows on both sides in another order is reported as different
  (unless two texts collide): servers whose collations order a key differently are enough for it.
\<close>

theorem row_order_matters:
  assumes "ready source dest opts dbs risks" and "readable source dbs T C" and "readable dest dbs T' C'"
    and "db \<in> set dbs" and "t \<in> set (T db)" and "t \<in> set (T' db)"
    and "mset (seen_content js hashModeHash 0 (C db t)) = mset (seen_content js hashModeHash 0 (C' db t))"
    and "seen_content js hashModeHash 0 (C db t) \<noteq> seen_content js hashModeHash 0 (C' db t)"
    and "list_all (list_all valid_utf8) (seen_content js hashModeHash 0 (C db t))"
    and "list_all (list_all valid_utf8) (seen_content js hashModeHash 0 (C' db t))"
  shows "(\<exists>summary. VerifyHash True js source dest opts = Some (None, summary) \<and> ca_RowOrderIndependent (vy_Canonicalization summary) \<and>
       list_ex (\<lambda>d. df_Kind d = diffKindTableHashMismatch \<and> df_Database d = db \<and> df_Table d = t) (vy_Diffs summary)) \<or>
    collision (content_texts js hashModeHash 0 (C db t)) (content_texts js hashModeHash 0 (C' db t))"
proof (rule disjCI)
  assume n: "\<not> collision (content_texts js hashModeHash 0 (C db t)) (content_texts js hashModeHash 0 (C' db t))"
  have m: "hashModeHash \<in> {hashModeSample, hashModeHash, hashModeFullHash}" by simp
  let ?F = "\<lambda>db t. content_digest js hashModeHash 0 (C db t)" and ?G = "\<lambda>db t. content_digest js hashModeHash 0 (C' db t)"
  have ne: "?F db t \<noteq> ?G db t" using equal_content_digests [OF m] assms(8-10) n by blast
  let ?d = "hash_differs db (\<lambda>t. map_of risks (db, t)) t (?F db t) (?G db t)"
  have "?d \<in> set (found_different (=) (hash_differs db (\<lambda>t. map_of risks (db, t))) (count_map T ?F db) (count_map T' ?G db))"
    using assms(5,6) ne by (auto simp: found_different_mem map_of_count_map)
  then have d: "?d \<in> set (ty_diffs (diffTableHashes db (count_map T ?F db) (count_map T' ?G db) (\<lambda>t. map_of risks (db, t))))"
    unfolding diffTableHashes_def set_compare_maps by blast
  have k: "df_Kind ?d = diffKindTableHashMismatch \<and> df_Database ?d = db \<and> df_Table ?d = t"
    by (simp add: hash_differs_def new_diff_def)
  obtain summary where s: "VerifyHash True js source dest opts = Some (None, summary)"
    "vy_Canonicalization summary = canonicalization True ''ordered_key_chunked_streaming_sha256''"
    "\<And>d. d \<in> set (vy_Diffs summary) \<longleftrightarrow> (\<exists>db \<in> set dbs. d \<in> set (ty_diffs (diffTableHashes db (count_map T ?F db)
          (count_map T' ?G db) (\<lambda>t. map_of risks (db, t)))))"
    using verify_hashes_decides [OF assms(1-3) m, of js 0 "''table hashes''" "canonicalization True ''ordered_key_chunked_streaming_sha256''"]
    unfolding VerifyHash_def by blast
  have "?d \<in> set (vy_Diffs summary)" using s(3) d assms(4) by blast
  then have "list_ex (\<lambda>d. df_Kind d = diffKindTableHashMismatch \<and> df_Database d = db \<and> df_Table d = t) (vy_Diffs summary)"
    unfolding list_ex_iff using k by blast
  moreover have "ca_RowOrderIndependent (vy_Canonicalization summary)" by (simp add: s(2) canonicalization_def)
  ultimately show "\<exists>summary. VerifyHash True js source dest opts = Some (None, summary) \<and> ca_RowOrderIndependent (vy_Canonicalization summary) \<and>
      list_ex (\<lambda>d. df_Kind d = diffKindTableHashMismatch \<and> df_Database d = db \<and> df_Table d = t) (vy_Diffs summary)"
    using s(1) by blast
qed

section \<open>What normalization identifies\<close>

definition value_text :: "columnInfo \<Rightarrow> hash_value \<Rightarrow> string option" where
  "value_text info v =
     (case v of HString s \<Rightarrow> Some s | HBytes s \<Rightarrow> if shouldTreatAsText info then Some s else None | _ \<Rightarrow> None)"

fun is_other :: "hash_value \<Rightarrow> bool" where
  "is_other (HOther t v) = True"
| "is_other v = False"

text \<open>The normalized form of a text is that of its JSON value, if it has one.\<close>

definition json_value :: "json_lib \<Rightarrow> columnInfo \<Rightarrow> string \<Rightarrow> string option" where
  "json_value js info s = (if maybeJSONValue js info (TrimSpace s) then js_canonical js (TrimSpace s) else None)"

lemma normalize_text: "normalizeTextHashValue js s info = (case json_value js info s of Some c \<Rightarrow> ''json:'' @ c | None \<Rightarrow> ''string:'' @ s)"
  by (simp add: normalizeTextHashValue_def json_value_def Let_def split: option.split)

lemma width_inject: "width_text v @ CHR '':'' # x = width_text w @ CHR '':'' # y \<Longrightarrow> v = w \<and> x = y"
  using show_nat_append_inject [of v "CHR '':''" x w y] show_nat_digits [of v] show_nat_digits [of w]
    show_nat_nonempty [of v] show_nat_nonempty [of w]
  by (cases "show_nat v"; cases "show_nat w") (auto simp: width_text_def is_digit_def split: if_splits)

lemma show_int_inject: "show_int i = show_int j \<Longrightarrow> i = j"
proof -
  have d: "hd (show_nat n) \<noteq> CHR ''-''" "show_nat n \<noteq> []" for n
    using show_nat_digits [of n] show_nat_nonempty [of n] by (cases "show_nat n"; auto simp: is_digit_def)+
  then have "CHR ''-'' # x \<noteq> show_nat n" "show_nat n \<noteq> CHR ''-'' # x" for x n by (metis list.sel(1))+
  then show "show_int i = show_int j \<Longrightarrow> i = j"
    by (auto simp: show_int_def dest!: show_nat_inject split: if_splits)
qed

text \<open>
  Two values of a column with the same normalized form are the same value, or both are
  texts, and then these are equal or are JSON texts with the same canonical form; values of
  dynamic types that the code does not know are left aside.
\<close>

theorem normalization_identifies:
  assumes "normalizeHashValue js v info = normalizeHashValue js w info" and "\<not> is_other v" and "\<not> is_other w"
  shows "v = w \<or> (\<exists>s t. value_text info v = Some s \<and> value_text info w = Some t \<and>
    (s = t \<or> json_value js info s = json_value js info t \<and> json_value js info s \<noteq> None))"
proof -
  have same_text: "normalizeTextHashValue js s info = normalizeTextHashValue js t info \<Longrightarrow>
      s = t \<or> json_value js info s = json_value js info t \<and> json_value js info s \<noteq> None" for s t
    by (auto simp: normalize_text split: option.splits)
  have enc: "EncodeToString s = EncodeToString t \<Longrightarrow> s = t" for s t by (metis DecodeString_EncodeToString option.inject)
  note e = assms(1)
  show ?thesis
  proof (cases v)
    case HNil
    then show ?thesis using e assms(3) by (cases w) (auto simp: normalize_text split: option.splits if_splits)
  next
    case (HBytes s)
    then show ?thesis using e assms(3) same_text [of s] enc [of s]
      by (cases w) (auto simp: value_text_def normalize_text split: option.splits if_splits)
  next
    case (HString s)
    then show ?thesis using e assms(3) same_text [of s]
      by (cases w) (auto simp: value_text_def normalize_text split: option.splits if_splits)
  next
    case (HBool b)
    then show ?thesis using e assms(3) by (cases w) (auto simp: normalize_text split: option.splits if_splits)
  next
    case (HInt n i)
    then show ?thesis using e assms(3)
      by (cases w) (auto simp: normalize_text split: option.splits if_splits dest!: width_inject show_int_inject)
  next
    case (HUint n k)
    then show ?thesis using e assms(3)
      by (cases w) (auto simp: normalize_text split: option.splits if_splits dest!: width_inject show_nat_inject)
  next
    case (HFloat n t)
    then show ?thesis using e assms(3)
      by (cases w) (auto simp: normalize_text split: option.splits if_splits dest!: width_inject)
  next
    case (HTime t)
    then show ?thesis using e assms(3) by (cases w) (auto simp: normalize_text split: option.splits if_splits)
  next
    case (HOther t x)
    then show ?thesis using assms(2) by simp
  qed
qed

section \<open>Examples\<close>

text \<open>One table with one column, which is its key, and a server that orders it in its own way.\<close>

definition example_verify_side :: "(hash_value list \<Rightarrow> hash_value list \<Rightarrow> bool) \<Rightarrow> hash_value list list \<Rightarrow> verify_side" where
  "example_verify_side lt rows =
     \<lparr>vs_pin = None, vs_exec = (\<lambda>q. None), vs_schemata = Rows [''d''], vs_tables = (\<lambda>db. Rows [''t'']),
      vs_count = (\<lambda>q. Inr (int (length rows))), vs_columns = (\<lambda>db t. Rows [(''k'', ''VARCHAR'', ''utf8mb4_bin'', ''utf8mb4'')]),
      vs_stats = (\<lambda>db t. Rows [(''PRIMARY'', 0, Some ''k'', 1)]), vs_notNull = (\<lambda>db t. Rows [''k'']),
      vs_rows = (\<lambda>q args. case rev args of
         HInt w n # c \<Rightarrow> Rows (take (nat n) (if c = [] then rows else filter (\<lambda>r. lt (rev c) r) rows))
       | _ \<Rightarrow> Rows []),
      vs_risk = (\<lambda>dbs. Rows [])\<rparr>"

definition example_column :: columnInfo where
  "example_column = \<lparr>ci_Name = ''k'', ci_DataType = ''varchar'', ci_CollationName = ''utf8mb4_bin'', ci_CharacterSetName = ''utf8mb4''\<rparr>"

definition key_text :: "hash_value list \<Rightarrow> string" where
  "key_text r = (case r of [HBytes s] \<Rightarrow> s | _ \<Rightarrow> '''')"

definition key_order :: "(string \<Rightarrow> string) \<Rightarrow> hash_value list \<Rightarrow> hash_value list \<Rightarrow> bool" where
  "key_order f a b = (f (key_text a) < f (key_text b))"

definition example_content :: "(hash_value list \<Rightarrow> hash_value list \<Rightarrow> bool) \<Rightarrow> hash_value list list \<Rightarrow> table_content" where
  "example_content lt rows = \<lparr>tn_columns = [example_column], tn_keys = [''k''], tn_less = lt, tn_rows = rows\<rparr>"

definition example_verify_options :: VerifyOptions where
  "example_verify_options = \<lparr>vo_IncludeDatabases = [], vo_ExcludeDatabases = [], vo_SampleSize = 2\<rparr>"

definition example_json :: json_lib where
  "example_json = \<lparr>js_valid = (\<lambda>s. False), js_canonical = (\<lambda>s. None)\<rparr>"

lemma key_order_asym: "key_order f a b \<Longrightarrow> \<not> key_order f b a"
  by (simp add: key_order_def)

lemma example_readable:
  assumes "sorted_wrt lt rows" and "list_all (\<lambda>r. length r = 1) rows" and "\<And>a b. lt a b \<Longrightarrow> \<not> lt b a"
  shows "readable (example_verify_side lt rows) [''d''] (\<lambda>db. [''t'']) (\<lambda>db t. example_content lt rows)"
proof -
  have k: "keyCursorFromRow r [0] = r" if "r \<in> set rows" for r
    using assms(2) that by (cases r) (auto simp: keyCursorFromRow_def list_all_iff)
  have "sorted_wrt (\<lambda>r r'. lt (keyCursorFromRow r [0]) (keyCursorFromRow r' [0])) rows"
    by (rule sorted_wrt_mono_rel [OF _ assms(1)]) (simp add: k)
  moreover have "filter (\<lambda>r. lt c r) rows = filter (\<lambda>r. lt c (keyCursorFromRow r [0])) rows" for c
    by (rule filter_cong) (simp_all add: k)
  moreover have "keyColumnIndexes [example_column] [''k''] = Inr [0]"
    by (simp add: keyColumnIndexes_def example_column_def)
  ultimately have "keyset_rows (example_verify_side lt rows) ''d'' ''t'' [example_column] [''k''] lt rows"
    using assms(3) unfolding keyset_rows_def by (intro exI [of _ "[0]"]) (auto simp: example_verify_side_def)
  moreover have "listTableColumnInfo (example_verify_side lt rows) ''d'' ''t'' = Inr [example_column]"
    by (simp add: listTableColumnInfo_def example_verify_side_def example_column_def) (code_simp)
  moreover have "verify_listStableKeyColumns (example_verify_side lt rows) ''d'' ''t'' = Inr [''k'']"
    by (simp add: verify_listStableKeyColumns_def example_verify_side_def) (code_simp)
  ultimately show ?thesis
    by (simp add: readable_def readable_table_def example_content_def)
      (simp add: verify_listBaseTables_def example_verify_side_def)
qed

lemma example_selected: "selected_databases example_verify_options [''d''] [''d''] = [''d'']"
  by code_simp

lemma example_ready_verify: "ready (example_verify_side lt rows) (example_verify_side lt' rows') example_verify_options [''d''] []"
  by (simp add: ready_def example_verify_side_def prepareVerifySession_def verify_listDatabases_def rows_or_error_def
      tableRiskProfiles_def example_selected)

lemma example_valid:
  "list_all (list_all valid_utf8) (map (normalized_row example_json [example_column]) [[HBytes ''a''], [HBytes ''B''], [HBytes ''c'']])"
  by code_simp

lemma example_normalized: "normalized_row example_json [example_column] [HBytes s] = [''string:'' @ s]"
  by (simp add: normalized_row_def normalize_text json_value_def example_json_def example_column_def shouldTreatAsText_def split: if_splits)

text \<open>Two orders of the same two keys: by bytes, and without regard to case.\<close>

definition by_bytes :: verify_side where
  "by_bytes = example_verify_side (key_order id) [[HBytes ''B''], [HBytes ''a'']]"

definition by_letters :: verify_side where
  "by_letters = example_verify_side (key_order ToLower) [[HBytes ''a''], [HBytes ''B'']]"

lemma example_orders:
  "readable by_bytes [''d''] (\<lambda>db. [''t'']) (\<lambda>db t. example_content (key_order id) [[HBytes ''B''], [HBytes ''a'']])"
  "readable by_letters [''d''] (\<lambda>db. [''t'']) (\<lambda>db t. example_content (key_order ToLower) [[HBytes ''a''], [HBytes ''B'']])"
  unfolding by_bytes_def by_letters_def
  by (rule example_readable; (simp add: key_order_asym)?; code_simp)+

lemma example_seen:
  "seen_content example_json hashModeHash 0 (example_content lt rows) = map (normalized_row example_json [example_column]) rows"
  by (simp add: seen_content_def seen_rows_def example_content_def)

theorem hash_report_order_free_witness:
  "sortDiffs (ty_diffs (diffTableHashes ''d'' [(''b'', ''1''), (''a'', ''2'')] [] (\<lambda>t. None))) =
   sortDiffs (ty_diffs (diffTableHashes ''d'' [(''a'', ''2''), (''b'', ''1'')] [] (\<lambda>t. None)))"
  using hash_report_order_free [of "[(''b'', ''1''), (''a'', ''2'')]" "[]" "[(''a'', ''2''), (''b'', ''1'')]" "[]" "''d''" "\<lambda>t. None"]
  by (simp add: add_mset_commute)

theorem VerifyCount_reports_witness:
  "\<exists>summary. VerifyCount True (example_verify_side (key_order id) [[HNil], [HNil]]) by_bytes example_verify_options = (None, summary) \<and>
     vy_Diffs summary = [] \<and>
   (\<exists>summary. VerifyCount True (example_verify_side (key_order id) [[HNil]]) by_bytes example_verify_options = (None, summary) \<and>
     count_differs ''d'' ''t'' 1 2 \<in> set (vy_Diffs summary))"
proof -
  have l: "verify_listDatabases (example_verify_side lt rows) = Inr [''d'']" for lt rows
    by (simp add: verify_listDatabases_def example_verify_side_def rows_or_error_def)
  have c: "counted (example_verify_side lt rows) [''d''] (\<lambda>db. [''t'']) (\<lambda>db t. int (length rows))" for lt rows
    by (simp add: counted_def verify_listBaseTables_def countRows_def example_verify_side_def rows_or_error_def)
  have sel: "counted (example_verify_side lt rows) (selected_databases example_verify_options [''d''] [''d'']) (\<lambda>db. [''t'']) (\<lambda>db t. int (length rows))" for lt rows
    using c by (simp add: example_selected)
  note r = VerifyCount_reports [OF l l sel sel]
  obtain s where s: "VerifyCount True (example_verify_side (key_order id) [[HNil], [HNil]]) by_bytes example_verify_options = (None, s)"
    "\<forall>d. d \<in> set (vy_Diffs s) \<longleftrightarrow> count_finding (\<lambda>db. [''t'']) (\<lambda>db t. 2) (\<lambda>db. [''t'']) (\<lambda>db t. 2) ''d'' d"
    using r [of "key_order id" "[[HNil], [HNil]]" "key_order id" "[[HBytes ''B''], [HBytes ''a'']]"] by (auto simp: by_bytes_def example_selected)
  obtain s' where s': "VerifyCount True (example_verify_side (key_order id) [[HNil]]) by_bytes example_verify_options = (None, s')"
    "\<forall>d. d \<in> set (vy_Diffs s') \<longleftrightarrow> count_finding (\<lambda>db. [''t'']) (\<lambda>db t. 1) (\<lambda>db. [''t'']) (\<lambda>db t. 2) ''d'' d"
    using r [of "key_order id" "[[HNil]]" "key_order id" "[[HBytes ''B''], [HBytes ''a'']]"] by (auto simp: by_bytes_def example_selected)
  have "set (vy_Diffs s) = {}" using s(2) by (auto simp: count_finding_def)
  moreover have "count_differs ''d'' ''t'' 1 2 \<in> set (vy_Diffs s')" using s'(2) by (simp add: count_finding_def)
  ultimately show ?thesis using s(1) s'(1) by auto
qed

theorem VerifyHash_decides_witness:
  "\<exists>summary full. VerifyHash True example_json by_bytes by_bytes example_verify_options = Some (None, summary) \<and> vy_Diffs summary = [] \<and>
     VerifyFullHash True example_json by_bytes by_bytes example_verify_options = Some (None, full) \<and> vy_Diffs full = []"
proof -
  let ?C = "\<lambda>db t :: string. example_content (key_order id) [[HBytes ''B''], [HBytes ''a'']]"
  have "ready by_bytes by_bytes example_verify_options [''d''] []" unfolding by_bytes_def by (rule example_ready_verify)
  moreover have "list_all (same_content example_json hashModeHash 0 (\<lambda>db. [''t'']) ?C (\<lambda>db. [''t'']) ?C) [''d'']"
    by (simp add: same_content_def)
  ultimately show ?thesis using VerifyHash_decides [OF _ example_orders(1) example_orders(1), of example_verify_options "[]" example_json] by blast
qed

theorem VerifySample_decides_witness:
  "\<exists>summary. VerifySample True example_json by_bytes
     (example_verify_side (key_order id) [[HBytes ''B''], [HBytes ''a''], [HBytes ''c'']]) example_verify_options = Some (None, summary) \<and>
     vy_Diffs summary = []"
proof -
  let ?rows = "[[HBytes ''B''], [HBytes ''a''], [HBytes ''c'']]"
  have "sorted_wrt (key_order id) ?rows" by code_simp
  then have "readable (example_verify_side (key_order id) ?rows) [''d''] (\<lambda>db. [''t'']) (\<lambda>db t. example_content (key_order id) ?rows)"
    by (rule example_readable) (simp_all add: key_order_asym)
  moreover have "ready by_bytes (example_verify_side (key_order id) ?rows) example_verify_options [''d''] []"
    unfolding by_bytes_def by (rule example_ready_verify)
  moreover have "2 = (if vo_SampleSize example_verify_options < 1 then 1000 else vo_SampleSize example_verify_options)"
    by (simp add: example_verify_options_def)
  ultimately show ?thesis
    using VerifySample_decides [OF _ example_orders(1), of _ example_verify_options "[]" _ _ 2
        "\<lambda>c. map (normalized_row example_json (tn_columns c)) (take (nat 2) (tn_rows c))" example_json]
    by (fastforce simp: example_content_def)
qed

theorem row_order_matters_witness:
  "(\<exists>summary. VerifyHash True example_json by_bytes by_letters example_verify_options = Some (None, summary) \<and>
     ca_RowOrderIndependent (vy_Canonicalization summary) \<and>
     list_ex (\<lambda>d. df_Kind d = diffKindTableHashMismatch \<and> df_Database d = ''d'' \<and> df_Table d = ''t'') (vy_Diffs summary)) \<or>
   collision (content_texts example_json hashModeHash 0 (example_content (key_order id) [[HBytes ''B''], [HBytes ''a'']]))
     (content_texts example_json hashModeHash 0 (example_content (key_order ToLower) [[HBytes ''a''], [HBytes ''B'']]))"
proof -
  have r: "ready by_bytes by_letters example_verify_options [''d''] []" unfolding by_bytes_def by_letters_def by (rule example_ready_verify)
  have "list_all valid_utf8 [''string:a'']" "list_all valid_utf8 [''string:B'']" by code_simp+
  then show ?thesis
    by (intro row_order_matters [OF r example_orders]) (simp_all add: example_seen example_normalized add_mset_commute)
qed

theorem normalization_identifies_witness:
  "normalizeHashValue example_json (HBytes ''x'') example_column = normalizeHashValue example_json (HString ''x'') example_column \<and>
   value_text example_column (HBytes ''x'') = Some ''x'' \<and> value_text example_column (HString ''x'') = Some ''x''"
proof -
  have e: "normalizeHashValue example_json (HBytes ''x'') example_column = normalizeHashValue example_json (HString ''x'') example_column"
    by (simp add: example_column_def shouldTreatAsText_def)
  then have "\<exists>s t. value_text example_column (HBytes ''x'') = Some s \<and> value_text example_column (HString ''x'') = Some t"
    using normalization_identifies [OF e] by auto
  then show ?thesis using e by (auto simp: value_text_def split: if_splits)
qed

end
