(* ===== verification/Go_Regexp.thy ===== *)
theory Go_Regexp
  imports Sql_Text
begin

text \<open>
  The three regular expressions of internal/verify/schema/verify.go (lines 16-20; internal/schema/copy.go
  has one of them again, line 22) as matchers, ReplaceAllString, and the answer to SHOW CREATE.
\<close>

section \<open>Regular expressions\<close>

definition re_space :: "char \<Rightarrow> bool" where
  "re_space c = (c \<in> set [CHR '' '', CHR 0x09, CHR 0x0A, CHR 0x0C, CHR 0x0D])"

definition word_char :: "char \<Rightarrow> bool" where
  "word_char c = (is_digit c \<or> c = CHR ''_'' \<or> upper_char c \<in> set ''ABCDEFGHIJKLMNOPQRSTUVWXYZ'')"

text \<open>A matcher is given the character before the position and the text from there, and gives the rest after a match.\<close>

type_synonym matcher = "char option \<Rightarrow> string \<Rightarrow> string option"

text \<open>ReplaceAllString: matches are searched from the left and do not overlap. A match is never empty here.\<close>

function replace_all :: "matcher \<Rightarrow> string \<Rightarrow> char option \<Rightarrow> string \<Rightarrow> string" where
  "replace_all m repl before s =
     (case s of
        [] \<Rightarrow> []
      | c # t \<Rightarrow>
          (case m before s of
             Some rest \<Rightarrow>
               (if length rest < length s then repl @ replace_all m repl (Some (s ! (length s - length rest - 1))) rest
                else c # replace_all m repl (Some c) t)
           | None \<Rightarrow> c # replace_all m repl (Some c) t))"
  by auto

termination replace_all
  by (relation "measure (\<lambda>(m, repl, before, s). length s)") auto

declare replace_all.simps [simp del]

definition starts_word :: "char option \<Rightarrow> bool" where
  "starts_word before = (case before of None \<Rightarrow> True | Some c \<Rightarrow> \<not> word_char c)"

text \<open>(?i)word at the head of a text.\<close>

definition match_word :: "string \<Rightarrow> string \<Rightarrow> string option" where
  "match_word word s = (if ToUpper (take (length word) s) = word then Some (drop (length word) s) else None)"

definition match_equals :: "string \<Rightarrow> string option" where
  "match_equals s =
     (case dropWhile re_space s of c # t \<Rightarrow> if c = CHR ''='' then Some (dropWhile re_space t) else None | [] \<Rightarrow> None)"

text \<open>A name in backticks that is not empty.\<close>

definition match_name :: "string \<Rightarrow> string option" where
  "match_name s =
     (case s of
        c # t \<Rightarrow>
          (if c = backtick \<and> takeWhile (\<lambda>c. c \<noteq> backtick) t \<noteq> [] \<and> dropWhile (\<lambda>c. c \<noteq> backtick) t \<noteq> []
           then Some (tl (dropWhile (\<lambda>c. c \<noteq> backtick) t)) else None)
      | [] \<Rightarrow> None)"

definition definerRe :: matcher where
  "definerRe before s =
     (if \<not> starts_word before then None
      else case match_word ''DEFINER'' s of None \<Rightarrow> None | Some a \<Rightarrow>
          (case match_equals a of None \<Rightarrow> None | Some b \<Rightarrow>
          (case match_name b of
             Some (at # d) \<Rightarrow> if at = CHR ''@'' then match_name d else None
           | _ \<Rightarrow> None)))"

definition autoIncrementRe :: matcher where
  "autoIncrementRe before s =
     (if \<not> starts_word before then None
      else case match_word ''AUTO_INCREMENT'' s of None \<Rightarrow> None | Some a \<Rightarrow>
          (case match_equals a of None \<Rightarrow> None | Some b \<Rightarrow>
            (let rest = dropWhile is_digit b
             in if takeWhile is_digit b = [] \<or> (rest \<noteq> [] \<and> word_char (hd rest)) then None else Some rest)))"

definition whitespaceRe :: matcher where
  "whitespaceRe before s = (if takeWhile re_space s = [] then None else Some (dropWhile re_space s))"

section \<open>SHOW CREATE\<close>

text \<open>The answer to SHOW CREATE: the number of columns and the first row, if there is one.\<close>

datatype show_answer = ShowError string | ShowRow nat "(string + string list) option"

end
