(* ===== verification/Verify_Schema.thy ===== *)
theory Verify_Schema
  imports Verify_Diff Go_Regexp
begin

text \<open>
  The verification of schemas (internal/verify/schema/verify.go): the definitions that SHOW CREATE
  gives for the objects of both sides are normalized and compared. The answers of the servers are
  a parameter.
\<close>

section \<open>Normal form of a definition\<close>

record fold_state =
  fo_single :: bool
  fo_double :: bool
  fo_backtick :: bool
  fo_escape :: bool

definition fold_start :: fold_state where
  "fold_start = \<lparr>fo_single = False, fo_double = False, fo_backtick = False, fo_escape = False\<rparr>"

definition fold_char :: "fold_state \<Rightarrow> char \<Rightarrow> char \<times> fold_state" where
  "fold_char st r =
     (if fo_escape st then (r, st\<lparr>fo_escape := False\<rparr>)
      else if r = CHR 0x5C \<and> (fo_single st \<or> fo_double st) then (r, st\<lparr>fo_escape := True\<rparr>)
      else if r = CHR 0x27 \<and> \<not> fo_double st \<and> \<not> fo_backtick st then (r, st\<lparr>fo_single := \<not> fo_single st\<rparr>)
      else if r = CHR 0x22 \<and> \<not> fo_single st \<and> \<not> fo_backtick st then (r, st\<lparr>fo_double := \<not> fo_double st\<rparr>)
      else if r = backtick \<and> \<not> fo_single st \<and> \<not> fo_double st then (r, st\<lparr>fo_backtick := \<not> fo_backtick st\<rparr>)
      else if fo_single st \<or> fo_double st \<or> fo_backtick st then (r, st)
      else (lower_char r, st))"

fun fold_chars :: "fold_state \<Rightarrow> string \<Rightarrow> string" where
  "fold_chars st [] = []"
| "fold_chars st (c # s) = (case fold_char st c of (d, st') \<Rightarrow> d # fold_chars st' s)"

definition foldUnquotedSQLCase :: "string \<Rightarrow> string" where
  "foldUnquotedSQLCase s = fold_chars fold_start s"

definition trim_semicolon :: "string \<Rightarrow> string" where
  "trim_semicolon s = (if HasSuffix s '';'' then butlast s else s)"

definition normalizeCreateStatement :: "string \<Rightarrow> string" where
  "normalizeCreateStatement createSQL =
     (let n = trim_semicolon (TrimSpace createSQL);
          n = replace_all definerRe ''DEFINER=?'' None n;
          n = replace_all autoIncrementRe ''AUTO_INCREMENT=?'' None n;
          n = replace_all whitespaceRe '' '' None n;
          n = foldUnquotedSQLCase (TrimSpace n)
      in ReplaceByte n backtick [])"

section \<open>The objects of a database\<close>

record SchemaVerifyOptions =
  so_IncludeDatabases :: "string list"
  so_ExcludeDatabases :: "string list"
  so_IncludeTables :: bool
  so_IncludeViews :: bool
  so_IncludeRoutines :: bool
  so_IncludeTriggers :: bool
  so_IncludeEvents :: bool

record SchemaDiff =
  sd_Kind :: string
  sd_Database :: string
  sd_ObjectType :: string
  sd_ObjectName :: string
  sd_SourceCreateSQL :: string
  sd_DestCreateSQL :: string

record SchemaSummary =
  sy_Databases :: nat
  sy_ObjectsCompared :: nat
  sy_MissingInDestination :: nat
  sy_MissingInSource :: nat
  sy_DefinitionMismatches :: nat
  sy_Diffs :: "SchemaDiff list"

record objectDef =
  od_ObjectType :: string
  od_ObjectName :: string
  od_CreateSQL :: string
  od_normalized :: string

record schema_side =
  ss_schemata :: "string query_result"
  ss_objects :: "string \<Rightarrow> string \<Rightarrow> string query_result"
  ss_routines :: "string \<Rightarrow> string \<Rightarrow> string query_result"
  ss_triggers :: "string \<Rightarrow> string query_result"
  ss_events :: "string \<Rightarrow> string query_result"
  ss_show :: "string \<Rightarrow> show_answer"

definition schema_listDatabases :: "schema_side \<Rightarrow> string + string list" where
  "schema_listDatabases side = rows_or_error (ss_schemata side)"

definition listObjectsByType :: "schema_side \<Rightarrow> string \<Rightarrow> string \<Rightarrow> string + string list" where
  "listObjectsByType side databaseName objectType = rows_or_error (ss_objects side databaseName objectType)"

definition listRoutinesByType :: "schema_side \<Rightarrow> string \<Rightarrow> string \<Rightarrow> string + string list" where
  "listRoutinesByType side databaseName routineType = rows_or_error (ss_routines side databaseName routineType)"

definition listTriggerNames :: "schema_side \<Rightarrow> string \<Rightarrow> string + string list" where
  "listTriggerNames side databaseName = rows_or_error (ss_triggers side databaseName)"

definition listEventNames :: "schema_side \<Rightarrow> string \<Rightarrow> string + string list" where
  "listEventNames side databaseName = rows_or_error (ss_events side databaseName)"

definition fetchShowCreate :: "schema_side \<Rightarrow> string \<Rightarrow> nat \<Rightarrow> string + string" where
  "fetchShowCreate side query col =
     (case ss_show side query of
        ShowError e \<Rightarrow> Inl e
      | ShowRow n row \<Rightarrow>
          (if n \<le> col then Inl (''unexpected SHOW CREATE result: expected column '' @ show_nat col @ '', got '' @ show_nat n @ '' columns'')
           else (case row of
                   None \<Rightarrow> Inl ''sql: no rows in result set''
                 | Some (Inl e) \<Rightarrow> Inl e
                 | Some (Inr cells) \<Rightarrow>
                     (let createSQL = TrimSpace (cells ! col)
                      in if createSQL = '''' then Inl ''empty CREATE statement'' else Inr createSQL))))"

text \<open>The definitions of the objects of one type, added to the map.\<close>

fun read_definitions ::
  "schema_side \<Rightarrow> string \<Rightarrow> string \<Rightarrow> string \<Rightarrow> nat \<Rightarrow> string list \<Rightarrow> (string \<times> objectDef) list \<Rightarrow> string + (string \<times> objectDef) list" where
  "read_definitions side databaseName objectType word col [] out = Inr out"
| "read_definitions side databaseName objectType word col (objectName # names) out =
     (case fetchShowCreate side
             (''SHOW CREATE '' @ word @ '' '' @ quoteIdentifier databaseName @ ''.'' @ quoteIdentifier objectName) col of
        Inl e \<Rightarrow> Inl e
      | Inr createSQL \<Rightarrow>
          read_definitions side databaseName objectType word col names
            (AList.update (objectType @ '':'' @ objectName)
               \<lparr>od_ObjectType = objectType, od_ObjectName = objectName, od_CreateSQL = createSQL,
                od_normalized = normalizeCreateStatement createSQL\<rparr> out))"

type_synonym object_kind = "bool \<times> (string + string list) \<times> string \<times> string \<times> nat"

definition object_kinds :: "schema_side \<Rightarrow> string \<Rightarrow> SchemaVerifyOptions \<Rightarrow> object_kind list" where
  "object_kinds side databaseName opts =
     [(so_IncludeTables opts, listObjectsByType side databaseName ''BASE TABLE'', ''table'', ''TABLE'', 1),
      (so_IncludeViews opts, listObjectsByType side databaseName ''VIEW'', ''view'', ''VIEW'', 1),
      (so_IncludeRoutines opts, listRoutinesByType side databaseName ''PROCEDURE'', ''procedure'', ''PROCEDURE'', 2),
      (so_IncludeRoutines opts, listRoutinesByType side databaseName ''FUNCTION'', ''function'', ''FUNCTION'', 2),
      (so_IncludeTriggers opts, listTriggerNames side databaseName, ''trigger'', ''TRIGGER'', 2),
      (so_IncludeEvents opts, listEventNames side databaseName, ''event'', ''EVENT'', 3)]"

fun read_kinds :: "schema_side \<Rightarrow> string \<Rightarrow> object_kind list \<Rightarrow> (string \<times> objectDef) list \<Rightarrow> string + (string \<times> objectDef) list" where
  "read_kinds side databaseName [] out = Inr out"
| "read_kinds side databaseName ((included, names, objectType, word, col) # kinds) out =
     (if \<not> included then read_kinds side databaseName kinds out
      else bind_result names (\<lambda>names.
           bind_result (read_definitions side databaseName objectType word col names out)
             (read_kinds side databaseName kinds)))"

definition listObjectDefinitions :: "schema_side \<Rightarrow> string \<Rightarrow> SchemaVerifyOptions \<Rightarrow> string + (string \<times> objectDef) list" where
  "listObjectDefinitions side databaseName opts = read_kinds side databaseName (object_kinds side databaseName opts) []"

section \<open>Comparison\<close>

definition schema_diff :: "string \<Rightarrow> string \<Rightarrow> objectDef \<Rightarrow> SchemaDiff" where
  "schema_diff kind databaseName d =
     \<lparr>sd_Kind = kind, sd_Database = databaseName, sd_ObjectType = od_ObjectType d, sd_ObjectName = od_ObjectName d,
      sd_SourceCreateSQL = '''', sd_DestCreateSQL = ''''\<rparr>"

definition object_missing :: "string \<Rightarrow> string \<Rightarrow> objectDef \<Rightarrow> SchemaDiff" where
  "object_missing databaseName key d =
     (schema_diff ''missing_in_destination'' databaseName d)\<lparr>sd_SourceCreateSQL := od_CreateSQL d\<rparr>"

definition object_differs :: "string \<Rightarrow> string \<Rightarrow> objectDef \<Rightarrow> objectDef \<Rightarrow> SchemaDiff" where
  "object_differs databaseName key d d' =
     (schema_diff ''definition_mismatch'' databaseName d)\<lparr>sd_SourceCreateSQL := od_CreateSQL d, sd_DestCreateSQL := od_CreateSQL d'\<rparr>"

definition object_extra :: "string \<Rightarrow> string \<Rightarrow> objectDef \<Rightarrow> SchemaDiff" where
  "object_extra databaseName key d = (schema_diff ''missing_in_source'' databaseName d)\<lparr>sd_DestCreateSQL := od_CreateSQL d\<rparr>"

definition same_definition :: "objectDef \<Rightarrow> objectDef \<Rightarrow> bool" where
  "same_definition d d' = (od_normalized d = od_normalized d')"

definition diffObjectMaps :: "string \<Rightarrow> (string \<times> objectDef) list \<Rightarrow> (string \<times> objectDef) list \<Rightarrow> SchemaDiff tally" where
  "diffObjectMaps databaseName source dest =
     compare_maps (object_missing databaseName) same_definition (object_differs databaseName) (\<lambda>d. False)
       (object_extra databaseName) source dest"

definition schema_diff_key :: "SchemaDiff \<Rightarrow> string \<times> string \<times> string \<times> string" where
  "schema_diff_key d = (sd_Database d, sd_ObjectType d, sd_ObjectName d, sd_Kind d)"

definition schema_sortDiffs :: "SchemaDiff list \<Rightarrow> SchemaDiff list" where
  "schema_sortDiffs diffs = sort_key schema_diff_key diffs"

definition schema_summary :: "nat \<Rightarrow> SchemaSummary" where
  "schema_summary n = \<lparr>sy_Databases = n, sy_ObjectsCompared = 0, sy_MissingInDestination = 0, sy_MissingInSource = 0,
     sy_DefinitionMismatches = 0, sy_Diffs = []\<rparr>"

definition add_schema_tally :: "SchemaDiff tally \<Rightarrow> SchemaSummary \<Rightarrow> SchemaSummary" where
  "add_schema_tally t summary =
     summary\<lparr>sy_Diffs := sy_Diffs summary @ ty_diffs t, sy_ObjectsCompared := sy_ObjectsCompared summary + ty_compared t,
             sy_MissingInDestination := sy_MissingInDestination summary + ty_missingDestination t,
             sy_MissingInSource := sy_MissingInSource summary + ty_missingSource t,
             sy_DefinitionMismatches := sy_DefinitionMismatches summary + ty_mismatch t\<rparr>"

fun schema_databases ::
  "schema_side \<Rightarrow> schema_side \<Rightarrow> SchemaVerifyOptions \<Rightarrow> string list \<Rightarrow> SchemaSummary \<Rightarrow> string option \<times> SchemaSummary" where
  "schema_databases source dest opts [] summary = (None, summary)"
| "schema_databases source dest opts (databaseName # rest) summary =
     (case listObjectDefinitions source databaseName opts of
        Inl e \<Rightarrow> (Some (''inspect source schema for '' @ databaseName @ '': '' @ e), summary)
      | Inr sourceObjects \<Rightarrow>
          (case listObjectDefinitions dest databaseName opts of
             Inl e \<Rightarrow> (Some (''inspect destination schema for '' @ databaseName @ '': '' @ e), summary)
           | Inr destObjects \<Rightarrow>
               schema_databases source dest opts rest (add_schema_tally (diffObjectMaps databaseName sourceObjects destObjects) summary)))"

definition no_object_types :: "SchemaVerifyOptions \<Rightarrow> bool" where
  "no_object_types opts =
     (\<not> so_IncludeTables opts \<and> \<not> so_IncludeViews opts \<and> \<not> so_IncludeRoutines opts \<and> \<not> so_IncludeTriggers opts \<and>
      \<not> so_IncludeEvents opts)"

definition Verify :: "bool \<Rightarrow> schema_side \<Rightarrow> schema_side \<Rightarrow> SchemaVerifyOptions \<Rightarrow> string option \<times> SchemaSummary" where
  "Verify connected source dest opts =
     (if \<not> connected then (Some ''source and destination connections are required'', schema_summary 0)
      else if no_object_types opts then (Some ''at least one object type must be enabled'', schema_summary 0)
      else (case schema_listDatabases source of
              Inl e \<Rightarrow> (Some (''list source databases: '' @ e), schema_summary 0)
            | Inr sourceDatabases \<Rightarrow>
                (case schema_listDatabases dest of
                   Inl e \<Rightarrow> (Some (''list destination databases: '' @ e), schema_summary 0)
                 | Inr destDatabases \<Rightarrow>
                     (let selected = SelectDatabases (unionAndSort sourceDatabases destDatabases) (so_IncludeDatabases opts)
                            (so_ExcludeDatabases opts)
                      in case schema_databases source dest opts selected (schema_summary (length selected)) of
                           (Some e, summary) \<Rightarrow> (Some e, summary)
                         | (None, summary) \<Rightarrow> (None, summary\<lparr>sy_Diffs := schema_sortDiffs (sy_Diffs summary)\<rparr>)))))"

end
