(* ===== verification/Verify_Schema_Check.thy ===== *)
theory Verify_Schema_Check
  imports Verify_Schema
begin

text \<open>
  What the verification of schemas says (internal/verify/schema/verify.go): it reports exactly the
  objects that one side lacks or whose normalized definitions differ, independently of the order
  of maps, and the normal form identifies definitions that differ in white space anywhere, in
  string literals and comments as well.
\<close>

section \<open>The report as a comparison of maps\<close>

definition object_key :: "string \<Rightarrow> string \<Rightarrow> string" where
  "object_key objectType objectName = objectType @ '':'' @ objectName"

interpretation objects: map_comparison "object_missing db" same_definition "object_differs db" "\<lambda>d. False" "object_extra db"
    schema_diff_key "\<lambda>d. object_key (sd_ObjectType d) (sd_ObjectName d)" "\<lambda>k d. k = object_key (od_ObjectType d) (od_ObjectName d)" for db
  by unfold_locales (auto simp: object_missing_def object_differs_def object_extra_def schema_diff_def schema_diff_key_def object_key_def)

definition keyed :: "(string \<times> objectDef) list \<Rightarrow> bool" where
  "keyed xs = (distinct (map fst xs) \<and> list_all (\<lambda>(k, d). k = object_key (od_ObjectType d) (od_ObjectName d)) xs)"

text \<open>
  The report of a database and its counters do not depend on the order in which the two
  maps of objects are ranged over.
\<close>

theorem schema_report_order_free:
  assumes "keyed source" and "keyed dest" and "mset source = mset source'" and "mset dest = mset dest'"
  shows "schema_sortDiffs (ty_diffs (diffObjectMaps db source dest)) = schema_sortDiffs (ty_diffs (diffObjectMaps db source' dest')) \<and>
    ty_compared (diffObjectMaps db source dest) = ty_compared (diffObjectMaps db source' dest') \<and>
    ty_missingDestination (diffObjectMaps db source dest) = ty_missingDestination (diffObjectMaps db source' dest') \<and>
    ty_missingSource (diffObjectMaps db source dest) = ty_missingSource (diffObjectMaps db source' dest') \<and>
    ty_mismatch (diffObjectMaps db source dest) = ty_mismatch (diffObjectMaps db source' dest')"
proof -
  have "objects.entries_ok source" "objects.entries_ok dest" using assms(1,2) by (simp_all add: objects.entries_ok_def keyed_def)
  note f = objects.order_free [OF this assms(3,4)]
  show ?thesis unfolding schema_sortDiffs_def diffObjectMaps_def by (intro conjI f)
qed

section \<open>The definitions of a side\<close>

record schema_content =
  sc_names :: "string \<Rightarrow> string list"
  sc_sql :: "string \<Rightarrow> string \<Rightarrow> string"

definition included_types :: "SchemaVerifyOptions \<Rightarrow> string list" where
  "included_types opts =
     (if so_IncludeTables opts then [''table''] else []) @ (if so_IncludeViews opts then [''view''] else []) @
     (if so_IncludeRoutines opts then [''procedure'', ''function''] else []) @
     (if so_IncludeTriggers opts then [''trigger''] else []) @ (if so_IncludeEvents opts then [''event''] else [])"

definition content_def :: "schema_content \<Rightarrow> string \<Rightarrow> string \<Rightarrow> objectDef" where
  "content_def c ty n = \<lparr>od_ObjectType = ty, od_ObjectName = n, od_CreateSQL = sc_sql c ty n,
     od_normalized = normalizeCreateStatement (sc_sql c ty n)\<rparr>"

definition object_map :: "schema_content \<Rightarrow> string list \<Rightarrow> (string \<times> objectDef) list" where
  "object_map c tys = concat (map (\<lambda>ty. map (\<lambda>n. (object_key ty n, content_def c ty n)) (sc_names c ty)) tys)"

text \<open>The queries for a kind of objects succeed and give the objects of a content.\<close>

definition kind_described :: "schema_side \<Rightarrow> string \<Rightarrow> schema_content \<Rightarrow> object_kind \<Rightarrow> bool" where
  "kind_described side db c k =
     (case k of (included, names, ty, word, col) \<Rightarrow> included \<longrightarrow>
        names = Inr (sc_names c ty) \<and> distinct (sc_names c ty) \<and>
        list_all (\<lambda>n. fetchShowCreate side (''SHOW CREATE '' @ word @ '' '' @ quoteIdentifier db @ ''.'' @ quoteIdentifier n) col =
          Inr (sc_sql c ty n)) (sc_names c ty))"

definition described :: "schema_side \<Rightarrow> SchemaVerifyOptions \<Rightarrow> (string \<Rightarrow> schema_content) \<Rightarrow> string \<Rightarrow> bool" where
  "described side opts content db = list_all (kind_described side db (content db)) (object_kinds side db opts)"

lemma object_key_inject:
  assumes "CHR '':'' \<notin> set ty" and "CHR '':'' \<notin> set ty'"
  shows "object_key ty n = object_key ty' n' \<longleftrightarrow> ty = ty' \<and> n = n'"
proof
  assume e: "object_key ty n = object_key ty' n'"
  have "takeWhile (\<lambda>c. c \<noteq> CHR '':'') (object_key t m) = t" if "CHR '':'' \<notin> set t" for t m
    using that by (auto simp: object_key_def takeWhile_append)
  with e assms have "ty = ty'" by metis
  with e show "ty = ty' \<and> n = n'" by (simp add: object_key_def)
qed simp

lemma read_definitions_ok:
  assumes "distinct names" and "\<And>n. n \<in> set names \<Longrightarrow> object_key ty n \<notin> fst ` set out"
    and "list_all (\<lambda>n. fetchShowCreate side (''SHOW CREATE '' @ word @ '' '' @ quoteIdentifier db @ ''.'' @ quoteIdentifier n) col =
          Inr (sc_sql c ty n)) names"
  shows "read_definitions side db ty word col names out = Inr (out @ map (\<lambda>n. (object_key ty n, content_def c ty n)) names)"
  using assms
proof (induction names arbitrary: out)
  case (Cons n names)
  have "AList.update (ty @ '':'' @ n) (content_def c ty n) out = out @ [(object_key ty n, content_def c ty n)]"
    using Cons.prems(2) [of n] unfolding object_key_def by (subst update_new) auto
  moreover have "object_key ty m \<notin> fst ` set (out @ [(object_key ty n, content_def c ty n)])" if "m \<in> set names" for m
    using that Cons.prems by (auto simp: object_key_def)
  ultimately show ?case using Cons.IH [of "out @ [(object_key ty n, content_def c ty n)]"] Cons.prems
    by (simp add: content_def_def)
qed simp

definition kind_types :: "object_kind list \<Rightarrow> string list" where
  "kind_types kinds = map (\<lambda>(included, names, ty, word, col). ty) (filter fst kinds)"

lemma read_kinds_ok:
  assumes "list_all (kind_described side db c) kinds" and "distinct (kind_types kinds)"
    and "\<And>ty n. ty \<in> set (kind_types kinds) \<Longrightarrow> object_key ty n \<notin> fst ` set out"
    and "\<And>ty. ty \<in> set (kind_types kinds) \<Longrightarrow> CHR '':'' \<notin> set ty"
  shows "read_kinds side db kinds out = Inr (out @ object_map c (kind_types kinds))"
  using assms
proof (induction kinds arbitrary: out)
  case Nil
  show ?case by (simp add: kind_types_def object_map_def)
next
  case (Cons k kinds)
  obtain included names ty word col where k: "k = (included, names, ty, word, col)" by (cases k)
  show ?case
  proof (cases included)
    case False
    then have "kind_types (k # kinds) = kind_types kinds" by (simp add: kind_types_def k)
    then show ?thesis using Cons False by (simp add: k)
  next
    case True
    then have t: "kind_types (k # kinds) = ty # kind_types kinds" by (simp add: kind_types_def k)
    let ?out = "out @ map (\<lambda>n. (object_key ty n, content_def c ty n)) (sc_names c ty)"
    have "kind_described side db c (True, names, ty, word, col)" using Cons.prems(1) True by (simp add: k)
    moreover have "object_key ty n \<notin> fst ` set out" for n using Cons.prems(3) by (simp add: t)
    ultimately have "read_definitions side db ty word col (sc_names c ty) out = Inr ?out"
      by (intro read_definitions_ok) (simp_all add: kind_described_def)
    moreover have "object_key ty' n \<notin> fst ` set ?out" if "ty' \<in> set (kind_types kinds)" for ty' n
      using Cons.prems(2,3,4) that by (auto simp: t object_key_inject)
    moreover have "read_kinds side db kinds ?out = Inr (?out @ object_map c (kind_types kinds))"
      using Cons.prems calculation(2) by (intro Cons.IH) (simp_all add: t)
    moreover have "names = Inr (sc_names c ty)" using Cons.prems(1) True by (simp add: k kind_described_def)
    ultimately show ?thesis using True unfolding t by (simp add: k object_map_def)
  qed
qed

lemma kind_types_objects: "kind_types (object_kinds side db opts) = included_types opts"
  by (simp add: kind_types_def object_kinds_def included_types_def)

lemma included_types_ok: "distinct (included_types opts)" "ty \<in> set (included_types opts) \<Longrightarrow> CHR '':'' \<notin> set ty"
  by (auto simp: included_types_def split: if_splits)

lemma listObjectDefinitions_ok:
  "described side opts content db \<Longrightarrow> listObjectDefinitions side db opts = Inr (object_map (content db) (included_types opts))"
  using read_kinds_ok [of side db "content db" "object_kinds side db opts" "[]"] included_types_ok
  by (simp add: listObjectDefinitions_def described_def kind_types_objects)

section \<open>What a verification reports\<close>

lemma object_map_member:
  "(k, d) \<in> set (object_map c tys) \<longleftrightarrow> (\<exists>ty \<in> set tys. \<exists>n \<in> set (sc_names c ty). k = object_key ty n \<and> d = content_def c ty n)"
  by (auto simp: object_map_def)

lemma map_of_object_map:
  assumes "\<And>ty. ty \<in> set tys \<Longrightarrow> CHR '':'' \<notin> set ty" and "ty \<in> set tys"
  shows "map_of (object_map c tys) (object_key ty n) = (if n \<in> set (sc_names c ty) then Some (content_def c ty n) else None)"
proof (cases "n \<in> set (sc_names c ty)")
  case True
  then have "(object_key ty n, content_def c ty n) \<in> set (object_map c tys)" using assms(2) by (auto simp: object_map_member)
  then obtain d where d: "map_of (object_map c tys) (object_key ty n) = Some d" by (metis weak_map_of_SomeI)
  then have "d = content_def c ty n"
    using assms by (auto dest!: map_of_SomeD simp: object_map_member object_key_inject)
  then show ?thesis using d True by simp
next
  case False
  then show ?thesis using assms by (auto simp: map_of_eq_None_iff object_map_member object_key_inject)
qed

text \<open>What is reported of an object: one side lacks it, or the normalized definitions differ.\<close>

definition object_finding :: "schema_content \<Rightarrow> schema_content \<Rightarrow> string \<Rightarrow> string \<Rightarrow> SchemaDiff \<Rightarrow> bool" where
  "object_finding c c' db ty d =
     (list_ex (\<lambda>n. n \<notin> set (sc_names c' ty) \<and> d = object_missing db (object_key ty n) (content_def c ty n)) (sc_names c ty) \<or>
      list_ex (\<lambda>n. n \<in> set (sc_names c' ty) \<and>
          normalizeCreateStatement (sc_sql c ty n) \<noteq> normalizeCreateStatement (sc_sql c' ty n) \<and>
          d = object_differs db (object_key ty n) (content_def c ty n) (content_def c' ty n)) (sc_names c ty) \<or>
      list_ex (\<lambda>n. n \<notin> set (sc_names c ty) \<and> d = object_extra db (object_key ty n) (content_def c' ty n)) (sc_names c' ty))"

lemma found_missing_objects:
  assumes "\<And>ty. ty \<in> set tys \<Longrightarrow> CHR '':'' \<notin> set ty"
  shows "d \<in> set (found_missing f (object_map c tys) (object_map c' tys)) \<longleftrightarrow>
    (\<exists>ty \<in> set tys. \<exists>n \<in> set (sc_names c ty). n \<notin> set (sc_names c' ty) \<and> d = f (object_key ty n) (content_def c ty n))"
proof -
  have "d \<in> set (found_missing f (object_map c tys) (object_map c' tys)) \<longleftrightarrow>
      (\<exists>ty \<in> set tys. \<exists>n \<in> set (sc_names c ty). map_of (object_map c' tys) (object_key ty n) = None \<and>
      d = f (object_key ty n) (content_def c ty n))"
    by (fastforce simp: found_missing_iff object_map_member)
  then show ?thesis using assms by (auto simp: map_of_object_map split: if_splits)
qed

lemma found_different_objects:
  assumes "\<And>ty. ty \<in> set tys \<Longrightarrow> CHR '':'' \<notin> set ty"
  shows "d \<in> set (found_different same f (object_map c tys) (object_map c' tys)) \<longleftrightarrow>
    (\<exists>ty \<in> set tys. \<exists>n \<in> set (sc_names c ty). n \<in> set (sc_names c' ty) \<and> \<not> same (content_def c ty n) (content_def c' ty n) \<and>
       d = f (object_key ty n) (content_def c ty n) (content_def c' ty n))"
proof -
  have "d \<in> set (found_different same f (object_map c tys) (object_map c' tys)) \<longleftrightarrow>
      (\<exists>ty \<in> set tys. \<exists>n \<in> set (sc_names c ty). \<exists>w. map_of (object_map c' tys) (object_key ty n) = Some w \<and>
      \<not> same (content_def c ty n) w \<and> d = f (object_key ty n) (content_def c ty n) w)"
    by (fastforce simp: found_different_iff object_map_member)
  then show ?thesis using assms by (auto simp: map_of_object_map split: if_splits)
qed

lemma diff_objects_members:
  "d \<in> set (ty_diffs (diffObjectMaps db (object_map c (included_types opts)) (object_map c' (included_types opts)))) \<longleftrightarrow>
   list_ex (\<lambda>ty. object_finding c c' db ty d) (included_types opts)"
proof -
  note ok = included_types_ok(2) [of _ opts]
  show ?thesis
    by (auto simp: diffObjectMaps_def set_compare_maps found_missing_objects [OF ok] found_different_objects [OF ok]
        same_definition_def content_def_def object_finding_def list_ex_iff)
qed

lemma schema_databases_ok:
  assumes "list_all (described source opts content) dbs" and "list_all (described dest opts content') dbs"
  shows "\<exists>summary'. schema_databases source dest opts dbs summary = (None, summary') \<and>
    sy_Diffs summary' = sy_Diffs summary @ concat (map (\<lambda>db. ty_diffs (diffObjectMaps db
      (object_map (content db) (included_types opts)) (object_map (content' db) (included_types opts)))) dbs)"
  using assms
proof (induction dbs arbitrary: summary)
  case (Cons db dbs)
  then have "described source opts content db" "described dest opts content' db" by simp_all
  note l = this [THEN listObjectDefinitions_ok]
  show ?case using Cons by (fastforce simp: l add_schema_tally_def)
qed simp

text \<open>
  Claim C11. A verification of schemas whose queries succeed ends without an error and reports, sorted
  by database, type, name and kind, exactly the objects of the selected databases and the
  included types that one side lacks or whose normalized definitions differ.
\<close>

theorem SchemaVerify_reports:
  assumes "schema_listDatabases source = Inr sdbs" and "schema_listDatabases dest = Inr ddbs" and "\<not> no_object_types opts"
    and "dbs = SelectDatabases (unionAndSort sdbs ddbs) (so_IncludeDatabases opts) (so_ExcludeDatabases opts)"
    and "list_all (described source opts content) dbs" and "list_all (described dest opts content') dbs"
  shows "\<exists>summary. Verify True source dest opts = (None, summary) \<and> sorted (map schema_diff_key (sy_Diffs summary)) \<and>
    (\<forall>d. d \<in> set (sy_Diffs summary) \<longleftrightarrow>
      list_ex (\<lambda>db. list_ex (\<lambda>ty. object_finding (content db) (content' db) db ty d) (included_types opts)) dbs)"
proof -
  obtain summary where s: "schema_databases source dest opts dbs (schema_summary (length dbs)) = (None, summary)"
    "sy_Diffs summary = concat (map (\<lambda>db. ty_diffs (diffObjectMaps db
      (object_map (content db) (included_types opts)) (object_map (content' db) (included_types opts)))) dbs)"
    using schema_databases_ok [OF assms(5,6), of "schema_summary (length dbs)"] by (auto simp: schema_summary_def)
  have "d \<in> set (sy_Diffs summary) \<longleftrightarrow>
      list_ex (\<lambda>db. list_ex (\<lambda>ty. object_finding (content db) (content' db) db ty d) (included_types opts)) dbs" for d
    unfolding s(2) by (auto simp: diff_objects_members list_ex_iff [of _ dbs])
  then show ?thesis using assms(1-3) s(1) by (simp add: Verify_def Let_def schema_sortDiffs_def flip: assms(4))
qed

section \<open>What the normal form keeps and what it loses\<close>

function squeeze :: "string \<Rightarrow> string" where
  "squeeze [] = []"
| "squeeze (c # s) = (if re_space c then CHR '' '' # squeeze (dropWhile re_space s) else c # squeeze s)"
  by pat_completeness auto

termination squeeze
  by (relation "measure length") (simp_all add: length_dropWhile_le le_imp_less_Suc)

lemma replace_white_space: "replace_all whitespaceRe '' '' before s = squeeze s"
proof (induction s arbitrary: before rule: squeeze.induct)
  case 1
  show ?case by (simp add: replace_all.simps)
next
  case (2 c s)
  have "length (dropWhile re_space s) \<le> length s" by (rule length_dropWhile_le)
  moreover have "whitespaceRe before (c # s) = (if re_space c then Some (dropWhile re_space s) else None)"
    by (simp add: whitespaceRe_def)
  ultimately show ?case using 2 by (subst replace_all.simps) simp
qed

lemma squeeze_spaces:
  assumes "list_all re_space sp" and "sp \<noteq> []" and "list_all re_space sp'" and "sp' \<noteq> []"
  shows "squeeze (a @ sp @ b) = squeeze (a @ sp' @ b)"
proof (induction a rule: squeeze.induct)
  case 1
  have "squeeze (x @ b) = CHR '' '' # squeeze (dropWhile re_space b)" if "list_all re_space x" "x \<noteq> []" for x
    using that by (cases x) (simp_all add: dropWhile_append list_all_iff)
  then show ?case using assms by simp
next
  case (2 c s)
  have d: "dropWhile re_space (s @ x @ b) =
      (if list_all re_space s then dropWhile re_space b else dropWhile re_space s @ x @ b)" if "list_all re_space x" for x
    using that by (auto simp: dropWhile_append list_all_iff)
  show ?case
  proof (cases "re_space c")
    case True
    then show ?thesis using 2(1) assms(1,3) by (auto simp: d)
  next
    case False
    then show ?thesis using 2(2) by simp
  qed
qed

text \<open>A text in which an expression matches nowhere.\<close>

fun no_match :: "matcher \<Rightarrow> char option \<Rightarrow> string \<Rightarrow> bool" where
  "no_match m before [] = True"
| "no_match m before (c # s) = (m before (c # s) = None \<and> no_match m (Some c) s)"

lemma replace_no_match: "no_match m before s \<Longrightarrow> replace_all m repl before s = s"
  by (induction s arbitrary: before) (simp_all add: replace_all.simps)

definition without_patterns :: "string \<Rightarrow> bool" where
  "without_patterns s = (no_match definerRe None s \<and> no_match autoIncrementRe None s)"

text \<open>
  Whatever the white space between two parts of a definition is, in a string literal, in
  front of or behind a comment to the end of the line, the normal form is the same (for texts
  without a definer and without an AUTO_INCREMENT counter).
\<close>

theorem white_space_is_ignored:
  assumes "list_all re_space sp" and "sp \<noteq> []" and "list_all re_space sp'" and "sp' \<noteq> []"
    and "a \<noteq> []" and "\<not> is_space (hd a)" and "b \<noteq> []" and "\<not> is_space (last b)" and "last b \<noteq> CHR '';''"
    and "without_patterns (a @ sp @ b)" and "without_patterns (a @ sp' @ b)"
  shows "normalizeCreateStatement (a @ sp @ b) = normalizeCreateStatement (a @ sp' @ b)"
proof -
  have t: "TrimSpace (a @ x @ b) = a @ x @ b" for x
  proof -
    have "dropWhile is_space (a @ x @ b) = a @ x @ b" using assms(5,6) by (cases a) simp_all
    moreover have "dropWhile is_space (rev (a @ x @ b)) = rev (a @ x @ b)"
      using assms(7,8) by (cases b rule: rev_cases) simp_all
    ultimately show ?thesis by (simp add: TrimSpace_def)
  qed
  have s: "trim_semicolon (a @ x @ b) = a @ x @ b" for x
    using assms(7,9) by (cases b rule: rev_cases) (auto simp: trim_semicolon_def HasSuffix_def)
  have w: "squeeze (a @ sp @ b) = squeeze (a @ sp' @ b)" using assms(1-4) by (rule squeeze_spaces)
  show ?thesis
    using assms(10,11) w by (simp add: normalizeCreateStatement_def t s replace_no_match without_patterns_def replace_white_space)
qed

text \<open>The letters of a text: without white space and backticks, in lower case.\<close>

definition skeleton :: "string \<Rightarrow> string" where
  "skeleton s = map lower_char (filter (\<lambda>c. \<not> is_space c \<and> c \<noteq> backtick) s)"

definition masked :: "string \<Rightarrow> string" where
  "masked s = replace_all autoIncrementRe ''AUTO_INCREMENT=?'' None
     (replace_all definerRe ''DEFINER=?'' None (trim_semicolon (TrimSpace s)))"

lemma skeleton_simps [simp]:
  "skeleton [] = []" "skeleton (c # s) = (if is_space c \<or> c = backtick then skeleton s else lower_char c # skeleton s)"
  "skeleton (s @ t) = skeleton s @ skeleton t"
  by (simp_all add: skeleton_def)

lemma skeleton_dropWhile: "skeleton (dropWhile is_space s) = skeleton s"
  by (induction s) simp_all

lemma skeleton_rev: "skeleton (rev s) = rev (skeleton s)"
  by (simp add: skeleton_def rev_map rev_filter)

lemma skeleton_TrimSpace: "skeleton (TrimSpace s) = skeleton s"
  by (simp add: TrimSpace_def skeleton_rev skeleton_dropWhile)

lemma re_space_is_space: "re_space c \<Longrightarrow> is_space c"
  by (auto simp: re_space_def is_space_def)

lemma skeleton_squeeze: "skeleton (squeeze s) = skeleton s"
proof (induction s rule: squeeze.induct)
  case (2 c s)
  have "skeleton (dropWhile re_space s) = skeleton s" by (induction s) (simp_all add: re_space_is_space)
  then show ?case using 2 re_space_is_space [of c] by (auto simp: is_space_def)
qed simp

lemma lower_char_skeleton:
  "is_space (lower_char c) = is_space c" "lower_char c = backtick \<longleftrightarrow> c = backtick" "lower_char (lower_char c) = lower_char c"
proof -
  let ?n = "of_char c :: nat"
  have n: "(of_char (lower_char c) :: nat) = (if 65 \<le> ?n \<and> ?n \<le> 90 then ?n + 32 else ?n)"
    by (simp add: lower_char_def Let_def of_char_of)
  have eq: "x = y \<longleftrightarrow> (of_char x :: nat) = of_char y" for x y :: char by simp
  have sp: "is_space d \<longleftrightarrow> (of_char d :: nat) \<in> {32, 9, 10, 11, 12, 13}" for d
    unfolding is_space_def eq [of d] by simp
  show "is_space (lower_char c) = is_space c" unfolding sp n by auto
  show "lower_char c = backtick \<longleftrightarrow> c = backtick" unfolding eq [of _ backtick] n by (simp add: backtick_def)
  show "lower_char (lower_char c) = lower_char c" unfolding lower_char_def [of "lower_char c"] Let_def n by (auto simp: lower_char_def Let_def)
qed

lemma skeleton_fold: "skeleton (fold_chars st s) = skeleton s"
proof (induction s arbitrary: st)
  case (Cons c s)
  obtain d st' where f: "fold_char st c = (d, st')" by (cases "fold_char st c")
  then have "d = c \<or> d = lower_char c" by (auto simp: fold_char_def split: if_splits)
  then show ?case using Cons by (auto simp: f lower_char_skeleton)
qed simp

lemma skeleton_backticks: "skeleton (ReplaceByte s backtick []) = skeleton s"
  by (induction s) simp_all

text \<open>
  The normal form loses nothing else: two definitions with the same normal form have, once
  their definers and counters are masked, the same characters up to letter case, white space and
  backticks.
\<close>

theorem normal_form_keeps_text:
  assumes "normalizeCreateStatement s = normalizeCreateStatement t"
  shows "skeleton (masked s) = skeleton (masked t)"
proof -
  have "skeleton (normalizeCreateStatement s) = skeleton (masked s)" for s
    by (simp add: normalizeCreateStatement_def masked_def Let_def skeleton_backticks foldUnquotedSQLCase_def skeleton_fold
        skeleton_TrimSpace replace_white_space skeleton_squeeze)
  then show ?thesis using assms by metis
qed

section \<open>Examples\<close>

definition example_schema_side :: "string \<Rightarrow> schema_side" where
  "example_schema_side ddl =
     \<lparr>ss_schemata = Rows [''shop''], ss_objects = (\<lambda>db ty. Rows [''t'']), ss_routines = (\<lambda>db ty. Rows []),
      ss_triggers = (\<lambda>db. Rows []), ss_events = (\<lambda>db. Rows []), ss_show = (\<lambda>q. ShowRow 2 (Some (Inr [''t'', ddl])))\<rparr>"

definition example_schema_options :: SchemaVerifyOptions where
  "example_schema_options = \<lparr>so_IncludeDatabases = [], so_ExcludeDatabases = [], so_IncludeTables = True, so_IncludeViews = False,
     so_IncludeRoutines = False, so_IncludeTriggers = False, so_IncludeEvents = False\<rparr>"

definition example_schema_content :: "string \<Rightarrow> schema_content" where
  "example_schema_content ddl = \<lparr>sc_names = (\<lambda>ty. [''t'']), sc_sql = (\<lambda>ty n. ddl)\<rparr>"

definition example_ddl :: "string \<Rightarrow> string" where
  "example_ddl width = ''CREATE TABLE t (a int('' @ width @ ''))''"

lemma example_described:
  assumes "TrimSpace ddl = ddl" and "ddl \<noteq> ''''"
  shows "described (example_schema_side ddl) example_schema_options (\<lambda>db. example_schema_content ddl) db"
  using assms by (simp add: described_def object_kinds_def kind_described_def example_schema_options_def example_schema_content_def
      listObjectsByType_def example_schema_side_def rows_or_error_def fetchShowCreate_def)

lemma example_ddl_trimmed: "TrimSpace (example_ddl w) = example_ddl w" "example_ddl w \<noteq> ''''"
proof -
  have "dropWhile is_space (example_ddl w) = example_ddl w" by (simp add: example_ddl_def is_space_def)
  moreover have "dropWhile is_space (rev (example_ddl w)) = rev (example_ddl w)" by (simp add: example_ddl_def is_space_def)
  ultimately show "TrimSpace (example_ddl w) = example_ddl w" by (simp add: TrimSpace_def)
  show "example_ddl w \<noteq> ''''" by (simp add: example_ddl_def)
qed

theorem schema_report_order_free_witness:
  "schema_sortDiffs (ty_diffs (diffObjectMaps ''d'' (object_map (example_schema_content ''x'') [''table'', ''view'']) [])) =
   schema_sortDiffs (ty_diffs (diffObjectMaps ''d'' (object_map (example_schema_content ''x'') [''view'', ''table'']) []))"
proof -
  have "keyed (object_map (example_schema_content ''x'') [''table'', ''view''])" "keyed []" by code_simp+
  then show ?thesis
    using schema_report_order_free [of "object_map (example_schema_content ''x'') [''table'', ''view'']" "[]"
        "object_map (example_schema_content ''x'') [''view'', ''table'']" "[]" "''d''"]
    by (simp add: object_map_def add_mset_commute example_schema_content_def)
qed

theorem SchemaVerify_reports_witness:
  "\<exists>summary. Verify True (example_schema_side (example_ddl ''10'')) (example_schema_side (example_ddl ''11'')) example_schema_options =
     (None, summary) \<and> sy_Diffs summary \<noteq> []"
proof -
  have l: "schema_listDatabases (example_schema_side s) = Inr [''shop'']" for s
    by (simp add: schema_listDatabases_def example_schema_side_def rows_or_error_def)
  have n: "\<not> no_object_types example_schema_options" by code_simp
  have sel: "[''shop''] = SelectDatabases (unionAndSort [''shop''] [''shop'']) (so_IncludeDatabases example_schema_options)
      (so_ExcludeDatabases example_schema_options)" by code_simp
  have d: "list_all (described (example_schema_side (example_ddl w)) example_schema_options (\<lambda>db. example_schema_content (example_ddl w)))
      [''shop'']" for w
    by (simp add: example_described example_ddl_trimmed)
  have "normalizeCreateStatement (example_ddl ''10'') \<noteq> normalizeCreateStatement (example_ddl ''11'')" by code_simp
  then have "object_finding (example_schema_content (example_ddl ''10'')) (example_schema_content (example_ddl ''11'')) ''shop'' ''table''
      (object_differs ''shop'' (object_key ''table'' ''t'') (content_def (example_schema_content (example_ddl ''10'')) ''table'' ''t'')
        (content_def (example_schema_content (example_ddl ''11'')) ''table'' ''t''))"
    by (simp add: object_finding_def example_schema_content_def)
  moreover have "included_types example_schema_options = [''table'']" by code_simp
  ultimately show ?thesis using SchemaVerify_reports [OF l l n sel d d, of "''10''" "''11''"] by fastforce
qed

text \<open>Two bodies of a procedure: in the first the comment ends before the statement, in the second it hides it.\<close>

theorem white_space_is_ignored_witness:
  "normalizeCreateStatement (''CREATE PROCEDURE p() BEGIN -- purge'' @ [CHR 0x0A] @ ''DELETE FROM t; END'') =
   normalizeCreateStatement (''CREATE PROCEDURE p() BEGIN -- purge'' @ '' '' @ ''DELETE FROM t; END'')"
  by (rule white_space_is_ignored) (simp_all add: re_space_def is_space_def, code_simp+)

theorem normal_form_keeps_text_witness:
  "skeleton (masked ''CREATE TABLE `t` (a INT)'') = skeleton (masked ''create table T  (a int);'')"
proof -
  have "normalizeCreateStatement ''CREATE TABLE `t` (a INT)'' = normalizeCreateStatement ''create table T  (a int);''" by code_simp
  then show ?thesis by (rule normal_form_keeps_text)
qed

end
