(* ===== verification/Schema_Copy.thy ===== *)
theory Schema_Copy
  imports Go_Regexp Baseline_Sql
begin

text \<open>
  The copy of schemas (internal/schema/copy.go): the statements that SHOW CREATE gives for the
  objects of the source are executed at the destination, tables in the order of their foreign keys
  (Table_Order) and before views, routines, triggers and events. The dry run in a sandbox executes
  them in other databases and rewrites the qualified names for it. The answers of the source are a
  parameter, as is the destination: a state with the operations that the code calls.
\<close>

section \<open>Data\<close>

record SchemaCopyOptions =
  sx_IncludeDatabases :: "string list"
  sx_ExcludeDatabases :: "string list"
  sx_IncludeTables :: bool
  sx_IncludeViews :: bool
  sx_IncludeRoutines :: bool
  sx_IncludeTriggers :: bool
  sx_IncludeEvents :: bool
  sx_DestEmptyRequired :: bool

record SchemaCopySummary =
  su_Databases :: nat
  su_Tables :: nat
  su_Views :: nat
  su_Routines :: nat
  su_Triggers :: nat
  su_Events :: nat
  su_Statements :: nat

record DryRunSandboxOptions =
  sb_IncludeDatabases :: "string list"
  sb_ExcludeDatabases :: "string list"
  sb_IncludeTables :: bool
  sb_IncludeViews :: bool
  sb_IncludeRoutines :: bool
  sb_IncludeTriggers :: bool
  sb_IncludeEvents :: bool
  sb_MapDatabase :: "(string \<Rightarrow> string) option"

record DryRunSandboxSummary =
  sz_Validated :: nat
  sz_Failed :: nat
  sz_CreatedDatabases :: "string list"

record extractResult =
  er_statements :: "string list"
  er_tableCount :: nat
  er_viewCount :: nat
  er_routineCount :: nat
  er_triggerCount :: nat
  er_eventCount :: nat

record schema_source =
  ds_schemata :: "string query_result"
  ds_objects :: "string \<Rightarrow> string \<Rightarrow> string query_result"
  ds_keys :: "string \<Rightarrow> (string \<times> string) query_result"
  ds_routines :: "string \<Rightarrow> (string \<times> string) query_result"
  ds_triggers :: "string \<Rightarrow> string query_result"
  ds_events :: "string \<Rightarrow> string query_result"
  ds_show :: "string \<Rightarrow> show_answer"

record 'd schema_dest =
  dd_tables :: "'d \<Rightarrow> (string \<times> int) query_result"
  dd_open :: "'d \<Rightarrow> string option \<times> 'd"
  dd_exec :: "string \<Rightarrow> 'd \<Rightarrow> string option \<times> 'd"
  dd_close :: "'d \<Rightarrow> string option \<times> 'd"

section \<open>Statements of the source\<close>

text \<open>The cell of the first row of SHOW CREATE; a NULL is the empty text.\<close>

definition read_show :: "(nat \<Rightarrow> string option) \<Rightarrow> nat \<Rightarrow> show_answer \<Rightarrow> string + string" where
  "read_show bad_columns col answer =
     (case answer of
        ShowError e \<Rightarrow> Inl e
      | ShowRow n row \<Rightarrow>
          (case bad_columns n of
             Some e \<Rightarrow> Inl e
           | None \<Rightarrow>
               (case row of
                  None \<Rightarrow> Inl ''sql: no rows in result set''
                | Some (Inl e) \<Rightarrow> Inl e
                | Some (Inr cells) \<Rightarrow> Inr (cells ! col))))"

definition fetchCreateStatement :: "schema_source \<Rightarrow> string \<Rightarrow> string + string" where
  "fetchCreateStatement source query =
     bind_result (read_show (\<lambda>n. if n < 2 then Some ''unexpected SHOW CREATE result format'' else None) 1 (ds_show source query))
       (\<lambda>statement. if TrimSpace statement = '''' then Inl ''empty CREATE statement'' else Inr statement)"

definition fetchCreateStatementAtColumn :: "schema_source \<Rightarrow> string \<Rightarrow> nat \<Rightarrow> string + string" where
  "fetchCreateStatementAtColumn source query col =
     bind_result (read_show (\<lambda>n. if n \<le> col then Some (''unexpected SHOW CREATE result: expected column '' @ show_nat col @ '', got ''
                               @ show_nat n @ '' columns'') else None) col (ds_show source query))
       (\<lambda>cell. let stmt = TrimSpace cell in if stmt = '''' then Inl ''empty CREATE statement'' else Inr stmt)"

definition show_query :: "string \<Rightarrow> string \<Rightarrow> string \<Rightarrow> string" where
  "show_query word databaseName name = ''SHOW CREATE '' @ word @ '' '' @ quoteIdentifier databaseName @ ''.'' @ quoteIdentifier name"

definition queryObjectNames :: "schema_source \<Rightarrow> string \<Rightarrow> string \<Rightarrow> string + string list" where
  "queryObjectNames source databaseName objectType = rows_or_error (ds_objects source databaseName objectType)"

definition queryRoutineNames :: "schema_source \<Rightarrow> string \<Rightarrow> string + (string \<times> string) list" where
  "queryRoutineNames source databaseName = rows_or_error (ds_routines source databaseName)"

definition queryTriggerNames :: "schema_source \<Rightarrow> string \<Rightarrow> string + string list" where
  "queryTriggerNames source databaseName = rows_or_error (ds_triggers source databaseName)"

definition queryEventNames :: "schema_source \<Rightarrow> string \<Rightarrow> string + string list" where
  "queryEventNames source databaseName = rows_or_error (ds_events source databaseName)"

definition fetchRoutineCreateStatement :: "schema_source \<Rightarrow> string \<Rightarrow> string \<Rightarrow> string \<Rightarrow> string + string" where
  "fetchRoutineCreateStatement source databaseName name routineType =
     (if ToUpper routineType = ''PROCEDURE'' then fetchCreateStatementAtColumn source (show_query ''PROCEDURE'' databaseName name) 2
      else if ToUpper routineType = ''FUNCTION'' then fetchCreateStatementAtColumn source (show_query ''FUNCTION'' databaseName name) 2
      else Inl (''unknown routine type '' @ go_quote routineType))"

definition fetchTriggerCreateStatement :: "schema_source \<Rightarrow> string \<Rightarrow> string \<Rightarrow> string + string" where
  "fetchTriggerCreateStatement source databaseName name =
     fetchCreateStatementAtColumn source (show_query ''TRIGGER'' databaseName name) 2"

definition fetchEventCreateStatement :: "schema_source \<Rightarrow> string \<Rightarrow> string \<Rightarrow> string + string" where
  "fetchEventCreateStatement source databaseName name =
     fetchCreateStatementAtColumn source (show_query ''EVENT'' databaseName name) 3"

definition schemaCycleError :: "string \<Rightarrow> string \<Rightarrow> string" where
  "schemaCycleError databaseName cyclic =
     ''incompatible_for_v1_foreign_key_cycle: '' @ databaseName @ '' contains cyclic foreign keys across tables '' @ cyclic
     @ ''; create tables without the cyclic constraints, then add those constraints in a manual post-step''"

text \<open>The package has its own copy of orderTableNamesByForeignKeys, which differs in the text of the error.\<close>

definition schema_orderTableNamesByForeignKeys :: "schema_source \<Rightarrow> string \<Rightarrow> string list \<Rightarrow> string + string list" where
  "schema_orderTableNamesByForeignKeys source databaseName tableNames =
     orderTableNamesByForeignKeys schemaCycleError databaseName (ds_keys source databaseName) tableNames"

text \<open>The statements of the objects of one kind, if that kind is included.\<close>

definition extract_kind :: "bool \<Rightarrow> string + 'a list \<Rightarrow> ('a \<Rightarrow> string + string) \<Rightarrow> string + string list" where
  "extract_kind included names fetch = (if included then bind_result names (map_result fetch) else Inr [])"

definition ordered_tables :: "schema_source \<Rightarrow> string \<Rightarrow> string + string list" where
  "ordered_tables source databaseName =
     bind_result (queryObjectNames source databaseName ''BASE TABLE'')
       (schema_orderTableNamesByForeignKeys source databaseName)"

definition extractAllObjects :: "schema_source \<Rightarrow> string \<Rightarrow> SchemaCopyOptions \<Rightarrow> string + extractResult" where
  "extractAllObjects source databaseName opts =
     bind_result (extract_kind (sx_IncludeTables opts) (ordered_tables source databaseName)
       (\<lambda>t. fetchCreateStatement source (show_query ''TABLE'' databaseName t))) (\<lambda>tables.
     bind_result (extract_kind (sx_IncludeViews opts) (queryObjectNames source databaseName ''VIEW'')
       (\<lambda>v. fetchCreateStatement source (show_query ''VIEW'' databaseName v))) (\<lambda>views.
     bind_result (extract_kind (sx_IncludeRoutines opts) (queryRoutineNames source databaseName)
       (\<lambda>(name, routineType). fetchRoutineCreateStatement source databaseName name routineType)) (\<lambda>routines.
     bind_result (extract_kind (sx_IncludeTriggers opts) (queryTriggerNames source databaseName)
       (fetchTriggerCreateStatement source databaseName)) (\<lambda>triggers.
     bind_result (extract_kind (sx_IncludeEvents opts) (queryEventNames source databaseName)
       (fetchEventCreateStatement source databaseName)) (\<lambda>events.
       Inr \<lparr>er_statements = tables @ views @ routines @ triggers @ events, er_tableCount = length tables, er_viewCount = length views,
            er_routineCount = length routines, er_triggerCount = length triggers, er_eventCount = length events\<rparr>)))))"

section \<open>Statements for the destination\<close>

definition sanitizeCreateStatementForApply :: "string \<Rightarrow> string" where
  "sanitizeCreateStatementForApply statement =
     (if TrimSpace statement = '''' then statement else replace_all definerRe ''DEFINER=CURRENT_USER'' None statement)"

record rewrite_state =
  rw_single :: bool
  rw_double :: bool
  rw_line :: bool
  rw_block :: bool

definition rewrite_start :: rewrite_state where
  "rewrite_start = \<lparr>rw_single = False, rw_double = False, rw_line = False, rw_block = False\<rparr>"

text \<open>
  The loop over the bytes of a statement; the text is the rest from index i. The name that is
  replaced is never empty.
\<close>

function rewrite_from :: "string \<Rightarrow> string \<Rightarrow> rewrite_state \<Rightarrow> string \<Rightarrow> string" where
  "rewrite_from from to st s =
     (case s of
        [] \<Rightarrow> []
      | c # t \<Rightarrow>
          (if rw_line st then c # rewrite_from from to (if c = CHR 0x0A then st\<lparr>rw_line := False\<rparr> else st) t
           else if rw_block st then
             (if c = CHR ''*'' \<and> take 1 t = ''/'' then c # CHR ''/'' # rewrite_from from to (st\<lparr>rw_block := False\<rparr>) (drop 1 t)
              else c # rewrite_from from to st t)
           else if \<not> rw_single st \<and> \<not> rw_double st \<and> c = CHR ''#'' then c # rewrite_from from to (st\<lparr>rw_line := True\<rparr>) t
           else if \<not> rw_single st \<and> \<not> rw_double st \<and> c = CHR ''-'' \<and> take 1 t = ''-'' \<and> drop 1 t \<noteq> [] \<and>
                   (hd (drop 1 t) = CHR '' '' \<or> hd (drop 1 t) = CHR 0x09 \<or> hd (drop 1 t) = CHR 0x0A)
             then ''--'' @ rewrite_from from to (st\<lparr>rw_line := True\<rparr>) (drop 1 t)
           else if \<not> rw_single st \<and> \<not> rw_double st \<and> c = CHR ''/'' \<and> take 1 t = ''*''
             then ''/*'' @ rewrite_from from to (st\<lparr>rw_block := True\<rparr>) (drop 1 t)
           else if \<not> rw_single st \<and> \<not> rw_double st \<and> HasPrefix s from then to @ rewrite_from from to st (drop (length from - 1) t)
           else c # rewrite_from from to
                      (if c = CHR 0x27 \<and> \<not> rw_double st then st\<lparr>rw_single := \<not> rw_single st\<rparr>
                       else if c = CHR 0x22 \<and> \<not> rw_single st then st\<lparr>rw_double := \<not> rw_double st\<rparr>
                       else st) t))"
  by auto

termination rewrite_from
  by (relation "measure (\<lambda>(from, to, st, s). length s)") auto

declare rewrite_from.simps [simp del]

definition rewriteQualifiedDatabaseReference :: "string \<Rightarrow> string \<Rightarrow> string \<Rightarrow> string" where
  "rewriteQualifiedDatabaseReference statement sourceQualified sandboxQualified =
     rewrite_from sourceQualified sandboxQualified rewrite_start statement"

definition rewriteSchemaStatementForSandbox :: "string \<Rightarrow> string \<Rightarrow> string \<Rightarrow> string" where
  "rewriteSchemaStatementForSandbox statement sourceDatabase sandboxDatabase =
     (if TrimSpace statement = '''' then statement
      else rewriteQualifiedDatabaseReference statement (quoteIdentifier sourceDatabase @ ''.'') (quoteIdentifier sandboxDatabase @ ''.''))"

section \<open>The copy\<close>

definition countUserTables :: "(string \<times> int) query_result \<Rightarrow> string list \<Rightarrow> string + int" where
  "countUserTables tables excluded =
     bind_result (rows_or_error tables) (\<lambda>rows.
       Inr (sum_list (map snd (filter (\<lambda>(schemaName, tableCount). \<not> isExcludedSchema schemaName (schemaSet excluded)) rows))))"

fun exec_all :: "'d schema_dest \<Rightarrow> string list \<Rightarrow> 'd \<Rightarrow> string option \<times> 'd" where
  "exec_all dest [] d = (None, d)"
| "exec_all dest (q # qs) d =
     (case dd_exec dest q d of (Some e, d') \<Rightarrow> (Some e, d') | (None, d') \<Rightarrow> exec_all dest qs d')"

definition create_database :: "string \<Rightarrow> string" where
  "create_database databaseName = ''CREATE DATABASE IF NOT EXISTS '' @ quoteIdentifier databaseName"

definition use_database :: "string \<Rightarrow> string" where
  "use_database databaseName = ''USE '' @ quoteIdentifier databaseName"

text \<open>The connection is given back when the function returns; an error of that is ignored.\<close>

definition applyStatements :: "'d schema_dest \<Rightarrow> string \<Rightarrow> string list \<Rightarrow> 'd \<Rightarrow> string option \<times> 'd" where
  "applyStatements dest databaseName statements d =
     (case dd_open dest d of
        (Some e, d') \<Rightarrow> (Some e, d')
      | (None, d') \<Rightarrow>
          (case exec_all dest (create_database databaseName # use_database databaseName # map sanitizeCreateStatementForApply statements) d' of
             (err, d'') \<Rightarrow> (err, snd (dd_close dest d''))))"

definition schema_copy_summary :: SchemaCopySummary where
  "schema_copy_summary = \<lparr>su_Databases = 0, su_Tables = 0, su_Views = 0, su_Routines = 0, su_Triggers = 0, su_Events = 0, su_Statements = 0\<rparr>"

definition add_objects :: "extractResult \<Rightarrow> SchemaCopySummary \<Rightarrow> SchemaCopySummary" where
  "add_objects r summary =
     \<lparr>su_Databases = su_Databases summary + 1, su_Tables = su_Tables summary + er_tableCount r, su_Views = su_Views summary + er_viewCount r,
      su_Routines = su_Routines summary + er_routineCount r, su_Triggers = su_Triggers summary + er_triggerCount r,
      su_Events = su_Events summary + er_eventCount r, su_Statements = su_Statements summary + length (er_statements r)\<rparr>"

fun copy_databases ::
  "schema_source \<Rightarrow> 'd schema_dest \<Rightarrow> SchemaCopyOptions \<Rightarrow> string list \<Rightarrow> SchemaCopySummary \<Rightarrow> 'd \<Rightarrow> string option \<times> SchemaCopySummary \<times> 'd" where
  "copy_databases source dest opts [] summary d = (None, summary, d)"
| "copy_databases source dest opts (databaseName # rest) summary d =
     (case extractAllObjects source databaseName opts of
        Inl e \<Rightarrow> (Some (''extract schema for '' @ databaseName @ '': '' @ e), summary, d)
      | Inr r \<Rightarrow>
          (if er_statements r = [] then copy_databases source dest opts rest summary d
           else (case applyStatements dest databaseName (er_statements r) d of
                   (Some e, d') \<Rightarrow> (Some (''apply schema for '' @ databaseName @ '': '' @ e), summary, d')
                 | (None, d') \<Rightarrow> copy_databases source dest opts rest (add_objects r summary) d')))"

definition no_types :: "SchemaCopyOptions \<Rightarrow> bool" where
  "no_types opts =
     (\<not> sx_IncludeTables opts \<and> \<not> sx_IncludeViews opts \<and> \<not> sx_IncludeRoutines opts \<and> \<not> sx_IncludeTriggers opts \<and> \<not> sx_IncludeEvents opts)"

definition destination_error :: "'d schema_dest \<Rightarrow> SchemaCopyOptions \<Rightarrow> 'd \<Rightarrow> string option" where
  "destination_error dest opts d =
     (if \<not> sx_DestEmptyRequired opts then None
      else (case countUserTables (dd_tables dest d) (sx_ExcludeDatabases opts) of
              Inl e \<Rightarrow> Some (''check destination emptiness: '' @ e)
            | Inr n \<Rightarrow> (if n > 0 then Some (''destination is not empty: found '' @ show_int n @ '' user tables'') else None)))"

definition CopySchema ::
  "bool \<Rightarrow> schema_source \<Rightarrow> 'd schema_dest \<Rightarrow> SchemaCopyOptions \<Rightarrow> 'd \<Rightarrow> string option \<times> SchemaCopySummary \<times> 'd" where
  "CopySchema connected source dest opts d =
     (if \<not> connected then (Some ''source and destination connections are required'', schema_copy_summary, d)
      else if no_types opts then (Some ''at least one schema object type must be enabled'', schema_copy_summary, d)
      else (case rows_or_error (ds_schemata source) of
              Inl e \<Rightarrow> (Some (''list source databases: '' @ e), schema_copy_summary, d)
            | Inr allDatabases \<Rightarrow>
                (case destination_error dest opts d of
                   Some e \<Rightarrow> (Some e, schema_copy_summary, d)
                 | None \<Rightarrow>
                     copy_databases source dest opts
                       (SelectDatabases allDatabases (sx_IncludeDatabases opts) (sx_ExcludeDatabases opts)) schema_copy_summary d)))"

section \<open>The sandbox\<close>

definition sandbox_failed :: "DryRunSandboxSummary \<Rightarrow> DryRunSandboxSummary" where
  "sandbox_failed summary = summary\<lparr>sz_Failed := sz_Failed summary + 1\<rparr>"

definition sandbox_validated :: "DryRunSandboxSummary \<Rightarrow> DryRunSandboxSummary" where
  "sandbox_validated summary = summary\<lparr>sz_Validated := sz_Validated summary + 1\<rparr>"

text \<open>One statement: after an error the connection is closed and the run ends.\<close>

definition sandbox_exec ::
  "'d schema_dest \<Rightarrow> string \<Rightarrow> DryRunSandboxSummary \<Rightarrow> 'd \<Rightarrow> string option \<times> DryRunSandboxSummary \<times> 'd" where
  "sandbox_exec dest q summary d =
     (case dd_exec dest q d of
        (Some e, d') \<Rightarrow> (Some e, sandbox_failed summary, snd (dd_close dest d'))
      | (None, d') \<Rightarrow> (None, sandbox_validated summary, d'))"

fun sandbox_statements ::
  "'d schema_dest \<Rightarrow> string list \<Rightarrow> DryRunSandboxSummary \<Rightarrow> 'd \<Rightarrow> string option \<times> DryRunSandboxSummary \<times> 'd" where
  "sandbox_statements dest [] summary d =
     (case dd_close dest d of
        (Some e, d') \<Rightarrow> (Some e, sandbox_failed summary, d')
      | (None, d') \<Rightarrow> (None, summary, d'))"
| "sandbox_statements dest (q # qs) summary d =
     (case sandbox_exec dest q summary d of
        (Some e, summary', d') \<Rightarrow> (Some e, summary', d')
      | (None, summary', d') \<Rightarrow> sandbox_statements dest qs summary' d')"

definition add_created :: "string \<Rightarrow> DryRunSandboxSummary \<Rightarrow> DryRunSandboxSummary" where
  "add_created db summary =
     (if db \<in> set (sz_CreatedDatabases summary) then summary
      else summary\<lparr>sz_CreatedDatabases := sz_CreatedDatabases summary @ [db]\<rparr>)"

definition sandbox_database ::
  "'d schema_dest \<Rightarrow> string \<Rightarrow> string \<Rightarrow> string list \<Rightarrow> DryRunSandboxSummary \<Rightarrow> 'd \<Rightarrow> string option \<times> DryRunSandboxSummary \<times> 'd" where
  "sandbox_database dest sourceDatabase sandboxDatabase statements summary d =
     (case dd_open dest d of
        (Some e, d') \<Rightarrow> (Some e, summary, d')
      | (None, d1) \<Rightarrow>
          (case sandbox_exec dest (create_database sandboxDatabase) summary d1 of
             (Some e, summary', d') \<Rightarrow> (Some e, summary', d')
           | (None, summary1, d2) \<Rightarrow>
               (case sandbox_exec dest (use_database sandboxDatabase) summary1 d2 of
                  (Some e, summary', d') \<Rightarrow> (Some e, summary', d')
                | (None, summary2, d3) \<Rightarrow>
                    sandbox_statements dest
                      (map (\<lambda>s. sanitizeCreateStatementForApply (rewriteSchemaStatementForSandbox s sourceDatabase sandboxDatabase)) statements)
                      (add_created sandboxDatabase summary2) d3)))"

definition sandbox_copy_options :: "DryRunSandboxOptions \<Rightarrow> SchemaCopyOptions" where
  "sandbox_copy_options opts =
     \<lparr>sx_IncludeDatabases = [], sx_ExcludeDatabases = [], sx_IncludeTables = sb_IncludeTables opts, sx_IncludeViews = sb_IncludeViews opts,
      sx_IncludeRoutines = sb_IncludeRoutines opts, sx_IncludeTriggers = sb_IncludeTriggers opts, sx_IncludeEvents = sb_IncludeEvents opts,
      sx_DestEmptyRequired = False\<rparr>"

fun sandbox_databases ::
  "schema_source \<Rightarrow> 'd schema_dest \<Rightarrow> DryRunSandboxOptions \<Rightarrow> (string \<Rightarrow> string) \<Rightarrow> string list \<Rightarrow> DryRunSandboxSummary \<Rightarrow> 'd
     \<Rightarrow> string option \<times> DryRunSandboxSummary \<times> 'd" where
  "sandbox_databases source dest opts mapping [] summary d = (None, summary, d)"
| "sandbox_databases source dest opts mapping (sourceDatabase # rest) summary d =
     (let sandboxDatabase = TrimSpace (mapping sourceDatabase)
      in if sandboxDatabase = '''' then (Some (''sandbox database mapping is empty for source '' @ go_quote sourceDatabase), summary, d)
         else (case extractAllObjects source sourceDatabase (sandbox_copy_options opts) of
                 Inl e \<Rightarrow> (Some (''extract schema for '' @ sourceDatabase @ '': '' @ e), summary, d)
               | Inr r \<Rightarrow>
                   (if er_statements r = [] then sandbox_databases source dest opts mapping rest summary d
                    else (case sandbox_database dest sourceDatabase sandboxDatabase (er_statements r) summary d of
                            (Some e, summary', d') \<Rightarrow> (Some e, summary', d')
                          | (None, summary', d') \<Rightarrow> sandbox_databases source dest opts mapping rest summary' d'))))"

definition sandbox_summary :: DryRunSandboxSummary where
  "sandbox_summary = \<lparr>sz_Validated = 0, sz_Failed = 0, sz_CreatedDatabases = []\<rparr>"

definition ValidateSchemaInSandbox ::
  "bool \<Rightarrow> schema_source \<Rightarrow> 'd schema_dest \<Rightarrow> DryRunSandboxOptions \<Rightarrow> 'd \<Rightarrow> string option \<times> DryRunSandboxSummary \<times> 'd" where
  "ValidateSchemaInSandbox connected source dest opts d =
     (if \<not> connected then (Some ''source and destination connections are required'', sandbox_summary, d)
      else (case sb_MapDatabase opts of
              None \<Rightarrow> (Some ''MapDatabase is required'', sandbox_summary, d)
            | Some mapping \<Rightarrow>
                (if no_types (sandbox_copy_options opts)
                 then (Some ''at least one schema object type must be enabled'', sandbox_summary, d)
                 else (case rows_or_error (ds_schemata source) of
                         Inl e \<Rightarrow> (Some (''list source databases: '' @ e), sandbox_summary, d)
                       | Inr allDatabases \<Rightarrow>
                           sandbox_databases source dest opts mapping
                             (SelectDatabases allDatabases (sb_IncludeDatabases opts) (sb_ExcludeDatabases opts)) sandbox_summary d))))"

end
