(* ===== verification/Schema_Copy_Run.thy ===== *)
theory Schema_Copy_Run
  imports Schema_Copy
begin

text \<open>
  What the copy of schemas and its dry run do to the destination (internal/schema/copy.go): which
  statements are executed, in which order, and where they stop.
\<close>

section \<open>A destination with a log\<close>

text \<open>
  What is assumed of the destination: the log of a state holds the statements that were executed
  without an error, and opening and closing connections does not change it.
\<close>

definition logging :: "'d schema_dest \<Rightarrow> ('d \<Rightarrow> string list) \<Rightarrow> bool" where
  "logging dest ddl_log =
     ((\<forall>d. ddl_log (snd (dd_open dest d)) = ddl_log d \<and> ddl_log (snd (dd_close dest d)) = ddl_log d) \<and>
      (\<forall>q d. ddl_log (snd (dd_exec dest q d)) = (if fst (dd_exec dest q d) = None then ddl_log d @ [q] else ddl_log d)))"

lemma logging_open: "logging dest ddl_log \<Longrightarrow> dd_open dest d = (e, d') \<Longrightarrow> ddl_log d' = ddl_log d"
  unfolding logging_def by (metis snd_conv)

lemma logging_close: "logging dest ddl_log \<Longrightarrow> ddl_log (snd (dd_close dest d)) = ddl_log d"
  by (simp add: logging_def)

lemma logging_exec:
  assumes "logging dest ddl_log" and "dd_exec dest q d = (e, d')"
  shows "ddl_log d' = (if e = None then ddl_log d @ [q] else ddl_log d)"
  using assms unfolding logging_def by (metis fst_conv snd_conv)

text \<open>A prefix of the statements is executed, all of them when there is no error; each finds what those before it left.\<close>

definition executes :: "('d \<Rightarrow> string list) \<Rightarrow> string list \<Rightarrow> 'd \<Rightarrow> string option \<Rightarrow> 'd \<Rightarrow> string list \<Rightarrow> bool" where
  "executes ddl_log qs d err d' rest = (\<exists>gone. qs = gone @ rest \<and> ddl_log d' = ddl_log d @ gone \<and> (err = None \<longrightarrow> rest = []))"

lemma exec_all_prefix:
  assumes "logging dest ddl_log" and "exec_all dest qs d = (err, d')"
  shows "\<exists>rest. executes ddl_log qs d err d' rest"
  using assms(2)
proof (induction qs arbitrary: d)
  case (Cons q qs)
  obtain e d1 where e: "dd_exec dest q d = (e, d1)" by (cases "dd_exec dest q d")
  note l = logging_exec [OF assms(1) e]
  show ?case
  proof (cases e)
    case None
    then obtain rest where "executes ddl_log qs d1 err d' rest" using Cons e by auto
    then have "executes ddl_log (q # qs) d err d' rest" using l None by (auto simp: executes_def)
    then show ?thesis ..
  next
    case (Some x)
    then have "executes ddl_log (q # qs) d err d' (q # qs)" using Cons.prems e l by (auto simp: executes_def)
    then show ?thesis ..
  qed
qed (auto simp: executes_def)

lemma exec_all_steps:
  assumes "logging dest ddl_log" and "exec_all dest (xs @ q # ys) d = (None, d')"
  shows "\<exists>d1. ddl_log d1 = ddl_log d @ xs \<and> fst (dd_exec dest q d1) = None"
  using assms(2)
proof (induction xs arbitrary: d)
  case Nil
  then have "fst (dd_exec dest q d) = None" by (auto split: prod.splits option.splits)
  then show ?case by (intro exI [of _ d]) simp
next
  case (Cons x xs)
  then obtain d1 where d1: "dd_exec dest x d = (None, d1)" "exec_all dest (xs @ q # ys) d1 = (None, d')"
    by (auto split: prod.splits option.splits)
  then obtain d2 where "ddl_log d2 = ddl_log d1 @ xs \<and> fst (dd_exec dest q d2) = None" using Cons.IH by blast
  then show ?case using logging_exec [OF assms(1) d1(1)] by (intro exI [of _ d2]) simp
qed

section \<open>The copy\<close>

definition apply_plan :: "string \<Rightarrow> string list \<Rightarrow> string list" where
  "apply_plan db statements = create_database db # use_database db # map sanitizeCreateStatementForApply statements"

definition database_plan :: "schema_source \<Rightarrow> SchemaCopyOptions \<Rightarrow> string \<Rightarrow> string list" where
  "database_plan source opts db =
     (case extractAllObjects source db opts of Inl e \<Rightarrow> [] | Inr r \<Rightarrow> if er_statements r = [] then [] else apply_plan db (er_statements r))"

lemma applyStatements_prefix:
  assumes "logging dest ddl_log" and "applyStatements dest db stmts d = (err, d')"
  shows "\<exists>rest. executes ddl_log (apply_plan db stmts) d err d' rest"
proof -
  obtain e d1 where o: "dd_open dest d = (e, d1)" by (cases "dd_open dest d")
  show ?thesis
  proof (cases e)
    case None
    obtain e2 d2 where x: "exec_all dest (apply_plan db stmts) d1 = (e2, d2)" by (cases "exec_all dest (apply_plan db stmts) d1")
    then have "err = e2" "d' = snd (dd_close dest d2)" using assms(2) o None
      by (simp_all add: applyStatements_def flip: apply_plan_def)
    then show ?thesis using exec_all_prefix [OF assms(1) x] logging_open [OF assms(1) o] logging_close [OF assms(1), of d2]
      by (simp add: executes_def)
  next
    case (Some x)
    then have "executes ddl_log (apply_plan db stmts) d err d' (apply_plan db stmts)"
      using assms(2) o logging_open [OF assms(1) o] by (auto simp: applyStatements_def executes_def)
    then show ?thesis ..
  qed
qed

lemma applyStatements_steps:
  assumes "logging dest ddl_log" and "applyStatements dest db stmts d = (None, d')" and "apply_plan db stmts = xs @ q # ys"
  shows "\<exists>d1. ddl_log d1 = ddl_log d @ xs \<and> fst (dd_exec dest q d1) = None"
proof -
  obtain d1 d2 where d: "dd_open dest d = (None, d1)" "exec_all dest (apply_plan db stmts) d1 = (None, d2)"
    using assms(2) by (auto simp: applyStatements_def simp flip: apply_plan_def split: prod.splits option.splits)
  show ?thesis using exec_all_steps [OF assms(1) d(2) [unfolded assms(3)]] logging_open [OF assms(1) d(1)] by simp
qed

abbreviation databases_plan :: "schema_source \<Rightarrow> SchemaCopyOptions \<Rightarrow> string list \<Rightarrow> string list" where
  "databases_plan source opts dbs \<equiv> concat (map (database_plan source opts) dbs)"

definition counted_statements :: "SchemaCopySummary \<Rightarrow> nat" where
  "counted_statements summary = su_Statements summary + 2 * su_Databases summary"

lemma copy_databases_executes:
  assumes "logging dest ddl_log" and "copy_databases source dest opts dbs summary d = (err, summary', d')"
  shows "\<exists>rest. executes ddl_log (databases_plan source opts dbs) d err d' rest \<and>
    counted_statements summary' \<le> counted_statements summary + length (databases_plan source opts dbs) - length rest \<and>
    (err = None \<longrightarrow> counted_statements summary' = counted_statements summary + length (databases_plan source opts dbs))"
  using assms(2)
proof (induction dbs arbitrary: summary d)
  case Nil
  then show ?case by (simp add: executes_def)
next
  case (Cons db dbs)
  let ?plan = "databases_plan source opts (db # dbs)"
  have stop: ?case if "err \<noteq> None" "d' = d" "summary' = summary"
    using that by (intro exI [of _ ?plan]) (auto simp: executes_def)
  show ?case
  proof (cases "extractAllObjects source db opts")
    case (Inl e)
    then show ?thesis using Cons.prems stop by auto
  next
    case (Inr r)
    show ?thesis
    proof (cases "er_statements r = []")
      case True
      then show ?thesis using Cons.IH [of summary d] Cons.prems Inr by (simp add: database_plan_def)
    next
      case False
      then have p: "database_plan source opts db = apply_plan db (er_statements r)" by (simp add: database_plan_def Inr)
      obtain e d1 where a: "applyStatements dest db (er_statements r) d = (e, d1)" by (cases "applyStatements dest db (er_statements r) d")
      obtain rest where x: "executes ddl_log (apply_plan db (er_statements r)) d e d1 rest" using applyStatements_prefix [OF assms(1) a] ..
      show ?thesis
      proof (cases e)
        case (Some x')
        then have "executes ddl_log ?plan d err d' (rest @ databases_plan source opts dbs)" "summary' = summary"
          using x Cons.prems Inr False a by (auto simp: executes_def p)
        then show ?thesis using Some Cons.prems Inr False a
          by (intro exI [of _ "rest @ databases_plan source opts dbs"]) (auto simp: executes_def)
      next
        case None
        then have r: "rest = []" using x by (auto simp: executes_def)
        have "copy_databases source dest opts dbs (add_objects r summary) d1 = (err, summary', d')"
          using Cons.prems Inr False a None by simp
        then obtain rest' where y: "executes ddl_log (databases_plan source opts dbs) d1 err d' rest'"
          "counted_statements summary' \<le> counted_statements (add_objects r summary) + length (databases_plan source opts dbs) - length rest'"
          "err = None \<longrightarrow> counted_statements summary' = counted_statements (add_objects r summary) + length (databases_plan source opts dbs)"
          using Cons.IH by blast
        have c: "counted_statements (add_objects r summary) = counted_statements summary + length (database_plan source opts db)"
          by (simp add: counted_statements_def add_objects_def p apply_plan_def)
        have l: "length rest' \<le> length (databases_plan source opts dbs)" using y(1) by (auto simp: executes_def)
        have "executes ddl_log ?plan d err d' rest'" using x y(1) by (auto simp: executes_def r p)
        then show ?thesis using y(2,3) l unfolding c by (intro exI [of _ rest']) auto
      qed
    qed
  qed
qed

lemma CopySchema_prefix:
  assumes "logging dest ddl_log" and "ds_schemata source = Rows databases"
    and "CopySchema connected source dest opts d = (err, summary, d')"
    and "plan = databases_plan source opts (SelectDatabases databases (sx_IncludeDatabases opts) (sx_ExcludeDatabases opts))"
  shows "\<exists>executed rest. plan = executed @ rest \<and> ddl_log d' = ddl_log d @ executed \<and>
    counted_statements summary \<le> length executed \<and>
    (err = None \<longrightarrow> rest = [] \<and> counted_statements summary = length plan)"
proof -
  let ?dbs = "SelectDatabases databases (sx_IncludeDatabases opts) (sx_ExcludeDatabases opts)"
  have z: "counted_statements schema_copy_summary = 0" by (simp add: counted_statements_def schema_copy_summary_def)
  consider "err \<noteq> None" "d' = d" "summary = schema_copy_summary"
    | "copy_databases source dest opts ?dbs schema_copy_summary d = (err, summary, d')"
    using assms(2,3) by (cases "destination_error dest opts d") (auto simp: CopySchema_def rows_or_error_def split: if_splits, metis)
  then show ?thesis
  proof cases
    case 1
    then show ?thesis using z by auto
  next
    case 2
    obtain rest where r: "executes ddl_log plan d err d' rest" "counted_statements summary \<le> 0 + length plan - length rest"
      "err = None \<longrightarrow> counted_statements summary = 0 + length plan"
      using copy_databases_executes [OF assms(1) 2] unfolding z assms(4) by blast
    then show ?thesis by (auto simp: executes_def)
  qed
qed

text \<open>
  Claim C10. The copy executes a prefix of the statements of the selected databases, in their order:
  CREATE DATABASE, USE and the statements of the objects for each of them. Without an error it
  executes all of them and counts each; after an error it counts at most those that were executed,
  and leaves them in place.
\<close>

theorem CopySchema_executes:
  assumes "logging dest ddl_log" and "ds_schemata source = Rows databases"
    and "CopySchema connected source dest opts d = (err, summary, d')"
    and "plan = databases_plan source opts (SelectDatabases databases (sx_IncludeDatabases opts) (sx_ExcludeDatabases opts))"
  shows "\<exists>executed rest. plan = executed @ rest \<and> ddl_log d' = ddl_log d @ executed \<and>
    counted_statements summary \<le> length executed \<and>
    (err = None \<longrightarrow> rest = [] \<and> counted_statements summary = length plan)"
  using CopySchema_prefix [OF assms] .

lemma extract_kind_Inr:
  "extract_kind included names fetch = Inr stmts \<longleftrightarrow>
   (if included then \<exists>ns. names = Inr ns \<and> map_result fetch ns = Inr stmts else stmts = [])"
  by (auto simp: extract_kind_def bind_result_Inr)

text \<open>
  Claim C39. The statements of a database begin with those of its tables, each once and after the
  tables its foreign keys refer to; all other objects come after the tables.
\<close>

theorem tables_first_by_foreign_keys:
  assumes "extractAllObjects source db opts = Inr r" and "sx_IncludeTables opts"
    and "ds_objects source db ''BASE TABLE'' = Rows names" and "distinct names" and "ds_keys source db = Rows keys"
  shows "\<exists>ordered tables others. er_statements r = tables @ others \<and> er_tableCount r = length tables \<and>
    list_all2 (\<lambda>t s. fetchCreateStatement source (show_query ''TABLE'' db t) = Inr s) ordered tables \<and>
    distinct ordered \<and> set ordered = set names \<and>
    (\<forall>(t, u) \<in> foreign_keys names keys. \<exists>xs ys. ordered = xs @ t # ys \<and> u \<in> set xs)"
proof -
  obtain ordered where o: "distinct ordered" "set ordered = {t \<in> set names. \<not> reaches_cycle (foreign_keys names keys) t}"
    "\<And>t u. t \<in> set ordered \<Longrightarrow> (t, u) \<in> foreign_keys names keys \<Longrightarrow> \<exists>xs ys. ordered = xs @ t # ys \<and> u \<in> set xs"
    "orderTableNamesByForeignKeys schemaCycleError db (Rows keys) names =
      (if acyclic (foreign_keys names keys) then Inr ordered
       else Inl (schemaCycleError db (Join (sort (filter (reaches_cycle (foreign_keys names keys)) names)) '', '')))"
    using orderTableNames_result [OF assms(4), of keys schemaCycleError db] by blast
  obtain tables others where t: "extract_kind True (ordered_tables source db) (\<lambda>t. fetchCreateStatement source (show_query ''TABLE'' db t)) = Inr tables"
    "er_statements r = tables @ others" "er_tableCount r = length tables"
    using assms(1,2) by (auto simp: extractAllObjects_def bind_result_Inr)
  have "acyclic (foreign_keys names keys)" "map_result (\<lambda>t. fetchCreateStatement source (show_query ''TABLE'' db t)) ordered = Inr tables"
    using t(1) assms(3,5) o(4) by (auto simp: extract_kind_Inr ordered_tables_def schema_orderTableNamesByForeignKeys_def queryObjectNames_def rows_or_error_def split: if_splits)
  moreover from this have "set ordered = set names" using o(2) by (auto simp: acyclic_reaches)
  moreover have "t \<in> set names" if "(t, u) \<in> foreign_keys names keys" for t u
    using that foreign_keys_domain [of t u names keys] by blast
  ultimately have "list_all2 (\<lambda>t s. fetchCreateStatement source (show_query ''TABLE'' db t) = Inr s) ordered tables"
    "\<forall>(t, u) \<in> foreign_keys names keys. \<exists>xs ys. ordered = xs @ t # ys \<and> u \<in> set xs" "set ordered = set names"
    using o(3) by (auto simp: map_result_Inr)
  then show ?thesis using t(2,3) o(1) by blast
qed

section \<open>Views\<close>

lemma append_eq_split:
  assumes "as @ bs = xs @ q # ys"
  shows "(\<exists>zs. as = xs @ q # zs) \<or> (\<exists>us. xs = as @ us \<and> bs = us @ q # ys)"
  using assms by (auto simp: append_eq_append_conv2 append_eq_Cons_conv)

lemma copy_databases_steps:
  assumes "logging dest ddl_log" and "copy_databases source dest opts dbs summary d = (None, summary', d')"
    and "databases_plan source opts dbs = xs @ q # ys"
  shows "\<exists>d1. ddl_log d1 = ddl_log d @ xs \<and> fst (dd_exec dest q d1) = None"
  using assms(2,3)
proof (induction dbs arbitrary: summary d xs)
  case (Cons db dbs)
  then obtain r where r: "extractAllObjects source db opts = Inr r" by (auto split: sum.splits)
  show ?case
  proof (cases "er_statements r = []")
    case True
    then have "database_plan source opts db = []" by (simp add: database_plan_def r)
    then have "databases_plan source opts dbs = xs @ q # ys" using Cons.prems(2) by simp
    then show ?thesis using Cons.IH Cons.prems(1) r True by simp
  next
    case False
    then have p: "database_plan source opts db = apply_plan db (er_statements r)" by (simp add: database_plan_def r)
    obtain d1 where a: "applyStatements dest db (er_statements r) d = (None, d1)"
      "copy_databases source dest opts dbs (add_objects r summary) d1 = (None, summary', d')"
      using Cons.prems(1) r False by (auto split: prod.splits option.splits)
    have l: "ddl_log d1 = ddl_log d @ database_plan source opts db"
      using applyStatements_prefix [OF assms(1) a(1)] by (auto simp: executes_def p)
    from append_eq_split [of "database_plan source opts db"] Cons.prems(2)
    consider zs where "database_plan source opts db = xs @ q # zs"
      | us where "xs = database_plan source opts db @ us" "databases_plan source opts dbs = us @ q # ys" by (simp, metis)
    then show ?thesis
    proof cases
      case 1
      then show ?thesis using applyStatements_steps [OF assms(1) a(1)] p by simp
    next
      case 2
      then show ?thesis using Cons.IH [OF a(2) 2(2)] l by simp
    qed
  qed
qed simp

text \<open>
  Statements are not ordered by what they refer to within views, routines, triggers and
  events: when one of them needs another that the plan has later and the destination lacks, the
  copy never succeeds. Views come in the order of their names.
\<close>

theorem later_dependency_blocks:
  assumes "logging dest ddl_log" and "ds_schemata source = Rows databases"
    and "databases_plan source opts (SelectDatabases databases (sx_IncludeDatabases opts) (sx_ExcludeDatabases opts)) = earlier @ view # later"
    and "needed \<notin> set earlier" and "needed \<notin> set (ddl_log d)"
    and "\<And>d1. needed \<notin> set (ddl_log d1) \<Longrightarrow> fst (dd_exec dest view d1) \<noteq> None"
  shows "fst (CopySchema connected source dest opts d) \<noteq> None"
proof
  assume n: "fst (CopySchema connected source dest opts d) = None"
  then obtain summary' d' where "copy_databases source dest opts
      (SelectDatabases databases (sx_IncludeDatabases opts) (sx_ExcludeDatabases opts)) schema_copy_summary d = (None, summary', d')"
    using assms(2) by (cases "destination_error dest opts d")
      (auto simp: CopySchema_def rows_or_error_def split: if_splits, metis prod.collapse)
  from copy_databases_steps [OF assms(1) this assms(3)] obtain d1
    where "ddl_log d1 = ddl_log d @ earlier" "fst (dd_exec dest view d1) = None" by blast
  then show False using assms(4-6) by auto
qed

section \<open>The sandbox\<close>

definition sandbox_plan :: "schema_source \<Rightarrow> DryRunSandboxOptions \<Rightarrow> (string \<Rightarrow> string) \<Rightarrow> string \<Rightarrow> string list" where
  "sandbox_plan source opts mapping db =
     (case extractAllObjects source db (sandbox_copy_options opts) of
        Inl e \<Rightarrow> []
      | Inr r \<Rightarrow> if er_statements r = [] then []
          else create_database (TrimSpace (mapping db)) # use_database (TrimSpace (mapping db)) #
            map (\<lambda>s. sanitizeCreateStatementForApply (rewriteSchemaStatementForSandbox s db (TrimSpace (mapping db)))) (er_statements r))"

text \<open>A part of the run that starts and ends with these states executed these statements.\<close>

definition sandbox_ran ::
  "('d \<Rightarrow> string list) \<Rightarrow> string list \<Rightarrow> DryRunSandboxSummary \<Rightarrow> 'd \<Rightarrow> string option \<Rightarrow> DryRunSandboxSummary \<Rightarrow> 'd \<Rightarrow> bool" where
  "sandbox_ran ddl_log qs summary d err summary' d' =
     (\<exists>executed rest. qs = executed @ rest \<and> ddl_log d' = ddl_log d @ executed \<and>
        sz_Validated summary' = sz_Validated summary + length executed \<and>
        sz_Failed summary' \<le> sz_Failed summary + (if err = None then 0 else 1) \<and> (err = None \<longrightarrow> rest = []))"

text \<open>
  Of the statements of several databases, each given with its sandbox, the first n were executed: the
  sandboxes whose first two statements, the creation of the database and its USE, are among them.
\<close>

fun sandboxes_entered :: "(string \<times> string list) list \<Rightarrow> nat \<Rightarrow> string list" where
  "sandboxes_entered [] n = []"
| "sandboxes_entered ((sandbox, plan) # plans) n =
     (if plan \<noteq> [] \<and> 2 \<le> n then [sandbox] else []) @ sandboxes_entered plans (n - length plan)"

definition sandbox_plans :: "schema_source \<Rightarrow> DryRunSandboxOptions \<Rightarrow> (string \<Rightarrow> string) \<Rightarrow> string list \<Rightarrow> (string \<times> string list) list" where
  "sandbox_plans source opts mapping dbs = map (\<lambda>db. (TrimSpace (mapping db), sandbox_plan source opts mapping db)) dbs"

text \<open>Each name once, where it occurs first.\<close>

definition listed_once :: "string list \<Rightarrow> string list" where
  "listed_once names = rev (remdups (rev names))"

lemma listed_once_props [simp]:
  "distinct (listed_once names)" "set (listed_once names) = set names" "listed_once [] = []"
  by (simp_all add: listed_once_def)

lemma listed_once_snoc: "listed_once (names @ [n]) = (if n \<in> set names then listed_once names else listed_once names @ [n])"
  by (simp add: listed_once_def)

lemma add_created_listed:
  "sz_CreatedDatabases summary = listed_once names \<Longrightarrow> sz_CreatedDatabases (add_created n summary) = listed_once (names @ [n])"
  by (simp add: add_created_def listed_once_snoc)

lemma sandboxes_entered_0 [simp]: "sandboxes_entered plans 0 = []"
  by (induction plans "0 :: nat" rule: sandboxes_entered.induct) auto

lemma sandboxes_entered_subset: "set (sandboxes_entered plans n) \<subseteq> fst ` set plans"
  by (induction plans n rule: sandboxes_entered.induct) auto

lemma sandboxes_entered_all:
  assumes "\<forall>p \<in> set plans. snd p = [] \<or> 2 \<le> length (snd p)" and "n = length (concat (map snd plans))"
  shows "set (sandboxes_entered plans n) = {sandbox. \<exists>plan. (sandbox, plan) \<in> set plans \<and> plan \<noteq> []}"
  using assms by (induction plans n rule: sandboxes_entered.induct) auto

lemma sandbox_plan_long: "sandbox_plan source opts mapping db = [] \<or> 2 \<le> length (sandbox_plan source opts mapping db)"
  by (simp add: sandbox_plan_def split: sum.splits)

lemma sandbox_exec_ran:
  assumes "logging dest ddl_log" and "sandbox_exec dest q summary d = (err, summary', d')"
  shows "sz_CreatedDatabases summary' = sz_CreatedDatabases summary \<and>
    (if err = None then ddl_log d' = ddl_log d @ [q] \<and> sz_Validated summary' = sz_Validated summary + 1 \<and> sz_Failed summary' = sz_Failed summary
     else ddl_log d' = ddl_log d \<and> sz_Validated summary' = sz_Validated summary \<and> sz_Failed summary' = sz_Failed summary + 1)"
proof -
  obtain e d1 where e: "dd_exec dest q d = (e, d1)" by (cases "dd_exec dest q d")
  then show ?thesis using assms(2) logging_exec [OF assms(1) e] logging_close [OF assms(1), of d1]
    by (auto simp: sandbox_exec_def sandbox_failed_def sandbox_validated_def split: option.splits)
qed

lemma sandbox_statements_ran:
  assumes "logging dest ddl_log" and "sandbox_statements dest qs summary d = (err, summary', d')"
  shows "sandbox_ran ddl_log qs summary d err summary' d' \<and> sz_CreatedDatabases summary' = sz_CreatedDatabases summary"
  using assms(2)
proof (induction qs arbitrary: summary d)
  case Nil
  then show ?case using logging_close [OF assms(1), of d]
    by (auto simp: sandbox_ran_def sandbox_failed_def split: prod.splits option.splits)
next
  case (Cons q qs)
  obtain e s1 d1 where e: "sandbox_exec dest q summary d = (e, s1, d1)" by (cases "sandbox_exec dest q summary d")
  note r = sandbox_exec_ran [OF assms(1) e]
  show ?case
  proof (cases e)
    case None
    then have i: "sandbox_ran ddl_log qs s1 d1 err summary' d' \<and> sz_CreatedDatabases summary' = sz_CreatedDatabases s1"
      using Cons e by simp
    then obtain executed rest where "qs = executed @ rest" "ddl_log d' = ddl_log d1 @ executed"
      "sz_Validated summary' = sz_Validated s1 + length executed"
      "sz_Failed summary' \<le> sz_Failed s1 + (if err = None then 0 else 1)" "err = None \<longrightarrow> rest = []"
      by (auto simp: sandbox_ran_def)
    then have "sandbox_ran ddl_log (q # qs) summary d err summary' d'"
      unfolding sandbox_ran_def using r None by (intro exI [of _ "q # executed"] exI [of _ rest]) auto
    then show ?thesis using i r by simp
  next
    case (Some x)
    then have "sandbox_ran ddl_log (q # qs) summary d err summary' d'"
      unfolding sandbox_ran_def using r Cons.prems e by (intro exI [of _ "[]"] exI [of _ "q # qs"]) auto
    then show ?thesis using r Some Cons.prems e by simp
  qed
qed

lemma sandbox_database_ran:
  assumes "logging dest ddl_log" and "sandbox_database dest db sandbox stmts summary d = (err, summary', d')"
  shows "sandbox_ran ddl_log (create_database sandbox # use_database sandbox #
      map (\<lambda>s. sanitizeCreateStatementForApply (rewriteSchemaStatementForSandbox s db sandbox)) stmts) summary d err summary' d' \<and>
    sz_CreatedDatabases summary' =
      (if sz_Validated summary + 2 \<le> sz_Validated summary' then sz_CreatedDatabases (add_created sandbox summary) else sz_CreatedDatabases summary)"
proof -
  let ?stmts = "map (\<lambda>s. sanitizeCreateStatementForApply (rewriteSchemaStatementForSandbox s db sandbox)) stmts"
  obtain e1 d1 where o: "dd_open dest d = (e1, d1)" by (cases "dd_open dest d")
  note lo = logging_open [OF assms(1) o]
  obtain e2 s2 d2 where c: "sandbox_exec dest (create_database sandbox) summary d1 = (e2, s2, d2)"
    by (cases "sandbox_exec dest (create_database sandbox) summary d1")
  note lc = sandbox_exec_ran [OF assms(1) c]
  obtain e3 s3 d3 where u: "sandbox_exec dest (use_database sandbox) s2 d2 = (e3, s3, d3)"
    by (cases "sandbox_exec dest (use_database sandbox) s2 d2")
  note lu = sandbox_exec_ran [OF assms(1) u]
  consider "e1 \<noteq> None" | "e1 = None" "e2 \<noteq> None" | "e1 = None" "e2 = None" "e3 \<noteq> None" | "e1 = None" "e2 = None" "e3 = None" by blast
  then show ?thesis
  proof cases
    case 1
    then show ?thesis using assms(2) o lo by (auto simp: sandbox_database_def sandbox_ran_def)
  next
    case 2
    then show ?thesis using assms(2) o c lo lc by (auto simp: sandbox_database_def sandbox_ran_def)
  next
    case 3
    then have "err = e3" "summary' = s3" "d' = d3" using assms(2) o c u by (auto simp: sandbox_database_def)
    then show ?thesis using 3 lo lc lu
      by (auto simp: sandbox_ran_def intro!: exI [of _ "[create_database sandbox]"])
  next
    case 4
    then have s: "sandbox_statements dest ?stmts (add_created sandbox s3) d3 = (err, summary', d')"
      using assms(2) o c u by (simp add: sandbox_database_def)
    note r = sandbox_statements_ran [OF assms(1) s]
    then obtain executed rest where x: "?stmts = executed @ rest" "ddl_log d' = ddl_log d3 @ executed"
      "sz_Validated summary' = sz_Validated (add_created sandbox s3) + length executed"
      "sz_Failed summary' \<le> sz_Failed (add_created sandbox s3) + (if err = None then 0 else 1)" "err = None \<longrightarrow> rest = []"
      by (auto simp: sandbox_ran_def)
    have "sz_CreatedDatabases (add_created sandbox s3) = sz_CreatedDatabases (add_created sandbox summary)"
      "sz_Validated (add_created sandbox s3) = sz_Validated s3" "sz_Failed (add_created sandbox s3) = sz_Failed s3"
      using lc lu 4 by (simp_all add: add_created_def)
    then have "sandbox_ran ddl_log (create_database sandbox # use_database sandbox # ?stmts) summary d err summary' d'"
      unfolding sandbox_ran_def using lo lc lu 4 x
      by (intro exI [of _ "create_database sandbox # use_database sandbox # executed"] exI [of _ rest]) simp
    moreover have "sz_Validated summary + 2 \<le> sz_Validated summary'" using x(3) lc lu 4 by (simp add: add_created_def)
    ultimately show ?thesis using r \<open>sz_CreatedDatabases (add_created sandbox s3) = _\<close> by simp
  qed
qed

lemma sandbox_databases_ran:
  assumes "logging dest ddl_log" and "sandbox_databases source dest opts mapping dbs summary d = (err, summary', d')"
    and "sz_CreatedDatabases summary = listed_once names"
  shows "sandbox_ran ddl_log (concat (map (sandbox_plan source opts mapping) dbs)) summary d err summary' d' \<and>
    sz_CreatedDatabases summary' =
      listed_once (names @ sandboxes_entered (sandbox_plans source opts mapping dbs) (sz_Validated summary' - sz_Validated summary))"
  using assms(2,3)
proof (induction dbs arbitrary: summary d names)
  case Nil
  then show ?case by (simp add: sandbox_ran_def sandbox_plans_def)
next
  case (Cons db dbs)
  let ?sandbox = "TrimSpace (mapping db)" and ?rest = "concat (map (sandbox_plan source opts mapping) dbs)"
  have stop: ?case if "err \<noteq> None" "summary' = summary" "d' = d"
    using that Cons.prems(2) by (auto simp: sandbox_ran_def)
  show ?case
  proof (cases "?sandbox = '''' \<or> (\<exists>e. extractAllObjects source db (sandbox_copy_options opts) = Inl e)")
    case True
    then have "err \<noteq> None" "summary' = summary" "d' = d" using Cons.prems(1) by (auto simp: Let_def split: if_splits)
    then show ?thesis by (rule stop)
  next
    case False
    then obtain r where m: "?sandbox \<noteq> ''''" "extractAllObjects source db (sandbox_copy_options opts) = Inr r"
      by (cases "extractAllObjects source db (sandbox_copy_options opts)") auto
    show ?thesis
    proof (cases "er_statements r = []")
      case True
      then have "sandbox_plan source opts mapping db = []" by (simp add: sandbox_plan_def m)
      then show ?thesis using Cons.IH [of summary d names] Cons.prems m True by (simp add: Let_def sandbox_plans_def)
    next
      case False
      obtain e s1 d1 where x: "sandbox_database dest db ?sandbox (er_statements r) summary d = (e, s1, d1)"
        by (cases "sandbox_database dest db ?sandbox (er_statements r) summary d")
      note r = sandbox_database_ran [OF assms(1) x]
      have p: "sandbox_plan source opts mapping db = create_database ?sandbox # use_database ?sandbox #
          map (\<lambda>s. sanitizeCreateStatementForApply (rewriteSchemaStatementForSandbox s db ?sandbox)) (er_statements r)"
        using False by (simp add: sandbox_plan_def m)
      then have ran: "sandbox_ran ddl_log (sandbox_plan source opts mapping db) summary d e s1 d1" using r by simp
      let ?names = "names @ (if 2 \<le> sz_Validated s1 - sz_Validated summary then [?sandbox] else [])"
      have c: "sz_CreatedDatabases s1 = listed_once ?names"
        using r Cons.prems(2) add_created_listed [OF Cons.prems(2), of ?sandbox] by auto
      obtain executed rest where a: "sandbox_plan source opts mapping db = executed @ rest" "ddl_log d1 = ddl_log d @ executed"
        "sz_Validated s1 = sz_Validated summary + length executed"
        "sz_Failed s1 \<le> sz_Failed summary + (if e = None then 0 else 1)" "e = None \<longrightarrow> rest = []"
        using ran unfolding sandbox_ran_def by blast
      show ?thesis
      proof (cases e)
        case (Some y)
        then have "err = e" "summary' = s1" "d' = d1" using Cons.prems(1) m x False by (auto simp: Let_def)
        moreover have "sandbox_ran ddl_log (concat (map (sandbox_plan source opts mapping) (db # dbs))) summary d e s1 d1"
          unfolding sandbox_ran_def using a Some by (intro exI [of _ executed] exI [of _ "rest @ ?rest"]) simp
        moreover have "sz_Validated s1 - sz_Validated summary - length (sandbox_plan source opts mapping db) = 0" using a(1,3) by simp
        ultimately show ?thesis using c p by (simp add: sandbox_plans_def)
      next
        case None
        then have "sandbox_databases source dest opts mapping dbs s1 d1 = (err, summary', d')"
          using Cons.prems(1) m x False by (simp add: Let_def)
        note i = Cons.IH [OF this c(1)]
        then obtain executed' rest' where b: "?rest = executed' @ rest'" "ddl_log d' = ddl_log d1 @ executed'"
          "sz_Validated summary' = sz_Validated s1 + length executed'"
          "sz_Failed summary' \<le> sz_Failed s1 + (if err = None then 0 else 1)" "err = None \<longrightarrow> rest' = []"
          unfolding sandbox_ran_def by blast
        have "sandbox_ran ddl_log (concat (map (sandbox_plan source opts mapping) (db # dbs))) summary d err summary' d'"
          unfolding sandbox_ran_def using a b None by (intro exI [of _ "executed @ executed'"] exI [of _ rest']) simp
        moreover have "sz_Validated summary' - sz_Validated summary - length (sandbox_plan source opts mapping db) =
            sz_Validated summary' - sz_Validated s1"
          "2 \<le> sz_Validated s1 - sz_Validated summary" "2 \<le> sz_Validated summary' - sz_Validated summary"
          using a(1,3,5) b(3) p None by (auto dest: arg_cong [where f = length])
        ultimately show ?thesis using i p by (simp add: sandbox_plans_def)
      qed
    qed
  qed
qed

text \<open>
  Claim C40. The dry run in a sandbox executes a prefix of the rewritten statements, in the databases
  that the mapping gives; without an error all of them. It counts each statement that was executed
  and at most one failure. For the cleanup it lists, in their order and each once, exactly the sandboxes for
  which both the creation and the USE that follows it were executed: all that it has filled when there is
  no error. A sandbox that was created and whose USE failed is not listed.
\<close>

theorem sandbox_runs_plan:
  assumes "logging dest ddl_log" and "ds_schemata source = Rows databases" and "sb_MapDatabase opts = Some mapping"
    and "ValidateSchemaInSandbox connected source dest opts d = (err, summary, d')"
    and "dbs = SelectDatabases databases (sb_IncludeDatabases opts) (sb_ExcludeDatabases opts)"
  shows "\<exists>executed rest. concat (map (sandbox_plan source opts mapping) dbs) = executed @ rest \<and>
    ddl_log d' = ddl_log d @ executed \<and> sz_Validated summary = length executed \<and> sz_Failed summary \<le> (if err = None then 0 else 1) \<and>
    (err = None \<longrightarrow> rest = []) \<and> distinct (sz_CreatedDatabases summary) \<and>
    set (sz_CreatedDatabases summary) \<subseteq> (\<lambda>db. TrimSpace (mapping db)) ` set dbs \<and>
    sz_CreatedDatabases summary = listed_once (sandboxes_entered (sandbox_plans source opts mapping dbs) (length executed)) \<and>
    (err = None \<longrightarrow> set (sz_CreatedDatabases summary) =
      {TrimSpace (mapping db) |db. db \<in> set dbs \<and> sandbox_plan source opts mapping db \<noteq> []})"
proof -
  let ?plans = "sandbox_plans source opts mapping dbs"
  have names: "fst ` set ?plans = (\<lambda>db. TrimSpace (mapping db)) ` set dbs" "map snd ?plans = map (sandbox_plan source opts mapping) dbs"
    "{sandbox. \<exists>plan. (sandbox, plan) \<in> set ?plans \<and> plan \<noteq> []} =
      {TrimSpace (mapping db) |db. db \<in> set dbs \<and> sandbox_plan source opts mapping db \<noteq> []}"
    "\<forall>p \<in> set ?plans. snd p = [] \<or> 2 \<le> length (snd p)"
    using sandbox_plan_long by (auto simp: sandbox_plans_def image_image)
  consider "err \<noteq> None" "summary = sandbox_summary" "d' = d"
    | "sandbox_databases source dest opts mapping dbs sandbox_summary d = (err, summary, d')"
    using assms(2-5) by (auto simp: ValidateSchemaInSandbox_def rows_or_error_def split: if_splits)
  then show ?thesis
  proof cases
    case 1
    then show ?thesis by (auto simp: sandbox_summary_def)
  next
    case 2
    have "sz_CreatedDatabases sandbox_summary = listed_once []" by (simp add: sandbox_summary_def)
    from sandbox_databases_ran [OF assms(1) 2 this] obtain executed rest where r:
      "concat (map (sandbox_plan source opts mapping) dbs) = executed @ rest" "ddl_log d' = ddl_log d @ executed"
      "sz_Validated summary = length executed" "sz_Failed summary \<le> (if err = None then 0 else 1)" "err = None \<longrightarrow> rest = []"
      "sz_CreatedDatabases summary = listed_once (sandboxes_entered ?plans (length executed))"
      by (auto simp: sandbox_ran_def sandbox_summary_def)
    have "err = None \<longrightarrow> set (sandboxes_entered ?plans (length executed)) =
        {TrimSpace (mapping db) |db. db \<in> set dbs \<and> sandbox_plan source opts mapping db \<noteq> []}"
      using sandboxes_entered_all [OF names(4), of "length executed"] r(1,5) by (simp add: names(2,3))
    then show ?thesis using r sandboxes_entered_subset [of ?plans "length executed"]
      by (intro exI [of _ executed] exI [of _ rest]) (simp add: names(1))
  qed
qed

section \<open>Examples\<close>

text \<open>A server that keeps what it executed, and refuses some statements.\<close>

definition example_ddl_server :: "(string \<Rightarrow> string list \<Rightarrow> bool) \<Rightarrow> string list schema_dest" where
  "example_ddl_server refuses =
     \<lparr>dd_tables = (\<lambda>d. Rows []), dd_open = (\<lambda>d. (None, d)),
      dd_exec = (\<lambda>q d. if refuses q d then (Some ''refused'', d) else (None, d @ [q])), dd_close = (\<lambda>d. (None, d))\<rparr>"

text \<open>A source with two tables and two views, which answers SHOW CREATE with the query.\<close>

definition example_ddl_source :: schema_source where
  "example_ddl_source =
     \<lparr>ds_schemata = Rows [''d''], ds_objects = (\<lambda>db ty. if ty = ''VIEW'' then Rows [''v'', ''w''] else Rows [''a'', ''b'']),
      ds_keys = (\<lambda>db. Rows [(''a'', ''b'')]), ds_routines = (\<lambda>db. Rows []), ds_triggers = (\<lambda>db. Rows []),
      ds_events = (\<lambda>db. Rows []), ds_show = (\<lambda>q. ShowRow 2 (Some (Inr [[], q])))\<rparr>"

definition example_ddl_options :: "bool \<Rightarrow> SchemaCopyOptions" where
  "example_ddl_options tables =
     \<lparr>sx_IncludeDatabases = [], sx_ExcludeDatabases = [], sx_IncludeTables = tables, sx_IncludeViews = True, sx_IncludeRoutines = False,
      sx_IncludeTriggers = False, sx_IncludeEvents = False, sx_DestEmptyRequired = True\<rparr>"

lemma example_logging: "logging (example_ddl_server refuses) id"
  by (simp add: logging_def example_ddl_server_def)

lemma example_ddl_selected:
  "SelectDatabases [''d''] (sx_IncludeDatabases (example_ddl_options t)) (sx_ExcludeDatabases (example_ddl_options t)) = [''d'']"
proof -
  have "SelectDatabases [''d''] [] [] = [''d'']" by code_simp
  then show ?thesis by (simp add: example_ddl_options_def)
qed

lemma example_views: "extractAllObjects example_ddl_source ''d'' (example_ddl_options False) = Inr
  \<lparr>er_statements = [show_query ''VIEW'' ''d'' ''v'', show_query ''VIEW'' ''d'' ''w''], er_tableCount = 0, er_viewCount = 2, er_routineCount = 0,
   er_triggerCount = 0, er_eventCount = 0\<rparr>"
  by code_simp

lemma example_tables: "extractAllObjects example_ddl_source ''d'' (example_ddl_options True) = Inr
  \<lparr>er_statements = [show_query ''TABLE'' ''d'' ''b'', show_query ''TABLE'' ''d'' ''a'', show_query ''VIEW'' ''d'' ''v'', show_query ''VIEW'' ''d'' ''w''],
   er_tableCount = 2, er_viewCount = 2, er_routineCount = 0, er_triggerCount = 0, er_eventCount = 0\<rparr>"
  by code_simp

theorem CopySchema_executes_witness:
  "\<exists>executed rest. databases_plan example_ddl_source (example_ddl_options True) [''d''] = executed @ rest \<and>
     snd (snd (CopySchema True example_ddl_source (example_ddl_server (\<lambda>q d. length d = 3)) (example_ddl_options True) [])) = executed"
proof -
  obtain err summary d' where c: "CopySchema True example_ddl_source (example_ddl_server (\<lambda>q d. length d = 3)) (example_ddl_options True) [] = (err, summary, d')"
    by (cases "CopySchema True example_ddl_source (example_ddl_server (\<lambda>q d. length d = 3)) (example_ddl_options True) []")
  have "ds_schemata example_ddl_source = Rows [''d'']" by (simp add: example_ddl_source_def)
  from CopySchema_executes [OF example_logging this c refl] show ?thesis by (auto simp: c example_ddl_selected)
qed

theorem tables_first_by_foreign_keys_witness:
  "\<exists>ordered tables others. [show_query ''TABLE'' ''d'' ''b'', show_query ''TABLE'' ''d'' ''a'', show_query ''VIEW'' ''d'' ''v'', show_query ''VIEW'' ''d'' ''w''] =
     tables @ others \<and> set ordered = {''a'', ''b''} \<and> (\<exists>xs ys. ordered = xs @ ''a'' # ys \<and> ''b'' \<in> set xs)"
proof -
  have k: "(''a'', ''b'') \<in> foreign_keys [''a'', ''b''] [(''a'', ''b'')]" by (simp add: foreign_keys_def)
  have p: "sx_IncludeTables (example_ddl_options True)" "ds_objects example_ddl_source ''d'' ''BASE TABLE'' = Rows [''a'', ''b'']"
    "distinct [''a'', ''b'']" "ds_keys example_ddl_source ''d'' = Rows [(''a'', ''b'')]"
    by (simp_all add: example_ddl_options_def example_ddl_source_def)
  have use: "\<exists>ordered tables others. S = tables @ others \<and> set ordered = N \<and> (\<exists>xs ys. ordered = xs @ x # ys \<and> y \<in> set xs)"
    if "\<exists>ordered tables others. S = tables @ others \<and> C tables \<and> L ordered tables \<and> D ordered \<and> set ordered = N \<and>
      (\<forall>(t, u) \<in> F. \<exists>xs ys. ordered = xs @ t # ys \<and> u \<in> set xs)" "(x, y) \<in> F"
    for S N F C L D and x y :: string
    using that by fast
  show ?thesis
    using use [OF tables_first_by_foreign_keys [OF example_tables p, unfolded extractResult.select_convs] k] by (simp only: list.set)
qed

text \<open>The view v reads the view w.\<close>

theorem later_dependency_blocks_witness:
  "fst (CopySchema True example_ddl_source
     (example_ddl_server (\<lambda>q d. q = show_query ''VIEW'' ''d'' ''v'' \<and> show_query ''VIEW'' ''d'' ''w'' \<notin> set d)) (example_ddl_options False) []) \<noteq> None"
proof -
  have s: "sanitizeCreateStatementForApply (show_query ''VIEW'' ''d'' x) = show_query ''VIEW'' ''d'' x" if "x \<in> {''v'', ''w''}" for x
    using that by (elim insertE emptyE; hypsubst) code_simp+
  have "databases_plan example_ddl_source (example_ddl_options False)
      (SelectDatabases [''d''] (sx_IncludeDatabases (example_ddl_options False)) (sx_ExcludeDatabases (example_ddl_options False))) =
    [create_database ''d'', use_database ''d''] @ show_query ''VIEW'' ''d'' ''v'' # [show_query ''VIEW'' ''d'' ''w'']"
    by (simp add: example_ddl_selected database_plan_def example_views apply_plan_def s)
  moreover have "show_query ''VIEW'' ''d'' ''w'' \<notin> set [create_database ''d'', use_database ''d'']"
    by (simp add: create_database_def use_database_def show_query_def)
  moreover have "ds_schemata example_ddl_source = Rows [''d'']" by (simp add: example_ddl_source_def)
  ultimately show ?thesis
    by (intro later_dependency_blocks [OF example_logging, where needed = "show_query ''VIEW'' ''d'' ''w''"])
      (assumption | simp add: example_ddl_server_def)+
qed

definition example_sandbox_options :: DryRunSandboxOptions where
  "example_sandbox_options = \<lparr>sb_IncludeDatabases = [], sb_ExcludeDatabases = [], sb_IncludeTables = True, sb_IncludeViews = False,
     sb_IncludeRoutines = False, sb_IncludeTriggers = False, sb_IncludeEvents = False, sb_MapDatabase = Some (\<lambda>db. ''x'')\<rparr>"

theorem sandbox_runs_plan_witness:
  "\<exists>executed rest. sandbox_plan example_ddl_source example_sandbox_options (\<lambda>db. ''x'') ''d'' = executed @ rest \<and>
     sz_CreatedDatabases (fst (snd (ValidateSchemaInSandbox True example_ddl_source (example_ddl_server (\<lambda>q d. length d = 3)) example_sandbox_options []))) =
       listed_once (sandboxes_entered (sandbox_plans example_ddl_source example_sandbox_options (\<lambda>db. ''x'') [''d'']) (length executed)) \<and>
     sz_Validated (fst (snd (ValidateSchemaInSandbox True example_ddl_source (example_ddl_server (\<lambda>q d. length d = 3)) example_sandbox_options []))) =
       length executed"
proof -
  obtain err summary d' where v:
    "ValidateSchemaInSandbox True example_ddl_source (example_ddl_server (\<lambda>q d. length d = 3)) example_sandbox_options [] = (err, summary, d')"
    by (cases "ValidateSchemaInSandbox True example_ddl_source (example_ddl_server (\<lambda>q d. length d = 3)) example_sandbox_options []")
  have sel: "[''d''] = SelectDatabases [''d''] (sb_IncludeDatabases example_sandbox_options) (sb_ExcludeDatabases example_sandbox_options)"
    by code_simp
  have s: "ds_schemata example_ddl_source = Rows [''d'']" by (simp add: example_ddl_source_def)
  have m: "sb_MapDatabase example_sandbox_options = Some (\<lambda>db. ''x'')" by (simp add: example_sandbox_options_def)
  show ?thesis using sandbox_runs_plan [OF example_logging s m v sel] unfolding v by auto
qed

text \<open>
  When the sandbox is created and its USE is refused, nothing is listed: the cleanup, which drops
  what is listed, leaves the database on the destination.
\<close>

lemma sandbox_left_behind:
  "ValidateSchemaInSandbox True example_ddl_source (example_ddl_server (\<lambda>q d. q = use_database ''x'')) example_sandbox_options [] =
     (Some ''refused'', \<lparr>sz_Validated = 1, sz_Failed = 1, sz_CreatedDatabases = []\<rparr>, [create_database ''x''])"
  by code_simp

end
