(* ===== verification/Schema_Rewrite.thy ===== *)
theory Schema_Rewrite
  imports Schema_Copy
begin

text \<open>
  The rewriting of qualified names for the sandbox (rewriteQualifiedDatabaseReference of
  internal/schema/copy.go), compared with a reference definition on the lexical elements of a
  statement: names in backticks, string literals, comments and single characters.
\<close>

section \<open>Lexical elements\<close>

datatype lexeme = Plain char | Ident string | Literal string | Line string | Block string

definition single_quote :: char where
  "single_quote = CHR 0x27"

definition line_break :: char where
  "line_break = CHR 0x0A"

fun render :: "lexeme \<Rightarrow> string" where
  "render (Plain c) = [c]"
| "render (Ident n) = quoteIdentifier n"
| "render (Literal b) = single_quote # ReplaceByte b single_quote [single_quote, single_quote] @ [single_quote]"
| "render (Line b) = ''-- '' @ b @ [line_break]"
| "render (Block b) = ''/*'' @ b @ ''*/''"

definition render_all :: "lexeme list \<Rightarrow> string" where
  "render_all ls = concat (map render ls)"

text \<open>The reference: a name in front of a dot that is the source's is replaced, nothing else.\<close>

fun retarget :: "string \<Rightarrow> string \<Rightarrow> lexeme list \<Rightarrow> lexeme list" where
  "retarget a b [] = []"
| "retarget a b [l] = [l]"
| "retarget a b (l # l' # ls) =
     (if l = Ident a \<and> l' = Plain CHR ''.'' then Ident b # l' # retarget a b ls else l # retarget a b (l' # ls))"

section \<open>Statements that the code reads as the server does\<close>

definition special :: "char \<Rightarrow> bool" where
  "special c = (c \<in> set [backtick, single_quote, CHR 0x22, CHR ''#'', CHR ''/''])"

fun no_pair :: "char \<Rightarrow> char \<Rightarrow> string \<Rightarrow> bool" where
  "no_pair x y [] = True"
| "no_pair x y (c # s) = (\<not> (c = x \<and> take 1 s = [y]) \<and> no_pair x y s)"

definition name_ok :: "string \<Rightarrow> bool" where
  "name_ok n = (list_all (\<lambda>c. \<not> special c) n \<and> no_pair CHR ''-'' CHR ''-'' n)"

definition source_ok :: "string \<Rightarrow> bool" where
  "source_ok a = (name_ok a \<and> a \<noteq> [] \<and> hd a \<noteq> CHR ''-'' \<and> hd a \<noteq> CHR ''.'')"

fun lexeme_ok :: "lexeme \<Rightarrow> bool" where
  "lexeme_ok (Plain c) = (\<not> special c \<and> c \<noteq> CHR ''-'')"
| "lexeme_ok (Ident n) = name_ok n"
| "lexeme_ok (Literal b) = True"
| "lexeme_ok (Line b) = (line_break \<notin> set b)"
| "lexeme_ok (Block b) = no_pair CHR ''*'' CHR ''/'' b"

text \<open>A name is not followed by the first character of the source's name outside quotes.\<close>

fun tame :: "string \<Rightarrow> lexeme list \<Rightarrow> bool" where
  "tame a [] = True"
| "tame a (l # ls) = (lexeme_ok l \<and> tame a ls \<and> (\<forall>n c. l = Ident n \<longrightarrow> take 1 ls = [Plain c] \<longrightarrow> c \<noteq> hd a))"

section \<open>Single steps of the loop\<close>

abbreviation rewrite :: "string \<Rightarrow> string \<Rightarrow> string \<Rightarrow> string" where
  "rewrite old new s \<equiv> rewrite_from old new rewrite_start s"

lemma rewrite_Nil [simp]: "rewrite_from old new st [] = []"
  by (simp add: rewrite_from.simps)

lemma rewrite_plain:
  assumes "\<not> special c" and "c = CHR ''-'' \<Longrightarrow> take 1 s \<noteq> ''-''" and "\<not> HasPrefix (c # s) old"
  shows "rewrite old new (c # s) = c # rewrite old new s"
  using assms by (subst rewrite_from.simps) (auto simp: rewrite_start_def special_def single_quote_def)

lemma HasPrefix_backtick: "c \<noteq> backtick \<Longrightarrow> \<not> HasPrefix (c # s) (quoteIdentifier a @ r)"
  by (simp add: quoteIdentifier_def)

lemma rewrite_name:
  assumes "name_ok n" and "old = quoteIdentifier a @ ''.''"
  shows "rewrite old new (n @ backtick # s) = n @ rewrite old new (backtick # s)"
  using assms(1)
proof (induction n)
  case (Cons c n)
  then have c: "\<not> special c" "name_ok n" "c = CHR ''-'' \<longrightarrow> take 1 n \<noteq> ''-''" by (auto simp: name_ok_def)
  have "take 1 (n @ backtick # s) \<noteq> ''-''" if "c = CHR ''-''"
    using c(3) that by (cases n) (auto simp: backtick_def)
  moreover have "\<not> HasPrefix (c # n @ backtick # s) old"
    unfolding assms(2) using c(1) by (intro HasPrefix_backtick) (auto simp: special_def)
  ultimately have "rewrite old new (c # n @ backtick # s) = c # rewrite old new (n @ backtick # s)"
    using c(1) by (intro rewrite_plain) auto
  then show ?case using Cons.IH c(2) by simp
qed simp

lemma rewrite_tick:
  assumes "\<not> HasPrefix (backtick # s) old"
  shows "rewrite old new (backtick # s) = backtick # rewrite old new s"
  using assms by (subst rewrite_from.simps) (auto simp: rewrite_start_def backtick_def)

lemma rewrite_prefix:
  assumes "old \<noteq> []" and "hd old = backtick"
  shows "rewrite old new (old @ s) = new @ rewrite old new s"
proof -
  obtain t where f: "old = backtick # t" using assms by (cases old) auto
  have "HasPrefix (old @ s) old" by (induction old) auto
  then show ?thesis by (subst rewrite_from.simps) (simp add: f rewrite_start_def backtick_def)
qed

text \<open>Inside a literal everything is copied; a doubled quote leaves it and enters it again.\<close>

lemma rewrite_open:
  "rewrite_from old new (rewrite_start\<lparr>rw_single := s\<rparr>) (single_quote # t) =
   single_quote # rewrite_from old new (rewrite_start\<lparr>rw_single := \<not> s\<rparr>) t"
  if "hd old = backtick" and "old \<noteq> []"
proof -
  have "\<not> HasPrefix (single_quote # t) old" using that by (cases old) (auto simp: backtick_def single_quote_def)
  then show ?thesis by (subst rewrite_from.simps) (auto simp: rewrite_start_def single_quote_def)
qed

lemma rewrite_literal:
  assumes "hd old = backtick" and "old \<noteq> []"
  shows "rewrite_from old new (rewrite_start\<lparr>rw_single := True\<rparr>) (ReplaceByte b single_quote [single_quote, single_quote] @ single_quote # s) =
    ReplaceByte b single_quote [single_quote, single_quote] @ single_quote # rewrite old new s"
proof (induction b)
  case Nil
  show ?case using rewrite_open [OF assms, of new True s] by (simp add: rewrite_start_def)
next
  case (Cons c b)
  show ?case
  proof (cases "c = single_quote")
    case True
    then show ?thesis using Cons by (simp add: rewrite_open [OF assms])
  next
    case False
    then have "rewrite_from old new (rewrite_start\<lparr>rw_single := True\<rparr>) (c # t) = c # rewrite_from old new (rewrite_start\<lparr>rw_single := True\<rparr>) t" for t
      by (subst rewrite_from.simps) (auto simp: rewrite_start_def single_quote_def)
    then show ?thesis using Cons False by simp
  qed
qed

lemma rewrite_line:
  assumes "line_break \<notin> set b"
  shows "rewrite_from old new (rewrite_start\<lparr>rw_line := True\<rparr>) (b @ line_break # s) = b @ line_break # rewrite old new s"
  using assms
proof (induction b)
  case Nil
  show ?case by (subst rewrite_from.simps) (simp add: rewrite_start_def line_break_def)
next
  case (Cons c b)
  then have "rewrite_from old new (rewrite_start\<lparr>rw_line := True\<rparr>) (c # t) = c # rewrite_from old new (rewrite_start\<lparr>rw_line := True\<rparr>) t" for t
    by (subst rewrite_from.simps) (auto simp: rewrite_start_def line_break_def)
  then show ?case using Cons by simp
qed

lemma rewrite_block:
  assumes "no_pair CHR ''*'' CHR ''/'' b"
  shows "rewrite_from old new (rewrite_start\<lparr>rw_block := True\<rparr>) (b @ ''*/'' @ s) = b @ ''*/'' @ rewrite old new s"
  using assms
proof (induction b)
  case Nil
  show ?case by (subst rewrite_from.simps) (simp add: rewrite_start_def)
next
  case (Cons c b)
  have "take 1 (b @ ''*/'' @ s) \<noteq> ''/''" if "c = CHR ''*''" using Cons.prems that by (cases b) auto
  then have "rewrite_from old new (rewrite_start\<lparr>rw_block := True\<rparr>) (c # b @ ''*/'' @ s) =
      c # rewrite_from old new (rewrite_start\<lparr>rw_block := True\<rparr>) (b @ ''*/'' @ s)"
    by (subst rewrite_from.simps) (auto simp: rewrite_start_def)
  then show ?case using Cons by simp
qed

section \<open>The rewriting is the reference\<close>

lemma ReplaceByte_absent: "x \<notin> set s \<Longrightarrow> ReplaceByte s x r = s"
  by (induction s) auto

lemma name_ok_no_tick: "name_ok n \<Longrightarrow> backtick \<notin> set n"
  by (auto simp: name_ok_def special_def list_all_iff)

lemma quote_ok: "name_ok n \<Longrightarrow> quoteIdentifier n = backtick # n @ [backtick]"
  by (simp add: quoteIdentifier_def ReplaceByte_absent name_ok_no_tick)

lemma split_at_tick:
  assumes "n @ backtick # s = m @ backtick # t" and "backtick \<notin> set n" and "backtick \<notin> set m"
  shows "n = m \<and> s = t"
proof -
  have "takeWhile (\<lambda>c. c \<noteq> backtick) (x @ backtick # y) = x" if "backtick \<notin> set x" for x y
    using that by (auto simp: takeWhile_append)
  then have "n = m" using assms by metis
  then show ?thesis using assms(1) by simp
qed

lemma name_prefix:
  assumes "name_ok n" and "name_ok a" and "HasPrefix (quoteIdentifier n @ s) (quoteIdentifier a @ ''.'')"
  shows "n = a \<and> take 1 s = ''.''"
proof -
  obtain t where "quoteIdentifier n @ s = (quoteIdentifier a @ ''.'') @ t" using assms(3) by (auto simp: HasPrefix_iff)
  then have "n @ backtick # s = a @ backtick # ''.'' @ t" using assms(1,2) by (simp add: quote_ok)
  then have "n = a \<and> s = ''.'' @ t" using assms(1,2) by (intro split_at_tick name_ok_no_tick)
  then show ?thesis by simp
qed

text \<open>The first character of what follows a name in a tame statement is not that of the source's name.\<close>

lemma tame_next:
  assumes "tame a (Ident n # ls)" and "source_ok a"
  shows "take 1 (render_all ls) \<noteq> [hd a]"
proof (cases ls)
  case Nil
  then show ?thesis by (simp add: render_all_def)
next
  case (Cons l ls')
  have h: "\<not> special (hd a)" "hd a \<noteq> CHR ''-''" using assms(2) by (auto simp: source_ok_def name_ok_def list_all_iff)
  show ?thesis
    using assms(1) h by (cases l) (auto simp: Cons render_all_def quoteIdentifier_def special_def single_quote_def backtick_def)
qed

lemma rewrite_lexeme:
  assumes "tame a (l # ls)" and "source_ok a" and "\<not> (l = Ident a \<and> take 1 (render_all ls) = ''.'')"
  shows "rewrite (quoteIdentifier a @ ''.'') new (render l @ render_all ls) = render l @ rewrite (quoteIdentifier a @ ''.'') new (render_all ls)"
proof -
  let ?old = "quoteIdentifier a @ ''.''"
  have old: "hd ?old = backtick" "?old \<noteq> []" by (simp_all add: quoteIdentifier_def)
  have ok: "lexeme_ok l" using assms(1) by simp
  show ?thesis
  proof (cases l)
    case (Plain c)
    have "\<not> HasPrefix (c # render_all ls) ?old" using ok by (intro HasPrefix_backtick) (auto simp: Plain special_def)
    then have "rewrite ?old new (c # render_all ls) = c # rewrite ?old new (render_all ls)"
      using ok by (intro rewrite_plain) (simp_all add: Plain)
    then show ?thesis by (simp add: Plain)
  next
    case (Ident n)
    have n: "name_ok n" "name_ok a" using ok assms(2) by (simp_all add: Ident source_ok_def)
    have "\<not> HasPrefix (quoteIdentifier n @ render_all ls) ?old" using name_prefix [OF n] assms(3) Ident by blast
    then have "rewrite ?old new (backtick # n @ backtick # render_all ls) = backtick # rewrite ?old new (n @ backtick # render_all ls)"
      by (intro rewrite_tick) (simp add: quote_ok [OF n(1)])
    also have "\<dots> = backtick # n @ rewrite ?old new (backtick # render_all ls)" by (simp add: rewrite_name [OF n(1) refl])
    also have "rewrite ?old new (backtick # render_all ls) = backtick # rewrite ?old new (render_all ls)"
    proof (rule rewrite_tick)
      have "take 1 (render_all ls) \<noteq> [hd a]" using tame_next [OF _ assms(2)] assms(1) Ident by blast
      moreover obtain x xs where a: "a = x # xs" using assms(2) by (cases a) (auto simp: source_ok_def)
      moreover have "?old = backtick # x # xs @ backtick # ''.''" using quote_ok [OF n(2)] by (simp add: a)
      ultimately show "\<not> HasPrefix (backtick # render_all ls) ?old" by (cases "render_all ls") auto
    qed
    finally show ?thesis by (simp add: Ident quote_ok [OF n(1)])
  next
    case (Literal b)
    have "rewrite ?old new (single_quote # t) = single_quote # rewrite_from ?old new (rewrite_start\<lparr>rw_single := True\<rparr>) t" for t
      using rewrite_open [OF old, of new False t] by (simp add: rewrite_start_def)
    then show ?thesis using rewrite_literal [OF old, of new b "render_all ls"] by (simp add: Literal)
  next
    case (Line b)
    have "rewrite ?old new (''-- '' @ t) = ''--'' @ rewrite_from ?old new (rewrite_start\<lparr>rw_line := True\<rparr>) ('' '' @ t)" for t
      by (subst rewrite_from.simps) (simp add: rewrite_start_def)
    moreover have "line_break \<notin> set ('' '' @ b)" using ok by (simp add: Line line_break_def)
    from rewrite_line [OF this, of ?old new "render_all ls"]
    have "rewrite_from ?old new (rewrite_start\<lparr>rw_line := True\<rparr>) ('' '' @ b @ [line_break] @ render_all ls) =
        '' '' @ b @ [line_break] @ rewrite ?old new (render_all ls)" by simp
    ultimately show ?thesis by (simp add: Line)
  next
    case (Block b)
    have "rewrite ?old new (''/*'' @ t) = ''/*'' @ rewrite_from ?old new (rewrite_start\<lparr>rw_block := True\<rparr>) t" for t
      by (subst rewrite_from.simps) (simp add: rewrite_start_def)
    then show ?thesis using rewrite_block [of b ?old new "render_all ls"] ok by (simp add: Block)
  qed
qed

lemma tame_Cons: "tame a (l # ls) \<Longrightarrow> tame a ls"
  by simp

lemma render_dot: "lexeme_ok l \<Longrightarrow> take 1 (render l @ s) = ''.'' \<longleftrightarrow> l = Plain CHR ''.''"
  by (cases l) (auto simp: quoteIdentifier_def backtick_def single_quote_def)

text \<open>
  Claim C22. On a statement whose names have no quotes, backticks, slashes, number signs and double
  dashes the rewriting for the sandbox replaces exactly the names in front of a dot that are the
  source's; it leaves string literals and comments alone, whatever they contain.
\<close>

theorem rewrite_is_retarget:
  assumes "tame a ls" and "source_ok a"
  shows "rewriteQualifiedDatabaseReference (render_all ls) (quoteIdentifier a @ ''.'') (quoteIdentifier b @ ''.'') =
    render_all (retarget a b ls)"
proof -
  let ?old = "quoteIdentifier a @ ''.''" and ?new = "quoteIdentifier b @ ''.''"
  have "rewrite ?old ?new (render_all ls) = render_all (retarget a b ls)"
    using assms
  proof (induction a b ls rule: retarget.induct)
    case (1 a b)
    show ?case by (simp add: render_all_def)
  next
    case (2 a b l)
    then have "rewrite (quoteIdentifier a @ ''.'') (quoteIdentifier b @ ''.'') (render l @ render_all []) =
        render l @ rewrite (quoteIdentifier a @ ''.'') (quoteIdentifier b @ ''.'') (render_all [])"
      by (intro rewrite_lexeme) (simp_all add: render_all_def)
    then show ?case by (simp add: render_all_def)
  next
    case (3 a b l l' ls)
    have r: "render_all (x # xs) = render x @ render_all xs" for x xs by (simp add: render_all_def)
    show ?case
    proof (cases "l = Ident a \<and> l' = Plain CHR ''.''")
      case True
      have "rewrite (quoteIdentifier a @ ''.'') (quoteIdentifier b @ ''.'') ((quoteIdentifier a @ ''.'') @ render_all ls) =
          (quoteIdentifier b @ ''.'') @ rewrite (quoteIdentifier a @ ''.'') (quoteIdentifier b @ ''.'') (render_all ls)"
        by (rule rewrite_prefix) (simp_all add: quoteIdentifier_def)
      then show ?thesis using 3 True by (simp add: r)
    next
      case False
      have "take 1 (render_all (l' # ls)) = ''.'' \<longleftrightarrow> l' = Plain CHR ''.''"
        using render_dot [of l'] 3(3) by (simp add: r)
      then have "rewrite (quoteIdentifier a @ ''.'') (quoteIdentifier b @ ''.'') (render l @ render_all (l' # ls)) =
          render l @ rewrite (quoteIdentifier a @ ''.'') (quoteIdentifier b @ ''.'') (render_all (l' # ls))"
        using False by (intro rewrite_lexeme 3(3,4)) blast
      moreover have "rewrite (quoteIdentifier a @ ''.'') (quoteIdentifier b @ ''.'') (render_all (l' # ls)) = render_all (retarget a b (l' # ls))"
        using 3(3) by (intro 3(2) False 3(4)) (rule tame_Cons)
      ultimately show ?thesis using False by (simp only: r retarget.simps if_False)
    qed
  qed
  then show ?thesis by (simp add: rewriteQualifiedDatabaseReference_def)
qed

theorem rewrite_is_retarget_witness:
  "rewriteQualifiedDatabaseReference
     (render_all [Ident ''shop'', Plain CHR ''.'', Ident ''t'', Plain CHR '' '', Literal ''`shop`.it's'', Block ''`shop`.x'', Ident ''shop''])
     (quoteIdentifier ''shop'' @ ''.'') (quoteIdentifier ''tmp'' @ ''.'') =
   render_all [Ident ''tmp'', Plain CHR ''.'', Ident ''t'', Plain CHR '' '', Literal ''`shop`.it's'', Block ''`shop`.x'', Ident ''shop'']"
  using rewrite_is_retarget [of "''shop''"
      "[Ident ''shop'', Plain CHR ''.'', Ident ''t'', Plain CHR '' '', Literal ''`shop`.it's'', Block ''`shop`.x'', Ident ''shop'']" "''tmp''"]
  by (simp add: name_ok_def source_ok_def special_def single_quote_def backtick_def)

section \<open>Where the reference is not what the server means\<close>

text \<open>
  A table that has the name of its database loses its name in the sandbox: of
  a.a.column both names are replaced.
\<close>

theorem rewrite_renames_table:
  assumes "source_ok a" and "name_ok c"
  shows "rewriteSchemaStatementForSandbox (quoteIdentifier a @ ''.'' @ quoteIdentifier a @ ''.'' @ quoteIdentifier c) a b =
    quoteIdentifier b @ ''.'' @ quoteIdentifier b @ ''.'' @ quoteIdentifier c"
proof -
  let ?s = "quoteIdentifier a @ ''.'' @ quoteIdentifier a @ ''.'' @ quoteIdentifier c"
  let ?ls = "[Ident a, Plain CHR ''.'', Ident a, Plain CHR ''.'', Ident c]"
  have "tame a ?ls" using assms by (auto simp: source_ok_def special_def single_quote_def backtick_def)
  have s: "backtick \<in> set ?s" "\<not> is_space backtick" by (simp_all add: quoteIdentifier_def is_space_def backtick_def)
  have "rewrite_from (quoteIdentifier a @ ''.'') (quoteIdentifier b @ ''.'') rewrite_start ?s =
      quoteIdentifier b @ ''.'' @ quoteIdentifier b @ ''.'' @ quoteIdentifier c"
  proof -
    have q: "quoteIdentifier a @ ''.'' \<noteq> []" "hd (quoteIdentifier a @ ''.'') = backtick" by (simp_all add: quoteIdentifier_def)
    have "\<not> (Ident c = Ident a \<and> take 1 (render_all []) = ''.'')" by (simp add: render_all_def)
    moreover have "tame a [Ident c]" using assms(2) by simp
    ultimately have "rewrite (quoteIdentifier a @ ''.'') (quoteIdentifier b @ ''.'') (render (Ident c) @ render_all []) =
        render (Ident c) @ rewrite (quoteIdentifier a @ ''.'') (quoteIdentifier b @ ''.'') (render_all [])"
      using assms(1) by (intro rewrite_lexeme)
    then show ?thesis
      using rewrite_prefix [OF q, of "quoteIdentifier b @ ''.''" "quoteIdentifier a @ ''.'' @ quoteIdentifier c"]
        rewrite_prefix [OF q, of "quoteIdentifier b @ ''.''" "quoteIdentifier c"]
      by (simp add: render_all_def)
  qed
  moreover have "TrimSpace ?s \<noteq> ''''" using s by (auto simp: TrimSpace_eq_Nil list_all_iff)
  ultimately show ?thesis by (simp add: rewriteSchemaStatementForSandbox_def rewriteQualifiedDatabaseReference_def)
qed

theorem rewrite_renames_table_witness:
  "rewriteSchemaStatementForSandbox ''`shop`.`shop`.`id`'' ''shop'' ''tmp'' = ''`tmp`.`tmp`.`id`''"
proof -
  have "source_ok ''shop''" "name_ok ''id''" by code_simp+
  from rewrite_renames_table [OF this, of "''tmp''"] show ?thesis by (simp add: quoteIdentifier_def backtick_def)
qed

lemma rewrite_in_literal:
  "single_quote \<notin> set s \<Longrightarrow>
   rewrite_from old new (rewrite_start\<lparr>rw_single := True\<rparr>) (s @ t) = s @ rewrite_from old new (rewrite_start\<lparr>rw_single := True\<rparr>) t"
proof (induction s)
  case (Cons c s)
  then have "rewrite_from old new (rewrite_start\<lparr>rw_single := True\<rparr>) (c # u) = c # rewrite_from old new (rewrite_start\<lparr>rw_single := True\<rparr>) u" for u
    by (subst rewrite_from.simps) (auto simp: rewrite_start_def single_quote_def)
  then show ?case using Cons by simp
qed simp

text \<open>
  A backslash in front of a quote is not seen as an escape: after a literal that ends with
  an escaped quote the code takes the rest of the statement for a literal, and the references in it
  to the source's database stay as they are.
\<close>

theorem escaped_quote_hides_references:
  assumes "single_quote \<notin> set body" and "single_quote \<notin> set rest"
  shows "rewriteSchemaStatementForSandbox (single_quote # body @ [CHR 0x5C, single_quote, single_quote] @ rest) a b =
    single_quote # body @ [CHR 0x5C, single_quote, single_quote] @ rest"
proof -
  let ?old = "quoteIdentifier a @ ''.''" and ?new = "quoteIdentifier b @ ''.''"
  have q: "hd ?old = backtick" "?old \<noteq> []" by (simp_all add: quoteIdentifier_def)
  have start: "rewrite_start = rewrite_start\<lparr>rw_single := False\<rparr>" by (simp add: rewrite_start_def)
  have b: "single_quote \<notin> set (body @ [CHR 0x5C])" using assms(1) by (simp add: single_quote_def)
  have "rewrite ?old ?new (single_quote # (body @ [CHR 0x5C]) @ single_quote # single_quote # rest) =
      single_quote # (body @ [CHR 0x5C]) @ single_quote # single_quote # rest"
    using rewrite_in_literal [OF assms(2), of ?old ?new "[]"]
    by (subst start) (simp only: rewrite_open [OF q] rewrite_in_literal [OF b] not_False_eq_True not_True_eq_False rewrite_Nil append_Nil2)
  then show ?thesis by (simp add: rewriteSchemaStatementForSandbox_def rewriteQualifiedDatabaseReference_def)
qed

theorem escaped_quote_hides_references_witness:
  "rewriteSchemaStatementForSandbox (single_quote # ''it'' @ [CHR 0x5C, single_quote, single_quote] @ '', `shop`.`t`.`c`'') ''shop'' ''tmp'' =
   single_quote # ''it'' @ [CHR 0x5C, single_quote, single_quote] @ '', `shop`.`t`.`c`''"
  by (rule escaped_quote_hides_references) (simp_all add: single_quote_def)

end
