(* ===== verification/Compat_Rules.thy ===== *)
theory Compat_Rules
  imports Go_Prelude
begin

text \<open>
  The compatibility of a source and a destination (internal/compat/evaluate.go): engine and version
  are parsed from the answer to VERSION(), and a profile decides with explicit matrices which
  pairs are allowed. The report with the texts of its findings is modelled as a whole.
\<close>

section \<open>Data\<close>

datatype Engine = EngineMySQL | EngineMariaDB | EngineUnknown

fun engine_text :: "Engine \<Rightarrow> string" where
  "engine_text EngineMySQL = ''mysql''"
| "engine_text EngineMariaDB = ''mariadb''"
| "engine_text EngineUnknown = ''unknown''"

record strictLTSMatrixEntry =
  me_Engine :: Engine
  me_Major :: int
  me_Minor :: int
  me_Label :: string

record profileMatrixRange =
  mr_Engine :: Engine
  mr_Major :: int
  mr_MinMinor :: int
  mr_MaxMinor :: int
  mr_Label :: string

type_synonym crossEngineMatrixEntry = "string \<times> string"

definition strictLTSMatrix :: "strictLTSMatrixEntry list" where
  "strictLTSMatrix =
     [\<lparr>me_Engine = EngineMySQL, me_Major = 8, me_Minor = 4, me_Label = ''MySQL 8.4.x''\<rparr>,
      \<lparr>me_Engine = EngineMariaDB, me_Major = 10, me_Minor = 11, me_Label = ''MariaDB 10.11.x''\<rparr>,
      \<lparr>me_Engine = EngineMariaDB, me_Major = 11, me_Minor = 4, me_Label = ''MariaDB 11.4.x''\<rparr>,
      \<lparr>me_Engine = EngineMariaDB, me_Major = 11, me_Minor = 8, me_Label = ''MariaDB 11.8.x''\<rparr>]"

definition strictLTSCrossEngineMatrix :: "crossEngineMatrixEntry list" where
  "strictLTSCrossEngineMatrix = [(''MySQL 8.4.x'', ''MariaDB 11.4.x''), (''MariaDB 11.4.x'', ''MySQL 8.4.x'')]"

definition sameMajorMatrix :: "profileMatrixRange list" where
  "sameMajorMatrix =
     [\<lparr>mr_Engine = EngineMySQL, mr_Major = 8, mr_MinMinor = 4, mr_MaxMinor = 4, mr_Label = ''MySQL 8.4-8.4''\<rparr>,
      \<lparr>mr_Engine = EngineMariaDB, mr_Major = 10, mr_MinMinor = 11, mr_MaxMinor = 11, mr_Label = ''MariaDB 10.11-10.11''\<rparr>,
      \<lparr>mr_Engine = EngineMariaDB, mr_Major = 11, mr_MinMinor = 4, mr_MaxMinor = 8, mr_Label = ''MariaDB 11.4-11.8''\<rparr>]"

definition adjacentMinorMatrix :: "profileMatrixRange list" where
  "adjacentMinorMatrix =
     [\<lparr>mr_Engine = EngineMySQL, mr_Major = 8, mr_MinMinor = 4, mr_MaxMinor = 4, mr_Label = ''MySQL 8.4-8.4''\<rparr>,
      \<lparr>mr_Engine = EngineMariaDB, mr_Major = 10, mr_MinMinor = 11, mr_MaxMinor = 11, mr_Label = ''MariaDB 10.11-10.11''\<rparr>,
      \<lparr>mr_Engine = EngineMariaDB, mr_Major = 11, mr_MinMinor = 4, mr_MaxMinor = 8, mr_Label = ''MariaDB 11.4-11.8''\<rparr>]"

datatype DowngradeProfile = ProfileStrictLTS | ProfileSameMajor | ProfileAdjacentMinor | ProfileMaxCompat

fun profile_text :: "DowngradeProfile \<Rightarrow> string" where
  "profile_text ProfileStrictLTS = ''strict-lts''"
| "profile_text ProfileSameMajor = ''same-major''"
| "profile_text ProfileAdjacentMinor = ''adjacent-minor''"
| "profile_text ProfileMaxCompat = ''max-compat''"

record Instance =
  in_Engine :: Engine
  in_RawVersion :: string
  in_Major :: int
  in_Minor :: int
  in_Patch :: int
  in_Parsed :: bool
  in_Version :: string

record Finding =
  fg_Code :: string
  fg_Severity :: string
  fg_Message :: string
  fg_Proposal :: string

record Report =
  rp_Compatible :: bool
  rp_Downgrade :: bool
  rp_RequiresEvidence :: bool
  rp_DowngradeProfile :: string
  rp_Source :: Instance
  rp_Dest :: Instance
  rp_Findings :: "Finding list"

section \<open>Parsing\<close>

definition detectEngine :: "string \<Rightarrow> Engine" where
  "detectEngine rawVersion =
     (let raw = ToLower (TrimSpace rawVersion)
      in if Contains raw ''mariadb'' then EngineMariaDB else if raw \<noteq> '''' then EngineMySQL else EngineUnknown)"

text \<open>versionPattern at the head of a text: the digits of the three numbers.\<close>

definition match_version :: "string \<Rightarrow> (string \<times> string \<times> string) option" where
  "match_version s =
     (let a = takeWhile is_digit s; s1 = dropWhile is_digit s;
          b = takeWhile is_digit (tl s1); s2 = dropWhile is_digit (tl s1);
          c = takeWhile is_digit (tl s2)
      in if a \<noteq> '''' \<and> take 1 s1 = ''.'' \<and> b \<noteq> '''' \<and> take 1 s2 = ''.'' \<and> c \<noteq> '''' then Some (a, b, c) else None)"

fun find_version :: "string \<Rightarrow> (string \<times> string \<times> string) option" where
  "find_version [] = None"
| "find_version (c # s) = (case match_version (c # s) of Some m \<Rightarrow> Some m | None \<Rightarrow> find_version s)"

text \<open>strconv.Atoi on digits, its error ignored: a value out of range gives the largest integer.\<close>

definition atoi :: "string \<Rightarrow> int" where
  "atoi s = min (int (dec_value 0 s)) (2 ^ 63 - 1)"

definition ParseInstance :: "string \<Rightarrow> Instance" where
  "ParseInstance rawVersion =
     (let i = \<lparr>in_Engine = detectEngine rawVersion, in_RawVersion = TrimSpace rawVersion, in_Major = 0, in_Minor = 0, in_Patch = 0,
               in_Parsed = False, in_Version = ''''\<rparr>
      in case find_version rawVersion of
           None \<Rightarrow> i
         | Some (a, b, c) \<Rightarrow>
             i\<lparr>in_Major := atoi a, in_Minor := atoi b, in_Patch := atoi c, in_Parsed := True,
               in_Version := show_int (atoi a) @ ''.'' @ show_int (atoi b) @ ''.'' @ show_int (atoi c)\<rparr>)"

definition normalizeDowngradeProfile :: "string \<Rightarrow> DowngradeProfile" where
  "normalizeDowngradeProfile value_text =
     (let v = ToLower (TrimSpace value_text)
      in if v = '''' \<or> v = profile_text ProfileStrictLTS then ProfileStrictLTS
         else if v = profile_text ProfileSameMajor then ProfileSameMajor
         else if v = profile_text ProfileAdjacentMinor then ProfileAdjacentMinor
         else if v = profile_text ProfileMaxCompat then ProfileMaxCompat
         else ProfileStrictLTS)"

text \<open>Numbers that ParseInstance gives are at most the largest integer and not negative, so that the differences do not wrap around.\<close>

definition compareVersion :: "Instance \<Rightarrow> Instance \<Rightarrow> int" where
  "compareVersion source dest =
     (if in_Major source \<noteq> in_Major dest then in_Major source - in_Major dest
      else if in_Minor source \<noteq> in_Minor dest then in_Minor source - in_Minor dest
      else in_Patch source - in_Patch dest)"

section \<open>The matrices\<close>

fun find_line :: "Instance \<Rightarrow> strictLTSMatrixEntry list \<Rightarrow> string option" where
  "find_line i [] = None"
| "find_line i (e # es) =
     (if in_Engine i = me_Engine e \<and> in_Major i = me_Major e \<and> in_Minor i = me_Minor e then Some (me_Label e) else find_line i es)"

definition strictLTSLine :: "Instance \<Rightarrow> string option" where
  "strictLTSLine i = find_line i strictLTSMatrix"

fun profileMatrixRangeForInstance :: "Instance \<Rightarrow> profileMatrixRange list \<Rightarrow> string option" where
  "profileMatrixRangeForInstance i [] = None"
| "profileMatrixRangeForInstance i (e # es) =
     (if in_Engine i \<noteq> mr_Engine e \<or> in_Major i \<noteq> mr_Major e then profileMatrixRangeForInstance i es
      else if in_Minor i < mr_MinMinor e \<or> in_Minor i > mr_MaxMinor e then profileMatrixRangeForInstance i es
      else Some (mr_Label e))"

definition strictLTSCrossEngineAllowed :: "string \<Rightarrow> string \<Rightarrow> bool" where
  "strictLTSCrossEngineAllowed sourceLine destLine = list_ex (\<lambda>(s, d). sourceLine = s \<and> destLine = d) strictLTSCrossEngineMatrix"

definition isUnconfirmedActiveLTSPair :: "string \<Rightarrow> string \<Rightarrow> bool" where
  "isUnconfirmedActiveLTSPair sourceLine destLine =
     (sourceLine = ''MySQL 8.4.x'' \<and> destLine = ''MariaDB 11.8.x'' \<or> sourceLine = ''MariaDB 11.8.x'' \<and> destLine = ''MySQL 8.4.x'')"

definition strictLTSMatrixSummary :: string where
  "strictLTSMatrixSummary = Join (map (\<lambda>e. me_Label e @ ''->'' @ me_Label e) strictLTSMatrix) '', ''"

definition strictLTSCrossEngineMatrixSummary :: string where
  "strictLTSCrossEngineMatrixSummary = Join (map (\<lambda>(s, d). s @ ''->'' @ d) strictLTSCrossEngineMatrix) '', ''"

definition profileMatrixSummary :: "profileMatrixRange list \<Rightarrow> string" where
  "profileMatrixSummary matrix = Join (map (\<lambda>e. mr_Label e @ ''->'' @ mr_Label e) matrix) '', ''"

definition legacyLine :: "Instance \<Rightarrow> string option" where
  "legacyLine i =
     (if in_Engine i = EngineMySQL \<and> in_Major i = 8 \<and> in_Minor i = 0 then Some ''MySQL 8.0.x''
      else if in_Engine i = EngineMariaDB \<and> in_Major i = 10 \<and> in_Minor i = 6 then Some ''MariaDB 10.6.x''
      else None)"

section \<open>Findings\<close>

definition add_finding :: "string \<Rightarrow> string \<Rightarrow> string \<Rightarrow> string \<Rightarrow> Report \<Rightarrow> Report" where
  "add_finding code severity message proposal report =
     report\<lparr>rp_Findings := rp_Findings report @ [\<lparr>fg_Code = code, fg_Severity = severity, fg_Message = message, fg_Proposal = proposal\<rparr>]\<rparr>"

abbreviation info :: "string \<Rightarrow> string \<Rightarrow> string \<Rightarrow> Report \<Rightarrow> Report" where
  "info code message proposal \<equiv> add_finding code ''info'' message proposal"

abbreviation warn :: "string \<Rightarrow> string \<Rightarrow> string \<Rightarrow> Report \<Rightarrow> Report" where
  "warn code message proposal \<equiv> add_finding code ''warn'' message proposal"

text \<open>An error comes with Compatible = false.\<close>

definition block_path :: "string \<Rightarrow> string \<Rightarrow> string \<Rightarrow> Report \<Rightarrow> Report" where
  "block_path code message proposal report = add_finding code ''error'' message proposal (report\<lparr>rp_Compatible := False\<rparr>)"

text \<open>The verb pair "engine version".\<close>

definition named :: "Instance \<Rightarrow> string" where
  "named i = engine_text (in_Engine i) @ '' '' @ in_Version i"

definition applyStrictLTSSameEngineChecks :: "Report \<Rightarrow> Report" where
  "applyStrictLTSSameEngineChecks report =
     (let source = rp_Source report; dest = rp_Dest report
      in case (strictLTSLine source, strictLTSLine dest) of
           (Some sourceLine, Some destLine) \<Rightarrow>
             (if sourceLine \<noteq> destLine
              then block_path ''strict_lts_matrix_mismatch''
                     (''strict-lts profile blocks downgrade across matrix lines: '' @ sourceLine @ '' -> '' @ destLine @ ''.'')
                     (''Use a staged path that stays in one strict-lts line ('' @ strictLTSMatrixSummary @ '') or switch profile after risk review.'')
                     report
              else info ''strict_lts_matrix_match'' (''strict-lts matrix line matched: '' @ sourceLine @ ''.'')
                     ''Proceed with standard migration/verification gates under strict-lts policy.'' report)
         | _ \<Rightarrow>
             block_path ''strict_lts_matrix_out_of_range''
               (''strict-lts profile requires source/destination versions inside the explicit matrix, got '' @ named source @ '' -> ''
                @ named dest @ ''.'')
               (''Allowed strict-lts same-engine ranges: '' @ strictLTSMatrixSummary
                @ ''. Use same-major/adjacent-minor/max-compat for broader compatibility.'') report)"

definition applyCrossEngineStrictChecks :: "Report \<Rightarrow> Report" where
  "applyCrossEngineStrictChecks report =
     (let source = rp_Source report; dest = rp_Dest report
      in case (strictLTSLine source, strictLTSLine dest) of
           (Some sourceLine, Some destLine) \<Rightarrow>
             (if \<not> strictLTSCrossEngineAllowed sourceLine destLine
              then block_path ''strict_lts_cross_engine_matrix_mismatch''
                     (''strict-lts cross-engine matrix blocks path: '' @ sourceLine @ '' -> '' @ destLine @ ''.'')
                     (''Allowed strict-lts cross-engine paths: '' @ strictLTSCrossEngineMatrixSummary
                      @ ''. Use staged migration or max-compat after risk review.'') report
              else info ''strict_lts_cross_engine_matrix_match''
                     (''strict-lts cross-engine matrix matched: '' @ sourceLine @ '' -> '' @ destLine @ ''.'')
                     ''Proceed with phased cutover and full verification gates.'' report)
         | _ \<Rightarrow>
             block_path ''strict_lts_cross_engine_out_of_range''
               (''strict-lts cross-engine matrix requires known lines, got '' @ named source @ '' -> '' @ named dest @ ''.'')
               (''Allowed strict-lts cross-engine paths: '' @ strictLTSCrossEngineMatrixSummary
                @ ''. Use max-compat for broader paths after risk review.'') report)"

definition candidate_warnings :: "string \<Rightarrow> string \<Rightarrow> nat \<Rightarrow> Report \<Rightarrow> Report" where
  "candidate_warnings sourceLine destLine selected report =
     (let report = report\<lparr>rp_RequiresEvidence := True\<rparr>;
          report = warn ''cross_engine_matrix_candidate_unconfirmed''
            (''Cross-engine path '' @ sourceLine @ '' -> '' @ destLine
             @ '' uses active LTS lines but is not yet validated in strict-lts matrix.'')
            ''Keep max-compat, run full verify modes (count/hash/sample/full-hash), capture report evidence, and promote to strict-lts only after repeated successful staged cutovers.''
            report;
          report = warn ''cross_engine_matrix_candidate_validation_required''
            (''Promotion criteria required for candidate pair '' @ sourceLine @ '' -> '' @ destLine @ '' before strict-lts adoption.'')
            ''Collect at least 3 successful staged runs per direction (partial-scope pilot then full scope) with clean count/hash/sample/full-hash verification and attach evidence to the matrix change request.''
            report
      in if selected = 0
         then info ''cross_engine_matrix_candidate_partial_scope_recommended'' ''Full-scope run selected for an unconfirmed candidate pair.''
                ''Start with --databases partial-scope pilot runs, validate repeatability, then execute full-scope staged cutovers for promotion evidence.''
                report
         else info ''cross_engine_matrix_candidate_partial_scope_active''
                (''Partial-scope pilot is active for '' @ show_nat selected @ '' database(s) on an unconfirmed candidate pair.'')
                ''Repeat pilot runs until verification is consistently clean, then run full scope with the same verify/report gates.''
                report)"

text \<open>An unknown line is the empty text, which no matrix has.\<close>

definition applyCrossEngineRiskWarnings :: "nat \<Rightarrow> Report \<Rightarrow> Report" where
  "applyCrossEngineRiskWarnings selected report =
     (let source = rp_Source report; dest = rp_Dest report;
          unmapped = warn ''cross_engine_matrix_unmapped''
            (''Cross-engine path '' @ named source @ '' -> '' @ named dest @ '' is outside strict-lts cross-engine matrix.'')
            (''Allowed strict-lts cross-engine paths: '' @ strictLTSCrossEngineMatrixSummary
             @ ''. Run full verify modes and staged cutover on this relaxed profile.'') report
      in case (strictLTSLine source, strictLTSLine dest) of
           (Some sourceLine, Some destLine) \<Rightarrow>
             (if isUnconfirmedActiveLTSPair sourceLine destLine then candidate_warnings sourceLine destLine selected report
              else if \<not> strictLTSCrossEngineAllowed sourceLine destLine then unmapped
              else info ''cross_engine_matrix_mapped''
                     (''Cross-engine path maps to strict-lts matrix pair: '' @ sourceLine @ '' -> '' @ destLine @ ''.'')
                     ''Still run full verify/report gates because max-compat remains permissive.'' report)
         | _ \<Rightarrow> unmapped)"

definition applySameMajorChecks :: "Report \<Rightarrow> Report" where
  "applySameMajorChecks report =
     (let source = rp_Source report; dest = rp_Dest report; matrixSummary = profileMatrixSummary sameMajorMatrix
      in case (profileMatrixRangeForInstance source sameMajorMatrix, profileMatrixRangeForInstance dest sameMajorMatrix) of
           (Some sourceRange, Some destRange) \<Rightarrow>
             (if in_Major source \<noteq> in_Major dest
              then block_path ''downgrade_major_mismatch''
                     (''same-major profile blocks downgrade across major versions: '' @ show_int (in_Major source) @ '' -> ''
                      @ show_int (in_Major dest) @ ''.'')
                     (''Target an intermediate version inside the same major ('' @ matrixSummary @ '') or switch profile if explicitly accepted.'')
                     report
              else if sourceRange \<noteq> destRange
              then block_path ''same_major_matrix_mismatch''
                     (''same-major profile blocks downgrade across explicit matrix ranges: '' @ sourceRange @ '' -> '' @ destRange @ ''.'')
                     (''Use staged downgrades inside one matrix range ('' @ matrixSummary @ '') or switch profile after risk review.'') report
              else info ''same_major_matrix_match'' (''same-major matrix range matched: '' @ sourceRange @ ''.'')
                     ''Proceed with standard migration/verification gates under same-major policy.'' report)
         | _ \<Rightarrow>
             block_path ''same_major_matrix_out_of_range''
               (''same-major profile requires source/destination versions inside the explicit matrix, got '' @ named source @ '' -> ''
                @ named dest @ ''.'')
               (''Allowed same-major ranges: '' @ matrixSummary @ ''. Use max-compat for broader compatibility after risk review.'') report)"

definition applyAdjacentMinorChecks :: "Report \<Rightarrow> Report" where
  "applyAdjacentMinorChecks report =
     (let source = rp_Source report; dest = rp_Dest report; matrixSummary = profileMatrixSummary adjacentMinorMatrix
      in case (profileMatrixRangeForInstance source adjacentMinorMatrix, profileMatrixRangeForInstance dest adjacentMinorMatrix) of
           (Some sourceRange, Some destRange) \<Rightarrow>
             (if in_Major source \<noteq> in_Major dest
              then block_path ''downgrade_major_mismatch''
                     (''adjacent-minor profile blocks downgrade across major versions: '' @ show_int (in_Major source) @ '' -> ''
                      @ show_int (in_Major dest) @ ''.'')
                     (''Use a same-major destination inside matrix ranges ('' @ matrixSummary
                      @ '') or select max-compat with explicit risk acceptance.'') report
              else if sourceRange \<noteq> destRange
              then block_path ''adjacent_minor_matrix_mismatch''
                     (''adjacent-minor profile blocks downgrade across explicit matrix ranges: '' @ sourceRange @ '' -> '' @ destRange @ ''.'')
                     (''Keep source/destination inside one adjacent-minor matrix range ('' @ matrixSummary
                      @ '') or switch profile after risk review.'') report
              else if in_Minor source - in_Minor dest > 1
              then block_path ''downgrade_minor_gap''
                     (''adjacent-minor profile allows at most one minor step downgrade, got '' @ show_int (in_Major source) @ ''.''
                      @ show_int (in_Minor source) @ '' -> '' @ show_int (in_Major dest) @ ''.'' @ show_int (in_Minor dest) @ ''.'')
                     ''Use staged downgrades one minor step at a time or select max-compat after risk review.'' report
              else info ''adjacent_minor_matrix_match'' (''adjacent-minor matrix range matched: '' @ sourceRange @ ''.'')
                     ''Proceed with one-minor-step downgrade gates and full verification.'' report)
         | _ \<Rightarrow>
             block_path ''adjacent_minor_matrix_out_of_range''
               (''adjacent-minor profile requires source/destination versions inside the explicit matrix, got '' @ named source @ '' -> ''
                @ named dest @ ''.'')
               (''Allowed adjacent-minor ranges: '' @ matrixSummary @ ''. Use same-major or max-compat outside these ranges after risk review.'')
               report)"

definition appendMaxCompatLegacyWarnings :: "Report \<Rightarrow> Report" where
  "appendMaxCompatLegacyWarnings report =
     (let report = (case legacyLine (rp_Source report) of
              None \<Rightarrow> report
            | Some label \<Rightarrow> warn ''max_compat_legacy_line''
                (''max-compat source uses legacy line '' @ label @ '' ('' @ named (rp_Source report) @ '').'')
                ''Prefer active LTS lines (MySQL 8.4.x, MariaDB 10.11.x/11.4.x/11.8.x) or validate rollback and full verification evidence before cutover.''
                report)
      in case legacyLine (rp_Dest report) of
           None \<Rightarrow> report
         | Some label \<Rightarrow> warn ''max_compat_legacy_line''
             (''max-compat destination uses legacy line '' @ label @ '' ('' @ named (rp_Dest report) @ '').'')
             ''Prefer active LTS lines (MySQL 8.4.x, MariaDB 10.11.x/11.4.x/11.8.x) or accept explicit risk with staged migration and full verification.''
             report)"

section \<open>The decision\<close>

definition standard_proposal :: string where
  "standard_proposal = ''Proceed with standard validation gates (plan + migrate/verify + report).''"

definition cross_engine :: "DowngradeProfile \<Rightarrow> nat \<Rightarrow> Report \<Rightarrow> Report" where
  "cross_engine profile selected report =
     (let source = in_Engine (rp_Source report); dest = in_Engine (rp_Dest report);
          report = warn ''cross_engine_path'' (''Cross-engine path detected: '' @ engine_text source @ '' -> '' @ engine_text dest @ ''.'')
            ''Run plan/verify on a partial database set first and review object-level incompatibility report before full cutover.'' report;
          report = (case profile of
              ProfileStrictLTS \<Rightarrow> applyCrossEngineStrictChecks report
            | ProfileMaxCompat \<Rightarrow> applyCrossEngineRiskWarnings selected report
            | _ \<Rightarrow> block_path ''profile_same_engine_only''
                (profile_text profile @ '' profile supports same-engine paths only; cross-engine '' @ engine_text source @ '' -> ''
                 @ engine_text dest @ '' is blocked.'')
                ''Use strict-lts for explicit cross-engine matrix validation or max-compat after risk review.'' report)
      in if rp_Compatible report \<and> \<not> rp_Downgrade report
         then info ''no_downgrade_detected'' ''No same-engine downgrade version direction detected for this run.'' standard_proposal report
         else report)"

definition same_engine_downgrade :: "DowngradeProfile \<Rightarrow> Report \<Rightarrow> Report" where
  "same_engine_downgrade profile report =
     (let source = rp_Source report; dest = rp_Dest report;
          report = warn ''downgrade_detected''
            (''Downgrade detected: source '' @ named source @ '' -> destination '' @ named dest @ ''.'')
            (''Policy '' @ go_quote (profile_text profile)
             @ '' applies: fail on incompatible downgrade ranges and include remediation in report output.'') report;
          report = (case profile of
              ProfileStrictLTS \<Rightarrow> applyStrictLTSSameEngineChecks report
            | ProfileSameMajor \<Rightarrow> applySameMajorChecks report
            | ProfileAdjacentMinor \<Rightarrow> applyAdjacentMinorChecks report
            | ProfileMaxCompat \<Rightarrow>
                appendMaxCompatLegacyWarnings
                  (warn ''max_compat_profile'' ''max-compat profile selected: downgrade guardrails are relaxed.''
                    ''Run full verification and inspect detailed reports before cutover because compatibility checks are permissive.'' report))
      in if \<not> rp_Compatible report then report
         else info ''downgrade_allowed_by_profile''
                (''Downgrade '' @ named source @ '' -> '' @ named dest @ '' is allowed by profile '' @ go_quote (profile_text profile) @ ''.'')
                ''Proceed with migrate/verify and keep detailed report artifacts for rollback decisions.''
                (if rp_Downgrade report then report
                 else info ''no_downgrade_detected'' ''No downgrade version direction detected for this run.'' standard_proposal report))"

text \<open>The selected databases are given by their number.\<close>

definition Evaluate :: "Instance \<Rightarrow> Instance \<Rightarrow> nat \<Rightarrow> string \<Rightarrow> Report" where
  "Evaluate source dest selected downgradeProfile =
     (let profile = normalizeDowngradeProfile downgradeProfile;
          report = \<lparr>rp_Compatible = True, rp_Downgrade = False, rp_RequiresEvidence = False, rp_DowngradeProfile = profile_text profile,
            rp_Source = source, rp_Dest = dest, rp_Findings = []\<rparr>;
          report = info ''downgrade_profile_selected'' (''Downgrade profile selected: '' @ profile_text profile @ ''.'')
            ''Use --downgrade-profile to tune compatibility strictness for this run.'' report;
          report = (if selected = 0 then report
            else info ''partial_database_scope'' (''Partial scope enabled for '' @ show_nat selected @ '' database(s).'')
              ''This run is allowed to process only selected databases. Keep using --databases for phased cutovers.'' report)
      in if \<not> in_Parsed source \<or> \<not> in_Parsed dest \<or> in_Engine source = EngineUnknown \<or> in_Engine dest = EngineUnknown
         then block_path ''version_or_engine_unparseable''
                ''Unable to auto-detect engine/version compatibility from source or destination VERSION() output.''
                ''Verify server version visibility and DSN connectivity, then rerun plan. If needed, pin scope with --databases while fixing metadata access.''
                report
         else let report = report\<lparr>rp_Downgrade := in_Engine source = in_Engine dest \<and> compareVersion source dest > 0\<rparr>
              in if in_Engine source \<noteq> in_Engine dest then cross_engine profile selected report
                 else if \<not> rp_Downgrade report
                 then info ''no_downgrade_detected'' ''No downgrade version direction detected for this run.'' standard_proposal report
                 else same_engine_downgrade profile report)"

end
