(* ===== verification/Compat_Check.thy ===== *)
theory Compat_Check
  imports Compat_Rules "HOL-Library.Product_Lexorder"
begin

text \<open>
  What the compatibility rules decide (internal/compat/evaluate.go): the reports agree with a policy
  that is written without matrices, an error is reported exactly when the path is refused, the
  profiles are ordered by strictness for one engine, and upgrades are not looked at.
\<close>

section \<open>What is decided\<close>

definition is_error :: "Finding \<Rightarrow> bool" where
  "is_error f = (fg_Severity f = ''error'')"

definition consistent :: "Report \<Rightarrow> bool" where
  "consistent r = (rp_Compatible r \<longleftrightarrow> \<not> list_ex is_error (rp_Findings r))"

lemma add_finding_simps [simp]:
  "rp_Compatible (add_finding c s m p r) = rp_Compatible r" "rp_Downgrade (add_finding c s m p r) = rp_Downgrade r"
  "rp_Source (add_finding c s m p r) = rp_Source r" "rp_Dest (add_finding c s m p r) = rp_Dest r"
  "rp_RequiresEvidence (add_finding c s m p r) = rp_RequiresEvidence r"
  "list_ex is_error (rp_Findings (add_finding c s m p r)) = (list_ex is_error (rp_Findings r) \<or> s = ''error'')"
  by (simp_all add: add_finding_def is_error_def)

lemma block_path_simps [simp]:
  "rp_Compatible (block_path c m p r) = False" "rp_Downgrade (block_path c m p r) = rp_Downgrade r"
  "rp_Source (block_path c m p r) = rp_Source r" "rp_Dest (block_path c m p r) = rp_Dest r"
  "list_ex is_error (rp_Findings (block_path c m p r))"
  by (simp_all add: block_path_def)

lemma candidate_warnings_simps [simp]:
  "rp_Compatible (candidate_warnings s d n r) = rp_Compatible r" "rp_Downgrade (candidate_warnings s d n r) = rp_Downgrade r"
  "list_ex is_error (rp_Findings (candidate_warnings s d n r)) = list_ex is_error (rp_Findings r)"
  by (simp_all add: candidate_warnings_def Let_def)

lemma strictLTSLine_cases:
  "strictLTSLine i =
     (if in_Engine i = EngineMySQL \<and> in_Major i = 8 \<and> in_Minor i = 4 then Some ''MySQL 8.4.x''
      else if in_Engine i = EngineMariaDB \<and> in_Major i = 10 \<and> in_Minor i = 11 then Some ''MariaDB 10.11.x''
      else if in_Engine i = EngineMariaDB \<and> in_Major i = 11 \<and> in_Minor i = 4 then Some ''MariaDB 11.4.x''
      else if in_Engine i = EngineMariaDB \<and> in_Major i = 11 \<and> in_Minor i = 8 then Some ''MariaDB 11.8.x''
      else None)"
  by (simp add: strictLTSLine_def strictLTSMatrix_def)

lemma adjacent_is_same_major: "adjacentMinorMatrix = sameMajorMatrix"
  by (simp add: adjacentMinorMatrix_def sameMajorMatrix_def)

lemma range_cases:
  "profileMatrixRangeForInstance i sameMajorMatrix =
     (if in_Engine i = EngineMySQL \<and> in_Major i = 8 \<and> in_Minor i = 4 then Some ''MySQL 8.4-8.4''
      else if in_Engine i = EngineMariaDB \<and> in_Major i = 10 \<and> in_Minor i = 11 then Some ''MariaDB 10.11-10.11''
      else if in_Engine i = EngineMariaDB \<and> in_Major i = 11 \<and> 4 \<le> in_Minor i \<and> in_Minor i \<le> 8 then Some ''MariaDB 11.4-11.8''
      else None)"
  by (auto simp: sameMajorMatrix_def)

section \<open>The policy\<close>

definition version_of :: "Instance \<Rightarrow> int \<times> int \<times> int" where
  "version_of i = (in_Major i, in_Minor i, in_Patch i)"

text \<open>The code's comparison has the sign of the lexicographic order.\<close>

lemma compareVersion_sign: "compareVersion s d > 0 \<longleftrightarrow> version_of d < version_of s"
  by (auto simp: compareVersion_def version_of_def)

definition known :: "Instance \<Rightarrow> bool" where
  "known i = (in_Parsed i \<and> in_Engine i \<noteq> EngineUnknown)"

text \<open>The lines of long term support, and the ranges of the two middle profiles.\<close>

definition lts :: "Instance \<Rightarrow> bool" where
  "lts i = ((in_Engine i, in_Major i, in_Minor i) \<in>
     {(EngineMySQL, 8, 4), (EngineMariaDB, 10, 11), (EngineMariaDB, 11, 4), (EngineMariaDB, 11, 8)})"

definition in_range :: "Instance \<Rightarrow> bool" where
  "in_range i =
     ((in_Engine i, in_Major i, in_Minor i) \<in> {(EngineMySQL, 8, 4), (EngineMariaDB, 10, 11)} \<or>
      in_Engine i = EngineMariaDB \<and> in_Major i = 11 \<and> 4 \<le> in_Minor i \<and> in_Minor i \<le> 8)"

definition downgrade_allowed :: "DowngradeProfile \<Rightarrow> Instance \<Rightarrow> Instance \<Rightarrow> bool" where
  "downgrade_allowed profile s d =
     (case profile of
        ProfileStrictLTS \<Rightarrow> lts s \<and> lts d \<and> in_Major s = in_Major d \<and> in_Minor s = in_Minor d
      | ProfileSameMajor \<Rightarrow> in_range s \<and> in_range d \<and> in_Major s = in_Major d
      | ProfileAdjacentMinor \<Rightarrow> in_range s \<and> in_range d \<and> in_Major s = in_Major d \<and> in_Minor s \<le> in_Minor d + 1
      | ProfileMaxCompat \<Rightarrow> True)"

definition crossing_allowed :: "DowngradeProfile \<Rightarrow> Instance \<Rightarrow> Instance \<Rightarrow> bool" where
  "crossing_allowed profile s d =
     (case profile of
        ProfileStrictLTS \<Rightarrow> {(in_Engine s, in_Major s, in_Minor s), (in_Engine d, in_Major d, in_Minor d)} =
          {(EngineMySQL, 8, 4), (EngineMariaDB, 11, 4)}
      | ProfileMaxCompat \<Rightarrow> True
      | _ \<Rightarrow> False)"

definition policy :: "DowngradeProfile \<Rightarrow> Instance \<Rightarrow> Instance \<Rightarrow> bool" where
  "policy profile s d =
     (known s \<and> known d \<and>
      (if in_Engine s \<noteq> in_Engine d then crossing_allowed profile s d
       else version_of s \<le> version_of d \<or> downgrade_allowed profile s d))"

section \<open>The checks decide by the policy\<close>

lemma same_engine_checks:
  assumes "in_Engine (rp_Source r) = in_Engine (rp_Dest r)" and "rp_Compatible r"
  shows "rp_Compatible (applyStrictLTSSameEngineChecks r) \<longleftrightarrow> downgrade_allowed ProfileStrictLTS (rp_Source r) (rp_Dest r)"
    and "rp_Compatible (applySameMajorChecks r) \<longleftrightarrow> downgrade_allowed ProfileSameMajor (rp_Source r) (rp_Dest r)"
    and "rp_Compatible (applyAdjacentMinorChecks r) \<longleftrightarrow> downgrade_allowed ProfileAdjacentMinor (rp_Source r) (rp_Dest r)"
    and "rp_Compatible (appendMaxCompatLegacyWarnings r)"
  by (simp_all add: assms applyStrictLTSSameEngineChecks_def applySameMajorChecks_def applyAdjacentMinorChecks_def
      appendMaxCompatLegacyWarnings_def Let_def strictLTSLine_cases adjacent_is_same_major range_cases downgrade_allowed_def
      lts_def in_range_def split: option.split) auto

lemma cross_engine_checks:
  assumes "in_Engine (rp_Source r) \<noteq> in_Engine (rp_Dest r)" and "rp_Compatible r"
  shows "rp_Compatible (applyCrossEngineStrictChecks r) \<longleftrightarrow> crossing_allowed ProfileStrictLTS (rp_Source r) (rp_Dest r)"
    and "rp_Compatible (applyCrossEngineRiskWarnings n r)"
  using assms by (auto simp: applyCrossEngineStrictChecks_def applyCrossEngineRiskWarnings_def Let_def strictLTSLine_cases
      crossing_allowed_def strictLTSCrossEngineAllowed_def strictLTSCrossEngineMatrix_def doubleton_eq_iff split: option.split)

lemma checks_keep [simp]:
  "rp_Downgrade (applyStrictLTSSameEngineChecks r) = rp_Downgrade r" "rp_Downgrade (applySameMajorChecks r) = rp_Downgrade r"
  "rp_Downgrade (applyAdjacentMinorChecks r) = rp_Downgrade r" "rp_Downgrade (appendMaxCompatLegacyWarnings r) = rp_Downgrade r"
  "rp_Downgrade (applyCrossEngineStrictChecks r) = rp_Downgrade r" "rp_Downgrade (applyCrossEngineRiskWarnings n r) = rp_Downgrade r"
  by (simp_all add: applyStrictLTSSameEngineChecks_def applySameMajorChecks_def applyAdjacentMinorChecks_def appendMaxCompatLegacyWarnings_def
      applyCrossEngineStrictChecks_def applyCrossEngineRiskWarnings_def Let_def split: option.split)

lemma checks_consistent:
  assumes "rp_Compatible r" and "\<not> list_ex is_error (rp_Findings r)"
  shows "consistent (applyStrictLTSSameEngineChecks r)" "consistent (applySameMajorChecks r)" "consistent (applyAdjacentMinorChecks r)"
    "consistent (appendMaxCompatLegacyWarnings r)" "consistent (applyCrossEngineStrictChecks r)" "consistent (applyCrossEngineRiskWarnings n r)"
  by (simp_all add: assms consistent_def applyStrictLTSSameEngineChecks_def applySameMajorChecks_def applyAdjacentMinorChecks_def
      appendMaxCompatLegacyWarnings_def applyCrossEngineStrictChecks_def applyCrossEngineRiskWarnings_def Let_def split: option.split)

lemma cross_engine_decision:
  assumes "in_Engine (rp_Source r) \<noteq> in_Engine (rp_Dest r)" and "rp_Compatible r" and "\<not> list_ex is_error (rp_Findings r)"
  shows "rp_Compatible (cross_engine p n r) \<longleftrightarrow> crossing_allowed p (rp_Source r) (rp_Dest r)" and "consistent (cross_engine p n r)"
proof -
  let ?w = "warn ''cross_engine_path'' (''Cross-engine path detected: '' @ engine_text (in_Engine (rp_Source r)) @ '' -> '' @
      engine_text (in_Engine (rp_Dest r)) @ ''.'')
    ''Run plan/verify on a partial database set first and review object-level incompatibility report before full cutover.'' r"
  have w: "rp_Compatible ?w" "\<not> list_ex is_error (rp_Findings ?w)" using assms by simp_all
  have e: "in_Engine (rp_Source ?w) \<noteq> in_Engine (rp_Dest ?w)" using assms(1) by simp
  note f = cross_engine_checks [OF e w(1)] checks_consistent(5,6) [OF w]
  show "rp_Compatible (cross_engine p n r) \<longleftrightarrow> crossing_allowed p (rp_Source r) (rp_Dest r)"
    using f by (cases p) (simp_all add: cross_engine_def Let_def crossing_allowed_def)
  show "consistent (cross_engine p n r)"
    using f by (cases p) (simp_all add: cross_engine_def Let_def consistent_def)
qed

lemma same_engine_decision:
  assumes "in_Engine (rp_Source r) = in_Engine (rp_Dest r)" and "rp_Compatible r" and "\<not> list_ex is_error (rp_Findings r)"
  shows "rp_Compatible (same_engine_downgrade p r) \<longleftrightarrow> downgrade_allowed p (rp_Source r) (rp_Dest r)"
    and "consistent (same_engine_downgrade p r)"
proof -
  let ?w = "warn ''downgrade_detected'' (''Downgrade detected: source '' @ named (rp_Source r) @ '' -> destination '' @ named (rp_Dest r) @ ''.'')
    (''Policy '' @ go_quote (profile_text p) @ '' applies: fail on incompatible downgrade ranges and include remediation in report output.'') r"
  let ?m = "warn ''max_compat_profile'' ''max-compat profile selected: downgrade guardrails are relaxed.''
    ''Run full verification and inspect detailed reports before cutover because compatibility checks are permissive.'' ?w"
  have w: "rp_Compatible ?w" "\<not> list_ex is_error (rp_Findings ?w)" "rp_Compatible ?m" "\<not> list_ex is_error (rp_Findings ?m)"
    using assms by simp_all
  have e: "in_Engine (rp_Source ?w) = in_Engine (rp_Dest ?w)" "in_Engine (rp_Source ?m) = in_Engine (rp_Dest ?m)" using assms(1) by simp_all
  note f = same_engine_checks [OF e(1) w(1)] same_engine_checks(4) [OF e(2) w(3)] checks_consistent [OF w(1,2)] checks_consistent(4) [OF w(3,4)]
  show "rp_Compatible (same_engine_downgrade p r) \<longleftrightarrow> downgrade_allowed p (rp_Source r) (rp_Dest r)"
    using f by (cases p) (simp_all add: same_engine_downgrade_def Let_def downgrade_allowed_def)
  show "consistent (same_engine_downgrade p r)"
    using f by (cases p) (simp_all add: same_engine_downgrade_def Let_def consistent_def)
qed

section \<open>Properties\<close>

lemma Evaluate_spec:
  "(rp_Compatible (Evaluate source dest n p) \<longleftrightarrow> policy (normalizeDowngradeProfile p) source dest) \<and>
   consistent (Evaluate source dest n p)"
proof -
  let ?p = "normalizeDowngradeProfile p"
  define r0 where "r0 = (if n = 0 then id
      else info ''partial_database_scope'' (''Partial scope enabled for '' @ show_nat n @ '' database(s).'')
        ''This run is allowed to process only selected databases. Keep using --databases for phased cutovers.'')
    (info ''downgrade_profile_selected'' (''Downgrade profile selected: '' @ profile_text ?p @ ''.'')
      ''Use --downgrade-profile to tune compatibility strictness for this run.''
      \<lparr>rp_Compatible = True, rp_Downgrade = False, rp_RequiresEvidence = False, rp_DowngradeProfile = profile_text ?p,
       rp_Source = source, rp_Dest = dest, rp_Findings = []\<rparr>)"
  let ?r = "r0\<lparr>rp_Downgrade := in_Engine source = in_Engine dest \<and> compareVersion source dest > 0\<rparr>"
  have r: "rp_Compatible r0" "rp_Source r0 = source" "rp_Dest r0 = dest" "\<not> list_ex is_error (rp_Findings r0)"
    by (simp_all add: r0_def)
  then have r': "rp_Compatible ?r" "\<not> list_ex is_error (rp_Findings ?r)" "rp_Source ?r = source" "rp_Dest ?r = dest" by simp_all
  have e: "Evaluate source dest n p =
    (if \<not> known source \<or> \<not> known dest
     then block_path ''version_or_engine_unparseable''
       ''Unable to auto-detect engine/version compatibility from source or destination VERSION() output.''
       ''Verify server version visibility and DSN connectivity, then rerun plan. If needed, pin scope with --databases while fixing metadata access.'' r0
     else if in_Engine source \<noteq> in_Engine dest then cross_engine ?p n ?r
     else if \<not> rp_Downgrade ?r
     then info ''no_downgrade_detected'' ''No downgrade version direction detected for this run.'' standard_proposal ?r
     else same_engine_downgrade ?p ?r)"
    by (simp add: Evaluate_def Let_def r0_def known_def)
  show ?thesis
  proof (cases "known source \<and> known dest")
    case False
    then show ?thesis unfolding e by (auto simp: policy_def consistent_def)
  next
    case known: True
    show ?thesis
    proof (cases "in_Engine source = in_Engine dest")
      case False
      then show ?thesis using known cross_engine_decision [of ?r ?p n] r' unfolding e by (simp add: policy_def)
    next
      case True
      have down: "rp_Downgrade ?r \<longleftrightarrow> \<not> version_of source \<le> version_of dest" using True by (simp add: compareVersion_sign not_le)
      have "in_Engine (rp_Source ?r) = in_Engine (rp_Dest ?r)" using True r' by simp
      note d = same_engine_decision [OF this r'(1,2), of ?p]
      show ?thesis using known True d r' down unfolding e
        by (cases "version_of source \<le> version_of dest") (simp_all add: policy_def consistent_def)
    qed
  qed
qed

text \<open>
  Claim C21. Whether a path is compatible is what the policy says: both versions are known, and for
  two engines the pair is the validated one (or the profile is max-compat), for one engine the
  version does not go down or the profile allows that downgrade.
\<close>

theorem Evaluate_policy:
  "rp_Compatible (Evaluate source dest selected profile) \<longleftrightarrow> policy (normalizeDowngradeProfile profile) source dest"
  using Evaluate_spec by blast

text \<open>A report has a finding of severity error exactly when the path is refused.\<close>

theorem Evaluate_consistent:
  "rp_Compatible (Evaluate source dest selected profile) \<longleftrightarrow>
   filter is_error (rp_Findings (Evaluate source dest selected profile)) = []"
  using Evaluate_spec [of source dest selected profile] by (auto simp: consistent_def filter_empty_conv list_ex_iff)

lemma lts_in_range: "lts i \<Longrightarrow> in_range i"
  by (auto simp: lts_def in_range_def)

text \<open>
  For one engine the profiles get weaker from strict-lts to adjacent-minor, same-major and
  max-compat: what one allows the next allows too.
\<close>

theorem profiles_get_weaker:
  assumes "in_Engine source = in_Engine dest"
    and "(p, q) \<in> {(''strict-lts'', ''adjacent-minor''), (''adjacent-minor'', ''same-major''), (''same-major'', ''max-compat'')}"
    and "rp_Compatible (Evaluate source dest n p)"
  shows "rp_Compatible (Evaluate source dest n q)"
proof -
  have "normalizeDowngradeProfile ''strict-lts'' = ProfileStrictLTS" "normalizeDowngradeProfile ''adjacent-minor'' = ProfileAdjacentMinor"
    "normalizeDowngradeProfile ''same-major'' = ProfileSameMajor" "normalizeDowngradeProfile ''max-compat'' = ProfileMaxCompat"
    by code_simp+
  then show ?thesis using assms lts_in_range [of source] lts_in_range [of dest] Evaluate_spec
    by (auto simp: policy_def downgrade_allowed_def)
qed

text \<open>
  A path within one engine whose version does not go down is compatible in every profile,
  whatever the versions are: the matrices are not consulted, and there is no warning.
\<close>

theorem upgrades_are_not_checked:
  assumes "known source" and "in_Engine source = in_Engine dest" and "known dest" and "version_of source \<le> version_of dest"
  shows "rp_Compatible (Evaluate source dest selected profile) \<and>
    list_all (\<lambda>f. fg_Severity f = ''info'') (rp_Findings (Evaluate source dest selected profile))"
proof -
  have "\<not> compareVersion source dest > 0" using assms(4) by (simp add: compareVersion_sign not_less)
  moreover have "in_Parsed source" "in_Parsed dest" "in_Engine dest \<noteq> EngineUnknown" using assms(1-3) by (simp_all add: known_def)
  ultimately show ?thesis using assms(2) by (simp add: Evaluate_def Let_def add_finding_def)
qed

section \<open>Parsing\<close>

lemma takeWhile_digits: "r = '''' \<or> \<not> is_digit (hd r) \<Longrightarrow> takeWhile is_digit (show_nat n @ r) = show_nat n"
  using show_nat_digits [of n] by (cases r) (auto simp: takeWhile_append list_all_iff)

lemma dropWhile_digits: "r = '''' \<or> \<not> is_digit (hd r) \<Longrightarrow> dropWhile is_digit (show_nat n @ r) = r"
  using show_nat_digits [of n] by (cases r) (auto simp: dropWhile_append list_all_iff)

lemma atoi_show_nat: "int n < 2 ^ 63 \<Longrightarrow> atoi (show_nat n) = int n"
  by (simp add: atoi_def dec_value_show_nat)

text \<open>
  From a version text that begins with three numbers exactly these are read, whatever
  follows; the engine is MariaDB exactly when the text names it.
\<close>

theorem ParseInstance_reads_version:
  assumes "int a < 2 ^ 63" and "int b < 2 ^ 63" and "int c < 2 ^ 63" and "suffix = '''' \<or> \<not> is_digit (hd suffix)"
  shows "let i = ParseInstance (show_nat a @ ''.'' @ show_nat b @ ''.'' @ show_nat c @ suffix)
    in in_Parsed i \<and> version_of i = (int a, int b, int c) \<and>
       in_Version i = show_nat a @ ''.'' @ show_nat b @ ''.'' @ show_nat c \<and>
       in_Engine i = (if Contains (ToLower (TrimSpace (show_nat a @ ''.'' @ show_nat b @ ''.'' @ show_nat c @ suffix))) ''mariadb''
                      then EngineMariaDB else EngineMySQL)"
proof -
  let ?s = "show_nat a @ ''.'' @ show_nat b @ ''.'' @ show_nat c @ suffix"
  define s where "s = ?s"
  have d: "\<not> is_digit CHR ''.''" by (simp add: is_digit_def)
  have n: "show_nat k \<noteq> ''''" for k by (rule show_nat_nonempty)
  have "match_version ?s = Some (show_nat a, show_nat b, show_nat c)"
    by (simp add: match_version_def Let_def takeWhile_digits dropWhile_digits d n assms(4))
  moreover have "find_version s = Some m" if "match_version s = Some m" "s \<noteq> ''''" for s m
    using that by (cases s) simp_all
  ultimately have f: "find_version s = Some (show_nat a, show_nat b, show_nat c)" using n by (simp add: s_def)
  have i: "show_int (int k) = show_nat k" for k by (simp add: show_int_def)
  have t: "ToLower (TrimSpace s) \<noteq> ''''"
  proof -
    obtain x xs where x: "show_nat a = x # xs" using n [of a] by (cases "show_nat a") auto
    then have "is_digit x" using show_nat_digits [of a] by simp
    then have "\<not> is_space x" by (auto simp: is_digit_def is_space_def)
    then have "\<not> list_all is_space s" by (simp add: x s_def)
    then show ?thesis by (simp add: TrimSpace_eq_Nil ToLower_def)
  qed
  show ?thesis using assms(1-3) t unfolding s_def [symmetric] by (simp add: ParseInstance_def Let_def f detectEngine_def atoi_show_nat i version_of_def)
qed

section \<open>Examples\<close>

theorem ParseInstance_reads_version_witness:
  "version_of (ParseInstance (show_nat 10 @ ''.'' @ show_nat 11 @ ''.'' @ show_nat 6 @ ''-MariaDB-log'')) = (10, 11, 6)"
  using ParseInstance_reads_version [of 10 11 6 "''-MariaDB-log''"] by (simp add: Let_def is_digit_def del: show_nat.simps)

theorem profiles_get_weaker_witness:
  "rp_Compatible (Evaluate (ParseInstance ''8.4.5'') (ParseInstance ''8.4.1'') 0 ''adjacent-minor'')"
proof -
  have "in_Engine (ParseInstance ''8.4.5'') = in_Engine (ParseInstance ''8.4.1'')" by code_simp
  moreover have "policy (normalizeDowngradeProfile ''strict-lts'') (ParseInstance ''8.4.5'') (ParseInstance ''8.4.1'')" by code_simp
  then have "rp_Compatible (Evaluate (ParseInstance ''8.4.5'') (ParseInstance ''8.4.1'') 0 ''strict-lts'')" using Evaluate_spec by blast
  ultimately show ?thesis using profiles_get_weaker [of "ParseInstance ''8.4.5''" "ParseInstance ''8.4.1''" "''strict-lts''"] by blast
qed

theorem upgrades_are_not_checked_witness:
  "rp_Compatible (Evaluate (ParseInstance ''5.1.73'') (ParseInstance ''9.4.0'') 0 ''strict-lts'')"
proof -
  have "known (ParseInstance ''5.1.73'')" "in_Engine (ParseInstance ''5.1.73'') = in_Engine (ParseInstance ''9.4.0'')"
    "known (ParseInstance ''9.4.0'')" "version_of (ParseInstance ''5.1.73'') \<le> version_of (ParseInstance ''9.4.0'')"
    by code_simp+
  from upgrades_are_not_checked [OF this] show ?thesis by blast
qed

end
