(* ===== verification/Verify_Granular.thy ===== *)
theory Verify_Granular
  imports Verify_Schema
begin

text \<open>
  The verification of schemas by columns, indexes, foreign keys and partitions
  (internal/verify/schema/granular.go). Each of these is written as one text, its signature, and the
  signatures of both sides are compared by name. The answers of the servers are a parameter; integer
  columns that are read and not used are left out of their rows.
\<close>

section \<open>Data\<close>

record GranularDiff =
  gd_Kind :: string
  gd_Database :: string
  gd_Table :: string
  gd_ObjectName :: string
  gd_SourceDef :: string
  gd_DestDef :: string

record GranularSummary =
  gs_Databases :: nat
  gs_TablesCompared :: nat
  gs_ColumnDiffs :: nat
  gs_IndexDiffs :: nat
  gs_FKDiffs :: nat
  gs_PartitionDiffs :: nat
  gs_Diffs :: "GranularDiff list"

record columnDef =
  cd_name :: string
  cd_colType :: string
  cd_isNullable :: string
  cd_colDefault :: "string option"
  cd_extra :: string
  cd_charSet :: "string option"
  cd_collation :: "string option"

text \<open>
  A row of STATISTICS: name, NON_UNIQUE, column, type. COLUMN_NAME of a functional key part is NULL,
  which cannot be read into a string.
\<close>

record index_row =
  ir_name :: string
  ir_nonUnique :: int
  ir_colName :: "string option"
  ir_indexType :: string

record fkDef =
  fk_name :: string
  fk_colName :: string
  fk_refTable :: string
  fk_refCol :: string
  fk_updateRule :: string
  fk_deleteRule :: string

record partition_row =
  pr_name :: string
  pr_method :: string
  pr_expr :: "string option"
  pr_desc :: "string option"
  pr_pos :: int

text \<open>One side: the databases and tables as in Verify_Schema, and the four queries about a table.\<close>

record granular_side = schema_side +
  gr_columns :: "string \<Rightarrow> string \<Rightarrow> columnDef query_result"
  gr_indexes :: "string \<Rightarrow> string \<Rightarrow> index_row query_result"
  gr_fks :: "string \<Rightarrow> string \<Rightarrow> fkDef query_result"
  gr_partitions :: "string \<Rightarrow> string \<Rightarrow> partition_row query_result"

section \<open>Signatures\<close>

definition normalizeStr :: "string \<Rightarrow> string" where
  "normalizeStr s = ToLower (TrimSpace s)"

definition column_signature :: "columnDef \<Rightarrow> string" where
  "column_signature c =
     normalizeStr (cd_colType c) @ '' nullable='' @ cd_isNullable c
     @ (case cd_colDefault c of None \<Rightarrow> '''' | Some d \<Rightarrow> '' default='' @ d)
     @ (if cd_extra c \<noteq> '''' then '' extra='' @ normalizeStr (cd_extra c) else '''')
     @ (case cd_charSet c of None \<Rightarrow> '''' | Some s \<Rightarrow> if s \<noteq> '''' then '' charset='' @ ToLower s else '''')
     @ (case cd_collation c of None \<Rightarrow> '''' | Some s \<Rightarrow> if s \<noteq> '''' then '' collation='' @ ToLower s else '''')"

text \<open>
  The rows of one object are collected under its name. A map is the list of its entries, here in the
  order in which their names first appear.
\<close>

fun group_rows :: "('r \<Rightarrow> string) \<Rightarrow> 'r list \<Rightarrow> (string \<times> 'r list) list \<Rightarrow> (string \<times> 'r list) list" where
  "group_rows name [] byName = byName"
| "group_rows name (r # rows) byName =
     group_rows name rows
       (AList.update (name r) ((case map_of byName (name r) of None \<Rightarrow> [] | Some rs \<Rightarrow> rs) @ [r]) byName)"

definition index_signature :: "index_row list \<Rightarrow> string" where
  "index_signature parts =
     ''type='' @ ToLower (ir_indexType (hd parts))
     @ '' unique='' @ (if ir_nonUnique (hd parts) \<noteq> 0 then ''non_unique'' else ''unique'')
     @ '' cols='' @ Join (map (\<lambda>p. the (ir_colName p)) parts) '',''"

definition queryIndexSignatures :: "index_row query_result \<Rightarrow> string + (string \<times> string) list" where
  "queryIndexSignatures answer =
     bind_result (rows_or_error answer) (\<lambda>rows.
       if list_ex (\<lambda>r. ir_colName r = None) rows
       then Inl ''sql: Scan error on column index 3, name \"COLUMN_NAME\": converting NULL to string is unsupported''
       else Inr (map (\<lambda>(name, parts). (name, index_signature parts)) (group_rows ir_name rows [])))"

definition fk_signature :: "fkDef list \<Rightarrow> string" where
  "fk_signature parts =
     ''ref='' @ fk_refTable (hd parts) @ ''('' @ Join (map fk_refCol parts) '','' @ '') on_update='' @ ToUpper (fk_updateRule (hd parts))
     @ '' on_delete='' @ ToUpper (fk_deleteRule (hd parts)) @ '' cols='' @ Join (map fk_colName parts) '',''"

definition queryFKSignatures :: "fkDef query_result \<Rightarrow> string + (string \<times> string) list" where
  "queryFKSignatures answer =
     bind_result (rows_or_error answer) (\<lambda>rows.
       Inr (map (\<lambda>(name, parts). (name, fk_signature parts)) (group_rows fk_name rows [])))"

definition null_string :: "string option \<Rightarrow> string" where
  "null_string s = (case s of None \<Rightarrow> '''' | Some s \<Rightarrow> s)"

definition partition_signature :: "partition_row \<Rightarrow> string" where
  "partition_signature r =
     ''method='' @ ToUpper (pr_method r) @ '' expr='' @ null_string (pr_expr r) @ '' desc='' @ null_string (pr_desc r)
     @ '' pos='' @ show_int (pr_pos r)"

definition queryPartitionSignatures :: "partition_row query_result \<Rightarrow> string + (string \<times> string) list" where
  "queryPartitionSignatures answer =
     bind_result (rows_or_error answer) (\<lambda>rows.
       Inr (fold (\<lambda>r sigs. AList.update (pr_name r) (partition_signature r) sigs) rows []))"

section \<open>Comparison\<close>

definition granular_diff :: "string \<Rightarrow> string \<Rightarrow> string \<Rightarrow> string \<Rightarrow> string \<Rightarrow> string \<Rightarrow> GranularDiff" where
  "granular_diff kind databaseName tableName objectName sourceDef destDef =
     \<lparr>gd_Kind = kind, gd_Database = databaseName, gd_Table = tableName, gd_ObjectName = objectName,
      gd_SourceDef = sourceDef, gd_DestDef = destDef\<rparr>"

text \<open>
  The two loops over the signatures of one kind of object; word begins the three kinds of
  differences. The loops of diffIndexes, diffForeignKeys and diffPartitions have the same text.
\<close>

definition diff_signatures ::
  "string \<Rightarrow> string \<Rightarrow> string \<Rightarrow> (string \<times> string) list \<Rightarrow> (string \<times> string) list \<Rightarrow> GranularDiff list" where
  "diff_signatures word databaseName tableName source dest =
     ty_diffs (compare_maps
       (\<lambda>name sig. granular_diff (word @ ''_missing_in_destination'') databaseName tableName name sig '''')
       (\<lambda>sig sig'. sig = sig')
       (\<lambda>name sig sig'. granular_diff (word @ ''_definition_mismatch'') databaseName tableName name sig sig')
       (\<lambda>_. False)
       (\<lambda>name sig. granular_diff (word @ ''_extra_in_destination'') databaseName tableName name '''' sig)
       source dest)"

text \<open>The columns go through lists; the maps only serve to look a name up, and a later row replaces an earlier one.\<close>

definition column_map :: "columnDef list \<Rightarrow> (string \<times> string) list" where
  "column_map cols = fold (\<lambda>c m. AList.update (cd_name c) (column_signature c) m) cols []"

definition column_entries :: "columnDef list \<Rightarrow> (string \<times> string) list" where
  "column_entries cols = map (\<lambda>c. (cd_name c, column_signature c)) cols"

definition diffColumns ::
  "granular_side \<Rightarrow> granular_side \<Rightarrow> string \<Rightarrow> string \<Rightarrow> string + GranularDiff list" where
  "diffColumns src dst databaseName tableName =
     bind_result (rows_or_error (gr_columns src databaseName tableName)) (\<lambda>srcCols.
     bind_result (rows_or_error (gr_columns dst databaseName tableName)) (\<lambda>dstCols.
       Inr (ty_diffs (dest_side
              (\<lambda>name sig. granular_diff ''column_extra_in_destination'' databaseName tableName name '''' sig)
              (column_map srcCols) (column_entries dstCols)
              (source_side
                 (\<lambda>name sig. granular_diff ''column_missing_in_destination'' databaseName tableName name sig '''')
                 (\<lambda>sig sig'. sig = sig')
                 (\<lambda>name sig sig'. granular_diff ''column_definition_mismatch'' databaseName tableName name sig sig')
                 (\<lambda>_. False) (column_map dstCols) (column_entries srcCols) empty_tally)))))"

definition diffIndexes :: "granular_side \<Rightarrow> granular_side \<Rightarrow> string \<Rightarrow> string \<Rightarrow> string + GranularDiff list" where
  "diffIndexes src dst databaseName tableName =
     bind_result (queryIndexSignatures (gr_indexes src databaseName tableName)) (\<lambda>srcIdxs.
     bind_result (queryIndexSignatures (gr_indexes dst databaseName tableName)) (\<lambda>dstIdxs.
       Inr (diff_signatures ''index'' databaseName tableName srcIdxs dstIdxs)))"

definition diffForeignKeys :: "granular_side \<Rightarrow> granular_side \<Rightarrow> string \<Rightarrow> string \<Rightarrow> string + GranularDiff list" where
  "diffForeignKeys src dst databaseName tableName =
     bind_result (queryFKSignatures (gr_fks src databaseName tableName)) (\<lambda>srcFKs.
     bind_result (queryFKSignatures (gr_fks dst databaseName tableName)) (\<lambda>dstFKs.
       Inr (diff_signatures ''fk'' databaseName tableName srcFKs dstFKs)))"

definition diffPartitions :: "granular_side \<Rightarrow> granular_side \<Rightarrow> string \<Rightarrow> string \<Rightarrow> string + GranularDiff list" where
  "diffPartitions src dst databaseName tableName =
     bind_result (queryPartitionSignatures (gr_partitions src databaseName tableName)) (\<lambda>srcParts.
     bind_result (queryPartitionSignatures (gr_partitions dst databaseName tableName)) (\<lambda>dstParts.
       if srcParts = [] \<and> dstParts = [] then Inr []
       else Inr (diff_signatures ''partition'' databaseName tableName srcParts dstParts)))"

definition unionStrings :: "string list \<Rightarrow> string list \<Rightarrow> string list" where
  "unionStrings a b = sort (remdups (a @ b))"

definition granular_key :: "GranularDiff \<Rightarrow> string \<times> string \<times> string \<times> string" where
  "granular_key d = (gd_Database d, gd_Table d, gd_Kind d, gd_ObjectName d)"

definition sortGranularDiffs :: "GranularDiff list \<Rightarrow> GranularDiff list" where
  "sortGranularDiffs diffs = sort_key granular_key diffs"

section \<open>The verification\<close>

definition empty_granular :: "nat \<Rightarrow> GranularSummary" where
  "empty_granular n =
     \<lparr>gs_Databases = n, gs_TablesCompared = 0, gs_ColumnDiffs = 0, gs_IndexDiffs = 0, gs_FKDiffs = 0, gs_PartitionDiffs = 0,
      gs_Diffs = []\<rparr>"

text \<open>One step of a table: its differences are added to the summary and counted, or the error ends the run.\<close>

definition granular_step ::
  "string \<Rightarrow> string \<Rightarrow> string \<Rightarrow> ((nat \<Rightarrow> nat) \<Rightarrow> GranularSummary \<Rightarrow> GranularSummary) \<Rightarrow> string + GranularDiff list
     \<Rightarrow> GranularSummary \<Rightarrow> string option \<times> GranularSummary" where
  "granular_step word databaseName tableName count_update diffs summary =
     (case diffs of
        Inl e \<Rightarrow> (Some (''diff '' @ word @ '' for '' @ databaseName @ ''.'' @ tableName @ '': '' @ e), summary)
      | Inr ds \<Rightarrow> (None, count_update (\<lambda>n. n + length ds) (summary\<lparr>gs_Diffs := gs_Diffs summary @ ds\<rparr>)))"

definition granular_table ::
  "granular_side \<Rightarrow> granular_side \<Rightarrow> string \<Rightarrow> string \<Rightarrow> GranularSummary \<Rightarrow> string option \<times> GranularSummary" where
  "granular_table src dst databaseName tableName summary =
     (let summary = summary\<lparr>gs_TablesCompared := gs_TablesCompared summary + 1\<rparr>
      in case granular_step ''columns'' databaseName tableName gs_ColumnDiffs_update (diffColumns src dst databaseName tableName) summary of
           (Some e, summary) \<Rightarrow> (Some e, summary)
         | (None, summary) \<Rightarrow>
      (case granular_step ''indexes'' databaseName tableName gs_IndexDiffs_update (diffIndexes src dst databaseName tableName) summary of
           (Some e, summary) \<Rightarrow> (Some e, summary)
         | (None, summary) \<Rightarrow>
      (case granular_step ''foreign keys'' databaseName tableName gs_FKDiffs_update (diffForeignKeys src dst databaseName tableName) summary of
           (Some e, summary) \<Rightarrow> (Some e, summary)
         | (None, summary) \<Rightarrow>
             granular_step ''partitions'' databaseName tableName gs_PartitionDiffs_update (diffPartitions src dst databaseName tableName) summary)))"

fun granular_tables ::
  "granular_side \<Rightarrow> granular_side \<Rightarrow> string \<Rightarrow> string set \<Rightarrow> string set \<Rightarrow> string list \<Rightarrow> GranularSummary
     \<Rightarrow> string option \<times> GranularSummary" where
  "granular_tables src dst databaseName srcSet dstSet [] summary = (None, summary)"
| "granular_tables src dst databaseName srcSet dstSet (tableName # tables) summary =
     (if tableName \<notin> srcSet \<or> tableName \<notin> dstSet then granular_tables src dst databaseName srcSet dstSet tables summary
      else (case granular_table src dst databaseName tableName summary of
              (Some e, summary) \<Rightarrow> (Some e, summary)
            | (None, summary) \<Rightarrow> granular_tables src dst databaseName srcSet dstSet tables summary))"

definition base_tables :: "granular_side \<Rightarrow> string \<Rightarrow> string + string list" where
  "base_tables side databaseName = rows_or_error (ss_objects side databaseName ''BASE TABLE'')"

fun granular_databases ::
  "granular_side \<Rightarrow> granular_side \<Rightarrow> string list \<Rightarrow> GranularSummary \<Rightarrow> string option \<times> GranularSummary" where
  "granular_databases src dst [] summary = (None, summary)"
| "granular_databases src dst (databaseName # rest) summary =
     (case base_tables src databaseName of
        Inl e \<Rightarrow> (Some (''list source tables for '' @ databaseName @ '': '' @ e), summary)
      | Inr srcTables \<Rightarrow>
          (case base_tables dst databaseName of
             Inl e \<Rightarrow> (Some (''list dest tables for '' @ databaseName @ '': '' @ e), summary)
           | Inr dstTables \<Rightarrow>
               (case granular_tables src dst databaseName (set srcTables) (set dstTables) (unionStrings srcTables dstTables) summary of
                  (Some e, summary) \<Rightarrow> (Some e, summary)
                | (None, summary) \<Rightarrow> granular_databases src dst rest summary)))"

definition VerifyGranular ::
  "bool \<Rightarrow> granular_side \<Rightarrow> granular_side \<Rightarrow> SchemaVerifyOptions \<Rightarrow> string option \<times> GranularSummary" where
  "VerifyGranular connected source dest opts =
     (if \<not> connected then (Some ''source and destination connections are required'', empty_granular 0)
      else if \<not> so_IncludeTables opts
      then (Some ''granular schema verification requires tables in --include-objects'', empty_granular 0)
      else (case rows_or_error (ss_schemata source) of
              Inl e \<Rightarrow> (Some (''list source databases: '' @ e), empty_granular 0)
            | Inr sourceDatabases \<Rightarrow>
                (case rows_or_error (ss_schemata dest) of
                   Inl e \<Rightarrow> (Some (''list destination databases: '' @ e), empty_granular 0)
                 | Inr destDatabases \<Rightarrow>
                     (let selected = SelectDatabases (unionAndSort sourceDatabases destDatabases) (so_IncludeDatabases opts)
                            (so_ExcludeDatabases opts)
                      in case granular_databases source dest selected (empty_granular (length selected)) of
                           (Some e, summary) \<Rightarrow> (Some e, summary)
                         | (None, summary) \<Rightarrow> (None, summary\<lparr>gs_Diffs := sortGranularDiffs (gs_Diffs summary)\<rparr>)))))"


section \<open>What is reported\<close>

lemma diff_signatures_Nil:
  "diff_signatures word db t source dest = [] \<longleftrightarrow>
   fst ` set source = fst ` set dest \<and> (\<forall>(name, sig) \<in> set source. map_of dest name = Some sig)"
proof -
  have "diff_signatures word db t source dest = [] \<longleftrightarrow>
      fst ` set source = fst ` set dest \<and> (\<forall>(k, v) \<in> set source. \<forall>w. map_of dest k = Some w \<longrightarrow> v = w)"
    unfolding diff_signatures_def by (rule no_diffs)
  moreover have "\<exists>w. map_of dest k = Some w" if "fst ` set source = fst ` set dest" "(k, v) \<in> set source" for k v
  proof -
    have "k \<in> fst ` set dest" using that by (metis fst_conv image_eqI)
    then show ?thesis by (cases "map_of dest k") (simp_all add: map_of_eq_None_iff)
  qed
  then have "(\<forall>w. map_of dest k = Some w \<longrightarrow> v = w) \<longleftrightarrow> map_of dest k = Some v"
    if "fst ` set source = fst ` set dest" "(k, v) \<in> set source" for k v
    using that by (metis option.inject)
  then have "fst ` set source = fst ` set dest \<and> (\<forall>(k, v) \<in> set source. \<forall>w. map_of dest k = Some w \<longrightarrow> v = w) \<longleftrightarrow>
      fst ` set source = fst ` set dest \<and> (\<forall>(k, v) \<in> set source. map_of dest k = Some v)"
    by (intro conj_cong refl ball_cong) auto
  ultimately show ?thesis by simp
qed

lemma mset_sum_Nil: "mset ds = mset a + mset b + mset c \<Longrightarrow> ds = [] \<longleftrightarrow> a = [] \<and> b = [] \<and> c = []"
  by (drule arg_cong [of _ _ size]) auto

lemma both_loops:
  "mset (ty_diffs (dest_side extra srcMap dstEntries (source_side missing same differs noisy dstMap srcEntries empty_tally))) =
   mset (found_missing missing srcEntries dstMap) + mset (found_different same differs srcEntries dstMap) +
   mset (found_missing extra dstEntries srcMap)"
  by (simp add: source_side_tally dest_side_tally) (simp add: empty_tally_def)

lemma keys_column_map [simp]: "fst ` set (column_map cols) = cd_name ` set cols"
proof -
  have "fst ` set (fold (\<lambda>c m. AList.update (cd_name c) (column_signature c) m) cols m) = fst ` set m \<union> cd_name ` set cols" for m
    by (induction cols arbitrary: m) (auto simp: dom_update)
  then show ?thesis by (simp add: column_map_def)
qed

definition columns_agree :: "columnDef list \<Rightarrow> columnDef list \<Rightarrow> bool" where
  "columns_agree src dst =
     (cd_name ` set src = cd_name ` set dst \<and> (\<forall>c \<in> set src. map_of (column_map dst) (cd_name c) = Some (column_signature c)))"

definition signatures_agree :: "(string \<times> string) list \<Rightarrow> (string \<times> string) list \<Rightarrow> bool" where
  "signatures_agree src dst = (fst ` set src = fst ` set dst \<and> (\<forall>(name, sig) \<in> set src. map_of dst name = Some sig))"

lemma diffColumns_Nil:
  assumes "diffColumns src dst db t = Inr ds"
  shows "\<exists>cs cs'. gr_columns src db t = Rows cs \<and> gr_columns dst db t = Rows cs' \<and> (ds = [] \<longleftrightarrow> columns_agree cs cs')"
proof -
  obtain cs cs' where c: "gr_columns src db t = Rows cs" "gr_columns dst db t = Rows cs'"
    using assms by (auto simp: diffColumns_def go_result)
  let ?missing = "\<lambda>name sig. granular_diff ''column_missing_in_destination'' db t name sig ''''"
  let ?differs = "\<lambda>name sig sig'. granular_diff ''column_definition_mismatch'' db t name sig sig'"
  let ?extra = "\<lambda>name sig. granular_diff ''column_extra_in_destination'' db t name '''' sig"
  have "mset ds = mset (found_missing ?missing (column_entries cs) (column_map cs')) +
      mset (found_different (=) ?differs (column_entries cs) (column_map cs')) +
      mset (found_missing ?extra (column_entries cs') (column_map cs))"
    using assms both_loops [of ?extra "column_map cs" "column_entries cs'" ?missing "(=)" ?differs "\<lambda>_. False" "column_map cs'"
        "column_entries cs"]
    by (simp add: diffColumns_def rows_or_error_def c)
  then have "ds = [] \<longleftrightarrow> found_missing ?missing (column_entries cs) (column_map cs') = [] \<and>
      found_different (=) ?differs (column_entries cs) (column_map cs') = [] \<and>
      found_missing ?extra (column_entries cs') (column_map cs) = []"
    by (rule mset_sum_Nil)
  also have "\<dots> \<longleftrightarrow> cd_name ` set cs = cd_name ` set cs' \<and>
      (\<forall>c \<in> set cs. \<forall>w. map_of (column_map cs') (cd_name c) = Some w \<longrightarrow> column_signature c = w)"
    by (auto simp: found_missing_Nil found_different_Nil column_entries_def image_image)
  also have "\<dots> \<longleftrightarrow> columns_agree cs cs'"
  proof -
    have iff: "(\<forall>w. map_of (column_map cs') (cd_name c) = Some w \<longrightarrow> column_signature c = w) \<longleftrightarrow>
        map_of (column_map cs') (cd_name c) = Some (column_signature c)"
      if "cd_name ` set cs = cd_name ` set cs'" "c \<in> set cs" for c
    proof -
      have "cd_name c \<in> fst ` set (column_map cs')" unfolding keys_column_map using that by blast
      then show ?thesis by (cases "map_of (column_map cs') (cd_name c)") (auto simp: map_of_eq_None_iff)
    qed
    show ?thesis unfolding columns_agree_def by (intro conj_cong refl ball_cong iff) simp_all
  qed
  finally show ?thesis using c by blast
qed

lemma diffIndexes_Nil:
  assumes "diffIndexes src dst db t = Inr ds"
  shows "\<exists>m m'. queryIndexSignatures (gr_indexes src db t) = Inr m \<and> queryIndexSignatures (gr_indexes dst db t) = Inr m' \<and>
    (ds = [] \<longleftrightarrow> signatures_agree m m')"
  using assms unfolding diffIndexes_def bind_result_Inr by (auto simp: diff_signatures_Nil signatures_agree_def)

lemma diffForeignKeys_Nil:
  assumes "diffForeignKeys src dst db t = Inr ds"
  shows "\<exists>m m'. queryFKSignatures (gr_fks src db t) = Inr m \<and> queryFKSignatures (gr_fks dst db t) = Inr m' \<and>
    (ds = [] \<longleftrightarrow> signatures_agree m m')"
  using assms unfolding diffForeignKeys_def bind_result_Inr by (auto simp: diff_signatures_Nil signatures_agree_def)

lemma diffPartitions_Nil:
  assumes "diffPartitions src dst db t = Inr ds"
  shows "\<exists>m m'. queryPartitionSignatures (gr_partitions src db t) = Inr m \<and> queryPartitionSignatures (gr_partitions dst db t) = Inr m' \<and>
    (ds = [] \<longleftrightarrow> signatures_agree m m')"
proof -
  obtain m m' where m: "queryPartitionSignatures (gr_partitions src db t) = Inr m"
    "queryPartitionSignatures (gr_partitions dst db t) = Inr m'"
    and ds: "(if m = [] \<and> m' = [] then Inr [] else Inr (diff_signatures ''partition'' db t m m')) = (Inr ds :: string + GranularDiff list)"
    using assms unfolding diffPartitions_def bind_result_Inr by blast
  have "ds = [] \<longleftrightarrow> signatures_agree m m'"
    using ds diff_signatures_Nil [of "''partition''" db t m m'] by (cases "m = [] \<and> m' = []") (auto simp: signatures_agree_def)
  then show ?thesis using m by blast
qed

text \<open>All that is known of a table has the same signature on both sides.\<close>

definition table_agrees :: "granular_side \<Rightarrow> granular_side \<Rightarrow> string \<Rightarrow> string \<Rightarrow> bool" where
  "table_agrees src dst db t =
     ((\<exists>cs cs'. gr_columns src db t = Rows cs \<and> gr_columns dst db t = Rows cs' \<and> columns_agree cs cs') \<and>
      (\<exists>m m'. queryIndexSignatures (gr_indexes src db t) = Inr m \<and> queryIndexSignatures (gr_indexes dst db t) = Inr m' \<and>
         signatures_agree m m') \<and>
      (\<exists>m m'. queryFKSignatures (gr_fks src db t) = Inr m \<and> queryFKSignatures (gr_fks dst db t) = Inr m' \<and> signatures_agree m m') \<and>
      (\<exists>m m'. queryPartitionSignatures (gr_partitions src db t) = Inr m \<and>
         queryPartitionSignatures (gr_partitions dst db t) = Inr m' \<and> signatures_agree m m'))"

definition granular_total :: "GranularSummary \<Rightarrow> nat" where
  "granular_total s = gs_ColumnDiffs s + gs_IndexDiffs s + gs_FKDiffs s + gs_PartitionDiffs s"

definition grows :: "GranularSummary \<Rightarrow> GranularSummary \<Rightarrow> bool \<Rightarrow> bool" where
  "grows s s' same =
     (\<exists>ds. gs_Diffs s' = gs_Diffs s @ ds \<and> granular_total s' = granular_total s + length ds \<and> (ds = [] \<longleftrightarrow> same))"

lemma grows_refl: "grows s s True"
  by (simp add: grows_def)

lemma grows_trans: "grows s s' a \<Longrightarrow> grows s' s'' b \<Longrightarrow> grows s s'' (a \<and> b)"
  unfolding grows_def by force

lemma granular_table_grows:
  assumes "granular_table src dst db t s = (None, s')"
  shows "grows s s' (table_agrees src dst db t)"
proof -
  obtain c i f p where d: "diffColumns src dst db t = Inr c" "diffIndexes src dst db t = Inr i"
    "diffForeignKeys src dst db t = Inr f" "diffPartitions src dst db t = Inr p"
    and s': "gs_Diffs s' = gs_Diffs s @ c @ i @ f @ p" "granular_total s' = granular_total s + length (c @ i @ f @ p)"
    using assms by (auto simp: granular_table_def granular_step_def Let_def granular_total_def split: prod.splits option.splits sum.splits)
  have "c @ i @ f @ p = [] \<longleftrightarrow> table_agrees src dst db t"
    using diffColumns_Nil [OF d(1)] diffIndexes_Nil [OF d(2)] diffForeignKeys_Nil [OF d(3)] diffPartitions_Nil [OF d(4)]
    unfolding table_agrees_def by auto
  then show ?thesis using s' unfolding grows_def by blast
qed

lemma granular_tables_grows:
  "granular_tables src dst db A B ts s = (None, s') \<Longrightarrow> grows s s' (\<forall>t \<in> set ts \<inter> A \<inter> B. table_agrees src dst db t)"
proof (induction ts arbitrary: s)
  case (Cons t ts)
  show ?case
  proof (cases "t \<in> A \<and> t \<in> B")
    case True
    then obtain s1 where s1: "granular_table src dst db t s = (None, s1)" "granular_tables src dst db A B ts s1 = (None, s')"
      using Cons.prems by (auto split: prod.splits option.splits)
    have "grows s s' (table_agrees src dst db t \<and> (\<forall>t \<in> set ts \<inter> A \<inter> B. table_agrees src dst db t))"
      using grows_trans [OF granular_table_grows [OF s1(1)] Cons.IH [OF s1(2)]] .
    moreover have "(table_agrees src dst db t \<and> (\<forall>t \<in> set ts \<inter> A \<inter> B. table_agrees src dst db t)) \<longleftrightarrow>
        (\<forall>t \<in> set (t # ts) \<inter> A \<inter> B. table_agrees src dst db t)"
      using True by auto
    ultimately show ?thesis by simp
  next
    case False
    then have "grows s s' (\<forall>t \<in> set ts \<inter> A \<inter> B. table_agrees src dst db t)" using Cons by auto
    moreover have "set (t # ts) \<inter> A \<inter> B = set ts \<inter> A \<inter> B" using False by auto
    ultimately show ?thesis by simp
  qed
qed (simp add: grows_refl)

definition database_agrees :: "granular_side \<Rightarrow> granular_side \<Rightarrow> string \<Rightarrow> bool" where
  "database_agrees src dst db =
     (\<exists>ts ts'. ss_objects src db ''BASE TABLE'' = Rows ts \<and> ss_objects dst db ''BASE TABLE'' = Rows ts' \<and>
       (\<forall>t \<in> set ts \<inter> set ts'. table_agrees src dst db t))"

lemma granular_databases_grows:
  "granular_databases src dst dbs s = (None, s') \<Longrightarrow> grows s s' (\<forall>db \<in> set dbs. database_agrees src dst db)"
proof (induction dbs arbitrary: s)
  case (Cons db dbs)
  then obtain ts ts' s1 where t: "ss_objects src db ''BASE TABLE'' = Rows ts" "ss_objects dst db ''BASE TABLE'' = Rows ts'"
    "granular_tables src dst db (set ts) (set ts') (unionStrings ts ts') s = (None, s1)" "granular_databases src dst dbs s1 = (None, s')"
    by (auto simp: base_tables_def split: sum.splits prod.splits option.splits)
  have "set (unionStrings ts ts') \<inter> set ts \<inter> set ts' = set ts \<inter> set ts'" by (auto simp: unionStrings_def)
  then have "grows s s1 (database_agrees src dst db)"
    using granular_tables_grows [OF t(3)] t(1,2) by (simp add: database_agrees_def)
  then show ?case using grows_trans Cons.IH [OF t(4)] by fastforce
qed (simp add: grows_refl)


section \<open>Properties\<close>

text \<open>
  Claim C14. When the verification by columns returns no error, both sides have listed their databases, the four counters add up to
  the number of differences, and none is reported exactly if in every selected database all tables
  that both sides have agree: the same columns, indexes, foreign keys and partitions by name, with the
  same signatures. Tables that only one side has are passed over.
\<close>

theorem VerifyGranular_reports:
  assumes "VerifyGranular True source dest opts = (None, summary)"
  shows "\<exists>all all'. ss_schemata source = Rows all \<and> ss_schemata dest = Rows all' \<and>
    granular_total summary = length (gs_Diffs summary) \<and>
    (gs_Diffs summary = [] \<longleftrightarrow>
      (\<forall>db \<in> set (SelectDatabases (unionAndSort all all') (so_IncludeDatabases opts) (so_ExcludeDatabases opts)).
         database_agrees source dest db))"
proof -
  obtain all all' s where a: "ss_schemata source = Rows all" "ss_schemata dest = Rows all'"
    and run: "granular_databases source dest (SelectDatabases (unionAndSort all all') (so_IncludeDatabases opts) (so_ExcludeDatabases opts))
      (empty_granular (length (SelectDatabases (unionAndSort all all') (so_IncludeDatabases opts) (so_ExcludeDatabases opts)))) = (None, s)"
    and s: "summary = s\<lparr>gs_Diffs := sortGranularDiffs (gs_Diffs s)\<rparr>"
    using assms by (auto simp: VerifyGranular_def Let_def split: if_splits sum.splits prod.splits option.splits)
  have "length (sortGranularDiffs (gs_Diffs s)) = length (gs_Diffs s)" by (simp add: sortGranularDiffs_def)
  moreover have "sortGranularDiffs (gs_Diffs s) = [] \<longleftrightarrow> gs_Diffs s = []" using calculation by (metis length_0_conv)
  ultimately show ?thesis
    using a s granular_databases_grows [OF run] by (auto simp: grows_def granular_total_def empty_granular_def)
qed

definition example_column :: "string \<Rightarrow> string \<Rightarrow> columnDef" where
  "example_column name type =
     \<lparr>cd_name = name, cd_colType = type, cd_isNullable = ''NO'', cd_colDefault = None, cd_extra = '''', cd_charSet = None,
      cd_collation = None\<rparr>"

definition example_granular_side :: "columnDef list \<Rightarrow> granular_side" where
  "example_granular_side cols =
     \<lparr>ss_schemata = Rows [''app''], ss_objects = (\<lambda>_ _. Rows [''t'']), ss_routines = (\<lambda>_ _. Rows []), ss_triggers = (\<lambda>_. Rows []),
      ss_events = (\<lambda>_. Rows []), ss_show = (\<lambda>_. ShowError ''''), gr_columns = (\<lambda>_ _. Rows cols), gr_indexes = (\<lambda>_ _. Rows []),
      gr_fks = (\<lambda>_ _. Rows []), gr_partitions = (\<lambda>_ _. Rows [])\<rparr>"

definition example_granular_options :: SchemaVerifyOptions where
  "example_granular_options =
     \<lparr>so_IncludeDatabases = [], so_ExcludeDatabases = [], so_IncludeTables = True, so_IncludeViews = False, so_IncludeRoutines = False,
      so_IncludeTriggers = False, so_IncludeEvents = False\<rparr>"

lemma example_granular_run:
  "VerifyGranular True (example_granular_side [example_column ''id'' ''int'']) (example_granular_side [example_column ''id'' ''bigint''])
     example_granular_options =
   (None, \<lparr>gs_Databases = 1, gs_TablesCompared = 1, gs_ColumnDiffs = 1, gs_IndexDiffs = 0, gs_FKDiffs = 0, gs_PartitionDiffs = 0,
     gs_Diffs = [granular_diff ''column_definition_mismatch'' ''app'' ''t'' ''id'' ''int nullable=NO'' ''bigint nullable=NO'']\<rparr>)"
  by code_simp

theorem VerifyGranular_reports_witness:
  "\<exists>db \<in> set (SelectDatabases (unionAndSort [''app''] [''app'']) [] []).
     \<not> database_agrees (example_granular_side [example_column ''id'' ''int'']) (example_granular_side [example_column ''id'' ''bigint'']) db"
  using VerifyGranular_reports [OF example_granular_run]
  by (auto simp: example_granular_side_def example_granular_options_def)

text \<open>
  The order of the columns is not compared: a table whose columns stand in another order at the
  destination passes without a difference.
\<close>

theorem column_order_is_ignored:
  assumes "gr_columns source db t = Rows cs" and "gr_columns dest db t = Rows cs'" and "mset cs = mset cs'"
    and "distinct (map cd_name cs)"
  shows "diffColumns source dest db t = Inr []"
proof -
  have d': "distinct (map cd_name cs')" using assms(3,4) by (metis mset_eq_imp_distinct_iff mset_map)
  have S: "set cs = set cs'" using assms(3) by (rule mset_eq_setD)
  have new: "map_of (fold (\<lambda>c m. AList.update (cd_name c) (column_signature c) m) xs m) (cd_name c) = Some (column_signature c)"
    if "c \<in> set xs" "distinct (map cd_name xs)" for xs m and c :: columnDef
    using that
  proof (induction xs arbitrary: m)
    case (Cons x xs)
    have stays: "map_of (fold (\<lambda>c m. AList.update (cd_name c) (column_signature c) m) ys m) n = map_of m n"
      if "n \<notin> cd_name ` set ys" for ys m n
      using that by (induction ys arbitrary: m) (auto simp: update_conv')
    show ?case
    proof (cases "c = x")
      case True
      then show ?thesis using Cons.prems(2) stays [of "cd_name x" xs] by (simp add: update_conv')
    next
      case False
      then show ?thesis using Cons by simp
    qed
  qed simp
  obtain ds where ds: "diffColumns source dest db t = Inr ds" using assms(1,2) by (simp add: diffColumns_def rows_or_error_def)
  have "columns_agree cs cs'"
    unfolding columns_agree_def S using new [OF _ d'] by (simp add: column_map_def)
  then show ?thesis using diffColumns_Nil [OF ds] assms(1,2) ds by auto
qed

theorem column_order_is_ignored_witness:
  "diffColumns (example_granular_side [example_column ''a'' ''int'', example_column ''b'' ''int''])
     (example_granular_side [example_column ''b'' ''int'', example_column ''a'' ''int'']) ''app'' ''t'' = Inr []"
  by (rule column_order_is_ignored
      [of _ _ _ "[example_column ''a'' ''int'', example_column ''b'' ''int'']" _ "[example_column ''b'' ''int'', example_column ''a'' ''int'']"])
    (simp_all add: example_granular_side_def example_column_def)

text \<open>A signature does not say where its parts end: a default can hide what would be an extra attribute.\<close>

lemma signature_is_ambiguous:
  assumes "cd_extra c = ''''" and "cd_colDefault c = Some (d @ '' extra='' @ normalizeStr x)" and "x \<noteq> ''''"
  shows "column_signature c = column_signature (c\<lparr>cd_colDefault := Some d, cd_extra := x\<rparr>)"
  using assms by (simp add: column_signature_def)

end
