(* ===== verification/Fk_Cycles.thy ===== *)
theory Fk_Cycles
  imports Table_Order "HOL-Library.Multiset"
begin

text \<open>
  The cycles among the foreign keys of a database (detectForeignKeyCycles in
  internal/commands/foreign_key_cycle_precheck.go, lines 193-259): Tarjan's algorithm for strongly
  connected components. The theorem says that its result are exactly the components of at least two
  tables. The variables of the closure are the fields of a record; the stack has its top first.
\<close>

section \<open>The algorithm\<close>

record tarjan =
  tj_index :: nat
  tj_stack :: "string list"
  tj_onStack :: "string \<Rightarrow> bool"
  tj_indexes :: "string \<rightharpoonup> nat"
  tj_lowlink :: "string \<Rightarrow> nat"
  tj_components :: "string list list"

definition tarjan_start :: tarjan where
  "tarjan_start = \<lparr>tj_index = 0, tj_stack = [], tj_onStack = (\<lambda>_. False), tj_indexes = Map.empty, tj_lowlink = (\<lambda>_. 0),
     tj_components = []\<rparr>"

text \<open>The neighbours of a table: the keys of its entry, sorted. All of them are tables.\<close>

definition neighbors_of :: "string list \<Rightarrow> dependencies \<Rightarrow> string \<Rightarrow> string list" where
  "neighbors_of tables deps node = sort (filter (\<lambda>t. t \<in> deps node) tables)"

definition enter_node :: "string \<Rightarrow> tarjan \<Rightarrow> tarjan" where
  "enter_node node st =
     st\<lparr>tj_indexes := (tj_indexes st)(node \<mapsto> tj_index st), tj_lowlink := (tj_lowlink st)(node := tj_index st),
        tj_index := tj_index st + 1, tj_stack := node # tj_stack st, tj_onStack := (tj_onStack st)(node := True)\<rparr>"

text \<open>
  The loop that takes a component from the stack. The code would panic on an empty stack; the
  invariant below has the node on the stack whenever the loop is entered.
\<close>

fun pop_component :: "string \<Rightarrow> string list \<Rightarrow> (string \<Rightarrow> bool) \<Rightarrow> string list \<Rightarrow> string list \<times> (string \<Rightarrow> bool) \<times> string list" where
  "pop_component node [] onStack component = ([], onStack, component)"
| "pop_component node (popped # stack) onStack component =
     (if popped = node then (stack, onStack(popped := False), component @ [popped])
      else pop_component node stack (onStack(popped := False)) (component @ [popped]))"

definition leave_node :: "string \<Rightarrow> tarjan \<Rightarrow> tarjan" where
  "leave_node node st =
     (if tj_lowlink st node \<noteq> the (tj_indexes st node) then st
      else (case pop_component node (tj_stack st) (tj_onStack st) [] of
              (stack, onStack, component) \<Rightarrow>
                st\<lparr>tj_stack := stack, tj_onStack := onStack,
                   tj_components := tj_components st @ (if 1 < length component then [sort component] else [])\<rparr>))"

text \<open>The loop over the neighbours of node; strongConnect of a neighbour is entering it, its loop, and leaving it.\<close>

function visit_neighbors :: "string list \<Rightarrow> dependencies \<Rightarrow> string \<Rightarrow> string list \<Rightarrow> tarjan \<Rightarrow> tarjan" where
  "visit_neighbors tables deps node [] st = st"
| "visit_neighbors tables deps node (neighbor # rest) st =
     (if tj_indexes st neighbor = None
      then (let st1 = leave_node neighbor
                        (visit_neighbors tables deps neighbor (neighbors_of tables deps neighbor) (enter_node neighbor st))
            in visit_neighbors tables deps node rest
                 (if tj_lowlink st1 neighbor < tj_lowlink st1 node
                  then st1\<lparr>tj_lowlink := (tj_lowlink st1)(node := tj_lowlink st1 neighbor)\<rparr> else st1))
      else visit_neighbors tables deps node rest
             (if tj_onStack st neighbor \<and> the (tj_indexes st neighbor) < tj_lowlink st node
              then st\<lparr>tj_lowlink := (tj_lowlink st)(node := the (tj_indexes st neighbor))\<rparr> else st))"
  by pat_completeness auto

lemma leave_node_simps [simp]:
  "tj_indexes (leave_node node st) = tj_indexes st" "tj_index (leave_node node st) = tj_index st"
  "tj_lowlink (leave_node node st) = tj_lowlink st"
  by (auto simp: leave_node_def split: prod.split)

lemma enter_node_indexes [simp]: "dom (tj_indexes (enter_node node st)) = insert node (dom (tj_indexes st))"
  by (simp add: enter_node_def)

lemma visit_indexes:
  "visit_neighbors_dom (tables, deps, node, nbrs, st) \<Longrightarrow> dom (tj_indexes st) \<subseteq> dom (tj_indexes (visit_neighbors tables deps node nbrs st))"
proof (induction rule: visit_neighbors.pinduct)
  case (2 tables deps node neighbor rest st)
  show ?case
    using 2(2,3,4) by (auto simp: visit_neighbors.psimps(2) [OF 2(1)] Let_def) blast+
qed (simp add: visit_neighbors.psimps)

termination visit_neighbors
proof (relation "(\<lambda>(tables, deps, node, nbrs, st). card (set tables \<union> set nbrs - dom (tj_indexes st))) <*mlex*>
    measure (\<lambda>(tables, deps, node, nbrs, st). length nbrs)")
  fix tables deps node neighbor rest and st :: tarjan
  assume "tj_indexes st neighbor = None"
  then have "neighbor \<notin> dom (tj_indexes st)" by (simp add: domIff)
  then have "set tables \<union> set (neighbors_of tables deps neighbor) - dom (tj_indexes (enter_node neighbor st))
      \<subset> set tables \<union> set (neighbor # rest) - dom (tj_indexes st)"
    by (auto simp: neighbors_of_def)
  then show "((tables, deps, neighbor, neighbors_of tables deps neighbor, enter_node neighbor st), (tables, deps, node, neighbor # rest, st)) \<in>
     (\<lambda>(tables, deps, node, nbrs, st). card (set tables \<union> set nbrs - dom (tj_indexes st))) <*mlex*>
     measure (\<lambda>(tables, deps, node, nbrs, st). length nbrs)"
    by (intro mlex_less) (simp add: psubset_card_mono)
next
  fix tables deps node neighbor rest st1 and st :: tarjan
  assume st1: "st1 = leave_node neighbor (visit_neighbors tables deps neighbor (neighbors_of tables deps neighbor) (enter_node neighbor st))"
    and "visit_neighbors_dom (tables, deps, neighbor, neighbors_of tables deps neighbor, enter_node neighbor st)"
  let ?st2 = "if tj_lowlink st1 neighbor < tj_lowlink st1 node
    then st1\<lparr>tj_lowlink := (tj_lowlink st1)(node := tj_lowlink st1 neighbor)\<rparr> else st1"
  have "dom (tj_indexes st) \<subseteq> dom (tj_indexes ?st2)"
    using visit_indexes [OF \<open>visit_neighbors_dom _\<close>] by (auto simp: st1)
  moreover have "finite (set tables \<union> set (neighbor # rest) - dom (tj_indexes st))" by simp
  moreover have "set tables \<union> set rest \<subseteq> set tables \<union> set (neighbor # rest)" by auto
  ultimately have "card (set tables \<union> set rest - dom (tj_indexes ?st2)) \<le> card (set tables \<union> set (neighbor # rest) - dom (tj_indexes st))"
    by (meson card_mono Diff_mono)
  then show "((tables, deps, node, rest, ?st2), (tables, deps, node, neighbor # rest, st)) \<in>
     (\<lambda>(tables, deps, node, nbrs, st). card (set tables \<union> set nbrs - dom (tj_indexes st))) <*mlex*>
     measure (\<lambda>(tables, deps, node, nbrs, st). length nbrs)"
    by (intro mlex_leq) simp_all
next
  fix tables deps node neighbor rest and st :: tarjan
  let ?st2 = "if tj_onStack st neighbor \<and> the (tj_indexes st neighbor) < tj_lowlink st node
    then st\<lparr>tj_lowlink := (tj_lowlink st)(node := the (tj_indexes st neighbor))\<rparr> else st"
  have "card (set tables \<union> set rest - dom (tj_indexes ?st2)) \<le> card (set tables \<union> set (neighbor # rest) - dom (tj_indexes st))"
    by (intro card_mono) auto
  then show "((tables, deps, node, rest, ?st2), (tables, deps, node, neighbor # rest, st)) \<in>
     (\<lambda>(tables, deps, node, nbrs, st). card (set tables \<union> set nbrs - dom (tj_indexes st))) <*mlex*>
     measure (\<lambda>(tables, deps, node, nbrs, st). length nbrs)"
    by (intro mlex_leq) simp_all
qed (auto intro: wf_mlex)

definition strongConnect :: "string list \<Rightarrow> dependencies \<Rightarrow> string \<Rightarrow> tarjan \<Rightarrow> tarjan" where
  "strongConnect tables deps node st =
     leave_node node (visit_neighbors tables deps node (neighbors_of tables deps node) (enter_node node st))"

fun connect_nodes :: "string list \<Rightarrow> dependencies \<Rightarrow> string list \<Rightarrow> tarjan \<Rightarrow> tarjan" where
  "connect_nodes tables deps [] st = st"
| "connect_nodes tables deps (node # nodes) st =
     connect_nodes tables deps nodes (if tj_indexes st node = None then strongConnect tables deps node st else st)"

definition detectForeignKeyCycles :: "string list \<Rightarrow> dependencies \<Rightarrow> string list list" where
  "detectForeignKeyCycles tables deps =
     sort_key (\<lambda>component. Join component '','')
       (tj_components (connect_nodes tables deps (sort (remdups tables)) tarjan_start))"


section \<open>Strongly connected components\<close>

definition component_of :: "('a \<times> 'a) set \<Rightarrow> 'a \<Rightarrow> 'a set" where
  "component_of R x = {y. (x, y) \<in> R\<^sup>* \<and> (y, x) \<in> R\<^sup>*}"

lemma component_self [simp]: "x \<in> component_of R x"
  by (simp add: component_of_def)

lemma component_eq: "y \<in> component_of R x \<Longrightarrow> component_of R y = component_of R x"
  unfolding component_of_def by (auto intro: rtrancl_trans)

lemma closed_reach: "(x, y) \<in> R\<^sup>* \<Longrightarrow> x \<in> A \<Longrightarrow> (\<And>z. z \<in> A \<Longrightarrow> R `` {z} \<subseteq> A) \<Longrightarrow> y \<in> A"
  by (induction rule: rtrancl_induct) auto

section \<open>The invariant\<close>

text \<open>
  The set G holds the nodes whose call of strongConnect has not returned. Nodes that are not on the
  stack any more are done: all that is reached from them is done too, and the components found are
  those of the nodes that are done. Nodes on the stack are reached from the calls that began before
  them, and reach one of these.
\<close>

abbreviation num :: "tarjan \<Rightarrow> string \<Rightarrow> nat" where
  "num st x \<equiv> the (tj_indexes st x)"

abbreviation finished :: "tarjan \<Rightarrow> string set" where
  "finished st \<equiv> dom (tj_indexes st) - set (tj_stack st)"

definition stack_ok :: "tarjan \<Rightarrow> bool" where
  "stack_ok st =
     (sorted_wrt (\<lambda>x y. num st y < num st x) (tj_stack st) \<and> (\<forall>x. tj_onStack st x \<longleftrightarrow> x \<in> set (tj_stack st)) \<and>
      set (tj_stack st) \<subseteq> dom (tj_indexes st) \<and> (\<forall>x \<in> dom (tj_indexes st). num st x < tj_index st))"

definition closed_ok :: "(string \<times> string) set \<Rightarrow> string set \<Rightarrow> tarjan \<Rightarrow> bool" where
  "closed_ok R G st =
     ((\<forall>x \<in> dom (tj_indexes st) - G. R `` {x} \<subseteq> dom (tj_indexes st)) \<and> (\<forall>x \<in> finished st. R `` {x} \<subseteq> finished st))"

definition path_ok :: "(string \<times> string) set \<Rightarrow> string set \<Rightarrow> tarjan \<Rightarrow> bool" where
  "path_ok R G st =
     (G \<subseteq> set (tj_stack st) \<and>
      (\<forall>x \<in> set (tj_stack st). \<exists>g \<in> G. num st g \<le> num st x \<and> (x, g) \<in> R\<^sup>*) \<and>
      (\<forall>g \<in> G. \<forall>x \<in> set (tj_stack st). num st g \<le> num st x \<longrightarrow> (g, x) \<in> R\<^sup>*))"

definition found_ok :: "(string \<times> string) set \<Rightarrow> tarjan \<Rightarrow> bool" where
  "found_ok R st =
     (set ` set (tj_components st) = {C \<in> component_of R ` finished st. \<not> is_singleton C} \<and>
      distinct (map set (tj_components st)) \<and> (\<forall>c \<in> set (tj_components st). sorted c \<and> distinct c))"

definition tarjan_ok :: "(string \<times> string) set \<Rightarrow> string set \<Rightarrow> tarjan \<Rightarrow> bool" where
  "tarjan_ok R G st = (stack_ok st \<and> closed_ok R G st \<and> path_ok R G st \<and> found_ok R st)"

text \<open>What lowlink is for a node of which only the neighbours todo have not been visited.\<close>

definition lowlink_ok :: "(string \<times> string) set \<Rightarrow> string \<Rightarrow> string set \<Rightarrow> tarjan \<Rightarrow> bool" where
  "lowlink_ok R v todo st =
     (tj_lowlink st v \<le> num st v \<and>
      (\<exists>y \<in> set (tj_stack st). num st y = tj_lowlink st v \<and> (v, y) \<in> R\<^sup>*) \<and>
      (\<forall>x \<in> set (tj_stack st). \<forall>y \<in> set (tj_stack st).
         num st v \<le> num st x \<longrightarrow> (x, y) \<in> R \<longrightarrow> \<not> (x = v \<and> y \<in> todo) \<longrightarrow> tj_lowlink st v \<le> num st y))"

text \<open>What a call keeps: the stack only grows, and the numbers of nodes and the lowlinks other than that of v stay.\<close>

definition kept :: "string set \<Rightarrow> tarjan \<Rightarrow> tarjan \<Rightarrow> bool" where
  "kept V st st' =
     ((\<exists>ts. tj_stack st' = ts @ tj_stack st) \<and> tj_index st \<le> tj_index st' \<and>
      (\<forall>x \<in> dom (tj_indexes st). tj_indexes st' x = tj_indexes st x \<and> (x \<notin> V \<longrightarrow> tj_lowlink st' x = tj_lowlink st x)) \<and>
      (\<forall>x \<in> dom (tj_indexes st') - dom (tj_indexes st). tj_index st \<le> num st' x) \<and>
      dom (tj_indexes st) - set (tj_stack st) \<subseteq> dom (tj_indexes st') - set (tj_stack st'))"

lemma kept_refl [simp]: "kept V st st"
  by (simp add: kept_def)

lemma kept_trans: "kept V st st' \<Longrightarrow> kept W st' st'' \<Longrightarrow> W \<subseteq> V \<union> - dom (tj_indexes st) \<Longrightarrow> kept V st st''"
  unfolding kept_def
  by (intro conjI)
    (force, force, (metis UnE ComplD domIff subsetD), (metis Diff_iff domIff le_trans), blast)

lemma kept_lowlink: "kept V st st' \<Longrightarrow> v \<in> V \<Longrightarrow> kept V st (st'\<lparr>tj_lowlink := (tj_lowlink st')(v := n)\<rparr>)"
  by (auto simp: kept_def)

lemma keptD:
  assumes "kept V st st'"
  shows "set (tj_stack st) \<subseteq> set (tj_stack st')" "dom (tj_indexes st) \<subseteq> dom (tj_indexes st')"
    "x \<in> dom (tj_indexes st) \<Longrightarrow> num st' x = num st x"
    "x \<in> dom (tj_indexes st) \<Longrightarrow> x \<notin> V \<Longrightarrow> tj_lowlink st' x = tj_lowlink st x"
    "x \<in> dom (tj_indexes st') \<Longrightarrow> x \<notin> dom (tj_indexes st) \<Longrightarrow> tj_index st \<le> num st' x"
  using assms unfolding kept_def by (auto simp: domIff)

lemma tarjan_ok_lowlink [simp]: "tarjan_ok R G (st\<lparr>tj_lowlink := l\<rparr>) = tarjan_ok R G st"
  by (simp add: tarjan_ok_def stack_ok_def closed_ok_def path_ok_def found_ok_def)

lemma stack_okD:
  assumes "stack_ok st"
  shows "distinct (tj_stack st)" "x \<in> set (tj_stack st) \<Longrightarrow> x \<in> dom (tj_indexes st)"
    "x \<in> dom (tj_indexes st) \<Longrightarrow> num st x < tj_index st" "tj_onStack st x \<longleftrightarrow> x \<in> set (tj_stack st)"
proof -
  have "sorted_wrt (\<lambda>x y. num st y < num st x) xs \<Longrightarrow> distinct xs" for xs by (induction xs) auto
  then show "distinct (tj_stack st)" using assms by (simp add: stack_ok_def)
qed (use assms in \<open>auto simp: stack_ok_def\<close>)

section \<open>Entering and leaving a node\<close>

lemma enter_ok:
  assumes ok: "tarjan_ok R G st" and new: "tj_indexes st v = None" and reach: "\<forall>g \<in> G. (g, v) \<in> R\<^sup>*"
  shows "tarjan_ok R (insert v G) (enter_node v st)" "lowlink_ok R v (R `` {v}) (enter_node v st)" "kept {} st (enter_node v st)"
proof -
  note s = ok [unfolded tarjan_ok_def, THEN conjunct1]
  let ?st = "enter_node v st"
  have v: "v \<notin> dom (tj_indexes st)" "v \<notin> set (tj_stack st)" using new stack_okD(2) [OF s, of v] by (auto simp: domIff)
  have num: "x \<noteq> v \<Longrightarrow> num ?st x = num st x" "num ?st v = tj_index st" for x by (simp_all add: enter_node_def)
  have less: "x \<in> set (tj_stack st) \<Longrightarrow> num st x < tj_index st" for x using stack_okD(2,3) [OF s] by blast
  have eq: "tj_stack ?st = v # tj_stack st" "dom (tj_indexes ?st) = insert v (dom (tj_indexes st))" "tj_index ?st = tj_index st + 1"
    "tj_onStack ?st = (tj_onStack st)(v := True)" "tj_components ?st = tj_components st" "tj_lowlink ?st = (tj_lowlink st)(v := tj_index st)"
    by (simp_all add: enter_node_def)
  have "stack_ok ?st"
    unfolding stack_ok_def eq
  proof (intro conjI)
    have "sorted_wrt (\<lambda>x y. num ?st y < num ?st x) (tj_stack st)"
      by (rule sorted_wrt_mono_rel [OF _ s [unfolded stack_ok_def, THEN conjunct1]]) (use v(2) num(1) in metis)
    moreover have "num ?st x < num ?st v" if "x \<in> set (tj_stack st)" for x
    proof -
      have "x \<noteq> v" using that v by blast
      then show ?thesis using less [OF that] num(1) [of x] num(2) by simp
    qed
    ultimately show "sorted_wrt (\<lambda>x y. num ?st y < num ?st x) (v # tj_stack st)" by simp
    show "\<forall>x \<in> insert v (dom (tj_indexes st)). num ?st x < tj_index st + 1"
    proof
      fix x assume "x \<in> insert v (dom (tj_indexes st))"
      then show "num ?st x < tj_index st + 1" using num stack_okD(3) [OF s, of x] by (cases "x = v") simp_all
    qed
  qed (use s in \<open>auto simp: stack_ok_def\<close>)
  moreover have fin: "finished ?st = finished st" using v by (auto simp: eq)
  have "closed_ok R (insert v G) ?st"
    unfolding closed_ok_def fin using ok by (auto simp: tarjan_ok_def closed_ok_def eq)
  moreover have "path_ok R (insert v G) ?st"
    unfolding path_ok_def eq
  proof (intro conjI ballI impI)
    note p = ok [unfolded tarjan_ok_def path_ok_def]
    have G: "G \<subseteq> set (tj_stack st)" using p by blast
    then show "insert v G \<subseteq> set (v # tj_stack st)" by auto
    show "\<exists>g \<in> insert v G. num ?st g \<le> num ?st x \<and> (x, g) \<in> R\<^sup>*" if "x \<in> set (v # tj_stack st)" for x
    proof (cases "x = v")
      case False
      then have "x \<in> set (tj_stack st)" using that by simp
      then obtain g where "g \<in> G" "num st g \<le> num st x" "(x, g) \<in> R\<^sup>*" using p by blast
      moreover have "g \<noteq> v" using G v \<open>g \<in> G\<close> by blast
      ultimately show ?thesis using False num(1) [of g] num(1) [of x] by (intro bexI [of _ g]) simp_all
    qed auto
    show "(g, x) \<in> R\<^sup>*" if "g \<in> insert v G" "x \<in> set (v # tj_stack st)" "num ?st g \<le> num ?st x" for g x
    proof (cases "x = v")
      case True
      then show ?thesis using that(1) reach by auto
    next
      case False
      then have x: "x \<in> set (tj_stack st)" using that(2) by simp
      then have "g \<noteq> v" using that(3) num False less [OF x] by auto
      then show ?thesis using x that False num p by auto
    qed
  qed
  moreover have "found_ok R ?st"
    using ok unfolding tarjan_ok_def found_ok_def fin by (simp add: eq)
  ultimately show "tarjan_ok R (insert v G) ?st" by (simp add: tarjan_ok_def)
  show "lowlink_ok R v (R `` {v}) ?st"
    unfolding lowlink_ok_def eq
  proof (intro conjI ballI impI)
    show "((tj_lowlink st)(v := tj_index st)) v \<le> num ?st y"
      if "x \<in> set (v # tj_stack st)" "num ?st v \<le> num ?st x" "(x, y) \<in> R" "\<not> (x = v \<and> y \<in> R `` {v})" for x y
      using that less [of x] num by (cases "x = v") auto
  qed (auto simp: num)
  show "kept {} st ?st"
    using v by (auto simp: kept_def enter_node_def)
qed


lemma pop_component_eq:
  "v \<notin> set xs \<Longrightarrow> pop_component v (xs @ v # ys) on c = (ys, \<lambda>x. on x \<and> x \<notin> set (xs @ [v]), c @ xs @ [v])"
  by (induction xs arbitrary: on c) (auto simp: fun_eq_iff)

text \<open>A node whose lowlink is its own number: what is on the stack from it on is its component.\<close>

lemma component_on_stack:
  assumes ok: "tarjan_ok R (insert v G) st" and low: "lowlink_ok R v {} st" and visited: "R `` {v} \<subseteq> dom (tj_indexes st)"
    and first: "\<forall>g \<in> G. num st g < num st v" and root: "tj_lowlink st v = num st v"
  shows "component_of R v = {x \<in> set (tj_stack st). num st v \<le> num st x}" (is "_ = ?C")
    and "\<And>x. x \<in> finished st \<union> {x \<in> set (tj_stack st). num st v \<le> num st x} \<Longrightarrow>
      R `` {x} \<subseteq> finished st \<union> {x \<in> set (tj_stack st). num st v \<le> num st x}"
proof -
  note c = ok [unfolded tarjan_ok_def closed_ok_def]
  note p = ok [unfolded tarjan_ok_def path_ok_def]
  have v: "v \<in> set (tj_stack st)" using p by blast
  have in_stack: "x \<in> dom (tj_indexes st)" if "x \<in> set (tj_stack st)" for x
    using ok that stack_okD(2) by (auto simp: tarjan_ok_def)
  show closed: "R `` {x} \<subseteq> finished st \<union> ?C" if "x \<in> finished st \<union> ?C" for x
  proof (cases "x \<in> ?C")
    case True
    show ?thesis
    proof
      fix y assume y: "y \<in> R `` {x}"
      have "x = v \<or> x \<in> dom (tj_indexes st) - insert v G" using True first in_stack [of x] by auto
      then have "y \<in> dom (tj_indexes st)" using c visited y by blast
      then show "y \<in> finished st \<union> ?C"
        using low root True y by (fastforce simp: lowlink_ok_def)
    qed
  qed (use that c in blast)
  show "component_of R v = ?C"
  proof
    show "?C \<subseteq> component_of R v"
    proof
      fix x assume x: "x \<in> ?C"
      then obtain g where g: "g \<in> insert v G" "(x, g) \<in> R\<^sup>*" using p by blast
      have "(g, v) \<in> R\<^sup>*" using g(1) first p v by (auto intro: less_imp_le)
      then show "x \<in> component_of R v" using x p g(2) by (auto simp: component_of_def)
    qed
    show "component_of R v \<subseteq> ?C"
    proof
      fix y assume y: "y \<in> component_of R v"
      then have "y \<in> finished st \<union> ?C"
        using closed_reach [of v y R "finished st \<union> ?C"] closed v by (auto simp: component_of_def)
      moreover have "y \<notin> finished st"
        using closed_reach [of y v R "finished st"] y c v by (auto simp: component_of_def)
      ultimately show "y \<in> ?C" by blast
    qed
  qed
qed


lemma leave_ok:
  assumes ok: "tarjan_ok R (insert v G) st" and low: "lowlink_ok R v {} st" and visited: "R `` {v} \<subseteq> dom (tj_indexes st)"
    and first: "\<forall>g \<in> G. num st g < num st v"
  shows "tarjan_ok R G (leave_node v st)"
    and "set (tj_stack (leave_node v st)) =
      (if tj_lowlink st v = num st v then {x \<in> set (tj_stack st). num st x < num st v} else set (tj_stack st))"
    and "\<exists>us. tj_stack st = us @ tj_stack (leave_node v st)"
    and "finished st \<subseteq> finished (leave_node v st)"
proof -
  note c = ok [unfolded tarjan_ok_def closed_ok_def]
  note p = ok [unfolded tarjan_ok_def path_ok_def]
  note s = ok [unfolded tarjan_ok_def, THEN conjunct1]
  let ?st = "leave_node v st"
  have v: "v \<in> set (tj_stack st)" using p by blast
  have closed: "\<forall>x \<in> dom (tj_indexes st) - G. R `` {x} \<subseteq> dom (tj_indexes st)" using c visited by blast
  have "tarjan_ok R G ?st \<and>
    set (tj_stack ?st) = (if tj_lowlink st v = num st v then {x \<in> set (tj_stack st). num st x < num st v} else set (tj_stack st)) \<and>
    (\<exists>us. tj_stack st = us @ tj_stack ?st) \<and> finished st \<subseteq> finished ?st"
  proof (cases "tj_lowlink st v = num st v")
    case False
    then have eq: "?st = st" by (simp add: leave_node_def)
    obtain y where y: "y \<in> set (tj_stack st)" "num st y < num st v" "(v, y) \<in> R\<^sup>*"
      using low False unfolding lowlink_ok_def by (metis le_neq_implies_less)
    obtain g where g: "g \<in> G" "num st g \<le> num st y" "(y, g) \<in> R\<^sup>*" using p y(1,2) by force
    then have "(v, g) \<in> R\<^sup>*" "num st g < num st v" using y by auto
    then have "\<exists>h \<in> G. num st h \<le> num st x \<and> (x, h) \<in> R\<^sup>*" if "x \<in> set (tj_stack st)" for x
      using p that g(1) by (metis insert_iff less_imp_le_nat order_trans rtrancl_trans)
    then have "path_ok R G st" using p by (auto simp: path_ok_def)
    then show ?thesis using ok closed False unfolding eq by (simp add: tarjan_ok_def closed_ok_def)
  next
    case root: True
    obtain xs ys where st: "tj_stack st = xs @ v # ys" using split_list [OF v] by blast
    have d: "distinct (xs @ v # ys)" and so: "sorted_wrt (\<lambda>x y. num st y < num st x) (xs @ v # ys)"
      using stack_okD(1) [OF s] s by (simp_all add: st stack_ok_def)
    let ?C = "{x \<in> set (tj_stack st). num st v \<le> num st x}"
    have C: "set (xs @ [v]) = ?C" "set ys = {x \<in> set (tj_stack st). num st x < num st v}"
    proof -
      have "num st v < num st x" if "x \<in> set xs" for x using so that by (simp add: sorted_wrt_append)
      moreover have "num st x < num st v" if "x \<in> set ys" for x using so that by (simp add: sorted_wrt_append)
      ultimately show "set (xs @ [v]) = ?C" "set ys = {x \<in> set (tj_stack st). num st x < num st v}"
        unfolding st by (force simp: not_le)+
    qed
    have eq: "tj_stack ?st = ys" "tj_onStack ?st = (\<lambda>x. tj_onStack st x \<and> x \<notin> set (xs @ [v]))"
      "tj_components ?st = tj_components st @ (if xs \<noteq> [] then [sort (xs @ [v])] else [])"
      using root d by (simp_all add: leave_node_def st pop_component_eq)
    note comp = component_on_stack [OF ok low visited first root]
    have "set (tj_stack st) = ?C \<union> set ys" using st C(1) by auto
    moreover have "?C \<inter> set ys = {}" "?C \<subseteq> dom (tj_indexes st)" using C(2) stack_okD(2) [OF s] by (auto simp: not_le)
    ultimately have fin: "finished ?st = finished st \<union> ?C" unfolding eq leave_node_simps by blast
    have "stack_ok ?st"
      using s d by (auto simp: stack_ok_def eq st sorted_wrt_append)
    moreover have "closed_ok R G ?st"
      using closed comp(2) unfolding closed_ok_def fin by simp
    moreover have "path_ok R G ?st"
      unfolding path_ok_def eq leave_node_simps
    proof (intro conjI ballI impI)
      show "G \<subseteq> set ys" using p first C(2) by blast
      fix x assume "x \<in> set ys"
      then have x: "x \<in> set (tj_stack st)" "num st x < num st v" using C(2) by blast+
      then obtain g where g: "g \<in> insert v G" "num st g \<le> num st x" "(x, g) \<in> R\<^sup>*" using p by blast
      then have "g \<noteq> v" using x(2) by auto
      then show "\<exists>g \<in> G. num st g \<le> num st x \<and> (x, g) \<in> R\<^sup>*" using g by blast
      show "(g, x) \<in> R\<^sup>*" if "g \<in> G" "num st g \<le> num st x" for g using that x p by blast
    qed
    moreover have "found_ok R ?st"
    proof -
      have f: "set ` set (tj_components st) = {C \<in> component_of R ` finished st. \<not> is_singleton C}"
        "distinct (map set (tj_components st))" "\<forall>c \<in> set (tj_components st). sorted c \<and> distinct c"
        using ok by (simp_all add: tarjan_ok_def found_ok_def)
      have S: "set (xs @ [v]) = component_of R v" using C(1) comp(1) by simp
      have "component_of R ` component_of R v = {component_of R v}"
        using component_eq [of _ R v] component_self [of v R] by blast
      then have "component_of R ` ?C = {component_of R v}" by (simp only: comp(1))
      then have cs: "component_of R ` finished ?st = insert (component_of R v) (component_of R ` finished st)"
        unfolding fin image_Un by simp
      have one: "is_singleton (component_of R v) \<longleftrightarrow> xs = []"
        using d unfolding S [symmetric] by (cases xs) (auto simp: is_singleton_def)
      have "component_of R v \<notin> component_of R ` finished st"
      proof
        assume "component_of R v \<in> component_of R ` finished st"
        then obtain x where x: "x \<in> finished st" "component_of R v = component_of R x" by blast
        then have "x \<in> set (xs @ [v])" using component_self [of x R] S by simp
        then show False using x(1) st by auto
      qed
      moreover have "{C \<in> component_of R ` finished ?st. \<not> is_singleton C} =
          (if xs = [] then {} else {component_of R v}) \<union> {C \<in> component_of R ` finished st. \<not> is_singleton C}"
        unfolding cs using one by auto
      moreover define c where "c = sort (xs @ [v])"
      have "set c = component_of R v" "distinct c" "sorted c" using S d by (simp_all add: c_def)
      ultimately show ?thesis
        using f unfolding found_ok_def eq c_def [symmetric] by (cases "xs = []") auto
    qed
    moreover have "\<exists>us. tj_stack st = us @ tj_stack ?st" by (auto simp: eq st intro: exI [of _ "xs @ [v]"])
    ultimately show ?thesis using root C(2) fin by (simp add: tarjan_ok_def eq)
  qed
  then show "tarjan_ok R G ?st"
    "set (tj_stack ?st) = (if tj_lowlink st v = num st v then {x \<in> set (tj_stack st). num st x < num st v} else set (tj_stack st))"
    "\<exists>us. tj_stack st = us @ tj_stack ?st" "finished st \<subseteq> finished ?st"
    by blast+
qed


lemma kept_leave:
  assumes k: "kept V st st'" and d: "distinct (tj_stack st')" and before: "\<forall>x \<in> set (tj_stack st). num st' x < num st' w"
    and l: "set (tj_stack (leave_node w st')) =
      (if tj_lowlink st' w = num st' w then {x \<in> set (tj_stack st'). num st' x < num st' w} else set (tj_stack st'))"
      "\<exists>us. tj_stack st' = us @ tj_stack (leave_node w st')" "finished st' \<subseteq> finished (leave_node w st')"
  shows "kept V st (leave_node w st')"
proof -
  let ?S = "tj_stack st" and ?A = "tj_stack (leave_node w st')"
  obtain ts us where t: "tj_stack st' = ts @ ?S" "tj_stack st' = us @ ?A" using k l(2) unfolding kept_def by blast
  have "set ?S \<subseteq> set (tj_stack st')" unfolding t(1) by simp
  then have "set ?S \<subseteq> set ?A" unfolding l(1) using before by auto
  moreover obtain zs where "us @ zs = ts \<and> ?A = zs @ ?S \<or> us = ts @ zs \<and> zs @ ?A = ?S"
    using t append_eq_append_conv2 [of us ?A ts ?S] by auto
  ultimately have "\<exists>zs. ?A = zs @ ?S"
  proof (elim disjE conjE)
    assume sub: "set ?S \<subseteq> set ?A" and "zs @ ?A = ?S"
    then have "set zs \<subseteq> set ?A" by (metis Un_upper1 order_trans set_append)
    moreover have "distinct (zs @ ?A)" using d t(1) \<open>zs @ ?A = ?S\<close> by auto
    ultimately have "zs = []" by (cases zs) auto
    then show ?thesis using \<open>zs @ ?A = ?S\<close> by (intro exI [of _ "[]"]) simp
  qed blast
  moreover have "finished st \<subseteq> finished (leave_node w st')" using k l(3) unfolding kept_def by blast
  ultimately show ?thesis using k by (simp add: kept_def)
qed

lemma lowlink_child:
  assumes low: "lowlink_ok R v (insert w T) st" and edge: "(v, w) \<in> R" and new: "w \<notin> dom (tj_indexes st)"
    and s: "stack_ok st" "v \<in> set (tj_stack st)" and s': "stack_ok (leave_node w st')" and k: "kept {} st (leave_node w st')"
    and w: "num st' w = tj_index st" "lowlink_ok R w {} st'"
    and l: "set (tj_stack (leave_node w st')) =
      (if tj_lowlink st' w = num st' w then {x \<in> set (tj_stack st'). num st' x < num st' w} else set (tj_stack st'))"
  shows "lowlink_ok R v T ((leave_node w st')\<lparr>tj_lowlink := (tj_lowlink st')(v := min (tj_lowlink st' v) (tj_lowlink st' w))\<rparr>)"
proof -
  let ?st = "leave_node w st'" and ?m = "min (tj_lowlink st' v) (tj_lowlink st' w)"
  note o = low [unfolded lowlink_ok_def]
  have old: "x \<in> dom (tj_indexes st)" "num st' x = num st x" "num st x < tj_index st" "tj_lowlink st' x = tj_lowlink st x"
    "x \<in> set (tj_stack ?st)" if "x \<in> set (tj_stack st)" for x
  proof -
    show x: "x \<in> dom (tj_indexes st)" using stack_okD(2) [OF s(1) that] .
    show "num st' x = num st x" "num st x < tj_index st" "tj_lowlink st' x = tj_lowlink st x" "x \<in> set (tj_stack ?st)"
      using keptD(1,3,4) [OF k] x that stack_okD(3) [OF s(1) x] by auto
  qed
  have newer: "tj_index st \<le> num st' x" if "x \<in> set (tj_stack ?st)" "x \<notin> set (tj_stack st)" for x
  proof -
    have "finished st \<subseteq> finished ?st" using k by (simp add: kept_def)
    then have "x \<notin> dom (tj_indexes st)" using that by blast
    moreover have "x \<in> dom (tj_indexes ?st)" using that(1) s' stack_okD(2) by blast
    ultimately show ?thesis using keptD(5) [OF k] by simp
  qed
  have sub: "set (tj_stack ?st) \<subseteq> set (tj_stack st')" using l by auto
  show ?thesis
    unfolding lowlink_ok_def
  proof (simp, intro conjI ballI impI)
    show "min (tj_lowlink st' v) (tj_lowlink st' w) \<le> num st' v"
      using o old [OF s(2)] by (simp add: min.coboundedI1)
    show "\<exists>y \<in> set (tj_stack ?st). num st' y = ?m \<and> (v, y) \<in> R\<^sup>*"
    proof (cases "tj_lowlink st' w < tj_lowlink st' v")
      case True
      then have "tj_lowlink st' w < num st' w" using o old [OF s(2)] w(1) by simp
      then have "set (tj_stack ?st) = set (tj_stack st')" using l by simp
      then show ?thesis using w(2) True edge unfolding lowlink_ok_def by (auto simp: min_def)
    next
      case False
      then show ?thesis using o old [OF s(2)] old by (metis min.absorb1 not_le)
    qed
    show "?m \<le> num st' y"
      if x: "x \<in> set (tj_stack ?st)" and y: "y \<in> set (tj_stack ?st)" and vx: "num st' v \<le> num st' x"
        and xy: "(x, y) \<in> R" and todo: "x = v \<longrightarrow> y \<notin> T" for x y
    proof (cases "x \<in> set (tj_stack st)")
      case True
      show ?thesis
      proof (cases "y \<in> set (tj_stack st)")
        case y: True
        then have "y \<noteq> w" using new old(1) by blast
        then have "tj_lowlink st v \<le> num st y" using o True y vx xy todo old(2) s(2) by auto
        then show ?thesis using old [OF s(2)] old(2) [OF y] by (simp add: min.coboundedI1)
      next
        case False
        then show ?thesis using newer [OF y] o old [OF s(2)] by (simp add: min.coboundedI1)
      qed
    next
      case False
      then have "num st' w \<le> num st' x" using newer x w(1) by simp
      then have "tj_lowlink st' w \<le> num st' y" using w(2) x y xy sub unfolding lowlink_ok_def by blast
      then show ?thesis by simp
    qed
  qed
qed


lemma lowlink_visited:
  assumes low: "lowlink_ok R v (insert w T) st" and edge: "(v, w) \<in> R" and s: "stack_ok st" "v \<in> set (tj_stack st)"
  shows "lowlink_ok R v T
    (st\<lparr>tj_lowlink := (tj_lowlink st)(v := if tj_onStack st w then min (tj_lowlink st v) (num st w) else tj_lowlink st v)\<rparr>)"
proof -
  let ?m = "if tj_onStack st w then min (tj_lowlink st v) (num st w) else tj_lowlink st v"
  note o = low [unfolded lowlink_ok_def] and on = stack_okD(4) [OF s(1), of w]
  have le: "?m \<le> tj_lowlink st v" by simp
  have "\<exists>y \<in> set (tj_stack st). num st y = ?m \<and> (v, y) \<in> R\<^sup>*"
    using o on edge by (cases "tj_onStack st w \<and> num st w < tj_lowlink st v") (auto simp: min_def)
  moreover have "?m \<le> num st y"
    if "x \<in> set (tj_stack st)" "y \<in> set (tj_stack st)" "num st v \<le> num st x" "(x, y) \<in> R" "x = v \<longrightarrow> y \<notin> T" for x y
  proof (cases "x = v \<and> y = w")
    case True
    then show ?thesis using on that(2) by simp
  next
    case False
    then have "tj_lowlink st v \<le> num st y" using o that by auto
    then show ?thesis using le by simp
  qed
  moreover have "?m \<le> num st v" using o le by linarith
  ultimately show ?thesis unfolding lowlink_ok_def by simp
qed

section \<open>A call of strongConnect\<close>

text \<open>What holds when the loop over the neighbours of v goes on with those in nbrs.\<close>

definition visiting :: "(string \<times> string) set \<Rightarrow> string set \<Rightarrow> string \<Rightarrow> string set \<Rightarrow> tarjan \<Rightarrow> bool" where
  "visiting R G v nbrs st =
     (tarjan_ok R (insert v G) st \<and> lowlink_ok R v nbrs st \<and> nbrs \<subseteq> R `` {v} \<and> R `` {v} - nbrs \<subseteq> dom (tj_indexes st) \<and>
      (\<forall>g \<in> G. num st g < num st v))"

lemma visitingD:
  assumes "visiting R G v nbrs st"
  shows "tarjan_ok R (insert v G) st" "lowlink_ok R v nbrs st" "stack_ok st" "v \<in> set (tj_stack st)" "v \<in> dom (tj_indexes st)"
    "G \<subseteq> set (tj_stack st)" "\<forall>g \<in> G. num st g < num st v" "R `` {v} - nbrs \<subseteq> dom (tj_indexes st)" "nbrs \<subseteq> R `` {v}"
    "g \<in> insert v G \<Longrightarrow> (g, v) \<in> R\<^sup>*"
proof -
  show ok: "tarjan_ok R (insert v G) st" "lowlink_ok R v nbrs st" "\<forall>g \<in> G. num st g < num st v"
    "R `` {v} - nbrs \<subseteq> dom (tj_indexes st)" "nbrs \<subseteq> R `` {v}"
    using assms by (simp_all add: visiting_def)
  then show s: "stack_ok st" "v \<in> set (tj_stack st)" "G \<subseteq> set (tj_stack st)" by (simp_all add: tarjan_ok_def path_ok_def)
  then show "v \<in> dom (tj_indexes st)" using stack_okD(2) by blast
  have "\<forall>g \<in> insert v G. \<forall>x \<in> set (tj_stack st). num st g \<le> num st x \<longrightarrow> (g, x) \<in> R\<^sup>*"
    using ok(1) unfolding tarjan_ok_def path_ok_def by blast
  then show "g \<in> insert v G \<Longrightarrow> (g, v) \<in> R\<^sup>*" using s(2) ok(3) by (metis insertE le_refl less_imp_le_nat)
qed

lemma enter_visiting:
  assumes "tarjan_ok R G st" and "tj_indexes st w = None" and "\<forall>g \<in> G. (g, w) \<in> R\<^sup>*"
  shows "visiting R G w (R `` {w}) (enter_node w st)" "kept {} st (enter_node w st)"
proof -
  note e = enter_ok [OF assms]
  show "kept {} st (enter_node w st)" by (rule e)
  have s: "stack_ok st" "G \<subseteq> set (tj_stack st)" using assms(1) by (simp_all add: tarjan_ok_def path_ok_def)
  have "num (enter_node w st) g < num (enter_node w st) w" if "g \<in> G" for g
  proof -
    have "g \<in> dom (tj_indexes st)" using that s stack_okD(2) by blast
    then show ?thesis using keptD(3) [OF e(3)] stack_okD(3) [OF s(1)] by (simp add: enter_node_def)
  qed
  then show "visiting R G w (R `` {w}) (enter_node w st)" using e by (simp add: visiting_def)
qed

lemma strongConnect_ok:
  assumes ok: "tarjan_ok R G st" and new: "tj_indexes st w = None" and reach: "\<forall>g \<in> G. (g, w) \<in> R\<^sup>*"
    and v: "visiting R G w {} st'" "kept {w} (enter_node w st) st'"
  shows "tarjan_ok R G (leave_node w st')" "kept {} st (leave_node w st')"
    "set (tj_stack (leave_node w st')) =
      (if tj_lowlink st' w = num st' w then {x \<in> set (tj_stack st'). num st' x < num st' w} else set (tj_stack st'))"
    "num st' w = tj_index st" "w \<in> dom (tj_indexes st')"
proof -
  note d = visitingD [OF v(1)]
  note e = enter_visiting [OF ok new reach]
  have "R `` {w} \<subseteq> dom (tj_indexes st')" using d(8) by simp
  note l = leave_ok [OF d(1,2) this d(7)]
  show "tarjan_ok R G (leave_node w st')" by (rule l)
  show set: "set (tj_stack (leave_node w st')) =
      (if tj_lowlink st' w = num st' w then {x \<in> set (tj_stack st'). num st' x < num st' w} else set (tj_stack st'))" by (rule l)
  show "w \<in> dom (tj_indexes st')" by (rule d)
  have k: "kept {} st st'" using kept_trans [OF e(2) v(2)] new by (simp add: domIff)
  show w: "num st' w = tj_index st" using keptD(3) [OF v(2), of w] by (simp add: enter_node_def)
  have s: "stack_ok st" using ok by (simp add: tarjan_ok_def)
  have "num st' x < num st' w" if "x \<in> set (tj_stack st)" for x
    using keptD(3) [OF k] stack_okD(2,3) [OF s] that w by simp
  then show "kept {} st (leave_node w st')"
    using kept_leave [OF k stack_okD(1) [OF d(3)] _ set l(3,4)] by blast
qed

lemma lowlink_if:
  "(if tj_lowlink st w < tj_lowlink st v then st\<lparr>tj_lowlink := (tj_lowlink st)(v := tj_lowlink st w)\<rparr> else st) =
   st\<lparr>tj_lowlink := (tj_lowlink st)(v := min (tj_lowlink st v) (tj_lowlink st w))\<rparr>"
  by (auto simp: min_def)

lemma visit_ok:
  assumes "\<forall>t \<in> set tables. deps t \<subseteq> set tables" and "v \<in> set tables"
    and "visiting (depends_on tables deps) G v (set nbrs) st"
  shows "visiting (depends_on tables deps) G v {} (visit_neighbors tables deps v nbrs st) \<and>
    kept {v} st (visit_neighbors tables deps v nbrs st)"
  using assms
proof (induction tables deps v nbrs st arbitrary: G rule: visit_neighbors.induct)
  case (2 tables deps v w rest st)
  let ?R = "depends_on tables deps"
  note d = visitingD [OF 2(6)]
  have edge: "(v, w) \<in> ?R" using d(9) by auto
  then have w: "w \<in> set tables" using 2(4) by (auto simp: depends_on_def)
  show ?case
  proof (cases "tj_indexes st w = None")
    case True
    have reach: "\<forall>g \<in> insert v G. (g, w) \<in> ?R\<^sup>*" using d(10) edge by (blast intro: rtrancl_into_rtrancl)
    let ?st' = "visit_neighbors tables deps w (neighbors_of tables deps w) (enter_node w st)"
    have n: "set (neighbors_of tables deps w) = ?R `` {w}" using w 2(4) by (auto simp: neighbors_of_def depends_on_def)
    have v: "visiting ?R (insert v G) w {} ?st'" "kept {w} (enter_node w st) ?st'"
      using 2(1) [OF True 2(4) w, of "insert v G"] enter_visiting(1) [OF d(1) True reach] n by simp_all
    note c = strongConnect_ok [OF d(1) True reach v]
    let ?st1 = "leave_node w ?st'"
    let ?st2 = "?st1\<lparr>tj_lowlink := (tj_lowlink ?st1)(v := min (tj_lowlink ?st1 v) (tj_lowlink ?st1 w))\<rparr>"
    have "lowlink_ok ?R v (set rest) ?st2"
      using lowlink_child [OF _ edge _ d(3,4) _ c(2,4) visitingD(2) [OF v(1)] c(3)] d(2) True c(1)
      by (simp add: domIff tarjan_ok_def)
    moreover have k: "kept {v} st ?st2"
      using kept_lowlink [OF kept_trans [OF kept_refl [of "{v}"] c(2)], of v] by simp
    moreover have "num ?st2 g < num ?st2 v" if "g \<in> G" for g
      using that d(7) d(6) stack_okD(2) [OF d(3)] keptD(3) [OF k, of g] keptD(3) [OF k d(5)] by auto
    moreover have "?R `` {v} - set rest \<subseteq> dom (tj_indexes ?st2)"
      using d(8) keptD(2) [OF k] c(5) by auto
    ultimately have "visiting ?R G v (set rest) ?st2"
      using c(1) d(9) unfolding visiting_def by simp
    then have "visiting ?R G v {} (visit_neighbors tables deps v rest ?st2) \<and> kept {v} ?st2 (visit_neighbors tables deps v rest ?st2)"
      using 2(2) [OF True refl 2(4,5), of G, unfolded lowlink_if] by blast
    moreover have "visit_neighbors tables deps v (w # rest) st = visit_neighbors tables deps v rest ?st2"
      by (simp only: visit_neighbors.simps Let_def True lowlink_if if_True simp_thms)
    moreover have "kept {v} st st'" if "kept {v} ?st2 st'" for st' by (rule kept_trans [OF k that]) simp
    ultimately show ?thesis by (metis (no_types))
  next
    case False
    let ?st2 = "st\<lparr>tj_lowlink := (tj_lowlink st)(v := if tj_onStack st w then min (tj_lowlink st v) (num st w) else tj_lowlink st v)\<rparr>"
    have eq: "(if tj_onStack st w \<and> num st w < tj_lowlink st v then st\<lparr>tj_lowlink := (tj_lowlink st)(v := num st w)\<rparr> else st) = ?st2"
      by (auto simp: min_def)
    have k: "kept {v} st ?st2" using kept_lowlink [OF kept_refl, of v "{v}"] by simp
    have "lowlink_ok ?R v (set rest) ?st2"
      using lowlink_visited [OF _ edge d(3,4)] d(2) by simp
    moreover have "?R `` {v} - set rest \<subseteq> dom (tj_indexes ?st2)" using d(8) False by auto
    ultimately have "visiting ?R G v (set rest) ?st2" using d(1,7,9) unfolding visiting_def by simp
    then have "visiting ?R G v {} (visit_neighbors tables deps v rest ?st2) \<and> kept {v} ?st2 (visit_neighbors tables deps v rest ?st2)"
      using 2(3) [OF False 2(4,5), of G] unfolding eq by simp
    moreover have "visit_neighbors tables deps v (w # rest) st = visit_neighbors tables deps v rest ?st2"
      by (simp only: visit_neighbors.simps False eq if_False)
    moreover have "kept {v} st st'" if "kept {v} ?st2 st'" for st' by (rule kept_trans [OF k that]) simp
    ultimately show ?thesis by (metis (no_types))
  qed
qed simp


section \<open>The whole search\<close>

lemma strongConnect_top:
  assumes deps: "\<forall>t \<in> set tables. deps t \<subseteq> set tables" and "v \<in> set tables"
    and ok: "tarjan_ok (depends_on tables deps) {} st" and new: "tj_indexes st v = None"
  shows "tarjan_ok (depends_on tables deps) {} (strongConnect tables deps v st)"
    and "dom (tj_indexes st) \<union> {v} \<subseteq> dom (tj_indexes (strongConnect tables deps v st))"
proof -
  let ?R = "depends_on tables deps"
  have reach: "\<forall>g \<in> {}. (g, v) \<in> ?R\<^sup>*" by simp
  have "set (neighbors_of tables deps v) = ?R `` {v}" using assms(1,2) by (auto simp: neighbors_of_def depends_on_def)
  then have v: "visiting ?R {} v {} (visit_neighbors tables deps v (neighbors_of tables deps v) (enter_node v st))"
    "kept {v} (enter_node v st) (visit_neighbors tables deps v (neighbors_of tables deps v) (enter_node v st))"
    using visit_ok [OF deps assms(2)] enter_visiting(1) [OF ok new reach] by simp_all
  note c = strongConnect_ok [OF ok new reach v]
  show "tarjan_ok ?R {} (strongConnect tables deps v st)" using c(1) by (simp add: strongConnect_def)
  show "dom (tj_indexes st) \<union> {v} \<subseteq> dom (tj_indexes (strongConnect tables deps v st))"
    using keptD(2) [OF c(2)] c(5) by (simp add: strongConnect_def)
qed

lemma connect_nodes_ok:
  assumes "\<forall>t \<in> set tables. deps t \<subseteq> set tables" and "set nodes \<subseteq> set tables"
    and "tarjan_ok (depends_on tables deps) {} st"
  shows "tarjan_ok (depends_on tables deps) {} (connect_nodes tables deps nodes st) \<and>
    dom (tj_indexes st) \<union> set nodes \<subseteq> dom (tj_indexes (connect_nodes tables deps nodes st))"
  using assms
proof (induction nodes arbitrary: st)
  case (Cons v nodes)
  let ?st = "if tj_indexes st v = None then strongConnect tables deps v st else st"
  have "tarjan_ok (depends_on tables deps) {} ?st" "dom (tj_indexes st) \<union> {v} \<subseteq> dom (tj_indexes ?st)"
    using strongConnect_top [OF Cons.prems(1) _ Cons.prems(3), of v] Cons.prems by auto
  moreover have "tarjan_ok (depends_on tables deps) {} (connect_nodes tables deps nodes ?st) \<and>
      dom (tj_indexes ?st) \<union> set nodes \<subseteq> dom (tj_indexes (connect_nodes tables deps nodes ?st))"
    using Cons.IH [OF Cons.prems(1) _ calculation(1)] Cons.prems(2) by simp
  ultimately show ?case by (simp only: connect_nodes.simps list.set) blast
qed simp

lemma component_singleton:
  assumes "x \<notin> Domain R"
  shows "component_of R x = {x}"
proof -
  have "y = x" if "(x, y) \<in> R\<^sup>*" for y using that assms by (metis Not_Domain_rtrancl)
  then show ?thesis by (auto simp: component_of_def)
qed

text \<open>The result are the strongly connected components with more than one table, each sorted.\<close>

definition table_cycles :: "(string \<times> string) set \<Rightarrow> string set set" where
  "table_cycles R = {C \<in> range (component_of R). \<not> is_singleton C}"

lemma detect_components:
  assumes "\<forall>t \<in> set tables. deps t \<subseteq> set tables"
  shows "set ` set (detectForeignKeyCycles tables deps) = table_cycles (depends_on tables deps)"
    and "\<forall>c \<in> set (detectForeignKeyCycles tables deps). sorted c \<and> distinct c"
    and "distinct (map set (detectForeignKeyCycles tables deps))"
proof -
  let ?R = "depends_on tables deps" and ?st = "connect_nodes tables deps (sort (remdups tables)) tarjan_start"
  have "tarjan_ok ?R {} tarjan_start"
    by (simp add: tarjan_ok_def stack_ok_def closed_ok_def path_ok_def found_ok_def tarjan_start_def)
  then have ok: "tarjan_ok ?R {} ?st" "set tables \<subseteq> dom (tj_indexes ?st)"
    using connect_nodes_ok [OF assms, of "sort (remdups tables)" tarjan_start] by auto
  have "tj_stack ?st = []"
    using ok(1) unfolding tarjan_ok_def path_ok_def by (metis empty_iff last_in_set)
  then have fin: "set tables \<subseteq> finished ?st" using ok(2) by simp
  have f: "set ` set (tj_components ?st) = {C \<in> component_of ?R ` finished ?st. \<not> is_singleton C}"
    "distinct (map set (tj_components ?st))" "\<forall>c \<in> set (tj_components ?st). sorted c \<and> distinct c"
    using ok(1) by (simp_all add: tarjan_ok_def found_ok_def)
  have "x \<in> finished ?st" if "\<not> is_singleton (component_of ?R x)" for x
  proof -
    have "x \<in> Domain ?R" using that component_singleton [of x ?R] by (auto simp: is_singleton_def)
    then show ?thesis using fin by (auto simp: depends_on_def)
  qed
  then have "{C \<in> component_of ?R ` finished ?st. \<not> is_singleton C} = table_cycles ?R"
    unfolding table_cycles_def by blast
  then show "set ` set (detectForeignKeyCycles tables deps) = table_cycles ?R"
    and "\<forall>c \<in> set (detectForeignKeyCycles tables deps). sorted c \<and> distinct c"
    using f by (simp_all add: detectForeignKeyCycles_def)
  have "mset (map set (detectForeignKeyCycles tables deps)) = mset (map set (tj_components ?st))"
    unfolding detectForeignKeyCycles_def mset_map by simp
  then show "distinct (map set (detectForeignKeyCycles tables deps))"
    using f(2) mset_eq_imp_distinct_iff by blast
qed

lemma no_cycles_acyclic:
  assumes "\<forall>t \<in> set tables. t \<notin> deps t"
  shows "table_cycles (depends_on tables deps) = {} \<longleftrightarrow> acyclic (depends_on tables deps)"
proof
  let ?R = "depends_on tables deps"
  assume none: "table_cycles ?R = {}"
  show "acyclic ?R"
    unfolding acyclic_def
  proof (intro allI notI)
    fix x assume "(x, x) \<in> ?R\<^sup>+"
    then obtain y where y: "(x, y) \<in> ?R" "(y, x) \<in> ?R\<^sup>*" by (meson tranclD)
    then have "y \<in> component_of ?R x" "y \<noteq> x" using assms by (auto simp: component_of_def depends_on_def)
    then have "\<not> is_singleton (component_of ?R x)"
      using component_self [of x ?R] by (metis is_singletonE singletonD)
    then show False using none by (auto simp: table_cycles_def)
  qed
next
  let ?R = "depends_on tables deps"
  assume ac: "acyclic ?R"
  have "component_of ?R x = {x}" for x
  proof -
    have "y = x" if "(x, y) \<in> ?R\<^sup>*" "(y, x) \<in> ?R\<^sup>*" for y
      using that ac unfolding acyclic_def by (metis rtranclD rtrancl_trancl_trancl)
    then show ?thesis by (auto simp: component_of_def)
  qed
  then show "table_cycles ?R = {}" by (auto simp: table_cycles_def)
qed

end
