(* ===== verification/Precheck_Base.thy ===== *)
theory Precheck_Base
  imports Baseline_Sql Compat_Rules
begin

text \<open>
  What the prechecks of internal/commands share: the databases that are looked at
  (foreign_key_cycle_precheck.go, lines 98-119) and the form of a finding.
\<close>

definition finding :: "string \<Rightarrow> string \<Rightarrow> string \<Rightarrow> string \<Rightarrow> Finding" where
  "finding code severity message proposal =
     \<lparr>fg_Code = code, fg_Severity = severity, fg_Message = message, fg_Proposal = proposal\<rparr>"

lemma finding_simps [simp]:
  "fg_Code (finding c s m p) = c" "fg_Severity (finding c s m p) = s" "fg_Message (finding c s m p) = m"
  "fg_Proposal (finding c s m p) = p"
  by (simp_all add: finding_def)

definition listSelectableDatabases :: "string query_result \<Rightarrow> string list \<Rightarrow> string list \<Rightarrow> string + string list" where
  "listSelectableDatabases schemata includeDatabases excludeDatabases =
     bind_result (rows_or_error schemata) (\<lambda>all. Inr (SelectDatabases all includeDatabases excludeDatabases))"

definition has_error :: "Finding list \<Rightarrow> bool" where
  "has_error findings = list_ex (\<lambda>f. fg_Severity f = ''error'') findings"

text \<open>The rows of an answer, if it has any.\<close>

definition answer_rows :: "'a query_result \<Rightarrow> 'a list" where
  "answer_rows q = (case q of Rows rows \<Rightarrow> rows | _ \<Rightarrow> [])"

lemma answer_rows_simps [simp]:
  "answer_rows (Rows rows) = rows" "answer_rows (QueryError e) = []" "answer_rows (ScanError e) = []" "answer_rows (RowsError e) = []"
  by (simp_all add: answer_rows_def)

lemma has_error_simps:
  "has_error [] \<longleftrightarrow> False" "has_error (f # fs) \<longleftrightarrow> fg_Severity f = ''error'' \<or> has_error fs"
  "has_error (fs @ gs) \<longleftrightarrow> has_error fs \<or> has_error gs"
  by (auto simp: has_error_def)

lemma has_error_map: "has_error (map g xs) \<longleftrightarrow> (\<exists>x \<in> set xs. fg_Severity (g x) = ''error'')"
  by (auto simp: has_error_def list_ex_iff)

lemma sort_key_Nil: "sort_key f xs = [] \<longleftrightarrow> xs = []"
  by (metis set_empty set_sort)

end
