(* ===== verification/Fk_Precheck.thy ===== *)
theory Fk_Precheck
  imports Fk_Cycles Precheck_Base "HOL-Library.Product_Lexorder"
begin

text \<open>
  The precheck for cycles among foreign keys (internal/commands/foreign_key_cycle_precheck.go). The
  theorems compare it with the copy, which orders the tables by another algorithm (Table_Order): the
  precheck reports a database exactly if the copy refuses it, but names other tables.
\<close>

section \<open>The precheck\<close>

record foreignKeyCycleIssue =
  fi_Database :: string
  fi_Tables :: "string list"

record foreignKeyCyclePrecheckReport =
  fp_Name :: string
  fp_IssueCount :: nat
  fp_Issues :: "foreignKeyCycleIssue list"
  fp_Findings :: "Finding list"

record fk_source =
  fk_schemata :: "string query_result"
  fk_tables :: "string \<Rightarrow> string query_result"
  fk_keys :: "string \<Rightarrow> (string \<times> string) query_result"

text \<open>The tables of a database and the map of their dependencies.\<close>

definition loadDatabaseForeignKeyDependencies :: "fk_source \<Rightarrow> string \<Rightarrow> string + string list \<times> dependencies" where
  "loadDatabaseForeignKeyDependencies source databaseName =
     bind_result (rows_or_error (fk_tables source databaseName)) (\<lambda>tables.
       if card (set tables) < 2 then Inr (tables, \<lambda>_. {})
       else bind_result (rows_or_error (fk_keys source databaseName)) (\<lambda>rows.
              Inr (tables, foreign_key_dependencies tables rows)))"

definition buildForeignKeyCycleFindings :: "nat \<Rightarrow> foreignKeyCycleIssue list \<Rightarrow> Finding list" where
  "buildForeignKeyCycleFindings issueCount issues =
     (if issueCount = 0
      then [finding ''foreign_key_cycle_inventory_clean'' ''info''
              ''No intra-database foreign-key cycles detected in selected scope.''
              ''Proceed with normal schema/data validation gates.'']
      else finding ''foreign_key_cycles_detected'' ''error''
             (''Detected '' @ show_nat issueCount @ '' intra-database foreign-key cycle group(s) in selected scope.'')
             (''For each cycle, create/load the affected tables without the cyclic constraints, then add those constraints ''
               @ ''in a controlled manual post-step before cutover.'')
           # map (\<lambda>issue. finding ''foreign_key_cycle_group'' ''error''
               (''Database '' @ fi_Database issue @ '' contains a cyclic foreign-key group across tables '' @ Join (fi_Tables issue) '', '' @ ''.'')
               (''Generate non-cyclic CREATE TABLE statements for '' @ Join (fi_Tables issue) '', ''
                 @ '', load data, then apply the cyclic FOREIGN KEY constraints with post-load ALTER TABLE statements.'')) issues)"

definition cycle_issues :: "string \<Rightarrow> string list \<times> dependencies \<Rightarrow> foreignKeyCycleIssue list" where
  "cycle_issues databaseName loaded =
     map (\<lambda>cycle. \<lparr>fi_Database = databaseName, fi_Tables = cycle\<rparr>) (detectForeignKeyCycles (fst loaded) (snd loaded))"

fun inspect_databases :: "fk_source \<Rightarrow> string list \<Rightarrow> foreignKeyCycleIssue list \<Rightarrow> string option \<times> foreignKeyCycleIssue list" where
  "inspect_databases source [] issues = (None, issues)"
| "inspect_databases source (databaseName # rest) issues =
     (case loadDatabaseForeignKeyDependencies source databaseName of
        Inl e \<Rightarrow> (Some (''inspect foreign keys for '' @ databaseName @ '': '' @ e), issues)
      | Inr loaded \<Rightarrow> inspect_databases source rest (issues @ cycle_issues databaseName loaded))"

definition runForeignKeyCyclePrecheck ::
  "bool \<Rightarrow> fk_source \<Rightarrow> string list \<Rightarrow> string list \<Rightarrow> string option \<times> foreignKeyCyclePrecheckReport" where
  "runForeignKeyCyclePrecheck connected source includeDatabases excludeDatabases =
     (let report = \<lparr>fp_Name = ''foreign-key-cycles'', fp_IssueCount = 0, fp_Issues = [], fp_Findings = []\<rparr>
      in if \<not> connected then (Some ''source connection is required'', report)
         else (case listSelectableDatabases (fk_schemata source) includeDatabases excludeDatabases of
                 Inl e \<Rightarrow> (Some e, report)
               | Inr databases \<Rightarrow>
                   (case inspect_databases source databases [] of
                      (Some e, issues) \<Rightarrow> (Some e, report\<lparr>fp_Issues := issues\<rparr>)
                    | (None, issues) \<Rightarrow>
                        (let sorted_issues = sort_key (\<lambda>i. (fi_Database i, Join (fi_Tables i) '','')) issues
                         in (None, report\<lparr>fp_Issues := sorted_issues, fp_IssueCount := length sorted_issues,
                                          fp_Findings := buildForeignKeyCycleFindings (length sorted_issues) sorted_issues\<rparr>)))))"

section \<open>What it finds\<close>

lemma load_foreign_keys:
  assumes "fk_tables source d = Rows tables" and "fk_keys source d = Rows rows" and "distinct tables"
  shows "\<exists>deps. loadDatabaseForeignKeyDependencies source d = Inr (tables, deps) \<and>
    (\<forall>t \<in> set tables. deps t \<subseteq> set tables - {t}) \<and> depends_on tables deps = foreign_keys tables rows"
proof (cases "card (set tables) < 2")
  case True
  then have "foreign_keys tables rows = {}" using foreign_keys_small assms(3) by (simp add: distinct_card)
  then show ?thesis using True assms by (simp add: loadDatabaseForeignKeyDependencies_def rows_or_error_def depends_on_def)
next
  case False
  then show ?thesis
    using assms foreign_key_dependencies_within [of tables rows] depends_on_foreign_keys [of tables rows]
    by (auto simp: loadDatabaseForeignKeyDependencies_def rows_or_error_def)
qed

lemma inspect_databases_ok:
  assumes "\<forall>d \<in> set ds. fk_tables source d = Rows (tables d) \<and> fk_keys source d = Rows (rows d) \<and> distinct (tables d)"
  shows "\<exists>found. inspect_databases source ds issues = (None, issues @ found) \<and>
    (\<lambda>i. (fi_Database i, set (fi_Tables i))) ` set found =
      {(d, C). d \<in> set ds \<and> C \<in> table_cycles (foreign_keys (tables d) (rows d))} \<and>
    (\<forall>i \<in> set found. sorted (fi_Tables i) \<and> distinct (fi_Tables i))"
  using assms
proof (induction ds arbitrary: issues)
  case (Cons d ds)
  obtain deps where l: "loadDatabaseForeignKeyDependencies source d = Inr (tables d, deps)"
    "\<forall>t \<in> set (tables d). deps t \<subseteq> set (tables d) - {t}" "depends_on (tables d) deps = foreign_keys (tables d) (rows d)"
    using load_foreign_keys [of source d "tables d" "rows d"] Cons.prems by auto
  have within: "\<forall>t \<in> set (tables d). deps t \<subseteq> set (tables d)" using l(2) by blast
  note c = detect_components [OF within, unfolded l(3)]
  let ?new = "cycle_issues d (tables d, deps)"
  have new: "(\<lambda>i. (fi_Database i, set (fi_Tables i))) ` set ?new = Pair d ` table_cycles (foreign_keys (tables d) (rows d))"
    unfolding c(1) [symmetric] by (simp add: cycle_issues_def image_image)
  obtain found where f: "inspect_databases source ds (issues @ ?new) = (None, (issues @ ?new) @ found)"
    "(\<lambda>i. (fi_Database i, set (fi_Tables i))) ` set found = {(d, C). d \<in> set ds \<and> C \<in> table_cycles (foreign_keys (tables d) (rows d))}"
    "\<forall>i \<in> set found. sorted (fi_Tables i) \<and> distinct (fi_Tables i)"
    using Cons.IH [of "issues @ ?new"] Cons.prems by auto
  have "(\<lambda>i. (fi_Database i, set (fi_Tables i))) ` set (?new @ found) =
      {(d', C). d' \<in> set (d # ds) \<and> C \<in> table_cycles (foreign_keys (tables d') (rows d'))}"
    unfolding set_append image_Un new f(2) by auto
  moreover have "\<forall>i \<in> set (?new @ found). sorted (fi_Tables i) \<and> distinct (fi_Tables i)"
    using f(3) c(2) by (auto simp: cycle_issues_def)
  ultimately show ?case using l(1) f(1) by (intro exI [of _ "?new @ found"]) simp
qed simp

lemma order_refused:
  assumes "distinct tables"
  shows "(\<exists>e. orderTableNamesByForeignKeys cycleError d (Rows rows) tables = Inl e) \<longleftrightarrow> \<not> acyclic (foreign_keys tables rows)"
  by (rule orderTableNames_result [OF assms, of rows cycleError d]) auto

lemma cycles_of_foreign_keys: "table_cycles (foreign_keys tables rows) = {} \<longleftrightarrow> acyclic (foreign_keys tables rows)"
  using no_cycles_acyclic [of tables "foreign_key_dependencies tables rows"] foreign_key_dependencies_within [of tables rows]
  by (auto simp: depends_on_foreign_keys)

section \<open>Properties\<close>

text \<open>
  Claim C12. When the source answers all queries, the precheck reports, for each selected database, exactly the
  strongly connected components of its foreign keys that have more than one table, each with its
  tables in order; and it reports a database exactly if the copy of this database is refused
  because its tables cannot be ordered.
\<close>

theorem fk_precheck_agrees_with_copy:
  assumes "fk_schemata source = Rows all"
    and "\<forall>d \<in> set (SelectDatabases all inc exc).
      fk_tables source d = Rows (tables d) \<and> fk_keys source d = Rows (rows d) \<and> distinct (tables d)"
  shows "\<exists>report. runForeignKeyCyclePrecheck True source inc exc = (None, report) \<and>
    (\<lambda>i. (fi_Database i, set (fi_Tables i))) ` set (fp_Issues report) =
      {(d, C). d \<in> set (SelectDatabases all inc exc) \<and> C \<in> table_cycles (foreign_keys (tables d) (rows d))} \<and>
    (\<forall>i \<in> set (fp_Issues report). sorted (fi_Tables i) \<and> distinct (fi_Tables i)) \<and>
    (\<forall>d \<in> set (SelectDatabases all inc exc).
      (\<exists>i \<in> set (fp_Issues report). fi_Database i = d) \<longleftrightarrow>
      (\<exists>e. orderTableNamesByForeignKeys copyCycleError d (Rows (rows d)) (tables d) = Inl e)) \<and>
    (has_error (fp_Findings report) \<longleftrightarrow> fp_Issues report \<noteq> [])"
proof -
  let ?ds = "SelectDatabases all inc exc"
  obtain found where f: "inspect_databases source ?ds [] = (None, found)"
    "(\<lambda>i. (fi_Database i, set (fi_Tables i))) ` set found =
      {(d, C). d \<in> set ?ds \<and> C \<in> table_cycles (foreign_keys (tables d) (rows d))}"
    "\<forall>i \<in> set found. sorted (fi_Tables i) \<and> distinct (fi_Tables i)"
    using inspect_databases_ok [OF assms(2), of "[]"] by auto
  have reported: "(\<exists>i \<in> set found. fi_Database i = d) \<longleftrightarrow> table_cycles (foreign_keys (tables d) (rows d)) \<noteq> {}"
    if "d \<in> set ?ds" for d
  proof -
    have "(\<exists>i \<in> set found. fi_Database i = d) \<longleftrightarrow> (\<exists>C. (d, C) \<in> (\<lambda>i. (fi_Database i, set (fi_Tables i))) ` set found)"
      by auto
    then show ?thesis unfolding f(2) using that by auto
  qed
  let ?issues = "sort_key (\<lambda>i. (fi_Database i, Join (fi_Tables i) '','')) found"
  let ?report = "\<lparr>fp_Name = ''foreign-key-cycles'', fp_IssueCount = length ?issues, fp_Issues = ?issues,
    fp_Findings = buildForeignKeyCycleFindings (length ?issues) ?issues\<rparr>"
  have run: "runForeignKeyCyclePrecheck True source inc exc = (None, ?report)"
    using assms(1) f(1) by (simp add: runForeignKeyCyclePrecheck_def listSelectableDatabases_def rows_or_error_def Let_def)
  have "has_error (fp_Findings ?report) \<longleftrightarrow> fp_Issues ?report \<noteq> []"
    by (cases found) (simp_all add: has_error_def buildForeignKeyCycleFindings_def)
  moreover have "(\<exists>i \<in> set found. fi_Database i = d) \<longleftrightarrow> (\<exists>e. orderTableNamesByForeignKeys copyCycleError d (Rows (rows d)) (tables d) = Inl e)"
    if "d \<in> set ?ds" for d
    using order_refused [of "tables d" copyCycleError d "rows d"] reported [OF that] cycles_of_foreign_keys assms(2) that by auto
  ultimately show ?thesis using run f(2,3) by (intro exI [of _ ?report]) simp
qed

definition example_fk_source :: fk_source where
  "example_fk_source =
     \<lparr>fk_schemata = Rows [''app'', ''mysql''], fk_tables = (\<lambda>_. Rows [''a'', ''b'', ''c'']),
      fk_keys = (\<lambda>_. Rows [(''a'', ''b''), (''b'', ''a''), (''c'', ''a'')])\<rparr>"

theorem fk_precheck_agrees_with_copy_witness:
  "\<exists>report. runForeignKeyCyclePrecheck True example_fk_source [] [] = (None, report) \<and>
     (\<exists>i \<in> set (fp_Issues report). fi_Database i = ''app'')"
proof -
  let ?fk = "foreign_keys [''a'', ''b'', ''c''] [(''a'', ''b''), (''b'', ''a''), (''c'', ''a'')]"
  have "(''a'', ''b'') \<in> ?fk" "(''b'', ''a'') \<in> ?fk" by (simp_all add: foreign_keys_def)
  then have "(''a'', ''a'') \<in> ?fk\<^sup>+" by (meson trancl.simps)
  then have "\<not> acyclic ?fk" by (auto simp: acyclic_def)
  then have order: "\<exists>e. orderTableNamesByForeignKeys copyCycleError ''app''
      (Rows [(''a'', ''b''), (''b'', ''a''), (''c'', ''a'')]) [''a'', ''b'', ''c''] = Inl e"
    using order_refused [of "[''a'', ''b'', ''c'']"] by simp
  have "''app'' \<in> set (SelectDatabases [''app'', ''mysql''] [] [])" by code_simp
  then show ?thesis
    using fk_precheck_agrees_with_copy [of example_fk_source "[''app'', ''mysql'']" "[]" "[]" "\<lambda>_. [''a'', ''b'', ''c'']"
        "\<lambda>_. [(''a'', ''b''), (''b'', ''a''), (''c'', ''a'')]"] order
    by (auto simp: example_fk_source_def)
qed

text \<open>
  The two algorithms name different tables: where the error of the copy lists every table that refers to a
  cycle directly or through others, an issue of the precheck lists tables of one cycle only.
\<close>

theorem precheck_names_fewer:
  assumes "distinct tables" and "i \<in> set (cycle_issues d (tables, foreign_key_dependencies tables rows))"
  shows "\<exists>named. orderTableNamesByForeignKeys copyCycleError d (Rows rows) tables = Inl (copyCycleError d (Join named '', '')) \<and>
    set (fi_Tables i) \<subseteq> set named \<and>
    (\<forall>t \<in> set (fi_Tables i). (t, t) \<in> (foreign_keys tables rows)\<^sup>+)"
proof -
  let ?fk = "foreign_keys tables rows"
  have within: "\<forall>t \<in> set tables. foreign_key_dependencies tables rows t \<subseteq> set tables"
    using foreign_key_dependencies_within [of tables rows] by blast
  obtain c where c: "c \<in> set (detectForeignKeyCycles tables (foreign_key_dependencies tables rows))" "fi_Tables i = c"
    using assms(2) by (auto simp: cycle_issues_def)
  then have "set c \<in> table_cycles ?fk"
    using detect_components(1) [OF within] by (auto simp: depends_on_foreign_keys)
  then obtain x where x: "set c = component_of ?fk x" "\<not> is_singleton (component_of ?fk x)" by (auto simp: table_cycles_def)
  have cyc: "(t, t) \<in> ?fk\<^sup>+" if "t \<in> set c" for t
  proof -
    have "component_of ?fk t = set c" using component_eq [of t ?fk x] that x(1) by simp
    moreover have "component_of ?fk t \<noteq> {t}" using calculation x by (auto simp: is_singleton_def)
    ultimately obtain y where "y \<in> component_of ?fk t" "y \<noteq> t" using component_self [of t ?fk] by blast
    then have r: "(t, y) \<in> ?fk\<^sup>*" "(y, t) \<in> ?fk\<^sup>*" by (simp_all add: component_of_def)
    have "(t, y) \<in> ?fk\<^sup>+" using rtranclD [OF r(1)] \<open>y \<noteq> t\<close> by simp
    then show ?thesis using r(2) by (rule trancl_rtrancl_trancl)
  qed
  have "x \<in> set c" using component_self [of x ?fk] by (simp add: x(1))
  then have "\<not> acyclic ?fk" using cyc by (auto simp: acyclic_def)
  then obtain named where n: "orderTableNamesByForeignKeys copyCycleError d (Rows rows) tables = Inl (copyCycleError d (Join named '', ''))"
    "set named = {t. reaches_cycle ?fk t}"
    using cycle_error_names [OF assms(1)] by blast
  have "set c \<subseteq> set named" unfolding n(2) reaches_cycle_def using cyc by blast
  then show ?thesis using n(1) c(2) cyc by blast
qed

end
