(* ===== verification/Precheck_Data.thy ===== *)
theory Precheck_Data
  imports Precheck_Base Baseline_Copy
begin

text \<open>
  The precheck of the shape of the data (internal/commands/data_shape_precheck.go): tables without a
  stable key, which the baseline copy refuses, and tables whose values may be represented differently.
  The theorem says that it refuses exactly the tables that the copy refuses.
\<close>

section \<open>The precheck\<close>

record keylessTableIssue =
  kt_Database :: string
  kt_Table :: string
  kt_Proposal :: string

record representationRiskIssue =
  rr_Database :: string
  rr_Table :: string
  rr_ApproximateNumericColumns :: int
  rr_TemporalColumns :: int
  rr_JSONColumns :: int
  rr_CollationSensitiveColumns :: int
  rr_Notes :: "string list"
  rr_Proposal :: string

record dataShapePrecheckReport =
  dp_Name :: string
  dp_Incompatible :: bool
  dp_KeylessTableCount :: nat
  dp_RepresentationRiskCount :: nat
  dp_KeylessTables :: "keylessTableIssue list"
  dp_RepresentationRiskTables :: "representationRiskIssue list"
  dp_Findings :: "Finding list"

text \<open>A row of the last query: database, table, and the four counts.\<close>

type_synonym risk_row = "string \<times> string \<times> int \<times> int \<times> int \<times> int"

record shape_source =
  sp_schemata :: "string query_result"
  sp_tables :: "string \<Rightarrow> string query_result"
  sp_stats :: "string \<Rightarrow> string \<Rightarrow> statistics_row query_result"
  sp_notNull :: "string \<Rightarrow> string \<Rightarrow> string query_result"
  sp_risks :: "string list \<Rightarrow> risk_row query_result"

definition listBaseTableNamesForPrecheck :: "shape_source \<Rightarrow> string \<Rightarrow> string + string list" where
  "listBaseTableNamesForPrecheck source databaseName =
     (case sp_tables source databaseName of
        QueryError e \<Rightarrow> Inl (''list base tables for '' @ databaseName @ '': '' @ e)
      | ScanError e \<Rightarrow> Inl e
      | RowsError e \<Rightarrow> Inl e
      | Rows names \<Rightarrow> Inr names)"

text \<open>The code repeats listStableKeyColumns and listNotNullColumns of internal/data/copy.go word by word.\<close>

definition listStableKeyColumnsForPrecheck :: "shape_source \<Rightarrow> string \<Rightarrow> string \<Rightarrow> string + string list" where
  "listStableKeyColumnsForPrecheck source databaseName tableName =
     bind_result (rows_or_error (sp_stats source databaseName tableName)) (\<lambda>rows.
     bind_result (collect_indexes rows no_indexes) (\<lambda>s.
     bind_result (rows_or_error (sp_notNull source databaseName tableName)) (\<lambda>notNullColumns.
       Inr (first_eligible s (set notNullColumns) (ix_ordered s)))))"

definition keyless_issue :: "string \<Rightarrow> string \<Rightarrow> keylessTableIssue" where
  "keyless_issue databaseName tableName =
     \<lparr>kt_Database = databaseName, kt_Table = tableName,
      kt_Proposal = ''Add a primary key or non-null unique key to '' @ databaseName @ ''.'' @ tableName
        @ '' before v1 baseline migration or deterministic verify modes.''\<rparr>"

fun keyless_tables :: "shape_source \<Rightarrow> string \<Rightarrow> string list \<Rightarrow> keylessTableIssue list \<Rightarrow> string option \<times> keylessTableIssue list" where
  "keyless_tables source databaseName [] issues = (None, issues)"
| "keyless_tables source databaseName (tableName # tables) issues =
     (case listStableKeyColumnsForPrecheck source databaseName tableName of
        Inl e \<Rightarrow> (Some (''stable key check for '' @ databaseName @ ''.'' @ tableName @ '': '' @ e), issues)
      | Inr keyColumns \<Rightarrow>
          keyless_tables source databaseName tables
            (if keyColumns = [] then issues @ [keyless_issue databaseName tableName] else issues))"

fun keyless_databases :: "shape_source \<Rightarrow> string list \<Rightarrow> keylessTableIssue list \<Rightarrow> string option \<times> keylessTableIssue list" where
  "keyless_databases source [] issues = (None, issues)"
| "keyless_databases source (databaseName # rest) issues =
     (case listBaseTableNamesForPrecheck source databaseName of
        Inl e \<Rightarrow> (Some e, issues)
      | Inr tables \<Rightarrow>
          (case keyless_tables source databaseName tables issues of
             (Some e, issues) \<Rightarrow> (Some e, issues)
           | (None, issues) \<Rightarrow> keyless_databases source rest issues))"

definition risk_notes :: "int \<Rightarrow> int \<Rightarrow> int \<Rightarrow> int \<Rightarrow> string list" where
  "risk_notes approx temporal json collation =
     (if approx > 0 then [''approximate numeric columns can hash or round differently across engines/clients''] else [])
     @ (if temporal > 0 then [''temporal columns depend on session time_zone rendering and canonicalization''] else [])
     @ (if json > 0 then [''JSON values may need semantic rather than byte-for-byte comparison''] else [])
     @ (if collation > 0 then [''text ordering and coercion can vary with collation families and clients''] else [])"

definition risk_issue :: "risk_row \<Rightarrow> representationRiskIssue" where
  "risk_issue row =
     (case row of (database, tableName, approx, temporal, json, collation) \<Rightarrow>
        \<lparr>rr_Database = database, rr_Table = tableName, rr_ApproximateNumericColumns = approx, rr_TemporalColumns = temporal,
         rr_JSONColumns = json, rr_CollationSensitiveColumns = collation, rr_Notes = risk_notes approx temporal json collation,
         rr_Proposal = ''Prefer canonicalized verify modes and keep representation-risk evidence for '' @ database @ ''.'' @ tableName
           @ '' before claiming semantic equivalence.''\<rparr>)"

definition queryRepresentationRiskIssues :: "shape_source \<Rightarrow> string list \<Rightarrow> string + representationRiskIssue list" where
  "queryRepresentationRiskIssues source databases =
     (case sp_risks source databases of
        QueryError e \<Rightarrow> Inl (''query representation-risk tables: '' @ e)
      | ScanError e \<Rightarrow> Inl e
      | RowsError e \<Rightarrow> Inl e
      | Rows rows \<Rightarrow> Inr (map risk_issue rows))"

definition keyless_findings :: "keylessTableIssue list \<Rightarrow> Finding list" where
  "keyless_findings issues =
     (if issues = [] then []
      else finding ''stable_key_required_tables_detected'' ''error''
             (''Detected '' @ show_nat (length issues) @ '' table(s) without a primary key or non-null unique key in selected scope.'')
             (''Add stable keys before v1 baseline migration or deterministic verify modes. Keyless tables are not supported ''
               @ ''for live baseline in v1.'')
           # map (\<lambda>i. finding ''stable_key_required_table'' ''error''
               (''Table '' @ kt_Database i @ ''.'' @ kt_Table i @ '' has no primary key or non-null unique key.'') (kt_Proposal i)) issues)"

definition risk_findings :: "representationRiskIssue list \<Rightarrow> Finding list" where
  "risk_findings issues =
     (if issues = [] then []
      else finding ''representation_sensitive_tables_detected'' ''warn''
             (''Detected '' @ show_nat (length issues) @ '' representation-sensitive table(s) that deserve canonicalized verify review.'')
             (''Use canonicalized verify modes and keep the resulting evidence before claiming semantic equivalence ''
               @ ''across environments.'')
           # map (\<lambda>i. finding ''representation_sensitive_table'' ''warn''
               (''Table '' @ rr_Database i @ ''.'' @ rr_Table i @ '' has representation-sensitive columns (approx_numeric=''
                 @ show_int (rr_ApproximateNumericColumns i) @ '' temporal='' @ show_int (rr_TemporalColumns i) @ '' json=''
                 @ show_int (rr_JSONColumns i) @ '' collation_sensitive='' @ show_int (rr_CollationSensitiveColumns i) @ '').'')
               (rr_Proposal i)) issues)"

definition buildDataShapeFindings :: "keylessTableIssue list \<Rightarrow> representationRiskIssue list \<Rightarrow> Finding list" where
  "buildDataShapeFindings keyless risks =
     keyless_findings keyless @ risk_findings risks
     @ (if keyless = [] \<and> risks = []
        then [finding ''data_shape_inventory_clean'' ''info''
                (''Data-shape validation did not reveal keyless baseline blockers or representation-sensitive verify hotspots ''
                  @ ''in selected scope.'')
                ''Keep the inventory artifact with the plan output as part of the v1 migration evidence set.'']
        else [])"

definition shape_report :: dataShapePrecheckReport where
  "shape_report =
     \<lparr>dp_Name = ''data-shape'', dp_Incompatible = False, dp_KeylessTableCount = 0, dp_RepresentationRiskCount = 0,
      dp_KeylessTables = [], dp_RepresentationRiskTables = [], dp_Findings = []\<rparr>"

definition runDataShapePrecheck ::
  "bool \<Rightarrow> shape_source \<Rightarrow> string list \<Rightarrow> string list \<Rightarrow> string option \<times> dataShapePrecheckReport" where
  "runDataShapePrecheck connected source includeDatabases excludeDatabases =
     (if \<not> connected then (Some ''source connection is required'', shape_report)
      else (case listSelectableDatabases (sp_schemata source) includeDatabases excludeDatabases of
              Inl e \<Rightarrow> (Some e, shape_report)
            | Inr databases \<Rightarrow>
                if databases = []
                then (None, shape_report\<lparr>dp_Findings :=
                        [finding ''data_shape_no_selected_databases'' ''info'' ''No user databases selected for data-shape validation.''
                           ''Use --databases to narrow scope or rerun without filters to inspect all user schemas.'']\<rparr>)
                else (case keyless_databases source databases [] of
                        (Some e, keyless) \<Rightarrow> (Some e, shape_report\<lparr>dp_KeylessTables := keyless\<rparr>)
                      | (None, keyless) \<Rightarrow>
                          (case queryRepresentationRiskIssues source databases of
                             Inl e \<Rightarrow> (Some e, shape_report\<lparr>dp_KeylessTables := keyless\<rparr>)
                           | Inr risks \<Rightarrow>
                               (None, shape_report\<lparr>dp_KeylessTables := keyless, dp_RepresentationRiskTables := risks,
                                        dp_KeylessTableCount := length keyless, dp_RepresentationRiskCount := length risks,
                                        dp_Findings := buildDataShapeFindings keyless risks,
                                        dp_Incompatible := keyless \<noteq> []\<rparr>)))))"

section \<open>Which tables it reports\<close>

lemma stable_key_as_in_copy:
  "listStableKeyColumnsForPrecheck source d t = listStableKeyColumns (sp_stats source d t) (sp_notNull source d t)"
proof -
  have "bind_result (bind_result r f) g = bind_result r (\<lambda>x. bind_result (f x) g)" for r :: "string + string list"
    and f :: "string list \<Rightarrow> string + string set" and g :: "string set \<Rightarrow> string + string list"
    by (cases r) simp_all
  then show ?thesis
    by (simp add: listStableKeyColumnsForPrecheck_def listStableKeyColumns_def listNotNullColumns_def)
qed

lemma keyless_tables_ok:
  "keyless_tables source d ts issues = (None, issues') \<Longrightarrow>
   issues' = issues @ map (keyless_issue d) (filter (\<lambda>t. listStableKeyColumnsForPrecheck source d t = Inr []) ts) \<and>
   (\<forall>t \<in> set ts. \<exists>keys. listStableKeyColumnsForPrecheck source d t = Inr keys)"
proof (induction ts arbitrary: issues)
  case (Cons t ts)
  then obtain keys where k: "listStableKeyColumnsForPrecheck source d t = Inr keys"
    and r: "keyless_tables source d ts (if keys = [] then issues @ [keyless_issue d t] else issues) = (None, issues')"
    by (auto split: sum.splits)
  show ?case using Cons.IH [OF r] k by simp
qed simp

lemma keyless_databases_ok:
  assumes "keyless_databases source ds issues = (None, issues')"
  shows "(\<forall>d \<in> set ds. sp_tables source d = Rows (answer_rows (sp_tables source d))) \<and>
    set issues' = set issues \<union> (\<Union>d \<in> set ds. keyless_issue d `
      {t \<in> set (answer_rows (sp_tables source d)). listStableKeyColumnsForPrecheck source d t = Inr []}) \<and>
    (\<forall>d \<in> set ds. \<forall>t \<in> set (answer_rows (sp_tables source d)). \<exists>keys. listStableKeyColumnsForPrecheck source d t = Inr keys)"
  using assms
proof (induction ds arbitrary: issues)
  case (Cons d ds)
  obtain ts issues1 where t: "sp_tables source d = Rows ts" "keyless_tables source d ts issues = (None, issues1)"
    "keyless_databases source ds issues1 = (None, issues')"
    using Cons.prems by (auto simp: listBaseTableNamesForPrecheck_def split: query_result.splits prod.splits option.splits)
  show ?case using Cons.IH [OF t(3)] keyless_tables_ok [OF t(2)] t(1) by auto
qed simp

section \<open>Properties\<close>

text \<open>
  Claim C13. When the precheck returns no error, then for every table of a selected database it has found a
  list of key columns, it reports the table exactly if this list is empty, it is incompatible
  exactly if it reports a table, and the baseline copy of a table, given the same answers, fails with the
  error incompatible_for_live_baseline if the table is reported and finds its key otherwise.
\<close>

theorem data_shape_precheck_agrees_with_copy:
  assumes "runDataShapePrecheck True source inc exc = (None, report)"
    and "sp_schemata source = Rows all" and "tw_database tw \<in> set (SelectDatabases all inc exc)"
    and "sp_tables source (tw_database tw) = Rows tables" and "tw_table tw \<in> set tables"
    and "te_stats env = sp_stats source (tw_database tw) (tw_table tw)"
    and "te_notNull env = sp_notNull source (tw_database tw) (tw_table tw)"
    and "te_pin env = None" and "te_isolation env = None" and "te_snapshot env = None"
    and "te_columns env = Rows columns" and "columns \<noteq> []" and "dc_Tables (cs_checkpoint st) (table_key tw) = None"
  shows "(dp_Incompatible report \<longleftrightarrow> dp_KeylessTables report \<noteq> []) \<and>
     (if keyless_issue (tw_database tw) (tw_table tw) \<in> set (dp_KeylessTables report)
      then copyOneTable env opts path tw st =
        Some (Some (CopyText (''incompatible_for_live_baseline: '' @ table_key tw
          @ '' has no primary key or non-null unique key; add a stable key before v1 baseline migration'')), st)
      else \<exists>keys. keys \<noteq> [] \<and> listStableKeyColumns (te_stats env) (te_notNull env) = Inr keys)"
proof -
  let ?d = "tw_database tw" and ?t = "tw_table tw"
  have sel: "SelectDatabases all inc exc \<noteq> []" using assms(3) by auto
  obtain keyless risks where k: "keyless_databases source (SelectDatabases all inc exc) [] = (None, keyless)"
    and r: "dp_KeylessTables report = keyless" "dp_Incompatible report \<longleftrightarrow> keyless \<noteq> []"
    using assms(1,2) sel
    by (auto simp: runDataShapePrecheck_def listSelectableDatabases_def rows_or_error_def split: prod.splits option.splits sum.splits)
  have "keyless_issue d t = keyless_issue d' t' \<longleftrightarrow> d = d' \<and> t = t'" for d t d' t' by (auto simp: keyless_issue_def)
  then have mem: "keyless_issue ?d ?t \<in> set keyless \<longleftrightarrow> listStableKeyColumnsForPrecheck source ?d ?t = Inr []"
    and "\<exists>keys. listStableKeyColumnsForPrecheck source ?d ?t = Inr keys"
    using keyless_databases_ok [OF k] assms(3,4,5) by (auto simp: image_iff)
  then obtain keys where keys: "listStableKeyColumns (te_stats env) (te_notNull env) = Inr keys"
    "keyless_issue ?d ?t \<in> set keyless \<longleftrightarrow> keys = []"
    using assms(6,7) by (auto simp: stable_key_as_in_copy)
  then show ?thesis
    using keys assms(8-13) r
    by (auto simp: copyOneTable_def Let_def listTableColumns_def rows_or_error_def emptyTableCheckpoint_def)
qed

definition example_shape_source :: shape_source where
  "example_shape_source =
     \<lparr>sp_schemata = Rows [''d''], sp_tables = (\<lambda>_. Rows [''a'', ''b'']),
      sp_stats = (\<lambda>_ t. Rows (if t = ''a'' then [(''PRIMARY'', 0, Some ''id'', 1)] else [(''i'', 1, Some ''id'', 1)])),
      sp_notNull = (\<lambda>_ _. Rows [''id'']), sp_risks = (\<lambda>_. Rows [])\<rparr>"

lemma example_shape_run:
  "\<exists>report. runDataShapePrecheck True example_shape_source [] [] = (None, report) \<and>
     dp_KeylessTables report = [keyless_issue ''d'' ''b'']"
proof -
  have sel: "SelectDatabases [''d''] [] [] = [''d'']" by code_simp
  have key: "listStableKeyColumnsForPrecheck example_shape_source ''d'' ''a'' = Inr [''id'']"
    "listStableKeyColumnsForPrecheck example_shape_source ''d'' ''b'' = Inr []"
    by (simp_all add: listStableKeyColumnsForPrecheck_def example_shape_source_def rows_or_error_def no_indexes_def)
  show ?thesis
    using sel key
    by (simp add: runDataShapePrecheck_def listSelectableDatabases_def listBaseTableNamesForPrecheck_def
        queryRepresentationRiskIssues_def example_shape_source_def rows_or_error_def shape_report_def)
qed

theorem data_shape_precheck_agrees_with_copy_witness:
  "copyOneTable ((example_table_env (\<lambda>_. None))\<lparr>te_stats := Rows [(''i'', 1, Some ''id'', 1)]\<rparr>) example_copy_options ''s/c''
     \<lparr>tw_database = ''d'', tw_table = ''b''\<rparr> empty_state =
   Some (Some (CopyText (''incompatible_for_live_baseline: d.b has no primary key or non-null unique key; ''
     @ ''add a stable key before v1 baseline migration'')), empty_state)"
proof -
  obtain report where r: "runDataShapePrecheck True example_shape_source [] [] = (None, report)"
    "dp_KeylessTables report = [keyless_issue ''d'' ''b'']"
    using example_shape_run by blast
  have sel: "''d'' \<in> set (SelectDatabases [''d''] [] [])" by code_simp
  show ?thesis
    using data_shape_precheck_agrees_with_copy [OF r(1), of "[''d'']" "\<lparr>tw_database = ''d'', tw_table = ''b''\<rparr>" "[''a'', ''b'']"
        "(example_table_env (\<lambda>_. None))\<lparr>te_stats := Rows [(''i'', 1, Some ''id'', 1)]\<rparr>" "[''id'']" empty_state example_copy_options "''s/c''"]
      sel r(2)
    by (simp add: example_shape_source_def example_table_env_def empty_state_def NewDataCheckpoint_def table_key_def)
qed

end
