(* ===== verification/Precheck_Identifier.thy ===== *)
theory Precheck_Identifier
  imports Precheck_Base Go_Regexp "HOL-Library.AList" "HOL-Library.Product_Lexorder"
begin

text \<open>
  The precheck of the portability of names (internal/commands/identifier_portability_precheck.go):
  names that are reserved words at the destination, names that differ in case only, names in mixed
  case, and views that parse differently under the other SQL mode. The answers of the servers are
  parameters. A set of words is a set; a map is the list of its entries.
\<close>

section \<open>Data\<close>

record reservedIdentifierIssue =
  ri_Database :: string
  ri_ObjectType :: string
  ri_ObjectName :: string
  ri_Identifier :: string
  ri_Reason :: string
  ri_DestinationOnly :: bool
  ri_Proposal :: string

record viewParserRiskIssue =
  vr_Database :: string
  vr_View :: string
  vr_Risk :: string
  vr_Proposal :: string

record caseCollisionIssue =
  cc_Database :: string
  cc_ObjectType :: string
  cc_FoldedName :: string
  cc_Objects :: "string list"
  cc_Proposal :: string

record mixedCaseIdentifierIssue =
  mx_Database :: string
  mx_ObjectType :: string
  mx_ObjectName :: string
  mx_Proposal :: string

record identifierPortabilityPrecheckReport =
  ip_Name :: string
  ip_Incompatible :: bool
  ip_SourceVersion :: string
  ip_DestVersion :: string
  ip_SourceSQLMode :: string
  ip_DestSQLMode :: string
  ip_SourceLowerCase :: "int option"
  ip_DestLowerCase :: "int option"
  ip_SourceReservedWordSource :: string
  ip_DestReservedWordSource :: string
  ip_ReservedIdentifiers :: "reservedIdentifierIssue list"
  ip_ViewParserRisks :: "viewParserRiskIssue list"
  ip_CaseCollisions :: "caseCollisionIssue list"
  ip_MixedCaseIdentifiers :: "mixedCaseIdentifierIssue list"
  ip_Findings :: "Finding list"

text \<open>
  The fields Known and TableNames of lower_case_table_names are one option here, and the counts of
  the report, which are the lengths of its lists, are left out.
\<close>

record inventoryObject =
  io_Database :: string
  io_ObjectType :: string
  io_ObjectName :: string

record inventoryColumn =
  ic_Database :: string
  ic_Table :: string
  ic_Column :: string

record viewDefinition =
  vd_Database :: string
  vd_View :: string
  vd_Create :: string

text \<open>The answer to a query for one value: an error, or the value, which can be NULL.\<close>

type_synonym 'a scalar = "string + 'a option"

record identifier_side =
  is_sqlMode :: "string scalar"
  is_lowerCaseInt :: "int scalar"
  is_lowerCaseText :: "string scalar"
  is_keywords :: "(string \<times> string option) query_result"

record identifier_source = identifier_side +
  is_schemata :: "string query_result"
  is_objects :: "string list \<Rightarrow> (string \<times> string \<times> string) query_result"
  is_columns :: "string list \<Rightarrow> inventoryColumn query_result"
  is_show :: "string \<Rightarrow> show_answer"

section \<open>Server settings\<close>

definition querySQLMode :: "string scalar \<Rightarrow> string + string" where
  "querySQLMode mode = bind_result mode (\<lambda>m. Inr (TrimSpace (case m of None \<Rightarrow> '''' | Some s \<Rightarrow> s)))"

definition sqlModeContains :: "string \<Rightarrow> string \<Rightarrow> bool" where
  "sqlModeContains sqlMode token = list_ex (\<lambda>mode. TrimSpace mode = token) (SplitByte (ToUpper sqlMode) CHR '','')"

text \<open>strconv.Atoi; the texts of its two errors do not matter to the callers and are one here.\<close>

definition atoi_setting :: "string \<Rightarrow> string + int" where
  "atoi_setting s =
     (let (neg, digits) = (case s of c # r \<Rightarrow> if c = CHR ''-'' then (True, r) else if c = CHR ''+'' then (False, r) else (False, s) | [] \<Rightarrow> (False, s));
          error = Inl (''strconv.Atoi: parsing '' @ go_quote s @ '': invalid syntax'')
      in if digits = [] \<or> \<not> list_all is_digit digits then error
         else let n = int (dec_value 0 digits); v = (if neg then - n else n)
              in if - (2 ^ 63) \<le> v \<and> v < 2 ^ 63 then Inr v else error)"

definition queryOptionalIntVariable :: "int scalar \<Rightarrow> string scalar \<Rightarrow> string + int" where
  "queryOptionalIntVariable asInt asText =
     (case asInt of
        Inr None \<Rightarrow> Inr 0
      | Inr (Some n) \<Rightarrow> Inr n
      | Inl _ \<Rightarrow>
          bind_result asText (\<lambda>t.
            (let v = TrimSpace (case t of None \<Rightarrow> '''' | Some s \<Rightarrow> s)
             in if v = '''' then Inr 0
                else if ToLower v \<in> {''off'', ''false''} then Inr 0
                else if ToLower v \<in> {''on'', ''true''} then Inr 1
                else atoi_setting v)))"

definition reservedWordEnabled :: "string \<Rightarrow> bool" where
  "reservedWordEnabled v = (ToLower (TrimSpace v) \<in> {''1'', ''y'', ''yes'', ''true''})"

definition watchlist :: "string list" where
  "watchlist =
     [''CUBE'', ''CUME_DIST'', ''DENSE_RANK'', ''EMPTY'', ''EXCEPT'', ''FIRST_VALUE'', ''FUNCTION'',
      ''GROUPS'', ''INTERSECT'', ''JSON_TABLE'', ''LAG'', ''LAST_VALUE'', ''LATERAL'', ''LEAD'',
      ''NTH_VALUE'', ''NTILE'', ''OF'', ''OVER'', ''PERCENT_RANK'', ''RANK'', ''RECURSIVE'',
      ''ROW_NUMBER'', ''SEQUENCE'', ''SYSTEM'', ''WINDOW'']"

definition fallbackReservedWords :: "Instance \<Rightarrow> string set" where
  "fallbackReservedWords i = set (watchlist @ (if in_Engine i = EngineMySQL \<and> in_Major i \<ge> 9 then [''LIBRARY''] else []))"

text \<open>The words, where they come from, and an error, which the caller only reports.\<close>

definition queryReservedWords ::
  "(string \<times> string option) query_result \<Rightarrow> Instance \<Rightarrow> string set \<times> string \<times> string option" where
  "queryReservedWords keywords i =
     (case keywords of
        ScanError e \<Rightarrow> ({}, '''', Some e)
      | RowsError e \<Rightarrow> ({}, '''', Some e)
      | Rows rows \<Rightarrow>
          (let words = set (map (\<lambda>(word, _). ToUpper (TrimSpace word))
                 (filter (\<lambda>(_, reserved). reservedWordEnabled (case reserved of None \<Rightarrow> '''' | Some r \<Rightarrow> r)) rows))
           in if words \<noteq> {} then (words, ''information_schema.KEYWORDS'', None)
              else (fallbackReservedWords i, ''built-in watchlist'', Some ''reserved-word inventory unavailable''))
      | QueryError e \<Rightarrow> (fallbackReservedWords i, ''built-in watchlist'', Some e))"

section \<open>The inventory\<close>

definition inventory_object :: "string \<times> string \<times> string \<Rightarrow> inventoryObject" where
  "inventory_object row =
     (case row of (databaseName, objectName, tableType) \<Rightarrow>
        \<lparr>io_Database = databaseName, io_ObjectType = (if EqualFold (TrimSpace tableType) ''VIEW'' then ''view'' else ''table''),
         io_ObjectName = objectName\<rparr>)"

definition queryInventoryObjects :: "identifier_source \<Rightarrow> string list \<Rightarrow> string + inventoryObject list" where
  "queryInventoryObjects source databases =
     (case is_objects source databases of
        QueryError e \<Rightarrow> Inl (''query schema objects for identifier portability: '' @ e)
      | ScanError e \<Rightarrow> Inl e
      | RowsError e \<Rightarrow> Inl e
      | Rows rows \<Rightarrow>
          Inr (map (\<lambda>d. \<lparr>io_Database = d, io_ObjectType = ''database'', io_ObjectName = d\<rparr>) databases @ map inventory_object rows))"

definition queryInventoryColumns :: "identifier_source \<Rightarrow> string list \<Rightarrow> string + inventoryColumn list" where
  "queryInventoryColumns source databases =
     (case is_columns source databases of
        QueryError e \<Rightarrow> Inl (''query schema columns for identifier portability: '' @ e)
      | ScanError e \<Rightarrow> Inl e
      | RowsError e \<Rightarrow> Inl e
      | Rows rows \<Rightarrow> Inr rows)"

definition fetchShowCreateStatement :: "show_answer \<Rightarrow> string + string" where
  "fetchShowCreateStatement answer =
     (case answer of
        ShowError e \<Rightarrow> Inl e
      | ShowRow n row \<Rightarrow>
          if n < 2 then Inl ''unexpected SHOW CREATE result format''
          else (case row of
                  None \<Rightarrow> Inl ''sql: no rows in result set''
                | Some (Inl e) \<Rightarrow> Inl e
                | Some (Inr cells) \<Rightarrow> Inr (cells ! 1)))"

fun view_definitions :: "identifier_source \<Rightarrow> inventoryObject list \<Rightarrow> string + viewDefinition list" where
  "view_definitions source [] = Inr []"
| "view_definitions source (object # objects) =
     (if io_ObjectType object \<noteq> ''view'' then view_definitions source objects
      else bind_result (fetchShowCreateStatement (is_show source
             (''SHOW CREATE VIEW '' @ quoteIdentifier (io_Database object) @ ''.'' @ quoteIdentifier (io_ObjectName object)))) (\<lambda>stmt.
           bind_result (view_definitions source objects) (\<lambda>rest.
             Inr (\<lparr>vd_Database = io_Database object, vd_View = io_ObjectName object, vd_Create = stmt\<rparr> # rest))))"

definition queryViewDefinitions :: "identifier_source \<Rightarrow> string list \<Rightarrow> string + viewDefinition list" where
  "queryViewDefinitions source databases =
     bind_result (queryInventoryObjects source databases) (view_definitions source)"

definition qualifyObjectName :: "string \<Rightarrow> string \<Rightarrow> string" where
  "qualifyObjectName databaseName objectName =
     (if databaseName = '''' \<or> databaseName = objectName then objectName else databaseName @ ''.'' @ objectName)"

section \<open>Reserved words\<close>

definition reservedIdentifierIssueForToken ::
  "string \<Rightarrow> string \<Rightarrow> string \<Rightarrow> string \<Rightarrow> string set \<Rightarrow> string set \<Rightarrow> reservedIdentifierIssue option" where
  "reservedIdentifierIssueForToken databaseName objectType objectName identifier sourceReservedWords destReservedWords =
     (let token = ToUpper (TrimSpace identifier)
      in if token = '''' then None
         else if token \<notin> destReservedWords then None
         else let sourceReserved = token \<in> sourceReservedWords in
           Some \<lparr>ri_Database = databaseName, ri_ObjectType = objectType, ri_ObjectName = objectName, ri_Identifier = identifier,
             ri_Reason = (if sourceReserved
               then ''Identifier '' @ go_quote identifier @ '' is reserved on both the source and destination parser inventories.''
               else ''Identifier '' @ go_quote identifier
                 @ '' becomes reserved on the destination parser even though it is not reserved on the source inventory.''),
             ri_DestinationOnly = (\<not> sourceReserved),
             ri_Proposal = ''Rename '' @ objectType @ '' '' @ qualifyObjectName databaseName objectName
               @ '' or keep every reference permanently quoted before cutover; do not rely on destination parser compatibility for ''
               @ go_quote identifier @ ''.''\<rparr>)"

definition detectReservedIdentifierIssues ::
  "inventoryObject list \<Rightarrow> inventoryColumn list \<Rightarrow> string set \<Rightarrow> string set \<Rightarrow> reservedIdentifierIssue list" where
  "detectReservedIdentifierIssues objects columns sourceReservedWords destReservedWords =
     sort_key (\<lambda>i. (ri_Database i, ri_ObjectType i, ri_ObjectName i, ri_Identifier i))
       (List.map_filter (\<lambda>object. reservedIdentifierIssueForToken (io_Database object) (io_ObjectType object) (io_ObjectName object)
            (io_ObjectName object) sourceReservedWords destReservedWords) objects
        @ List.map_filter (\<lambda>column. reservedIdentifierIssueForToken (ic_Database column) ''column'' (ic_Table column)
            (ic_Column column) sourceReservedWords destReservedWords) columns)"

section \<open>Case\<close>

fun group_names :: "(string \<times> string) list \<Rightarrow> (string \<times> string list) list \<Rightarrow> (string \<times> string list) list" where
  "group_names [] groups = groups"
| "group_names ((key, name) # rest) groups =
     group_names rest (AList.update key ((case map_of groups key of None \<Rightarrow> [] | Some names \<Rightarrow> names) @ [name]) groups)"

definition database_collision :: "string \<times> string list \<Rightarrow> caseCollisionIssue" where
  "database_collision grp =
     (let names = sort (snd grp)
      in \<lparr>cc_Database = '''', cc_ObjectType = ''database'', cc_FoldedName = fst grp, cc_Objects = names,
          cc_Proposal = ''Rename databases '' @ Join names '', ''
            @ '' so their folded names stop colliding before moving across lower_case_table_names boundaries.''\<rparr>)"

definition relation_key :: "string \<Rightarrow> string \<Rightarrow> string" where
  "relation_key databaseName objectName = databaseName @ [CHR 0x00] @ ToLower objectName"

definition relation_collision :: "string \<times> string list \<Rightarrow> caseCollisionIssue" where
  "relation_collision grp =
     (let names = sort (snd grp); parts = SplitN2 (fst grp) CHR 0x00
      in \<lparr>cc_Database = parts ! 0, cc_ObjectType = ''table/view'', cc_FoldedName = parts ! 1, cc_Objects = names,
          cc_Proposal = ''Rename objects '' @ Join names '', '' @ '' in database '' @ parts ! 0
            @ '' so case-folding does not merge them on the destination.''\<rparr>)"

definition colliding :: "(string \<times> string list) list \<Rightarrow> (string \<times> string list) list" where
  "colliding groups = filter (\<lambda>(_, names). 2 \<le> length names) groups"

definition detectCaseCollisionIssues :: "string list \<Rightarrow> inventoryObject list \<Rightarrow> caseCollisionIssue list" where
  "detectCaseCollisionIssues databases objects =
     (let databaseGroups = group_names (map (\<lambda>d. (ToLower d, d)) databases) [];
          relationGroups = group_names (map (\<lambda>object. (relation_key (io_Database object) (io_ObjectName object), io_ObjectName object))
            (filter (\<lambda>object. io_ObjectType object \<noteq> ''database'') objects)) []
      in sort_key (\<lambda>i. (cc_Database i, cc_ObjectType i, cc_FoldedName i))
           (map database_collision (colliding databaseGroups) @ map relation_collision (colliding relationGroups)))"

definition hasMixedCase :: "string \<Rightarrow> bool" where
  "hasMixedCase name = (list_ex (\<lambda>c. lower_char c \<noteq> c) name \<and> list_ex (\<lambda>c. upper_char c \<noteq> c) name)"

text \<open>The settings of the servers do not matter: each of the three last branches of the code returns the same issues.\<close>

definition detectMixedCaseIdentifierIssues :: "string list \<Rightarrow> inventoryObject list \<Rightarrow> mixedCaseIdentifierIssue list" where
  "detectMixedCaseIdentifierIssues databases objects =
     map (\<lambda>d. \<lparr>mx_Database = '''', mx_ObjectType = ''database'', mx_ObjectName = d,
            mx_Proposal = ''Normalize database name '' @ d
              @ '' to a single case policy before moving across lower_case_table_names-sensitive environments.''\<rparr>)
       (filter hasMixedCase databases)
     @ map (\<lambda>object. \<lparr>mx_Database = io_Database object, mx_ObjectType = io_ObjectType object, mx_ObjectName = io_ObjectName object,
              mx_Proposal = ''Normalize '' @ io_ObjectType object @ '' '' @ qualifyObjectName (io_Database object) (io_ObjectName object)
                @ '' to a single-case naming policy before moving it across lower_case_table_names-sensitive environments.''\<rparr>)
         (filter (\<lambda>object. io_ObjectType object \<noteq> ''database'' \<and> hasMixedCase (io_ObjectName object)) objects)"

section \<open>Views\<close>

text \<open>The scanner that removes comments and the contents of literals; each case is one pass of its loop.\<close>

record strip_state =
  sp_single :: bool
  sp_double :: bool
  sp_line :: bool
  sp_block :: bool

definition strip_start :: strip_state where
  "strip_start = \<lparr>sp_single = False, sp_double = False, sp_line = False, sp_block = False\<rparr>"

function strip_from :: "strip_state \<Rightarrow> string \<Rightarrow> string" where
  "strip_from st [] = []"
| "strip_from st (c # s) =
     (if sp_line st
      then (if c = CHR 0x0A then c # strip_from (st\<lparr>sp_line := False\<rparr>) s else strip_from st s)
      else if sp_block st
      then (if c = CHR ''*'' \<and> HasPrefix s ''/'' then strip_from (st\<lparr>sp_block := False\<rparr>) (drop 1 s) else strip_from st s)
      else if \<not> sp_single st \<and> \<not> sp_double st \<and> c = CHR ''#'' then strip_from (st\<lparr>sp_line := True\<rparr>) s
      else if \<not> sp_single st \<and> \<not> sp_double st \<and> c = CHR ''-'' \<and>
              (HasPrefix s ''- '' \<or> HasPrefix s [CHR ''-'', CHR 0x09] \<or> HasPrefix s [CHR ''-'', CHR 0x0A])
      then strip_from (st\<lparr>sp_line := True\<rparr>) (drop 1 s)
      else if \<not> sp_single st \<and> \<not> sp_double st \<and> c = CHR ''/'' \<and> HasPrefix s ''*''
      then strip_from (st\<lparr>sp_block := True\<rparr>) (drop 1 s)
      else if c = CHR 0x27 \<and> \<not> sp_double st then strip_from (st\<lparr>sp_single := \<not> sp_single st\<rparr>) s
      else if c = CHR 0x22 \<and> \<not> sp_single st then c # strip_from (st\<lparr>sp_double := \<not> sp_double st\<rparr>) s
      else if sp_single st \<or> sp_double st then strip_from st s
      else c # strip_from st s)"
  by pat_completeness auto
termination by (relation "measure (\<lambda>(st, s). length s)") auto

definition stripSQLCommentsAndStrings :: "string \<Rightarrow> string" where
  "stripSQLCommentsAndStrings statement = (if TrimSpace statement = '''' then statement else strip_from strip_start statement)"

definition view_risk :: "viewDefinition \<Rightarrow> string \<Rightarrow> string \<Rightarrow> viewParserRiskIssue" where
  "view_risk view risk advice =
     \<lparr>vr_Database = vd_Database view, vr_View = vd_View view, vr_Risk = risk,
      vr_Proposal = ''Rewrite view '' @ vd_Database view @ ''.'' @ vd_View view @ advice\<rparr>"

definition view_risks :: "bool \<Rightarrow> bool \<Rightarrow> bool \<Rightarrow> viewDefinition \<Rightarrow> viewParserRiskIssue list" where
  "view_risks ansiDiff pipesDiff backslashDiff view =
     (let sanitized = stripSQLCommentsAndStrings (vd_Create view)
      in (if ansiDiff \<and> Contains sanitized [CHR 0x22]
          then [view_risk view
                  ''ANSI_QUOTES differs between source and destination while the view definition still contains double quotes.''
                  '' so it does not depend on ANSI_QUOTES behavior before cutover.'']
          else [])
       @ (if pipesDiff \<and> Contains sanitized ''||''
          then [view_risk view
                  ''PIPES_AS_CONCAT differs between source and destination while the view definition uses ||.''
                  '' to use CONCAT() or align SQL mode explicitly before cutover.'']
          else [])
       @ (if backslashDiff \<and> Contains sanitized [CHR 0x5C, CHR 0x5C]
          then [view_risk view
                  ''NO_BACKSLASH_ESCAPES differs between source and destination while the view definition still contains backslashes.''
                  '' so it does not depend on backslash escape parsing before cutover.'']
          else []))"

definition mode_differs :: "string \<Rightarrow> string \<Rightarrow> string \<Rightarrow> bool" where
  "mode_differs sourceSQLMode destSQLMode token = (sqlModeContains sourceSQLMode token \<noteq> sqlModeContains destSQLMode token)"

definition detectViewParserRiskIssues :: "viewDefinition list \<Rightarrow> string \<Rightarrow> string \<Rightarrow> viewParserRiskIssue list" where
  "detectViewParserRiskIssues views sourceSQLMode destSQLMode =
     (if TrimSpace sourceSQLMode = '''' \<or> TrimSpace destSQLMode = '''' then []
      else sort_key (\<lambda>i. (vr_Database i, vr_View i, vr_Risk i))
             (concat (map (view_risks (mode_differs sourceSQLMode destSQLMode ''ANSI_QUOTES'')
                                      (mode_differs sourceSQLMode destSQLMode ''PIPES_AS_CONCAT'')
                                      (mode_differs sourceSQLMode destSQLMode ''NO_BACKSLASH_ESCAPES'')) views)))"

section \<open>Findings\<close>

definition describeLowerCaseInventory :: "int option \<Rightarrow> string" where
  "describeLowerCaseInventory v = (case v of None \<Rightarrow> ''unknown'' | Some n \<Rightarrow> show_int n)"

definition titleLabel :: "string \<Rightarrow> string" where
  "titleLabel v = (case TrimSpace v of [] \<Rightarrow> [] | c # s \<Rightarrow> upper_char c # s)"

definition lower_case_findings :: "int option \<Rightarrow> int option \<Rightarrow> Finding list" where
  "lower_case_findings source dest =
     (if source \<noteq> None \<or> dest \<noteq> None
      then [finding ''lower_case_table_names_inventory_recorded'' ''info''
              (''Recorded lower_case_table_names inventory: source='' @ describeLowerCaseInventory source @ '' destination=''
                @ describeLowerCaseInventory dest @ ''.'')
              (''Keep this evidence with the migration report so case-portability decisions are tied to real server settings, ''
                @ ''not assumptions.'')]
      else [])
     @ (case (source, dest) of
          (Some s, Some d) \<Rightarrow>
            if s \<noteq> d
            then [finding ''lower_case_table_names_mismatch'' ''error''
                    (''Source and destination lower_case_table_names differ (source='' @ show_int s @ '' destination='' @ show_int d @ '').'')
                    (''Do not cut over mixed-case schemas across this boundary until identifiers are normalized and case-collision ''
                      @ ''evidence is clean.'')]
            else []
        | _ \<Rightarrow> [])"

definition collision_findings :: "caseCollisionIssue list \<Rightarrow> Finding list" where
  "collision_findings issues =
     (if issues = [] then []
      else finding ''case_fold_collisions_detected'' ''error''
             (''Detected '' @ show_nat (length issues) @ '' identifier collision group(s) after case folding.'')
             ''Rename the colliding databases or tables/views before any lower_case_table_names-sensitive migration lane.''
           # map (\<lambda>i. finding ''case_fold_collision'' ''error''
               (titleLabel (cc_ObjectType i) @ '' folded name '' @ go_quote (cc_FoldedName i) @ '' collides across objects ''
                 @ Join (cc_Objects i) '', '' @ ''.'') (cc_Proposal i)) issues)"

definition mixed_findings :: "bool \<Rightarrow> mixedCaseIdentifierIssue list \<Rightarrow> Finding list" where
  "mixed_findings folds issues =
     (let severity = (if folds then ''error'' else ''warn'')
      in if issues = [] then []
         else finding ''mixed_case_identifiers_detected'' severity
                (''Detected '' @ show_nat (length issues) @ '' mixed-case database/table/view name(s) in selected scope.'')
                ''Normalize identifiers to a single case policy before migrating across case-sensitive portability boundaries.''
              # map (\<lambda>i. finding ''mixed_case_identifier'' severity
                  (''Mixed-case '' @ mx_ObjectType i @ '' '' @ qualifyObjectName (mx_Database i) (mx_ObjectName i)
                    @ '' requires case-portability review.'') (mx_Proposal i)) issues)"

definition reserved_findings :: "reservedIdentifierIssue list \<Rightarrow> Finding list" where
  "reserved_findings issues =
     (let destinationOnlyCount = length (filter ri_DestinationOnly issues)
      in if issues = [] then []
         else (if destinationOnlyCount > 0
               then finding ''destination_reserved_identifiers_detected'' ''error''
                      (''Detected '' @ show_nat destinationOnlyCount @ '' identifier(s) that become newly reserved on the destination parser.'')
                      (''Rename or permanently quote the reported identifiers before cutover; do not assume destination parser ''
                        @ ''compatibility.'')
               else finding ''destination_reserved_identifiers_warn_only'' ''warn''
                      (''Detected '' @ show_nat (length issues) @ '' identifier(s) that collide with the destination reserved-word set ''
                        @ ''but are already reserved on the source inventory.'')
                      (''Keep those identifiers quoted consistently, and prefer renaming them if application SQL still references ''
                        @ ''them unquoted.''))
              # map (\<lambda>i. finding
                  (if ri_DestinationOnly i then ''destination_reserved_identifier'' else ''destination_reserved_identifier_warn_only'')
                  (if ri_DestinationOnly i then ''error'' else ''warn'')
                  (titleLabel (ri_ObjectType i) @ '' '' @ qualifyObjectName (ri_Database i) (ri_ObjectName i) @ '' uses identifier ''
                    @ go_quote (ri_Identifier i) @ '' that collides with the destination reserved-word set.'') (ri_Proposal i)) issues)"

definition parser_findings :: "viewParserRiskIssue list \<Rightarrow> Finding list" where
  "parser_findings issues =
     (if issues = [] then []
      else finding ''view_parser_drift_detected'' ''error''
             (''Detected '' @ show_nat (length issues) @ '' parser-drift risk(s) in selected view definitions.'')
             ''Rewrite parser-sensitive views or align SQL mode semantics before migrate/replicate apply.''
           # map (\<lambda>i. finding ''view_parser_drift_risk'' ''error''
               (''View '' @ vr_Database i @ ''.'' @ vr_View i @ '' has parser-drift risk: '' @ vr_Risk i) (vr_Proposal i)) issues)"

definition folds_names :: "int option \<Rightarrow> bool" where
  "folds_names v = (case v of None \<Rightarrow> False | Some n \<Rightarrow> n \<noteq> 0)"

definition buildIdentifierPortabilityFindings :: "identifierPortabilityPrecheckReport \<Rightarrow> Finding list" where
  "buildIdentifierPortabilityFindings report =
     lower_case_findings (ip_SourceLowerCase report) (ip_DestLowerCase report)
     @ collision_findings (ip_CaseCollisions report)
     @ mixed_findings (folds_names (ip_SourceLowerCase report) \<or> folds_names (ip_DestLowerCase report)) (ip_MixedCaseIdentifiers report)
     @ reserved_findings (ip_ReservedIdentifiers report)
     @ parser_findings (ip_ViewParserRisks report)
     @ (if ip_ReservedIdentifiers report = [] \<and> ip_ViewParserRisks report = [] \<and> ip_CaseCollisions report = [] \<and>
           ip_MixedCaseIdentifiers report = []
        then [finding ''identifier_portability_inventory_clean'' ''info''
                (''Identifier portability inventory did not reveal reserved-word drift, parser-drift risks, or lower_case_table_names ''
                  @ ''conflicts in selected scope.'')
                (''Keep the inventory artifact anyway. Identifier portability evidence should travel with the cutover decision.'')]
        else [])"

section \<open>The precheck\<close>

text \<open>Each server setting that cannot be read gives a warning.\<close>

definition setting_warning :: "string + 'a \<Rightarrow> string \<Rightarrow> string \<Rightarrow> string \<Rightarrow> Finding list" where
  "setting_warning r code message proposal =
     (case r of Inl e \<Rightarrow> [finding code ''warn'' (message @ e @ ''.'') proposal] | Inr _ \<Rightarrow> [])"

definition known_setting :: "string + int \<Rightarrow> int option" where
  "known_setting r = (case r of Inl _ \<Rightarrow> None | Inr n \<Rightarrow> Some n)"

definition word_warning :: "string option \<Rightarrow> string \<Rightarrow> string \<Rightarrow> Finding list" where
  "word_warning err code side =
     (case err of
        None \<Rightarrow> []
      | Some e \<Rightarrow> [finding code ''warn'' (''Fell back to built-in '' @ side @ '' reserved-word watchlist: '' @ e @ ''.'')
          ''Grant access to INFORMATION_SCHEMA.KEYWORDS or validate reserved-word drift manually for exact coverage.''])"

definition setting_findings :: "identifier_source \<Rightarrow> identifier_side \<Rightarrow> Instance \<Rightarrow> Instance \<Rightarrow> Finding list" where
  "setting_findings source dest sourceInstance destInstance =
     setting_warning (querySQLMode (is_sqlMode source)) ''identifier_portability_source_sql_mode_unavailable''
       ''Unable to read source sql_mode during identifier portability precheck: ''
       ''Review source SQL mode manually before trusting parser portability for views.''
     @ setting_warning (querySQLMode (is_sqlMode dest)) ''identifier_portability_dest_sql_mode_unavailable''
       ''Unable to read destination sql_mode during identifier portability precheck: ''
       ''Review destination SQL mode manually before trusting parser portability for views.''
     @ setting_warning (queryOptionalIntVariable (is_lowerCaseInt source) (is_lowerCaseText source))
       ''source_lower_case_table_names_unavailable'' ''Unable to read source @@lower_case_table_names: ''
       ''Record source lower_case_table_names manually before claiming name portability.''
     @ setting_warning (queryOptionalIntVariable (is_lowerCaseInt dest) (is_lowerCaseText dest))
       ''dest_lower_case_table_names_unavailable'' ''Unable to read destination @@lower_case_table_names: ''
       ''Record destination lower_case_table_names manually before claiming name portability.''
     @ word_warning (snd (snd (queryReservedWords (is_keywords source) sourceInstance))) ''source_reserved_word_inventory_fallback'' ''source''
     @ word_warning (snd (snd (queryReservedWords (is_keywords dest) destInstance))) ''dest_reserved_word_inventory_fallback'' ''destination''"

definition identifier_report :: "Instance \<Rightarrow> Instance \<Rightarrow> identifierPortabilityPrecheckReport" where
  "identifier_report sourceInstance destInstance =
     \<lparr>ip_Name = ''identifier-portability'', ip_Incompatible = False, ip_SourceVersion = in_RawVersion sourceInstance,
      ip_DestVersion = in_RawVersion destInstance, ip_SourceSQLMode = '''', ip_DestSQLMode = '''', ip_SourceLowerCase = None,
      ip_DestLowerCase = None, ip_SourceReservedWordSource = '''', ip_DestReservedWordSource = '''', ip_ReservedIdentifiers = [],
      ip_ViewParserRisks = [], ip_CaseCollisions = [], ip_MixedCaseIdentifiers = [], ip_Findings = []\<rparr>"

definition settings_report ::
  "identifier_source \<Rightarrow> identifier_side \<Rightarrow> Instance \<Rightarrow> Instance \<Rightarrow> identifierPortabilityPrecheckReport" where
  "settings_report source dest sourceInstance destInstance =
     (identifier_report sourceInstance destInstance)
       \<lparr>ip_SourceSQLMode := (case querySQLMode (is_sqlMode source) of Inl _ \<Rightarrow> '''' | Inr m \<Rightarrow> m),
        ip_DestSQLMode := (case querySQLMode (is_sqlMode dest) of Inl _ \<Rightarrow> '''' | Inr m \<Rightarrow> m),
        ip_SourceLowerCase := known_setting (queryOptionalIntVariable (is_lowerCaseInt source) (is_lowerCaseText source)),
        ip_DestLowerCase := known_setting (queryOptionalIntVariable (is_lowerCaseInt dest) (is_lowerCaseText dest)),
        ip_SourceReservedWordSource := fst (snd (queryReservedWords (is_keywords source) sourceInstance)),
        ip_DestReservedWordSource := fst (snd (queryReservedWords (is_keywords dest) destInstance)),
        ip_Findings := setting_findings source dest sourceInstance destInstance\<rparr>"

definition inventory_report ::
  "identifier_source \<Rightarrow> identifier_side \<Rightarrow> Instance \<Rightarrow> Instance \<Rightarrow> string list \<Rightarrow> inventoryObject list \<Rightarrow> inventoryColumn list
     \<Rightarrow> viewDefinition list \<Rightarrow> identifierPortabilityPrecheckReport" where
  "inventory_report source dest sourceInstance destInstance databases objects columns views =
     (let report = settings_report source dest sourceInstance destInstance;
          report = report
            \<lparr>ip_ReservedIdentifiers := detectReservedIdentifierIssues objects columns
               (fst (queryReservedWords (is_keywords source) sourceInstance)) (fst (queryReservedWords (is_keywords dest) destInstance)),
             ip_CaseCollisions := detectCaseCollisionIssues databases objects,
             ip_MixedCaseIdentifiers := detectMixedCaseIdentifierIssues databases objects,
             ip_ViewParserRisks := detectViewParserRiskIssues views (ip_SourceSQLMode report) (ip_DestSQLMode report)\<rparr>;
          findings = ip_Findings report @ buildIdentifierPortabilityFindings report
      in report\<lparr>ip_Findings := findings, ip_Incompatible := has_error findings\<rparr>)"

definition runIdentifierPortabilityPrecheck ::
  "bool \<Rightarrow> identifier_source \<Rightarrow> identifier_side \<Rightarrow> Instance \<Rightarrow> Instance \<Rightarrow> string list \<Rightarrow> string list
     \<Rightarrow> string option \<times> identifierPortabilityPrecheckReport" where
  "runIdentifierPortabilityPrecheck connected source dest sourceInstance destInstance includeDatabases excludeDatabases =
     (let report = identifier_report sourceInstance destInstance
      in if \<not> connected then (Some ''source and destination connections are required'', report)
         else (case listSelectableDatabases (is_schemata source) includeDatabases excludeDatabases of
                 Inl e \<Rightarrow> (Some e, report)
               | Inr databases \<Rightarrow>
                   if databases = []
                   then (None, report\<lparr>ip_Findings :=
                           [finding ''identifier_portability_no_selected_databases'' ''info''
                              ''No user databases selected for identifier portability inventory.''
                              ''Use --databases to narrow scope or rerun without filters to inspect all user schemas.'']\<rparr>)
                   else (let report = settings_report source dest sourceInstance destInstance
                         in case queryInventoryObjects source databases of
                              Inl e \<Rightarrow> (Some e, report)
                            | Inr objects \<Rightarrow>
                                (case queryInventoryColumns source databases of
                                   Inl e \<Rightarrow> (Some e, report)
                                 | Inr columns \<Rightarrow>
                                     (case queryViewDefinitions source databases of
                                        Inl e \<Rightarrow> (Some e, report)
                                      | Inr views \<Rightarrow>
                                          (None, inventory_report source dest sourceInstance destInstance databases objects columns views))))))"

end
