(* ===== verification/Precheck_Identifier_Check.thy ===== *)
theory Precheck_Identifier_Check
  imports Precheck_Identifier "HOL-Library.Multiset"
begin

text \<open>
  What the precheck of names decides (internal/commands/identifier_portability_precheck.go): when it
  refuses a migration, and two cases in which it finds nothing.
\<close>

section \<open>Groups\<close>

definition names_of :: "(string \<times> string) list \<Rightarrow> string \<Rightarrow> string list" where
  "names_of pairs key = map snd (filter (\<lambda>(k, _). k = key) pairs)"

lemma names_of_Cons: "names_of ((k, n) # pairs) key = (if k = key then n # names_of pairs key else names_of pairs key)"
  by (simp add: names_of_def)

lemma map_of_group_names:
  "map_of (group_names pairs groups) key =
     (if names_of pairs key = [] then map_of groups key
      else Some ((case map_of groups key of None \<Rightarrow> [] | Some names \<Rightarrow> names) @ names_of pairs key))"
proof (induction pairs groups rule: group_names.induct)
  case (2 k n rest groups)
  then show ?case by (cases "k = key") (auto simp: names_of_Cons update_conv' split: option.split)
qed (simp add: names_of_def)

lemma keys_group_names: "distinct (map fst groups) \<Longrightarrow> distinct (map fst (group_names pairs groups))"
  by (induction pairs groups rule: group_names.induct) (simp_all add: distinct_update)

lemma names_of_Nil: "names_of pairs key = [] \<longleftrightarrow> key \<notin> fst ` set pairs"
  by (induction pairs) (auto simp: names_of_def)

lemma group_names_entries:
  "set (group_names pairs []) = {(key, names_of pairs key) |key. key \<in> fst ` set pairs}"
proof -
  have d: "distinct (map fst (group_names pairs []))" by (rule keys_group_names) simp
  have "(key, names) \<in> set (group_names pairs []) \<longleftrightarrow> map_of (group_names pairs []) key = Some names" for key names
    using d by simp
  then have "(key, names) \<in> set (group_names pairs []) \<longleftrightarrow> key \<in> fst ` set pairs \<and> names = names_of pairs key" for key names
    by (auto simp: map_of_group_names names_of_Nil)
  then show ?thesis by (auto simp del: image_iff)
qed

lemma names_of_twice: "(\<exists>key. 2 \<le> length (names_of pairs key)) \<longleftrightarrow> \<not> distinct (map fst pairs)"
proof (induction pairs)
  case (Cons p pairs)
  obtain k n where p: "p = (k, n)" by (cases p)
  have "(\<exists>key. 2 \<le> length (names_of (p # pairs) key)) \<longleftrightarrow>
      names_of pairs k \<noteq> [] \<or> (\<exists>key. 2 \<le> length (names_of pairs key))"
  proof
    assume "\<exists>key. 2 \<le> length (names_of (p # pairs) key)"
    then obtain key where "2 \<le> length (names_of (p # pairs) key)" by blast
    then show "names_of pairs k \<noteq> [] \<or> (\<exists>key. 2 \<le> length (names_of pairs key))"
      by (cases "key = k") (auto simp: names_of_def p)
  next
    assume "names_of pairs k \<noteq> [] \<or> (\<exists>key. 2 \<le> length (names_of pairs key))"
    then show "\<exists>key. 2 \<le> length (names_of (p # pairs) key)"
    proof
      assume "names_of pairs k \<noteq> []"
      then have "2 \<le> length (names_of (p # pairs) k)" by (cases "names_of pairs k") (simp_all add: names_of_def p)
      then show ?thesis by blast
    next
      assume "\<exists>key. 2 \<le> length (names_of pairs key)"
      then obtain key where "2 \<le> length (names_of pairs key)" by blast
      then have "2 \<le> length (names_of (p # pairs) key)" by (simp add: names_of_def p)
      then show ?thesis by blast
    qed
  qed
  also have "names_of pairs k \<noteq> [] \<longleftrightarrow> k \<in> fst ` set pairs" by (simp add: names_of_Nil)
  finally show ?case using Cons by (auto simp: p)
qed (simp add: names_of_def)

lemma colliding_Nil: "colliding (group_names pairs []) = [] \<longleftrightarrow> distinct (map fst pairs)"
proof -
  have "colliding (group_names pairs []) = [] \<longleftrightarrow> \<not> (\<exists>key. key \<in> fst ` set pairs \<and> 2 \<le> length (names_of pairs key))"
    by (auto simp: colliding_def filter_empty_conv group_names_entries)
  also have "\<dots> \<longleftrightarrow> \<not> (\<exists>key. 2 \<le> length (names_of pairs key))"
    by (metis names_of_Nil list.size(3) not_numeral_le_zero)
  finally show ?thesis by (simp add: names_of_twice)
qed

section \<open>When it refuses\<close>

text \<open>Tables and views of the inventory.\<close>

definition relations :: "inventoryObject list \<Rightarrow> inventoryObject list" where
  "relations objects = filter (\<lambda>object. io_ObjectType object \<noteq> ''database'') objects"

lemma case_collisions_Nil:
  "detectCaseCollisionIssues databases objects = [] \<longleftrightarrow>
   distinct (map ToLower databases) \<and> distinct (map (\<lambda>obj. relation_key (io_Database obj) (io_ObjectName obj)) (relations objects))"
  by (simp add: detectCaseCollisionIssues_def Let_def sort_key_Nil colliding_Nil relations_def comp_def)

definition newly_reserved :: "string set \<Rightarrow> string set \<Rightarrow> string \<Rightarrow> bool" where
  "newly_reserved sourceWords destWords name =
     (let token = ToUpper (TrimSpace name) in token \<noteq> '''' \<and> token \<in> destWords \<and> token \<notin> sourceWords)"

lemma issue_destination_only:
  "(\<exists>i. reservedIdentifierIssueForToken d t n name sw dw = Some i \<and> ri_DestinationOnly i) \<longleftrightarrow> newly_reserved sw dw name"
  by (auto simp: reservedIdentifierIssueForToken_def newly_reserved_def Let_def)

lemma set_map_filter': "set (List.map_filter f xs) = {y. \<exists>x \<in> set xs. f x = Some y}"
  by (induction xs) (auto simp: List.map_filter_def)

lemma reserved_destination_only:
  "(\<exists>i \<in> set (detectReservedIdentifierIssues objects columns sw dw). ri_DestinationOnly i) \<longleftrightarrow>
   (\<exists>obj \<in> set objects. newly_reserved sw dw (io_ObjectName obj)) \<or> (\<exists>c \<in> set columns. newly_reserved sw dw (ic_Column c))"
proof -
  let ?f = "\<lambda>object. reservedIdentifierIssueForToken (io_Database object) (io_ObjectType object) (io_ObjectName object)
      (io_ObjectName object) sw dw"
  let ?g = "\<lambda>column. reservedIdentifierIssueForToken (ic_Database column) ''column'' (ic_Table column) (ic_Column column) sw dw"
  have "(\<exists>i \<in> set (detectReservedIdentifierIssues objects columns sw dw). ri_DestinationOnly i) \<longleftrightarrow>
      (\<exists>obj \<in> set objects. \<exists>i. ?f obj = Some i \<and> ri_DestinationOnly i) \<or>
      (\<exists>c \<in> set columns. \<exists>i. ?g c = Some i \<and> ri_DestinationOnly i)"
    unfolding detectReservedIdentifierIssues_def set_sort set_append set_map_filter' by blast
  then show ?thesis by (simp only: issue_destination_only)
qed

lemma mixed_case_Nil:
  "detectMixedCaseIdentifierIssues databases objects \<noteq> [] \<longleftrightarrow>
   (\<exists>d \<in> set databases. hasMixedCase d) \<or> (\<exists>obj \<in> set (relations objects). hasMixedCase (io_ObjectName obj))"
  by (auto simp: detectMixedCaseIdentifierIssues_def relations_def filter_empty_conv)

definition view_at_risk :: "string \<Rightarrow> string \<Rightarrow> viewDefinition \<Rightarrow> bool" where
  "view_at_risk m m' view =
     (let text = stripSQLCommentsAndStrings (vd_Create view)
      in mode_differs m m' ''ANSI_QUOTES'' \<and> Contains text [CHR 0x22] \<or> mode_differs m m' ''PIPES_AS_CONCAT'' \<and> Contains text ''||'' \<or>
         mode_differs m m' ''NO_BACKSLASH_ESCAPES'' \<and> Contains text [CHR 0x5C, CHR 0x5C])"

lemma parser_risks_Nil:
  "detectViewParserRiskIssues views m m' \<noteq> [] \<longleftrightarrow>
   TrimSpace m \<noteq> '''' \<and> TrimSpace m' \<noteq> '''' \<and> (\<exists>view \<in> set views. view_at_risk m m' view)"
  by (auto simp: detectViewParserRiskIssues_def sort_key_Nil view_risks_def view_at_risk_def Let_def)

lemma findings_errors:
  "has_error (lower_case_findings s d) \<longleftrightarrow> (\<exists>v w. s = Some v \<and> d = Some w \<and> v \<noteq> w)"
  "has_error (collision_findings cs) \<longleftrightarrow> cs \<noteq> []"
  "has_error (mixed_findings folds ms) \<longleftrightarrow> folds \<and> ms \<noteq> []"
  "has_error (parser_findings vs) \<longleftrightarrow> vs \<noteq> []"
  "has_error (reserved_findings rs) \<longleftrightarrow> (\<exists>i \<in> set rs. ri_DestinationOnly i)"
  by (auto simp: lower_case_findings_def collision_findings_def mixed_findings_def parser_findings_def reserved_findings_def
      has_error_simps has_error_map Let_def filter_empty_conv split: option.split)

lemma setting_findings_no_error: "\<not> has_error (setting_findings source dest i j)"
  by (auto simp: setting_findings_def setting_warning_def word_warning_def has_error_simps split: sum.split option.split)

text \<open>
  Claim C15. When the answers of the servers to the queries for names and settings are there, the precheck of names refuses the migration exactly
  if the two servers fold table names differently, or two databases, or two tables or views of one
  database, have names that differ in case only, or a name in mixed case meets a server that folds
  names, or the name of a database, table, view or column is reserved at the destination only, or a
  view contains what the two SQL modes read differently.
\<close>

theorem identifier_precheck_refuses:
  assumes "is_schemata source = Rows all" and "databases = SelectDatabases all inc exc" and "databases \<noteq> []"
    and "queryInventoryObjects source databases = Inr objects" and "queryInventoryColumns source databases = Inr columns"
    and "queryViewDefinitions source databases = Inr views"
    and "querySQLMode (is_sqlMode source) = Inr m" and "querySQLMode (is_sqlMode dest) = Inr m'"
    and "queryOptionalIntVariable (is_lowerCaseInt source) (is_lowerCaseText source) = Inr lctn"
    and "queryOptionalIntVariable (is_lowerCaseInt dest) (is_lowerCaseText dest) = Inr lctn'"
    and "queryReservedWords (is_keywords source) i = (words, origin, err)"
    and "queryReservedWords (is_keywords dest) j = (words', origin', err')"
  shows "\<exists>report. runIdentifierPortabilityPrecheck True source dest i j inc exc = (None, report) \<and>
    (ip_Incompatible report \<longleftrightarrow>
      lctn \<noteq> lctn' \<or>
      \<not> distinct (map ToLower databases) \<or>
      \<not> distinct (map (\<lambda>obj. relation_key (io_Database obj) (io_ObjectName obj)) (relations objects)) \<or>
      (lctn \<noteq> 0 \<or> lctn' \<noteq> 0) \<and>
        ((\<exists>d \<in> set databases. hasMixedCase d) \<or> (\<exists>obj \<in> set (relations objects). hasMixedCase (io_ObjectName obj))) \<or>
      (\<exists>obj \<in> set objects. newly_reserved words words' (io_ObjectName obj)) \<or>
      (\<exists>c \<in> set columns. newly_reserved words words' (ic_Column c)) \<or>
      TrimSpace m \<noteq> '''' \<and> TrimSpace m' \<noteq> '''' \<and> (\<exists>view \<in> set views. view_at_risk m m' view))"
proof -
  let ?report = "inventory_report source dest i j databases objects columns views"
  have run: "runIdentifierPortabilityPrecheck True source dest i j inc exc = (None, ?report)"
    using assms by (simp add: runIdentifierPortabilityPrecheck_def listSelectableDatabases_def rows_or_error_def Let_def)
  have settings: "ip_SourceSQLMode (settings_report source dest i j) = m" "ip_DestSQLMode (settings_report source dest i j) = m'"
    "ip_SourceLowerCase (settings_report source dest i j) = Some lctn" "ip_DestLowerCase (settings_report source dest i j) = Some lctn'"
    "ip_Findings (settings_report source dest i j) = setting_findings source dest i j"
    using assms by (simp_all add: settings_report_def known_setting_def)
  have "ip_Incompatible ?report \<longleftrightarrow>
      lctn \<noteq> lctn' \<or> detectCaseCollisionIssues databases objects \<noteq> [] \<or>
      (folds_names (Some lctn) \<or> folds_names (Some lctn')) \<and> detectMixedCaseIdentifierIssues databases objects \<noteq> [] \<or>
      (\<exists>i \<in> set (detectReservedIdentifierIssues objects columns words words'). ri_DestinationOnly i) \<or>
      detectViewParserRiskIssues views m m' \<noteq> []"
    by (auto simp: inventory_report_def Let_def settings buildIdentifierPortabilityFindings_def has_error_simps findings_errors
        setting_findings_no_error assms(11,12))
  then show ?thesis
    using run unfolding case_collisions_Nil mixed_case_Nil reserved_destination_only parser_risks_Nil
    by (auto simp: folds_names_def)
qed

text \<open>
  A server whose list of keywords has no column RESERVED answers with an error, and its words are
  then the watchlist. A word that both servers reserve and that is not on the watchlist counts as
  newly reserved.
\<close>

definition example_identifier_dest :: identifier_side where
  "example_identifier_dest =
     \<lparr>is_sqlMode = Inr (Some ''ANSI_QUOTES''), is_lowerCaseInt = Inr (Some 0), is_lowerCaseText = Inr (Some ''0''),
      is_keywords = Rows [(''ORDER'', Some ''1''), (''TITLE'', Some ''0'')]\<rparr>"

definition example_identifier_source :: identifier_source where
  "example_identifier_source =
     \<lparr>is_sqlMode = Inr (Some ''ANSI_QUOTES''), is_lowerCaseInt = Inr (Some 0), is_lowerCaseText = Inr (Some ''0''),
      is_keywords = QueryError ''Unknown column'', is_schemata = Rows [''shop''],
      is_objects = (\<lambda>_. Rows [(''shop'', ''sales'', ''BASE TABLE'')]),
      is_columns = (\<lambda>_. Rows [\<lparr>ic_Database = ''shop'', ic_Table = ''sales'', ic_Column = ''order''\<rparr>]),
      is_show = (\<lambda>_. ShowError ''none'')\<rparr>"

definition example_identifier_objects :: "inventoryObject list" where
  "example_identifier_objects =
     [\<lparr>io_Database = ''shop'', io_ObjectType = ''database'', io_ObjectName = ''shop''\<rparr>,
      \<lparr>io_Database = ''shop'', io_ObjectType = ''table'', io_ObjectName = ''sales''\<rparr>]"

lemma example_identifier_answers:
  "SelectDatabases [''shop''] [] [] = [''shop'']"
  "queryInventoryObjects example_identifier_source [''shop''] = Inr example_identifier_objects"
  "queryInventoryColumns example_identifier_source [''shop''] =
     Inr [\<lparr>ic_Database = ''shop'', ic_Table = ''sales'', ic_Column = ''order''\<rparr>]"
  "queryViewDefinitions example_identifier_source [''shop''] = Inr []"
  "querySQLMode (is_sqlMode example_identifier_source) = Inr ''ANSI_QUOTES''"
  "querySQLMode (is_sqlMode example_identifier_dest) = Inr ''ANSI_QUOTES''"
  "queryOptionalIntVariable (is_lowerCaseInt example_identifier_source) (is_lowerCaseText example_identifier_source) = Inr 0"
  "queryOptionalIntVariable (is_lowerCaseInt example_identifier_dest) (is_lowerCaseText example_identifier_dest) = Inr 0"
  "queryReservedWords (is_keywords example_identifier_source) i =
     (fallbackReservedWords i, ''built-in watchlist'', Some ''Unknown column'')"
  "queryReservedWords (is_keywords example_identifier_dest) i = ({''ORDER''}, ''information_schema.KEYWORDS'', None)"
  by code_simp+

lemma example_identifier_order: "newly_reserved (fallbackReservedWords i) {''ORDER''} ''order''"
proof -
  have "ToUpper (TrimSpace ''order'') = ''ORDER''" by code_simp
  then show ?thesis by (simp add: newly_reserved_def fallbackReservedWords_def watchlist_def)
qed

theorem identifier_precheck_refuses_witness:
  "\<forall>i j. \<exists>report. runIdentifierPortabilityPrecheck True example_identifier_source example_identifier_dest i j [] [] = (None, report) \<and>
     ip_Incompatible report"
proof (intro allI)
  fix i j
  show "\<exists>report. runIdentifierPortabilityPrecheck True example_identifier_source example_identifier_dest i j [] [] = (None, report) \<and>
      ip_Incompatible report"
    using identifier_precheck_refuses [OF _ _ _ example_identifier_answers(2-10), of "[''shop'']" "[]" "[]" i j]
      example_identifier_answers(1) example_identifier_order [of i]
    by (simp add: example_identifier_source_def)
qed

section \<open>What it does not find\<close>

text \<open>
  The literals are removed before the view is searched for backslashes, and the search is for two of
  them; so a view whose literals are read differently under the other setting of
  NO_BACKSLASH_ESCAPES is not at risk for the precheck.
\<close>

lemma strip_literal:
  assumes "CHR 0x27 \<notin> set s" and "sp_single st" "\<not> sp_double st" "\<not> sp_line st" "\<not> sp_block st"
  shows "strip_from st (s @ CHR 0x27 # r) = strip_from (st\<lparr>sp_single := False\<rparr>) r"
  using assms by (induction s) auto

lemma backslashes_of_literals_are_not_seen:
  assumes "CHR 0x27 \<notin> set s"
  shows "strip_from strip_start (CHR 0x27 # s @ CHR 0x27 # r) = strip_from strip_start r"
  using strip_literal [OF assms, of "strip_start\<lparr>sp_single := True\<rparr>" r] by (simp add: strip_start_def)

text \<open>An error while the rows are read leaves no words, although the finding says that the watchlist is used.\<close>

lemma words_lost_on_row_error:
  "fst (queryReservedWords (RowsError e) i) = {}"
  "\<exists>message. word_warning (snd (snd (queryReservedWords (RowsError e) i))) code side = [message] \<and>
     fg_Message message = ''Fell back to built-in '' @ side @ '' reserved-word watchlist: '' @ e @ ''.''"
  by (auto simp: queryReservedWords_def word_warning_def finding_def)

end
