(* ===== verification/Precheck_Artifact.thy ===== *)
theory Precheck_Artifact
  imports Precheck_Base State_Store
begin

text \<open>
  Reports of prechecks that are kept in the state directory as JSON (persist...Artifact and
  load...Artifact of internal/commands/collation_precheck.go, plugin_precheck.go,
  invisible_gipk_precheck.go and verify_artifact.go). The interface of a kind of report is its encoder
  and decoder; what is loaded is what was kept last.
\<close>

section \<open>Files\<close>

text \<open>The path of a file of a precheck in the state directory.\<close>

definition artifact_path :: "string \<Rightarrow> string \<Rightarrow> string" where
  "artifact_path name stateDir = path_join (let baseDir = TrimSpace stateDir in if baseDir = '''' then ''state'' else baseDir) name"

text \<open>os.Remove of a file that may be missing; the error of the operating system for one that is there is a parameter.\<close>

definition remove_file :: "string \<Rightarrow> string option \<Rightarrow> string \<Rightarrow> fs \<Rightarrow> string option \<times> fs" where
  "remove_file what removeErr path fs =
     (if fs path = None then (None, fs)
      else case removeErr of
             Some e \<Rightarrow> (Some (''cleanup '' @ what @ '' '' @ path @ '': '' @ e), fs)
           | None \<Rightarrow> (None, fs(path := None)))"

lemma remove_file_ok: "remove_file what removeErr path fs = (None, fs') \<Longrightarrow> fs' path = None \<and> (\<forall>q. q \<noteq> path \<longrightarrow> fs' q = fs q)"
  by (auto simp: remove_file_def split: if_splits option.splits)

definition persist_artifact :: "string \<Rightarrow> ('a \<Rightarrow> json) \<Rightarrow> write_env \<Rightarrow> string \<Rightarrow> 'a \<Rightarrow> fs \<Rightarrow> string option \<times> fs" where
  "persist_artifact what enc env path report fs =
     (case WritePrivateFileAtomic env (path_dir path) path (FileJson (enc report)) fs of
        (Some e, fs') \<Rightarrow> (Some (''write '' @ what @ '': '' @ e), fs')
      | (None, fs') \<Rightarrow> (None, fs'))"

definition load_artifact :: "string \<Rightarrow> (json \<Rightarrow> 'a option) \<Rightarrow> string option \<Rightarrow> string \<Rightarrow> fs \<Rightarrow> string + 'a" where
  "load_artifact what dec readErr path fs =
     (case readErr of
        Some e \<Rightarrow> Inl (''read '' @ what @ '': '' @ e)
      | None \<Rightarrow>
          (case fs path of
             None \<Rightarrow> Inl (''read '' @ what @ '': open '' @ path @ '': no such file or directory'')
           | Some (FileText t) \<Rightarrow> Inl (''parse '' @ what @ '': invalid JSON'')
           | Some (FileJson j) \<Rightarrow>
               (case dec j of
                  None \<Rightarrow> Inl (''parse '' @ what @ '': cannot unmarshal'')
                | Some report \<Rightarrow> Inr report)))"

locale artifact_store =
  fixes enc :: "'a \<Rightarrow> json" and dec :: "json \<Rightarrow> 'a option" and valid :: "'a \<Rightarrow> bool"
  assumes dec_enc: "valid x \<Longrightarrow> dec (enc x) = Some x"
begin

lemma load_persisted:
  assumes "persist_artifact what enc env path x fs = (None, fs')" and "we_tmp env \<noteq> path" and "valid x"
  shows "load_artifact what' dec None path fs' = Inr x"
proof -
  obtain r fs1 where w: "WritePrivateFileAtomic env (path_dir path) path (FileJson (enc x)) fs = (r, fs1)" by (metis prod.collapse)
  then have "r = None" "fs' = fs1" using assms(1) by (auto simp: persist_artifact_def split: option.splits)
  then show ?thesis using WritePrivateFileAtomic_cases(1) [OF w assms(2)] dec_enc [OF assms(3)] by (simp add: load_artifact_def)
qed

lemma failed_persist_keeps:
  assumes "persist_artifact what enc env path x fs = (Some e, fs')" and "we_tmp env \<noteq> path"
  shows "load_artifact what' dec readErr path fs' = load_artifact what' dec readErr path fs"
proof -
  obtain r fs1 where w: "WritePrivateFileAtomic env (path_dir path) path (FileJson (enc x)) fs = (r, fs1)" by (metis prod.collapse)
  then have "r \<noteq> None" "fs' = fs1" using assms(1) by (auto simp: persist_artifact_def split: option.splits)
  then have same: "fs' path = fs path" using WritePrivateFileAtomic_cases(1) [OF w assms(2)] by auto
  show ?thesis unfolding load_artifact_def same ..
qed

end

section \<open>Fields\<close>

text \<open>Lists of records, and lists that are left out when they are empty.\<close>

lemma dec_enc_list:
  assumes "\<And>x. x \<in> set xs \<Longrightarrow> dec (enc x) = Some x"
  shows "dec_list dec (JArr (map enc xs)) = Some xs"
proof -
  have "map (dec \<circ> enc) xs = map Some xs" using assms by simp
  moreover have "those (map Some xs) = Some xs" by (induction xs) simp_all
  ultimately show ?thesis by (simp only: dec_list.simps map_map)
qed

lemma dec_omitted_list:
  assumes "\<And>x. x \<in> set xs \<Longrightarrow> dec (enc x) = Some x"
  shows "dec_list dec (if xs = [] then JNull else JArr (map enc xs)) = Some xs"
  using dec_enc_list [of xs dec enc] assms by auto

lemma dec_present_int [simp]: "is_int64 n \<Longrightarrow> dec_int (if n = 0 then JNull else JNum n) = Some n"
  by (simp del: dec_int.simps) (simp add: is_int64_def)

definition finding_fields :: "Finding \<Rightarrow> (string \<times> bool \<times> json) list" where
  "finding_fields f = [
     (''code'', False, JStr (fg_Code f)),
     (''severity'', False, JStr (fg_Severity f)),
     (''message'', False, JStr (fg_Message f)),
     (''proposal'', False, JStr (fg_Proposal f))]"

definition enc_finding :: "Finding \<Rightarrow> json" where
  "enc_finding f = struct (finding_fields f)"

definition dec_finding :: "json \<Rightarrow> Finding option" where
  "dec_finding = dec_obj (\<lambda>o'.
     bindo (dec_str (get ''code'' o')) (\<lambda>a1.
     bindo (dec_str (get ''severity'' o')) (\<lambda>a2.
     bindo (dec_str (get ''message'' o')) (\<lambda>a3.
     bindo (dec_str (get ''proposal'' o')) (\<lambda>a4.
       Some \<lparr>fg_Code = a1, fg_Severity = a2, fg_Message = a3, fg_Proposal = a4\<rparr>)))))"

lemma finding_fields_distinct: "distinct (map fst (finding_fields f))"
  by (simp add: finding_fields_def)

lemma dec_enc_finding [simp]: "dec_finding (enc_finding f) = Some f"
  unfolding dec_finding_def enc_finding_def dec_struct get_present [OF finding_fields_distinct]
  by (simp add: finding_fields_def)

end
