(* ===== verification/Precheck_Temporal.thy ===== *)
theory Precheck_Temporal
  imports Precheck_Identifier Precheck_Artifact
begin

text \<open>
  The precheck for temporal defaults that a strict destination refuses
  (internal/commands/temporal_precheck.go): which defaults it finds, and the script of corrections
  that it keeps in the state directory. Files are those of State_Files.
\<close>

section \<open>Data\<close>

record zeroDateDefaultIssue =
  zd_Database :: string
  zd_Table :: string
  zd_Column :: string
  zd_DataType :: string
  zd_ColumnType :: string
  zd_DefaultValue :: string
  zd_ProposedFixSQL :: string

record zeroDateDefaultsPrecheckReport =
  zp_Name :: string
  zp_Incompatible :: bool
  zp_DestinationSQLMode :: string
  zp_DestinationEnforced :: bool
  zp_IssueCount :: nat
  zp_FixScriptPath :: string
  zp_Issues :: "zeroDateDefaultIssue list"
  zp_Findings :: "Finding list"

text \<open>A row of the query for temporal defaults, and the source with the databases that are asked for.\<close>

record default_row =
  dr_database :: string
  dr_table :: string
  dr_column :: string
  dr_dataType :: string
  dr_columnType :: string
  dr_default :: "string option"

record temporal_source =
  zs_schemata :: "string query_result"
  zs_defaults :: "string list \<Rightarrow> default_row query_result"

section \<open>Recognising a default\<close>

definition destinationEnforcesZeroDateStrict :: "string \<Rightarrow> bool" where
  "destinationEnforcesZeroDateStrict sqlMode =
     ((sqlModeContains sqlMode ''STRICT_TRANS_TABLES'' \<or> sqlModeContains sqlMode ''STRICT_ALL_TABLES'') \<and>
      (sqlModeContains sqlMode ''NO_ZERO_DATE'' \<or> sqlModeContains sqlMode ''NO_ZERO_IN_DATE''))"

text \<open>strings.Trim with both kinds of quotes as its cut set.\<close>

definition trim_quotes :: "string \<Rightarrow> string" where
  "trim_quotes s =
     (let q = (\<lambda>c. c = CHR 0x22 \<or> c = CHR 0x27) in rev (dropWhile q (rev (dropWhile q s))))"

definition temporalDefaultContainsZeroDate :: "string \<Rightarrow> bool" where
  "temporalDefaultContainsZeroDate defaultValue =
     (let v = TrimSpace (trim_quotes defaultValue);
          datePart = takeWhile (\<lambda>c. c \<noteq> CHR '' '' \<and> c \<noteq> CHR ''T'') v
      in if v = '''' then False
         else if length datePart \<noteq> 10 then False
         else if datePart ! 4 \<noteq> CHR ''-'' \<or> datePart ! 7 \<noteq> CHR ''-'' then False
         else take 4 datePart = ''0000'' \<or> take 2 (drop 5 datePart) = ''00'' \<or> take 2 (drop 8 datePart) = ''00'')"

definition autoFixAlterDefaultSQL :: "string \<Rightarrow> string \<Rightarrow> string \<Rightarrow> string \<Rightarrow> string" where
  "autoFixAlterDefaultSQL databaseName tableName columnName dataType =
     ''ALTER TABLE '' @ quoteIdentifier databaseName @ ''.'' @ quoteIdentifier tableName @ '' ALTER COLUMN '' @ quoteIdentifier columnName
     @ '' SET DEFAULT '' @ [CHR 0x27] @ (if dataType = ''date'' then ''1970-01-01'' else ''1970-01-01 00:00:01'') @ [CHR 0x27] @ '';''"

definition normalized_default :: "default_row \<Rightarrow> string" where
  "normalized_default row = TrimSpace (trim_quotes (case dr_default row of None \<Rightarrow> '''' | Some s \<Rightarrow> s))"

definition zero_date_issue :: "default_row \<Rightarrow> zeroDateDefaultIssue" where
  "zero_date_issue row =
     \<lparr>zd_Database = dr_database row, zd_Table = dr_table row, zd_Column = dr_column row,
      zd_DataType = ToLower (TrimSpace (dr_dataType row)), zd_ColumnType = TrimSpace (dr_columnType row),
      zd_DefaultValue = normalized_default row,
      zd_ProposedFixSQL = autoFixAlterDefaultSQL (dr_database row) (dr_table row) (dr_column row) (ToLower (TrimSpace (dr_dataType row)))\<rparr>"

definition queryZeroDateDefaultIssues :: "temporal_source \<Rightarrow> string list \<Rightarrow> string + zeroDateDefaultIssue list" where
  "queryZeroDateDefaultIssues source databases =
     (case zs_defaults source databases of
        QueryError e \<Rightarrow> Inl (''query source temporal defaults: '' @ e)
      | ScanError e \<Rightarrow> Inl e
      | RowsError e \<Rightarrow> Inl e
      | Rows rows \<Rightarrow> Inr (map zero_date_issue (filter (\<lambda>row. temporalDefaultContainsZeroDate (normalized_default row)) rows)))"

section \<open>The script\<close>

definition zeroDateFixScriptPath :: "string \<Rightarrow> string" where
  "zeroDateFixScriptPath stateDir = artifact_path ''precheck-zero-date-fixes.sql'' stateDir"

definition cleanupZeroDateFixScript :: "string option \<Rightarrow> string \<Rightarrow> fs \<Rightarrow> string option \<times> fs" where
  "cleanupZeroDateFixScript removeErr stateDir fs = remove_file ''zero-date fix script'' removeErr (zeroDateFixScriptPath stateDir) fs"

definition fix_lines :: "zeroDateDefaultIssue list \<Rightarrow> string list" where
  "fix_lines issues = sort (remdups (filter (\<lambda>stmt. stmt \<noteq> '''') (map (\<lambda>i. TrimSpace (zd_ProposedFixSQL i)) issues)))"

definition fix_script :: "zeroDateDefaultIssue list \<Rightarrow> string" where
  "fix_script issues =
     ''-- dbmigrate auto-generated zero-date precheck fixes'' @ [CHR 0x0A]
     @ ''-- Apply on SOURCE database before rerunning plan/migrate.'' @ [CHR 0x0A, CHR 0x0A]
     @ concat (map (\<lambda>line. line @ [CHR 0x0A]) (fix_lines issues))"

definition writeZeroDateFixScript :: "write_env \<Rightarrow> string \<Rightarrow> zeroDateDefaultIssue list \<Rightarrow> fs \<Rightarrow> (string + string) \<times> fs" where
  "writeZeroDateFixScript env stateDir issues fs =
     (let path = zeroDateFixScriptPath stateDir
      in case WritePrivateFileAtomic env (path_dir path) path (FileText (fix_script issues)) fs of
           (Some e, fs') \<Rightarrow> (Inl (''write zero-date fix script: '' @ e), fs')
         | (None, fs') \<Rightarrow> (Inr path, fs'))"

section \<open>The precheck\<close>

definition buildZeroDatePrecheckFindings :: "zeroDateDefaultsPrecheckReport \<Rightarrow> Finding list" where
  "buildZeroDatePrecheckFindings report =
     (if zp_IssueCount report = 0 then []
      else finding ''zero_date_defaults_incompatible'' ''error''
             (''Detected '' @ show_nat (zp_IssueCount report) @ '' zero-date temporal default(s) in source schema while destination ''
               @ ''sql_mode enforces strict NO_ZERO_DATE/NO_ZERO_IN_DATE checks.'')
             (if zp_FixScriptPath report \<noteq> ''''
              then ''Review and apply generated auto-fix script at '' @ go_quote (zp_FixScriptPath report)
                @ '' on source, then rerun plan/migrate.''
              else ''Apply the auto-fix ALTER TABLE ... SET DEFAULT statements listed in findings, then rerun plan/migrate.'')
           # map (\<lambda>issue. finding ''zero_date_default_column'' ''error''
               (''Source '' @ zd_Database issue @ ''.'' @ zd_Table issue @ '' column '' @ zd_Column issue @ '' ('' @ zd_ColumnType issue
                 @ '') uses incompatible default '' @ go_quote (zd_DefaultValue issue) @ '' under destination sql_mode ''
                 @ go_quote (zp_DestinationSQLMode report) @ ''.'')
               (let issueProposal = ''Auto-fix candidate: '' @ zd_ProposedFixSQL issue
                in if zp_FixScriptPath report \<noteq> '''' then issueProposal @ '' (also written to '' @ go_quote (zp_FixScriptPath report) @ '')''
                   else issueProposal)) (zp_Issues report))"

definition zero_date_report :: zeroDateDefaultsPrecheckReport where
  "zero_date_report =
     \<lparr>zp_Name = ''zero-date-defaults'', zp_Incompatible = False, zp_DestinationSQLMode = '''', zp_DestinationEnforced = False,
      zp_IssueCount = 0, zp_FixScriptPath = '''', zp_Issues = [], zp_Findings = []\<rparr>"

text \<open>listDatabases of the package is the same query as that of listSelectableDatabases.\<close>

definition runZeroDateDefaultsPrecheck ::
  "write_env \<Rightarrow> string option \<Rightarrow> temporal_source \<Rightarrow> string scalar \<Rightarrow> string \<Rightarrow> string list \<Rightarrow> string list \<Rightarrow> fs
     \<Rightarrow> string option \<times> zeroDateDefaultsPrecheckReport \<times> fs" where
  "runZeroDateDefaultsPrecheck env removeErr source destMode stateDir includeDatabases excludeDatabases fs =
     (let report = zero_date_report
      in case querySQLMode destMode of
           Inl e \<Rightarrow> (Some (''read destination sql_mode: '' @ e), report, fs)
         | Inr sqlMode \<Rightarrow>
             (let report = report\<lparr>zp_DestinationSQLMode := sqlMode, zp_DestinationEnforced := destinationEnforcesZeroDateStrict sqlMode\<rparr>
              in if \<not> zp_DestinationEnforced report
                 then (case cleanupZeroDateFixScript removeErr stateDir fs of (err, fs') \<Rightarrow> (err, report, fs'))
                 else (case rows_or_error (zs_schemata source) of
                         Inl e \<Rightarrow> (Some (''list source databases: '' @ e), report, fs)
                       | Inr all \<Rightarrow>
                           (let selectedDatabases = SelectDatabases all includeDatabases excludeDatabases
                            in if selectedDatabases = [] then (None, report, fs)
                               else (case queryZeroDateDefaultIssues source selectedDatabases of
                                       Inl e \<Rightarrow> (Some e, report, fs)
                                     | Inr [] \<Rightarrow> (case cleanupZeroDateFixScript removeErr stateDir fs of (err, fs') \<Rightarrow> (err, report, fs'))
                                     | Inr issues \<Rightarrow>
                                         (let report = report\<lparr>zp_IssueCount := length issues, zp_Issues := issues, zp_Incompatible := True\<rparr>
                                          in case writeZeroDateFixScript env stateDir issues fs of
                                               (Inl e, fs') \<Rightarrow> (Some e, report, fs')
                                             | (Inr path, fs') \<Rightarrow>
                                                 (let report = report\<lparr>zp_FixScriptPath := path\<rparr>
                                                  in (None, report\<lparr>zp_Findings := buildZeroDatePrecheckFindings report\<rparr>, fs'))))))))"

section \<open>What is recognised\<close>

text \<open>A number below a power of ten with all its digits.\<close>

fun digits :: "nat \<Rightarrow> nat \<Rightarrow> string" where
  "digits 0 n = []"
| "digits (Suc width) n = digits width (n div 10) @ [digit_char (n mod 10)]"

lemma digit_char_zero: "d < 10 \<Longrightarrow> digit_char d = CHR ''0'' \<longleftrightarrow> d = 0"
proof -
  have z: "digit_val CHR ''0'' = 0" by code_simp
  assume "d < 10"
  then have "digit_val (digit_char d) = d" by (rule digit_val_digit_char)
  moreover have "digit_char 0 = CHR ''0''" by code_simp
  ultimately show ?thesis using z by metis
qed

lemma digits_replicate: "n < 10 ^ width \<Longrightarrow> digits width n = replicate width CHR ''0'' \<longleftrightarrow> n = 0"
proof (induction width arbitrary: n)
  case (Suc w)
  have "n div 10 < 10 ^ w" using Suc.prems by (simp add: less_mult_imp_div_less mult.commute)
  have "replicate (Suc w) CHR ''0'' = replicate w CHR ''0'' @ [CHR ''0'']" by (simp add: replicate_append_same)
  then show ?case using Suc.IH [OF \<open>n div 10 < 10 ^ w\<close>] digit_char_zero [of "n mod 10"] by auto
qed simp

lemma length_digits [simp]: "length (digits w n) = w" by (induction w arbitrary: n) auto

lemma digits_digit: "c \<in> set (digits w n) \<Longrightarrow> is_digit c" by (induction w arbitrary: n) (auto simp: is_digit_digit_char)

lemma zero_date_recognised:
  assumes "TrimSpace (trim_quotes v) = digits 4 y @ ''-'' @ digits 2 m @ ''-'' @ digits 2 d @ time"
    and "time = [] \<or> hd time \<in> {CHR '' '', CHR ''T''}" and "y < 10000" and "m < 100" and "d < 100"
  shows "temporalDefaultContainsZeroDate v \<longleftrightarrow> y = 0 \<or> m = 0 \<or> d = 0"
proof -
  let ?date = "digits 4 y @ ''-'' @ digits 2 m @ ''-'' @ digits 2 d"
  have "\<forall>c \<in> set ?date. c \<noteq> CHR '' '' \<and> c \<noteq> CHR ''T''"
  proof -
    have "\<not> is_digit CHR '' ''" "\<not> is_digit CHR ''T''" by code_simp+
    then show ?thesis using digits_digit by fastforce
  qed
  then have "takeWhile (\<lambda>c. c \<noteq> CHR '' '' \<and> c \<noteq> CHR ''T'') (?date @ time) = ?date"
    using assms(2) by (cases time) (auto simp: takeWhile_append)
  moreover have "?date ! 4 = CHR ''-''" "?date ! 7 = CHR ''-''" by (simp_all add: nth_append)
  moreover have "take 4 ?date = digits 4 y" "take 2 (drop 5 ?date) = digits 2 m" "take 2 (drop 8 ?date) = digits 2 d" by simp_all
  moreover have "digits 4 y = ''0000'' \<longleftrightarrow> y = 0" "digits 2 m = ''00'' \<longleftrightarrow> m = 0" "digits 2 d = ''00'' \<longleftrightarrow> d = 0"
  proof -
    have "replicate 4 CHR ''0'' = ''0000''" "replicate 2 CHR ''0'' = ''00''" by (simp_all add: eval_nat_numeral)
    then show "digits 4 y = ''0000'' \<longleftrightarrow> y = 0" "digits 2 m = ''00'' \<longleftrightarrow> m = 0" "digits 2 d = ''00'' \<longleftrightarrow> d = 0"
      using digits_replicate [of y 4] digits_replicate [of m 2] digits_replicate [of d 2] assms(3-5) by auto
  qed
  moreover have "length ?date = 10" "?date \<noteq> ''''" by simp_all
  ultimately show ?thesis
    unfolding temporalDefaultContainsZeroDate_def Let_def assms(1) by simp
qed

section \<open>The script and the report\<close>

lemma zero_date_compatible:
  assumes "runZeroDateDefaultsPrecheck env removeErr source mode stateDir inc exc fs = (None, report, fs')"
    and "zs_schemata source = Rows all" and "\<not> zp_Incompatible report" and "querySQLMode mode = Inr sqlMode"
    and "destinationEnforcesZeroDateStrict sqlMode" and "row \<in> set (answer_rows (zs_defaults source (SelectDatabases all inc exc)))"
  shows "SelectDatabases all inc exc = [] \<or> \<not> temporalDefaultContainsZeroDate (normalized_default row)"
proof (rule ccontr)
  assume "\<not> ?thesis"
  moreover from assms(6) obtain rows where "zs_defaults source (SelectDatabases all inc exc) = Rows rows" "row \<in> set rows"
    by (cases "zs_defaults source (SelectDatabases all inc exc)") auto
  ultimately have "\<exists>i is. queryZeroDateDefaultIssues source (SelectDatabases all inc exc) = Inr (i # is)"
    "SelectDatabases all inc exc \<noteq> []"
    by (auto simp: queryZeroDateDefaultIssues_def filter_empty_conv simp flip: neq_Nil_conv)
  then show False using assms(1-5)
    by (auto simp: runZeroDateDefaultsPrecheck_def zero_date_report_def rows_or_error_def Let_def split: sum.splits prod.splits)
qed

text \<open>
  Claim C19. When the precheck of temporal defaults ends without an error, it calls the migration
  incompatible exactly if the destination is strict about zero dates and a selected column has a
  default with one, and the script in the state directory is then the one of the corrections for
  these columns, each statement once; otherwise there is no script, except that an old one stays
  when no database is selected.
\<close>

theorem zero_date_precheck_script:
  assumes "runZeroDateDefaultsPrecheck env removeErr source mode stateDir inc exc fs = (None, report, fs')"
    and "querySQLMode mode = Inr sqlMode" and "zs_schemata source = Rows all"
    and "zs_defaults source (SelectDatabases all inc exc) = Rows rows" and "we_tmp env \<noteq> zeroDateFixScriptPath stateDir"
  shows "zp_Incompatible report = (destinationEnforcesZeroDateStrict sqlMode \<and> SelectDatabases all inc exc \<noteq> [] \<and>
      (\<exists>row \<in> set rows. temporalDefaultContainsZeroDate (normalized_default row))) \<and>
    zp_Issues report = (if zp_Incompatible report
      then map zero_date_issue (filter (\<lambda>row. temporalDefaultContainsZeroDate (normalized_default row)) rows) else []) \<and>
    fs' (zeroDateFixScriptPath stateDir) =
      (if zp_Incompatible report then Some (FileText (fix_script (zp_Issues report)))
       else if destinationEnforcesZeroDateStrict sqlMode \<and> SelectDatabases all inc exc = [] then fs (zeroDateFixScriptPath stateDir)
       else None) \<and>
    distinct (fix_lines (zp_Issues report))"
proof -
  let ?issues = "map zero_date_issue (filter (\<lambda>row. temporalDefaultContainsZeroDate (normalized_default row)) rows)"
  have none: "?issues = [] \<longleftrightarrow> \<not> (\<exists>row \<in> set rows. temporalDefaultContainsZeroDate (normalized_default row))"
    by (auto simp: filter_empty_conv)
  have d: "distinct (fix_lines is)" for "is" by (simp add: fix_lines_def)
  consider (lax) "\<not> destinationEnforcesZeroDateStrict sqlMode" | (nothing) "destinationEnforcesZeroDateStrict sqlMode" "SelectDatabases all inc exc = []"
    | (clean) "destinationEnforcesZeroDateStrict sqlMode" "SelectDatabases all inc exc \<noteq> []" "?issues = []"
    | (issues) "destinationEnforcesZeroDateStrict sqlMode" "SelectDatabases all inc exc \<noteq> []" "?issues \<noteq> []" by blast
  then show ?thesis
  proof cases
    case lax
    then show ?thesis using assms(1,2) remove_file_ok d
      by (auto simp: runZeroDateDefaultsPrecheck_def zero_date_report_def cleanupZeroDateFixScript_def split: prod.splits)
  next
    case nothing
    then show ?thesis using assms(1-3) d by (auto simp: runZeroDateDefaultsPrecheck_def zero_date_report_def rows_or_error_def)
  next
    case clean
    then show ?thesis using assms(1-4) none remove_file_ok d
      by (auto simp: runZeroDateDefaultsPrecheck_def zero_date_report_def rows_or_error_def queryZeroDateDefaultIssues_def
          cleanupZeroDateFixScript_def split: prod.splits)
  next
    case issues
    obtain r fs1 where w: "WritePrivateFileAtomic env (path_dir (zeroDateFixScriptPath stateDir)) (zeroDateFixScriptPath stateDir)
        (FileText (fix_script ?issues)) fs = (r, fs1)" by (metis prod.collapse)
    have "queryZeroDateDefaultIssues source (SelectDatabases all inc exc) = Inr ?issues"
      using assms(4) by (simp add: queryZeroDateDefaultIssues_def)
    then have "r = None" "fs' = fs1" "zp_Incompatible report" "zp_Issues report = ?issues"
      using assms(1-3) issues w
      by (auto simp: runZeroDateDefaultsPrecheck_def zero_date_report_def rows_or_error_def writeZeroDateFixScript_def Let_def
          split: list.splits option.splits prod.splits)
    then show ?thesis using WritePrivateFileAtomic_cases(1) [OF w assms(5)] issues none d by simp
  qed
qed

definition example_temporal_source :: temporal_source where
  "example_temporal_source =
     \<lparr>zs_schemata = Rows [''shop''],
      zs_defaults = (\<lambda>_. Rows [\<lparr>dr_database = ''shop'', dr_table = ''t'', dr_column = ''c'', dr_dataType = ''datetime'',
        dr_columnType = ''datetime'', dr_default = Some ''0000-00-00 00:00:00''\<rparr>])\<rparr>"

theorem zero_date_precheck_script_witness:
  "\<exists>report fs'. runZeroDateDefaultsPrecheck (no_faults ''state/tmp'') None example_temporal_source
       (Inr (Some ''STRICT_TRANS_TABLES,NO_ZERO_DATE'')) ''state'' [] [] Map.empty = (None, report, fs') \<and>
     zp_Incompatible report \<and> fs' (zeroDateFixScriptPath ''state'') = Some (FileText (fix_script (zp_Issues report)))"
proof -
  let ?run = "runZeroDateDefaultsPrecheck (no_faults ''state/tmp'') None example_temporal_source
      (Inr (Some ''STRICT_TRANS_TABLES,NO_ZERO_DATE'')) ''state'' [] [] Map.empty"
  let ?row = "\<lparr>dr_database = ''shop'', dr_table = ''t'', dr_column = ''c'', dr_dataType = ''datetime'',
      dr_columnType = ''datetime'', dr_default = Some ''0000-00-00 00:00:00''\<rparr>"
  have mode: "querySQLMode (Inr (Some ''STRICT_TRANS_TABLES,NO_ZERO_DATE'')) = Inr ''STRICT_TRANS_TABLES,NO_ZERO_DATE''"
    and strict: "destinationEnforcesZeroDateStrict ''STRICT_TRANS_TABLES,NO_ZERO_DATE''"
    and sel: "SelectDatabases [''shop''] [] [] = [''shop'']"
    and zero: "temporalDefaultContainsZeroDate (normalized_default ?row)"
    and path: "zeroDateFixScriptPath ''state'' = ''state/precheck-zero-date-fixes.sql''"
    by code_simp+
  have "fst ?run = None"
    using mode strict sel zero
    by (simp add: runZeroDateDefaultsPrecheck_def zero_date_report_def example_temporal_source_def rows_or_error_def
        queryZeroDateDefaultIssues_def writeZeroDateFixScript_def WritePrivateFileAtomic_def EnsurePrivateDir_def no_faults_def Let_def)
  then obtain report fs' where run: "?run = (None, report, fs')" by (metis prod.collapse)
  have "zs_schemata example_temporal_source = Rows [''shop'']"
    "zs_defaults example_temporal_source (SelectDatabases [''shop''] [] []) = Rows [?row]"
    "we_tmp (no_faults ''state/tmp'') \<noteq> zeroDateFixScriptPath ''state''"
    by (simp_all add: example_temporal_source_def no_faults_def path)
  from zero_date_precheck_script [OF run mode this] show ?thesis using run strict sel zero by simp
qed

end
