(* ===== verification/Precheck_Feature.thy ===== *)
theory Precheck_Feature
  imports Precheck_Identifier
begin

text \<open>
  The precheck for features of the source's engine (internal/commands/schema_feature_precheck.go):
  JSON columns on the way to the other engine, sequences and tables with system versioning of
  MariaDB, and when they make a migration incompatible.
\<close>

section \<open>Data\<close>

record jsonColumnIssue =
  js_Database :: string
  js_Table :: string
  js_Column :: string
  js_Proposal :: string

record sequenceIssue =
  sq_Database :: string
  sq_Name :: string
  sq_Proposal :: string

record systemVersionedIssue =
  sv_Database :: string
  sv_Table :: string
  sv_Proposal :: string

text \<open>The counts of the report, which are the lengths of its lists, are left out.\<close>

record schemaFeaturePrecheckReport =
  sf_Name :: string
  sf_Incompatible :: bool
  sf_SourceVersion :: string
  sf_DestVersion :: string
  sf_JSONColumns :: "jsonColumnIssue list"
  sf_Sequences :: "sequenceIssue list"
  sf_SystemVersionedTables :: "systemVersionedIssue list"
  sf_Findings :: "Finding list"

text \<open>
  The source: the databases, and for a database its columns of type json (schema, table and column), its
  sequences (schema and name) and its tables, and the answer to SHOW CREATE TABLE.
\<close>

record feature_source =
  fs_schemata :: "string query_result"
  fs_json :: "string \<Rightarrow> (string \<times> string \<times> string) query_result"
  fs_sequences :: "string \<Rightarrow> (string \<times> string) query_result"
  fs_tables :: "string \<Rightarrow> string query_result"
  fs_show :: "string \<Rightarrow> show_answer"

section \<open>The regular expression\<close>

definition match_spaces :: "string \<Rightarrow> string option" where
  "match_spaces s = (if takeWhile re_space s = [] then None else Some (dropWhile re_space s))"

definition systemVersioningClauseRe :: matcher where
  "systemVersioningClauseRe before s =
     (if \<not> starts_word before then None
      else case match_word ''WITH'' s of None \<Rightarrow> None | Some a \<Rightarrow>
          (case match_spaces a of None \<Rightarrow> None | Some b \<Rightarrow>
          (case match_word ''SYSTEM'' b of None \<Rightarrow> None | Some c \<Rightarrow>
          (case match_spaces c of None \<Rightarrow> None | Some d \<Rightarrow>
          (case match_word ''VERSIONING'' d of None \<Rightarrow> None | Some rest \<Rightarrow>
            if rest \<noteq> [] \<and> word_char (hd rest) then None else Some rest)))))"

text \<open>MatchString: a match at some position.\<close>

fun match_string :: "matcher \<Rightarrow> char option \<Rightarrow> string \<Rightarrow> bool" where
  "match_string m before [] = (m before [] \<noteq> None)"
| "match_string m before (c # s) = (m before (c # s) \<noteq> None \<or> match_string m (Some c) s)"

section \<open>Detection\<close>

definition json_issue :: "string \<times> string \<times> string \<Rightarrow> jsonColumnIssue" where
  "json_issue row =
     (case row of (databaseName, tableName, columnName) \<Rightarrow>
        \<lparr>js_Database = databaseName, js_Table = tableName, js_Column = columnName,
         js_Proposal = ''Review '' @ databaseName @ ''.'' @ tableName @ ''.'' @ columnName
           @ '' and convert JSON columns to an agreed text/json representation or validate semantic compatibility ''
           @ ''before cross-engine cutover.''\<rparr>)"

fun detectJSONColumns :: "feature_source \<Rightarrow> string list \<Rightarrow> string + jsonColumnIssue list" where
  "detectJSONColumns source [] = Inr []"
| "detectJSONColumns source (databaseName # rest) =
     bind_result (rows_or_error (fs_json source databaseName)) (\<lambda>rows.
     bind_result (detectJSONColumns source rest) (\<lambda>issues. Inr (map json_issue rows @ issues)))"

definition isTableNotFoundError :: "string \<Rightarrow> bool" where
  "isTableNotFoundError err =
     (let msg = ToLower err in Contains msg ''unknown table'' \<or> Contains msg ''1109'' \<or> Contains msg ''er_unknown_table'')"

definition sequence_issue :: "string \<times> string \<Rightarrow> sequenceIssue" where
  "sequence_issue row =
     (case row of (databaseName, name) \<Rightarrow>
        \<lparr>sq_Database = databaseName, sq_Name = name,
         sq_Proposal = ''Replace MariaDB sequence '' @ databaseName @ ''.'' @ name
           @ '' with destination-compatible key generation before migration.''\<rparr>)"

fun detectMariaDBSequences :: "feature_source \<Rightarrow> string list \<Rightarrow> string + sequenceIssue list" where
  "detectMariaDBSequences source [] = Inr []"
| "detectMariaDBSequences source (databaseName # rest) =
     (case fs_sequences source databaseName of
        QueryError e \<Rightarrow> if isTableNotFoundError e then detectMariaDBSequences source rest else Inl e
      | ScanError e \<Rightarrow> Inl e
      | RowsError e \<Rightarrow> Inl e
      | Rows rows \<Rightarrow> bind_result (detectMariaDBSequences source rest) (\<lambda>issues. Inr (map sequence_issue rows @ issues)))"

text \<open>The names stand between backticks as they are.\<close>

definition show_table_query :: "string \<Rightarrow> string \<Rightarrow> string" where
  "show_table_query databaseName tableName =
     ''SHOW CREATE TABLE '' @ [backtick] @ databaseName @ [backtick] @ ''.'' @ [backtick] @ tableName @ [backtick]"

definition fetchShowCreateTable :: "feature_source \<Rightarrow> string \<Rightarrow> string \<Rightarrow> string + string" where
  "fetchShowCreateTable source databaseName tableName =
     (case fs_show source (show_table_query databaseName tableName) of
        ShowError e \<Rightarrow> Inl e
      | ShowRow n row \<Rightarrow>
          if n < 2 then Inl ''unexpected SHOW CREATE TABLE result format''
          else (case row of
                  None \<Rightarrow> Inl ''sql: no rows in result set''
                | Some (Inl e) \<Rightarrow> Inl e
                | Some (Inr cells) \<Rightarrow> (let stmt = TrimSpace (cells ! 1) in if stmt = '''' then Inl ''empty CREATE statement'' else Inr stmt)))"

definition versioned_issue :: "string \<Rightarrow> string \<Rightarrow> systemVersionedIssue" where
  "versioned_issue databaseName tableName =
     \<lparr>sv_Database = databaseName, sv_Table = tableName,
      sv_Proposal = ''Extract a plain-table representation or disable system versioning for '' @ databaseName @ ''.'' @ tableName
        @ '' before moving it outside a MariaDB-only lane.''\<rparr>"

fun versioned_tables :: "feature_source \<Rightarrow> string \<Rightarrow> string list \<Rightarrow> string + systemVersionedIssue list" where
  "versioned_tables source databaseName [] = Inr []"
| "versioned_tables source databaseName (tableName # tables) =
     bind_result (fetchShowCreateTable source databaseName tableName) (\<lambda>stmt.
     bind_result (versioned_tables source databaseName tables) (\<lambda>issues.
       Inr (if match_string systemVersioningClauseRe None stmt then versioned_issue databaseName tableName # issues else issues)))"

fun detectSystemVersionedTables :: "feature_source \<Rightarrow> string list \<Rightarrow> string + systemVersionedIssue list" where
  "detectSystemVersionedTables source [] = Inr []"
| "detectSystemVersionedTables source (databaseName # rest) =
     bind_result (rows_or_error (fs_tables source databaseName)) (\<lambda>tables.
     bind_result (versioned_tables source databaseName tables) (\<lambda>found.
     bind_result (detectSystemVersionedTables source rest) (\<lambda>issues. Inr (found @ issues))))"

section \<open>Findings\<close>

definition json_findings :: "Instance \<Rightarrow> Instance \<Rightarrow> jsonColumnIssue list \<Rightarrow> Finding list" where
  "json_findings source dest issues =
     (if issues = [] then []
      else finding ''cross_engine_json_columns_detected'' ''error''
             (''Detected '' @ show_nat (length issues) @ '' JSON column(s) in a cross-engine path ('' @ engine_text (in_Engine source) @ '' -> ''
               @ engine_text (in_Engine dest) @ '').'')
             (''Treat cross-engine JSON as incompatible in v1. Convert the affected columns to an agreed destination-safe ''
               @ ''representation or use an engine-compatible route.'')
           # map (\<lambda>i. finding ''cross_engine_json_column'' ''error''
               (''Cross-engine JSON column detected at '' @ js_Database i @ ''.'' @ js_Table i @ ''.'' @ js_Column i @ ''.'') (js_Proposal i)) issues)"

definition sequence_findings :: "Instance \<Rightarrow> sequenceIssue list \<Rightarrow> Finding list" where
  "sequence_findings dest issues =
     (let other = in_Engine dest \<noteq> EngineMariaDB; severity = (if other then ''error'' else ''warn'')
      in if issues = [] then []
         else (if other
               then finding ''mariadb_sequences_unsupported_on_destination'' severity
                      (''Detected '' @ show_nat (length issues) @ '' MariaDB sequence object(s) but destination engine is ''
                        @ engine_text (in_Engine dest) @ ''.'')
                      ''MariaDB sequences are incompatible on this destination in v1; replace or materialize them before migration.''
               else finding ''mariadb_sequences_detected'' severity
                      (''Detected '' @ show_nat (length issues) @ '' MariaDB sequence object(s) in selected scope.'')
                      ''Keep sequences inside MariaDB-only lanes or replace them with destination-compatible key generation before cutover.'')
              # map (\<lambda>i. finding ''mariadb_sequence_object'' severity
                  (''MariaDB sequence detected at '' @ sq_Database i @ ''.'' @ sq_Name i @ ''.'') (sq_Proposal i)) issues)"

definition versioned_findings :: "Instance \<Rightarrow> systemVersionedIssue list \<Rightarrow> Finding list" where
  "versioned_findings dest issues =
     (let other = in_Engine dest \<noteq> EngineMariaDB; severity = (if other then ''error'' else ''warn'')
      in if issues = [] then []
         else (if other
               then finding ''system_versioned_tables_unsupported_on_destination'' severity
                      (''Detected '' @ show_nat (length issues) @ '' system-versioned table(s) but destination engine is ''
                        @ engine_text (in_Engine dest) @ ''.'')
                      (''System-versioned MariaDB tables are incompatible on this destination in v1; convert them to plain tables or ''
                        @ ''extract history separately before migration.'')
               else finding ''system_versioned_tables_detected'' severity
                      (''Detected '' @ show_nat (length issues) @ '' system-versioned table(s) in selected scope.'')
                      (''Rehearse versioned-table behavior carefully; binlog/replication semantics can diverge even inside MariaDB lanes.''))
              # map (\<lambda>i. finding ''system_versioned_table'' severity
                  (''System-versioned table detected at '' @ sv_Database i @ ''.'' @ sv_Table i @ ''.'') (sv_Proposal i)) issues)"

definition buildSchemaFeaturePrecheckFindings :: "Instance \<Rightarrow> Instance \<Rightarrow> schemaFeaturePrecheckReport \<Rightarrow> Finding list" where
  "buildSchemaFeaturePrecheckFindings source dest report =
     (let findings = json_findings source dest (sf_JSONColumns report) @ sequence_findings dest (sf_Sequences report)
            @ versioned_findings dest (sf_SystemVersionedTables report)
      in if findings = []
         then [finding ''schema_feature_inventory_clean'' ''info''
                 ''No JSON cross-engine risk, MariaDB sequence objects, or system-versioned tables detected in selected scope.''
                 ''Proceed with the remaining v1 validation gates.'']
         else findings)"

section \<open>The precheck\<close>

definition feature_report :: "Instance \<Rightarrow> Instance \<Rightarrow> schemaFeaturePrecheckReport" where
  "feature_report sourceInstance destInstance =
     \<lparr>sf_Name = ''schema-features'', sf_Incompatible = False, sf_SourceVersion = in_RawVersion sourceInstance,
      sf_DestVersion = in_RawVersion destInstance, sf_JSONColumns = [], sf_Sequences = [], sf_SystemVersionedTables = [], sf_Findings = []\<rparr>"

definition finish_features :: "Instance \<Rightarrow> Instance \<Rightarrow> schemaFeaturePrecheckReport \<Rightarrow> schemaFeaturePrecheckReport" where
  "finish_features sourceInstance destInstance report =
     (let findings = buildSchemaFeaturePrecheckFindings sourceInstance destInstance report
      in report\<lparr>sf_Findings := findings, sf_Incompatible := has_error findings\<rparr>)"

definition json_step :: "feature_source \<Rightarrow> Instance \<Rightarrow> Instance \<Rightarrow> string list \<Rightarrow> string + jsonColumnIssue list" where
  "json_step source sourceInstance destInstance databases =
     (if in_Engine sourceInstance \<noteq> in_Engine destInstance then detectJSONColumns source databases else Inr [])"

definition runSchemaFeaturePrecheck ::
  "bool \<Rightarrow> feature_source \<Rightarrow> Instance \<Rightarrow> Instance \<Rightarrow> string list \<Rightarrow> string list \<Rightarrow> string option \<times> schemaFeaturePrecheckReport" where
  "runSchemaFeaturePrecheck connected source sourceInstance destInstance includeDatabases excludeDatabases =
     (let report = feature_report sourceInstance destInstance
      in if \<not> connected then (Some ''source connection is required'', report)
         else (case listSelectableDatabases (fs_schemata source) includeDatabases excludeDatabases of
                 Inl e \<Rightarrow> (Some e, report)
               | Inr [] \<Rightarrow> (None, report\<lparr>sf_Findings :=
                   [finding ''schema_feature_no_selected_databases'' ''info'' ''No user databases selected for schema feature inventory.''
                      ''Use --databases to narrow scope or rerun without filters to inventory all user schemas.'']\<rparr>)
               | Inr databases \<Rightarrow>
                   (case json_step source sourceInstance destInstance databases of
                      Inl e \<Rightarrow> (Some e, report)
                    | Inr jsonColumns \<Rightarrow>
                        (let report = report\<lparr>sf_JSONColumns := jsonColumns\<rparr>
                         in if in_Engine sourceInstance \<noteq> EngineMariaDB
                            then (None, finish_features sourceInstance destInstance report)
                            else (case detectMariaDBSequences source databases of
                                    Inl e \<Rightarrow> (Some e, report)
                                  | Inr sequences \<Rightarrow>
                                      (let report = report\<lparr>sf_Sequences := sequences\<rparr>
                                       in case detectSystemVersionedTables source databases of
                                            Inl e \<Rightarrow> (Some e, report)
                                          | Inr tables \<Rightarrow>
                                              (None, finish_features sourceInstance destInstance
                                                 (report\<lparr>sf_SystemVersionedTables := tables\<rparr>))))))))"
section \<open>When it refuses\<close>

lemma detectJSONColumns_any:
  "detectJSONColumns source ds = Inr issues \<Longrightarrow> issues \<noteq> [] \<longleftrightarrow> (\<exists>d \<in> set ds. answer_rows (fs_json source d) \<noteq> [])"
  by (induction ds arbitrary: issues) (auto simp: bind_result_Inr)

lemma detectMariaDBSequences_any:
  "detectMariaDBSequences source ds = Inr issues \<Longrightarrow> issues \<noteq> [] \<longleftrightarrow> (\<exists>d \<in> set ds. answer_rows (fs_sequences source d) \<noteq> [])"
proof (induction ds arbitrary: issues)
  case (Cons d ds)
  then show ?case by (cases "fs_sequences source d") (auto simp: bind_result_Inr split: if_splits)
qed auto

definition table_versioned :: "feature_source \<Rightarrow> string \<Rightarrow> string \<Rightarrow> bool" where
  "table_versioned source databaseName tableName =
     (case fetchShowCreateTable source databaseName tableName of
        Inl _ \<Rightarrow> False
      | Inr stmt \<Rightarrow> match_string systemVersioningClauseRe None stmt)"

lemma versioned_tables_any:
  "versioned_tables source d ts = Inr issues \<Longrightarrow> issues \<noteq> [] \<longleftrightarrow> (\<exists>t \<in> set ts. table_versioned source d t)"
  by (induction ts arbitrary: issues) (auto simp: bind_result_Inr table_versioned_def split: if_splits)

lemma detectSystemVersionedTables_any:
  "detectSystemVersionedTables source ds = Inr issues \<Longrightarrow>
     issues \<noteq> [] \<longleftrightarrow> (\<exists>d \<in> set ds. \<exists>t \<in> set (answer_rows (fs_tables source d)). table_versioned source d t)"
proof (induction ds arbitrary: issues)
  case (Cons d ds)
  from Cons.prems obtain tables found rest where "fs_tables source d = Rows tables" "versioned_tables source d tables = Inr found"
    "detectSystemVersionedTables source ds = Inr rest" "issues = found @ rest"
    by (auto simp: bind_result_Inr)
  then show ?case using versioned_tables_any [of source d tables found] Cons.IH [of rest] by auto
qed auto

lemma feature_findings_errors:
  "has_error (json_findings source dest js) \<longleftrightarrow> js \<noteq> []"
  "has_error (sequence_findings dest ss) \<longleftrightarrow> in_Engine dest \<noteq> EngineMariaDB \<and> ss \<noteq> []"
  "has_error (versioned_findings dest vs) \<longleftrightarrow> in_Engine dest \<noteq> EngineMariaDB \<and> vs \<noteq> []"
  by (auto simp: json_findings_def sequence_findings_def versioned_findings_def has_error_simps has_error_map Let_def)

lemma feature_findings_Nil:
  "json_findings source dest js = [] \<longleftrightarrow> js = []" "sequence_findings dest ss = [] \<longleftrightarrow> ss = []"
  "versioned_findings dest vs = [] \<longleftrightarrow> vs = []"
  by (simp_all add: json_findings_def sequence_findings_def versioned_findings_def Let_def)

text \<open>
  When the precheck for features ends without an error, it calls the migration
  incompatible exactly if a selected database of a source of the other engine has a column of type
  json, or a MariaDB source that moves to another engine shows a sequence or a table whose CREATE
  TABLE has the clause of system versioning. Sequences count only where the server has the table
  that lists them.
\<close>

theorem schema_feature_precheck_refuses:
  assumes "runSchemaFeaturePrecheck True source si di inc exc = (None, report)"
    and "fs_schemata source = Rows all" and "databases = SelectDatabases all inc exc" and "databases \<noteq> []"
  shows "sf_Incompatible report \<longleftrightarrow>
    in_Engine si \<noteq> in_Engine di \<and> (\<exists>d \<in> set databases. answer_rows (fs_json source d) \<noteq> []) \<or>
    in_Engine si = EngineMariaDB \<and> in_Engine di \<noteq> EngineMariaDB \<and>
      ((\<exists>d \<in> set databases. answer_rows (fs_sequences source d) \<noteq> []) \<or>
       (\<exists>d \<in> set databases. \<exists>t \<in> set (answer_rows (fs_tables source d)). table_versioned source d t))"
proof -
  have sel: "listSelectableDatabases (fs_schemata source) inc exc = Inr databases"
    using assms(2,3) by (simp add: listSelectableDatabases_def rows_or_error_def)
  obtain d ds where ds: "databases = d # ds" using assms(4) by (cases databases) auto
  obtain js where js: "json_step source si di databases = Inr js"
    using assms(1) sel ds by (cases "json_step source si di databases") (auto simp: runSchemaFeaturePrecheck_def)
  have js_any: "js \<noteq> [] \<longleftrightarrow> in_Engine si \<noteq> in_Engine di \<and> (\<exists>d \<in> set databases. answer_rows (fs_json source d) \<noteq> [])"
    using js detectJSONColumns_any [of source databases js] by (auto simp: json_step_def split: if_splits)
  have fin: "sf_Incompatible (finish_features si di r) \<longleftrightarrow> sf_JSONColumns r \<noteq> [] \<or>
      in_Engine di \<noteq> EngineMariaDB \<and> (sf_Sequences r \<noteq> [] \<or> sf_SystemVersionedTables r \<noteq> [])" for r
    by (auto simp: finish_features_def buildSchemaFeaturePrecheckFindings_def Let_def has_error_simps feature_findings_errors
        feature_findings_Nil)
  show ?thesis
  proof (cases "in_Engine si = EngineMariaDB")
    case False
    then have "report = finish_features si di (feature_report si di\<lparr>sf_JSONColumns := js\<rparr>)"
      using assms(1) sel js ds by (simp add: runSchemaFeaturePrecheck_def)
    then show ?thesis using False by (simp add: fin js_any feature_report_def)
  next
    case True
    then obtain ss vs where s: "detectMariaDBSequences source databases = Inr ss" "detectSystemVersionedTables source databases = Inr vs"
      "report = finish_features si di (feature_report si di\<lparr>sf_JSONColumns := js, sf_Sequences := ss, sf_SystemVersionedTables := vs\<rparr>)"
      using assms(1) sel js ds by (auto simp: runSchemaFeaturePrecheck_def Let_def split: sum.splits)
    show ?thesis
      using True detectMariaDBSequences_any [OF s(1)] detectSystemVersionedTables_any [OF s(2)]
      by (simp add: s(3) fin js_any)
  qed
qed

definition example_feature_source :: "string \<Rightarrow> feature_source" where
  "example_feature_source stmt =
     \<lparr>fs_schemata = Rows [''shop''], fs_json = (\<lambda>_. Rows []), fs_sequences = (\<lambda>_. QueryError ''Unknown table SEQUENCES''),
      fs_tables = (\<lambda>_. Rows [''t'']), fs_show = (\<lambda>_. ShowRow 2 (Some (Inr [''t'', stmt])))\<rparr>"

definition example_instance :: "Engine \<Rightarrow> Instance" where
  "example_instance engine = \<lparr>in_Engine = engine, in_RawVersion = ''v'', in_Major = 10, in_Minor = 11, in_Patch = 6, in_Parsed = True,
     in_Version = ''10.11.6''\<rparr>"

theorem schema_feature_precheck_refuses_witness:
  "sf_Incompatible (snd (runSchemaFeaturePrecheck True (example_feature_source ''CREATE TABLE t (i int) with system  versioning'')
     (example_instance EngineMariaDB) (example_instance EngineMySQL) [] []))"
proof -
  let ?source = "example_feature_source ''CREATE TABLE t (i int) with system  versioning''"
  have sel: "SelectDatabases [''shop''] [] [] = [''shop'']" by code_simp
  have v: "table_versioned ?source ''shop'' ''t''" by code_simp
  obtain err report where r: "runSchemaFeaturePrecheck True ?source (example_instance EngineMariaDB) (example_instance EngineMySQL) [] [] = (err, report)"
    by (metis prod.collapse)
  moreover have "fst (runSchemaFeaturePrecheck True ?source (example_instance EngineMariaDB) (example_instance EngineMySQL) [] []) = None"
    by code_simp
  ultimately have "runSchemaFeaturePrecheck True ?source (example_instance EngineMariaDB) (example_instance EngineMySQL) [] [] = (None, report)"
    by simp
  from schema_feature_precheck_refuses [OF this _ sel [symmetric]] show ?thesis
    using v r by (simp add: example_feature_source_def example_instance_def)
qed

section \<open>What it does not see\<close>

text \<open>A name with a backtick ends its quotes, and the query is about another table.\<close>

lemma backtick_in_table_name:
  assumes "backtick \<notin> set d" and "backtick \<notin> set a" and "b \<noteq> []" and "hd b \<noteq> backtick"
  shows "\<exists>query. show_table_query d (a @ backtick # b) = ''SHOW CREATE TABLE '' @ query \<and> scan_qualified query = Some (d, a, b @ [backtick])"
proof -
  have free: "backtick \<notin> set s \<Longrightarrow> quoteIdentifier s = backtick # s @ [backtick]" for s
    by (induction s) (auto simp: quoteIdentifier_def)
  have "scan_qualified (qualifiedTable d a @ b @ [backtick]) = Some (d, a, b @ [backtick])"
    using assms(3,4) by (intro scan_qualifiedTable) (cases b, auto)
  then show ?thesis
    using assms(1,2) by (intro exI [of _ "qualifiedTable d a @ b @ [backtick]"]) (simp add: show_table_query_def qualifiedTable_def free)
qed

text \<open>On a server without the table of sequences the inventory counts as clean.\<close>

lemma sequences_not_listed:
  "(\<And>d. d \<in> set ds \<Longrightarrow> \<exists>e. fs_sequences source d = QueryError e \<and> isTableNotFoundError e) \<Longrightarrow>
     detectMariaDBSequences source ds = Inr []"
  by (induction ds) (force split: query_result.split)+

end
