(* ===== verification/Precheck_Collation.thy ===== *)
theory Precheck_Collation
  imports Precheck_Identifier Precheck_Artifact
begin

text \<open>
  The precheck for collations (internal/commands/collation_precheck.go): what the destination
  supports, what the source uses, what is unsupported there or a risk for clients, and the report
  that it keeps in the state directory.
\<close>

section \<open>Data\<close>

record collationIssue =
  ci_Scope :: string
  ci_Database :: string
  ci_Table :: string
  ci_Column :: string
  ci_Collation :: string
  ci_Proposal :: string
  ci_RiskDetail :: string

record collationPrecheckReport =
  cp_Name :: string
  cp_Incompatible :: bool
  cp_SourceVersion :: string
  cp_DestVersion :: string
  cp_SourceServerCollation :: string
  cp_DestServerCollation :: string
  cp_DestinationSupportedCount :: int
  cp_UnsupportedDestinationCount :: int
  cp_ClientCompatibilityRiskCount :: int
  cp_UnsupportedDestination :: "collationIssue list"
  cp_ClientCompatibilityRisks :: "collationIssue list"
  cp_Findings :: "Finding list"

text \<open>
  What the servers answer: the version and the collation of the server of each side, the names in
  information_schema.COLLATIONS of the destination, and of the source the databases and, for the
  selected ones, the collations of schemas, tables and columns.
\<close>

record collation_side =
  cs_version :: "string + string"
  cs_serverCollation :: "string scalar"
  cs_collations :: "string query_result"

record collation_source = collation_side +
  cs_schemata :: "string query_result"
  cs_schemas :: "string list \<Rightarrow> (string \<times> string) query_result"
  cs_tables :: "string list \<Rightarrow> (string \<times> string \<times> string) query_result"
  cs_columns :: "string list \<Rightarrow> (string \<times> string \<times> string \<times> string) query_result"

section \<open>Queries\<close>

definition queryServerVersion :: "string + string \<Rightarrow> string + string" where
  "queryServerVersion answer =
     bind_result answer (\<lambda>out. if out = '''' then Inl ''empty VERSION() result'' else Inr out)"

definition queryServerCollation :: "string scalar \<Rightarrow> string + string" where
  "queryServerCollation answer = bind_result answer (\<lambda>v. Inr (TrimSpace (case v of None \<Rightarrow> '''' | Some s \<Rightarrow> s)))"

text \<open>The name of the server, or nothing when it cannot be read.\<close>

definition known_collation :: "string scalar \<Rightarrow> string" where
  "known_collation answer = (case queryServerCollation answer of Inl _ \<Rightarrow> '''' | Inr s \<Rightarrow> s)"

definition collation_key :: "string \<Rightarrow> string" where
  "collation_key name = TrimSpace (ToLower name)"

definition supported_names :: "string \<Rightarrow> string set" where
  "supported_names row =
     (let name = collation_key row
      in if name = '''' then {}
         else {name} \<union> (if HasPrefix name ''uca1400_'' then {''utf8mb4_'' @ name} else {})
           \<union> (if HasPrefix name ''utf8mb4_uca1400_'' then {drop (length ''utf8mb4_'') name} else {}))"

definition queryDestinationSupportedCollations :: "string query_result \<Rightarrow> string + string set" where
  "queryDestinationSupportedCollations answer =
     bind_result (rows_or_error answer) (\<lambda>rows. Inr (\<Union> (supported_names ` set rows)))"

definition collationProposal :: "string \<Rightarrow> string" where
  "collationProposal collation =
     (let name = collation_key collation
      in if HasPrefix name ''utf8mb4_0900_''
         then ''Map this MySQL 8.0/8.4 collation to an approved MariaDB-supported equivalent before cross-engine migration, and document the sort/comparison impact.''
         else if HasPrefix name ''utf8mb4_uca1400_'' \<or> HasPrefix name ''uca1400_''
         then ''Map this MariaDB UCA1400 collation to an approved MySQL-supported equivalent before cross-engine migration, and document the sort/comparison impact.''
         else ''Choose an equivalent collation supported by the destination and record the semantic change before migration.'')"

definition schema_item :: "string \<times> string \<Rightarrow> collationIssue" where
  "schema_item row =
     (case row of (d, c) \<Rightarrow>
        \<lparr>ci_Scope = ''schema'', ci_Database = d, ci_Table = '''', ci_Column = '''', ci_Collation = c,
         ci_Proposal = collationProposal c, ci_RiskDetail = ''''\<rparr>)"

definition table_item :: "string \<times> string \<times> string \<Rightarrow> collationIssue" where
  "table_item row =
     (case row of (d, t, c) \<Rightarrow>
        \<lparr>ci_Scope = ''table'', ci_Database = d, ci_Table = t, ci_Column = '''', ci_Collation = c,
         ci_Proposal = collationProposal c, ci_RiskDetail = ''''\<rparr>)"

definition column_item :: "string \<times> string \<times> string \<times> string \<Rightarrow> collationIssue" where
  "column_item row =
     (case row of (d, t, col, c) \<Rightarrow>
        \<lparr>ci_Scope = ''column'', ci_Database = d, ci_Table = t, ci_Column = col, ci_Collation = c,
         ci_Proposal = collationProposal c, ci_RiskDetail = ''''\<rparr>)"

text \<open>The rows of one of the three queries; an error of the query itself is labelled.\<close>

definition labelled_rows :: "string \<Rightarrow> 'a query_result \<Rightarrow> string + 'a list" where
  "labelled_rows label answer =
     (case answer of QueryError e \<Rightarrow> Inl (label @ '': '' @ e) | ScanError e \<Rightarrow> Inl e | RowsError e \<Rightarrow> Inl e | Rows rows \<Rightarrow> Inr rows)"

definition item_order :: "collationIssue \<Rightarrow> string \<times> string \<times> string \<times> string \<times> string" where
  "item_order i = (ci_Scope i, ci_Database i, ci_Table i, ci_Column i, ci_Collation i)"

definition querySourceCollationItems :: "collation_source \<Rightarrow> string list \<Rightarrow> string + collationIssue list" where
  "querySourceCollationItems source databases =
     bind_result (labelled_rows ''query source schema collations'' (cs_schemas source databases)) (\<lambda>schemas.
     bind_result (labelled_rows ''query source table collations'' (cs_tables source databases)) (\<lambda>tables.
     bind_result (labelled_rows ''query source column collations'' (cs_columns source databases)) (\<lambda>columns.
       Inr (sort_key item_order (map schema_item schemas @ map table_item tables @ map column_item columns)))))"

section \<open>What is found\<close>

definition issue_key :: "collationIssue \<Rightarrow> string" where
  "issue_key i = Join [ci_Scope i, ci_Database i, ci_Table i, ci_Column i, ci_Collation i, ci_RiskDetail i] ''|''"

text \<open>The loop with the keys that were seen.\<close>

fun dedupe_items :: "string set \<Rightarrow> collationIssue list \<Rightarrow> collationIssue list" where
  "dedupe_items seen [] = []"
| "dedupe_items seen (item # items) =
     (if issue_key item \<in> seen then dedupe_items seen items else item # dedupe_items (insert (issue_key item) seen) items)"

definition dedupeCollationIssues :: "collationIssue list \<Rightarrow> collationIssue list" where
  "dedupeCollationIssues items = dedupe_items {} items"

definition unsupported_item :: "string set \<Rightarrow> collationIssue \<Rightarrow> bool" where
  "unsupported_item supported item = (collation_key (ci_Collation item) \<noteq> '''' \<and> collation_key (ci_Collation item) \<notin> supported)"

definition detectUnsupportedDestinationCollations :: "collationIssue list \<Rightarrow> string set \<Rightarrow> collationIssue list" where
  "detectUnsupportedDestinationCollations sourceItems supported =
     dedupeCollationIssues (map (\<lambda>item. item\<lparr>ci_RiskDetail := ''server_unsupported''\<rparr>) (filter (unsupported_item supported) sourceItems))"

definition collationHasClientCompatibilityRisk :: "string \<Rightarrow> bool" where
  "collationHasClientCompatibilityRisk name =
     (HasPrefix (collation_key name) ''utf8mb4_uca1400_'' \<or> HasPrefix (collation_key name) ''uca1400_'')"

definition clientCompatibilityProposal :: "string \<Rightarrow> string" where
  "clientCompatibilityProposal collation =
     ''Representative CLIs may still connect, but application stacks can lag behind '' @ collation
     @ ''. Record driver/library versions, rehearse connection startup, and choose a mutually understood connection collation if needed.''"

definition server_item :: "string \<Rightarrow> string \<Rightarrow> collationIssue list" where
  "server_item scope collation =
     (if collationHasClientCompatibilityRisk collation
      then [\<lparr>ci_Scope = scope, ci_Database = '''', ci_Table = '''', ci_Column = '''', ci_Collation = collation,
             ci_Proposal = clientCompatibilityProposal collation, ci_RiskDetail = ''client_compatibility''\<rparr>]
      else [])"

definition detectClientCompatibilityRisks :: "collationIssue list \<Rightarrow> string \<Rightarrow> string \<Rightarrow> collationIssue list" where
  "detectClientCompatibilityRisks sourceItems sourceServerCollation destServerCollation =
     dedupeCollationIssues
       (map (\<lambda>item. item\<lparr>ci_RiskDetail := ''client_compatibility'', ci_Proposal := clientCompatibilityProposal (ci_Collation item)\<rparr>)
          (filter (\<lambda>item. collationHasClientCompatibilityRisk (ci_Collation item)) sourceItems)
        @ server_item ''source-server'' sourceServerCollation @ server_item ''dest-server'' destServerCollation)"

section \<open>Findings\<close>

definition describeCollationIssue :: "collationIssue \<Rightarrow> string \<Rightarrow> string" where
  "describeCollationIssue issue pre =
     (let location =
        (if ci_Scope issue = ''schema'' then ''schema '' @ ci_Database issue
         else if ci_Scope issue = ''table'' then ''table '' @ ci_Database issue @ ''.'' @ ci_Table issue
         else if ci_Scope issue = ''column'' then ''column '' @ ci_Database issue @ ''.'' @ ci_Table issue @ ''.'' @ ci_Column issue
         else if ci_Scope issue = ''source-server'' then ''source server default collation''
         else if ci_Scope issue = ''dest-server'' then ''destination server default collation''
         else ci_Scope issue)
      in pre @ '' '' @ location @ '' collation '' @ go_quote (ci_Collation issue) @ ''.'')"

definition unsupported_findings :: "collationPrecheckReport \<Rightarrow> Finding list" where
  "unsupported_findings report =
     (if cp_UnsupportedDestinationCount report > 0
      then finding ''unsupported_destination_collations_detected'' ''error''
             (''Detected '' @ show_int (cp_UnsupportedDestinationCount report)
               @ '' source collation reference(s) that are unsupported on the destination server.'')
             ''Rewrite unsupported collations to approved destination equivalents before migrate. Treat this as a server-side incompatibility, not a client quirk.''
           # map (\<lambda>issue. finding ''unsupported_destination_collation'' ''error''
               (describeCollationIssue issue ''Destination server does not support'') (ci_Proposal issue)) (cp_UnsupportedDestination report)
      else [])"

definition client_findings :: "collationPrecheckReport \<Rightarrow> Finding list" where
  "client_findings report =
     (if cp_ClientCompatibilityRiskCount report > 0
      then finding ''client_collation_compatibility_risk_detected'' ''warn''
             (''Detected '' @ show_int (cp_ClientCompatibilityRiskCount report)
               @ '' collation reference(s) that are known client-compatibility risks even when the server itself accepts them.'')
             ''Separate server-side support from client/library risk in cutover planning. Rehearse representative clients and record connection-init assumptions.''
           # map (\<lambda>issue. finding ''client_collation_compatibility_risk'' ''warn''
               (describeCollationIssue issue ''Server accepts but some clients may not understand'') (ci_Proposal issue))
               (cp_ClientCompatibilityRisks report)
      else [])"

definition buildCollationPrecheckFindings :: "collationPrecheckReport \<Rightarrow> Finding list" where
  "buildCollationPrecheckFindings report =
     (let findings = unsupported_findings report @ client_findings report
      in if findings = []
         then [finding ''collation_inventory_clean'' ''info''
                 ''Selected source databases did not reveal unsupported destination collations or known client-compatibility collation families.''
                 ''Keep collation inventory artifacts anyway. Connection-time and schema-time collation failures should stay explicit in cutover evidence.'']
         else findings)"


section \<open>The report in the state directory\<close>

definition issue_fields :: "collationIssue \<Rightarrow> (string \<times> bool \<times> json) list" where
  "issue_fields i = [
     (''scope'', False, JStr (ci_Scope i)),
     (''database'', ci_Database i = '''', JStr (ci_Database i)),
     (''table'', ci_Table i = '''', JStr (ci_Table i)),
     (''column'', ci_Column i = '''', JStr (ci_Column i)),
     (''collation'', False, JStr (ci_Collation i)),
     (''proposal'', False, JStr (ci_Proposal i)),
     (''risk_detail'', ci_RiskDetail i = '''', JStr (ci_RiskDetail i))]"

definition enc_issue :: "collationIssue \<Rightarrow> json" where
  "enc_issue i = struct (issue_fields i)"

definition dec_issue :: "json \<Rightarrow> collationIssue option" where
  "dec_issue = dec_obj (\<lambda>o'.
     bindo (dec_str (get ''scope'' o')) (\<lambda>a1.
     bindo (dec_str (get ''database'' o')) (\<lambda>a2.
     bindo (dec_str (get ''table'' o')) (\<lambda>a3.
     bindo (dec_str (get ''column'' o')) (\<lambda>a4.
     bindo (dec_str (get ''collation'' o')) (\<lambda>a5.
     bindo (dec_str (get ''proposal'' o')) (\<lambda>a6.
     bindo (dec_str (get ''risk_detail'' o')) (\<lambda>a7.
       Some \<lparr>ci_Scope = a1, ci_Database = a2, ci_Table = a3, ci_Column = a4, ci_Collation = a5, ci_Proposal = a6,
         ci_RiskDetail = a7\<rparr>))))))))"

definition collation_fields :: "collationPrecheckReport \<Rightarrow> (string \<times> bool \<times> json) list" where
  "collation_fields r = [
     (''name'', False, JStr (cp_Name r)),
     (''incompatible'', False, JBool (cp_Incompatible r)),
     (''source_version'', False, JStr (cp_SourceVersion r)),
     (''dest_version'', False, JStr (cp_DestVersion r)),
     (''source_server_collation'', cp_SourceServerCollation r = '''', JStr (cp_SourceServerCollation r)),
     (''dest_server_collation'', cp_DestServerCollation r = '''', JStr (cp_DestServerCollation r)),
     (''destination_supported_collation_count'', False, JNum (cp_DestinationSupportedCount r)),
     (''unsupported_destination_count'', False, JNum (cp_UnsupportedDestinationCount r)),
     (''client_compatibility_risk_count'', False, JNum (cp_ClientCompatibilityRiskCount r)),
     (''unsupported_destination'', cp_UnsupportedDestination r = [], JArr (map enc_issue (cp_UnsupportedDestination r))),
     (''client_compatibility_risks'', cp_ClientCompatibilityRisks r = [], JArr (map enc_issue (cp_ClientCompatibilityRisks r))),
     (''findings'', cp_Findings r = [], JArr (map enc_finding (cp_Findings r)))]"

definition enc_collation :: "collationPrecheckReport \<Rightarrow> json" where
  "enc_collation r = struct (collation_fields r)"

definition dec_collation :: "json \<Rightarrow> collationPrecheckReport option" where
  "dec_collation = dec_obj (\<lambda>o'.
     bindo (dec_str (get ''name'' o')) (\<lambda>a1.
     bindo (dec_bool (get ''incompatible'' o')) (\<lambda>a2.
     bindo (dec_str (get ''source_version'' o')) (\<lambda>a3.
     bindo (dec_str (get ''dest_version'' o')) (\<lambda>a4.
     bindo (dec_str (get ''source_server_collation'' o')) (\<lambda>a5.
     bindo (dec_str (get ''dest_server_collation'' o')) (\<lambda>a6.
     bindo (dec_int (get ''destination_supported_collation_count'' o')) (\<lambda>a7.
     bindo (dec_int (get ''unsupported_destination_count'' o')) (\<lambda>a8.
     bindo (dec_int (get ''client_compatibility_risk_count'' o')) (\<lambda>a9.
     bindo (dec_list dec_issue (get ''unsupported_destination'' o')) (\<lambda>a10.
     bindo (dec_list dec_issue (get ''client_compatibility_risks'' o')) (\<lambda>a11.
     bindo (dec_list dec_finding (get ''findings'' o')) (\<lambda>a12.
       Some \<lparr>cp_Name = a1, cp_Incompatible = a2, cp_SourceVersion = a3, cp_DestVersion = a4, cp_SourceServerCollation = a5,
         cp_DestServerCollation = a6, cp_DestinationSupportedCount = a7, cp_UnsupportedDestinationCount = a8,
         cp_ClientCompatibilityRiskCount = a9, cp_UnsupportedDestination = a10, cp_ClientCompatibilityRisks = a11,
         cp_Findings = a12\<rparr>)))))))))))))"

text \<open>The counts are Go integers.\<close>

definition valid_collation :: "collationPrecheckReport \<Rightarrow> bool" where
  "valid_collation r = (is_int64 (cp_DestinationSupportedCount r) \<and> is_int64 (cp_UnsupportedDestinationCount r) \<and>
     is_int64 (cp_ClientCompatibilityRiskCount r))"

lemma issue_fields_distinct: "distinct (map fst (issue_fields i))"
  by (simp add: issue_fields_def)

lemma dec_enc_issue [simp]: "dec_issue (enc_issue i) = Some i"
  unfolding dec_issue_def enc_issue_def dec_struct get_present [OF issue_fields_distinct]
  by (simp add: issue_fields_def)

lemma collation_fields_distinct: "distinct (map fst (collation_fields r))"
  by (simp add: collation_fields_def)

lemma dec_enc_collation: "valid_collation r \<Longrightarrow> dec_collation (enc_collation r) = Some r"
  unfolding dec_collation_def enc_collation_def dec_struct get_present [OF collation_fields_distinct] valid_collation_def
  by (simp add: collation_fields_def dec_omitted_list del: dec_list.simps dec_int.simps)

interpretation collation_store: artifact_store enc_collation dec_collation valid_collation
  by unfold_locales (rule dec_enc_collation)

definition collationPrecheckArtifactPath :: "string \<Rightarrow> string" where
  "collationPrecheckArtifactPath stateDir = artifact_path ''collation-precheck.json'' stateDir"

definition cleanupCollationPrecheckArtifact :: "string option \<Rightarrow> string \<Rightarrow> fs \<Rightarrow> string option \<times> fs" where
  "cleanupCollationPrecheckArtifact removeErr stateDir fs =
     remove_file ''collation precheck artifact'' removeErr (collationPrecheckArtifactPath stateDir) fs"

definition persistCollationPrecheckArtifact ::
  "write_env \<Rightarrow> string option \<Rightarrow> string \<Rightarrow> collationPrecheckReport \<Rightarrow> fs \<Rightarrow> string option \<times> fs" where
  "persistCollationPrecheckArtifact env removeErr stateDir report fs =
     (if cp_Findings report = [] \<and> cp_UnsupportedDestinationCount report = 0 \<and> cp_ClientCompatibilityRiskCount report = 0
      then cleanupCollationPrecheckArtifact removeErr stateDir fs
      else persist_artifact ''collation precheck artifact'' enc_collation env (collationPrecheckArtifactPath stateDir) report fs)"

definition loadCollationPrecheckArtifact :: "string option \<Rightarrow> string \<Rightarrow> fs \<Rightarrow> string + collationPrecheckReport" where
  "loadCollationPrecheckArtifact readErr stateDir fs =
     load_artifact ''collation precheck artifact'' dec_collation readErr (collationPrecheckArtifactPath stateDir) fs"

section \<open>The precheck\<close>

definition collation_report :: collationPrecheckReport where
  "collation_report =
     \<lparr>cp_Name = ''collation-compatibility'', cp_Incompatible = False, cp_SourceVersion = '''', cp_DestVersion = '''',
      cp_SourceServerCollation = '''', cp_DestServerCollation = '''', cp_DestinationSupportedCount = 0,
      cp_UnsupportedDestinationCount = 0, cp_ClientCompatibilityRiskCount = 0, cp_UnsupportedDestination = [],
      cp_ClientCompatibilityRisks = [], cp_Findings = []\<rparr>"

definition inventory_collations :: "collationIssue list \<Rightarrow> string set \<Rightarrow> collationPrecheckReport \<Rightarrow> collationPrecheckReport" where
  "inventory_collations sourceItems supported report =
     (let report = report\<lparr>cp_UnsupportedDestination := detectUnsupportedDestinationCollations sourceItems supported,
            cp_ClientCompatibilityRisks :=
              detectClientCompatibilityRisks sourceItems (cp_SourceServerCollation report) (cp_DestServerCollation report)\<rparr>;
          report = report\<lparr>cp_UnsupportedDestinationCount := int (length (cp_UnsupportedDestination report)),
            cp_ClientCompatibilityRiskCount := int (length (cp_ClientCompatibilityRisks report))\<rparr>;
          report = report\<lparr>cp_Incompatible := cp_UnsupportedDestinationCount report > 0\<rparr>
      in report\<lparr>cp_Findings := buildCollationPrecheckFindings report\<rparr>)"

definition runCollationPrecheck ::
  "write_env \<Rightarrow> string option \<Rightarrow> collation_source \<Rightarrow> collation_side \<Rightarrow> string \<Rightarrow> string list \<Rightarrow> string list \<Rightarrow> fs
     \<Rightarrow> string option \<times> collationPrecheckReport \<times> fs" where
  "runCollationPrecheck env removeErr source dest stateDir includeDatabases excludeDatabases fs =
     (let report = collation_report
      in case queryServerVersion (cs_version source) of
           Inl e \<Rightarrow> (Some (''detect source version: '' @ e), report, fs)
         | Inr sourceVersion \<Rightarrow>
      (case queryServerVersion (cs_version dest) of
           Inl e \<Rightarrow> (Some (''detect destination version: '' @ e), report, fs)
         | Inr destVersion \<Rightarrow>
      (let report = report\<lparr>cp_SourceVersion := sourceVersion, cp_DestVersion := destVersion,
             cp_SourceServerCollation := known_collation (cs_serverCollation source),
             cp_DestServerCollation := known_collation (cs_serverCollation dest)\<rparr>
      in case queryDestinationSupportedCollations (cs_collations dest) of
           Inl e \<Rightarrow> (Some (''query destination supported collations: '' @ e), report, fs)
         | Inr supportedCollations \<Rightarrow>
      (let report = report\<lparr>cp_DestinationSupportedCount := int (card supportedCollations)\<rparr>
      in case rows_or_error (cs_schemata source) of
           Inl e \<Rightarrow> (Some (''list source databases: '' @ e), report, fs)
         | Inr allDatabases \<Rightarrow>
      (let selectedDatabases = SelectDatabases allDatabases includeDatabases excludeDatabases
      in if selectedDatabases = []
         then (case cleanupCollationPrecheckArtifact removeErr stateDir fs of
                 (Some e, fs') \<Rightarrow> (Some e, report, fs')
               | (None, fs') \<Rightarrow>
                   (None, report\<lparr>cp_Findings := cp_Findings report @
                      [finding ''collation_precheck_no_selected_databases'' ''info''
                         ''No source databases selected for collation inventory.''
                         ''Set --databases or verify include/exclude filters if collation compatibility should be checked for a partial migration scope.'']\<rparr>, fs'))
         else (case querySourceCollationItems source selectedDatabases of
                 Inl e \<Rightarrow> (Some e, report, fs)
               | Inr sourceItems \<Rightarrow>
                   (let report = inventory_collations sourceItems supportedCollations report
                    in case persistCollationPrecheckArtifact env removeErr stateDir report fs of
                         (err, fs') \<Rightarrow> (err, report, fs'))))))))"

section \<open>When it refuses\<close>

lemma dedupe_items_Nil: "dedupe_items {} items = [] \<longleftrightarrow> items = []"
  by (cases items) auto

lemma dedupe_items_keys: "issue_key ` set (dedupe_items seen items) = issue_key ` set items - seen"
  by (induction seen items rule: dedupe_items.induct) auto

lemma dedupe_items_distinct: "distinct (map issue_key (dedupe_items seen items)) \<and> issue_key ` set (dedupe_items seen items) \<inter> seen = {}"
proof (induction seen items rule: dedupe_items.induct)
  case (2 seen item items)
  then show ?case by (cases "issue_key item \<in> seen") auto
qed simp

text \<open>
  Two columns whose names hold the separator count as one: the second is not in the report.
\<close>

lemma separator_in_names:
  assumes "i = \<lparr>ci_Scope = ''column'', ci_Database = ''d'', ci_Table = ''t'', ci_Column = ''a|b'', ci_Collation = c,
      ci_Proposal = p, ci_RiskDetail = r\<rparr>"
    and "j = \<lparr>ci_Scope = ''column'', ci_Database = ''d'', ci_Table = ''t|a'', ci_Column = ''b'', ci_Collation = c,
      ci_Proposal = p, ci_RiskDetail = r\<rparr>"
  shows "dedupeCollationIssues [i, j] = [i]"
  by (simp add: assms dedupeCollationIssues_def issue_key_def)

lemma describe_severity:
  "has_error (unsupported_findings report) \<longleftrightarrow> cp_UnsupportedDestinationCount report > 0" "\<not> has_error (client_findings report)"
  by (auto simp: unsupported_findings_def client_findings_def has_error_simps has_error_map)

lemma findings_have_error:
  "has_error (buildCollationPrecheckFindings report) \<longleftrightarrow> cp_UnsupportedDestinationCount report > 0"
  by (simp add: buildCollationPrecheckFindings_def Let_def has_error_simps describe_severity)
    (auto simp: unsupported_findings_def)

lemma buildCollation_not_Nil: "buildCollationPrecheckFindings report \<noteq> []"
  by (simp add: buildCollationPrecheckFindings_def Let_def)

text \<open>The collations that the selected databases use.\<close>

definition used_collations :: "collation_source \<Rightarrow> string list \<Rightarrow> string set" where
  "used_collations source databases =
     snd ` set (answer_rows (cs_schemas source databases)) \<union>
     (snd \<circ> snd) ` set (answer_rows (cs_tables source databases)) \<union>
     (snd \<circ> snd \<circ> snd) ` set (answer_rows (cs_columns source databases))"

lemma labelled_rows_Inr: "labelled_rows label answer = Inr rows \<longleftrightarrow> answer = Rows rows"
  by (cases answer) (auto simp: labelled_rows_def)

lemma item_collations [simp]:
  "ci_Collation (schema_item a) = snd a" "ci_Collation (table_item b) = snd (snd b)" "ci_Collation (column_item c) = snd (snd (snd c))"
  by (simp_all add: schema_item_def table_item_def column_item_def split: prod.splits)

lemma source_items_used:
  "querySourceCollationItems source databases = Inr items \<Longrightarrow> ci_Collation ` set items = used_collations source databases"
  by (simp add: querySourceCollationItems_def bind_result_Inr labelled_rows_Inr used_collations_def)
    (elim exE conjE, hypsubst, simp add: image_Un image_image comp_def Un_assoc)

lemma unsupported_found:
  "detectUnsupportedDestinationCollations items supported = [] \<longleftrightarrow>
     (\<forall>c \<in> ci_Collation ` set items. collation_key c = '''' \<or> collation_key c \<in> supported)"
  by (auto simp: detectUnsupportedDestinationCollations_def dedupeCollationIssues_def dedupe_items_Nil filter_empty_conv unsupported_item_def)

lemma inventory_refuses:
  "cp_Incompatible (inventory_collations items supported report) \<longleftrightarrow>
     (\<exists>c \<in> ci_Collation ` set items. collation_key c \<noteq> '''' \<and> collation_key c \<notin> supported)"
  "has_error (cp_Findings (inventory_collations items supported report)) = cp_Incompatible (inventory_collations items supported report)"
  "cp_Findings (inventory_collations items supported report) \<noteq> []"
  by (auto simp: inventory_collations_def Let_def findings_have_error buildCollation_not_Nil unsupported_found)

text \<open>The errors that end the precheck before it writes; what is left of a run without one.\<close>

lemma runCollationPrecheck_done:
  assumes "runCollationPrecheck env removeErr source dest stateDir inc exc fs = (None, report, fs')"
    and "cs_schemata source = Rows all" and "SelectDatabases all inc exc \<noteq> []"
  shows "\<exists>items supported start. querySourceCollationItems source (SelectDatabases all inc exc) = Inr items \<and>
    queryDestinationSupportedCollations (cs_collations dest) = Inr supported \<and>
    report = inventory_collations items supported start \<and>
    persist_artifact ''collation precheck artifact'' enc_collation env (collationPrecheckArtifactPath stateDir) report fs = (None, fs')"
  using assms inventory_refuses(3)
  by (auto simp: runCollationPrecheck_def Let_def rows_or_error_def persistCollationPrecheckArtifact_def split: sum.splits if_splits prod.splits)

lemma supported_rows:
  "queryDestinationSupportedCollations (cs_collations dest) = Inr supported \<Longrightarrow>
     supported = \<Union> (supported_names ` set (answer_rows (cs_collations dest)))"
  by (cases "cs_collations dest") (auto simp: queryDestinationSupportedCollations_def rows_or_error_def)

lemma collation_incompatible:
  assumes "runCollationPrecheck env removeErr source dest stateDir inc exc fs = (None, report, fs')"
    and "cs_schemata source = Rows all" and "SelectDatabases all inc exc \<noteq> []"
  shows "cp_Incompatible report = (\<exists>c \<in> used_collations source (SelectDatabases all inc exc). collation_key c \<noteq> '''' \<and>
      (\<forall>name \<in> set (answer_rows (cs_collations dest)). collation_key c \<notin> supported_names name))"
    and "has_error (cp_Findings report) = cp_Incompatible report"
    and "persist_artifact ''collation precheck artifact'' enc_collation env (collationPrecheckArtifactPath stateDir) report fs = (None, fs')"
proof -
  obtain items supported start where run: "querySourceCollationItems source (SelectDatabases all inc exc) = Inr items"
      "queryDestinationSupportedCollations (cs_collations dest) = Inr supported" "report = inventory_collations items supported start"
    and kept: "persist_artifact ''collation precheck artifact'' enc_collation env (collationPrecheckArtifactPath stateDir) report fs = (None, fs')"
    using runCollationPrecheck_done [OF assms] by metis
  show "cp_Incompatible report = (\<exists>c \<in> used_collations source (SelectDatabases all inc exc). collation_key c \<noteq> '''' \<and>
      (\<forall>name \<in> set (answer_rows (cs_collations dest)). collation_key c \<notin> supported_names name))"
    "has_error (cp_Findings report) = cp_Incompatible report"
    unfolding run(3) inventory_refuses(1,2) source_items_used [OF run(1)] supported_rows [OF run(2)] by simp_all
  show "persist_artifact ''collation precheck artifact'' enc_collation env (collationPrecheckArtifactPath stateDir) report fs = (None, fs')"
    by (rule kept)
qed

text \<open>
  Claim C20. When the precheck of collations ends without an error for some selected databases, it
  calls the migration incompatible exactly if a schema, table or column of them uses a collation
  that the destination does not list, in the one or the other form of a UCA 14.0.0 name; then and
  only then a finding has the severity error; and the report is what a later command loads from the
  state directory.
\<close>

theorem collation_precheck_refuses:
  assumes "runCollationPrecheck env removeErr source dest stateDir inc exc fs = (None, report, fs')"
    and "cs_schemata source = Rows all" and "SelectDatabases all inc exc \<noteq> []"
    and "we_tmp env \<noteq> collationPrecheckArtifactPath stateDir" and "valid_collation report"
  shows "cp_Incompatible report = (\<exists>c \<in> used_collations source (SelectDatabases all inc exc). collation_key c \<noteq> '''' \<and>
      (\<forall>name \<in> set (answer_rows (cs_collations dest)). collation_key c \<notin> supported_names name)) \<and>
    has_error (cp_Findings report) = cp_Incompatible report \<and>
    loadCollationPrecheckArtifact None stateDir fs' = Inr report"
  using collation_incompatible [OF assms(1-3)] collation_store.load_persisted [OF collation_incompatible(3) [OF assms(1-3)] assms(4,5)]
  by (simp add: loadCollationPrecheckArtifact_def)

definition example_collations :: collation_source where
  "example_collations =
     \<lparr>cs_version = Inr ''8.0.36'', cs_serverCollation = Inl ''no'', cs_collations = Rows [], cs_schemata = Rows [''shop''],
      cs_schemas = (\<lambda>_. Rows [(''shop'', ''utf8mb4_0900_ai_ci'')]), cs_tables = (\<lambda>_. Rows []), cs_columns = (\<lambda>_. Rows [])\<rparr>"

definition example_collation_dest :: collation_side where
  "example_collation_dest =
     \<lparr>cs_version = Inr ''11.4.2-MariaDB'', cs_serverCollation = Inl ''no'', cs_collations = Rows [''utf8mb4_general_ci'', ''uca1400_ai_ci'']\<rparr>"

theorem collation_precheck_refuses_witness:
  "\<exists>report fs'. runCollationPrecheck (no_faults ''state/tmp'') None example_collations example_collation_dest ''state'' [] [] Map.empty
       = (None, report, fs') \<and>
     cp_Incompatible report \<and> loadCollationPrecheckArtifact None ''state'' fs' = Inr report"
proof -
  let ?run = "runCollationPrecheck (no_faults ''state/tmp'') None example_collations example_collation_dest ''state'' [] [] Map.empty"
  let ?item = "schema_item (''shop'', ''utf8mb4_0900_ai_ci'')"
  let ?supported = "supported_names ''utf8mb4_general_ci'' \<union> supported_names ''uca1400_ai_ci''"
  let ?start = "collation_report\<lparr>cp_SourceVersion := ''8.0.36'', cp_DestVersion := ''11.4.2-MariaDB'',
      cp_DestinationSupportedCount := int (card ?supported)\<rparr>"
  let ?report = "inventory_collations [?item] ?supported ?start"
  have sel: "SelectDatabases [''shop''] [] [] = [''shop'']"
    and path: "collationPrecheckArtifactPath ''state'' = ''state/collation-precheck.json''"
    and key: "collation_key ''utf8mb4_0900_ai_ci'' = ''utf8mb4_0900_ai_ci''"
    and names: "supported_names ''utf8mb4_general_ci'' = {''utf8mb4_general_ci''}"
      "supported_names ''uca1400_ai_ci'' = {''uca1400_ai_ci'', ''utf8mb4_uca1400_ai_ci''}"
    by code_simp+
  have risks: "\<not> collationHasClientCompatibilityRisk ''utf8mb4_0900_ai_ci''" "\<not> collationHasClientCompatibilityRisk ''''" by code_simp+
  have "fst ?run = None" "fst (snd ?run) = ?report"
    using sel
    by (simp_all add: runCollationPrecheck_def collation_report_def example_collations_def example_collation_dest_def rows_or_error_def
        queryServerVersion_def queryDestinationSupportedCollations_def querySourceCollationItems_def labelled_rows_def known_collation_def
        queryServerCollation_def persistCollationPrecheckArtifact_def inventory_refuses(3) persist_artifact_def WritePrivateFileAtomic_def
        EnsurePrivateDir_def no_faults_def Let_def)
  then obtain fs' where run: "?run = (None, ?report, fs')" by (metis prod.collapse)
  have unsupported: "unsupported_item ?supported ?item" using key by (simp add: unsupported_item_def names)
  have bad: "cp_Incompatible ?report" using key by (simp add: inventory_refuses(1) names)
  have "valid_collation ?report" using unsupported risks
    by (simp add: valid_collation_def inventory_collations_def Let_def detectUnsupportedDestinationCollations_def names is_int64_def
        detectClientCompatibilityRisks_def dedupeCollationIssues_def collation_report_def server_item_def)
  moreover have "cs_schemata example_collations = Rows [''shop'']" "SelectDatabases [''shop''] [] [] \<noteq> []"
    "we_tmp (no_faults ''state/tmp'') \<noteq> collationPrecheckArtifactPath ''state''"
    using sel path by (simp_all add: example_collations_def no_faults_def)
  ultimately show ?thesis using collation_precheck_refuses [OF run] run bad by metis
qed

end
