(* ===== verification/Precheck_Plugin.thy ===== *)
theory Precheck_Plugin
  imports Precheck_Identifier Precheck_Artifact
begin

text \<open>
  The precheck for authentication plugins and storage engines (internal/commands/plugin_precheck.go):
  the accounts and tables of the source against the plugins and engines of the destination, and the
  report that it keeps in the state directory.
\<close>

section \<open>Data\<close>

record accountPluginIssue =
  pa_User :: string
  pa_Host :: string
  pa_Plugin :: string
  pa_AccountClass :: string
  pa_Proposal :: string

record storageEngineIssue =
  pe_Database :: string
  pe_Table :: string
  pe_Engine :: string
  pe_DestinationSupport :: string
  pe_Proposal :: string

record pluginLifecyclePrecheckReport =
  pl_Name :: string
  pl_Incompatible :: bool
  pl_SourceAccountCount :: int
  pl_SourceTableCount :: int
  pl_DestinationPluginCount :: int
  pl_DestinationEngineCount :: int
  pl_DestinationSQLMode :: string
  pl_NoEngineSubstitution :: bool
  pl_DefaultAuthenticationPluginVariablePresent :: bool
  pl_DestinationDefaultAuthenticationPlugin :: string
  pl_UnsupportedAuthPlugins :: "accountPluginIssue list"
  pl_UnsupportedStorageEngines :: "storageEngineIssue list"
  pl_Findings :: "Finding list"

record sourceAccountPlugin =
  sa_User :: string
  sa_Host :: string
  sa_Plugin :: string

record sourceTableEngine =
  se_Database :: string
  se_Table :: string
  se_Engine :: string

text \<open>What the two servers answer; a NULL is None.\<close>

record plugin_source =
  ps_accounts :: "(string \<times> string \<times> string) query_result"
  ps_schemata :: "string query_result"
  ps_tables :: "string list \<Rightarrow> (string \<times> string \<times> string option) query_result"

record plugin_dest =
  pd_sqlMode :: "string scalar"
  pd_defaultAuth :: "string scalar"
  pd_plugins :: "(string \<times> string option) query_result"
  pd_engines :: "(string \<times> string option) query_result"

section \<open>Inventories\<close>

definition null_text :: "string option \<Rightarrow> string" where
  "null_text v = (case v of None \<Rightarrow> '''' | Some s \<Rightarrow> s)"

definition normalizeInventoryToken :: "string \<Rightarrow> string" where
  "normalizeInventoryToken v = ToLower (TrimSpace v)"

definition pluginStatusEnabled :: "string \<Rightarrow> bool" where
  "pluginStatusEnabled status = (ToUpper (TrimSpace status) \<in> {''ACTIVE'', ''ENABLED''})"

definition engineSupportEnabled :: "string \<Rightarrow> bool" where
  "engineSupportEnabled status = (ToUpper (TrimSpace status) \<in> {''YES'', ''DEFAULT''})"

definition queryDefaultAuthenticationPlugin :: "string scalar \<Rightarrow> string \<times> bool \<times> string option" where
  "queryDefaultAuthenticationPlugin answer =
     (case answer of Inl e \<Rightarrow> ('''', False, Some e) | Inr v \<Rightarrow> (TrimSpace (null_text v), True, None))"

definition source_account :: "string \<times> string \<times> string \<Rightarrow> sourceAccountPlugin" where
  "source_account row = (case row of (u, h, p) \<Rightarrow> \<lparr>sa_User = u, sa_Host = h, sa_Plugin = normalizeInventoryToken p\<rparr>)"

definition querySourceAccountPlugins :: "(string \<times> string \<times> string) query_result \<Rightarrow> string + sourceAccountPlugin list" where
  "querySourceAccountPlugins answer =
     bind_result (rows_or_error answer) (\<lambda>rows. Inr (filter (\<lambda>a. sa_Plugin a \<noteq> '''') (map source_account rows)))"

definition queryDestinationPlugins :: "(string \<times> string option) query_result \<Rightarrow> string + string set" where
  "queryDestinationPlugins answer =
     bind_result (rows_or_error answer) (\<lambda>rows.
       Inr (set (map (\<lambda>(name, _). normalizeInventoryToken name) (filter (\<lambda>(_, status). pluginStatusEnabled (null_text status)) rows))))"

definition inventory_table :: "string \<times> string \<times> string option \<Rightarrow> sourceTableEngine" where
  "inventory_table row = (case row of (d, t, e) \<Rightarrow> \<lparr>se_Database = d, se_Table = t, se_Engine = normalizeInventoryToken (null_text e)\<rparr>)"

definition querySourceTableEngines :: "plugin_source \<Rightarrow> string list \<Rightarrow> string + sourceTableEngine list" where
  "querySourceTableEngines source databases =
     bind_result (rows_or_error (ps_tables source databases)) (\<lambda>rows. Inr (filter (\<lambda>t. se_Engine t \<noteq> '''') (map inventory_table rows)))"

definition engine_map :: "(string \<times> string option) list \<Rightarrow> string \<rightharpoonup> string" where
  "engine_map rows = map_of (rev (map (\<lambda>(engine, support). (normalizeInventoryToken engine, ToUpper (TrimSpace (null_text support)))) rows))"

text \<open>The map of engines with its length, the number of different keys.\<close>

definition queryDestinationEngines :: "(string \<times> string option) query_result \<Rightarrow> string + (string \<rightharpoonup> string) \<times> nat" where
  "queryDestinationEngines answer =
     bind_result (rows_or_error answer) (\<lambda>rows.
       Inr (engine_map rows, card (set (map (\<lambda>(engine, _). normalizeInventoryToken engine) rows))))"

section \<open>What is found\<close>

definition classifyAccount :: "string \<Rightarrow> string" where
  "classifyAccount user =
     (let u = ToLower (TrimSpace user)
      in if u \<in> {''mysql.session'', ''mysql.sys'', ''mysql.infoschema'', ''mariadb.sys'', ''mysqlxsys''} then ''system''
         else if u \<in> {''root'', ''healthcheck''} then ''administrative''
         else ''user-managed'')"

definition authPluginProposal :: "string \<Rightarrow> string" where
  "authPluginProposal plugin =
     (let p = normalizeInventoryToken plugin
      in if p = ''mysql_native_password''
         then ''Rewrite accounts away from mysql_native_password before cutover or recreate them manually with a destination-supported plugin.''
         else if p = ''caching_sha2_password''
         then ''Confirm the destination and every client in scope supports caching_sha2_password; otherwise rewrite or reset credentials deliberately.''
         else if p \<in> {''ed25519'', ''client_ed25519''}
         then ''MariaDB ed25519 auth plugin is not available on MySQL. Rewrite affected accounts to caching_sha2_password or mysql_native_password before cross-engine migration.''
         else if p \<in> {''unix_socket'', ''auth_socket''}
         then ''Do not copy socket-authenticated accounts blindly across hosts. Recreate them with an explicit destination-local authentication strategy.''
         else ''Normalize account plugins before cutover or recreate the affected accounts manually on the destination.'')"

definition storageEngineProposal :: "string \<Rightarrow> string" where
  "storageEngineProposal engine =
     (let e = normalizeInventoryToken engine
      in if e = ''aria''
         then ''Convert Aria tables to a destination-supported engine such as InnoDB before migration, or keep them out of scope for this run.''
         else if e \<in> {''federated'', ''connect''}
         then ''Treat plugin-backed external tables as unsupported for ordinary logical migration. Replace them with destination-native equivalents or exclude them.''
         else ''Convert '' @ engine @ '' tables to a destination-supported engine before migration, or enable the engine explicitly if that is an approved target configuration.'')"

definition account_issue :: "sourceAccountPlugin \<Rightarrow> accountPluginIssue" where
  "account_issue a =
     \<lparr>pa_User = sa_User a, pa_Host = sa_Host a, pa_Plugin = sa_Plugin a, pa_AccountClass = classifyAccount (sa_User a),
      pa_Proposal = authPluginProposal (sa_Plugin a)\<rparr>"

definition detectUnsupportedAuthPlugins :: "sourceAccountPlugin list \<Rightarrow> string set \<Rightarrow> accountPluginIssue list" where
  "detectUnsupportedAuthPlugins source destPlugins =
     (if source = [] \<or> destPlugins = {} then []
      else sort_key (\<lambda>i. (pa_User i, pa_Host i, pa_Plugin i)) (map account_issue (filter (\<lambda>a. sa_Plugin a \<notin> destPlugins) source)))"

definition engine_usable :: "(string \<rightharpoonup> string) \<Rightarrow> string \<Rightarrow> bool" where
  "engine_usable destEngines engine = (case destEngines engine of None \<Rightarrow> False | Some support \<Rightarrow> engineSupportEnabled support)"

definition engine_issue :: "(string \<rightharpoonup> string) \<Rightarrow> sourceTableEngine \<Rightarrow> storageEngineIssue" where
  "engine_issue destEngines t =
     \<lparr>pe_Database = se_Database t, pe_Table = se_Table t, pe_Engine = se_Engine t,
      pe_DestinationSupport = (case destEngines (se_Engine t) of None \<Rightarrow> ''MISSING'' | Some support \<Rightarrow> support),
      pe_Proposal = storageEngineProposal (se_Engine t)\<rparr>"

definition detectUnsupportedStorageEngines :: "sourceTableEngine list \<Rightarrow> (string \<rightharpoonup> string) \<times> nat \<Rightarrow> storageEngineIssue list" where
  "detectUnsupportedStorageEngines sourceTables destEngines =
     (if sourceTables = [] \<or> snd destEngines = 0 then []
      else sort_key (\<lambda>i. (pe_Database i, pe_Table i))
             (map (engine_issue (fst destEngines)) (filter (\<lambda>t. \<not> engine_usable (fst destEngines) (se_Engine t)) sourceTables)))"

section \<open>Findings\<close>

definition buildAuthPluginFindings :: "accountPluginIssue list \<Rightarrow> Finding list" where
  "buildAuthPluginFindings issues =
     (if issues = [] then []
      else finding ''unsupported_auth_plugins_detected'' ''warn''
             (''Detected '' @ show_nat (length issues) @ '' source account(s) using auth plugins that are not active on the destination.'')
             ''Review the detailed account list and normalize plugins before any user/grant migration or account recreation step.''
           # map (\<lambda>i. finding ''unsupported_auth_plugin_account'' ''warn''
               (''Source account '' @ go_quote (pa_User i) @ ''@'' @ go_quote (pa_Host i) @ '' ('' @ pa_AccountClass i @ '') uses auth plugin ''
                 @ go_quote (pa_Plugin i) @ '', which is not active on the destination.'') (pa_Proposal i)) issues)"

definition buildStorageEngineFindings :: "storageEngineIssue list \<Rightarrow> bool \<Rightarrow> Finding list" where
  "buildStorageEngineFindings issues noEngineSubstitution =
     (if issues = [] then []
      else finding ''unsupported_storage_engines_detected'' ''error''
             (''Detected '' @ show_nat (length issues) @ '' source table(s) whose storage engine is not supported on the destination.'')
             (if \<not> noEngineSubstitution
              then ''Convert or exclude the affected tables before rerunning plan/migrate, and enable NO_ENGINE_SUBSTITUTION to prevent silent engine fallback.''
              else ''Convert or exclude the affected tables before rerunning plan/migrate.'')
           # map (\<lambda>i. finding ''unsupported_storage_engine_table'' ''error''
               (''Source table '' @ pe_Database i @ ''.'' @ pe_Table i @ '' uses engine '' @ go_quote (pe_Engine i)
                 @ '', but destination support is '' @ go_quote (pe_DestinationSupport i) @ ''.'') (pe_Proposal i)) issues)"

section \<open>The report in the state directory\<close>

definition account_fields :: "accountPluginIssue \<Rightarrow> (string \<times> bool \<times> json) list" where
  "account_fields i = [
     (''user'', False, JStr (pa_User i)),
     (''host'', False, JStr (pa_Host i)),
     (''plugin'', False, JStr (pa_Plugin i)),
     (''account_class'', False, JStr (pa_AccountClass i)),
     (''proposal'', False, JStr (pa_Proposal i))]"

definition enc_account :: "accountPluginIssue \<Rightarrow> json" where
  "enc_account i = struct (account_fields i)"

definition dec_account :: "json \<Rightarrow> accountPluginIssue option" where
  "dec_account = dec_obj (\<lambda>o'.
     bindo (dec_str (get ''user'' o')) (\<lambda>a1.
     bindo (dec_str (get ''host'' o')) (\<lambda>a2.
     bindo (dec_str (get ''plugin'' o')) (\<lambda>a3.
     bindo (dec_str (get ''account_class'' o')) (\<lambda>a4.
     bindo (dec_str (get ''proposal'' o')) (\<lambda>a5.
       Some \<lparr>pa_User = a1, pa_Host = a2, pa_Plugin = a3, pa_AccountClass = a4, pa_Proposal = a5\<rparr>))))))"

definition engine_fields :: "storageEngineIssue \<Rightarrow> (string \<times> bool \<times> json) list" where
  "engine_fields i = [
     (''database'', False, JStr (pe_Database i)),
     (''table'', False, JStr (pe_Table i)),
     (''engine'', False, JStr (pe_Engine i)),
     (''destination_support'', False, JStr (pe_DestinationSupport i)),
     (''proposal'', False, JStr (pe_Proposal i))]"

definition enc_engine :: "storageEngineIssue \<Rightarrow> json" where
  "enc_engine i = struct (engine_fields i)"

definition dec_engine :: "json \<Rightarrow> storageEngineIssue option" where
  "dec_engine = dec_obj (\<lambda>o'.
     bindo (dec_str (get ''database'' o')) (\<lambda>a1.
     bindo (dec_str (get ''table'' o')) (\<lambda>a2.
     bindo (dec_str (get ''engine'' o')) (\<lambda>a3.
     bindo (dec_str (get ''destination_support'' o')) (\<lambda>a4.
     bindo (dec_str (get ''proposal'' o')) (\<lambda>a5.
       Some \<lparr>pe_Database = a1, pe_Table = a2, pe_Engine = a3, pe_DestinationSupport = a4, pe_Proposal = a5\<rparr>))))))"

definition plugin_fields :: "pluginLifecyclePrecheckReport \<Rightarrow> (string \<times> bool \<times> json) list" where
  "plugin_fields r = [
     (''name'', False, JStr (pl_Name r)),
     (''incompatible'', False, JBool (pl_Incompatible r)),
     (''source_account_count'', False, JNum (pl_SourceAccountCount r)),
     (''source_table_count'', False, JNum (pl_SourceTableCount r)),
     (''destination_plugin_count'', False, JNum (pl_DestinationPluginCount r)),
     (''destination_engine_count'', False, JNum (pl_DestinationEngineCount r)),
     (''destination_sql_mode'', pl_DestinationSQLMode r = '''', JStr (pl_DestinationSQLMode r)),
     (''no_engine_substitution'', False, JBool (pl_NoEngineSubstitution r)),
     (''default_authentication_plugin_variable_present'', False, JBool (pl_DefaultAuthenticationPluginVariablePresent r)),
     (''destination_default_authentication_plugin'', pl_DestinationDefaultAuthenticationPlugin r = '''',
        JStr (pl_DestinationDefaultAuthenticationPlugin r)),
     (''unsupported_auth_plugins'', pl_UnsupportedAuthPlugins r = [], JArr (map enc_account (pl_UnsupportedAuthPlugins r))),
     (''unsupported_storage_engines'', pl_UnsupportedStorageEngines r = [], JArr (map enc_engine (pl_UnsupportedStorageEngines r))),
     (''findings'', pl_Findings r = [], JArr (map enc_finding (pl_Findings r)))]"

definition enc_plugin :: "pluginLifecyclePrecheckReport \<Rightarrow> json" where
  "enc_plugin r = struct (plugin_fields r)"

definition dec_plugin :: "json \<Rightarrow> pluginLifecyclePrecheckReport option" where
  "dec_plugin = dec_obj (\<lambda>o'.
     bindo (dec_str (get ''name'' o')) (\<lambda>a1.
     bindo (dec_bool (get ''incompatible'' o')) (\<lambda>a2.
     bindo (dec_int (get ''source_account_count'' o')) (\<lambda>a3.
     bindo (dec_int (get ''source_table_count'' o')) (\<lambda>a4.
     bindo (dec_int (get ''destination_plugin_count'' o')) (\<lambda>a5.
     bindo (dec_int (get ''destination_engine_count'' o')) (\<lambda>a6.
     bindo (dec_str (get ''destination_sql_mode'' o')) (\<lambda>a7.
     bindo (dec_bool (get ''no_engine_substitution'' o')) (\<lambda>a8.
     bindo (dec_bool (get ''default_authentication_plugin_variable_present'' o')) (\<lambda>a9.
     bindo (dec_str (get ''destination_default_authentication_plugin'' o')) (\<lambda>a10.
     bindo (dec_list dec_account (get ''unsupported_auth_plugins'' o')) (\<lambda>a11.
     bindo (dec_list dec_engine (get ''unsupported_storage_engines'' o')) (\<lambda>a12.
     bindo (dec_list dec_finding (get ''findings'' o')) (\<lambda>a13.
       Some \<lparr>pl_Name = a1, pl_Incompatible = a2, pl_SourceAccountCount = a3, pl_SourceTableCount = a4, pl_DestinationPluginCount = a5,
         pl_DestinationEngineCount = a6, pl_DestinationSQLMode = a7, pl_NoEngineSubstitution = a8,
         pl_DefaultAuthenticationPluginVariablePresent = a9, pl_DestinationDefaultAuthenticationPlugin = a10,
         pl_UnsupportedAuthPlugins = a11, pl_UnsupportedStorageEngines = a12, pl_Findings = a13\<rparr>))))))))))))))"

definition valid_plugin :: "pluginLifecyclePrecheckReport \<Rightarrow> bool" where
  "valid_plugin r = (is_int64 (pl_SourceAccountCount r) \<and> is_int64 (pl_SourceTableCount r) \<and>
     is_int64 (pl_DestinationPluginCount r) \<and> is_int64 (pl_DestinationEngineCount r))"

lemma account_fields_distinct: "distinct (map fst (account_fields i))"
  by (simp add: account_fields_def)

lemma dec_enc_account [simp]: "dec_account (enc_account i) = Some i"
  unfolding dec_account_def enc_account_def dec_struct get_present [OF account_fields_distinct]
  by (simp add: account_fields_def)

lemma engine_fields_distinct: "distinct (map fst (engine_fields i))"
  by (simp add: engine_fields_def)

lemma dec_enc_engine [simp]: "dec_engine (enc_engine i) = Some i"
  unfolding dec_engine_def enc_engine_def dec_struct get_present [OF engine_fields_distinct]
  by (simp add: engine_fields_def)

lemma plugin_fields_distinct: "distinct (map fst (plugin_fields r))"
  by (simp add: plugin_fields_def)

lemma dec_enc_plugin: "valid_plugin r \<Longrightarrow> dec_plugin (enc_plugin r) = Some r"
  unfolding dec_plugin_def enc_plugin_def dec_struct get_present [OF plugin_fields_distinct] valid_plugin_def
  by (simp add: plugin_fields_def dec_omitted_list del: dec_list.simps dec_int.simps)

interpretation plugin_store: artifact_store enc_plugin dec_plugin valid_plugin
  by unfold_locales (rule dec_enc_plugin)

definition pluginLifecyclePrecheckArtifactPath :: "string \<Rightarrow> string" where
  "pluginLifecyclePrecheckArtifactPath stateDir = artifact_path ''plugin-lifecycle-precheck.json'' stateDir"

definition persistPluginLifecyclePrecheckArtifact ::
  "write_env \<Rightarrow> string option \<Rightarrow> string \<Rightarrow> pluginLifecyclePrecheckReport \<Rightarrow> fs \<Rightarrow> string option \<times> fs" where
  "persistPluginLifecyclePrecheckArtifact env mkdirErr stateDir report fs =
     (case mkdirErr of
        Some e \<Rightarrow> (Some (''mkdir state-dir for plugin lifecycle precheck artifact: '' @ e), fs)
      | None \<Rightarrow> persist_artifact ''plugin lifecycle precheck artifact'' enc_plugin env (pluginLifecyclePrecheckArtifactPath stateDir) report fs)"

definition loadPluginLifecyclePrecheckArtifact :: "string option \<Rightarrow> string \<Rightarrow> fs \<Rightarrow> string + pluginLifecyclePrecheckReport" where
  "loadPluginLifecyclePrecheckArtifact readErr stateDir fs =
     load_artifact ''plugin lifecycle precheck artifact'' dec_plugin readErr (pluginLifecyclePrecheckArtifactPath stateDir) fs"

section \<open>The precheck\<close>

definition plugin_report :: pluginLifecyclePrecheckReport where
  "plugin_report =
     \<lparr>pl_Name = ''plugin-lifecycle'', pl_Incompatible = False, pl_SourceAccountCount = 0, pl_SourceTableCount = 0,
      pl_DestinationPluginCount = 0, pl_DestinationEngineCount = 0, pl_DestinationSQLMode = '''', pl_NoEngineSubstitution = False,
      pl_DefaultAuthenticationPluginVariablePresent = False, pl_DestinationDefaultAuthenticationPlugin = '''',
      pl_UnsupportedAuthPlugins = [], pl_UnsupportedStorageEngines = [], pl_Findings = []\<rparr>"

definition add_findings :: "Finding list \<Rightarrow> pluginLifecyclePrecheckReport \<Rightarrow> pluginLifecyclePrecheckReport" where
  "add_findings findings report = report\<lparr>pl_Findings := pl_Findings report @ findings\<rparr>"

definition sql_mode_step :: "plugin_dest \<Rightarrow> pluginLifecyclePrecheckReport \<Rightarrow> pluginLifecyclePrecheckReport" where
  "sql_mode_step dest report =
     (case querySQLMode (pd_sqlMode dest) of
        Inl e \<Rightarrow> add_findings
          [finding ''destination_sql_mode_inventory_unavailable'' ''warn''
             (''Unable to read destination sql_mode during plugin/engine precheck: '' @ e @ ''.'')
             ''Review destination sql_mode manually, especially NO_ENGINE_SUBSTITUTION, before claiming engine compatibility.''] report
      | Inr sqlMode \<Rightarrow>
          (let report = report\<lparr>pl_DestinationSQLMode := sqlMode, pl_NoEngineSubstitution := sqlModeContains sqlMode ''NO_ENGINE_SUBSTITUTION''\<rparr>
           in if pl_NoEngineSubstitution report then report
              else add_findings
                [finding ''destination_no_engine_substitution_disabled'' ''warn''
                   ''Destination sql_mode does not include NO_ENGINE_SUBSTITUTION; unsupported source engines may silently map to a different engine.''
                   ''Enable NO_ENGINE_SUBSTITUTION before migration and keep failing on unsupported source engines instead of relying on engine fallback.'']
                report))"

definition default_auth_step :: "plugin_dest \<Rightarrow> pluginLifecyclePrecheckReport \<Rightarrow> pluginLifecyclePrecheckReport" where
  "default_auth_step dest report =
     (case queryDefaultAuthenticationPlugin (pd_defaultAuth dest) of (plugin, isPresent, err) \<Rightarrow>
        (let report = report\<lparr>pl_DefaultAuthenticationPluginVariablePresent := isPresent, pl_DestinationDefaultAuthenticationPlugin := plugin\<rparr>
         in case err of
              None \<Rightarrow> report
            | Some e \<Rightarrow> add_findings
                [finding ''destination_default_auth_plugin_variable_unavailable'' ''warn''
                   (''Destination default_authentication_plugin variable is unavailable: '' @ e @ ''.'')
                   ''Do not rely on default_authentication_plugin introspection alone. Inventory INFORMATION_SCHEMA.PLUGINS and normalize account plugins explicitly.'']
                report))"

definition accounts_step :: "plugin_source \<Rightarrow> plugin_dest \<Rightarrow> pluginLifecyclePrecheckReport \<Rightarrow> pluginLifecyclePrecheckReport" where
  "accounts_step source dest report =
     (let accounts = querySourceAccountPlugins (ps_accounts source);
          plugins = queryDestinationPlugins (pd_plugins dest);
          report = (case accounts of
             Inl e \<Rightarrow> add_findings
               [finding ''source_auth_plugin_inventory_unavailable'' ''warn''
                  (''Unable to inventory source account plugins from mysql.user: '' @ e @ ''.'')
                  ''Grant metadata access for account inventory or review source users manually before any user/grant migration step.''] report
           | Inr as \<Rightarrow> report\<lparr>pl_SourceAccountCount := int (length as)\<rparr>);
          report = (case plugins of
             Inl e \<Rightarrow> add_findings
               [finding ''destination_plugin_inventory_unavailable'' ''warn''
                  (''Unable to inventory destination plugins from INFORMATION_SCHEMA.PLUGINS: '' @ e @ ''.'')
                  ''Review plugin availability manually before migrating users, grants, or plugin-backed objects.''] report
           | Inr ps \<Rightarrow> report\<lparr>pl_DestinationPluginCount := int (card ps)\<rparr>)
      in case (accounts, plugins) of
           (Inr as, Inr ps) \<Rightarrow>
             (let report = report\<lparr>pl_UnsupportedAuthPlugins := detectUnsupportedAuthPlugins as ps\<rparr>
              in add_findings (buildAuthPluginFindings (pl_UnsupportedAuthPlugins report)) report)
         | _ \<Rightarrow> report)"

definition engines_step ::
  "sourceTableEngine list \<Rightarrow> (string \<rightharpoonup> string) \<times> nat \<Rightarrow> pluginLifecyclePrecheckReport \<Rightarrow> pluginLifecyclePrecheckReport" where
  "engines_step sourceTables destEngines report =
     (let report = report\<lparr>pl_DestinationEngineCount := int (snd destEngines),
            pl_UnsupportedStorageEngines := detectUnsupportedStorageEngines sourceTables destEngines\<rparr>;
          report = (if pl_UnsupportedStorageEngines report \<noteq> [] then report\<lparr>pl_Incompatible := True\<rparr> else report);
          report = add_findings (buildStorageEngineFindings (pl_UnsupportedStorageEngines report) (pl_NoEngineSubstitution report)) report
      in if pl_UnsupportedAuthPlugins report = [] \<and> pl_UnsupportedStorageEngines report = []
         then add_findings
           [finding ''plugin_lifecycle_inventory_clean'' ''info''
              ''Auth plugin inventory and selected table-engine inventory did not reveal unsupported destination dependencies.''
              ''Keep the rehearsal artifacts anyway. Plugin and engine inventories are evidence, not a reason to skip verification.''] report
         else report)"

definition runPluginLifecyclePrecheck ::
  "write_env \<Rightarrow> string option \<Rightarrow> plugin_source \<Rightarrow> plugin_dest \<Rightarrow> string \<Rightarrow> string list \<Rightarrow> string list \<Rightarrow> fs
     \<Rightarrow> string option \<times> pluginLifecyclePrecheckReport \<times> fs" where
  "runPluginLifecyclePrecheck env mkdirErr source dest stateDir includeDatabases excludeDatabases fs =
     (let report = accounts_step source dest (default_auth_step dest (sql_mode_step dest plugin_report))
      in case rows_or_error (ps_schemata source) of
           Inl e \<Rightarrow> (Some (''list source databases: '' @ e), report, fs)
         | Inr allDatabases \<Rightarrow>
             (let selectedDatabases = SelectDatabases allDatabases includeDatabases excludeDatabases
              in if selectedDatabases = []
                 then (None, add_findings
                        [finding ''plugin_lifecycle_no_selected_databases'' ''info'' ''No source databases selected for engine inventory.''
                           ''Set --databases or verify include/exclude filters if engine compatibility should be checked for a partial migration scope.'']
                        report, fs)
                 else (case querySourceTableEngines source selectedDatabases of
                         Inl e \<Rightarrow> (Some (''query source table engines: '' @ e), report, fs)
                       | Inr sourceTables \<Rightarrow>
                           (let report = report\<lparr>pl_SourceTableCount := int (length sourceTables)\<rparr>
                            in case queryDestinationEngines (pd_engines dest) of
                                 Inl e \<Rightarrow> (Some (''query destination engines: '' @ e), report, fs)
                               | Inr destEngines \<Rightarrow>
                                   (let report = engines_step sourceTables destEngines report
                                    in case persistPluginLifecyclePrecheckArtifact env mkdirErr stateDir report fs of
                                         (err, fs') \<Rightarrow> (err, report, fs'))))))"

section \<open>When it refuses\<close>

text \<open>What the steps before the engines add are warnings; they leave what the engines decide.\<close>

lemma add_findings_simps [simp]:
  "pl_Findings (add_findings fs r) = pl_Findings r @ fs" "pl_Incompatible (add_findings fs r) = pl_Incompatible r"
  "pl_UnsupportedStorageEngines (add_findings fs r) = pl_UnsupportedStorageEngines r"
  "pl_UnsupportedAuthPlugins (add_findings fs r) = pl_UnsupportedAuthPlugins r"
  "pl_NoEngineSubstitution (add_findings fs r) = pl_NoEngineSubstitution r"
  by (simp_all add: add_findings_def)

lemma auth_findings_warn: "\<not> has_error (buildAuthPluginFindings issues)"
  by (simp add: buildAuthPluginFindings_def has_error_simps has_error_map)

lemma storage_findings_error: "has_error (buildStorageEngineFindings issues sub) \<longleftrightarrow> issues \<noteq> []"
  by (simp add: buildStorageEngineFindings_def has_error_simps)

lemma sql_mode_step_warns:
  "has_error (pl_Findings (sql_mode_step dest r)) = has_error (pl_Findings r)" "pl_Incompatible (sql_mode_step dest r) = pl_Incompatible r"
  by (simp_all add: sql_mode_step_def Let_def has_error_simps split: sum.splits)

lemma default_auth_step_warns:
  "has_error (pl_Findings (default_auth_step dest r)) = has_error (pl_Findings r)"
  "pl_Incompatible (default_auth_step dest r) = pl_Incompatible r"
  by (simp_all add: default_auth_step_def Let_def has_error_simps split: prod.splits option.splits)

lemma accounts_step_warns:
  "has_error (pl_Findings (accounts_step source dest r)) = has_error (pl_Findings r)"
  "pl_Incompatible (accounts_step source dest r) = pl_Incompatible r"
  by (simp_all add: accounts_step_def Let_def has_error_simps auth_findings_warn split: sum.splits)

lemma engines_step_refuses:
  assumes "\<not> pl_Incompatible r" and "\<not> has_error (pl_Findings r)"
  shows "pl_Incompatible (engines_step tables engines r) \<longleftrightarrow> detectUnsupportedStorageEngines tables engines \<noteq> []"
    and "has_error (pl_Findings (engines_step tables engines r)) \<longleftrightarrow> detectUnsupportedStorageEngines tables engines \<noteq> []"
  using assms by (simp_all add: engines_step_def Let_def has_error_simps storage_findings_error)

lemma unsupported_engines:
  "detectUnsupportedStorageEngines tables engines \<noteq> [] \<longleftrightarrow>
     snd engines \<noteq> 0 \<and> (\<exists>t \<in> set tables. \<not> engine_usable (fst engines) (se_Engine t))"
  by (auto simp: detectUnsupportedStorageEngines_def sort_key_Nil filter_empty_conv)

lemma queryDestinationEngines_rows:
  assumes "queryDestinationEngines answer = Inr engines"
  shows "engines = (engine_map (answer_rows answer), card (set (map (\<lambda>(engine, _). normalizeInventoryToken engine) (answer_rows answer))))"
  using assms by (cases answer) (simp_all add: queryDestinationEngines_def rows_or_error_def)

lemma runPlugin_done:
  assumes "runPluginLifecyclePrecheck env mkdirErr source dest stateDir inc exc fs = (None, report, fs')"
    and "ps_schemata source = Rows all" and "SelectDatabases all inc exc \<noteq> []"
  shows "\<exists>tables engines start. querySourceTableEngines source (SelectDatabases all inc exc) = Inr tables \<and>
    queryDestinationEngines (pd_engines dest) = Inr engines \<and> report = engines_step tables engines start \<and>
    \<not> pl_Incompatible start \<and> \<not> has_error (pl_Findings start) \<and>
    persist_artifact ''plugin lifecycle precheck artifact'' enc_plugin env (pluginLifecyclePrecheckArtifactPath stateDir) report fs = (None, fs')"
proof -
  let ?steps = "accounts_step source dest (default_auth_step dest (sql_mode_step dest plugin_report))"
  obtain tables engines where q: "querySourceTableEngines source (SelectDatabases all inc exc) = Inr tables"
      "queryDestinationEngines (pd_engines dest) = Inr engines"
    and r: "report = engines_step tables engines (?steps\<lparr>pl_SourceTableCount := int (length tables)\<rparr>)"
    and p: "persistPluginLifecyclePrecheckArtifact env mkdirErr stateDir report fs = (None, fs')"
    using assms by (auto simp: runPluginLifecyclePrecheck_def Let_def rows_or_error_def split: sum.splits prod.splits)
  have "\<not> pl_Incompatible ?steps" "\<not> has_error (pl_Findings ?steps)"
    by (simp_all add: accounts_step_warns default_auth_step_warns sql_mode_step_warns plugin_report_def has_error_simps)
  moreover have "persist_artifact ''plugin lifecycle precheck artifact'' enc_plugin env (pluginLifecyclePrecheckArtifactPath stateDir) report fs
      = (None, fs')"
    using p by (simp add: persistPluginLifecyclePrecheckArtifact_def split: option.splits)
  ultimately show ?thesis using q r by (intro exI [of _ tables] exI [of _ engines]) auto
qed

lemma plugin_incompatible:
  assumes "runPluginLifecyclePrecheck env mkdirErr source dest stateDir inc exc fs = (None, report, fs')"
    and "ps_schemata source = Rows all" and "SelectDatabases all inc exc \<noteq> []"
  shows "pl_Incompatible report = (answer_rows (pd_engines dest) \<noteq> [] \<and>
      (\<exists>(d, t, e) \<in> set (answer_rows (ps_tables source (SelectDatabases all inc exc))).
         normalizeInventoryToken (null_text e) \<noteq> '''' \<and>
         \<not> engine_usable (engine_map (answer_rows (pd_engines dest))) (normalizeInventoryToken (null_text e))))"
    and "has_error (pl_Findings report) = pl_Incompatible report"
    and "persist_artifact ''plugin lifecycle precheck artifact'' enc_plugin env (pluginLifecyclePrecheckArtifactPath stateDir) report fs = (None, fs')"
proof -
  obtain tables engines start where q: "querySourceTableEngines source (SelectDatabases all inc exc) = Inr tables"
      "queryDestinationEngines (pd_engines dest) = Inr engines" and r: "report = engines_step tables engines start"
    and start: "\<not> pl_Incompatible start" "\<not> has_error (pl_Findings start)"
    and kept: "persist_artifact ''plugin lifecycle precheck artifact'' enc_plugin env (pluginLifecyclePrecheckArtifactPath stateDir) report fs = (None, fs')"
    using runPlugin_done [OF assms] by metis
  have "tables = filter (\<lambda>t. se_Engine t \<noteq> '''') (map inventory_table (answer_rows (ps_tables source (SelectDatabases all inc exc))))"
    using q(1) by (cases "ps_tables source (SelectDatabases all inc exc)") (auto simp: querySourceTableEngines_def rows_or_error_def)
  then have "(\<exists>t \<in> set tables. \<not> engine_usable m (se_Engine t)) \<longleftrightarrow>
      (\<exists>(d, t, e) \<in> set (answer_rows (ps_tables source (SelectDatabases all inc exc))).
         normalizeInventoryToken (null_text e) \<noteq> '''' \<and> \<not> engine_usable m (normalizeInventoryToken (null_text e)))" for m
    by (auto simp: inventory_table_def split: prod.splits)
  moreover have "fst engines = engine_map (answer_rows (pd_engines dest))" "snd engines \<noteq> 0 \<longleftrightarrow> answer_rows (pd_engines dest) \<noteq> []"
    using queryDestinationEngines_rows [OF q(2)] by simp_all
  ultimately show "pl_Incompatible report = (answer_rows (pd_engines dest) \<noteq> [] \<and>
      (\<exists>(d, t, e) \<in> set (answer_rows (ps_tables source (SelectDatabases all inc exc))).
         normalizeInventoryToken (null_text e) \<noteq> '''' \<and>
         \<not> engine_usable (engine_map (answer_rows (pd_engines dest))) (normalizeInventoryToken (null_text e))))"
    "has_error (pl_Findings report) = pl_Incompatible report"
    by (simp_all add: r engines_step_refuses [OF start] unsupported_engines)
  show "persist_artifact ''plugin lifecycle precheck artifact'' enc_plugin env (pluginLifecyclePrecheckArtifactPath stateDir) report fs = (None, fs')" by (rule kept)
qed

text \<open>
  When the precheck of plugins and engines ends without an error for some selected
  databases, it calls the migration incompatible exactly if the destination lists engines and a
  selected base table has an engine that is not among those with the support YES or DEFAULT; the
  accounts never decide it; a finding has the severity error exactly then; and the report is what a
  later command loads from the state directory.
\<close>

theorem plugin_precheck_refuses:
  assumes "runPluginLifecyclePrecheck env mkdirErr source dest stateDir inc exc fs = (None, report, fs')"
    and "ps_schemata source = Rows all" and "SelectDatabases all inc exc \<noteq> []"
    and "we_tmp env \<noteq> pluginLifecyclePrecheckArtifactPath stateDir" and "valid_plugin report"
  shows "pl_Incompatible report = (answer_rows (pd_engines dest) \<noteq> [] \<and>
      (\<exists>(d, t, e) \<in> set (answer_rows (ps_tables source (SelectDatabases all inc exc))).
         normalizeInventoryToken (null_text e) \<noteq> '''' \<and>
         \<not> engine_usable (engine_map (answer_rows (pd_engines dest))) (normalizeInventoryToken (null_text e)))) \<and>
    has_error (pl_Findings report) = pl_Incompatible report \<and>
    loadPluginLifecyclePrecheckArtifact None stateDir fs' = Inr report"
  using plugin_incompatible [OF assms(1-3)] plugin_store.load_persisted [OF plugin_incompatible(3) [OF assms(1-3)] assms(4,5)]
  by (simp add: loadPluginLifecyclePrecheckArtifact_def)

text \<open>
  The finding of a clean inventory is in the report although neither the accounts nor the plugins
  could be read.
\<close>

lemma clean_without_inventory:
  assumes "querySourceAccountPlugins (ps_accounts source) = Inl e" and "detectUnsupportedStorageEngines tables engines = []"
    and "pl_UnsupportedAuthPlugins r = []"
  shows "\<exists>f \<in> set (pl_Findings (engines_step tables engines (accounts_step source dest r))). fg_Code f = ''plugin_lifecycle_inventory_clean''"
proof -
  have "pl_UnsupportedAuthPlugins (accounts_step source dest r) = []"
    using assms(1,3) by (simp add: accounts_step_def Let_def split: sum.splits)
  then show ?thesis using assms(2) by (simp add: engines_step_def Let_def)
qed

definition example_plugin_source :: plugin_source where
  "example_plugin_source =
     \<lparr>ps_accounts = QueryError ''denied'', ps_schemata = Rows [''shop''], ps_tables = (\<lambda>_. Rows [(''shop'', ''t'', Some ''Aria'')])\<rparr>"

definition example_plugin_dest :: plugin_dest where
  "example_plugin_dest =
     \<lparr>pd_sqlMode = Inl ''denied'', pd_defaultAuth = Inl ''denied'', pd_plugins = Rows [], pd_engines = Rows [(''InnoDB'', Some ''DEFAULT'')]\<rparr>"

theorem plugin_precheck_refuses_witness:
  "\<exists>report fs'. runPluginLifecyclePrecheck (no_faults ''state/tmp'') None example_plugin_source example_plugin_dest ''state'' [] [] Map.empty
       = (None, report, fs') \<and>
     pl_Incompatible report \<and> loadPluginLifecyclePrecheckArtifact None ''state'' fs' = Inr report"
proof -
  let ?run = "runPluginLifecyclePrecheck (no_faults ''state/tmp'') None example_plugin_source example_plugin_dest ''state'' [] [] Map.empty"
  have sel: "SelectDatabases [''shop''] [] [] = [''shop'']"
    and path: "pluginLifecyclePrecheckArtifactPath ''state'' = ''state/plugin-lifecycle-precheck.json''"
    and aria: "normalizeInventoryToken (null_text (Some ''Aria'')) = ''aria''" "normalizeInventoryToken ''Aria'' = ''aria''"
    and unusable: "\<not> engine_usable (engine_map [(''InnoDB'', Some ''DEFAULT'')]) ''aria''"
    by code_simp+
  have "fst ?run = None" and valid: "valid_plugin (fst (snd ?run))"
    using sel
    by (simp_all add: runPluginLifecyclePrecheck_def plugin_report_def example_plugin_source_def example_plugin_dest_def rows_or_error_def
        querySQLMode_def sql_mode_step_def default_auth_step_def queryDefaultAuthenticationPlugin_def accounts_step_def add_findings_def
        querySourceAccountPlugins_def queryDestinationPlugins_def querySourceTableEngines_def queryDestinationEngines_def engines_step_def
        inventory_table_def aria null_text_def valid_plugin_def is_int64_def persistPluginLifecyclePrecheckArtifact_def persist_artifact_def
        WritePrivateFileAtomic_def EnsurePrivateDir_def no_faults_def Let_def)
  then obtain report fs' where run: "?run = (None, report, fs')" by (metis prod.collapse)
  have facts: "ps_schemata example_plugin_source = Rows [''shop'']" "SelectDatabases [''shop''] [] [] \<noteq> []"
    "we_tmp (no_faults ''state/tmp'') \<noteq> pluginLifecyclePrecheckArtifactPath ''state''" "valid_plugin report"
    using sel path run valid by (simp_all add: example_plugin_source_def no_faults_def)
  from plugin_precheck_refuses [OF run this] show ?thesis using run aria unusable
    by (simp add: example_plugin_source_def example_plugin_dest_def)
qed

end
