(* ===== verification/Users_Copy.thy ===== *)
theory Users_Copy
  imports Schema_Copy_Run "HOL-Library.Sublist"
begin

text \<open>
  The migration of accounts (internal/users/copy.go) and its command line (parts of
  internal/commands/migrate_users.go): which accounts are copied, with which statements, and what an
  account that refers to a later one does to the run.
\<close>

section \<open>Data\<close>

definition ScopeBusiness :: string where "ScopeBusiness = ''business''"
definition ScopeAll :: string where "ScopeAll = ''all''"

definition systemUsers :: "string list" where
  "systemUsers = [''root'', ''mysql.sys'', ''mysql.session'', ''mysql.infoschema'', ''mariadb.sys'', ''PUBLIC'']"

record UserCopyOptions =
  uo_Scope :: string
  uo_DryRun :: bool
  uo_SkipLocked :: bool

record UserSummary =
  us_UsersFound :: nat
  us_UsersSkipped :: nat
  us_UsersCopied :: nat
  us_GrantsCopied :: nat
  us_DryRun :: bool

record UserEntry =
  ue_User :: string
  ue_Host :: string
  ue_CreateSQL :: string
  ue_Grants :: "string list"

record userRef =
  ur_User :: string
  ur_Host :: string

text \<open>The source: the accounts, and the answer to a query of one column, SHOW CREATE USER or SHOW GRANTS.\<close>

record user_source =
  ux_users :: "userRef query_result"
  ux_show :: "string \<Rightarrow> string query_result"

section \<open>Text\<close>

definition escapeSQLString :: "string \<Rightarrow> string" where
  "escapeSQLString s = ReplaceByte (ReplaceByte s (CHR 0x5C) [CHR 0x5C, CHR 0x5C]) (CHR 0x27) [CHR 0x5C, CHR 0x27]"

definition quoteUser :: "string \<Rightarrow> string \<Rightarrow> string" where
  "quoteUser user host = [CHR 0x27] @ escapeSQLString user @ [CHR 0x27, CHR ''@'', CHR 0x27] @ escapeSQLString host @ [CHR 0x27]"

definition sanitizeCreateUser :: "string \<Rightarrow> string" where
  "sanitizeCreateUser createSQL = TrimSpace createSQL"

definition isUserAlreadyExistsError :: "string \<Rightarrow> bool" where
  "isUserAlreadyExistsError err =
     (let msg = ToLower err
      in Contains msg ''operation create user failed'' \<or> Contains msg ''error 1396'' \<or> Contains msg ''er_cannot_user'')"

definition isLockedAccountError :: "string \<Rightarrow> bool" where
  "isLockedAccountError err =
     (let msg = ToLower err in Contains msg ''account is locked'' \<or> Contains msg ''er_account_has_been_locked'')"

definition isUsageGrant :: "string \<Rightarrow> bool" where
  "isUsageGrant grant = HasPrefix (ToUpper (TrimSpace grant)) ''GRANT USAGE ON''"

definition shouldSkipUser :: "string \<Rightarrow> string \<Rightarrow> string \<Rightarrow> bool" where
  "shouldSkipUser user host scope =
     (if scope = ScopeAll then False
      else user \<in> set systemUsers \<or> HasSuffix user ''.sys'' \<or> HasSuffix user ''.session'' \<or> HasSuffix user ''.infoschema'')"

section \<open>Reading an account\<close>

definition queryUsers :: "user_source \<Rightarrow> string + userRef list" where
  "queryUsers source = rows_or_error (ux_users source)"

text \<open>Only the first row is read; an error of the iteration counts when it comes before that row.\<close>

definition fetchCreateUser :: "user_source \<Rightarrow> string \<Rightarrow> string \<Rightarrow> string + string" where
  "fetchCreateUser source user host =
     bind_result (rows_or_error (ux_show source (''SHOW CREATE USER '' @ quoteUser user host))) (\<lambda>rows.
       (case rows of
          [] \<Rightarrow> Inl ''sql: no rows in result set''
        | createSQL # _ \<Rightarrow> Inr (sanitizeCreateUser createSQL)))"

definition fetchGrants :: "user_source \<Rightarrow> string \<Rightarrow> string \<Rightarrow> string + string list" where
  "fetchGrants source user host = rows_or_error (ux_show source (''SHOW GRANTS FOR '' @ quoteUser user host))"

section \<open>Applying an account\<close>

text \<open>The grants in their order as texts, without those of USAGE, and the flush.\<close>

definition apply_grants :: "'d schema_dest \<Rightarrow> string list \<Rightarrow> 'd \<Rightarrow> string option \<times> 'd" where
  "apply_grants dest grants d =
     (case exec_all dest (filter (\<lambda>grant. \<not> isUsageGrant grant) (sort grants)) d of
        (Some e, d') \<Rightarrow> (Some (''apply grant: '' @ e), d')
      | (None, d') \<Rightarrow>
          (case dd_exec dest ''FLUSH PRIVILEGES'' d' of
             (Some e, d'') \<Rightarrow> (Some (''flush privileges: '' @ e), d'')
           | (None, d'') \<Rightarrow> (None, d'')))"

definition apply_account :: "'d schema_dest \<Rightarrow> UserEntry \<Rightarrow> 'd \<Rightarrow> string option \<times> 'd" where
  "apply_account dest entry d =
     (case dd_exec dest (sanitizeCreateUser (ue_CreateSQL entry)) d of
        (Some e, d') \<Rightarrow>
          if \<not> isUserAlreadyExistsError e then (Some (''create user: '' @ e), d') else apply_grants dest (ue_Grants entry) d'
      | (None, d') \<Rightarrow> apply_grants dest (ue_Grants entry) d')"

definition applyUser :: "'d schema_dest \<Rightarrow> UserEntry \<Rightarrow> 'd \<Rightarrow> string option \<times> 'd" where
  "applyUser dest entry d =
     (case dd_open dest d of
        (Some e, d') \<Rightarrow> (Some e, d')
      | (None, d') \<Rightarrow> (case apply_account dest entry d' of (err, d'') \<Rightarrow> (err, snd (dd_close dest d''))))"

section \<open>The migration\<close>

definition account_name :: "userRef \<Rightarrow> string" where
  "account_name u = ur_User u @ ''@'' @ ur_Host u"

definition user_copied :: "string list \<Rightarrow> UserSummary \<Rightarrow> UserSummary" where
  "user_copied grants summary =
     summary\<lparr>us_UsersCopied := us_UsersCopied summary + 1, us_GrantsCopied := us_GrantsCopied summary + length grants\<rparr>"

definition user_skipped :: "UserSummary \<Rightarrow> UserSummary" where
  "user_skipped summary = summary\<lparr>us_UsersSkipped := us_UsersSkipped summary + 1\<rparr>"

fun copy_users ::
  "user_source \<Rightarrow> 'd schema_dest \<Rightarrow> UserCopyOptions \<Rightarrow> userRef list \<Rightarrow> UserSummary \<Rightarrow> 'd \<Rightarrow> string option \<times> UserSummary \<times> 'd" where
  "copy_users source dest opts [] summary d = (None, summary, d)"
| "copy_users source dest opts (u # users) summary d =
     (if shouldSkipUser (ur_User u) (ur_Host u) (uo_Scope opts)
      then copy_users source dest opts users (user_skipped summary) d
      else (case fetchCreateUser source (ur_User u) (ur_Host u) of
              Inl e \<Rightarrow>
                if uo_SkipLocked opts \<and> isLockedAccountError e
                then copy_users source dest opts users (user_skipped summary) d
                else (Some (''fetch CREATE USER for '' @ account_name u @ '': '' @ e), summary, d)
            | Inr createSQL \<Rightarrow>
                (case fetchGrants source (ur_User u) (ur_Host u) of
                   Inl e \<Rightarrow> (Some (''fetch GRANTS for '' @ account_name u @ '': '' @ e), summary, d)
                 | Inr grants \<Rightarrow>
                     if uo_DryRun opts then copy_users source dest opts users (user_copied grants summary) d
                     else (case applyUser dest \<lparr>ue_User = ur_User u, ue_Host = ur_Host u, ue_CreateSQL = createSQL, ue_Grants = grants\<rparr> d of
                             (Some e, d') \<Rightarrow> (Some (''apply user '' @ account_name u @ '': '' @ e), summary, d')
                           | (None, d') \<Rightarrow> copy_users source dest opts users (user_copied grants summary) d'))))"

definition user_summary :: "bool \<Rightarrow> nat \<Rightarrow> UserSummary" where
  "user_summary dry found =
     \<lparr>us_UsersFound = found, us_UsersSkipped = 0, us_UsersCopied = 0, us_GrantsCopied = 0, us_DryRun = dry\<rparr>"

definition CopyUsers ::
  "bool \<Rightarrow> user_source \<Rightarrow> 'd schema_dest \<Rightarrow> UserCopyOptions \<Rightarrow> 'd \<Rightarrow> string option \<times> UserSummary \<times> 'd" where
  "CopyUsers connected source dest opts d =
     (if \<not> connected then (Some ''source and destination connections are required'', user_summary False 0, d)
      else let opts = (if uo_Scope opts = '''' then opts\<lparr>uo_Scope := ScopeBusiness\<rparr> else opts)
           in case queryUsers source of
                Inl e \<Rightarrow> (Some (''list source users: '' @ e), user_summary False 0, d)
              | Inr users \<Rightarrow> copy_users source dest opts users (user_summary (uo_DryRun opts) (length users)) d)"

text \<open>What the command makes of its flags scope and skip-locked; its dry run returns before it connects.\<close>

definition users_scope_error :: "string \<Rightarrow> string option" where
  "users_scope_error scope =
     (if scope = ''business'' \<or> scope = ''all'' then None
      else Some (''invalid scope '' @ go_quote scope @ '': must be business or all''))"

definition users_options :: "string \<Rightarrow> bool \<Rightarrow> UserCopyOptions" where
  "users_options scope skipLocked =
     \<lparr>uo_Scope = (if scope = ''all'' then ScopeAll else ScopeBusiness), uo_DryRun = False, uo_SkipLocked = skipLocked\<rparr>"

section \<open>Names of accounts\<close>

text \<open>
  The server's rule for a literal, after its opening quote: a backslash in front of a backslash or a
  quote stands for that byte, a quote ends the literal unless it is doubled. No other escape occurs
  in the texts of the code.
\<close>

fun scan_literal :: "string \<Rightarrow> (string \<times> string) option" where
  "scan_literal [] = None"
| "scan_literal [c] = (if c = CHR 0x27 then Some ([], []) else None)"
| "scan_literal (c # d # s) =
     (if c = CHR 0x5C
      then (if d = CHR 0x5C \<or> d = CHR 0x27 then map_option (apfst ((#) d)) (scan_literal s) else None)
      else if c = CHR 0x27
      then (if d = CHR 0x27 then map_option (apfst ((#) d)) (scan_literal s) else Some ([], d # s))
      else map_option (apfst ((#) c)) (scan_literal (d # s)))"

definition scan_user :: "string \<Rightarrow> (string \<times> string \<times> string) option" where
  "scan_user s =
     (case s of
        q # s1 \<Rightarrow> if q \<noteq> CHR 0x27 then None
          else (case scan_literal s1 of
             Some (user, a # q' # s2) \<Rightarrow>
               if a = CHR ''@'' \<and> q' = CHR 0x27 then map_option (\<lambda>(host, r). (user, host, r)) (scan_literal s2) else None
           | _ \<Rightarrow> None)
      | [] \<Rightarrow> None)"

lemma escapeSQLString_simps [simp]:
  "escapeSQLString [] = []"
  "escapeSQLString (c # s) =
     (if c = CHR 0x5C then [CHR 0x5C, CHR 0x5C] else if c = CHR 0x27 then [CHR 0x5C, CHR 0x27] else [c]) @ escapeSQLString s"
  by (simp_all add: escapeSQLString_def)

lemma scan_escaped:
  assumes "r = [] \<or> hd r \<noteq> CHR 0x27"
  shows "scan_literal (escapeSQLString s @ CHR 0x27 # r) = Some (s, r)"
proof (induction s)
  case Nil
  with assms show ?case by (cases r) auto
next
  case (Cons c s)
  obtain d u where du: "escapeSQLString s @ CHR 0x27 # r = d # u"
    by (cases "escapeSQLString s @ CHR 0x27 # r") auto
  then show ?case using Cons by auto
qed

text \<open>
  The server reads back from the quoted form of an account exactly the user and the host,
  whatever bytes they have: no name of an account can end its quotes early.
\<close>

theorem quoteUser_reads_back:
  assumes "r = [] \<or> hd r \<noteq> CHR 0x27"
  shows "scan_user (quoteUser user host @ r) = Some (user, host, r)"
  using scan_escaped [OF assms, of host] scan_escaped [of "CHR ''@'' # CHR 0x27 # escapeSQLString host @ CHR 0x27 # r" user]
  by (simp add: quoteUser_def scan_user_def)

theorem quoteUser_reads_back_witness:
  "scan_user (quoteUser [CHR ''a'', CHR 0x27, CHR 0x5C] ''%'' @ '' WITH'') = Some ([CHR ''a'', CHR 0x27, CHR 0x5C], ''%'', '' WITH'')"
  by (rule quoteUser_reads_back) simp

section \<open>What is executed\<close>

definition grants_plan :: "string list \<Rightarrow> string list" where
  "grants_plan grants = filter (\<lambda>grant. \<not> isUsageGrant grant) (sort grants) @ [''FLUSH PRIVILEGES'']"

definition account_grants :: "user_source \<Rightarrow> userRef \<Rightarrow> string list" where
  "account_grants source u = (case fetchGrants source (ur_User u) (ur_Host u) of Inl _ \<Rightarrow> [] | Inr grants \<Rightarrow> grants)"

definition account_create :: "user_source \<Rightarrow> userRef \<Rightarrow> string" where
  "account_create source u =
     sanitizeCreateUser (case fetchCreateUser source (ur_User u) (ur_Host u) of Inl _ \<Rightarrow> '''' | Inr stmt \<Rightarrow> stmt)"

text \<open>
  The statements of an account that the destination, in the state in which the account is reached,
  has to execute: it is asked to create the account; when it says that it has the account already,
  the grants and the flush remain, and when it refuses for another reason, nothing is executed.
\<close>

definition account_plan :: "'d schema_dest \<Rightarrow> string \<Rightarrow> string list \<Rightarrow> 'd \<Rightarrow> string list option" where
  "account_plan dest create grants d =
     (case fst (dd_exec dest create (snd (dd_open dest d))) of
        None \<Rightarrow> Some (create # grants_plan grants)
      | Some e \<Rightarrow> if isUserAlreadyExistsError e then Some (grants_plan grants) else None)"

definition copied_accounts :: "user_source \<Rightarrow> UserCopyOptions \<Rightarrow> userRef list \<Rightarrow> userRef list" where
  "copied_accounts source opts users =
     filter (\<lambda>u. \<not> shouldSkipUser (ur_User u) (ur_Host u) (uo_Scope opts) \<and>
       \<not> (case fetchCreateUser source (ur_User u) (ur_Host u) of Inl e \<Rightarrow> uo_SkipLocked opts \<and> isLockedAccountError e | Inr _ \<Rightarrow> False)) users"

lemma apply_grants_prefix:
  assumes "logging dest ddl_log" and "apply_grants dest grants d = (err, d')"
  shows "\<exists>rest. executes ddl_log (grants_plan grants) d err d' rest"
proof -
  let ?gs = "filter (\<lambda>grant. \<not> isUsageGrant grant) (sort grants)"
  obtain e d1 where x: "exec_all dest ?gs d = (e, d1)" by (cases "exec_all dest ?gs d")
  obtain gone rest where r: "?gs = gone @ rest" "ddl_log d1 = ddl_log d @ gone" "e = None \<longrightarrow> rest = []"
    using exec_all_prefix [OF assms(1) x] by (auto simp: executes_def)
  obtain e2 d2 where f: "dd_exec dest ''FLUSH PRIVILEGES'' d1 = (e2, d2)" by (cases "dd_exec dest ''FLUSH PRIVILEGES'' d1")
  note l = logging_exec [OF assms(1) f]
  show ?thesis
  proof (cases e)
    case None
    then have "err = None \<longleftrightarrow> e2 = None" "d' = d2"
      using assms(2) x f by (auto simp: apply_grants_def split: option.splits)
    then have "executes ddl_log (grants_plan grants) d err d' (if e2 = None then [] else [''FLUSH PRIVILEGES''])"
      using r l None by (auto simp: executes_def grants_plan_def)
    then show ?thesis ..
  next
    case (Some z)
    then have "err \<noteq> None" "d' = d1" using assms(2) x by (auto simp: apply_grants_def)
    then have "executes ddl_log (grants_plan grants) d err d' (rest @ [''FLUSH PRIVILEGES''])"
      using r by (auto simp: executes_def grants_plan_def)
    then show ?thesis ..
  qed
qed

lemma apply_grants_steps:
  assumes "logging dest ddl_log" and "apply_grants dest grants d = (None, d')" and "g \<in> set grants" and "\<not> isUsageGrant g"
  shows "\<exists>d1 xs. ddl_log d1 = ddl_log d @ xs \<and> set xs \<subseteq> set (grants_plan grants) \<and> fst (dd_exec dest g d1) = None"
proof -
  let ?gs = "filter (\<lambda>grant. \<not> isUsageGrant grant) (sort grants)"
  have "g \<in> set ?gs" using assms(3,4) by simp
  then obtain xs ys where s: "?gs = xs @ g # ys" by (meson split_list)
  obtain d1 where x: "exec_all dest ?gs d = (None, d1)"
    using assms(2) by (auto simp: apply_grants_def split: prod.splits option.splits)
  from exec_all_steps [OF assms(1) x [unfolded s]] obtain d2
    where "ddl_log d2 = ddl_log d @ xs" "fst (dd_exec dest g d2) = None" by blast
  moreover have "set xs \<subseteq> set ?gs" by (simp only: s set_append) blast
  ultimately show ?thesis unfolding grants_plan_def set_append by blast
qed

text \<open>
  The first n accounts are complete, each with the statements that its state asks for, and of the next
  one a prefix was executed, nothing when its creation is refused.
\<close>

inductive accounts_ran ::
  "'d schema_dest \<Rightarrow> ('d \<Rightarrow> string list) \<Rightarrow> user_source \<Rightarrow> userRef list \<Rightarrow> 'd \<Rightarrow> 'd \<Rightarrow> nat \<Rightarrow> bool"
  for dest :: "'d schema_dest" and ddl_log :: "'d \<Rightarrow> string list" and source :: user_source where
  untouched: "accounts_ran dest ddl_log source accounts d d 0"
| refused: "\<lbrakk>account_plan dest (account_create source u) (account_grants source u) d = None; ddl_log d' = ddl_log d\<rbrakk> \<Longrightarrow>
    accounts_ran dest ddl_log source (u # accounts) d d' 0"
| stopped: "\<lbrakk>account_plan dest (account_create source u) (account_grants source u) d = Some part;
    prefix partial part; ddl_log d' = ddl_log d @ partial\<rbrakk> \<Longrightarrow>
    accounts_ran dest ddl_log source (u # accounts) d d' 0"
| complete: "\<lbrakk>account_plan dest (account_create source u) (account_grants source u) d = Some part;
    ddl_log d1 = ddl_log d @ part; accounts_ran dest ddl_log source accounts d1 d' n\<rbrakk> \<Longrightarrow>
    accounts_ran dest ddl_log source (u # accounts) d d' (Suc n)"

definition account_is_new :: "'d schema_dest \<Rightarrow> user_source \<Rightarrow> userRef \<Rightarrow> bool" where
  "account_is_new dest source u =
     (\<forall>d e. fst (dd_exec dest (account_create source u) d) = Some e \<longrightarrow> \<not> isUserAlreadyExistsError e)"

lemma account_plan_new:
  assumes "account_is_new dest source u" and "account_plan dest (account_create source u) grants d = Some part"
  shows "part = account_create source u # grants_plan grants"
  using assms by (auto simp: account_is_new_def account_plan_def split: option.splits if_splits)

lemma accounts_ran_new:
  assumes "accounts_ran dest ddl_log source accounts d d' n" and "n = length accounts" and "\<forall>u \<in> set accounts. account_is_new dest source u"
  shows "ddl_log d' = ddl_log d @ concat (map (\<lambda>u. account_create source u # grants_plan (account_grants source u)) accounts)"
  using assms by (induction rule: accounts_ran.induct) (auto dest: account_plan_new)

lemma applyUser_executes:
  assumes "logging dest ddl_log" and "applyUser dest entry d = (err, d')"
  shows "case account_plan dest (sanitizeCreateUser (ue_CreateSQL entry)) (ue_Grants entry) d of
      None \<Rightarrow> err \<noteq> None \<and> ddl_log d' = ddl_log d
    | Some part \<Rightarrow> \<exists>rest. executes ddl_log part d err d' rest"
proof -
  let ?create = "sanitizeCreateUser (ue_CreateSQL entry)" and ?grants = "grants_plan (ue_Grants entry)"
  obtain e d1 where oc: "dd_open dest d = (e, d1)" by (cases "dd_open dest d")
  note l1 = logging_open [OF assms(1) oc]
  show ?thesis
  proof (cases e)
    case (Some z)
    then show ?thesis using assms(2) oc l1 by (auto simp: applyUser_def executes_def split: option.splits)
  next
    case None
    obtain e2 d2 where a: "apply_account dest entry d1 = (e2, d2)" by (cases "apply_account dest entry d1")
    then have err: "err = e2" "ddl_log d' = ddl_log d2"
      using assms(2) oc None logging_close [OF assms(1), of d2] by (auto simp: applyUser_def)
    obtain e3 d3 where c: "dd_exec dest ?create d1 = (e3, d3)" by (cases "dd_exec dest ?create d1")
    note l3 = logging_exec [OF assms(1) c]
    show ?thesis
    proof (cases "\<exists>z. e3 = Some z \<and> \<not> isUserAlreadyExistsError z")
      case True
      then show ?thesis using a c oc l1 l3 err by (auto simp: apply_account_def account_plan_def)
    next
      case False
      then have g: "apply_grants dest (ue_Grants entry) d3 = (e2, d2)"
        and p: "account_plan dest ?create (ue_Grants entry) d = Some (if e3 = None then ?create # ?grants else ?grants)"
        using a c oc by (auto simp: apply_account_def account_plan_def split: option.splits)
      from apply_grants_prefix [OF assms(1) g] obtain rest where "executes ddl_log ?grants d3 e2 d2 rest" ..
      then have "executes ddl_log (if e3 = None then ?create # ?grants else ?grants) d err d' rest"
        using l3 l1 err by (auto simp: executes_def)
      then show ?thesis using p by auto
    qed
  qed
qed

lemma executes_prefix: "executes ddl_log qs d err d' rest \<Longrightarrow> \<exists>gone. prefix gone qs \<and> ddl_log d' = ddl_log d @ gone"
  by (auto simp: executes_def)

lemma copy_users_executes:
  assumes "logging dest ddl_log" and "\<not> uo_DryRun opts" and "copy_users source dest opts users summary d = (err, summary', d')"
  shows "\<exists>n. us_UsersCopied summary' = us_UsersCopied summary + n \<and> accounts_ran dest ddl_log source (copied_accounts source opts users) d d' n \<and>
    (err = None \<longrightarrow> n = length (copied_accounts source opts users) \<and>
       us_UsersSkipped summary' + n = us_UsersSkipped summary + length users \<and>
       us_GrantsCopied summary' = us_GrantsCopied summary +
         sum_list (map (\<lambda>u. length (account_grants source u)) (copied_accounts source opts users)))"
  using assms(3)
proof (induction users arbitrary: summary d)
  case Nil
  then show ?case by (simp add: copied_accounts_def untouched)
next
  case (Cons u users)
  let ?skip = "shouldSkipUser (ur_User u) (ur_Host u) (uo_Scope opts)"
  let ?create = "fetchCreateUser source (ur_User u) (ur_Host u)"
  consider (skipped) "?skip \<or> \<not> ?skip \<and> (\<exists>e. ?create = Inl e \<and> uo_SkipLocked opts \<and> isLockedAccountError e)"
    | (create) e where "\<not> ?skip" "?create = Inl e" "\<not> (uo_SkipLocked opts \<and> isLockedAccountError e)"
    | (ok) stmt where "\<not> ?skip" "?create = Inr stmt" by (cases ?create) auto
  then show ?case
  proof cases
    case skipped
    then have "copied_accounts source opts (u # users) = copied_accounts source opts users"
      "copy_users source dest opts users (user_skipped summary) d = (err, summary', d')"
      using Cons.prems by (auto simp: copied_accounts_def)
    then show ?thesis using Cons.IH [of "user_skipped summary" d] by (auto simp: user_skipped_def)
  next
    case create
    then have "err \<noteq> None" "summary' = summary" "d' = d" using Cons.prems by auto
    then show ?thesis using untouched by (intro exI [of _ 0]) auto
  next
    case ok
    then have c: "copied_accounts source opts (u # users) = u # copied_accounts source opts users" by (auto simp: copied_accounts_def)
    show ?thesis
    proof (cases "fetchGrants source (ur_User u) (ur_Host u)")
      case (Inl e)
      then have "err \<noteq> None" "summary' = summary" "d' = d" using Cons.prems ok by auto
      then show ?thesis using untouched by (intro exI [of _ 0]) auto
    next
      case (Inr grants)
      let ?entry = "\<lparr>ue_User = ur_User u, ue_Host = ur_Host u, ue_CreateSQL = stmt, ue_Grants = grants\<rparr>"
      obtain e d1 where a: "applyUser dest ?entry d = (e, d1)" by (cases "applyUser dest ?entry d")
      have g: "account_grants source u = grants" "account_create source u = sanitizeCreateUser stmt"
        using ok Inr by (simp_all add: account_grants_def account_create_def)
      note p = applyUser_executes [OF assms(1) a, simplified, folded g]
      show ?thesis
      proof (cases e)
        case None
        then obtain part where part: "account_plan dest (account_create source u) (account_grants source u) d = Some part" "ddl_log d1 = ddl_log d @ part"
          using p by (auto simp: executes_def split: option.splits)
        have "copy_users source dest opts users (user_copied grants summary) d1 = (err, summary', d')"
          using Cons.prems ok Inr a assms(2) None by simp
        from Cons.IH [OF this] obtain n where n: "us_UsersCopied summary' = us_UsersCopied summary + Suc n"
          "accounts_ran dest ddl_log source (copied_accounts source opts users) d1 d' n"
          "err = None \<longrightarrow> n = length (copied_accounts source opts users) \<and>
             us_UsersSkipped summary' + n = us_UsersSkipped summary + length users \<and>
             us_GrantsCopied summary' = us_GrantsCopied summary + length grants +
               sum_list (map (\<lambda>u. length (account_grants source u)) (copied_accounts source opts users))"
          by (auto simp: user_copied_def)
        show ?thesis unfolding c
          using n(1,3) complete [OF part n(2)] by (intro exI [of _ "Suc n"]) (auto simp: g(1))
      next
        case (Some z)
        then have err: "err \<noteq> None" "summary' = summary" "d' = d1" using Cons.prems ok Inr a assms(2) by auto
        have "accounts_ran dest ddl_log source (u # copied_accounts source opts users) d d1 0"
          using p by (auto simp: g(1) split: option.splits dest!: executes_prefix intro: refused stopped)
        then show ?thesis unfolding c using err by (intro exI [of _ 0]) auto
      qed
    qed
  qed
qed

text \<open>
  Claim C18. A migration of accounts that reports success has executed, for each account that is not
  skipped and in the order of the source, its CREATE USER, its grants but those of USAGE in the
  order of their texts, and the flush, and nothing else. CREATE USER is missing only for an account
  that the destination, when it was asked to create it, said it has already: where it says so of
  none, the executed statements are exactly those of all accounts. Whatever fails, the
  accounts before it are complete, of the account itself a prefix is executed (nothing, when its
  creation is refused) and nothing of those after it. The counts add up.
\<close>

theorem CopyUsers_executes:
  assumes "logging dest ddl_log" and "ux_users source = Rows users" and "uo_Scope opts \<noteq> ''''" and "\<not> uo_DryRun opts"
    and "CopyUsers True source dest opts d = (err, summary, d')"
  shows "accounts_ran dest ddl_log source (copied_accounts source opts users) d d' (us_UsersCopied summary) \<and>
    (err = None \<and> (\<forall>u \<in> set (copied_accounts source opts users). account_is_new dest source u) \<longrightarrow>
      ddl_log d' = ddl_log d @
        concat (map (\<lambda>u. account_create source u # grants_plan (account_grants source u)) (copied_accounts source opts users))) \<and>
    (err = None \<longrightarrow> us_UsersCopied summary = length (copied_accounts source opts users) \<and>
      us_UsersFound summary = us_UsersSkipped summary + us_UsersCopied summary \<and>
      us_GrantsCopied summary = sum_list (map (\<lambda>u. length (account_grants source u)) (copied_accounts source opts users)))"
proof -
  have run: "copy_users source dest opts users (user_summary (uo_DryRun opts) (length users)) d = (err, summary, d')"
    using assms(2,3,5) by (simp add: CopyUsers_def queryUsers_def rows_or_error_def)
  have found: "copy_users source dest opts us s x = (err', s', x') \<Longrightarrow> us_UsersFound s' = us_UsersFound s" for us s x err' s' x'
    by (induction us arbitrary: s x) (fastforce simp: user_skipped_def user_copied_def split: if_splits sum.splits prod.splits option.splits)+
  from copy_users_executes [OF assms(1,4) run]
  have "accounts_ran dest ddl_log source (copied_accounts source opts users) d d' (us_UsersCopied summary)"
    "err = None \<longrightarrow> us_UsersCopied summary = length (copied_accounts source opts users) \<and>
      us_UsersSkipped summary + us_UsersCopied summary = length users \<and>
      us_GrantsCopied summary = sum_list (map (\<lambda>u. length (account_grants source u)) (copied_accounts source opts users))"
    by (auto simp: user_summary_def)
  then show ?thesis using accounts_ran_new [where d = d] found [OF run] by (auto simp: user_summary_def)
qed

section \<open>Accounts that refer to later ones\<close>

definition account_statements :: "user_source \<Rightarrow> userRef \<Rightarrow> string set" where
  "account_statements source u = insert (account_create source u) (set (grants_plan (account_grants source u)))"

lemma account_plan_statements:
  "account_plan dest (account_create source u) (account_grants source u) d = Some part \<Longrightarrow> set part \<subseteq> account_statements source u"
  by (auto simp: account_plan_def account_statements_def split: option.splits if_splits)

lemma applyUser_grant:
  assumes "logging dest ddl_log" and "applyUser dest entry d = (None, d')" and "g \<in> set (ue_Grants entry)" and "\<not> isUsageGrant g"
  shows "\<exists>d1 xs. ddl_log d1 = ddl_log d @ xs \<and>
    set xs \<subseteq> insert (sanitizeCreateUser (ue_CreateSQL entry)) (set (grants_plan (ue_Grants entry))) \<and> fst (dd_exec dest g d1) = None"
proof -
  from assms(2) obtain x2 x3 where x2: "dd_open dest d = (None, x2)" "apply_account dest entry x2 = (None, x3)"
    by (auto simp: applyUser_def split: prod.splits option.splits)
  obtain e x4 where x4: "dd_exec dest (sanitizeCreateUser (ue_CreateSQL entry)) x2 = (e, x4)"
    by (cases "dd_exec dest (sanitizeCreateUser (ue_CreateSQL entry)) x2")
  then have g: "apply_grants dest (ue_Grants entry) x4 = (None, x3)"
    using x2(2) by (auto simp: apply_account_def split: option.splits if_splits)
  from apply_grants_steps [OF assms(1) g assms(3,4)] obtain x5 xs where x5: "ddl_log x5 = ddl_log x4 @ xs"
    "set xs \<subseteq> set (grants_plan (ue_Grants entry))" "fst (dd_exec dest g x5) = None" by blast
  have "ddl_log x5 = ddl_log d @ (if e = None then [sanitizeCreateUser (ue_CreateSQL entry)] else []) @ xs"
    using x5(1) logging_exec [OF assms(1) x4] logging_open [OF assms(1) x2(1)] by auto
  then show ?thesis using x5(2,3) by (intro exI conjI) auto
qed

lemma copied_account_step:
  assumes "u \<in> set (copied_accounts source opts [u])" and "\<not> uo_DryRun opts"
    and "copy_users source dest opts (u # users) s d = (None, s', d')"
  shows "\<exists>stmt grants s1 d1. fetchCreateUser source (ur_User u) (ur_Host u) = Inr stmt \<and> account_grants source u = grants \<and>
    applyUser dest \<lparr>ue_User = ur_User u, ue_Host = ur_Host u, ue_CreateSQL = stmt, ue_Grants = grants\<rparr> d = (None, d1) \<and>
    copy_users source dest opts users s1 d1 = (None, s', d')"
proof -
  have k: "\<not> shouldSkipUser (ur_User u) (ur_Host u) (uo_Scope opts)" using assms(1) by (auto simp: copied_accounts_def split: if_splits)
  show ?thesis
  proof (cases "fetchCreateUser source (ur_User u) (ur_Host u)")
    case (Inl e)
    then have "\<not> (uo_SkipLocked opts \<and> isLockedAccountError e)" using assms(1) by (auto simp: copied_accounts_def split: if_splits)
    then show ?thesis using assms(3) k Inl by (auto split: if_splits)
  next
    case (Inr stmt)
    then show ?thesis using assms(2,3) k
      by (cases "fetchGrants source (ur_User u) (ur_Host u)") (auto simp: account_grants_def split: prod.splits option.splits)
  qed
qed

lemma copy_users_reaches:
  assumes "logging dest ddl_log" and "\<not> uo_DryRun opts" and "copy_users source dest opts (earlier @ rest) s d = (None, s', d')"
  shows "\<exists>s1 d1 xs. copy_users source dest opts rest s1 d1 = (None, s', d') \<and> ddl_log d1 = ddl_log d @ xs \<and>
    set xs \<subseteq> (\<Union>v \<in> set earlier. account_statements source v)"
  using assms(3)
proof (induction earlier arbitrary: s d)
  case (Cons v us)
  show ?case
  proof (cases "\<exists>s1. copy_users source dest opts (us @ rest) s1 d = (None, s', d')")
    case True
    then show ?thesis using Cons.IH by fastforce
  next
    case False
    then obtain stmt grants x1 s1 where v: "fetchCreateUser source (ur_User v) (ur_Host v) = Inr stmt"
      "fetchGrants source (ur_User v) (ur_Host v) = Inr grants"
      "applyUser dest \<lparr>ue_User = ur_User v, ue_Host = ur_Host v, ue_CreateSQL = stmt, ue_Grants = grants\<rparr> d = (None, x1)"
      "copy_users source dest opts (us @ rest) s1 x1 = (None, s', d')"
      using Cons.prems assms(2) by (auto split: if_splits sum.splits prod.splits option.splits)
    have "account_grants source v = grants" "account_create source v = sanitizeCreateUser stmt"
      using v(1,2) by (simp_all add: account_grants_def account_create_def)
    then obtain part where "ddl_log x1 = ddl_log d @ part" "set part \<subseteq> account_statements source v"
      using applyUser_executes [OF assms(1) v(3)] account_plan_statements [of dest source v d]
      by (auto simp: executes_def split: option.splits)
    moreover from Cons.IH [OF v(4)] obtain s2 d2 xs where "copy_users source dest opts rest s2 d2 = (None, s', d')"
      "ddl_log d2 = ddl_log x1 @ xs" "set xs \<subseteq> (\<Union>v \<in> set us. account_statements source v)" by blast
    ultimately show ?thesis by (intro exI [of _ s2] exI [of _ d2] exI [of _ "part @ xs"]) auto
  qed
qed auto

text \<open>
  Accounts are copied in the order of their names. When a grant of an account needs a
  statement of a later account, the role that it gives, say, which the destination lacks, the
  migration never succeeds.
\<close>

theorem later_account_blocks:
  assumes "logging dest ddl_log" and "ux_users source = Rows (earlier @ u # later)" and "uo_Scope opts \<noteq> ''''" and "\<not> uo_DryRun opts"
    and "u \<in> set (copied_accounts source opts [u])" and "grant \<in> set (account_grants source u)" and "\<not> isUsageGrant grant"
    and "needed \<notin> set (ddl_log d)" and "\<forall>v \<in> set earlier \<union> {u}. needed \<notin> account_statements source v"
    and "\<And>d1. needed \<notin> set (ddl_log d1) \<Longrightarrow> fst (dd_exec dest grant d1) \<noteq> None"
  shows "fst (CopyUsers True source dest opts d) \<noteq> None"
proof
  assume n: "fst (CopyUsers True source dest opts d) = None"
  obtain summary d' where "CopyUsers True source dest opts d = (None, summary, d')" using n by (metis prod.collapse)
  then have run: "copy_users source dest opts (earlier @ u # later) (user_summary (uo_DryRun opts) (length (earlier @ u # later))) d =
      (None, summary, d')"
    using assms(2,3) by (simp add: CopyUsers_def queryUsers_def rows_or_error_def)
  from copy_users_reaches [OF assms(1,4) run] obtain s1 d1 xs where d1: "copy_users source dest opts (u # later) s1 d1 = (None, summary, d')"
    "ddl_log d1 = ddl_log d @ xs" "set xs \<subseteq> (\<Union>v \<in> set earlier. account_statements source v)" by blast
  from copied_account_step [OF assms(5,4) d1(1)] obtain stmt d2 where d2: "fetchCreateUser source (ur_User u) (ur_Host u) = Inr stmt"
    "applyUser dest \<lparr>ue_User = ur_User u, ue_Host = ur_Host u, ue_CreateSQL = stmt, ue_Grants = account_grants source u\<rparr> d1 = (None, d2)"
    by blast
  from applyUser_grant [OF assms(1) d2(2), of grant] assms(6,7) obtain d3 ys where "ddl_log d3 = ddl_log d1 @ ys"
    "set ys \<subseteq> account_statements source u" "fst (dd_exec dest grant d3) = None"
    using d2(1) by (auto simp: account_statements_def account_create_def)
  moreover have "needed \<notin> set (ddl_log d3)" using calculation(1,2) d1(2,3) assms(8,9) by auto
  ultimately show False using assms(10) by blast
qed

section \<open>Examples\<close>

text \<open>The account app has the role staff, which comes later; root is left out.\<close>

definition example_user_source :: user_source where
  "example_user_source =
     \<lparr>ux_users = Rows [\<lparr>ur_User = ''app'', ur_Host = ''h''\<rparr>, \<lparr>ur_User = ''root'', ur_Host = ''h''\<rparr>, \<lparr>ur_User = ''staff'', ur_Host = ''h''\<rparr>],
      ux_show = (\<lambda>q. if q = ''SHOW CREATE USER '' @ quoteUser ''app'' ''h'' then Rows [''CREATE USER app'']
        else if q = ''SHOW CREATE USER '' @ quoteUser ''staff'' ''h'' then Rows [''CREATE USER staff'']
        else if q = ''SHOW GRANTS FOR '' @ quoteUser ''app'' ''h'' then Rows [''GRANT staff TO app'', ''GRANT USAGE ON *.* TO app'']
        else Rows [])\<rparr>"

definition example_user_options :: UserCopyOptions where
  "example_user_options = \<lparr>uo_Scope = ScopeBusiness, uo_DryRun = False, uo_SkipLocked = False\<rparr>"

lemma example_accounts:
  "copied_accounts example_user_source example_user_options
     [\<lparr>ur_User = ''app'', ur_Host = ''h''\<rparr>, \<lparr>ur_User = ''root'', ur_Host = ''h''\<rparr>, \<lparr>ur_User = ''staff'', ur_Host = ''h''\<rparr>] =
   [\<lparr>ur_User = ''app'', ur_Host = ''h''\<rparr>, \<lparr>ur_User = ''staff'', ur_Host = ''h''\<rparr>]"
  "copied_accounts example_user_source example_user_options [\<lparr>ur_User = ''app'', ur_Host = ''h''\<rparr>] = [\<lparr>ur_User = ''app'', ur_Host = ''h''\<rparr>]"
  "account_grants example_user_source \<lparr>ur_User = ''app'', ur_Host = ''h''\<rparr> = [''GRANT staff TO app'', ''GRANT USAGE ON *.* TO app'']"
  "account_create example_user_source \<lparr>ur_User = ''app'', ur_Host = ''h''\<rparr> = ''CREATE USER app''"
  "grants_plan [''GRANT staff TO app'', ''GRANT USAGE ON *.* TO app''] = [''GRANT staff TO app'', ''FLUSH PRIVILEGES'']"
  "isUsageGrant ''GRANT staff TO app'' = False"
  by code_simp+

text \<open>On a destination that has the role already the account app is complete when the one of the role fails.\<close>

theorem CopyUsers_executes_witness:
  "let (err, summary, d') = CopyUsers True example_user_source (example_ddl_server (\<lambda>q d. q = ''CREATE USER staff'')) example_user_options []
   in err \<noteq> None \<and> accounts_ran (example_ddl_server (\<lambda>q d. q = ''CREATE USER staff'')) id example_user_source
        [\<lparr>ur_User = ''app'', ur_Host = ''h''\<rparr>, \<lparr>ur_User = ''staff'', ur_Host = ''h''\<rparr>] [] d' (us_UsersCopied summary) \<and>
      d' = [''CREATE USER app'', ''GRANT staff TO app'', ''FLUSH PRIVILEGES''] \<and> us_UsersCopied summary = 1"
proof -
  let ?dest = "example_ddl_server (\<lambda>q d. q = ''CREATE USER staff'')"
  have run: "CopyUsers True example_user_source ?dest example_user_options [] =
      (Some (''apply user staff@h: create user: refused''),
       \<lparr>us_UsersFound = 3, us_UsersSkipped = 1, us_UsersCopied = 1, us_GrantsCopied = 2, us_DryRun = False\<rparr>,
       [''CREATE USER app'', ''GRANT staff TO app'', ''FLUSH PRIVILEGES''])"
    by code_simp
  have opts: "uo_Scope example_user_options \<noteq> ''''" "\<not> uo_DryRun example_user_options"
    by (simp_all add: example_user_options_def ScopeBusiness_def)
  have "ux_users example_user_source =
      Rows [\<lparr>ur_User = ''app'', ur_Host = ''h''\<rparr>, \<lparr>ur_User = ''root'', ur_Host = ''h''\<rparr>, \<lparr>ur_User = ''staff'', ur_Host = ''h''\<rparr>]"
    by (simp add: example_user_source_def)
  from CopyUsers_executes [OF example_logging this opts run] show ?thesis by (simp add: run example_accounts(1))
qed

theorem later_account_blocks_witness:
  "fst (CopyUsers True example_user_source
     (example_ddl_server (\<lambda>q d. q = ''GRANT staff TO app'' \<and> ''CREATE USER staff'' \<notin> set d)) example_user_options []) \<noteq> None"
proof -
  have opts: "uo_Scope example_user_options \<noteq> ''''" "\<not> uo_DryRun example_user_options"
    by (simp_all add: example_user_options_def ScopeBusiness_def)
  have users: "ux_users example_user_source =
      Rows ([] @ \<lparr>ur_User = ''app'', ur_Host = ''h''\<rparr> # [\<lparr>ur_User = ''root'', ur_Host = ''h''\<rparr>, \<lparr>ur_User = ''staff'', ur_Host = ''h''\<rparr>])"
    by (simp add: example_user_source_def)
  have "account_statements example_user_source \<lparr>ur_User = ''app'', ur_Host = ''h''\<rparr> =
      {''CREATE USER app'', ''GRANT staff TO app'', ''FLUSH PRIVILEGES''}"
    by (simp add: account_statements_def example_accounts)
  then show ?thesis
    by (intro later_account_blocks [OF example_logging users opts, where grant = "''GRANT staff TO app''" and needed = "''CREATE USER staff''"])
      (simp_all add: example_accounts example_ddl_server_def)
qed

end
