(* ===== verification/Precheck_Hidden.thy ===== *)
theory Precheck_Hidden
  imports Precheck_Collation
begin

text \<open>
  The precheck for invisible columns and indexes and for generated invisible primary keys
  (internal/commands/invisible_gipk_precheck.go), with the report that it keeps in the state directory.
\<close>

section \<open>Data\<close>

record invisibleColumnIssue =
  hc_Database :: string
  hc_Table :: string
  hc_Column :: string
  hc_Extra :: string
  hc_Proposal :: string

record invisibleIndexIssue =
  hix_Database :: string
  hix_Table :: string
  hix_Index :: string
  hix_Proposal :: string

record generatedInvisiblePrimaryKeyIssue =
  gk_Database :: string
  gk_Table :: string
  gk_Column :: string
  gk_Proposal :: string

record invisibleGIPKPrecheckReport =
  ig_Name :: string
  ig_Incompatible :: bool
  ig_SourceVersion :: string
  ig_DestVersion :: string
  ig_SourceShowGIPKVariablePresent :: bool
  ig_SourceShowGIPKEnabled :: bool
  ig_SourceGenerateGIPKVariableKnown :: bool
  ig_SourceGenerateGIPKEnabled :: bool
  ig_InvisibleColumnCount :: int
  ig_InvisibleIndexCount :: int
  ig_GIPKTableCount :: int
  ig_InvisibleColumns :: "invisibleColumnIssue list"
  ig_InvisibleIndexes :: "invisibleIndexIssue list"
  ig_GIPKTables :: "generatedInvisiblePrimaryKeyIssue list"
  ig_Findings :: "Finding list"

text \<open>The answers of the source, and the version of the destination.\<close>

record hidden_source =
  hs_version :: "string + string"
  hs_showGipk :: "string scalar"
  hs_generateGipk :: "string scalar"
  hs_schemata :: "string query_result"
  hs_columns :: "string list \<Rightarrow> (string \<times> string \<times> string \<times> string) query_result"
  hs_indexes :: "string list \<Rightarrow> (string \<times> string \<times> string) query_result"
  hs_keys :: "string list \<Rightarrow> (string \<times> string \<times> string) query_result"

section \<open>Queries\<close>

text \<open>The value, whether the variable is there, and the error.\<close>

definition queryOptionalBooleanVariable :: "string scalar \<Rightarrow> bool \<times> bool \<times> string option" where
  "queryOptionalBooleanVariable answer =
     (case answer of
        Inl e \<Rightarrow> (False, False, Some e)
      | Inr raw \<Rightarrow>
          (let v = TrimSpace (ToLower (case raw of None \<Rightarrow> '''' | Some s \<Rightarrow> s))
           in (v \<in> {''1'', ''on'', ''true''}, True, None)))"

definition column_issue :: "string \<times> string \<times> string \<times> string \<Rightarrow> invisibleColumnIssue" where
  "column_issue row =
     (case row of (d, t, c, extra) \<Rightarrow>
        \<lparr>hc_Database = d, hc_Table = t, hc_Column = c, hc_Extra = TrimSpace extra,
         hc_Proposal = ''Materialize '' @ d @ ''.'' @ t @ '' column '' @ c
           @ '' as visible before downgrade or cross-engine migration if the destination cannot preserve invisible-column semantics.''\<rparr>)"

definition queryInvisibleColumnIssues :: "hidden_source \<Rightarrow> string list \<Rightarrow> string + invisibleColumnIssue list" where
  "queryInvisibleColumnIssues source databases =
     bind_result (labelled_rows ''query source invisible columns'' (hs_columns source databases)) (\<lambda>rows. Inr (map column_issue rows))"

definition index_issue :: "string \<times> string \<times> string \<Rightarrow> invisibleIndexIssue" where
  "index_issue row =
     (case row of (d, t, i) \<Rightarrow>
        \<lparr>hix_Database = d, hix_Table = t, hix_Index = i,
         hix_Proposal = ''Decide whether '' @ d @ ''.'' @ t @ '' index '' @ i
           @ '' must stay hidden. Destinations that do not preserve invisible indexes will expose it as a normal index.''\<rparr>)"

definition queryInvisibleIndexIssues :: "hidden_source \<Rightarrow> string list \<Rightarrow> string + invisibleIndexIssue list" where
  "queryInvisibleIndexIssues source databases =
     bind_result (labelled_rows ''query source invisible indexes'' (hs_indexes source databases)) (\<lambda>rows. Inr (map index_issue rows))"

definition gipk_issue :: "string \<times> string \<times> string \<Rightarrow> generatedInvisiblePrimaryKeyIssue" where
  "gipk_issue row =
     (case row of (d, t, c) \<Rightarrow>
        \<lparr>gk_Database = d, gk_Table = t, gk_Column = c,
         gk_Proposal = ''Keep dump mode explicit for '' @ d @ ''.'' @ t
           @ '': including GIPK preserves the hidden key on supported MySQL targets, while --skip-generated-invisible-primary-key drops it from logical dumps entirely.''\<rparr>)"

definition queryGeneratedInvisiblePrimaryKeyIssues :: "hidden_source \<Rightarrow> string list \<Rightarrow> string + generatedInvisiblePrimaryKeyIssue list" where
  "queryGeneratedInvisiblePrimaryKeyIssues source databases =
     bind_result (labelled_rows ''query source generated invisible primary keys'' (hs_keys source databases)) (\<lambda>rows. Inr (map gipk_issue rows))"

section \<open>What the destination supports\<close>

definition versionAtLeast :: "Instance \<Rightarrow> int \<Rightarrow> int \<Rightarrow> int \<Rightarrow> bool" where
  "versionAtLeast i major minor patch =
     (if \<not> in_Parsed i then False
      else if in_Major i \<noteq> major then in_Major i > major
      else if in_Minor i \<noteq> minor then in_Minor i > minor
      else in_Patch i \<ge> patch)"

definition destinationSupportsInvisibleColumns :: "Instance \<Rightarrow> bool" where
  "destinationSupportsInvisibleColumns dest =
     (if in_Engine dest = EngineMySQL then versionAtLeast dest 8 0 23
      else if in_Engine dest = EngineMariaDB then versionAtLeast dest 10 3 3
      else False)"

definition destinationSupportsInvisibleIndexes :: "Instance \<Rightarrow> bool" where
  "destinationSupportsInvisibleIndexes dest = (in_Engine dest = EngineMySQL \<and> versionAtLeast dest 8 0 0)"

definition destinationSupportsGIPK :: "Instance \<Rightarrow> bool" where
  "destinationSupportsGIPK dest = (in_Engine dest = EngineMySQL \<and> versionAtLeast dest 8 0 30)"

definition invisibleFeatureDriftsOnDestination :: "Instance \<Rightarrow> invisibleGIPKPrecheckReport \<Rightarrow> bool" where
  "invisibleFeatureDriftsOnDestination dest report =
     (if ig_InvisibleColumnCount report = 0 \<and> ig_InvisibleIndexCount report = 0 then False
      else if ig_InvisibleColumnCount report > 0 \<and> \<not> destinationSupportsInvisibleColumns dest then True
      else if ig_InvisibleIndexCount report > 0 \<and> \<not> destinationSupportsInvisibleIndexes dest then True
      else False)"

definition gipkDriftsOnDestination :: "Instance \<Rightarrow> invisibleGIPKPrecheckReport \<Rightarrow> bool" where
  "gipkDriftsOnDestination dest report = (if ig_GIPKTableCount report = 0 then False else \<not> destinationSupportsGIPK dest)"

definition invisibleGIPKIncompatible :: "Instance \<Rightarrow> Instance \<Rightarrow> invisibleGIPKPrecheckReport \<Rightarrow> bool" where
  "invisibleGIPKIncompatible source dest report = (invisibleFeatureDriftsOnDestination dest report \<or> gipkDriftsOnDestination dest report)"

section \<open>Findings\<close>

text \<open>The zero value of an instance; it is not looked at.\<close>

definition no_instance :: Instance where
  "no_instance = \<lparr>in_Engine = EngineUnknown, in_RawVersion = '''', in_Major = 0, in_Minor = 0, in_Patch = 0, in_Parsed = False, in_Version = ''''\<rparr>"

definition invisibleGIPKSummaryProposal :: "Instance \<Rightarrow> invisibleGIPKPrecheckReport \<Rightarrow> string" where
  "invisibleGIPKSummaryProposal dest report =
     (if invisibleGIPKIncompatible no_instance dest report
      then (case in_Engine dest of
              EngineMariaDB \<Rightarrow> ''Destination MariaDB does not preserve MySQL invisible-column, invisible-index, or GIPK semantics. Materialize hidden schema features explicitly before migrate, or keep this path blocked.''
            | EngineMySQL \<Rightarrow> ''Destination MySQL line is too old for at least one hidden-schema feature in source. Upgrade the destination or remove hidden-schema features before rerunning plan/migrate.''
            | EngineUnknown \<Rightarrow> ''Destination support for hidden-schema features is unknown. Do not proceed until invisible-column and GIPK behavior is proven for this target.'')
      else if ig_GIPKTableCount report > 0
      then ''Keep dump/import mode explicit for GIPK tables. Supported MySQL targets preserve hidden PKs when included, while --skip-generated-invisible-primary-key removes them entirely from logical dumps.''
      else ''Destination appears to preserve the hidden-schema features found in source. Keep rehearsal evidence anyway so downgrade behavior stays explicit.'')"

definition hidden_summary :: "Instance \<Rightarrow> Instance \<Rightarrow> invisibleGIPKPrecheckReport \<Rightarrow> Finding" where
  "hidden_summary source dest report =
     finding ''invisible_gipk_features_detected'' (if invisibleGIPKIncompatible source dest report then ''error'' else ''warn'')
       (''Detected '' @ show_int (ig_InvisibleColumnCount report + ig_InvisibleIndexCount report + ig_GIPKTableCount report)
         @ '' hidden-schema feature(s) in source scope: invisible_columns='' @ show_int (ig_InvisibleColumnCount report)
         @ '' invisible_indexes='' @ show_int (ig_InvisibleIndexCount report) @ '' gipk_tables='' @ show_int (ig_GIPKTableCount report) @ ''.'')
       (invisibleGIPKSummaryProposal dest report)"

definition buildInvisibleGIPKFindings :: "Instance \<Rightarrow> Instance \<Rightarrow> invisibleGIPKPrecheckReport \<Rightarrow> Finding list" where
  "buildInvisibleGIPKFindings source dest report =
     (if ig_InvisibleColumnCount report = 0 \<and> ig_InvisibleIndexCount report = 0 \<and> ig_GIPKTableCount report = 0
      then [finding ''invisible_gipk_inventory_clean'' ''info''
              ''Selected source databases do not use invisible columns, invisible indexes, or generated invisible primary keys.''
              ''No Phase 62 downgrade evidence is required for this scope. Keep the rehearsal script for future MySQL-source paths that introduce hidden schema features.'']
      else (let invisibleSeverity = (if invisibleFeatureDriftsOnDestination dest report then ''error'' else ''info'');
                gipkSeverity = (if gipkDriftsOnDestination dest report then ''error'' else ''warn'')
            in [hidden_summary source dest report]
               @ map (\<lambda>i. finding ''invisible_column_detected'' invisibleSeverity
                   (''Source '' @ hc_Database i @ ''.'' @ hc_Table i @ '' column '' @ hc_Column i @ '' is invisible ('' @ hc_Extra i @ '').'')
                   (hc_Proposal i)) (ig_InvisibleColumns report)
               @ map (\<lambda>i. finding ''invisible_index_detected'' invisibleSeverity
                   (''Source '' @ hix_Database i @ ''.'' @ hix_Table i @ '' index '' @ hix_Index i @ '' is invisible.'') (hix_Proposal i))
                   (ig_InvisibleIndexes report)
               @ map (\<lambda>i. finding ''generated_invisible_primary_key_detected'' gipkSeverity
                   (''Source '' @ gk_Database i @ ''.'' @ gk_Table i @ '' relies on invisible primary-key column '' @ gk_Column i @ ''.'')
                   (gk_Proposal i)) (ig_GIPKTables report)))"

section \<open>The report in the state directory\<close>

definition hidden_column_fields :: "invisibleColumnIssue \<Rightarrow> (string \<times> bool \<times> json) list" where
  "hidden_column_fields r = [
     (''database'', False, JStr (hc_Database r)),
     (''table'', False, JStr (hc_Table r)),
     (''column'', False, JStr (hc_Column r)),
     (''extra'', False, JStr (hc_Extra r)),
     (''proposal'', False, JStr (hc_Proposal r))]"

definition enc_hidden_column :: "invisibleColumnIssue \<Rightarrow> json" where
  "enc_hidden_column r = struct (hidden_column_fields r)"

definition dec_hidden_column :: "json \<Rightarrow> invisibleColumnIssue option" where
  "dec_hidden_column = dec_obj (\<lambda>o'.
     bindo (dec_str (get ''database'' o')) (\<lambda>a1.
     bindo (dec_str (get ''table'' o')) (\<lambda>a2.
     bindo (dec_str (get ''column'' o')) (\<lambda>a3.
     bindo (dec_str (get ''extra'' o')) (\<lambda>a4.
     bindo (dec_str (get ''proposal'' o')) (\<lambda>a5.
       Some \<lparr>hc_Database = a1, hc_Table = a2, hc_Column = a3, hc_Extra = a4, hc_Proposal = a5\<rparr>))))))"

lemma hidden_column_fields_distinct: "distinct (map fst (hidden_column_fields r))"
  by (simp add: hidden_column_fields_def)

lemma dec_enc_hidden_column [simp]: "dec_hidden_column (enc_hidden_column r) = Some r"
  unfolding dec_hidden_column_def enc_hidden_column_def dec_struct get_present [OF hidden_column_fields_distinct]
  by (simp add: hidden_column_fields_def)

definition hidden_index_fields :: "invisibleIndexIssue \<Rightarrow> (string \<times> bool \<times> json) list" where
  "hidden_index_fields r = [
     (''database'', False, JStr (hix_Database r)),
     (''table'', False, JStr (hix_Table r)),
     (''index'', False, JStr (hix_Index r)),
     (''proposal'', False, JStr (hix_Proposal r))]"

definition enc_hidden_index :: "invisibleIndexIssue \<Rightarrow> json" where
  "enc_hidden_index r = struct (hidden_index_fields r)"

definition dec_hidden_index :: "json \<Rightarrow> invisibleIndexIssue option" where
  "dec_hidden_index = dec_obj (\<lambda>o'.
     bindo (dec_str (get ''database'' o')) (\<lambda>a1.
     bindo (dec_str (get ''table'' o')) (\<lambda>a2.
     bindo (dec_str (get ''index'' o')) (\<lambda>a3.
     bindo (dec_str (get ''proposal'' o')) (\<lambda>a4.
       Some \<lparr>hix_Database = a1, hix_Table = a2, hix_Index = a3, hix_Proposal = a4\<rparr>)))))"

lemma hidden_index_fields_distinct: "distinct (map fst (hidden_index_fields r))"
  by (simp add: hidden_index_fields_def)

lemma dec_enc_hidden_index [simp]: "dec_hidden_index (enc_hidden_index r) = Some r"
  unfolding dec_hidden_index_def enc_hidden_index_def dec_struct get_present [OF hidden_index_fields_distinct]
  by (simp add: hidden_index_fields_def)

definition hidden_key_fields :: "generatedInvisiblePrimaryKeyIssue \<Rightarrow> (string \<times> bool \<times> json) list" where
  "hidden_key_fields r = [
     (''database'', False, JStr (gk_Database r)),
     (''table'', False, JStr (gk_Table r)),
     (''column'', False, JStr (gk_Column r)),
     (''proposal'', False, JStr (gk_Proposal r))]"

definition enc_hidden_key :: "generatedInvisiblePrimaryKeyIssue \<Rightarrow> json" where
  "enc_hidden_key r = struct (hidden_key_fields r)"

definition dec_hidden_key :: "json \<Rightarrow> generatedInvisiblePrimaryKeyIssue option" where
  "dec_hidden_key = dec_obj (\<lambda>o'.
     bindo (dec_str (get ''database'' o')) (\<lambda>a1.
     bindo (dec_str (get ''table'' o')) (\<lambda>a2.
     bindo (dec_str (get ''column'' o')) (\<lambda>a3.
     bindo (dec_str (get ''proposal'' o')) (\<lambda>a4.
       Some \<lparr>gk_Database = a1, gk_Table = a2, gk_Column = a3, gk_Proposal = a4\<rparr>)))))"

lemma hidden_key_fields_distinct: "distinct (map fst (hidden_key_fields r))"
  by (simp add: hidden_key_fields_def)

lemma dec_enc_hidden_key [simp]: "dec_hidden_key (enc_hidden_key r) = Some r"
  unfolding dec_hidden_key_def enc_hidden_key_def dec_struct get_present [OF hidden_key_fields_distinct]
  by (simp add: hidden_key_fields_def)

definition hidden_fields :: "invisibleGIPKPrecheckReport \<Rightarrow> (string \<times> bool \<times> json) list" where
  "hidden_fields r = [
     (''name'', False, JStr (ig_Name r)),
     (''incompatible'', False, JBool (ig_Incompatible r)),
     (''source_version'', False, JStr (ig_SourceVersion r)),
     (''dest_version'', False, JStr (ig_DestVersion r)),
     (''source_show_gipk_variable_present'', False, JBool (ig_SourceShowGIPKVariablePresent r)),
     (''source_show_gipk_enabled'', False, JBool (ig_SourceShowGIPKEnabled r)),
     (''source_generate_gipk_variable_known'', False, JBool (ig_SourceGenerateGIPKVariableKnown r)),
     (''source_generate_gipk_enabled'', False, JBool (ig_SourceGenerateGIPKEnabled r)),
     (''invisible_column_count'', False, JNum (ig_InvisibleColumnCount r)),
     (''invisible_index_count'', False, JNum (ig_InvisibleIndexCount r)),
     (''gipk_table_count'', False, JNum (ig_GIPKTableCount r)),
     (''invisible_columns'', ig_InvisibleColumns r = [], JArr (map enc_hidden_column (ig_InvisibleColumns r))),
     (''invisible_indexes'', ig_InvisibleIndexes r = [], JArr (map enc_hidden_index (ig_InvisibleIndexes r))),
     (''gipk_tables'', ig_GIPKTables r = [], JArr (map enc_hidden_key (ig_GIPKTables r))),
     (''findings'', ig_Findings r = [], JArr (map enc_finding (ig_Findings r)))]"

definition enc_hidden :: "invisibleGIPKPrecheckReport \<Rightarrow> json" where
  "enc_hidden r = struct (hidden_fields r)"

definition dec_hidden :: "json \<Rightarrow> invisibleGIPKPrecheckReport option" where
  "dec_hidden = dec_obj (\<lambda>o'.
     bindo (dec_str (get ''name'' o')) (\<lambda>a1.
     bindo (dec_bool (get ''incompatible'' o')) (\<lambda>a2.
     bindo (dec_str (get ''source_version'' o')) (\<lambda>a3.
     bindo (dec_str (get ''dest_version'' o')) (\<lambda>a4.
     bindo (dec_bool (get ''source_show_gipk_variable_present'' o')) (\<lambda>a5.
     bindo (dec_bool (get ''source_show_gipk_enabled'' o')) (\<lambda>a6.
     bindo (dec_bool (get ''source_generate_gipk_variable_known'' o')) (\<lambda>a7.
     bindo (dec_bool (get ''source_generate_gipk_enabled'' o')) (\<lambda>a8.
     bindo (dec_int (get ''invisible_column_count'' o')) (\<lambda>a9.
     bindo (dec_int (get ''invisible_index_count'' o')) (\<lambda>a10.
     bindo (dec_int (get ''gipk_table_count'' o')) (\<lambda>a11.
     bindo (dec_list dec_hidden_column (get ''invisible_columns'' o')) (\<lambda>a12.
     bindo (dec_list dec_hidden_index (get ''invisible_indexes'' o')) (\<lambda>a13.
     bindo (dec_list dec_hidden_key (get ''gipk_tables'' o')) (\<lambda>a14.
     bindo (dec_list dec_finding (get ''findings'' o')) (\<lambda>a15.
       Some \<lparr>ig_Name = a1, ig_Incompatible = a2, ig_SourceVersion = a3, ig_DestVersion = a4, ig_SourceShowGIPKVariablePresent = a5, ig_SourceShowGIPKEnabled = a6, ig_SourceGenerateGIPKVariableKnown = a7, ig_SourceGenerateGIPKEnabled = a8, ig_InvisibleColumnCount = a9, ig_InvisibleIndexCount = a10, ig_GIPKTableCount = a11, ig_InvisibleColumns = a12, ig_InvisibleIndexes = a13, ig_GIPKTables = a14, ig_Findings = a15\<rparr>))))))))))))))))"

lemma hidden_fields_distinct: "distinct (map fst (hidden_fields r))"
  by (simp add: hidden_fields_def)

definition valid_hidden :: "invisibleGIPKPrecheckReport \<Rightarrow> bool" where
  "valid_hidden r = (is_int64 (ig_InvisibleColumnCount r) \<and> is_int64 (ig_InvisibleIndexCount r) \<and> is_int64 (ig_GIPKTableCount r))"

lemma dec_enc_hidden: "valid_hidden r \<Longrightarrow> dec_hidden (enc_hidden r) = Some r"
  unfolding dec_hidden_def enc_hidden_def dec_struct get_present [OF hidden_fields_distinct] valid_hidden_def
  by (simp add: hidden_fields_def dec_omitted_list del: dec_list.simps dec_int.simps)

interpretation hidden_store: artifact_store enc_hidden dec_hidden valid_hidden
  by unfold_locales (rule dec_enc_hidden)

definition invisibleGIPKPrecheckArtifactPath :: "string \<Rightarrow> string" where
  "invisibleGIPKPrecheckArtifactPath stateDir = artifact_path ''invisible-gipk-precheck.json'' stateDir"

definition persistInvisibleGIPKPrecheckArtifact ::
  "write_env \<Rightarrow> string option \<Rightarrow> string \<Rightarrow> invisibleGIPKPrecheckReport \<Rightarrow> fs \<Rightarrow> string option \<times> fs" where
  "persistInvisibleGIPKPrecheckArtifact env mkdirErr stateDir report fs =
     (case mkdirErr of
        Some e \<Rightarrow> (Some (''mkdir state-dir for invisible/gipk precheck artifact: '' @ e), fs)
      | None \<Rightarrow> persist_artifact ''invisible/gipk precheck artifact'' enc_hidden env (invisibleGIPKPrecheckArtifactPath stateDir) report fs)"

definition loadInvisibleGIPKPrecheckArtifact :: "string option \<Rightarrow> string \<Rightarrow> fs \<Rightarrow> string + invisibleGIPKPrecheckReport" where
  "loadInvisibleGIPKPrecheckArtifact readErr stateDir fs =
     load_artifact ''invisible/gipk precheck artifact'' dec_hidden readErr (invisibleGIPKPrecheckArtifactPath stateDir) fs"

section \<open>The precheck\<close>

definition hidden_report :: invisibleGIPKPrecheckReport where
  "hidden_report =
     \<lparr>ig_Name = ''invisible-gipk'', ig_Incompatible = False, ig_SourceVersion = '''', ig_DestVersion = '''',
      ig_SourceShowGIPKVariablePresent = False, ig_SourceShowGIPKEnabled = False, ig_SourceGenerateGIPKVariableKnown = False,
      ig_SourceGenerateGIPKEnabled = False, ig_InvisibleColumnCount = 0, ig_InvisibleIndexCount = 0, ig_GIPKTableCount = 0,
      ig_InvisibleColumns = [], ig_InvisibleIndexes = [], ig_GIPKTables = [], ig_Findings = []\<rparr>"

definition add_hidden :: "Finding list \<Rightarrow> invisibleGIPKPrecheckReport \<Rightarrow> invisibleGIPKPrecheckReport" where
  "add_hidden findings report = report\<lparr>ig_Findings := ig_Findings report @ findings\<rparr>"

definition show_gipk_step :: "hidden_source \<Rightarrow> invisibleGIPKPrecheckReport \<Rightarrow> invisibleGIPKPrecheckReport" where
  "show_gipk_step source report =
     (case queryOptionalBooleanVariable (hs_showGipk source) of (v, isPresent, err) \<Rightarrow>
        (let report = report\<lparr>ig_SourceShowGIPKVariablePresent := isPresent, ig_SourceShowGIPKEnabled := v\<rparr>
         in case err of
              None \<Rightarrow> report
            | Some e \<Rightarrow> add_hidden
                [finding ''source_show_gipk_inventory_unavailable'' ''warn''
                   (''Unable to read source @@show_gipk_in_create_table_and_information_schema: '' @ e @ ''.'')
                   ''Keep GIPK inventory on and visible during plan/migrate runs so generated invisible primary keys are not hidden from precheck output.'']
                report))"

definition generate_gipk_step :: "hidden_source \<Rightarrow> invisibleGIPKPrecheckReport \<Rightarrow> invisibleGIPKPrecheckReport" where
  "generate_gipk_step source report =
     (case queryOptionalBooleanVariable (hs_generateGipk source) of (v, isPresent, err) \<Rightarrow>
        (let report = report\<lparr>ig_SourceGenerateGIPKVariableKnown := isPresent, ig_SourceGenerateGIPKEnabled := v\<rparr>
         in case err of
              None \<Rightarrow> report
            | Some e \<Rightarrow> add_hidden
                [finding ''source_generate_gipk_variable_unavailable'' ''warn''
                   (''Unable to read source @@sql_generate_invisible_primary_key: '' @ e @ ''.'')
                   ''Do not assume GIPK generation policy is disabled just because the variable is not visible to this session.'']
                report))"

text \<open>Indexes and generated keys are looked at on MySQL only.\<close>

definition mysql_hidden ::
  "hidden_source \<Rightarrow> Instance \<Rightarrow> string list \<Rightarrow> invisibleGIPKPrecheckReport \<Rightarrow> (string \<times> invisibleGIPKPrecheckReport) + invisibleGIPKPrecheckReport" where
  "mysql_hidden source sourceInstance databases report =
     (if in_Engine sourceInstance \<noteq> EngineMySQL then Inr report
      else (case queryInvisibleIndexIssues source databases of
              Inl e \<Rightarrow> Inl (e, report)
            | Inr indexes \<Rightarrow>
                (let report = report\<lparr>ig_InvisibleIndexes := indexes, ig_InvisibleIndexCount := int (length indexes)\<rparr>
                 in case queryGeneratedInvisiblePrimaryKeyIssues source databases of
                      Inl e \<Rightarrow> Inl (e, report)
                    | Inr keys \<Rightarrow> Inr (report\<lparr>ig_GIPKTables := keys, ig_GIPKTableCount := int (length keys)\<rparr>))))"

definition finish_hidden :: "Instance \<Rightarrow> Instance \<Rightarrow> invisibleGIPKPrecheckReport \<Rightarrow> invisibleGIPKPrecheckReport" where
  "finish_hidden sourceInstance destInstance report =
     (let report = (if ig_SourceShowGIPKVariablePresent report \<and> \<not> ig_SourceShowGIPKEnabled report
            then add_hidden
              [finding ''source_show_gipk_disabled'' ''warn''
                 ''Source @@show_gipk_in_create_table_and_information_schema is disabled; generated invisible primary key inventory may be incomplete.''
                 ''Enable source show_gipk_in_create_table_and_information_schema while collecting evidence so hidden primary keys are not silently omitted from plan output.'']
              report
            else report);
          report = add_hidden (buildInvisibleGIPKFindings sourceInstance destInstance report) report
      in report\<lparr>ig_Incompatible := invisibleGIPKIncompatible sourceInstance destInstance report\<rparr>)"

definition runInvisibleGIPKPrecheck ::
  "write_env \<Rightarrow> string option \<Rightarrow> hidden_source \<Rightarrow> string + string \<Rightarrow> string \<Rightarrow> string list \<Rightarrow> string list \<Rightarrow> fs
     \<Rightarrow> string option \<times> invisibleGIPKPrecheckReport \<times> fs" where
  "runInvisibleGIPKPrecheck env mkdirErr source destAnswer stateDir includeDatabases excludeDatabases fs =
     (let report = hidden_report
      in case queryServerVersion (hs_version source) of
           Inl e \<Rightarrow> (Some (''detect source version: '' @ e), report, fs)
         | Inr sourceVersion \<Rightarrow>
      (case queryServerVersion destAnswer of
           Inl e \<Rightarrow> (Some (''detect destination version: '' @ e), report, fs)
         | Inr destVersion \<Rightarrow>
      (let sourceInstance = ParseInstance sourceVersion;
           destInstance = ParseInstance destVersion;
           report = report\<lparr>ig_SourceVersion := sourceVersion, ig_DestVersion := destVersion\<rparr>;
           report = (if in_Engine sourceInstance = EngineMySQL then generate_gipk_step source (show_gipk_step source report) else report)
      in case rows_or_error (hs_schemata source) of
           Inl e \<Rightarrow> (Some (''list source databases: '' @ e), report, fs)
         | Inr allDatabases \<Rightarrow>
      (let selectedDatabases = SelectDatabases allDatabases includeDatabases excludeDatabases
      in if selectedDatabases = []
         then (None, add_hidden
                [finding ''invisible_gipk_no_selected_databases'' ''info''
                   ''No source databases selected for invisible-column or GIPK inventory.''
                   ''Set --databases or verify include/exclude filters if downgrade evidence should be scoped to a partial migration set.''] report, fs)
         else (case queryInvisibleColumnIssues source selectedDatabases of
                 Inl e \<Rightarrow> (Some e, report, fs)
               | Inr columns \<Rightarrow>
                   (case mysql_hidden source sourceInstance selectedDatabases
                           (report\<lparr>ig_InvisibleColumns := columns, ig_InvisibleColumnCount := int (length columns)\<rparr>) of
                      Inl (e, report) \<Rightarrow> (Some e, report, fs)
                    | Inr report \<Rightarrow>
                        (let report = finish_hidden sourceInstance destInstance report
                         in case persistInvisibleGIPKPrecheckArtifact env mkdirErr stateDir report fs of
                              (err, fs') \<Rightarrow> (err, report, fs'))))))))"

section \<open>When it refuses\<close>

lemma versionAtLeast_order:
  "in_Parsed i \<Longrightarrow> versionAtLeast i a b c \<longleftrightarrow> (a, b, c) \<le> (in_Major i, in_Minor i, in_Patch i)"
  by (auto simp: versionAtLeast_def less_eq_prod_def)

lemma add_hidden_simps [simp]:
  "ig_Findings (add_hidden fs r) = ig_Findings r @ fs" "ig_InvisibleColumnCount (add_hidden fs r) = ig_InvisibleColumnCount r"
  "ig_InvisibleIndexCount (add_hidden fs r) = ig_InvisibleIndexCount r" "ig_GIPKTableCount (add_hidden fs r) = ig_GIPKTableCount r"
  "ig_InvisibleColumns (add_hidden fs r) = ig_InvisibleColumns r"
  "ig_InvisibleIndexes (add_hidden fs r) = ig_InvisibleIndexes r" "ig_GIPKTables (add_hidden fs r) = ig_GIPKTables r"
  by (simp_all add: add_hidden_def)

lemma drifts_add_hidden [simp]:
  "invisibleGIPKIncompatible s d (add_hidden fs r) = invisibleGIPKIncompatible s d r"
  by (simp add: invisibleGIPKIncompatible_def invisibleFeatureDriftsOnDestination_def gipkDriftsOnDestination_def)

text \<open>A report whose counts are those of its lists.\<close>

definition counted :: "invisibleGIPKPrecheckReport \<Rightarrow> bool" where
  "counted r = (ig_InvisibleColumnCount r = int (length (ig_InvisibleColumns r)) \<and>
     ig_InvisibleIndexCount r = int (length (ig_InvisibleIndexes r)) \<and> ig_GIPKTableCount r = int (length (ig_GIPKTables r)))"

lemma build_has_error:
  "counted r \<Longrightarrow> has_error (buildInvisibleGIPKFindings s d r) \<longleftrightarrow> invisibleGIPKIncompatible s d r"
  by (auto simp: counted_def buildInvisibleGIPKFindings_def hidden_summary_def Let_def has_error_simps has_error_map
      invisibleGIPKIncompatible_def invisibleFeatureDriftsOnDestination_def gipkDriftsOnDestination_def)

lemma steps_warn:
  "has_error (ig_Findings (show_gipk_step source r)) = has_error (ig_Findings r)"
  "has_error (ig_Findings (generate_gipk_step source r)) = has_error (ig_Findings r)"
  by (simp_all add: show_gipk_step_def generate_gipk_step_def Let_def has_error_simps split: prod.splits option.splits)

lemma steps_lists:
  "ig_InvisibleIndexes (show_gipk_step source r) = ig_InvisibleIndexes r" "ig_GIPKTables (show_gipk_step source r) = ig_GIPKTables r"
  "ig_InvisibleIndexCount (show_gipk_step source r) = ig_InvisibleIndexCount r" "ig_GIPKTableCount (show_gipk_step source r) = ig_GIPKTableCount r"
  "ig_InvisibleIndexes (generate_gipk_step source r) = ig_InvisibleIndexes r" "ig_GIPKTables (generate_gipk_step source r) = ig_GIPKTables r"
  "ig_InvisibleIndexCount (generate_gipk_step source r) = ig_InvisibleIndexCount r"
  "ig_GIPKTableCount (generate_gipk_step source r) = ig_GIPKTableCount r"
  by (simp_all add: show_gipk_step_def generate_gipk_step_def Let_def split: prod.splits option.splits)

lemma finish_hidden_refuses:
  assumes "counted r" and "\<not> has_error (ig_Findings r)"
  shows "ig_Incompatible (finish_hidden s d r) \<longleftrightarrow> invisibleGIPKIncompatible s d r"
    and "has_error (ig_Findings (finish_hidden s d r)) \<longleftrightarrow> invisibleGIPKIncompatible s d r"
proof -
  have "counted (add_hidden fs r)" for fs using assms(1) by (simp add: counted_def)
  then show "ig_Incompatible (finish_hidden s d r) \<longleftrightarrow> invisibleGIPKIncompatible s d r"
    "has_error (ig_Findings (finish_hidden s d r)) \<longleftrightarrow> invisibleGIPKIncompatible s d r"
    using assms by (auto simp: finish_hidden_def Let_def has_error_simps build_has_error)
qed

lemma mysql_hidden_done:
  assumes "mysql_hidden source s dbs r = Inr r'" and "counted r" and "ig_InvisibleIndexes r = []" and "ig_GIPKTables r = []"
  shows "counted r'" and "ig_Findings r' = ig_Findings r" and "ig_InvisibleColumns r' = ig_InvisibleColumns r"
    and "ig_InvisibleIndexes r' = [] \<longleftrightarrow> in_Engine s \<noteq> EngineMySQL \<or> answer_rows (hs_indexes source dbs) = []"
    and "ig_GIPKTables r' = [] \<longleftrightarrow> in_Engine s \<noteq> EngineMySQL \<or> answer_rows (hs_keys source dbs) = []"
  using assms
  by (auto simp: mysql_hidden_def queryInvisibleIndexIssues_def queryGeneratedInvisiblePrimaryKeyIssues_def bind_result_Inr
      labelled_rows_Inr counted_def Let_def split: if_splits sum.splits)

lemma counted_drifts:
  "counted r \<Longrightarrow> invisibleGIPKIncompatible s d r \<longleftrightarrow>
     ig_InvisibleColumns r \<noteq> [] \<and> \<not> destinationSupportsInvisibleColumns d \<or>
     ig_InvisibleIndexes r \<noteq> [] \<and> \<not> destinationSupportsInvisibleIndexes d \<or>
     ig_GIPKTables r \<noteq> [] \<and> \<not> destinationSupportsGIPK d"
  by (auto simp: counted_def invisibleGIPKIncompatible_def invisibleFeatureDriftsOnDestination_def gipkDriftsOnDestination_def)

lemma runInvisible_done:
  assumes "runInvisibleGIPKPrecheck env mkdirErr source destAnswer stateDir inc exc fs = (None, report, fs')"
    and "hs_schemata source = Rows all" and "SelectDatabases all inc exc \<noteq> []"
    and "hs_version source = Inr sv" and "destAnswer = Inr dv"
  shows "\<exists>start columns r. hs_columns source (SelectDatabases all inc exc) = Rows columns \<and>
    counted start \<and> \<not> has_error (ig_Findings start) \<and> ig_InvisibleColumns start = map column_issue columns \<and>
    ig_InvisibleIndexes start = [] \<and> ig_GIPKTables start = [] \<and>
    mysql_hidden source (ParseInstance sv) (SelectDatabases all inc exc) start = Inr r \<and>
    report = finish_hidden (ParseInstance sv) (ParseInstance dv) r \<and>
    persist_artifact ''invisible/gipk precheck artifact'' enc_hidden env (invisibleGIPKPrecheckArtifactPath stateDir) report fs = (None, fs')"
proof -
  let ?dbs = "SelectDatabases all inc exc"
  let ?r0 = "hidden_report\<lparr>ig_SourceVersion := sv, ig_DestVersion := dv\<rparr>"
  let ?r1 = "if in_Engine (ParseInstance sv) = EngineMySQL then generate_gipk_step source (show_gipk_step source ?r0) else ?r0"
  have sv: "queryServerVersion (hs_version source) = Inr sv" "queryServerVersion destAnswer = Inr dv"
    using assms(1,4,5) by (auto simp: runInvisibleGIPKPrecheck_def queryServerVersion_def Let_def split: if_splits)
  have body: "(case queryInvisibleColumnIssues source ?dbs of
                 Inl e \<Rightarrow> (Some e, ?r1, fs)
               | Inr columns \<Rightarrow>
                   (case mysql_hidden source (ParseInstance sv) ?dbs
                           (?r1\<lparr>ig_InvisibleColumns := columns, ig_InvisibleColumnCount := int (length columns)\<rparr>) of
                      Inl (e, report) \<Rightarrow> (Some e, report, fs)
                    | Inr report \<Rightarrow>
                        (let report = finish_hidden (ParseInstance sv) (ParseInstance dv) report
                         in case persistInvisibleGIPKPrecheckArtifact env mkdirErr stateDir report fs of
                              (err, fs') \<Rightarrow> (err, report, fs')))) = (None, report, fs')"
    using assms(1-3) by (simp only: runInvisibleGIPKPrecheck_def Let_def sv rows_or_error_def sum.case query_result.case if_False)
  obtain issues r where q: "queryInvisibleColumnIssues source ?dbs = Inr issues"
      "mysql_hidden source (ParseInstance sv) ?dbs (?r1\<lparr>ig_InvisibleColumns := issues, ig_InvisibleColumnCount := int (length issues)\<rparr>) = Inr r"
      "report = finish_hidden (ParseInstance sv) (ParseInstance dv) r"
      "persistInvisibleGIPKPrecheckArtifact env mkdirErr stateDir report fs = (None, fs')"
    using body by (auto simp only: Let_def split: sum.splits prod.splits)
  obtain columns where c: "hs_columns source ?dbs = Rows columns" "issues = map column_issue columns"
    using q(1) by (auto simp: queryInvisibleColumnIssues_def bind_result_Inr labelled_rows_Inr)
  have "persist_artifact ''invisible/gipk precheck artifact'' enc_hidden env (invisibleGIPKPrecheckArtifactPath stateDir) report fs = (None, fs')"
    using q(4) by (simp add: persistInvisibleGIPKPrecheckArtifact_def split: option.splits)
  moreover have "counted (?r1\<lparr>ig_InvisibleColumns := issues, ig_InvisibleColumnCount := int (length issues)\<rparr>)"
    "\<not> has_error (ig_Findings ?r1)" "ig_InvisibleIndexes ?r1 = []" "ig_GIPKTables ?r1 = []"
    by (simp_all add: counted_def steps_lists steps_warn hidden_report_def has_error_simps)
  ultimately show ?thesis using q c
    by (intro exI [of _ "?r1\<lparr>ig_InvisibleColumns := issues, ig_InvisibleColumnCount := int (length issues)\<rparr>"] exI [of _ columns] exI [of _ r]) simp
qed

lemma hidden_incompatible:
  assumes "runInvisibleGIPKPrecheck env mkdirErr source (Inr dv) stateDir inc exc fs = (None, report, fs')"
    and "hs_schemata source = Rows all" and "SelectDatabases all inc exc \<noteq> []" and "hs_version source = Inr sv"
  shows "ig_Incompatible report =
      (let dest = ParseInstance dv; dbs = SelectDatabases all inc exc
       in answer_rows (hs_columns source dbs) \<noteq> [] \<and> \<not> destinationSupportsInvisibleColumns dest \<or>
          in_Engine (ParseInstance sv) = EngineMySQL \<and>
            (answer_rows (hs_indexes source dbs) \<noteq> [] \<and> \<not> destinationSupportsInvisibleIndexes dest \<or>
             answer_rows (hs_keys source dbs) \<noteq> [] \<and> \<not> destinationSupportsGIPK dest))"
    and "has_error (ig_Findings report) = ig_Incompatible report"
    and "persist_artifact ''invisible/gipk precheck artifact'' enc_hidden env (invisibleGIPKPrecheckArtifactPath stateDir) report fs = (None, fs')"
proof -
  obtain start columns r where s: "hs_columns source (SelectDatabases all inc exc) = Rows columns" "counted start"
      "\<not> has_error (ig_Findings start)" "ig_InvisibleColumns start = map column_issue columns"
      "ig_InvisibleIndexes start = []" "ig_GIPKTables start = []"
      "mysql_hidden source (ParseInstance sv) (SelectDatabases all inc exc) start = Inr r"
    and r: "report = finish_hidden (ParseInstance sv) (ParseInstance dv) r"
    and kept: "persist_artifact ''invisible/gipk precheck artifact'' enc_hidden env (invisibleGIPKPrecheckArtifactPath stateDir) report fs = (None, fs')"
    using runInvisible_done [OF assms refl] by metis
  note done' = mysql_hidden_done [OF s(7,2,5,6)]
  have warn: "\<not> has_error (ig_Findings r)" using s(3) done'(2) by simp
  have "ig_InvisibleColumns r = [] \<longleftrightarrow> answer_rows (hs_columns source (SelectDatabases all inc exc)) = []"
    using s(1,4) done'(3) by simp
  then show "ig_Incompatible report =
      (let dest = ParseInstance dv; dbs = SelectDatabases all inc exc
       in answer_rows (hs_columns source dbs) \<noteq> [] \<and> \<not> destinationSupportsInvisibleColumns dest \<or>
          in_Engine (ParseInstance sv) = EngineMySQL \<and>
            (answer_rows (hs_indexes source dbs) \<noteq> [] \<and> \<not> destinationSupportsInvisibleIndexes dest \<or>
             answer_rows (hs_keys source dbs) \<noteq> [] \<and> \<not> destinationSupportsGIPK dest))"
    using done'(4,5) by (auto simp: r finish_hidden_refuses [OF done'(1) warn] counted_drifts [OF done'(1)] Let_def)
  show "has_error (ig_Findings report) = ig_Incompatible report" by (simp add: r finish_hidden_refuses [OF done'(1) warn])
  show "persist_artifact ''invisible/gipk precheck artifact'' enc_hidden env (invisibleGIPKPrecheckArtifactPath stateDir) report fs = (None, fs')" by (rule kept)
qed

text \<open>
  When the precheck of hidden features ends without an error for some selected databases,
  it calls the migration incompatible exactly if they have an invisible column and the destination
  is a version that has none, or the source is MySQL and they have an invisible index or a generated
  invisible primary key that the destination does not support; then and only then a finding has the
  severity error; and the report is what a later command loads from the state directory.
\<close>

theorem hidden_precheck_refuses:
  assumes "runInvisibleGIPKPrecheck env mkdirErr source (Inr dv) stateDir inc exc fs = (None, report, fs')"
    and "hs_schemata source = Rows all" and "SelectDatabases all inc exc \<noteq> []" and "hs_version source = Inr sv"
    and "we_tmp env \<noteq> invisibleGIPKPrecheckArtifactPath stateDir" and "valid_hidden report"
  shows "ig_Incompatible report =
      (let dest = ParseInstance dv; dbs = SelectDatabases all inc exc
       in answer_rows (hs_columns source dbs) \<noteq> [] \<and> \<not> destinationSupportsInvisibleColumns dest \<or>
          in_Engine (ParseInstance sv) = EngineMySQL \<and>
            (answer_rows (hs_indexes source dbs) \<noteq> [] \<and> \<not> destinationSupportsInvisibleIndexes dest \<or>
             answer_rows (hs_keys source dbs) \<noteq> [] \<and> \<not> destinationSupportsGIPK dest)) \<and>
    has_error (ig_Findings report) = ig_Incompatible report \<and>
    loadInvisibleGIPKPrecheckArtifact None stateDir fs' = Inr report"
  using hidden_incompatible [OF assms(1-4)] hidden_store.load_persisted [OF hidden_incompatible(3) [OF assms(1-4)] assms(5,6)]
  by (simp add: loadInvisibleGIPKPrecheckArtifact_def)

definition example_hidden :: hidden_source where
  "example_hidden =
     \<lparr>hs_version = Inr ''8.0.36'', hs_showGipk = Inr (Some ''ON''), hs_generateGipk = Inr (Some ''0''), hs_schemata = Rows [''shop''],
      hs_columns = (\<lambda>_. Rows []), hs_indexes = (\<lambda>_. Rows [(''shop'', ''t'', ''i'')]), hs_keys = (\<lambda>_. Rows [])\<rparr>"

theorem hidden_precheck_refuses_witness:
  "\<exists>report fs'. runInvisibleGIPKPrecheck (no_faults ''state/tmp'') None example_hidden (Inr ''11.4.2-MariaDB'') ''state'' [] [] Map.empty
       = (None, report, fs') \<and>
     ig_Incompatible report \<and> loadInvisibleGIPKPrecheckArtifact None ''state'' fs' = Inr report"
proof -
  let ?run = "runInvisibleGIPKPrecheck (no_faults ''state/tmp'') None example_hidden (Inr ''11.4.2-MariaDB'') ''state'' [] [] Map.empty"
  have sel: "SelectDatabases [''shop''] [] [] = [''shop'']"
    and path: "invisibleGIPKPrecheckArtifactPath ''state'' = ''state/invisible-gipk-precheck.json''"
    and engine: "in_Engine (ParseInstance ''8.0.36'') = EngineMySQL"
    and unsupported: "\<not> destinationSupportsInvisibleIndexes (ParseInstance ''11.4.2-MariaDB'')"
    and switches: "queryOptionalBooleanVariable (Inr (Some ''ON'')) = (True, True, None)"
      "queryOptionalBooleanVariable (Inr (Some ''0'')) = (False, True, None)"
    by code_simp+
  have "fst ?run = None" and valid: "valid_hidden (fst (snd ?run))"
    using sel engine switches
    by (simp_all add: runInvisibleGIPKPrecheck_def hidden_report_def example_hidden_def rows_or_error_def queryServerVersion_def
        show_gipk_step_def generate_gipk_step_def queryInvisibleColumnIssues_def queryInvisibleIndexIssues_def
        queryGeneratedInvisiblePrimaryKeyIssues_def labelled_rows_def mysql_hidden_def finish_hidden_def add_hidden_def
        valid_hidden_def is_int64_def persistInvisibleGIPKPrecheckArtifact_def persist_artifact_def
        WritePrivateFileAtomic_def EnsurePrivateDir_def no_faults_def Let_def)
  then obtain report fs' where run: "?run = (None, report, fs')" by (metis prod.collapse)
  have facts: "hs_schemata example_hidden = Rows [''shop'']" "SelectDatabases [''shop''] [] [] \<noteq> []"
    "hs_version example_hidden = Inr ''8.0.36''"
    "we_tmp (no_faults ''state/tmp'') \<noteq> invisibleGIPKPrecheckArtifactPath ''state''" "valid_hidden report"
    using sel path run valid by (simp_all add: example_hidden_def no_faults_def)
  from hidden_precheck_refuses [OF run this] show ?thesis using run engine unsupported
    by (simp add: example_hidden_def Let_def)
qed

end
