(* ===== verification/Migrate_Run.thy ===== *)
theory Migrate_Run
  imports Precheck_Hidden Precheck_Plugin Precheck_Temporal Precheck_Feature Precheck_Identifier_Check Precheck_Data
    Compat_Check Schema_Copy_Run Baseline_Run Baseline_Dry
begin

text \<open>
  The command migrate (internal/commands/migrate.go, with exit_error.go, include_objects.go and
  state_lock.go): the order of its checks, prechecks and copies, its exit codes, and the dry run in
  sandbox databases. The flag package is a parameter, as is the text of the errors of cursors; what
  is logged and printed is left out, but for the message of a run that succeeds.
\<close>

section \<open>Errors with an exit code\<close>

record command_error =
  xe_Code :: "int option"
  xe_Text :: string

definition ExitCodeDiff :: int where "ExitCodeDiff = 2"

definition plain_error :: "string \<Rightarrow> command_error" where
  "plain_error e = \<lparr>xe_Code = None, xe_Text = e\<rparr>"

definition WithExitCode :: "int \<Rightarrow> command_error \<Rightarrow> command_error" where
  "WithExitCode code err = (if xe_Code err = None then err\<lparr>xe_Code := Some code\<rparr> else err)"

definition ResolveExitCode :: "command_error option \<Rightarrow> int option" where
  "ResolveExitCode err = (case err of None \<Rightarrow> None | Some e \<Rightarrow> xe_Code e)"

definition isMigrateCompatibilityError :: "string \<Rightarrow> bool" where
  "isMigrateCompatibilityError text_of_error = Contains text_of_error ''incompatible_for_''"

text \<open>An error of a copy under a label, with the exit code for an incompatible source.\<close>

definition copy_failed :: "string \<Rightarrow> string \<Rightarrow> command_error" where
  "copy_failed label e =
     (if isMigrateCompatibilityError e then WithExitCode ExitCodeDiff (plain_error (label @ '': '' @ e)) else plain_error (label @ '': '' @ e))"

section \<open>Options\<close>

record migrateOptions =
  mo_SchemaOnly :: bool
  mo_DataOnly :: bool
  mo_DestEmptyRequired :: bool
  mo_Force :: bool
  mo_ChunkSize :: int
  mo_Resume :: bool

text \<open>What migrate reads of the configuration.\<close>

record runtime_config =
  rt_Source :: string
  rt_Dest :: string
  rt_IncludeObjects :: "string list"
  rt_DryRun :: bool
  rt_DryRunMode :: string
  rt_Databases :: "string list"
  rt_ExcludeDatabases :: "string list"
  rt_DowngradeProfile :: string
  rt_StateDir :: string

definition parseMigrateOptions :: "string + migrateOptions \<Rightarrow> string + migrateOptions" where
  "parseMigrateOptions parsedArgs =
     bind_result parsedArgs (\<lambda>opts. if mo_ChunkSize opts < 1 then Inl ''chunk-size must be >= 1'' else Inr opts)"

definition v2SupportedIncludeObjects :: "string list" where
  "v2SupportedIncludeObjects = [''tables'', ''views'', ''routines'', ''triggers'', ''events'']"

definition unsupportedV2IncludeObjects :: "string list \<Rightarrow> string list" where
  "unsupportedV2IncludeObjects objects =
     sort (filter (\<lambda>name. name \<noteq> '''' \<and> name \<notin> set v2SupportedIncludeObjects) (map (\<lambda>object. TrimSpace (ToLower object)) objects))"

definition hasObject :: "string list \<Rightarrow> string \<Rightarrow> bool" where
  "hasObject objects target = (target \<in> set objects)"

definition run_schema :: "migrateOptions \<Rightarrow> bool" where
  "run_schema opts = (mo_SchemaOnly opts \<or> (\<not> mo_SchemaOnly opts \<and> \<not> mo_DataOnly opts))"

definition run_data :: "migrateOptions \<Rightarrow> bool" where
  "run_data opts = (mo_DataOnly opts \<or> (\<not> mo_SchemaOnly opts \<and> \<not> mo_DataOnly opts))"

section \<open>The surroundings\<close>

text \<open>
  The answers of the operating system and of the servers to the queries of the parts; the state 'd
  is that of the destination. mv_write n and mv_mkdir n belong to the n-th file that is written,
  mv_print is an error when the output is written.
\<close>

record 'd migrate_env =
  mv_lock :: lock_env
  mv_release :: "string option \<times> string option"
  mv_connectSource :: "string option"
  mv_connectDest :: "string option"
  mv_print :: "string option"
  mv_sourceVersion :: "string + string"
  mv_destVersion :: "string + string"
  mv_write :: "nat \<Rightarrow> write_env"
  mv_mkdir :: "nat \<Rightarrow> string option"
  mv_remove :: "nat \<Rightarrow> string option"
  mv_plugin :: plugin_source
  mv_pluginDest :: plugin_dest
  mv_hidden :: hidden_source
  mv_hiddenDest :: "string + string"
  mv_collation :: collation_source
  mv_collationDest :: collation_side
  mv_temporal :: temporal_source
  mv_destMode :: "string scalar"
  mv_feature :: feature_source
  mv_names :: identifier_source
  mv_namesDest :: identifier_side
  mv_schema :: schema_source
  mv_schemaDest :: "'d schema_dest"
  mv_shape :: shape_source
  mv_copy :: "'d copy_env"
  mv_cursorText :: "cursor_error \<Rightarrow> string"
  mv_runID :: string
  mv_dry :: "'d dry_env"

section \<open>Prechecks\<close>

text \<open>The answer of one precheck: its own error, or a refusal whose report is printed first.\<close>

definition precheck_gate :: "string \<Rightarrow> string \<Rightarrow> string option \<Rightarrow> string option \<Rightarrow> bool \<Rightarrow> command_error option" where
  "precheck_gate label refusal printErr err incompatible =
     (case err of
        Some e \<Rightarrow> Some (plain_error (label @ '': '' @ e))
      | None \<Rightarrow>
          if incompatible
          then (case printErr of
                  Some e \<Rightarrow> Some (plain_error e)
                | None \<Rightarrow> Some (WithExitCode ExitCodeDiff (plain_error refusal)))
          else None)"

type_synonym gate = "fs \<Rightarrow> command_error option \<times> fs"

definition plugin_gate :: "runtime_config \<Rightarrow> 'd migrate_env \<Rightarrow> gate" where
  "plugin_gate cfg env fs =
     (case runPluginLifecyclePrecheck (mv_write env 0) (mv_mkdir env 0) (mv_plugin env) (mv_pluginDest env) (rt_StateDir cfg)
             (rt_Databases cfg) (rt_ExcludeDatabases cfg) fs of
        (err, report, fs') \<Rightarrow>
          (precheck_gate ''plugin lifecycle precheck failed''
             ''schema precheck failed; source uses storage engines that are unsupported on destination''
             (mv_print env) err (pl_Incompatible report), fs'))"

definition hidden_gate :: "runtime_config \<Rightarrow> 'd migrate_env \<Rightarrow> gate" where
  "hidden_gate cfg env fs =
     (case runInvisibleGIPKPrecheck (mv_write env 1) (mv_mkdir env 1) (mv_hidden env) (mv_hiddenDest env) (rt_StateDir cfg)
             (rt_Databases cfg) (rt_ExcludeDatabases cfg) fs of
        (err, report, fs') \<Rightarrow>
          (precheck_gate ''invisible/gipk precheck failed''
             ''schema precheck failed; invisible columns or generated invisible primary keys drift on destination''
             (mv_print env) err (ig_Incompatible report), fs'))"

definition collation_gate :: "runtime_config \<Rightarrow> 'd migrate_env \<Rightarrow> gate" where
  "collation_gate cfg env fs =
     (case runCollationPrecheck (mv_write env 2) (mv_remove env 2) (mv_collation env) (mv_collationDest env) (rt_StateDir cfg)
             (rt_Databases cfg) (rt_ExcludeDatabases cfg) fs of
        (err, report, fs') \<Rightarrow>
          (precheck_gate ''collation precheck failed'' ''schema precheck failed; source collations are unsupported on destination''
             (mv_print env) err (cp_Incompatible report), fs'))"

definition temporal_gate :: "runtime_config \<Rightarrow> 'd migrate_env \<Rightarrow> gate" where
  "temporal_gate cfg env fs =
     (case runZeroDateDefaultsPrecheck (mv_write env 3) (mv_remove env 3) (mv_temporal env) (mv_destMode env) (rt_StateDir cfg)
             (rt_Databases cfg) (rt_ExcludeDatabases cfg) fs of
        (err, report, fs') \<Rightarrow>
          (precheck_gate ''schema precheck failed''
             ''schema precheck failed; zero-date defaults are incompatible with destination sql_mode''
             (mv_print env) err (zp_Incompatible report), fs'))"

definition feature_gate :: "runtime_config \<Rightarrow> 'd migrate_env \<Rightarrow> Instance \<Rightarrow> Instance \<Rightarrow> gate" where
  "feature_gate cfg env sourceInstance destInstance fs =
     (case runSchemaFeaturePrecheck True (mv_feature env) sourceInstance destInstance (rt_Databases cfg) (rt_ExcludeDatabases cfg) of
        (err, report) \<Rightarrow>
          (precheck_gate ''schema feature precheck failed''
             ''schema precheck failed; source uses schema features that are incompatible with destination in v1''
             (mv_print env) err (sf_Incompatible report), fs))"

definition names_gate :: "runtime_config \<Rightarrow> 'd migrate_env \<Rightarrow> Instance \<Rightarrow> Instance \<Rightarrow> gate" where
  "names_gate cfg env sourceInstance destInstance fs =
     (case runIdentifierPortabilityPrecheck True (mv_names env) (mv_namesDest env) sourceInstance destInstance
             (rt_Databases cfg) (rt_ExcludeDatabases cfg) of
        (err, report) \<Rightarrow>
          (precheck_gate ''identifier portability precheck failed''
             ''schema precheck failed; identifier portability or parser drift is incompatible with destination in v1''
             (mv_print env) err (ip_Incompatible report), fs))"

text \<open>One after the other, up to the first that refuses.\<close>

fun run_gates :: "gate list \<Rightarrow> gate" where
  "run_gates [] fs = (None, fs)"
| "run_gates (g # gs) fs = (case g fs of (Some e, fs') \<Rightarrow> (Some e, fs') | (None, fs') \<Rightarrow> run_gates gs fs')"

definition schema_prechecks :: "runtime_config \<Rightarrow> 'd migrate_env \<Rightarrow> Instance \<Rightarrow> Instance \<Rightarrow> gate" where
  "schema_prechecks cfg env sourceInstance destInstance fs =
     (if \<not> rp_Compatible (Evaluate sourceInstance destInstance (length (rt_Databases cfg)) (rt_DowngradeProfile cfg))
      then (Some (WithExitCode ExitCodeDiff
              (plain_error ''version compatibility check failed; run plan for detailed report with remediation proposals'')), fs)
      else run_gates
        [plugin_gate cfg env, hidden_gate cfg env, collation_gate cfg env, temporal_gate cfg env,
         feature_gate cfg env sourceInstance destInstance, names_gate cfg env sourceInstance destInstance] fs)"

section \<open>The two copies\<close>

definition schema_options :: "runtime_config \<Rightarrow> migrateOptions \<Rightarrow> SchemaCopyOptions" where
  "schema_options cfg opts =
     \<lparr>sx_IncludeDatabases = rt_Databases cfg, sx_ExcludeDatabases = rt_ExcludeDatabases cfg,
      sx_IncludeTables = hasObject (rt_IncludeObjects cfg) ''tables'', sx_IncludeViews = hasObject (rt_IncludeObjects cfg) ''views'',
      sx_IncludeRoutines = hasObject (rt_IncludeObjects cfg) ''routines'', sx_IncludeTriggers = hasObject (rt_IncludeObjects cfg) ''triggers'',
      sx_IncludeEvents = hasObject (rt_IncludeObjects cfg) ''events'',
      sx_DestEmptyRequired = (mo_DestEmptyRequired opts \<and> \<not> mo_Force opts)\<rparr>"

definition migrate_schema ::
  "runtime_config \<Rightarrow> migrateOptions \<Rightarrow> 'd migrate_env \<Rightarrow> 'd \<Rightarrow> command_error option \<times> SchemaCopySummary \<times> 'd" where
  "migrate_schema cfg opts env d =
     (let schemaOptions = schema_options cfg opts
      in if no_types schemaOptions
         then (Some (plain_error ''schema migration requires at least one object type in --include-objects''), schema_copy_summary, d)
         else (case CopySchema True (mv_schema env) (mv_schemaDest env) schemaOptions d of
                 (Some e, summary, d') \<Rightarrow> (Some (copy_failed ''schema migration failed'' e), summary, d')
               | (None, summary, d') \<Rightarrow> (None, summary, d')))"

definition data_options :: "runtime_config \<Rightarrow> migrateOptions \<Rightarrow> CopyOptions" where
  "data_options cfg opts =
     \<lparr>co_IncludeDatabases = rt_Databases cfg, co_ExcludeDatabases = rt_ExcludeDatabases cfg, co_ChunkSize = mo_ChunkSize opts,
      co_Resume = mo_Resume opts,
      co_RequireEmptyDest = (run_data opts \<and> \<not> run_schema opts \<and> mo_DestEmptyRequired opts \<and> \<not> mo_Force opts)\<rparr>"

definition copy_error_text :: "(cursor_error \<Rightarrow> string) \<Rightarrow> copy_error \<Rightarrow> string" where
  "copy_error_text cursorText err = (case err of CopyText e \<Rightarrow> e | CopyCursor label e \<Rightarrow> label @ '': '' @ cursorText e)"

definition migrate_data ::
  "runtime_config \<Rightarrow> migrateOptions \<Rightarrow> 'd migrate_env \<Rightarrow> fs \<Rightarrow> 'd \<Rightarrow> (command_error option \<times> CopySummary \<times> fs \<times> 'd) option" where
  "migrate_data cfg opts env fs d =
     (if \<not> hasObject (rt_IncludeObjects cfg) ''tables''
      then Some (Some (plain_error ''data migration requires tables in --include-objects''), emptySummary, fs, d)
      else (case runDataShapePrecheck True (mv_shape env) (rt_Databases cfg) (rt_ExcludeDatabases cfg) of
              (Some e, _) \<Rightarrow> Some (Some (plain_error (''data-shape precheck failed: '' @ e)), emptySummary, fs, d)
            | (None, report) \<Rightarrow>
                if dp_Incompatible report
                then Some (Some (WithExitCode ExitCodeDiff
                       (plain_error ''data precheck failed; selected scope contains tables without stable keys required for v1 baseline migration'')),
                       emptySummary, fs, d)
                else (case CopyBaselineData (mv_copy env) (rt_StateDir cfg) (data_options cfg opts) fs d of
                        None \<Rightarrow> None
                      | Some (Some e, summary, fs', d') \<Rightarrow>
                          Some (Some (copy_failed ''data migration failed'' (copy_error_text (mv_cursorText env) e)), summary, fs', d')
                      | Some (None, summary, fs', d') \<Rightarrow> Some (None, summary, fs', d'))))"

definition migrate_message :: "SchemaCopySummary \<Rightarrow> CopySummary \<Rightarrow> string" where
  "migrate_message s c =
     ''migration completed: schema(databases='' @ show_nat (su_Databases s) @ '' tables='' @ show_nat (su_Tables s)
     @ '' views='' @ show_nat (su_Views s) @ '' statements='' @ show_nat (su_Statements s) @ '') data(databases='' @ show_int (cy_Databases c)
     @ '' tables='' @ show_int (cy_Tables c) @ '' completed='' @ show_int (cy_Completed c) @ '' rows='' @ show_int (cy_RowsCopied c)
     @ '' batches='' @ show_int (cy_Batches c) @ '' restarted='' @ show_int (cy_Restarted c) @ '' checkpoint='' @ cy_CheckpointFile c
     @ '' watermark='' @ cy_WatermarkFile c @ '':'' @ show_nat (unat (cy_WatermarkPos c)) @ '')''"

text \<open>The output of the message can fail too.\<close>

definition write_result :: "string option \<Rightarrow> string \<Rightarrow> command_error + string" where
  "write_result printErr message = (case printErr of None \<Rightarrow> Inr message | Some e \<Rightarrow> Inl (plain_error e))"

section \<open>The command\<close>

definition migrate_copies ::
  "runtime_config \<Rightarrow> migrateOptions \<Rightarrow> 'd migrate_env \<Rightarrow> fs \<Rightarrow> 'd \<Rightarrow> ((command_error + string) \<times> fs \<times> 'd) option" where
  "migrate_copies cfg opts env fs d =
     (case (if run_schema opts then migrate_schema cfg opts env d else (None, schema_copy_summary, d)) of
        (Some e, _, d1) \<Rightarrow> Some (Inl e, fs, d1)
      | (None, schemaSummary, d1) \<Rightarrow>
          (case (if run_data opts then migrate_data cfg opts env fs d1 else Some (None, emptySummary, fs, d1)) of
             None \<Rightarrow> None
           | Some (Some e, _, fs2, d2) \<Rightarrow> Some (Inl e, fs2, d2)
           | Some (None, dataSummary, fs2, d2) \<Rightarrow>
               Some (write_result (mv_print env) (migrate_message schemaSummary dataSummary), fs2, d2)))"

definition migrate_locked ::
  "runtime_config \<Rightarrow> migrateOptions \<Rightarrow> 'd migrate_env \<Rightarrow> fs \<Rightarrow> 'd \<Rightarrow> ((command_error + string) \<times> fs \<times> 'd) option" where
  "migrate_locked cfg opts env fs d =
     (case mv_connectSource env of Some e \<Rightarrow> Some (Inl (plain_error (''connect source: '' @ e)), fs, d) | None \<Rightarrow>
     (case mv_connectDest env of Some e \<Rightarrow> Some (Inl (plain_error (''connect destination: '' @ e)), fs, d) | None \<Rightarrow>
     (case queryServerVersion (mv_sourceVersion env) of Inl e \<Rightarrow> Some (Inl (plain_error (''detect source version: '' @ e)), fs, d) | Inr sourceVersion \<Rightarrow>
     (case queryServerVersion (mv_destVersion env) of Inl e \<Rightarrow> Some (Inl (plain_error (''detect destination version: '' @ e)), fs, d) | Inr destVersion \<Rightarrow>
     (case (if run_schema opts then schema_prechecks cfg env (ParseInstance sourceVersion) (ParseInstance destVersion) fs else (None, fs)) of
        (Some e, fs1) \<Rightarrow> Some (Inl e, fs1, d)
      | (None, fs1) \<Rightarrow> migrate_copies cfg opts env fs1 d)))))"

definition withStateDirLock ::
  "'d migrate_env \<Rightarrow> string \<Rightarrow> (fs \<Rightarrow> 'd \<Rightarrow> ((command_error + string) \<times> fs \<times> 'd) option) \<Rightarrow> fs \<Rightarrow> 'd
     \<Rightarrow> ((command_error + string) \<times> fs \<times> 'd) option" where
  "withStateDirLock env stateDir body fs d =
     (case AcquireDirLock (mv_lock env) stateDir fs of
        (Inl e, fs1) \<Rightarrow> Some (Inl (WithExitCode ExitCodeDiff (plain_error e)), fs1, d)
      | (Inr lock, fs1) \<Rightarrow>
          (case body fs1 d of
             None \<Rightarrow> None
           | Some (r, fs2, d2) \<Rightarrow>
               Some (r, snd (Release (fst (mv_release env)) (snd (mv_release env)) (Some lock) fs2), d2)))"

section \<open>The sandbox\<close>

text \<open>
  normalizeIdentifier ranges over the runes of the name: a continuation byte of UTF-8 belongs to the
  rune before it. Letters outside ASCII that have a lower case in ASCII are not folded.
\<close>

definition identifier_char :: "char \<Rightarrow> bool" where
  "identifier_char c = ((97 \<le> (of_char c :: nat) \<and> (of_char c :: nat) \<le> 122) \<or> is_digit c \<or> c = CHR ''_'')"

definition continuation_byte :: "char \<Rightarrow> bool" where
  "continuation_byte c = (128 \<le> (of_char c :: nat) \<and> (of_char c :: nat) < 192)"

definition trim_underscores :: "string \<Rightarrow> string" where
  "trim_underscores s = rev (dropWhile (\<lambda>c. c = CHR ''_'') (rev (dropWhile (\<lambda>c. c = CHR ''_'') s)))"

definition normalizeIdentifier :: "string \<Rightarrow> string" where
  "normalizeIdentifier s =
     (let trimmed = TrimSpace (ToLower s)
      in if trimmed = '''' then ''''
         else trim_underscores
           (map (\<lambda>c. if identifier_char c then c else CHR ''_'') (filter (\<lambda>c. \<not> continuation_byte c) trimmed)))"

text \<open>FNV-1a with 32 bits (hash/fnv), and eight hexadecimal digits.\<close>

definition fnv32a :: "string \<Rightarrow> u32" where
  "fnv32a s = foldl (\<lambda>h c. semiring_bit_operations_class.xor h (of_char c) * 16777619) 2166136261 s"

definition hex_digit :: "nat \<Rightarrow> char" where
  "hex_digit n = ''0123456789abcdef'' ! n"

fun hex_digits :: "nat \<Rightarrow> nat \<Rightarrow> string" where
  "hex_digits 0 n = []"
| "hex_digits (Suc width) n = hex_digits width (n div 16) @ [hex_digit (n mod 16)]"

definition sandboxDatabaseName :: "string \<Rightarrow> string \<Rightarrow> string" where
  "sandboxDatabaseName runID sourceDatabase =
     (let pre = ''dbmigrate_dr_'';
          normalized = normalizeIdentifier sourceDatabase;
          normalized = (if normalized = '''' then ''db'' else normalized);
          name = pre @ runID @ ''_'' @ normalized
      in if length name \<le> 64 then name
         else (let suffix = ''_'' @ hex_digits 8 (unat (fnv32a sourceDatabase));
                   maxBase = 64 - int (length pre) - int (length runID) - 1 - int (length suffix);
                   maxBase = (if maxBase < 1 then 1 else nat maxBase)
               in pre @ runID @ ''_'' @ take maxBase normalized @ suffix))"

definition drop_names :: "string list \<Rightarrow> string list" where
  "drop_names names = sorted_list_of_set (set (filter (\<lambda>n. n \<noteq> '''') (map TrimSpace names)))"

fun drop_all :: "'d schema_dest \<Rightarrow> string list \<Rightarrow> string option \<Rightarrow> 'd \<Rightarrow> string option \<times> 'd" where
  "drop_all dest [] firstErr d = (firstErr, d)"
| "drop_all dest (name # names) firstErr d =
     (case dd_exec dest (''DROP DATABASE IF EXISTS '' @ quoteIdentifier name) d of
        (err, d') \<Rightarrow> drop_all dest names (if firstErr = None then err else firstErr) d')"

definition cleanupSandboxDatabases :: "'d schema_dest \<Rightarrow> string list \<Rightarrow> 'd \<Rightarrow> string option \<times> 'd" where
  "cleanupSandboxDatabases dest names d = (if names = [] then (None, d) else drop_all dest (drop_names names) None d)"

record migrateDryRunSandboxResult =
  ds_Validated :: int
  ds_Failed :: int
  ds_CleanupStatus :: string
  ds_Message :: string

definition sandbox_copy :: "runtime_config \<Rightarrow> migrateOptions \<Rightarrow> (string \<Rightarrow> string) \<Rightarrow> DryRunSandboxOptions" where
  "sandbox_copy cfg opts mapDatabase =
     \<lparr>sb_IncludeDatabases = rt_Databases cfg, sb_ExcludeDatabases = rt_ExcludeDatabases cfg,
      sb_IncludeTables = hasObject (rt_IncludeObjects cfg) ''tables'',
      sb_IncludeViews = (run_schema opts \<and> hasObject (rt_IncludeObjects cfg) ''views''),
      sb_IncludeRoutines = (run_schema opts \<and> hasObject (rt_IncludeObjects cfg) ''routines''),
      sb_IncludeTriggers = (run_schema opts \<and> hasObject (rt_IncludeObjects cfg) ''triggers''),
      sb_IncludeEvents = (run_schema opts \<and> hasObject (rt_IncludeObjects cfg) ''events''), sb_MapDatabase = Some mapDatabase\<rparr>"

text \<open>The end of a dry run: the databases are dropped, and the message names both errors.\<close>

definition finish_sandbox ::
  "'d migrate_env \<Rightarrow> string list \<Rightarrow> int \<Rightarrow> int \<Rightarrow> string option \<Rightarrow> 'd
     \<Rightarrow> command_error option \<times> migrateDryRunSandboxResult \<times> 'd" where
  "finish_sandbox env created validated failed validationErr d =
     (case cleanupSandboxDatabases (mv_schemaDest env) created d of
        (cleanupErr, d') \<Rightarrow>
          (let status = (if cleanupErr \<noteq> None then ''failed'' else if created \<noteq> [] then ''ok'' else ''skipped'');
               message = (case validationErr of None \<Rightarrow> '''' | Some e \<Rightarrow> e);
               message = (case cleanupErr of None \<Rightarrow> message
                 | Some e \<Rightarrow> (if message \<noteq> '''' then message @ ''; '' else message) @ ''sandbox cleanup failed: '' @ e);
               report = \<lparr>ds_Validated = validated, ds_Failed = failed, ds_CleanupStatus = status, ds_Message = message\<rparr>
           in (case mv_print env of
                 Some e \<Rightarrow> (Some (plain_error e), report, d')
               | None \<Rightarrow>
                   (case validationErr of
                      Some e \<Rightarrow> (Some (if isMigrateCompatibilityError e then WithExitCode ExitCodeDiff (plain_error e) else plain_error e), report, d')
                    | None \<Rightarrow> (map_option plain_error cleanupErr, report, d')))))"

definition no_sandbox_result :: migrateDryRunSandboxResult where
  "no_sandbox_result = \<lparr>ds_Validated = 0, ds_Failed = 0, ds_CleanupStatus = ''skipped'', ds_Message = ''''\<rparr>"

definition validate_in_sandbox ::
  "runtime_config \<Rightarrow> migrateOptions \<Rightarrow> 'd migrate_env \<Rightarrow> (string \<Rightarrow> string) \<Rightarrow> 'd
     \<Rightarrow> (command_error option \<times> migrateDryRunSandboxResult \<times> 'd) option" where
  "validate_in_sandbox cfg opts env mapDatabase d =
     (case (if run_schema opts \<or> run_data opts
            then ValidateSchemaInSandbox True (mv_schema env) (mv_schemaDest env) (sandbox_copy cfg opts mapDatabase) d
            else (None, sandbox_summary, d)) of
        (Some e, s, d1) \<Rightarrow>
          Some (finish_sandbox env (sz_CreatedDatabases s) (int (sz_Validated s)) (int (sz_Failed s))
                  (Some (''schema dry-run validation failed: '' @ e)) d1)
      | (None, s, d1) \<Rightarrow>
          if \<not> run_data opts
          then Some (finish_sandbox env (sz_CreatedDatabases s) (int (sz_Validated s)) (int (sz_Failed s)) None d1)
          else (case ValidateBaselineDataDryRun (mv_dry env\<lparr>dy_mapDatabase := Some mapDatabase\<rparr>) (rt_Databases cfg) (rt_ExcludeDatabases cfg)
                        (mo_ChunkSize opts) d1 of
                  None \<Rightarrow> None
                | Some (err, t, d2) \<Rightarrow>
                    Some (finish_sandbox env (sz_CreatedDatabases s) (int (sz_Validated s) + dr_Validated t) (int (sz_Failed s) + dr_Failed t)
                            (map_option (\<lambda>e. ''data dry-run validation failed: '' @ e) err) d2)))"

definition runMigrateDryRunSandbox ::
  "runtime_config \<Rightarrow> migrateOptions \<Rightarrow> 'd migrate_env \<Rightarrow> 'd \<Rightarrow> (command_error option \<times> migrateDryRunSandboxResult \<times> 'd) option" where
  "runMigrateDryRunSandbox cfg opts env d =
     (if run_schema opts \<and> no_types (schema_options cfg opts)
      then Some (Some (plain_error ''schema migration requires at least one object type in --include-objects''), no_sandbox_result, d)
      else if run_data opts \<and> \<not> hasObject (rt_IncludeObjects cfg) ''tables''
      then Some (Some (plain_error ''data migration requires tables in --include-objects''), no_sandbox_result, d)
      else (case mv_connectSource env of Some e \<Rightarrow> Some (Some (plain_error (''connect source: '' @ e)), no_sandbox_result, d) | None \<Rightarrow>
           (case mv_connectDest env of Some e \<Rightarrow> Some (Some (plain_error (''connect destination: '' @ e)), no_sandbox_result, d) | None \<Rightarrow>
              validate_in_sandbox cfg opts env (sandboxDatabaseName (mv_runID env)) d)))"

section \<open>The whole command\<close>

definition show_bool :: "bool \<Rightarrow> string" where
  "show_bool b = (if b then ''true'' else ''false'')"

definition dry_run_message :: "migrateOptions \<Rightarrow> string" where
  "dry_run_message opts =
     ''dry-run: migrate plan ready (schema='' @ show_bool (run_schema opts) @ '' data='' @ show_bool (run_data opts)
     @ '' chunk_size='' @ show_int (mo_ChunkSize opts) @ '' resume='' @ show_bool (mo_Resume opts) @ '')''"

text \<open>A dry run in the sandbox has no message of its own; None in place of a message.\<close>

definition runMigrate ::
  "runtime_config \<Rightarrow> string + migrateOptions \<Rightarrow> 'd migrate_env \<Rightarrow> fs \<Rightarrow> 'd
     \<Rightarrow> ((command_error + string option) \<times> fs \<times> 'd) option" where
  "runMigrate cfg args env fs d =
     (case parseMigrateOptions args of
        Inl e \<Rightarrow> Some (Inl (plain_error e), fs, d)
      | Inr opts \<Rightarrow>
          if rt_Source cfg = '''' \<or> rt_Dest cfg = ''''
          then Some (Inl (plain_error ''migrate requires both --source and --dest (or config file equivalents)''), fs, d)
          else if mo_SchemaOnly opts \<and> mo_DataOnly opts
          then Some (Inl (plain_error ''--schema-only and --data-only cannot be used together''), fs, d)
          else if unsupportedV2IncludeObjects (rt_IncludeObjects cfg) \<noteq> []
          then Some (Inl (WithExitCode ExitCodeDiff (plain_error (''--include-objects contains unknown types (''
                 @ Join (unsupportedV2IncludeObjects (rt_IncludeObjects cfg)) '','' @ ''); supported: tables, views, routines, triggers, events''))),
                 fs, d)
          else if rt_DryRun cfg
          then (if rt_DryRunMode cfg = ''sandbox''
                then (case runMigrateDryRunSandbox cfg opts env d of
                        None \<Rightarrow> None
                      | Some (Some e, _, d') \<Rightarrow> Some (Inl e, fs, d')
                      | Some (None, _, d') \<Rightarrow> Some (Inr None, fs, d'))
                else Some (map_sum id Some (write_result (mv_print env) (dry_run_message opts)), fs, d))
          else map_option (\<lambda>(r, fs', d'). (map_sum id Some r, fs', d'))
                 (withStateDirLock env (rt_StateDir cfg) (migrate_locked cfg opts env) fs d))"

section \<open>Names of sandbox databases\<close>

lemma length_hex_digits [simp]: "length (hex_digits w n) = w"
  by (induction w arbitrary: n) auto

lemma hex_digits_identifier: "c \<in> set (hex_digits w n) \<Longrightarrow> identifier_char c"
proof (induction w arbitrary: n)
  case (Suc w)
  have "\<forall>k < 16. identifier_char (hex_digit k)"
    by (simp add: hex_digit_def identifier_char_def is_digit_def numeral_eq_Suc less_Suc_eq) 
  then have "identifier_char (hex_digit (n mod 16))" by simp
  then show ?case using Suc by auto
qed simp

lemma trim_underscores_subset: "c \<in> set (trim_underscores s) \<Longrightarrow> c \<in> set s"
  unfolding trim_underscores_def by (metis set_dropWhileD set_rev)

lemma normalizeIdentifier_chars: "c \<in> set (normalizeIdentifier s) \<Longrightarrow> identifier_char c"
  by (auto simp: normalizeIdentifier_def Let_def identifier_char_def is_digit_def split: if_splits dest!: trim_underscores_subset)

text \<open>
  With an identifier of the run of at most 40 characters the name of a sandbox database has
  at most the 64 characters that a server allows, and only small letters, digits and underscores
  besides those of the identifier, whatever the name of the source's database is.
\<close>

theorem sandboxDatabaseName_fits:
  assumes "length runID \<le> 40"
  shows "length (sandboxDatabaseName runID s) \<le> 64 \<and>
    (\<forall>c \<in> set (sandboxDatabaseName runID s). c \<in> set runID \<or> identifier_char c)"
proof -
  have pre: "\<forall>c \<in> set ''dbmigrate_dr_''. identifier_char c" "\<forall>c \<in> set ''db''. identifier_char c" "identifier_char CHR ''_''"
    by code_simp+
  have base: "13 + length runID + 1 + min (length n) (nat (64 - 13 - int (length runID) - 1 - 9)) + 9 \<le> 64" for n :: string
    using assms by linarith
  show ?thesis
    using assms pre normalizeIdentifier_chars [of _ s] hex_digits_identifier
    by (auto simp: sandboxDatabaseName_def Let_def dest!: in_set_takeD)
qed

theorem sandboxDatabaseName_fits_witness:
  "length (sandboxDatabaseName ''1k2j3h4g5f6d7'' (replicate 70 CHR ''x'')) \<le> 64"
  using sandboxDatabaseName_fits [of "''1k2j3h4g5f6d7''" "replicate 70 CHR ''x''"] by simp

text \<open>Two databases can have the same sandbox.\<close>

lemma sandbox_names_collide:
  assumes "length runID \<le> 47"
  shows "sandboxDatabaseName runID ''a-b'' = sandboxDatabaseName runID ''a_b''"
proof -
  have "normalizeIdentifier ''a-b'' = ''a_b''" "normalizeIdentifier ''a_b'' = ''a_b''" by code_simp+
  then show ?thesis using assms by (simp add: sandboxDatabaseName_def Let_def)
qed

lemma drop_all_attempts:
  assumes "logging dest ddl_log" and "drop_all dest names firstErr d = (err, d')"
  shows "\<exists>dropped. ddl_log d' = ddl_log d @ map (\<lambda>n. ''DROP DATABASE IF EXISTS '' @ quoteIdentifier n) dropped \<and>
    set dropped \<subseteq> set names \<and> (err = None \<longrightarrow> firstErr = None \<and> dropped = names)"
  using assms(2)
proof (induction names arbitrary: firstErr d)
  case (Cons n ns)
  obtain e d1 where q: "dd_exec dest (''DROP DATABASE IF EXISTS '' @ quoteIdentifier n) d = (e, d1)" by fastforce
  have log: "ddl_log d1 = (if e = None then ddl_log d @ [''DROP DATABASE IF EXISTS '' @ quoteIdentifier n] else ddl_log d)"
    using assms(1) q unfolding logging_def by (metis fst_conv snd_conv)
  from Cons.prems q have "drop_all dest ns (if firstErr = None then e else firstErr) d1 = (err, d')" by simp
  from Cons.IH [OF this] obtain dropped where r: "ddl_log d' = ddl_log d1 @ map (\<lambda>n. ''DROP DATABASE IF EXISTS '' @ quoteIdentifier n) dropped"
    "set dropped \<subseteq> set ns" "err = None \<longrightarrow> (if firstErr = None then e else firstErr) = None \<and> dropped = ns" by blast
  show ?case
  proof (cases e)
    case None
    then show ?thesis using r log by (intro exI [of _ "n # dropped"]) (auto split: if_splits)
  next
    case (Some x)
    then show ?thesis using r log by (intro exI [of _ dropped]) (auto split: if_splits)
  qed
qed auto

section \<open>What a migration needs before it changes anything\<close>

lemma run_gates_clear:
  "run_gates gs fs = (None, fs') \<Longrightarrow> g \<in> set gs \<Longrightarrow> \<exists>fs1 fs2. g fs1 = (None, fs2)"
proof (induction gs arbitrary: fs)
  case (Cons h hs)
  obtain e fs1 where h: "h fs = (e, fs1)" by fastforce
  then have "e = None" and r: "run_gates hs fs1 = (None, fs')" using Cons.prems(1) by (auto split: option.splits)
  then show ?case using Cons.IH [OF r] Cons.prems(2) h by auto
qed simp

lemma precheck_gate_None [simp]: "precheck_gate l t p err incompatible = None \<longleftrightarrow> err = None \<and> \<not> incompatible"
  by (auto simp: precheck_gate_def split: option.splits)

lemma clear_gates:
  assumes "schema_prechecks cfg env si di fs = (None, fs')"
  shows "rp_Compatible (Evaluate si di (length (rt_Databases cfg)) (rt_DowngradeProfile cfg))"
    and "\<exists>fs1 fs2. plugin_gate cfg env fs1 = (None, fs2)" and "\<exists>fs1 fs2. hidden_gate cfg env fs1 = (None, fs2)"
    and "\<exists>fs1 fs2. collation_gate cfg env fs1 = (None, fs2)" and "\<exists>fs1 fs2. temporal_gate cfg env fs1 = (None, fs2)"
    and "\<exists>fs1 fs2. feature_gate cfg env si di fs1 = (None, fs2)" and "\<exists>fs1 fs2. names_gate cfg env si di fs1 = (None, fs2)"
proof -
  show "rp_Compatible (Evaluate si di (length (rt_Databases cfg)) (rt_DowngradeProfile cfg))"
    using assms by (auto simp: schema_prechecks_def split: if_splits)
  have r: "run_gates [plugin_gate cfg env, hidden_gate cfg env, collation_gate cfg env, temporal_gate cfg env,
      feature_gate cfg env si di, names_gate cfg env si di] fs = (None, fs')"
    using assms by (auto simp only: schema_prechecks_def split: if_splits)
  note clear = run_gates_clear [OF r]
  show "\<exists>fs1 fs2. plugin_gate cfg env fs1 = (None, fs2)" "\<exists>fs1 fs2. hidden_gate cfg env fs1 = (None, fs2)"
    "\<exists>fs1 fs2. collation_gate cfg env fs1 = (None, fs2)" "\<exists>fs1 fs2. temporal_gate cfg env fs1 = (None, fs2)"
    "\<exists>fs1 fs2. feature_gate cfg env si di fs1 = (None, fs2)" "\<exists>fs1 fs2. names_gate cfg env si di fs1 = (None, fs2)"
    by (rule clear, simp)+
qed

lemma migrate_locked_changes:
  assumes "migrate_locked cfg opts env fs d = Some (r, fs', d')" and "d' \<noteq> d" and "run_schema opts"
  shows "\<exists>sv dv fs1. queryServerVersion (mv_sourceVersion env) = Inr sv \<and> queryServerVersion (mv_destVersion env) = Inr dv \<and>
    schema_prechecks cfg env (ParseInstance sv) (ParseInstance dv) fs = (None, fs1) \<and>
    migrate_copies cfg opts env fs1 d = Some (r, fs', d')"
  using assms by (auto simp: migrate_locked_def split: option.splits sum.splits prod.splits)

lemma runMigrate_locked:
  assumes "runMigrate cfg (Inr opts) env fs d = Some (r, fs', d')" and "\<not> rt_DryRun cfg" and "d' \<noteq> d"
  shows "\<exists>fs1 r1 fs2. migrate_locked cfg opts env fs1 d = Some (r1, fs2, d') \<and> r = map_sum id Some r1"
  using assms
  by (auto simp: runMigrate_def parseMigrateOptions_def withStateDirLock_def split: if_splits sum.splits prod.splits option.splits)

text \<open>What the servers answer, as the prechecks ask for it again and again.\<close>

definition same_answers :: "'d migrate_env \<Rightarrow> string list \<Rightarrow> string \<Rightarrow> string \<Rightarrow> bool" where
  "same_answers env all sv dv =
     (ps_schemata (mv_plugin env) = Rows all \<and> hs_schemata (mv_hidden env) = Rows all \<and> cs_schemata (mv_collation env) = Rows all \<and>
      zs_schemata (mv_temporal env) = Rows all \<and> fs_schemata (mv_feature env) = Rows all \<and>
      mv_sourceVersion env = Inr sv \<and> hs_version (mv_hidden env) = Inr sv \<and> mv_destVersion env = Inr dv \<and> mv_hiddenDest env = Inr dv)"

text \<open>What follows from each gate that is passed.\<close>

lemma plugin_clear:
  assumes "plugin_gate cfg env f1 = (None, f2)" and "ps_schemata (mv_plugin env) = Rows all"
    and "SelectDatabases all (rt_Databases cfg) (rt_ExcludeDatabases cfg) \<noteq> []"
  shows "answer_rows (pd_engines (mv_pluginDest env)) \<noteq> [] \<longrightarrow>
      (\<forall>(s, t, e) \<in> set (answer_rows (ps_tables (mv_plugin env) (SelectDatabases all (rt_Databases cfg) (rt_ExcludeDatabases cfg)))).
         normalizeInventoryToken (null_text e) \<noteq> '''' \<longrightarrow>
         engine_usable (engine_map (answer_rows (pd_engines (mv_pluginDest env)))) (normalizeInventoryToken (null_text e)))"
proof -
  obtain report f3 where r: "runPluginLifecyclePrecheck (mv_write env 0) (mv_mkdir env 0) (mv_plugin env) (mv_pluginDest env) (rt_StateDir cfg)
      (rt_Databases cfg) (rt_ExcludeDatabases cfg) f1 = (None, report, f3)" and "\<not> pl_Incompatible report"
    using assms(1) by (auto simp: plugin_gate_def split: prod.splits)
  then show ?thesis using plugin_incompatible(1) [OF r assms(2,3)] by auto
qed

lemma hidden_clear:
  assumes "hidden_gate cfg env f1 = (None, f2)" and "hs_schemata (mv_hidden env) = Rows all"
    and "SelectDatabases all (rt_Databases cfg) (rt_ExcludeDatabases cfg) \<noteq> []"
    and "hs_version (mv_hidden env) = Inr sv" and "mv_hiddenDest env = Inr dv"
  shows "answer_rows (hs_columns (mv_hidden env) (SelectDatabases all (rt_Databases cfg) (rt_ExcludeDatabases cfg))) \<noteq> [] \<longrightarrow>
      destinationSupportsInvisibleColumns (ParseInstance dv)"
    and "in_Engine (ParseInstance sv) = EngineMySQL \<longrightarrow>
      (answer_rows (hs_indexes (mv_hidden env) (SelectDatabases all (rt_Databases cfg) (rt_ExcludeDatabases cfg))) \<noteq> [] \<longrightarrow>
        destinationSupportsInvisibleIndexes (ParseInstance dv)) \<and>
      (answer_rows (hs_keys (mv_hidden env) (SelectDatabases all (rt_Databases cfg) (rt_ExcludeDatabases cfg))) \<noteq> [] \<longrightarrow>
        destinationSupportsGIPK (ParseInstance dv))"
proof -
  obtain report f3 where r: "runInvisibleGIPKPrecheck (mv_write env 1) (mv_mkdir env 1) (mv_hidden env) (Inr dv) (rt_StateDir cfg)
      (rt_Databases cfg) (rt_ExcludeDatabases cfg) f1 = (None, report, f3)" and n: "\<not> ig_Incompatible report"
    using assms(1,5) by (auto simp: hidden_gate_def split: prod.splits)
  note c = hidden_incompatible(1) [OF r assms(2,3,4)]
  show "answer_rows (hs_columns (mv_hidden env) (SelectDatabases all (rt_Databases cfg) (rt_ExcludeDatabases cfg))) \<noteq> [] \<longrightarrow>
      destinationSupportsInvisibleColumns (ParseInstance dv)"
    "in_Engine (ParseInstance sv) = EngineMySQL \<longrightarrow>
      (answer_rows (hs_indexes (mv_hidden env) (SelectDatabases all (rt_Databases cfg) (rt_ExcludeDatabases cfg))) \<noteq> [] \<longrightarrow>
        destinationSupportsInvisibleIndexes (ParseInstance dv)) \<and>
      (answer_rows (hs_keys (mv_hidden env) (SelectDatabases all (rt_Databases cfg) (rt_ExcludeDatabases cfg))) \<noteq> [] \<longrightarrow>
        destinationSupportsGIPK (ParseInstance dv))"
    using c n by (auto simp: Let_def)
qed

lemma collation_clear:
  assumes "collation_gate cfg env f1 = (None, f2)" and "cs_schemata (mv_collation env) = Rows all"
    and "SelectDatabases all (rt_Databases cfg) (rt_ExcludeDatabases cfg) \<noteq> []"
  shows "\<forall>c \<in> used_collations (mv_collation env) (SelectDatabases all (rt_Databases cfg) (rt_ExcludeDatabases cfg)). collation_key c \<noteq> '''' \<longrightarrow>
      (\<exists>name \<in> set (answer_rows (cs_collations (mv_collationDest env))). collation_key c \<in> supported_names name)"
proof -
  obtain report f3 where r: "runCollationPrecheck (mv_write env 2) (mv_remove env 2) (mv_collation env) (mv_collationDest env) (rt_StateDir cfg)
      (rt_Databases cfg) (rt_ExcludeDatabases cfg) f1 = (None, report, f3)" and "\<not> cp_Incompatible report"
    using assms(1) by (auto simp: collation_gate_def split: prod.splits)
  then show ?thesis using collation_incompatible(1) [OF r assms(2,3)] by auto
qed

lemma temporal_clear:
  assumes "temporal_gate cfg env f1 = (None, f2)" and "zs_schemata (mv_temporal env) = Rows all"
    and "SelectDatabases all (rt_Databases cfg) (rt_ExcludeDatabases cfg) \<noteq> []"
  shows "\<forall>m. querySQLMode (mv_destMode env) = Inr m \<and> destinationEnforcesZeroDateStrict m \<longrightarrow>
      (\<forall>row \<in> set (answer_rows (zs_defaults (mv_temporal env) (SelectDatabases all (rt_Databases cfg) (rt_ExcludeDatabases cfg)))).
        \<not> temporalDefaultContainsZeroDate (normalized_default row))"
proof -
  obtain report f3 where r: "runZeroDateDefaultsPrecheck (mv_write env 3) (mv_remove env 3) (mv_temporal env) (mv_destMode env) (rt_StateDir cfg)
      (rt_Databases cfg) (rt_ExcludeDatabases cfg) f1 = (None, report, f3)" and "\<not> zp_Incompatible report"
    using assms(1) by (auto simp: temporal_gate_def split: prod.splits)
  then show ?thesis using zero_date_compatible [OF r assms(2)] assms(3) by blast
qed

lemma feature_clear:
  assumes "feature_gate cfg env si di f1 = (None, f2)" and "fs_schemata (mv_feature env) = Rows all"
    and "SelectDatabases all (rt_Databases cfg) (rt_ExcludeDatabases cfg) \<noteq> []"
  shows "\<not> (in_Engine si \<noteq> in_Engine di \<and>
      (\<exists>s \<in> set (SelectDatabases all (rt_Databases cfg) (rt_ExcludeDatabases cfg)). answer_rows (fs_json (mv_feature env) s) \<noteq> []))"
    and "\<not> (in_Engine si = EngineMariaDB \<and> in_Engine di \<noteq> EngineMariaDB \<and>
      (\<exists>s \<in> set (SelectDatabases all (rt_Databases cfg) (rt_ExcludeDatabases cfg)). answer_rows (fs_sequences (mv_feature env) s) \<noteq> [] \<or>
        (\<exists>t \<in> set (answer_rows (fs_tables (mv_feature env) s)). table_versioned (mv_feature env) s t)))"
proof -
  obtain report where r: "runSchemaFeaturePrecheck True (mv_feature env) si di (rt_Databases cfg) (rt_ExcludeDatabases cfg) = (None, report)"
    and n: "\<not> sf_Incompatible report"
    using assms(1) by (auto simp: feature_gate_def split: prod.splits)
  note c = schema_feature_precheck_refuses [OF r assms(2) refl assms(3)]
  show "\<not> (in_Engine si \<noteq> in_Engine di \<and>
      (\<exists>s \<in> set (SelectDatabases all (rt_Databases cfg) (rt_ExcludeDatabases cfg)). answer_rows (fs_json (mv_feature env) s) \<noteq> []))"
    "\<not> (in_Engine si = EngineMariaDB \<and> in_Engine di \<noteq> EngineMariaDB \<and>
      (\<exists>s \<in> set (SelectDatabases all (rt_Databases cfg) (rt_ExcludeDatabases cfg)). answer_rows (fs_sequences (mv_feature env) s) \<noteq> [] \<or>
        (\<exists>t \<in> set (answer_rows (fs_tables (mv_feature env) s)). table_versioned (mv_feature env) s t)))"
    using c n by blast+
qed

lemma names_clear:
  "names_gate cfg env si di f1 = (None, f2) \<Longrightarrow> \<not> ip_Incompatible (snd (runIdentifierPortabilityPrecheck True (mv_names env)
     (mv_namesDest env) si di (rt_Databases cfg) (rt_ExcludeDatabases cfg)))"
  by (auto simp: names_gate_def split: prod.splits)

text \<open>
  Claim C16. A migration with its schema changes nothing in the destination unless the pair of versions
  is allowed, every engine of a selected table is usable there, nothing hidden is lost, every
  collation is known there, no default has a zero date that it refuses, no JSON column, sequence or
  system-versioned table goes to the other engine, and the precheck of names refuses nothing.
\<close>

theorem migrate_changes_need_prechecks:
  assumes "runMigrate cfg (Inr opts) env fs d = Some (r, fs', d')" and "d' \<noteq> d" and "\<not> rt_DryRun cfg" and "run_schema opts"
    and "same_answers env all sv dv" and "dbs = SelectDatabases all (rt_Databases cfg) (rt_ExcludeDatabases cfg)" and "dbs \<noteq> []"
    and "si = ParseInstance sv" and "di = ParseInstance dv"
  shows "rp_Compatible (Evaluate si di (length (rt_Databases cfg)) (rt_DowngradeProfile cfg)) \<and>
    (answer_rows (pd_engines (mv_pluginDest env)) \<noteq> [] \<longrightarrow>
      (\<forall>(s, t, e) \<in> set (answer_rows (ps_tables (mv_plugin env) dbs)). normalizeInventoryToken (null_text e) \<noteq> '''' \<longrightarrow>
         engine_usable (engine_map (answer_rows (pd_engines (mv_pluginDest env)))) (normalizeInventoryToken (null_text e)))) \<and>
    (answer_rows (hs_columns (mv_hidden env) dbs) \<noteq> [] \<longrightarrow> destinationSupportsInvisibleColumns di) \<and>
    (in_Engine si = EngineMySQL \<longrightarrow>
      (answer_rows (hs_indexes (mv_hidden env) dbs) \<noteq> [] \<longrightarrow> destinationSupportsInvisibleIndexes di) \<and>
      (answer_rows (hs_keys (mv_hidden env) dbs) \<noteq> [] \<longrightarrow> destinationSupportsGIPK di)) \<and>
    (\<forall>c \<in> used_collations (mv_collation env) dbs. collation_key c \<noteq> '''' \<longrightarrow>
      (\<exists>name \<in> set (answer_rows (cs_collations (mv_collationDest env))). collation_key c \<in> supported_names name)) \<and>
    (\<forall>m. querySQLMode (mv_destMode env) = Inr m \<and> destinationEnforcesZeroDateStrict m \<longrightarrow>
      (\<forall>row \<in> set (answer_rows (zs_defaults (mv_temporal env) dbs)). \<not> temporalDefaultContainsZeroDate (normalized_default row))) \<and>
    \<not> (in_Engine si \<noteq> in_Engine di \<and> (\<exists>s \<in> set dbs. answer_rows (fs_json (mv_feature env) s) \<noteq> [])) \<and>
    \<not> (in_Engine si = EngineMariaDB \<and> in_Engine di \<noteq> EngineMariaDB \<and>
      (\<exists>s \<in> set dbs. answer_rows (fs_sequences (mv_feature env) s) \<noteq> [] \<or>
        (\<exists>t \<in> set (answer_rows (fs_tables (mv_feature env) s)). table_versioned (mv_feature env) s t))) \<and>
    \<not> ip_Incompatible (snd (runIdentifierPortabilityPrecheck True (mv_names env) (mv_namesDest env) si di
         (rt_Databases cfg) (rt_ExcludeDatabases cfg)))"
proof -
  obtain fs1 r1 fs2 where locked: "migrate_locked cfg opts env fs1 d = Some (r1, fs2, d')"
    using runMigrate_locked [OF assms(1,3,2)] by blast
  from assms(5) have same: "ps_schemata (mv_plugin env) = Rows all" "hs_schemata (mv_hidden env) = Rows all"
    "cs_schemata (mv_collation env) = Rows all" "zs_schemata (mv_temporal env) = Rows all" "fs_schemata (mv_feature env) = Rows all"
    "mv_sourceVersion env = Inr sv" "hs_version (mv_hidden env) = Inr sv" "mv_destVersion env = Inr dv" "mv_hiddenDest env = Inr dv"
    by (simp_all add: same_answers_def)
  have sel: "SelectDatabases all (rt_Databases cfg) (rt_ExcludeDatabases cfg) \<noteq> []" using assms(6,7) by simp
  have v: "queryServerVersion (Inr s) = Inr s' \<Longrightarrow> s' = s" for s s' by (auto simp: queryServerVersion_def split: if_splits)
  obtain fs3 where pre: "schema_prechecks cfg env si di fs1 = (None, fs3)"
    using migrate_locked_changes [OF locked assms(2,4)] v unfolding same(6,8) assms(8,9) by metis
  note clear = clear_gates [OF pre]
  obtain a1 a2 where plugin: "plugin_gate cfg env a1 = (None, a2)" using clear(2) by blast
  obtain b1 b2 where hidden: "hidden_gate cfg env b1 = (None, b2)" using clear(3) by blast
  obtain c1 c2 where collation: "collation_gate cfg env c1 = (None, c2)" using clear(4) by blast
  obtain z1 z2 where temporal: "temporal_gate cfg env z1 = (None, z2)" using clear(5) by blast
  obtain e1 e2 where feature: "feature_gate cfg env si di e1 = (None, e2)" using clear(6) by blast
  obtain n1 n2 where names: "names_gate cfg env si di n1 = (None, n2)" using clear(7) by blast
  show ?thesis
    using clear(1) plugin_clear [OF plugin same(1) sel] hidden_clear [OF hidden same(2) sel same(7,9)]
      collation_clear [OF collation same(3) sel] temporal_clear [OF temporal same(4) sel]
      feature_clear [OF feature same(5) sel] names_clear [OF names]
    unfolding assms(6,8,9) by blast
qed

section \<open>A table without a key is found late\<close>

text \<open>
  Claim C17. The precheck of the shape of data runs after the copy of the schema. When it refuses, a
  migration of schema and data ends with an error and has executed statements of the schema in the
  destination; if the copy of the schema has no error of its own, all of them, and the exit code is
  that of a difference.
\<close>

theorem keyless_table_found_late:
  assumes "migrate_copies cfg opts env fs d = Some (r, fs', d')" and "run_schema opts" and "run_data opts"
    and "hasObject (rt_IncludeObjects cfg) ''tables''" and "logging (mv_schemaDest env) ddl_log" and "ds_schemata (mv_schema env) = Rows databases"
    and "runDataShapePrecheck True (mv_shape env) (rt_Databases cfg) (rt_ExcludeDatabases cfg) = (None, report)" and "dp_Incompatible report"
    and "plan = databases_plan (mv_schema env) (schema_options cfg opts) (SelectDatabases databases (rt_Databases cfg) (rt_ExcludeDatabases cfg))"
  shows "\<exists>e executed rest. r = Inl e \<and> fs' = fs \<and> plan = executed @ rest \<and> ddl_log d' = ddl_log d @ executed \<and>
    (fst (CopySchema True (mv_schema env) (mv_schemaDest env) (schema_options cfg opts) d) = None \<longrightarrow>
       rest = [] \<and> ResolveExitCode (Some e) = Some ExitCodeDiff)"
proof -
  obtain err summary d1 where c: "CopySchema True (mv_schema env) (mv_schemaDest env) (schema_options cfg opts) d = (err, summary, d1)"
    by (metis prod.collapse)
  have o: "sx_IncludeDatabases (schema_options cfg opts) = rt_Databases cfg" "sx_ExcludeDatabases (schema_options cfg opts) = rt_ExcludeDatabases cfg"
    "\<not> no_types (schema_options cfg opts)"
    using assms(4) by (simp_all add: schema_options_def no_types_def)
  obtain executed rest where x: "plan = executed @ rest" "ddl_log d1 = ddl_log d @ executed" "err = None \<longrightarrow> rest = []"
    using CopySchema_prefix [OF assms(5,6) c] assms(9) unfolding o by blast
  show ?thesis
  proof (cases err)
    case None
    then have "r = Inl (WithExitCode ExitCodeDiff (plain_error
        ''data precheck failed; selected scope contains tables without stable keys required for v1 baseline migration''))" "fs' = fs" "d' = d1"
      using assms(1-4,7,8) c o(3) by (simp_all add: migrate_copies_def migrate_schema_def migrate_data_def Let_def)
    then show ?thesis using x None by (auto simp: c ResolveExitCode_def WithExitCode_def plain_error_def)
  next
    case (Some e)
    then have "r = Inl (copy_failed ''schema migration failed'' e)" "fs' = fs" "d' = d1"
      using assms(1,2) c o(3) by (simp_all add: migrate_copies_def migrate_schema_def Let_def)
    then show ?thesis using x Some by (auto simp: c)
  qed
qed

section \<open>Examples\<close>

text \<open>Two servers of one version, and a source with two tables and two views that every precheck accepts.\<close>

definition example_config :: runtime_config where
  "example_config =
     \<lparr>rt_Source = ''s'', rt_Dest = ''d'', rt_IncludeObjects = [''tables'', ''views''], rt_DryRun = False, rt_DryRunMode = '''', rt_Databases = [],
      rt_ExcludeDatabases = [], rt_DowngradeProfile = '''', rt_StateDir = ''state''\<rparr>"

definition example_migrate_options :: "bool \<Rightarrow> migrateOptions" where
  "example_migrate_options schemaOnly =
     \<lparr>mo_SchemaOnly = schemaOnly, mo_DataOnly = False, mo_DestEmptyRequired = True, mo_Force = False, mo_ChunkSize = 1000, mo_Resume = False\<rparr>"

definition example_names :: identifier_source where
  "example_names =
     \<lparr>is_sqlMode = Inr (Some ''''), is_lowerCaseInt = Inr (Some 0), is_lowerCaseText = Inr (Some ''0''), is_keywords = QueryError ''none'',
      is_schemata = Rows [''d''], is_objects = (\<lambda>_. Rows []), is_columns = (\<lambda>_. Rows []), is_show = (\<lambda>_. ShowError ''none'')\<rparr>"

definition example_migrate_env :: "string list copy_env \<Rightarrow> string list dry_env \<Rightarrow> string list migrate_env" where
  "example_migrate_env copy dry =
     \<lparr>mv_lock = \<lparr>le_mkdir = None, le_chmod = None, le_open = None, le_readable = True, le_pid = 1, le_hostname = None, le_started = '''',
        le_cwd = None, le_write = None, le_remove = None\<rparr>,
      mv_release = (None, None), mv_connectSource = None, mv_connectDest = None, mv_print = None,
      mv_sourceVersion = Inr ''8.0.36'', mv_destVersion = Inr ''8.0.36'', mv_write = (\<lambda>_. no_faults ''state/tmp''),
      mv_mkdir = (\<lambda>_. None), mv_remove = (\<lambda>_. None),
      mv_plugin = \<lparr>ps_accounts = Rows [], ps_schemata = Rows [''d''], ps_tables = (\<lambda>_. Rows [(''d'', ''a'', Some ''InnoDB'')])\<rparr>,
      mv_pluginDest = \<lparr>pd_sqlMode = Inr (Some ''STRICT_TRANS_TABLES,NO_ZERO_DATE''), pd_defaultAuth = Inl ''none'', pd_plugins = Rows [],
        pd_engines = Rows [(''InnoDB'', Some ''DEFAULT'')]\<rparr>,
      mv_hidden = \<lparr>hs_version = Inr ''8.0.36'', hs_showGipk = Inr (Some ''ON''), hs_generateGipk = Inr (Some ''0''), hs_schemata = Rows [''d''],
        hs_columns = (\<lambda>_. Rows [(''d'', ''a'', ''c'', ''INVISIBLE'')]), hs_indexes = (\<lambda>_. Rows []), hs_keys = (\<lambda>_. Rows [])\<rparr>,
      mv_hiddenDest = Inr ''8.0.36'',
      mv_collation = \<lparr>cs_version = Inr ''8.0.36'', cs_serverCollation = Inl ''none'', cs_collations = Rows [], cs_schemata = Rows [''d''],
        cs_schemas = (\<lambda>_. Rows [(''d'', ''utf8mb4_0900_ai_ci'')]), cs_tables = (\<lambda>_. Rows []), cs_columns = (\<lambda>_. Rows [])\<rparr>,
      mv_collationDest = \<lparr>cs_version = Inr ''8.0.36'', cs_serverCollation = Inl ''none'', cs_collations = Rows [''utf8mb4_0900_ai_ci'']\<rparr>,
      mv_temporal = \<lparr>zs_schemata = Rows [''d''], zs_defaults = (\<lambda>_. Rows [])\<rparr>,
      mv_destMode = Inr (Some ''STRICT_TRANS_TABLES,NO_ZERO_DATE''),
      mv_feature = \<lparr>fs_schemata = Rows [''d''], fs_json = (\<lambda>_. Rows []), fs_sequences = (\<lambda>_. Rows []), fs_tables = (\<lambda>_. Rows []),
        fs_show = (\<lambda>_. ShowError ''none'')\<rparr>,
      mv_names = example_names, mv_namesDest = identifier_side.truncate example_names,
      mv_schema = example_ddl_source, mv_schemaDest = example_ddl_server (\<lambda>_ _. False), mv_shape = example_shape_source,
      mv_copy = copy, mv_cursorText = (\<lambda>_. ''''), mv_runID = ''0'', mv_dry = dry\<rparr>"

lemma shape_incompatible:
  "runDataShapePrecheck connected source inc exc = (None, report) \<Longrightarrow> dp_Incompatible report \<longleftrightarrow> dp_KeylessTables report \<noteq> []"
  by (auto simp: runDataShapePrecheck_def shape_report_def Let_def split: sum.splits if_splits prod.splits option.splits)

lemma example_d_selected: "SelectDatabases [''d''] [] [] = [''d'']"
  by code_simp

lemma example_copy_schema:
  "CopySchema True example_ddl_source (example_ddl_server (\<lambda>_ _. False)) (schema_options example_config (example_migrate_options s)) [] =
     (None, snd (CopySchema True example_ddl_source (example_ddl_server (\<lambda>_ _. False)) (schema_options example_config (example_migrate_options s)) []))"
  "snd (snd (CopySchema True example_ddl_source (example_ddl_server (\<lambda>_ _. False)) (schema_options example_config (example_migrate_options s)) []))
     \<noteq> []"
proof -
  have opts: "schema_options example_config (example_migrate_options s) = example_ddl_options True"
    by (simp add: schema_options_def example_config_def example_migrate_options_def example_ddl_options_def hasObject_def)
  have exec: "exec_all (example_ddl_server (\<lambda>_ _. False)) qs d = (None, d @ qs)" for qs d
    by (induction qs arbitrary: d) (simp_all add: example_ddl_server_def)
  have dest: "destination_error (example_ddl_server (\<lambda>_ _. False)) (example_ddl_options True) [] = None"
    "dd_open (example_ddl_server (\<lambda>_ _. False)) d = (None, d)" "dd_close (example_ddl_server (\<lambda>_ _. False)) d = (None, d)" for d
    by (simp_all add: destination_error_def example_ddl_options_def example_ddl_server_def countUserTables_def rows_or_error_def)
  have rest: "ds_schemata example_ddl_source = Rows [''d'']" "\<not> no_types (example_ddl_options True)"
    by (simp_all add: example_ddl_source_def example_ddl_options_def no_types_def)
  show "CopySchema True example_ddl_source (example_ddl_server (\<lambda>_ _. False)) (schema_options example_config (example_migrate_options s)) [] =
     (None, snd (CopySchema True example_ddl_source (example_ddl_server (\<lambda>_ _. False)) (schema_options example_config (example_migrate_options s)) []))"
    "snd (snd (CopySchema True example_ddl_source (example_ddl_server (\<lambda>_ _. False)) (schema_options example_config (example_migrate_options s)) []))
      \<noteq> []"
    unfolding opts
    by (simp_all add: CopySchema_def rest dest rows_or_error_def example_ddl_selected example_tables applyStatements_def exec del: exec_all.simps)
qed

theorem keyless_table_found_late_witness:
  "\<forall>copy dry. \<exists>e d'. migrate_copies example_config (example_migrate_options False) (example_migrate_env copy dry) Map.empty [] = Some (Inl e, Map.empty, d') \<and>
     ResolveExitCode (Some e) = Some 2 \<and>
     d' = databases_plan example_ddl_source (schema_options example_config (example_migrate_options False)) [''d'']"
proof (intro allI)
  fix copy dry
  let ?env = "example_migrate_env copy dry"
  obtain report where shape: "runDataShapePrecheck True example_shape_source [] [] = (None, report)"
    "dp_KeylessTables report = [keyless_issue ''d'' ''b'']"
    using example_shape_run by blast
  have bad: "dp_Incompatible report" using shape_incompatible [OF shape(1)] shape(2) by simp
  obtain summary d1 where copied: "CopySchema True example_ddl_source (example_ddl_server (\<lambda>_ _. False))
      (schema_options example_config (example_migrate_options False)) [] = (None, summary, d1)"
    using example_copy_schema(1) [of False] by (metis prod.collapse)
  have env: "mv_shape ?env = example_shape_source" "mv_schema ?env = example_ddl_source" "mv_schemaDest ?env = example_ddl_server (\<lambda>_ _. False)"
    "rt_Databases example_config = []" "rt_ExcludeDatabases example_config = []" "hasObject (rt_IncludeObjects example_config) ''tables''"
    "ds_schemata example_ddl_source = Rows [''d'']" "run_schema (example_migrate_options False)" "run_data (example_migrate_options False)"
    by (simp_all add: example_migrate_env_def example_config_def example_ddl_source_def hasObject_def example_migrate_options_def run_schema_def run_data_def)
  have types: "\<not> no_types (schema_options example_config (example_migrate_options False))"
    by (simp add: no_types_def schema_options_def env(6))
  have run: "migrate_copies example_config (example_migrate_options False) ?env Map.empty [] = Some (Inl (WithExitCode ExitCodeDiff (plain_error
      ''data precheck failed; selected scope contains tables without stable keys required for v1 baseline migration'')), Map.empty, d1)"
    using types copied shape(1) bad env by (simp add: migrate_copies_def migrate_schema_def migrate_data_def Let_def)
  have log: "logging (mv_schemaDest ?env) id" by (simp add: env(3) example_logging)
  from keyless_table_found_late [OF run env(8,9,6) log _ _ bad refl, of "[''d'']"] shape(1) copied
  show "\<exists>e d'. migrate_copies example_config (example_migrate_options False) ?env Map.empty [] = Some (Inl e, Map.empty, d') \<and>
      ResolveExitCode (Some e) = Some 2 \<and>
      d' = databases_plan example_ddl_source (schema_options example_config (example_migrate_options False)) [''d'']"
    by (auto simp: run env example_d_selected ExitCodeDiff_def)
qed

lemma example_versions:
  "rp_Compatible (Evaluate (ParseInstance ''8.0.36'') (ParseInstance ''8.0.36'') 0 '''')"
  "in_Engine (ParseInstance ''8.0.36'') = EngineMySQL" "destinationSupportsInvisibleColumns (ParseInstance ''8.0.36'')"
  by code_simp+

lemma example_names_gate:
  "fst (runIdentifierPortabilityPrecheck True example_names (identifier_side.truncate example_names) (ParseInstance ''8.0.36'')
     (ParseInstance ''8.0.36'') [] []) = None"
  "\<not> ip_Incompatible (snd (runIdentifierPortabilityPrecheck True example_names (identifier_side.truncate example_names) (ParseInstance ''8.0.36'')
     (ParseInstance ''8.0.36'') [] []))"
  by code_simp+

lemma example_plugin_gate: "\<exists>f'. plugin_gate example_config (example_migrate_env copy dry) f = (None, f')"
proof -
  have n: "normalizeInventoryToken ''InnoDB'' = ''innodb''" "engine_usable (engine_map [(''InnoDB'', Some ''DEFAULT'')]) ''innodb''" by code_simp+
  show ?thesis
    by (simp add: plugin_gate_def runPluginLifecyclePrecheck_def example_config_def example_migrate_env_def plugin_report_def rows_or_error_def
        example_d_selected querySourceTableEngines_def queryDestinationEngines_def inventory_table_def null_text_def n engines_step_def
        detectUnsupportedStorageEngines_def persistPluginLifecyclePrecheckArtifact_def persist_artifact_def WritePrivateFileAtomic_def
        EnsurePrivateDir_def no_faults_def Let_def accounts_step_warns default_auth_step_warns sql_mode_step_warns)
qed

lemma example_hidden_gate: "\<exists>f'. hidden_gate example_config (example_migrate_env copy dry) f = (None, f')"
proof -
  have switches: "queryOptionalBooleanVariable (Inr (Some ''ON'')) = (True, True, None)"
    "queryOptionalBooleanVariable (Inr (Some ''0'')) = (False, True, None)" by code_simp+
  show ?thesis
    using example_versions(2,3)
    by (simp add: hidden_gate_def runInvisibleGIPKPrecheck_def example_config_def example_migrate_env_def hidden_report_def rows_or_error_def
        example_d_selected queryServerVersion_def show_gipk_step_def generate_gipk_step_def switches queryInvisibleColumnIssues_def
        queryInvisibleIndexIssues_def queryGeneratedInvisiblePrimaryKeyIssues_def labelled_rows_def mysql_hidden_def finish_hidden_def add_hidden_def
        invisibleGIPKIncompatible_def invisibleFeatureDriftsOnDestination_def gipkDriftsOnDestination_def
        persistInvisibleGIPKPrecheckArtifact_def persist_artifact_def WritePrivateFileAtomic_def EnsurePrivateDir_def no_faults_def Let_def)
qed

lemma example_collation_gate: "\<exists>f'. collation_gate example_config (example_migrate_env copy dry) f = (None, f')"
proof -
  have n: "collation_key ''utf8mb4_0900_ai_ci'' = ''utf8mb4_0900_ai_ci''" "supported_names ''utf8mb4_0900_ai_ci'' = {''utf8mb4_0900_ai_ci''}" by code_simp+
  show ?thesis
    by (simp add: collation_gate_def runCollationPrecheck_def example_config_def example_migrate_env_def collation_report_def rows_or_error_def
        example_d_selected queryServerVersion_def queryDestinationSupportedCollations_def querySourceCollationItems_def labelled_rows_def n
        inventory_refuses(1,3) persistCollationPrecheckArtifact_def persist_artifact_def WritePrivateFileAtomic_def EnsurePrivateDir_def
        no_faults_def Let_def)
qed

lemma example_temporal_gate: "\<exists>f'. temporal_gate example_config (example_migrate_env copy dry) f = (None, f')"
proof -
  have n: "querySQLMode (Inr (Some ''STRICT_TRANS_TABLES,NO_ZERO_DATE'')) = Inr ''STRICT_TRANS_TABLES,NO_ZERO_DATE''"
    "destinationEnforcesZeroDateStrict ''STRICT_TRANS_TABLES,NO_ZERO_DATE''" by code_simp+
  show ?thesis
    by (simp add: temporal_gate_def runZeroDateDefaultsPrecheck_def example_config_def example_migrate_env_def zero_date_report_def rows_or_error_def
        example_d_selected n queryZeroDateDefaultIssues_def cleanupZeroDateFixScript_def remove_file_def Let_def)
qed

lemma example_feature_gate: "feature_gate example_config (example_migrate_env copy dry) (ParseInstance ''8.0.36'') (ParseInstance ''8.0.36'') f = (None, f)"
  by (simp add: feature_gate_def runSchemaFeaturePrecheck_def example_config_def example_migrate_env_def feature_report_def
      listSelectableDatabases_def rows_or_error_def example_d_selected json_step_def example_versions(2) finish_features_def
      buildSchemaFeaturePrecheckFindings_def json_findings_def sequence_findings_def versioned_findings_def has_error_simps Let_def)

lemma example_clear:
  "\<exists>f'. schema_prechecks example_config (example_migrate_env copy dry) (ParseInstance ''8.0.36'') (ParseInstance ''8.0.36'') f = (None, f')"
proof -
  let ?env = "example_migrate_env copy dry"
  obtain f1 where "plugin_gate example_config ?env f = (None, f1)" using example_plugin_gate by blast
  moreover obtain f2 where "hidden_gate example_config ?env f1 = (None, f2)" using example_hidden_gate by blast
  moreover obtain f3 where "collation_gate example_config ?env f2 = (None, f3)" using example_collation_gate by blast
  moreover obtain f4 where "temporal_gate example_config ?env f3 = (None, f4)" using example_temporal_gate by blast
  moreover have "names_gate example_config ?env (ParseInstance ''8.0.36'') (ParseInstance ''8.0.36'') f4 = (None, f4)"
    using example_names_gate by (cases "runIdentifierPortabilityPrecheck True example_names (identifier_side.truncate example_names)
      (ParseInstance ''8.0.36'') (ParseInstance ''8.0.36'') [] []") (simp add: names_gate_def example_config_def example_migrate_env_def)
  ultimately show ?thesis using example_versions(1)
    by (simp add: schema_prechecks_def example_feature_gate) (simp add: example_config_def)
qed

theorem migrate_changes_need_prechecks_witness:
  "\<forall>copy dry. \<exists>r fs' d'. runMigrate example_config (Inr (example_migrate_options True)) (example_migrate_env copy dry) Map.empty [] = Some (r, fs', d') \<and>
     d' \<noteq> [] \<and> (\<forall>c \<in> used_collations (mv_collation (example_migrate_env copy dry)) [''d'']. collation_key c \<noteq> '''' \<longrightarrow>
       (\<exists>name \<in> set (answer_rows (cs_collations (mv_collationDest (example_migrate_env copy dry)))). collation_key c \<in> supported_names name))"
proof (intro allI)
  fix copy dry
  let ?env = "example_migrate_env copy dry"
  obtain summary d1 where copied: "CopySchema True example_ddl_source (example_ddl_server (\<lambda>_ _. False))
      (schema_options example_config (example_migrate_options True)) [] = (None, summary, d1)" and d1: "d1 \<noteq> []"
    using example_copy_schema [of True] by (metis prod.collapse)
  have env: "mv_schema ?env = example_ddl_source" "mv_schemaDest ?env = example_ddl_server (\<lambda>_ _. False)" "mv_connectSource ?env = None"
    "mv_connectDest ?env = None" "mv_sourceVersion ?env = Inr ''8.0.36''" "mv_destVersion ?env = Inr ''8.0.36''" "mv_print ?env = None"
    "rt_Source example_config \<noteq> ''''" "rt_Dest example_config \<noteq> ''''" "\<not> rt_DryRun example_config" "rt_StateDir example_config = ''state''"
    "run_schema (example_migrate_options True)" "\<not> run_data (example_migrate_options True)" "mo_ChunkSize (example_migrate_options True) = 1000"
    "mo_SchemaOnly (example_migrate_options True)" "\<not> mo_DataOnly (example_migrate_options True)"
    "rt_Databases example_config = []" "rt_ExcludeDatabases example_config = []"
    by (simp_all add: example_migrate_env_def example_config_def example_migrate_options_def run_schema_def run_data_def)
  have objects: "unsupportedV2IncludeObjects (rt_IncludeObjects example_config) = []" by code_simp
  have types: "\<not> no_types (schema_options example_config (example_migrate_options True))"
    by (simp add: no_types_def schema_options_def hasObject_def example_config_def)
  have copies: "migrate_copies example_config (example_migrate_options True) ?env f [] = Some (Inr (migrate_message summary emptySummary), f, d1)" for f
    using types copied env by (simp add: migrate_copies_def migrate_schema_def write_result_def Let_def)
  have locked: "\<exists>r f'. migrate_locked example_config (example_migrate_options True) ?env f [] = Some (r, f', d1)" for f
    using example_clear [of copy dry f] copies env by (auto simp: migrate_locked_def queryServerVersion_def)
  have trim: "TrimSpace ''state'' = ''state''" by code_simp
  obtain lock f1 where "AcquireDirLock (mv_lock ?env) ''state'' Map.empty = (Inr lock, f1)"
    by (simp add: AcquireDirLock_def EnsurePrivateDir_def example_migrate_env_def trim Let_def)
  moreover obtain r f2 where "migrate_locked example_config (example_migrate_options True) ?env f1 [] = Some (r, f2, d1)" using locked by blast
  ultimately obtain r' f3 where run: "runMigrate example_config (Inr (example_migrate_options True)) ?env Map.empty [] = Some (r', f3, d1)"
    using env objects by (simp add: runMigrate_def parseMigrateOptions_def withStateDirLock_def)
  have same: "same_answers ?env [''d''] ''8.0.36'' ''8.0.36''" by (simp add: same_answers_def example_migrate_env_def)
  have sel: "[''d''] = SelectDatabases [''d''] (rt_Databases example_config) (rt_ExcludeDatabases example_config)"
    using example_d_selected env by simp
  from migrate_changes_need_prechecks [OF run d1 env(10,12) same sel _ refl refl] d1 run
  show "\<exists>r fs' d'. runMigrate example_config (Inr (example_migrate_options True)) ?env Map.empty [] = Some (r, fs', d') \<and>
      d' \<noteq> [] \<and> (\<forall>c \<in> used_collations (mv_collation ?env) [''d'']. collation_key c \<noteq> '''' \<longrightarrow>
       (\<exists>name \<in> set (answer_rows (cs_collations (mv_collationDest ?env))). collation_key c \<in> supported_names name))"
    by blast
qed

text \<open>Names of object types are accepted in any case, but only small letters select anything.\<close>

lemma object_types_in_capitals:
  "unsupportedV2IncludeObjects [''Tables'', ''views''] = [] \<and> \<not> hasObject [''Tables'', ''views''] ''tables''"
  by code_simp

end
