(* ===== verification/Spec2Isabelle.thy ===== *)
theory Spec2Isabelle
  imports Binlog_Run Baseline_Run Baseline_Dry Cdc_Replay Hybrid_Run Verify_Check Verify_Schema_Check
    Schema_Copy_Run Schema_Rewrite Compat_Check Verify_Granular Fk_Precheck Precheck_Data
    Precheck_Identifier_Check Precheck_Temporal Precheck_Feature Precheck_Collation Precheck_Plugin Users_Copy Precheck_Hidden Migrate_Run
begin

text \<open>
  A verification development for dbmigrate, a tool in Go that moves MySQL and MariaDB databases:
  it copies schemas and rows from a source to a destination, follows the source by its binary log
  or by triggers, and verifies the result.

  \<^bold>\<open>The program and its model.\<close> Every operation of the code is a definition with the name of the code
  where Isabelle allows it; helper definitions name the body of a loop or a block of statements.
  Errors are values of a sum type (Inl the error), integers have the width of the code, strings
  are lists of bytes, and a range over a Go map goes through a list of entries in an order that is
  an argument. The theories, from the bottom up (paths are under src/internal):

    \<^item> Go_Prelude, Go_Digest, Go_Regexp: what is used of Go's language and standard library.
    \<^item> Sql_Text: quoting of names. State_Types, Checkpoint_Cursor, State_Json, State_Files,
      State_Store: the records in the state directory, their text, and how files are replaced
      and locked (state/*.go).
    \<^item> Compat_Rules, Compat_Check: which pairs of versions are allowed (compat/evaluate.go).
    \<^item> Schema_Copy, Schema_Copy_Run, Schema_Rewrite, Table_Order: the copy of schemas, its dry run
      in a sandbox with the rewriting of names, and the order of tables by foreign keys
      (schema/copy.go; Table_Order also data/copy.go).
    \<^item> Baseline_Sql, Baseline_Copy, Baseline_Run, Baseline_Dry: the copy of rows, page by page with
      checkpoints, and its dry run (data/copy.go).
    \<^item> Binlog_Position, Ddl_Class, Row_Events, Stream_Window, Apply_Batches, Tx_Shape, Apply_Failure,
      Apply_Window, Binlog_Types, Binlog_Run: the replication by the binary log, from reading a
      window of events to a run with its checkpoint and conflict report (replicate/binlog/*.go).
    \<^item> Cdc_Setup, Cdc_Run, Cdc_Replay: change capture by triggers (replicate/cdc/*.go), and
      Hybrid_Run: both ways in turn (replicate/hybrid/run.go).
    \<^item> Verify_Hash, Verify_Diff, Verify_Data, Verify_Digest, Verify_Check: the verification of data
      by counts, hashes and samples (verify/data/verify.go).
    \<^item> Verify_Schema, Verify_Schema_Check: the verification of schemas (verify/schema/verify.go), and
      Verify_Granular: the one by columns, indexes, keys and partitions (verify/schema/granular.go).
    \<^item> Fk_Cycles, Fk_Precheck, Precheck_Data, Precheck_Identifier, Precheck_Identifier_Check over
      Precheck_Base: the prechecks of a migration for cycles of foreign keys, for tables without a
      key, and for names (commands/foreign_key_cycle_precheck.go, data_shape_precheck.go,
      identifier_portability_precheck.go).
    \<^item> Precheck_Temporal, Precheck_Feature, Precheck_Collation, Precheck_Plugin, Precheck_Hidden: the
      prechecks for temporal defaults, schema features, collations, plugins with storage engines,
      and invisible columns, indexes and keys (commands/temporal_precheck.go,
      schema_feature_precheck.go, collation_precheck.go, plugin_precheck.go,
      invisible_gipk_precheck.go), with their files in the state directory (Precheck_Artifact).
    \<^item> Migrate_Run: the command that runs the prechecks and the copies (commands/migrate.go,
      exit_error.go, include_objects.go, state_lock.go).
    \<^item> Users_Copy: the copy of accounts and grants (users/copy.go).

  \<^bold>\<open>How the parts interact.\<close> A migration (Migrate_Run) takes the lock of the state directory,
  runs the prechecks, copies the schemas, then the rows; the copy of rows stores
  the source's position (its watermark) in the data checkpoint, where the replication starts. A run
  of the replication takes the lock of the state directory, loads the checkpoint, reads the events
  between the checkpoint and the source's position (Stream_Window), groups them into one batch for
  each transaction (Apply_Batches), applies the batches with the destination's own checkpoint row in
  the same transaction (Apply_Window), and saves the checkpoint in the state directory
  (Binlog_Run over State_Store). Interfaces between parts are locales that are interpreted on the model:
  the order of log files, the quoting of names, the contract of a checkpoint store, the reports
  that prechecks keep, and the comparison of two maps, which both verifications use.

  \<^bold>\<open>What is shown.\<close>

    \<^item> Replication: a window is read completely and not beyond its end, with a bounded buffer, and
      reading ends; the batches are the committed transactions in the order of the log; whatever
      fails, the destination holds a prefix of the batches with a checkpoint at its end; two runs,
      the second one resumed, continue each other; a conflict report names the position of the
      batch that failed; and where runs in GTID mode skip transactions.
    \<^item> State: a file is always the old or the new one, at most one process holds the lock, and after
      any series of saves that may fail a load gives the last one reported as saved; records
      read back as they were written, cursors up to the widening of their numbers to 64 bits.
    \<^item> Copy of rows: a copy that reports success has put all rows of the selected tables into the
      destination, a copy of a table ends, and an interrupted copy can be resumed, except after a
      page that was committed before its checkpoint was saved. The values of the keys are of types
      that the checkpoint reads back as they were, so keys of type FLOAT are left out.
    \<^item> Copy of schemas: exactly the statements of the selected objects are executed, tables in an
      order that follows the foreign keys; where this order is not enough; that the dry run executes
      the same plan in other databases only, and which of these it lists for its cleanup; and when the rewriting of names is the substitution
      that it is meant to be.
    \<^item> Change capture by triggers: what a run applies and where its checkpoint ends, what the next run
      does with the batch of an event that failed, that no change is applied by both phases of a
      hybrid run, and exactly which ones are applied by neither.
    \<^item> Verification: reports do not depend on the order of maps, counts and hashes report exactly
      the tables that differ (unless the run itself has met a collision of SHA-256), schemas are
      compared by a normal form, and what the normalizations of rows and definitions identify.
    \<^item> Compatibility: the reports agree with a policy written without matrices.
    \<^item> Prechecks: the algorithm of Tarjan finds exactly the strongly connected components, and the
      precheck finds a cycle exactly when the ordering of the copy, another algorithm, fails; the
      tables it calls keyless are those that the copy refuses; for which names, temporal defaults,
      features, collations and engines a migration is refused, and that a kept report is loaded as
      it was written.
    \<^item> Migration: nothing is changed in the destination unless the versions and all prechecks allow
      it, and a table without a key is found only after the schema was copied.
    \<^item> Accounts: what is executed for which accounts, whatever fails, in each case with what the
      destination answered when it was asked to create the account.

  \<^bold>\<open>Parameters.\<close> The servers are parameters: the source is a function from queries to answers, the
  destination a state of an arbitrary type with the operations that the code calls; what the code
  relies on is a named hypothesis (keyset_table: a page query returns the next rows in the order
  of the key; transactional: a rolled back transaction changes nothing and a committed one the
  effect of its statements). So are the binlog client (a list of what successive calls return), the
  clock, what the operating system answers to file operations, json.Valid, the text of decoded JSON
  values, and the texts of times and floating point numbers. Each property with such a hypothesis
  has a witness on a concrete instance.

  \<^bold>\<open>Loops.\<close> A loop over a list is a structural recursion. A loop that may not end, because a server
  may keep sending full pages or events, is a partial_function in the option type, and None is the
  run that does not end; where the code ends, this is a theorem of its own. There is no fuel.

  \<^bold>\<open>Not modelled.\<close> The goroutines of a copy with a concurrency above 1; the commands other
  than migrate, and of migrate its flags, warnings and printed reports (commands/*.go); the
  prechecks of plan alone (replication, time zones, evidence), which report on answers of the
  servers; the configuration (config, cli), connections and TLS (db), logging and the rate limiter,
  which only waits; and of the binlog client its configuration.
\<close>

end
